(* ===== verification/Prelude.thy ===== *)
theory Prelude
  imports
    Main
    "HOL-Library.AList"
    "HOL-Library.Char_ord"
    "HOL-Library.List_Lexorder"
    "HOL-Library.Multiset"
    "HOL-Library.Sublist"
begin

text \<open>
  What every component of the development shares.

  \<^item> Python dictionaries keep the insertion order of their keys, and several operations of the
    program return \<open>list(d.values())\<close>.  A dictionary is therefore an association list with
    distinct keys: \<open>dict_set\<close> overwrites in place or appends at the end, \<open>dict_pop\<close> removes,
    \<open>dict_get\<close> looks up.
  \<^item> An operation that may raise is a function from the state to \<open>('e + 'a) \<times> 's\<close>: the state is
    returned in both cases, because a Python exception does not undo the writes made before it.
  \<^item> Strings are byte strings (UTF-8).  Their lexicographic order is the code point order that
    Python's \<open>sorted\<close> uses.

  \<open>dict_simps\<close> collects the equations of dictionaries, \<open>act_simps\<close> those of the operations with
  effects, \<open>scope_simps\<close> those of ownership scopes.
\<close>

named_theorems dict_simps \<open>equations of insertion ordered dictionaries\<close>
named_theorems act_simps \<open>equations of state and error passing\<close>
named_theorems scope_simps \<open>equations of ownership scopes\<close>

section \<open>Insertion ordered dictionaries\<close>

type_synonym ('k, 'v) dict = "('k \<times> 'v) list"

definition dict_get :: "('k, 'v) dict \<Rightarrow> 'k \<Rightarrow> 'v option" where
  "dict_get d k = map_of d k"

definition dict_has :: "('k, 'v) dict \<Rightarrow> 'k \<Rightarrow> bool" where
  "dict_has d k \<longleftrightarrow> dict_get d k \<noteq> None"

definition dict_set :: "'k \<Rightarrow> 'v \<Rightarrow> ('k, 'v) dict \<Rightarrow> ('k, 'v) dict" where
  "dict_set k v d = AList.update k v d"

definition dict_pop :: "'k \<Rightarrow> ('k, 'v) dict \<Rightarrow> ('k, 'v) dict" where
  "dict_pop k d = AList.delete k d"

definition dict_keys :: "('k, 'v) dict \<Rightarrow> 'k list" where
  "dict_keys d = map fst d"

definition dict_values :: "('k, 'v) dict \<Rightarrow> 'v list" where
  "dict_values d = map snd d"

text \<open>\<open>{**a, **b}\<close>: the entries of \<open>b\<close> are written into \<open>a\<close>, one after the other.\<close>

definition dict_merge :: "('k, 'v) dict \<Rightarrow> ('k, 'v) dict \<Rightarrow> ('k, 'v) dict" where
  "dict_merge a b = fold (\<lambda>(k, v) d. dict_set k v d) b a"

definition dict_ok :: "('k, 'v) dict \<Rightarrow> bool" where
  "dict_ok d \<longleftrightarrow> distinct (dict_keys d)"

lemma dict_get_Nil [simp, dict_simps]: "dict_get [] k = None"
  by (simp add: dict_get_def)

lemma dict_get_Cons [dict_simps]:
  "dict_get ((k, v) # d) k' = (if k' = k then Some v else dict_get d k')"
  by (simp add: dict_get_def)

lemma dict_get_set [simp, dict_simps]:
  "dict_get (dict_set k v d) k' = (if k' = k then Some v else dict_get d k')"
  by (simp add: dict_get_def dict_set_def update_conv')

lemma dict_get_pop [simp, dict_simps]:
  "dict_get (dict_pop k d) k' = (if k' = k then None else dict_get d k')"
  by (simp add: dict_get_def dict_pop_def delete_conv')

lemma dict_has_set [simp, dict_simps]: "dict_has (dict_set k v d) k' \<longleftrightarrow> k' = k \<or> dict_has d k'"
  by (simp add: dict_has_def)

lemma dict_has_pop [simp, dict_simps]: "dict_has (dict_pop k d) k' \<longleftrightarrow> k' \<noteq> k \<and> dict_has d k'"
  by (simp add: dict_has_def)

lemma dict_has_Nil [simp]: "\<not> dict_has [] k"
  by (simp add: dict_has_def)

lemma dict_ok_Nil [simp]: "dict_ok []"
  by (simp add: dict_ok_def dict_keys_def)

lemma dict_ok_set [simp]: "dict_ok (dict_set k v d) \<longleftrightarrow> dict_ok d"
proof -
  have "distinct (map fst (AList.update k v d)) = distinct (map fst d)"
    by (induction d) (auto simp: dom_update)
  then show ?thesis
    by (simp add: dict_ok_def dict_keys_def dict_set_def)
qed

lemma dict_ok_pop [simp]: "dict_ok d \<Longrightarrow> dict_ok (dict_pop k d)"
  by (simp add: dict_ok_def dict_keys_def dict_pop_def distinct_delete)

lemma dict_ok_Cons: "dict_ok ((k, v) # d) \<longleftrightarrow> \<not> dict_has d k \<and> dict_ok d"
  by (auto simp: dict_ok_def dict_keys_def dict_has_def dict_get_def map_of_eq_None_iff)

lemma dict_ok_filter: "dict_ok d \<Longrightarrow> dict_ok (filter P d)"
  by (auto simp: dict_ok_def dict_keys_def distinct_map_filter)

lemma dict_items_iff: "dict_ok d \<Longrightarrow> (k, v) \<in> set d \<longleftrightarrow> dict_get d k = Some v"
  by (simp add: dict_ok_def dict_keys_def dict_get_def map_of_eq_Some_iff)

lemma dict_values_iff:
  "dict_ok d \<Longrightarrow> v \<in> set (dict_values d) \<longleftrightarrow> (\<exists>k. dict_get d k = Some v)"
  by (force simp: dict_values_def simp flip: dict_items_iff)

lemma dict_keys_iff: "k \<in> set (dict_keys d) \<longleftrightarrow> dict_has d k"
  by (simp add: dict_has_def dict_get_def dict_keys_def map_of_eq_None_iff)

text \<open>Overwriting a key keeps its place; a new key goes to the end.\<close>

lemma dict_set_new: "\<not> dict_has d k \<Longrightarrow> dict_set k v d = d @ [(k, v)]"
  by (induction d) (auto simp: dict_has_def dict_get_def dict_set_def split: if_splits)

lemma dict_keys_set:
  "dict_keys (dict_set k v d) = (if dict_has d k then dict_keys d else dict_keys d @ [k])"
  by (induction d) (auto simp: dict_has_def dict_get_def dict_set_def dict_keys_def split: if_splits)

lemma dict_get_filter:
  "dict_ok d \<Longrightarrow> dict_get (filter (\<lambda>(k, v). P k v) d) k =
     (case dict_get d k of None \<Rightarrow> None | Some v \<Rightarrow> if P k v then Some v else None)"
proof (induction d)
  case Nil
  then show ?case by simp
next
  case (Cons p d)
  obtain k' v' where p: "p = (k', v')" by (cases p)
  show ?case
  proof (cases "k = k'")
    case True
    with Cons.prems p have "dict_get d k = None"
      by (simp add: dict_ok_Cons dict_has_def)
    with Cons p True show ?thesis
      by (auto simp: dict_get_Cons dict_ok_Cons)
  next
    case False
    with Cons p show ?thesis
      by (auto simp: dict_get_Cons dict_ok_Cons)
  qed
qed

lemma dict_merge_Nil [simp]: "dict_merge a [] = a"
  by (simp add: dict_merge_def)

lemma dict_merge_Cons: "dict_merge a ((k, v) # b) = dict_merge (dict_set k v a) b"
  by (simp add: dict_merge_def)

lemma dict_ok_merge [simp]: "dict_ok (dict_merge a b) \<longleftrightarrow> dict_ok a"
proof (induction b arbitrary: a)
  case (Cons p b)
  then show ?case by (cases p) (simp add: dict_merge_Cons)
qed simp

lemma dict_get_merge:
  "dict_ok b \<Longrightarrow> dict_get (dict_merge a b) k =
     (case dict_get b k of Some v \<Rightarrow> Some v | None \<Rightarrow> dict_get a k)"
proof (induction b arbitrary: a)
  case Nil
  then show ?case by simp
next
  case (Cons p b)
  obtain k' v' where p: "p = (k', v')" by (cases p)
  from Cons.prems p have nb: "dict_get b k' = None" and ok: "dict_ok b"
    by (auto simp: dict_ok_Cons dict_has_def)
  show ?case
    using Cons.IH [OF ok, of "dict_set k' v' a"] nb p
    by (simp add: dict_merge_Cons dict_get_Cons split: option.split)
qed

section \<open>Operations that may raise\<close>

type_synonym ('e, 's, 'a) act = "'s \<Rightarrow> ('e + 'a) \<times> 's"

definition return_a :: "'a \<Rightarrow> ('e, 's, 'a) act" where
  "return_a x s = (Inr x, s)"

definition raise_a :: "'e \<Rightarrow> ('e, 's, 'a) act" where
  "raise_a e s = (Inl e, s)"

definition bind_a :: "('e, 's, 'a) act \<Rightarrow> ('a \<Rightarrow> ('e, 's, 'b) act) \<Rightarrow> ('e, 's, 'b) act" where
  "bind_a m f s = (case m s of (Inl e, s') \<Rightarrow> (Inl e, s') | (Inr x, s') \<Rightarrow> f x s')"

text \<open>A pure check inside an operation with effects.\<close>

definition lift_a :: "'e + 'a \<Rightarrow> ('e, 's, 'a) act" where
  "lift_a r s = (r, s)"

definition bind_e :: "'e + 'a \<Rightarrow> ('a \<Rightarrow> 'e + 'b) \<Rightarrow> 'e + 'b" where
  "bind_e r f = (case r of Inl e \<Rightarrow> Inl e | Inr x \<Rightarrow> f x)"

lemma return_a_simp [simp, act_simps]: "return_a x s = (Inr x, s)"
  by (simp add: return_a_def)

lemma raise_a_simp [simp, act_simps]: "raise_a e s = (Inl e, s)"
  by (simp add: raise_a_def)

lemma lift_a_simp [simp, act_simps]: "lift_a r s = (r, s)"
  by (simp add: lift_a_def)

lemma bind_e_Inl [simp, act_simps]: "bind_e (Inl e) f = Inl e"
  by (simp add: bind_e_def)

lemma bind_e_Inr [simp, act_simps]: "bind_e (Inr x) f = f x"
  by (simp add: bind_e_def)

lemma bind_e_eq_Inr: "bind_e r f = Inr y \<longleftrightarrow> (\<exists>x. r = Inr x \<and> f x = Inr y)"
  by (cases r) auto

lemma bind_a_eq_Inr:
  "bind_a m f s = (Inr y, s'') \<longleftrightarrow> (\<exists>x s'. m s = (Inr x, s') \<and> f x s' = (Inr y, s''))"
  by (auto simp: bind_a_def split: prod.splits sum.splits)

text \<open>The loop \<open>for x in xs: f(x)\<close> over an operation with effects; it stops at the first raise.\<close>

fun for_each :: "('x \<Rightarrow> ('e, 's, unit) act) \<Rightarrow> 'x list \<Rightarrow> ('e, 's, unit) act" where
  "for_each f [] s = (Inr (), s)"
| "for_each f (x # xs) s = (case f x s of (Inl e, s') \<Rightarrow> (Inl e, s') | (Inr _, s') \<Rightarrow> for_each f xs s')"

section \<open>Numbers in messages\<close>

text \<open>\<open>str(n)\<close> for a number that is not negative, and for an integer.\<close>

fun nat_str :: "nat \<Rightarrow> string" where
  "nat_str n = (if n < 10 then [char_of (48 + n)] else nat_str (n div 10) @ [char_of (48 + n mod 10)])"

declare nat_str.simps [simp del]

definition int_str :: "int \<Rightarrow> string" where
  "int_str i = (if i < 0 then CHR ''-'' # nat_str (nat (- i)) else nat_str (nat i))"

section \<open>Lists\<close>

text \<open>\<open>xs if limit is None else xs[:limit]\<close>, for a limit that is not negative.\<close>

definition take_opt :: "nat option \<Rightarrow> 'a list \<Rightarrow> 'a list" where
  "take_opt n xs = (case n of None \<Rightarrow> xs | Some n \<Rightarrow> take n xs)"

lemma set_take_opt: "set (take_opt n xs) \<subseteq> set xs"
  by (auto simp: take_opt_def dest: in_set_takeD split: option.splits)

lemma set_take_optD: "x \<in> set (take_opt n xs) \<Longrightarrow> x \<in> set xs"
  using set_take_opt [of n xs] by (rule subsetD)

lemma take_opt_None [simp]: "take_opt None xs = xs"
  by (simp add: take_opt_def)

lemma subseq_filter_mono: "subseq xs ys \<Longrightarrow> subseq (filter P xs) (filter P ys)"
  by (rule subseq_filter)

lemma subseq_concat: "subseq xss yss \<Longrightarrow> subseq (concat xss) (concat yss)"
proof (induction rule: list_emb.induct)
  case (list_emb_Nil ys)
  then show ?case by simp
next
  case (list_emb_Cons xs ys y)
  then show ?case
    by (metis append_Nil concat.simps(2) list_emb_Nil list_emb_append_mono)
next
  case (list_emb_Cons2 x y xs ys)
  then show ?case
    by (simp add: list_emb_append_mono)
qed

lemma sort_key_filter_set [simp]: "set (sort_key f xs) = set xs"
  by simp

end
