(* ===== verification/Errors.thy ===== *)
theory Errors
  imports Prelude
begin

text \<open>
  The exceptions of the program (\<open>core/error\<close>): one datatype per file with a constructor per
  class, their union \<open>error_class\<close>, the direct base classes of each class as the class statements
  list them, and the test \<open>isinstance\<close> computed from them.  \<open>status_code_for_error\<close> of
  \<open>interface/http/errors.py\<close> is the client of this hierarchy: its tests are ordered, and many
  classes match more than one of them.

  An exception value keeps the class, the message, the \<open>detail\<close> and the \<open>cause\<close> that
  \<open>EvernightAIError.__init__\<close> stores.  \<open>PyException\<close> stands for any class that the program does
  not declare; its argument is the class name.
\<close>

section \<open>Classes, file by file\<close>

datatype base_error =
    EvernightAIError | ConfigurationError | ConflictError | NotFoundError | RateLimitError
  | UnsupportedError | ValidationError | StateError | DependencyError | RequestError
  | RequestTimeoutError | AuthorizationError | PermissionDeniedError | ResponseError

datatype agent_error =
    AgentError | AgentStateError | AgentShutdownError | AgentRunTimeoutError
  | AgentRunCanceledError | AgentRunLeaseLostError

datatype auth_error =
    AuthError | AuthRequiredError | AuthPermissionDeniedError | AuthLoginNotConfiguredError

datatype chat_error =
    ChatError | ChatInputError | ChatToolCallError | ChatContextLengthError | ChatStreamError

datatype context_error =
    ContextError | ContextInputError | ContextNotFoundError | ContextStateError

datatype data_analysis_error =
    DataAnalysisError | DataAnalysisInputError | DataAnalysisNotFoundError
  | DataStatisticsExecutionError | DataAnalysisExecutionError | DataAnalysisResultError

datatype image_error =
    ImageRecordNotFoundError | ImageRecordConflictError | ImageHistoryInputError
  | ImageTaskNotFoundError | ImageTaskConflictError | ImageTaskLimitError

datatype memory_error =
    MemoryError | MemoryInputError | MemoryNotFoundError | MemoryStateError

datatype provider_error =
    ProviderError | ProviderUnavailableError | ProviderDisabledError
  | ProviderCapabilityUnsupportedError | ProviderConfigurationError | ProviderAuthorizationError
  | ProviderConflictError | ProviderNotFoundError | ProviderRateLimitError
  | ProviderRequestError | ProviderResponseError | ProviderRequestTimeoutError

datatype sandbox_error =
    SandboxError | SandboxInputError | SandboxConfigurationError | SandboxExecutionError
  | SandboxTimeoutError | SandboxPolicyError | SandboxResultError

datatype session_error =
    SessionError | SessionInputError | SessionNotFoundError | SessionStateError

datatype skill_error =
    SkillError | SkillInputError | SkillNotFoundError | SkillConfigurationError
  | SkillRenderError | SkillPromptError | SkillStateError | SkillConflictError
  | SkillDisabledError

datatype tool_error =
    ToolError | ToolInputError | ToolNotFoundError | ToolConfigurationError | ToolExecutionError
  | ToolPolicyError | ToolResultError | ToolStateError

datatype error_class =
    Base base_error | Agent agent_error | Auth auth_error | Chat chat_error | Ctx context_error
  | Analysis data_analysis_error | Image image_error | Mem memory_error
  | Provider provider_error | Sandbox sandbox_error | Sess session_error | Skill skill_error
  | Tool tool_error | PyException string

datatype error = Error
  (error_class: error_class)
  (error_message: string)
  (error_detail: "string option")
  (error_cause: "error option")

definition raised :: "error_class \<Rightarrow> string \<Rightarrow> error" where
  "raised c msg = Error c msg None None"

definition raised_detail :: "error_class \<Rightarrow> string \<Rightarrow> string \<Rightarrow> error" where
  "raised_detail c msg d = Error c msg (Some d) None"

lemma raised_sel [simp]:
  "error_class (raised c m) = c" "error_message (raised c m) = m"
  "error_detail (raised c m) = None" "error_cause (raised c m) = None"
  by (simp_all add: raised_def)

lemma raised_inject [simp]: "raised c m = raised c' m' \<longleftrightarrow> c = c' \<and> m = m'"
  by (simp add: raised_def)

section \<open>Class names\<close>

text \<open>\<open>error.__class__.__name__\<close>, the \<open>error_type\<close> of an exception.\<close>

fun base_error_name :: "base_error \<Rightarrow> string" where
  "base_error_name EvernightAIError = ''EvernightAIError''"
| "base_error_name ConfigurationError = ''ConfigurationError''"
| "base_error_name ConflictError = ''ConflictError''"
| "base_error_name NotFoundError = ''NotFoundError''"
| "base_error_name RateLimitError = ''RateLimitError''"
| "base_error_name UnsupportedError = ''UnsupportedError''"
| "base_error_name ValidationError = ''ValidationError''"
| "base_error_name StateError = ''StateError''"
| "base_error_name DependencyError = ''DependencyError''"
| "base_error_name RequestError = ''RequestError''"
| "base_error_name RequestTimeoutError = ''RequestTimeoutError''"
| "base_error_name AuthorizationError = ''AuthorizationError''"
| "base_error_name PermissionDeniedError = ''PermissionDeniedError''"
| "base_error_name ResponseError = ''ResponseError''"

fun agent_error_name :: "agent_error \<Rightarrow> string" where
  "agent_error_name AgentError = ''AgentError''"
| "agent_error_name AgentStateError = ''AgentStateError''"
| "agent_error_name AgentShutdownError = ''AgentShutdownError''"
| "agent_error_name AgentRunTimeoutError = ''AgentRunTimeoutError''"
| "agent_error_name AgentRunCanceledError = ''AgentRunCanceledError''"
| "agent_error_name AgentRunLeaseLostError = ''AgentRunLeaseLostError''"

fun auth_error_name :: "auth_error \<Rightarrow> string" where
  "auth_error_name AuthError = ''AuthError''"
| "auth_error_name AuthRequiredError = ''AuthRequiredError''"
| "auth_error_name AuthPermissionDeniedError = ''AuthPermissionDeniedError''"
| "auth_error_name AuthLoginNotConfiguredError = ''AuthLoginNotConfiguredError''"

fun chat_error_name :: "chat_error \<Rightarrow> string" where
  "chat_error_name ChatError = ''ChatError''"
| "chat_error_name ChatInputError = ''ChatInputError''"
| "chat_error_name ChatToolCallError = ''ChatToolCallError''"
| "chat_error_name ChatContextLengthError = ''ChatContextLengthError''"
| "chat_error_name ChatStreamError = ''ChatStreamError''"

fun context_error_name :: "context_error \<Rightarrow> string" where
  "context_error_name ContextError = ''ContextError''"
| "context_error_name ContextInputError = ''ContextInputError''"
| "context_error_name ContextNotFoundError = ''ContextNotFoundError''"
| "context_error_name ContextStateError = ''ContextStateError''"

fun data_analysis_error_name :: "data_analysis_error \<Rightarrow> string" where
  "data_analysis_error_name DataAnalysisError = ''DataAnalysisError''"
| "data_analysis_error_name DataAnalysisInputError = ''DataAnalysisInputError''"
| "data_analysis_error_name DataAnalysisNotFoundError = ''DataAnalysisNotFoundError''"
| "data_analysis_error_name DataStatisticsExecutionError = ''DataStatisticsExecutionError''"
| "data_analysis_error_name DataAnalysisExecutionError = ''DataAnalysisExecutionError''"
| "data_analysis_error_name DataAnalysisResultError = ''DataAnalysisResultError''"

fun image_error_name :: "image_error \<Rightarrow> string" where
  "image_error_name ImageRecordNotFoundError = ''ImageRecordNotFoundError''"
| "image_error_name ImageRecordConflictError = ''ImageRecordConflictError''"
| "image_error_name ImageHistoryInputError = ''ImageHistoryInputError''"
| "image_error_name ImageTaskNotFoundError = ''ImageTaskNotFoundError''"
| "image_error_name ImageTaskConflictError = ''ImageTaskConflictError''"
| "image_error_name ImageTaskLimitError = ''ImageTaskLimitError''"

fun memory_error_name :: "memory_error \<Rightarrow> string" where
  "memory_error_name MemoryError = ''MemoryError''"
| "memory_error_name MemoryInputError = ''MemoryInputError''"
| "memory_error_name MemoryNotFoundError = ''MemoryNotFoundError''"
| "memory_error_name MemoryStateError = ''MemoryStateError''"

fun provider_error_name :: "provider_error \<Rightarrow> string" where
  "provider_error_name ProviderError = ''ProviderError''"
| "provider_error_name ProviderUnavailableError = ''ProviderUnavailableError''"
| "provider_error_name ProviderDisabledError = ''ProviderDisabledError''"
| "provider_error_name ProviderCapabilityUnsupportedError = ''ProviderCapabilityUnsupportedError''"
| "provider_error_name ProviderConfigurationError = ''ProviderConfigurationError''"
| "provider_error_name ProviderAuthorizationError = ''ProviderAuthorizationError''"
| "provider_error_name ProviderConflictError = ''ProviderConflictError''"
| "provider_error_name ProviderNotFoundError = ''ProviderNotFoundError''"
| "provider_error_name ProviderRateLimitError = ''ProviderRateLimitError''"
| "provider_error_name ProviderRequestError = ''ProviderRequestError''"
| "provider_error_name ProviderResponseError = ''ProviderResponseError''"
| "provider_error_name ProviderRequestTimeoutError = ''ProviderRequestTimeoutError''"

fun sandbox_error_name :: "sandbox_error \<Rightarrow> string" where
  "sandbox_error_name SandboxError = ''SandboxError''"
| "sandbox_error_name SandboxInputError = ''SandboxInputError''"
| "sandbox_error_name SandboxConfigurationError = ''SandboxConfigurationError''"
| "sandbox_error_name SandboxExecutionError = ''SandboxExecutionError''"
| "sandbox_error_name SandboxTimeoutError = ''SandboxTimeoutError''"
| "sandbox_error_name SandboxPolicyError = ''SandboxPolicyError''"
| "sandbox_error_name SandboxResultError = ''SandboxResultError''"

fun session_error_name :: "session_error \<Rightarrow> string" where
  "session_error_name SessionError = ''SessionError''"
| "session_error_name SessionInputError = ''SessionInputError''"
| "session_error_name SessionNotFoundError = ''SessionNotFoundError''"
| "session_error_name SessionStateError = ''SessionStateError''"

fun skill_error_name :: "skill_error \<Rightarrow> string" where
  "skill_error_name SkillError = ''SkillError''"
| "skill_error_name SkillInputError = ''SkillInputError''"
| "skill_error_name SkillNotFoundError = ''SkillNotFoundError''"
| "skill_error_name SkillConfigurationError = ''SkillConfigurationError''"
| "skill_error_name SkillRenderError = ''SkillRenderError''"
| "skill_error_name SkillPromptError = ''SkillPromptError''"
| "skill_error_name SkillStateError = ''SkillStateError''"
| "skill_error_name SkillConflictError = ''SkillConflictError''"
| "skill_error_name SkillDisabledError = ''SkillDisabledError''"

fun tool_error_name :: "tool_error \<Rightarrow> string" where
  "tool_error_name ToolError = ''ToolError''"
| "tool_error_name ToolInputError = ''ToolInputError''"
| "tool_error_name ToolNotFoundError = ''ToolNotFoundError''"
| "tool_error_name ToolConfigurationError = ''ToolConfigurationError''"
| "tool_error_name ToolExecutionError = ''ToolExecutionError''"
| "tool_error_name ToolPolicyError = ''ToolPolicyError''"
| "tool_error_name ToolResultError = ''ToolResultError''"
| "tool_error_name ToolStateError = ''ToolStateError''"

fun class_name :: "error_class \<Rightarrow> string" where
  "class_name (Base e) = base_error_name e"
| "class_name (Agent e) = agent_error_name e"
| "class_name (Auth e) = auth_error_name e"
| "class_name (Chat e) = chat_error_name e"
| "class_name (Ctx e) = context_error_name e"
| "class_name (Analysis e) = data_analysis_error_name e"
| "class_name (Image e) = image_error_name e"
| "class_name (Mem e) = memory_error_name e"
| "class_name (Provider e) = provider_error_name e"
| "class_name (Sandbox e) = sandbox_error_name e"
| "class_name (Sess e) = session_error_name e"
| "class_name (Skill e) = skill_error_name e"
| "class_name (Tool e) = tool_error_name e"
| "class_name (PyException n) = n"

section \<open>Base classes\<close>

fun base_bases :: "base_error \<Rightarrow> error_class list" where
  "base_bases EvernightAIError = []"
| "base_bases ConfigurationError = [Base EvernightAIError]"
| "base_bases ConflictError = [Base EvernightAIError]"
| "base_bases NotFoundError = [Base EvernightAIError]"
| "base_bases RateLimitError = [Base EvernightAIError]"
| "base_bases UnsupportedError = [Base EvernightAIError]"
| "base_bases ValidationError = [Base EvernightAIError]"
| "base_bases StateError = [Base EvernightAIError]"
| "base_bases DependencyError = [Base EvernightAIError]"
| "base_bases RequestError = [Base EvernightAIError]"
| "base_bases RequestTimeoutError = [Base RequestError]"
| "base_bases AuthorizationError = [Base RequestError]"
| "base_bases PermissionDeniedError = [Base EvernightAIError]"
| "base_bases ResponseError = [Base EvernightAIError]"

fun agent_bases :: "agent_error \<Rightarrow> error_class list" where
  "agent_bases AgentError = [Base EvernightAIError]"
| "agent_bases AgentStateError = [Agent AgentError, Base StateError]"
| "agent_bases AgentShutdownError = [Agent AgentError, Base StateError]"
| "agent_bases AgentRunTimeoutError = [Agent AgentError, Base StateError]"
| "agent_bases AgentRunCanceledError = [Agent AgentError, Base StateError]"
| "agent_bases AgentRunLeaseLostError = [Agent AgentStateError]"

fun auth_bases :: "auth_error \<Rightarrow> error_class list" where
  "auth_bases AuthError = [Base EvernightAIError]"
| "auth_bases AuthRequiredError = [Auth AuthError, Base AuthorizationError]"
| "auth_bases AuthPermissionDeniedError = [Auth AuthError, Base PermissionDeniedError]"
| "auth_bases AuthLoginNotConfiguredError = [Auth AuthError, Base NotFoundError]"

fun chat_bases :: "chat_error \<Rightarrow> error_class list" where
  "chat_bases ChatError = [Base EvernightAIError]"
| "chat_bases ChatInputError = [Chat ChatError, Base ValidationError]"
| "chat_bases ChatToolCallError = [Chat ChatError, Base ResponseError]"
| "chat_bases ChatContextLengthError = [Chat ChatError, Base RequestError]"
| "chat_bases ChatStreamError = [Chat ChatError, Base StateError]"

fun context_bases :: "context_error \<Rightarrow> error_class list" where
  "context_bases ContextError = [Base EvernightAIError]"
| "context_bases ContextInputError = [Ctx ContextError, Base ValidationError]"
| "context_bases ContextNotFoundError = [Ctx ContextError, Base NotFoundError]"
| "context_bases ContextStateError = [Ctx ContextError, Base StateError]"

fun data_analysis_bases :: "data_analysis_error \<Rightarrow> error_class list" where
  "data_analysis_bases DataAnalysisError = [Base EvernightAIError]"
| "data_analysis_bases DataAnalysisInputError = [Analysis DataAnalysisError, Base ValidationError]"
| "data_analysis_bases DataAnalysisNotFoundError = [Analysis DataAnalysisError, Base NotFoundError]"
| "data_analysis_bases DataStatisticsExecutionError = [Analysis DataAnalysisError, Base RequestError]"
| "data_analysis_bases DataAnalysisExecutionError = [Analysis DataAnalysisError, Base RequestError]"
| "data_analysis_bases DataAnalysisResultError = [Analysis DataAnalysisError, Base ResponseError]"

fun image_bases :: "image_error \<Rightarrow> error_class list" where
  "image_bases ImageRecordNotFoundError = [Base NotFoundError]"
| "image_bases ImageRecordConflictError = [Base ConflictError]"
| "image_bases ImageHistoryInputError = [Base ValidationError]"
| "image_bases ImageTaskNotFoundError = [Base NotFoundError]"
| "image_bases ImageTaskConflictError = [Base ConflictError]"
| "image_bases ImageTaskLimitError = [Base RateLimitError]"

fun memory_bases :: "memory_error \<Rightarrow> error_class list" where
  "memory_bases MemoryError = [Base EvernightAIError]"
| "memory_bases MemoryInputError = [Mem MemoryError, Base ValidationError]"
| "memory_bases MemoryNotFoundError = [Mem MemoryError, Base NotFoundError]"
| "memory_bases MemoryStateError = [Mem MemoryError, Base StateError]"

fun provider_bases :: "provider_error \<Rightarrow> error_class list" where
  "provider_bases ProviderError = [Base EvernightAIError]"
| "provider_bases ProviderUnavailableError = [Provider ProviderError]"
| "provider_bases ProviderDisabledError = [Provider ProviderError, Base StateError]"
| "provider_bases ProviderCapabilityUnsupportedError = [Provider ProviderError, Base UnsupportedError]"
| "provider_bases ProviderConfigurationError = [Provider ProviderError, Base ConfigurationError]"
| "provider_bases ProviderAuthorizationError = [Provider ProviderError, Base AuthorizationError]"
| "provider_bases ProviderConflictError = [Provider ProviderError, Base ConflictError]"
| "provider_bases ProviderNotFoundError = [Provider ProviderError, Base NotFoundError]"
| "provider_bases ProviderRateLimitError = [Provider ProviderError, Base RateLimitError]"
| "provider_bases ProviderRequestError = [Provider ProviderError, Base RequestError]"
| "provider_bases ProviderResponseError = [Provider ProviderError, Base ResponseError]"
| "provider_bases ProviderRequestTimeoutError = [Provider ProviderRequestError, Base RequestTimeoutError]"

fun sandbox_bases :: "sandbox_error \<Rightarrow> error_class list" where
  "sandbox_bases SandboxError = [Base EvernightAIError]"
| "sandbox_bases SandboxInputError = [Sandbox SandboxError, Base ValidationError]"
| "sandbox_bases SandboxConfigurationError = [Sandbox SandboxError, Base ConfigurationError]"
| "sandbox_bases SandboxExecutionError = [Sandbox SandboxError, Base RequestError]"
| "sandbox_bases SandboxTimeoutError = [Sandbox SandboxExecutionError]"
| "sandbox_bases SandboxPolicyError = [Sandbox SandboxExecutionError]"
| "sandbox_bases SandboxResultError = [Sandbox SandboxError, Base ResponseError]"

fun session_bases :: "session_error \<Rightarrow> error_class list" where
  "session_bases SessionError = [Base EvernightAIError]"
| "session_bases SessionInputError = [Sess SessionError, Base ValidationError]"
| "session_bases SessionNotFoundError = [Sess SessionError, Base NotFoundError]"
| "session_bases SessionStateError = [Sess SessionError, Base StateError]"

fun skill_bases :: "skill_error \<Rightarrow> error_class list" where
  "skill_bases SkillError = [Base EvernightAIError]"
| "skill_bases SkillInputError = [Skill SkillError, Base ValidationError]"
| "skill_bases SkillNotFoundError = [Skill SkillError, Base NotFoundError]"
| "skill_bases SkillConfigurationError = [Skill SkillError, Base ConfigurationError]"
| "skill_bases SkillRenderError = [Skill SkillError, Base RequestError]"
| "skill_bases SkillPromptError = [Skill SkillError, Base ResponseError]"
| "skill_bases SkillStateError = [Skill SkillError, Base StateError]"
| "skill_bases SkillConflictError = [Skill SkillError, Base ConflictError]"
| "skill_bases SkillDisabledError = [Skill SkillStateError]"

fun tool_bases :: "tool_error \<Rightarrow> error_class list" where
  "tool_bases ToolError = [Base EvernightAIError]"
| "tool_bases ToolInputError = [Tool ToolError, Base ValidationError]"
| "tool_bases ToolNotFoundError = [Tool ToolError, Base NotFoundError]"
| "tool_bases ToolConfigurationError = [Tool ToolError, Base ConfigurationError]"
| "tool_bases ToolExecutionError = [Tool ToolError, Base RequestError]"
| "tool_bases ToolPolicyError = [Tool ToolExecutionError]"
| "tool_bases ToolResultError = [Tool ToolError, Base ResponseError]"
| "tool_bases ToolStateError = [Tool ToolError, Base StateError]"

fun bases :: "error_class \<Rightarrow> error_class list" where
  "bases (Base e) = base_bases e"
| "bases (Agent e) = agent_bases e"
| "bases (Auth e) = auth_bases e"
| "bases (Chat e) = chat_bases e"
| "bases (Ctx e) = context_bases e"
| "bases (Analysis e) = data_analysis_bases e"
| "bases (Image e) = image_bases e"
| "bases (Mem e) = memory_bases e"
| "bases (Provider e) = provider_bases e"
| "bases (Sandbox e) = sandbox_bases e"
| "bases (Sess e) = session_bases e"
| "bases (Skill e) = skill_bases e"
| "bases (Tool e) = tool_bases e"
| "bases (PyException name) = []"

text \<open>
  The classes above a class, itself included.  No chain of class statements has more than three
  steps, so four steps reach every base class (\<open>isinstance_base\<close>).
\<close>

fun ancestors :: "nat \<Rightarrow> error_class \<Rightarrow> error_class list" where
  "ancestors 0 c = [c]"
| "ancestors (Suc n) c = c # concat (map (ancestors n) (bases c))"

definition isinstance :: "error_class \<Rightarrow> error_class \<Rightarrow> bool" where
  "isinstance c d \<longleftrightarrow> d \<in> set (ancestors 4 c)"

text \<open>The classes that are \<open>n\<close> class statements above a class.\<close>

fun above :: "nat \<Rightarrow> error_class \<Rightarrow> error_class list" where
  "above 0 c = [c]"
| "above (Suc n) c = concat (map (above n) (bases c))"

lemma set_ancestors: "set (ancestors n c) = (\<Union>i\<le>n. set (above i c))"
proof (induction n arbitrary: c)
  case (Suc n)
  have "(\<Union>i\<le>Suc n. set (above i c)) = set (above 0 c) \<union> (\<Union>i\<le>n. set (above (Suc i) c))"
    by (simp only: atMost_Suc_eq_insert_0 UN_insert image_image UN_simps image_insert) auto
  with Suc show ?case by auto
qed simp

lemma above_snoc: "d \<in> set (above n c) \<Longrightarrow> e \<in> set (bases d) \<Longrightarrow> e \<in> set (above (Suc n) c)"
proof (induction n arbitrary: c)
  case 0
  then show ?case by simp
next
  case (Suc n)
  then obtain b where "b \<in> set (bases c)" and "d \<in> set (above n b)" by auto
  with Suc.IH [OF this(2) Suc.prems(2)] show ?case by auto
qed

lemma above_4_Suc: "above (Suc (Suc (Suc (Suc 0)))) c = []"
proof (cases c)
  case (Base e)
  then show ?thesis by (cases e) simp_all
next
  case (Agent e)
  then show ?thesis by (cases e) simp_all
next
  case (Auth e)
  then show ?thesis by (cases e) simp_all
next
  case (Chat e)
  then show ?thesis by (cases e) simp_all
next
  case (Ctx e)
  then show ?thesis by (cases e) simp_all
next
  case (Analysis e)
  then show ?thesis by (cases e) simp_all
next
  case (Image e)
  then show ?thesis by (cases e) simp_all
next
  case (Mem e)
  then show ?thesis by (cases e) simp_all
next
  case (Provider e)
  then show ?thesis by (cases e) simp_all
next
  case (Sandbox e)
  then show ?thesis by (cases e) simp_all
next
  case (Sess e)
  then show ?thesis by (cases e) simp_all
next
  case (Skill e)
  then show ?thesis by (cases e) simp_all
next
  case (Tool e)
  then show ?thesis by (cases e) simp_all
next
  case (PyException n)
  then show ?thesis by simp
qed

lemma above_4: "above 4 c = []"
  using above_4_Suc [of c] by (simp only: numeral_eq_Suc pred_numeral_simps eval_nat_numeral BitM.simps)

text \<open>More steps find nothing new: the fuel of \<open>isinstance\<close> is enough.\<close>

lemma isinstance_refl [simp]: "isinstance c c"
  by (simp add: isinstance_def numeral_eq_Suc)

lemma isinstance_base:
  assumes "isinstance c d" and "e \<in> set (bases d)"
  shows "isinstance c e"
proof -
  from assms(1) obtain i where i: "i \<le> 4" "d \<in> set (above i c)"
    by (auto simp: isinstance_def set_ancestors)
  then have e: "e \<in> set (above (Suc i) c)"
    using assms(2) by (blast intro: above_snoc)
  have "i \<noteq> 4"
    using i(2) above_4 [of c] by (metis empty_iff empty_set)
  with i(1) have "Suc i \<le> 4" by simp
  with e show ?thesis unfolding isinstance_def set_ancestors by blast
qed

section \<open>The HTTP status of an error\<close>

definition status_code_for_error :: "error_class \<Rightarrow> nat" where
  "status_code_for_error exc =
     (if isinstance exc (Base NotFoundError) then 404
      else if isinstance exc (Base ValidationError) \<or> isinstance exc (Base ConfigurationError)
        \<or> isinstance exc (Base UnsupportedError) then 400
      else if isinstance exc (Base PermissionDeniedError) then 403
      else if isinstance exc (Base AuthorizationError) then 401
      else if isinstance exc (Base ConflictError) then 409
      else if isinstance exc (Base StateError) then 409
      else if isinstance exc (Base RateLimitError) then 429
      else if isinstance exc (Base RequestTimeoutError) then 504
      else if isinstance exc (Provider ProviderUnavailableError)
        \<or> isinstance exc (Base DependencyError) then 503
      else if isinstance exc (Base RequestError) \<or> isinstance exc (Base ResponseError) then 502
      else 500)"

text \<open>The root classes, one per file, which only serve to group the others.\<close>

definition grouping_class :: "error_class \<Rightarrow> bool" where
  "grouping_class c \<longleftrightarrow> c \<in> set
     [Base EvernightAIError, Agent AgentError, Auth AuthError, Chat ChatError, Ctx ContextError,
      Analysis DataAnalysisError, Mem MemoryError, Provider ProviderError, Sandbox SandboxError,
      Sess SessionError, Skill SkillError, Tool ToolError]"

lemma isinstance_code: "isinstance c d \<longleftrightarrow> d \<in> set (ancestors (Suc (Suc (Suc (Suc 0)))) c)"
  by (simp add: isinstance_def numeral_eq_Suc)

lemma status_500_declared:
  assumes "\<forall>n. c \<noteq> PyException n"
  shows "status_code_for_error c = 500 \<longleftrightarrow> grouping_class c"
proof (cases c)
  case (Base e)
  then show ?thesis
    by (cases e) (simp_all add: status_code_for_error_def isinstance_code grouping_class_def)
next
  case (Agent e)
  then show ?thesis
    by (cases e) (simp_all add: status_code_for_error_def isinstance_code grouping_class_def)
next
  case (Auth e)
  then show ?thesis
    by (cases e) (simp_all add: status_code_for_error_def isinstance_code grouping_class_def)
next
  case (Chat e)
  then show ?thesis
    by (cases e) (simp_all add: status_code_for_error_def isinstance_code grouping_class_def)
next
  case (Ctx e)
  then show ?thesis
    by (cases e) (simp_all add: status_code_for_error_def isinstance_code grouping_class_def)
next
  case (Analysis e)
  then show ?thesis
    by (cases e) (simp_all add: status_code_for_error_def isinstance_code grouping_class_def)
next
  case (Image e)
  then show ?thesis
    by (cases e) (simp_all add: status_code_for_error_def isinstance_code grouping_class_def)
next
  case (Mem e)
  then show ?thesis
    by (cases e) (simp_all add: status_code_for_error_def isinstance_code grouping_class_def)
next
  case (Provider e)
  then show ?thesis
    by (cases e) (simp_all add: status_code_for_error_def isinstance_code grouping_class_def)
next
  case (Sandbox e)
  then show ?thesis
    by (cases e) (simp_all add: status_code_for_error_def isinstance_code grouping_class_def)
next
  case (Sess e)
  then show ?thesis
    by (cases e) (simp_all add: status_code_for_error_def isinstance_code grouping_class_def)
next
  case (Skill e)
  then show ?thesis
    by (cases e) (simp_all add: status_code_for_error_def isinstance_code grouping_class_def)
next
  case (Tool e)
  then show ?thesis
    by (cases e) (simp_all add: status_code_for_error_def isinstance_code grouping_class_def)
next
  case (PyException n)
  with assms show ?thesis by simp
qed

text \<open>Every exception class of the program but the twelve that only group the others is reported
  with a status of its own and never as an internal error, whatever class statements it inherits
  from; a missing record is 404 and a denied permission 403 wherever they are declared.\<close>

theorem declared_errors_have_status:
  assumes "\<forall>n. c \<noteq> PyException n"
  shows "(status_code_for_error c = 500) = grouping_class c
    \<and> (isinstance c (Base NotFoundError) \<longrightarrow> status_code_for_error c = 404)
    \<and> status_code_for_error c \<in> {400, 401, 403, 404, 409, 429, 500, 502, 503, 504}"
  by (intro conjI status_500_declared [OF assms]) (simp_all add: status_code_for_error_def)

theorem declared_errors_have_status_witness:
  "status_code_for_error (Tool ToolPolicyError) \<noteq> 500"
  using declared_errors_have_status [of "Tool ToolPolicyError"] by (simp add: grouping_class_def)

end
