(* ===== verification/Values.thy ===== *)
theory Values
  imports Complex_Main Errors
begin

text \<open>
  The dynamically typed values that travel in \<open>metadata\<close>, in tool arguments and in tool results
  (\<open>dict[str, Any]\<close> in the schemas).  A finite Python float is a rational number.
\<close>

datatype pyval =
    PNone
  | PBool bool
  | PInt int
  | PFloat rat
  | PStr string
  | PList "pyval list"
  | PDict "(string \<times> pyval) list"

type_synonym metadata = "(string, pyval) dict"

text \<open>Python's truth value of an object.\<close>

fun truthy :: "pyval \<Rightarrow> bool" where
  "truthy PNone = False"
| "truthy (PBool b) = b"
| "truthy (PInt i) = (i \<noteq> 0)"
| "truthy (PFloat r) = (r \<noteq> 0)"
| "truthy (PStr s) = (s \<noteq> [])"
| "truthy (PList xs) = (xs \<noteq> [])"
| "truthy (PDict d) = (d \<noteq> [])"

text \<open>\<open>d.get(k)\<close> with its default \<open>None\<close>, and the truth value of that.\<close>

definition meta_get :: "metadata \<Rightarrow> string \<Rightarrow> pyval" where
  "meta_get d k = (case dict_get d k of None \<Rightarrow> PNone | Some v \<Rightarrow> v)"

definition meta_flag :: "metadata \<Rightarrow> string \<Rightarrow> bool" where
  "meta_flag d k = truthy (meta_get d k)"

definition of_str_opt :: "string option \<Rightarrow> pyval" where
  "of_str_opt s = (case s of None \<Rightarrow> PNone | Some s \<Rightarrow> PStr s)"

lemma meta_get_Nil [simp]: "meta_get [] k = PNone"
  by (simp add: meta_get_def)

lemma meta_get_set [simp]: "meta_get (dict_set k v d) k' = (if k' = k then v else meta_get d k')"
  by (simp add: meta_get_def)

lemma meta_get_pop [simp]: "meta_get (dict_pop k d) k' = (if k' = k then PNone else meta_get d k')"
  by (simp add: meta_get_def)

lemma of_str_opt_eq_PNone [simp]: "of_str_opt s = PNone \<longleftrightarrow> s = None"
  by (cases s) (simp_all add: of_str_opt_def)

text \<open>\<open>sep.join(parts)\<close>.\<close>

fun join :: "string \<Rightarrow> string list \<Rightarrow> string" where
  "join sep [] = []"
| "join sep [s] = s"
| "join sep (s # t # ts) = s @ sep @ join sep (t # ts)"

end
