(* ===== verification/Auth.thy ===== *)
theory Auth
  imports Values
begin

text \<open>
  Principals, ownership scopes, permissions and the authorizer (\<open>core/schema/auth.py\<close>,
  \<open>core/domain/auth.py\<close>).  \<open>permits\<close> is the test that every store of the program makes before it
  shows or changes a record; \<open>scope_permits\<close> is the form with an optional scope that the stores
  of contexts, memories and sessions share.

  The serialisation of a denied decision into the \<open>detail\<close> of the exception is done by the
  pydantic library; it is the parameter \<open>dump\<close>.
\<close>

section \<open>Schemas\<close>

datatype principal_type = Principal_USER | Principal_SERVICE | Principal_ANONYMOUS

datatype auth_decision_status = Decision_ALLOWED | Decision_DENIED

record principal =
  principal_id :: string
  principal_type :: principal_type
  roles :: "string list"
  permissions :: "string list"
  principal_metadata :: metadata

record principal_scope =
  scope_owner_id :: "string option"

definition for_principal :: "principal \<Rightarrow> principal_scope" where
  "for_principal p = \<lparr>scope_owner_id = Some (principal_id p)\<rparr>"

definition permits :: "principal_scope \<Rightarrow> string option \<Rightarrow> bool" where
  "permits s owner_id \<longleftrightarrow> scope_owner_id s = None \<or> owner_id = scope_owner_id s"

record auth_permission =
  perm_action :: string
  perm_resource :: string
  perm_scope :: "string option"
  perm_metadata :: metadata

record auth_request =
  req_principal :: principal
  req_permission :: auth_permission
  req_resource_id :: "string option"
  req_metadata :: metadata

record auth_decision =
  dec_status :: auth_decision_status
  dec_reason :: "string option"
  dec_metadata :: metadata

definition decision_allowed :: "auth_decision \<Rightarrow> bool" where
  "decision_allowed d \<longleftrightarrow> dec_status d = Decision_ALLOWED"

section \<open>Scopes\<close>

definition scope_permits :: "principal_scope option \<Rightarrow> string option \<Rightarrow> bool" where
  "scope_permits principal_scope owner_id =
     (case principal_scope of None \<Rightarrow> True | Some s \<Rightarrow> permits s owner_id)"

lemma permits_unrestricted [simp, scope_simps]: "permits \<lparr>scope_owner_id = None\<rparr> owner"
  by (simp add: permits_def)

lemma permits_owner [simp, scope_simps]:
  "permits \<lparr>scope_owner_id = Some o1\<rparr> owner \<longleftrightarrow> owner = Some o1"
  by (simp add: permits_def)

lemma scope_permits_None [simp, scope_simps]: "scope_permits None owner"
  by (simp add: scope_permits_def)

lemma scope_permits_Some [simp, scope_simps]: "scope_permits (Some s) owner \<longleftrightarrow> permits s owner"
  by (simp add: scope_permits_def)

lemma scope_permits_for_principal [scope_simps]:
  "scope_permits (Some (for_principal p)) owner \<longleftrightarrow> owner = Some (principal_id p)"
  by (simp add: for_principal_def)

section \<open>Policies and the authorizer\<close>

text \<open>\<open>'...'\<close> in a message: an apostrophe cannot stand inside a string literal here.\<close>

definition quoted :: "string \<Rightarrow> string" where
  "quoted s = CHR 0x27 # s @ [CHR 0x27]"

definition permission_key :: "auth_permission \<Rightarrow> string" where
  "permission_key p = perm_resource p @ '':'' @ perm_action p"

definition allow_all_authorize :: "auth_request \<Rightarrow> auth_decision" where
  "allow_all_authorize request = \<lparr>dec_status = Decision_ALLOWED, dec_reason = None, dec_metadata = []\<rparr>"

definition permission_authorize :: "auth_request \<Rightarrow> auth_decision" where
  "permission_authorize request =
     (let required = permission_key (req_permission request);
          allowed = set (permissions (req_principal request))
      in if ''*'' \<in> allowed \<or> required \<in> allowed
         then \<lparr>dec_status = Decision_ALLOWED, dec_reason = None, dec_metadata = []\<rparr>
         else \<lparr>dec_status = Decision_DENIED,
               dec_reason = Some (''Permission '' @ quoted required @ '' is required''),
               dec_metadata = []\<rparr>)"

definition authorizer_require ::
  "(auth_decision \<Rightarrow> string) \<Rightarrow> (auth_request \<Rightarrow> auth_decision) \<Rightarrow> auth_request \<Rightarrow> error + unit" where
  "authorizer_require dump policy request =
     (let decision = policy request
      in if decision_allowed decision then Inr ()
         else Inl (raised_detail (Auth AuthPermissionDeniedError)
                (case dec_reason decision of
                   Some r \<Rightarrow> if r = [] then ''Permission denied'' else r
                 | None \<Rightarrow> ''Permission denied'')
                (dump decision)))"

lemma permission_authorize_allowed:
  "decision_allowed (permission_authorize r) \<longleftrightarrow>
     ''*'' \<in> set (permissions (req_principal r)) \<or>
     permission_key (req_permission r) \<in> set (permissions (req_principal r))"
  by (simp add: permission_authorize_def decision_allowed_def Let_def)

lemma authorizer_require_ok:
  "authorizer_require dump policy r = Inr () \<longleftrightarrow> decision_allowed (policy r)"
  by (simp add: authorizer_require_def Let_def)

end
