(* ===== verification/ToolRegistry.thy ===== *)
theory ToolRegistry
  imports Auth
begin

text \<open>
  The schemas of tools (\<open>core/schema/tool.py\<close>), the register of tools
  (\<open>ToolRegister\<close> in \<open>core/domain/tool.py\<close>) and the store of per-owner tool policies
  (\<open>core/domain/tool_policy.py\<close>).

  The register keeps four dictionaries in one immutable snapshot that every operation replaces as
  a whole: definitions, executors, preflight policies, and the owner of each tool that an external
  source (an MCP server) provides.  \<open>snapshot_ok\<close> is the invariant between them.  Executors are
  code outside this component; they are values of a type variable.
\<close>

section \<open>Schemas\<close>

datatype tool_permission =
    Perm_READ | Perm_WRITE | Perm_PROCESS | Perm_NETWORK | Perm_FILESYSTEM | Perm_SHELL
  | Perm_DATABASE | Perm_EXTERNAL_API | Perm_DESTRUCTIVE

fun permission_value :: "tool_permission \<Rightarrow> string" where
  "permission_value Perm_READ = ''read''"
| "permission_value Perm_WRITE = ''write''"
| "permission_value Perm_PROCESS = ''process''"
| "permission_value Perm_NETWORK = ''network''"
| "permission_value Perm_FILESYSTEM = ''filesystem''"
| "permission_value Perm_SHELL = ''shell''"
| "permission_value Perm_DATABASE = ''database''"
| "permission_value Perm_EXTERNAL_API = ''external_api''"
| "permission_value Perm_DESTRUCTIVE = ''destructive''"

datatype tool_safety_level = Level_SAFE | Level_SENSITIVE | Level_RESTRICTED

datatype tool_approval_status =
  Approval_REQUESTED | Approval_APPROVED | Approval_DENIED | Approval_EXPIRED

fun approval_status_value :: "tool_approval_status \<Rightarrow> string" where
  "approval_status_value Approval_REQUESTED = ''requested''"
| "approval_status_value Approval_APPROVED = ''approved''"
| "approval_status_value Approval_DENIED = ''denied''"
| "approval_status_value Approval_EXPIRED = ''expired''"

datatype tool_approval_mode = Mode_AUTO | Mode_REQUIRED | Mode_NEVER

datatype tool_access_mode = Access_ALLOW | Access_ASK | Access_DENY

datatype tool_replay_policy = Replay_SAFE | Replay_IDEMPOTENT | Replay_NON_REPLAYABLE

record tool_definition =
  td_name :: string
  td_description :: string
  td_parameters_schema :: "metadata option"
  td_permissions :: "tool_permission list"
  td_safety_level :: tool_safety_level
  td_requires_approval :: bool
  td_approval_mode :: tool_approval_mode
  td_replay_policy :: tool_replay_policy
  td_idempotency_key_parameter :: "string option"
  td_metadata :: metadata

text \<open>The model validator: an idempotent tool names the parameter that carries its key.\<close>

definition validate_replay_policy :: "tool_definition \<Rightarrow> error + tool_definition" where
  "validate_replay_policy t =
     (if td_replay_policy t = Replay_IDEMPOTENT
         \<and> (td_idempotency_key_parameter t = None \<or> td_idempotency_key_parameter t = Some [])
      then Inl (raised (PyException ''ValueError'')
             ''Idempotent tools must declare idempotency_key_parameter'')
      else Inr t)"

record tool_approval_request =
  ar_approval_id :: string
  ar_tool_call_id :: string
  ar_tool_name :: string
  ar_tool_call :: metadata
  ar_permissions :: "tool_permission list"
  ar_safety_level :: tool_safety_level
  ar_reason :: "string option"
  ar_metadata :: metadata

record tool_approval_decision =
  ad_approval_id :: string
  ad_tool_call_id :: string
  ad_status :: tool_approval_status
  ad_tool_round :: "nat option"
  ad_reason :: "string option"
  ad_metadata :: metadata

record tool_call =
  tc_id :: string
  tc_call :: metadata
  tc_approval :: "tool_approval_decision option"
  tc_metadata :: metadata

record tool_call_result =
  tr_id :: string
  tr_result :: metadata
  tr_metadata :: metadata

record tool_safety_decision =
  sd_allowed :: bool
  sd_reason :: "string option"
  sd_requires_approval :: bool
  sd_approval_request :: "tool_approval_request option"
  sd_metadata :: metadata

record tool_policy_summary =
  ps_tool :: tool_definition
  ps_mode :: tool_access_mode
  ps_default_mode :: tool_access_mode
  ps_configured_mode :: "tool_access_mode option"
  ps_blocked_reason :: "string option"

type_synonym tool_preflight =
  "tool_definition \<Rightarrow> metadata \<Rightarrow> error + tool_safety_decision option"

record 'x tool_registration =
  rg_tool :: tool_definition
  rg_executor :: 'x
  rg_preflight_policy :: "tool_preflight option"

section \<open>The register\<close>

record 'x tool_snapshot =
  sn_tools :: "(string, tool_definition) dict"
  sn_executors :: "(string, 'x) dict"
  sn_preflight_policies :: "(string, tool_preflight) dict"
  sn_source_owners :: "(string, string) dict"

definition empty_snapshot :: "'x tool_snapshot" where
  "empty_snapshot = \<lparr>sn_tools = [], sn_executors = [], sn_preflight_policies = [], sn_source_owners = []\<rparr>"

text \<open>\<open>if policy is None: policies.pop(name, None) else: policies[name] = policy\<close>.\<close>

definition set_or_pop :: "'k \<Rightarrow> 'v option \<Rightarrow> ('k, 'v) dict \<Rightarrow> ('k, 'v) dict" where
  "set_or_pop k v d = (case v of None \<Rightarrow> dict_pop k d | Some v \<Rightarrow> dict_set k v d)"

definition tool_has :: "string \<Rightarrow> 'x tool_snapshot \<Rightarrow> bool" where
  "tool_has tool_name s \<longleftrightarrow> dict_has (sn_tools s) tool_name \<and> dict_has (sn_executors s) tool_name"

definition managed_error :: "string \<Rightarrow> string \<Rightarrow> error" where
  "managed_error tool_name owner =
     raised (Tool ToolStateError) (''The tool '' @ tool_name @ '' is managed by source '' @ owner)"

definition tool_register ::
  "tool_definition \<Rightarrow> 'x \<Rightarrow> tool_preflight option \<Rightarrow> (error, 'x tool_snapshot, unit) act" where
  "tool_register tool executor preflight_policy s =
     (case dict_get (sn_source_owners s) (td_name tool) of
        Some owner \<Rightarrow> (Inl (managed_error (td_name tool) owner), s)
      | None \<Rightarrow>
          (Inr (), s\<lparr>sn_tools := dict_set (td_name tool) tool (sn_tools s),
                     sn_executors := dict_set (td_name tool) executor (sn_executors s),
                     sn_preflight_policies :=
                       set_or_pop (td_name tool) preflight_policy (sn_preflight_policies s)\<rparr>))"

definition tool_unregister :: "string \<Rightarrow> (error, 'x tool_snapshot, unit) act" where
  "tool_unregister tool_name s =
     (if \<not> tool_has tool_name s
      then (Inl (raised (Tool ToolNotFoundError)
                   (''The tool '' @ tool_name @ '' is not registered'')), s)
      else case dict_get (sn_source_owners s) tool_name of
        Some owner \<Rightarrow> (Inl (managed_error tool_name owner), s)
      | None \<Rightarrow>
          (Inr (), s\<lparr>sn_tools := dict_pop tool_name (sn_tools s),
                     sn_executors := dict_pop tool_name (sn_executors s),
                     sn_preflight_policies := dict_pop tool_name (sn_preflight_policies s)\<rparr>))"

text \<open>The two loops of \<open>replace_source\<close>: first drop what the source owned, then add its tools.\<close>

definition drop_tool :: "string \<Rightarrow> 'x tool_snapshot \<Rightarrow> 'x tool_snapshot" where
  "drop_tool name s =
     s\<lparr>sn_tools := dict_pop name (sn_tools s),
       sn_executors := dict_pop name (sn_executors s),
       sn_preflight_policies := dict_pop name (sn_preflight_policies s),
       sn_source_owners := dict_pop name (sn_source_owners s)\<rparr>"

definition add_owned :: "string \<Rightarrow> 'x tool_registration \<Rightarrow> 'x tool_snapshot \<Rightarrow> 'x tool_snapshot" where
  "add_owned source_id r s =
     (let name = td_name (rg_tool r)
      in s\<lparr>sn_tools := dict_set name (rg_tool r) (sn_tools s),
           sn_executors := dict_set name (rg_executor r) (sn_executors s),
           sn_preflight_policies := set_or_pop name (rg_preflight_policy r) (sn_preflight_policies s),
           sn_source_owners := dict_set name source_id (sn_source_owners s)\<rparr>)"

definition owned_names :: "string \<Rightarrow> 'x tool_snapshot \<Rightarrow> string list" where
  "owned_names source_id s =
     map fst (filter (\<lambda>(name, owner). owner = source_id) (sn_source_owners s))"

definition source_conflicts :: "string \<Rightarrow> string list \<Rightarrow> 'x tool_snapshot \<Rightarrow> string list" where
  "source_conflicts source_id names s =
     filter (\<lambda>name. dict_has (sn_tools s) name
                  \<and> dict_get (sn_source_owners s) name \<noteq> Some source_id) names"

definition tool_replace_source ::
  "string \<Rightarrow> 'x tool_registration list \<Rightarrow> (error, 'x tool_snapshot, unit) act" where
  "tool_replace_source source_id registrations s =
     (let names = map (\<lambda>r. td_name (rg_tool r)) registrations;
          conflicts = source_conflicts source_id names s
      in if source_id = []
         then (Inl (raised (Tool ToolStateError) ''The tool source id must not be empty''), s)
         else if length names \<noteq> card (set names)
         then (Inl (raised (Tool ToolStateError)
                 (''The tool source '' @ source_id @ '' contains duplicate tool names'')), s)
         else if conflicts \<noteq> []
         then (Inl (raised_detail (Tool ToolStateError)
                 (''The tool source '' @ source_id @ '' conflicts with registered tools'')
                 (join '', '' (sort conflicts))), s)
         else (Inr (), fold (add_owned source_id) registrations
                         (fold drop_tool (owned_names source_id s) s)))"

definition tool_get :: "string \<Rightarrow> 'x tool_snapshot \<Rightarrow> error + tool_definition" where
  "tool_get tool_name s =
     (case (tool_has tool_name s, dict_get (sn_tools s) tool_name) of
        (True, Some t) \<Rightarrow> Inr t
      | _ \<Rightarrow> Inl (raised (Tool ToolNotFoundError) (''The tool '' @ tool_name @ '' is not found'')))"

definition tool_get_executor :: "string \<Rightarrow> 'x tool_snapshot \<Rightarrow> error + 'x" where
  "tool_get_executor tool_name s =
     (case (tool_has tool_name s, dict_get (sn_executors s) tool_name) of
        (True, Some x) \<Rightarrow> Inr x
      | _ \<Rightarrow> Inl (raised (Tool ToolNotFoundError)
               (''The tool '' @ tool_name @ '' is not registered'')))"

definition tool_get_preflight_policy ::
  "string \<Rightarrow> 'x tool_snapshot \<Rightarrow> error + tool_preflight option" where
  "tool_get_preflight_policy tool_name s =
     bind_e (tool_get tool_name s) (\<lambda>_. Inr (dict_get (sn_preflight_policies s) tool_name))"

definition list_tools :: "'x tool_snapshot \<Rightarrow> tool_definition list" where
  "list_tools s = dict_values (sn_tools s)"

section \<open>The policy store\<close>

type_synonym tool_policies = "(string option \<times> string, tool_access_mode) dict"

definition policy_key :: "string \<Rightarrow> principal_scope option \<Rightarrow> string option \<times> string" where
  "policy_key tool_name scope =
     (case scope of None \<Rightarrow> None | Some s \<Rightarrow> scope_owner_id s, tool_name)"

definition policy_get :: "string \<Rightarrow> principal_scope option \<Rightarrow> tool_policies \<Rightarrow> tool_access_mode option" where
  "policy_get tool_name scope ps = dict_get ps (policy_key tool_name scope)"

definition policy_set ::
  "string \<Rightarrow> tool_access_mode \<Rightarrow> principal_scope option \<Rightarrow> tool_policies \<Rightarrow> tool_policies" where
  "policy_set tool_name mode scope ps = dict_set (policy_key tool_name scope) mode ps"

definition policy_delete :: "string \<Rightarrow> principal_scope option \<Rightarrow> tool_policies \<Rightarrow> tool_policies" where
  "policy_delete tool_name scope ps = dict_pop (policy_key tool_name scope) ps"

lemma policy_get_set:
  "policy_get n scope (policy_set n' m scope' ps) =
     (if policy_key n scope = policy_key n' scope' then Some m else policy_get n scope ps)"
  by (simp add: policy_get_def policy_set_def)

lemma policy_get_delete:
  "policy_get n scope (policy_delete n' scope' ps) =
     (if policy_key n scope = policy_key n' scope' then None else policy_get n scope ps)"
  by (simp add: policy_get_def policy_delete_def)

section \<open>The invariant of the register\<close>

definition snapshot_ok :: "'x tool_snapshot \<Rightarrow> bool" where
  "snapshot_ok s \<longleftrightarrow>
     dict_ok (sn_tools s) \<and> dict_ok (sn_executors s) \<and> dict_ok (sn_preflight_policies s)
   \<and> dict_ok (sn_source_owners s)
   \<and> (\<forall>n. dict_has (sn_executors s) n \<longleftrightarrow> dict_has (sn_tools s) n)
   \<and> (\<forall>n. dict_has (sn_preflight_policies s) n \<longrightarrow> dict_has (sn_tools s) n)
   \<and> (\<forall>n. dict_has (sn_source_owners s) n \<longrightarrow> dict_has (sn_tools s) n)
   \<and> (\<forall>n t. dict_get (sn_tools s) n = Some t \<longrightarrow> td_name t = n)"

lemma snapshot_ok_empty: "snapshot_ok empty_snapshot"
  by (simp add: snapshot_ok_def empty_snapshot_def)

lemma dict_has_set_or_pop [simp]:
  "dict_has (set_or_pop k v d) k' \<longleftrightarrow> (if k' = k then v \<noteq> None else dict_has d k')"
  by (auto simp: set_or_pop_def split: option.split)

lemma dict_get_set_or_pop [simp]:
  "dict_get (set_or_pop k v d) k' = (if k' = k then v else dict_get d k')"
  by (auto simp: set_or_pop_def split: option.split)

lemma dict_ok_set_or_pop [simp]: "dict_ok d \<Longrightarrow> dict_ok (set_or_pop k v d)"
  by (simp add: set_or_pop_def split: option.split)

lemma snapshot_ok_drop_tool: "snapshot_ok s \<Longrightarrow> snapshot_ok (drop_tool n s)"
  by (simp add: snapshot_ok_def drop_tool_def)

lemma snapshot_ok_add_owned: "snapshot_ok s \<Longrightarrow> snapshot_ok (add_owned source_id r s)"
  by (simp add: snapshot_ok_def add_owned_def Let_def)

lemma snapshot_ok_fold_drop: "snapshot_ok s \<Longrightarrow> snapshot_ok (fold drop_tool ns s)"
  by (induction ns arbitrary: s) (simp_all add: snapshot_ok_drop_tool)

lemma snapshot_ok_fold_add: "snapshot_ok s \<Longrightarrow> snapshot_ok (fold (add_owned source_id) rs s)"
  by (induction rs arbitrary: s) (simp_all add: snapshot_ok_add_owned)

lemma snapshot_ok_register:
  "snapshot_ok s \<Longrightarrow> snapshot_ok (snd (tool_register tool executor preflight s))"
  by (simp add: tool_register_def snapshot_ok_def split: option.split)

lemma snapshot_ok_unregister:
  assumes "snapshot_ok s"
  shows "snapshot_ok (snd (tool_unregister name s))"
proof (cases "dict_get (sn_source_owners s) name")
  case None
  then have "\<not> dict_has (sn_source_owners s) name"
    by (simp add: dict_has_def)
  with assms None show ?thesis
    by (auto simp: tool_unregister_def snapshot_ok_def)
next
  case (Some owner)
  with assms show ?thesis
    by (simp add: tool_unregister_def)
qed

lemma snapshot_ok_replace_source:
  "snapshot_ok s \<Longrightarrow> snapshot_ok (snd (tool_replace_source source_id rs s))"
  by (simp add: tool_replace_source_def Let_def snapshot_ok_fold_add snapshot_ok_fold_drop)

lemma tool_has_iff: "snapshot_ok s \<Longrightarrow> tool_has n s \<longleftrightarrow> dict_has (sn_tools s) n"
  by (simp add: tool_has_def snapshot_ok_def)

lemma tool_get_Inr: "snapshot_ok s \<Longrightarrow> tool_get n s = Inr t \<longleftrightarrow> dict_get (sn_tools s) n = Some t"
  by (auto simp: tool_get_def tool_has_iff dict_has_def split: option.split bool.split)

lemma tool_get_executor_ex:
  "snapshot_ok s \<Longrightarrow> tool_get n s = Inr t \<Longrightarrow> \<exists>x. tool_get_executor n s = Inr x"
  by (auto simp: tool_get_Inr tool_get_executor_def tool_has_def snapshot_ok_def dict_has_def
      split: option.split bool.split)

section \<open>The register as a map\<close>

text \<open>
  What a client sees of the register: a map from names to entries.  The four dictionaries refine
  it, and the three operations that change the register are updates of the map.
\<close>

record 'x tool_entry =
  en_tool :: tool_definition
  en_executor :: "'x option"
  en_preflight :: "tool_preflight option"
  en_owner :: "string option"

definition entry :: "'x tool_snapshot \<Rightarrow> string \<Rightarrow> 'x tool_entry option" where
  "entry s n = map_option (\<lambda>t. \<lparr>en_tool = t, en_executor = dict_get (sn_executors s) n,
      en_preflight = dict_get (sn_preflight_policies s) n,
      en_owner = dict_get (sn_source_owners s) n\<rparr>) (dict_get (sn_tools s) n)"

definition entry_of :: "string option \<Rightarrow> 'x tool_registration \<Rightarrow> 'x tool_entry" where
  "entry_of owner r = \<lparr>en_tool = rg_tool r, en_executor = Some (rg_executor r),
      en_preflight = rg_preflight_policy r, en_owner = owner\<rparr>"

definition owned_by :: "string \<Rightarrow> 'x tool_entry option \<Rightarrow> bool" where
  "owned_by source_id e \<longleftrightarrow> (\<exists>x. e = Some x \<and> en_owner x = Some source_id)"

text \<open>Replacing a source: its old tools go, the given ones come, every other entry stays.\<close>

definition replace_spec ::
  "string \<Rightarrow> 'x tool_registration list \<Rightarrow> (string \<Rightarrow> 'x tool_entry option) \<Rightarrow> string \<Rightarrow> 'x tool_entry option"
  where
  "replace_spec source_id rs m n =
     (case find (\<lambda>r. td_name (rg_tool r) = n) rs of
        Some r \<Rightarrow> Some (entry_of (Some source_id) r)
      | None \<Rightarrow> if owned_by source_id (m n) then None else m n)"

lemma entry_drop_tool: "entry (drop_tool k s) n = (if n = k then None else entry s n)"
  by (simp add: entry_def drop_tool_def)

lemma entry_fold_drop: "entry (fold drop_tool ks s) n = (if n \<in> set ks then None else entry s n)"
  by (induction ks arbitrary: s) (simp_all add: entry_drop_tool)

lemma entry_add_owned:
  "entry (add_owned source_id r s) n =
     (if n = td_name (rg_tool r) then Some (entry_of (Some source_id) r) else entry s n)"
  by (simp add: entry_def add_owned_def entry_of_def Let_def)

lemma entry_fold_add:
  assumes "distinct (map (\<lambda>r. td_name (rg_tool r)) rs)"
  shows "entry (fold (add_owned source_id) rs s) n =
     (case find (\<lambda>r. td_name (rg_tool r) = n) rs of
        Some r \<Rightarrow> Some (entry_of (Some source_id) r) | None \<Rightarrow> entry s n)"
  using assms
proof (induction rs arbitrary: s)
  case Nil
  then show ?case by simp
next
  case (Cons r rs)
  have "find (\<lambda>r'. td_name (rg_tool r') = td_name (rg_tool r)) rs = None"
    using Cons.prems by (force simp: find_None_iff image_iff)
  then show ?case
    using Cons by (auto simp: entry_add_owned split: option.split)
qed

lemma owned_by_entry:
  "snapshot_ok s \<Longrightarrow> owned_by source_id (entry s n) \<longleftrightarrow> dict_get (sn_source_owners s) n = Some source_id"
  by (auto simp: owned_by_def entry_def snapshot_ok_def dict_has_def)

lemma set_owned_names:
  "snapshot_ok s \<Longrightarrow> n \<in> set (owned_names source_id s) \<longleftrightarrow> owned_by source_id (entry s n)"
proof -
  assume ok: "snapshot_ok s"
  then have "dict_ok (sn_source_owners s)" by (simp add: snapshot_ok_def)
  then have "n \<in> set (owned_names source_id s) \<longleftrightarrow> dict_get (sn_source_owners s) n = Some source_id"
    by (force simp: owned_names_def dict_items_iff)
  with ok show ?thesis by (simp add: owned_by_entry)
qed

lemma replace_source_refines:
  assumes "snapshot_ok s" and "fst (tool_replace_source source_id rs s) = Inr ()"
  shows "entry (snd (tool_replace_source source_id rs s)) = replace_spec source_id rs (entry s)"
proof
  fix n
  have "distinct (map (\<lambda>r. td_name (rg_tool r)) rs)"
    using assms(2) by (auto simp: tool_replace_source_def Let_def card_distinct split: if_splits)
  then show "entry (snd (tool_replace_source source_id rs s)) n = replace_spec source_id rs (entry s) n"
    using assms
    by (auto simp: tool_replace_source_def Let_def replace_spec_def entry_fold_add entry_fold_drop
        set_owned_names split: if_splits option.split)
qed

lemma replace_source_error_unchanged:
  "fst (tool_replace_source source_id rs s) = Inl e \<Longrightarrow> snd (tool_replace_source source_id rs s) = s"
  by (auto simp: tool_replace_source_def Let_def split: if_splits)

text \<open>No operation of another party changes a tool that a source owns.\<close>

lemma register_keeps_owned:
  "dict_get (sn_source_owners s) n \<noteq> None \<Longrightarrow> entry (snd (tool_register t x p s)) n = entry s n"
  by (auto simp: tool_register_def entry_def split: option.split)

lemma unregister_keeps_owned:
  "dict_get (sn_source_owners s) n \<noteq> None \<Longrightarrow> entry (snd (tool_unregister m s)) n = entry s n"
  by (auto simp: tool_unregister_def entry_def split: option.split)

lemma replace_source_keeps_others:
  assumes ok: "snapshot_ok s" and has: "dict_has (sn_tools s) n"
    and other: "dict_get (sn_source_owners s) n \<noteq> Some source_id"
  shows "entry (snd (tool_replace_source source_id rs s)) n = entry s n"
proof (cases "fst (tool_replace_source source_id rs s)")
  case (Inl e)
  then show ?thesis by (simp add: replace_source_error_unchanged)
next
  case (Inr u)
  then have "source_conflicts source_id (map (\<lambda>r. td_name (rg_tool r)) rs) s = []"
    by (auto simp: tool_replace_source_def Let_def split: if_splits)
  then have "find (\<lambda>r. td_name (rg_tool r) = n) rs = None"
    using has other by (auto simp: source_conflicts_def filter_empty_conv find_None_iff)
  then show ?thesis
    using replace_source_refines [OF ok, of source_id rs] Inr ok other
    by (simp add: replace_spec_def owned_by_entry)
qed

section \<open>Reachable registers and the properties of the component\<close>

inductive tool_reachable :: "'x tool_snapshot \<Rightarrow> bool" where
  start: "tool_reachable empty_snapshot"
| register: "tool_reachable s \<Longrightarrow> tool_reachable (snd (tool_register t x p s))"
| unregister: "tool_reachable s \<Longrightarrow> tool_reachable (snd (tool_unregister n s))"
| replace_source: "tool_reachable s \<Longrightarrow> tool_reachable (snd (tool_replace_source source_id rs s))"

lemma tool_reachable_ok: "tool_reachable s \<Longrightarrow> snapshot_ok s"
  by (induction rule: tool_reachable.induct)
    (simp_all add: snapshot_ok_empty snapshot_ok_register snapshot_ok_unregister
      snapshot_ok_replace_source)

lemma list_tools_iff: "snapshot_ok s \<Longrightarrow> t \<in> set (list_tools s) \<longleftrightarrow> tool_get (td_name t) s = Inr t"
  by (auto simp: list_tools_def tool_get_Inr dict_values_iff snapshot_ok_def)

text \<open>A tool to evaluate the properties on.\<close>

definition sample_tool :: "string \<Rightarrow> tool_permission list \<Rightarrow> tool_definition" where
  "sample_tool name ps =
     \<lparr>td_name = name, td_description = [], td_parameters_schema = None, td_permissions = ps,
      td_safety_level = Level_SAFE, td_requires_approval = False, td_approval_mode = Mode_AUTO,
      td_replay_policy = Replay_NON_REPLAYABLE, td_idempotency_key_parameter = None,
      td_metadata = []\<rparr>"

definition sample_register :: "nat tool_snapshot" where
  "sample_register = snd (tool_register (sample_tool ''ls'' [Perm_READ]) 7 None empty_snapshot)"

lemma sample_register_reachable: "tool_reachable sample_register"
  unfolding sample_register_def by (intro tool_reachable.intros)

text \<open>The four dictionaries of the tool register stay consistent under any sequence of register,
  unregister and replace_source calls, successful or not: a name is registered exactly when its
  definition can be read, and every listed tool can be read back under its own name and has an
  executor.\<close>

theorem register_consistent:
  assumes "tool_reachable s"
  shows "snapshot_ok s \<and> (\<forall>n. tool_has n s = (\<exists>t. tool_get n s = Inr t))
    \<and> set (list_tools s) = {t. tool_get (td_name t) s = Inr t \<and> (\<exists>x. tool_get_executor (td_name t) s = Inr x)}"
proof -
  have ok: "snapshot_ok s" using assms by (rule tool_reachable_ok)
  moreover have "tool_has n s = (\<exists>t. tool_get n s = Inr t)" for n
    using ok by (simp add: tool_has_iff tool_get_Inr dict_has_def)
  moreover have "set (list_tools s)
      = {t. tool_get (td_name t) s = Inr t \<and> (\<exists>x. tool_get_executor (td_name t) s = Inr x)}"
    using tool_get_executor_ex [OF ok] list_tools_iff [OF ok] by auto
  ultimately show ?thesis by simp
qed

theorem register_consistent_witness:
  "snapshot_ok sample_register \<and> set (list_tools sample_register) = {sample_tool ''ls'' [Perm_READ]}"
  using register_consistent [OF sample_register_reachable]
  by (auto simp: sample_register_def tool_register_def empty_snapshot_def list_tools_def
      dict_values_def sample_tool_def dict_set_def)

text \<open>A successful replace_source is exactly the update of the map of entries that its contract
  describes: the tools that the source owned are gone, the given registrations are there with the
  source as their owner, and every other entry is as before.\<close>

theorem replace_source_correct:
  assumes "tool_reachable s" and "fst (tool_replace_source source_id rs s) = Inr ()"
  shows "entry (snd (tool_replace_source source_id rs s)) = replace_spec source_id rs (entry s)"
  using assms by (intro replace_source_refines tool_reachable_ok)

definition sample_registration :: "nat tool_registration" where
  "sample_registration = \<lparr>rg_tool = sample_tool ''grep'' [Perm_READ], rg_executor = 8, rg_preflight_policy = None\<rparr>"

lemma sample_replace_ok: "fst (tool_replace_source ''mcp'' [sample_registration] sample_register) = Inr ()"
  by (simp add: tool_replace_source_def source_conflicts_def sample_registration_def sample_register_def
      tool_register_def empty_snapshot_def sample_tool_def dict_has_def set_or_pop_def)

theorem replace_source_correct_witness:
  "entry (snd (tool_replace_source ''mcp'' [sample_registration] sample_register)) ''grep''
     = Some (entry_of (Some ''mcp'') sample_registration)"
  using replace_source_correct [OF sample_register_reachable sample_replace_ok]
  by (simp add: replace_spec_def sample_registration_def sample_tool_def)

text \<open>Sources and users cannot take over each other's tools: replace_source leaves every tool that
  another source or a user registered as it was (a conflicting call changes nothing at all), and
  register and unregister leave every tool that a source owns as it was.\<close>

theorem sources_isolated:
  assumes "tool_reachable s" and "tool_has n s"
  shows "(dict_get (sn_source_owners s) n \<noteq> Some source_id \<longrightarrow>
            entry (snd (tool_replace_source source_id rs s)) n = entry s n)
    \<and> (dict_get (sn_source_owners s) n \<noteq> None \<longrightarrow>
            entry (snd (tool_register t x p s)) n = entry s n
            \<and> entry (snd (tool_unregister m s)) n = entry s n)"
proof -
  have ok: "snapshot_ok s" using assms(1) by (rule tool_reachable_ok)
  with assms(2) have has: "dict_has (sn_tools s) n" by (simp add: tool_has_iff)
  show ?thesis
    by (intro conjI impI replace_source_keeps_others [OF ok has] register_keeps_owned
        unregister_keeps_owned)
qed

theorem sources_isolated_witness:
  "entry (snd (tool_replace_source ''mcp'' [sample_registration] sample_register)) ''ls''
     = entry sample_register ''ls''"
  using sources_isolated [OF sample_register_reachable, of "''ls''" "''mcp''" "[sample_registration]"
      "sample_tool ''ls'' []" 0 None "''ls''"]
  by (simp add: sample_register_def tool_register_def empty_snapshot_def sample_tool_def tool_has_def)

end
