(* ===== verification/ToolManager.thy ===== *)
theory ToolManager
  imports ToolRegistry
begin

text \<open>
  The safety policy and the manager of tools (\<open>BasicToolSafetyPolicy\<close> and \<open>ToolManager\<close> in
  \<open>core/domain/tool.py\<close>): who may run which tool, with which arguments, and what the manager
  raises when a tool is rejected, fails or returns something that is not a dictionary.

  The manager talks to its safety policy through the locale \<open>tool_safety\<close>; the basic policy is
  its interpretation.  An executor is code outside this component: a function of the arguments
  and of a world of type \<open>'w\<close> that may change the world and may raise.
\<close>

section \<open>The basic safety policy\<close>

record basic_policy =
  bp_blocked :: "tool_permission list"
  bp_approval_required :: "tool_permission list"

definition default_policy :: basic_policy where
  "default_policy = \<lparr>bp_blocked = [Perm_SHELL, Perm_DESTRUCTIVE],
     bp_approval_required = [Perm_WRITE, Perm_PROCESS, Perm_NETWORK, Perm_DATABASE, Perm_EXTERNAL_API]\<rparr>"

definition or_default :: "string option \<Rightarrow> string \<Rightarrow> string" where
  "or_default s d = (case s of None \<Rightarrow> d | Some s \<Rightarrow> if s = [] then d else s)"

definition format_permissions :: "tool_permission list \<Rightarrow> string" where
  "format_permissions ps = join '', '' (sort (map permission_value ps))"

definition working_directory_metadata :: "tool_definition \<Rightarrow> tool_call \<Rightarrow> metadata" where
  "working_directory_metadata tool call =
     (if meta_flag (td_metadata tool) ''supports_working_directory''
         \<and> meta_get (tc_metadata call) ''working_directory'' \<noteq> PNone
      then [(''working_directory'', meta_get (tc_metadata call) ''working_directory'')]
      else [])"

definition approval_request :: "tool_definition \<Rightarrow> tool_call \<Rightarrow> tool_approval_request" where
  "approval_request tool call =
     \<lparr>ar_approval_id = tc_id call @ '':approval'', ar_tool_call_id = tc_id call,
      ar_tool_name = td_name tool, ar_tool_call = tc_call call,
      ar_permissions = td_permissions tool, ar_safety_level = td_safety_level tool,
      ar_reason = Some ''Tool call requires approval'',
      ar_metadata = working_directory_metadata tool call\<rparr>"

definition needs_approval :: "basic_policy \<Rightarrow> tool_definition \<Rightarrow> bool" where
  "needs_approval pol tool =
     (case td_approval_mode tool of
        Mode_REQUIRED \<Rightarrow> True
      | Mode_NEVER \<Rightarrow> False
      | Mode_AUTO \<Rightarrow> td_requires_approval tool \<or> td_safety_level tool \<noteq> Level_SAFE
          \<or> (\<exists>p \<in> set (td_permissions tool). p \<in> set (bp_approval_required pol)))"

definition call_approved :: "tool_call \<Rightarrow> bool" where
  "call_approved call \<longleftrightarrow>
     (case tc_approval call of
        None \<Rightarrow> False
      | Some a \<Rightarrow> ad_tool_call_id a = tc_id call \<and> ad_status a = Approval_APPROVED)
     \<or> meta_get (tc_metadata call) ''approved'' = PBool True"

definition call_refused :: "tool_call \<Rightarrow> tool_approval_decision option" where
  "call_refused call =
     (case tc_approval call of
        None \<Rightarrow> None
      | Some a \<Rightarrow> if ad_tool_call_id a = tc_id call
                  \<and> ad_status a \<in> {Approval_DENIED, Approval_EXPIRED} then Some a else None)"

definition status_reason :: "tool_approval_decision \<Rightarrow> string" where
  "status_reason a =
     or_default (ad_reason a) (''Tool approval '' @ approval_status_value (ad_status a))"

definition basic_authorize :: "basic_policy \<Rightarrow> tool_definition \<Rightarrow> tool_call \<Rightarrow> tool_safety_decision" where
  "basic_authorize pol tool call =
     (let blocked = filter (\<lambda>p. p \<in> set (bp_blocked pol)) (remdups (td_permissions tool));
          requires = needs_approval pol tool;
          approved = call_approved call
      in if blocked \<noteq> []
         then \<lparr>sd_allowed = False,
               sd_reason = Some (''Blocked permissions: '' @ format_permissions blocked),
               sd_requires_approval = False, sd_approval_request = None, sd_metadata = []\<rparr>
         else case call_refused call of
           Some a \<Rightarrow>
             \<lparr>sd_allowed = False, sd_reason = Some (status_reason a), sd_requires_approval = True,
              sd_approval_request = Some (approval_request tool call), sd_metadata = []\<rparr>
         | None \<Rightarrow>
             if requires \<and> \<not> approved
             then (case tc_approval call of
                 Some a \<Rightarrow>
                   \<lparr>sd_allowed = False, sd_reason = Some (status_reason a),
                    sd_requires_approval = True,
                    sd_approval_request = Some (approval_request tool call),
                    sd_metadata = [(''approval_status'', PStr (approval_status_value (ad_status a))),
                                   (''approval_id'', PStr (ad_approval_id a))]\<rparr>
               | None \<Rightarrow>
                   \<lparr>sd_allowed = False, sd_reason = Some ''Tool call requires approval'',
                    sd_requires_approval = True,
                    sd_approval_request = Some (approval_request tool call),
                    sd_metadata = working_directory_metadata tool call\<rparr>)
             else \<lparr>sd_allowed = True, sd_reason = None, sd_requires_approval = requires,
                   sd_approval_request =
                     (if requires then Some (approval_request tool call) else None),
                   sd_metadata = [(''policy'', PStr ''BasicToolSafetyPolicy''),
                                  (''approved'', PBool approved),
                                  (''approval_id'',
                                     (case tc_approval call of
                                        None \<Rightarrow> PNone | Some a \<Rightarrow> PStr (ad_approval_id a)))]\<rparr>)"

section \<open>The manager\<close>

text \<open>What an executor returns: a dictionary with keys of any type, or some other object.\<close>

datatype exec_object = ObjDict "(pyval \<times> pyval) list" | ObjOther pyval

type_synonym 'w tool_executor = "metadata \<Rightarrow> 'w \<Rightarrow> (error + exec_object) \<times> 'w"

type_synonym safety_policy = "tool_definition \<Rightarrow> tool_call \<Rightarrow> tool_safety_decision"

record 'x tool_manager =
  tm_register :: "'x tool_snapshot"
  tm_policy_store :: tool_policies

definition decision_mode :: "tool_safety_decision \<Rightarrow> tool_access_mode" where
  "decision_mode d =
     (if sd_allowed d then Access_ALLOW
      else if sd_requires_approval d then Access_ASK else Access_DENY)"

definition effective_definition ::
  "tool_definition \<Rightarrow> tool_access_mode option \<Rightarrow> tool_definition" where
  "effective_definition tool mode =
     (case mode of
        Some Access_ALLOW \<Rightarrow> tool\<lparr>td_approval_mode := Mode_NEVER, td_requires_approval := False\<rparr>
      | Some Access_ASK \<Rightarrow> tool\<lparr>td_approval_mode := Mode_REQUIRED, td_requires_approval := True\<rparr>
      | _ \<Rightarrow> tool)"

definition preview_call :: "tool_definition \<Rightarrow> principal_scope option \<Rightarrow> tool_call" where
  "preview_call tool scope =
     \<lparr>tc_id = ''policy-preview'',
      tc_call = [(''name'', PStr (td_name tool)), (''arguments'', PDict [])],
      tc_approval = None,
      tc_metadata = [(''owner_id'',
        of_str_opt (case scope of None \<Rightarrow> None | Some s \<Rightarrow> scope_owner_id s))]\<rparr>"

definition policy_summary ::
  "safety_policy \<Rightarrow> 'x tool_manager \<Rightarrow> tool_definition \<Rightarrow> principal_scope option \<Rightarrow> tool_policy_summary" where
  "policy_summary safety m tool scope =
     (let configured = policy_get (td_name tool) scope (tm_policy_store m);
          call = preview_call tool scope;
          default = safety tool call;
          effective = safety (effective_definition tool configured) call;
          mode = decision_mode effective
      in \<lparr>ps_tool = tool,
          ps_mode = (if configured = Some Access_DENY then Access_DENY else mode),
          ps_default_mode = decision_mode default,
          ps_configured_mode = configured,
          ps_blocked_reason =
            (if \<not> sd_allowed effective \<and> \<not> sd_requires_approval effective
             then sd_reason effective else None)\<rparr>)"

definition list_tool_policies ::
  "safety_policy \<Rightarrow> 'x tool_manager \<Rightarrow> principal_scope option \<Rightarrow> tool_policy_summary list" where
  "list_tool_policies safety m scope =
     map (\<lambda>tool. policy_summary safety m tool scope) (list_tools (tm_register m))"

definition manager_list_tools ::
  "safety_policy \<Rightarrow> 'x tool_manager \<Rightarrow> principal_scope option \<Rightarrow> tool_definition list" where
  "manager_list_tools safety m scope =
     map (\<lambda>setting. (effective_definition (ps_tool setting) (ps_configured_mode setting))
            \<lparr>td_requires_approval := (ps_mode setting = Access_ASK)\<rparr>)
       (filter (\<lambda>setting. ps_mode setting \<noteq> Access_DENY) (list_tool_policies safety m scope))"

definition set_tool_policy ::
  "safety_policy \<Rightarrow> string \<Rightarrow> tool_access_mode option \<Rightarrow> principal_scope option
     \<Rightarrow> (error, 'x tool_manager, tool_policy_summary) act" where
  "set_tool_policy safety tool_name mode scope m =
     (case tool_get tool_name (tm_register m) of
        Inl e \<Rightarrow> (Inl e, m)
      | Inr tool \<Rightarrow>
          (let m' = m\<lparr>tm_policy_store :=
                 (case mode of
                    None \<Rightarrow> policy_delete tool_name scope (tm_policy_store m)
                  | Some mode \<Rightarrow> policy_set tool_name mode scope (tm_policy_store m))\<rparr>
           in (Inr (policy_summary safety m' tool scope), m')))"

text \<open>\<open>tool_call.get("tool_name") or tool_call.get("name")\<close>, which must be a non-empty string.\<close>

definition get_tool_name :: "metadata \<Rightarrow> error + string" where
  "get_tool_name call =
     (let v = meta_get call ''tool_name'';
          name = if truthy v then v else meta_get call ''name''
      in case name of
           PStr s \<Rightarrow> if s = [] then Inl (raised (Tool ToolInputError)
                        ''The tool call must include a tool name'') else Inr s
         | _ \<Rightarrow> Inl (raised (Tool ToolInputError) ''The tool call must include a tool name''))"

definition get_arguments :: "metadata \<Rightarrow> error + metadata" where
  "get_arguments call =
     (let v = (case dict_get call ''arguments'' of
                 Some v \<Rightarrow> v
               | None \<Rightarrow> (case dict_get call ''args'' of Some v \<Rightarrow> v | None \<Rightarrow> PDict []))
      in case v of
           PDict d \<Rightarrow> Inr d
         | _ \<Rightarrow> Inl (raised (Tool ToolInputError)
                  ''The tool call arguments must be a dictionary''))"

definition execution_context :: "tool_call \<Rightarrow> pyval" where
  "execution_context call =
     PDict [(''owner_id'', meta_get (tc_metadata call) ''owner_id''),
            (''session_id'', meta_get (tc_metadata call) ''session_id''),
            (''run_id'', meta_get (tc_metadata call) ''run_id''),
            (''tool_call_id'', PStr (tc_id call))]"

definition execution_arguments :: "'x tool_manager \<Rightarrow> tool_call \<Rightarrow> error + metadata" where
  "execution_arguments m call =
     bind_e (get_arguments (tc_call call)) (\<lambda>arguments.
     bind_e (get_tool_name (tc_call call)) (\<lambda>tool_name.
     bind_e (tool_get tool_name (tm_register m)) (\<lambda>tool.
       let arguments =
             (if meta_flag (td_metadata tool) ''supports_execution_context''
              then dict_pop ''_idempotency_key''
                     (dict_set ''_execution_context'' (execution_context call) arguments)
              else arguments);
           directory = meta_get (tc_metadata call) ''working_directory''
       in Inr (if meta_flag (td_metadata tool) ''supports_working_directory''
               then (if directory \<noteq> PNone
                     then dict_set ''_working_directory'' directory
                            (dict_pop ''_working_directory'' arguments)
                     else dict_pop ''_working_directory'' arguments)
               else arguments))))"

text \<open>\<open>PrincipalScope(owner_id=call.metadata.get("owner_id"))\<close>: anything but a string is refused.\<close>

definition call_scope :: "tool_call \<Rightarrow> error + principal_scope" where
  "call_scope call =
     (case meta_get (tc_metadata call) ''owner_id'' of
        PNone \<Rightarrow> Inr \<lparr>scope_owner_id = None\<rparr>
      | PStr s \<Rightarrow> Inr \<lparr>scope_owner_id = Some s\<rparr>
      | _ \<Rightarrow> Inl (raised (PyException ''ValidationError'') ''owner_id''))"

definition disabled_decision :: tool_safety_decision where
  "disabled_decision =
     \<lparr>sd_allowed = False, sd_reason = Some ''Tool is disabled by your tool policy'',
      sd_requires_approval = False, sd_approval_request = None, sd_metadata = []\<rparr>"

text \<open>A preflight policy asked for approval: the call is judged as if the tool required it.\<close>

definition escalate ::
  "safety_policy \<Rightarrow> tool_definition \<Rightarrow> tool_call \<Rightarrow> tool_safety_decision \<Rightarrow> tool_safety_decision" where
  "escalate safety tool call preflight =
     (let decision = safety (effective_definition tool (Some Access_ASK)) call;
          decision = decision\<lparr>sd_approval_request := map_option
            (\<lambda>r. r\<lparr>ar_reason := sd_reason preflight,
                    ar_metadata := dict_merge (ar_metadata r) (sd_metadata preflight)\<rparr>)
            (sd_approval_request decision)\<rparr>
      in if \<not> sd_allowed decision \<and> sd_requires_approval decision
            \<and> (case tc_approval call of
                 None \<Rightarrow> True | Some a \<Rightarrow> ad_status a = Approval_REQUESTED)
         then decision\<lparr>sd_reason := sd_reason preflight\<rparr>
         else decision)"

definition manager_authorize ::
  "safety_policy \<Rightarrow> 'x tool_manager \<Rightarrow> tool_call \<Rightarrow> error + tool_safety_decision" where
  "manager_authorize safety m call =
     bind_e (get_tool_name (tc_call call)) (\<lambda>tool_name.
     bind_e (execution_arguments m call) (\<lambda>arguments.
     bind_e (tool_get tool_name (tm_register m)) (\<lambda>tool.
     bind_e (call_scope call) (\<lambda>scope.
       let mode = policy_get tool_name (Some scope) (tm_policy_store m)
       in if mode = Some Access_DENY then Inr disabled_decision
          else let tool = effective_definition tool mode
          in bind_e (tool_get_preflight_policy tool_name (tm_register m)) (\<lambda>preflight.
               case preflight of
                 None \<Rightarrow> Inr (safety tool call)
               | Some p \<Rightarrow> bind_e (p tool arguments) (\<lambda>pd.
                   case pd of
                     None \<Rightarrow> Inr (safety tool call)
                   | Some d \<Rightarrow>
                       if sd_allowed d then Inr (safety tool call)
                       else if \<not> sd_requires_approval d then Inr d
                       else Inr (escalate safety tool call d)))))))"

definition tool_policy_rejection :: "string \<Rightarrow> tool_safety_decision \<Rightarrow> error" where
  "tool_policy_rejection tool_name decision =
     Error (Tool ToolPolicyError) (''The tool '' @ tool_name @ '' call was rejected by policy'')
       (sd_reason decision) None"

definition add_idempotency_key :: "tool_definition \<Rightarrow> tool_call \<Rightarrow> metadata \<Rightarrow> metadata" where
  "add_idempotency_key tool call arguments =
     (case (td_idempotency_key_parameter tool, meta_get (tc_metadata call) ''idempotency_key'') of
        (Some parameter, PStr key) \<Rightarrow>
          if key = [] then arguments else dict_set parameter (PStr key) arguments
      | _ \<Rightarrow> arguments)"

definition execution_failure :: "string \<Rightarrow> error \<Rightarrow> error" where
  "execution_failure tool_name exc =
     (if isinstance (error_class exc) (Tool ToolExecutionError)
         \<or> isinstance (error_class exc) (Sandbox SandboxError)
      then Error (Tool ToolExecutionError)
             (''The tool '' @ tool_name @ '' execution failed: '' @ error_message exc)
             (error_detail exc) (Some exc)
      else Error (Tool ToolExecutionError) (''The tool '' @ tool_name @ '' execution failed'')
             None (Some exc))"

fun str_keys :: "(pyval \<times> pyval) list \<Rightarrow> metadata option" where
  "str_keys [] = Some []"
| "str_keys ((PStr k, v) # kvs) = map_option (Cons (k, v)) (str_keys kvs)"
| "str_keys (_ # kvs) = None"

definition validate_result :: "string \<Rightarrow> exec_object \<Rightarrow> error + metadata" where
  "validate_result tool_name result =
     (case result of
        ObjOther _ \<Rightarrow> Inl (raised (Tool ToolResultError)
                        (''The tool '' @ tool_name @ '' result must be a dictionary''))
      | ObjDict kvs \<Rightarrow>
          (case str_keys kvs of
             None \<Rightarrow> Inl (raised (Tool ToolResultError)
                        (''The tool '' @ tool_name @ '' result keys must be strings''))
           | Some d \<Rightarrow> Inr d))"

text \<open>What \<open>execute\<close> does before it calls the executor: the name, the executor, its arguments.\<close>

definition prepare_execution ::
  "safety_policy \<Rightarrow> 'x tool_manager \<Rightarrow> tool_call \<Rightarrow> error + string \<times> 'x \<times> metadata" where
  "prepare_execution safety m call =
     bind_e (get_tool_name (tc_call call)) (\<lambda>tool_name.
     bind_e (execution_arguments m call) (\<lambda>arguments.
     bind_e (manager_authorize safety m call) (\<lambda>decision.
       if \<not> sd_allowed decision then Inl (tool_policy_rejection tool_name decision)
       else bind_e (tool_get tool_name (tm_register m)) (\<lambda>tool.
            bind_e (tool_get_executor tool_name (tm_register m)) (\<lambda>executor.
              Inr (tool_name, executor, add_idempotency_key tool call arguments))))))"

definition manager_execute ::
  "safety_policy \<Rightarrow> 'w tool_executor tool_manager \<Rightarrow> tool_call \<Rightarrow> (error, 'w, tool_call_result) act" where
  "manager_execute safety m call w =
     (case prepare_execution safety m call of
        Inl e \<Rightarrow> (Inl e, w)
      | Inr (tool_name, executor, arguments) \<Rightarrow>
          (case executor arguments w of
             (Inl exc, w') \<Rightarrow> (Inl (execution_failure tool_name exc), w')
           | (Inr result, w') \<Rightarrow>
               (case validate_result tool_name result of
                  Inl e \<Rightarrow> (Inl e, w')
                | Inr d \<Rightarrow> (Inr \<lparr>tr_id = tc_id call, tr_result = d, tr_metadata = []\<rparr>, w'))))"

section \<open>The interface to a safety policy\<close>

text \<open>
  What the manager relies on.  \<open>blocked\<close> are the permissions that no approval can unlock; a tool
  that requires approval is not allowed without one; and a rejection that an approval could lift
  carries the request to approve, made out to the tool and the call.
\<close>

lemma effective_permissions [simp]:
  "td_permissions (effective_definition t mode) = td_permissions t"
  by (simp add: effective_definition_def split: option.split tool_access_mode.split)

lemma effective_name [simp]: "td_name (effective_definition t mode) = td_name t"
  by (simp add: effective_definition_def split: option.split tool_access_mode.split)

lemma effective_ask_mode [simp]:
  "td_approval_mode (effective_definition t (Some Access_ASK)) = Mode_REQUIRED"
  by (simp add: effective_definition_def)

lemma escalate_sel [simp]:
  "sd_allowed (escalate authorize t call d) =
     sd_allowed (authorize (effective_definition t (Some Access_ASK)) call)"
  "sd_requires_approval (escalate authorize t call d) =
     sd_requires_approval (authorize (effective_definition t (Some Access_ASK)) call)"
  "sd_approval_request (escalate authorize t call d) = map_option
     (\<lambda>r. r\<lparr>ar_reason := sd_reason d, ar_metadata := dict_merge (ar_metadata r) (sd_metadata d)\<rparr>)
     (sd_approval_request (authorize (effective_definition t (Some Access_ASK)) call))"
  by (simp_all add: escalate_def Let_def)

text \<open>What \<open>authorize\<close> answers once the name, the tool and the owner's mode are known.\<close>

definition decide ::
  "safety_policy \<Rightarrow> tool_definition \<Rightarrow> tool_access_mode option \<Rightarrow> tool_preflight option
     \<Rightarrow> metadata \<Rightarrow> tool_call \<Rightarrow> error + tool_safety_decision" where
  "decide safety tool mode preflight arguments call =
     (if mode = Some Access_DENY then Inr disabled_decision
      else let tool = effective_definition tool mode
      in case preflight of
           None \<Rightarrow> Inr (safety tool call)
         | Some p \<Rightarrow> bind_e (p tool arguments) (\<lambda>pd.
             case pd of
               None \<Rightarrow> Inr (safety tool call)
             | Some d \<Rightarrow>
                 if sd_allowed d then Inr (safety tool call)
                 else if \<not> sd_requires_approval d then Inr d
                 else Inr (escalate safety tool call d)))"

lemma manager_authorize_Inr:
  assumes "manager_authorize authorize m call = Inr d"
  obtains name args t scope where
    "get_tool_name (tc_call call) = Inr name" "execution_arguments m call = Inr args"
    "tool_get name (tm_register m) = Inr t" "call_scope call = Inr scope"
    "decide authorize t (policy_get name (Some scope) (tm_policy_store m))
       (dict_get (sn_preflight_policies (tm_register m)) name) args call = Inr d"
proof -
  from assms obtain name args t scope where *:
    "get_tool_name (tc_call call) = Inr name" "execution_arguments m call = Inr args"
    "tool_get name (tm_register m) = Inr t" "call_scope call = Inr scope"
    unfolding manager_authorize_def bind_e_eq_Inr by blast
  with assms have
    "decide authorize t (policy_get name (Some scope) (tm_policy_store m))
       (dict_get (sn_preflight_policies (tm_register m)) name) args call = Inr d"
    by (auto simp: manager_authorize_def decide_def tool_get_preflight_policy_def Let_def
        split: if_splits)
  with * show thesis by (rule that)
qed

text \<open>The four ways in which the manager can answer.\<close>

lemma decide_cases:
  assumes "decide authorize t mode preflight args call = Inr d"
  obtains (disabled) "mode = Some Access_DENY" "d = disabled_decision"
    | (policy) "mode \<noteq> Some Access_DENY" "d = authorize (effective_definition t mode) call"
        "\<And>p pd. preflight = Some p \<Longrightarrow> p (effective_definition t mode) args = Inr (Some pd)
            \<Longrightarrow> sd_allowed pd"
    | (preflight) "mode \<noteq> Some Access_DENY" "\<not> sd_allowed d" "\<not> sd_requires_approval d"
    | (escalated) p pd where "mode \<noteq> Some Access_DENY" "preflight = Some p"
        "p (effective_definition t mode) args = Inr (Some pd)"
        "\<not> sd_allowed pd" "sd_requires_approval pd"
        "d = escalate authorize (effective_definition t mode) call pd"
proof (cases "mode = Some Access_DENY")
  case True
  with assms show thesis by (intro disabled) (simp_all add: decide_def)
next
  case mode: False
  let ?t = "effective_definition t mode"
  show thesis
  proof (cases preflight)
    case None
    with assms mode show thesis by (intro policy) (simp_all add: decide_def)
  next
    case (Some p)
    with assms mode obtain pd where pd: "p ?t args = Inr pd"
      by (auto simp: decide_def Let_def bind_e_eq_Inr)
    show thesis
    proof (cases pd)
      case None
      with assms mode Some pd show thesis by (intro policy) (simp_all add: decide_def)
    next
      case (Some d')
      with assms mode \<open>preflight = Some p\<close> pd show thesis
        by (cases "sd_allowed d'"; cases "sd_requires_approval d'")
          (auto simp: decide_def Let_def intro: policy preflight escalated)
    qed
  qed
qed

lemma execute_refused:
  assumes "\<And>d. manager_authorize authorize m call = Inr d \<Longrightarrow> \<not> sd_allowed d"
  shows "\<exists>e. manager_execute authorize m call w = (Inl e, w)"
proof -
  have "\<exists>e. prepare_execution authorize m call = Inl e"
    using assms by (auto simp: prepare_execution_def bind_e_def split: sum.split)
  then show ?thesis by (auto simp: manager_execute_def)
qed

locale tool_safety =
  fixes authorize :: safety_policy
    and blocked :: "tool_permission \<Rightarrow> bool"
  assumes blocked_denied:
      "p \<in> set (td_permissions t) \<Longrightarrow> blocked p \<Longrightarrow> \<not> sd_allowed (authorize t call)"
    and required_needs_approval:
      "td_approval_mode t = Mode_REQUIRED \<Longrightarrow> \<not> call_approved call \<Longrightarrow> \<not> sd_allowed (authorize t call)"
    and pending_has_request:
      "\<not> sd_allowed (authorize t call) \<Longrightarrow> sd_requires_approval (authorize t call)
         \<Longrightarrow> sd_approval_request (authorize t call) \<noteq> None"
    and request_of_call:
      "sd_approval_request (authorize t call) = Some r
         \<Longrightarrow> ar_tool_call_id r = tc_id call \<and> ar_tool_name r = td_name t"
begin

lemma decide_blocked:
  assumes "decide authorize t mode preflight args call = Inr d"
    and "p \<in> set (td_permissions t)" "blocked p"
  shows "\<not> sd_allowed d"
  using assms(1)
proof (cases rule: decide_cases)
  case disabled
  then show ?thesis by (simp add: disabled_decision_def)
next
  case policy
  with assms(2,3) show ?thesis
    using blocked_denied [of p "effective_definition t mode" call] by simp
next
  case (escalated p' pd)
  let ?t = "effective_definition (effective_definition t mode) (Some Access_ASK)"
  from escalated assms(2,3) show ?thesis
    using blocked_denied [of p ?t call] by simp
qed

text \<open>Every rejection that an approval could lift tells the caller what to approve.\<close>

lemma decide_pending:
  assumes "decide authorize t mode preflight args call = Inr d"
    and "\<not> sd_allowed d" "sd_requires_approval d"
  shows "\<exists>r. sd_approval_request d = Some r \<and> ar_tool_call_id r = tc_id call
           \<and> ar_tool_name r = td_name t"
  using assms(1)
proof (cases rule: decide_cases)
  case disabled
  with assms(3) show ?thesis by (simp add: disabled_decision_def)
next
  case policy
  with assms(2,3) obtain r where r: "sd_approval_request d = Some r"
    using pending_has_request [of "effective_definition t mode" call] by auto
  with policy show ?thesis
    using request_of_call [of "effective_definition t mode" call r] by simp
next
  case preflight
  with assms(3) show ?thesis by simp
next
  case (escalated p' pd)
  let ?t = "effective_definition (effective_definition t mode) (Some Access_ASK)"
  from escalated assms(2,3) obtain r where r: "sd_approval_request (authorize ?t call) = Some r"
    using pending_has_request [of ?t call] by auto
  from request_of_call [OF r] escalated show ?thesis by (simp add: r)
qed

text \<open>
  The owner's own setting for a tool is not weakened by the tool's definition, by its preflight
  policy or by the safety policy.
\<close>

lemma decide_ask:
  assumes "decide authorize t (Some Access_ASK) preflight args call = Inr d"
    and "\<not> call_approved call"
  shows "\<not> sd_allowed d"
  using assms(1)
proof (cases rule: decide_cases)
  case policy
  with assms(2) show ?thesis
    using required_needs_approval [of "effective_definition t (Some Access_ASK)" call] by simp
next
  case (escalated p' pd)
  let ?t = "effective_definition (effective_definition t (Some Access_ASK)) (Some Access_ASK)"
  from escalated assms(2) show ?thesis
    using required_needs_approval [of ?t call] by simp
qed simp_all

text \<open>A preflight policy that refuses is final; one that asks for approval is obeyed.\<close>

lemma decide_preflight:
  assumes "decide authorize t mode (Some p) args call = Inr d"
    and "p (effective_definition t mode) args = Inr (Some pd)" and "\<not> sd_allowed pd"
    and "\<not> sd_requires_approval pd \<or> \<not> call_approved call"
  shows "\<not> sd_allowed d"
  using assms(1)
proof (cases rule: decide_cases)
  case disabled
  then show ?thesis by (simp add: disabled_decision_def)
next
  case policy
  with assms(2,3) show ?thesis by auto
next
  case (escalated p' pd')
  let ?t = "effective_definition (effective_definition t mode) (Some Access_ASK)"
  from escalated assms(2,4) have "\<not> call_approved call" by auto
  with escalated show ?thesis
    using required_needs_approval [of ?t call] by simp
qed

end

section \<open>The basic policy is a safety policy\<close>

lemma basic_allowed_iff:
  fixes t :: tool_definition
  shows "sd_allowed (basic_authorize pol t call) \<longleftrightarrow>
     (\<forall>p \<in> set (td_permissions t). p \<notin> set (bp_blocked pol)) \<and> call_refused call = None
     \<and> (needs_approval pol t \<longrightarrow> call_approved call)"
  by (auto simp: basic_authorize_def Let_def filter_empty_conv split: option.split)

interpretation basic: tool_safety "basic_authorize pol" "\<lambda>p. p \<in> set (bp_blocked pol)" for pol
proof
  fix p call and t :: tool_definition
  assume "p \<in> set (td_permissions t)" and "p \<in> set (bp_blocked pol)"
  then show "\<not> sd_allowed (basic_authorize pol t call)"
    by (auto simp: basic_allowed_iff)
next
  fix call and t :: tool_definition
  assume "td_approval_mode t = Mode_REQUIRED" and "\<not> call_approved call"
  then show "\<not> sd_allowed (basic_authorize pol t call)"
    by (simp add: basic_allowed_iff needs_approval_def)
next
  fix call and t :: tool_definition
  assume "\<not> sd_allowed (basic_authorize pol t call)"
    and "sd_requires_approval (basic_authorize pol t call)"
  then show "sd_approval_request (basic_authorize pol t call) \<noteq> None"
    by (auto simp: basic_authorize_def Let_def split: if_splits option.splits)
next
  fix call r and t :: tool_definition
  assume "sd_approval_request (basic_authorize pol t call) = Some r"
  then show "ar_tool_call_id r = tc_id call \<and> ar_tool_name r = td_name t"
    by (auto simp: basic_authorize_def approval_request_def Let_def split: if_splits option.splits)
qed

section \<open>The properties of the component\<close>

lemma execute_ok_iff:
  "manager_execute safety m call w = (Inr r, w') \<longleftrightarrow>
     (\<exists>name x args kvs d. prepare_execution safety m call = Inr (name, x, args)
        \<and> x args w = (Inr (ObjDict kvs), w') \<and> str_keys kvs = Some d
        \<and> r = \<lparr>tr_id = tc_id call, tr_result = d, tr_metadata = []\<rparr>)"
  by (auto simp: manager_execute_def validate_result_def split: sum.splits exec_object.splits option.splits
      prod.splits)

lemma prepare_ok:
  assumes "prepare_execution safety m call = Inr (name, x, args)"
  obtains d where "manager_authorize safety m call = Inr d" "sd_allowed d"
    "get_tool_name (tc_call call) = Inr name" "tool_get_executor name (tm_register m) = Inr x"
  using assms unfolding prepare_execution_def
  by (auto simp: bind_e_eq_Inr split: if_splits)

text \<open>A call and a manager to evaluate the properties on.\<close>

definition sample_call :: "string \<Rightarrow> metadata \<Rightarrow> tool_call" where
  "sample_call name meta =
     \<lparr>tc_id = ''c1'', tc_call = [(''name'', PStr name), (''arguments'', PDict [])],
      tc_approval = None, tc_metadata = meta\<rparr>"

definition sample_manager :: "tool_permission list \<Rightarrow> tool_preflight option \<Rightarrow> tool_policies
    \<Rightarrow> unit tool_executor tool_manager" where
  "sample_manager ps preflight policies =
     \<lparr>tm_register = snd (tool_register (sample_tool ''rm'' ps) (\<lambda>_ w. (Inr (ObjDict []), w)) preflight
        empty_snapshot),
      tm_policy_store = policies\<rparr>"

lemma sample_manager_reachable: "tool_reachable (tm_register (sample_manager ps preflight policies))"
  unfolding sample_manager_def by (simp add: tool_reachable.intros)

lemma sample_manager_get:
  "tool_get ''rm'' (tm_register (sample_manager ps preflight policies)) = Inr (sample_tool ''rm'' ps)"
  "dict_get (sn_preflight_policies (tm_register (sample_manager ps preflight policies))) ''rm'' = preflight"
  "tm_policy_store (sample_manager ps preflight policies) = policies"
  by (simp_all add: sample_manager_def tool_register_def empty_snapshot_def tool_get_def tool_has_def
      dict_has_def sample_tool_def)

lemma sample_call_simps:
  "get_tool_name (tc_call (sample_call ''rm'' meta)) = Inr ''rm''"
  "get_arguments (tc_call (sample_call ''rm'' meta)) = Inr []"
  "tc_approval (sample_call ''rm'' meta) = None" "tc_metadata (sample_call ''rm'' meta) = meta"
  by (simp_all add: sample_call_def get_tool_name_def get_arguments_def meta_get_def dict_get_Cons)

lemma sample_arguments:
  "execution_arguments (sample_manager ps preflight policies) (sample_call ''rm'' meta) = Inr []"
  by (simp add: execution_arguments_def sample_call_simps sample_manager_get Let_def)
    (simp add: sample_tool_def meta_flag_def)

text \<open>C1: Whatever approvals, metadata, tool policies and preflight policies there are, a tool with a
  permission that the basic safety policy blocks is never run: execute raises and the executor's
  world is untouched.\<close>

theorem blocked_never_runs:
  assumes "tool_reachable (tm_register m)" and "get_tool_name (tc_call call) = Inr name"
    and "tool_get name (tm_register m) = Inr t"
    and "p \<in> set (td_permissions t)" and "p \<in> set (bp_blocked pol)"
  shows "\<exists>e. manager_execute (basic_authorize pol) m call w = (Inl e, w)"
proof (rule execute_refused)
  fix d assume "manager_authorize (basic_authorize pol) m call = Inr d"
  then show "\<not> sd_allowed d"
    using assms(2-5) by (auto elim!: manager_authorize_Inr dest: basic.decide_blocked)
qed

theorem blocked_never_runs_witness:
  "\<exists>e. manager_execute (basic_authorize default_policy)
     (sample_manager [Perm_SHELL] None []) (sample_call ''rm'' [(''approved'', PBool True)]) () = (Inl e, ())"
  by (rule blocked_never_runs [OF sample_manager_reachable sample_call_simps(1) sample_manager_get(1),
        where p = Perm_SHELL])
    (simp_all add: sample_tool_def default_policy_def)

text \<open>The owner's own policy for a tool is binding: a tool set to DENY is not run even with an
  approval, and a tool set to ASK is not run without an approval made out to this very call, whatever
  the tool's definition and its preflight policy say.\<close>

theorem owner_policy_binding:
  assumes "get_tool_name (tc_call call) = Inr name" and "call_scope call = Inr scope"
    and "policy_get name (Some scope) (tm_policy_store m) = Some mode"
    and "mode = Access_DENY \<or> mode = Access_ASK \<and> \<not> call_approved call"
  shows "\<exists>e. manager_execute (basic_authorize pol) m call w = (Inl e, w)"
proof (rule execute_refused)
  fix d assume "manager_authorize (basic_authorize pol) m call = Inr d"
  then obtain args t where
    d: "decide (basic_authorize pol) t (Some mode)
      (dict_get (sn_preflight_policies (tm_register m)) name) args call = Inr d"
    using assms(1-3) by (auto elim!: manager_authorize_Inr)
  from assms(4) show "\<not> sd_allowed d"
  proof
    assume "mode = Access_DENY"
    with d show ?thesis by (auto simp: decide_def disabled_decision_def)
  next
    assume ask: "mode = Access_ASK \<and> \<not> call_approved call"
    with d have "decide (basic_authorize pol) t (Some Access_ASK)
      (dict_get (sn_preflight_policies (tm_register m)) name) args call = Inr d" by simp
    from basic.decide_ask [OF this] ask show ?thesis by simp
  qed
qed

theorem owner_policy_binding_witness:
  "\<exists>e. manager_execute (basic_authorize default_policy)
     (sample_manager [Perm_READ] None [((Some ''ann'', ''rm''), Access_ASK)])
     (sample_call ''rm'' [(''owner_id'', PStr ''ann'')]) () = (Inl e, ())"
  by (rule owner_policy_binding [OF sample_call_simps(1), where mode = Access_ASK
        and scope = "\<lparr>scope_owner_id = Some ''ann''\<rparr>"])
    (simp_all add: call_scope_def sample_call_simps meta_get_def dict_get_Cons sample_manager_get
      policy_get_def policy_key_def call_approved_def)

text \<open>A preflight policy that refuses the arguments of a call is final, and one that asks for an
  approval is obeyed unless this very call was approved, even for a tool set to ALLOW.\<close>

theorem preflight_binding:
  assumes "get_tool_name (tc_call call) = Inr name" and "call_scope call = Inr scope"
    and "execution_arguments m call = Inr args" and "tool_get name (tm_register m) = Inr t"
    and "dict_get (sn_preflight_policies (tm_register m)) name = Some p"
    and "p (effective_definition t (policy_get name (Some scope) (tm_policy_store m))) args = Inr (Some pd)"
    and "\<not> sd_allowed pd" and "\<not> sd_requires_approval pd \<or> \<not> call_approved call"
  shows "\<exists>e. manager_execute (basic_authorize pol) m call w = (Inl e, w)"
proof (rule execute_refused)
  fix d assume "manager_authorize (basic_authorize pol) m call = Inr d"
  then have "decide (basic_authorize pol) t (policy_get name (Some scope) (tm_policy_store m))
      (Some p) args call = Inr d"
    using assms(1-5) by (auto elim!: manager_authorize_Inr)
  from basic.decide_preflight [OF this assms(6-8)] show "\<not> sd_allowed d" .
qed

definition refusing_preflight :: tool_preflight where
  "refusing_preflight tool args = Inr (Some disabled_decision)"

theorem preflight_binding_witness:
  "\<exists>e. manager_execute (basic_authorize default_policy)
     (sample_manager [] (Some refusing_preflight) [((None, ''rm''), Access_ALLOW)])
     (sample_call ''rm'' []) () = (Inl e, ())"
  by (rule preflight_binding [OF sample_call_simps(1) _ sample_arguments sample_manager_get(1)
        sample_manager_get(2), where scope = "\<lparr>scope_owner_id = None\<rparr>"
        and pd = disabled_decision])
    (simp_all add: call_scope_def sample_call_simps refusing_preflight_def disabled_decision_def)

text \<open>Every rejection of a call that an approval could lift carries the request to approve, made
  out to this call and this tool; so a caller can always act on a pending decision.\<close>

theorem pending_carries_request:
  assumes "tool_reachable (tm_register m)"
    and "manager_authorize (basic_authorize pol) m call = Inr d"
    and "\<not> sd_allowed d" and "sd_requires_approval d"
  shows "\<exists>r. sd_approval_request d = Some r \<and> ar_tool_call_id r = tc_id call
           \<and> get_tool_name (tc_call call) = Inr (ar_tool_name r)"
proof -
  have ok: "snapshot_ok (tm_register m)" using assms(1) by (rule tool_reachable_ok)
  from assms(2) show ?thesis
  proof (rule manager_authorize_Inr)
    fix name args t scope
    assume name: "get_tool_name (tc_call call) = Inr name" and t: "tool_get name (tm_register m) = Inr t"
      and d: "decide (basic_authorize pol) t (policy_get name (Some scope) (tm_policy_store m))
        (dict_get (sn_preflight_policies (tm_register m)) name) args call = Inr d"
    have "td_name t = name" using t ok by (simp add: tool_get_Inr) (simp add: snapshot_ok_def)
    with basic.decide_pending [OF d assms(3,4)] name show ?thesis by auto
  qed
qed

theorem pending_carries_request_witness:
  "\<exists>d r. manager_authorize (basic_authorize default_policy) (sample_manager [Perm_WRITE] None [])
       (sample_call ''rm'' []) = Inr d \<and> sd_approval_request d = Some r \<and> ar_tool_call_id r = ''c1''"
proof -
  let ?m = "sample_manager [Perm_WRITE] None []" and ?c = "sample_call ''rm'' []"
  let ?d = "basic_authorize default_policy (sample_tool ''rm'' [Perm_WRITE]) ?c"
  have "manager_authorize (basic_authorize default_policy) ?m ?c = Inr ?d"
    by (simp add: manager_authorize_def sample_call_simps sample_arguments sample_manager_get
        call_scope_def policy_get_def tool_get_preflight_policy_def Let_def effective_definition_def)
  moreover have "\<not> sd_allowed ?d" "sd_requires_approval ?d"
    by (simp_all add: basic_authorize_def sample_call_simps sample_tool_def default_policy_def
        needs_approval_def call_refused_def call_approved_def Let_def)
  ultimately show ?thesis
    using pending_carries_request [OF sample_manager_reachable, of default_policy "[Perm_WRITE]" None "[]" ?c ?d]
    by (auto simp: sample_call_def)
qed

text \<open>What a user is told about a tool is what happens: for a tool without a preflight policy and a
  call that carries no approval, the mode that the policy summary shows is the mode of the decision
  that the manager then makes.\<close>

theorem summary_predicts_decision:
  assumes "get_tool_name (tc_call call) = Inr name" and "call_scope call = Inr scope"
    and "tool_get name (tm_register m) = Inr t" and "td_name t = name"
    and "dict_get (sn_preflight_policies (tm_register m)) name = None"
    and "tc_approval call = None" and "meta_get (tc_metadata call) ''approved'' \<noteq> PBool True"
    and "manager_authorize (basic_authorize pol) m call = Inr d"
  shows "ps_mode (policy_summary (basic_authorize pol) m t (Some scope)) = decision_mode d"
proof -
  let ?mode = "policy_get name (Some scope) (tm_policy_store m)"
  have same: "decision_mode (basic_authorize pol t' (preview_call t (Some scope)))
      = decision_mode (basic_authorize pol t' call)" for t' :: tool_definition
    using assms(6,7)
    by (simp add: decision_mode_def basic_authorize_def preview_call_def call_approved_def
        call_refused_def meta_get_def dict_get_Cons Let_def split: option.split)
  from assms(8) obtain args where
    "decide (basic_authorize pol) t ?mode None args call = Inr d"
    using assms(1-5) by (auto elim!: manager_authorize_Inr)
  then show ?thesis
    using same [of "effective_definition t ?mode"] assms(4)
    by (auto simp: decide_def policy_summary_def Let_def disabled_decision_def decision_mode_def
        split: if_splits)
qed

theorem summary_predicts_decision_witness:
  "ps_mode (policy_summary (basic_authorize default_policy) (sample_manager [Perm_WRITE] None [])
     (sample_tool ''rm'' [Perm_WRITE]) (Some \<lparr>scope_owner_id = None\<rparr>)) = Access_ASK"
proof -
  let ?m = "sample_manager [Perm_WRITE] None []" and ?c = "sample_call ''rm'' []"
  let ?d = "basic_authorize default_policy (sample_tool ''rm'' [Perm_WRITE]) ?c"
  have "manager_authorize (basic_authorize default_policy) ?m ?c = Inr ?d"
    by (simp add: manager_authorize_def sample_call_simps sample_arguments sample_manager_get
        call_scope_def policy_get_def tool_get_preflight_policy_def Let_def effective_definition_def)
  moreover have "decision_mode ?d = Access_ASK"
    by (simp add: basic_authorize_def sample_call_simps sample_tool_def default_policy_def
        needs_approval_def call_refused_def call_approved_def decision_mode_def Let_def)
  ultimately show ?thesis
    using summary_predicts_decision [OF sample_call_simps(1) _ sample_manager_get(1) _ _
        sample_call_simps(3), of "[]" "\<lparr>scope_owner_id = None\<rparr>" "[Perm_WRITE]" None "[]" default_policy ?d]
    by (simp add: call_scope_def sample_call_simps sample_manager_get) (simp add: sample_tool_def)
qed

text \<open>The basic policy allows a call exactly when the tool has no blocked permission, the call
  carries no refusal made out to it, and, if the tool needs an approval, one is given for this call.\<close>

theorem basic_policy_allows_iff:
  "sd_allowed (basic_authorize pol t call) \<longleftrightarrow>
     (set (td_permissions t) \<inter> set (bp_blocked pol) = {} \<and> call_refused call = None
      \<and> (\<not> needs_approval pol t \<or> call_approved call))"
  by (auto simp: basic_allowed_iff)

theorem basic_policy_allows_iff_witness:
  "sd_allowed (basic_authorize default_policy (sample_tool ''ls'' [Perm_READ]) (sample_call ''ls'' []))"
  unfolding basic_policy_allows_iff
  by (simp add: sample_tool_def sample_call_def default_policy_def needs_approval_def call_refused_def)

text \<open>The executor of a tool runs only for an allowed call, exactly once, and on the checked
  arguments; its dictionary is the result, made out to the call, and whatever else it does (a raise, a
  result that is no dictionary, a key that is no string) is reported as a tool error.\<close>

theorem execute_outcome:
  "(case prepare_execution safety m call of
      Inl e \<Rightarrow> manager_execute safety m call w = (Inl e, w)
    | Inr (name, executor, args) \<Rightarrow>
        (\<exists>d. manager_authorize safety m call = Inr d \<and> sd_allowed d)
        \<and> tool_get_executor name (tm_register m) = Inr executor
        \<and> snd (manager_execute safety m call w) = snd (executor args w)
        \<and> (case fst (manager_execute safety m call w) of
             Inr r \<Rightarrow> tr_id r = tc_id call \<and>
               fst (executor args w) = Inr (ObjDict (map (\<lambda>(k, v). (PStr k, v)) (tr_result r)))
           | Inl e \<Rightarrow> error_class e = Tool ToolExecutionError \<and> error_cause e \<noteq> None
               \<and> (\<exists>exc. fst (executor args w) = Inl exc)
               \<or> error_class e = Tool ToolResultError \<and> (\<exists>obj. fst (executor args w) = Inr obj)))"
proof (cases "prepare_execution safety m call")
  case (Inl e)
  then show ?thesis by (simp add: manager_execute_def)
next
  case (Inr p)
  obtain name executor args where p: "p = (name, executor, args)" by (cases p)
  have keys: "str_keys kvs = Some d \<Longrightarrow> kvs = map (\<lambda>(k, v). (PStr k, v)) d" for kvs d
    by (induction kvs arbitrary: d rule: str_keys.induct) auto
  from prepare_ok [OF Inr [unfolded p]] have
    "(\<exists>d. manager_authorize safety m call = Inr d \<and> sd_allowed d)
     \<and> tool_get_executor name (tm_register m) = Inr executor" by blast
  then show ?thesis
    using Inr p keys
    by (cases "executor args w")
      (auto simp: manager_execute_def validate_result_def execution_failure_def raised_def
        split: sum.splits exec_object.splits option.splits)
qed

theorem execute_outcome_witness:
  "manager_execute (basic_authorize default_policy) (sample_manager [Perm_READ] None [])
     (sample_call ''rm'' []) () = (Inr \<lparr>tr_id = ''c1'', tr_result = [], tr_metadata = []\<rparr>, ())"
proof -
  let ?m = "sample_manager [Perm_READ] None []" and ?c = "sample_call ''rm'' []"
  have "manager_authorize (basic_authorize default_policy) ?m ?c
      = Inr (basic_authorize default_policy (sample_tool ''rm'' [Perm_READ]) ?c)"
    by (simp add: manager_authorize_def sample_call_simps sample_arguments sample_manager_get
        call_scope_def policy_get_def tool_get_preflight_policy_def Let_def effective_definition_def)
  then have "prepare_execution (basic_authorize default_policy) ?m ?c
      = Inr (''rm'', \<lambda>_ w. (Inr (ObjDict []), w), [])"
    by (simp add: prepare_execution_def sample_call_simps sample_arguments sample_manager_get
        basic_allowed_iff)
      (simp add: sample_tool_def default_policy_def needs_approval_def call_refused_def
        sample_call_simps add_idempotency_key_def sample_manager_def tool_register_def
        empty_snapshot_def tool_get_executor_def tool_has_def)
  with execute_outcome [of "basic_authorize default_policy" ?m ?c "()"] show ?thesis
    by (auto simp: manager_execute_def validate_result_def sample_call_def)
qed

end
