(* ===== verification/ScopedStore.thy ===== *)
theory ScopedStore
  imports Auth
begin

text \<open>
  The interface that the stores of contexts, memories and sessions share: records with an owner,
  kept under a key, that a caller reads and changes under an optional principal scope.  The
  managers of the three components are clients of the locale \<open>scoped_store\<close>; the three in-memory
  registers are its interpretations.

  \<open>fetch\<close> is the abstraction: the map from keys to records that a store holds.
\<close>

locale scoped_store =
  fixes key :: "'r \<Rightarrow> string"
    and owner :: "'r \<Rightarrow> string option"
    and inv :: "'s \<Rightarrow> bool"
    and fetch :: "'s \<Rightarrow> string \<Rightarrow> 'r option"
    and register :: "principal_scope option \<Rightarrow> 'r \<Rightarrow> (error, 's, unit) act"
    and unregister :: "principal_scope option \<Rightarrow> string \<Rightarrow> (error, 's, unit) act"
    and get :: "principal_scope option \<Rightarrow> string \<Rightarrow> 's \<Rightarrow> error + 'r"
    and has :: "principal_scope option \<Rightarrow> string \<Rightarrow> 's \<Rightarrow> bool"
    and records :: "principal_scope option \<Rightarrow> 's \<Rightarrow> 'r list"
  assumes register_permitted:
      "inv s \<Longrightarrow> scope_permits scope (owner r) \<Longrightarrow>
         \<exists>s'. register scope r s = (Inr (), s') \<and> inv s' \<and> fetch s' = (fetch s)(key r \<mapsto> r)"
    and register_foreign:
      "\<not> scope_permits scope (owner r) \<Longrightarrow> \<exists>e. register scope r s = (Inl e, s)"
    and has_iff:
      "has scope k s \<longleftrightarrow> (\<exists>r. fetch s k = Some r \<and> scope_permits scope (owner r))"
    and get_iff:
      "get scope k s = Inr r \<longleftrightarrow> fetch s k = Some r \<and> scope_permits scope (owner r)"
    and unregister_has:
      "inv s \<Longrightarrow> has scope k s \<Longrightarrow>
         \<exists>s'. unregister scope k s = (Inr (), s') \<and> inv s' \<and> fetch s' = (fetch s)(k := None)"
    and unregister_missing:
      "\<not> has scope k s \<Longrightarrow> \<exists>e. unregister scope k s = (Inl e, s)"
    and fetch_key: "inv s \<Longrightarrow> fetch s k = Some r \<Longrightarrow> key r = k"
    and records_iff:
      "inv s \<Longrightarrow> r \<in> set (records scope s) \<longleftrightarrow>
         fetch s (key r) = Some r \<and> scope_permits scope (owner r)"
    and records_distinct: "inv s \<Longrightarrow> distinct (map key (records scope s))"
begin

text \<open>The body of every \<open>create\<close>: register the record, then read it back.\<close>

lemma register_get:
  assumes "inv s" "scope_permits scope (owner r)"
  shows "\<exists>s'. bind_a (register scope r) (\<lambda>_ s. (get scope (key r) s, s)) s = (Inr r, s')
           \<and> inv s' \<and> fetch s' = (fetch s)(key r \<mapsto> r)"
proof -
  from register_permitted [OF assms] obtain s' where
    s': "register scope r s = (Inr (), s')" "inv s'" "fetch s' = (fetch s)(key r \<mapsto> r)" by blast
  moreover from s' assms have "get scope (key r) s' = Inr r" by (simp add: get_iff)
  ultimately show ?thesis by (auto simp: bind_a_def)
qed

text \<open>
  No operation but \<open>register\<close> touches a record that the scope does not permit, and \<open>register\<close>
  does not either when its key is visible to the caller, which is what \<open>replace\<close> checks first.
\<close>

lemma register_keeps_foreign:
  assumes "inv s" "has scope (key r) s"
    and "fetch s k = Some r'" "\<not> scope_permits scope (owner r')"
  shows "fetch (snd (register scope r s)) k = Some r'"
proof (cases "scope_permits scope (owner r)")
  case True
  from register_permitted [OF assms(1) True] obtain s' where
    s': "register scope r s = (Inr (), s')" "fetch s' = (fetch s)(key r \<mapsto> r)" by blast
  moreover from assms have "k \<noteq> key r" by (auto simp: has_iff)
  ultimately show ?thesis using assms(3) by simp
next
  case False
  from register_foreign [OF this, of s] assms(3) show ?thesis by auto
qed

lemma unregister_keeps_foreign:
  assumes "inv s" "fetch s k = Some r'" "\<not> scope_permits scope (owner r')"
  shows "fetch (snd (unregister scope k' s)) k = Some r'"
proof (cases "has scope k' s")
  case True
  from unregister_has [OF assms(1) True] obtain s' where
    s': "unregister scope k' s = (Inr (), s')" "fetch s' = (fetch s)(k' := None)" by blast
  moreover from assms True have "k \<noteq> k'" by (auto simp: has_iff)
  ultimately show ?thesis using assms(2) by simp
next
  case False
  from unregister_missing [OF this] assms(2) show ?thesis by auto
qed

text \<open>The loop of every \<open>clear\<close>.\<close>

lemma clear_loop_removes:
  assumes "inv s" "distinct (map key rs)"
    and "\<forall>r \<in> set rs. fetch s (key r) = Some r \<and> scope_permits scope (owner r)"
  shows "\<exists>s'. for_each (\<lambda>r. unregister scope (key r)) rs s = (Inr (), s') \<and> inv s'
           \<and> fetch s' = (\<lambda>k. if k \<in> key ` set rs then None else fetch s k)"
  using assms
proof (induction rs arbitrary: s)
  case Nil
  then show ?case by auto
next
  case (Cons r rs)
  then have "has scope (key r) s" by (auto simp: has_iff)
  from unregister_has [OF Cons.prems(1) this] obtain s1 where
    s1: "unregister scope (key r) s = (Inr (), s1)" "inv s1" "fetch s1 = (fetch s)(key r := None)"
    by blast
  have "\<forall>r' \<in> set rs. fetch s1 (key r') = Some r' \<and> scope_permits scope (owner r')"
    using Cons.prems s1 by (auto simp: image_iff)
  from Cons.IH [OF s1(2) _ this] Cons.prems(2) s1 show ?case
    by (auto simp: fun_eq_iff)
qed

lemma clear_removes_permitted:
  assumes "inv s"
  shows "\<exists>s'. for_each (\<lambda>r. unregister scope (key r)) (records scope s) s = (Inr (), s') \<and> inv s'
           \<and> (\<forall>k. fetch s' k = (case fetch s k of None \<Rightarrow> None
                 | Some r \<Rightarrow> if scope_permits scope (owner r) then None else Some r))"
proof -
  have "\<forall>r \<in> set (records scope s). fetch s (key r) = Some r \<and> scope_permits scope (owner r)"
    using assms by (simp add: records_iff)
  from clear_loop_removes [OF assms records_distinct [OF assms] this] obtain s' where
    s': "for_each (\<lambda>r. unregister scope (key r)) (records scope s) s = (Inr (), s')" "inv s'"
      "fetch s' = (\<lambda>k. if k \<in> key ` set (records scope s) then None else fetch s k)" by blast
  have "k \<in> key ` set (records scope s)
      \<longleftrightarrow> (\<exists>r. fetch s k = Some r \<and> scope_permits scope (owner r))" for k
    using assms fetch_key [of s] by (force simp: records_iff)
  with s' show ?thesis by (auto split: option.split)
qed

end

section \<open>Stores kept in one dictionary\<close>

text \<open>
  The three in-memory registers keep their records in a dictionary under the records' own keys.
  \<open>keyed\<close> is that invariant, and \<open>owner_filter\<close> the filter that every listing applies.
\<close>

definition keyed :: "('r \<Rightarrow> string) \<Rightarrow> (string, 'r) dict \<Rightarrow> bool" where
  "keyed key d \<longleftrightarrow> dict_ok d \<and> (\<forall>k r. dict_get d k = Some r \<longrightarrow> key r = k)"

definition owner_filter ::
  "string option \<Rightarrow> principal_scope option \<Rightarrow> ('r \<Rightarrow> string option) \<Rightarrow> 'r list \<Rightarrow> 'r list" where
  "owner_filter owner_id scope owner items =
     (let own = (case owner_id of None \<Rightarrow> items
                 | Some o1 \<Rightarrow> filter (\<lambda>item. owner item = Some o1) items)
      in case scope of
           None \<Rightarrow> own
         | Some sc \<Rightarrow> (case scope_owner_id sc of
               None \<Rightarrow> own
             | Some so \<Rightarrow>
                 if owner_id \<noteq> None \<and> owner_id \<noteq> Some so then []
                 else filter (\<lambda>item. owner item = Some so) items))"

definition after_cursor :: "string option \<Rightarrow> ('r \<Rightarrow> string) \<Rightarrow> 'r list \<Rightarrow> 'r list" where
  "after_cursor cursor key items =
     (case cursor of None \<Rightarrow> items | Some c \<Rightarrow> filter (\<lambda>item. key item > c) items)"

lemma owner_filter_eq:
  "owner_filter owner_id scope owner items =
     filter (\<lambda>item. scope_permits scope (owner item) \<and> (owner_id = None \<or> owner item = owner_id)) items"
  by (auto simp: owner_filter_def permits_def scope_permits_def Let_def intro!: filter_cong
      split: option.split)

lemma after_cursor_filter:
  "after_cursor cursor key items = filter (\<lambda>item. cursor = None \<or> key item > the cursor) items"
  by (simp add: after_cursor_def split: option.split)

lemma keyed_Nil [simp]: "keyed key []"
  by (simp add: keyed_def)

lemma keyed_set [simp]: "keyed key d \<Longrightarrow> keyed key (dict_set (key r) r d)"
  by (simp add: keyed_def)

lemma keyed_pop [simp]: "keyed key d \<Longrightarrow> keyed key (dict_pop k d)"
  by (simp add: keyed_def)

lemma keyed_values_iff:
  "keyed key d \<Longrightarrow> r \<in> set (dict_values d) \<longleftrightarrow> dict_get d (key r) = Some r"
  by (auto simp: keyed_def dict_values_iff)

lemma keyed_values_distinct: "keyed key d \<Longrightarrow> distinct (map key (dict_values d))"
proof -
  assume k: "keyed key d"
  then have "map key (dict_values d) = dict_keys d"
    by (auto simp: keyed_def dict_values_def dict_keys_def dict_items_iff simp flip: dict_items_iff)
  with k show ?thesis by (simp add: keyed_def dict_ok_def)
qed

lemma distinct_map_sort_key: "distinct (map f (sort_key g xs)) \<longleftrightarrow> distinct (map f xs)"
  by (metis distinct_map distinct_sort mset_sort set_sort size_mset card_distinct distinct_card
      mset_eq_setD mset_map mset_eq_imp_distinct_iff)

end
