(* ===== verification/Sessions.thy ===== *)
theory Sessions
  imports ScopedStore
begin

text \<open>
  Sessions (\<open>core/schema/session.py\<close>), their register and their manager
  (\<open>core/domain/session.py\<close>).  \<open>now\<close> is the reading of the clock, in microseconds.
\<close>

datatype session_status = Session_ACTIVE | Session_ARCHIVED

record session =
  ses_id :: string
  ses_owner_id :: "string option"
  ses_title :: "string option"
  ses_context_id :: string
  ses_provider_id :: "string option"
  ses_model_id :: "string option"
  ses_status :: session_status
  ses_created_at :: int
  ses_updated_at :: int
  ses_metadata :: metadata

section \<open>The register\<close>

type_synonym session_register = "(string, session) dict"

definition require_session_scope :: "session \<Rightarrow> principal_scope option \<Rightarrow> error + unit" where
  "require_session_scope s scope =
     (if scope_permits scope (ses_owner_id s) then Inr ()
      else Inl (raised (Sess SessionNotFoundError)
             (''The session '' @ ses_id s @ '' is not available in this scope'')))"

definition session_has :: "principal_scope option \<Rightarrow> string \<Rightarrow> session_register \<Rightarrow> bool" where
  "session_has scope session_id d =
     (case dict_get d session_id of None \<Rightarrow> False | Some s \<Rightarrow> scope_permits scope (ses_owner_id s))"

definition session_register ::
  "principal_scope option \<Rightarrow> session \<Rightarrow> (error, session_register, unit) act" where
  "session_register scope s d =
     (case require_session_scope s scope of
        Inl e \<Rightarrow> (Inl e, d)
      | Inr _ \<Rightarrow> (Inr (), dict_set (ses_id s) s d))"

definition session_unregister ::
  "principal_scope option \<Rightarrow> string \<Rightarrow> (error, session_register, unit) act" where
  "session_unregister scope session_id d =
     (if \<not> session_has scope session_id d
      then (Inl (raised (Sess SessionNotFoundError)
                   (''The session '' @ session_id @ '' is not registered'')), d)
      else (Inr (), dict_pop session_id d))"

definition session_get :: "principal_scope option \<Rightarrow> string \<Rightarrow> session_register \<Rightarrow> error + session" where
  "session_get scope session_id d =
     (case (session_has scope session_id d, dict_get d session_id) of
        (True, Some s) \<Rightarrow> Inr s
      | _ \<Rightarrow> Inl (raised (Sess SessionNotFoundError)
               (''The session '' @ session_id @ '' is not found'')))"

text \<open>The optional filters of a listing: \<open>None\<close> filters nothing.\<close>

record session_filter =
  sf_cursor :: "string option"
  sf_limit :: "nat option"
  sf_owner_id :: "string option"
  sf_status :: "session_status option"
  sf_provider_id :: "string option"
  sf_model_id :: "string option"

definition no_filter :: session_filter where
  "no_filter = \<lparr>sf_cursor = None, sf_limit = None, sf_owner_id = None, sf_status = None,
     sf_provider_id = None, sf_model_id = None\<rparr>"

definition keep_equal :: "'v option \<Rightarrow> ('r \<Rightarrow> 'v) \<Rightarrow> 'r list \<Rightarrow> 'r list" where
  "keep_equal wanted field items =
     (case wanted of None \<Rightarrow> items | Some v \<Rightarrow> filter (\<lambda>item. field item = v) items)"

definition session_list ::
  "session_filter \<Rightarrow> principal_scope option \<Rightarrow> session_register \<Rightarrow> session list" where
  "session_list f scope d =
     (let sessions = owner_filter (sf_owner_id f) scope ses_owner_id
            (after_cursor (sf_cursor f) ses_id (sort_key ses_id (dict_values d)));
          sessions = keep_equal (sf_status f) ses_status sessions;
          sessions = keep_equal (map_option Some (sf_provider_id f)) ses_provider_id sessions;
          sessions = keep_equal (map_option Some (sf_model_id f)) ses_model_id sessions
      in take_opt (sf_limit f) sessions)"

section \<open>The manager\<close>

definition session_create ::
  "principal_scope option \<Rightarrow> session \<Rightarrow> (error, session_register, session) act" where
  "session_create scope s =
     bind_a (session_register scope s) (\<lambda>_ d. (session_get scope (ses_id s) d, d))"

definition session_replace ::
  "int \<Rightarrow> principal_scope option \<Rightarrow> session \<Rightarrow> (error, session_register, session) act" where
  "session_replace now scope s d =
     (if \<not> session_has scope (ses_id s) d
      then (Inl (raised (Sess SessionNotFoundError)
                   (''The session '' @ ses_id s @ '' is not found'')), d)
      else bind_a (session_register scope (s\<lparr>ses_updated_at := now\<rparr>))
             (\<lambda>_ d. (session_get scope (ses_id s) d, d)) d)"

definition session_archive ::
  "int \<Rightarrow> principal_scope option \<Rightarrow> string \<Rightarrow> (error, session_register, session) act" where
  "session_archive now scope session_id d =
     (case session_get scope session_id d of
        Inl e \<Rightarrow> (Inl e, d)
      | Inr s \<Rightarrow>
          (let updated = s\<lparr>ses_status := Session_ARCHIVED, ses_updated_at := now\<rparr>
           in bind_a (session_register scope updated) (\<lambda>_. return_a updated) d))"

definition session_clear :: "principal_scope option \<Rightarrow> (error, session_register, unit) act" where
  "session_clear scope d =
     for_each (\<lambda>s. session_unregister scope (ses_id s)) (session_list no_filter scope d) d"

lemma session_has_iff:
  "session_has scope k d \<longleftrightarrow> (\<exists>s. dict_get d k = Some s \<and> scope_permits scope (ses_owner_id s))"
  by (auto simp: session_has_def split: option.split)

lemma session_get_iff:
  "session_get scope k d = Inr s \<longleftrightarrow> dict_get d k = Some s \<and> scope_permits scope (ses_owner_id s)"
  by (auto simp: session_get_def session_has_iff split: option.split bool.split)

lemma keep_equal_filter:
  "keep_equal wanted field items = filter (\<lambda>item. wanted = None \<or> wanted = Some (field item)) items"
  by (auto simp: keep_equal_def intro!: filter_cong split: option.split)

lemma session_list_all:
  "session_list no_filter scope d =
     filter (\<lambda>s. scope_permits scope (ses_owner_id s)) (sort_key ses_id (dict_values d))"
  by (simp add: session_list_def no_filter_def keep_equal_def after_cursor_def owner_filter_eq)

interpretation ses: scoped_store ses_id ses_owner_id "keyed ses_id" dict_get
  session_register session_unregister session_get session_has "session_list no_filter"
proof
  fix d :: session_register and scope and s :: session
  assume "keyed ses_id d" "scope_permits scope (ses_owner_id s)"
  then show "\<exists>d'. session_register scope s d = (Inr (), d') \<and> keyed ses_id d'
      \<and> dict_get d' = (dict_get d)(ses_id s \<mapsto> s)"
    by (auto simp: session_register_def require_session_scope_def fun_eq_iff)
next
  fix d :: session_register and scope and s :: session
  assume "\<not> scope_permits scope (ses_owner_id s)"
  then show "\<exists>e. session_register scope s d = (Inl e, d)"
    by (simp add: session_register_def require_session_scope_def)
next
  fix d :: session_register and scope k
  assume "keyed ses_id d" "session_has scope k d"
  then show "\<exists>d'. session_unregister scope k d = (Inr (), d') \<and> keyed ses_id d'
      \<and> dict_get d' = (dict_get d)(k := None)"
    by (auto simp: session_unregister_def fun_eq_iff)
next
  fix d :: session_register and scope
  assume "keyed ses_id d"
  then show "distinct (map ses_id (session_list no_filter scope d))"
    by (simp add: session_list_all keyed_values_distinct distinct_map_sort_key distinct_map_filter)
next
  fix d :: session_register and scope and s :: session
  assume "keyed ses_id d"
  then show "s \<in> set (session_list no_filter scope d) \<longleftrightarrow>
      dict_get d (ses_id s) = Some s \<and> scope_permits scope (ses_owner_id s)"
    by (auto simp: session_list_all keyed_values_iff)
next
  fix d :: session_register and k and s :: session
  assume "keyed ses_id d" "dict_get d k = Some s"
  then show "ses_id s = k" by (simp add: keyed_def)
qed (simp_all add: session_has_iff session_get_iff session_unregister_def)

text \<open>Every listing stays in scope and satisfies each filter it was given.\<close>

lemma session_list_iff:
  assumes "sf_limit f = None" "keyed ses_id d"
  shows "s \<in> set (session_list f scope d) \<longleftrightarrow>
     dict_get d (ses_id s) = Some s \<and> scope_permits scope (ses_owner_id s)
     \<and> (sf_cursor f = None \<or> ses_id s > the (sf_cursor f))
     \<and> (sf_owner_id f = None \<or> ses_owner_id s = sf_owner_id f)
     \<and> (sf_status f = None \<or> sf_status f = Some (ses_status s))
     \<and> (sf_provider_id f = None \<or> ses_provider_id s = sf_provider_id f)
     \<and> (sf_model_id f = None \<or> ses_model_id s = sf_model_id f)"
  using assms
  by (cases "sf_cursor f"; cases "sf_status f"; cases "sf_provider_id f"; cases "sf_model_id f")
    (auto simp: session_list_def keep_equal_def after_cursor_def owner_filter_eq keyed_values_iff)

text \<open>\<open>replace\<close> and \<open>archive\<close> leave the sessions of other owners alone.\<close>

lemma session_replace_keeps_foreign:
  assumes "keyed ses_id d" "dict_get d k = Some s'" "\<not> scope_permits scope (ses_owner_id s')"
  shows "dict_get (snd (session_replace now scope s d)) k = Some s'"
proof (cases "session_has scope (ses_id s) d")
  case True
  with assms ses.register_keeps_foreign [of d scope "s\<lparr>ses_updated_at := now\<rparr>" k s'] show ?thesis
    by (simp add: session_replace_def bind_a_def split: prod.split sum.split) (metis snd_conv)
qed (use assms in \<open>simp add: session_replace_def\<close>)

lemma session_archive_keeps_foreign:
  assumes "keyed ses_id d" "dict_get d k = Some s'" "\<not> scope_permits scope (ses_owner_id s')"
  shows "dict_get (snd (session_archive now scope session_id d)) k = Some s'"
proof (cases "session_get scope session_id d")
  case (Inr s)
  let ?u = "s\<lparr>ses_status := Session_ARCHIVED, ses_updated_at := now\<rparr>"
  from Inr assms(1) have "session_has scope (ses_id ?u) d"
    by (auto simp: session_get_iff session_has_iff keyed_def)
  with assms ses.register_keeps_foreign [of d scope ?u k s'] Inr show ?thesis
    by (simp add: session_archive_def bind_a_def Let_def split: prod.split sum.split) (metis snd_conv)
qed (use assms in \<open>simp add: session_archive_def\<close>)

section \<open>The properties of the component\<close>

definition sample_session :: "string \<Rightarrow> string option \<Rightarrow> session" where
  "sample_session sid owner =
     \<lparr>ses_id = sid, ses_owner_id = owner, ses_title = None, ses_context_id = ''c'',
      ses_provider_id = None, ses_model_id = None, ses_status = Session_ACTIVE, ses_created_at = 0,
      ses_updated_at = 0, ses_metadata = []\<rparr>"

definition two_sessions :: session_register where
  "two_sessions = [(''a'', sample_session ''a'' (Some ''ann'')), (''b'', sample_session ''b'' (Some ''bob''))]"

lemma two_sessions_keyed: "keyed ses_id two_sessions"
  by (simp add: keyed_def two_sessions_def sample_session_def dict_ok_def dict_keys_def dict_get_Cons)

text \<open>A listing of sessions without a limit is exact: it contains a session if and only if the
  scope permits it, it lies behind the cursor and it satisfies each of the filters that were given;
  it is sorted by id and has no duplicates.\<close>

theorem session_listing_exact:
  assumes "keyed ses_id d" and "sf_limit f = None"
  shows "set (session_list f scope d) = {s. dict_get d (ses_id s) = Some s
      \<and> scope_permits scope (ses_owner_id s)
      \<and> (sf_cursor f = None \<or> ses_id s > the (sf_cursor f))
      \<and> (sf_owner_id f = None \<or> ses_owner_id s = sf_owner_id f)
      \<and> (sf_status f = None \<or> sf_status f = Some (ses_status s))
      \<and> (sf_provider_id f = None \<or> ses_provider_id s = sf_provider_id f)
      \<and> (sf_model_id f = None \<or> ses_model_id s = sf_model_id f)}
    \<and> sorted (map ses_id (session_list f scope d)) \<and> distinct (session_list f scope d)"
proof -
  have sub: "\<exists>P. session_list f scope d = filter P (sort_key ses_id (dict_values d))"
    using assms(2)
    by (simp add: session_list_def keep_equal_filter after_cursor_filter owner_filter_eq Let_def) blast
  then obtain P where P: "session_list f scope d = filter P (sort_key ses_id (dict_values d))" by blast
  have "distinct (map ses_id (sort_key ses_id (dict_values d)))"
    by (simp add: distinct_map_sort_key keyed_values_distinct assms(1))
  with P have "distinct (session_list f scope d)" by (simp add: distinct_map)
  moreover have "sorted (map ses_id (session_list f scope d))"
    by (simp add: P sorted_filter)
  ultimately show ?thesis using session_list_iff [OF assms(2,1)] by blast
qed

theorem session_listing_exact_witness:
  "sample_session ''a'' (Some ''ann'') \<in> set (session_list (no_filter\<lparr>sf_status := Some Session_ACTIVE\<rparr>)
     (Some \<lparr>scope_owner_id = Some ''ann''\<rparr>) two_sessions)"
  using session_listing_exact [OF two_sessions_keyed, of "no_filter\<lparr>sf_status := Some Session_ACTIVE\<rparr>"
      "Some \<lparr>scope_owner_id = Some ''ann''\<rparr>"]
  by (simp add: no_filter_def two_sessions_def sample_session_def dict_get_Cons)

text \<open>A principal neither reads nor changes the sessions of others: get, replace, archive and
  delete under its scope leave a foreign session as it was, and clear removes exactly the sessions
  that the scope permits.\<close>

theorem sessions_scoped:
  assumes "keyed ses_id d" and "dict_get d k = Some s"
  shows "(\<not> scope_permits scope (ses_owner_id s) \<longrightarrow>
       session_get scope k d \<noteq> Inr s
       \<and> dict_get (snd (session_replace now scope s' d)) k = Some s
       \<and> dict_get (snd (session_archive now scope k' d)) k = Some s
       \<and> dict_get (snd (session_unregister scope k' d)) k = Some s)
    \<and> dict_get (snd (session_clear scope d)) k
        = (if scope_permits scope (ses_owner_id s) then None else Some s)"
proof (intro conjI impI)
  assume foreign: "\<not> scope_permits scope (ses_owner_id s)"
  show "session_get scope k d \<noteq> Inr s" using foreign by (simp add: session_get_iff)
  show "dict_get (snd (session_replace now scope s' d)) k = Some s"
    using assms foreign by (rule session_replace_keeps_foreign)
  show "dict_get (snd (session_archive now scope k' d)) k = Some s"
    using assms foreign by (rule session_archive_keeps_foreign)
  show "dict_get (snd (session_unregister scope k' d)) k = Some s"
    using assms foreign by (rule ses.unregister_keeps_foreign)
next
  show "dict_get (snd (session_clear scope d)) k
        = (if scope_permits scope (ses_owner_id s) then None else Some s)"
    using ses.clear_removes_permitted [OF assms(1), of scope] assms(2)
    by (auto simp: session_clear_def)
qed

theorem sessions_scoped_witness:
  "dict_get (snd (session_clear (Some \<lparr>scope_owner_id = Some ''ann''\<rparr>) two_sessions)) ''b''
     = Some (sample_session ''b'' (Some ''bob''))"
  using sessions_scoped [OF two_sessions_keyed, of "''b''" "sample_session ''b'' (Some ''bob'')"
      "Some \<lparr>scope_owner_id = Some ''ann''\<rparr>"]
  by (simp add: two_sessions_def sample_session_def dict_get_Cons)

end
