(* ===== verification/Content.thy ===== *)
theory Content
  imports ToolRegistry
begin

text \<open>
  Messages and chat requests (\<open>core/schema/content.py\<close>) and contexts
  (\<open>core/schema/context.py\<close>).

  The context strategies compare messages by object identity (\<open>id(message)\<close>).  Every message
  therefore carries \<open>c_ref\<close>, the identity of the object; pydantic passes message objects on without
  copying them, so the identity survives in requests and windows.
\<close>

datatype message_role = Role_USER | Role_ASSISTANT | Role_TOOL | Role_SYSTEM

datatype message_status = Status_ACTIVE | Status_REJECTED | Status_ERROR

datatype prompt_cache_mode = Cache_PROVIDER_DEFAULT | Cache_PREFER_EXPLICIT

datatype prompt_cache_scope = CacheScope_CONTEXT | CacheScope_OWNER | CacheScope_GLOBAL

record prompt_cache_policy =
  pc_mode :: prompt_cache_mode
  pc_scope :: prompt_cache_scope
  pc_scope_id :: "string option"

datatype content_part_type =
    Part_TEXT | Part_IMAGE | Part_VIDEO | Part_AUDIO | Part_FILE | Part_EMBED | Part_LINK
  | Part_TABLE | Part_CODE | Part_FUNCTION_CALL

record content_part =
  cp_type :: content_part_type
  cp_text :: "string option"
  cp_url :: "string option"
  cp_data :: "string option"
  cp_artifact_id :: "string option"
  cp_mime_type :: "string option"
  cp_detail :: "string option"
  cp_metadata :: metadata

definition validate_image_reference :: "content_part \<Rightarrow> error + content_part" where
  "validate_image_reference p =
     (if cp_artifact_id p \<noteq> None
      then if cp_type p \<noteq> Part_IMAGE
           then Inl (raised (PyException ''ValueError'')
                  ''artifact_id is only supported for image content'')
           else if cp_url p \<noteq> None \<or> cp_data p \<noteq> None
           then Inl (raised (PyException ''ValueError'')
                  ''image artifact_id cannot be combined with url or data'')
           else Inr p
      else Inr p)"

definition text_part :: "string \<Rightarrow> content_part" where
  "text_part s = \<lparr>cp_type = Part_TEXT, cp_text = Some s, cp_url = None, cp_data = None,
     cp_artifact_id = None, cp_mime_type = None, cp_detail = None, cp_metadata = []\<rparr>"

record content =
  c_ref :: nat
  c_role :: message_role
  c_content :: "content_part list option"
  c_status :: "message_status option"
  c_name :: "string option"
  c_tool_call_id :: "string option"
  c_tool_calls :: "tool_call list option"
  c_metadata :: metadata

definition message :: "nat \<Rightarrow> message_role \<Rightarrow> content" where
  "message ref role = \<lparr>c_ref = ref, c_role = role, c_content = None, c_status = None, c_name = None,
     c_tool_call_id = None, c_tool_calls = None, c_metadata = []\<rparr>"

record chat_skill =
  sk_skill_name :: string
  sk_render_id :: "string option"
  sk_variables :: metadata
  sk_metadata :: metadata

record chat_usage =
  us_prompt_tokens :: "nat option"
  us_completion_tokens :: "nat option"
  us_total_tokens :: "nat option"
  us_cached_prompt_tokens :: "nat option"
  us_cache_write_prompt_tokens :: "nat option"
  us_metadata :: metadata

record chat_request =
  rq_model_id :: string
  rq_messages :: "content list"
  rq_skills :: "chat_skill list option"
  rq_tools :: "tool_definition list option"
  rq_prompt_cache :: "prompt_cache_policy option"
  rq_metadata :: metadata

record chat_response =
  rs_response_id :: "string option"
  rs_model_id :: string
  rs_message :: content
  rs_finish_reason :: "string option"
  rs_usage :: "chat_usage option"
  rs_metadata :: metadata

record chat_context =
  ctx_id :: string
  ctx_owner_id :: "string option"
  ctx_revision :: nat
  ctx_messages :: "content list"
  ctx_metadata :: metadata

record context_window =
  cw_context_id :: string
  cw_messages :: "content list"
  cw_metadata :: metadata

text \<open>\<open>message.tool_calls or []\<close>, and the ids they expect answers for.\<close>

definition calls_of :: "content \<Rightarrow> tool_call list" where
  "calls_of m = (case c_tool_calls m of None \<Rightarrow> [] | Some cs \<Rightarrow> cs)"

definition expected_ids :: "content \<Rightarrow> string set" where
  "expected_ids m = tc_id ` set (calls_of m)"

lemma message_sel [simp]:
  "c_role (message ref role) = role" "c_ref (message ref role) = ref"
  "c_status (message ref role) = None" "calls_of (message ref role) = []"
  by (simp_all add: message_def calls_of_def)

text \<open>\<open>message.tool_call_id in ids\<close>: \<open>None\<close> is in no set of ids.\<close>

definition answers :: "string set \<Rightarrow> content \<Rightarrow> bool" where
  "answers ids m \<longleftrightarrow> c_role m = Role_TOOL
     \<and> (case c_tool_call_id m of None \<Rightarrow> False | Some i \<Rightarrow> i \<in> ids)"

lemma answers_mono: "answers ids m \<Longrightarrow> ids \<subseteq> ids' \<Longrightarrow> answers ids' m"
  by (auto simp: answers_def split: option.splits)

end
