(* ===== verification/Contexts.thy ===== *)
theory Contexts
  imports Content ScopedStore
begin

text \<open>
  The register and the manager of contexts, and the organizer that turns a context into a chat
  request (\<open>ContextRegister\<close>, \<open>ContextManager\<close>, \<open>ContextOrganizer\<close> in \<open>core/domain/context.py\<close>,
  \<open>append_message\<close> in \<open>core/protocol/context.py\<close>).
\<close>

section \<open>The register\<close>

type_synonym context_register = "(string, chat_context) dict"

definition require_context_scope :: "chat_context \<Rightarrow> principal_scope option \<Rightarrow> error + unit" where
  "require_context_scope c scope =
     (if scope_permits scope (ctx_owner_id c) then Inr ()
      else Inl (raised (Ctx ContextNotFoundError)
             (''The context '' @ ctx_id c @ '' is not available in this scope'')))"

definition context_has :: "principal_scope option \<Rightarrow> string \<Rightarrow> context_register \<Rightarrow> bool" where
  "context_has scope context_id d =
     (case dict_get d context_id of None \<Rightarrow> False | Some c \<Rightarrow> scope_permits scope (ctx_owner_id c))"

definition context_register ::
  "principal_scope option \<Rightarrow> chat_context \<Rightarrow> (error, context_register, unit) act" where
  "context_register scope c d =
     (case require_context_scope c scope of
        Inl e \<Rightarrow> (Inl e, d)
      | Inr _ \<Rightarrow> (Inr (), dict_set (ctx_id c) c d))"

definition context_unregister ::
  "principal_scope option \<Rightarrow> string \<Rightarrow> (error, context_register, unit) act" where
  "context_unregister scope context_id d =
     (if \<not> context_has scope context_id d
      then (Inl (raised (Ctx ContextNotFoundError)
                   (''The context '' @ context_id @ '' is not registered'')), d)
      else (Inr (), dict_pop context_id d))"

definition context_get :: "principal_scope option \<Rightarrow> string \<Rightarrow> context_register \<Rightarrow> error + chat_context" where
  "context_get scope context_id d =
     (case (context_has scope context_id d, dict_get d context_id) of
        (True, Some c) \<Rightarrow> Inr c
      | _ \<Rightarrow> Inl (raised (Ctx ContextNotFoundError)
               (''The context '' @ context_id @ '' is not found'')))"

definition context_list ::
  "string option \<Rightarrow> nat option \<Rightarrow> string option \<Rightarrow> principal_scope option \<Rightarrow> context_register \<Rightarrow> chat_context list"
  where
  "context_list cursor limit owner_id scope d =
     take_opt limit (owner_filter owner_id scope ctx_owner_id
       (after_cursor cursor ctx_id (sort_key ctx_id (dict_values d))))"

definition append_message ::
  "principal_scope option \<Rightarrow> string \<Rightarrow> content \<Rightarrow> nat option \<Rightarrow> (error, context_register, chat_context) act" where
  "append_message scope context_id msg expected_revision d =
     (case context_get scope context_id d of
        Inl e \<Rightarrow> (Inl e, d)
      | Inr c \<Rightarrow>
          if expected_revision \<noteq> None \<and> expected_revision \<noteq> Some (ctx_revision c)
          then (Inl (raised (Ctx ContextStateError)
                  (''The context '' @ context_id @ '' revision is '' @ nat_str (ctx_revision c) @ '', expected ''
                   @ (case expected_revision of None \<Rightarrow> ''None'' | Some n \<Rightarrow> nat_str n))), d)
          else let updated = c\<lparr>ctx_messages := ctx_messages c @ [msg],
                               ctx_revision := ctx_revision c + 1\<rparr>
               in bind_a (context_register scope updated) (\<lambda>_. return_a updated) d)"

section \<open>The manager\<close>

definition context_create ::
  "principal_scope option \<Rightarrow> chat_context \<Rightarrow> (error, context_register, chat_context) act" where
  "context_create scope c =
     bind_a (context_register scope c) (\<lambda>_ d. (context_get scope (ctx_id c) d, d))"

definition context_replace ::
  "principal_scope option \<Rightarrow> chat_context \<Rightarrow> (error, context_register, chat_context) act" where
  "context_replace scope c d =
     (if \<not> context_has scope (ctx_id c) d
      then (Inl (raised (Ctx ContextNotFoundError)
                   (''The context '' @ ctx_id c @ '' is not found'')), d)
      else bind_a (context_register scope c) (\<lambda>_ d. (context_get scope (ctx_id c) d, d)) d)"

definition context_clear :: "principal_scope option \<Rightarrow> (error, context_register, unit) act" where
  "context_clear scope d =
     for_each (\<lambda>c. context_unregister scope (ctx_id c)) (context_list None None None scope d) d"

lemma context_has_iff:
  "context_has scope k d \<longleftrightarrow> (\<exists>c. dict_get d k = Some c \<and> scope_permits scope (ctx_owner_id c))"
  by (auto simp: context_has_def split: option.split)

lemma context_get_iff:
  "context_get scope k d = Inr c \<longleftrightarrow> dict_get d k = Some c \<and> scope_permits scope (ctx_owner_id c)"
  by (auto simp: context_get_def context_has_iff split: option.split bool.split)

interpretation ctx: scoped_store ctx_id ctx_owner_id "keyed ctx_id" dict_get
  context_register context_unregister context_get context_has "context_list None None None"
proof
  fix d :: context_register and scope and c :: chat_context
  assume "keyed ctx_id d" "scope_permits scope (ctx_owner_id c)"
  then show "\<exists>d'. context_register scope c d = (Inr (), d') \<and> keyed ctx_id d'
      \<and> dict_get d' = (dict_get d)(ctx_id c \<mapsto> c)"
    by (auto simp: context_register_def require_context_scope_def fun_eq_iff)
next
  fix d :: context_register and scope and c :: chat_context
  assume "\<not> scope_permits scope (ctx_owner_id c)"
  then show "\<exists>e. context_register scope c d = (Inl e, d)"
    by (simp add: context_register_def require_context_scope_def)
next
  fix d :: context_register and scope k
  assume "keyed ctx_id d" "context_has scope k d"
  then show "\<exists>d'. context_unregister scope k d = (Inr (), d') \<and> keyed ctx_id d'
      \<and> dict_get d' = (dict_get d)(k := None)"
    by (auto simp: context_unregister_def fun_eq_iff)
next
  fix d :: context_register and scope and c :: chat_context
  assume "keyed ctx_id d"
  then show "c \<in> set (context_list None None None scope d) \<longleftrightarrow>
      dict_get d (ctx_id c) = Some c \<and> scope_permits scope (ctx_owner_id c)"
    by (auto simp: context_list_def after_cursor_def owner_filter_eq keyed_values_iff)
next
  fix d :: context_register and scope
  assume "keyed ctx_id d"
  then show "distinct (map ctx_id (context_list None None None scope d))"
    by (auto simp: context_list_def after_cursor_def owner_filter_eq keyed_values_distinct
        distinct_map_sort_key intro!: distinct_map_filter)
qed (auto simp: context_has_iff context_get_iff context_unregister_def keyed_def)

section \<open>The organizer\<close>

text \<open>
  \<open>following_tool_messages\<close> takes the answers that directly follow an assistant message: at most
  one for each call, stopping at the first message that is not one.
\<close>

fun following_tool_messages ::
  "string set \<Rightarrow> string set \<Rightarrow> content list \<Rightarrow> content list" where
  "following_tool_messages expected seen [] = []"
| "following_tool_messages expected seen (m # ms) =
     (if c_role m \<noteq> Role_TOOL then []
      else case c_tool_call_id m of
        None \<Rightarrow> []
      | Some i \<Rightarrow>
          if i \<notin> expected then []
          else if i \<in> seen then []
          else if insert i seen = expected then [m]
          else m # following_tool_messages expected (insert i seen) ms)"

lemma following_length: "length (following_tool_messages expected seen ms) \<le> length ms"
  by (induction expected seen ms rule: following_tool_messages.induct) (auto split: option.split)

function tool_protocol_safe_messages :: "content list \<Rightarrow> content list" where
  "tool_protocol_safe_messages [] = []"
| "tool_protocol_safe_messages (m # ms) =
     (if c_role m = Role_TOOL then tool_protocol_safe_messages ms
      else if c_role m = Role_ASSISTANT \<and> calls_of m \<noteq> []
      then let tool_messages = following_tool_messages (expected_ids m) {} ms
           in if length tool_messages = length (calls_of m)
              then m # tool_messages
                     @ tool_protocol_safe_messages (drop (length tool_messages) ms)
              else tool_protocol_safe_messages (drop (length tool_messages) ms)
      else m # tool_protocol_safe_messages ms)"
  by pat_completeness auto
termination
  by (relation "measure length") auto

definition is_active :: "content \<Rightarrow> bool" where
  "is_active m \<longleftrightarrow> c_status m = None \<or> c_status m = Some Status_ACTIVE"

definition active_messages :: "content list \<Rightarrow> content list" where
  "active_messages ms = tool_protocol_safe_messages (filter is_active ms)"

definition organize :: "chat_context \<Rightarrow> content list option \<Rightarrow> context_window" where
  "organize c msgs =
     \<lparr>cw_context_id = ctx_id c,
      cw_messages = active_messages (ctx_messages c)
        @ active_messages (case msgs of None \<Rightarrow> [] | Some ms \<Rightarrow> ms),
      cw_metadata = ctx_metadata c\<rparr>"

definition to_chat_request ::
  "chat_context \<Rightarrow> string \<Rightarrow> content list option \<Rightarrow> tool_definition list option \<Rightarrow> metadata option \<Rightarrow> chat_request"
  where
  "to_chat_request c model_id msgs tools meta =
     (let window = organize c msgs
      in \<lparr>rq_model_id = model_id, rq_messages = cw_messages window, rq_skills = None,
          rq_tools = tools, rq_prompt_cache = None,
          rq_metadata = dict_set ''context_id'' (PStr (cw_context_id window))
            (dict_merge (cw_metadata window) (case meta of None \<Rightarrow> [] | Some m \<Rightarrow> m))\<rparr>)"

section \<open>What providers require of a list of messages\<close>

text \<open>
  Providers refuse a tool message that answers no call, and a call without its answer.
  \<open>protocol_ok\<close> says that the messages satisfy both: each assistant message with calls is followed
  at once by exactly one answer to each of its calls, and there is no other tool message.
\<close>

definition calling :: "content \<Rightarrow> bool" where
  "calling m \<longleftrightarrow> c_role m = Role_ASSISTANT \<and> calls_of m \<noteq> []"

definition plain :: "content \<Rightarrow> bool" where
  "plain m \<longleftrightarrow> c_role m \<noteq> Role_TOOL \<and> \<not> calling m"

definition answered :: "content \<Rightarrow> content list \<Rightarrow> bool" where
  "answered m ts \<longleftrightarrow> (\<forall>t \<in> set ts. c_role t = Role_TOOL) \<and> distinct (map c_tool_call_id ts)
     \<and> c_tool_call_id ` set ts = Some ` expected_ids m"

function protocol_ok :: "content list \<Rightarrow> bool" where
  "protocol_ok [] \<longleftrightarrow> True"
| "protocol_ok (m # ms) \<longleftrightarrow>
     (if c_role m = Role_TOOL then False
      else if calling m
      then (let n = length (calls_of m)
            in n \<le> length ms \<and> answered m (take n ms) \<and> protocol_ok (drop n ms))
      else protocol_ok ms)"
  by pat_completeness auto
termination
  by (relation "measure length") auto

lemma protocol_ok_plain [simp]: "plain m \<Longrightarrow> protocol_ok (m # ms) \<longleftrightarrow> protocol_ok ms"
  by (simp add: plain_def)

lemma protocol_ok_append: "protocol_ok xs \<Longrightarrow> protocol_ok (xs @ ys) \<longleftrightarrow> protocol_ok ys"
  by (induction xs rule: protocol_ok.induct) (auto simp: Let_def split: if_splits)

lemma protocol_ok_concat: "\<forall>g \<in> set gs. protocol_ok g \<Longrightarrow> protocol_ok (concat gs)"
  by (induction gs) (simp_all add: protocol_ok_append)

lemma finite_expected_ids [simp]: "finite (expected_ids m)"
  by (simp add: expected_ids_def)

lemma card_expected_ids: "card (expected_ids m) \<le> length (calls_of m)"
  by (metis expected_ids_def card_image_le card_length finite_set le_trans)

text \<open>What \<open>following_tool_messages\<close> takes.\<close>

lemma following_prefix:
  "following_tool_messages expected seen ms = take (length (following_tool_messages expected seen ms)) ms"
  by (induction expected seen ms rule: following_tool_messages.induct) (auto split: option.split)

lemma following_answers:
  "t \<in> set (following_tool_messages expected seen ms) \<Longrightarrow>
     c_role t = Role_TOOL \<and> (\<exists>i. c_tool_call_id t = Some i \<and> i \<in> expected \<and> i \<notin> seen)"
  by (induction expected seen ms rule: following_tool_messages.induct)
    (auto split: option.splits if_splits)

lemma following_distinct: "distinct (map c_tool_call_id (following_tool_messages expected seen ms))"
proof (induction expected seen ms rule: following_tool_messages.induct)
  case (2 expected seen m ms)
  then show ?case
    by (auto split: option.split dest: following_answers)
qed simp

lemma following_answered:
  assumes "length (following_tool_messages (expected_ids m) {} ms) = length (calls_of m)"
  shows "answered m (following_tool_messages (expected_ids m) {} ms)"
proof -
  let ?ts = "following_tool_messages (expected_ids m) {} ms"
  have sub: "c_tool_call_id ` set ?ts \<subseteq> Some ` expected_ids m"
    by (auto dest: following_answers)
  have "card (Some ` expected_ids m) \<le> length (calls_of m)"
    using card_expected_ids by (simp add: card_image)
  also have "\<dots> = card (c_tool_call_id ` set ?ts)"
    using assms following_distinct by (metis distinct_card length_map list.set_map)
  finally have "c_tool_call_id ` set ?ts = Some ` expected_ids m"
    using sub by (meson card_seteq finite_expected_ids finite_imageI)
  then show ?thesis
    using following_distinct by (auto simp: answered_def dest: following_answers)
qed

lemma following_all:
  assumes "\<forall>t \<in> set ts. c_role t = Role_TOOL" "distinct (map c_tool_call_id ts)"
    and "c_tool_call_id ` set ts = Some ` (expected - seen)" "seen \<subseteq> expected" "ts \<noteq> []"
  shows "following_tool_messages expected seen (ts @ rest) = ts"
  using assms
proof (induction ts arbitrary: seen)
  case Nil
  then show ?case by simp
next
  case (Cons t ts)
  from Cons.prems(3) obtain i where i: "c_tool_call_id t = Some i" "i \<in> expected" "i \<notin> seen"
    by auto
  have "insert (Some i) (c_tool_call_id ` set ts) = Some ` (expected - seen)"
    and "Some i \<notin> c_tool_call_id ` set ts"
    using Cons.prems(2,3) i by simp_all
  then have "c_tool_call_id ` set ts = Some ` (expected - seen) - {Some i}" by blast
  then have ids: "c_tool_call_id ` set ts = Some ` (expected - insert i seen)" by auto
  show ?case
  proof (cases "ts = []")
    case True
    with ids i Cons.prems have "insert i seen = expected" by auto
    with True i Cons.prems show ?thesis by simp
  next
    case False
    with ids have "insert i seen \<noteq> expected" by auto
    moreover have "following_tool_messages expected (insert i seen) (ts @ rest) = ts"
      using Cons.IH [OF _ _ ids] Cons.prems False i by simp
    ultimately show ?thesis using i Cons.prems by simp
  qed
qed

section \<open>The organizer is safe, complete and idempotent\<close>

lemma protocol_ok_safe: "protocol_ok (tool_protocol_safe_messages ms)"
proof (induction ms rule: tool_protocol_safe_messages.induct)
  case (2 m ms)
  let ?ts = "following_tool_messages (expected_ids m) {} ms"
  show ?case
  proof (cases "calling m \<and> length ?ts = length (calls_of m)")
    case True
    then have "answered m ?ts" by (intro following_answered) simp
    with True 2 show ?thesis by (auto simp: calling_def Let_def)
  next
    case False
    with 2 show ?thesis by (auto simp: calling_def Let_def)
  qed
qed simp

lemma safe_subseq: "subseq (tool_protocol_safe_messages ms) ms"
proof (induction ms rule: tool_protocol_safe_messages.induct)
  case (2 m ms)
  let ?ts = "following_tool_messages (expected_ids m) {} ms"
  have split: "ms = ?ts @ drop (length ?ts) ms"
    by (metis append_take_drop_id following_prefix)
  have drop: "subseq zs (drop (length ?ts) ms) \<Longrightarrow> subseq zs ms" for zs
    by (metis split list_emb_append2)
  have keep: "subseq zs (drop (length ?ts) ms) \<Longrightarrow> subseq (?ts @ zs) ms" for zs
    by (metis split subseq_append')
  from 2 show ?case
    by (auto simp: Let_def intro: drop keep)
qed simp

lemma safe_keeps_plain: "filter plain (tool_protocol_safe_messages ms) = filter plain ms"
proof (induction ms rule: tool_protocol_safe_messages.induct)
  case (2 m ms)
  let ?ts = "following_tool_messages (expected_ids m) {} ms"
  have none: "filter plain ?ts = []"
    by (auto simp: filter_empty_conv plain_def dest: following_answers)
  have rest: "filter plain (drop (length ?ts) ms) = filter plain ms"
    by (metis append_Nil append_take_drop_id filter_append following_prefix none)
  consider "c_role m = Role_TOOL" "\<not> plain m" | "calling m" "\<not> plain m" "c_role m \<noteq> Role_TOOL"
    | "plain m" "\<not> calling m" "c_role m \<noteq> Role_TOOL"
    by (auto simp: plain_def calling_def)
  then show ?case
  proof cases
    case 1
    with 2 show ?thesis by simp
  next
    case 2
    with "2.IH"(2,3) none rest show ?thesis by (auto simp: calling_def Let_def)
  next
    case 3
    with "2.IH"(4) show ?thesis by (auto simp: calling_def)
  qed
qed simp

lemma safe_id: "protocol_ok ms \<Longrightarrow> tool_protocol_safe_messages ms = ms"
proof (induction ms rule: protocol_ok.induct)
  case (2 m ms)
  show ?case
  proof (cases "calling m")
    case False
    with 2 show ?thesis by (auto simp: calling_def split: if_splits)
  next
    case True
    let ?n = "length (calls_of m)"
    from True 2(3) have ok: "?n \<le> length ms" "answered m (take ?n ms)" "protocol_ok (drop ?n ms)"
      by (simp_all add: Let_def split: if_splits)
    have "following_tool_messages (expected_ids m) {} (take ?n ms @ drop ?n ms) = take ?n ms"
      using ok True by (intro following_all) (auto simp: answered_def calling_def)
    with True 2 ok show ?thesis
      by (simp add: calling_def Let_def)
  qed
qed simp

lemma protocol_ok_organize: "protocol_ok (cw_messages (organize c msgs))"
  by (simp add: organize_def active_messages_def protocol_ok_append protocol_ok_safe)

text \<open>The two rules of the protocol, read off a list that satisfies it.\<close>

lemma protocol_answers_call:
  assumes "protocol_ok ms" "i < length ms" "c_role (ms ! i) = Role_TOOL"
  shows "\<exists>j < i. calling (ms ! j) \<and> answers (expected_ids (ms ! j)) (ms ! i)"
  using assms
proof (induction ms arbitrary: i rule: protocol_ok.induct)
  case (2 m ms)
  then obtain k where k: "i = Suc k" "k < length ms" "c_role (ms ! k) = Role_TOOL"
    by (cases i) (auto split: if_splits)
  show ?case
  proof (cases "calling m")
    case False
    with 2 k obtain j where "j < k" "calling (ms ! j)" "answers (expected_ids (ms ! j)) (ms ! k)"
      by (auto split: if_splits)
    with k show ?thesis by (intro exI [of _ "Suc j"]) simp
  next
    case True
    let ?n = "length (calls_of m)"
    from True 2 have ok: "?n \<le> length ms" "answered m (take ?n ms)" "protocol_ok (drop ?n ms)"
      by (simp_all add: Let_def split: if_splits)
    show ?thesis
    proof (cases "k < ?n")
      case True
      with ok k have "ms ! k \<in> set (take ?n ms)" by (metis in_set_conv_nth length_take min.absorb2 nth_take)
      with ok(2) have "c_tool_call_id (ms ! k) \<in> Some ` expected_ids m"
        by (auto simp: answered_def)
      with k \<open>calling m\<close> show ?thesis by (intro exI [of _ 0]) (auto simp: answers_def)
    next
      case False
      with k ok have "k - ?n < length (drop ?n ms)" "c_role (drop ?n ms ! (k - ?n)) = Role_TOOL"
        by simp_all
      moreover have "c_role m \<noteq> Role_TOOL" using \<open>calling m\<close> by (simp add: calling_def)
      ultimately obtain j where
        "j < k - ?n" "calling (drop ?n ms ! j)"
        "answers (expected_ids (drop ?n ms ! j)) (drop ?n ms ! (k - ?n))"
        using 2(1) [OF _ \<open>calling m\<close> refl ok(3)] by blast
      with k False ok have
        "j < k - ?n" "calling (ms ! (?n + j))" "answers (expected_ids (ms ! (?n + j))) (ms ! k)"
        by simp_all
      with k show ?thesis by (intro exI [of _ "Suc (?n + j)"]) simp
    qed
  qed
qed simp

lemma protocol_calls_answered:
  assumes "protocol_ok ms" "m \<in> set ms" "calling m" "i \<in> expected_ids m"
  shows "\<exists>t \<in> set ms. c_role t = Role_TOOL \<and> c_tool_call_id t = Some i"
  using assms
proof (induction ms rule: protocol_ok.induct)
  case (2 m' ms)
  show ?case
  proof (cases "calling m'")
    case False
    with 2 show ?thesis by (auto split: if_splits)
  next
    case True
    let ?n = "length (calls_of m')"
    from True 2 have ok: "answered m' (take ?n ms)" "protocol_ok (drop ?n ms)"
      by (simp_all add: Let_def split: if_splits)
    consider "m = m'" | "m \<in> set (take ?n ms)" | "m \<in> set (drop ?n ms)"
      using 2(4) by (metis Un_iff append_take_drop_id set_ConsD set_append)
    then show ?thesis
    proof cases
      case 1
      with ok(1) 2(6) have "Some i \<in> c_tool_call_id ` set (take ?n ms)" by (auto simp: answered_def)
      then obtain t where "t \<in> set (take ?n ms)" "c_tool_call_id t = Some i" by auto
      with ok(1) have "t \<in> set ms \<and> c_role t = Role_TOOL \<and> c_tool_call_id t = Some i"
        by (auto simp: answered_def dest: in_set_takeD)
      then show ?thesis by auto
    next
      case 2
      with ok(1) assms(3) show ?thesis by (auto simp: answered_def calling_def)
    next
      case 3
      with "2.IH"(1) [OF _ True refl ok(2)] 2 True show ?thesis
        by (auto split: if_splits dest: in_set_dropD)
    qed
  qed
qed simp

section \<open>The properties of the component\<close>

definition sample_context :: "string \<Rightarrow> string option \<Rightarrow> content list \<Rightarrow> chat_context" where
  "sample_context cid owner ms =
     \<lparr>ctx_id = cid, ctx_owner_id = owner, ctx_revision = 0, ctx_messages = ms, ctx_metadata = []\<rparr>"

definition asking :: "nat \<Rightarrow> string \<Rightarrow> content" where
  "asking ref i = (message ref Role_ASSISTANT)\<lparr>c_tool_calls := Some
     [\<lparr>tc_id = i, tc_call = [], tc_approval = None, tc_metadata = []\<rparr>]\<rparr>"

definition answering :: "nat \<Rightarrow> string \<Rightarrow> content" where
  "answering ref i = (message ref Role_TOOL)\<lparr>c_tool_call_id := Some i\<rparr>"

lemma sample_exchange_ok:
  "protocol_ok [message 0 Role_USER, asking 1 ''a'', answering 2 ''a'', message 3 Role_ASSISTANT]"
  by (simp add: calling_def calls_of_def message_def asking_def answering_def answered_def
      expected_ids_def)

text \<open>The organizer only ever sends a provider message lists that it accepts: every tool message
  answers a call of the assistant message it follows, and every call is answered.  Nothing is
  reordered or invented, and no message is dropped but tool messages and unanswered calls.\<close>

theorem organizer_protocol_safe:
  "protocol_ok (cw_messages (organize c (Some msgs)))
   \<and> subseq (cw_messages (organize c (Some msgs))) (filter is_active (ctx_messages c @ msgs))
   \<and> filter plain (cw_messages (organize c (Some msgs)))
       = filter plain (filter is_active (ctx_messages c @ msgs))"
  by (intro conjI protocol_ok_organize)
    (simp_all add: organize_def active_messages_def safe_keeps_plain list_emb_append_mono safe_subseq
      del: filter_filter)

text \<open>The organizer drops nothing that it need not drop: a history that already satisfies the
  protocol, with all its messages active, is sent as it is; so organizing is idempotent.\<close>

theorem organizer_keeps_valid_history:
  assumes "protocol_ok (ctx_messages c)" and "\<forall>m \<in> set (ctx_messages c). is_active m"
  shows "cw_messages (organize c None) = ctx_messages c"
    using assms by (simp add: organize_def active_messages_def safe_id)

theorem organizer_keeps_valid_history_witness:
  "cw_messages (organize (sample_context ''c'' None
     [message 0 Role_USER, asking 1 ''a'', answering 2 ''a'', message 3 Role_ASSISTANT]) None)
   = [message 0 Role_USER, asking 1 ''a'', answering 2 ''a'', message 3 Role_ASSISTANT]"
  using organizer_keeps_valid_history [of "sample_context ''c'' None
     [message 0 Role_USER, asking 1 ''a'', answering 2 ''a'', message 3 Role_ASSISTANT]"]
    sample_exchange_ok
  by (simp add: sample_context_def is_active_def message_def asking_def answering_def
      del: protocol_ok.simps)

lemma append_message_ok:
  assumes "keyed ctx_id d" "append_message scope k m expected d = (Inr c', d')"
  obtains c where "dict_get d k = Some c" "scope_permits scope (ctx_owner_id c)"
    "expected = None \<or> expected = Some (ctx_revision c)"
    "c' = c\<lparr>ctx_messages := ctx_messages c @ [m], ctx_revision := ctx_revision c + 1\<rparr>"
    "d' = dict_set k c' d"
proof (cases "context_get scope k d")
  case (Inr c)
  with assms that show thesis
    by (auto simp: append_message_def context_get_iff context_register_def require_context_scope_def
        bind_a_def Let_def keyed_def split: if_splits)
qed (use assms in \<open>simp add: append_message_def\<close>)

text \<open>C15: Appending with an expected revision loses no update: of two appends that expect the same
  revision only the first succeeds; it adds its message at the end, increments the revision and
  touches no other context, and the second changes nothing.\<close>

theorem append_no_lost_update:
  assumes "keyed ctx_id d" and "append_message scope k m1 (Some n) d = (Inr c, d')"
  shows "(\<exists>old. dict_get d k = Some old \<and> ctx_messages c = ctx_messages old @ [m1]
            \<and> ctx_revision old = n \<and> ctx_revision c = n + 1)
    \<and> dict_get d' = (dict_get d)(k \<mapsto> c)
    \<and> (\<exists>e. append_message scope' k m2 (Some n) d' = (Inl e, d'))"
  using assms
proof (rule append_message_ok)
  fix old
  assume *: "dict_get d k = Some old" "scope_permits scope (ctx_owner_id old)"
    "Some n = None \<or> Some n = Some (ctx_revision old)"
    "c = old\<lparr>ctx_messages := ctx_messages old @ [m1], ctx_revision := ctx_revision old + 1\<rparr>"
    "d' = dict_set k c d"
  then have "\<exists>e. append_message scope' k m2 (Some n) d' = (Inl e, d')"
    by (auto simp: append_message_def context_get_def split: bool.split)
  with * show ?thesis by auto
qed

definition two_contexts :: context_register where
  "two_contexts = [(''a'', sample_context ''a'' (Some ''ann'') []), (''b'', sample_context ''b'' (Some ''bob'') [])]"

lemma two_contexts_keyed: "keyed ctx_id two_contexts"
  by (simp add: keyed_def two_contexts_def sample_context_def dict_ok_def dict_keys_def dict_get_Cons)

theorem append_no_lost_update_witness:
  "\<exists>c d' e. append_message None ''a'' (message 0 Role_USER) (Some 0) two_contexts = (Inr c, d')
     \<and> append_message None ''a'' (message 1 Role_USER) (Some 0) d' = (Inl e, d')"
proof -
  obtain c d' where *: "append_message None ''a'' (message 0 Role_USER) (Some 0) two_contexts = (Inr c, d')"
    by (simp add: append_message_def context_get_def context_has_def two_contexts_def sample_context_def
        dict_get_Cons context_register_def require_context_scope_def bind_a_def Let_def)
  with append_no_lost_update [OF two_contexts_keyed *, of None "message 1 Role_USER"] show ?thesis
    by blast
qed

text \<open>A principal neither sees nor changes the contexts of others: what its scope does not permit
  is not returned by get or any listing, and append, replace, delete and clear leave it as it was.\<close>

theorem contexts_scoped:
  assumes "keyed ctx_id d" and "dict_get d k = Some c" and "\<not> scope_permits scope (ctx_owner_id c)"
  shows "context_get scope k d \<noteq> Inr c \<and> c \<notin> set (context_list cursor limit owner_id scope d)
    \<and> dict_get (snd (append_message scope k' m expected d)) k = Some c
    \<and> dict_get (snd (context_replace scope c' d)) k = Some c
    \<and> dict_get (snd (context_unregister scope k' d)) k = Some c
    \<and> dict_get (snd (context_clear scope d)) k = Some c"
proof (intro conjI)
  show "context_get scope k d \<noteq> Inr c" using assms(3) by (simp add: context_get_iff)
  show "c \<notin> set (context_list cursor limit owner_id scope d)"
    using assms(3) by (auto simp: context_list_def owner_filter_eq dest: set_take_optD)
  show "dict_get (snd (append_message scope k' m expected d)) k = Some c"
  proof (cases "fst (append_message scope k' m expected d)")
    case (Inl e)
    then have "snd (append_message scope k' m expected d) = d"
      by (auto simp: append_message_def context_register_def require_context_scope_def bind_a_def Let_def
          split: sum.splits if_splits)
    with assms show ?thesis by simp
  next
    case (Inr c1)
    then obtain d1 where d1: "append_message scope k' m expected d = (Inr c1, d1)" by (metis prod.collapse)
    from assms(1) this obtain c0 where "dict_get d k' = Some c0" "scope_permits scope (ctx_owner_id c0)"
      "d1 = dict_set k' c1 d" by (rule append_message_ok)
    with assms(2,3) d1 show ?thesis by (cases "k = k'") auto
  qed
  show "dict_get (snd (context_replace scope c' d)) k = Some c"
  proof (cases "context_has scope (ctx_id c') d")
    case True
    with assms ctx.register_keeps_foreign [of d scope c' k c] show ?thesis
      by (simp add: context_replace_def bind_a_def split: prod.split sum.split) (metis snd_conv)
  qed (use assms in \<open>simp add: context_replace_def\<close>)
  show "dict_get (snd (context_unregister scope k' d)) k = Some c"
    using assms by (intro ctx.unregister_keeps_foreign)
  show "dict_get (snd (context_clear scope d)) k = Some c"
    using ctx.clear_removes_permitted [OF assms(1), of scope] assms(2,3)
    by (auto simp: context_clear_def)
qed

theorem contexts_scoped_witness:
  "dict_get (snd (context_clear (Some \<lparr>scope_owner_id = Some ''ann''\<rparr>) two_contexts)) ''b''
     = Some (sample_context ''b'' (Some ''bob'') [])"
  using contexts_scoped [OF two_contexts_keyed, of "''b''" "sample_context ''b'' (Some ''bob'') []"
      "Some \<lparr>scope_owner_id = Some ''ann''\<rparr>"]
  by (simp add: two_contexts_def sample_context_def dict_get_Cons)

text \<open>Creating a context checks only the owner of the new record, not whether the id is taken: a
  scoped principal that creates a context under the id of another owner's context replaces it.\<close>

theorem create_takes_over_id:
  assumes "keyed ctx_id d" and "dict_get d (ctx_id c) = Some old"
    and "\<not> scope_permits scope (ctx_owner_id old)" and "scope_permits scope (ctx_owner_id c)"
  shows "\<exists>d'. context_create scope c d = (Inr c, d') \<and> dict_get d' (ctx_id c) = Some c \<and> c \<noteq> old"
proof -
  from ctx.register_get [OF assms(1,4)] obtain d' where
    "context_create scope c d = (Inr c, d')" "dict_get d' = (dict_get d)(ctx_id c \<mapsto> c)"
    by (auto simp: context_create_def)
  with assms(3,4) show ?thesis by auto
qed

theorem create_takes_over_id_witness:
  "\<exists>d'. context_create (Some \<lparr>scope_owner_id = Some ''ann''\<rparr>) (sample_context ''b'' (Some ''ann'') [])
     two_contexts = (Inr (sample_context ''b'' (Some ''ann'') []), d')"
  using create_takes_over_id [OF two_contexts_keyed, of "sample_context ''b'' (Some ''ann'') []"
      "sample_context ''b'' (Some ''bob'') []" "Some \<lparr>scope_owner_id = Some ''ann''\<rparr>"]
  by (simp add: two_contexts_def sample_context_def dict_get_Cons) blast

end
