(* ===== verification/Memory.thy ===== *)
theory Memory
  imports ScopedStore Content
begin

text \<open>
  Memories: the schemas (\<open>core/schema/memory.py\<close>), the register and the manager, and the
  selection of memories for a request (\<open>core/domain/memory.py\<close>).

  The Unicode tables behind \<open>strip\<close>, \<open>casefold\<close>, \<open>split\<close> and the regular expression \<open>[\w]+\<close> are the
  parameter \<open>unicode\<close>; \<open>ascii_unicode\<close> is its instance for ASCII text.  Times are microseconds
  since the epoch, in UTC, and floats are rational numbers.
\<close>

section \<open>Text\<close>

record unicode =
  uc_strip :: "string \<Rightarrow> string"
  uc_casefold :: "string \<Rightarrow> string"
  uc_split :: "string \<Rightarrow> string list"
  uc_words :: "string \<Rightarrow> string list"

definition ascii_space :: "char \<Rightarrow> bool" where
  "ascii_space c \<longleftrightarrow> (let n = of_char c :: nat in n = 32 \<or> 9 \<le> n \<and> n \<le> 13 \<or> 28 \<le> n \<and> n \<le> 31)"

definition ascii_word :: "char \<Rightarrow> bool" where
  "ascii_word c \<longleftrightarrow> (let n = of_char c :: nat in
     48 \<le> n \<and> n \<le> 57 \<or> 65 \<le> n \<and> n \<le> 90 \<or> 97 \<le> n \<and> n \<le> 122 \<or> n = 95)"

definition ascii_lower :: "char \<Rightarrow> char" where
  "ascii_lower c = (let n = of_char c :: nat in if 65 \<le> n \<and> n \<le> 90 then char_of (n + 32) else c)"

text \<open>The maximal runs of characters that satisfy a predicate.\<close>

fun runs :: "(char \<Rightarrow> bool) \<Rightarrow> string \<Rightarrow> string \<Rightarrow> string list" where
  "runs P acc [] = (if acc = [] then [] else [acc])"
| "runs P acc (c # cs) =
     (if P c then runs P (acc @ [c]) cs
      else if acc = [] then runs P [] cs else acc # runs P [] cs)"

definition ascii_unicode :: unicode where
  "ascii_unicode =
     \<lparr>uc_strip = \<lambda>s. rev (dropWhile ascii_space (rev (dropWhile ascii_space s))),
      uc_casefold = map ascii_lower,
      uc_split = runs (Not \<circ> ascii_space) [],
      uc_words = runs ascii_word []\<rparr>"

section \<open>Schemas\<close>

datatype memory_kind =
  Kind_FACT | Kind_PREFERENCE | Kind_SUMMARY | Kind_DEFINITION | Kind_INSTRUCTION | Kind_EPISODIC

fun memory_kind_value :: "memory_kind \<Rightarrow> string" where
  "memory_kind_value Kind_FACT = ''fact''"
| "memory_kind_value Kind_PREFERENCE = ''preference''"
| "memory_kind_value Kind_SUMMARY = ''summary''"
| "memory_kind_value Kind_DEFINITION = ''definition''"
| "memory_kind_value Kind_INSTRUCTION = ''instruction''"
| "memory_kind_value Kind_EPISODIC = ''episodic''"

datatype memory_scope = MScope_GLOBAL | MScope_USER | MScope_SESSION | MScope_CONTEXT

fun memory_scope_value :: "memory_scope \<Rightarrow> string" where
  "memory_scope_value MScope_GLOBAL = ''global''"
| "memory_scope_value MScope_USER = ''user''"
| "memory_scope_value MScope_SESSION = ''session''"
| "memory_scope_value MScope_CONTEXT = ''context''"

datatype memory_sort =
    Sort_DEFAULT | Sort_PRIORITY | Sort_RELEVANCE | Sort_CONFIDENCE | Sort_UPDATED_AT
  | Sort_CREATED_AT | Sort_MEMORY_ID

record memory_scope_selector =
  ms_scope :: memory_scope
  ms_scope_id :: "string option"

record memory_item =
  mem_id :: string
  mem_owner_id :: "string option"
  mem_content :: string
  mem_kind :: memory_kind
  mem_scope :: memory_scope
  mem_scope_id :: "string option"
  mem_tags :: "string list"
  mem_priority :: int
  mem_relevance :: rat
  mem_confidence :: rat
  mem_is_enabled :: bool
  mem_expires_at :: "int option"
  mem_created_at :: int
  mem_updated_at :: int
  mem_metadata :: metadata

record memory_query =
  mq_text :: "string option"
  mq_scope :: "memory_scope option"
  mq_scope_id :: "string option"
  mq_scopes :: "memory_scope_selector list"
  mq_kinds :: "memory_kind list"
  mq_tags :: "string list"
  mq_minimum_relevance :: "rat option"
  mq_minimum_confidence :: "rat option"
  mq_include_disabled :: bool
  mq_include_expired :: bool
  mq_deduplicate :: bool
  mq_sort :: memory_sort
  mq_limit :: "nat option"
  mq_metadata :: metadata

record memory_selection =
  sel_memories :: "memory_item list"
  sel_metadata :: metadata

definition empty_query :: memory_query where
  "empty_query = \<lparr>mq_text = None, mq_scope = None, mq_scope_id = None, mq_scopes = [],
     mq_kinds = [], mq_tags = [], mq_minimum_relevance = None, mq_minimum_confidence = None,
     mq_include_disabled = False, mq_include_expired = False, mq_deduplicate = False,
     mq_sort = Sort_DEFAULT, mq_limit = None, mq_metadata = []\<rparr>"

text \<open>\<open>value.strip() or None\<close>, the identity fields' validator.\<close>

definition normalize_identity :: "unicode \<Rightarrow> string option \<Rightarrow> string option" where
  "normalize_identity uc v =
     (case v of None \<Rightarrow> None | Some s \<Rightarrow> if uc_strip uc s = [] then None else Some (uc_strip uc s))"

fun normalize_tags_from :: "unicode \<Rightarrow> string list \<Rightarrow> string list \<Rightarrow> string list" where
  "normalize_tags_from uc seen [] = []"
| "normalize_tags_from uc seen (t # ts) =
     (let next_tag = uc_casefold uc (uc_strip uc t)
      in if next_tag = [] \<or> next_tag \<in> set seen then normalize_tags_from uc seen ts
         else next_tag # normalize_tags_from uc (next_tag # seen) ts)"

definition normalize_tags :: "unicode \<Rightarrow> string list \<Rightarrow> string list" where
  "normalize_tags uc ts = normalize_tags_from uc [] ts"

definition value_error :: "string \<Rightarrow> error" where
  "value_error msg = raised (PyException ''ValueError'') msg"

text \<open>A number field that pydantic declares with \<open>ge=0.0, le=1.0\<close>.\<close>

definition unit_interval :: "rat option \<Rightarrow> bool" where
  "unit_interval r = (case r of None \<Rightarrow> True | Some r \<Rightarrow> 0 \<le> r \<and> r \<le> 1)"

definition validate_selector :: "unicode \<Rightarrow> memory_scope_selector \<Rightarrow> error + memory_scope_selector" where
  "validate_selector uc sel =
     (let sid = normalize_identity uc (ms_scope_id sel)
      in if ms_scope sel = MScope_GLOBAL \<and> sid \<noteq> None
         then Inl (value_error ''global memory selector must not have a scope_id'')
         else if ms_scope sel \<noteq> MScope_GLOBAL \<and> sid = None
         then Inl (value_error ''non-global memory selector must have a scope_id'')
         else Inr (sel\<lparr>ms_scope_id := sid\<rparr>))"

definition validate_memory :: "unicode \<Rightarrow> memory_item \<Rightarrow> error + memory_item" where
  "validate_memory uc m =
     (let sid = normalize_identity uc (mem_scope_id m)
      in if \<not> unit_interval (Some (mem_relevance m)) then Inl (value_error ''relevance'')
         else if \<not> unit_interval (Some (mem_confidence m)) then Inl (value_error ''confidence'')
         else if uc_strip uc (mem_content m) = []
         then Inl (value_error ''memory content must not be empty'')
         else if mem_scope m = MScope_GLOBAL \<and> sid \<noteq> None
         then Inl (value_error ''global memory must not have a scope_id'')
         else if mem_scope m \<noteq> MScope_GLOBAL \<and> sid = None
         then Inl (value_error ''non-global memory must have a scope_id'')
         else if mem_updated_at m < mem_created_at m
         then Inl (value_error ''memory updated_at must not be before created_at'')
         else Inr (m\<lparr>mem_content := uc_strip uc (mem_content m), mem_scope_id := sid,
                     mem_owner_id := normalize_identity uc (mem_owner_id m),
                     mem_tags := normalize_tags uc (mem_tags m)\<rparr>))"

text \<open>The text of a query becomes \<open>" ".join(value.split()) or None\<close>.\<close>

definition validate_query :: "unicode \<Rightarrow> memory_query \<Rightarrow> error + memory_query" where
  "validate_query uc q =
     (if \<not> unit_interval (mq_minimum_relevance q)
      then Inl (value_error ''minimum_relevance'')
      else if \<not> unit_interval (mq_minimum_confidence q)
      then Inl (value_error ''minimum_confidence'')
      else if mq_limit q = Some 0 then Inl (value_error ''limit'')
      else Inr (q\<lparr>mq_text := (case mq_text q of None \<Rightarrow> None
                    | Some t \<Rightarrow> (let normalized = join '' '' (uc_split uc t)
                                in if normalized = [] then None else Some normalized)),
                  mq_scope_id := normalize_identity uc (mq_scope_id q),
                  mq_tags := normalize_tags uc (mq_tags q)\<rparr>))"

section \<open>Sort keys\<close>

text \<open>
  The tuples that \<open>_sort_key\<close> builds: numbers, then the memory id.  They are compared
  lexicographically; within one query they all have the same number of components.
\<close>

datatype memory_sort_key = Sort_Key "rat list" string

instantiation memory_sort_key :: linorder
begin

fun less_eq_memory_sort_key :: "memory_sort_key \<Rightarrow> memory_sort_key \<Rightarrow> bool" where
  "less_eq_memory_sort_key (Sort_Key a i) (Sort_Key b j) \<longleftrightarrow> a < b \<or> a = b \<and> i \<le> j"

definition less_memory_sort_key :: "memory_sort_key \<Rightarrow> memory_sort_key \<Rightarrow> bool" where
  "less_memory_sort_key x y \<longleftrightarrow> x \<le> y \<and> \<not> y \<le> x"

instance
proof
  fix x y z :: memory_sort_key
  show "x < y \<longleftrightarrow> x \<le> y \<and> \<not> y \<le> x" by (rule less_memory_sort_key_def)
  show "x \<le> x" by (cases x) simp
  show "x \<le> y \<Longrightarrow> y \<le> z \<Longrightarrow> x \<le> z" by (cases x; cases y; cases z) auto
  show "x \<le> y \<Longrightarrow> y \<le> x \<Longrightarrow> x = y" by (cases x; cases y) auto
  show "x \<le> y \<or> y \<le> x" by (cases x; cases y) auto
qed

end

section \<open>Matching and scoring\<close>

definition selects :: "memory_item \<Rightarrow> memory_scope_selector \<Rightarrow> bool" where
  "selects m sel \<longleftrightarrow> mem_scope m = ms_scope sel \<and> mem_scope_id m = ms_scope_id sel"

definition matches_scope :: "memory_item \<Rightarrow> memory_query \<Rightarrow> bool" where
  "matches_scope m q =
     (if mq_scopes q \<noteq> [] then (\<exists>sel \<in> set (mq_scopes q). selects m sel)
      else if mq_scope q \<noteq> None \<and> mq_scope q \<noteq> Some (mem_scope m) then False
      else if mq_scope_id q \<noteq> None \<and> mem_scope_id m \<noteq> mq_scope_id q then False
      else True)"

fun scope_rank :: "memory_item \<Rightarrow> memory_scope_selector list \<Rightarrow> nat" where
  "scope_rank m [] = 0"
| "scope_rank m (sel # sels) = (if selects m sel then 0 else Suc (scope_rank m sels))"

definition lexical_tokens :: "unicode \<Rightarrow> string \<Rightarrow> string list" where
  "lexical_tokens uc text = uc_words uc (uc_casefold uc text)"

definition searchable_text :: "unicode \<Rightarrow> memory_item \<Rightarrow> string" where
  "searchable_text uc m = uc_casefold uc (join '' ''
     ([mem_content m, memory_kind_value (mem_kind m), memory_scope_value (mem_scope m)] @ mem_tags m))"

definition lexical_match :: "unicode \<Rightarrow> memory_item \<Rightarrow> string \<Rightarrow> bool" where
  "lexical_match uc m text =
     (let tokens = lexical_tokens uc text
      in if tokens = [] then True
         else (\<forall>token \<in> set tokens. sublist token (searchable_text uc m)))"

definition lexical_score :: "unicode \<Rightarrow> memory_item \<Rightarrow> memory_query \<Rightarrow> rat" where
  "lexical_score uc m q =
     (case mq_text q of
        None \<Rightarrow> 0
      | Some text \<Rightarrow>
          (let tokens = lexical_tokens uc text
           in if tokens = [] then 0
              else of_nat (length (filter (\<lambda>token. sublist token (searchable_text uc m)) tokens))
                   / of_nat (length tokens)))"

text \<open>\<open>round(x, 6)\<close>: to the nearest millionth, ties to even.\<close>

definition round_half_even :: "rat \<Rightarrow> int" where
  "round_half_even x =
     (let f = \<lfloor>x\<rfloor>; d = x - of_int f
      in if d < 1/2 then f else if d > 1/2 then f + 1 else if even f then f else f + 1)"

definition round6 :: "rat \<Rightarrow> rat" where
  "round6 x = of_int (round_half_even (x * 1000000)) / 1000000"

definition memory_score :: "unicode \<Rightarrow> memory_item \<Rightarrow> memory_query \<Rightarrow> rat" where
  "memory_score uc m q =
     round6 (of_int (mem_priority m) * 10 + mem_relevance m + mem_confidence m + lexical_score uc m q)"

fun sort_numbers :: "memory_sort \<Rightarrow> memory_item \<Rightarrow> rat list" where
  "sort_numbers Sort_DEFAULT m = [- of_int (mem_priority m), - mem_relevance m, - mem_confidence m]"
| "sort_numbers Sort_PRIORITY m = [- of_int (mem_priority m), - mem_relevance m, - mem_confidence m]"
| "sort_numbers Sort_RELEVANCE m = [- mem_relevance m, - of_int (mem_priority m), - mem_confidence m]"
| "sort_numbers Sort_CONFIDENCE m = [- mem_confidence m, - of_int (mem_priority m), - mem_relevance m]"
| "sort_numbers Sort_UPDATED_AT m = [- of_int (mem_updated_at m)]"
| "sort_numbers Sort_CREATED_AT m = [- of_int (mem_created_at m)]"
| "sort_numbers Sort_MEMORY_ID m = []"

definition memory_sort_key :: "memory_query \<Rightarrow> memory_item \<Rightarrow> memory_sort_key" where
  "memory_sort_key q m =
     Sort_Key (of_nat (scope_rank m (mq_scopes q)) # sort_numbers (mq_sort q) m) (mem_id m)"

type_synonym deduplication_key =
  "string \<times> memory_kind \<times> (memory_scope \<times> string option) option \<times> string option"

definition deduplication_key :: "unicode \<Rightarrow> memory_query \<Rightarrow> memory_item \<Rightarrow> deduplication_key" where
  "deduplication_key uc q m =
     (uc_casefold uc (uc_strip uc (mem_content m)), mem_kind m,
      (if mq_scopes q \<noteq> [] then None else Some (mem_scope m, mem_scope_id m)), mem_owner_id m)"

definition filter_reasons :: "unicode \<Rightarrow> int \<Rightarrow> memory_query \<Rightarrow> memory_item \<Rightarrow> string list" where
  "filter_reasons uc now q m =
     (if \<not> mq_include_disabled q \<and> \<not> mem_is_enabled m then [''disabled''] else [])
   @ (if \<not> matches_scope m q then [''scope''] else [])
   @ (if mq_kinds q \<noteq> [] \<and> mem_kind m \<notin> set (mq_kinds q) then [''kind''] else [])
   @ (if mq_tags q \<noteq> [] \<and> \<not> set (mq_tags q) \<subseteq> set (mem_tags m) then [''tags''] else [])
   @ (if \<not> mq_include_expired q
         \<and> (case mem_expires_at m of None \<Rightarrow> False | Some t \<Rightarrow> t \<le> now) then [''expired''] else [])
   @ (if (case mq_minimum_relevance q of None \<Rightarrow> False | Some r \<Rightarrow> mem_relevance m < r)
      then [''minimum_relevance''] else [])
   @ (if (case mq_minimum_confidence q of None \<Rightarrow> False | Some r \<Rightarrow> mem_confidence m < r)
      then [''minimum_confidence''] else [])
   @ (if (case mq_text q of None \<Rightarrow> False | Some t \<Rightarrow> \<not> lexical_match uc m t)
      then [''text''] else [])"

definition match_reasons :: "memory_query \<Rightarrow> memory_item \<Rightarrow> rat \<Rightarrow> string list" where
  "match_reasons q m score =
     [if mem_is_enabled m then ''enabled'' else ''disabled_included'']
   @ (if mq_text q \<noteq> None then [''text''] else [])
   @ (if mq_scopes q \<noteq> [] \<or> mq_scope q \<noteq> None \<or> mq_scope_id q \<noteq> None then [''scope''] else [])
   @ (if mq_kinds q \<noteq> [] then [''kind''] else [])
   @ (if mq_tags q \<noteq> [] then [''tags''] else [])
   @ (if mq_minimum_relevance q \<noteq> None then [''minimum_relevance''] else [])
   @ (if mq_minimum_confidence q \<noteq> None then [''minimum_confidence''] else [])
   @ (if score > 0 then [''score''] else [])"

section \<open>Selection\<close>

type_synonym scored = "memory_item \<times> rat \<times> string list"

definition score_entry :: "unicode \<Rightarrow> memory_query \<Rightarrow> memory_item \<Rightarrow> scored" where
  "score_entry uc q m = (let score = memory_score uc m q in (m, score, match_reasons q m score))"

text \<open>The loop over the sorted candidates: what is kept, and what is a duplicate of it.\<close>

fun deduplicate ::
  "('m \<Rightarrow> 'k) \<Rightarrow> 'k list \<Rightarrow> ('m \<times> 'x) list \<Rightarrow> ('m \<times> 'x) list \<times> 'm list" where
  "deduplicate key seen [] = ([], [])"
| "deduplicate key seen ((m, x) # rest) =
     (if key m \<in> set seen
      then (let (kept, dups) = deduplicate key seen rest in (kept, m # dups))
      else (let (kept, dups) = deduplicate key (key m # seen) rest in ((m, x) # kept, dups)))"

definition filtered_entry :: "memory_item \<Rightarrow> string list \<Rightarrow> pyval" where
  "filtered_entry m reasons =
     PDict [(''memory_id'', PStr (mem_id m)), (''reasons'', PList (map PStr reasons))]"

fun match_entry :: "scored \<Rightarrow> pyval" where
  "match_entry (m, score, reasons) =
     PDict [(''memory_id'', PStr (mem_id m)),
            (''scope'', PStr (memory_scope_value (mem_scope m))),
            (''scope_id'', of_str_opt (mem_scope_id m)),
            (''score'', PFloat score),
            (''reasons'', PList (map PStr reasons))]"

definition memory_select ::
  "unicode \<Rightarrow> int \<Rightarrow> memory_item list \<Rightarrow> memory_query option \<Rightarrow> memory_selection" where
  "memory_select uc now memories query =
     (let q = (case query of None \<Rightarrow> empty_query | Some q \<Rightarrow> q);
          rejected = map (\<lambda>m. filtered_entry m (filter_reasons uc now q m))
                       (filter (\<lambda>m. filter_reasons uc now q m \<noteq> []) memories);
          scored = sort_key (\<lambda>(m, _). memory_sort_key q m)
                     (map (score_entry uc q) (filter (\<lambda>m. filter_reasons uc now q m = []) memories));
          (kept, duplicates) =
            (if mq_deduplicate q then deduplicate (deduplication_key uc q) [] scored else (scored, []));
          filtered = rejected @ map (\<lambda>m. filtered_entry m [''duplicate'']) duplicates;
          limited = take_opt (mq_limit q) kept;
          selected = map fst limited
      in \<lparr>sel_memories = selected,
          sel_metadata =
            [(''strategy'', PStr ''BasicMemoryStrategy''),
             (''total_candidates'', PInt (int (length memories))),
             (''matched_count'', PInt (int (length limited))),
             (''selected_count'', PInt (int (length selected))),
             (''filtered_count'', PInt (int (length filtered))),
             (''matches'', PList (map match_entry limited)),
             (''filtered'', PList filtered)]\<rparr>)"

definition disabled_memory_select :: "memory_item list \<Rightarrow> memory_query option \<Rightarrow> memory_selection" where
  "disabled_memory_select memories query = \<lparr>sel_memories = [], sel_metadata = []\<rparr>"

section \<open>What a selection is\<close>

lemma deduplicate_subseq: "subseq (fst (deduplicate key seen ms)) ms"
  by (induction key seen ms rule: deduplicate.induct) (auto simp: split_def Let_def)

lemma deduplicate_distinct:
  "distinct (map (key \<circ> fst) (fst (deduplicate key seen ms)))
   \<and> (\<forall>p \<in> set (fst (deduplicate key seen ms)). key (fst p) \<notin> set seen)"
proof (induction key seen ms rule: deduplicate.induct)
  case (2 key seen m x rest)
  then show ?case
    by (cases "key m \<in> set seen") (auto simp: split_def Let_def)
qed simp

lemma deduplicate_length:
  "length (fst (deduplicate key seen ms)) + length (snd (deduplicate key seen ms)) = length ms"
  by (induction key seen ms rule: deduplicate.induct) (auto simp: split_def Let_def)

text \<open>Every candidate is represented by the first one with its key, which is the best one.\<close>

lemma deduplicate_represents:
  fixes f :: "'m \<Rightarrow> 'o::linorder"
  assumes "sorted (map (f \<circ> fst) ms)" "p \<in> set ms" "key (fst p) \<notin> set seen"
  shows "\<exists>p' \<in> set (fst (deduplicate key seen ms)). key (fst p') = key (fst p) \<and> f (fst p') \<le> f (fst p)"
  using assms
proof (induction key seen ms rule: deduplicate.induct)
  case (1 key seen)
  then show ?case by simp
next
  case (2 key seen m x rest)
  show ?case
  proof (cases "key m \<in> set seen")
    case True
    with 2 show ?thesis by (auto simp: split_def Let_def)
  next
    case new: False
    show ?thesis
    proof (cases "key (fst p) = key m")
      case True
      have "f m \<le> f (fst p)" using "2.prems"(1,2) by auto
      with True new show ?thesis by (auto simp: split_def Let_def)
    next
      case False
      with 2 new have "\<exists>p' \<in> set (fst (deduplicate key (key m # seen) rest)).
          key (fst p') = key (fst p) \<and> f (fst p') \<le> f (fst p)" by auto
      with new show ?thesis by (auto simp: split_def Let_def)
    qed
  qed
qed

text \<open>The four stages of a selection, as lists of memories.\<close>

definition query_of :: "memory_query option \<Rightarrow> memory_query" where
  "query_of query = (case query of None \<Rightarrow> empty_query | Some q \<Rightarrow> q)"

definition matching :: "unicode \<Rightarrow> int \<Rightarrow> memory_query \<Rightarrow> memory_item list \<Rightarrow> memory_item list" where
  "matching uc now q memories = filter (\<lambda>m. filter_reasons uc now q m = []) memories"

definition ranked :: "unicode \<Rightarrow> int \<Rightarrow> memory_query \<Rightarrow> memory_item list \<Rightarrow> scored list" where
  "ranked uc now q memories =
     sort_key (\<lambda>(m, _). memory_sort_key q m) (map (score_entry uc q) (matching uc now q memories))"

definition candidates :: "unicode \<Rightarrow> int \<Rightarrow> memory_query \<Rightarrow> memory_item list \<Rightarrow> scored list" where
  "candidates uc now q memories =
     (if mq_deduplicate q
      then fst (deduplicate (deduplication_key uc q) [] (ranked uc now q memories))
      else ranked uc now q memories)"

lemma memory_select_memories:
  "sel_memories (memory_select uc now memories query) =
     map fst (take_opt (mq_limit (query_of query)) (candidates uc now (query_of query) memories))"
  by (simp add: memory_select_def query_of_def candidates_def ranked_def matching_def Let_def split_def)

lemma set_ranked:
  "p \<in> set (ranked uc now q memories) \<Longrightarrow>
     fst p \<in> set memories \<and> filter_reasons uc now q (fst p) = []"
  by (auto simp: ranked_def matching_def score_entry_def Let_def)

lemma ranked_memories:
  "fst ` set (ranked uc now q memories) = set (matching uc now q memories)"
  by (force simp: ranked_def score_entry_def Let_def image_iff)

lemma sorted_ranked: "sorted (map (memory_sort_key q \<circ> fst) (ranked uc now q memories))"
proof -
  have "sorted (map (\<lambda>p. memory_sort_key q (fst p)) (ranked uc now q memories))"
    unfolding ranked_def split_def by (rule sorted_sort_key)
  then show ?thesis by (simp add: comp_def)
qed

lemma subseq_candidates: "subseq (candidates uc now q memories) (ranked uc now q memories)"
  by (simp add: candidates_def deduplicate_subseq)

lemma subseq_set: "subseq xs ys \<Longrightarrow> set xs \<subseteq> set ys"
  by (induction rule: list_emb.induct) auto

lemma sorted_subseq: "subseq xs ys \<Longrightarrow> sorted ys \<Longrightarrow> sorted xs"
  for xs :: "'a::linorder list"
  by (induction rule: list_emb.induct) (auto dest: subseq_set)

lemma subseq_take_opt: "subseq (take_opt n xs) xs"
  by (cases n) (simp_all add: take_opt_def prefix_imp_subseq take_is_prefix)

lemma take_opt_length: "n = Some k \<Longrightarrow> length (take_opt n xs) \<le> k"
  by (simp add: take_opt_def)

lemma selected_sound:
  assumes "m \<in> set (sel_memories (memory_select uc now memories query))"
  shows "m \<in> set memories \<and> filter_reasons uc now (query_of query) m = []"
proof -
  let ?q = "query_of query"
  from assms obtain p where
    "p \<in> set (take_opt (mq_limit ?q) (candidates uc now ?q memories))" and m: "m = fst p"
    by (auto simp: memory_select_memories)
  then have "p \<in> set (candidates uc now ?q memories)"
    by (auto dest: set_take_optD)
  then have "p \<in> set (ranked uc now ?q memories)"
    by (rule subsetD [OF subseq_set [OF subseq_candidates]])
  from set_ranked [OF this] m show ?thesis by simp
qed

lemma selected_sorted:
  "sorted (map (memory_sort_key (query_of query)) (sel_memories (memory_select uc now memories query)))"
proof -
  let ?q = "query_of query"
  have "subseq (map (memory_sort_key ?q \<circ> fst) (take_opt (mq_limit ?q) (candidates uc now ?q memories)))
          (map (memory_sort_key ?q \<circ> fst) (ranked uc now ?q memories))"
    using subseq_take_opt subseq_candidates subseq_order.trans by (blast intro: subseq_map)
  from sorted_subseq [OF this sorted_ranked] show ?thesis
    by (simp add: memory_select_memories comp_def)
qed

lemma selected_limit:
  "mq_limit (query_of query) = Some k \<Longrightarrow>
     length (sel_memories (memory_select uc now memories query)) \<le> k"
  by (simp add: memory_select_memories take_opt_length)

lemma subseq_distinct: "subseq xs ys \<Longrightarrow> distinct ys \<Longrightarrow> distinct xs"
  by (induction rule: list_emb.induct) (auto dest: subseq_set)

lemma selected_distinct:
  assumes "mq_deduplicate (query_of query)"
  shows "distinct (map (deduplication_key uc (query_of query))
           (sel_memories (memory_select uc now memories query)))"
proof -
  let ?q = "query_of query" and ?key = "deduplication_key uc (query_of query)"
  have "distinct (map (?key \<circ> fst) (candidates uc now ?q memories))"
    using assms deduplicate_distinct [of ?key "[]" "ranked uc now ?q memories"]
    by (simp add: candidates_def)
  moreover have "subseq (map (?key \<circ> fst) (take_opt (mq_limit ?q) (candidates uc now ?q memories)))
      (map (?key \<circ> fst) (candidates uc now ?q memories))"
    by (intro subseq_map subseq_take_opt)
  ultimately have "distinct (map (?key \<circ> fst) (take_opt (mq_limit ?q) (candidates uc now ?q memories)))"
    by (rule subseq_distinct [rotated])
  then show ?thesis by (simp add: memory_select_memories)
qed

lemma sorted_candidates: "sorted (map (memory_sort_key q \<circ> fst) (candidates uc now q memories))"
  by (rule sorted_subseq [OF subseq_map [OF subseq_candidates] sorted_ranked])

lemma candidate_for:
  assumes "m \<in> set memories" "filter_reasons uc now q m = []"
  shows "\<exists>p \<in> set (candidates uc now q memories).
     (fst p = m \<or> mq_deduplicate q \<and> deduplication_key uc q (fst p) = deduplication_key uc q m)
     \<and> memory_sort_key q (fst p) \<le> memory_sort_key q m"
proof -
  from assms have "m \<in> fst ` set (ranked uc now q memories)"
    by (simp add: ranked_memories matching_def)
  then obtain p where p: "p \<in> set (ranked uc now q memories)" "m = fst p" by auto
  show ?thesis
  proof (cases "mq_deduplicate q")
    case True
    with deduplicate_represents [OF sorted_ranked p(1), of "deduplication_key uc q" "[]"] p(2)
    show ?thesis by (auto simp: candidates_def)
  next
    case False
    with p show ?thesis by (auto simp: candidates_def)
  qed
qed

text \<open>A limit keeps the best: what is cut off ranks no better than anything selected.\<close>

lemma limit_keeps_best:
  fixes f :: "'a \<Rightarrow> 'o::linorder"
  assumes "sorted (map f xs)" "x \<in> set (take_opt n xs)" "y \<in> set xs" "y \<notin> set (take_opt n xs)"
  shows "f x \<le> f y"
proof (cases n)
  case None
  with assms show ?thesis by simp
next
  case (Some k)
  with assms have "y \<in> set (drop k xs)"
    by (simp add: take_opt_def) (metis Un_iff append_take_drop_id set_append)
  moreover have "sorted (map f (take k xs @ drop k xs))" using assms(1) by simp
  ultimately show ?thesis
    using assms(2) Some by (simp add: take_opt_def sorted_append del: append_take_drop_id)
qed

section \<open>The register and the manager\<close>

type_synonym memory_register = "(string, memory_item) dict"

definition require_memory_scope :: "memory_item \<Rightarrow> principal_scope option \<Rightarrow> error + unit" where
  "require_memory_scope m scope =
     (if scope_permits scope (mem_owner_id m) then Inr ()
      else Inl (raised (Mem MemoryNotFoundError)
             (''The memory '' @ mem_id m @ '' is not available in this scope'')))"

definition memory_has :: "principal_scope option \<Rightarrow> string \<Rightarrow> memory_register \<Rightarrow> bool" where
  "memory_has scope memory_id d =
     (case dict_get d memory_id of None \<Rightarrow> False | Some m \<Rightarrow> scope_permits scope (mem_owner_id m))"

definition memory_register ::
  "principal_scope option \<Rightarrow> memory_item \<Rightarrow> (error, memory_register, unit) act" where
  "memory_register scope m d =
     (case require_memory_scope m scope of
        Inl e \<Rightarrow> (Inl e, d)
      | Inr _ \<Rightarrow> (Inr (), dict_set (mem_id m) m d))"

definition memory_unregister ::
  "principal_scope option \<Rightarrow> string \<Rightarrow> (error, memory_register, unit) act" where
  "memory_unregister scope memory_id d =
     (if \<not> memory_has scope memory_id d
      then (Inl (raised (Mem MemoryNotFoundError)
                   (''The memory '' @ memory_id @ '' is not registered'')), d)
      else (Inr (), dict_pop memory_id d))"

definition memory_get :: "principal_scope option \<Rightarrow> string \<Rightarrow> memory_register \<Rightarrow> error + memory_item" where
  "memory_get scope memory_id d =
     (case (memory_has scope memory_id d, dict_get d memory_id) of
        (True, Some m) \<Rightarrow> Inr m
      | _ \<Rightarrow> Inl (raised (Mem MemoryNotFoundError)
               (''The memory '' @ memory_id @ '' is not found'')))"

definition memory_list ::
  "unicode \<Rightarrow> int \<Rightarrow> string option \<Rightarrow> nat option \<Rightarrow> string option \<Rightarrow> memory_query option
     \<Rightarrow> principal_scope option \<Rightarrow> memory_register \<Rightarrow> memory_item list" where
  "memory_list uc now cursor limit owner_id query scope d =
     (let memories = owner_filter owner_id scope mem_owner_id
                       (after_cursor cursor mem_id (sort_key mem_id (dict_values d)))
      in take_opt limit
           (case query of None \<Rightarrow> memories
            | Some q \<Rightarrow> sel_memories (memory_select uc now memories (Some q))))"

definition memory_create ::
  "principal_scope option \<Rightarrow> memory_item \<Rightarrow> (error, memory_register, memory_item) act" where
  "memory_create scope m =
     bind_a (memory_register scope m) (\<lambda>_ d. (memory_get scope (mem_id m) d, d))"

definition memory_replace ::
  "int \<Rightarrow> principal_scope option \<Rightarrow> memory_item \<Rightarrow> (error, memory_register, memory_item) act" where
  "memory_replace now scope m d =
     (if \<not> memory_has scope (mem_id m) d
      then (Inl (raised (Mem MemoryNotFoundError)
                   (''The memory '' @ mem_id m @ '' is not found'')), d)
      else bind_a (memory_register scope (m\<lparr>mem_updated_at := now\<rparr>))
             (\<lambda>_ d. (memory_get scope (mem_id m) d, d)) d)"

definition memory_clear ::
  "unicode \<Rightarrow> int \<Rightarrow> principal_scope option \<Rightarrow> (error, memory_register, unit) act" where
  "memory_clear uc now scope d =
     for_each (\<lambda>m. memory_unregister scope (mem_id m))
       (memory_list uc now None None None None scope d) d"

lemma memory_has_iff:
  "memory_has scope k d \<longleftrightarrow> (\<exists>m. dict_get d k = Some m \<and> scope_permits scope (mem_owner_id m))"
  by (auto simp: memory_has_def split: option.split)

lemma memory_get_iff:
  "memory_get scope k d = Inr m \<longleftrightarrow> dict_get d k = Some m \<and> scope_permits scope (mem_owner_id m)"
  by (auto simp: memory_get_def memory_has_iff split: option.split bool.split)

lemma memory_list_all:
  "memory_list uc now None None None None scope d =
     filter (\<lambda>m. scope_permits scope (mem_owner_id m)) (sort_key mem_id (dict_values d))"
  by (simp add: memory_list_def after_cursor_def owner_filter_eq)

interpretation mem: scoped_store mem_id mem_owner_id "keyed mem_id" dict_get
  memory_register memory_unregister memory_get memory_has "memory_list uc now None None None None"
  for uc now
proof
  fix d :: memory_register and scope and m :: memory_item
  assume "keyed mem_id d" "scope_permits scope (mem_owner_id m)"
  then show "\<exists>d'. memory_register scope m d = (Inr (), d') \<and> keyed mem_id d'
      \<and> dict_get d' = (dict_get d)(mem_id m \<mapsto> m)"
    by (auto simp: memory_register_def require_memory_scope_def fun_eq_iff)
next
  fix d :: memory_register and scope and m :: memory_item
  assume "\<not> scope_permits scope (mem_owner_id m)"
  then show "\<exists>e. memory_register scope m d = (Inl e, d)"
    by (simp add: memory_register_def require_memory_scope_def)
next
  fix d :: memory_register and scope k
  assume "keyed mem_id d" "memory_has scope k d"
  then show "\<exists>d'. memory_unregister scope k d = (Inr (), d') \<and> keyed mem_id d'
      \<and> dict_get d' = (dict_get d)(k := None)"
    by (auto simp: memory_unregister_def fun_eq_iff)
next
  fix d :: memory_register and scope
  assume "keyed mem_id d"
  then show "distinct (map mem_id (memory_list uc now None None None None scope d))"
    by (simp add: memory_list_all keyed_values_distinct distinct_map_sort_key distinct_map_filter)
next
  fix d :: memory_register and scope and m :: memory_item
  assume "keyed mem_id d"
  then show "m \<in> set (memory_list uc now None None None None scope d) \<longleftrightarrow>
      dict_get d (mem_id m) = Some m \<and> scope_permits scope (mem_owner_id m)"
    by (auto simp: memory_list_all keyed_values_iff)
next
  fix d :: memory_register and k and m :: memory_item
  assume "keyed mem_id d" "dict_get d k = Some m"
  then show "mem_id m = k" by (simp add: keyed_def)
qed (simp_all add: memory_has_iff memory_get_iff memory_unregister_def)

text \<open>Whatever the query, a listing never leaves the caller's scope.\<close>

lemma memory_list_scoped:
  assumes "m \<in> set (memory_list uc now cursor limit owner_id query scope d)"
  shows "scope_permits scope (mem_owner_id m)"
proof -
  let ?ms = "owner_filter owner_id scope mem_owner_id
    (after_cursor cursor mem_id (sort_key mem_id (dict_values d)))"
  from assms have "m \<in> set (case query of None \<Rightarrow> ?ms
      | Some q \<Rightarrow> sel_memories (memory_select uc now ?ms (Some q)))"
    by (auto simp: memory_list_def Let_def dest: set_take_optD)
  then have "m \<in> set ?ms"
    by (auto split: option.splits dest: selected_sound)
  then show ?thesis by (simp add: owner_filter_eq)
qed

section \<open>The properties of the component\<close>

definition sample_memory :: "string \<Rightarrow> string option \<Rightarrow> int \<Rightarrow> memory_item" where
  "sample_memory mid owner priority =
     \<lparr>mem_id = mid, mem_owner_id = owner, mem_content = ''tea'', mem_kind = Kind_FACT,
      mem_scope = MScope_GLOBAL, mem_scope_id = None, mem_tags = [], mem_priority = priority,
      mem_relevance = 0, mem_confidence = 1, mem_is_enabled = True, mem_expires_at = None,
      mem_created_at = 0, mem_updated_at = 0, mem_metadata = []\<rparr>"

definition dedup_query :: memory_query where
  "dedup_query = empty_query\<lparr>mq_deduplicate := True\<rparr>"

lemma sample_memory_matches: "filter_reasons uc now dedup_query (sample_memory i owner n) = []"
  by (simp add: filter_reasons_def dedup_query_def empty_query_def sample_memory_def matches_scope_def)

text \<open>A selection returns only memories of the input that satisfy every condition of the query,
  in the order of the sort key (rank of the scope, then the query's sort order, then the id), within
  the limit, and, when the query deduplicates, no two with the same content, kind and scope.\<close>

theorem selection_sound:
  "(let q = query_of query; selected = sel_memories (memory_select uc now memories query)
    in set selected \<subseteq> {m. m \<in> set memories \<and> filter_reasons uc now q m = []}
      \<and> sorted (map (memory_sort_key q) selected)
      \<and> (case mq_limit q of None \<Rightarrow> True | Some k \<Rightarrow> length selected \<le> k)
      \<and> (mq_deduplicate q \<longrightarrow> distinct (map (deduplication_key uc q) selected)))"
  using selected_sound selected_sorted selected_limit selected_distinct
  by (auto simp: Let_def split: option.split)

theorem selection_sound_witness:
  "length (sel_memories (memory_select ascii_unicode 0
     [sample_memory ''a'' None 1, sample_memory ''b'' None 2] (Some dedup_query))) \<le> 1"
proof -
  let ?s = "sel_memories (memory_select ascii_unicode 0
     [sample_memory ''a'' None 1, sample_memory ''b'' None 2] (Some dedup_query))"
  let ?key = "deduplication_key ascii_unicode dedup_query"
  from selection_sound [of "Some dedup_query" ascii_unicode 0
      "[sample_memory ''a'' None 1, sample_memory ''b'' None 2]"]
  have "distinct (map ?key ?s)" and sub: "set ?s \<subseteq> {sample_memory ''a'' None 1, sample_memory ''b'' None 2}"
    by (auto simp: query_of_def dedup_query_def Let_def)
  moreover have "?key (sample_memory ''a'' None 1) = ?key (sample_memory ''b'' None 2)"
    by (simp add: deduplication_key_def sample_memory_def)
  ultimately have "set (map ?key ?s) \<subseteq> {?key (sample_memory ''a'' None 1)}"
    and "length ?s = card (set (map ?key ?s))"
    using distinct_card [of "map ?key ?s"] by auto
  then show ?thesis using card_mono [of "{?key (sample_memory ''a'' None 1)}"] by fastforce
qed

text \<open>A selection loses nothing that it should return: every memory that satisfies the query is
  returned or cut off by the limit behind memories that rank at least as well; when the query
  deduplicates, a memory that is left out is represented by one with the same key that ranks at least
  as well.\<close>

theorem selection_complete:
  assumes "m \<in> set memories" and "filter_reasons uc now (query_of query) m = []"
  shows "(\<exists>m' \<in> set (sel_memories (memory_select uc now memories query)).
            (m' = m \<or> mq_deduplicate (query_of query)
               \<and> deduplication_key uc (query_of query) m' = deduplication_key uc (query_of query) m)
            \<and> memory_sort_key (query_of query) m' \<le> memory_sort_key (query_of query) m)
    \<or> (\<exists>k. mq_limit (query_of query) = Some k
        \<and> length (sel_memories (memory_select uc now memories query)) = k
        \<and> (\<forall>m' \<in> set (sel_memories (memory_select uc now memories query)).
             memory_sort_key (query_of query) m' \<le> memory_sort_key (query_of query) m))"
proof -
  let ?q = "query_of query" and ?sel = "sel_memories (memory_select uc now memories query)"
  let ?cs = "candidates uc now ?q memories"
  obtain p where p: "p \<in> set ?cs" "memory_sort_key ?q (fst p) \<le> memory_sort_key ?q m"
    and rep: "fst p = m \<or> mq_deduplicate ?q \<and> deduplication_key uc ?q (fst p) = deduplication_key uc ?q m"
    using candidate_for [OF assms] by blast
  show ?thesis
  proof (cases "p \<in> set (take_opt (mq_limit ?q) ?cs)")
    case True
    then have "fst p \<in> set ?sel" by (simp add: memory_select_memories)
    with p(2) rep show ?thesis by blast
  next
    case False
    then obtain k where k: "mq_limit ?q = Some k" using p(1) by (cases "mq_limit ?q") auto
    have "k \<le> length ?cs"
    proof (rule ccontr)
      assume "\<not> k \<le> length ?cs"
      with False k p(1) show False by (simp add: take_opt_def)
    qed
    with k have "length ?sel = k" by (simp add: memory_select_memories take_opt_def)
    moreover have "memory_sort_key ?q m' \<le> memory_sort_key ?q m" if m': "m' \<in> set ?sel" for m'
    proof -
      from m' obtain p' where p': "p' \<in> set (take_opt (mq_limit ?q) ?cs)" "m' = fst p'"
        by (auto simp: memory_select_memories)
      note limit_keeps_best [of "memory_sort_key ?q \<circ> fst", OF sorted_candidates p'(1) p(1) False]
      then have "memory_sort_key ?q m' \<le> memory_sort_key ?q (fst p)" unfolding p'(2) comp_def .
      from this p(2) show ?thesis by (rule order_trans)
    qed
    ultimately show ?thesis using k by blast
  qed
qed

theorem selection_complete_witness:
  "\<exists>m' \<in> set (sel_memories (memory_select ascii_unicode 0 [sample_memory ''a'' None 1] (Some dedup_query))).
     memory_sort_key dedup_query m' \<le> memory_sort_key dedup_query (sample_memory ''a'' None 1)"
  using selection_complete [of "sample_memory ''a'' None 1" "[sample_memory ''a'' None 1]" ascii_unicode 0
      "Some dedup_query"]
  by (auto simp: query_of_def sample_memory_matches) (simp_all add: dedup_query_def empty_query_def)

text \<open>A principal neither sees nor changes the memories of others: what its scope does not permit
  is not returned by get or by any listing, whatever the query, and replace, delete and clear leave it
  as it was; clear removes every memory that the scope permits.\<close>

theorem memories_scoped:
  assumes "keyed mem_id d" and "dict_get d k = Some m"
  shows "(\<not> scope_permits scope (mem_owner_id m) \<longrightarrow>
       memory_get scope k d \<noteq> Inr m \<and> m \<notin> set (memory_list uc now cursor limit owner_id query scope d)
       \<and> dict_get (snd (memory_replace now scope m' d)) k = Some m
       \<and> dict_get (snd (memory_unregister scope k' d)) k = Some m)
    \<and> dict_get (snd (memory_clear uc now scope d)) k
        = (if scope_permits scope (mem_owner_id m) then None else Some m)"
proof (intro conjI impI)
  assume foreign: "\<not> scope_permits scope (mem_owner_id m)"
  show "memory_get scope k d \<noteq> Inr m" using foreign by (simp add: memory_get_iff)
  show "m \<notin> set (memory_list uc now cursor limit owner_id query scope d)"
    using foreign memory_list_scoped by blast
  show "dict_get (snd (memory_replace now scope m' d)) k = Some m"
  proof (cases "memory_has scope (mem_id m') d")
    case True
    with assms foreign mem.register_keeps_foreign [of d scope "m'\<lparr>mem_updated_at := now\<rparr>" k m] show ?thesis
      by (simp add: memory_replace_def bind_a_def split: prod.split sum.split) (metis snd_conv)
  qed (use assms in \<open>simp add: memory_replace_def\<close>)
  show "dict_get (snd (memory_unregister scope k' d)) k = Some m"
    using assms foreign by (intro mem.unregister_keeps_foreign)
next
  show "dict_get (snd (memory_clear uc now scope d)) k
        = (if scope_permits scope (mem_owner_id m) then None else Some m)"
    using mem.clear_removes_permitted [OF assms(1), of scope uc now] assms(2)
    by (auto simp: memory_clear_def)
qed

definition two_memories :: memory_register where
  "two_memories = [(''a'', sample_memory ''a'' (Some ''ann'') 0), (''b'', sample_memory ''b'' (Some ''bob'') 0)]"

theorem memories_scoped_witness:
  "dict_get (snd (memory_clear ascii_unicode 0 (Some \<lparr>scope_owner_id = Some ''ann''\<rparr>) two_memories)) ''b''
     = Some (sample_memory ''b'' (Some ''bob'') 0)"
proof -
  have "keyed mem_id two_memories"
    by (simp add: keyed_def two_memories_def sample_memory_def dict_ok_def dict_keys_def dict_get_Cons)
  from memories_scoped [OF this, of "''b''" "sample_memory ''b'' (Some ''bob'') 0"
      "Some \<lparr>scope_owner_id = Some ''ann''\<rparr>" ascii_unicode 0]
  show ?thesis by (simp add: two_memories_def sample_memory_def dict_get_Cons)
qed

end
