(* ===== verification/ContextStrategies.thy ===== *)
theory ContextStrategies
  imports Contexts Memory
begin

text \<open>
  The strategies that compose a chat request from a context and bring it under a limit
  (\<open>BasicContextStrategy\<close>, \<open>SummarizingContextStrategy\<close>, \<open>WindowTrimmingContextStrategy\<close>,
  \<open>TokenBudgetContextStrategy\<close> in \<open>core/domain/context.py\<close>, composed by \<open>create_context_strategy\<close> in
  \<open>bootstrap/runtime.py\<close>).

  The summarizer and the token estimator are objects that the caller may provide.  A new message
  object gets the identity \<open>fresh\<close>.  The length of the JSON text of a message, which the default
  estimator measures, comes from pydantic and is the parameter \<open>json_length\<close>.
\<close>

section \<open>Composition\<close>

type_synonym compose =
  "chat_context \<Rightarrow> string \<Rightarrow> content list option \<Rightarrow> memory_selection option
     \<Rightarrow> tool_definition list option \<Rightarrow> metadata option \<Rightarrow> error + chat_request"

definition is_system :: "content \<Rightarrow> bool" where
  "is_system m \<longleftrightarrow> c_role m = Role_SYSTEM"

definition system_prefix :: "content list \<Rightarrow> content list \<times> content list" where
  "system_prefix ms = (takeWhile is_system ms, dropWhile is_system ms)"

definition insert_after_system_prefix :: "content list \<Rightarrow> content \<Rightarrow> content list" where
  "insert_after_system_prefix ms m = (let (prefix, remainder) = system_prefix ms in prefix @ [m] @ remainder)"

definition memory_ids :: "memory_selection \<Rightarrow> pyval" where
  "memory_ids sel = PList (map (\<lambda>m. PStr (mem_id m)) (sel_memories sel))"

definition compose_memory_message :: "nat \<Rightarrow> memory_selection \<Rightarrow> content option" where
  "compose_memory_message fresh sel =
     (if sel_memories sel = [] then None
      else Some ((message fresh Role_SYSTEM)
        \<lparr>c_content := Some [text_part (join [CHR 0x0A] (''Relevant memory:''
            # map (\<lambda>m. ''- '' @ memory_kind_value (mem_kind m) @ '': '' @ mem_content m)
                (sel_memories sel)))],
         c_metadata := [(''source'', PStr ''memory''), (''memory_ids'', memory_ids sel)]\<rparr>))"

definition basic_compose :: "nat \<Rightarrow> compose" where
  "basic_compose fresh c model_id msgs memory_selection tools meta =
     (let meta = (case meta of None \<Rightarrow> [] | Some m \<Rightarrow> m);
          meta = (case memory_selection of None \<Rightarrow> meta
                  | Some sel \<Rightarrow> dict_set ''memory_selection'' (PDict (sel_metadata sel))
                      (dict_set ''memory_ids'' (memory_ids sel) meta));
          memory_message = Option.bind memory_selection (compose_memory_message fresh);
          request = to_chat_request c model_id
            (Some (case msgs of None \<Rightarrow> [] | Some ms \<Rightarrow> ms)) tools (Some meta)
      in case memory_message of
           None \<Rightarrow> Inr request
         | Some m \<Rightarrow> Inr (request\<lparr>rq_messages := insert_after_system_prefix (rq_messages request) m\<rparr>))"

section \<open>Groups\<close>

text \<open>An assistant message with calls and the answers that follow it stay together.\<close>

function message_groups :: "content list \<Rightarrow> content list list" where
  "message_groups [] = []"
| "message_groups (m # ms) =
     (if c_role m = Role_ASSISTANT \<and> calls_of m \<noteq> []
      then let group = takeWhile (answers (expected_ids m)) ms
           in (m # group) # message_groups (drop (length group) ms)
      else [m] # message_groups ms)"
  by pat_completeness auto
termination
  by (relation "measure length") auto

definition protected_message_ids :: "content list option \<Rightarrow> nat set" where
  "protected_message_ids msgs =
     (case msgs of None \<Rightarrow> {} | Some ms \<Rightarrow> c_ref ` set (filter is_active ms))"

definition group_protected :: "nat set \<Rightarrow> content list \<Rightarrow> bool" where
  "group_protected ids g \<longleftrightarrow> (\<exists>m \<in> set g. c_ref m \<in> ids)"

definition protected_indexes :: "nat set \<Rightarrow> content list list \<Rightarrow> nat set" where
  "protected_indexes ids groups =
     set (filter (\<lambda>i. group_protected ids (groups ! i)) [0..<length groups])"

section \<open>Metadata of a strategy\<close>

text \<open>\<open>list(dict.fromkeys(xs))\<close>: the first occurrence of each.\<close>

definition from_keys :: "'a list \<Rightarrow> 'a list" where
  "from_keys xs = rev (remdups (rev xs))"

definition degradation_metadata :: "string list \<Rightarrow> int \<Rightarrow> metadata" where
  "degradation_metadata reasons dropped =
     (if reasons = []
      then [(''degraded'', PBool False), (''degradation_reasons'', PList []),
            (''dropped_message_count'', PInt dropped)]
      else [(''degraded'', PBool True),
            (''degradation_reasons'', PList (map PStr (from_keys reasons))),
            (''dropped_message_count'', PInt dropped)])"

definition with_strategy_metadata ::
  "chat_request \<Rightarrow> content list \<Rightarrow> string \<Rightarrow> metadata \<Rightarrow> chat_request" where
  "with_strategy_metadata request msgs strategy values =
     (let strategy_metadata = PDict ((''name'', PStr strategy) # values);
          step_list = (case meta_get (rq_metadata request) ''context_strategy_steps'' of
                         PList steps \<Rightarrow> steps | _ \<Rightarrow> []) @ [strategy_metadata]
      in request\<lparr>rq_messages := msgs,
           rq_metadata := dict_set ''context_strategy_steps'' (PList step_list)
             (dict_set ''context_strategy'' strategy_metadata (rq_metadata request))\<rparr>)"

section \<open>Trimming to a number of messages\<close>

type_synonym selection = "nat set \<times> nat \<times> string list"

fun window_step :: "int \<Rightarrow> content list list \<Rightarrow> nat \<Rightarrow> selection \<Rightarrow> selection" where
  "window_step remaining groups index (selected, taken, reasons) =
     (if index \<in> selected then (selected, taken, reasons)
      else let weight = length (groups ! index)
      in if remaining \<ge> 0 \<and> int (taken + weight) \<le> remaining
         then (insert index selected, taken + weight, reasons)
         else if selected = {} \<and> taken = 0 \<and> index = length groups - 1
         then (insert index selected, taken + weight,
               reasons @ [''newest_message_group_exceeds_max_messages''])
         else (selected, taken, reasons))"

definition preserve_system_prefix ::
  "nat \<Rightarrow> nat set \<Rightarrow> content list \<Rightarrow> content list \<times> string list" where
  "preserve_system_prefix max_items ids ms =
     (let (prefix, remainder) = system_prefix ms;
          groups = message_groups remainder;
          protected = protected_indexes ids groups;
          protected_count = length prefix + sum_list (map length (nths groups protected));
          reasons = (if length prefix > max_items
                     then [''system_prefix_exceeds_max_messages''] else [])
            @ (if protected_count > max_items \<and> protected \<noteq> {}
               then [''protected_messages_exceed_max_messages''] else []);
          remaining = int max_items - int protected_count;
          (selected, taken, reasons) =
            fold (window_step remaining groups) (rev [0..<length groups]) (protected, 0, reasons);
          kept = prefix @ concat (nths groups selected);
          reasons = reasons @ (if length kept \<noteq> length ms
                               then [''max_messages_dropped_messages''] else [])
      in (kept, reasons))"

definition window_compose :: "nat \<Rightarrow> compose \<Rightarrow> compose" where
  "window_compose max_messages base c model_id msgs memory_selection tools meta =
     bind_e (base c model_id msgs memory_selection tools meta) (\<lambda>request.
       let (trimmed, reasons) = preserve_system_prefix max_messages (protected_message_ids msgs)
                                  (rq_messages request)
       in Inr (with_strategy_metadata request trimmed ''WindowTrimmingContextStrategy''
            ([(''original_message_count'', PInt (int (length (rq_messages request)))),
              (''retained_message_count'', PInt (int (length trimmed))),
              (''max_messages'', PInt (int max_messages))]
             @ degradation_metadata reasons
                 (int (length (rq_messages request)) - int (length trimmed)))))"

section \<open>Trimming to a number of tokens\<close>

definition cost :: "(content \<Rightarrow> nat) \<Rightarrow> content list \<Rightarrow> nat" where
  "cost estimate ms = sum_list (map estimate ms)"

fun budget_step ::
  "(content \<Rightarrow> nat) \<Rightarrow> nat \<Rightarrow> nat \<Rightarrow> content list list \<Rightarrow> nat \<Rightarrow> selection \<Rightarrow> selection" where
  "budget_step estimate max_tokens used groups index (selected, elastic_used, reasons) =
     (if index \<in> selected then (selected, elastic_used, reasons)
      else let price = cost estimate (groups ! index)
      in if used + elastic_used + price > max_tokens
         then if selected = {} \<and> elastic_used = 0 \<and> index = length groups - 1
              then (insert index selected, elastic_used + price,
                    reasons @ [''newest_message_group_exceeds_token_budget''])
              else (selected, elastic_used, reasons)
         else (insert index selected, elastic_used + price, reasons))"

definition within_budget ::
  "(content \<Rightarrow> nat) \<Rightarrow> nat \<Rightarrow> nat set \<Rightarrow> content list \<Rightarrow> content list \<times> string list" where
  "within_budget estimate max_tokens ids ms =
     (let (prefix, remainder) = system_prefix ms;
          groups = message_groups remainder;
          protected = protected_indexes (ids \<union> c_ref ` set prefix) groups;
          used = cost estimate prefix;
          reasons = (if used > max_tokens then [''system_prefix_exceeds_token_budget''] else []);
          used = used + sum_list (map (cost estimate) (nths groups protected));
          reasons = reasons @ (if used > max_tokens \<and> protected \<noteq> {}
                               then [''protected_messages_exceed_token_budget''] else []);
          (selected, elastic_used, reasons) =
            fold (budget_step estimate max_tokens used groups) (rev [0..<length groups])
              (protected, 0, reasons);
          kept = prefix @ concat (nths groups selected);
          reasons = reasons @ (if length kept \<noteq> length ms
                               then [''token_budget_dropped_messages''] else [])
      in (kept, reasons))"

definition budget_compose :: "(content \<Rightarrow> nat) \<Rightarrow> nat \<Rightarrow> compose \<Rightarrow> compose" where
  "budget_compose estimate max_tokens base c model_id msgs memory_selection tools meta =
     bind_e (base c model_id msgs memory_selection tools meta) (\<lambda>request.
       let (kept, reasons) = within_budget estimate max_tokens (protected_message_ids msgs)
                               (rq_messages request)
       in Inr (with_strategy_metadata request kept ''TokenBudgetContextStrategy''
            ([(''token_budget'', PInt (int max_tokens)),
              (''estimated_tokens'', PInt (int (cost estimate kept)))]
             @ degradation_metadata reasons
                 (int (length (rq_messages request)) - int (length kept)))))"

definition approximate_estimate :: "(content \<Rightarrow> nat) \<Rightarrow> content \<Rightarrow> nat" where
  "approximate_estimate json_length m = max 1 ((json_length m + 3) div 4)"

section \<open>Summarizing\<close>

text \<open>\<open>tail_groups\<close> walks the reversed groups; it returns the recent ones in their old order.\<close>

fun tail_groups_loop :: "nat \<Rightarrow> content list list \<Rightarrow> content list list \<Rightarrow> nat \<Rightarrow> content list list" where
  "tail_groups_loop max_items [] selected taken = selected"
| "tail_groups_loop max_items (g # gs) selected taken =
     (if selected \<noteq> [] \<and> taken + length g > max_items then selected
      else if taken + length g \<ge> max_items then g # selected
      else tail_groups_loop max_items gs (g # selected) (taken + length g))"

definition tail_groups_by_message_count :: "content list list \<Rightarrow> nat \<Rightarrow> content list list" where
  "tail_groups_by_message_count groups max_items = tail_groups_loop max_items (rev groups) [] 0"

definition summarizing_compose ::
  "(content list \<Rightarrow> error + content) \<Rightarrow> nat \<Rightarrow> nat \<Rightarrow> compose \<Rightarrow> compose" where
  "summarizing_compose summarize summarize_after keep_recent base
       c model_id msgs memory_selection tools meta =
     bind_e (base c model_id msgs memory_selection tools meta) (\<lambda>request.
       let (prefix, remainder) = system_prefix (rq_messages request)
       in if length (rq_messages request) \<le> summarize_after then Inr request
          else if length remainder \<le> keep_recent then Inr request
          else let groups = message_groups remainder;
                   recent_groups = tail_groups_by_message_count groups keep_recent;
                   removed = concat (take (length groups - length recent_groups) groups)
               in if removed = [] then Inr request
                  else bind_e (summarize removed) (\<lambda>summary.
                    Inr (with_strategy_metadata request (prefix @ [summary] @ concat recent_groups)
                      ''SummarizingContextStrategy''
                      [(''summarized_message_count'', PInt (int (length removed)))])))"

section \<open>The runtime's choice\<close>

record context_strategy_options =
  so_enable_summary :: bool
  so_summarizer :: "(content list \<Rightarrow> error + content) option"
  so_summarize_after :: nat
  so_keep_recent :: nat
  so_max_messages :: "nat option"
  so_max_tokens :: "nat option"
  so_estimator :: "(content \<Rightarrow> nat) option"

definition at_least_one :: "string \<Rightarrow> nat \<Rightarrow> error + unit" where
  "at_least_one name n =
     (if n < 1 then Inl (value_error (name @ '' must be at least 1'')) else Inr ())"

definition create_context_strategy ::
  "(content \<Rightarrow> nat) \<Rightarrow> nat \<Rightarrow> context_strategy_options \<Rightarrow> error + compose" where
  "create_context_strategy json_length fresh options =
     bind_e (if so_enable_summary options
             then (case so_summarizer options of
                 None \<Rightarrow> Inl (value_error ''context summary requires a summarizer'')
               | Some summarize \<Rightarrow>
                   bind_e (at_least_one ''summarize_after_messages'' (so_summarize_after options)) (\<lambda>_.
                   bind_e (at_least_one ''keep_recent_messages'' (so_keep_recent options)) (\<lambda>_.
                     Inr (summarizing_compose summarize (so_summarize_after options)
                            (so_keep_recent options) (basic_compose fresh)))))
             else Inr (basic_compose fresh)) (\<lambda>strategy.
     bind_e (case so_max_messages options of
               None \<Rightarrow> Inr strategy
             | Some n \<Rightarrow> bind_e (at_least_one ''max_messages'' n) (\<lambda>_. Inr (window_compose n strategy)))
       (\<lambda>strategy.
     case so_max_tokens options of
       None \<Rightarrow> Inr strategy
     | Some n \<Rightarrow> bind_e (at_least_one ''max_tokens'' n) (\<lambda>_.
         Inr (budget_compose
                (case so_estimator options of Some e \<Rightarrow> e | None \<Rightarrow> approximate_estimate json_length)
                n strategy))))"

section \<open>Groups keep calls and answers together\<close>

lemma concat_message_groups: "concat (message_groups ms) = ms"
proof (induction ms rule: message_groups.induct)
  case (2 m ms)
  then show ?case
    by (auto simp: Let_def) (metis append_take_drop_id takeWhile_eq_take)
qed simp

lemma protocol_ok_nil_or_other: "protocol_ok ms \<Longrightarrow> takeWhile (answers ids) ms = []"
  by (cases ms) (auto simp: answers_def)

lemma answered_answers: "answered m ts \<Longrightarrow> t \<in> set ts \<Longrightarrow> answers (expected_ids m) t"
proof -
  assume a: "answered m ts" "t \<in> set ts"
  then have "c_tool_call_id t \<in> Some ` expected_ids m" unfolding answered_def by blast
  with a show ?thesis by (auto simp: answers_def answered_def)
qed

lemma takeWhile_answers:
  assumes "calling m" "protocol_ok (m # ms)"
  shows "takeWhile (answers (expected_ids m)) ms = take (length (calls_of m)) ms"
proof -
  let ?n = "length (calls_of m)"
  from assms have ok: "?n \<le> length ms" "answered m (take ?n ms)" "protocol_ok (drop ?n ms)"
    by (simp_all add: Let_def split: if_splits)
  have "takeWhile (answers (expected_ids m)) (take ?n ms @ drop ?n ms)
      = take ?n ms @ takeWhile (answers (expected_ids m)) (drop ?n ms)"
    by (rule takeWhile_append2) (rule answered_answers [OF ok(2)])
  with protocol_ok_nil_or_other [OF ok(3)] show ?thesis by simp
qed

lemma groups_protocol_ok: "protocol_ok ms \<Longrightarrow> \<forall>g \<in> set (message_groups ms). protocol_ok g"
proof (induction ms rule: message_groups.induct)
  case (2 m ms)
  show ?case
  proof (cases "calling m")
    case True
    let ?n = "length (calls_of m)"
    have ok: "?n \<le> length ms" "answered m (take ?n ms)" "protocol_ok (drop ?n ms)"
      using True 2(3) by (simp_all add: Let_def split: if_splits)
    have tw: "takeWhile (answers (expected_ids m)) ms = take ?n ms"
      using True 2(3) by (rule takeWhile_answers)
    have len: "length (takeWhile (answers (expected_ids m)) ms) = ?n"
      using tw ok(1) by simp
    have one: "protocol_ok (m # take ?n ms)"
      using True ok(1,2) by (simp add: Let_def calling_def)
    have "c_role m = Role_ASSISTANT \<and> calls_of m \<noteq> []" using True by (simp add: calling_def)
    note rest = "2.IH"(1) [OF this refl, unfolded len, OF ok(3)]
    have "message_groups (m # ms) = (m # take ?n ms) # message_groups (drop ?n ms)"
      using True tw len by (simp add: calling_def Let_def)
    with one rest show ?thesis by (simp del: protocol_ok.simps)
  next
    case False
    with 2 have "plain m" "protocol_ok ms" by (auto simp: plain_def split: if_splits)
    with "2.IH"(2) False show ?thesis by (auto simp: calling_def plain_def)
  qed
qed simp

section \<open>Choosing groups\<close>

lemma nths_map_nth: "nths xs I = map ((!) xs) (filter (\<lambda>i. i \<in> I) [0..<length xs])"
proof -
  have "zip xs [0..<length xs] = map (\<lambda>i. (xs ! i, i)) [0..<length xs]"
    by (rule nth_equalityI) auto
  then show ?thesis
    by (simp add: nths_def filter_map comp_def)
qed

lemma sum_nths:
  fixes f :: "'a \<Rightarrow> nat"
  assumes "I \<subseteq> {..<length xs}"
  shows "sum_list (map f (nths xs I)) = (\<Sum>i \<in> I. f (xs ! i))"
proof -
  have "set (filter (\<lambda>i. i \<in> I) [0..<length xs]) = I" using assms by auto
  moreover have "distinct (filter (\<lambda>i. i \<in> I) [0..<length xs])" by simp
  ultimately have "sum_list (map (\<lambda>i. f (xs ! i)) (filter (\<lambda>i. i \<in> I) [0..<length xs]))
      = (\<Sum>i \<in> I. f (xs ! i))"
    by (metis sum_list_distinct_conv_sum_set)
  then show ?thesis by (simp add: nths_map_nth comp_def)
qed

lemma nths_full: "I \<supseteq> {..<length xs} \<Longrightarrow> nths xs I = xs"
  by (simp add: nths_map_nth subset_iff map_nth cong: filter_cong)

lemma protected_indexes_bound: "protected_indexes ids groups \<subseteq> {..<length groups}"
  by (auto simp: protected_indexes_def)

text \<open>
  What trimming may do to a list of messages.  Whatever is kept stays in its order, the leading
  system messages stay, the messages with a protected identity stay, and a list that the provider
  accepts becomes one that it accepts.
\<close>

definition trims :: "nat set \<Rightarrow> content list \<Rightarrow> content list \<Rightarrow> bool" where
  "trims ids ms kept \<longleftrightarrow>
     subseq kept ms \<and> Sublist.prefix (takeWhile is_system ms) kept
     \<and> (\<forall>m \<in> set ms. c_ref m \<in> ids \<longrightarrow> m \<in> set kept)
     \<and> (protocol_ok ms \<longrightarrow> protocol_ok kept)"

lemma protocol_ok_dropWhile:
  "protocol_ok (takeWhile is_system ms @ xs) \<longleftrightarrow> protocol_ok xs"
  "protocol_ok (dropWhile is_system ms) \<longleftrightarrow> protocol_ok ms"
proof -
  have "protocol_ok (takeWhile is_system ms)"
    by (induction ms) (auto simp: is_system_def plain_def calling_def)
  then show eq: "protocol_ok (takeWhile is_system ms @ xs) \<longleftrightarrow> protocol_ok xs" for xs
    by (rule protocol_ok_append)
  from eq [of "dropWhile is_system ms"] show "protocol_ok (dropWhile is_system ms) \<longleftrightarrow> protocol_ok ms"
    by simp
qed

lemma trims_selected:
  fixes ms :: "content list"
  defines "groups \<equiv> message_groups (dropWhile is_system ms)"
  assumes "protected_indexes ids groups \<subseteq> selected"
  shows "trims ids ms (takeWhile is_system ms @ concat (nths groups selected))"
proof -
  let ?rest = "dropWhile is_system ms" and ?tail = "concat (nths groups selected)"
  have rest: "concat groups = ?rest" by (simp add: groups_def concat_message_groups)
  have "subseq ?tail ?rest"
    unfolding rest [symmetric] by (intro subseq_concat) (auto simp: subseq_conv_nths)
  from list_emb_append_mono [OF subseq_order.refl [of "takeWhile is_system ms"] this]
  have sub: "subseq (takeWhile is_system ms @ ?tail) ms" by simp
  have keep: "m \<in> set (takeWhile is_system ms @ ?tail)" if m: "m \<in> set ms" "c_ref m \<in> ids" for m
  proof (cases "m \<in> set ?rest")
    case False
    then show ?thesis using m(1) by (metis UnE append.simps set_append takeWhile_dropWhile_id UnI1)
  next
    case True
    with rest obtain g where "g \<in> set groups" "m \<in> set g" by (metis UN_E set_concat)
    then obtain i where i: "i < length groups" "m \<in> set (groups ! i)" by (metis in_set_conv_nth)
    with m(2) have "i \<in> protected_indexes ids groups"
      by (auto simp: protected_indexes_def group_protected_def)
    with assms(2) i have "groups ! i \<in> set (nths groups selected)" by (auto simp: set_nths)
    with i(2) show ?thesis by auto
  qed
  have "protocol_ok (takeWhile is_system ms @ ?tail)" if "protocol_ok ms"
  proof -
    from that have "\<forall>g \<in> set groups. protocol_ok g"
      unfolding groups_def by (intro groups_protocol_ok) (simp add: protocol_ok_dropWhile)
    then have "protocol_ok ?tail"
      by (intro protocol_ok_concat) (meson in_set_nthsD)
    then show ?thesis by (simp add: protocol_ok_dropWhile)
  qed
  with sub keep show ?thesis by (auto simp: trims_def)
qed

text \<open>
  Both loops choose groups greedily from the newest to the oldest.  \<open>greedy_step\<close> is the step that
  they share.
\<close>

fun greedy_step ::
  "(nat \<Rightarrow> nat) \<Rightarrow> nat \<Rightarrow> nat \<Rightarrow> nat \<Rightarrow> string \<Rightarrow> nat \<Rightarrow> selection \<Rightarrow> selection" where
  "greedy_step price limit used n newest index (selected, taken, reasons) =
     (if index \<in> selected then (selected, taken, reasons)
      else if used + taken + price index \<le> limit
      then (insert index selected, taken + price index, reasons)
      else if selected = {} \<and> taken = 0 \<and> index = n - 1
      then (insert index selected, taken + price index, reasons @ [newest])
      else (selected, taken, reasons))"

definition greedy_inv ::
  "(nat \<Rightarrow> nat) \<Rightarrow> nat \<Rightarrow> nat \<Rightarrow> nat \<Rightarrow> string \<Rightarrow> nat set \<Rightarrow> string list \<Rightarrow> selection \<Rightarrow> bool" where
  "greedy_inv price limit used n newest protected rs sel =
     (case sel of (selected, taken, reasons) \<Rightarrow>
        protected \<subseteq> selected \<and> selected \<subseteq> {..<n}
        \<and> taken = sum price (selected - protected)
        \<and> (reasons = rs \<and> (used + taken \<le> limit \<or> taken = 0)
           \<or> reasons = rs @ [newest] \<and> selected \<noteq> {}))"

lemma greedy_inv_step:
  assumes inv: "greedy_inv price limit used n newest protected rs (selected, taken, reasons)"
    and i: "i < n"
  shows "greedy_inv price limit used n newest protected rs
           (greedy_step price limit used n newest i (selected, taken, reasons))"
proof (cases "i \<in> selected")
  case False
  from inv have fin: "finite selected" "protected \<subseteq> selected"
    by (auto simp: greedy_inv_def finite_subset)
  have "insert i selected - protected = insert i (selected - protected)" using False fin by auto
  then have "sum price (insert i selected - protected) = price i + sum price (selected - protected)"
    using False fin by simp
  with inv i False show ?thesis by (auto simp: greedy_inv_def)
qed (use inv in simp)

lemma greedy_inv_fold:
  assumes "greedy_inv price limit used n newest protected rs sel" "set is \<subseteq> {..<n}"
  shows "greedy_inv price limit used n newest protected rs
           (fold (greedy_step price limit used n newest) is sel)"
  using assms
proof (induction "is" arbitrary: sel)
  case (Cons i "is")
  obtain selected taken reasons where sel: "sel = (selected, taken, reasons)" by (cases sel)
  from Cons show ?case by (simp add: sel greedy_inv_step del: greedy_step.simps)
qed simp

lemma greedy_grows: "fst sel \<subseteq> fst (fold (greedy_step price limit used n newest) is sel)"
proof (induction "is" arbitrary: sel)
  case (Cons i "is")
  obtain selected taken reasons where sel: "sel = (selected, taken, reasons)" by (cases sel)
  have "fst sel \<subseteq> fst (greedy_step price limit used n newest i sel)" by (auto simp: sel)
  with Cons.IH show ?case by (metis fold_simps(2) order_trans)
qed simp

text \<open>When everything fits, everything is chosen.\<close>

lemma greedy_all:
  assumes "greedy_inv price limit used n newest protected rs (selected, taken, rs)"
    and "used + sum price ({..<n} - protected) \<le> limit" and "set is \<subseteq> {..<n}"
  shows "\<exists>selected' taken'. fold (greedy_step price limit used n newest) is (selected, taken, rs)
           = (selected', taken', rs) \<and> selected \<union> set is \<subseteq> selected'"
  using assms(1,3)
proof (induction "is" arbitrary: selected taken)
  case (Cons i "is")
  have step: "\<exists>taken'. greedy_step price limit used n newest i (selected, taken, rs)
      = (insert i selected, taken', rs)"
  proof (cases "i \<in> selected")
    case True
    then show ?thesis by (auto simp: insert_absorb)
  next
    case False
    from Cons.prems have sel: "selected \<subseteq> {..<n}" "protected \<subseteq> selected"
      "taken = sum price (selected - protected)" "i < n"
      by (auto simp: greedy_inv_def)
    have "taken + price i = sum price (insert i (selected - protected))"
      using sel False by (simp add: finite_subset)
    also have "\<dots> \<le> sum price ({..<n} - protected)"
      using sel False by (intro sum_mono2) auto
    finally show ?thesis using assms(2) False by simp
  qed
  then obtain taken1 where step: "greedy_step price limit used n newest i (selected, taken, rs)
      = (insert i selected, taken1, rs)" by blast
  with greedy_inv_step [OF Cons.prems(1), of i] Cons.prems(2)
  have "greedy_inv price limit used n newest protected rs (insert i selected, taken1, rs)"
    by (simp del: greedy_step.simps)
  from Cons.IH [OF this] Cons.prems(2) step show ?case
    by (auto simp del: greedy_step.simps)
qed auto

section \<open>The window and the token budget\<close>

lemma window_step_greedy:
  "window_step (int limit - int used) groups =
     greedy_step (\<lambda>i. length (groups ! i)) limit used (length groups)
       ''newest_message_group_exceeds_max_messages''"
proof (intro ext)
  fix i :: nat and sel :: selection
  obtain selected taken reasons where sel: "sel = (selected, taken, reasons)" by (cases sel)
  show "window_step (int limit - int used) groups i sel =
      greedy_step (\<lambda>i. length (groups ! i)) limit used (length groups)
       ''newest_message_group_exceeds_max_messages'' i sel"
    by (simp add: sel Let_def)
qed

lemma budget_step_greedy:
  "budget_step estimate limit used groups =
     greedy_step (\<lambda>i. cost estimate (groups ! i)) limit used (length groups)
       ''newest_message_group_exceeds_token_budget''"
proof (intro ext)
  fix i :: nat and sel :: selection
  obtain selected taken reasons where sel: "sel = (selected, taken, reasons)" by (cases sel)
  show "budget_step estimate limit used groups i sel =
      greedy_step (\<lambda>i. cost estimate (groups ! i)) limit used (length groups)
       ''newest_message_group_exceeds_token_budget'' i sel"
    by (simp add: sel Let_def not_less)
qed

text \<open>
  The outcome of either loop over the groups of some messages, with a weight per message: what is
  kept, how much it weighs, and what it means that nothing was reported as too large.
\<close>

definition exceeding :: "string set" where
  "exceeding = {''system_prefix_exceeds_max_messages'', ''protected_messages_exceed_max_messages'',
     ''newest_message_group_exceeds_max_messages'', ''system_prefix_exceeds_token_budget'',
     ''protected_messages_exceed_token_budget'', ''newest_message_group_exceeds_token_budget''}"

definition groups_of :: "content list \<Rightarrow> content list list" where
  "groups_of ms = message_groups (dropWhile is_system ms)"

definition additive :: "(content list \<Rightarrow> nat) \<Rightarrow> bool" where
  "additive weight \<longleftrightarrow> (\<forall>xs ys. weight (xs @ ys) = weight xs + weight ys)"

definition used_before :: "(content list \<Rightarrow> nat) \<Rightarrow> nat set \<Rightarrow> content list \<Rightarrow> nat" where
  "used_before weight ids ms = weight (takeWhile is_system ms)
     + sum_list (map weight (nths (groups_of ms) (protected_indexes ids (groups_of ms))))"

definition greedy_run ::
  "(content list \<Rightarrow> nat) \<Rightarrow> nat \<Rightarrow> nat set \<Rightarrow> content list \<Rightarrow> string \<Rightarrow> string list \<Rightarrow> selection" where
  "greedy_run weight limit ids ms newest rs =
     fold (greedy_step (\<lambda>i. weight (groups_of ms ! i)) limit (used_before weight ids ms)
             (length (groups_of ms)) newest)
       (rev [0..<length (groups_of ms)]) (protected_indexes ids (groups_of ms), 0, rs)"

definition kept_by :: "content list \<Rightarrow> nat set \<Rightarrow> content list" where
  "kept_by ms selected = takeWhile is_system ms @ concat (nths (groups_of ms) selected)"

lemma additive_length [simp]: "additive length"
  by (simp add: additive_def)

lemma additive_cost [simp]: "additive (cost estimate)"
  by (simp add: additive_def cost_def)

lemma additive_Nil: "additive weight \<Longrightarrow> weight [] = 0"
  by (metis add_cancel_left_left additive_def append_Nil)

lemma additive_concat: "additive weight \<Longrightarrow> weight (concat gs) = sum_list (map weight gs)"
  by (induction gs) (simp_all add: additive_Nil, simp add: additive_def)

lemma weight_split:
  assumes "additive weight"
  shows "weight ms = weight (takeWhile is_system ms) + (\<Sum>i<length (groups_of ms). weight (groups_of ms ! i))"
proof -
  have "weight ms = weight (takeWhile is_system ms) + weight (dropWhile is_system ms)"
    using assms by (metis additive_def takeWhile_dropWhile_id)
  also have "weight (dropWhile is_system ms) = sum_list (map weight (groups_of ms))"
    using assms by (simp add: groups_of_def concat_message_groups flip: additive_concat)
  also have "\<dots> = (\<Sum>i<length (groups_of ms). weight (groups_of ms ! i))"
    by (simp add: sum_list_sum_nth atLeast0LessThan)
  finally show ?thesis .
qed

lemma weight_kept:
  assumes "additive weight" "selected \<subseteq> {..<length (groups_of ms)}"
  shows "weight (kept_by ms selected)
    = weight (takeWhile is_system ms) + (\<Sum>i \<in> selected. weight (groups_of ms ! i))"
proof -
  have "weight (kept_by ms selected) = weight (takeWhile is_system ms)
      + sum_list (map weight (nths (groups_of ms) selected))"
    using assms(1) by (simp add: kept_by_def additive_def flip: additive_concat)
  then show ?thesis by (simp add: sum_nths [OF assms(2)])
qed

lemma used_before_eq:
  "used_before weight ids ms = weight (takeWhile is_system ms)
     + (\<Sum>i \<in> protected_indexes ids (groups_of ms). weight (groups_of ms ! i))"
  by (simp add: used_before_def sum_nths [OF protected_indexes_bound])

lemma greedy_run_inv:
  assumes "greedy_run weight limit ids ms newest rs = (selected, taken, reasons)"
  shows "greedy_inv (\<lambda>i. weight (groups_of ms ! i)) limit (used_before weight ids ms)
    (length (groups_of ms)) newest (protected_indexes ids (groups_of ms)) rs (selected, taken, reasons)"
proof -
  have "greedy_inv (\<lambda>i. weight (groups_of ms ! i)) limit (used_before weight ids ms)
    (length (groups_of ms)) newest (protected_indexes ids (groups_of ms)) rs
    (protected_indexes ids (groups_of ms), 0, rs)"
    using protected_indexes_bound by (auto simp: greedy_inv_def)
  from greedy_inv_fold [OF this, of "rev [0..<length (groups_of ms)]"] show ?thesis
    using assms by (simp add: greedy_run_def atLeast_upt)
qed

text \<open>When no reason reports an excess, what is kept is within the limit.\<close>

lemma greedy_run_within:
  assumes "additive weight" "newest \<in> exceeding"
    and "greedy_run weight limit ids ms newest rs = (selected, taken, reasons)"
    and "limit < used_before weight ids ms \<Longrightarrow> set rs \<inter> exceeding \<noteq> {}"
    and "set reasons \<inter> exceeding = {}"
  shows "weight (kept_by ms selected) \<le> limit"
proof -
  let ?p = "protected_indexes ids (groups_of ms)" and ?price = "\<lambda>i. weight (groups_of ms ! i)"
  note inv = greedy_run_inv [OF assms(3), unfolded greedy_inv_def, simplified]
  from inv assms(2,5) have rs: "reasons = rs" by auto
  with assms(4,5) have "used_before weight ids ms \<le> limit" by fastforce
  with inv rs have fits: "used_before weight ids ms + taken \<le> limit" by auto
  from inv have sel: "selected \<subseteq> {..<length (groups_of ms)}" "finite selected"
    by (auto intro: finite_subset)
  then have "sum ?price selected = sum ?price (selected - ?p) + sum ?price ?p"
    using inv by (intro sum.subset_diff) auto
  with inv fits weight_kept [OF assms(1) sel(1)] show ?thesis
    by (simp add: used_before_eq)
qed

text \<open>If all the messages fit, all of them are kept and nothing is reported.\<close>

lemma greedy_run_all:
  assumes "additive weight"
    and "greedy_run weight limit ids ms newest rs = (selected, taken, reasons)"
    and "weight ms \<le> limit"
  shows "kept_by ms selected = ms \<and> reasons = rs"
proof -
  let ?n = "length (groups_of ms)"
  let ?p = "protected_indexes ids (groups_of ms)" and ?price = "\<lambda>i. weight (groups_of ms ! i)"
  have "sum ?price {..<?n} = sum ?price ({..<?n} - ?p) + sum ?price ?p"
    by (intro sum.subset_diff protected_indexes_bound) simp
  then have "used_before weight ids ms + sum ?price ({..<?n} - ?p) \<le> limit"
    using assms(3) weight_split [OF assms(1), of ms] by (simp add: used_before_eq)
  moreover have "greedy_inv ?price limit (used_before weight ids ms) ?n newest ?p rs (?p, 0, rs)"
    using protected_indexes_bound by (auto simp: greedy_inv_def)
  ultimately have "{..<?n} \<subseteq> selected \<and> reasons = rs"
    using greedy_all [of ?price limit "used_before weight ids ms" ?n newest ?p rs ?p 0 "rev [0..<?n]"]
      assms(2)
    by (auto simp: greedy_run_def atLeast_upt)
  then show ?thesis
    by (simp add: kept_by_def nths_full) (simp add: groups_of_def concat_message_groups)
qed

lemma trims_greedy_run:
  assumes "greedy_run weight limit ids ms newest rs = (selected, taken, reasons)"
  shows "trims ids ms (kept_by ms selected)"
  using greedy_run_inv [OF assms] trims_selected [of ids ms selected]
  by (simp add: greedy_inv_def kept_by_def groups_of_def)

text \<open>The two functions in terms of the common run.\<close>

definition dropped_reason :: "string \<Rightarrow> content list \<Rightarrow> content list \<Rightarrow> string list" where
  "dropped_reason r ms kept = (if length kept \<noteq> length ms then [r] else [])"

definition window_reasons :: "nat \<Rightarrow> nat set \<Rightarrow> content list \<Rightarrow> string list" where
  "window_reasons n ids ms =
     (if length (takeWhile is_system ms) > n then [''system_prefix_exceeds_max_messages''] else [])
   @ (if used_before length ids ms > n \<and> protected_indexes ids (groups_of ms) \<noteq> {}
      then [''protected_messages_exceed_max_messages''] else [])"

definition budget_reasons :: "(content \<Rightarrow> nat) \<Rightarrow> nat \<Rightarrow> nat set \<Rightarrow> content list \<Rightarrow> string list" where
  "budget_reasons estimate n ids ms =
     (if cost estimate (takeWhile is_system ms) > n
      then [''system_prefix_exceeds_token_budget''] else [])
   @ (if used_before (cost estimate) ids ms > n \<and> protected_indexes ids (groups_of ms) \<noteq> {}
      then [''protected_messages_exceed_token_budget''] else [])"

lemma preserve_run:
  "preserve_system_prefix n ids ms =
     (let (selected, taken, reasons) = greedy_run length n ids ms
            ''newest_message_group_exceeds_max_messages'' (window_reasons n ids ms);
          kept = kept_by ms selected
      in (kept, reasons @ dropped_reason ''max_messages_dropped_messages'' ms kept))"
  by (simp add: preserve_system_prefix_def system_prefix_def greedy_run_def window_reasons_def
      kept_by_def dropped_reason_def Let_def window_step_greedy
      flip: groups_of_def used_before_def)

lemma within_budget_run:
  "within_budget estimate n ids ms =
     (let ids' = ids \<union> c_ref ` set (takeWhile is_system ms);
          (selected, taken, reasons) = greedy_run (cost estimate) n ids' ms
            ''newest_message_group_exceeds_token_budget'' (budget_reasons estimate n ids' ms);
          kept = kept_by ms selected
      in (kept, reasons @ dropped_reason ''token_budget_dropped_messages'' ms kept))"
  by (simp add: within_budget_def system_prefix_def greedy_run_def budget_reasons_def
      kept_by_def dropped_reason_def Let_def budget_step_greedy
      flip: groups_of_def used_before_def)

lemma window_reasons_exceeding:
  "n < used_before length ids ms \<Longrightarrow> set (window_reasons n ids ms) \<inter> exceeding \<noteq> {}"
  by (auto simp: window_reasons_def used_before_def exceeding_def)

lemma budget_reasons_exceeding:
  "n < used_before (cost estimate) ids ms \<Longrightarrow> set (budget_reasons estimate n ids ms) \<inter> exceeding \<noteq> {}"
  by (auto simp: budget_reasons_def used_before_def exceeding_def)

lemma used_before_le: "additive weight \<Longrightarrow> used_before weight ids ms \<le> weight ms"
  unfolding used_before_eq
  by (simp add: weight_split [of weight ms]) (intro sum_mono2 protected_indexes_bound; simp)

lemma window_result:
  assumes "preserve_system_prefix n ids ms = (kept, reasons)"
  shows "trims ids ms kept"
    and "set reasons \<inter> exceeding = {} \<Longrightarrow> length kept \<le> n"
    and "length ms \<le> n \<Longrightarrow> kept = ms \<and> reasons = []"
proof -
  obtain selected taken rs where run: "greedy_run length n ids ms
      ''newest_message_group_exceeds_max_messages'' (window_reasons n ids ms) = (selected, taken, rs)"
    by (metis prod_cases3)
  with assms have kept: "kept = kept_by ms selected"
    "reasons = rs @ dropped_reason ''max_messages_dropped_messages'' ms kept"
    by (auto simp: preserve_run Let_def)
  from trims_greedy_run [OF run] kept(1) show "trims ids ms kept" by simp
  show "length kept \<le> n" if "set reasons \<inter> exceeding = {}"
    using greedy_run_within [OF additive_length _ run window_reasons_exceeding] that kept
    by (auto simp: exceeding_def)
  show "kept = ms \<and> reasons = []" if small: "length ms \<le> n"
  proof -
    from greedy_run_all [OF additive_length run small]
    have "kept = ms" "rs = window_reasons n ids ms" using kept(1) by simp_all
    moreover have "window_reasons n ids ms = []"
      using small used_before_le [OF additive_length, of ids ms] length_takeWhile_le [of is_system ms]
      by (simp add: window_reasons_def)
    ultimately show ?thesis using kept(2) by (simp add: dropped_reason_def)
  qed
qed

lemma budget_result:
  assumes "within_budget estimate n ids ms = (kept, reasons)"
  shows "trims ids ms kept"
    and "set reasons \<inter> exceeding = {} \<Longrightarrow> cost estimate kept \<le> n"
    and "cost estimate ms \<le> n \<Longrightarrow> kept = ms \<and> reasons = []"
proof -
  let ?ids = "ids \<union> c_ref ` set (takeWhile is_system ms)"
  obtain selected taken rs where run: "greedy_run (cost estimate) n ?ids ms
      ''newest_message_group_exceeds_token_budget'' (budget_reasons estimate n ?ids ms)
      = (selected, taken, rs)"
    by (metis prod_cases3)
  with assms have kept: "kept = kept_by ms selected"
    "reasons = rs @ dropped_reason ''token_budget_dropped_messages'' ms kept"
    by (auto simp: within_budget_run Let_def)
  from trims_greedy_run [OF run] kept(1) show "trims ids ms kept" by (auto simp: trims_def)
  show "cost estimate kept \<le> n" if "set reasons \<inter> exceeding = {}"
    using greedy_run_within [OF additive_cost _ run budget_reasons_exceeding] that kept
    by (auto simp: exceeding_def)
  show "kept = ms \<and> reasons = []" if small: "cost estimate ms \<le> n"
  proof -
    from greedy_run_all [OF additive_cost run small]
    have "kept = ms" "rs = budget_reasons estimate n ?ids ms" using kept(1) by simp_all
    moreover have "cost estimate (takeWhile is_system ms) \<le> cost estimate ms"
      by (metis additive_cost additive_def le_add1 takeWhile_dropWhile_id)
    then have "budget_reasons estimate n ?ids ms = []"
      using small used_before_le [OF additive_cost, of estimate ?ids ms]
      by (simp add: budget_reasons_def)
    ultimately show ?thesis using kept(2) by (simp add: dropped_reason_def)
  qed
qed

lemma tail_groups_loop_subset:
  "set (tail_groups_loop k gs selected taken) \<subseteq> set gs \<union> set selected"
  by (induction k gs selected taken rule: tail_groups_loop.induct) auto

lemma tail_groups_subset: "set (tail_groups_by_message_count gs k) \<subseteq> set gs"
  using tail_groups_loop_subset [of k "rev gs" "[]" 0] by (simp add: tail_groups_by_message_count_def)

section \<open>The interface to a token estimator\<close>

locale token_estimator =
  fixes estimate :: "content \<Rightarrow> nat"
  assumes estimate_positive: "1 \<le> estimate m"
begin

lemma length_le_cost: "length ms \<le> cost estimate ms"
proof (induction ms)
  case (Cons m ms)
  with estimate_positive [of m] show ?case by (simp add: cost_def)
qed (simp add: cost_def)

text \<open>So a budget of tokens is a budget of messages.\<close>

lemma budget_bounds_messages:
  assumes "within_budget estimate n ids ms = (kept, reasons)" "set reasons \<inter> exceeding = {}"
  shows "length kept \<le> n"
  using budget_result(2) [OF assms] length_le_cost [of kept] by simp

end

interpretation approximate: token_estimator "approximate_estimate json_length" for json_length
  by unfold_locales (simp add: approximate_estimate_def)

section \<open>The interface to a context strategy\<close>

text \<open>
  What a chat relies on: the request is for the given model and tools, and its messages satisfy
  the providers' protocol of calls and answers.
\<close>

locale context_strategy =
  fixes compose :: compose
  assumes composed: "compose c model_id msgs sel tools meta = Inr r \<Longrightarrow>
      rq_model_id r = model_id \<and> rq_tools r = tools \<and> protocol_ok (rq_messages r)"
begin

lemma tool_messages_answer:
  assumes "compose c model_id msgs sel tools meta = Inr r"
    and "i < length (rq_messages r)" "c_role (rq_messages r ! i) = Role_TOOL"
  shows "\<exists>j < i. calling (rq_messages r ! j)
           \<and> answers (expected_ids (rq_messages r ! j)) (rq_messages r ! i)"
  using composed [OF assms(1)] assms(2,3) by (intro protocol_answers_call) auto

lemma calls_answered:
  assumes "compose c model_id msgs sel tools meta = Inr r"
    and "m \<in> set (rq_messages r)" "calling m" "i \<in> expected_ids m"
  shows "\<exists>t \<in> set (rq_messages r). c_role t = Role_TOOL \<and> c_tool_call_id t = Some i"
  using composed [OF assms(1)] assms(2-4) by (intro protocol_calls_answered) auto

text \<open>The decorators keep the contract of what they decorate.\<close>

lemma window_keeps: "context_strategy (window_compose n compose)"
proof
  fix c model_id msgs sel tools meta r
  assume "window_compose n compose c model_id msgs sel tools meta = Inr r"
  then obtain r0 where r0: "compose c model_id msgs sel tools meta = Inr r0"
    and r: "\<exists>reasons. preserve_system_prefix n (protected_message_ids msgs) (rq_messages r0)
          = (rq_messages r, reasons)"
      "rq_model_id r = rq_model_id r0" "rq_tools r = rq_tools r0"
    by (auto simp: window_compose_def bind_e_eq_Inr with_strategy_metadata_def Let_def split_def
        prod_eq_iff)
  with composed [OF r0] window_result(1)
  show "rq_model_id r = model_id \<and> rq_tools r = tools \<and> protocol_ok (rq_messages r)"
    by (fastforce simp: trims_def)
qed

lemma budget_keeps: "context_strategy (budget_compose estimate n compose)"
proof
  fix c model_id msgs sel tools meta r
  assume "budget_compose estimate n compose c model_id msgs sel tools meta = Inr r"
  then obtain r0 where r0: "compose c model_id msgs sel tools meta = Inr r0"
    and r: "\<exists>reasons. within_budget estimate n (protected_message_ids msgs) (rq_messages r0)
          = (rq_messages r, reasons)"
      "rq_model_id r = rq_model_id r0" "rq_tools r = rq_tools r0"
    by (auto simp: budget_compose_def bind_e_eq_Inr with_strategy_metadata_def Let_def split_def
        prod_eq_iff)
  with composed [OF r0] budget_result(1)
  show "rq_model_id r = model_id \<and> rq_tools r = tools \<and> protocol_ok (rq_messages r)"
    by (fastforce simp: trims_def)
qed

text \<open>
  A summary replaces the oldest groups; the recent ones stay whole.  It must be a plain message.
\<close>

lemma summarizing_keeps:
  assumes plain_summary: "\<And>removed m. summarize removed = Inr m \<Longrightarrow> plain m"
  shows "context_strategy (summarizing_compose summarize after keep compose)"
proof
  fix c model_id msgs sel tools meta r
  assume run: "summarizing_compose summarize after keep compose c model_id msgs sel tools meta = Inr r"
  then obtain r0 where r0: "compose c model_id msgs sel tools meta = Inr r0"
    by (auto simp: summarizing_compose_def bind_e_eq_Inr)
  note ok = composed [OF r0]
  show "rq_model_id r = model_id \<and> rq_tools r = tools \<and> protocol_ok (rq_messages r)"
  proof (cases "r = r0")
    case True
    with ok show ?thesis by simp
  next
    case False
    let ?ms = "rq_messages r0"
    let ?gs = "groups_of ?ms"
    from False run r0 obtain removed summary where
      s: "summarize removed = Inr summary"
        "r = with_strategy_metadata r0 (takeWhile is_system ?ms @ [summary]
              @ concat (tail_groups_by_message_count ?gs keep))
            ''SummarizingContextStrategy'' [(''summarized_message_count'', PInt (int (length removed)))]"
      by (auto simp: summarizing_compose_def system_prefix_def groups_of_def bind_e_eq_Inr Let_def
          split: if_splits)
    have "\<forall>g \<in> set (tail_groups_by_message_count ?gs keep). protocol_ok g"
      using tail_groups_subset ok groups_protocol_ok [of "dropWhile is_system ?ms"]
      by (auto simp: groups_of_def protocol_ok_dropWhile)
    then have "protocol_ok (rq_messages r)"
      using plain_summary [OF s(1)] protocol_ok_concat
      by (simp add: s(2) with_strategy_metadata_def Let_def protocol_ok_dropWhile del: protocol_ok.simps)
    with ok show ?thesis by (simp add: s(2) with_strategy_metadata_def Let_def)
  qed
qed

end

section \<open>The strategies of the runtime\<close>

lemma compose_memory_message_system:
  "compose_memory_message fresh sel = Some m \<Longrightarrow> c_role m = Role_SYSTEM \<and> c_ref m = fresh"
  by (auto simp: compose_memory_message_def message_def Let_def split: if_splits)

lemma protocol_ok_insert_system:
  assumes "protocol_ok ms" "c_role m = Role_SYSTEM"
  shows "protocol_ok (insert_after_system_prefix ms m)"
proof -
  have "plain m" using assms(2) by (simp add: plain_def calling_def)
  with assms(1) show ?thesis
    by (simp add: insert_after_system_prefix_def system_prefix_def protocol_ok_dropWhile
        del: protocol_ok.simps)
qed

interpretation basic_strategy: context_strategy "basic_compose fresh" for fresh
proof
  fix c model_id msgs sel tools meta r
  assume "basic_compose fresh c model_id msgs sel tools meta = Inr r"
  then show "rq_model_id r = model_id \<and> rq_tools r = tools \<and> protocol_ok (rq_messages r)"
    by (auto simp: basic_compose_def to_chat_request_def Let_def protocol_ok_organize
        split: option.splits bind_splits
        intro!: protocol_ok_insert_system dest: compose_memory_message_system)
qed

interpretation trimmed_strategy: context_strategy
  "budget_compose estimate k (window_compose n (basic_compose fresh))" for estimate k n fresh
  by (rule context_strategy.budget_keeps, rule basic_strategy.window_keeps)

text \<open>
  The memory message stands after the leading system messages, so no memory is lost when the
  window or the budget drops the rest of the conversation.
\<close>

lemma memory_in_prefix:
  assumes "c_role m = Role_SYSTEM"
  shows "m \<in> set (takeWhile is_system (insert_after_system_prefix ms m))"
proof -
  have "takeWhile is_system (takeWhile is_system ms @ m # dropWhile is_system ms)
      = takeWhile is_system ms @ takeWhile is_system (m # dropWhile is_system ms)"
    by (rule takeWhile_append2) (rule set_takeWhileD [THEN conjunct2])
  with assms show ?thesis
    by (simp add: insert_after_system_prefix_def system_prefix_def is_system_def)
qed

lemma trims_keeps_prefix: "trims ids ms kept \<Longrightarrow> m \<in> set (takeWhile is_system ms) \<Longrightarrow> m \<in> set kept"
  by (auto simp: trims_def dest: set_mono_prefix)

text \<open>Whatever the options, a strategy that the runtime builds satisfies the contract.\<close>

lemma runtime_strategy:
  assumes "create_context_strategy json_length fresh options = Inr strategy"
    and "\<And>summarize removed m. so_summarizer options = Some summarize
      \<Longrightarrow> summarize removed = Inr m \<Longrightarrow> plain m"
  shows "context_strategy strategy"
proof -
  from assms(1) obtain s1 where
    s1: "s1 = basic_compose fresh \<or> (\<exists>summarize. so_summarizer options = Some summarize
        \<and> s1 = summarizing_compose summarize (so_summarize_after options) (so_keep_recent options)
                 (basic_compose fresh))"
    and rest: "bind_e (case so_max_messages options of
               None \<Rightarrow> Inr s1
             | Some n \<Rightarrow> bind_e (at_least_one ''max_messages'' n) (\<lambda>_. Inr (window_compose n s1)))
       (\<lambda>s2. case so_max_tokens options of
         None \<Rightarrow> Inr s2
       | Some n \<Rightarrow> bind_e (at_least_one ''max_tokens'' n) (\<lambda>_.
           Inr (budget_compose
                (case so_estimator options of Some e \<Rightarrow> e | None \<Rightarrow> approximate_estimate json_length)
                n s2))) = Inr strategy"
    unfolding create_context_strategy_def
    by (auto simp: bind_e_eq_Inr split: if_splits option.splits)
  have c1: "context_strategy s1"
    using s1 assms(2) basic_strategy.summarizing_keeps basic_strategy.context_strategy_axioms
    by metis
  from rest obtain s2 where "s2 = s1 \<or> (\<exists>n. s2 = window_compose n s1)"
    and "strategy = s2 \<or> (\<exists>e n. strategy = budget_compose e n s2)"
    by (auto simp: bind_e_eq_Inr split: option.splits)
  with c1 context_strategy.window_keeps context_strategy.budget_keeps show ?thesis
    by metis
qed

section \<open>Summaries lose nothing\<close>

lemma tail_groups_loop_take:
  "\<exists>j. tail_groups_loop k gs selected taken = rev (take j gs) @ selected"
proof (induction k gs selected taken rule: tail_groups_loop.induct)
  case (1 k selected taken)
  show ?case by (rule exI [of _ 0]) simp
next
  case (2 k g gs selected taken)
  show ?case
  proof (cases "selected \<noteq> [] \<and> taken + length g > k")
    case True
    then show ?thesis by (intro exI [of _ 0]) simp
  next
    case not_full: False
    show ?thesis
    proof (cases "taken + length g \<ge> k")
      case True
      with not_full show ?thesis by (intro exI [of _ 1]) auto
    next
      case False
      with 2 not_full obtain j where
        "tail_groups_loop k gs (g # selected) (taken + length g) = rev (take j gs) @ g # selected" by auto
      with not_full False show ?thesis by (intro exI [of _ "Suc j"]) auto
    qed
  qed
qed

lemma tail_groups_suffix:
  "tail_groups_by_message_count gs k = drop (length gs - length (tail_groups_by_message_count gs k)) gs"
proof -
  obtain j where "tail_groups_by_message_count gs k = rev (take j (rev gs))"
    using tail_groups_loop_take [of k "rev gs" "[]" 0] by (auto simp: tail_groups_by_message_count_def)
  then have *: "tail_groups_by_message_count gs k = drop (length gs - j) gs"
    by (simp add: take_rev)
  then show ?thesis by (cases "j \<le> length gs") auto
qed

section \<open>The properties of the component\<close>

lemma basic_compose_ok: "\<exists>r. basic_compose fresh c model_id msgs sel tools meta = Inr r"
  by (auto simp: basic_compose_def Let_def split: option.split)

lemma window_compose_ok:
  "\<exists>r. window_compose n (basic_compose fresh) c model_id msgs sel tools meta = Inr r"
  using basic_compose_ok [of fresh c model_id msgs sel tools meta]
  by (auto simp: window_compose_def Let_def split_def)

text \<open>Trimming to a number of messages keeps the leading system messages, every message of the
  current request and, of the history, whole exchanges in their order, so a list that a provider
  accepts stays acceptable; it changes nothing when the messages fit, and when it reports no excess
  the result is within the limit.\<close>

theorem window_trimming_correct:
  "(case preserve_system_prefix n ids ms of (kept, reasons) \<Rightarrow>
      trims ids ms kept
      \<and> (length ms \<le> n \<longrightarrow> kept = ms \<and> reasons = [])
      \<and> (set reasons \<inter> exceeding = {} \<longrightarrow> length kept \<le> n))"
  using window_result [of n ids ms] by (auto split: prod.split)

theorem window_trimming_correct_witness:
  "fst (preserve_system_prefix 3 {} [message 4 Role_SYSTEM, asking 5 ''a'', answering 6 ''a''])
     = [message 4 Role_SYSTEM, asking 5 ''a'', answering 6 ''a'']"
  using window_trimming_correct [where n = 3 and ids = "{}" and
      ms = "[message 4 Role_SYSTEM, asking 5 ''a'', answering 6 ''a'']"]
  by (simp split: prod.splits)

text \<open>C14: Trimming to a token budget keeps the same messages as trimming to a window must; it changes
  nothing when the messages fit the budget, and when it reports no excess the estimated tokens of the
  result are within the budget, and so is the number of its messages under the default estimator.\<close>

theorem token_budget_correct:
  "(case within_budget (approximate_estimate json_length) n ids ms of (kept, reasons) \<Rightarrow>
      trims ids ms kept
      \<and> (cost (approximate_estimate json_length) ms \<le> n \<longrightarrow> kept = ms \<and> reasons = [])
      \<and> (set reasons \<inter> exceeding = {} \<longrightarrow>
           cost (approximate_estimate json_length) kept \<le> n \<and> length kept \<le> n))"
  using budget_result [of "approximate_estimate json_length" n ids ms]
    approximate.budget_bounds_messages [of json_length n ids ms]
  by (auto split: prod.split)

theorem token_budget_correct_witness:
  "fst (within_budget (approximate_estimate (\<lambda>_. 40)) 30 {} [message 0 Role_SYSTEM, message 1 Role_USER])
     = [message 0 Role_SYSTEM, message 1 Role_USER]"
  using token_budget_correct [where json_length = "\<lambda>_. 40" and n = 30 and ids = "{}" and ms = "[message 0 Role_SYSTEM, message 1 Role_USER]"]
  by (simp add: cost_def approximate_estimate_def split: prod.splits)

text \<open>C13: Whatever the options, every chat request that the strategy built by the runtime composes
  satisfies the providers' protocol: it is for the given model and tools, every tool message answers a
  call made before it, and every call is answered; provided that the caller's summarizer returns plain
  messages.\<close>

theorem runtime_requests_protocol_ok:
  assumes "create_context_strategy json_length fresh options = Inr strategy"
    and "\<And>summarize removed m. so_summarizer options = Some summarize
      \<Longrightarrow> summarize removed = Inr m \<Longrightarrow> plain m"
    and "strategy c model_id msgs sel tools meta = Inr r"
  shows "rq_model_id r = model_id \<and> rq_tools r = tools
    \<and> (\<forall>i < length (rq_messages r). c_role (rq_messages r ! i) = Role_TOOL \<longrightarrow>
         (\<exists>j < i. calling (rq_messages r ! j)
            \<and> answers (expected_ids (rq_messages r ! j)) (rq_messages r ! i)))
    \<and> (\<forall>m \<in> set (rq_messages r). calling m \<longrightarrow> (\<forall>i \<in> expected_ids m.
         \<exists>t \<in> set (rq_messages r). c_role t = Role_TOOL \<and> c_tool_call_id t = Some i))"
proof -
  have s: "context_strategy strategy" using assms(1,2) by (rule runtime_strategy)
  show ?thesis
    using context_strategy.composed [OF s assms(3)]
      context_strategy.tool_messages_answer [OF s assms(3)]
      context_strategy.calls_answered [OF s assms(3)]
    by blast
qed

definition window_options :: "nat \<Rightarrow> context_strategy_options" where
  "window_options n = \<lparr>so_enable_summary = False, so_summarizer = None, so_summarize_after = 1,
     so_keep_recent = 1, so_max_messages = Some n, so_max_tokens = None, so_estimator = None\<rparr>"

theorem runtime_requests_protocol_ok_witness:
  "\<exists>r. window_compose 3 (basic_compose 0) (sample_context ''c'' None
       [message 1 Role_USER, asking 2 ''a'', answering 3 ''a'']) ''m'' None None None None = Inr r
     \<and> rq_model_id r = ''m''"
proof -
  let ?c = "sample_context ''c'' None [message 1 Role_USER, asking 2 ''a'', answering 3 ''a'']"
  obtain r where r: "window_compose 3 (basic_compose 0) ?c ''m'' None None None None = Inr r"
    using window_compose_ok by blast
  have "create_context_strategy (\<lambda>_. 0) 0 (window_options 3) = Inr (window_compose 3 (basic_compose 0))"
    by (simp add: create_context_strategy_def window_options_def at_least_one_def)
  from runtime_requests_protocol_ok [OF this _ r] r show ?thesis
    by (auto simp: window_options_def)
qed

text \<open>Summarizing loses nothing of the conversation: the request is either left as it is, or its
  messages are the leading system messages, the summary of some oldest exchanges, and all the others
  word for word.\<close>

theorem summarizing_partitions:
  assumes "base c model_id msgs sel tools meta = Inr r0"
    and "summarizing_compose summarize after keep base c model_id msgs sel tools meta = Inr r"
  shows "r = r0 \<or> (\<exists>removed recent summary.
      rq_messages r0 = takeWhile is_system (rq_messages r0) @ removed @ recent \<and> removed \<noteq> []
      \<and> summarize removed = Inr summary
      \<and> rq_messages r = takeWhile is_system (rq_messages r0) @ [summary] @ recent)"
proof (cases "r = r0")
  case False
  let ?ms = "rq_messages r0"
  let ?gs = "message_groups (dropWhile is_system ?ms)"
  let ?recent = "tail_groups_by_message_count ?gs keep"
  let ?removed = "concat (take (length ?gs - length ?recent) ?gs)"
  from False assms obtain summary where
    s: "summarize ?removed = Inr summary" "?removed \<noteq> []"
      "rq_messages r = takeWhile is_system ?ms @ [summary] @ concat ?recent"
    by (auto simp: summarizing_compose_def system_prefix_def bind_e_eq_Inr Let_def
        with_strategy_metadata_def split: if_splits)
  have "?removed @ concat ?recent = concat ?gs"
    by (metis append_take_drop_id concat_append tail_groups_suffix)
  then have "?ms = takeWhile is_system ?ms @ ?removed @ concat ?recent"
    by (simp add: concat_message_groups)
  with s show ?thesis by blast
qed simp

theorem summarizing_partitions_witness:
  "\<exists>r. summarizing_compose (\<lambda>_. Inr (message 9 Role_SYSTEM)) 1 1 (basic_compose 0)
     (sample_context ''c'' None [message 5 Role_USER, message 6 Role_USER]) ''m'' None None None None = Inr r
     \<and> length (rq_messages r) = 2"
proof -
  let ?c = "sample_context ''c'' None [message 5 Role_USER, message 6 Role_USER]"
  obtain r0 where r0: "basic_compose 0 ?c ''m'' None None None None = Inr r0"
    and ms: "rq_messages r0 = [message 5 Role_USER, message 6 Role_USER]"
    by (simp add: basic_compose_def to_chat_request_def organize_def active_messages_def sample_context_def
        is_active_def Let_def)
  let ?r = "with_strategy_metadata r0 [message 9 Role_SYSTEM, message 6 Role_USER]
    ''SummarizingContextStrategy'' [(''summarized_message_count'', PInt 1)]"
  have run: "summarizing_compose (\<lambda>_. Inr (message 9 Role_SYSTEM)) 1 1 (basic_compose 0)
      ?c ''m'' None None None None = Inr ?r"
    by (simp add: summarizing_compose_def r0 ms system_prefix_def is_system_def
        tail_groups_by_message_count_def Let_def)
  from summarizing_partitions [OF r0 run] run ms show ?thesis
    by (auto simp: is_system_def with_strategy_metadata_def Let_def)
qed

end
