(* ===== verification/Providers.thy ===== *)
theory Providers
  imports Content
begin

text \<open>
  Provider configurations (\<open>core/schema/provider.py\<close>), the registers of provider descriptions and of
  builders, the merging of usage reports, secrets and the check of a request against the model's
  capabilities (\<open>core/domain/provider.py\<close>).  The life cycle of provider instances is in
  \<open>ProviderSlots\<close>.

  An instance is an object of an adapter; it is a value of a type variable \<open>'i\<close>.
\<close>

section \<open>Schemas\<close>

datatype provider_type = Type_OPENAI | Type_OPENAI_RESPONSES | Type_GOOGLE | Type_ANTHROPIC

fun provider_type_value :: "provider_type \<Rightarrow> string" where
  "provider_type_value Type_OPENAI = ''openai''"
| "provider_type_value Type_OPENAI_RESPONSES = ''openai_responses''"
| "provider_type_value Type_GOOGLE = ''google''"
| "provider_type_value Type_ANTHROPIC = ''anthropic''"

datatype model_capability =
    Cap_CHAT | Cap_TOOL_CALL | Cap_IMAGE_GENERATION | Cap_IMAGE_RECOGNITION
  | Cap_VIDEO_GENERATION | Cap_VIDEO_RECOGNITION

text \<open>A timeout is a number of microseconds.\<close>

record provider_model_config =
  pmc_model_id :: string
  pmc_timeout :: int
  pmc_capabilities :: "model_capability list"
  pmc_metadata :: metadata

record provider_config =
  pcf_provider_id :: string
  pcf_name :: string
  pcf_type :: provider_type
  pcf_is_enabled :: bool
  pcf_discover_models :: bool
  pcf_api_key :: "string option"
  pcf_api_key_secret_ref :: "string option"
  pcf_base_url :: "string option"
  pcf_model :: "(string, provider_model_config) dict"
  pcf_metadata :: metadata

record provider_info =
  pi_provider_id :: string
  pi_name :: string
  pi_type :: provider_type
  pi_is_enabled :: bool
  pi_model :: "(string, provider_model_config) dict"
  pi_metadata :: metadata

record provider_config_view = provider_info +
  pv_discover_models :: bool
  pv_base_url :: "string option"
  pv_api_key_secret_ref :: "string option"
  pv_has_api_key :: bool

text \<open>A field of an update is unset (\<open>None\<close>) or set to a value or to null (\<open>Some v\<close>).\<close>

record provider_config_update =
  up_name :: "string option option"
  up_type :: "provider_type option option"
  up_is_enabled :: "bool option option"
  up_discover_models :: "bool option option"
  up_api_key :: "string option option"
  up_api_key_secret_ref :: "string option option"
  up_base_url :: "string option option"
  up_model :: "(string, provider_model_config) dict option option"
  up_metadata :: "metadata option option"

definition update_value_error :: "string \<Rightarrow> error" where
  "update_value_error msg = raised (PyException ''ValueError'') msg"

definition given :: "'a option option \<Rightarrow> 'a option" where
  "given x = (case x of None \<Rightarrow> None | Some v \<Rightarrow> v)"

definition validate_update :: "provider_config_update \<Rightarrow> error + provider_config_update" where
  "validate_update u =
     (if up_name u = Some (Some []) then Inl (update_value_error ''name'')
      else if up_api_key u = Some (Some []) then Inl (update_value_error ''api_key'')
      else if up_api_key_secret_ref u = Some (Some [])
      then Inl (update_value_error ''api_key_secret_ref'')
      else if up_name u = Some None then Inl (update_value_error ''name cannot be null'')
      else if up_type u = Some None then Inl (update_value_error ''type cannot be null'')
      else if up_is_enabled u = Some None then Inl (update_value_error ''is_enabled cannot be null'')
      else if up_discover_models u = Some None
      then Inl (update_value_error ''discover_models cannot be null'')
      else if up_model u = Some None then Inl (update_value_error ''model cannot be null'')
      else if up_metadata u = Some None then Inl (update_value_error ''metadata cannot be null'')
      else if given (up_api_key u) \<noteq> None \<and> given (up_api_key_secret_ref u) \<noteq> None
      then Inl (update_value_error ''Specify either api_key or api_key_secret_ref'')
      else Inr u)"

section \<open>Registers\<close>

type_synonym provider_register = "(string, provider_info) dict"

definition provider_register :: "provider_info \<Rightarrow> provider_register \<Rightarrow> provider_register" where
  "provider_register p d = dict_set (pi_provider_id p) p d"

definition provider_unregister :: "string \<Rightarrow> (error, provider_register, unit) act" where
  "provider_unregister provider_id d =
     (if dict_has d provider_id then (Inr (), dict_pop provider_id d)
      else (Inl (raised (Provider ProviderNotFoundError)
                   (''The provider '' @ provider_id @ '' is not registered'')), d))"

definition provider_get :: "string \<Rightarrow> provider_register \<Rightarrow> error + provider_info" where
  "provider_get provider_id d =
     (case dict_get d provider_id of
        Some p \<Rightarrow> Inr p
      | None \<Rightarrow> Inl (raised (Provider ProviderNotFoundError)
                   (''The provider '' @ provider_id @ '' is not found'')))"

type_synonym 'i builder = "provider_config \<Rightarrow> error + 'i"

type_synonym 'i provider_factory = "(provider_type, 'i builder) dict"

definition factory_register :: "provider_type \<Rightarrow> 'i builder \<Rightarrow> 'i provider_factory \<Rightarrow> 'i provider_factory" where
  "factory_register t b d = dict_set t b d"

definition factory_missing :: "provider_type \<Rightarrow> error" where
  "factory_missing t = raised (Provider ProviderNotFoundError)
     (''The provider '' @ provider_type_value t @ '' is not registered'')"

definition factory_unregister :: "provider_type \<Rightarrow> (error, 'i provider_factory, unit) act" where
  "factory_unregister t d =
     (if dict_has d t then (Inr (), dict_pop t d) else (Inl (factory_missing t), d))"

definition factory_get :: "provider_type \<Rightarrow> 'i provider_factory \<Rightarrow> error + 'i builder" where
  "factory_get t d = (case dict_get d t of Some b \<Rightarrow> Inr b | None \<Rightarrow> Inl (factory_missing t))"

definition factory_create :: "'i provider_factory \<Rightarrow> provider_config \<Rightarrow> error + 'i" where
  "factory_create d p = bind_e (factory_get (pcf_type p) d) (\<lambda>b. b p)"

section \<open>Usage\<close>

definition or_else :: "'a option \<Rightarrow> 'a option \<Rightarrow> 'a option" where
  "or_else a b = (case a of None \<Rightarrow> b | Some x \<Rightarrow> Some x)"

definition merge_chat_usage :: "chat_usage option \<Rightarrow> chat_usage \<Rightarrow> chat_usage" where
  "merge_chat_usage previous current =
     (case previous of
        None \<Rightarrow> current
      | Some previous \<Rightarrow>
          (let prompt_tokens = or_else (us_prompt_tokens current) (us_prompt_tokens previous);
               completion_tokens =
                 or_else (us_completion_tokens current) (us_completion_tokens previous);
               total_tokens =
                 (case us_total_tokens current of
                    Some t \<Rightarrow> Some t
                  | None \<Rightarrow>
                      let usage_changed =
                            us_prompt_tokens current \<noteq> None \<or> us_completion_tokens current \<noteq> None
                      in case (prompt_tokens, completion_tokens) of
                           (Some p, Some c) \<Rightarrow>
                             if usage_changed then Some (p + c) else us_total_tokens previous
                         | _ \<Rightarrow> us_total_tokens previous)
           in \<lparr>us_prompt_tokens = prompt_tokens, us_completion_tokens = completion_tokens,
               us_total_tokens = total_tokens,
               us_cached_prompt_tokens =
                 or_else (us_cached_prompt_tokens current) (us_cached_prompt_tokens previous),
               us_cache_write_prompt_tokens =
                 or_else (us_cache_write_prompt_tokens current) (us_cache_write_prompt_tokens previous),
               us_metadata = dict_merge (us_metadata previous) (us_metadata current)\<rparr>))"

text \<open>The loop of \<open>_ObservedChatStream\<close> over the usage reports of a stream.\<close>

definition stream_usage :: "chat_usage option list \<Rightarrow> chat_usage option" where
  "stream_usage events =
     fold (\<lambda>event usage. case event of None \<Rightarrow> usage | Some u \<Rightarrow> Some (merge_chat_usage usage u))
       events None"

section \<open>Configurations, secrets and capabilities\<close>

definition provider_info_of :: "provider_config \<Rightarrow> provider_info" where
  "provider_info_of p =
     \<lparr>pi_provider_id = pcf_provider_id p, pi_name = pcf_name p, pi_type = pcf_type p,
      pi_is_enabled = pcf_is_enabled p, pi_model = pcf_model p, pi_metadata = pcf_metadata p\<rparr>"

definition nonempty :: "string option \<Rightarrow> bool" where
  "nonempty s \<longleftrightarrow> s \<noteq> None \<and> s \<noteq> Some []"

definition config_view :: "provider_config \<Rightarrow> provider_config_view" where
  "config_view p =
     \<lparr>pi_provider_id = pcf_provider_id p, pi_name = pcf_name p, pi_type = pcf_type p,
      pi_is_enabled = pcf_is_enabled p, pi_model = pcf_model p, pi_metadata = pcf_metadata p,
      pv_discover_models = pcf_discover_models p, pv_base_url = pcf_base_url p,
      pv_api_key_secret_ref = pcf_api_key_secret_ref p,
      pv_has_api_key = nonempty (pcf_api_key p) \<or> nonempty (pcf_api_key_secret_ref p)\<rparr>"

definition set_given :: "'a option option \<Rightarrow> 'a \<Rightarrow> 'a" where
  "set_given u old = (case u of Some (Some v) \<Rightarrow> v | _ \<Rightarrow> old)"

definition set_nullable :: "'a option option \<Rightarrow> 'a option \<Rightarrow> 'a option" where
  "set_nullable u old = (case u of Some v \<Rightarrow> v | None \<Rightarrow> old)"

definition apply_update :: "provider_config \<Rightarrow> provider_config_update \<Rightarrow> provider_config" where
  "apply_update c u =
     (let secret_ref = (if given (up_api_key u) \<noteq> None then Some None else up_api_key_secret_ref u);
          key = (if given (up_api_key u) = None \<and> given (up_api_key_secret_ref u) \<noteq> None
                 then Some None else up_api_key u)
      in c\<lparr>pcf_name := set_given (up_name u) (pcf_name c),
           pcf_type := set_given (up_type u) (pcf_type c),
           pcf_is_enabled := set_given (up_is_enabled u) (pcf_is_enabled c),
           pcf_discover_models := set_given (up_discover_models u) (pcf_discover_models c),
           pcf_api_key := set_nullable key (pcf_api_key c),
           pcf_api_key_secret_ref := set_nullable secret_ref (pcf_api_key_secret_ref c),
           pcf_base_url := set_nullable (up_base_url u) (pcf_base_url c),
           pcf_model := set_given (up_model u) (pcf_model c),
           pcf_metadata := set_given (up_metadata u) (pcf_metadata c)\<rparr>)"

text \<open>\<open>not changes or changes == {"is_enabled": config.is_enabled}\<close>.\<close>

definition no_change :: "provider_config \<Rightarrow> provider_config_update \<Rightarrow> bool" where
  "no_change c u \<longleftrightarrow>
     up_name u = None \<and> up_type u = None \<and> up_discover_models u = None \<and> up_api_key u = None
     \<and> up_api_key_secret_ref u = None \<and> up_base_url u = None \<and> up_model u = None \<and> up_metadata u = None
     \<and> (up_is_enabled u = None \<or> up_is_enabled u = Some (Some (pcf_is_enabled c)))"

definition resolve_secret ::
  "(string \<Rightarrow> error + string) option \<Rightarrow> provider_config \<Rightarrow> error + provider_config" where
  "resolve_secret resolver p =
     (case (pcf_api_key p, pcf_api_key_secret_ref p) of
        (None, Some ref) \<Rightarrow>
          (case resolver of
             None \<Rightarrow> Inl (raised (Provider ProviderConfigurationError)
                       (''No secret resolver is configured for '' @ ref))
           | Some resolve \<Rightarrow> bind_e (resolve ref) (\<lambda>key. Inr (p\<lparr>pcf_api_key := Some key\<rparr>)))
      | _ \<Rightarrow> Inr p)"

text \<open>What goes to the store: never a raw key next to a reference to a secret.\<close>

definition stored_config :: "provider_config \<Rightarrow> provider_config" where
  "stored_config p = (if pcf_api_key_secret_ref p \<noteq> None then p\<lparr>pcf_api_key := None\<rparr> else p)"

definition find_model :: "(string, provider_model_config) dict \<Rightarrow> string \<Rightarrow> provider_model_config option" where
  "find_model models model_id = find (\<lambda>m. pmc_model_id m = model_id) (dict_values models)"

definition has_image :: "chat_request \<Rightarrow> bool" where
  "has_image r \<longleftrightarrow> (\<exists>m \<in> set (rq_messages r).
     case c_content m of None \<Rightarrow> False | Some parts \<Rightarrow> \<exists>p \<in> set parts. cp_type p = Part_IMAGE)"

definition validate_request_capabilities :: "provider_info \<Rightarrow> chat_request \<Rightarrow> error + unit" where
  "validate_request_capabilities info r =
     (case find_model (pi_model info) (rq_model_id r) of
        None \<Rightarrow> Inr ()
      | Some model \<Rightarrow>
          if has_image r \<and> pmc_capabilities model \<noteq> []
             \<and> Cap_IMAGE_RECOGNITION \<notin> set (pmc_capabilities model)
          then Inl (raised (Provider ProviderCapabilityUnsupportedError)
                 (''The model '' @ rq_model_id r @ '' does not support image recognition''))
          else Inr ())"

section \<open>Lemmas\<close>

definition one_secret :: "provider_config \<Rightarrow> bool" where
  "one_secret p \<longleftrightarrow> pcf_api_key p = None \<or> pcf_api_key_secret_ref p = None"

lemma apply_update_one_secret:
  assumes "validate_update u = Inr u" "one_secret c"
  shows "one_secret (apply_update c u)"
  using assms
  by (auto simp: one_secret_def apply_update_def set_nullable_def validate_update_def given_def Let_def
      split: if_splits option.splits)

lemma apply_update_unset:
  assumes "no_change c u"
  shows "apply_update c u = c"
  using assms by (auto simp: no_change_def apply_update_def given_def set_given_def set_nullable_def)

lemma one_secret_stored: "one_secret (stored_config p)"
  by (simp add: one_secret_def stored_config_def)

text \<open>A stream whose events carry no totals: the total is the sum of the two latest counts.\<close>

definition summed :: "chat_usage \<Rightarrow> bool" where
  "summed u \<longleftrightarrow> (case (us_prompt_tokens u, us_completion_tokens u) of
      (Some p, Some c) \<Rightarrow> us_total_tokens u = Some (p + c) | _ \<Rightarrow> us_total_tokens u = None)"

definition partial_report :: "chat_usage \<Rightarrow> bool" where
  "partial_report u \<longleftrightarrow> us_total_tokens u = None
     \<and> (us_prompt_tokens u = None \<or> us_completion_tokens u = None)"

lemma merge_summed:
  assumes "summed v" "us_total_tokens u = None"
  shows "summed (merge_chat_usage (Some v) u)"
  using assms
  by (auto simp: merge_chat_usage_def summed_def or_else_def Let_def split: option.splits)

lemma stream_usage_snoc:
  "stream_usage (events @ [e]) =
     (case e of None \<Rightarrow> stream_usage events | Some u \<Rightarrow> Some (merge_chat_usage (stream_usage events) u))"
  by (cases e) (simp_all add: stream_usage_def)

lemma stream_usage_summed:
  assumes "\<forall>u. Some u \<in> set events \<longrightarrow> partial_report u"
  shows "case stream_usage events of None \<Rightarrow> True | Some v \<Rightarrow> summed v"
  using assms
proof (induction events rule: rev_induct)
  case Nil
  then show ?case by (simp add: stream_usage_def)
next
  case (snoc e events)
  show ?case
  proof (cases e)
    case None
    with snoc show ?thesis by (simp add: stream_usage_snoc)
  next
    case (Some u)
    with snoc.prems have "partial_report u" by simp
    show ?thesis
    proof (cases "stream_usage events")
      case None
      with \<open>partial_report u\<close> Some show ?thesis
        by (auto simp: stream_usage_snoc merge_chat_usage_def summed_def partial_report_def
            split: option.split)
    next
      case (Some v)
      with snoc have "summed v" by simp
      with \<open>partial_report u\<close> Some \<open>e = Some u\<close> show ?thesis
        by (simp add: stream_usage_snoc merge_summed partial_report_def)
    qed
  qed
qed

text \<open>The last report of a count is the one that stands.\<close>

fun last_some :: "'a option list \<Rightarrow> 'a option" where
  "last_some [] = None"
| "last_some (x # xs) = or_else (last_some xs) x"

lemma last_some_snoc: "last_some (xs @ [x]) = or_else x (last_some xs)"
  by (induction xs) (auto simp: or_else_def split: option.split)

lemma stream_usage_counts:
  "Option.bind (stream_usage events) us_prompt_tokens
     = last_some (map (\<lambda>e. Option.bind e us_prompt_tokens) events)"
  "Option.bind (stream_usage events) us_completion_tokens
     = last_some (map (\<lambda>e. Option.bind e us_completion_tokens) events)"
proof (induction events rule: rev_induct)
  case Nil
  { case 1 show ?case by (simp add: stream_usage_def)
  next case 2 show ?case by (simp add: stream_usage_def) }
next
  case (snoc e events)
  { case 1 from snoc(1) show ?case
      by (cases e; cases "stream_usage events")
        (auto simp: stream_usage_snoc last_some_snoc merge_chat_usage_def or_else_def Let_def
          split: option.splits)
  next case 2 from snoc(2) show ?case
      by (cases e; cases "stream_usage events")
        (auto simp: stream_usage_snoc last_some_snoc merge_chat_usage_def or_else_def Let_def
          split: option.splits) }
qed

section \<open>Properties\<close>

text \<open>The usage that is recorded for a stream of partial reports, as the adapters of providers
  deliver them, takes each count from the last report that has it, and its total is the sum of the two
  counts once both are known and unknown before.\<close>

theorem streamed_usage_exact:
  assumes "\<forall>u. Some u \<in> set events \<longrightarrow> partial_report u"
  shows "Option.bind (stream_usage events) us_prompt_tokens
        = last_some (map (\<lambda>e. Option.bind e us_prompt_tokens) events)
    \<and> Option.bind (stream_usage events) us_completion_tokens
        = last_some (map (\<lambda>e. Option.bind e us_completion_tokens) events)
    \<and> (\<forall>v. stream_usage events = Some v \<longrightarrow> us_total_tokens v =
          (case (us_prompt_tokens v, us_completion_tokens v) of
             (Some p, Some c) \<Rightarrow> Some (p + c) | _ \<Rightarrow> None))"
  using stream_usage_counts [of events] stream_usage_summed [OF assms]
  by (auto simp: summed_def split: option.splits)

definition usage_of :: "nat option \<Rightarrow> nat option \<Rightarrow> chat_usage" where
  "usage_of p c = \<lparr>us_prompt_tokens = p, us_completion_tokens = c, us_total_tokens = None,
     us_cached_prompt_tokens = None, us_cache_write_prompt_tokens = None, us_metadata = []\<rparr>"

definition sample_reports :: "chat_usage option list" where
  "sample_reports = [Some (usage_of (Some 5) None), None, Some (usage_of None (Some 3)),
     Some (usage_of None (Some 4))]"

theorem streamed_usage_exact_witness:
  "map_option us_total_tokens (stream_usage sample_reports) = Some (Some 9)"
proof -
  have partial: "\<forall>u. Some u \<in> set sample_reports \<longrightarrow> partial_report u"
    by (auto simp: sample_reports_def usage_of_def partial_report_def)
  obtain v where "stream_usage sample_reports = Some v"
    by (simp add: sample_reports_def stream_usage_def)
  with streamed_usage_exact [OF partial] show ?thesis
    by (simp add: sample_reports_def usage_of_def or_else_def)
qed

text \<open>An accepted update never leaves a configuration with both a key and a reference to a
  secret: giving one of them clears the other, giving none of them keeps what there was, and what goes
  to the store has at most one of them in any case.\<close>

theorem update_keeps_one_secret:
  assumes "validate_update u = Inr u" "one_secret c"
  shows "one_secret (apply_update c u)
    \<and> (\<forall>k. given (up_api_key u) = Some k \<longrightarrow>
          pcf_api_key (apply_update c u) = Some k \<and> pcf_api_key_secret_ref (apply_update c u) = None)
    \<and> (\<forall>r. given (up_api_key_secret_ref u) = Some r \<longrightarrow>
          pcf_api_key_secret_ref (apply_update c u) = Some r \<and> pcf_api_key (apply_update c u) = None)
    \<and> (up_api_key u = None \<and> up_api_key_secret_ref u = None \<longrightarrow>
          pcf_api_key (apply_update c u) = pcf_api_key c
          \<and> pcf_api_key_secret_ref (apply_update c u) = pcf_api_key_secret_ref c)
    \<and> one_secret (stored_config (apply_update c u))"
proof (intro conjI)
  show "one_secret (apply_update c u)" using assms by (rule apply_update_one_secret)
  show "one_secret (stored_config (apply_update c u))" by (rule one_secret_stored)
qed (use assms in \<open>auto simp: validate_update_def apply_update_def set_nullable_def given_def Let_def
      split: if_splits option.splits\<close>)

definition secret_config :: provider_config where
  "secret_config = \<lparr>pcf_provider_id = ''p'', pcf_name = ''P'', pcf_type = Type_OPENAI, pcf_is_enabled = True,
     pcf_discover_models = False, pcf_api_key = None, pcf_api_key_secret_ref = Some ''env:KEY'',
     pcf_base_url = None, pcf_model = [], pcf_metadata = []\<rparr>"

definition secret_update :: provider_config_update where
  "secret_update = \<lparr>up_name = None, up_type = None, up_is_enabled = None, up_discover_models = None,
     up_api_key = Some (Some ''sk''), up_api_key_secret_ref = None, up_base_url = None, up_model = None,
     up_metadata = None\<rparr>"

theorem update_keeps_one_secret_witness:
  "pcf_api_key (apply_update secret_config secret_update) = Some ''sk''
    \<and> pcf_api_key_secret_ref (apply_update secret_config secret_update) = None"
  using update_keeps_one_secret [of secret_update secret_config]
  by (simp add: validate_update_def one_secret_def given_def secret_config_def secret_update_def)

end
