(* ===== verification/ProviderSlots.thy ===== *)
theory ProviderSlots
  imports Providers "HOL-Library.Multiset"
begin

text \<open>
  The life cycle of provider instances (\<open>ProviderManager\<close> in \<open>core/domain/provider.py\<close>): a provider's
  instance can be replaced or deleted while calls run on it, and it must be closed once, when the last
  of them is done.

  A slot object is shared by the table of current slots, the table of retired slots and the running
  calls.  It is identified by its provider id and its generation (\<open>slot_ref\<close>), and the slot objects
  live in the store \<open>pm_heap\<close>.  Between two awaits a coroutine runs alone, so each section of the code
  without an await in it is one function here; \<open>provider_step\<close> interleaves them.  A stream of a chat is
  iterated once, as by all its callers: a second iteration of \<open>_ObservedChatStream\<close>, which the class does not
  forbid and which would release the slot again, is not a step.  The per-provider lock
  of the code is \<open>pw_replacing\<close>: only \<open>_replace_provider\<close> awaits while it holds the lock.
\<close>

section \<open>State\<close>

datatype slot_ref = Slot_Ref (ref_provider: string) (ref_generation: nat)

record 'i provider_slot =
  sl_instance :: 'i
  sl_info :: provider_info
  sl_active_calls :: int
  sl_retired :: bool
  sl_close_started :: bool
  sl_call_total :: nat
  sl_error_total :: nat
  sl_idle :: bool
  sl_closed :: bool

definition new_slot :: "'i \<Rightarrow> provider_info \<Rightarrow> 'i provider_slot" where
  "new_slot inst info =
     \<lparr>sl_instance = inst, sl_info = info, sl_active_calls = 0, sl_retired = False,
      sl_close_started = False, sl_call_total = 0, sl_error_total = 0, sl_idle = True,
      sl_closed = False\<rparr>"

record 'i provider_manager =
  pm_store :: "(string, provider_config) dict option"
  pm_configs :: "(string, provider_config) dict"
  pm_slots :: "(string, slot_ref) dict"
  pm_retired_slots :: "slot_ref list"
  pm_generations :: "(string, nat) dict"
  pm_call_totals :: "(string, nat) dict"
  pm_error_totals :: "(string, nat) dict"
  pm_heap :: "(slot_ref, 'i provider_slot) dict"

definition update_slot ::
  "slot_ref \<Rightarrow> ('i provider_slot \<Rightarrow> 'i provider_slot) \<Rightarrow> 'i provider_manager \<Rightarrow> 'i provider_manager" where
  "update_slot ref f m =
     (case dict_get (pm_heap m) ref of
        None \<Rightarrow> m
      | Some sl \<Rightarrow> m\<lparr>pm_heap := dict_set ref (f sl) (pm_heap m)\<rparr>)"

definition zero_or :: "nat option \<Rightarrow> nat" where
  "zero_or n = (case n of None \<Rightarrow> 0 | Some n \<Rightarrow> n)"

section \<open>Sections of code without an await\<close>

definition get_config :: "string \<Rightarrow> 'i provider_manager \<Rightarrow> error + provider_config" where
  "get_config provider_id m =
     (case dict_get (pm_configs m) provider_id of
        Some c \<Rightarrow> Inr c
      | None \<Rightarrow> Inl (raised (Provider ProviderNotFoundError)
                   (''The provider '' @ provider_id @ '' is not found'')))"

definition get_slot :: "string \<Rightarrow> 'i provider_manager \<Rightarrow> error + slot_ref" where
  "get_slot provider_id m =
     bind_e (get_config provider_id m) (\<lambda>c.
       if \<not> pcf_is_enabled c
       then Inl (raised (Provider ProviderDisabledError)
              (''The provider '' @ provider_id @ '' is disabled''))
       else case dict_get (pm_slots m) provider_id of
              Some ref \<Rightarrow> Inr ref
            | None \<Rightarrow> Inl (raised (PyException ''KeyError'') provider_id))"

definition acquire_slot :: "string \<Rightarrow> (error, 'i provider_manager, slot_ref) act" where
  "acquire_slot provider_id m =
     (case get_slot provider_id m of
        Inl e \<Rightarrow> (Inl e, m)
      | Inr ref \<Rightarrow>
          (Inr ref, update_slot ref
             (\<lambda>sl. sl\<lparr>sl_active_calls := sl_active_calls sl + 1, sl_idle := False\<rparr>) m))"

definition release_slot :: "slot_ref \<Rightarrow> 'i provider_manager \<Rightarrow> 'i provider_manager" where
  "release_slot ref =
     update_slot ref (\<lambda>sl.
       let active = sl_active_calls sl - 1
       in sl\<lparr>sl_active_calls := active, sl_idle := (if active = 0 then True else sl_idle sl)\<rparr>)"

definition record_call :: "slot_ref \<Rightarrow> bool \<Rightarrow> 'i provider_manager \<Rightarrow> 'i provider_manager" where
  "record_call ref failed m =
     update_slot ref
       (\<lambda>sl. sl\<lparr>sl_call_total := sl_call_total sl + 1,
                sl_error_total := sl_error_total sl + (if failed then 1 else 0)\<rparr>)
       (m\<lparr>pm_call_totals := dict_set (ref_provider ref) (zero_or (dict_get (pm_call_totals m) (ref_provider ref)) + 1)
            (pm_call_totals m),
          pm_error_totals := dict_set (ref_provider ref)
            (zero_or (dict_get (pm_error_totals m) (ref_provider ref)) + (if failed then 1 else 0))
            (pm_error_totals m)\<rparr>)"

definition retire_slot :: "slot_ref \<Rightarrow> 'i provider_manager \<Rightarrow> 'i provider_manager" where
  "retire_slot ref m =
     update_slot ref (\<lambda>sl. sl\<lparr>sl_retired := True\<rparr>)
       (m\<lparr>pm_retired_slots := List.insert ref (pm_retired_slots m)\<rparr>)"

text \<open>The start of \<open>create\<close> and of \<open>update\<close>, up to the await in \<open>_replace_provider\<close>.\<close>

definition begin_create ::
  "provider_config \<Rightarrow> bool \<Rightarrow> 'i provider_manager \<Rightarrow> error + provider_config \<times> slot_ref option" where
  "begin_create p replace_existing m =
     (if dict_has (pm_configs m) (pcf_provider_id p) \<and> \<not> replace_existing
      then Inl (raised (Provider ProviderConflictError)
             (''The provider '' @ pcf_provider_id p @ '' already exists''))
      else Inr (p, dict_get (pm_slots m) (pcf_provider_id p)))"

definition begin_update ::
  "string \<Rightarrow> provider_config_update \<Rightarrow> 'i provider_manager
     \<Rightarrow> error + (provider_config \<times> slot_ref option) option" where
  "begin_update provider_id u m =
     bind_e (get_config provider_id m) (\<lambda>c.
       if no_change c u then Inr None
       else Inr (Some (apply_update c u, dict_get (pm_slots m) provider_id)))"

text \<open>
  The rest of \<open>_replace_provider\<close>, once the instance (if the provider is enabled) has been built.
  \<open>saving\<close> is the exception that the configuration store raises, if any.
\<close>

definition publish ::
  "provider_config \<Rightarrow> slot_ref option \<Rightarrow> 'i option \<Rightarrow> error option
     \<Rightarrow> (error, 'i provider_manager, unit) act" where
  "publish p previous inst saving m =
     (case (pm_store m, saving) of
        (Some _, Some e) \<Rightarrow> (Inl e, m)
      | _ \<Rightarrow>
          (let m = m\<lparr>pm_store := map_option (dict_set (pcf_provider_id p) (stored_config p)) (pm_store m)\<rparr>;
               m = m\<lparr>pm_configs := dict_set (pcf_provider_id p) p (pm_configs m)\<rparr>;
               m = (case inst of
                      None \<Rightarrow> m\<lparr>pm_slots := dict_pop (pcf_provider_id p) (pm_slots m)\<rparr>
                    | Some i \<Rightarrow>
                        (let generation = zero_or (dict_get (pm_generations m) (pcf_provider_id p)) + 1;
                             ref = Slot_Ref (pcf_provider_id p) generation
                         in m\<lparr>pm_generations := dict_set (pcf_provider_id p) generation (pm_generations m),
                              pm_slots := dict_set (pcf_provider_id p) ref (pm_slots m),
                              pm_heap := dict_set ref (new_slot i (provider_info_of p)) (pm_heap m)\<rparr>));
               m = (case previous of None \<Rightarrow> m | Some ref \<Rightarrow> retire_slot ref m)
           in (Inr (), m)))"

definition provider_delete :: "string \<Rightarrow> (error, 'i provider_manager, slot_ref option) act" where
  "provider_delete provider_id m =
     (case get_config provider_id m of
        Inl e \<Rightarrow> (Inl e, m)
      | Inr _ \<Rightarrow>
          (let slot = dict_get (pm_slots m) provider_id;
               m = m\<lparr>pm_store := map_option (dict_pop provider_id) (pm_store m),
                     pm_slots := dict_pop provider_id (pm_slots m),
                     pm_configs := dict_pop provider_id (pm_configs m)\<rparr>;
               m = (case slot of None \<Rightarrow> m | Some ref \<Rightarrow> retire_slot ref m)
           in (Inr slot, m)))"

definition close_all :: "'i provider_manager \<Rightarrow> 'i provider_manager" where
  "close_all m =
     fold retire_slot (dict_values (pm_slots m) @ pm_retired_slots m)
       (m\<lparr>pm_slots := [], pm_configs := []\<rparr>)"

text \<open>
  \<open>_close_when_idle\<close>: the guard that it waits for, the section before the await of \<open>close()\<close>, and its
  \<open>finally\<close> block.
\<close>

definition may_close :: "slot_ref \<Rightarrow> 'i provider_manager \<Rightarrow> bool" where
  "may_close ref m \<longleftrightarrow>
     (case dict_get (pm_heap m) ref of
        None \<Rightarrow> False | Some sl \<Rightarrow> sl_retired sl \<and> sl_idle sl \<and> \<not> sl_close_started sl)"

definition start_close :: "slot_ref \<Rightarrow> 'i provider_manager \<Rightarrow> 'i provider_manager" where
  "start_close ref = update_slot ref (\<lambda>sl. sl\<lparr>sl_close_started := True\<rparr>)"

definition finish_close :: "slot_ref \<Rightarrow> 'i provider_manager \<Rightarrow> 'i provider_manager" where
  "finish_close ref m =
     update_slot ref (\<lambda>sl. sl\<lparr>sl_closed := True\<rparr>)
       (m\<lparr>pm_retired_slots := filter (\<lambda>r. r \<noteq> ref) (pm_retired_slots m)\<rparr>)"

section \<open>Interleavings\<close>

text \<open>
  The manager together with the coroutines that run: the calls that hold a slot, the replacements
  that hold a provider's lock (with the configuration and the previous slot they read), and the
  instances on which \<open>close()\<close> has been called.
\<close>

record 'i provider_world =
  pw_manager :: "'i provider_manager"
  pw_calls :: "slot_ref multiset"
  pw_replacing :: "(string, provider_config \<times> slot_ref option) dict"
  pw_closes :: "slot_ref multiset"

definition initial_world :: "(string, provider_config) dict option \<Rightarrow> 'i provider_world" where
  "initial_world store =
     \<lparr>pw_manager = \<lparr>pm_store = store, pm_configs = [], pm_slots = [], pm_retired_slots = [],
        pm_generations = [], pm_call_totals = [], pm_error_totals = [], pm_heap = []\<rparr>,
      pw_calls = {#}, pw_replacing = [], pw_closes = {#}\<rparr>"

inductive provider_step :: "'i provider_world \<Rightarrow> 'i provider_world \<Rightarrow> bool" where
  acquire: "\<not> dict_has (pw_replacing w) provider_id \<Longrightarrow>
    acquire_slot provider_id (pw_manager w) = (Inr ref, m') \<Longrightarrow>
    provider_step w (w\<lparr>pw_manager := m', pw_calls := add_mset ref (pw_calls w)\<rparr>)"
| observe: "ref \<in># pw_calls w \<Longrightarrow>
    provider_step w (w\<lparr>pw_manager := record_call ref failed (pw_manager w)\<rparr>)"
| release: "ref \<in># pw_calls w \<Longrightarrow> \<not> dict_has (pw_replacing w) (ref_provider ref) \<Longrightarrow>
    provider_step w (w\<lparr>pw_manager := release_slot ref (pw_manager w), pw_calls := pw_calls w - {#ref#}\<rparr>)"
| begin_create: "\<not> dict_has (pw_replacing w) (pcf_provider_id p) \<Longrightarrow>
    begin_create p replace_existing (pw_manager w) = Inr (p', previous) \<Longrightarrow>
    provider_step w (w\<lparr>pw_replacing := dict_set (pcf_provider_id p) (p', previous) (pw_replacing w)\<rparr>)"
| begin_update: "\<not> dict_has (pw_replacing w) provider_id \<Longrightarrow>
    begin_update provider_id u (pw_manager w) = Inr (Some (p', previous)) \<Longrightarrow>
    provider_step w (w\<lparr>pw_replacing := dict_set provider_id (p', previous) (pw_replacing w)\<rparr>)"
| give_up: "dict_has (pw_replacing w) provider_id \<Longrightarrow>
    provider_step w (w\<lparr>pw_replacing := dict_pop provider_id (pw_replacing w)\<rparr>)"
| publish: "dict_get (pw_replacing w) provider_id = Some (p, previous) \<Longrightarrow>
    (inst \<noteq> None) = pcf_is_enabled p \<Longrightarrow>
    publish p previous inst saving (pw_manager w) = (r, m') \<Longrightarrow>
    provider_step w (w\<lparr>pw_manager := m', pw_replacing := dict_pop provider_id (pw_replacing w)\<rparr>)"
| delete: "\<not> dict_has (pw_replacing w) provider_id \<Longrightarrow>
    provider_delete provider_id (pw_manager w) = (r, m') \<Longrightarrow>
    provider_step w (w\<lparr>pw_manager := m'\<rparr>)"
| close_all: "provider_step w (w\<lparr>pw_manager := close_all (pw_manager w)\<rparr>)"
| start_close: "may_close ref (pw_manager w) \<Longrightarrow>
    provider_step w (w\<lparr>pw_manager := start_close ref (pw_manager w), pw_closes := add_mset ref (pw_closes w)\<rparr>)"
| finish_close: "ref \<in># pw_closes w \<Longrightarrow>
    provider_step w (w\<lparr>pw_manager := finish_close ref (pw_manager w)\<rparr>)"

inductive provider_reachable :: "'i provider_world \<Rightarrow> bool" where
  start: "provider_reachable (initial_world store)"
| step: "provider_reachable w \<Longrightarrow> provider_step w w' \<Longrightarrow> provider_reachable w'"

inductive_cases provider_stepE: "provider_step w w'"

section \<open>The invariant\<close>

text \<open>
  \<open>slot_ok\<close> ties the counters and flags of a slot object to what really runs: the number of calls that
  hold it, how often \<open>close()\<close> was called on its instance, and whether the table of retired slots lists
  it.
\<close>

definition slot_ok :: "nat \<Rightarrow> nat \<Rightarrow> bool \<Rightarrow> 'i provider_slot option \<Rightarrow> bool" where
  "slot_ok calls closes listed s =
     (case s of
        None \<Rightarrow> calls = 0 \<and> closes = 0 \<and> \<not> listed
      | Some sl \<Rightarrow>
          sl_active_calls sl = int calls \<and> sl_idle sl = (calls = 0)
          \<and> (sl_close_started sl \<longrightarrow> sl_retired sl \<and> calls = 0)
          \<and> (sl_closed sl \<longrightarrow> sl_close_started sl)
          \<and> closes = (if sl_close_started sl then 1 else 0)
          \<and> (listed \<longrightarrow> sl_retired sl) \<and> (sl_retired sl \<and> \<not> sl_closed sl \<longrightarrow> listed))"

definition heap_at :: "'i provider_world \<Rightarrow> slot_ref \<Rightarrow> 'i provider_slot option" where
  "heap_at w ref = dict_get (pm_heap (pw_manager w)) ref"

definition slot_at :: "'i provider_world \<Rightarrow> slot_ref \<Rightarrow> bool" where
  "slot_at w ref \<longleftrightarrow> slot_ok (count (pw_calls w) ref) (count (pw_closes w) ref)
     (ref \<in> set (pm_retired_slots (pw_manager w))) (heap_at w ref)
   \<and> (heap_at w ref \<noteq> None \<longrightarrow>
        ref_generation ref \<le> zero_or (dict_get (pm_generations (pw_manager w)) (ref_provider ref)))"

definition table_ok :: "'i provider_manager \<Rightarrow> bool" where
  "table_ok m \<longleftrightarrow>
     dict_ok (pm_slots m)
   \<and> (\<forall>pid ref. dict_get (pm_slots m) pid = Some ref \<longrightarrow> ref_provider ref = pid
        \<and> (\<exists>sl. dict_get (pm_heap m) ref = Some sl \<and> \<not> sl_retired sl))
   \<and> (\<forall>pid c. dict_get (pm_configs m) pid = Some c \<longrightarrow>
        pcf_provider_id c = pid \<and> (pcf_is_enabled c \<longleftrightarrow> dict_has (pm_slots m) pid))
   \<and> (\<forall>pid. dict_has (pm_slots m) pid \<longrightarrow> dict_has (pm_configs m) pid)"

definition lock_at :: "'i provider_world \<Rightarrow> string \<Rightarrow> bool" where
  "lock_at w pid \<longleftrightarrow>
     (case dict_get (pw_replacing w) pid of
        None \<Rightarrow> True
      | Some (p, previous) \<Rightarrow>
          pcf_provider_id p = pid
          \<and> (\<forall>ref. previous = Some ref \<longrightarrow> ref_provider ref = pid \<and> heap_at w ref \<noteq> None)
          \<and> (dict_get (pm_slots (pw_manager w)) pid = None
             \<or> dict_get (pm_slots (pw_manager w)) pid = previous))"

definition world_ok :: "'i provider_world \<Rightarrow> bool" where
  "world_ok w \<longleftrightarrow> (\<forall>ref. slot_at w ref) \<and> table_ok (pw_manager w) \<and> (\<forall>pid. lock_at w pid)"

lemma update_slot_sel [simp]:
  "pm_store (update_slot ref f m) = pm_store m" "pm_configs (update_slot ref f m) = pm_configs m"
  "pm_slots (update_slot ref f m) = pm_slots m"
  "pm_retired_slots (update_slot ref f m) = pm_retired_slots m"
  "pm_generations (update_slot ref f m) = pm_generations m"
  "pm_call_totals (update_slot ref f m) = pm_call_totals m"
  "pm_error_totals (update_slot ref f m) = pm_error_totals m"
  by (simp_all add: update_slot_def split: option.split)

lemma heap_update_slot [simp]:
  "dict_get (pm_heap (update_slot ref f m)) r =
     (if r = ref then map_option f (dict_get (pm_heap m) r) else dict_get (pm_heap m) r)"
  by (auto simp: update_slot_def split: option.split)

definition retired :: "'i provider_slot \<Rightarrow> 'i provider_slot" where
  "retired sl = sl\<lparr>sl_retired := True\<rparr>"

lemma retire_slot_sel [simp]:
  "pm_store (retire_slot ref m) = pm_store m" "pm_configs (retire_slot ref m) = pm_configs m"
  "pm_slots (retire_slot ref m) = pm_slots m" "pm_generations (retire_slot ref m) = pm_generations m"
  "set (pm_retired_slots (retire_slot ref m)) = insert ref (set (pm_retired_slots m))"
  "dict_get (pm_heap (retire_slot ref m)) r =
     (if r = ref then map_option retired (dict_get (pm_heap m) r) else dict_get (pm_heap m) r)"
  by (simp_all add: retire_slot_def retired_def [abs_def])

lemma retired_retired [simp]: "map_option retired (map_option retired s) = map_option retired s"
  by (cases s) (simp_all add: retired_def)

lemma fold_retire_sel [simp]:
  "pm_store (fold retire_slot rs m) = pm_store m" "pm_configs (fold retire_slot rs m) = pm_configs m"
  "pm_slots (fold retire_slot rs m) = pm_slots m"
  "pm_generations (fold retire_slot rs m) = pm_generations m"
  "set (pm_retired_slots (fold retire_slot rs m)) = set rs \<union> set (pm_retired_slots m)"
  by (induction rs arbitrary: m) simp_all

lemma heap_fold_retire [simp]:
  "dict_get (pm_heap (fold retire_slot rs m)) r =
     (if r \<in> set rs then map_option retired (dict_get (pm_heap m) r) else dict_get (pm_heap m) r)"
  by (induction rs arbitrary: m) auto

lemma retired_sel [simp]:
  "sl_retired (retired sl)" "sl_instance (retired sl) = sl_instance sl"
  by (simp_all add: retired_def)

section \<open>Each step keeps it\<close>

lemma slot_ok_acquire:
  "slot_ok calls closes listed (Some sl) \<Longrightarrow> \<not> sl_retired sl \<Longrightarrow>
     slot_ok (Suc calls) closes listed
       (Some (sl\<lparr>sl_active_calls := sl_active_calls sl + 1, sl_idle := False\<rparr>))"
  by (auto simp: slot_ok_def)

lemma slot_ok_release:
  "slot_ok (Suc calls) closes listed (Some sl) \<Longrightarrow>
     slot_ok calls closes listed (Some (let active = sl_active_calls sl - 1
       in sl\<lparr>sl_active_calls := active, sl_idle := (if active = 0 then True else sl_idle sl)\<rparr>))"
  by (auto simp: slot_ok_def Let_def)

lemma slot_ok_observe:
  "slot_ok calls closes listed (Some sl) \<Longrightarrow>
     slot_ok calls closes listed (Some (sl\<lparr>sl_call_total := a, sl_error_total := b\<rparr>))"
  by (auto simp: slot_ok_def)

lemma slot_ok_retire:
  "slot_ok calls closes listed (Some sl) \<Longrightarrow> slot_ok calls closes True (Some (retired sl))"
  by (auto simp: slot_ok_def retired_def)

lemma slot_ok_start_close:
  "slot_ok calls closes listed (Some sl) \<Longrightarrow> sl_retired sl \<Longrightarrow> sl_idle sl \<Longrightarrow> \<not> sl_close_started sl \<Longrightarrow>
     slot_ok calls (Suc closes) listed (Some (sl\<lparr>sl_close_started := True\<rparr>))"
  by (auto simp: slot_ok_def)

lemma slot_ok_finish_close:
  "slot_ok calls (Suc closes) listed (Some sl) \<Longrightarrow>
     slot_ok calls (Suc closes) False (Some (sl\<lparr>sl_closed := True\<rparr>))"
  by (auto simp: slot_ok_def split: if_splits)

lemma slot_ok_new: "slot_ok calls closes listed None \<Longrightarrow> slot_ok calls closes listed (Some (new_slot i info))"
  by (auto simp: slot_ok_def new_slot_def)

lemmas slot_ok_steps = slot_ok_acquire slot_ok_release slot_ok_observe slot_ok_retire
  slot_ok_start_close slot_ok_finish_close slot_ok_new

lemma slot_ok_counts:
  assumes "slot_ok (count calls ref) (count closes ref) listed s"
  shows "ref \<in># closes \<longleftrightarrow> (\<exists>sl. s = Some sl \<and> sl_close_started sl)"
    and "ref \<in># calls \<Longrightarrow> \<exists>sl. s = Some sl \<and> \<not> sl_close_started sl \<and> \<not> sl_idle sl"
    and "count closes ref \<le> 1"
  using assms
  by (auto simp: slot_ok_def simp flip: count_greater_zero_iff split: option.splits if_splits)

lemma slot_ok_held: "slot_ok calls closes listed s \<Longrightarrow> 0 < calls \<Longrightarrow> s \<noteq> None"
  by (auto simp: slot_ok_def split: option.splits)

lemma world_ok_initial: "world_ok (initial_world store)"
  by (simp add: world_ok_def slot_at_def slot_ok_def heap_at_def table_ok_def lock_at_def
      initial_world_def)

lemma get_slot_Inr:
  "get_slot pid m = Inr ref \<longleftrightarrow> dict_get (pm_slots m) pid = Some ref
     \<and> (\<exists>c. dict_get (pm_configs m) pid = Some c \<and> pcf_is_enabled c)"
  by (auto simp: get_slot_def get_config_def split: option.splits)

lemma acquire_slot_Inr:
  "acquire_slot pid m = (Inr ref, m') \<longleftrightarrow> get_slot pid m = Inr ref
     \<and> m' = update_slot ref (\<lambda>sl. sl\<lparr>sl_active_calls := sl_active_calls sl + 1, sl_idle := False\<rparr>) m"
  by (auto simp: acquire_slot_def split: sum.splits)

lemma table_ok_slot:
  assumes "table_ok m" "dict_get (pm_slots m) pid = Some ref"
  obtains sl where "ref_provider ref = pid" "dict_get (pm_heap m) ref = Some sl" "\<not> sl_retired sl"
  using assms unfolding table_ok_def by blast

lemma table_ok_update_slot:
  assumes "table_ok m" "\<And>sl. sl_retired (f sl) = sl_retired sl"
  shows "table_ok (update_slot ref f m)"
  using assms unfolding table_ok_def
  by (simp) metis

lemma world_okD:
  assumes "world_ok w"
  shows "slot_at w ref" "table_ok (pw_manager w)" "lock_at w pid"
  using assms by (simp_all add: world_ok_def)

lemma lock_at_cong:
  assumes "lock_at w pid" "dict_get (pw_replacing w') pid = dict_get (pw_replacing w) pid"
    and "dict_get (pm_slots (pw_manager w')) pid \<in> {None, dict_get (pm_slots (pw_manager w)) pid}"
    and "\<And>ref. heap_at w ref \<noteq> None \<Longrightarrow> heap_at w' ref \<noteq> None"
  shows "lock_at w' pid"
  using assms unfolding lock_at_def by (auto split: option.splits)

lemma world_ok_acquire:
  assumes ok: "world_ok w" and acq: "acquire_slot pid (pw_manager w) = (Inr ref, m')"
  shows "world_ok (w\<lparr>pw_manager := m', pw_calls := add_mset ref (pw_calls w)\<rparr>)"
proof -
  from acq have slot: "dict_get (pm_slots (pw_manager w)) pid = Some ref"
    and m': "m' = update_slot ref (\<lambda>sl. sl\<lparr>sl_active_calls := sl_active_calls sl + 1, sl_idle := False\<rparr>)
      (pw_manager w)"
    by (auto simp: acquire_slot_Inr get_slot_Inr)
  from ok have "table_ok (pw_manager w)" by (simp add: world_ok_def)
  from table_ok_slot [OF this slot] obtain sl where sl: "heap_at w ref = Some sl" "\<not> sl_retired sl"
    by (auto simp: heap_at_def)
  let ?w = "w\<lparr>pw_manager := m', pw_calls := add_mset ref (pw_calls w)\<rparr>"
  have "slot_at ?w r" for r
    using world_okD(1) [OF ok, of r] sl by (cases "r = ref")
      (auto simp: slot_at_def heap_at_def m' intro: slot_ok_acquire)
  moreover have "table_ok m'"
    unfolding m' using world_okD(2) [OF ok] by (intro table_ok_update_slot) simp_all
  moreover have "lock_at ?w p" for p
    by (rule lock_at_cong [OF world_okD(3) [OF ok, of p]]) (auto simp: heap_at_def m')
  ultimately show ?thesis by (simp add: world_ok_def)
qed

text \<open>The steps that only change one slot object, and not whether it is retired.\<close>

lemma world_ok_slot:
  assumes ok: "world_ok w" and sl: "heap_at w ref = Some sl" and f: "\<And>sl. sl_retired (f sl) = sl_retired sl"
    and at: "slot_ok (count calls ref) (count closes ref)
      (ref \<in> set (pm_retired_slots m)) (Some (f sl))"
    and other: "\<And>r. r \<noteq> ref \<Longrightarrow> count calls r = count (pw_calls w) r
      \<and> count closes r = count (pw_closes w) r
      \<and> (r \<in> set (pm_retired_slots m)) = (r \<in> set (pm_retired_slots (pw_manager w)))"
    and m: "pm_heap m = pm_heap (pw_manager w)" "pm_slots m = pm_slots (pw_manager w)"
      "pm_configs m = pm_configs (pw_manager w)" "pm_generations m = pm_generations (pw_manager w)"
  shows "world_ok (w\<lparr>pw_manager := update_slot ref f m, pw_calls := calls, pw_closes := closes\<rparr>)"
proof -
  let ?w = "w\<lparr>pw_manager := update_slot ref f m, pw_calls := calls, pw_closes := closes\<rparr>"
  have "slot_at ?w r" for r
    using world_okD(1) [OF ok, of r] sl at other [of r] m
    by (cases "r = ref") (auto simp: slot_at_def heap_at_def)
  moreover have "table_ok m"
    using world_okD(2) [OF ok] m by (simp add: table_ok_def)
  then have "table_ok (update_slot ref f m)" using f by (rule table_ok_update_slot)
  moreover have "lock_at ?w p" for p
    by (rule lock_at_cong [OF world_okD(3) [OF ok, of p]]) (auto simp: heap_at_def m)
  ultimately show ?thesis by (simp add: world_ok_def)
qed

lemma held_slot:
  assumes "world_ok w" "ref \<in># pw_calls w"
  obtains sl k where "heap_at w ref = Some sl" "count (pw_calls w) ref = Suc k"
    "slot_ok (Suc k) (count (pw_closes w) ref) (ref \<in> set (pm_retired_slots (pw_manager w))) (Some sl)"
proof -
  from assms(2) obtain k where k: "count (pw_calls w) ref = Suc k"
    by (metis count_greater_zero_iff gr0_implies_Suc)
  from world_okD(1) [OF assms(1), of ref] k that show thesis
    by (cases "heap_at w ref") (auto simp: slot_at_def slot_ok_def)
qed

lemma world_ok_observe:
  assumes "world_ok w" "ref \<in># pw_calls w"
  shows "world_ok (w\<lparr>pw_manager := record_call ref failed (pw_manager w)\<rparr>)"
proof -
  from assms obtain sl k where sl: "heap_at w ref = Some sl" "count (pw_calls w) ref = Suc k"
    "slot_ok (Suc k) (count (pw_closes w) ref) (ref \<in> set (pm_retired_slots (pw_manager w))) (Some sl)"
    by (rule held_slot)
  have "world_ok (w\<lparr>pw_manager := record_call ref failed (pw_manager w), pw_calls := pw_calls w,
      pw_closes := pw_closes w\<rparr>)"
    unfolding record_call_def using sl
    by (intro world_ok_slot [OF assms(1) sl(1)]) (auto simp: slot_ok_def)
  then show ?thesis by simp
qed

lemma world_ok_release:
  assumes "world_ok w" "ref \<in># pw_calls w"
  shows "world_ok (w\<lparr>pw_manager := release_slot ref (pw_manager w), pw_calls := pw_calls w - {#ref#}\<rparr>)"
proof -
  from assms obtain sl k where sl: "heap_at w ref = Some sl" "count (pw_calls w) ref = Suc k"
    "slot_ok (Suc k) (count (pw_closes w) ref) (ref \<in> set (pm_retired_slots (pw_manager w))) (Some sl)"
    by (rule held_slot)
  have "world_ok (w\<lparr>pw_manager := release_slot ref (pw_manager w), pw_calls := pw_calls w - {#ref#},
      pw_closes := pw_closes w\<rparr>)"
    unfolding release_slot_def using sl
    by (intro world_ok_slot [OF assms(1) sl(1)]) (auto simp: Let_def dest: slot_ok_release)
  then show ?thesis by simp
qed

lemma world_ok_start_close:
  assumes "world_ok w" "may_close ref (pw_manager w)"
  shows "world_ok (w\<lparr>pw_manager := start_close ref (pw_manager w), pw_closes := add_mset ref (pw_closes w)\<rparr>)"
proof -
  from assms(2) obtain sl where sl: "heap_at w ref = Some sl" "sl_retired sl" "sl_idle sl" "\<not> sl_close_started sl"
    by (auto simp: may_close_def heap_at_def split: option.splits)
  with world_okD(1) [OF assms(1), of ref]
  have "slot_ok (count (pw_calls w) ref) (count (pw_closes w) ref)
      (ref \<in> set (pm_retired_slots (pw_manager w))) (Some sl)"
    by (simp add: slot_at_def)
  then have "world_ok (w\<lparr>pw_manager := start_close ref (pw_manager w), pw_calls := pw_calls w,
      pw_closes := add_mset ref (pw_closes w)\<rparr>)"
    unfolding start_close_def using sl
    by (intro world_ok_slot [OF assms(1) sl(1)]) (auto intro: slot_ok_start_close)
  then show ?thesis by simp
qed

lemma world_ok_finish_close:
  assumes "world_ok w" "ref \<in># pw_closes w"
  shows "world_ok (w\<lparr>pw_manager := finish_close ref (pw_manager w)\<rparr>)"
proof -
  from assms(2) obtain k where k: "count (pw_closes w) ref = Suc k"
    by (metis count_greater_zero_iff gr0_implies_Suc)
  with world_okD(1) [OF assms(1), of ref] obtain sl where sl: "heap_at w ref = Some sl"
    "slot_ok (count (pw_calls w) ref) (Suc k) (ref \<in> set (pm_retired_slots (pw_manager w))) (Some sl)"
    by (cases "heap_at w ref") (auto simp: slot_at_def slot_ok_def)
  have "world_ok (w\<lparr>pw_manager := finish_close ref (pw_manager w), pw_calls := pw_calls w,
      pw_closes := pw_closes w\<rparr>)"
    unfolding finish_close_def using sl k
    by (intro world_ok_slot [OF assms(1) sl(1)]) (auto intro: slot_ok_finish_close)
  then show ?thesis by simp
qed

text \<open>The steps that change the tables.\<close>

lemma current_slot:
  assumes "table_ok (pw_manager w)" "dict_get (pm_slots (pw_manager w)) pid = Some ref"
  shows "ref_provider ref = pid \<and> heap_at w ref \<noteq> None"
  using table_ok_slot [OF assms] by (auto simp: heap_at_def)

lemma world_ok_begin:
  assumes ok: "world_ok w" and "pcf_provider_id p = pid"
  shows "world_ok (w\<lparr>pw_replacing := dict_set pid (p, dict_get (pm_slots (pw_manager w)) pid) (pw_replacing w)\<rparr>)"
proof -
  let ?w = "w\<lparr>pw_replacing := dict_set pid (p, dict_get (pm_slots (pw_manager w)) pid) (pw_replacing w)\<rparr>"
  have "lock_at ?w q" for q
  proof (cases "q = pid")
    case True
    with current_slot [OF world_okD(2) [OF ok], of pid] assms(2) show ?thesis
      by (auto simp: lock_at_def heap_at_def)
  next
    case False
    then show ?thesis
      by (intro lock_at_cong [OF world_okD(3) [OF ok, of q]]) (auto simp: heap_at_def)
  qed
  moreover have "slot_at ?w r" for r
    using world_okD(1) [OF ok, of r] by (simp add: slot_at_def heap_at_def)
  ultimately show ?thesis using world_okD(2) [OF ok] by (simp add: world_ok_def)
qed

lemma begin_create_Inr:
  "begin_create p replace_existing m = Inr (p', previous) \<Longrightarrow>
     p' = p \<and> previous = dict_get (pm_slots m) (pcf_provider_id p)"
  by (auto simp: begin_create_def split: if_splits)

lemma begin_update_Inr:
  assumes "table_ok m" "begin_update pid u m = Inr (Some (p', previous))"
  shows "pcf_provider_id p' = pid \<and> previous = dict_get (pm_slots m) pid"
proof -
  from assms(2) obtain c where c: "dict_get (pm_configs m) pid = Some c" "p' = apply_update c u"
    "previous = dict_get (pm_slots m) pid"
    by (auto simp: begin_update_def bind_e_eq_Inr get_config_def split: if_splits option.splits)
  with assms(1) show ?thesis by (simp add: table_ok_def apply_update_def Let_def)
qed

lemma world_ok_give_up:
  assumes ok: "world_ok w"
  shows "world_ok (w\<lparr>pw_replacing := dict_pop pid (pw_replacing w)\<rparr>)"
proof -
  let ?w = "w\<lparr>pw_replacing := dict_pop pid (pw_replacing w)\<rparr>"
  have "lock_at ?w q" for q
  proof (cases "q = pid")
    case True
    then show ?thesis by (simp add: lock_at_def)
  next
    case False
    then show ?thesis
      by (intro lock_at_cong [OF world_okD(3) [OF ok, of q]]) (auto simp: heap_at_def)
  qed
  moreover have "slot_at ?w r" for r
    using world_okD(1) [OF ok, of r] by (simp add: slot_at_def heap_at_def)
  ultimately show ?thesis using world_okD(2) [OF ok] by (simp add: world_ok_def)
qed

text \<open>Retiring slots that are no longer current.\<close>

lemma world_ok_retire:
  assumes slots: "\<And>r. slot_at w r" and locks: "\<And>q. lock_at w q"
    and table: "table_ok (pw_manager w)"
    and old: "\<And>r. r \<in> set rs \<Longrightarrow> heap_at w r \<noteq> None
      \<and> dict_get (pm_slots (pw_manager w)) (ref_provider r) \<noteq> Some r"
  shows "world_ok (w\<lparr>pw_manager := fold retire_slot rs (pw_manager w)\<rparr>)"
proof -
  let ?w = "w\<lparr>pw_manager := fold retire_slot rs (pw_manager w)\<rparr>"
  have "slot_at ?w r" for r
  proof (cases "r \<in> set rs")
    case True
    with old obtain sl where "heap_at w r = Some sl" by blast
    with slots [of r] True show ?thesis
      by (auto simp: slot_at_def heap_at_def intro: slot_ok_retire)
  next
    case False
    with slots [of r] show ?thesis by (simp add: slot_at_def heap_at_def)
  qed
  moreover have "table_ok (pw_manager ?w)"
    unfolding table_ok_def
  proof (intro conjI allI impI)
    show "dict_ok (pm_slots (pw_manager ?w))" using table by (simp add: table_ok_def)
  next
    fix pid ref
    assume "dict_get (pm_slots (pw_manager ?w)) pid = Some ref"
    then have now: "dict_get (pm_slots (pw_manager w)) pid = Some ref" by simp
    from table_ok_slot [OF table now] obtain sl where sl: "ref_provider ref = pid"
      "dict_get (pm_heap (pw_manager w)) ref = Some sl" "\<not> sl_retired sl" .
    then show "ref_provider ref = pid" by simp
    from old now sl(1) have "ref \<notin> set rs" by auto
    with sl show "\<exists>sl. dict_get (pm_heap (pw_manager ?w)) ref = Some sl \<and> \<not> sl_retired sl" by simp
  qed (use table in \<open>simp_all add: table_ok_def\<close>)
  moreover have "lock_at ?w q" for q
    by (rule lock_at_cong [OF locks [of q]]) (auto simp: heap_at_def)
  ultimately show ?thesis by (simp add: world_ok_def)
qed

definition retire_opt :: "slot_ref option \<Rightarrow> 'i provider_manager \<Rightarrow> 'i provider_manager" where
  "retire_opt previous = (case previous of None \<Rightarrow> id | Some ref \<Rightarrow> fold retire_slot [ref])"

lemma world_ok_retire_opt:
  assumes "\<And>r. slot_at w r" "\<And>q. lock_at w q" "table_ok (pw_manager w)"
    and "\<And>r. previous = Some r \<Longrightarrow> heap_at w r \<noteq> None
      \<and> dict_get (pm_slots (pw_manager w)) (ref_provider r) \<noteq> Some r"
  shows "world_ok (w\<lparr>pw_manager := retire_opt previous (pw_manager w)\<rparr>)"
proof (cases previous)
  case None
  with assms(1-3) show ?thesis by (simp add: retire_opt_def world_ok_def)
next
  case (Some ref)
  with world_ok_retire [OF assms(1-3), of "[ref]"] assms(4) show ?thesis by (simp add: retire_opt_def)
qed

definition install :: "provider_config \<Rightarrow> 'i option \<Rightarrow> 'i provider_manager \<Rightarrow> 'i provider_manager" where
  "install p inst m =
     (let m = m\<lparr>pm_configs := dict_set (pcf_provider_id p) p (pm_configs m)\<rparr>;
          ref = Slot_Ref (pcf_provider_id p)
            (zero_or (dict_get (pm_generations m) (pcf_provider_id p)) + 1)
      in case inst of
           None \<Rightarrow> m\<lparr>pm_slots := dict_pop (pcf_provider_id p) (pm_slots m)\<rparr>
         | Some i \<Rightarrow> m\<lparr>pm_generations := dict_set (pcf_provider_id p) (ref_generation ref) (pm_generations m),
                       pm_slots := dict_set (pcf_provider_id p) ref (pm_slots m),
                       pm_heap := dict_set ref (new_slot i (provider_info_of p)) (pm_heap m)\<rparr>)"

lemma publish_cases:
  obtains e where "publish p previous inst saving m = (Inl e, m)"
  | store where "publish p previous inst saving m
      = (Inr (), retire_opt previous (install p inst (m\<lparr>pm_store := store\<rparr>)))"
proof (cases "pm_store m \<noteq> None \<and> saving \<noteq> None")
  case True
  then show thesis by (auto simp: publish_def intro: that)
next
  case False
  then show thesis
    by (intro that(2) [of "map_option (dict_set (pcf_provider_id p) (stored_config p)) (pm_store m)"])
      (auto simp: publish_def install_def retire_opt_def Let_def split: option.splits)
qed

lemma world_ok_publish:
  assumes ok: "world_ok w" and lock: "dict_get (pw_replacing w) pid = Some (p, previous)"
    and inst: "(inst \<noteq> None) = pcf_is_enabled p"
    and pub: "publish p previous inst saving (pw_manager w) = (r, m')"
  shows "world_ok (w\<lparr>pw_manager := m', pw_replacing := dict_pop pid (pw_replacing w)\<rparr>)"
proof (rule publish_cases [of p previous inst saving "pw_manager w"])
  fix e assume "publish p previous inst saving (pw_manager w) = (Inl e, pw_manager w)"
  with pub have m': "m' = pw_manager w" by simp
  from world_ok_give_up [OF ok, of pid] show ?thesis unfolding m' by simp
next
  fix store
  let ?m = "install p inst (pw_manager w\<lparr>pm_store := store\<rparr>)"
  assume "publish p previous inst saving (pw_manager w) = (Inr (), retire_opt previous ?m)"
  with pub have m': "m' = retire_opt previous ?m" by simp
  from world_okD(3) [OF ok, of pid] lock have p: "pcf_provider_id p = pid"
    and prev: "\<And>r. previous = Some r \<Longrightarrow> ref_provider r = pid \<and> heap_at w r \<noteq> None"
    by (auto simp: lock_at_def)
  let ?gen = "zero_or (dict_get (pm_generations (pw_manager w)) pid)"
  let ?new = "Slot_Ref pid (?gen + 1)"
  let ?w = "w\<lparr>pw_manager := ?m, pw_replacing := dict_pop pid (pw_replacing w)\<rparr>"
  have fresh: "heap_at w ?new = None"
    using world_okD(1) [OF ok, of ?new] by (cases "heap_at w ?new") (auto simp: slot_at_def)
  have heap: "heap_at ?w r = (case inst of Some i \<Rightarrow> if r = ?new
      then Some (new_slot i (provider_info_of p)) else heap_at w r | None \<Rightarrow> heap_at w r)" for r
    by (simp add: heap_at_def install_def p Let_def split: option.split)
  have same: "pm_retired_slots ?m = pm_retired_slots (pw_manager w)"
    "dict_get (pm_slots ?m) q = (if q = pid then map_option (\<lambda>_. ?new) inst
       else dict_get (pm_slots (pw_manager w)) q)"
    "dict_get (pm_configs ?m) q = (if q = pid then Some p else dict_get (pm_configs (pw_manager w)) q)"
    "zero_or (dict_get (pm_generations (pw_manager w)) q) \<le> zero_or (dict_get (pm_generations ?m) q)"
    "inst \<noteq> None \<Longrightarrow> zero_or (dict_get (pm_generations ?m) pid) = ?gen + 1" for q
    by (auto simp: install_def p Let_def zero_or_def split: option.split)
  have slots: "slot_at ?w r" for r
  proof (cases "inst \<noteq> None \<and> r = ?new")
    case True
    with world_okD(1) [OF ok, of r] fresh same(5) show ?thesis
      by (auto simp: slot_at_def heap same(1) intro: slot_ok_new)
  next
    case False
    then have "heap_at ?w r = heap_at w r" by (auto simp: heap split: option.split)
    with world_okD(1) [OF ok, of r] same(4) [of "ref_provider r"] show ?thesis
      by (auto simp: slot_at_def same(1))
  qed
  have locks: "lock_at ?w q" for q
  proof (cases "q = pid")
    case True
    then show ?thesis by (simp add: lock_at_def)
  next
    case False
    then show ?thesis
      by (intro lock_at_cong [OF world_okD(3) [OF ok, of q]])
        (auto simp: heap same(2) split: option.split)
  qed
  have table: "table_ok ?m"
    unfolding table_ok_def
  proof (intro conjI allI impI)
    show "dict_ok (pm_slots ?m)"
      using world_okD(2) [OF ok] by (simp add: table_ok_def install_def Let_def split: option.split)
  next
    fix q ref assume cur: "dict_get (pm_slots ?m) q = Some ref"
    show "ref_provider ref = q"
      using cur table_ok_slot [OF world_okD(2) [OF ok], of q ref] by (auto simp: same(2) split: if_splits)
    show "\<exists>sl. dict_get (pm_heap ?m) ref = Some sl \<and> \<not> sl_retired sl"
    proof (cases "q = pid")
      case True
      with cur obtain i where "inst = Some i" "ref = ?new" by (auto simp: same(2))
      with heap [of ?new] show ?thesis by (simp add: heap_at_def new_slot_def)
    next
      case False
      with cur have "dict_get (pm_slots (pw_manager w)) q = Some ref" by (simp add: same(2))
      from table_ok_slot [OF world_okD(2) [OF ok] this] obtain sl where sl: "ref_provider ref = q"
        "dict_get (pm_heap (pw_manager w)) ref = Some sl" "\<not> sl_retired sl" .
      with False have "ref \<noteq> ?new" by auto
      then have "heap_at ?w ref = heap_at w ref" unfolding heap by (simp split: option.split)
      with sl show ?thesis by (simp add: heap_at_def)
    qed
  next
    fix q c assume "dict_get (pm_configs ?m) q = Some c"
    with world_okD(2) [OF ok] inst p
    show "pcf_provider_id c = q" "pcf_is_enabled c = dict_has (pm_slots ?m) q"
      by (auto simp: same table_ok_def dict_has_def split: if_splits)
  next
    fix q assume "dict_has (pm_slots ?m) q"
    with world_okD(2) [OF ok] show "dict_has (pm_configs ?m) q"
      by (auto simp: same table_ok_def dict_has_def split: if_splits)
  qed
  have "world_ok (?w\<lparr>pw_manager := retire_opt previous (pw_manager ?w)\<rparr>)"
  proof (rule world_ok_retire_opt)
    fix r assume r: "previous = Some r"
    with prev have "r \<noteq> ?new" using fresh by auto
    then have "heap_at ?w r = heap_at w r" unfolding heap by (simp split: option.split)
    moreover have "dict_get (pm_slots ?m) (ref_provider r) = map_option (\<lambda>_. ?new) inst"
      using prev [OF r] same(2) by simp
    ultimately show "heap_at ?w r \<noteq> None
        \<and> dict_get (pm_slots (pw_manager ?w)) (ref_provider r) \<noteq> Some r"
      using prev [OF r] \<open>r \<noteq> ?new\<close> by (cases inst) simp_all
  qed (use slots locks table in simp_all)
  moreover have "?w\<lparr>pw_manager := retire_opt previous (pw_manager ?w)\<rparr>
      = w\<lparr>pw_manager := m', pw_replacing := dict_pop pid (pw_replacing w)\<rparr>"
    by (rule provider_world.equality) (simp_all add: m')
  ultimately show ?thesis by simp
qed

lemma world_ok_delete:
  assumes ok: "world_ok w" and free: "\<not> dict_has (pw_replacing w) pid"
    and del: "provider_delete pid (pw_manager w) = (r, m')"
  shows "world_ok (w\<lparr>pw_manager := m'\<rparr>)"
proof (cases "get_config pid (pw_manager w)")
  case (Inl e)
  with del have m': "m' = pw_manager w" by (simp add: provider_delete_def)
  from ok show ?thesis unfolding m' by simp
next
  case (Inr c)
  let ?slot = "dict_get (pm_slots (pw_manager w)) pid"
  let ?m = "(pw_manager w)\<lparr>pm_store := map_option (dict_pop pid) (pm_store (pw_manager w)),
    pm_slots := dict_pop pid (pm_slots (pw_manager w)),
    pm_configs := dict_pop pid (pm_configs (pw_manager w))\<rparr>"
  let ?w = "w\<lparr>pw_manager := ?m\<rparr>"
  from Inr del have m': "m' = retire_opt ?slot ?m"
    by (auto simp: provider_delete_def retire_opt_def Let_def split: option.splits)
  have slots: "slot_at ?w r" for r
    using world_okD(1) [OF ok, of r] by (simp add: slot_at_def heap_at_def)
  have locks: "lock_at ?w q" for q
    by (rule lock_at_cong [OF world_okD(3) [OF ok, of q]]) (auto simp: heap_at_def)
  have table: "table_ok ?m"
    using world_okD(2) [OF ok] unfolding table_ok_def by simp
  have "world_ok (?w\<lparr>pw_manager := retire_opt ?slot (pw_manager ?w)\<rparr>)"
  proof (rule world_ok_retire_opt)
    fix r assume "?slot = Some r"
    from current_slot [OF world_okD(2) [OF ok] this]
    show "heap_at ?w r \<noteq> None \<and> dict_get (pm_slots (pw_manager ?w)) (ref_provider r) \<noteq> Some r"
      by (simp add: heap_at_def)
  qed (use slots locks table in simp_all)
  then show ?thesis by (simp add: m')
qed

lemma world_ok_close_all:
  assumes ok: "world_ok w"
  shows "world_ok (w\<lparr>pw_manager := close_all (pw_manager w)\<rparr>)"
proof -
  let ?rs = "dict_values (pm_slots (pw_manager w)) @ pm_retired_slots (pw_manager w)"
  let ?w = "w\<lparr>pw_manager := (pw_manager w)\<lparr>pm_slots := [], pm_configs := []\<rparr>\<rparr>"
  have "world_ok (?w\<lparr>pw_manager := fold retire_slot ?rs (pw_manager ?w)\<rparr>)"
  proof (rule world_ok_retire)
    show "slot_at ?w r" for r
      using world_okD(1) [OF ok, of r] by (simp add: slot_at_def heap_at_def)
    show "lock_at ?w q" for q
      by (rule lock_at_cong [OF world_okD(3) [OF ok, of q]]) (auto simp: heap_at_def)
    show "table_ok (pw_manager ?w)" by (simp add: table_ok_def)
  next
    fix r assume r: "r \<in> set ?rs"
    have "heap_at w r \<noteq> None"
    proof (cases "r \<in> set (pm_retired_slots (pw_manager w))")
      case True
      with world_okD(1) [OF ok, of r] show ?thesis
        by (auto simp: slot_at_def slot_ok_def split: option.splits)
    next
      case False
      with r have "r \<in> set (dict_values (pm_slots (pw_manager w)))" by simp
      moreover have "dict_ok (pm_slots (pw_manager w))" using world_okD(2) [OF ok] by (simp add: table_ok_def)
      ultimately obtain pid where "dict_get (pm_slots (pw_manager w)) pid = Some r"
        by (auto simp: dict_values_iff)
      from current_slot [OF world_okD(2) [OF ok] this] show ?thesis by simp
    qed
    then show "heap_at ?w r \<noteq> None \<and> dict_get (pm_slots (pw_manager ?w)) (ref_provider r) \<noteq> Some r"
      by (simp add: heap_at_def)
  qed
  then show ?thesis by (simp add: close_all_def)
qed

theorem world_ok_step:
  assumes "provider_step w w'" "world_ok w"
  shows "world_ok w'"
  using assms
proof (cases rule: provider_step.cases)
  case (acquire pid ref m')
  with assms(2) show ?thesis by (simp add: world_ok_acquire)
next
  case (observe ref failed)
  with assms(2) show ?thesis by (simp add: world_ok_observe)
next
  case (release ref)
  with assms(2) show ?thesis by (simp add: world_ok_release)
next
  case (begin_create p replace_existing p' previous)
  with begin_create_Inr [OF begin_create(3)] world_ok_begin [OF assms(2), of p] show ?thesis by simp
next
  case (begin_update pid u p' previous)
  with begin_update_Inr [OF world_okD(2) [OF assms(2)] begin_update(3)] world_ok_begin [OF assms(2), of p']
  show ?thesis by simp
next
  case (give_up pid)
  with assms(2) show ?thesis by (simp add: world_ok_give_up)
next
  case (publish pid p previous inst saving r m')
  with assms(2) show ?thesis by (simp add: world_ok_publish)
next
  case (delete pid r m')
  with assms(2) show ?thesis by (simp add: world_ok_delete)
next
  case close_all
  with assms(2) show ?thesis by (simp add: world_ok_close_all)
next
  case (start_close ref)
  with assms(2) show ?thesis by (simp add: world_ok_start_close)
next
  case (finish_close ref)
  with assms(2) show ?thesis by (simp add: world_ok_finish_close)
qed

lemma reachable_world_ok: "provider_reachable w \<Longrightarrow> world_ok w"
  by (induction rule: provider_reachable.induct) (simp_all add: world_ok_initial world_ok_step)

section \<open>The properties of the component\<close>

lemma start_close_stays:
  assumes "provider_step w w'" "count (pw_closes w) ref = n"
  shows "n \<le> count (pw_closes w') ref"
  using assms by (cases rule: provider_step.cases) auto

lemma generations_grow:
  assumes "provider_step w w'" "heap_at w ref \<noteq> None"
  shows "heap_at w' ref \<noteq> None"
  using assms
proof (cases rule: provider_step.cases)
  case (publish pid p previous inst saving r m')
  have "dict_get (pm_heap m') ref \<noteq> None"
  proof (rule publish_cases [of p previous inst saving "pw_manager w"])
    fix e assume "publish p previous inst saving (pw_manager w) = (Inl e, pw_manager w)"
    with publish assms(2) show ?thesis by (simp add: heap_at_def)
  next
    fix store
    assume "publish p previous inst saving (pw_manager w)
      = (Inr (), retire_opt previous (install p inst (pw_manager w\<lparr>pm_store := store\<rparr>)))"
    with publish assms(2) show ?thesis
      by (auto simp: heap_at_def retire_opt_def install_def Let_def split: option.splits)
  qed
  with publish show ?thesis by (simp add: heap_at_def)
next
  case (delete pid r m')
  with assms(2) show ?thesis
    by (auto simp: heap_at_def provider_delete_def Let_def split: sum.splits option.splits)
qed (auto simp: heap_at_def acquire_slot_Inr record_call_def release_slot_def close_all_def
    start_close_def finish_close_def)

text \<open>A provider with one enabled instance, for the witnesses.\<close>

definition sample_config :: "bool \<Rightarrow> provider_config" where
  "sample_config enabled =
     \<lparr>pcf_provider_id = ''p'', pcf_name = ''p'', pcf_type = Type_OPENAI, pcf_is_enabled = enabled,
      pcf_discover_models = False, pcf_api_key = None, pcf_api_key_secret_ref = None,
      pcf_base_url = None, pcf_model = [], pcf_metadata = []\<rparr>"

definition locked_world :: "nat provider_world" where
  "locked_world = (initial_world None)\<lparr>pw_replacing := [(''p'', (sample_config True, None))]\<rparr>"

definition running_world :: "nat provider_world" where
  "running_world = locked_world
     \<lparr>pw_manager := snd (publish (sample_config True) None (Some 7) None (pw_manager locked_world)),
      pw_replacing := dict_pop ''p'' (pw_replacing locked_world)\<rparr>"

lemma locked_world_reachable: "provider_reachable locked_world"
proof -
  have "provider_step (initial_world None)
    ((initial_world None)\<lparr>pw_replacing := dict_set ''p'' (sample_config True, None) []\<rparr> :: nat provider_world)"
    using provider_step.begin_create [of "initial_world None" "sample_config True" True "sample_config True" None]
    by (simp add: initial_world_def begin_create_def sample_config_def)
  then have "provider_step (initial_world None) locked_world"
    by (simp add: locked_world_def dict_set_def)
  then show ?thesis by (rule provider_reachable.step [OF provider_reachable.start])
qed

lemma running_world_reachable: "provider_reachable running_world"
proof (rule provider_reachable.step [OF locked_world_reachable])
  show "provider_step locked_world running_world"
    unfolding running_world_def
    by (rule provider_step.publish [where p = "sample_config True" and previous = None and inst = "Some 7"
          and saving = None and r = "Inr ()"])
      (simp_all add: locked_world_def dict_get_Cons sample_config_def publish_def initial_world_def Let_def)
qed

lemma running_world_slot:
  "get_slot ''p'' (pw_manager running_world) = Inr (Slot_Ref ''p'' 1)" "pw_replacing running_world = []"
  by (simp_all add: running_world_def locked_world_def publish_def initial_world_def Let_def get_slot_def
      get_config_def sample_config_def zero_or_def dict_pop_def)

text \<open>C16: Whatever calls, replacements, deletions and shutdowns are interleaved, close() is called at
  most once on an instance, never while a call holds it, and never on the instance that the provider
  currently serves; and the slots' counters of active calls are exact.\<close>

theorem instance_closed_once_and_idle:
  assumes "provider_reachable w"
  shows "count (pw_closes w) ref \<le> 1
    \<and> (ref \<in># pw_closes w \<longrightarrow> ref \<notin># pw_calls w \<and> (\<forall>pid. dict_get (pm_slots (pw_manager w)) pid \<noteq> Some ref))
    \<and> (\<forall>sl. heap_at w ref = Some sl \<longrightarrow> sl_active_calls sl = int (count (pw_calls w) ref))"
proof (intro conjI impI allI)
  have ok: "world_ok w" using assms by (rule reachable_world_ok)
  have at: "slot_ok (count (pw_calls w) ref) (count (pw_closes w) ref)
      (ref \<in> set (pm_retired_slots (pw_manager w))) (heap_at w ref)"
    using world_okD(1) [OF ok, of ref] by (simp add: slot_at_def)
  show "count (pw_closes w) ref \<le> 1" using slot_ok_counts(3) [OF at] .
  show "sl_active_calls sl = int (count (pw_calls w) ref)" if "heap_at w ref = Some sl" for sl
    using at that by (simp add: slot_ok_def)
  assume "ref \<in># pw_closes w"
  then obtain sl where sl: "heap_at w ref = Some sl" "sl_close_started sl"
    using slot_ok_counts(1) [OF at] by blast
  with slot_ok_counts(2) [OF at] show "ref \<notin># pw_calls w" by auto
  fix pid
  from sl at have "sl_retired sl" by (simp add: slot_ok_def)
  with sl(1) table_ok_slot [OF world_okD(2) [OF ok], of pid ref]
  show "dict_get (pm_slots (pw_manager w)) pid \<noteq> Some ref" by (auto simp: heap_at_def)
qed

theorem instance_closed_once_and_idle_witness:
  "Slot_Ref ''p'' 1 \<notin># pw_closes running_world"
proof
  assume "Slot_Ref ''p'' 1 \<in># pw_closes running_world"
  with instance_closed_once_and_idle [OF running_world_reachable, of "Slot_Ref ''p'' 1"]
  have "dict_get (pm_slots (pw_manager running_world)) ''p'' \<noteq> Some (Slot_Ref ''p'' 1)" by blast
  with running_world_slot(1) show False by (simp add: get_slot_Inr)
qed

text \<open>No call ever starts on an instance that was replaced or deleted: what a call acquires is the
  current slot of an enabled provider, not retired and not being closed; and for an enabled provider
  that exists there always is one, so acquiring never fails with an internal KeyError.\<close>

theorem acquired_slot_is_live:
  assumes "provider_reachable w"
  shows "(case acquire_slot pid (pw_manager w) of
      (Inr ref, m') \<Rightarrow> (\<exists>sl c. heap_at w ref = Some sl \<and> \<not> sl_retired sl \<and> \<not> sl_close_started sl
          \<and> dict_get (pm_configs (pw_manager w)) pid = Some c \<and> pcf_is_enabled c
          \<and> ref_provider ref = pid)
    | (Inl e, m') \<Rightarrow> m' = pw_manager w
        \<and> (error_class e = Provider ProviderNotFoundError \<or> error_class e = Provider ProviderDisabledError))"
proof -
  have ok: "world_ok w" using assms by (rule reachable_world_ok)
  note table = world_okD(2) [OF ok]
  show ?thesis
  proof (cases "get_slot pid (pw_manager w)")
    case (Inl e)
    have "error_class e = Provider ProviderNotFoundError \<or> error_class e = Provider ProviderDisabledError"
    proof (cases "dict_get (pm_configs (pw_manager w)) pid")
      case None
      with Inl show ?thesis by (auto simp: get_slot_def get_config_def)
    next
      case (Some c)
      show ?thesis
      proof (cases "pcf_is_enabled c")
        case True
        with Some table have "dict_has (pm_slots (pw_manager w)) pid" unfolding table_ok_def by blast
        with Inl Some True show ?thesis by (auto simp: get_slot_def get_config_def dict_has_def)
      next
        case False
        with Inl Some show ?thesis by (auto simp: get_slot_def get_config_def)
      qed
    qed
    with Inl show ?thesis by (simp add: acquire_slot_def)
  next
    case (Inr ref)
    then obtain c where now: "dict_get (pm_slots (pw_manager w)) pid = Some ref"
      and c: "dict_get (pm_configs (pw_manager w)) pid = Some c" "pcf_is_enabled c"
      by (auto simp: get_slot_Inr)
    from table_ok_slot [OF table now] obtain sl where sl: "ref_provider ref = pid"
      "heap_at w ref = Some sl" "\<not> sl_retired sl" by (auto simp: heap_at_def)
    with world_okD(1) [OF ok, of ref] have "\<not> sl_close_started sl"
      by (auto simp: slot_at_def slot_ok_def)
    with sl c Inr show ?thesis by (auto simp: acquire_slot_def)
  qed
qed

theorem acquired_slot_is_live_witness:
  "\<exists>m'. acquire_slot ''p'' (pw_manager running_world) = (Inr (Slot_Ref ''p'' 1), m')
     \<and> (\<exists>sl. heap_at running_world (Slot_Ref ''p'' 1) = Some sl \<and> \<not> sl_retired sl)"
  using acquired_slot_is_live [OF running_world_reachable, of "''p''"] running_world_slot(1)
  by (auto simp: acquire_slot_def)

text \<open>A replaced or deleted instance does not leak: as long as close() has not been called on a
  retired slot, the table of retired slots lists it, and as soon as no call holds it the step that
  closes it is enabled; and once closing has started it can never be undone or repeated, because no
  later step lets a call hold the slot again.\<close>

theorem retired_slot_gets_closed:
  assumes "provider_reachable w" and "heap_at w ref = Some sl" and "sl_retired sl"
  shows "(\<not> sl_close_started sl \<longrightarrow>
        ref \<in> set (pm_retired_slots (pw_manager w))
        \<and> (ref \<notin># pw_calls w \<longrightarrow> may_close ref (pw_manager w)))
    \<and> (sl_close_started sl \<longrightarrow>
        (\<forall>w'. provider_step w w' \<longrightarrow> ref \<in># pw_closes w' \<and> ref \<notin># pw_calls w'
           \<and> \<not> may_close ref (pw_manager w')))"
proof -
  have ok: "world_ok w" using assms(1) by (rule reachable_world_ok)
  have at: "slot_ok (count (pw_calls w) ref) (count (pw_closes w) ref)
      (ref \<in> set (pm_retired_slots (pw_manager w))) (Some sl)"
    using world_okD(1) [OF ok, of ref] assms(2) by (simp add: slot_at_def)
  have later: "ref \<in># pw_closes w' \<and> ref \<notin># pw_calls w' \<and> \<not> may_close ref (pw_manager w')"
    if "sl_close_started sl" "provider_step w w'" for w'
  proof -
    have ok': "world_ok w'" using that(2) ok by (rule world_ok_step)
    have at': "slot_ok (count (pw_calls w') ref) (count (pw_closes w') ref)
        (ref \<in> set (pm_retired_slots (pw_manager w'))) (heap_at w' ref)"
      using world_okD(1) [OF ok', of ref] by (simp add: slot_at_def)
    from at that(1) have "count (pw_closes w) ref = 1" by (simp add: slot_ok_def)
    from start_close_stays [OF that(2) this] have closed: "ref \<in># pw_closes w'"
      by (simp flip: count_greater_zero_iff)
    then obtain sl' where sl': "heap_at w' ref = Some sl'" "sl_close_started sl'"
      using slot_ok_counts(1) [OF at'] by blast
    with closed slot_ok_counts(2) [OF at'] show ?thesis
      by (auto simp: may_close_def heap_at_def)
  qed
  have "ref \<notin># pw_calls w \<Longrightarrow> count (pw_calls w) ref = 0" by (simp add: not_in_iff)
  with at assms(2,3) later show ?thesis
    by (auto simp: slot_ok_def may_close_def heap_at_def)
qed

definition retired_world :: "nat provider_world" where
  "retired_world = running_world\<lparr>pw_manager := close_all (pw_manager running_world)\<rparr>"

theorem retired_slot_gets_closed_witness:
  "may_close (Slot_Ref ''p'' 1) (pw_manager retired_world)"
proof -
  have reach: "provider_reachable retired_world"
    unfolding retired_world_def
    by (intro provider_reachable.step [OF running_world_reachable] provider_step.close_all)
  have "\<exists>sl. heap_at retired_world (Slot_Ref ''p'' 1) = Some sl \<and> sl_retired sl \<and> \<not> sl_close_started sl"
    by (simp add: retired_world_def close_all_def heap_at_def running_world_def locked_world_def publish_def
        initial_world_def Let_def sample_config_def zero_or_def dict_set_def dict_values_def dict_get_Cons
        new_slot_def retired_def)
  moreover have "Slot_Ref ''p'' 1 \<notin># pw_calls retired_world"
    by (simp add: retired_world_def running_world_def locked_world_def initial_world_def)
  ultimately show ?thesis using retired_slot_gets_closed [OF reach] by blast
qed

end
