(* ===== verification/ImageTasks.thy ===== *)
theory ImageTasks
  imports ScopedStore "HOL-Library.Product_Lexorder"
begin

text \<open>
  The queue of image generation tasks (\<open>core/domain/image_task.py\<close>, \<open>core/schema/image_task.py\<close>) and
  the history of generated images (\<open>core/domain/image.py\<close>, \<open>core/schema/image.py\<close>).

  Times are microseconds since the epoch.  The text of the messages is Chinese in the source; it is
  translated here.  Image data are Base64 texts; the validators that decode them are not modelled.
\<close>

section \<open>Schemas\<close>

record image_edit_input =
  iei_base64_data :: string
  iei_mime_type :: string

record image_edit_part =
  iep_images :: "image_edit_input list"
  iep_mask :: "image_edit_input option"

text \<open>An edit request is a generation request with the additional fields \<open>irq_edit\<close>.\<close>

record image_request =
  irq_model_id :: string
  irq_prompt :: string
  irq_count :: nat
  irq_size :: "string option"
  irq_quality :: "string option"
  irq_output_format :: "string option"
  irq_background :: "string option"
  irq_result_format :: "string option"
  irq_timeout_seconds :: "rat option"
  irq_metadata :: metadata
  irq_edit :: "image_edit_part option"

datatype image_task_status =
  Task_QUEUED | Task_RUNNING | Task_SUCCEEDED | Task_FAILED | Task_INTERRUPTED

record image_task =
  it_task_id :: string
  it_provider_id :: string
  it_request :: image_request
  it_session_id :: "string option"
  it_owner_id :: "string option"
  it_status :: image_task_status
  it_record_id :: "string option"
  it_error_type :: "string option"
  it_error_message :: "string option"
  it_created_at :: int
  it_updated_at :: int
  it_worker_id :: "string option"
  it_lease_expires_at :: "int option"

record image_task_summary =
  its_task_id :: string
  its_provider_id :: string
  its_model_id :: string
  its_prompt_preview :: string
  its_kind :: string
  its_session_id :: "string option"
  its_status :: image_task_status
  its_record_id :: "string option"
  its_error_type :: "string option"
  its_error_message :: "string option"
  its_created_at :: int
  its_updated_at :: int

definition task_summary :: "image_task \<Rightarrow> image_task_summary" where
  "task_summary t =
     \<lparr>its_task_id = it_task_id t, its_provider_id = it_provider_id t,
      its_model_id = irq_model_id (it_request t), its_prompt_preview = take 160 (irq_prompt (it_request t)),
      its_kind = (if irq_edit (it_request t) \<noteq> None then ''edit'' else ''generate''),
      its_session_id = it_session_id t, its_status = it_status t, its_record_id = it_record_id t,
      its_error_type = it_error_type t, its_error_message = it_error_message t,
      its_created_at = it_created_at t, its_updated_at = it_updated_at t\<rparr>"

record history_cursor =
  hc_created_at :: int
  hc_record_id :: string

section \<open>The queue of tasks\<close>

type_synonym image_tasks = "(string, image_task) dict"

definition MAX_ACTIVE_IMAGE_TASKS :: nat where
  "MAX_ACTIVE_IMAGE_TASKS = 10"

definition active :: "image_task \<Rightarrow> bool" where
  "active t \<longleftrightarrow> it_status t = Task_QUEUED \<or> it_status t = Task_RUNNING"

definition same_submission :: "image_task \<Rightarrow> image_task \<Rightarrow> bool" where
  "same_submission a b \<longleftrightarrow>
     (it_owner_id a, it_provider_id a, it_request a, it_session_id a)
       = (it_owner_id b, it_provider_id b, it_request b, it_session_id b)"

definition interrupted :: "int \<Rightarrow> image_task \<Rightarrow> image_task" where
  "interrupted now t =
     t\<lparr>it_status := Task_INTERRUPTED, it_updated_at := now, it_error_type := Some ''ImageTaskInterrupted'',
       it_worker_id := None, it_lease_expires_at := None,
       it_error_message := Some
         ''Service interrupted, not regenerated. Check the history before you submit a new task.''\<rparr>"

definition task_missing :: error where
  "task_missing = raised (Image ImageTaskNotFoundError) ''Image task not found''"

definition has_active :: "image_tasks \<Rightarrow> bool" where
  "has_active d \<longleftrightarrow> (\<exists>t \<in> set (dict_values d). active t)"

definition task_get :: "string \<Rightarrow> principal_scope option \<Rightarrow> image_tasks \<Rightarrow> error + image_task" where
  "task_get task_id scope d =
     (case dict_get d task_id of
        None \<Rightarrow> Inl task_missing
      | Some t \<Rightarrow> if scope_permits scope (it_owner_id t) then Inr t else Inl task_missing)"

definition task_get_summary ::
  "string \<Rightarrow> principal_scope option \<Rightarrow> image_tasks \<Rightarrow> error + image_task_summary" where
  "task_get_summary task_id scope d = bind_e (task_get task_id scope d) (\<lambda>t. Inr (task_summary t))"

definition task_delete_for_record :: "string \<Rightarrow> image_tasks \<Rightarrow> image_tasks" where
  "task_delete_for_record record_id d = dict_pop record_id d"

definition task_delete :: "string \<Rightarrow> principal_scope option \<Rightarrow> (error, image_tasks, unit) act" where
  "task_delete task_id scope d =
     (case task_get task_id scope d of
        Inl e \<Rightarrow> (Inl e, d)
      | Inr t \<Rightarrow>
          if active t
          then (Inl (raised (Image ImageTaskConflictError)
                  ''A queued or running image task cannot be deleted''), d)
          else (Inr (), dict_pop task_id d))"

definition active_count :: "string option \<Rightarrow> image_tasks \<Rightarrow> nat" where
  "active_count owner d = length (filter (\<lambda>t. it_owner_id t = owner \<and> active t) (dict_values d))"

definition task_create :: "image_task \<Rightarrow> (error, image_tasks, bool) act" where
  "task_create t d =
     (case dict_get d (it_task_id t) of
        Some previous \<Rightarrow>
          if it_owner_id previous \<noteq> it_owner_id t then (Inl task_missing, d)
          else if \<not> same_submission previous t
          then (Inl (raised (Image ImageTaskConflictError)
                  ''Image task ID already belongs to another request''), d)
          else (Inr False, d)
      | None \<Rightarrow>
          if active_count (it_owner_id t) d \<ge> MAX_ACTIVE_IMAGE_TASKS
          then (Inl (raised (Image ImageTaskLimitError) ''At most 10 image tasks may be pending''), d)
          else (Inr True, dict_set (it_task_id t) t d))"

definition task_key :: "image_task \<Rightarrow> int \<times> string" where
  "task_key t = (it_created_at t, it_task_id t)"

text \<open>\<open>tasks.sort(key=..., reverse=True)\<close>: a stable sort, with the order turned round.\<close>

definition sort_reverse :: "('a \<Rightarrow> 'k::linorder) \<Rightarrow> 'a list \<Rightarrow> 'a list" where
  "sort_reverse key xs = rev (sort_key key (rev xs))"

definition before_cursor :: "history_cursor option \<Rightarrow> int \<times> string \<Rightarrow> bool" where
  "before_cursor cursor k =
     (case cursor of None \<Rightarrow> True | Some c \<Rightarrow> k < (hc_created_at c, hc_record_id c))"

definition task_list ::
  "nat \<Rightarrow> history_cursor option \<Rightarrow> string option \<Rightarrow> principal_scope option \<Rightarrow> image_tasks
     \<Rightarrow> image_task_summary list" where
  "task_list limit cursor session_id scope d =
     (let tasks = filter (\<lambda>t. scope_permits scope (it_owner_id t)
            \<and> (session_id = None \<or> it_session_id t = session_id)
            \<and> before_cursor cursor (task_key t)) (dict_values d)
      in map task_summary (take limit (sort_reverse task_key tasks)))"

definition task_claim :: "int \<Rightarrow> string \<Rightarrow> int \<Rightarrow> image_tasks \<Rightarrow> image_task option \<times> image_tasks" where
  "task_claim now worker_id lease_expires_at d =
     (case sort_key task_key (filter (\<lambda>t. it_status t = Task_QUEUED) (dict_values d)) of
        [] \<Rightarrow> (None, d)
      | t # _ \<Rightarrow>
          (let t = t\<lparr>it_status := Task_RUNNING, it_worker_id := Some worker_id,
                     it_lease_expires_at := Some lease_expires_at, it_updated_at := now\<rparr>
           in (Some t, dict_set (it_task_id t) t d)))"

text \<open>The guard that \<open>renew\<close> and \<open>finish\<close> share: the worker still holds the lease.\<close>

definition holds_lease :: "string \<Rightarrow> string \<Rightarrow> image_tasks \<Rightarrow> bool" where
  "holds_lease task_id worker_id d \<longleftrightarrow>
     (case dict_get d task_id of
        None \<Rightarrow> False
      | Some t \<Rightarrow> it_status t = Task_RUNNING \<and> it_worker_id t = Some worker_id)"

definition task_renew :: "string \<Rightarrow> string \<Rightarrow> int \<Rightarrow> image_tasks \<Rightarrow> bool \<times> image_tasks" where
  "task_renew task_id worker_id lease_expires_at d =
     (case dict_get d task_id of
        None \<Rightarrow> (False, d)
      | Some t \<Rightarrow>
          if it_status t \<noteq> Task_RUNNING \<or> it_worker_id t \<noteq> Some worker_id then (False, d)
          else (True, dict_set task_id (t\<lparr>it_lease_expires_at := Some lease_expires_at\<rparr>) d))"

definition task_finish :: "image_task \<Rightarrow> string \<Rightarrow> image_tasks \<Rightarrow> bool \<times> image_tasks" where
  "task_finish t worker_id d =
     (case dict_get d (it_task_id t) of
        None \<Rightarrow> (False, d)
      | Some current \<Rightarrow>
          if it_status current \<noteq> Task_RUNNING \<or> it_worker_id current \<noteq> Some worker_id then (False, d)
          else (True, dict_set (it_task_id t) (t\<lparr>it_worker_id := None, it_lease_expires_at := None\<rparr>) d))"

definition expired :: "int \<Rightarrow> image_task \<Rightarrow> bool" where
  "expired now t \<longleftrightarrow> it_status t = Task_RUNNING
     \<and> (case it_lease_expires_at t of None \<Rightarrow> True | Some l \<Rightarrow> l \<le> now)"

text \<open>\<open>now\<close> is the argument of the call, \<open>clock k\<close> the time that \<open>interrupted\<close> reads for task \<open>k\<close>.\<close>

definition task_recover_expired :: "int \<Rightarrow> (string \<Rightarrow> int) \<Rightarrow> image_tasks \<Rightarrow> image_tasks" where
  "task_recover_expired now clock d =
     fold (\<lambda>t d. if expired now t
               then dict_set (it_task_id t) (interrupted (clock (it_task_id t)) t) d else d)
       (dict_values d) d"

section \<open>The history of images\<close>

record generated_image =
  gi_url :: "string option"
  gi_base64_data :: "string option"
  gi_mime_type :: "string option"
  gi_revised_prompt :: "string option"

record image_usage =
  iu_input_tokens :: "nat option"
  iu_output_tokens :: "nat option"
  iu_total_tokens :: "nat option"
  iu_metadata :: metadata

datatype persistence_warning = Archive_incomplete | Save_failed | Record_deleted

record image_response =
  irs_model_id :: string
  irs_images :: "generated_image list"
  irs_created :: "int option"
  irs_usage :: "image_usage option"
  irs_metadata :: metadata
  irs_record_id :: "string option"
  irs_warning :: "persistence_warning option"

record image_record =
  ir_record_id :: string
  ir_owner_id :: "string option"
  ir_provider_id :: string
  ir_request :: image_request
  ir_response :: image_response
  ir_created_at :: int

record image_summary =
  is_record_id :: string
  is_provider_id :: string
  is_model_id :: string
  is_prompt_preview :: string
  is_image_count :: nat
  is_created_at :: int
  is_archived :: bool

definition validate_generated_image :: "generated_image \<Rightarrow> error + generated_image" where
  "validate_generated_image i =
     (if gi_url i = None \<and> gi_base64_data i = None
      then Inl (raised (PyException ''ValueError'') ''Image URL or Base64 data is required'')
      else if gi_base64_data i \<noteq> None \<and> gi_mime_type i = None
      then Inl (raised (PyException ''ValueError'') ''Base64 images require a MIME type'')
      else Inr i)"

definition record_summary :: "image_record \<Rightarrow> image_summary" where
  "record_summary r =
     \<lparr>is_record_id = ir_record_id r, is_provider_id = ir_provider_id r,
      is_model_id = irq_model_id (ir_request r), is_prompt_preview = take 160 (irq_prompt (ir_request r)),
      is_image_count = length (irs_images (ir_response r)), is_created_at = ir_created_at r,
      is_archived = (\<forall>i \<in> set (irs_images (ir_response r)). gi_base64_data i \<noteq> None)\<rparr>"

type_synonym image_records = "(string, image_record) dict"

definition record_get :: "string \<Rightarrow> principal_scope option \<Rightarrow> image_records \<Rightarrow> error + image_record" where
  "record_get record_id scope d =
     (case dict_get d record_id of
        None \<Rightarrow> Inl (raised (Image ImageRecordNotFoundError) ''Image record not found'')
      | Some r \<Rightarrow>
          if scope_permits scope (ir_owner_id r) then Inr r
          else Inl (raised (Image ImageRecordNotFoundError) ''Image record not found''))"

definition record_save :: "image_record \<Rightarrow> (error, image_records, unit) act" where
  "record_save r d =
     (case dict_get d (ir_record_id r) of
        Some previous \<Rightarrow>
          if ir_owner_id previous \<noteq> ir_owner_id r
          then (Inl (raised (Image ImageRecordConflictError) ''Image record ownership cannot change''), d)
          else (Inr (), dict_set (ir_record_id r) r d)
      | None \<Rightarrow> (Inr (), dict_set (ir_record_id r) r d))"

definition record_update :: "image_record \<Rightarrow> (error, image_records, unit) act" where
  "record_update r d =
     (case record_get (ir_record_id r) (Some \<lparr>scope_owner_id = ir_owner_id r\<rparr>) d of
        Inl e \<Rightarrow> (Inl e, d)
      | Inr _ \<Rightarrow> record_save r d)"

definition record_key :: "image_record \<Rightarrow> int \<times> string" where
  "record_key r = (ir_created_at r, ir_record_id r)"

definition record_list ::
  "nat \<Rightarrow> history_cursor option \<Rightarrow> principal_scope option \<Rightarrow> image_records \<Rightarrow> image_summary list" where
  "record_list limit cursor scope d =
     map record_summary (take limit (filter (\<lambda>r. before_cursor cursor (record_key r))
       (sort_reverse record_key (filter (\<lambda>r. scope_permits scope (ir_owner_id r)) (dict_values d)))))"

definition record_delete :: "string \<Rightarrow> principal_scope option \<Rightarrow> (error, image_records, unit) act" where
  "record_delete record_id scope d =
     (case record_get record_id scope d of
        Inl e \<Rightarrow> (Inl e, d)
      | Inr _ \<Rightarrow> (Inr (), dict_pop record_id d))"

section \<open>Dictionaries of records\<close>

text \<open>How the number of entries with a property changes.\<close>

definition dict_count :: "('v \<Rightarrow> bool) \<Rightarrow> ('k, 'v) dict \<Rightarrow> nat" where
  "dict_count P d = length (filter P (dict_values d))"

lemma active_count_dict_count:
  "active_count owner d = dict_count (\<lambda>t. it_owner_id t = owner \<and> active t) d"
  by (simp add: active_count_def dict_count_def)

lemma dict_count_new: "\<not> dict_has d k \<Longrightarrow> dict_count P (dict_set k v d) = dict_count P d + of_bool (P v)"
  by (simp add: dict_set_new dict_count_def dict_values_def)

lemma dict_count_old:
  "dict_get d k = Some u \<Longrightarrow>
     dict_count P (dict_set k v d) + of_bool (P u) = dict_count P d + of_bool (P v)"
proof (induction d)
  case (Cons p d)
  obtain k' v' where p: "p = (k', v')" by (cases p)
  show ?case
  proof (cases "k = k'")
    case True
    with Cons.prems p show ?thesis
      by (simp add: dict_get_Cons dict_count_def dict_values_def dict_set_def)
  next
    case False
    with Cons p show ?thesis
      by (simp add: dict_get_Cons dict_count_def dict_values_def dict_set_def)
  qed
qed simp

lemma dict_count_old_le:
  "dict_get d k = Some u \<Longrightarrow> (P v \<Longrightarrow> P u) \<Longrightarrow> dict_count P (dict_set k v d) \<le> dict_count P d"
  using dict_count_old [of d k u P v] by (cases "P u"; cases "P v") simp_all

lemma dict_count_pop_le: "dict_count P (dict_pop k d) \<le> dict_count P d"
  by (induction d) (auto simp: dict_count_def dict_values_def dict_pop_def)

lemma dict_set_middle:
  "k \<notin> fst ` set pre \<Longrightarrow> dict_set k v (pre @ (k, u) # post) = pre @ (k, v) # post"
  by (induction pre) (auto simp: dict_set_def)

text \<open>The loop that overwrites some of the entries of a dictionary, over a copy of its values.\<close>

lemma fold_set_suffix:
  assumes "distinct (map fst (pre @ post))" "\<forall>(k, v) \<in> set post. key v = k"
  shows "fold (\<lambda>v d. if P v then dict_set (key v) (f v) d else d) (map snd post) (pre @ post)
    = pre @ map (\<lambda>(k, v). (k, if P v then f v else v)) post"
  using assms
proof (induction post arbitrary: pre)
  case Nil
  then show ?case by simp
next
  case (Cons p post)
  obtain k v where p: "p = (k, v)" by (cases p)
  with Cons.prems have key: "key v = k" and new: "k \<notin> fst ` set pre" by auto
  let ?v = "if P v then f v else v"
  have "dict_set k (f v) (pre @ (k, v) # post) = pre @ (k, f v) # post"
    using new by (simp add: dict_set_middle)
  moreover have "distinct (map fst ((pre @ [(k, ?v)]) @ post))" using Cons.prems p by simp
  moreover have "\<forall>(k, v) \<in> set post. key v = k" using Cons.prems by simp
  ultimately show ?case using Cons.IH [of "pre @ [(k, ?v)]"] p key by (cases "P v") simp_all
qed

lemma fold_set_values:
  assumes "keyed key d"
  shows "fold (\<lambda>v d. if P v then dict_set (key v) (f v) d else d) (dict_values d) d
    = map (\<lambda>(k, v). (k, if P v then f v else v)) d"
proof -
  have "distinct (map fst ([] @ d))" "\<forall>(k, v) \<in> set d. key v = k"
    using assms by (auto simp: keyed_def dict_ok_def dict_keys_def dict_items_iff)
  from fold_set_suffix [OF this] show ?thesis by (simp add: dict_values_def)
qed

lemma dict_get_map_values:
  "dict_get (map (\<lambda>(k, v). (k, g v)) d) k = map_option g (dict_get d k)"
  by (induction d) (auto simp: dict_get_Cons)

lemma dict_ok_map_values: "dict_ok (map (\<lambda>(k, v). (k, g v)) d) = dict_ok d"
  by (simp add: dict_ok_def dict_keys_def case_prod_beta' comp_def)

lemma dict_count_map_values_le:
  "(\<And>v. P (g v) \<Longrightarrow> P v) \<Longrightarrow> dict_count P (map (\<lambda>(k, v). (k, g v)) d) \<le> dict_count P d"
  by (induction d) (auto simp: dict_count_def dict_values_def)

section \<open>What the operations of the queue do\<close>

lemma keyed_map_values: "(\<And>v. key (g v) = key v) \<Longrightarrow> keyed key (map (\<lambda>(k, v). (k, g v)) d) = keyed key d"
  by (simp add: keyed_def dict_ok_map_values dict_get_map_values) metis

lemma interrupted_sel [simp]:
  "it_task_id (interrupted now t) = it_task_id t" "it_owner_id (interrupted now t) = it_owner_id t"
  "it_status (interrupted now t) = Task_INTERRUPTED" "it_worker_id (interrupted now t) = None"
  "it_lease_expires_at (interrupted now t) = None" "it_created_at (interrupted now t) = it_created_at t"
  "same_submission (interrupted now t) t'' = same_submission t t''"
  "same_submission t'' (interrupted now t) = same_submission t'' t"
  by (simp_all add: interrupted_def same_submission_def)

lemma recover_expired_map:
  assumes "keyed it_task_id d"
  shows "task_recover_expired now clock d =
    map (\<lambda>(k, t). (k, if expired now t then interrupted (clock (it_task_id t)) t else t)) d"
  unfolding task_recover_expired_def by (rule fold_set_values [OF assms])

lemma recover_expired_get:
  "keyed it_task_id d \<Longrightarrow> dict_get (task_recover_expired now clock d) k =
     map_option (\<lambda>t. if expired now t then interrupted (clock (it_task_id t)) t else t) (dict_get d k)"
  by (simp add: recover_expired_map dict_get_map_values)

lemma claim_cases:
  assumes "keyed it_task_id d" "task_claim now w l d = (r, d')"
  obtains (nothing) "r = None" "d' = d" "\<And>t. t \<in> set (dict_values d) \<Longrightarrow> it_status t \<noteq> Task_QUEUED"
  | (claimed) t where
      "r = Some (t\<lparr>it_status := Task_RUNNING, it_worker_id := Some w, it_lease_expires_at := Some l,
                    it_updated_at := now\<rparr>)"
      "d' = dict_set (it_task_id t) (the r) d"
      "dict_get d (it_task_id t) = Some t" "it_status t = Task_QUEUED"
      "\<And>u. u \<in> set (dict_values d) \<Longrightarrow> it_status u = Task_QUEUED \<Longrightarrow> task_key t \<le> task_key u"
proof (cases "sort_key task_key (filter (\<lambda>t. it_status t = Task_QUEUED) (dict_values d))")
  case Nil
  then have none: "set (filter (\<lambda>t. it_status t = Task_QUEUED) (dict_values d)) = {}"
    by (metis set_empty set_sort)
  show ?thesis
    by (rule nothing) (use Nil none assms(2) in \<open>auto simp: task_claim_def filter_empty_conv\<close>)
next
  case (Cons t ts)
  let ?q = "filter (\<lambda>t. it_status t = Task_QUEUED) (dict_values d)"
  have "set (t # ts) = set ?q" using Cons by (metis set_sort)
  then have t: "t \<in> set (dict_values d)" "it_status t = Task_QUEUED" by auto
  have "sorted (map task_key (t # ts))" using Cons by (metis sorted_sort_key)
  then have "\<forall>u \<in> set (t # ts). task_key t \<le> task_key u" by auto
  with \<open>set (t # ts) = set ?q\<close> have min: "\<forall>u \<in> set ?q. task_key t \<le> task_key u" by simp
  show ?thesis
  proof (rule claimed [of t])
    show "dict_get d (it_task_id t) = Some t" using t assms(1) by (simp add: keyed_values_iff)
  qed (use Cons assms(2) t min in \<open>auto simp: task_claim_def Let_def\<close>)
qed

lemma create_cases:
  assumes "task_create t d = (r, d')"
  obtains (known) "d' = d" "\<exists>u. dict_get d (it_task_id t) = Some u"
  | (full) "d' = d" "dict_get d (it_task_id t) = None" "active_count (it_owner_id t) d \<ge> 10"
      "\<exists>e. r = Inl e"
  | (stored) "dict_get d (it_task_id t) = None" "active_count (it_owner_id t) d < 10"
      "r = Inr True" "d' = dict_set (it_task_id t) t d"
  using assms
  by (auto simp: task_create_def MAX_ACTIVE_IMAGE_TASKS_def split: option.splits if_splits)

lemma delete_cases:
  assumes "task_delete k scope d = (r, d')"
  obtains (kept) "d' = d" "\<exists>e. r = Inl e"
  | (deleted) t where "dict_get d k = Some t" "\<not> active t" "scope_permits scope (it_owner_id t)"
      "r = Inr ()" "d' = dict_pop k d"
  using assms
  by (auto simp: task_delete_def task_get_def split: option.splits if_splits sum.splits)

section \<open>The queue and its workers\<close>

text \<open>
  The workers of \<open>infra/adapters/images/executor.py\<close> take tasks from the store and hand the results
  back.  \<open>iq_busy\<close> holds, for every worker that runs an operation, the copy of the task that \<open>claim\<close>
  gave to it.  Everything between two awaits of the code is one step.
\<close>

record image_queue =
  iq_tasks :: image_tasks
  iq_busy :: "(string, image_task) dict"

definition outcome_of :: "image_task \<Rightarrow> image_task \<Rightarrow> bool" where
  "outcome_of t0 t \<longleftrightarrow> it_task_id t = it_task_id t0 \<and> same_submission t0 t
     \<and> it_created_at t = it_created_at t0
     \<and> it_status t \<in> {Task_SUCCEEDED, Task_FAILED, Task_INTERRUPTED}"

inductive queue_step :: "image_queue \<Rightarrow> image_queue \<Rightarrow> bool" where
  create: "it_status t = Task_QUEUED \<Longrightarrow> it_worker_id t = None \<Longrightarrow> it_lease_expires_at t = None \<Longrightarrow>
    task_create t (iq_tasks q) = (r, d') \<Longrightarrow> queue_step q (q\<lparr>iq_tasks := d'\<rparr>)"
| delete: "task_delete k scope (iq_tasks q) = (r, d') \<Longrightarrow> queue_step q (q\<lparr>iq_tasks := d'\<rparr>)"
| delete_for_record: "queue_step q (q\<lparr>iq_tasks := task_delete_for_record k (iq_tasks q)\<rparr>)"
| recover: "queue_step q (q\<lparr>iq_tasks := task_recover_expired now clock (iq_tasks q)\<rparr>)"
| claim: "dict_get (iq_busy q) w = None \<Longrightarrow> task_claim now w l (iq_tasks q) = (Some t, d') \<Longrightarrow>
    queue_step q (q\<lparr>iq_tasks := d', iq_busy := dict_set w t (iq_busy q)\<rparr>)"
| renew: "task_renew k w l (iq_tasks q) = (r, d') \<Longrightarrow> queue_step q (q\<lparr>iq_tasks := d'\<rparr>)"
| finish: "dict_get (iq_busy q) w = Some t0 \<Longrightarrow> outcome_of t0 t \<Longrightarrow>
    task_finish t w (iq_tasks q) = (r, d') \<Longrightarrow>
    queue_step q (q\<lparr>iq_tasks := d', iq_busy := dict_pop w (iq_busy q)\<rparr>)"

inductive_cases queue_stepE: "queue_step q q'"

inductive queue_reachable :: "image_queue \<Rightarrow> bool" where
  start: "queue_reachable \<lparr>iq_tasks = [], iq_busy = []\<rparr>"
| step: "queue_reachable q \<Longrightarrow> queue_step q q' \<Longrightarrow> queue_reachable q'"

text \<open>
  A task that runs is held by the worker that claimed it, in the state in which it was claimed but
  for the lease; a task that does not run has neither worker nor lease.
\<close>

definition leased :: "(string, image_task) dict \<Rightarrow> image_task \<Rightarrow> bool" where
  "leased busy t \<longleftrightarrow>
     (if it_status t = Task_RUNNING
      then \<exists>w t0. it_worker_id t = Some w \<and> it_lease_expires_at t \<noteq> None
             \<and> dict_get busy w = Some t0 \<and> t = t0\<lparr>it_lease_expires_at := it_lease_expires_at t\<rparr>
      else it_worker_id t = None \<and> it_lease_expires_at t = None)"

definition queue_ok :: "image_queue \<Rightarrow> bool" where
  "queue_ok q \<longleftrightarrow> keyed it_task_id (iq_tasks q)
     \<and> (\<forall>owner. active_count owner (iq_tasks q) \<le> 10)
     \<and> (\<forall>k t. dict_get (iq_tasks q) k = Some t \<longrightarrow> leased (iq_busy q) t)"

lemma queue_okI:
  assumes "keyed it_task_id (iq_tasks q)" "\<And>owner. active_count owner (iq_tasks q) \<le> 10"
    and "\<And>k t. dict_get (iq_tasks q) k = Some t \<Longrightarrow> leased (iq_busy q) t"
  shows "queue_ok q"
  using assms by (simp add: queue_ok_def)

lemma queue_okD:
  assumes "queue_ok q"
  shows "keyed it_task_id (iq_tasks q)" "active_count owner (iq_tasks q) \<le> 10"
    "dict_get (iq_tasks q) k = Some t \<Longrightarrow> leased (iq_busy q) t"
    "dict_get (iq_tasks q) k = Some t \<Longrightarrow> it_task_id t = k"
  using assms by (auto simp: queue_ok_def keyed_def)

lemma leased_not_running: "it_status t \<noteq> Task_RUNNING \<Longrightarrow>
    leased busy t \<longleftrightarrow> it_worker_id t = None \<and> it_lease_expires_at t = None"
  by (simp add: leased_def)

text \<open>A change that replaces one task by another with the same owner that is no more active.\<close>

lemma queue_ok_overwrite:
  assumes "queue_ok q" "dict_get (iq_tasks q) (it_task_id t) = Some u"
    and "it_owner_id t = it_owner_id u" "active t \<Longrightarrow> active u"
    and "leased busy t"
    and "\<And>k v. k \<noteq> it_task_id t \<Longrightarrow> dict_get (iq_tasks q) k = Some v \<Longrightarrow> leased busy v"
  shows "queue_ok (q\<lparr>iq_tasks := dict_set (it_task_id t) t (iq_tasks q), iq_busy := busy\<rparr>)"
proof (rule queue_okI; simp)
  show "keyed it_task_id (dict_set (it_task_id t) t (iq_tasks q))"
    using assms(1) by (simp add: queue_okD)
  show "active_count owner (dict_set (it_task_id t) t (iq_tasks q)) \<le> 10" for owner
  proof -
    have "active_count owner (dict_set (it_task_id t) t (iq_tasks q)) \<le> active_count owner (iq_tasks q)"
      unfolding active_count_dict_count using assms(2) by (rule dict_count_old_le) (use assms in auto)
    also have "\<dots> \<le> 10" using assms(1) by (rule queue_okD)
    finally show ?thesis .
  qed
  show "leased busy v" if "(if k = it_task_id t then Some t else dict_get (iq_tasks q) k) = Some v" for k v
    using that assms(5,6) by (auto split: if_splits)
qed

lemma queue_ok_create:
  assumes "queue_ok q" "it_status t = Task_QUEUED" "it_worker_id t = None" "it_lease_expires_at t = None"
    and "task_create t (iq_tasks q) = (r, d')"
  shows "queue_ok (q\<lparr>iq_tasks := d'\<rparr>)"
  using assms(5)
proof (cases rule: create_cases)
  case stored
  have count: "active_count owner d' \<le> 10" for owner
  proof -
    have "active_count owner d' = active_count owner (iq_tasks q)
        + of_bool (it_owner_id t = owner \<and> active t)"
      using stored by (simp add: active_count_dict_count dict_count_new dict_has_def)
    with stored(2) queue_okD(2) [OF assms(1), of owner] show ?thesis
      by (cases "it_owner_id t = owner \<and> active t") auto
  qed
  show ?thesis
  proof (rule queue_okI; simp)
    show "keyed it_task_id d'" using assms(1) stored by (simp add: queue_okD)
    show "leased (iq_busy q) v" if "dict_get d' k = Some v" for k v
      using that stored assms queue_okD(3) [OF assms(1)]
      by (auto simp: leased_not_running split: if_splits)
  qed (rule count)
qed (use assms(1) in simp_all)

lemma queue_ok_pop: "queue_ok q \<Longrightarrow> queue_ok (q\<lparr>iq_tasks := dict_pop k (iq_tasks q)\<rparr>)"
proof (rule queue_okI; simp)
  assume q: "queue_ok q"
  then show "keyed it_task_id (dict_pop k (iq_tasks q))" by (simp add: queue_okD)
  show "active_count owner (dict_pop k (iq_tasks q)) \<le> 10" for owner
    using dict_count_pop_le [of "\<lambda>t. it_owner_id t = owner \<and> active t" k "iq_tasks q"]
      queue_okD(2) [OF q, of owner] by (simp add: active_count_dict_count)
  show "leased (iq_busy q) v" if "(if k' = k then None else dict_get (iq_tasks q) k') = Some v" for k' v
    using that queue_okD(3) [OF q] by (auto split: if_splits)
qed

lemma queue_ok_delete:
  "queue_ok q \<Longrightarrow> task_delete k scope (iq_tasks q) = (r, d') \<Longrightarrow> queue_ok (q\<lparr>iq_tasks := d'\<rparr>)"
  by (erule delete_cases) (simp_all add: queue_ok_pop)

lemma queue_ok_recover:
  assumes "queue_ok q"
  shows "queue_ok (q\<lparr>iq_tasks := task_recover_expired now clock (iq_tasks q)\<rparr>)"
proof (rule queue_okI; simp)
  let ?g = "\<lambda>t. if expired now t then interrupted (clock (it_task_id t)) t else t"
  have keyed: "keyed it_task_id (iq_tasks q)" using assms by (rule queue_okD)
  then show "keyed it_task_id (task_recover_expired now clock (iq_tasks q))"
    by (simp add: recover_expired_map keyed_map_values)
  show "active_count owner (task_recover_expired now clock (iq_tasks q)) \<le> 10" for owner
  proof -
    have "active_count owner (task_recover_expired now clock (iq_tasks q))
        \<le> active_count owner (iq_tasks q)"
      unfolding active_count_dict_count recover_expired_map [OF keyed]
      by (rule dict_count_map_values_le) (auto simp: active_def split: if_splits)
    also have "\<dots> \<le> 10" using assms by (rule queue_okD)
    finally show ?thesis .
  qed
  show "leased (iq_busy q) v" if "dict_get (task_recover_expired now clock (iq_tasks q)) k = Some v" for k v
    using that queue_okD(3) [OF assms]
    by (auto simp: recover_expired_get [OF keyed] leased_not_running split: if_splits)
qed

lemma leased_running:
  "it_status t = Task_RUNNING \<Longrightarrow> leased busy t \<Longrightarrow>
     \<exists>w t0. it_worker_id t = Some w \<and> dict_get busy w = Some t0 \<and> it_task_id t0 = it_task_id t
       \<and> same_submission t0 t \<and> it_created_at t0 = it_created_at t"
proof -
  assume "it_status t = Task_RUNNING" "leased busy t"
  then obtain w t0 where "it_worker_id t = Some w" "dict_get busy w = Some t0"
      "t = t0\<lparr>it_lease_expires_at := it_lease_expires_at t\<rparr>"
    by (auto simp: leased_def)
  then show ?thesis by (cases t; cases t0) (auto simp: same_submission_def)
qed

lemma leased_runningI:
  "it_status t = Task_RUNNING \<Longrightarrow> it_worker_id t = Some w \<Longrightarrow> it_lease_expires_at t \<noteq> None \<Longrightarrow>
     dict_get busy w = Some t0 \<Longrightarrow> t = t0\<lparr>it_lease_expires_at := it_lease_expires_at t\<rparr> \<Longrightarrow> leased busy t"
  unfolding leased_def by auto

text \<open>Giving a worker without a task a task, or taking its task away, concerns no other worker.\<close>

lemma leased_cong:
  assumes "leased busy t" "\<And>w. it_status t = Task_RUNNING \<Longrightarrow> it_worker_id t = Some w \<Longrightarrow>
    dict_get busy' w = dict_get busy w"
  shows "leased busy' t"
  using assms by (auto simp: leased_def split: if_splits)

lemma queue_ok_claim:
  assumes "queue_ok q" "dict_get (iq_busy q) w = None" "task_claim now w l (iq_tasks q) = (Some t, d')"
  shows "queue_ok (q\<lparr>iq_tasks := d', iq_busy := dict_set w t (iq_busy q)\<rparr>)"
  using queue_okD(1) [OF assms(1)] assms(3)
proof (cases rule: claim_cases)
  case (claimed u)
  let ?t = "u\<lparr>it_status := Task_RUNNING, it_worker_id := Some w, it_lease_expires_at := Some l,
              it_updated_at := now\<rparr>"
  have t: "t = ?t" and d': "d' = dict_set (it_task_id t) t (iq_tasks q)"
    and u: "dict_get (iq_tasks q) (it_task_id t) = Some u"
    using claimed by simp_all
  show ?thesis unfolding d'
  proof (rule queue_ok_overwrite [OF assms(1) u])
    show "leased (dict_set w t (iq_busy q)) t" using t by (simp add: leased_def)
    show "leased (dict_set w t (iq_busy q)) v" if "dict_get (iq_tasks q) k = Some v" for k v
    proof (rule leased_cong [OF queue_okD(3) [OF assms(1) that]])
      fix w' assume "it_status v = Task_RUNNING" "it_worker_id v = Some w'"
      with queue_okD(3) [OF assms(1) that] have "dict_get (iq_busy q) w' \<noteq> None"
        by (auto simp: leased_def)
      with assms(2) show "dict_get (dict_set w t (iq_busy q)) w' = dict_get (iq_busy q) w'" by auto
    qed
  qed (use t claimed in \<open>simp_all add: active_def\<close>)
qed simp

lemma queue_ok_renew:
  assumes "queue_ok q" "task_renew k w l (iq_tasks q) = (r, d')"
  shows "queue_ok (q\<lparr>iq_tasks := d'\<rparr>)"
proof (cases "holds_lease k w (iq_tasks q)")
  case False
  with assms show ?thesis
    by (auto simp: holds_lease_def task_renew_def split: option.splits if_splits)
next
  case True
  then obtain u where u: "dict_get (iq_tasks q) k = Some u" "it_status u = Task_RUNNING"
      "it_worker_id u = Some w"
    by (auto simp: holds_lease_def split: option.splits)
  let ?t = "u\<lparr>it_lease_expires_at := Some l\<rparr>"
  have id: "it_task_id u = k" using queue_okD(4) [OF assms(1) u(1)] .
  have d': "d' = dict_set (it_task_id ?t) ?t (iq_tasks q)"
    using assms(2) u id by (simp add: task_renew_def)
  have "queue_ok (q\<lparr>iq_tasks := d', iq_busy := iq_busy q\<rparr>)" unfolding d'
  proof (rule queue_ok_overwrite [OF assms(1)])
    show "dict_get (iq_tasks q) (it_task_id ?t) = Some u" using u id by simp
    obtain t0 where t0: "dict_get (iq_busy q) w = Some t0"
        "u = t0\<lparr>it_lease_expires_at := it_lease_expires_at u\<rparr>"
      using queue_okD(3) [OF assms(1) u(1)] u by (auto simp: leased_def)
    have "?t = t0\<lparr>it_lease_expires_at := Some l\<rparr>"
      by (subst t0(2)) simp
    then have lease: "?t = t0\<lparr>it_lease_expires_at := it_lease_expires_at ?t\<rparr>" by simp
    show "leased (iq_busy q) ?t"
      by (rule leased_runningI [OF _ _ _ t0(1) lease]) (use u in simp_all)
    show "leased (iq_busy q) v" if "dict_get (iq_tasks q) k' = Some v" for k' v
      using queue_okD(3) [OF assms(1) that] .
  qed (simp_all add: active_def)
  then show ?thesis by simp
qed

lemma finish_cases:
  assumes "task_finish t w d = (r, d')"
  obtains (lost) "\<not> holds_lease (it_task_id t) w d" "r = False" "d' = d"
  | (recorded) u where "dict_get d (it_task_id t) = Some u" "it_status u = Task_RUNNING"
      "it_worker_id u = Some w" "r = True"
      "d' = dict_set (it_task_id t) (t\<lparr>it_worker_id := None, it_lease_expires_at := None\<rparr>) d"
  using assms by (auto simp: task_finish_def holds_lease_def split: option.splits if_splits)

lemma held_by_worker:
  assumes "queue_ok q" "dict_get (iq_tasks q) k = Some u" "it_status u = Task_RUNNING"
    and "it_worker_id u = Some w" "dict_get (iq_busy q) w = Some t0"
  shows "it_task_id t0 = k" "same_submission t0 u" "it_created_at t0 = it_created_at u"
  using leased_running [OF assms(3) queue_okD(3) [OF assms(1,2)]] assms queue_okD(4) [OF assms(1,2)]
  by auto

lemma queue_ok_finish:
  assumes "queue_ok q" "dict_get (iq_busy q) w = Some t0" "outcome_of t0 t"
    and "task_finish t w (iq_tasks q) = (r, d')"
  shows "queue_ok (q\<lparr>iq_tasks := d', iq_busy := dict_pop w (iq_busy q)\<rparr>)"
proof -
  have id: "it_task_id t = it_task_id t0" using assms(3) by (simp add: outcome_of_def)
  have others: "leased (dict_pop w (iq_busy q)) v"
    if "dict_get (iq_tasks q) k = Some v" "k \<noteq> it_task_id t \<or> \<not> holds_lease (it_task_id t) w (iq_tasks q)"
    for k v
  proof (rule leased_cong [OF queue_okD(3) [OF assms(1) that(1)]])
    fix w' assume run: "it_status v = Task_RUNNING" "it_worker_id v = Some w'"
    have "w' \<noteq> w"
    proof
      assume "w' = w"
      with held_by_worker(1) [OF assms(1) that(1) run(1)] run assms(2) id have "k = it_task_id t" by auto
      with that run \<open>w' = w\<close> show False by (simp add: holds_lease_def)
    qed
    then show "dict_get (dict_pop w (iq_busy q)) w' = dict_get (iq_busy q) w'" by simp
  qed
  show ?thesis using assms(4)
  proof (cases rule: finish_cases)
    case lost
    with others queue_okD [OF assms(1)] show ?thesis by (intro queue_okI) simp_all
  next
    case (recorded u)
    let ?t = "t\<lparr>it_worker_id := None, it_lease_expires_at := None\<rparr>"
    have d': "d' = dict_set (it_task_id ?t) ?t (iq_tasks q)" using recorded by simp
    show ?thesis unfolding d'
    proof (rule queue_ok_overwrite [OF assms(1)])
      show "dict_get (iq_tasks q) (it_task_id ?t) = Some u" using recorded by simp
      show "it_owner_id ?t = it_owner_id u"
        using held_by_worker(2) [OF assms(1) recorded(1-3) assms(2)] assms(3)
        by (simp add: outcome_of_def same_submission_def)
      show "leased (dict_pop w (iq_busy q)) ?t"
        using assms(3) by (subst leased_not_running) (auto simp: outcome_of_def)
    qed (use recorded others in \<open>auto simp: active_def\<close>)
  qed
qed

lemma queue_ok_step:
  assumes "queue_ok q" "queue_step q q'"
  shows "queue_ok q'"
  using assms(2)
  by (cases rule: queue_step.cases)
     (simp_all add: assms(1) queue_ok_create queue_ok_delete queue_ok_pop queue_ok_recover
        queue_ok_claim queue_ok_renew queue_ok_finish task_delete_for_record_def)

lemma queue_ok_reachable: "queue_reachable q \<Longrightarrow> queue_ok q"
proof (induction rule: queue_reachable.induct)
  case start
  show ?case by (rule queue_okI) (simp_all add: active_count_def dict_values_def)
qed (rule queue_ok_step)

section \<open>Properties of the queue\<close>

definition sample_request :: image_request where
  "sample_request = \<lparr>irq_model_id = ''m'', irq_prompt = ''a cat'', irq_count = 1, irq_size = None,
     irq_quality = None, irq_output_format = None, irq_background = None, irq_result_format = None,
     irq_timeout_seconds = None, irq_metadata = [], irq_edit = None\<rparr>"

definition sample_task :: "string \<Rightarrow> string \<Rightarrow> int \<Rightarrow> image_task" where
  "sample_task task_id owner time = \<lparr>it_task_id = task_id, it_provider_id = ''p'', it_request = sample_request,
     it_session_id = None, it_owner_id = Some owner, it_status = Task_QUEUED, it_record_id = None,
     it_error_type = None, it_error_message = None, it_created_at = time, it_updated_at = time,
     it_worker_id = None, it_lease_expires_at = None\<rparr>"

definition claimed_sample :: image_task where
  "claimed_sample = (sample_task ''t'' ''ann'' 5)\<lparr>it_status := Task_RUNNING, it_worker_id := Some ''w'',
     it_lease_expires_at := Some 30, it_updated_at := 7\<rparr>"

lemma sample_queued: "queue_reachable \<lparr>iq_tasks = [(''t'', sample_task ''t'' ''ann'' 5)], iq_busy = []\<rparr>"
proof -
  have "task_create (sample_task ''t'' ''ann'' 5) [] = (Inr True, [(''t'', sample_task ''t'' ''ann'' 5)])"
    by (simp add: task_create_def active_count_def dict_values_def MAX_ACTIVE_IMAGE_TASKS_def dict_set_def
        sample_task_def)
  then have "queue_step \<lparr>iq_tasks = [], iq_busy = []\<rparr>
      (\<lparr>iq_tasks = [], iq_busy = []\<rparr>\<lparr>iq_tasks := [(''t'', sample_task ''t'' ''ann'' 5)]\<rparr>)"
    by (intro queue_step.create [of "sample_task ''t'' ''ann'' 5"]) (simp_all add: sample_task_def)
  with queue_reachable.start show ?thesis by (auto intro: queue_reachable.step)
qed

lemma sample_claimed:
  "queue_reachable \<lparr>iq_tasks = [(''t'', claimed_sample)], iq_busy = [(''w'', claimed_sample)]\<rparr>"
proof -
  let ?q = "\<lparr>iq_tasks = [(''t'', sample_task ''t'' ''ann'' 5)], iq_busy = []\<rparr> :: image_queue"
  have "task_claim 7 ''w'' 30 (iq_tasks ?q) = (Some claimed_sample, [(''t'', claimed_sample)])"
    by (simp add: task_claim_def dict_values_def dict_set_def sample_task_def claimed_sample_def Let_def)
  then have "queue_step ?q (?q\<lparr>iq_tasks := [(''t'', claimed_sample)],
      iq_busy := dict_set ''w'' claimed_sample (iq_busy ?q)\<rparr>)"
    by (intro queue_step.claim) simp_all
  then have "queue_step ?q \<lparr>iq_tasks = [(''t'', claimed_sample)], iq_busy = [(''w'', claimed_sample)]\<rparr>"
    by (simp add: dict_set_def)
  with sample_queued show ?thesis by (rule queue_reachable.step)
qed

text \<open>C17: Whatever the users and the workers do, no owner has more than ten tasks that are queued
  or running, every running task is leased to a worker, and no worker holds two running tasks.\<close>

theorem image_queue_bounded:
  assumes "queue_reachable q"
  shows "active_count owner (iq_tasks q) \<le> MAX_ACTIVE_IMAGE_TASKS
    \<and> (\<forall>k t. dict_get (iq_tasks q) k = Some t \<longrightarrow> it_status t = Task_RUNNING \<longrightarrow>
          it_worker_id t \<noteq> None \<and> it_lease_expires_at t \<noteq> None)
    \<and> (\<forall>j k t u. dict_get (iq_tasks q) j = Some t \<longrightarrow> dict_get (iq_tasks q) k = Some u \<longrightarrow>
          it_status t = Task_RUNNING \<longrightarrow> it_status u = Task_RUNNING \<longrightarrow>
          it_worker_id t = it_worker_id u \<longrightarrow> j = k)"
proof (intro conjI allI impI)
  note ok = queue_ok_reachable [OF assms]
  show "active_count owner (iq_tasks q) \<le> MAX_ACTIVE_IMAGE_TASKS"
    using queue_okD(2) [OF ok] by (simp add: MAX_ACTIVE_IMAGE_TASKS_def)
  fix j t assume t: "dict_get (iq_tasks q) j = Some t" "it_status t = Task_RUNNING"
  from queue_okD(3) [OF ok t(1)] t(2) show "it_worker_id t \<noteq> None" "it_lease_expires_at t \<noteq> None"
    by (auto simp: leased_def)
  from leased_running [OF t(2) queue_okD(3) [OF ok t(1)]] obtain w t0 where
    w: "it_worker_id t = Some w" "dict_get (iq_busy q) w = Some t0" by auto
  fix k u assume u: "dict_get (iq_tasks q) k = Some u" "it_status u = Task_RUNNING"
    "it_worker_id t = it_worker_id u"
  from held_by_worker(1) [OF ok t w] held_by_worker(1) [OF ok u(1,2) _ w(2)] w(1) u(3)
  show "j = k" by simp
qed

theorem image_queue_bounded_witness:
  "active_count (Some ''ann'') [(''t'', claimed_sample)] \<le> MAX_ACTIVE_IMAGE_TASKS"
  using image_queue_bounded [OF sample_claimed] by simp

text \<open>In every step a task keeps its owner, request and time of creation, a queued task can only be
  claimed, a running one only renewed or brought to an end, and one that ended never changes again.\<close>

lemma step_lifecycle:
  assumes "queue_reachable q" "queue_step q q'"
    and "dict_get (iq_tasks q) k = Some t" "dict_get (iq_tasks q') k = Some t'"
  shows "same_submission t t' \<and> it_created_at t' = it_created_at t
    \<and> (t' = t
       \<or> it_status t = Task_QUEUED \<and> it_status t' = Task_RUNNING
       \<or> it_status t = Task_RUNNING \<and> t' = t\<lparr>it_lease_expires_at := it_lease_expires_at t'\<rparr>
       \<or> it_status t = Task_RUNNING \<and> \<not> active t')"
proof -
  note ok = queue_ok_reachable [OF assms(1)]
  note keyed = queue_okD(1) [OF ok] and id = queue_okD(4) [OF ok]
  have same: "same_submission u u" for u by (simp add: same_submission_def)
  from assms(2) show ?thesis
  proof (cases rule: queue_step.cases)
    case (create u r d')
    from create(5) assms(3,4) create(1) show ?thesis
      by (cases rule: create_cases) (auto simp: same split: if_splits)
  next
    case (delete j scope r d')
    from delete(2) assms(3,4) delete(1) show ?thesis
      by (cases rule: delete_cases) (auto simp: same split: if_splits)
  next
    case (delete_for_record j)
    with assms(3,4) show ?thesis
      by (auto simp: same task_delete_for_record_def split: if_splits)
  next
    case (recover now clock)
    with assms(3,4) show ?thesis
      by (auto simp: same recover_expired_get [OF keyed] expired_def active_def split: if_splits)
  next
    case (claim w now l u d')
    from keyed claim(3) show ?thesis
    proof (cases rule: claim_cases)
      case (claimed v)
      with claim(1) assms(3,4) show ?thesis by (auto simp: same_submission_def split: if_splits)
    qed simp
  next
    case (renew j w l r d')
    with assms(3,4) show ?thesis
      by (auto simp: task_renew_def same_submission_def split: option.splits if_splits)
  next
    case (finish w t0 u r d')
    from finish(4) show ?thesis
    proof (cases rule: finish_cases)
      case lost
      with finish(1) assms(3,4) show ?thesis by (simp add: same)
    next
      case (recorded v)
      show ?thesis
      proof (cases "k = it_task_id u")
        case False
        with recorded finish(1) assms(3,4) show ?thesis by (simp add: same)
      next
        case True
        with recorded finish(1) assms(3,4) have
          v: "v = t" and t': "t' = u\<lparr>it_worker_id := None, it_lease_expires_at := None\<rparr>" by auto
        with held_by_worker [OF ok recorded(1-3) finish(2)] finish(3) recorded(2) show ?thesis
          by (auto simp: outcome_of_def same_submission_def active_def)
      qed
    qed
  qed
qed

text \<open>
  A history of the queue: the ids of the tasks that \<open>create\<close> stored and of those that \<open>claim\<close> handed to a
  worker, each as often as it happened.  A task is generated when it was claimed.
\<close>

definition queued_submission :: "image_task \<Rightarrow> bool" where
  "queued_submission t \<longleftrightarrow> it_status t = Task_QUEUED \<and> it_worker_id t = None \<and> it_lease_expires_at t = None"

inductive queue_history :: "string list \<Rightarrow> string list \<Rightarrow> image_queue \<Rightarrow> bool" where
  begins: "queue_history [] [] \<lparr>iq_tasks = [], iq_busy = []\<rparr>"
| stored: "queue_history created claimed q \<Longrightarrow> queued_submission t \<Longrightarrow>
    task_create t (iq_tasks q) = (Inr True, d') \<Longrightarrow>
    queue_history (it_task_id t # created) claimed (q\<lparr>iq_tasks := d'\<rparr>)"
| refused: "queue_history created claimed q \<Longrightarrow> queued_submission t \<Longrightarrow>
    task_create t (iq_tasks q) = (r, d') \<Longrightarrow> r \<noteq> Inr True \<Longrightarrow>
    queue_history created claimed (q\<lparr>iq_tasks := d'\<rparr>)"
| deleted: "queue_history created claimed q \<Longrightarrow> task_delete k scope (iq_tasks q) = (r, d') \<Longrightarrow>
    queue_history created claimed (q\<lparr>iq_tasks := d'\<rparr>)"
| record_deleted: "queue_history created claimed q \<Longrightarrow>
    queue_history created claimed (q\<lparr>iq_tasks := task_delete_for_record k (iq_tasks q)\<rparr>)"
| recovered: "queue_history created claimed q \<Longrightarrow>
    queue_history created claimed (q\<lparr>iq_tasks := task_recover_expired now clock (iq_tasks q)\<rparr>)"
| handed_out: "queue_history created claimed q \<Longrightarrow> dict_get (iq_busy q) w = None \<Longrightarrow>
    task_claim now w l (iq_tasks q) = (Some t, d') \<Longrightarrow>
    queue_history created (it_task_id t # claimed) (q\<lparr>iq_tasks := d', iq_busy := dict_set w t (iq_busy q)\<rparr>)"
| renewed: "queue_history created claimed q \<Longrightarrow> task_renew k w l (iq_tasks q) = (r, d') \<Longrightarrow>
    queue_history created claimed (q\<lparr>iq_tasks := d'\<rparr>)"
| finished: "queue_history created claimed q \<Longrightarrow> dict_get (iq_busy q) w = Some t0 \<Longrightarrow> outcome_of t0 t \<Longrightarrow>
    task_finish t w (iq_tasks q) = (r, d') \<Longrightarrow>
    queue_history created claimed (q\<lparr>iq_tasks := d', iq_busy := dict_pop w (iq_busy q)\<rparr>)"

lemma history_reachable: "queue_history created claimed q \<Longrightarrow> queue_reachable q"
proof (induction rule: queue_history.induct)
  case (stored created claimed q t d')
  from stored.hyps(2) stored.hyps(3) have "queue_step q (q\<lparr>iq_tasks := d'\<rparr>)"
    by (intro queue_step.create) (auto simp: queued_submission_def)
  with stored.IH show ?case by (rule queue_reachable.step)
next
  case (refused created claimed q t r d')
  from refused.hyps(2) refused.hyps(3) have "queue_step q (q\<lparr>iq_tasks := d'\<rparr>)"
    by (intro queue_step.create) (auto simp: queued_submission_def)
  with refused.IH show ?case by (rule queue_reachable.step)
qed (blast intro: queue_reachable.intros queue_step.intros)+

text \<open>The history leaves out no step.\<close>

lemma reachable_history: "queue_reachable q \<Longrightarrow> \<exists>created claimed. queue_history created claimed q"
proof (induction rule: queue_reachable.induct)
  case start
  show ?case by (blast intro: begins)
next
  case (step q q')
  then obtain created claimed where history: "queue_history created claimed q" by blast
  from step.hyps(2) show ?case
  proof (cases rule: queue_step.cases)
    case (create t r d')
    then have "queued_submission t" by (simp add: queued_submission_def)
    with history create show ?thesis by (cases "r = Inr True") (blast intro: stored refused)+
  qed (blast intro: history deleted record_deleted recovered handed_out renewed finished)+
qed

definition queued_at :: "string \<Rightarrow> image_tasks \<Rightarrow> bool" where
  "queued_at k d \<longleftrightarrow> (\<exists>t. dict_get d k = Some t \<and> it_status t = Task_QUEUED)"

text \<open>Nothing but a creation makes a queued task, and a claim takes one away.\<close>

lemma queued_pop: "queued_at k (dict_pop j d) \<Longrightarrow> queued_at k d"
  by (auto simp: queued_at_def split: if_splits)

lemma queued_set: "queued_at k (dict_set j t d) \<longleftrightarrow> (if k = j then it_status t = Task_QUEUED else queued_at k d)"
  by (simp add: queued_at_def)

lemma queued_delete: "task_delete j scope d = (r, d') \<Longrightarrow> queued_at k d' \<Longrightarrow> queued_at k d"
  by (erule delete_cases) (auto dest: queued_pop)

lemma queued_recover:
  "keyed it_task_id d \<Longrightarrow> queued_at k (task_recover_expired now clock d) \<Longrightarrow> queued_at k d"
  by (auto simp: queued_at_def recover_expired_get split: if_splits)

lemma queued_renew: "task_renew j w l d = (r, d') \<Longrightarrow> queued_at k d' \<Longrightarrow> queued_at k d"
  by (auto simp: queued_at_def task_renew_def split: option.splits if_splits)

lemma queued_finish:
  "outcome_of t0 t \<Longrightarrow> task_finish t w d = (r, d') \<Longrightarrow> queued_at k d' \<Longrightarrow> queued_at k d"
  by (auto simp: queued_at_def task_finish_def outcome_of_def split: option.splits if_splits)

lemma history_counts:
  "queue_history created claimed q \<Longrightarrow>
     count_list claimed k + of_bool (queued_at k (iq_tasks q)) \<le> count_list created k"
proof (induction rule: queue_history.induct)
  case begins
  show ?case by (simp add: queued_at_def)
next
  case (stored created claimed q t d')
  from stored.hyps(3) have "\<not> queued_at (it_task_id t) (iq_tasks q)" "d' = dict_set (it_task_id t) t (iq_tasks q)"
    by (auto simp: task_create_def queued_at_def split: option.splits if_splits)
  with stored.IH show ?case by (auto simp: queued_set)
next
  case (refused created claimed q t r d')
  from refused.hyps(3,4) have "d' = iq_tasks q" by (auto elim!: create_cases)
  with refused.IH show ?case by simp
next
  case (deleted created claimed q j scope r d')
  then show ?case using queued_delete [OF deleted.hyps(2), of k] by (auto simp: of_bool_def split: if_splits)
next
  case (record_deleted created claimed q j)
  then show ?case using queued_pop [of k j "iq_tasks q"]
    by (auto simp: task_delete_for_record_def of_bool_def split: if_splits)
next
  case (recovered created claimed q now clock)
  have "keyed it_task_id (iq_tasks q)"
    by (rule queue_okD(1) [OF queue_ok_reachable [OF history_reachable [OF recovered.hyps]]])
  with recovered.IH queued_recover [of "iq_tasks q" k now clock] show ?case
    by (auto simp: of_bool_def split: if_splits)
next
  case (handed_out created claimed q w now l t d')
  have "keyed it_task_id (iq_tasks q)"
    by (rule queue_okD(1) [OF queue_ok_reachable [OF history_reachable [OF handed_out.hyps(1)]]])
  from this handed_out.hyps(3) show ?case
  proof (cases rule: claim_cases)
    case (claimed u)
    then have "it_task_id t = it_task_id u" "d' = dict_set (it_task_id u) t (iq_tasks q)"
      "it_status t \<noteq> Task_QUEUED" "queued_at (it_task_id u) (iq_tasks q)"
      by (auto simp: queued_at_def)
    with handed_out.IH show ?thesis by (auto simp: queued_set)
  qed simp
next
  case (renewed created claimed q j w l r d')
  then show ?case using queued_renew [OF renewed.hyps(2), of k] by (auto simp: of_bool_def split: if_splits)
next
  case (finished created claimed q w t0 t r d')
  then show ?case using queued_finish [OF finished.hyps(3,4), of k] by (auto simp: of_bool_def split: if_splits)
qed

lemma active_task_kept:
  assumes "dict_get d k = Some t" "active t"
  shows "\<exists>e. task_delete k scope d = (Inl e, d)"
  using assms by (simp add: task_delete_def task_get_def)

text \<open>A task that is queued or running disappears only with its record.\<close>

lemma active_removed:
  assumes "queue_reachable q" "queue_step q q'" "dict_get (iq_tasks q) k = Some t" "active t"
    and "dict_get (iq_tasks q') k = None"
  shows "iq_tasks q' = task_delete_for_record k (iq_tasks q)"
proof -
  note keyed = queue_okD(1) [OF queue_ok_reachable [OF assms(1)]]
  from assms(2) show ?thesis
  proof (cases rule: queue_step.cases)
    case (create u r d')
    from create(5) assms(3,5) create(1) show ?thesis by (auto elim!: create_cases split: if_splits)
  next
    case (delete j scope r d')
    from delete(2) show ?thesis
      by (cases rule: delete_cases) (use delete(1) assms(3-5) in \<open>auto split: if_splits\<close>)
  next
    case (delete_for_record j)
    with assms(3,5) show ?thesis by (auto simp: task_delete_for_record_def split: if_splits)
  next
    case (recover now clock)
    with assms(3,5) show ?thesis by (simp add: recover_expired_get [OF keyed] split: if_splits)
  next
    case (claim w now l u d')
    from keyed claim(3) show ?thesis
      by (cases rule: claim_cases) (use claim(1) assms(3,5) in \<open>auto split: if_splits\<close>)
  next
    case (renew j w l r d')
    with assms(3,5) show ?thesis by (auto simp: task_renew_def split: option.splits if_splits)
  next
    case (finish w t0 u r d')
    with assms(3,5) show ?thesis by (auto simp: task_finish_def split: option.splits if_splits)
  qed
qed

text \<open>C18: A task is generated at most once per submission.  In any history of the queue a task is claimed
  at most as often as its id was stored, and one time less as long as it waits.  In every step a task keeps
  its owner, request and time of creation, a queued task can only be claimed, a running one only renewed or
  brought to an end, and one that ended never changes again.  A queued or running task cannot be deleted,
  whoever asks; it disappears only when the record of its id is deleted.\<close>

theorem task_lifecycle:
  assumes "queue_history created claimed q"
  shows "count_list claimed k + of_bool (queued_at k (iq_tasks q)) \<le> count_list created k
    \<and> (\<forall>q' t t'. queue_step q q' \<longrightarrow> dict_get (iq_tasks q) k = Some t \<longrightarrow> dict_get (iq_tasks q') k = Some t' \<longrightarrow>
         same_submission t t' \<and> it_created_at t' = it_created_at t
         \<and> (t' = t
            \<or> it_status t = Task_QUEUED \<and> it_status t' = Task_RUNNING
            \<or> it_status t = Task_RUNNING \<and> t' = t\<lparr>it_lease_expires_at := it_lease_expires_at t'\<rparr>
            \<or> it_status t = Task_RUNNING \<and> \<not> active t'))
    \<and> (\<forall>t scope. dict_get (iq_tasks q) k = Some t \<longrightarrow> active t \<longrightarrow>
         (\<exists>e. task_delete k scope (iq_tasks q) = (Inl e, iq_tasks q)))
    \<and> (\<forall>q' t. queue_step q q' \<longrightarrow> dict_get (iq_tasks q) k = Some t \<longrightarrow> active t \<longrightarrow>
         dict_get (iq_tasks q') k = None \<longrightarrow> iq_tasks q' = task_delete_for_record k (iq_tasks q))"
proof (intro conjI allI impI history_counts [OF assms])
  note reachable = history_reachable [OF assms]
  fix q' t t' assume "queue_step q q'" "dict_get (iq_tasks q) k = Some t" "dict_get (iq_tasks q') k = Some t'"
  from step_lifecycle [OF reachable this]
  show "same_submission t t'" "it_created_at t' = it_created_at t" "t' = t
       \<or> it_status t = Task_QUEUED \<and> it_status t' = Task_RUNNING
       \<or> it_status t = Task_RUNNING \<and> t' = t\<lparr>it_lease_expires_at := it_lease_expires_at t'\<rparr>
       \<or> it_status t = Task_RUNNING \<and> \<not> active t'" by blast+
qed (blast intro: active_task_kept active_removed [OF history_reachable [OF assms]])+

lemma sample_history: "queue_history [''t''] [''t'']
    \<lparr>iq_tasks = [(''t'', claimed_sample)], iq_busy = [(''w'', claimed_sample)]\<rparr>"
proof -
  let ?t = "sample_task ''t'' ''ann'' 5"
  have "queue_history [''t''] [] \<lparr>iq_tasks = [(''t'', ?t)], iq_busy = []\<rparr>"
    using stored [OF begins, of ?t "[(''t'', ?t)]"]
    by (simp add: queued_submission_def sample_task_def task_create_def active_count_def dict_values_def dict_set_def
        MAX_ACTIVE_IMAGE_TASKS_def)
  from handed_out [OF this, of "''w''" 7 30 claimed_sample "[(''t'', claimed_sample)]"] show ?thesis
    by (simp add: task_claim_def dict_values_def dict_set_def sample_task_def claimed_sample_def Let_def)
qed

theorem task_lifecycle_witness:
  "count_list [''t''] ''t'' \<le> count_list [''t''] ''t''
    \<and> (\<exists>e. task_delete ''t'' None [(''t'', claimed_sample)] = (Inl e, [(''t'', claimed_sample)]))"
  using task_lifecycle [OF sample_history, of "''t''"]
  by (simp add: dict_get_Cons claimed_sample_def active_def queued_at_def)

text \<open>The result of a worker is recorded only on the very task that the worker claimed and
  whose lease it still holds: then owner, request and creation time are the stored ones and the lease
  is given back; a worker whose lease was lost, to a recovery or a deletion, changes nothing.\<close>

theorem result_recorded_on_claim:
  assumes "queue_reachable q" "dict_get (iq_busy q) w = Some t0" "outcome_of t0 t"
  shows "case dict_get (iq_tasks q) (it_task_id t0) of
      Some u \<Rightarrow>
        if it_status u = Task_RUNNING \<and> it_worker_id u = Some w
        then same_submission t u \<and> it_created_at t = it_created_at u
          \<and> task_finish t w (iq_tasks q) = (True, dict_set (it_task_id t0)
                (t\<lparr>it_worker_id := None, it_lease_expires_at := None\<rparr>) (iq_tasks q))
        else task_finish t w (iq_tasks q) = (False, iq_tasks q)
    | None \<Rightarrow> task_finish t w (iq_tasks q) = (False, iq_tasks q)"
proof (cases "dict_get (iq_tasks q) (it_task_id t0)")
  case None
  with assms(3) show ?thesis by (simp add: task_finish_def outcome_of_def)
next
  case (Some u)
  show ?thesis
  proof (cases "it_status u = Task_RUNNING \<and> it_worker_id u = Some w")
    case False
    with Some assms(3) show ?thesis by (auto simp: task_finish_def outcome_of_def)
  next
    case True
    with held_by_worker [OF queue_ok_reachable [OF assms(1)] Some _ _ assms(2)] Some assms(3)
    show ?thesis by (auto simp: task_finish_def outcome_of_def same_submission_def)
  qed
qed

theorem result_recorded_on_claim_witness:
  "task_finish (claimed_sample\<lparr>it_status := Task_SUCCEEDED\<rparr>) ''w'' [(''t'', claimed_sample)]
     = (True, [(''t'', (sample_task ''t'' ''ann'' 5)\<lparr>it_status := Task_SUCCEEDED, it_updated_at := 7\<rparr>)])"
proof -
  have busy: "dict_get (iq_busy \<lparr>iq_tasks = [(''t'', claimed_sample)], iq_busy = [(''w'', claimed_sample)]\<rparr>) ''w''
      = Some claimed_sample" by (simp add: dict_get_Cons)
  have outcome: "outcome_of claimed_sample (claimed_sample\<lparr>it_status := Task_SUCCEEDED\<rparr>)"
    by (simp add: outcome_of_def same_submission_def)
  from result_recorded_on_claim [OF sample_claimed busy outcome]
  show ?thesis by (simp add: dict_get_Cons dict_set_def claimed_sample_def sample_task_def)
qed

text \<open>\<open>claim\<close> hands out the oldest queued task, if there is one, marked as running under the
  lease of the worker, and changes no other task; it hands out nothing only when nothing is queued.\<close>

theorem claim_takes_oldest:
  assumes "queue_reachable q"
  shows "case task_claim now w l (iq_tasks q) of
      (None, d') \<Rightarrow> d' = iq_tasks q \<and> (\<forall>t \<in> set (dict_values d'). it_status t \<noteq> Task_QUEUED)
    | (Some t, d') \<Rightarrow>
        it_status t = Task_RUNNING \<and> it_worker_id t = Some w \<and> it_lease_expires_at t = Some l
        \<and> (\<exists>u. dict_get (iq_tasks q) (it_task_id t) = Some u \<and> it_status u = Task_QUEUED
             \<and> same_submission t u \<and> task_key t = task_key u)
        \<and> (\<forall>u \<in> set (dict_values (iq_tasks q)). it_status u = Task_QUEUED \<longrightarrow> task_key t \<le> task_key u)
        \<and> d' = dict_set (it_task_id t) t (iq_tasks q)"
proof -
  obtain r d' where c: "task_claim now w l (iq_tasks q) = (r, d')" by fastforce
  from queue_okD(1) [OF queue_ok_reachable [OF assms]] c show ?thesis
  proof (cases rule: claim_cases)
    case nothing
    with c show ?thesis by simp
  next
    case (claimed t)
    with c show ?thesis by (simp add: same_submission_def task_key_def)
  qed
qed

theorem claim_takes_oldest_witness:
  "fst (task_claim 7 ''w'' 30 [(''t'', sample_task ''t'' ''ann'' 5)]) \<noteq> None"
  using claim_takes_oldest [OF sample_queued, where now = 7 and w = "''w''" and l = 30]
  by (auto simp: dict_values_def sample_task_def split: prod.splits option.splits)

text \<open>\<open>recover_expired\<close> interrupts exactly the running tasks whose lease is over, releases them
  and leaves all others alone; after it the worker that lost the lease can neither renew it nor record
  a result.\<close>

theorem recovery_exact:
  assumes "queue_reachable q"
  shows "(\<forall>k. dict_get (task_recover_expired now clock (iq_tasks q)) k =
        (case dict_get (iq_tasks q) k of
           None \<Rightarrow> None
         | Some t \<Rightarrow> Some (if it_status t = Task_RUNNING \<and> the (it_lease_expires_at t) \<le> now
                           then interrupted (clock k) t else t)))
    \<and> (\<forall>k t. dict_get (iq_tasks q) k = Some t \<longrightarrow> it_status t = Task_RUNNING \<longrightarrow>
          the (it_lease_expires_at t) \<le> now \<longrightarrow>
          (\<forall>w l. let d = task_recover_expired now clock (iq_tasks q) in
             task_renew k w l d = (False, d)
             \<and> (\<forall>u. it_task_id u = k \<longrightarrow> task_finish u w d = (False, d))))"
proof -
  note ok = queue_ok_reachable [OF assms]
  have lease: "it_lease_expires_at t \<noteq> None"
    if "dict_get (iq_tasks q) k = Some t" "it_status t = Task_RUNNING" for k t
    using queue_okD(3) [OF ok that(1)] that(2) by (auto simp: leased_def)
  note get = recover_expired_get [OF queue_okD(1) [OF ok]]
  have all: "dict_get (task_recover_expired now clock (iq_tasks q)) k =
        (case dict_get (iq_tasks q) k of
           None \<Rightarrow> None
         | Some t \<Rightarrow> Some (if it_status t = Task_RUNNING \<and> the (it_lease_expires_at t) \<le> now
                           then interrupted (clock k) t else t))" for k
    using lease [of k] queue_okD(4) [OF ok, of k]
    by (auto simp: get expired_def split: option.splits)
  then show ?thesis by (simp add: task_renew_def task_finish_def Let_def)
qed

theorem recovery_exact_witness:
  "dict_get (task_recover_expired 31 (\<lambda>_. 40) [(''t'', claimed_sample)]) ''t''
     = Some (interrupted 40 claimed_sample)"
  using recovery_exact [OF sample_claimed, of 31 "\<lambda>_. 40"]
  by (simp add: dict_get_Cons claimed_sample_def)

end
