(* ===== verification/ImageApplication.thy ===== *)
theory ImageApplication
  imports ImageTasks Sessions Providers
begin

text \<open>
  The use cases on images: generation with its persistence (\<open>application/image.py\<close>) and background
  tasks (\<open>application/image_task.py\<close>), with the paging of both histories.

  The calls of a provider and the archive that downloads images are code behind protocols: they are
  parameters.  A call that is awaited under \<open>asyncio.timeout\<close> returns, raises or is cut off.  What other
  tasks do to the store of records while the archive is awaited is the parameter \<open>meanwhile\<close>.  The
  texts that the source has in Chinese are translated.
\<close>

datatype 'a awaited = Returned 'a | Raised error | Timed_out

section \<open>Generation and persistence\<close>

record image_calls =
  ic_generate :: "string \<Rightarrow> image_request \<Rightarrow> image_response awaited"
  ic_edit :: "string \<Rightarrow> image_request \<Rightarrow> image_response awaited"

record image_env =
  ie_calls :: image_calls
  ie_archive :: "(image_response \<Rightarrow> image_response awaited) option"
  ie_meanwhile :: "image_records \<Rightarrow> image_records"
  ie_fresh_id :: string
  ie_now :: int

definition incomplete :: "image_response \<Rightarrow> bool" where
  "incomplete r \<longleftrightarrow> (\<exists>i \<in> set (irs_images r). gi_base64_data i = None \<or> gi_base64_data i = Some [])"

definition new_record ::
  "image_env \<Rightarrow> string \<Rightarrow> image_request \<Rightarrow> image_response \<Rightarrow> principal_scope option \<Rightarrow> string option
     \<Rightarrow> image_record" where
  "new_record env provider_id request response scope record_id =
     (let rid = (case record_id of None \<Rightarrow> ie_fresh_id env | Some r \<Rightarrow> r)
      in \<lparr>ir_record_id = rid,
          ir_owner_id = (case scope of None \<Rightarrow> None | Some s \<Rightarrow> scope_owner_id s),
          ir_provider_id = provider_id, ir_request = request,
          ir_response = response\<lparr>irs_record_id := Some rid,
            irs_warning := (if incomplete response then Some Archive_incomplete else None)\<rparr>,
          ir_created_at = ie_now env\<rparr>)"

definition update_archived ::
  "image_record \<Rightarrow> image_response \<Rightarrow> image_records \<Rightarrow> image_response \<times> image_records" where
  "update_archived rec response d =
     (case record_update (rec\<lparr>ir_response := response\<rparr>) d of
        (Inr _, d') \<Rightarrow> (response, d')
      | (Inl e, d') \<Rightarrow>
          if isinstance (error_class e) (Image ImageRecordNotFoundError)
          then (response\<lparr>irs_record_id := None, irs_warning := Some Record_deleted\<rparr>, d')
          else (response\<lparr>irs_warning := Some Save_failed\<rparr>, d'))"

definition image_persist ::
  "image_env \<Rightarrow> string \<Rightarrow> image_request \<Rightarrow> image_response \<Rightarrow> principal_scope option \<Rightarrow> string option
     \<Rightarrow> image_records \<Rightarrow> image_response awaited \<times> image_records" where
  "image_persist env provider_id request response scope record_id d =
     (let rec = new_record env provider_id request response scope record_id;
          response = ir_response rec
      in case record_save rec d of
           (Inl _, d) \<Rightarrow>
             (Returned (response\<lparr>irs_record_id := None, irs_warning := Some Save_failed\<rparr>), d)
         | (Inr _, d) \<Rightarrow>
             (case ie_archive env of
                None \<Rightarrow> (Returned response, d)
              | Some archive \<Rightarrow>
                  if irs_warning response = None then (Returned response, d)
                  else case archive response of
                         Timed_out \<Rightarrow> (Timed_out, ie_meanwhile env d)
                       | Raised _ \<Rightarrow> (Returned response, ie_meanwhile env d)
                       | Returned response \<Rightarrow>
                           (let (response, d) = update_archived rec response (ie_meanwhile env d)
                            in (Returned response, d))))"

definition image_generate ::
  "image_env \<Rightarrow> string \<Rightarrow> image_request \<Rightarrow> principal_scope option \<Rightarrow> string option
     \<Rightarrow> image_records \<Rightarrow> image_response awaited \<times> image_records" where
  "image_generate env provider_id request scope record_id d =
     (case ic_generate (ie_calls env) provider_id request of
        Returned response \<Rightarrow> image_persist env provider_id request response scope record_id d
      | Raised e \<Rightarrow> (Raised e, d)
      | Timed_out \<Rightarrow> (Timed_out, d))"

definition image_edit ::
  "image_env \<Rightarrow> string \<Rightarrow> image_request \<Rightarrow> principal_scope option \<Rightarrow> string option
     \<Rightarrow> image_records \<Rightarrow> image_response awaited \<times> image_records" where
  "image_edit env provider_id request scope record_id d =
     (case ic_edit (ie_calls env) provider_id request of
        Returned response \<Rightarrow> image_persist env provider_id request response scope record_id d
      | Raised e \<Rightarrow> (Raised e, d)
      | Timed_out \<Rightarrow> (Timed_out, d))"

definition delete_record ::
  "string \<Rightarrow> principal_scope option \<Rightarrow> image_records \<Rightarrow> image_tasks
     \<Rightarrow> (error + unit) \<times> image_records \<times> image_tasks" where
  "delete_record record_id scope d tasks =
     (case record_delete record_id scope d of
        (Inl e, d) \<Rightarrow> (Inl e, d, tasks)
      | (Inr _, d) \<Rightarrow> (Inr (), d, task_delete_for_record record_id tasks))"

section \<open>Paging\<close>

text \<open>The JSON text of a cursor is written and read by pydantic.\<close>

record cursor_codec =
  cd_dump :: "history_cursor \<Rightarrow> string"
  cd_load :: "string \<Rightarrow> history_cursor option"

record 'i page =
  pg_items :: "'i list"
  pg_next_cursor :: "string option"

definition load_cursor :: "cursor_codec \<Rightarrow> string \<Rightarrow> string option \<Rightarrow> error + history_cursor option" where
  "load_cursor codec msg cursor =
     (if cursor = None \<or> cursor = Some [] then Inr None
      else case cd_load codec (the cursor) of
             Some c \<Rightarrow> Inr (Some c)
           | None \<Rightarrow> Inl (raised (Image ImageHistoryInputError) msg))"

definition list_records ::
  "cursor_codec \<Rightarrow> int \<Rightarrow> string option \<Rightarrow> principal_scope option \<Rightarrow> image_records
     \<Rightarrow> error + image_summary page" where
  "list_records codec limit cursor scope d =
     (if \<not> (1 \<le> limit \<and> limit \<le> 100)
      then Inl (raised (Image ImageHistoryInputError) ''Image history limit must be between 1 and 100'')
      else bind_e (load_cursor codec ''Invalid image history cursor'' cursor) (\<lambda>position.
        let records = record_list (nat (limit + 1)) position scope d;
            items = take (nat limit) records
        in Inr \<lparr>pg_items = items,
                pg_next_cursor =
                  (if length records > nat limit
                   then let last = last items
                        in Some (cd_dump codec
                             \<lparr>hc_created_at = is_created_at last, hc_record_id = is_record_id last\<rparr>)
                   else None)\<rparr>))"

definition recover_result ::
  "image_records \<Rightarrow> principal_scope option \<Rightarrow> image_task_summary \<Rightarrow> image_task_summary" where
  "recover_result records scope s =
     (if its_status s \<noteq> Task_INTERRUPTED \<and> its_status s \<noteq> Task_FAILED then s
      else case record_get (its_task_id s) scope records of
             Inl _ \<Rightarrow> s
           | Inr r \<Rightarrow>
               s\<lparr>its_record_id := Some (ir_record_id r),
                 its_error_message := Some
                   ((case its_error_message s of
                       None \<Rightarrow> ''Task interrupted.''
                     | Some m \<Rightarrow> if m = [] then ''Task interrupted.'' else m)
                    @ '' The images that were returned can still be viewed.'')\<rparr>)"

definition list_image_tasks ::
  "cursor_codec \<Rightarrow> int \<Rightarrow> string option \<Rightarrow> string option \<Rightarrow> principal_scope option
     \<Rightarrow> image_records \<Rightarrow> image_tasks \<Rightarrow> error + image_task_summary page" where
  "list_image_tasks codec limit cursor session_id scope records d =
     (if \<not> (1 \<le> limit \<and> limit \<le> 100)
      then Inl (raised (Image ImageHistoryInputError) ''Image task limit must be between 1 and 100'')
      else bind_e (load_cursor codec ''Invalid image task cursor'' cursor) (\<lambda>position.
        let tasks = task_list (nat (limit + 1)) position session_id scope d;
            items = map (recover_result records scope) (take (nat limit) tasks)
        in Inr \<lparr>pg_items = items,
                pg_next_cursor =
                  (if length tasks > nat limit
                   then let last = last items
                        in Some (cd_dump codec
                             \<lparr>hc_created_at = its_created_at last, hc_record_id = its_task_id last\<rparr>)
                   else None)\<rparr>))"

section \<open>Background tasks\<close>

record image_submission =
  isb_task_id :: string
  isb_provider_id :: string
  isb_request :: image_request
  isb_session_id :: "string option"

definition new_task :: "image_submission \<Rightarrow> principal_scope option \<Rightarrow> int \<Rightarrow> image_task" where
  "new_task sub scope now =
     \<lparr>it_task_id = isb_task_id sub, it_provider_id = isb_provider_id sub, it_request = isb_request sub,
      it_session_id = isb_session_id sub,
      it_owner_id = (case scope of None \<Rightarrow> None | Some s \<Rightarrow> scope_owner_id s),
      it_status = Task_QUEUED, it_record_id = None, it_error_type = None, it_error_message = None,
      it_created_at = now, it_updated_at = now, it_worker_id = None, it_lease_expires_at = None\<rparr>"

definition get_image_task ::
  "string \<Rightarrow> principal_scope option \<Rightarrow> image_records \<Rightarrow> image_tasks \<Rightarrow> error + image_task_summary" where
  "get_image_task task_id scope records d =
     bind_e (task_get_summary task_id scope d) (\<lambda>s. Inr (recover_result records scope s))"

text \<open>\<open>executor\<close> is \<open>None\<close> when no executor is configured, and else whether it is closing.\<close>

record submit_env =
  se_infos :: "string \<Rightarrow> error + provider_info"
  se_sessions :: session_register
  se_records :: image_records
  se_executor :: "bool option"
  se_now :: int

definition check_model :: "provider_info \<Rightarrow> image_request \<Rightarrow> error + unit" where
  "check_model info request =
     (case find (\<lambda>m. pmc_model_id m = irq_model_id request) (dict_values (pi_model info)) of
        None \<Rightarrow> Inr ()
      | Some model \<Rightarrow>
          if pmc_capabilities model \<noteq> [] \<and> Cap_IMAGE_GENERATION \<notin> set (pmc_capabilities model)
          then Inl (raised (Provider ProviderCapabilityUnsupportedError)
                 ''The model does not support image generation'')
          else Inr ())"

text \<open>Everything \<open>submit\<close> checks before it writes.\<close>

definition check_submission ::
  "submit_env \<Rightarrow> image_task \<Rightarrow> principal_scope option \<Rightarrow> error + bool" where
  "check_submission env t scope =
     bind_e (se_infos env (it_provider_id t)) (\<lambda>info.
     if \<not> pi_is_enabled info
     then Inl (raised (Provider ProviderDisabledError) ''The image provider is disabled'')
     else bind_e (check_model info (it_request t)) (\<lambda>_.
          bind_e (case it_session_id t of
                    None \<Rightarrow> Inr ()
                  | Some sid \<Rightarrow> bind_e (session_get scope sid (se_sessions env)) (\<lambda>_. Inr ())) (\<lambda>_.
          case se_executor env of
            None \<Rightarrow> Inl (raised (Base ConfigurationError) ''Background image tasks are not configured'')
          | Some closing \<Rightarrow> Inr closing)))"

definition submit_image_task ::
  "submit_env \<Rightarrow> image_submission \<Rightarrow> principal_scope option
     \<Rightarrow> (error, image_tasks, image_task_summary) act" where
  "submit_image_task env sub scope d =
     (let t = new_task sub scope (se_now env)
      in case task_get (it_task_id t) scope d of
           Inr previous \<Rightarrow>
             if \<not> same_submission previous t
             then (Inl (raised (Image ImageTaskConflictError)
                     ''Image task ID already belongs to another request''), d)
             else (get_image_task (it_task_id previous) scope (se_records env) d, d)
         | Inl _ \<Rightarrow>
             (case check_submission env t scope of
                Inl e \<Rightarrow> (Inl e, d)
              | Inr closing \<Rightarrow>
                  (case task_create t d of
                     (Inl e, d) \<Rightarrow> (Inl e, d)
                   | (Inr _, d) \<Rightarrow>
                       if closing
                       then (Inl (raised (PyException ''RuntimeError'')
                               ''Image task executor is closing''), d)
                       else (bind_e (task_get (it_task_id t) scope d) (\<lambda>t. Inr (task_summary t)), d))))"

text \<open>The three \<open>except\<close> clauses, in their order: the error type and the message that are recorded.\<close>

definition task_failure :: "error \<Rightarrow> string \<times> string" where
  "task_failure e =
     (case error_class e of
        Provider p \<Rightarrow> (class_name (Provider p), error_message e)
      | c \<Rightarrow>
          if c = PyException ''TimeoutError''
          then (''ImageTaskTimeout'', ''The image task timed out and was not generated again.'')
          else (''ImageTaskError'', ''The image task failed and was not generated again.''))"

definition failed_task :: "int \<Rightarrow> string \<times> string \<Rightarrow> image_task \<Rightarrow> image_task" where
  "failed_task now failure t =
     t\<lparr>it_status := Task_FAILED, it_error_type := Some (fst failure),
       it_error_message := Some (take 2000 (snd failure)), it_updated_at := now\<rparr>"

definition execute_image_task :: "image_env \<Rightarrow> image_task \<Rightarrow> image_records \<Rightarrow> image_task \<times> image_records" where
  "execute_image_task env t d =
     (let scope = Some \<lparr>scope_owner_id = it_owner_id t\<rparr>;
          run = (if irq_edit (it_request t) \<noteq> None then image_edit else image_generate)
      in case run env (it_provider_id t) (it_request t) scope (Some (it_task_id t)) d of
           (Returned response, d) \<Rightarrow>
             if irs_record_id response = None \<or> irs_record_id response = Some []
             then (failed_task (ie_now env) (''ImagePersistenceError'',
                     ''The images could not be saved or were deleted, please check the history.'') t, d)
             else (t\<lparr>it_status := Task_SUCCEEDED, it_record_id := irs_record_id response,
                     it_updated_at := ie_now env\<rparr>, d)
         | (Raised e, d) \<Rightarrow> (failed_task (ie_now env) (task_failure e) t, d)
         | (Timed_out, d) \<Rightarrow>
             (failed_task (ie_now env) (task_failure (raised (PyException ''TimeoutError'') [])) t, d))"

section \<open>Walking through a history\<close>

text \<open>
  A client that asks for the first page and follows the cursors.  \<open>n\<close> bounds the number of pages; the
  walk succeeds only if it comes to a page without a cursor.
\<close>

fun walk :: "(string option \<Rightarrow> error + 'i page) \<Rightarrow> nat \<Rightarrow> string option \<Rightarrow> 'i page list option" where
  "walk page 0 cursor = None"
| "walk page (Suc n) cursor =
     (case page cursor of
        Inl _ \<Rightarrow> None
      | Inr p \<Rightarrow>
          (case pg_next_cursor p of
             None \<Rightarrow> Some [p]
           | Some c \<Rightarrow> map_option ((#) p) (walk page n (Some c))))"

definition page_of :: "('i \<Rightarrow> string) \<Rightarrow> nat \<Rightarrow> 'i list \<Rightarrow> 'i page" where
  "page_of cursor n xs =
     \<lparr>pg_items = take n xs,
      pg_next_cursor = (if length xs > n then Some (cursor (last (take n xs))) else None)\<rparr>"

text \<open>
  What the two histories promise: a history is strictly ordered, and a page holds what comes after its
  cursor.  \<open>'q\<close> is the query with the store it reads.
\<close>

locale paged_history =
  fixes items :: "'q \<Rightarrow> 'i list"
    and key :: "'i \<Rightarrow> int \<times> string"
    and page :: "'q \<Rightarrow> nat \<Rightarrow> string option \<Rightarrow> error + 'i page"
    and cursor :: "'q \<Rightarrow> 'i \<Rightarrow> string"
    and ok :: "'q \<Rightarrow> bool"
  assumes newest_first: "ok q \<Longrightarrow> sorted_wrt (\<lambda>a b. key b < key a) (items q)"
    and first_page:
      "ok q \<Longrightarrow> 1 \<le> n \<Longrightarrow> n \<le> 100 \<Longrightarrow> page q n None = Inr (page_of (cursor q) n (items q))"
    and next_page:
      "ok q \<Longrightarrow> 1 \<le> n \<Longrightarrow> n \<le> 100 \<Longrightarrow> i \<in> set (items q) \<Longrightarrow>
         page q n (Some (cursor q i))
           = Inr (page_of (cursor q) n (filter (\<lambda>j. key j < key i) (items q)))"
begin

lemma after_item:
  assumes "ok q" "items q = pre @ rest" "pre \<noteq> []"
  shows "filter (\<lambda>j. key j < key (last pre)) (items q) = rest"
proof -
  have split: "items q = butlast pre @ last pre # rest" using assms by simp
  have sorted: "sorted_wrt (\<lambda>a b. key b < key a) (butlast pre @ last pre # rest)"
    using newest_first [OF assms(1)] split by simp
  have "filter (\<lambda>j. key j < key (last pre)) (butlast pre) = []"
    using sorted by (auto simp: sorted_wrt_append filter_empty_conv)
  moreover have "filter (\<lambda>j. key j < key (last pre)) rest = rest"
    using sorted by (simp add: sorted_wrt_append)
  ultimately show ?thesis by (simp add: split)
qed

lemma page_at:
  assumes "ok q" "1 \<le> n" "n \<le> 100" "items q = pre @ rest"
  shows "page q n (if pre = [] then None else Some (cursor q (last pre))) = Inr (page_of (cursor q) n rest)"
proof (cases "pre = []")
  case True
  with first_page [OF assms(1-3)] assms(4) show ?thesis by simp
next
  case False
  with assms(4) have "last pre \<in> set (items q)" by simp
  from next_page [OF assms(1-3) this] after_item [OF assms(1,4) False] False show ?thesis by simp
qed

lemma walk_from:
  assumes "ok q" "1 \<le> n" "n \<le> 100" "items q = pre @ rest" "length rest < fuel"
  shows "\<exists>ps. walk (page q n) fuel (if pre = [] then None else Some (cursor q (last pre))) = Some ps
    \<and> concat (map pg_items ps) = rest \<and> (\<forall>p \<in> set ps. length (pg_items p) \<le> n)"
  using assms(4,5)
proof (induction fuel arbitrary: pre rest)
  case 0
  then show ?case by simp
next
  case (Suc fuel)
  note page = page_at [OF assms(1-3) Suc.prems(1)]
  show ?case
  proof (cases "length rest > n")
    case False
    with page show ?thesis by (simp add: page_of_def)
  next
    case True
    let ?pre = "pre @ take n rest"
    from True assms(2) have ne: "take n rest \<noteq> []" by auto
    then have following: "pg_next_cursor (page_of (cursor q) n rest) = Some (cursor q (last ?pre))"
      using True by (simp add: page_of_def)
    have "items q = ?pre @ drop n rest" using Suc.prems(1) by simp
    moreover have "length (drop n rest) < fuel" using Suc.prems(2) assms(2) True by simp
    ultimately obtain ps where
      ps: "walk (page q n) fuel (Some (cursor q (last ?pre))) = Some ps"
        "concat (map pg_items ps) = drop n rest" "\<forall>p \<in> set ps. length (pg_items p) \<le> n"
      using Suc.IH [of ?pre "drop n rest"] ne by auto
    have "walk (page q n) (Suc fuel) (if pre = [] then None else Some (cursor q (last pre)))
        = Some (page_of (cursor q) n rest # ps)"
      using page following ps(1) by (cases "pre = []") simp_all
    with ps show ?thesis by (simp add: page_of_def)
  qed
qed

lemma walk_complete:
  assumes "ok q" "1 \<le> n" "n \<le> 100" "length (items q) < fuel"
  shows "\<exists>ps. walk (page q n) fuel None = Some ps \<and> concat (map pg_items ps) = items q
    \<and> (\<forall>p \<in> set ps. length (pg_items p) \<le> n)"
  using walk_from [OF assms(1-3), of "[]" "items q" fuel] assms(4) by simp

lemma items_distinct: "ok q \<Longrightarrow> distinct (items q)"
  using newest_first by (simp add: distinct_conv_nth) (metis less_irrefl linorder_neqE_nat sorted_wrt_nth_less)

end

subsection \<open>The two histories\<close>

lemma set_sort_reverse [simp]: "set (sort_reverse key xs) = set xs"
  by (simp add: sort_reverse_def)

lemma filter_sort_reverse: "filter P (sort_reverse key xs) = sort_reverse key (filter P xs)"
  by (simp add: sort_reverse_def filter_sort flip: rev_filter)

lemma sort_reverse_strict:
  assumes "distinct (map key xs)"
  shows "sorted_wrt (\<lambda>a b. key b < key a) (sort_reverse key xs)"
proof -
  let ?s = "sort_key key (rev xs)"
  have "distinct (map key ?s)" using assms by (simp add: distinct_map_sort_key rev_map [symmetric])
  then have "sorted_wrt (<) (map key ?s)" by (simp add: strict_sorted_iff)
  then show ?thesis by (simp add: sort_reverse_def sorted_wrt_rev sorted_wrt_map)
qed

definition codec_ok :: "cursor_codec \<Rightarrow> bool" where
  "codec_ok codec \<longleftrightarrow> (\<forall>c. 1 \<le> length (hc_record_id c) \<and> length (hc_record_id c) \<le> 64 \<longrightarrow>
     cd_dump codec c \<noteq> [] \<and> cd_load codec (cd_dump codec c) = Some c)"

definition id_ok :: "string \<Rightarrow> bool" where
  "id_ok s \<longleftrightarrow> 1 \<le> length s \<and> length s \<le> 64"

lemma load_dumped:
  "codec_ok codec \<Longrightarrow> id_ok (hc_record_id c) \<Longrightarrow> load_cursor codec msg (Some (cd_dump codec c)) = Inr (Some c)"
  by (simp add: load_cursor_def codec_ok_def id_ok_def)

text \<open>What a history is meant to hold: every permitted entry, the newest first.\<close>

definition record_history :: "principal_scope option \<Rightarrow> image_records \<Rightarrow> image_summary list" where
  "record_history scope d =
     map record_summary (sort_reverse record_key
       (filter (\<lambda>r. scope_permits scope (ir_owner_id r)) (dict_values d)))"

definition task_history ::
  "string option \<Rightarrow> principal_scope option \<Rightarrow> image_records \<Rightarrow> image_tasks \<Rightarrow> image_task_summary list" where
  "task_history session_id scope records d =
     map (\<lambda>t. recover_result records scope (task_summary t)) (sort_reverse task_key
       (filter (\<lambda>t. scope_permits scope (it_owner_id t)
          \<and> (session_id = None \<or> it_session_id t = session_id)) (dict_values d)))"

definition record_cursor :: "cursor_codec \<Rightarrow> image_summary \<Rightarrow> string" where
  "record_cursor codec s = cd_dump codec \<lparr>hc_created_at = is_created_at s, hc_record_id = is_record_id s\<rparr>"

definition task_cursor :: "cursor_codec \<Rightarrow> image_task_summary \<Rightarrow> string" where
  "task_cursor codec s = cd_dump codec \<lparr>hc_created_at = its_created_at s, hc_record_id = its_task_id s\<rparr>"

lemma recover_result_sel [simp]:
  "its_task_id (recover_result records scope s) = its_task_id s"
  "its_created_at (recover_result records scope s) = its_created_at s"
  by (simp_all add: recover_result_def split: sum.split)

lemma summary_sel [simp]:
  "is_created_at (record_summary r) = ir_created_at r" "is_record_id (record_summary r) = ir_record_id r"
  "its_created_at (task_summary t) = it_created_at t" "its_task_id (task_summary t) = it_task_id t"
  by (simp_all add: record_summary_def task_summary_def)

lemma keyed_distinct_keys:
  "keyed key d \<Longrightarrow> distinct (map (\<lambda>r. (f r, key r)) (filter P (dict_values d)))"
proof -
  assume "keyed key d"
  then have "distinct (map key (filter P (dict_values d)))"
    using keyed_values_distinct [of key d] by (simp add: distinct_map_filter)
  then have "distinct (map snd (map (\<lambda>r. (f r, key r)) (filter P (dict_values d))))"
    by (simp add: comp_def)
  then show ?thesis by (simp only: distinct_map)
qed

lemma record_listing:
  "record_list n position scope d =
     take n (filter (\<lambda>s. before_cursor position (is_created_at s, is_record_id s)) (record_history scope d))"
  by (simp add: record_list_def record_history_def filter_map comp_def take_map record_key_def)

lemma task_listing:
  "map (recover_result records scope) (task_list n position session_id scope d) =
     take n (filter (\<lambda>s. before_cursor position (its_created_at s, its_task_id s))
       (task_history session_id scope records d))"
  by (simp add: task_list_def task_history_def filter_map comp_def take_map task_key_def
      filter_sort_reverse Let_def conj_ac)

type_synonym record_query = "cursor_codec \<times> principal_scope option \<times> image_records"
type_synonym task_query = "cursor_codec \<times> string option \<times> principal_scope option \<times> image_records \<times> image_tasks"

lemma list_records_at:
  assumes "load_cursor codec ''Invalid image history cursor'' cursor = Inr position" "1 \<le> n" "n \<le> 100"
  shows "list_records codec (int n) cursor scope d =
    Inr (page_of (record_cursor codec) n
      (filter (\<lambda>s. before_cursor position (is_created_at s, is_record_id s)) (record_history scope d)))"
  using assms
  by (simp add: list_records_def page_of_def record_listing record_cursor_def Let_def nat_add_distrib
      min_def)

lemma list_image_tasks_at:
  assumes "load_cursor codec ''Invalid image task cursor'' cursor = Inr position" "1 \<le> n" "n \<le> 100"
  shows "list_image_tasks codec (int n) cursor session_id scope records d =
    Inr (page_of (task_cursor codec) n
      (filter (\<lambda>s. before_cursor position (its_created_at s, its_task_id s))
        (task_history session_id scope records d)))"
proof -
  let ?l = "task_list (Suc n) position session_id scope d"
  let ?h = "filter (\<lambda>s. before_cursor position (its_created_at s, its_task_id s))
        (task_history session_id scope records d)"
  have m: "nat (int n + 1) = Suc n" by simp
  have l: "map (recover_result records scope) ?l = take (Suc n) ?h"
    by (rule task_listing)
  then have "length ?l = min (length ?h) (Suc n)" by (metis length_map length_take)
  then have len: "n < length ?l \<longleftrightarrow> n < length ?h" by (simp add: min_def)
  have items: "map (recover_result records scope) (take n ?l) = take n ?h"
    unfolding take_map [symmetric] l by (simp add: min_def)
  show ?thesis
    unfolding list_image_tasks_def assms(1) bind_e_Inr Let_def m nat_int items len page_of_def task_cursor_def
    using assms(2,3) by simp
qed

lemma record_history_strict:
  "keyed ir_record_id d \<Longrightarrow> sorted_wrt
     (\<lambda>a b. (is_created_at b, is_record_id b) < (is_created_at a, is_record_id a)) (record_history scope d)"
proof -
  have key: "record_key = (\<lambda>r. (ir_created_at r, ir_record_id r))" by (simp add: fun_eq_iff record_key_def)
  show "keyed ir_record_id d \<Longrightarrow> ?thesis"
    unfolding record_history_def key sorted_wrt_map summary_sel
    by (rule sort_reverse_strict) (rule keyed_distinct_keys)
qed

lemma task_history_strict:
  "keyed it_task_id d \<Longrightarrow> sorted_wrt
     (\<lambda>a b. (its_created_at b, its_task_id b) < (its_created_at a, its_task_id a))
     (task_history session_id scope records d)"
proof -
  have key: "task_key = (\<lambda>t. (it_created_at t, it_task_id t))" by (simp add: fun_eq_iff task_key_def)
  show "keyed it_task_id d \<Longrightarrow> ?thesis"
    unfolding task_history_def key sorted_wrt_map recover_result_sel summary_sel
    by (rule sort_reverse_strict) (rule keyed_distinct_keys)
qed

interpretation records: paged_history
  "\<lambda>(codec, scope, d). record_history scope d"
  "\<lambda>s. (is_created_at s, is_record_id s)"
  "\<lambda>(codec, scope, d) n cursor. list_records codec (int n) cursor scope d"
  "\<lambda>(codec, scope, d). record_cursor codec"
  "\<lambda>(codec, scope, d). codec_ok codec \<and> keyed ir_record_id d \<and> (\<forall>r \<in> set (dict_values d). id_ok (ir_record_id r))"
proof (unfold_locales, goal_cases)
  case (1 q)
  then show ?case by (cases q) (simp only: prod.case record_history_strict)
next
  case (2 q n)
  then show ?case
    by (auto simp: list_records_at [where position = None] load_cursor_def before_cursor_def)
next
  case (3 q n i)
  obtain codec scope d where q: "q = (codec, scope, d)" by (cases q)
  with 3 have "id_ok (is_record_id i)" by (auto simp: record_history_def)
  with 3 q have "load_cursor codec msg (Some (record_cursor codec i))
      = Inr (Some \<lparr>hc_created_at = is_created_at i, hc_record_id = is_record_id i\<rparr>)" for msg
    by (simp add: record_cursor_def load_dumped)
  from list_records_at [OF this] 3 q show ?case by (simp add: before_cursor_def)
qed

interpretation tasks: paged_history
  "\<lambda>(codec, session_id, scope, records, d). task_history session_id scope records d"
  "\<lambda>s. (its_created_at s, its_task_id s)"
  "\<lambda>(codec, session_id, scope, records, d) n cursor.
     list_image_tasks codec (int n) cursor session_id scope records d"
  "\<lambda>(codec, session_id, scope, records, d). task_cursor codec"
  "\<lambda>(codec, session_id, scope, records, d). codec_ok codec \<and> keyed it_task_id d
     \<and> (\<forall>t \<in> set (dict_values d). id_ok (it_task_id t))"
proof (unfold_locales, goal_cases)
  case (1 q)
  then show ?case by (cases q) (simp only: prod.case task_history_strict)
next
  case (2 q n)
  then show ?case
    by (auto simp: list_image_tasks_at [where position = None] load_cursor_def before_cursor_def)
next
  case (3 q n i)
  obtain codec sid scope records d where q: "q = (codec, sid, scope, records, d)" by (cases q)
  with 3 have "id_ok (its_task_id i)" by (auto simp: task_history_def)
  with 3 q have "load_cursor codec msg (Some (task_cursor codec i))
      = Inr (Some \<lparr>hc_created_at = its_created_at i, hc_record_id = its_task_id i\<rparr>)" for msg
    by (simp add: task_cursor_def load_dumped)
  from list_image_tasks_at [OF this] 3 q show ?case by (simp add: before_cursor_def)
qed

subsection \<open>Properties of the histories\<close>

definition sample_codec :: cursor_codec where
  "sample_codec =
     \<lparr>cd_dump = (\<lambda>c. (if hc_created_at c < 0 then CHR ''-'' else CHR ''+'')
        # replicate (nat \<bar>hc_created_at c\<bar>) (CHR ''1'') @ CHR '':'' # hc_record_id c),
      cd_load = (\<lambda>s. case s of [] \<Rightarrow> None | sign # r \<Rightarrow>
        (let n = int (length (takeWhile (\<lambda>x. x = CHR ''1'') r))
         in Some \<lparr>hc_created_at = (if sign = CHR ''-'' then - n else n),
                  hc_record_id = drop 1 (dropWhile (\<lambda>x. x = CHR ''1'') r)\<rparr>))\<rparr>"

lemma sample_codec_ok: "codec_ok sample_codec"
  by (auto simp: codec_ok_def sample_codec_def Let_def takeWhile_append dropWhile_append)

definition sample_response :: image_response where
  "sample_response = \<lparr>irs_model_id = ''m'', irs_images =
      [\<lparr>gi_url = Some ''http://i'', gi_base64_data = None, gi_mime_type = None, gi_revised_prompt = None\<rparr>],
     irs_created = None, irs_usage = None, irs_metadata = [], irs_record_id = None, irs_warning = None\<rparr>"

definition sample_record :: "string \<Rightarrow> string \<Rightarrow> int \<Rightarrow> image_record" where
  "sample_record rid owner time = \<lparr>ir_record_id = rid, ir_owner_id = Some owner, ir_provider_id = ''p'',
     ir_request = sample_request, ir_response = sample_response, ir_created_at = time\<rparr>"

definition two_records :: image_records where
  "two_records = [(''a'', sample_record ''a'' ''ann'' 5), (''b'', sample_record ''b'' ''bob'' 7)]"

definition two_tasks :: image_tasks where
  "two_tasks = [(''a'', sample_task ''a'' ''ann'' 5), (''b'', sample_task ''b'' ''bob'' 7)]"

text \<open>C19: A client that follows the cursors of the image history comes to an end, on pages of at most
  the size it asked for, and gets every record it may see exactly once, the newest first.\<close>

theorem record_pages_complete:
  assumes "codec_ok codec" "keyed ir_record_id d" "\<forall>r \<in> set (dict_values d). id_ok (ir_record_id r)"
    and "1 \<le> n" "n \<le> 100" "length d < fuel"
  shows "\<exists>ps. walk (\<lambda>c. list_records codec (int n) c scope d) fuel None = Some ps
    \<and> (\<forall>p \<in> set ps. length (pg_items p) \<le> n)
    \<and> concat (map pg_items ps) = map record_summary (sort_reverse record_key
         (filter (\<lambda>r. scope_permits scope (ir_owner_id r)) (dict_values d)))
    \<and> distinct (concat (map pg_items ps))"
proof -
  let ?q = "(codec, scope, d)"
  have ok: "case ?q of (codec, scope, d) \<Rightarrow> codec_ok codec \<and> keyed ir_record_id d
      \<and> (\<forall>r \<in> set (dict_values d). id_ok (ir_record_id r))" using assms by simp
  have "length (record_history scope d) \<le> length d"
    by (simp add: record_history_def sort_reverse_def dict_values_def)
  with assms(6) have "length (case ?q of (codec, scope, d) \<Rightarrow> record_history scope d) < fuel" by simp
  from records.walk_complete [OF ok assms(4,5) this] records.items_distinct [OF ok]
  show ?thesis by (auto simp: record_history_def)
qed

theorem record_pages_complete_witness:
  "\<exists>ps. walk (\<lambda>c. list_records sample_codec (int 2) c None two_records) 4 None = Some ps
    \<and> map is_record_id (concat (map pg_items ps)) = [''b'', ''a'']"
proof -
  have keyed: "keyed ir_record_id two_records" and ids: "\<forall>r \<in> set (dict_values two_records). id_ok (ir_record_id r)"
    by (auto simp: two_records_def keyed_def dict_ok_def dict_keys_def dict_values_def dict_get_Cons
        id_ok_def sample_record_def split: if_splits)
  have order: "map is_record_id (map record_summary (sort_reverse record_key
      (filter (\<lambda>r. scope_permits None (ir_owner_id r)) (dict_values two_records)))) = [''b'', ''a'']"
    by (simp add: two_records_def dict_values_def sort_reverse_def record_key_def sample_record_def)
  have size: "length two_records < 4" by (simp add: two_records_def)
  from record_pages_complete [OF sample_codec_ok keyed ids _ _ size, of 2 None] obtain ps where
    ps: "walk (\<lambda>c. list_records sample_codec (int 2) c None two_records) 4 None = Some ps"
      "concat (map pg_items ps) = map record_summary (sort_reverse record_key
         (filter (\<lambda>r. scope_permits None (ir_owner_id r)) (dict_values two_records)))"
    by auto
  then show ?thesis using order by (intro exI [of _ ps]) (simp only: ps simp_thms)
qed

text \<open>The same for the list of image tasks, with or without a session to filter by: it comes to
  an end and shows every task the caller may see exactly once, the newest first, an unfinished or failed
  one with the images that were returned nevertheless.\<close>

theorem task_pages_complete:
  assumes "codec_ok codec" "keyed it_task_id d" "\<forall>t \<in> set (dict_values d). id_ok (it_task_id t)"
    and "1 \<le> n" "n \<le> 100" "length d < fuel"
  shows "\<exists>ps. walk (\<lambda>c. list_image_tasks codec (int n) c session_id scope records d) fuel None = Some ps
    \<and> (\<forall>p \<in> set ps. length (pg_items p) \<le> n)
    \<and> concat (map pg_items ps) =
         map (\<lambda>t. recover_result records scope (task_summary t)) (sort_reverse task_key
           (filter (\<lambda>t. scope_permits scope (it_owner_id t)
              \<and> (session_id = None \<or> it_session_id t = session_id)) (dict_values d)))
    \<and> distinct (map its_task_id (concat (map pg_items ps)))"
proof -
  let ?q = "(codec, session_id, scope, records, d)"
  have ok: "case ?q of (codec, session_id, scope, records, d) \<Rightarrow> codec_ok codec \<and> keyed it_task_id d
      \<and> (\<forall>t \<in> set (dict_values d). id_ok (it_task_id t))" using assms by simp
  have "length (task_history session_id scope records d) \<le> length d"
    by (simp add: task_history_def sort_reverse_def dict_values_def)
  with assms(6) have "length (case ?q of (codec, session_id, scope, records, d) \<Rightarrow>
      task_history session_id scope records d) < fuel" by simp
  from tasks.walk_complete [OF ok assms(4,5) this] obtain ps where
    ps: "walk (\<lambda>c. list_image_tasks codec (int n) c session_id scope records d) fuel None = Some ps"
      "concat (map pg_items ps) = task_history session_id scope records d"
      "\<forall>p \<in> set ps. length (pg_items p) \<le> n" by auto
  have "distinct (map it_task_id (filter (\<lambda>t. scope_permits scope (it_owner_id t)
      \<and> (session_id = None \<or> it_session_id t = session_id)) (dict_values d)))"
    using keyed_values_distinct [OF assms(2)] by (simp add: distinct_map_filter)
  then have "distinct (map its_task_id (task_history session_id scope records d))"
    by (simp add: task_history_def comp_def sort_reverse_def distinct_map_sort_key
        rev_map [symmetric])
  with ps show ?thesis by (auto simp: task_history_def)
qed

theorem task_pages_complete_witness:
  "\<exists>ps. walk (\<lambda>c. list_image_tasks sample_codec (int 2) c None None [] two_tasks) 4 None = Some ps
    \<and> map its_task_id (concat (map pg_items ps)) = [''b'', ''a'']"
proof -
  have keyed: "keyed it_task_id two_tasks" and ids: "\<forall>t \<in> set (dict_values two_tasks). id_ok (it_task_id t)"
    by (auto simp: two_tasks_def keyed_def dict_ok_def dict_keys_def dict_values_def dict_get_Cons
        id_ok_def sample_task_def split: if_splits)
  have order: "map its_task_id (map (\<lambda>t. recover_result [] None (task_summary t)) (sort_reverse task_key
      (filter (\<lambda>t. scope_permits None (it_owner_id t) \<and> (None = None \<or> it_session_id t = None))
        (dict_values two_tasks)))) = [''b'', ''a'']"
    by (simp add: two_tasks_def dict_values_def sort_reverse_def task_key_def sample_task_def)
  have size: "length two_tasks < 4" by (simp add: two_tasks_def)
  from task_pages_complete [OF sample_codec_ok keyed ids _ _ size, of 2 None None "[]"] obtain ps where
    ps: "walk (\<lambda>c. list_image_tasks sample_codec (int 2) c None None [] two_tasks) 4 None = Some ps"
      "concat (map pg_items ps) = map (\<lambda>t. recover_result [] None (task_summary t)) (sort_reverse task_key
         (filter (\<lambda>t. scope_permits None (it_owner_id t) \<and> (None = None \<or> it_session_id t = None))
           (dict_values two_tasks)))"
    by auto
  then show ?thesis using order by (intro exI [of _ ps]) (simp only: ps simp_thms)
qed

section \<open>Paid results\<close>

lemma record_save_cases:
  assumes "record_save r d = (x, d')"
  obtains (saved) "x = Inr ()" "d' = dict_set (ir_record_id r) r d"
  | (refused) u e where "x = Inl e" "d' = d" "dict_get d (ir_record_id r) = Some u"
      "ir_owner_id u \<noteq> ir_owner_id r"
  using assms by (auto simp: record_save_def split: option.splits if_splits)

lemma permits_own: "scope_permits scope (case scope of None \<Rightarrow> None | Some s \<Rightarrow> scope_owner_id s)"
  by (cases scope) (auto simp: permits_def)

lemma record_get_own:
  "dict_get d k = Some r \<Longrightarrow> ir_owner_id r = (case scope of None \<Rightarrow> None | Some s \<Rightarrow> scope_owner_id s) \<Longrightarrow>
     record_get k scope d = Inr r"
  by (simp add: record_get_def permits_own)

lemma update_archived_cases:
  assumes "update_archived rec response d = (r, d')"
  obtains (updated) "r = response" "d' = dict_set (ir_record_id rec) (rec\<lparr>ir_response := response\<rparr>) d"
  | (gone) "irs_record_id r = None" "irs_warning r = Some Record_deleted" "d' = d"
      "\<And>u. dict_get d (ir_record_id rec) = Some u \<Longrightarrow> ir_owner_id u \<noteq> ir_owner_id rec"
  | (failed) v where "r = response\<lparr>irs_warning := Some Save_failed\<rparr>" "d' = d"
      "dict_get d (ir_record_id rec) = Some v" "ir_owner_id v \<noteq> ir_owner_id rec"
proof (cases "record_get (ir_record_id rec) (Some \<lparr>scope_owner_id = ir_owner_id rec\<rparr>) d")
  case (Inl e)
  then have "error_class e = Image ImageRecordNotFoundError"
    by (auto simp: record_get_def split: option.splits if_splits)
  moreover from Inl have "ir_owner_id u \<noteq> ir_owner_id rec" if "dict_get d (ir_record_id rec) = Some u" for u
    using that by (auto simp: record_get_def permits_def split: option.splits if_splits)
  ultimately show ?thesis using Inl assms gone by (auto simp: update_archived_def record_update_def)
next
  case (Inr u)
  obtain x d1 where save: "record_save (rec\<lparr>ir_response := response\<rparr>) d = (x, d1)" by fastforce
  then show ?thesis
  proof (cases rule: record_save_cases)
    case saved
    with save Inr assms updated show ?thesis by (auto simp: update_archived_def record_update_def)
  next
    case (refused v e)
    then have "error_class e = Image ImageRecordConflictError"
      using save by (auto simp: record_save_def split: option.splits if_splits)
    then have "\<not> isinstance (error_class e) (Image ImageRecordNotFoundError)"
      by (simp add: isinstance_code)
    with refused save Inr assms failed [of v] show ?thesis
      by (auto simp: update_archived_def record_update_def)
  qed
qed

text \<open>What the archive and the other tasks of the program may do to the record that is being saved.\<close>

definition archive_keeps_id :: "image_env \<Rightarrow> bool" where
  "archive_keeps_id env \<longleftrightarrow> (\<forall>archive x y. ie_archive env = Some archive \<longrightarrow> archive x = Returned y \<longrightarrow>
     irs_record_id y = irs_record_id x)"

definition left_alone :: "image_env \<Rightarrow> string \<Rightarrow> bool" where
  "left_alone env k \<longleftrightarrow> (\<forall>d. dict_get (ie_meanwhile env d) k = dict_get d k)"

definition kept :: "principal_scope option \<Rightarrow> image_response \<Rightarrow> string \<Rightarrow> image_records \<Rightarrow> bool" where
  "kept scope r k d \<longleftrightarrow> (\<exists>rec. record_get k scope d = Inr rec \<and> ir_response rec = r \<and> ir_record_id rec = k)"

lemma new_record_sel:
  "ir_record_id (new_record env p req resp scope rid) = (case rid of None \<Rightarrow> ie_fresh_id env | Some r \<Rightarrow> r)"
  "ir_owner_id (new_record env p req resp scope rid) = (case scope of None \<Rightarrow> None | Some s \<Rightarrow> scope_owner_id s)"
  "irs_record_id (ir_response (new_record env p req resp scope rid))
     = Some (case rid of None \<Rightarrow> ie_fresh_id env | Some r \<Rightarrow> r)"
  "irs_warning (ir_response (new_record env p req resp scope rid)) \<noteq> Some Save_failed"
  by (simp_all add: new_record_def Let_def)

lemma persist_cases:
  assumes "image_persist env p req resp scope rid d = (Returned r, d')"
    and "archive_keeps_id env" "left_alone env (ir_record_id (new_record env p req resp scope rid))"
  obtains (kept) "irs_record_id r = Some (ir_record_id (new_record env p req resp scope rid))"
      "kept scope r (ir_record_id (new_record env p req resp scope rid)) d'"
  | (refused) u where "irs_record_id r = None" "irs_warning r = Some Save_failed" "d' = d"
      "dict_get d (ir_record_id (new_record env p req resp scope rid)) = Some u"
      "ir_owner_id u \<noteq> ir_owner_id (new_record env p req resp scope rid)"
proof -
  let ?rec = "new_record env p req resp scope rid"
  obtain x d1 where save: "record_save ?rec d = (x, d1)" by fastforce
  have own: "kept scope (ir_response rec) (ir_record_id ?rec) e"
    if "dict_get e (ir_record_id ?rec) = Some rec" "ir_owner_id rec = ir_owner_id ?rec"
      "ir_record_id rec = ir_record_id ?rec" for e rec
    using record_get_own [OF that(1)] that new_record_sel(2) by (auto simp: kept_def)
  from save show thesis
  proof (cases rule: record_save_cases)
    case (refused u e)
    with save assms(1) that(2) [of u] show thesis by (auto simp: image_persist_def Let_def)
  next
    case saved
    then have stored: "dict_get d1 (ir_record_id ?rec) = Some ?rec" by simp
    note persist = assms(1) [unfolded image_persist_def Let_def save saved(1) prod.case sum.case]
    show thesis
    proof (cases "ie_archive env = None \<or> irs_warning (ir_response ?rec) = None")
      case True
      with persist have "r = ir_response ?rec" "d' = d1" by (auto split: option.splits)
      with own [OF stored] show thesis by (intro that(1)) (auto simp: new_record_sel)
    next
      case False
      then obtain archive where a: "ie_archive env = Some archive" by auto
      have still: "dict_get (ie_meanwhile env d1) (ir_record_id ?rec) = Some ?rec"
        using assms(3) stored by (simp add: left_alone_def)
      show thesis
      proof (cases "archive (ir_response ?rec)")
        case (Raised e)
        with persist a False have "r = ir_response ?rec" "d' = ie_meanwhile env d1" by auto
        with own [OF still] show thesis by (intro that(1)) (auto simp: new_record_sel)
      next
        case Timed_out
        with persist a False show thesis by auto
      next
        case (Returned y)
        have id: "irs_record_id y = Some (ir_record_id ?rec)"
          using assms(2) a Returned new_record_sel by (simp add: archive_keeps_id_def)
        from persist a False Returned
        have "update_archived ?rec y (ie_meanwhile env d1) = (r, d')" by (auto split: prod.splits)
        then show thesis
        proof (cases rule: update_archived_cases)
          case updated
          with own [of d' "?rec\<lparr>ir_response := y\<rparr>"] id show thesis by (intro that(1)) auto
        next
          case gone
          with still show thesis by auto
        next
          case (failed v)
          with still show thesis by simp
        qed
      qed
    qed
  qed
qed

text \<open>The result of a generation, which is paid for, is never lost silently.  If the archive
  keeps the id of the response and nobody else touches the record, then either the answer names the
  record, the caller can read that record, and it holds the very answer that was returned; or the answer
  names no record and says that it could not be saved, which happens only if the id belongs to another
  owner, and then nothing was written.\<close>

theorem paid_result_kept:
  assumes "image_persist env p req resp scope rid d = (Returned r, d')"
    and "archive_keeps_id env" "left_alone env (case rid of None \<Rightarrow> ie_fresh_id env | Some k \<Rightarrow> k)"
  shows "case irs_record_id r of
      Some k \<Rightarrow> k = (case rid of None \<Rightarrow> ie_fresh_id env | Some k \<Rightarrow> k)
        \<and> (\<exists>rec. record_get k scope d' = Inr rec \<and> ir_response rec = r)
    | None \<Rightarrow> irs_warning r = Some Save_failed \<and> d' = d
        \<and> (\<exists>u. dict_get d (case rid of None \<Rightarrow> ie_fresh_id env | Some k \<Rightarrow> k) = Some u
             \<and> ir_owner_id u \<noteq> (case scope of None \<Rightarrow> None | Some s \<Rightarrow> scope_owner_id s))"
proof -
  have "left_alone env (ir_record_id (new_record env p req resp scope rid))"
    using assms(3) by (simp add: new_record_sel)
  with assms(1,2) show ?thesis
  proof (cases rule: persist_cases)
    case kept
    then show ?thesis by (auto simp: new_record_sel kept_def)
  next
    case (refused u)
    then show ?thesis by (auto simp: new_record_sel)
  qed
qed

definition sample_env :: image_env where
  "sample_env = \<lparr>ie_calls = \<lparr>ic_generate = \<lambda>_ _. Returned sample_response, ic_edit = \<lambda>_ _. Timed_out\<rparr>,
     ie_archive = Some (\<lambda>r. Returned (r\<lparr>irs_images := [], irs_warning := None\<rparr>)),
     ie_meanwhile = (\<lambda>d. d), ie_fresh_id = ''fresh'', ie_now = 9\<rparr>"

lemma sample_env_ok: "archive_keeps_id sample_env" "left_alone sample_env k"
  by (auto simp: sample_env_def archive_keeps_id_def left_alone_def)

theorem paid_result_kept_witness:
  "\<exists>r d'. image_persist sample_env ''p'' sample_request sample_response None None [] = (Returned r, d')
    \<and> irs_record_id r = Some ''fresh'' \<and> (\<exists>rec. record_get ''fresh'' None d' = Inr rec \<and> ir_response rec = r)"
proof -
  obtain r d' where p: "image_persist sample_env ''p'' sample_request sample_response None None [] = (Returned r, d')"
    and id: "irs_record_id r = Some ''fresh''"
    by (simp add: image_persist_def new_record_def Let_def record_save_def sample_env_def sample_response_def
        incomplete_def update_archived_def record_update_def record_get_def dict_get_Cons)
  from paid_result_kept [OF p sample_env_ok] p id show ?thesis by (simp add: sample_env_def)
qed

section \<open>Executed and submitted tasks\<close>

lemma failed_task_outcome: "outcome_of t (failed_task now f t)"
  by (simp add: outcome_of_def failed_task_def same_submission_def)

definition run_task :: "image_env \<Rightarrow> image_task \<Rightarrow> image_records \<Rightarrow> image_response awaited \<times> image_records" where
  "run_task env t d =
     (if irq_edit (it_request t) \<noteq> None then image_edit else image_generate) env
       (it_provider_id t) (it_request t) (Some \<lparr>scope_owner_id = it_owner_id t\<rparr>) (Some (it_task_id t)) d"

lemma execute_cases:
  assumes "execute_image_task env t d = (t', d')"
  obtains (failed) now f where "t' = failed_task now f t"
  | (succeeded) r where "run_task env t d = (Returned r, d')"
      "irs_record_id r \<noteq> None"
      "t' = t\<lparr>it_status := Task_SUCCEEDED, it_record_id := irs_record_id r, it_updated_at := ie_now env\<rparr>"
proof -
  obtain a e where run: "run_task env t d = (a, e)" by fastforce
  note ex = assms [unfolded execute_image_task_def Let_def run_task_def [symmetric] run prod.case]
  show thesis
  proof (cases a)
    case (Returned r)
    with ex run that show thesis by (cases "irs_record_id r = None \<or> irs_record_id r = Some []") auto
  next
    case (Raised x)
    with ex show thesis by (intro failed [of "ie_now env" "task_failure x"]) simp
  next
    case Timed_out
    with ex show thesis by (intro failed) auto
  qed
qed

text \<open>What a worker hands back is an outcome in the sense of the queue.\<close>

lemma execute_outcome_of: "execute_image_task env t d = (t', d') \<Longrightarrow> outcome_of t t'"
  by (erule execute_cases) (simp_all add: failed_task_outcome, simp add: outcome_of_def same_submission_def)

lemma interrupted_outcome_of: "outcome_of t (interrupted now t)"
  by (simp add: outcome_of_def) (simp add: same_submission_def)

lemma run_cases:
  assumes "run_task env t d = (Returned r, d')"
  obtains resp where "image_persist env (it_provider_id t) (it_request t) resp
      (Some \<lparr>scope_owner_id = it_owner_id t\<rparr>) (Some (it_task_id t)) d = (Returned r, d')"
  using assms by (auto simp: run_task_def image_edit_def image_generate_def split: if_splits awaited.splits)

text \<open>A background task that is reported as succeeded has its images: the record under the
  task's own id exists, belongs to the owner of the task and holds an answer for its request; in every
  other case the task is marked as failed with a reason, and nothing but status, result, reason and time
  of the task is changed.\<close>

theorem executed_task_sound:
  assumes "execute_image_task env t d = (t', d')"
    and "archive_keeps_id env" "left_alone env (it_task_id t)"
  shows "outcome_of t t'
    \<and> (case it_status t' of
         Task_SUCCEEDED \<Rightarrow> it_record_id t' = Some (it_task_id t)
           \<and> (\<exists>rec. record_get (it_task_id t) (Some \<lparr>scope_owner_id = it_owner_id t\<rparr>) d' = Inr rec
                \<and> irs_record_id (ir_response rec) = Some (it_task_id t))
       | Task_FAILED \<Rightarrow> it_error_type t' \<noteq> None
           \<and> (\<exists>m. it_error_message t' = Some m \<and> length m \<le> 2000)
       | _ \<Rightarrow> False)"
proof -
  have out: "outcome_of t t'" using assms(1) by (rule execute_outcome_of)
  from assms(1) show ?thesis
  proof (cases rule: execute_cases)
    case (failed now f)
    with out show ?thesis by (simp add: failed_task_def)
  next
    case (succeeded r)
    from succeeded(1) obtain resp where p: "image_persist env (it_provider_id t) (it_request t) resp
        (Some \<lparr>scope_owner_id = it_owner_id t\<rparr>) (Some (it_task_id t)) d = (Returned r, d')"
      by (rule run_cases)
    have alone: "left_alone env (ir_record_id (new_record env (it_provider_id t) (it_request t) resp
        (Some \<lparr>scope_owner_id = it_owner_id t\<rparr>) (Some (it_task_id t))))"
      using assms(3) by (simp add: new_record_sel)
    from p assms(2) alone show ?thesis
      by (cases rule: persist_cases)
        (use succeeded out in \<open>auto simp: new_record_sel kept_def\<close>)
  qed
qed

theorem executed_task_sound_witness:
  "it_status (fst (execute_image_task sample_env claimed_sample [])) = Task_SUCCEEDED
    \<and> (\<exists>rec. record_get ''t'' (Some \<lparr>scope_owner_id = Some ''ann''\<rparr>)
           (snd (execute_image_task sample_env claimed_sample [])) = Inr rec)"
proof -
  obtain t' d' where e: "execute_image_task sample_env claimed_sample [] = (t', d')" by fastforce
  then have "it_status t' = Task_SUCCEEDED"
    by (auto simp: execute_image_task_def image_generate_def image_persist_def new_record_def Let_def
        record_save_def sample_env_def sample_response_def incomplete_def update_archived_def
        record_update_def record_get_def dict_get_Cons claimed_sample_def sample_task_def sample_request_def)
  moreover have "it_task_id claimed_sample = ''t''" "it_owner_id claimed_sample = Some ''ann''"
    by (simp_all add: claimed_sample_def sample_task_def)
  ultimately show ?thesis
    using executed_task_sound [OF e sample_env_ok] e by auto
qed

lemma new_task_sel [simp]:
  "it_task_id (new_task sub scope now) = isb_task_id sub"
  "it_owner_id (new_task sub scope now) = (case scope of None \<Rightarrow> None | Some s \<Rightarrow> scope_owner_id s)"
  "same_submission u (new_task sub scope (se_now env)) = same_submission u (new_task sub scope 0)"
  by (simp_all add: new_task_def same_submission_def)

lemma task_get_id: "keyed it_task_id d \<Longrightarrow> task_get k scope d = Inr u \<Longrightarrow> it_task_id u = k"
  by (auto simp: task_get_def keyed_def split: option.splits if_splits)

lemma submit_known:
  assumes "keyed it_task_id d" "task_get (isb_task_id sub) scope d = Inr u"
  shows "submit_image_task env sub scope d =
    (if same_submission u (new_task sub scope 0)
     then (Inr (recover_result (se_records env) scope (task_summary u)), d)
     else (Inl (raised (Image ImageTaskConflictError)
             ''Image task ID already belongs to another request''), d))"
  using assms task_get_id [OF assms]
  by (simp add: submit_image_task_def Let_def get_image_task_def task_get_summary_def)

lemma submit_cases:
  assumes "keyed it_task_id d" "submit_image_task env sub scope d = (Inr s, d')"
  obtains (known) u where "d' = d" "task_get (isb_task_id sub) scope d = Inr u"
      "same_submission u (new_task sub scope 0)"
      "s = recover_result (se_records env) scope (task_summary u)"
  | (stored) "dict_get d (isb_task_id sub) = None"
      "d' = dict_set (isb_task_id sub) (new_task sub scope (se_now env)) d"
      "s = task_summary (new_task sub scope (se_now env))"
proof (cases "task_get (isb_task_id sub) scope d")
  case (Inr u)
  with submit_known [OF assms(1) this, of env] assms(2) known show thesis by (auto split: if_splits)
next
  case (Inl e)
  let ?t = "new_task sub scope (se_now env)"
  obtain x d1 where create: "task_create ?t d = (x, d1)" by fastforce
  have "\<not> (\<exists>u. dict_get d (isb_task_id sub) = Some u \<and> scope_permits scope (it_owner_id u))"
    using Inl by (auto simp: task_get_def split: option.splits if_splits)
  then have own: "it_owner_id u \<noteq> it_owner_id ?t" if "dict_get d (isb_task_id sub) = Some u" for u
    using that permits_own [of scope] by auto
  from create show thesis
  proof (cases rule: create_cases)
    case known
    then obtain u where "dict_get d (isb_task_id sub) = Some u" by auto
    with own [OF this] create have "x = Inl task_missing" by (auto simp: task_create_def)
    with Inl create assms(2) show thesis
      by (auto simp: submit_image_task_def Let_def split: sum.splits)
  next
    case full
    with Inl create assms(2) show thesis
      by (auto simp: submit_image_task_def Let_def split: sum.splits)
  next
    case st: stored
    with Inl create assms(2) have d': "d' = d1" and s: "Inr s = bind_e (task_get (isb_task_id sub) scope d1) (\<lambda>t. Inr (task_summary t))"
      by (auto simp: submit_image_task_def Let_def split: sum.splits if_splits)
    have "task_get (isb_task_id sub) scope d1 = Inr ?t"
      using st(4) permits_own [of scope] by (simp add: task_get_def)
    with s have "s = task_summary ?t" by simp
    with stored st d' show thesis by simp
  qed
qed

text \<open>Submitting is idempotent.  After an accepted submission, which stored the new task under an
  unused id or found it already there, the same submission writes nothing and answers with the task as it
  then is, whatever the providers, sessions and the executor do by then; another request under the same
  id is a conflict; and a caller who may not see the task gets an error and changes nothing.\<close>

theorem submission_idempotent:
  assumes "keyed it_task_id d" "submit_image_task env sub scope d = (Inr s, d')"
  shows "(d' = d \<or> dict_get d (isb_task_id sub) = None
        \<and> d' = dict_set (isb_task_id sub) (new_task sub scope (se_now env)) d)
    \<and> (\<forall>env'. submit_image_task env' sub scope d'
          = (get_image_task (isb_task_id sub) scope (se_records env') d', d'))
    \<and> (\<forall>env' sub'. isb_task_id sub' = isb_task_id sub \<longrightarrow>
          (isb_provider_id sub', isb_request sub', isb_session_id sub')
            \<noteq> (isb_provider_id sub, isb_request sub, isb_session_id sub) \<longrightarrow>
          submit_image_task env' sub' scope d' = (Inl (raised (Image ImageTaskConflictError)
             ''Image task ID already belongs to another request''), d'))
    \<and> (\<forall>env' sub' scope'. isb_task_id sub' = isb_task_id sub \<longrightarrow>
          \<not> scope_permits scope' (case scope of None \<Rightarrow> None | Some sc \<Rightarrow> scope_owner_id sc) \<longrightarrow>
          (\<exists>e. submit_image_task env' sub' scope' d' = (Inl e, d')))"
proof -
  let ?own = "case scope of None \<Rightarrow> None | Some sc \<Rightarrow> scope_owner_id sc"
  have "\<exists>u. dict_get d' (isb_task_id sub) = Some u \<and> scope_permits scope (it_owner_id u)
      \<and> same_submission u (new_task sub scope 0)"
    using assms
  proof (cases rule: submit_cases)
    case (known u)
    then show ?thesis by (auto simp: task_get_def split: option.splits if_splits)
  next
    case stored
    then show ?thesis using permits_own [of scope] by (auto simp: new_task_def same_submission_def)
  qed
  then obtain u where u: "dict_get d' (isb_task_id sub) = Some u" "scope_permits scope (it_owner_id u)"
    "same_submission u (new_task sub scope 0)" by blast
  then have get: "task_get (isb_task_id sub) scope d' = Inr u" by (simp add: task_get_def)
  have owner: "it_owner_id u = ?own" using u(3) by (simp add: same_submission_def new_task_def)
  have stored: "d' = d \<or> dict_get d (isb_task_id sub) = None
      \<and> d' = dict_set (isb_task_id sub) (new_task sub scope (se_now env)) d"
    using assms by (cases rule: submit_cases) simp_all
  then have keyed: "keyed it_task_id d'"
    using assms(1) keyed_set [OF assms(1), of "new_task sub scope (se_now env)"] by auto
  show ?thesis
  proof (intro conjI allI impI)
    show "d' = d \<or> dict_get d (isb_task_id sub) = None
        \<and> d' = dict_set (isb_task_id sub) (new_task sub scope (se_now env)) d" by (rule stored)
    show "submit_image_task env' sub scope d'
        = (get_image_task (isb_task_id sub) scope (se_records env') d', d')" for env'
      using submit_known [OF keyed get] u(3) get
      by (simp add: get_image_task_def task_get_summary_def)
  next
    fix env' :: submit_env and sub' :: image_submission
    assume id: "isb_task_id sub' = isb_task_id sub"
      and other: "(isb_provider_id sub', isb_request sub', isb_session_id sub')
            \<noteq> (isb_provider_id sub, isb_request sub, isb_session_id sub)"
    from get id have "task_get (isb_task_id sub') scope d' = Inr u" by simp
    from submit_known [OF keyed this] other u(3)
    show "submit_image_task env' sub' scope d' = (Inl (raised (Image ImageTaskConflictError)
             ''Image task ID already belongs to another request''), d')"
      by (auto simp: same_submission_def new_task_def)
  next
    fix env' :: submit_env and sub' :: image_submission and scope'
    assume id: "isb_task_id sub' = isb_task_id sub" and no: "\<not> scope_permits scope' ?own"
    have "task_get (isb_task_id sub') scope' d' = Inl task_missing"
      using u(1) owner no id by (simp add: task_get_def)
    moreover have "task_create (new_task sub' scope' (se_now env')) d' = (Inl task_missing, d')"
      using u(1) owner no id permits_own [of scope'] by (auto simp: task_create_def)
    ultimately show "\<exists>e. submit_image_task env' sub' scope' d' = (Inl e, d')"
      by (cases "check_submission env' (new_task sub' scope' (se_now env')) scope'")
        (simp_all add: submit_image_task_def Let_def)
  qed
qed

definition sample_submission :: image_submission where
  "sample_submission = \<lparr>isb_task_id = ''t'', isb_provider_id = ''p'', isb_request = sample_request,
     isb_session_id = None\<rparr>"

definition sample_submit_env :: submit_env where
  "sample_submit_env =
     \<lparr>se_infos = (\<lambda>p. Inr \<lparr>pi_provider_id = p, pi_name = ''P'', pi_type = Type_OPENAI, pi_is_enabled = True,
                        pi_model = [], pi_metadata = []\<rparr>),
      se_sessions = [], se_records = [], se_executor = Some False, se_now = 5\<rparr>"

theorem submission_idempotent_witness:
  "\<exists>s d'. submit_image_task sample_submit_env sample_submission None [] = (Inr s, d')
    \<and> submit_image_task (sample_submit_env\<lparr>se_executor := None\<rparr>) sample_submission None d'
        = (get_image_task ''t'' None [] d', d')"
proof -
  obtain s d' where sub: "submit_image_task sample_submit_env sample_submission None [] = (Inr s, d')"
    by (simp add: submit_image_task_def Let_def task_get_def check_submission_def check_model_def
        sample_submit_env_def sample_submission_def dict_values_def task_create_def active_count_def
        MAX_ACTIVE_IMAGE_TASKS_def new_task_def)
  have "\<forall>env'. submit_image_task env' sample_submission None d'
      = (get_image_task (isb_task_id sample_submission) None (se_records env') d', d')"
    using submission_idempotent [OF _ sub] by simp
  from spec [OF this, of "sample_submit_env\<lparr>se_executor := None\<rparr>"] sub show ?thesis
    by (auto simp: sample_submission_def sample_submit_env_def)
qed

end
