(* ===== verification/AgentState.thy ===== *)
theory AgentState
  imports Contexts Memory
begin

text \<open>
  The schemas of agent runs (\<open>core/schema/agent.py\<close>, \<open>core/schema/trace.py\<close>) and what the program
  computes from a run's snapshot (\<open>application/agent_state.py\<close>).

  Times are microseconds since the epoch.  The lifting of snapshots in an older format
  (\<open>_lift_legacy_control_metadata\<close>) works on raw JSON and is not modelled.
\<close>

section \<open>Schemas\<close>

datatype agent_step_type =
    Step_START | Step_CHAT | Step_TOOL | Step_TOOL_ERROR | Step_MEMORY_WRITE | Step_STOP

datatype agent_event_type =
    Ev_RUN_STARTED | Ev_CHAT_DELTA | Ev_CHAT_COMPLETED | Ev_TOOL_APPROVAL_REQUESTED
  | Ev_TOOL_APPROVAL_DECIDED | Ev_TOOL_STARTED | Ev_TOOL_COMPLETED | Ev_TOOL_FAILED
  | Ev_TOOL_EXECUTION_RESOLVED | Ev_MEMORY_WRITTEN | Ev_RUN_PAUSED | Ev_RUN_STOPPED

datatype agent_run_status = Run_RUNNING | Run_PAUSED | Run_CANCELED | Run_FINISHED | Run_FAILED

record agent_lease =
  al_owner :: string
  al_expires_at :: "int option"
  al_heartbeat_at :: "int option"
  al_generation :: nat

datatype execution_status = Ex_SCHEDULED | Ex_STARTED | Ex_COMPLETED | Ex_FAILED | Ex_UNKNOWN

datatype execution_resolution = Confirm_completed | Retry_execution | Abandon_and_retry_run

fun resolution_value :: "execution_resolution \<Rightarrow> string" where
  "resolution_value Confirm_completed = ''confirm_completed''"
| "resolution_value Retry_execution = ''retry''"
| "resolution_value Abandon_and_retry_run = ''abandon_and_retry_run''"

record execution_attempt =
  ea_run_id :: string
  ea_owner_id :: "string option"
  ea_tool_call_id :: string
  ea_attempt :: nat
  ea_tool_round :: "nat option"
  ea_tool_name :: string
  ea_status :: execution_status
  ea_replay_policy :: tool_replay_policy
  ea_idempotency_key :: string
  ea_tool_call :: tool_call
  ea_result :: "tool_call_result option"
  ea_error_type :: "string option"
  ea_error_message :: "string option"
  ea_resolution :: "execution_resolution option"
  ea_resolution_reason :: "string option"
  ea_created_at :: int
  ea_started_at :: "int option"
  ea_finished_at :: "int option"
  ea_resolved_at :: "int option"
  ea_metadata :: metadata

datatype agent_pause_cause =
  Pause_MANUAL | Pause_TIMEOUT | Pause_SHUTDOWN | Pause_UNCLEAN_SHUTDOWN | Pause_LEASE_EXPIRED

fun pause_cause_value :: "agent_pause_cause \<Rightarrow> string" where
  "pause_cause_value Pause_MANUAL = ''manual_pause''"
| "pause_cause_value Pause_TIMEOUT = ''timeout''"
| "pause_cause_value Pause_SHUTDOWN = ''shutdown''"
| "pause_cause_value Pause_UNCLEAN_SHUTDOWN = ''unclean_shutdown''"
| "pause_cause_value Pause_LEASE_EXPIRED = ''lease_expired''"

definition pause_source :: "agent_pause_cause \<Rightarrow> string" where
  "pause_source c =
     (if c = Pause_UNCLEAN_SHUTDOWN then pause_cause_value Pause_SHUTDOWN else pause_cause_value c)"

record agent_pause =
  ap_cause :: agent_pause_cause
  ap_checkpoint :: string
  ap_resumable :: bool
  ap_reason :: "string option"

record agent_failure =
  af_error_type :: string
  af_message :: string
  af_detail :: "string option"

record agent_history =
  ah_started_at :: "int option"
  ah_message_offset :: "nat option"
  ah_message_indices :: "nat list option"
  ah_generation :: pyval

datatype agent_stop_reason = Stop_FINISHED | Stop_TOOL_ROUNDS_EXHAUSTED | Stop_TOOL_ERROR

fun stop_reason_value :: "agent_stop_reason \<Rightarrow> string" where
  "stop_reason_value Stop_FINISHED = ''finished''"
| "stop_reason_value Stop_TOOL_ROUNDS_EXHAUSTED = ''tool_rounds_exhausted''"
| "stop_reason_value Stop_TOOL_ERROR = ''tool_error''"

record agent_request =
  ag_provider_id :: string
  ag_working_directory :: "string option"
  ag_owner_id :: "string option"
  ag_context_id :: string
  ag_model_id :: string
  ag_messages :: "content list"
  ag_retry_from_message_index :: "nat option"
  ag_memory_query :: "memory_query option"
  ag_skills :: "chat_skill list option"
  ag_tools :: "tool_definition list option"
  ag_max_tool_rounds :: nat
  ag_recover_tool_errors :: bool
  ag_write_memory :: bool
  ag_tool_approvals :: "tool_approval_decision list"
  ag_pause_on_approval :: bool
  ag_timeout_seconds :: "rat option"
  ag_metadata :: metadata

record agent_step =
  as_type :: agent_step_type
  as_trace_event_id :: "string option"
  as_response :: "chat_response option"
  as_message :: "content option"
  as_tool_call :: "tool_call option"
  as_tool_result :: "tool_call_result option"
  as_error_type :: "string option"
  as_error_message :: "string option"
  as_metadata :: metadata

definition new_step :: "agent_step_type \<Rightarrow> agent_step" where
  "new_step ty = \<lparr>as_type = ty, as_trace_event_id = None, as_response = None, as_message = None,
     as_tool_call = None, as_tool_result = None, as_error_type = None, as_error_message = None,
     as_metadata = []\<rparr>"

record trace_subject =
  ts_kind :: string
  ts_subject_id :: "string option"
  ts_owner_id :: "string option"
  ts_metadata :: metadata

record 't trace_event =
  te_sequence :: "nat option"
  te_trace_id :: "string option"
  te_event_id :: "string option"
  te_parent_event_id :: "string option"
  te_occurred_at :: "int option"
  te_type :: 't
  te_source :: "string option"
  te_subject :: "trace_subject option"
  te_summary :: "string option"
  te_error_type :: "string option"
  te_error_message :: "string option"
  te_payload :: "metadata option"
  te_metadata :: metadata

record agent_event = "agent_event_type trace_event" +
  te_step_type :: "agent_step_type option"
  te_message :: "content option"
  te_response :: "chat_response option"
  te_tool_call :: "tool_call option"
  te_text_delta :: "string option"
  te_tool_result :: "tool_call_result option"
  te_approval_request :: "tool_approval_request option"
  te_approval_decision :: "tool_approval_decision option"

definition new_event :: "agent_event_type \<Rightarrow> agent_event" where
  "new_event ty = \<lparr>te_sequence = None, te_trace_id = None, te_event_id = None,
     te_parent_event_id = None, te_occurred_at = None, te_type = ty, te_source = None,
     te_subject = None, te_summary = None, te_error_type = None, te_error_message = None,
     te_payload = None, te_metadata = [], te_step_type = None, te_message = None, te_response = None,
     te_tool_call = None, te_text_delta = None, te_tool_result = None, te_approval_request = None,
     te_approval_decision = None\<rparr>"

text \<open>\<open>rn_pause_request\<close>: whether a pause is requested, and with which reason.\<close>

record agent_run =
  rn_run_id :: string
  rn_owner_id :: "string option"
  rn_request :: agent_request
  rn_status :: agent_run_status
  rn_response :: "chat_response option"
  rn_usage :: "chat_usage option"
  rn_stop_reason :: "agent_stop_reason option"
  rn_steps :: "agent_step list"
  rn_trace :: "agent_event list"
  rn_applied_trace_sequence :: "nat option"
  rn_skill_revisions :: "(string, string option) dict option"
  rn_remaining_tool_rounds :: int
  rn_tool_rounds_used :: int
  rn_pending_tool_calls :: "tool_call list"
  rn_pending_approval_requests :: "tool_approval_request list"
  rn_pause :: "agent_pause option"
  rn_pause_request :: "string option option"
  rn_failure :: "agent_failure option"
  rn_cancel_reason :: "string option"
  rn_history :: agent_history
  rn_metadata :: metadata

text \<open>A request and a run with the default of every field that has one.\<close>

definition new_request :: "string \<Rightarrow> string \<Rightarrow> string \<Rightarrow> agent_request" where
  "new_request provider_id context_id model_id =
     \<lparr>ag_provider_id = provider_id, ag_working_directory = None, ag_owner_id = None,
      ag_context_id = context_id, ag_model_id = model_id, ag_messages = [],
      ag_retry_from_message_index = None, ag_memory_query = None, ag_skills = None, ag_tools = None,
      ag_max_tool_rounds = 1, ag_recover_tool_errors = True, ag_write_memory = False,
      ag_tool_approvals = [], ag_pause_on_approval = False, ag_timeout_seconds = None, ag_metadata = []\<rparr>"

definition new_run :: "string \<Rightarrow> agent_request \<Rightarrow> agent_run" where
  "new_run run_id request =
     \<lparr>rn_run_id = run_id, rn_owner_id = None, rn_request = request, rn_status = Run_RUNNING,
      rn_response = None, rn_usage = None, rn_stop_reason = None, rn_steps = [], rn_trace = [],
      rn_applied_trace_sequence = None, rn_skill_revisions = None, rn_remaining_tool_rounds = 0,
      rn_tool_rounds_used = 0, rn_pending_tool_calls = [], rn_pending_approval_requests = [],
      rn_pause = None, rn_pause_request = None, rn_failure = None, rn_cancel_reason = None,
      rn_history = \<lparr>ah_started_at = None, ah_message_offset = None, ah_message_indices = None,
        ah_generation = PNone\<rparr>, rn_metadata = []\<rparr>"

section \<open>What a snapshot says\<close>

definition owner_scope :: "string option \<Rightarrow> principal_scope option" where
  "owner_scope owner_id = (case owner_id of None \<Rightarrow> None | Some o1 \<Rightarrow> Some \<lparr>scope_owner_id = Some o1\<rparr>)"

definition chat_usages :: "agent_step list \<Rightarrow> chat_usage option list" where
  "chat_usages steps =
     map (\<lambda>s. rs_usage (the (as_response s)))
       (filter (\<lambda>s. as_type s = Step_CHAT \<and> as_response s \<noteq> None) steps)"

definition usage_total :: "(chat_usage \<Rightarrow> nat option) \<Rightarrow> chat_usage option list \<Rightarrow> nat option" where
  "usage_total sel usages =
     (let vs = map (\<lambda>u. Option.bind u sel) usages
      in if None \<in> set vs then None else Some (sum_list (map the vs)))"

text \<open>\<open>usage.model_dump(mode="json")\<close>.\<close>

definition dump_count :: "nat option \<Rightarrow> pyval" where
  "dump_count n = (case n of None \<Rightarrow> PNone | Some k \<Rightarrow> PInt (int k))"

definition dump_usage :: "chat_usage option \<Rightarrow> pyval" where
  "dump_usage u =
     (case u of
        None \<Rightarrow> PNone
      | Some u \<Rightarrow> PDict
          [(''prompt_tokens'', dump_count (us_prompt_tokens u)),
           (''completion_tokens'', dump_count (us_completion_tokens u)),
           (''total_tokens'', dump_count (us_total_tokens u)),
           (''cached_prompt_tokens'', dump_count (us_cached_prompt_tokens u)),
           (''cache_write_prompt_tokens'', dump_count (us_cache_write_prompt_tokens u)),
           (''metadata'', PDict (us_metadata u))])"

definition aggregate_run_usage :: "agent_run \<Rightarrow> chat_usage option" where
  "aggregate_run_usage state =
     (let usages = chat_usages (rn_steps state)
      in if \<not> (\<exists>u \<in> set usages. u \<noteq> None) then None
         else Some \<lparr>us_prompt_tokens = usage_total us_prompt_tokens usages,
                    us_completion_tokens = usage_total us_completion_tokens usages,
                    us_total_tokens = usage_total us_total_tokens usages,
                    us_cached_prompt_tokens = usage_total us_cached_prompt_tokens usages,
                    us_cache_write_prompt_tokens = usage_total us_cache_write_prompt_tokens usages,
                    us_metadata = [(''calls'', PList (map dump_usage usages))]\<rparr>)"

definition current_tool_round :: "agent_run \<Rightarrow> nat" where
  "current_tool_round state = length (filter (\<lambda>s. as_type s = Step_CHAT) (rn_steps state))"

text \<open>The ids of the tool calls that ended after the last chat step.\<close>

definition tool_step :: "agent_step \<Rightarrow> bool" where
  "tool_step s \<longleftrightarrow> as_type s = Step_TOOL \<or> as_type s = Step_TOOL_ERROR"

definition completed_call_ids :: "agent_run \<Rightarrow> string list" where
  "completed_call_ids state =
     map (\<lambda>s. tc_id (the (as_tool_call s)))
       (filter (\<lambda>s. tool_step s \<and> as_tool_call s \<noteq> None)
         (takeWhile (\<lambda>s. as_type s \<noteq> Step_CHAT) (rev (rn_steps state))))"

definition require_request_scope :: "agent_request \<Rightarrow> principal_scope option \<Rightarrow> error + unit" where
  "require_request_scope request scope =
     (if scope_permits scope (ag_owner_id request) then Inr ()
      else Inl (raised (Agent AgentStateError) ''Agent run owner does not match the principal scope''))"

definition metadata_run_id :: "metadata \<Rightarrow> string option" where
  "metadata_run_id m =
     (case meta_get m ''run_id'' of PStr s \<Rightarrow> if s \<noteq> [] then Some s else None | _ \<Rightarrow> None)"

definition agent_run_failure :: "error \<Rightarrow> agent_failure" where
  "agent_run_failure e =
     \<lparr>af_error_type = class_name (error_class e), af_message = error_message e,
      af_detail =
        (if isinstance (error_class e) (Skill SkillConflictError)
            \<or> isinstance (error_class e) (Skill SkillDisabledError)
            \<or> isinstance (error_class e) (Skill SkillNotFoundError)
            \<or> isinstance (error_class e) (Provider ProviderResponseError)
         then error_detail e else None)\<rparr>"

definition can_resume :: "agent_run \<Rightarrow> bool" where
  "can_resume state = (case rn_pause state of None \<Rightarrow> True | Some p \<Rightarrow> ap_resumable p)"

datatype agent_resume_mode = Resume_APPROVAL | Resume_CHECKPOINT

definition resume_mode :: "agent_run \<Rightarrow> agent_resume_mode" where
  "resume_mode state =
     (case rn_pause state of
        None \<Rightarrow> Resume_APPROVAL
      | Some p \<Rightarrow> if ap_resumable p then Resume_CHECKPOINT else Resume_APPROVAL)"

end
