(* ===== verification/ToolLedger.thy ===== *)
theory ToolLedger
  imports AgentState ToolManager "HOL-Library.Product_Lexorder"
begin

text \<open>
  The ledger of tool executions, which decides after a crash whether a tool may run again
  (\<open>application/agent_recovery.py\<close>, \<open>AgentExecutionApplication._execute_tool_call\<close> in
  \<open>application/agent_execution.py\<close>, \<open>resolve_tool_execution\<close> in \<open>application/agent_runs.py\<close>), over the
  register in \<open>infra/adapters/agent/sqlite.py\<close>.

  The table is a dictionary under its primary key.  \<open>owners\<close> gives the owner of every stored run.  The
  tool itself runs outside of the model: a call is split at the await of \<open>tools.execute\<close> into
  \<open>begin_tool_call\<close> and \<open>end_tool_call\<close>.
\<close>

section \<open>The register\<close>

datatype attempt_key = Attempt_Key (ak_run: string) (ak_call: string) (ak_number: nat)

type_synonym ledger = "(attempt_key, execution_attempt) dict"

type_synonym run_owners = "string \<Rightarrow> string option option"

definition key_of :: "execution_attempt \<Rightarrow> attempt_key" where
  "key_of a = Attempt_Key (ea_run_id a) (ea_tool_call_id a) (ea_attempt a)"

definition agent_state_error :: "string \<Rightarrow> error" where
  "agent_state_error msg = raised (Agent AgentStateError) msg"

definition require_attempt_scope :: "execution_attempt \<Rightarrow> principal_scope option \<Rightarrow> error + unit" where
  "require_attempt_scope a scope =
     (if scope_permits scope (ea_owner_id a) then Inr ()
      else Inl (agent_state_error (''The tool execution for run '' @ ea_run_id a
             @ '' is not available in this scope'')))"

definition require_run ::
  "run_owners \<Rightarrow> string \<Rightarrow> string option \<Rightarrow> principal_scope option \<Rightarrow> error + unit" where
  "require_run owners run_id owner_id scope =
     (case owners run_id of
        Some owner \<Rightarrow>
          if scope_permits scope owner \<and> owner = owner_id then Inr ()
          else Inl (agent_state_error (''The agent run state '' @ run_id @ '' is not found''))
      | None \<Rightarrow> Inl (agent_state_error (''The agent run state '' @ run_id @ '' is not found'')))"

definition create_attempt ::
  "run_owners \<Rightarrow> principal_scope option \<Rightarrow> execution_attempt \<Rightarrow> (error, ledger, unit) act" where
  "create_attempt owners scope a d =
     (case bind_e (require_attempt_scope a scope) (\<lambda>_.
             require_run owners (ea_run_id a) (ea_owner_id a) scope) of
        Inl e \<Rightarrow> (Inl e, d)
      | Inr _ \<Rightarrow>
          if dict_has d (key_of a)
          then (Inl (agent_state_error ''The tool execution attempt already exists''), d)
          else (Inr (), dict_set (key_of a) a d))"

definition save_attempt ::
  "principal_scope option \<Rightarrow> execution_attempt \<Rightarrow> (error, ledger, unit) act" where
  "save_attempt scope a d =
     (case require_attempt_scope a scope of
        Inl e \<Rightarrow> (Inl e, d)
      | Inr _ \<Rightarrow>
          (case dict_get d (key_of a) of
             Some old \<Rightarrow>
               if scope_permits scope (ea_owner_id old) then (Inr (), dict_set (key_of a) a d)
               else (Inl (agent_state_error ''The tool execution attempt is not found''), d)
           | None \<Rightarrow> (Inl (agent_state_error ''The tool execution attempt is not found''), d)))"

definition get_attempt ::
  "principal_scope option \<Rightarrow> attempt_key \<Rightarrow> ledger \<Rightarrow> error + execution_attempt" where
  "get_attempt scope k d =
     (case dict_get d k of
        Some a \<Rightarrow>
          if scope_permits scope (ea_owner_id a) then Inr a
          else Inl (agent_state_error ''The tool execution attempt is not found'')
      | None \<Rightarrow> Inl (agent_state_error ''The tool execution attempt is not found''))"

definition list_attempts :: "principal_scope option \<Rightarrow> string \<Rightarrow> ledger \<Rightarrow> execution_attempt list" where
  "list_attempts scope run_id d =
     sort_key (\<lambda>a. (ea_tool_call_id a, ea_attempt a))
       (filter (\<lambda>a. ea_run_id a = run_id \<and> scope_permits scope (ea_owner_id a)) (dict_values d))"

section \<open>Reading the attempts of a run\<close>

definition latest_attempts :: "execution_attempt list \<Rightarrow> (string, execution_attempt) dict" where
  "latest_attempts attempts =
     fold (\<lambda>a latest.
         case dict_get latest (ea_tool_call_id a) of
           None \<Rightarrow> dict_set (ea_tool_call_id a) a latest
         | Some current \<Rightarrow>
             if ea_attempt a > ea_attempt current then dict_set (ea_tool_call_id a) a latest else latest)
       attempts []"

definition round_attempts :: "execution_attempt list \<Rightarrow> nat \<Rightarrow> execution_attempt list" where
  "round_attempts attempts tool_round = filter (\<lambda>a. ea_tool_round a = Some tool_round) attempts"

definition has_unscoped :: "execution_attempt list \<Rightarrow> string \<Rightarrow> bool" where
  "has_unscoped attempts call_id \<longleftrightarrow>
     (\<exists>a \<in> set attempts. ea_tool_round a = None \<and> ea_tool_call_id a = call_id)"

definition next_attempt :: "execution_attempt list \<Rightarrow> string \<Rightarrow> nat" where
  "next_attempt attempts call_id =
     fold max (map ea_attempt (filter (\<lambda>a. ea_tool_call_id a = call_id) attempts)) 0 + 1"

definition call_can_resume :: "execution_attempt option \<Rightarrow> bool" where
  "call_can_resume attempt =
     (case attempt of
        None \<Rightarrow> True
      | Some a \<Rightarrow>
          if ea_status a = Ex_SCHEDULED then True
          else if ea_status a = Ex_COMPLETED \<or> ea_status a = Ex_FAILED then True
          else if ea_resolution a = Some Retry_execution then True
          else ea_replay_policy a = Replay_SAFE \<or> ea_replay_policy a = Replay_IDEMPOTENT)"

section \<open>Executing a call\<close>

definition call_tool_name :: "tool_call \<Rightarrow> string option" where
  "call_tool_name call =
     (case (if truthy (meta_get (tc_call call) ''tool_name'') then meta_get (tc_call call) ''tool_name''
            else meta_get (tc_call call) ''name'') of
        PStr s \<Rightarrow> if s \<noteq> [] then Some s else None
      | _ \<Rightarrow> None)"

datatype tool_start =
    Run_directly
  | Reuse_result tool_call_result
  | Refuse error
  | Run_attempt execution_attempt

definition with_idempotency_key :: "string \<Rightarrow> tool_call \<Rightarrow> tool_call" where
  "with_idempotency_key key call =
     call\<lparr>tc_metadata := dict_set ''idempotency_key'' (PStr key) (tc_metadata call)\<rparr>"

definition started_attempt :: "int \<Rightarrow> tool_call \<Rightarrow> execution_attempt \<Rightarrow> execution_attempt" where
  "started_attempt now call a =
     a\<lparr>ea_status := Ex_STARTED, ea_started_at := Some now, ea_tool_call := call\<rparr>"

definition scheduled_attempt ::
  "int \<Rightarrow> agent_run \<Rightarrow> string \<Rightarrow> tool_definition \<Rightarrow> string \<Rightarrow> tool_call \<Rightarrow> nat \<Rightarrow> execution_attempt" where
  "scheduled_attempt now state tool_name tool key call number =
     \<lparr>ea_run_id = rn_run_id state, ea_owner_id = rn_owner_id state, ea_tool_call_id = tc_id call,
      ea_attempt = number, ea_tool_round = Some (current_tool_round state), ea_tool_name = tool_name,
      ea_status = Ex_SCHEDULED, ea_replay_policy = td_replay_policy tool, ea_idempotency_key = key,
      ea_tool_call = call, ea_result = None, ea_error_type = None, ea_error_message = None,
      ea_resolution = None, ea_resolution_reason = None, ea_created_at = now, ea_started_at = None,
      ea_finished_at = None, ea_resolved_at = None, ea_metadata = []\<rparr>"

definition idempotency_key_of :: "string \<Rightarrow> nat \<Rightarrow> string \<Rightarrow> string" where
  "idempotency_key_of run_id tool_round call_id = run_id @ '':'' @ nat_str tool_round @ '':'' @ call_id"

text \<open>What is decided from the latest attempt of this round, before anything is written.\<close>

definition check_ledger :: "execution_attempt list \<Rightarrow> execution_attempt option \<Rightarrow> tool_call \<Rightarrow> tool_start option" where
  "check_ledger attempts latest call =
     (if has_unscoped attempts (tc_id call)
      then Some (Refuse (agent_state_error ''Tool execution has a legacy attempt with an unknown round''))
      else case latest of
             None \<Rightarrow> None
           | Some a \<Rightarrow>
               if ea_status a = Ex_COMPLETED
               then Some (case ea_result a of
                            None \<Rightarrow> Refuse (agent_state_error
                                      ''Completed tool execution has no persisted result'')
                          | Some r \<Rightarrow> Reuse_result r)
               else if ea_status a = Ex_FAILED
               then Some (Refuse (raised (Tool ToolExecutionError)
                      (case ea_error_message a of
                         None \<Rightarrow> ''Persisted tool execution failed''
                       | Some m \<Rightarrow> if m = [] then ''Persisted tool execution failed'' else m)))
               else if (ea_status a = Ex_STARTED \<or> ea_status a = Ex_UNKNOWN) \<and> \<not> call_can_resume latest
               then Some (Refuse (agent_state_error
                      ''Tool execution outcome is unknown and requires operator resolution''))
               else None)"

definition latest_in_round :: "agent_run \<Rightarrow> string \<Rightarrow> ledger \<Rightarrow> execution_attempt option" where
  "latest_in_round state call_id d =
     dict_get (latest_attempts (round_attempts
       (list_attempts (owner_scope (rn_owner_id state)) (rn_run_id state) d)
       (current_tool_round state))) call_id"

definition round_key :: "agent_run \<Rightarrow> tool_call \<Rightarrow> ledger \<Rightarrow> string" where
  "round_key state call d =
     (case latest_in_round state (tc_id call) d of
        Some a \<Rightarrow> ea_idempotency_key a
      | None \<Rightarrow> idempotency_key_of (rn_run_id state) (current_tool_round state) (tc_id call))"

definition fresh_attempt ::
  "int \<Rightarrow> agent_run \<Rightarrow> string \<Rightarrow> tool_definition \<Rightarrow> tool_call \<Rightarrow> ledger \<Rightarrow> execution_attempt" where
  "fresh_attempt now state tool_name tool call d =
     scheduled_attempt now state tool_name tool (round_key state call d)
       (with_idempotency_key (round_key state call d) call)
       (next_attempt (list_attempts (owner_scope (rn_owner_id state)) (rn_run_id state) d) (tc_id call))"

definition still_scheduled :: "agent_run \<Rightarrow> string \<Rightarrow> ledger \<Rightarrow> execution_attempt option" where
  "still_scheduled state call_id d =
     (case latest_in_round state call_id d of
        Some a \<Rightarrow> if ea_status a = Ex_SCHEDULED then Some a else None
      | None \<Rightarrow> None)"

text \<open>The write of the scheduled attempt, unless the latest one is scheduled already.\<close>

definition schedule_attempt ::
  "run_owners \<Rightarrow> int \<Rightarrow> agent_run \<Rightarrow> string \<Rightarrow> tool_definition \<Rightarrow> tool_call
     \<Rightarrow> (error, ledger, execution_attempt) act" where
  "schedule_attempt owners now state tool_name tool call d =
     (case still_scheduled state (tc_id call) d of
        Some a \<Rightarrow> (Inr a, d)
      | None \<Rightarrow>
          (let a = fresh_attempt now state tool_name tool call d
           in case create_attempt owners (owner_scope (rn_owner_id state)) a d of
                (Inl e, d') \<Rightarrow> (Inl e, d')
              | (Inr _, d') \<Rightarrow> (Inr a, d')))"

definition begin_tool_call ::
  "run_owners \<Rightarrow> (string \<Rightarrow> error + tool_definition) \<Rightarrow> int \<Rightarrow> agent_run \<Rightarrow> tool_call
     \<Rightarrow> ledger \<Rightarrow> tool_start \<times> ledger" where
  "begin_tool_call owners tools now state call d =
     (case call_tool_name call of
        None \<Rightarrow> (Run_directly, d)
      | Some tool_name \<Rightarrow>
          (case check_ledger (list_attempts (owner_scope (rn_owner_id state)) (rn_run_id state) d)
                  (latest_in_round state (tc_id call) d) call of
             Some outcome \<Rightarrow> (outcome, d)
           | None \<Rightarrow>
               (case tools tool_name of
                  Inl e \<Rightarrow> (Refuse e, d)
                | Inr tool \<Rightarrow>
                    (case schedule_attempt owners now state tool_name tool call d of
                       (Inl e, d') \<Rightarrow> (Refuse e, d')
                     | (Inr a, d') \<Rightarrow>
                         (let a = started_attempt now
                                (with_idempotency_key (round_key state call d) call) a
                          in case save_attempt (owner_scope (rn_owner_id state)) a d' of
                               (Inl e, d'') \<Rightarrow> (Refuse e, d'')
                             | (Inr _, d'') \<Rightarrow> (Run_attempt a, d''))))))"

text \<open>The write after the await: the result, or the exception, of the tool.\<close>

definition end_tool_call ::
  "principal_scope option \<Rightarrow> int \<Rightarrow> execution_attempt \<Rightarrow> error + tool_call_result
     \<Rightarrow> (error, ledger, tool_call_result) act" where
  "end_tool_call scope now a result d =
     (case result of
        Inl e \<Rightarrow>
          (case save_attempt scope
                  (a\<lparr>ea_status := Ex_FAILED, ea_error_type := Some (class_name (error_class e)),
                     ea_error_message := Some (error_message e), ea_finished_at := Some now\<rparr>) d of
             (Inl e', d) \<Rightarrow> (Inl e', d)
           | (Inr _, d) \<Rightarrow> (Inl e, d))
      | Inr r \<Rightarrow>
          (case save_attempt scope
                  (a\<lparr>ea_status := Ex_COMPLETED, ea_result := Some r, ea_finished_at := Some now\<rparr>) d of
             (Inl e', d) \<Rightarrow> (Inl e', d)
           | (Inr _, d) \<Rightarrow> (Inr r, d)))"

definition execute_tool_call ::
  "run_owners \<Rightarrow> (string \<Rightarrow> error + tool_definition) \<Rightarrow> (tool_call \<Rightarrow> error + tool_call_result) \<Rightarrow> int
     \<Rightarrow> agent_run \<Rightarrow> tool_call \<Rightarrow> (error, ledger, tool_call_result) act" where
  "execute_tool_call owners tools run now state call d =
     (case begin_tool_call owners tools now state call d of
        (Run_directly, d) \<Rightarrow> (run call, d)
      | (Reuse_result r, d) \<Rightarrow> (Inr r, d)
      | (Refuse e, d) \<Rightarrow> (Inl e, d)
      | (Run_attempt a, d) \<Rightarrow>
          end_tool_call (owner_scope (rn_owner_id state)) now a (run (ea_tool_call a)) d)"

text \<open>
  Both of these are for a runtime with a register of tool executions.  The first branch of the code is for a runtime
  without one (\<open>register\<close> is \<open>None\<close>): the call is executed and nothing is recorded.
\<close>

definition run_tool_call ::
  "run_owners \<Rightarrow> (string \<Rightarrow> error + tool_definition) \<Rightarrow> (tool_call \<Rightarrow> error + tool_call_result) \<Rightarrow> int
     \<Rightarrow> agent_run \<Rightarrow> tool_call \<Rightarrow> (error, ledger option, tool_call_result) act" where
  "run_tool_call owners tools run now state call register =
     (case register of
        None \<Rightarrow> (run call, None)
      | Some d \<Rightarrow> (case execute_tool_call owners tools run now state call d of (result, d') \<Rightarrow> (result, Some d')))"

lemma run_tool_call_register: "snd (run_tool_call owners tools run now state call register) = None \<longleftrightarrow> register = None"
  by (simp add: run_tool_call_def split: option.split prod.split)

section \<open>Reconciliation and resolution\<close>

definition mark_unknown :: "execution_attempt \<Rightarrow> execution_attempt" where
  "mark_unknown a = (if ea_status a = Ex_STARTED then a\<lparr>ea_status := Ex_UNKNOWN\<rparr> else a)"

text \<open>The writes of \<open>_mark_started_executions_unknown\<close> and \<open>_reconcile_tool_executions\<close>.\<close>

definition mark_started_unknown ::
  "principal_scope option \<Rightarrow> execution_attempt list \<Rightarrow> (error, ledger, execution_attempt list) act" where
  "mark_started_unknown scope attempts d =
     (case for_each (\<lambda>a d. if ea_status a = Ex_STARTED then save_attempt scope (mark_unknown a) d
                           else (Inr (), d)) attempts d of
        (Inl e, d) \<Rightarrow> (Inl e, d)
      | (Inr _, d) \<Rightarrow> (Inr (map mark_unknown attempts), d))"

definition confirmed_result :: "string \<Rightarrow> metadata option \<Rightarrow> tool_call_result" where
  "confirmed_result call_id result =
     \<lparr>tr_id = call_id,
      tr_result = (case result of
                     None \<Rightarrow> [(''status'', PStr ''confirmed_completed'')]
                   | Some r \<Rightarrow> if r = [] then [(''status'', PStr ''confirmed_completed'')] else r),
      tr_metadata = [(''operator_confirmed'', PBool True)]\<rparr>"

definition resolved_attempt ::
  "int \<Rightarrow> execution_resolution \<Rightarrow> string option \<Rightarrow> metadata option \<Rightarrow> execution_attempt \<Rightarrow> execution_attempt" where
  "resolved_attempt now resolution reason result a =
     (let a = a\<lparr>ea_resolution := Some resolution, ea_resolution_reason := reason,
                ea_resolved_at := Some now\<rparr>
      in if resolution = Confirm_completed
         then a\<lparr>ea_status := Ex_COMPLETED, ea_result := Some (confirmed_result (ea_tool_call_id a) result),
                ea_finished_at := Some now\<rparr>
         else a)"

text \<open>The ledger part of \<open>resolve_tool_execution\<close>: its checks and its write.\<close>

definition resolve_attempt ::
  "principal_scope option \<Rightarrow> int \<Rightarrow> agent_run_status \<Rightarrow> attempt_key \<Rightarrow> execution_resolution
     \<Rightarrow> string option \<Rightarrow> metadata option \<Rightarrow> (error, ledger, execution_attempt) act" where
  "resolve_attempt scope now status k resolution reason result d =
     (if status \<noteq> Run_PAUSED
      then (Inl (agent_state_error ''Tool execution resolution requires a paused run''), d)
      else if resolution = Abandon_and_retry_run
      then (Inl (agent_state_error ''Use agent run retry to abandon the current run''), d)
      else case get_attempt scope k d of
             Inl e \<Rightarrow> (Inl e, d)
           | Inr a \<Rightarrow>
               if ea_status a \<noteq> Ex_UNKNOWN
               then (Inl (agent_state_error ''Only unknown tool executions can be resolved''), d)
               else if ea_resolution a \<noteq> None
               then (Inl (agent_state_error ''The tool execution is already resolved''), d)
               else let a = resolved_attempt now resolution reason result a
                    in bind_a (save_attempt scope a) (\<lambda>_. return_a a) d)"

text \<open>The unknown executions that keep a run from being resumed.\<close>

definition blocks_run :: "execution_attempt \<Rightarrow> bool" where
  "blocks_run a \<longleftrightarrow> ea_status a = Ex_UNKNOWN \<and> ea_replay_policy a = Replay_NON_REPLAYABLE
     \<and> ea_resolution a = None"

definition abandon_attempts ::
  "principal_scope option \<Rightarrow> int \<Rightarrow> string \<Rightarrow> (error, ledger, (string \<times> nat) list) act" where
  "abandon_attempts scope now run_id d =
     (let abandoned = filter blocks_run (dict_values (latest_attempts (list_attempts scope run_id d)))
      in bind_a (for_each (\<lambda>a. save_attempt scope
             (a\<lparr>ea_resolution := Some Abandon_and_retry_run, ea_resolution_reason := Some ''run_retried'',
                ea_resolved_at := Some now\<rparr>)) abandoned)
           (\<lambda>_. return_a (map (\<lambda>a. (ea_tool_call_id a, ea_attempt a)) abandoned)) d)"

section \<open>Lemmas on the readings\<close>

lemma latest_attempts_snoc:
  "latest_attempts (as @ [a]) =
     (case dict_get (latest_attempts as) (ea_tool_call_id a) of
        None \<Rightarrow> dict_set (ea_tool_call_id a) a (latest_attempts as)
      | Some current \<Rightarrow>
          if ea_attempt a > ea_attempt current
          then dict_set (ea_tool_call_id a) a (latest_attempts as) else latest_attempts as)"
  by (auto simp: latest_attempts_def split: option.split)

lemma latest_attempts_Some:
  "dict_get (latest_attempts as) c = Some l \<Longrightarrow>
     l \<in> set as \<and> ea_tool_call_id l = c
     \<and> (\<forall>a \<in> set as. ea_tool_call_id a = c \<longrightarrow> ea_attempt a \<le> ea_attempt l)"
proof (induction as arbitrary: l rule: rev_induct)
  case Nil
  then show ?case by (simp add: latest_attempts_def)
next
  case (snoc a as)
  show ?case
  proof (cases "ea_tool_call_id a = c")
    case False
    with snoc.prems have "dict_get (latest_attempts as) c = Some l"
      by (auto simp: latest_attempts_snoc split: option.splits if_splits)
    with snoc.IH False show ?thesis by auto
  next
    case True
    show ?thesis
    proof (cases "dict_get (latest_attempts as) c")
      case None
      then have "ea_tool_call_id b \<noteq> c" if "b \<in> set as" for b
        using that
      proof (induction as rule: rev_induct)
        case (snoc x as)
        then show ?case
          by (auto simp: latest_attempts_snoc split: option.splits if_splits)
      qed simp
      with None True snoc.prems show ?thesis by (auto simp: latest_attempts_snoc)
    next
      case (Some b)
      with snoc.IH [OF Some] True snoc.prems show ?thesis
        by (auto simp: latest_attempts_snoc split: if_splits intro: order.trans)
    qed
  qed
qed

lemma latest_attempts_None:
  "dict_get (latest_attempts as) c = None \<longleftrightarrow> (\<forall>a \<in> set as. ea_tool_call_id a \<noteq> c)"
proof (induction as rule: rev_induct)
  case Nil
  then show ?case by (simp add: latest_attempts_def)
next
  case (snoc a as)
  then show ?case
    by (auto simp: latest_attempts_snoc split: option.splits if_splits)
qed

lemma latest_attempts_ok: "dict_ok (latest_attempts as)"
proof (induction as rule: rev_induct)
  case Nil
  then show ?case by (simp add: latest_attempts_def)
qed (simp add: latest_attempts_snoc split: option.split)

lemma latest_attempts_subset: "a \<in> set (dict_values (latest_attempts as)) \<Longrightarrow> a \<in> set as"
  by (auto simp: dict_values_iff [OF latest_attempts_ok] dest: latest_attempts_Some)

lemma fold_max_ge: "n \<le> fold max xs (n :: nat) \<and> (\<forall>x \<in> set xs. x \<le> fold max xs n)"
proof (induction xs arbitrary: n)
  case (Cons x xs)
  from Cons.IH [of "max x n"] show ?case by auto
qed simp

lemma next_attempt_greater:
  "a \<in> set as \<Longrightarrow> ea_tool_call_id a = c \<Longrightarrow> ea_attempt a < next_attempt as c"
  using fold_max_ge [of 0 "map ea_attempt (filter (\<lambda>a. ea_tool_call_id a = c) as)"]
  by (auto simp: next_attempt_def less_Suc_eq_le)

text \<open>A ledger under the keys of its attempts.\<close>

definition ledger_keyed :: "ledger \<Rightarrow> bool" where
  "ledger_keyed d \<longleftrightarrow> dict_ok d \<and> (\<forall>k a. dict_get d k = Some a \<longrightarrow> key_of a = k)"

lemma ledger_keyed_set: "ledger_keyed d \<Longrightarrow> ledger_keyed (dict_set (key_of a) a d)"
  by (simp add: ledger_keyed_def)

lemma list_attempts_iff:
  "ledger_keyed d \<Longrightarrow> a \<in> set (list_attempts scope run d) \<longleftrightarrow>
     dict_get d (key_of a) = Some a \<and> ea_run_id a = run \<and> scope_permits scope (ea_owner_id a)"
  by (auto simp: list_attempts_def ledger_keyed_def dict_values_iff)

lemma latest_in_round_Some:
  assumes "ledger_keyed d" "latest_in_round state c d = Some l"
  shows "dict_get d (key_of l) = Some l" "ea_run_id l = rn_run_id state" "ea_tool_call_id l = c"
    "ea_tool_round l = Some (current_tool_round state)"
    "scope_permits (owner_scope (rn_owner_id state)) (ea_owner_id l)"
    "dict_get d k = Some a \<Longrightarrow> ea_run_id a = rn_run_id state \<Longrightarrow> ea_tool_call_id a = c \<Longrightarrow>
       ea_tool_round a = Some (current_tool_round state) \<Longrightarrow>
       scope_permits (owner_scope (rn_owner_id state)) (ea_owner_id a) \<Longrightarrow> ea_attempt a \<le> ea_attempt l"
  using latest_attempts_Some [OF assms(2) [unfolded latest_in_round_def]] assms(1)
  by (auto simp: round_attempts_def list_attempts_iff ledger_keyed_def)

lemma latest_in_round_None:
  assumes "ledger_keyed d" "latest_in_round state c d = None"
    and "dict_get d k = Some a" "ea_run_id a = rn_run_id state" "ea_tool_call_id a = c"
    and "scope_permits (owner_scope (rn_owner_id state)) (ea_owner_id a)"
  shows "ea_tool_round a \<noteq> Some (current_tool_round state)"
  using assms by (auto simp: latest_in_round_def latest_attempts_None round_attempts_def
      list_attempts_iff ledger_keyed_def)

lemma owner_scope_permits [simp]: "scope_permits (owner_scope owner) owner"
  by (cases owner) (simp_all add: owner_scope_def)

section \<open>What the writes do\<close>

lemma save_attempt_cases:
  assumes "save_attempt scope a d = (r, d')"
  obtains (refused) e where "r = Inl e" "d' = d" "error_class e = Agent AgentStateError"
  | (saved) old where "r = Inr ()" "dict_get d (key_of a) = Some old" "d' = dict_set (key_of a) a d"
  using assms
  by (auto simp: save_attempt_def require_attempt_scope_def agent_state_error_def
      split: option.splits if_splits)

lemma create_attempt_cases:
  assumes "create_attempt owners scope a d = (r, d')"
  obtains (refused) e where "r = Inl e" "d' = d" "error_class e = Agent AgentStateError"
  | (created) "r = Inr ()" "dict_get d (key_of a) = None" "owners (ea_run_id a) = Some (ea_owner_id a)"
      "d' = dict_set (key_of a) a d"
proof (cases "require_attempt_scope a scope")
  case (Inl e)
  then have "error_class e = Agent AgentStateError"
    by (auto simp: require_attempt_scope_def agent_state_error_def split: if_splits)
  with Inl assms show thesis by (intro refused [of e]) (simp_all add: create_attempt_def)
next
  case scope: (Inr u)
  show thesis
  proof (cases "require_run owners (ea_run_id a) (ea_owner_id a) scope")
    case (Inl e)
    then have "error_class e = Agent AgentStateError"
      by (auto simp: require_run_def agent_state_error_def split: if_splits option.splits)
    with Inl scope assms show thesis by (intro refused [of e]) (simp_all add: create_attempt_def)
  next
    case (Inr u')
    then have owner: "owners (ea_run_id a) = Some (ea_owner_id a)"
      by (auto simp: require_run_def split: if_splits option.splits)
    show thesis
    proof (cases "dict_has d (key_of a)")
      case True
      with Inr scope assms show thesis
        by (intro refused) (simp_all add: create_attempt_def agent_state_error_def, auto)
    next
      case False
      with Inr scope owner assms show thesis
        by (intro created) (simp_all add: create_attempt_def dict_has_def)
    qed
  qed
qed

lemma still_scheduled_iff:
  "still_scheduled state c d = Some a \<longleftrightarrow>
     latest_in_round state c d = Some a \<and> ea_status a = Ex_SCHEDULED"
  by (auto simp: still_scheduled_def split: option.splits)

lemma schedule_cases:
  assumes "schedule_attempt owners now state name tool call d = (r, d')"
  obtains (refused) e where "r = Inl e" "d' = d" "error_class e = Agent AgentStateError"
  | (again) a where "latest_in_round state (tc_id call) d = Some a" "ea_status a = Ex_SCHEDULED"
      "r = Inr a" "d' = d"
  | (fresh) a where "a = fresh_attempt now state name tool call d"
      "\<And>l. latest_in_round state (tc_id call) d = Some l \<Longrightarrow> ea_status l \<noteq> Ex_SCHEDULED"
      "r = Inr a" "dict_get d (key_of a) = None"
      "owners (ea_run_id a) = Some (ea_owner_id a)" "d' = dict_set (key_of a) a d"
proof (cases "still_scheduled state (tc_id call) d")
  case (Some a)
  with assms have "r = Inr a" "d' = d" by (simp_all add: schedule_attempt_def)
  with Some show thesis by (intro again [of a]) (simp_all add: still_scheduled_iff)
next
  case None
  let ?a = "fresh_attempt now state name tool call d"
  obtain x d1 where create: "create_attempt owners (owner_scope (rn_owner_id state)) ?a d = (x, d1)"
    by fastforce
  have l: "ea_status l \<noteq> Ex_SCHEDULED" if "latest_in_round state (tc_id call) d = Some l" for l
    using None that by (auto simp: still_scheduled_def)
  note sched = assms [unfolded schedule_attempt_def None option.case Let_def create prod.case]
  from create show thesis
  proof (cases rule: create_attempt_cases)
    case (refused e)
    with sched show thesis by (intro that(1)) simp_all
  next
    case created
    with sched have "r = Inr ?a" "d' = dict_set (key_of ?a) ?a d" by simp_all
    with created l show thesis by (intro fresh [OF refl])
  qed
qed

section \<open>The ledger, the running tools and the operator\<close>

text \<open>
  \<open>lw_running\<close> are the started attempts whose tool has not returned, in the memory of the process;
  \<open>lw_invoked\<close> records every start of a tool and \<open>lw_retried\<close> every operator decision to retry.
  Neither is state of the program: they are the history the theorems speak of.
\<close>

record ledger_world =
  lw_ledger :: ledger
  lw_running :: "execution_attempt list"
  lw_invoked :: "attempt_key list"
  lw_retried :: "attempt_key list"

definition empty_world :: ledger_world where
  "empty_world = \<lparr>lw_ledger = [], lw_running = [], lw_invoked = [], lw_retried = []\<rparr>"

inductive ledger_step :: "run_owners \<Rightarrow> ledger_world \<Rightarrow> ledger_world \<Rightarrow> bool" for owners where
  step_start: "begin_tool_call owners tools now state call (lw_ledger w) = (Run_attempt a, d) \<Longrightarrow>
     ledger_step owners w
       (w\<lparr>lw_ledger := d, lw_running := a # lw_running w, lw_invoked := key_of a # lw_invoked w\<rparr>)"
| step_no_start: "begin_tool_call owners tools now state call (lw_ledger w) = (start, d) \<Longrightarrow>
     (\<And>a. start \<noteq> Run_attempt a) \<Longrightarrow> ledger_step owners w (w\<lparr>lw_ledger := d\<rparr>)"
| step_crash_before_start:
    "check_ledger (list_attempts (owner_scope (rn_owner_id state)) (rn_run_id state) (lw_ledger w))
       (latest_in_round state (tc_id call) (lw_ledger w)) call = None \<Longrightarrow>
     schedule_attempt owners now state name tool call (lw_ledger w) = (r, d) \<Longrightarrow>
     ledger_step owners w (w\<lparr>lw_ledger := d, lw_running := []\<rparr>)"
| step_finish: "a \<in> set (lw_running w) \<Longrightarrow> end_tool_call scope now a result (lw_ledger w) = (r, d) \<Longrightarrow>
     ledger_step owners w (w\<lparr>lw_ledger := d, lw_running := remove1 a (lw_running w)\<rparr>)"
| step_crash: "ledger_step owners w (w\<lparr>lw_running := []\<rparr>)"
| step_reconcile:
    "mark_started_unknown scope (list_attempts scope run_id (lw_ledger w)) (lw_ledger w) = (r, d) \<Longrightarrow>
     ledger_step owners w (w\<lparr>lw_ledger := d\<rparr>)"
| step_resolve:
    "resolve_attempt scope now status k resolution reason result (lw_ledger w) = (r, d) \<Longrightarrow>
     ledger_step owners w (w\<lparr>lw_ledger := d,
       lw_retried := (if resolution = Retry_execution then k # lw_retried w else lw_retried w)\<rparr>)"
| step_abandon: "abandon_attempts scope now run_id (lw_ledger w) = (r, d) \<Longrightarrow>
     ledger_step owners w (w\<lparr>lw_ledger := d\<rparr>)"

inductive ledger_reachable :: "run_owners \<Rightarrow> ledger_world \<Rightarrow> bool" for owners where
  reach_empty: "ledger_reachable owners empty_world"
| reach_step: "ledger_reachable owners w \<Longrightarrow> ledger_step owners w w' \<Longrightarrow> ledger_reachable owners w'"

section \<open>The invariant of the ledger\<close>

definition same_call :: "execution_attempt \<Rightarrow> execution_attempt \<Rightarrow> bool" where
  "same_call a b \<longleftrightarrow> ea_run_id a = ea_run_id b \<and> ea_tool_call_id a = ea_tool_call_id b
     \<and> ea_tool_round a = ea_tool_round b"

definition same_attempt :: "execution_attempt \<Rightarrow> execution_attempt \<Rightarrow> bool" where
  "same_attempt a b \<longleftrightarrow> key_of a = key_of b \<and> ea_owner_id a = ea_owner_id b
     \<and> ea_tool_round a = ea_tool_round b \<and> ea_replay_policy a = ea_replay_policy b
     \<and> ea_idempotency_key a = ea_idempotency_key b"

definition may_repeat :: "attempt_key list \<Rightarrow> execution_attempt \<Rightarrow> bool" where
  "may_repeat retried a \<longleftrightarrow> key_of a \<in> set retried
     \<or> ea_replay_policy a = Replay_SAFE \<or> ea_replay_policy a = Replay_IDEMPOTENT"

definition attempt_ok :: "run_owners \<Rightarrow> attempt_key list \<Rightarrow> attempt_key list \<Rightarrow> execution_attempt \<Rightarrow> bool" where
  "attempt_ok owners invoked retried a \<longleftrightarrow>
     owners (ea_run_id a) = Some (ea_owner_id a)
     \<and> (\<exists>n. ea_tool_round a = Some n
          \<and> ea_idempotency_key a = idempotency_key_of (ea_run_id a) n (ea_tool_call_id a))
     \<and> (ea_status a = Ex_SCHEDULED \<longleftrightarrow> key_of a \<notin> set invoked)
     \<and> (ea_resolution a = Some Retry_execution \<longrightarrow> key_of a \<in> set retried)"

definition ledger_ok :: "run_owners \<Rightarrow> ledger_world \<Rightarrow> bool" where
  "ledger_ok owners w \<longleftrightarrow> ledger_keyed (lw_ledger w)
     \<and> (\<forall>k a. dict_get (lw_ledger w) k = Some a
          \<longrightarrow> attempt_ok owners (lw_invoked w) (lw_retried w) a)
     \<and> (\<forall>k k' a b. dict_get (lw_ledger w) k = Some a \<longrightarrow> dict_get (lw_ledger w) k' = Some b
          \<longrightarrow> same_call a b \<longrightarrow> ea_attempt a < ea_attempt b \<longrightarrow> may_repeat (lw_retried w) a)
     \<and> (\<forall>a \<in> set (lw_running w). ea_status a \<noteq> Ex_SCHEDULED
          \<and> (ea_resolution a = Some Retry_execution \<longrightarrow> key_of a \<in> set (lw_retried w))
          \<and> (\<exists>old. dict_get (lw_ledger w) (key_of a) = Some old \<and> same_attempt a old
               \<and> ea_status old \<noteq> Ex_SCHEDULED))
     \<and> distinct (lw_invoked w) \<and> (\<forall>k \<in> set (lw_invoked w). dict_has (lw_ledger w) k)"

lemma ledger_okI:
  assumes "ledger_keyed (lw_ledger w)"
    and "\<And>k a. dict_get (lw_ledger w) k = Some a \<Longrightarrow> attempt_ok owners (lw_invoked w) (lw_retried w) a"
    and "\<And>k k' a b. dict_get (lw_ledger w) k = Some a \<Longrightarrow> dict_get (lw_ledger w) k' = Some b \<Longrightarrow>
      same_call a b \<Longrightarrow> ea_attempt a < ea_attempt b \<Longrightarrow> may_repeat (lw_retried w) a"
    and "\<And>a. a \<in> set (lw_running w) \<Longrightarrow> ea_status a \<noteq> Ex_SCHEDULED"
    and "\<And>a. a \<in> set (lw_running w) \<Longrightarrow> ea_resolution a = Some Retry_execution \<Longrightarrow>
      key_of a \<in> set (lw_retried w)"
    and "\<And>a. a \<in> set (lw_running w) \<Longrightarrow> \<exists>old. dict_get (lw_ledger w) (key_of a) = Some old
      \<and> same_attempt a old \<and> ea_status old \<noteq> Ex_SCHEDULED"
    and "distinct (lw_invoked w)"
    and "\<And>k. k \<in> set (lw_invoked w) \<Longrightarrow> dict_has (lw_ledger w) k"
  shows "ledger_ok owners w"
  using assms unfolding ledger_ok_def by blast

lemma ledger_okD:
  assumes "ledger_ok owners w"
  shows "ledger_keyed (lw_ledger w)"
    and "dict_get (lw_ledger w) k = Some a \<Longrightarrow> attempt_ok owners (lw_invoked w) (lw_retried w) a"
    and "dict_get (lw_ledger w) k = Some a \<Longrightarrow> dict_get (lw_ledger w) k' = Some b \<Longrightarrow>
      same_call a b \<Longrightarrow> ea_attempt a < ea_attempt b \<Longrightarrow> may_repeat (lw_retried w) a"
    and "c \<in> set (lw_running w) \<Longrightarrow> ea_status c \<noteq> Ex_SCHEDULED"
    and "c \<in> set (lw_running w) \<Longrightarrow> ea_resolution c = Some Retry_execution \<Longrightarrow>
      key_of c \<in> set (lw_retried w)"
    and "c \<in> set (lw_running w) \<Longrightarrow> \<exists>old. dict_get (lw_ledger w) (key_of c) = Some old
      \<and> same_attempt c old \<and> ea_status old \<noteq> Ex_SCHEDULED"
    and "distinct (lw_invoked w)"
    and "k \<in> set (lw_invoked w) \<Longrightarrow> dict_has (lw_ledger w) k"
  using assms unfolding ledger_ok_def by blast+

lemma same_attempt_simps:
  assumes "same_attempt a b"
  shows "key_of a = key_of b" "ea_run_id a = ea_run_id b" "ea_tool_call_id a = ea_tool_call_id b"
    "ea_attempt a = ea_attempt b" "ea_owner_id a = ea_owner_id b" "ea_tool_round a = ea_tool_round b"
    "ea_replay_policy a = ea_replay_policy b" "ea_idempotency_key a = ea_idempotency_key b"
  using assms by (simp_all add: same_attempt_def key_of_def)

text \<open>
  A write over a stored attempt that keeps its identity and does not change whether it was started.
\<close>

lemma ledger_ok_update:
  assumes ok: "ledger_ok owners w" and old: "dict_get (lw_ledger w) (key_of a) = Some old"
    and same: "same_attempt a old" and started: "ea_status a = Ex_SCHEDULED \<longleftrightarrow> ea_status old = Ex_SCHEDULED"
    and retry: "ea_resolution a = Some Retry_execution \<Longrightarrow> key_of a \<in> set (lw_retried w)"
  shows "ledger_ok owners (w\<lparr>lw_ledger := dict_set (key_of a) a (lw_ledger w)\<rparr>)"
proof -
  note same = same_attempt_simps [OF same]
  define d' where "d' = dict_set (key_of a) a (lw_ledger w)"
  have stored: "\<exists>c. dict_get (lw_ledger w) k = Some c \<and> same_attempt b c
      \<and> (ea_status b = Ex_SCHEDULED \<longleftrightarrow> ea_status c = Ex_SCHEDULED)" if "dict_get d' k = Some b" for k b
    using that old assms(3) started by (auto simp: d'_def same_attempt_def split: if_splits)
  have "ledger_ok owners (w\<lparr>lw_ledger := d'\<rparr>)"
  proof (rule ledger_okI, simp_all)
    show "ledger_keyed d'" unfolding d'_def by (rule ledger_keyed_set [OF ledger_okD(1) [OF ok]])
  next
    fix k b assume b: "dict_get d' k = Some b"
    show "attempt_ok owners (lw_invoked w) (lw_retried w) b"
    proof (cases "k = key_of a")
      case True
      with b have [simp]: "b = a" by (simp add: d'_def)
      from ledger_okD(2) [OF ok old] show ?thesis
        using same started retry by (simp add: attempt_ok_def)
    next
      case False
      with b ledger_okD(2) [OF ok] show ?thesis by (simp add: d'_def)
    qed
  next
    fix k k' b c
    assume b: "dict_get d' k = Some b" and c: "dict_get d' k' = Some c"
      and bc: "same_call b c" "ea_attempt b < ea_attempt c"
    obtain b' where b': "dict_get (lw_ledger w) k = Some b'" "same_attempt b b'"
      using stored [OF b] by (elim exE conjE)
    obtain c' where c': "dict_get (lw_ledger w) k' = Some c'" "same_attempt c c'"
      using stored [OF c] by (elim exE conjE)
    have "same_call b' c'" "ea_attempt b' < ea_attempt c'"
      using bc same_attempt_simps [OF b'(2)] same_attempt_simps [OF c'(2)] by (simp_all add: same_call_def)
    then have "may_repeat (lw_retried w) b'"
      by (rule ledger_okD(3) [OF ok b'(1) c'(1)])
    then show "may_repeat (lw_retried w) b"
      using same_attempt_simps [OF b'(2)] by (simp add: may_repeat_def)
  next
    fix c assume c: "c \<in> set (lw_running w)"
    then show "ea_status c \<noteq> Ex_SCHEDULED" by (rule ledger_okD(4) [OF ok])
    from ledger_okD(6) [OF ok c] obtain e where e: "dict_get (lw_ledger w) (key_of c) = Some e"
        "same_attempt c e" "ea_status e \<noteq> Ex_SCHEDULED" by blast
    show "\<exists>e. dict_get d' (key_of c) = Some e \<and> same_attempt c e \<and> ea_status e \<noteq> Ex_SCHEDULED"
    proof (cases "key_of c = key_of a")
      case True
      with e(1) old have "e = old" by simp
      with e(2,3) started assms(3) True show ?thesis by (simp add: d'_def same_attempt_def)
    next
      case False
      with e show ?thesis by (simp add: d'_def)
    qed
    show "key_of c \<in> set (lw_retried w)" if "ea_resolution c = Some Retry_execution"
      using ledger_okD(5) [OF ok c that] .
  next
    show "distinct (lw_invoked w)" by (rule ledger_okD(7) [OF ok])
  next
    fix k assume "k \<in> set (lw_invoked w)"
    from ledger_okD(8) [OF ok this] show "dict_has d' k" by (simp add: d'_def)
  qed
  then show ?thesis by (simp add: d'_def)
qed

lemma ledger_ok_save:
  assumes ok: "ledger_ok owners w" and save: "save_attempt scope a (lw_ledger w) = (r, d)"
    and same: "\<And>old. dict_get (lw_ledger w) (key_of a) = Some old \<Longrightarrow> same_attempt a old
       \<and> (ea_status a = Ex_SCHEDULED \<longleftrightarrow> ea_status old = Ex_SCHEDULED)"
    and retry: "ea_resolution a = Some Retry_execution \<Longrightarrow> key_of a \<in> set (lw_retried w)"
  shows "ledger_ok owners (w\<lparr>lw_ledger := d\<rparr>)"
  using save
proof (cases rule: save_attempt_cases)
  case (refused e)
  with ok show ?thesis by simp
next
  case (saved old)
  with same [OF saved(2)] retry show ?thesis
    using ledger_ok_update [OF ok saved(2)] by blast
qed

lemma ledger_ok_retried:
  assumes "ledger_ok owners w"
  shows "ledger_ok owners (w\<lparr>lw_retried := k # lw_retried w\<rparr>)"
proof (rule ledger_okI, simp_all)
  show "ledger_keyed (lw_ledger w)" by (rule ledger_okD(1) [OF assms])
  show "attempt_ok owners (lw_invoked w) (k # lw_retried w) a" if "dict_get (lw_ledger w) k' = Some a" for k' a
    using ledger_okD(2) [OF assms that] by (auto simp: attempt_ok_def)
  show "may_repeat (k # lw_retried w) a"
    if "dict_get (lw_ledger w) k1 = Some a" "dict_get (lw_ledger w) k2 = Some b" "same_call a b"
      "ea_attempt a < ea_attempt b" for k1 k2 a b
    using ledger_okD(3) [OF assms that] by (auto simp: may_repeat_def)
  fix a assume a: "a \<in> set (lw_running w)"
  show "ea_status a \<noteq> Ex_SCHEDULED" by (rule ledger_okD(4) [OF assms a])
  show "key_of a = k \<or> key_of a \<in> set (lw_retried w)" if "ea_resolution a = Some Retry_execution"
    using ledger_okD(5) [OF assms a that] ..
  show "\<exists>old. dict_get (lw_ledger w) (key_of a) = Some old \<and> same_attempt a old
      \<and> ea_status old \<noteq> Ex_SCHEDULED"
    by (rule ledger_okD(6) [OF assms a])
next
  show "distinct (lw_invoked w)" by (rule ledger_okD(7) [OF assms])
  show "dict_has (lw_ledger w) k'" if "k' \<in> set (lw_invoked w)" for k'
    by (rule ledger_okD(8) [OF assms that])
qed

lemma ledger_ok_running:
  assumes "ledger_ok owners w" "set running \<subseteq> set (lw_running w)"
  shows "ledger_ok owners (w\<lparr>lw_running := running\<rparr>)"
  using assms unfolding ledger_ok_def by (simp add: subset_iff)

text \<open>Creating the next attempt of a call.\<close>

lemma ledger_ok_fresh:
  assumes ok: "ledger_ok owners w" and a: "a = fresh_attempt now state name tool call (lw_ledger w)"
    and new: "dict_get (lw_ledger w) (key_of a) = None"
    and owner: "owners (ea_run_id a) = Some (ea_owner_id a)"
    and checked: "check_ledger (list_attempts (owner_scope (rn_owner_id state)) (rn_run_id state) (lw_ledger w))
       (latest_in_round state (tc_id call) (lw_ledger w)) call = None"
    and last: "\<And>l. latest_in_round state (tc_id call) (lw_ledger w) = Some l \<Longrightarrow> ea_status l \<noteq> Ex_SCHEDULED"
  shows "ledger_ok owners (w\<lparr>lw_ledger := dict_set (key_of a) a (lw_ledger w)\<rparr>)"
proof -
  let ?d = "lw_ledger w"
  let ?as = "list_attempts (owner_scope (rn_owner_id state)) (rn_run_id state) ?d"
  note keyed = ledger_okD(1) [OF ok]
  have fields: "ea_run_id a = rn_run_id state" "ea_owner_id a = rn_owner_id state"
      "ea_tool_call_id a = tc_id call" "ea_tool_round a = Some (current_tool_round state)"
      "ea_status a = Ex_SCHEDULED" "ea_resolution a = None"
      "ea_idempotency_key a = round_key state call ?d" "ea_attempt a = next_attempt ?as (tc_id call)"
    by (simp_all add: a fresh_attempt_def scheduled_attempt_def with_idempotency_key_def)
  have listed: "b \<in> set ?as" if "dict_get ?d k = Some b" "ea_run_id b = rn_run_id state" for k b
  proof -
    from ledger_okD(2) [OF ok that(1)] that(2) owner fields have "ea_owner_id b = rn_owner_id state"
      by (simp add: attempt_ok_def)
    moreover from that(1) keyed have "dict_get ?d (key_of b) = Some b" by (simp add: ledger_keyed_def)
    ultimately show ?thesis using that(2) keyed by (simp add: list_attempts_iff)
  qed
  have below: "ea_attempt b < ea_attempt a"
    if "dict_get ?d k = Some b" "ea_run_id b = rn_run_id state" "ea_tool_call_id b = tc_id call" for k b
    using next_attempt_greater [OF listed [OF that(1,2)] that(3)] fields by simp
  have repeat_last: "may_repeat (lw_retried w) l" "dict_get ?d (key_of l) = Some l"
    if l: "latest_in_round state (tc_id call) ?d = Some l" for l
  proof -
    note stored = latest_in_round_Some [OF keyed l]
    show "dict_get ?d (key_of l) = Some l" by (rule stored(1))
    from ledger_okD(2) [OF ok this]
    have "ea_resolution l = Some Retry_execution \<longrightarrow> key_of l \<in> set (lw_retried w)"
      by (simp add: attempt_ok_def)
    moreover from checked l last [OF l] have "call_can_resume (Some l)" "ea_status l \<noteq> Ex_COMPLETED"
        "ea_status l \<noteq> Ex_FAILED"
      by (cases "ea_status l"; auto simp: check_ledger_def split: if_splits)+
    ultimately show "may_repeat (lw_retried w) l"
      using last [OF l] by (auto simp: call_can_resume_def may_repeat_def split: if_splits)
  qed
  have repeat: "may_repeat (lw_retried w) b" if b: "dict_get ?d k = Some b" "same_call b a" for k b
  proof -
    from b(2) fields have run: "ea_run_id b = rn_run_id state" "ea_tool_call_id b = tc_id call"
        "ea_tool_round b = Some (current_tool_round state)"
      by (simp_all add: same_call_def)
    have owner_b: "scope_permits (owner_scope (rn_owner_id state)) (ea_owner_id b)"
      using listed [OF b(1) run(1)] keyed by (simp add: list_attempts_iff)
    obtain l where l: "latest_in_round state (tc_id call) ?d = Some l"
      using latest_in_round_None [OF keyed _ b(1) run(1,2) owner_b] run(3)
      by (cases "latest_in_round state (tc_id call) ?d") auto
    note stored = latest_in_round_Some [OF keyed l]
    from stored(6) [OF b(1) run owner_b] have "ea_attempt b < ea_attempt l \<or> ea_attempt b = ea_attempt l"
      by auto
    then show ?thesis
    proof
      assume "ea_attempt b < ea_attempt l"
      moreover have "same_call b l" using run stored(2,3,4) by (simp add: same_call_def)
      ultimately show ?thesis using ledger_okD(3) [OF ok b(1) stored(1)] by simp
    next
      assume "ea_attempt b = ea_attempt l"
      with run stored(2,3) have eq: "key_of b = key_of l" by (simp add: key_of_def)
      from b(1) keyed have "dict_get ?d (key_of b) = Some b" by (simp add: ledger_keyed_def)
      from this [unfolded eq] have "b = l" by (simp only: stored(1) option.inject)
      with repeat_last(1) [OF l] show ?thesis by simp
    qed
  qed
  have key: "round_key state call ?d
      = idempotency_key_of (rn_run_id state) (current_tool_round state) (tc_id call)"
  proof (cases "latest_in_round state (tc_id call) ?d")
    case (Some l)
    from ledger_okD(2) [OF ok repeat_last(2) [OF Some]] latest_in_round_Some(2,3,4) [OF keyed Some]
    show ?thesis by (auto simp: round_key_def Some attempt_ok_def)
  qed (simp add: round_key_def)
  show ?thesis
  proof (rule ledger_okI, simp_all del: dict_get_set)
    show "ledger_keyed (dict_set (key_of a) a ?d)" by (rule ledger_keyed_set [OF keyed])
  next
    fix k b assume b: "dict_get (dict_set (key_of a) a ?d) k = Some b"
    show "attempt_ok owners (lw_invoked w) (lw_retried w) b"
    proof (cases "k = key_of a")
      case True
      with b have "b = a" by simp
      moreover have "key_of a \<notin> set (lw_invoked w)"
        using new ledger_okD(8) [OF ok, of "key_of a"] by (auto simp: dict_has_def)
      ultimately show ?thesis using owner fields key by (simp add: attempt_ok_def)
    next
      case False
      with b show ?thesis by (intro ledger_okD(2) [OF ok]) simp
    qed
  next
    fix k k' b c
    assume b: "dict_get (dict_set (key_of a) a ?d) k = Some b"
      and c: "dict_get (dict_set (key_of a) a ?d) k' = Some c"
      and bc: "same_call b c" "ea_attempt b < ea_attempt c"
    show "may_repeat (lw_retried w) b"
    proof (cases "k = key_of a")
      case True
      with b have [simp]: "b = a" by simp
      show ?thesis
      proof (cases "k' = key_of a")
        case True
        with c bc show ?thesis by simp
      next
        case False
        with c have "dict_get ?d k' = Some c" by simp
        from below [OF this] bc fields show ?thesis by (simp add: same_call_def)
      qed
    next
      case k: False
      with b have b': "dict_get ?d k = Some b" by simp
      show ?thesis
      proof (cases "k' = key_of a")
        case True
        with c bc(1) have "same_call b a" by simp
        then show ?thesis by (rule repeat [OF b'])
      next
        case False
        with c have "dict_get ?d k' = Some c" by simp
        from ledger_okD(3) [OF ok b' this bc] show ?thesis .
      qed
    qed
  next
    fix c assume c: "c \<in> set (lw_running w)"
    show "ea_status c \<noteq> Ex_SCHEDULED" by (rule ledger_okD(4) [OF ok c])
    show "key_of c \<in> set (lw_retried w)" if "ea_resolution c = Some Retry_execution"
      by (rule ledger_okD(5) [OF ok c that])
    from ledger_okD(6) [OF ok c] new show "\<exists>old. dict_get (dict_set (key_of a) a ?d) (key_of c) = Some old
        \<and> same_attempt c old \<and> ea_status old \<noteq> Ex_SCHEDULED"
      by (cases "key_of c = key_of a") simp_all
  next
    show "distinct (lw_invoked w)" by (rule ledger_okD(7) [OF ok])
    show "k = key_of a \<or> dict_has ?d k" if "k \<in> set (lw_invoked w)" for k
      using ledger_okD(8) [OF ok that] ..
  qed
qed

lemma ledger_ok_schedule:
  assumes ok: "ledger_ok owners w"
    and sched: "schedule_attempt owners now state name tool call (lw_ledger w) = (r, d)"
    and checked: "check_ledger (list_attempts (owner_scope (rn_owner_id state)) (rn_run_id state) (lw_ledger w))
       (latest_in_round state (tc_id call) (lw_ledger w)) call = None"
  shows "ledger_ok owners (w\<lparr>lw_ledger := d\<rparr>)"
    and "r = Inr a \<Longrightarrow> dict_get d (key_of a) = Some a \<and> ea_status a = Ex_SCHEDULED"
proof -
  have "ledger_ok owners (w\<lparr>lw_ledger := d\<rparr>)
     \<and> (r = Inr a \<longrightarrow> dict_get d (key_of a) = Some a \<and> ea_status a = Ex_SCHEDULED)"
    using sched
  proof (cases rule: schedule_cases)
    case (refused e)
    with ok show ?thesis by simp
  next
    case (again b)
    with ok latest_in_round_Some(1) [OF ledger_okD(1) [OF ok] again(1)] show ?thesis by auto
  next
    case (fresh b)
    have "ea_status b = Ex_SCHEDULED"
      by (simp add: fresh(1) fresh_attempt_def scheduled_attempt_def)
    with ledger_ok_fresh [OF ok fresh(1,4,5) checked fresh(2)] fresh(3,6) show ?thesis by auto
  qed
  then show "ledger_ok owners (w\<lparr>lw_ledger := d\<rparr>)"
    and "r = Inr a \<Longrightarrow> dict_get d (key_of a) = Some a \<and> ea_status a = Ex_SCHEDULED"
    by simp_all
qed

lemma begin_cases:
  assumes "begin_tool_call owners tools now state call d = (start, d')"
  obtains (unnamed) "call_tool_name call = None" "start = Run_directly" "d' = d"
  | (decided) name outcome where "call_tool_name call = Some name"
      "check_ledger (list_attempts (owner_scope (rn_owner_id state)) (rn_run_id state) d)
         (latest_in_round state (tc_id call) d) call = Some outcome" "start = outcome" "d' = d"
  | (unknown_tool) name e where "call_tool_name call = Some name"
      "check_ledger (list_attempts (owner_scope (rn_owner_id state)) (rn_run_id state) d)
         (latest_in_round state (tc_id call) d) call = None" "tools name = Inl e" "start = Refuse e" "d' = d"
  | (not_created) name tool e where "call_tool_name call = Some name"
      "check_ledger (list_attempts (owner_scope (rn_owner_id state)) (rn_run_id state) d)
         (latest_in_round state (tc_id call) d) call = None" "tools name = Inr tool"
      "schedule_attempt owners now state name tool call d = (Inl e, d')" "start = Refuse e"
  | (written) name tool a b d1 x where "call_tool_name call = Some name"
      "check_ledger (list_attempts (owner_scope (rn_owner_id state)) (rn_run_id state) d)
         (latest_in_round state (tc_id call) d) call = None" "tools name = Inr tool"
      "schedule_attempt owners now state name tool call d = (Inr a, d1)"
      "b = started_attempt now (with_idempotency_key (round_key state call d) call) a"
      "save_attempt (owner_scope (rn_owner_id state)) b d1 = (x, d')"
      "start = (case x of Inl e \<Rightarrow> Refuse e | Inr _ \<Rightarrow> Run_attempt b)"
proof (cases "call_tool_name call")
  case None
  with assms show thesis by (intro unnamed) (simp_all add: begin_tool_call_def)
next
  case (Some name)
  note named = Some
  show thesis
  proof (cases "check_ledger (list_attempts (owner_scope (rn_owner_id state)) (rn_run_id state) d)
         (latest_in_round state (tc_id call) d) call")
    case (Some outcome)
    with named assms show thesis by (intro decided [OF named Some]) (simp_all add: begin_tool_call_def)
  next
    case None
    show thesis
    proof (cases "tools name")
      case (Inl e)
      with named None assms show thesis
        by (intro unknown_tool [OF named None Inl]) (simp_all add: begin_tool_call_def)
    next
      case (Inr tool)
      obtain r d1 where sched: "schedule_attempt owners now state name tool call d = (r, d1)"
        by fastforce
      note body = assms [unfolded begin_tool_call_def named None Inr option.case sum.case sched prod.case Let_def]
      show thesis
      proof (cases r)
        case (Inl e)
        with body sched have "start = Refuse e" "schedule_attempt owners now state name tool call d = (Inl e, d')"
          by simp_all
        then show thesis by (intro not_created [OF named None \<open>tools name = Inr tool\<close>])
      next
        case (Inr a)
        let ?b = "started_attempt now (with_idempotency_key (round_key state call d) call) a"
        obtain x d2 where save: "save_attempt (owner_scope (rn_owner_id state)) ?b d1 = (x, d2)"
          by fastforce
        from body [unfolded Inr sum.case save prod.case] have "d2 = d'"
            "start = (case x of Inl e \<Rightarrow> Refuse e | Inr _ \<Rightarrow> Run_attempt ?b)"
          by (cases x; simp)+
        with save sched Inr \<open>tools name = Inr tool\<close> show thesis
          by (intro written [OF named None]) simp_all
      qed
    qed
  qed
qed

text \<open>A check of the ledger never starts a tool.\<close>

lemma check_ledger_not_run: "check_ledger as l call = Some outcome \<Longrightarrow> outcome \<noteq> Run_attempt a"
  by (auto simp: check_ledger_def split: if_splits option.splits)

lemma ledger_ok_start:
  assumes ok: "ledger_ok owners (w\<lparr>lw_ledger := d\<rparr>)"
    and stored: "dict_get d (key_of a) = Some a" "ea_status a = Ex_SCHEDULED"
    and b: "b = started_attempt now call a"
  shows "ledger_ok owners (w\<lparr>lw_ledger := dict_set (key_of b) b d, lw_running := b # lw_running w,
    lw_invoked := key_of b # lw_invoked w\<rparr>)"
proof -
  let ?w = "w\<lparr>lw_ledger := d\<rparr>"
  have key: "key_of b = key_of a" and same: "same_attempt b a"
    by (simp_all add: b started_attempt_def key_of_def same_attempt_def)
  have status: "ea_status b = Ex_STARTED" "ea_resolution b = ea_resolution a"
    by (simp_all add: b started_attempt_def)
  note same = same_attempt_simps [OF same]
  have a_ok: "attempt_ok owners (lw_invoked w) (lw_retried w) a"
    using ledger_okD(2) [OF ok, of "key_of a" a] stored by simp
  have fresh: "key_of a \<notin> set (lw_invoked w)" using a_ok stored(2) by (simp add: attempt_ok_def)
  have split_b: "x = b \<and> k = key_of b \<or> k \<noteq> key_of b \<and> dict_get d k = Some x"
    if "dict_get (dict_set (key_of b) b d) k = Some x" for k x
    using that by (simp split: if_splits)
  show ?thesis
  proof (rule ledger_okI, simp_all del: dict_get_set)
    show "ledger_keyed (dict_set (key_of b) b d)"
      using ledger_keyed_set [of d b] ledger_okD(1) [OF ok] by simp
  next
    fix k x assume "dict_get (dict_set (key_of b) b d) k = Some x"
    from split_b [OF this] show "attempt_ok owners (key_of b # lw_invoked w) (lw_retried w) x"
    proof (elim disjE conjE)
      assume "x = b" with a_ok status same show ?thesis by (simp add: attempt_ok_def)
    next
      assume x: "k \<noteq> key_of b" "dict_get d k = Some x"
      moreover from x ledger_okD(1) [OF ok] have "key_of x = k" by (simp add: ledger_keyed_def)
      ultimately show ?thesis using ledger_okD(2) [OF ok, of k x] by (simp add: attempt_ok_def)
    qed
  next
    fix k k' x y
    assume x: "dict_get (dict_set (key_of b) b d) k = Some x"
      and y: "dict_get (dict_set (key_of b) b d) k' = Some y"
      and xy: "same_call x y" "ea_attempt x < ea_attempt y"
    obtain x' where x': "dict_get d k = Some x'" "same_attempt x x'"
      using split_b [OF x] stored key \<open>same_attempt b a\<close> by (elim disjE conjE) (simp_all add: same_attempt_def)
    obtain y' where y': "dict_get d k' = Some y'" "same_attempt y y'"
      using split_b [OF y] stored key \<open>same_attempt b a\<close> by (elim disjE conjE) (simp_all add: same_attempt_def)
    have "may_repeat (lw_retried w) x'"
      using ledger_okD(3) [OF ok, of k x' k' y'] x' y' xy same_attempt_simps [OF x'(2)]
        same_attempt_simps [OF y'(2)] by (simp add: same_call_def)
    then show "may_repeat (lw_retried w) x"
      using same_attempt_simps [OF x'(2)] by (simp add: may_repeat_def)
  next
    fix c assume c: "c = b \<or> c \<in> set (lw_running w)"
    show "ea_status c \<noteq> Ex_SCHEDULED" using c ledger_okD(4) [OF ok, of c] status by auto
    show "key_of c \<in> set (lw_retried w)" if "ea_resolution c = Some Retry_execution"
      using c that ledger_okD(5) [OF ok, of c] status a_ok key by (auto simp: attempt_ok_def)
    from c show "\<exists>old. dict_get (dict_set (key_of b) b d) (key_of c) = Some old
        \<and> same_attempt c old \<and> ea_status old \<noteq> Ex_SCHEDULED"
    proof
      assume "c = b" then show ?thesis using status by (simp add: same_attempt_def)
    next
      assume "c \<in> set (lw_running w)"
      then obtain e where e: "dict_get d (key_of c) = Some e" "same_attempt c e" "ea_status e \<noteq> Ex_SCHEDULED"
        using ledger_okD(6) [OF ok, of c] by auto
      then have "key_of c \<noteq> key_of b" using key stored by auto
      with e show ?thesis by simp
    qed
  next
    show "key_of b \<notin> set (lw_invoked w) \<and> distinct (lw_invoked w)"
      using fresh key ledger_okD(7) [OF ok] by simp
    show "k = key_of b \<or> dict_has d k" if "k = key_of b \<or> k \<in> set (lw_invoked w)" for k
      using that ledger_okD(8) [OF ok, of k] by auto
  qed
qed

lemma ledger_ok_saves:
  assumes ok: "ledger_ok owners w"
    and listed: "\<And>a. a \<in> set xs \<Longrightarrow> dict_get (lw_ledger w) (key_of a) = Some a"
    and same: "\<And>a. a \<in> set xs \<Longrightarrow> same_attempt (f a) a \<and> (ea_status (f a) = Ex_SCHEDULED \<longleftrightarrow> ea_status a = Ex_SCHEDULED)
        \<and> (ea_resolution (f a) = Some Retry_execution \<longrightarrow> ea_resolution a = Some Retry_execution)"
    and body: "\<And>a d. a \<in> set xs \<Longrightarrow> g a d = save_attempt scope (f a) d \<or> g a d = (Inr (), d)"
    and loop: "for_each g xs (lw_ledger w) = (r, d)"
  shows "ledger_ok owners (w\<lparr>lw_ledger := d\<rparr>)"
proof -
  let ?P = "\<lambda>d. ledger_ok owners (w\<lparr>lw_ledger := d\<rparr>) \<and> (\<forall>a \<in> set xs. \<exists>old. dict_get d (key_of a) = Some old
      \<and> same_attempt a old \<and> (ea_status a = Ex_SCHEDULED \<longleftrightarrow> ea_status old = Ex_SCHEDULED))"
  have step: "?P d'" if P: "?P d1" and a: "a \<in> set xs" and g: "g a d1 = (x, d')" for a d1 x d'
    using body [OF a, of d1]
  proof
    assume "g a d1 = (Inr (), d1)" with g P show ?thesis by simp
  next
    assume "g a d1 = save_attempt scope (f a) d1"
    with g have save: "save_attempt scope (f a) d1 = (x, d')" by simp
    note fa = same_attempt_simps [OF conjunct1 [OF same [OF a]]]
    from P a obtain old where old: "dict_get d1 (key_of a) = Some old" "same_attempt a old"
        "ea_status a = Ex_SCHEDULED \<longleftrightarrow> ea_status old = Ex_SCHEDULED" by blast
    have retry: "key_of (f a) \<in> set (lw_retried w)" if "ea_resolution (f a) = Some Retry_execution"
      using ledger_okD(2) [OF ok listed [OF a]] same [OF a] that fa by (simp add: attempt_ok_def)
    have "ledger_ok owners (w\<lparr>lw_ledger := d'\<rparr>)"
      using ledger_ok_save [of owners "w\<lparr>lw_ledger := d1\<rparr>" scope "f a" x d'] P save old same [OF a] retry fa
      by (simp add: same_attempt_def)
    moreover have "\<exists>old. dict_get d' (key_of b) = Some old \<and> same_attempt b old
        \<and> (ea_status b = Ex_SCHEDULED \<longleftrightarrow> ea_status old = Ex_SCHEDULED)" if b: "b \<in> set xs" for b
      using save
    proof (cases rule: save_attempt_cases)
      case (refused e)
      with P b show ?thesis by simp
    next
      case (saved o1)
      show ?thesis
      proof (cases "key_of b = key_of a")
        case True
        then have "b = a" using listed [OF a] listed [OF b] by simp
        then show ?thesis using saved(3) same [OF a] fa by (simp add: same_attempt_def)
      next
        case False
        with P b saved(3) fa show ?thesis by simp
      qed
    qed
    ultimately show ?thesis by blast
  qed
  have "?P (lw_ledger w)"
    using ok listed by (auto simp: same_attempt_def)
  moreover have "?P d'" if "?P d1" "set ys \<subseteq> set xs" "for_each g ys d1 = (x, d')" for ys d1 x d'
    using that
  proof (induction ys arbitrary: d1)
    case (Cons y ys)
    obtain z d2 where z: "g y d1 = (z, d2)" by fastforce
    with step [OF Cons.prems(1) _ z] Cons.prems(2) have P: "?P d2" by simp
    show ?case
    proof (cases z)
      case (Inl e)
      with Cons.prems(3) z P show ?thesis by simp
    next
      case (Inr u)
      with Cons.prems(2,3) z show ?thesis by (intro Cons.IH [OF P]) simp_all
    qed
  qed simp
  ultimately show ?thesis using loop by blast
qed

theorem ledger_ok_reachable: "ledger_reachable owners w \<Longrightarrow> ledger_ok owners w"
proof (induction rule: ledger_reachable.induct)
  case reach_empty
  show ?case by (simp add: ledger_ok_def empty_world_def ledger_keyed_def)
next
  case (reach_step w w')
  note ok = reach_step.IH
  from reach_step.hyps(2) show ?case
  proof (cases rule: ledger_step.cases)
    case (step_start tools now state call a d)
    from step_start(2) show ?thesis
    proof (cases rule: begin_cases)
      case (written name tool a0 b d1 x)
      note sched = ledger_ok_schedule [OF ok written(4,2)]
      have stored: "dict_get d1 (key_of a0) = Some a0" "ea_status a0 = Ex_SCHEDULED"
        using sched(2) [of a0] by simp_all
      from written(7) have x: "x = Inr ()" and a: "a = b" by (cases x; simp)+
      from written(6) x have "d = dict_set (key_of b) b d1"
        by (cases rule: save_attempt_cases) simp_all
      with ledger_ok_start [OF sched(1) stored written(5)] step_start(1) a show ?thesis by simp
    next
      case decided
      then show ?thesis using check_ledger_not_run by blast
    qed simp_all
  next
    case (step_no_start tools now state call start d)
    from step_no_start(2) show ?thesis
    proof (cases rule: begin_cases)
      case (not_created name tool e)
      show ?thesis using ledger_ok_schedule(1) [OF ok not_created(4,2)] step_no_start(1) by simp
    next
      case (written name tool a0 b d1 x)
      note sched = ledger_ok_schedule [OF ok written(4,2)]
      from written(7) step_no_start(3) obtain e where "x = Inl e" by (cases x) auto
      with written(6) have "d = d1" by (cases rule: save_attempt_cases) simp_all
      with sched(1) step_no_start(1) show ?thesis by simp
    qed (use ok step_no_start(1) in simp_all)
  next
    case (step_crash_before_start state call now name r d)
    show ?thesis
      using ledger_ok_running [OF ledger_ok_schedule(1) [OF ok step_crash_before_start(3,2)], of "[]"]
        step_crash_before_start(1) by simp
  next
    case (step_finish a scope now result r d)
    obtain old where old: "dict_get (lw_ledger w) (key_of a) = Some old" "same_attempt a old"
        "ea_status old \<noteq> Ex_SCHEDULED" using ledger_okD(6) [OF ok step_finish(2)] by blast
    define b where "b = (case result of
        Inl e \<Rightarrow> a\<lparr>ea_status := Ex_FAILED, ea_error_type := Some (class_name (error_class e)),
                     ea_error_message := Some (error_message e), ea_finished_at := Some now\<rparr>
      | Inr r \<Rightarrow> a\<lparr>ea_status := Ex_COMPLETED, ea_result := Some r, ea_finished_at := Some now\<rparr>)"
    have b: "same_attempt b a" "ea_status b \<noteq> Ex_SCHEDULED" "ea_resolution b = ea_resolution a"
      by (cases result; simp add: b_def same_attempt_def key_of_def)+
    obtain x where save: "save_attempt scope b (lw_ledger w) = (x, d)"
      using step_finish(3)
      by (cases result) (auto simp: end_tool_call_def b_def split: prod.splits sum.splits)
    have "ledger_ok owners (w\<lparr>lw_ledger := d\<rparr>)"
      by (rule ledger_ok_save [OF ok save])
        (use old b ledger_okD(5) [OF ok step_finish(2)] in \<open>auto simp: same_attempt_def\<close>)
    then show ?thesis
      using ledger_ok_running [of owners "w\<lparr>lw_ledger := d\<rparr>" "remove1 a (lw_running w)"] step_finish(1)
      by (simp add: set_remove1_subset)
  next
    case step_crash
    with ledger_ok_running [OF ok, of "[]"] show ?thesis by simp
  next
    case (step_reconcile scope run_id r d)
    obtain x where loop: "for_each (\<lambda>a d. if ea_status a = Ex_STARTED then save_attempt scope (mark_unknown a) d
        else (Inr (), d)) (list_attempts scope run_id (lw_ledger w)) (lw_ledger w) = (x, d)"
      using step_reconcile(2) by (auto simp: mark_started_unknown_def split: prod.splits sum.splits)
    have "ledger_ok owners (w\<lparr>lw_ledger := d\<rparr>)"
      by (rule ledger_ok_saves [OF ok _ _ _ loop, where f = mark_unknown and scope = scope])
        (auto simp: list_attempts_iff [OF ledger_okD(1) [OF ok]] mark_unknown_def same_attempt_def key_of_def)
    with step_reconcile(1) show ?thesis by simp
  next
    case (step_resolve scope now status k resolution reason result r d)
    let ?w = "w\<lparr>lw_retried := (if resolution = Retry_execution then k # lw_retried w else lw_retried w)\<rparr>"
    have ok': "ledger_ok owners ?w"
      using ok ledger_ok_retried [OF ok, of k] by simp
    show ?thesis
    proof (cases "d = lw_ledger w")
      case True
      with ok' step_resolve(1) show ?thesis by simp
    next
      case False
      with step_resolve(2) obtain a x where a: "get_attempt scope k (lw_ledger w) = Inr a"
          "ea_status a = Ex_UNKNOWN" "save_attempt scope (resolved_attempt now resolution reason result a) (lw_ledger w) = (x, d)"
        by (auto simp: resolve_attempt_def bind_a_def return_a_def Let_def split: if_splits sum.splits prod.splits)
      from a(1) have stored: "dict_get (lw_ledger w) k = Some a"
        by (auto simp: get_attempt_def split: option.splits if_splits)
      then have k: "key_of a = k" using ledger_okD(1) [OF ok] by (simp add: ledger_keyed_def)
      have same: "same_attempt (resolved_attempt now resolution reason result a) a"
          "ea_status (resolved_attempt now resolution reason result a) \<noteq> Ex_SCHEDULED"
          "ea_resolution (resolved_attempt now resolution reason result a) = Some resolution"
        using a(2) by (simp_all add: resolved_attempt_def Let_def same_attempt_def key_of_def)
      have "ledger_ok owners (?w\<lparr>lw_ledger := d\<rparr>)"
        by (rule ledger_ok_save [OF ok'], simp, rule a(3))
          (use same stored k a(2) in \<open>auto simp: same_attempt_def\<close>)
      moreover have "w' = ?w\<lparr>lw_ledger := d\<rparr>" using step_resolve(1) by (cases w) simp
      ultimately show ?thesis by (simp only:)
    qed
  next
    case (step_abandon scope now run_id r d)
    define xs where "xs = filter blocks_run (dict_values (latest_attempts (list_attempts scope run_id (lw_ledger w))))"
    define f where "f a = a\<lparr>ea_resolution := Some Abandon_and_retry_run,
        ea_resolution_reason := Some ''run_retried'', ea_resolved_at := Some now\<rparr>" for a :: execution_attempt
    obtain x where loop: "for_each (\<lambda>a. save_attempt scope (f a)) xs (lw_ledger w) = (x, d)"
      using step_abandon(2)
      by (auto simp: abandon_attempts_def xs_def f_def bind_a_def return_a_def Let_def split: prod.splits sum.splits)
    have sub: "a \<in> set (list_attempts scope run_id (lw_ledger w))" if "a \<in> set xs" for a
      using that latest_attempts_subset [of a] by (simp add: xs_def)
    have "ledger_ok owners (w\<lparr>lw_ledger := d\<rparr>)"
      by (rule ledger_ok_saves [OF ok _ _ _ loop, where f = f and scope = scope])
        (use sub in \<open>auto simp: list_attempts_iff [OF ledger_okD(1) [OF ok]] f_def same_attempt_def key_of_def\<close>)
    with step_abandon(1) show ?thesis by simp
  qed
qed

section \<open>The theorems\<close>

definition belongs :: "ledger \<Rightarrow> string \<Rightarrow> nat \<Rightarrow> string \<Rightarrow> attempt_key \<Rightarrow> bool" where
  "belongs d run_id tool_round call_id k =
     (case dict_get d k of
        None \<Rightarrow> False
      | Some a \<Rightarrow> ea_run_id a = run_id \<and> ea_tool_round a = Some tool_round \<and> ea_tool_call_id a = call_id)"

definition not_replayable :: "ledger \<Rightarrow> attempt_key \<Rightarrow> bool" where
  "not_replayable d k = (map_option ea_replay_policy (dict_get d k) = Some Replay_NON_REPLAYABLE)"

text \<open>The starts of a tool that must not be repeated, and the operator decisions to retry, of a call.\<close>

definition unsafe_starts :: "ledger_world \<Rightarrow> string \<Rightarrow> nat \<Rightarrow> string \<Rightarrow> attempt_key list" where
  "unsafe_starts w run_id tool_round call_id =
     filter (\<lambda>k. belongs (lw_ledger w) run_id tool_round call_id k \<and> not_replayable (lw_ledger w) k)
       (lw_invoked w)"

definition operator_retries :: "ledger_world \<Rightarrow> string \<Rightarrow> nat \<Rightarrow> string \<Rightarrow> attempt_key list" where
  "operator_retries w run_id tool_round call_id =
     filter (belongs (lw_ledger w) run_id tool_round call_id) (lw_retried w)"

lemma chain_bound:
  fixes f :: "'a \<Rightarrow> nat"
  assumes "distinct xs" "inj_on f (set xs)"
    and "\<And>x y. x \<in> set xs \<Longrightarrow> y \<in> set xs \<Longrightarrow> f x < f y \<Longrightarrow> x \<in> set ys"
  shows "length xs \<le> 1 + length ys"
proof (cases "xs = []")
  case False
  then have "Max (f ` set xs) \<in> f ` set xs" by (intro Max_in) simp_all
  then obtain m where m: "m \<in> set xs" "f m = Max (f ` set xs)" by fastforce
  then have m: "m \<in> set xs" "\<And>x. x \<in> set xs \<Longrightarrow> f x \<le> f m" by simp_all
  have "set xs - {m} \<subseteq> set ys"
  proof
    fix x assume x: "x \<in> set xs - {m}"
    with m assms(2) have "f x \<noteq> f m" by (auto simp: inj_on_def)
    with m(2) x have "f x < f m" by (metis DiffD1 le_neq_implies_less)
    with assms(3) x m(1) show "x \<in> set ys" by blast
  qed
  then have "card (set xs - {m}) \<le> length ys"
    by (meson List.finite_set card_length card_mono le_trans)
  with m(1) distinct_card [OF assms(1)] show ?thesis by simp
qed simp

text \<open>C2: However begins, crashes, completions, reconciliations and operator decisions interleave, the
  number of times a tool that must not be repeated is started for one call of one round of a run is at
  most one more than the number of decisions of an operator to retry that call.\<close>

theorem at_most_once:
  assumes "ledger_reachable owners w"
  shows "length (unsafe_starts w run_id tool_round call_id)
     \<le> 1 + length (operator_retries w run_id tool_round call_id)"
proof (rule chain_bound [where f = ak_number])
  note ok = ledger_ok_reachable [OF assms]
  have unsafe: "\<exists>a. dict_get (lw_ledger w) k = Some a \<and> key_of a = k \<and> ea_run_id a = run_id
      \<and> ea_tool_round a = Some tool_round \<and> ea_tool_call_id a = call_id
      \<and> ea_replay_policy a = Replay_NON_REPLAYABLE"
    if "k \<in> set (unsafe_starts w run_id tool_round call_id)" for k
    using that ledger_okD(1) [OF ok]
    by (auto simp: unsafe_starts_def belongs_def not_replayable_def ledger_keyed_def split: option.splits)
  have shape: "k = Attempt_Key run_id call_id (ak_number k)"
    if "k \<in> set (unsafe_starts w run_id tool_round call_id)" for k
    using unsafe [OF that] by (elim exE conjE) (simp add: key_of_def, metis attempt_key.collapse attempt_key.inject)
  show "distinct (unsafe_starts w run_id tool_round call_id)"
    by (simp add: unsafe_starts_def ledger_okD(7) [OF ok])
  show "inj_on ak_number (set (unsafe_starts w run_id tool_round call_id))"
  proof (rule inj_onI)
    fix k k' assume "k \<in> set (unsafe_starts w run_id tool_round call_id)"
      "k' \<in> set (unsafe_starts w run_id tool_round call_id)" "ak_number k = ak_number k'"
    then show "k = k'" using shape [of k] shape [of k'] by simp
  qed
  fix k k' assume k: "k \<in> set (unsafe_starts w run_id tool_round call_id)"
    and k': "k' \<in> set (unsafe_starts w run_id tool_round call_id)" and less: "ak_number k < ak_number k'"
  obtain a b where a: "dict_get (lw_ledger w) k = Some a" "key_of a = k" "ea_run_id a = run_id"
      "ea_tool_round a = Some tool_round" "ea_tool_call_id a = call_id"
      "ea_replay_policy a = Replay_NON_REPLAYABLE"
    and b: "dict_get (lw_ledger w) k' = Some b" "key_of b = k'" "ea_run_id b = run_id"
      "ea_tool_round b = Some tool_round" "ea_tool_call_id b = call_id"
    using unsafe [OF k] unsafe [OF k'] by blast
  have "ea_attempt a < ea_attempt b" using less a(2) b(2) by (auto simp: key_of_def)
  with ledger_okD(3) [OF ok a(1) b(1)] a b have "may_repeat (lw_retried w) a" by (simp add: same_call_def)
  with a show "k \<in> set (operator_retries w run_id tool_round call_id)"
    by (auto simp: may_repeat_def operator_retries_def belongs_def)
qed

lemma list_attempts_set:
  assumes "ledger_keyed d" "ea_run_id a = run" "scope_permits scope (ea_owner_id a)"
  shows "b \<in> set (list_attempts scope run (dict_set (key_of a) a d)) \<longleftrightarrow>
     b = a \<or> b \<in> set (list_attempts scope run d) \<and> key_of b \<noteq> key_of a"
  using assms by (auto simp: list_attempts_iff ledger_keyed_set)

text \<open>After a write of the attempt with the highest number, it is the latest of its round.\<close>

lemma latest_in_round_set:
  assumes keyed: "ledger_keyed d" and run: "ea_run_id a = rn_run_id state"
    and permits: "scope_permits (owner_scope (rn_owner_id state)) (ea_owner_id a)"
    and tool_round: "ea_tool_round a = Some (current_tool_round state)"
    and last: "\<And>b. b \<in> set (list_attempts (owner_scope (rn_owner_id state)) (rn_run_id state) d) \<Longrightarrow>
       ea_tool_call_id b = ea_tool_call_id a \<Longrightarrow> ea_tool_round b = Some (current_tool_round state) \<Longrightarrow>
       ea_attempt b \<le> ea_attempt a"
  shows "latest_in_round state (ea_tool_call_id a) (dict_set (key_of a) a d) = Some a"
proof -
  let ?d = "dict_set (key_of a) a d"
  note keyed' = ledger_keyed_set [OF keyed, of a]
  obtain l where l: "latest_in_round state (ea_tool_call_id a) ?d = Some l"
    using latest_in_round_None [OF keyed' _ _ run refl permits, of "key_of a"] tool_round
    by (cases "latest_in_round state (ea_tool_call_id a) ?d") auto
  note stored = latest_in_round_Some [OF keyed' l]
  have le: "ea_attempt a \<le> ea_attempt l"
    by (rule stored(6) [of "key_of a"]) (simp_all add: run permits tool_round)
  have "l \<in> set (list_attempts (owner_scope (rn_owner_id state)) (rn_run_id state) ?d)"
    using stored(1,2,5) keyed' by (simp add: list_attempts_iff)
  then have "l = a \<or> l \<in> set (list_attempts (owner_scope (rn_owner_id state)) (rn_run_id state) d)
      \<and> key_of l \<noteq> key_of a"
    using list_attempts_set [OF keyed run permits] by blast
  then show ?thesis
  proof (elim disjE conjE)
    assume "l = a" with l show ?thesis by simp
  next
    assume "l \<in> set (list_attempts (owner_scope (rn_owner_id state)) (rn_run_id state) d)"
      and neq: "key_of l \<noteq> key_of a"
    with last [of l] stored(3,4) le have "ea_attempt l = ea_attempt a" by simp
    with stored(2,3) run neq show ?thesis by (simp add: key_of_def)
  qed
qed

lemma has_unscoped_set:
  assumes "ledger_keyed d" "ea_run_id a = run" "scope_permits scope (ea_owner_id a)" "ea_tool_round a \<noteq> None"
    and "\<not> has_unscoped (list_attempts scope run d) c"
  shows "\<not> has_unscoped (list_attempts scope run (dict_set (key_of a) a d)) c"
  using assms by (auto simp: has_unscoped_def list_attempts_set)

lemma check_ledger_None_scoped: "check_ledger as l call = None \<Longrightarrow> \<not> has_unscoped as (tc_id call)"
  by (auto simp: check_ledger_def split: if_splits)

text \<open>What a started attempt is: the latest one of its round, stored, for this call.\<close>

lemma begin_started:
  assumes keyed: "ledger_keyed d" and start: "begin_tool_call owners tools now state call d = (Run_attempt a, d')"
  shows "ledger_keyed d'" "dict_get d' (key_of a) = Some a" "ea_run_id a = rn_run_id state"
    "ea_tool_call_id a = tc_id call" "ea_tool_round a = Some (current_tool_round state)"
    "scope_permits (owner_scope (rn_owner_id state)) (ea_owner_id a)"
    "ea_idempotency_key a = round_key state call d"
    "ea_tool_call a = with_idempotency_key (round_key state call d) call"
    "\<not> has_unscoped (list_attempts (owner_scope (rn_owner_id state)) (rn_run_id state) d') (tc_id call)"
    "\<And>b. b \<in> set (list_attempts (owner_scope (rn_owner_id state)) (rn_run_id state) d') \<Longrightarrow>
       ea_tool_call_id b = tc_id call \<Longrightarrow> ea_tool_round b = Some (current_tool_round state) \<Longrightarrow>
       ea_attempt b \<le> ea_attempt a"
proof -
  let ?scope = "owner_scope (rn_owner_id state)"
  let ?as = "list_attempts ?scope (rn_run_id state)"
  obtain name tool a0 d1 where sched: "schedule_attempt owners now state name tool call d = (Inr a0, d1)"
    and a: "a = started_attempt now (with_idempotency_key (round_key state call d) call) a0"
    and save: "save_attempt ?scope a d1 = (Inr (), d')"
    and checked: "check_ledger (?as d) (latest_in_round state (tc_id call) d) call = None"
    using start
  proof (cases rule: begin_cases)
    case (written name tool a0 b d1 x)
    then show thesis by (intro that [of name tool a0 d1]) (cases x; simp)+
  next
    case decided
    then show thesis using check_ledger_not_run by blast
  qed simp_all
  have key: "key_of a = key_of a0" and fields: "ea_run_id a = ea_run_id a0"
      "ea_tool_call_id a = ea_tool_call_id a0" "ea_tool_round a = ea_tool_round a0"
      "ea_owner_id a = ea_owner_id a0" "ea_idempotency_key a = ea_idempotency_key a0"
      "ea_attempt a = ea_attempt a0"
    by (simp_all add: a started_attempt_def key_of_def)
  have d': "d' = dict_set (key_of a) a d1"
    using save by (cases rule: save_attempt_cases) simp_all
  have "ledger_keyed d1 \<and> ea_run_id a0 = rn_run_id state \<and> ea_tool_call_id a0 = tc_id call
      \<and> ea_tool_round a0 = Some (current_tool_round state) \<and> scope_permits ?scope (ea_owner_id a0)
      \<and> ea_idempotency_key a0 = round_key state call d
      \<and> \<not> has_unscoped (?as d1) (tc_id call)
      \<and> (\<forall>b \<in> set (?as d1). ea_tool_call_id b = tc_id call \<longrightarrow>
           ea_tool_round b = Some (current_tool_round state) \<longrightarrow> ea_attempt b \<le> ea_attempt a0)"
    using sched
  proof (cases rule: schedule_cases)
    case (again l)
    note stored = latest_in_round_Some [OF keyed again(1)]
    have "ea_attempt b \<le> ea_attempt l" if "b \<in> set (?as d)" "ea_tool_call_id b = tc_id call"
        "ea_tool_round b = Some (current_tool_round state)" for b
      using stored(6) [of "key_of b" b] that keyed by (simp add: list_attempts_iff)
    with again stored keyed check_ledger_None_scoped [OF checked] show ?thesis
      by (simp add: round_key_def)
  next
    case (fresh b)
    have b: "ea_run_id b = rn_run_id state" "ea_owner_id b = rn_owner_id state"
      "ea_tool_call_id b = tc_id call" "ea_tool_round b = Some (current_tool_round state)"
      "ea_idempotency_key b = round_key state call d" "ea_attempt b = next_attempt (?as d) (tc_id call)"
      by (simp_all add: fresh(1) fresh_attempt_def scheduled_attempt_def with_idempotency_key_def)
    have permits: "scope_permits ?scope (ea_owner_id b)" by (simp add: b)
    have "ea_attempt c \<le> ea_attempt b" if "c \<in> set (?as d1)" "ea_tool_call_id c = tc_id call" for c
      using that next_attempt_greater [of c "?as d" "tc_id call"] b(6)
      by (auto simp: fresh(6) list_attempts_set [OF keyed b(1) permits])
    with b permits fresh(3,6) ledger_keyed_set [OF keyed, of b]
      has_unscoped_set [OF keyed b(1) permits _ check_ledger_None_scoped [OF checked]]
    show ?thesis by simp
  qed simp
  then have a0: "ledger_keyed d1" "ea_run_id a = rn_run_id state" "ea_tool_call_id a = tc_id call"
      "ea_tool_round a = Some (current_tool_round state)" "scope_permits ?scope (ea_owner_id a)"
      "ea_idempotency_key a = round_key state call d" "\<not> has_unscoped (?as d1) (tc_id call)"
      "\<And>b. b \<in> set (?as d1) \<Longrightarrow> ea_tool_call_id b = tc_id call \<Longrightarrow>
         ea_tool_round b = Some (current_tool_round state) \<Longrightarrow> ea_attempt b \<le> ea_attempt a"
    by (simp_all add: fields)
  show "ledger_keyed d'" by (simp add: d' ledger_keyed_set a0)
  show "dict_get d' (key_of a) = Some a" by (simp add: d')
  show "ea_run_id a = rn_run_id state" "ea_tool_call_id a = tc_id call"
    "ea_tool_round a = Some (current_tool_round state)" "scope_permits ?scope (ea_owner_id a)"
    "ea_idempotency_key a = round_key state call d" by fact+
  show "ea_tool_call a = with_idempotency_key (round_key state call d) call"
    by (simp add: a started_attempt_def)
  show "\<not> has_unscoped (?as d') (tc_id call)"
    using has_unscoped_set [OF a0(1,2,5) _ a0(7)] a0(4) by (simp add: d')
  show "ea_attempt b \<le> ea_attempt a" if "b \<in> set (?as d')" "ea_tool_call_id b = tc_id call"
      "ea_tool_round b = Some (current_tool_round state)" for b
    using that a0(8) by (auto simp: d' list_attempts_set [OF a0(1,2,5)])
qed

text \<open>Every stored attempt of a call of one round carries the same idempotency key, made of the run,
  the round and the call id; and a tool that is started gets it in the metadata of its call.  A tool
  that deduplicates by the key sees every replay of the call as the same operation.\<close>

theorem idempotency_key_stable:
  assumes "ledger_reachable owners w"
    and "begin_tool_call owners tools now state call (lw_ledger w) = (Run_attempt a, d)"
  shows "meta_get (tc_metadata (ea_tool_call a)) ''idempotency_key''
      = PStr (idempotency_key_of (rn_run_id state) (current_tool_round state) (tc_id call))"
proof -
  note ok = ledger_ok_reachable [OF assms(1)]
  note started = begin_started [OF ledger_okD(1) [OF ok] assms(2)]
  have "ledger_reachable owners (w\<lparr>lw_ledger := d, lw_running := a # lw_running w,
      lw_invoked := key_of a # lw_invoked w\<rparr>)"
    by (rule reach_step [OF assms(1) step_start [OF assms(2)]])
  from ledger_okD(2) [OF ledger_ok_reachable [OF this], of "key_of a" a] started(2,3,4,5)
  have "ea_idempotency_key a
      = idempotency_key_of (rn_run_id state) (current_tool_round state) (tc_id call)"
    by (simp add: attempt_ok_def)
  then show ?thesis
    by (simp add: started(7,8) with_idempotency_key_def meta_get_def)
qed

lemma execute_again:
  assumes "ledger_keyed d" "call_tool_name call = Some name"
    and "latest_in_round state (tc_id call) d = Some a" "ea_status a = Ex_COMPLETED" "ea_result a = Some r"
    and "\<not> has_unscoped (list_attempts (owner_scope (rn_owner_id state)) (rn_run_id state) d) (tc_id call)"
  shows "execute_tool_call owners tools run now state call d = (Inr r, d)"
  using assms by (simp add: execute_tool_call_def begin_tool_call_def check_ledger_def)

text \<open>A call whose tool returned is not run again in that round: a second execution, whatever the
  tool, the clock and the tool register are by then, returns the recorded result and writes nothing.\<close>

theorem recorded_result_replayed:
  assumes keyed: "ledger_keyed d" and named: "call_tool_name call \<noteq> None"
    and first: "execute_tool_call owners tools run now state call d = (Inr r, d')"
    and same: "rn_run_id state' = rn_run_id state" "rn_owner_id state' = rn_owner_id state"
      "current_tool_round state' = current_tool_round state"
  shows "execute_tool_call owners' tools' run' now' state' call d' = (Inr r, d')"
proof -
  let ?scope = "owner_scope (rn_owner_id state)"
  obtain name where name: "call_tool_name call = Some name" using named by auto
  have latest: "latest_in_round state' c x = latest_in_round state c x" for c x
    by (simp add: latest_in_round_def same)
  obtain start d1 where start: "begin_tool_call owners tools now state call d = (start, d1)" by fastforce
  show ?thesis
  proof (cases start)
    case Run_directly
    from start show ?thesis
    proof (cases rule: begin_cases)
      case decided
      with Run_directly show ?thesis by (auto simp: check_ledger_def split: if_splits option.splits)
    next
      case (written n t a b d2 x)
      with Run_directly show ?thesis by (cases x) simp_all
    qed (use name Run_directly in simp_all)
  next
    case (Reuse_result r')
    with first start have r: "r' = r" "d1 = d'" by (simp_all add: execute_tool_call_def)
    from start show ?thesis
    proof (cases rule: begin_cases)
      case (decided n outcome)
      with Reuse_result r name same show ?thesis
        by (simp add: execute_tool_call_def begin_tool_call_def latest)
    next
      case (written n t a b d2 x)
      with Reuse_result show ?thesis by (cases x) simp_all
    qed (use Reuse_result in simp_all)
  next
    case (Refuse e)
    with first start show ?thesis by (simp add: execute_tool_call_def)
  next
    case (Run_attempt a)
    note started = begin_started [OF keyed start [unfolded Run_attempt]]
    define b where "b = a\<lparr>ea_status := Ex_COMPLETED, ea_result := Some r, ea_finished_at := Some now\<rparr>"
    have b: "key_of b = key_of a" "ea_run_id b = rn_run_id state" "ea_tool_call_id b = tc_id call"
        "ea_tool_round b = Some (current_tool_round state)" "ea_attempt b = ea_attempt a"
        "scope_permits ?scope (ea_owner_id b)" "ea_status b = Ex_COMPLETED" "ea_result b = Some r"
      using started(3-6) by (simp_all add: b_def key_of_def)
    from first start Run_attempt
    have "end_tool_call ?scope now a (run (ea_tool_call a)) d1 = (Inr r, d')"
      by (simp add: execute_tool_call_def)
    then have "save_attempt ?scope b d1 = (Inr (), d')"
      by (cases "run (ea_tool_call a)") (auto simp: end_tool_call_def b_def split: prod.splits sum.splits)
    then have d': "d' = dict_set (key_of b) b d1"
      by (cases rule: save_attempt_cases) simp_all
    have "latest_in_round state (tc_id call) d' = Some b"
      using latest_in_round_set [OF started(1) b(2,6,4)] started(10) by (simp add: d' b(3,5))
    moreover have "\<not> has_unscoped (list_attempts ?scope (rn_run_id state) d') (tc_id call)"
      using has_unscoped_set [OF started(1) b(2,6) _ started(9)] b(4) by (simp add: d')
    moreover have "ledger_keyed d'" by (simp add: d' ledger_keyed_set started(1))
    ultimately show ?thesis
      using name b(7,8) same by (intro execute_again) (simp_all add: latest)
  qed
qed

section \<open>Example: a payment that is started once\<close>

definition sample_owners :: run_owners where
  "sample_owners r = (if r = ''r'' then Some None else None)"

definition sample_run :: agent_run where
  "sample_run = new_run ''r'' (new_request ''p'' ''x'' ''m'')"

definition ledger_call :: tool_call where
  "ledger_call = \<lparr>tc_id = ''c'', tc_call = [(''name'', PStr ''pay'')], tc_approval = None, tc_metadata = []\<rparr>"

definition sample_tools :: "string \<Rightarrow> error + tool_definition" where
  "sample_tools name = Inr (sample_tool name [])"

definition sample_receipt :: tool_call_result where
  "sample_receipt = \<lparr>tr_id = ''c'', tr_result = [(''paid'', PBool True)], tr_metadata = []\<rparr>"

definition sample_started :: "nat \<Rightarrow> execution_attempt" where
  "sample_started n = (started_attempt 5 (with_idempotency_key ''r:0:c'' ledger_call)
     (scheduled_attempt 5 sample_run ''pay'' (sample_tool ''pay'' []) ''r:0:c''
       (with_idempotency_key ''r:0:c'' ledger_call) n))"

definition sample_retried :: execution_attempt where
  "sample_retried = resolved_attempt 7 Retry_execution None None (mark_unknown (sample_started 1))"

lemma sample_first:
  "begin_tool_call sample_owners sample_tools 5 sample_run ledger_call []
     = (Run_attempt (sample_started 1), [(Attempt_Key ''r'' ''c'' 1, sample_started 1)])"
  by code_simp

lemma sample_second:
  "begin_tool_call sample_owners sample_tools 5 sample_run ledger_call
       [(Attempt_Key ''r'' ''c'' 1, sample_retried)]
     = (Run_attempt (sample_started 2), [(Attempt_Key ''r'' ''c'' 1, sample_retried),
          (Attempt_Key ''r'' ''c'' 2, sample_started 2)])"
  by code_simp

text \<open>Started, lost in a crash, marked unknown, retried by an operator and started again.\<close>

definition sample_world :: ledger_world where
  "sample_world = \<lparr>lw_ledger = [(Attempt_Key ''r'' ''c'' 1, sample_retried),
       (Attempt_Key ''r'' ''c'' 2, sample_started 2)], lw_running = [sample_started 2],
     lw_invoked = [key_of (sample_started 2), key_of (sample_started 1)],
     lw_retried = [Attempt_Key ''r'' ''c'' 1]\<rparr>"

lemma sample_world_reachable: "ledger_reachable sample_owners sample_world"
proof -
  let ?k = "Attempt_Key ''r'' ''c'' 1"
  have 1: "ledger_reachable sample_owners \<lparr>lw_ledger = [(?k, sample_started 1)],
      lw_running = [sample_started 1], lw_invoked = [key_of (sample_started 1)], lw_retried = []\<rparr>"
    using reach_step [OF reach_empty step_start, of sample_owners sample_tools 5 sample_run ledger_call]
      sample_first by (simp add: empty_world_def)
  have 2: "ledger_reachable sample_owners \<lparr>lw_ledger = [(?k, sample_started 1)],
      lw_running = [], lw_invoked = [key_of (sample_started 1)], lw_retried = []\<rparr>"
    using reach_step [OF 1 step_crash] by simp
  have "\<exists>x. mark_started_unknown None (list_attempts None ''r'' [(?k, sample_started 1)]) [(?k, sample_started 1)]
      = (x, [(?k, mark_unknown (sample_started 1))])"
    by (rule exI [of _ "Inr [mark_unknown (sample_started 1)]"]) code_simp
  then have 3: "ledger_reachable sample_owners \<lparr>lw_ledger = [(?k, mark_unknown (sample_started 1))],
      lw_running = [], lw_invoked = [key_of (sample_started 1)], lw_retried = []\<rparr>"
    using reach_step [OF 2 step_reconcile] by fastforce
  have "resolve_attempt None 7 Run_PAUSED ?k Retry_execution None None [(?k, mark_unknown (sample_started 1))]
      = (Inr sample_retried, [(?k, sample_retried)])"
    by code_simp
  then have 4: "ledger_reachable sample_owners \<lparr>lw_ledger = [(?k, sample_retried)],
      lw_running = [], lw_invoked = [key_of (sample_started 1)], lw_retried = [?k]\<rparr>"
    using reach_step [OF 3 step_resolve [where resolution = Retry_execution and k = ?k]] by fastforce
  show ?thesis
    using reach_step [OF 4 step_start, of sample_tools 5 sample_run ledger_call] sample_second
    by (simp add: sample_world_def)
qed

lemma at_most_once_witness:
  "length (unsafe_starts sample_world ''r'' 0 ''c'') = 2
   \<and> length (operator_retries sample_world ''r'' 0 ''c'') = 1
   \<and> length (unsafe_starts sample_world ''r'' 0 ''c'')
       \<le> 1 + length (operator_retries sample_world ''r'' 0 ''c'')"
proof (intro conjI)
  show "length (unsafe_starts sample_world ''r'' 0 ''c'') = 2" by code_simp
  show "length (operator_retries sample_world ''r'' 0 ''c'') = 1" by code_simp
qed (rule at_most_once [OF sample_world_reachable])

lemma idempotency_key_stable_witness:
  "meta_get (tc_metadata (ea_tool_call (sample_started 1))) ''idempotency_key'' = PStr (idempotency_key_of ''r'' 0 ''c'')"
  using idempotency_key_stable [OF reach_empty, of sample_owners sample_tools 5 sample_run ledger_call
      "sample_started 1"] sample_first
  by (simp add: empty_world_def sample_run_def ledger_call_def new_run_def current_tool_round_def)

definition sample_finished :: execution_attempt where
  "sample_finished = (sample_started 1)\<lparr>ea_status := Ex_COMPLETED, ea_result := Some sample_receipt,
     ea_finished_at := Some 5\<rparr>"

lemma sample_finish:
  "execute_tool_call sample_owners sample_tools (\<lambda>_. Inr sample_receipt) 5 sample_run ledger_call []
     = (Inr sample_receipt, [(Attempt_Key ''r'' ''c'' 1, sample_finished)])"
  by code_simp

lemma recorded_result_replayed_witness:
  "execute_tool_call sample_owners sample_tools (\<lambda>_. Inl (raised (Tool ToolExecutionError) ''down'')) 9
       sample_run ledger_call [(Attempt_Key ''r'' ''c'' 1, sample_finished)]
     = (Inr sample_receipt, [(Attempt_Key ''r'' ''c'' 1, sample_finished)])"
proof (rule recorded_result_replayed [OF _ _ sample_finish])
  show "ledger_keyed []" by (simp add: ledger_keyed_def)
  show "call_tool_name ledger_call \<noteq> None" by code_simp
qed simp_all

end
