(* ===== verification/AgentStore.thy ===== *)
theory AgentStore
  imports AgentState
begin

text \<open>
  The stores of runs and of their trace (\<open>infra/adapters/agent/sqlite.py\<close>), with the execution leases
  that keep two processes from running the same run.

  The table of runs is a dictionary under its primary key, the table of events a list in the order of
  insertion.  Every method runs in one immediate transaction, so it is one step here.  \<open>held\<close> stands for
  the context variable \<open>held_agent_run_lease\<close>, which the executor sets for the operation it runs.
\<close>

section \<open>Runs and leases\<close>

record run_row =
  rr_state :: agent_run
  rr_created_at :: int
  rr_lease_owner :: "string option"
  rr_expires_at :: "int option"
  rr_heartbeat_at :: "int option"
  rr_generation :: nat

type_synonym run_table = "(string, run_row) dict"

record held_lease =
  hl_run_id :: string
  hl_owner :: string
  hl_generation :: nat

definition run_error :: "string \<Rightarrow> error" where
  "run_error msg = raised (Agent AgentStateError) msg"

definition run_not_found :: "string \<Rightarrow> error" where
  "run_not_found run_id = run_error (''The agent run state '' @ run_id @ '' is not found'')"

definition row_of :: "principal_scope option \<Rightarrow> string \<Rightarrow> run_table \<Rightarrow> run_row option" where
  "row_of scope run_id d =
     (case dict_get d run_id of
        Some row \<Rightarrow> if scope_permits scope (rn_owner_id (rr_state row)) then Some row else None
      | None \<Rightarrow> None)"

definition require_run_scope :: "agent_run \<Rightarrow> principal_scope option \<Rightarrow> error + unit" where
  "require_run_scope state scope =
     (if scope_permits scope (rn_owner_id state) then Inr ()
      else Inl (run_error (''The agent run state '' @ rn_run_id state @ '' is not available in this scope'')))"

definition new_row :: "int \<Rightarrow> agent_run \<Rightarrow> run_row" where
  "new_row now state = \<lparr>rr_state = state, rr_created_at = now, rr_lease_owner = None,
     rr_expires_at = None, rr_heartbeat_at = None, rr_generation = 0\<rparr>"

definition create_state :: "principal_scope option \<Rightarrow> int \<Rightarrow> agent_run \<Rightarrow> (error, run_table, unit) act" where
  "create_state scope now state d =
     (case require_run_scope state scope of
        Inl e \<Rightarrow> (Inl e, d)
      | Inr _ \<Rightarrow>
          if dict_has d (rn_run_id state)
          then (Inl (run_error (''The agent run state '' @ rn_run_id state @ '' already exists'')), d)
          else (Inr (), dict_set (rn_run_id state) (new_row now state) d))"

definition lease_held_by :: "run_row \<Rightarrow> string \<Rightarrow> nat \<Rightarrow> bool" where
  "lease_held_by row owner generation \<longleftrightarrow> rr_lease_owner row = Some owner \<and> rr_generation row = generation"

definition save_state ::
  "held_lease option \<Rightarrow> principal_scope option \<Rightarrow> int \<Rightarrow> agent_run \<Rightarrow> (error, run_table, unit) act" where
  "save_state held scope now state d =
     (case require_run_scope state scope of
        Inl e \<Rightarrow> (Inl e, d)
      | Inr _ \<Rightarrow>
          let run_id = rn_run_id state
          in case held of
               Some l \<Rightarrow>
                 if hl_run_id l = run_id
                 then case dict_get d run_id of
                        Some row \<Rightarrow>
                          if lease_held_by row (hl_owner l) (hl_generation l)
                          then (Inr (), dict_set run_id (row\<lparr>rr_state := state\<rparr>) d)
                          else (Inl (raised (Agent AgentRunLeaseLostError)
                                  (''The agent run '' @ run_id @ '' lost its execution lease'')), d)
                      | None \<Rightarrow> (Inl (raised (Agent AgentRunLeaseLostError)
                                  (''The agent run '' @ run_id @ '' lost its execution lease'')), d)
                 else (Inr (), dict_set run_id (case dict_get d run_id of
                        Some row \<Rightarrow> row\<lparr>rr_state := state\<rparr> | None \<Rightarrow> new_row now state) d)
             | None \<Rightarrow> (Inr (), dict_set run_id (case dict_get d run_id of
                        Some row \<Rightarrow> row\<lparr>rr_state := state\<rparr> | None \<Rightarrow> new_row now state) d))"

definition get_state :: "principal_scope option \<Rightarrow> string \<Rightarrow> run_table \<Rightarrow> error + agent_run" where
  "get_state scope run_id d =
     (case row_of scope run_id d of Some row \<Rightarrow> Inr (rr_state row) | None \<Rightarrow> Inl (run_not_found run_id))"

definition get_run_status :: "principal_scope option \<Rightarrow> string \<Rightarrow> run_table \<Rightarrow> error + agent_run_status" where
  "get_run_status scope run_id d =
     (case row_of scope run_id d of
        Some row \<Rightarrow> Inr (rn_status (rr_state row)) | None \<Rightarrow> Inl (run_not_found run_id))"

text \<open>\<open>query_states\<close>: a snapshot without a start time is given the time its row was created.\<close>

definition with_started_at :: "run_row \<Rightarrow> agent_run" where
  "with_started_at row =
     (let state = rr_state row
      in if ah_started_at (rn_history state) = None
         then state\<lparr>rn_history := (rn_history state)\<lparr>ah_started_at := Some (rr_created_at row)\<rparr>\<rparr>
         else state)"

definition query_states ::
  "string option \<Rightarrow> nat option \<Rightarrow> string option \<Rightarrow> agent_run_status option \<Rightarrow> string option
     \<Rightarrow> principal_scope option \<Rightarrow> run_table \<Rightarrow> agent_run list" where
  "query_states cursor limit owner_id status context_id scope d =
     (let scoped = Option.bind scope scope_owner_id
      in if scoped \<noteq> None \<and> owner_id \<noteq> None \<and> owner_id \<noteq> scoped then []
         else let owner = (if scoped \<noteq> None then scoped else owner_id)
              in map with_started_at (take_opt limit (sort_key (\<lambda>row. rn_run_id (rr_state row))
                   (filter (\<lambda>row. let s = rr_state row in
                       (cursor = None \<or> the cursor < rn_run_id s)
                       \<and> (owner = None \<or> rn_owner_id s = owner)
                       \<and> (status = None \<or> Some (rn_status s) = status)
                       \<and> (context_id = None \<or> Some (ag_context_id (rn_request s)) = context_id))
                     (dict_values d)))))"

definition list_states :: "principal_scope option \<Rightarrow> run_table \<Rightarrow> agent_run list" where
  "list_states scope d = query_states None None None None None scope d"

definition delete_state :: "principal_scope option \<Rightarrow> string \<Rightarrow> (error, run_table, unit) act" where
  "delete_state scope run_id d =
     (case row_of scope run_id d of
        Some _ \<Rightarrow> (Inr (), dict_pop run_id d)
      | None \<Rightarrow> (Inl (run_error (''The agent run state '' @ run_id @ '' is not registered'')), d))"

text \<open>A lease is free when nobody holds it, when it is over, and for the owner that holds it.\<close>

definition lease_free :: "int \<Rightarrow> string \<Rightarrow> run_row \<Rightarrow> bool" where
  "lease_free now owner row \<longleftrightarrow> rr_lease_owner row = None
     \<or> (\<exists>t. rr_expires_at row = Some t \<and> t \<le> now) \<or> rr_lease_owner row = Some owner"

definition acquire_lease ::
  "principal_scope option \<Rightarrow> int \<Rightarrow> string \<Rightarrow> string \<Rightarrow> int \<Rightarrow> (error, run_table, nat) act" where
  "acquire_lease scope now run_id owner ttl d =
     (case row_of scope run_id d of
        None \<Rightarrow> (Inl (run_not_found run_id), d)
      | Some row \<Rightarrow>
          if lease_free now owner row
          then (Inr (rr_generation row + 1),
                dict_set run_id (row\<lparr>rr_lease_owner := Some owner, rr_expires_at := Some (now + ttl),
                  rr_heartbeat_at := Some now, rr_generation := rr_generation row + 1\<rparr>) d)
          else (Inl (run_error (''The agent run '' @ run_id @ '' lease is held'')), d))"

definition heartbeat_lease ::
  "principal_scope option \<Rightarrow> int \<Rightarrow> string \<Rightarrow> string \<Rightarrow> nat \<Rightarrow> int \<Rightarrow> run_table \<Rightarrow> bool \<times> run_table" where
  "heartbeat_lease scope now run_id owner generation ttl d =
     (case row_of scope run_id d of
        Some row \<Rightarrow>
          if lease_held_by row owner generation
          then (True, dict_set run_id (row\<lparr>rr_expires_at := Some (now + ttl), rr_heartbeat_at := Some now\<rparr>) d)
          else (False, d)
      | None \<Rightarrow> (False, d))"

definition without_lease :: "run_row \<Rightarrow> run_row" where
  "without_lease row = row\<lparr>rr_lease_owner := None, rr_expires_at := None, rr_heartbeat_at := None\<rparr>"

definition release_lease ::
  "principal_scope option \<Rightarrow> string \<Rightarrow> string \<Rightarrow> nat \<Rightarrow> run_table \<Rightarrow> run_table" where
  "release_lease scope run_id owner generation d =
     (case row_of scope run_id d of
        Some row \<Rightarrow>
          if lease_held_by row owner generation then dict_set run_id (without_lease row) d else d
      | None \<Rightarrow> d)"

definition get_execution_lease ::
  "principal_scope option \<Rightarrow> string \<Rightarrow> run_table \<Rightarrow> error + agent_lease option" where
  "get_execution_lease scope run_id d =
     (case row_of scope run_id d of
        None \<Rightarrow> Inl (run_not_found run_id)
      | Some row \<Rightarrow> Inr (map_option (\<lambda>owner. \<lparr>al_owner = owner, al_expires_at = rr_expires_at row,
          al_heartbeat_at = rr_heartbeat_at row, al_generation = rr_generation row\<rparr>) (rr_lease_owner row)))"

definition clear_execution_lease :: "principal_scope option \<Rightarrow> string \<Rightarrow> (error, run_table, unit) act" where
  "clear_execution_lease scope run_id d =
     (case row_of scope run_id d of
        None \<Rightarrow> (Inl (run_not_found run_id), d)
      | Some row \<Rightarrow> (Inr (), dict_set run_id (without_lease row) d))"

section \<open>The trace\<close>

record trace_row =
  tw_event_id :: nat
  tw_run_id :: string
  tw_sequence :: nat
  tw_event :: agent_event
  tw_created_at :: int

text \<open>\<open>tt_next\<close>: the counter of the AUTOINCREMENT key.\<close>

record trace_table =
  tt_rows :: "trace_row list"
  tt_next :: nat

definition next_sequence :: "string \<Rightarrow> trace_row list \<Rightarrow> nat" where
  "next_sequence run_id rows =
     fold max (map tw_sequence (filter (\<lambda>w. tw_run_id w = run_id) rows)) 0 + 1"

definition append_event :: "int \<Rightarrow> string \<Rightarrow> agent_event \<Rightarrow> trace_table \<Rightarrow> nat \<times> trace_table" where
  "append_event now run_id event t =
     (let sequence = next_sequence run_id (tt_rows t)
      in (sequence, t\<lparr>tt_rows := tt_rows t @ [\<lparr>tw_event_id = tt_next t, tw_run_id = run_id,
             tw_sequence = sequence, tw_event = event\<lparr>te_sequence := Some sequence\<rparr>, tw_created_at = now\<rparr>],
           tt_next := tt_next t + 1\<rparr>))"

definition list_events :: "string \<Rightarrow> nat \<Rightarrow> nat option \<Rightarrow> trace_table \<Rightarrow> agent_event list" where
  "list_events run_id after_sequence limit t =
     map (\<lambda>w. (tw_event w)\<lparr>te_sequence := Some (tw_sequence w)\<rparr>)
       (take_opt limit (sort_key tw_sequence
         (filter (\<lambda>w. tw_run_id w = run_id \<and> tw_sequence w > after_sequence) (tt_rows t))))"

definition clear_events :: "string \<Rightarrow> trace_table \<Rightarrow> trace_table" where
  "clear_events run_id t = t\<lparr>tt_rows := filter (\<lambda>w. tw_run_id w \<noteq> run_id) (tt_rows t)\<rparr>"

text \<open>The latest rows are those with the highest keys, over all runs.\<close>

definition latest_rows :: "nat \<Rightarrow> trace_row list \<Rightarrow> nat list" where
  "latest_rows n rows = take n (rev (sort (map tw_event_id rows)))"

definition prune_events :: "int option \<Rightarrow> nat option \<Rightarrow> trace_table \<Rightarrow> nat \<times> trace_table" where
  "prune_events older_than keep_latest t =
     (let kept = filter (\<lambda>w. case older_than of None \<Rightarrow> True | Some c \<Rightarrow> \<not> tw_created_at w < c) (tt_rows t);
          kept2 = (case keep_latest of None \<Rightarrow> kept
                   | Some n \<Rightarrow> filter (\<lambda>w. tw_event_id w \<in> set (latest_rows n kept)) kept)
      in (length (tt_rows t) - length kept2, t\<lparr>tt_rows := kept2\<rparr>))"

section \<open>Leases fence the writes\<close>

text \<open>
  The steps of any number of processes on the table.  \<open>lt_granted\<close> records the leases that
  \<open>acquire_lease\<close> returned for the runs that are stored, \<open>lt_ended\<close> those that are over: a later lease was
  granted for the run (to the same owner or to another), the lease of the run was cleared by a recovery,
  or its holder released it.  Neither is read by the code.
\<close>

type_synonym grant = "string \<times> string \<times> nat"

record lease_table =
  lt_rows :: run_table
  lt_granted :: "grant list"
  lt_ended :: "grant list"

definition grants_of :: "string \<Rightarrow> grant list \<Rightarrow> grant list" where
  "grants_of run_id gs = filter (\<lambda>p. fst p = run_id) gs"

definition grants_besides :: "string \<Rightarrow> grant list \<Rightarrow> grant list" where
  "grants_besides run_id gs = filter (\<lambda>p. fst p \<noteq> run_id) gs"

inductive lease_step :: "lease_table \<Rightarrow> lease_table \<Rightarrow> bool" where
  ls_create: "create_state scope now state (lt_rows s) = (r, d) \<Longrightarrow> lease_step s (s\<lparr>lt_rows := d\<rparr>)"
| ls_save: "save_state held scope now state (lt_rows s) = (r, d) \<Longrightarrow> lease_step s (s\<lparr>lt_rows := d\<rparr>)"
| ls_delete: "delete_state scope run_id (lt_rows s) = (Inr (), d) \<Longrightarrow>
     lease_step s (s\<lparr>lt_rows := d, lt_granted := grants_besides run_id (lt_granted s),
       lt_ended := grants_besides run_id (lt_ended s)\<rparr>)"
| ls_acquire: "acquire_lease scope now run_id owner ttl (lt_rows s) = (Inr g, d) \<Longrightarrow>
     lease_step s (s\<lparr>lt_rows := d, lt_granted := (run_id, owner, g) # lt_granted s,
       lt_ended := grants_of run_id (lt_granted s) @ lt_ended s\<rparr>)"
| ls_heartbeat: "heartbeat_lease scope now run_id owner g ttl (lt_rows s) = (b, d) \<Longrightarrow>
     lease_step s (s\<lparr>lt_rows := d\<rparr>)"
| ls_release: "lease_step s (s\<lparr>lt_rows := release_lease scope run_id owner g (lt_rows s),
       lt_ended := (if row_of scope run_id (lt_rows s) = None then []
         else filter (\<lambda>p. p = (run_id, owner, g)) (lt_granted s)) @ lt_ended s\<rparr>)"
| ls_clear: "clear_execution_lease scope run_id (lt_rows s) = (r, d) \<Longrightarrow>
     lease_step s (s\<lparr>lt_rows := d,
       lt_ended := (if r = Inr () then grants_of run_id (lt_granted s) else []) @ lt_ended s\<rparr>)"

text \<open>The steps that a store refuses (no such run, a held lease) leave the table as it is.\<close>

inductive lease_reachable :: "lease_table \<Rightarrow> bool" where
  lr_empty: "lease_reachable \<lparr>lt_rows = [], lt_granted = [], lt_ended = []\<rparr>"
| lr_step: "lease_reachable s \<Longrightarrow> lease_step s s' \<Longrightarrow> lease_reachable s'"

text \<open>A lease that was granted has a generation up to that of its row; one that is over does not hold
  the row any more, and never will.\<close>

definition grant_ok :: "run_table \<Rightarrow> grant \<Rightarrow> bool" where
  "grant_ok d p \<longleftrightarrow> (\<exists>row. dict_get d (fst p) = Some row \<and> snd (snd p) \<le> rr_generation row)"

definition fenced :: "run_table \<Rightarrow> grant \<Rightarrow> bool" where
  "fenced d p \<longleftrightarrow> (\<exists>row. dict_get d (fst p) = Some row \<and> snd (snd p) \<le> rr_generation row
     \<and> \<not> lease_held_by row (fst (snd p)) (snd (snd p)))"

definition lease_ok :: "lease_table \<Rightarrow> bool" where
  "lease_ok s \<longleftrightarrow> (\<forall>p \<in> set (lt_granted s). grant_ok (lt_rows s) p)
     \<and> (\<forall>p \<in> set (lt_ended s). fenced (lt_rows s) p)"

text \<open>Every operation but an acquisition and a removal keeps the generation of every row, and its holder
  unless it takes it away.\<close>

definition leases_kept :: "run_table \<Rightarrow> run_table \<Rightarrow> bool" where
  "leases_kept d d' \<longleftrightarrow> (\<forall>run row. dict_get d run = Some row \<longrightarrow>
     (\<exists>row'. dict_get d' run = Some row' \<and> rr_generation row' = rr_generation row
        \<and> (rr_lease_owner row' = rr_lease_owner row \<or> rr_lease_owner row' = None)))"

lemma leases_kept_refl [simp]: "leases_kept d d"
  by (simp add: leases_kept_def)

lemma leases_kept_set:
  "(\<And>old. dict_get d k = Some old \<Longrightarrow> rr_generation row = rr_generation old
      \<and> (rr_lease_owner row = rr_lease_owner old \<or> rr_lease_owner row = None)) \<Longrightarrow>
     leases_kept d (dict_set k row d)"
  by (auto simp: leases_kept_def)

lemma kept_grant_ok: "leases_kept d d' \<Longrightarrow> grant_ok d p \<Longrightarrow> grant_ok d' p"
  unfolding leases_kept_def grant_ok_def by fastforce

lemma kept_fenced:
  assumes "leases_kept d d'" "fenced d p"
  shows "fenced d' p"
proof -
  from assms(2) obtain row where row: "dict_get d (fst p) = Some row" "snd (snd p) \<le> rr_generation row"
    and lost: "\<not> lease_held_by row (fst (snd p)) (snd (snd p))" unfolding fenced_def by blast
  from assms(1) row(1) obtain row' where "dict_get d' (fst p) = Some row'"
    "rr_generation row' = rr_generation row"
    "rr_lease_owner row' = rr_lease_owner row \<or> rr_lease_owner row' = None" unfolding leases_kept_def by blast
  with row(2) lost show ?thesis by (auto simp: fenced_def lease_held_by_def)
qed

lemma lease_ok_kept:
  assumes "lease_ok s" "leases_kept (lt_rows s) d" "\<And>p. p \<in> set over \<Longrightarrow> fenced d p"
  shows "lease_ok (s\<lparr>lt_rows := d, lt_ended := over @ lt_ended s\<rparr>)"
  using assms(1,3) kept_grant_ok [OF assms(2)] kept_fenced [OF assms(2)] by (auto simp: lease_ok_def)

lemmas lease_ok_kept_all = lease_ok_kept [where over = "[]", simplified]

lemma row_of_Some: "row_of scope run_id d = Some row \<Longrightarrow> dict_get d run_id = Some row"
  by (auto simp: row_of_def split: option.splits if_splits)

lemma create_state_kept: "create_state scope now state d = (r, d') \<Longrightarrow> leases_kept d d'"
  by (auto simp: create_state_def dict_has_def split: sum.splits if_splits intro: leases_kept_set)

lemma save_state_kept: "save_state held scope now state d = (r, d') \<Longrightarrow> leases_kept d d'"
  by (auto simp: save_state_def Let_def split: sum.splits if_splits option.splits intro!: leases_kept_set)

lemma heartbeat_kept:
  "heartbeat_lease scope now run_id owner g ttl d = (b, d') \<Longrightarrow> leases_kept d d'"
  by (auto simp: heartbeat_lease_def split: if_splits option.splits dest!: row_of_Some intro!: leases_kept_set)

lemma release_kept: "leases_kept d (release_lease scope run_id owner g d)"
  by (auto simp: release_lease_def without_lease_def split: option.splits dest!: row_of_Some
      intro!: leases_kept_set)

lemma clear_kept: "clear_execution_lease scope run_id d = (r, d') \<Longrightarrow> leases_kept d d'"
  by (auto simp: clear_execution_lease_def without_lease_def split: option.splits dest!: row_of_Some
      intro!: leases_kept_set)

text \<open>What a release, a clear and an acquisition end.\<close>

lemma without_lease_free: "\<not> lease_held_by (without_lease row) owner g"
  by (simp add: lease_held_by_def without_lease_def)

lemma release_ends:
  assumes "grant_ok d (run_id, owner, g)" "row_of scope run_id d \<noteq> None"
  shows "fenced (release_lease scope run_id owner g d) (run_id, owner, g)"
  using assms
proof -
  from assms obtain row where row: "row_of scope run_id d = Some row" "dict_get d run_id = Some row"
    "g \<le> rr_generation row" using row_of_Some [of scope run_id d] by (auto simp: grant_ok_def)
  then show ?thesis
    by (auto simp: fenced_def release_lease_def without_lease_free) (auto simp: without_lease_def)
qed

lemma clear_ends:
  assumes "grant_ok d p" "clear_execution_lease scope (fst p) d = (Inr (), d')"
  shows "fenced d' p"
  using assms
  by (auto simp: fenced_def grant_ok_def clear_execution_lease_def without_lease_free
      split: option.splits dest!: row_of_Some)
    (auto simp: without_lease_def)

lemma acquire_lease_cases:
  assumes "acquire_lease scope now run_id owner ttl d = (Inr g, d')"
  obtains row row' where "dict_get d run_id = Some row" "g = Suc (rr_generation row)"
    "d' = dict_set run_id row' d" "rr_generation row' = Suc (rr_generation row)"
  using assms row_of_Some [of scope run_id d]
  by (auto simp: acquire_lease_def split: option.splits if_splits)

lemma acquire_ends:
  assumes "acquire_lease scope now run_id owner ttl d = (Inr g, d')"
  shows "grant_ok d' (run_id, owner, g)" "grant_ok d p \<Longrightarrow> grant_ok d' p"
    "grant_ok d (run_id, q) \<Longrightarrow> fenced d' (run_id, q)" "fenced d p \<Longrightarrow> fenced d' p"
  using assms
  by (auto elim!: acquire_lease_cases simp: grant_ok_def fenced_def lease_held_by_def)

lemma delete_keeps_others:
  assumes "fst p \<noteq> run_id"
  shows "grant_ok (dict_pop run_id d) p = grant_ok d p" "fenced (dict_pop run_id d) p = fenced d p"
  using assms by (simp_all add: grant_ok_def fenced_def)

lemma lease_ok_step:
  assumes "lease_step s s'" "lease_ok s"
  shows "lease_ok s'"
  using assms(1)
proof cases
  case (ls_delete scope run_id d)
  then have "d = dict_pop run_id (lt_rows s)" by (auto simp: delete_state_def split: option.splits)
  with assms(2) show ?thesis
    unfolding ls_delete(1) lease_ok_def grants_besides_def by (auto simp: delete_keeps_others)
next
  case (ls_acquire scope now run_id owner ttl g d)
  note ends = acquire_ends [OF ls_acquire(2)]
  from assms(2) ends show ?thesis
    unfolding ls_acquire(1) lease_ok_def grants_of_def by auto
next
  case (ls_release scope run_id owner g)
  show ?thesis
    unfolding ls_release(1)
    by (rule lease_ok_kept [OF assms(2) release_kept])
      (use assms(2) in \<open>auto simp: lease_ok_def intro: release_ends split: if_splits\<close>)
next
  case (ls_clear scope run_id r d)
  show ?thesis
    unfolding ls_clear(1)
    by (rule lease_ok_kept [OF assms(2) clear_kept [OF ls_clear(2)]])
      (use assms(2) ls_clear(2) in \<open>auto simp: lease_ok_def grants_of_def intro: clear_ends split: if_splits\<close>)
next
  case ls_create
  show ?thesis unfolding ls_create(1) by (rule lease_ok_kept_all [OF assms(2) create_state_kept [OF ls_create(2)]])
next
  case ls_save
  show ?thesis unfolding ls_save(1) by (rule lease_ok_kept_all [OF assms(2) save_state_kept [OF ls_save(2)]])
next
  case ls_heartbeat
  show ?thesis unfolding ls_heartbeat(1) by (rule lease_ok_kept_all [OF assms(2) heartbeat_kept [OF ls_heartbeat(2)]])
qed

lemma lease_ok_reachable: "lease_reachable s \<Longrightarrow> lease_ok s"
proof (induction rule: lease_reachable.induct)
  case lr_empty
  show ?case by (simp add: lease_ok_def)
next
  case (lr_step s s')
  then show ?case by (blast intro: lease_ok_step)
qed

text \<open>C5: A process that lost its lease cannot write the run any more.  Once a lease is over (a later one was
  granted, to another owner or to the same, or the lease was cleared, or its holder gave it up), or no such
  run is stored any more, a save under it raises and leaves the table as it is, and its heartbeat answers no and
  changes nothing, whatever happened between them (grants, heartbeats, releases, clears, saves of others).\<close>

theorem stale_lease_fenced:
  assumes "lease_reachable s"
    and "(rn_run_id state, owner, generation) \<in> set (lt_ended s) \<or> dict_get (lt_rows s) (rn_run_id state) = None"
    and "scope_permits scope (rn_owner_id state)"
  shows "\<exists>e. save_state (Some \<lparr>hl_run_id = rn_run_id state, hl_owner = owner, hl_generation = generation\<rparr>)
            scope now state (lt_rows s) = (Inl e, lt_rows s)
     \<and> error_class e = Agent AgentRunLeaseLostError
     \<and> heartbeat_lease scope' now (rn_run_id state) owner generation ttl (lt_rows s) = (False, lt_rows s)"
proof -
  let ?run = "rn_run_id state"
  have "lease_ok s" by (rule lease_ok_reachable [OF assms(1)])
  with assms(2) have row: "\<not> lease_held_by row owner generation" if "dict_get (lt_rows s) ?run = Some row" for row
    using that by (auto simp: lease_ok_def fenced_def)
  from row have "heartbeat_lease scope' now ?run owner generation ttl (lt_rows s) = (False, lt_rows s)"
    by (auto simp: heartbeat_lease_def split: option.split dest: row_of_Some)
  with row assms(3) show ?thesis
    by (cases "dict_get (lt_rows s) ?run") (auto simp: save_state_def require_run_scope_def Let_def)
qed

text \<open>A run whose first holder was cleared by a recovery before anybody else took it.\<close>

definition sample_leases :: lease_table where
  "sample_leases = \<lparr>lt_rows = [(''r'', (new_row 0 (new_run ''r'' (new_request ''p'' ''x'' ''m'')))
       \<lparr>rr_generation := 1\<rparr>)],
     lt_granted = [(''r'', ''a'', 1)], lt_ended = [(''r'', ''a'', 1)]\<rparr>"

lemma sample_leases_reachable: "lease_reachable sample_leases"
proof -
  let ?run = "new_run ''r'' (new_request ''p'' ''x'' ''m'')"
  let ?row = "new_row 0 ?run"
  let ?held = "?row\<lparr>rr_lease_owner := Some ''a'', rr_expires_at := Some 10, rr_heartbeat_at := Some 0,
      rr_generation := 1\<rparr>"
  have 1: "lease_reachable \<lparr>lt_rows = [(''r'', ?row)], lt_granted = [], lt_ended = []\<rparr>"
    using lr_step [OF lr_empty ls_create, of None 0 ?run "Inr ()" "[(''r'', ?row)]"]
    by (simp add: create_state_def require_run_scope_def new_run_def dict_set_def)
  have 2: "lease_reachable \<lparr>lt_rows = [(''r'', ?held)], lt_granted = [(''r'', ''a'', 1)], lt_ended = []\<rparr>"
    using lr_step [OF 1 ls_acquire, of None 0 "''r''" "''a''" 10 1]
    by (simp add: acquire_lease_def row_of_def dict_get_Cons lease_free_def new_row_def dict_set_def grants_of_def)
  show ?thesis
    using lr_step [OF 2 ls_clear, of None "''r''" "Inr ()" "lt_rows sample_leases"]
    by (simp add: clear_execution_lease_def without_lease_def row_of_def dict_get_Cons new_row_def dict_set_def
        grants_of_def sample_leases_def)
qed

lemma stale_lease_fenced_witness:
  "\<exists>e. save_state (Some \<lparr>hl_run_id = ''r'', hl_owner = ''a'', hl_generation = 1\<rparr>) None 30
       (new_run ''r'' (new_request ''p'' ''x'' ''m'')) (lt_rows sample_leases) = (Inl e, lt_rows sample_leases)
     \<and> error_class e = Agent AgentRunLeaseLostError
     \<and> heartbeat_lease None 30 ''r'' ''a'' 1 5 (lt_rows sample_leases) = (False, lt_rows sample_leases)"
  using stale_lease_fenced [OF sample_leases_reachable, of "new_run ''r'' (new_request ''p'' ''x'' ''m'')"
      "''a''" 1 None 30 None 5]
  by (simp add: sample_leases_def new_run_def)

end
