(* ===== verification/AgentRecovery.thy ===== *)
theory AgentRecovery
  imports ToolLedger AgentStore
begin

text \<open>
  What a run is resumed from (\<open>application/agent_recovery.py\<close>): the snapshot of the run is brought up to
  date with the events persisted after it, the point it reached is classified, and the runs of processes
  that died are paused at that point.
\<close>

section \<open>Equality of persisted objects\<close>

text \<open>
  Python's \<open>==\<close> on models: dictionaries compare without their order, \<open>True == 1 == 1.0\<close>, and a message is
  its fields, not its identity (\<open>c_ref\<close>).  Two objects are equal when their normal forms are.
\<close>

fun normal :: "pyval \<Rightarrow> pyval" where
  "normal PNone = PNone"
| "normal (PBool b) = PFloat (if b then 1 else 0)"
| "normal (PInt i) = PFloat (of_int i)"
| "normal (PFloat r) = PFloat r"
| "normal (PStr s) = PStr s"
| "normal (PList xs) = PList (map normal xs)"
| "normal (PDict d) = PDict (sort_key fst (map (\<lambda>(k, v). (k, normal v)) d))"

definition normal_meta :: "metadata \<Rightarrow> metadata" where
  "normal_meta d = sort_key fst (map (\<lambda>(k, v). (k, normal v)) d)"

definition normal_decision :: "tool_approval_decision \<Rightarrow> tool_approval_decision" where
  "normal_decision d = d\<lparr>ad_metadata := normal_meta (ad_metadata d)\<rparr>"

definition normal_approval :: "tool_approval_request \<Rightarrow> tool_approval_request" where
  "normal_approval r = r\<lparr>ar_tool_call := normal_meta (ar_tool_call r), ar_metadata := normal_meta (ar_metadata r)\<rparr>"

definition normal_call :: "tool_call \<Rightarrow> tool_call" where
  "normal_call c = c\<lparr>tc_call := normal_meta (tc_call c),
     tc_approval := map_option normal_decision (tc_approval c), tc_metadata := normal_meta (tc_metadata c)\<rparr>"

definition normal_result :: "tool_call_result \<Rightarrow> tool_call_result" where
  "normal_result r = r\<lparr>tr_result := normal_meta (tr_result r), tr_metadata := normal_meta (tr_metadata r)\<rparr>"

definition normal_part :: "content_part \<Rightarrow> content_part" where
  "normal_part p = p\<lparr>cp_metadata := normal_meta (cp_metadata p)\<rparr>"

definition normal_content :: "content \<Rightarrow> content" where
  "normal_content c = c\<lparr>c_ref := 0, c_content := map_option (map normal_part) (c_content c),
     c_tool_calls := map_option (map normal_call) (c_tool_calls c), c_metadata := normal_meta (c_metadata c)\<rparr>"

definition normal_response :: "chat_response \<Rightarrow> chat_response" where
  "normal_response r = r\<lparr>rs_message := normal_content (rs_message r),
     rs_usage := map_option (\<lambda>u. u\<lparr>us_metadata := normal_meta (us_metadata u)\<rparr>) (rs_usage r),
     rs_metadata := normal_meta (rs_metadata r)\<rparr>"

definition normal_event :: "agent_event \<Rightarrow> agent_event" where
  "normal_event e = e\<lparr>te_subject := map_option (\<lambda>s. s\<lparr>ts_metadata := normal_meta (ts_metadata s)\<rparr>) (te_subject e),
     te_payload := map_option normal_meta (te_payload e), te_metadata := normal_meta (te_metadata e),
     te_message := map_option normal_content (te_message e),
     te_response := map_option normal_response (te_response e),
     te_tool_call := map_option normal_call (te_tool_call e),
     te_tool_result := map_option normal_result (te_tool_result e),
     te_approval_request := map_option normal_approval (te_approval_request e),
     te_approval_decision := map_option normal_decision (te_approval_decision e)\<rparr>"

section \<open>The tail of the trace\<close>

definition trace_matches_step :: "agent_event \<Rightarrow> agent_step \<Rightarrow> bool" where
  "trace_matches_step e s =
     (if as_trace_event_id s \<noteq> None then te_event_id e = as_trace_event_id s
      else if as_type s = Step_CHAT
      then te_type e = Ev_CHAT_COMPLETED
           \<and> map_option normal_response (te_response e) = map_option normal_response (as_response s)
      else te_type e = (if as_type s = Step_TOOL then Ev_TOOL_COMPLETED else Ev_TOOL_FAILED)
           \<and> map_option normal_call (te_tool_call e) = map_option normal_call (as_tool_call s))"

fun require_contiguous :: "agent_event list \<Rightarrow> nat option \<Rightarrow> error + unit" where
  "require_contiguous [] previous = Inr ()"
| "require_contiguous (e # es) previous =
     (case te_sequence e of
        None \<Rightarrow> require_contiguous es previous
      | Some n \<Rightarrow>
          if previous \<noteq> None \<and> Some n \<noteq> map_option Suc previous
          then Inl (run_error ''Persisted trace tail has missing events'')
          else require_contiguous es (Some n))"

text \<open>\<open>{event.sequence: event for event in state.trace ...}\<close>: the last event of a sequence wins.\<close>

definition saved_event :: "agent_event list \<Rightarrow> nat \<Rightarrow> agent_event option" where
  "saved_event trace n = find (\<lambda>e. te_sequence e = Some n) (rev trace)"

definition reused_sequence :: "agent_event list \<Rightarrow> agent_event \<Rightarrow> bool" where
  "reused_sequence trace e =
     (case te_sequence e of
        None \<Rightarrow> False
      | Some n \<Rightarrow>
          (case saved_event trace n of
             None \<Rightarrow> False
           | Some saved \<Rightarrow> te_event_id saved \<noteq> None \<and> te_event_id e \<noteq> None
               \<and> te_event_id saved \<noteq> te_event_id e))"

definition aligned_type :: "agent_step_type \<Rightarrow> bool" where
  "aligned_type ty \<longleftrightarrow> ty = Step_CHAT \<or> ty = Step_TOOL \<or> ty = Step_TOOL_ERROR"

text \<open>\<open>next((index for index in range(cursor, len(events)) if ...), None)\<close>.\<close>

fun match_from :: "agent_event list \<Rightarrow> agent_step \<Rightarrow> nat \<Rightarrow> nat option" where
  "match_from [] s n = None"
| "match_from (e # es) s n = (if trace_matches_step e s then Some n else match_from es s (n + 1))"

fun align_steps :: "agent_event list \<Rightarrow> agent_step list \<Rightarrow> nat \<Rightarrow> error + nat" where
  "align_steps events [] cursor = Inr cursor"
| "align_steps events (s # ss) cursor =
     (if \<not> aligned_type (as_type s) then align_steps events ss cursor
      else case match_from (drop cursor events) s cursor of
             Some i \<Rightarrow> align_steps events ss (i + 1)
           | None \<Rightarrow>
               if \<exists>e \<in> set events. te_type e = Ev_CHAT_COMPLETED
               then Inl (run_error ''Cannot align legacy snapshot with retained trace'')
               else align_steps events ss cursor)"

definition pruned_before_snapshot :: "agent_run \<Rightarrow> agent_event list \<Rightarrow> bool" where
  "pruned_before_snapshot state events =
     ((case events of [] \<Rightarrow> False | e # _ \<Rightarrow> (case te_sequence e of None \<Rightarrow> False | Some n \<Rightarrow> n > 1))
      \<and> (\<exists>s \<in> set (rn_steps state). as_trace_event_id s = None \<and> aligned_type (as_type s)))"

definition after_watermark :: "nat \<Rightarrow> agent_event list \<Rightarrow> agent_event list" where
  "after_watermark watermark events =
     filter (\<lambda>e. case te_sequence e of None \<Rightarrow> True | Some n \<Rightarrow> n > watermark) events"

definition snapshot_watermark :: "agent_run \<Rightarrow> nat option" where
  "snapshot_watermark state =
     (case rn_applied_trace_sequence state of
        Some w \<Rightarrow> Some w
      | None \<Rightarrow>
          (case List.map_filter te_sequence (rn_trace state) of
             [] \<Rightarrow> None | n # ns \<Rightarrow> Some (fold max ns n)))"

definition checkpoint_trace_tail :: "agent_run \<Rightarrow> agent_event list \<Rightarrow> error + agent_event list" where
  "checkpoint_trace_tail state events =
     (if \<exists>e \<in> set events. reused_sequence (rn_trace state) e
      then Inl (run_error ''Persisted trace sequence has been reused'')
      else case snapshot_watermark state of
             Some w \<Rightarrow>
               bind_e (require_contiguous (after_watermark w events) (Some w)) (\<lambda>_.
               Inr (after_watermark w events))
           | None \<Rightarrow>
               if pruned_before_snapshot state events
               then Inl (run_error ''Cannot align legacy snapshot with pruned trace'')
               else bind_e (align_steps events (rn_steps state) 0) (\<lambda>cursor.
                    bind_e (require_contiguous (drop cursor events)
                              (if cursor = 0 then Some 0 else te_sequence (events ! (cursor - 1)))) (\<lambda>_.
                    Inr (drop cursor events))))"

section \<open>Restoring the snapshot\<close>

text \<open>\<open>metadata.get("remaining_tool_rounds")\<close>, when it is an \<open>int\<close> within the rounds of the request.\<close>

definition traced_rounds :: "agent_run \<Rightarrow> agent_event \<Rightarrow> int" where
  "traced_rounds state e =
     (let max_rounds = int (ag_max_tool_rounds (rn_request state));
          fallback = max (max_rounds - int (current_tool_round state)) 0
      in case meta_get (te_metadata e) ''remaining_tool_rounds'' of
           PInt n \<Rightarrow> if 0 \<le> n \<and> n \<le> max_rounds then n else fallback
         | _ \<Rightarrow> fallback)"

definition chat_restored :: "agent_event \<Rightarrow> chat_response \<Rightarrow> agent_run \<Rightarrow> agent_run" where
  "chat_restored e response state =
     state\<lparr>rn_remaining_tool_rounds := traced_rounds state e, rn_response := Some response,
       rn_pending_tool_calls := [], rn_pending_approval_requests := [],
       rn_steps := rn_steps state @ [(new_step Step_CHAT)\<lparr>as_trace_event_id := te_event_id e,
         as_response := Some response,
         as_message := (case te_message e of None \<Rightarrow> Some (rs_message response) | m \<Rightarrow> m)\<rparr>]\<rparr>"

definition tool_restored :: "agent_event \<Rightarrow> agent_run \<Rightarrow> agent_run" where
  "tool_restored e state =
     state\<lparr>rn_steps := rn_steps state
       @ [(new_step (if te_type e = Ev_TOOL_COMPLETED then Step_TOOL else Step_TOOL_ERROR))
            \<lparr>as_trace_event_id := te_event_id e, as_message := te_message e, as_tool_call := te_tool_call e,
             as_tool_result := te_tool_result e, as_error_type := te_error_type e,
             as_error_message := te_error_message e\<rparr>]\<rparr>"

definition approval_restored :: "tool_approval_request \<Rightarrow> agent_run \<Rightarrow> agent_run" where
  "approval_restored r state =
     state\<lparr>rn_pending_approval_requests := rn_pending_approval_requests state @ [r],
       rn_pending_tool_calls := (case rn_response state of
          None \<Rightarrow> [] | Some response \<Rightarrow> calls_of (rs_message response))\<rparr>"

definition stop_reason_of :: "string \<Rightarrow> agent_stop_reason option" where
  "stop_reason_of s = find (\<lambda>r. stop_reason_value r = s)
     [Stop_FINISHED, Stop_TOOL_ROUNDS_EXHAUSTED, Stop_TOOL_ERROR]"

definition unhashable :: "pyval \<Rightarrow> bool" where
  "unhashable v \<longleftrightarrow> (case v of PList _ \<Rightarrow> True | PDict _ \<Rightarrow> True | _ \<Rightarrow> False)"

definition stop_restored :: "agent_event \<Rightarrow> agent_run \<Rightarrow> error + agent_run" where
  "stop_restored e state =
     (let reason = meta_get (te_metadata e) ''reason'';
          name = (case reason of PStr s \<Rightarrow> s | _ \<Rightarrow> []);
          cleared = (\<lambda>s. s\<lparr>rn_pending_tool_calls := [], rn_pending_approval_requests := []\<rparr>)
      in if unhashable reason then Inl (raised (PyException ''TypeError'') ''unhashable type'')
         else case stop_reason_of name of
           Some r \<Rightarrow>
             Inr (cleared (state\<lparr>rn_stop_reason := Some r,
                    rn_status := (if r = Stop_FINISHED then Run_FINISHED else Run_FAILED),
                    rn_steps := (if \<exists>s \<in> set (rn_steps state). as_type s = Step_STOP then rn_steps state
                      else rn_steps state @ [(new_step Step_STOP)\<lparr>as_trace_event_id := te_event_id e,
                             as_metadata := [(''reason'', reason)]\<rparr>])\<rparr>))
         | None \<Rightarrow>
             if name = ''failed'' \<or> name = ''canceled''
             then Inr (cleared (state\<lparr>
                    rn_status := (if name = ''failed'' then Run_FAILED else Run_CANCELED),
                    rn_stop_reason := None\<rparr>))
             else Inl (run_error ''Stopped run trace has no recognized reason''))"

text \<open>The body of the loop for an event that is not applied yet, up to the bookkeeping at its end.\<close>

definition event_restored :: "agent_event \<Rightarrow> agent_run \<Rightarrow> error + agent_run" where
  "event_restored e state =
     (if te_type e = Ev_CHAT_COMPLETED
      then case te_response e of
             None \<Rightarrow> Inl (run_error ''Completed chat trace has no response'')
           | Some response \<Rightarrow> Inr (chat_restored e response state)
      else if te_type e = Ev_TOOL_COMPLETED \<or> te_type e = Ev_TOOL_FAILED
      then if te_tool_call e = None
           then Inl (run_error ''Completed tool trace has no tool call'')
           else Inr (tool_restored e state)
      else if te_type e = Ev_TOOL_APPROVAL_REQUESTED
      then Inr (case te_approval_request e of None \<Rightarrow> state | Some r \<Rightarrow> approval_restored r state)
      else if te_type e = Ev_MEMORY_WRITTEN
      then Inr (state\<lparr>rn_steps := rn_steps state @ [(new_step Step_MEMORY_WRITE)
                  \<lparr>as_trace_event_id := te_event_id e, as_metadata := te_metadata e\<rparr>]\<rparr>)
      else if te_type e = Ev_RUN_STOPPED then stop_restored e state
      else Inr state)"

definition at_sequence :: "agent_event \<Rightarrow> agent_run \<Rightarrow> agent_run" where
  "at_sequence e state =
     (case te_sequence e of None \<Rightarrow> state | Some n \<Rightarrow> state\<lparr>rn_applied_trace_sequence := Some n\<rparr>)"

definition traced :: "agent_event \<Rightarrow> agent_run \<Rightarrow> agent_run" where
  "traced e state =
     (if normal_event e \<in> normal_event ` set (rn_trace state) then state
      else state\<lparr>rn_trace := rn_trace state @ [e]\<rparr>)"

definition already_applied :: "agent_event \<Rightarrow> string list \<Rightarrow> bool" where
  "already_applied e applied \<longleftrightarrow> (case te_event_id e of None \<Rightarrow> False | Some i \<Rightarrow> i \<in> set applied)"

fun restore_events ::
  "agent_event list \<Rightarrow> string list \<Rightarrow> (error, agent_run, unit) act" where
  "restore_events [] applied state = (Inr (), state)"
| "restore_events (e # es) applied state =
     (if already_applied e applied
      then restore_events es applied (at_sequence e state)
      else case event_restored e state of
             Inl err \<Rightarrow> (Inl err, state)
           | Inr state' \<Rightarrow>
               restore_events es (case te_event_id e of None \<Rightarrow> applied | Some i \<Rightarrow> i # applied)
                 (traced e (at_sequence e state')))"

definition applied_ids :: "agent_run \<Rightarrow> string list" where
  "applied_ids state =
     filter (\<lambda>i. i \<noteq> []) (List.map_filter as_trace_event_id (rn_steps state))"

definition with_totals :: "agent_run \<Rightarrow> agent_run" where
  "with_totals state =
     state\<lparr>rn_tool_rounds_used := int (ag_max_tool_rounds (rn_request state)) - rn_remaining_tool_rounds state,
       rn_usage := aggregate_run_usage state\<rparr>"

definition restore_checkpoint :: "agent_event list \<Rightarrow> (error, agent_run, unit) act" where
  "restore_checkpoint events state =
     (case checkpoint_trace_tail state events of
        Inl e \<Rightarrow> (Inl e, state)
      | Inr tail \<Rightarrow>
          (case restore_events tail (applied_ids state) state of
             (Inl e, state') \<Rightarrow> (Inl e, state')
           | (Inr _, state') \<Rightarrow> (Inr (), with_totals state')))"

section \<open>Classifying the checkpoint\<close>

record recovery_checkpoint =
  ck_eligible :: bool
  ck_name :: string
  ck_detail :: "string option"

definition checkpoint :: "bool \<Rightarrow> string \<Rightarrow> string option \<Rightarrow> recovery_checkpoint" where
  "checkpoint eligible name detail = \<lparr>ck_eligible = eligible, ck_name = name, ck_detail = detail\<rparr>"

definition stopped_status :: "agent_run_status \<Rightarrow> bool" where
  "stopped_status st \<longleftrightarrow> st = Run_FINISHED \<or> st = Run_FAILED \<or> st = Run_CANCELED"

definition incomplete_calls :: "agent_run \<Rightarrow> chat_response \<Rightarrow> tool_call list" where
  "incomplete_calls state response =
     filter (\<lambda>c. tc_id c \<notin> set (completed_call_ids state)) (calls_of (rs_message response))"

definition replay_ready :: "agent_run \<Rightarrow> execution_attempt list \<Rightarrow> tool_call list \<Rightarrow> bool" where
  "replay_ready state attempts calls \<longleftrightarrow>
     (\<forall>c \<in> set calls. \<not> has_unscoped attempts (tc_id c)
        \<and> call_can_resume (dict_get (latest_attempts (round_attempts attempts (current_tool_round state))) (tc_id c)))"

definition classify_checkpoint :: "agent_run \<Rightarrow> execution_attempt list option \<Rightarrow> recovery_checkpoint" where
  "classify_checkpoint state attempts =
     (if stopped_status (rn_status state) then checkpoint False ''run_stopped'' None
      else if \<exists>s \<in> set (rn_steps state). as_type s = Step_STOP \<or> as_type s = Step_MEMORY_WRITE
      then checkpoint False ''finalization_incomplete''
             (Some ''Context or memory writes may already have been committed'')
      else case rn_response state of
        None \<Rightarrow>
          if \<exists>s \<in> set (rn_steps state). as_type s \<noteq> Step_START
          then checkpoint False ''incomplete_trace''
                 (Some ''A persisted run step has no model response checkpoint'')
          else checkpoint True ''run_started'' None
      | Some response \<Rightarrow>
          let open_calls = incomplete_calls state response;
              pending = map ar_tool_call_id (rn_pending_approval_requests state)
          in if open_calls \<noteq> []
             then if pending \<noteq> [] \<and> (\<forall>c \<in> set open_calls. tc_id c \<in> set pending)
                  then checkpoint True ''approval_pending'' None
                  else if (case attempts of None \<Rightarrow> False | Some as \<Rightarrow> replay_ready state as open_calls)
                  then checkpoint True ''tool_replay_ready'' None
                  else checkpoint False ''tool_execution_incomplete''
                         (Some ''A tool call has no persisted completion result'')
             else checkpoint True (if calls_of (rs_message response) \<noteq> [] then ''tool_round_completed''
                                   else ''chat_completed'') None)"

text \<open>Only an \<open>AgentStateError\<close> of the restoration is caught; the snapshot keeps what was applied before it.\<close>

definition inspect_checkpoint ::
  "agent_event list option \<Rightarrow> execution_attempt list option \<Rightarrow> (error, agent_run, recovery_checkpoint) act" where
  "inspect_checkpoint trace_events attempts state =
     (case restore_checkpoint (case trace_events of None \<Rightarrow> rn_trace state | Some es \<Rightarrow> es) state of
        (Inl e, state') \<Rightarrow>
          if isinstance (error_class e) (Agent AgentStateError)
          then (Inr (checkpoint False ''incomplete_trace'' (Some (error_message e))), state')
          else (Inl e, state')
      | (Inr _, state') \<Rightarrow> (Inr (classify_checkpoint state' attempts), state'))"

section \<open>Restoring is compositional\<close>

definition set_totals :: "int \<Rightarrow> chat_usage option \<Rightarrow> agent_run \<Rightarrow> agent_run" where
  "set_totals n u state = state\<lparr>rn_tool_rounds_used := n, rn_usage := u\<rparr>"

lemma with_totals_set: "with_totals (set_totals n u s) = with_totals s"
  by (cases s) (simp add: with_totals_def set_totals_def aggregate_run_usage_def)

lemma with_totals_eq: "\<exists>n u. with_totals s = set_totals n u s"
  by (auto simp: with_totals_def set_totals_def)

lemma set_totals_sel [simp]:
  "rn_trace (set_totals n u s) = rn_trace s" "rn_steps (set_totals n u s) = rn_steps s"
  "rn_applied_trace_sequence (set_totals n u s) = rn_applied_trace_sequence s"
  by (simp_all add: set_totals_def)

lemma event_restored_totals:
  "event_restored e (set_totals n u s) = map_sum id (set_totals n u) (event_restored e s)"
proof -
  have rounds: "traced_rounds (set_totals n u s) e = traced_rounds s e"
    by (simp add: traced_rounds_def set_totals_def current_tool_round_def)
  have chat: "chat_restored e r (set_totals n u s) = set_totals n u (chat_restored e r s)" for r
    unfolding chat_restored_def rounds by (cases s) (simp add: set_totals_def)
  have tool: "tool_restored e (set_totals n u s) = set_totals n u (tool_restored e s)"
    by (cases s) (simp add: tool_restored_def set_totals_def)
  have approval: "approval_restored r (set_totals n u s) = set_totals n u (approval_restored r s)" for r
    by (cases s) (simp add: approval_restored_def set_totals_def)
  have stop: "stop_restored e (set_totals n u s) = map_sum id (set_totals n u) (stop_restored e s)"
    by (cases s) (auto simp: stop_restored_def set_totals_def Let_def split: option.split)
  have memory: "(set_totals n u s)\<lparr>rn_steps := rn_steps s @ xs\<rparr> = set_totals n u (s\<lparr>rn_steps := rn_steps s @ xs\<rparr>)" for xs
    by (cases s) (simp add: set_totals_def)
  show ?thesis
    by (simp add: event_restored_def chat tool approval stop memory split: option.split)
qed

lemma at_sequence_totals: "at_sequence e (set_totals n u s) = set_totals n u (at_sequence e s)"
  by (cases s) (simp add: at_sequence_def set_totals_def split: option.split)

lemma traced_totals: "traced e (set_totals n u s) = set_totals n u (traced e s)"
  by (cases s) (simp add: traced_def set_totals_def)

lemma restore_events_totals:
  "restore_events es A (set_totals n u s) = map_prod id (set_totals n u) (restore_events es A s)"
proof (induction es A s rule: restore_events.induct)
  case (2 e es A s)
  then show ?case
    by (cases "event_restored e s") (simp_all add: event_restored_totals at_sequence_totals traced_totals)
qed simp

lemma restore_events_cong:
  "(\<And>e. e \<in> set es \<Longrightarrow> te_event_id e \<noteq> None \<Longrightarrow>
      the (te_event_id e) \<in> set A \<longleftrightarrow> the (te_event_id e) \<in> set B) \<Longrightarrow>
   restore_events es A s = restore_events es B s"
proof (induction es arbitrary: A B s)
  case (Cons e es)
  have skip: "already_applied e A \<longleftrightarrow> already_applied e B"
    using Cons.prems [of e] by (auto simp: already_applied_def split: option.split)
  let ?add = "\<lambda>A. case te_event_id e of None \<Rightarrow> A | Some i \<Rightarrow> i # A"
  have "restore_events es A x = restore_events es B x" for x
    by (rule Cons.IH) (use Cons.prems in auto)
  moreover have "restore_events es (?add A) x = restore_events es (?add B) x" for x
    by (rule Cons.IH) (use Cons.prems in \<open>auto split: option.split\<close>)
  ultimately show ?case by (simp only: restore_events.simps skip split: sum.split)
qed simp

definition event_ids :: "agent_event list \<Rightarrow> string list" where
  "event_ids es = List.map_filter te_event_id es"

lemma event_ids_simps [simp]:
  "event_ids [] = []"
  "event_ids (e # es) = (case te_event_id e of None \<Rightarrow> event_ids es | Some i \<Rightarrow> i # event_ids es)"
  "event_ids (es @ fs) = event_ids es @ event_ids fs"
  by (simp_all add: event_ids_def List.map_filter_def split: option.split)

lemma event_ids_iff: "i \<in> set (event_ids es) \<longleftrightarrow> (\<exists>e \<in> set es. te_event_id e = Some i)"
  by (induction es) (auto split: option.split)

lemma restore_events_append:
  "restore_events es A s = (Inr (), s') \<Longrightarrow>
     restore_events (es @ fs) A s = restore_events fs (event_ids es @ A) s'"
proof (induction es A s rule: restore_events.induct)
  case (2 e es A s)
  show ?case
  proof (cases "already_applied e A")
    case True
    with 2 have "restore_events ((e # es) @ fs) A s = restore_events fs (event_ids es @ A) s'" by simp
    also have "\<dots> = restore_events fs (event_ids (e # es) @ A) s'"
      using True by (intro restore_events_cong) (auto simp: already_applied_def split: option.splits)
    finally show ?thesis .
  next
    case False
    with 2(3) obtain x where x: "event_restored e s = Inr x" by (cases "event_restored e s") auto
    with 2(2) [OF False x] 2(3) False
    have "restore_events ((e # es) @ fs) A s
        = restore_events fs (event_ids es @ (case te_event_id e of None \<Rightarrow> A | Some i \<Rightarrow> i # A)) s'"
      by simp
    also have "\<dots> = restore_events fs (event_ids (e # es) @ A) s'"
      by (intro restore_events_cong) (auto split: option.splits)
    finally show ?thesis .
  qed
qed simp

text \<open>What the restoration of a tail leaves: the position, the ids of the steps, the trace.\<close>

definition step_ids :: "agent_run \<Rightarrow> string set" where
  "step_ids s = {i. \<exists>p \<in> set (rn_steps s). as_trace_event_id p = Some i}"

lemma event_restored_frame:
  assumes "event_restored e s = Inr s'"
  shows "rn_applied_trace_sequence s' = rn_applied_trace_sequence s" "rn_trace s' = rn_trace s"
    "step_ids s \<subseteq> step_ids s'" "step_ids s' \<subseteq> step_ids s \<union> set (event_ids [e])"
  using assms
  by (auto simp: event_restored_def chat_restored_def tool_restored_def approval_restored_def
      stop_restored_def new_step_def step_ids_def Let_def split: if_splits option.splits)

lemma at_sequence_frame [simp]:
  "rn_trace (at_sequence e s) = rn_trace s" "rn_steps (at_sequence e s) = rn_steps s"
  "step_ids (at_sequence e s) = step_ids s"
  by (simp_all add: at_sequence_def step_ids_def split: option.split)

lemma traced_frame [simp]:
  "rn_steps (traced e s) = rn_steps s" "step_ids (traced e s) = step_ids s"
  "rn_applied_trace_sequence (traced e s) = rn_applied_trace_sequence s"
  by (simp_all add: traced_def step_ids_def)

lemma restore_events_frame:
  assumes "restore_events es A s = (Inr (), s')"
  shows "step_ids s \<subseteq> step_ids s'" "step_ids s' \<subseteq> step_ids s \<union> set (event_ids es)"
    "\<exists>new. rn_trace s' = rn_trace s @ new \<and> set new \<subseteq> set es"
    "es \<noteq> [] \<Longrightarrow> (\<And>e. e \<in> set es \<Longrightarrow> te_sequence e \<noteq> None) \<Longrightarrow>
       rn_applied_trace_sequence s' = te_sequence (last es)"
proof -
  have "step_ids s \<subseteq> step_ids s' \<and> step_ids s' \<subseteq> step_ids s \<union> set (event_ids es)
     \<and> (\<exists>new. rn_trace s' = rn_trace s @ new \<and> set new \<subseteq> set es)
     \<and> (es \<noteq> [] \<longrightarrow> (\<forall>e \<in> set es. te_sequence e \<noteq> None) \<longrightarrow>
          rn_applied_trace_sequence s' = te_sequence (last es))"
    using assms
  proof (induction es A s rule: restore_events.induct)
    case (2 e es A s)
    show ?case
    proof (cases "already_applied e A")
      case True
      with 2(3) have rest: "restore_events es A (at_sequence e s) = (Inr (), s')" by simp
      note IH = 2(1) [OF True rest]
      show ?thesis
      proof (intro conjI impI)
        show "step_ids s \<subseteq> step_ids s'" using IH by simp
        show "step_ids s' \<subseteq> step_ids s \<union> set (event_ids (e # es))"
          using IH by (auto split: option.split)
        show "\<exists>new. rn_trace s' = rn_trace s @ new \<and> set new \<subseteq> set (e # es)"
          using IH by auto
        assume "\<forall>f \<in> set (e # es). te_sequence f \<noteq> None"
        with IH rest show "rn_applied_trace_sequence s' = te_sequence (last (e # es))"
          by (cases es) (auto simp: at_sequence_def split: option.splits)
      qed
    next
      case False
      with 2(3) obtain x where x: "event_restored e s = Inr x" by (cases "event_restored e s") auto
      note frame = event_restored_frame [OF x]
      let ?s = "traced e (at_sequence e x)"
      let ?A = "case te_event_id e of None \<Rightarrow> A | Some i \<Rightarrow> i # A"
      have rest: "restore_events es ?A ?s = (Inr (), s')" using 2(3) False x by simp
      note IH = 2(2) [OF False x rest]
      show ?thesis
      proof (intro conjI impI)
        show "step_ids s \<subseteq> step_ids s'" using IH frame(3) by auto
        show "step_ids s' \<subseteq> step_ids s \<union> set (event_ids (e # es))"
          using IH frame(4) by (auto split: option.splits)
        show "\<exists>new. rn_trace s' = rn_trace s @ new \<and> set new \<subseteq> set (e # es)"
          using IH frame(2) by (auto simp: traced_def split: if_splits)
        assume "\<forall>f \<in> set (e # es). te_sequence f \<noteq> None"
        with IH rest show "rn_applied_trace_sequence s' = te_sequence (last (e # es))"
          by (cases es) (auto simp: at_sequence_def split: option.splits)
      qed
    qed
  qed simp
  then show "step_ids s \<subseteq> step_ids s'" "step_ids s' \<subseteq> step_ids s \<union> set (event_ids es)"
    "\<exists>new. rn_trace s' = rn_trace s @ new \<and> set new \<subseteq> set es"
    "es \<noteq> [] \<Longrightarrow> (\<And>e. e \<in> set es \<Longrightarrow> te_sequence e \<noteq> None) \<Longrightarrow>
       rn_applied_trace_sequence s' = te_sequence (last es)"
    by blast+
qed

lemma require_contiguous_append:
  assumes "require_contiguous (es @ fs) p = Inr ()" "\<And>e. e \<in> set es \<Longrightarrow> te_sequence e \<noteq> None"
  shows "require_contiguous fs (if es = [] then p else te_sequence (last es)) = Inr ()"
  using assms
proof (induction es arbitrary: p)
  case (Cons e es)
  from Cons.prems(2) obtain n where n: "te_sequence e = Some n" by fastforce
  with Cons.prems(1) have "require_contiguous (es @ fs) (Some n) = Inr ()" by (simp split: if_splits)
  from Cons.IH [OF this] Cons.prems(2) n show ?case by (simp split: if_splits)
qed simp

lemma applied_ids_set: "i \<in> set (applied_ids s) \<longleftrightarrow> i \<in> step_ids s \<and> i \<noteq> []"
  by (force simp: applied_ids_def step_ids_def List.map_filter_def)

text \<open>Events as the trace register lists them: numbered in increasing order, with distinct ids.\<close>

definition listed_trace :: "agent_event list \<Rightarrow> bool" where
  "listed_trace es \<longleftrightarrow> (\<forall>e \<in> set es. te_sequence e \<noteq> None)
     \<and> sorted_wrt (<) (map (\<lambda>e. the (te_sequence e)) es) \<and> distinct (event_ids es)"

lemma after_watermark_listed:
  "listed_trace es \<Longrightarrow> after_watermark w es = filter (\<lambda>e. the (te_sequence e) > w) es"
  by (auto simp: after_watermark_def listed_trace_def intro!: filter_cong split: option.split)

lemma find_append: "find P (xs @ ys) = (case find P xs of None \<Rightarrow> find P ys | Some x \<Rightarrow> Some x)"
  by (induction xs) simp_all

lemma saved_event_append:
  "saved_event (xs @ ys) n = (case saved_event ys n of None \<Rightarrow> saved_event xs n | Some e \<Rightarrow> Some e)"
  by (simp add: saved_event_def find_append split: option.split)

lemma reused_sequence_append:
  assumes "\<not> reused_sequence xs e"
    and "\<And>f. f \<in> set ys \<Longrightarrow> te_sequence f = te_sequence e \<Longrightarrow> te_event_id f = te_event_id e"
  shows "\<not> reused_sequence (xs @ ys) e"
proof
  assume reused: "reused_sequence (xs @ ys) e"
  then obtain n f where n: "te_sequence e = Some n" "saved_event (xs @ ys) n = Some f"
      "te_event_id f \<noteq> None" "te_event_id e \<noteq> None" "te_event_id f \<noteq> te_event_id e"
    by (auto simp: reused_sequence_def split: option.splits)
  show False
  proof (cases "saved_event ys n")
    case None
    with n assms(1) show False by (auto simp: saved_event_append reused_sequence_def)
  next
    case (Some g)
    then have "g \<in> set ys" "te_sequence g = Some n"
      using find_Some_iff [of "\<lambda>e. te_sequence e = Some n" "rev ys" g]
      by (auto simp: saved_event_def intro: nth_mem [of _ "rev ys", simplified])
    with Some n assms(2) [of g] show False by (simp add: saved_event_append)
  qed
qed

lemma listed_unique:
  assumes "listed_trace es" "e \<in> set es" "f \<in> set es" "te_sequence e = te_sequence f"
  shows "e = f"
proof -
  have "distinct (map (\<lambda>e. the (te_sequence e)) es)"
    using assms(1) by (auto simp: listed_trace_def strict_sorted_iff)
  then have "inj_on (\<lambda>e. the (te_sequence e)) (set es)" by (simp add: distinct_map)
  from inj_onD [OF this _ assms(2,3)] assms(4) show ?thesis by simp
qed

text \<open>C7: Restoring a snapshot from the trace is compositional: bringing a snapshot up to date with a prefix
  of the events, saving it, and later restoring it from all events ends in the same snapshot as restoring
  the first one from all events.  A crash between the write of an event and the save of the snapshot, or
  any number of interrupted recoveries, therefore loses no step and applies none twice.\<close>

theorem restore_compositional:
  assumes listed: "listed_trace (es @ fs)" and mark: "rn_applied_trace_sequence s = Some w"
    and first: "restore_checkpoint es s = (Inr (), s1)"
    and whole: "restore_checkpoint (es @ fs) s = (Inr (), s2)"
  shows "restore_checkpoint (es @ fs) s1 = (Inr (), s2)"
proof -
  let ?t = "after_watermark w es" and ?u = "after_watermark w fs"
  have parts: "listed_trace es" "listed_trace fs"
    using listed by (auto simp: listed_trace_def sorted_wrt_append)
  have tail: "after_watermark w (es @ fs) = ?t @ ?u" by (simp add: after_watermark_def)
  from first mark obtain r1 where r1: "restore_events ?t (applied_ids s) s = (Inr (), r1)" "s1 = with_totals r1"
      "require_contiguous ?t (Some w) = Inr ()" "\<forall>e \<in> set es. \<not> reused_sequence (rn_trace s) e"
    by (auto simp: restore_checkpoint_def checkpoint_trace_tail_def snapshot_watermark_def bind_e_def
        split: if_splits sum.splits prod.splits)
  from whole mark tail obtain r2 where r2: "restore_events (?t @ ?u) (applied_ids s) s = (Inr (), r2)"
      "s2 = with_totals r2" "require_contiguous (?t @ ?u) (Some w) = Inr ()"
      "\<forall>e \<in> set (es @ fs). \<not> reused_sequence (rn_trace s) e"
    by (auto simp: restore_checkpoint_def checkpoint_trace_tail_def snapshot_watermark_def bind_e_def
        split: if_splits sum.splits prod.splits)
  obtain n u where s1: "s1 = set_totals n u r1" using with_totals_eq r1(2) by blast
  have t_seq: "te_sequence e \<noteq> None" if "e \<in> set ?t" for e
    using that parts(1) by (auto simp: after_watermark_def listed_trace_def)
  note frame = restore_events_frame [OF r1(1)]
  have mark1: "rn_applied_trace_sequence s1 = (if ?t = [] then Some w else te_sequence (last ?t))"
    using frame(4) t_seq r1(1) mark by (auto simp: s1)
  have tail1: "after_watermark (the (rn_applied_trace_sequence s1)) (es @ fs) = ?u
      \<and> rn_applied_trace_sequence s1 \<noteq> None"
  proof (cases "?t = []")
    case True
    with mark1 tail show ?thesis by simp
  next
    case False
    define l where "l = last ?t"
    have l: "l \<in> set es" "the (te_sequence l) > w" "te_sequence l \<noteq> None"
      using False last_in_set [of ?t] t_seq [of l] by (auto simp: l_def after_watermark_listed [OF parts(1)])
    have "\<forall>e \<in> set es. the (te_sequence e) \<le> the (te_sequence l)"
    proof
      fix e assume e: "e \<in> set es"
      show "the (te_sequence e) \<le> the (te_sequence l)"
      proof (cases "the (te_sequence e) > w")
        case True
        with e have "e \<in> set ?t" by (simp add: after_watermark_listed [OF parts(1)])
        moreover have "sorted_wrt (<) (map (\<lambda>e. the (te_sequence e)) ?t)"
          using parts(1) by (simp add: after_watermark_listed listed_trace_def sorted_wrt_map sorted_wrt_filter)
        ultimately show ?thesis using False
          by (cases ?t rule: rev_cases) (auto simp: l_def sorted_wrt_append)
      next
        case False
        with l(2) show ?thesis by simp
      qed
    qed
    moreover have "\<forall>f \<in> set fs. the (te_sequence l) < the (te_sequence f)"
      using listed l(1) by (auto simp: listed_trace_def sorted_wrt_append)
    ultimately have "filter (\<lambda>e. the (te_sequence l) < the (te_sequence e)) es = []"
        "filter (\<lambda>e. the (te_sequence l) < the (te_sequence e)) fs = fs"
        "filter (\<lambda>e. w < the (te_sequence e)) fs = fs"
      using l(2) by (auto simp: filter_empty_conv filter_id_conv)
    then have "after_watermark (the (te_sequence l)) (es @ fs) = ?u"
      by (simp add: after_watermark_listed [OF listed] after_watermark_listed [OF parts(2)])
    with mark1 False l(3) show ?thesis by (simp add: l_def)
  qed
  then obtain w1 where w1: "rn_applied_trace_sequence s1 = Some w1" "after_watermark w1 (es @ fs) = ?u" by auto
  have contiguous: "require_contiguous ?u (Some w1) = Inr ()"
    using require_contiguous_append [OF r2(3) t_seq] mark1 w1(1) by (simp split: if_splits)
  have trace: "\<not> reused_sequence (rn_trace s1) e" if e: "e \<in> set (es @ fs)" for e
  proof -
    obtain new where new: "rn_trace s1 = rn_trace s @ new" "set new \<subseteq> set ?t"
      using frame(3) by (auto simp: s1)
    show ?thesis
      unfolding new(1)
    proof (rule reused_sequence_append)
      show "\<not> reused_sequence (rn_trace s) e" using r2(4) e by blast
      fix f assume "f \<in> set new" "te_sequence f = te_sequence e"
      with new(2) e listed_unique [OF listed, of f e] show "te_event_id f = te_event_id e"
        by (auto simp: after_watermark_def)
    qed
  qed
  have "restore_events ?u (applied_ids s1) r1 = restore_events ?u (event_ids ?t @ applied_ids s) r1"
  proof (rule restore_events_cong)
    fix e assume e: "e \<in> set ?u" "te_event_id e \<noteq> None"
    then obtain i where i: "te_event_id e = Some i" by auto
    have "i \<in> set (event_ids fs)" using e(1) i by (auto simp: event_ids_iff after_watermark_def)
    then have "i \<notin> set (event_ids es)" using listed by (auto simp: listed_trace_def)
    then have not_t: "i \<notin> set (event_ids ?t)" by (auto simp: event_ids_iff after_watermark_def)
    have "step_ids s1 = step_ids r1" by (simp add: s1 step_ids_def)
    with frame(1,2) not_t have "i \<in> step_ids s1 \<longleftrightarrow> i \<in> step_ids s" by blast
    with not_t i show "the (te_event_id e) \<in> set (applied_ids s1) \<longleftrightarrow>
        the (te_event_id e) \<in> set (event_ids ?t @ applied_ids s)"
      by (simp add: applied_ids_set)
  qed
  also have "\<dots> = (Inr (), r2)"
    using restore_events_append [OF r1(1), of ?u] r2(1) by simp
  finally have "restore_events ?u (applied_ids s1) s1 = (Inr (), set_totals n u r2)"
    by (simp add: s1 restore_events_totals)
  moreover have "checkpoint_trace_tail s1 (es @ fs) = Inr ?u"
    using trace w1 contiguous by (auto simp: checkpoint_trace_tail_def snapshot_watermark_def bind_e_def)
  ultimately show ?thesis
    by (simp add: restore_checkpoint_def with_totals_set r2(2))
qed

section \<open>The classification and the ledger\<close>

definition outcome_unknown :: "tool_start option \<Rightarrow> bool" where
  "outcome_unknown start \<longleftrightarrow>
     start = Some (Refuse (agent_state_error ''Tool execution outcome is unknown and requires operator resolution''))
     \<or> start = Some (Refuse (agent_state_error ''Tool execution has a legacy attempt with an unknown round''))"

lemma outcome_unknown_iff:
  "outcome_unknown (check_ledger as l c) \<longleftrightarrow> has_unscoped as (tc_id c) \<or> \<not> call_can_resume l"
proof (cases l)
  case None
  then show ?thesis by (simp add: outcome_unknown_def check_ledger_def call_can_resume_def)
next
  case (Some a)
  then show ?thesis
    by (cases "ea_status a") (auto simp: outcome_unknown_def check_ledger_def call_can_resume_def
        agent_state_error_def raised_def split: option.split)
qed

lemma inspect_eligible:
  assumes "inspect_checkpoint events attempts state = (Inr ck, state')" "ck_eligible ck"
  shows "ck = classify_checkpoint state' attempts"
  using assms by (auto simp: inspect_checkpoint_def checkpoint_def split: prod.splits sum.splits if_splits)

lemma replay_ready_known:
  assumes "replay_ready state (list_attempts scope run_id d) calls" "c \<in> set calls"
    and "scope = owner_scope (rn_owner_id state)" "run_id = rn_run_id state"
  shows "\<not> outcome_unknown (check_ledger (list_attempts scope run_id d) (latest_in_round state (tc_id c) d) c)"
  using assms by (simp add: replay_ready_def outcome_unknown_iff latest_in_round_def)

text \<open>C8: What a resumable checkpoint promises.  The run was not stopped and did not begin to write its
  transcript or memories.  Without an answer of the model nothing but its start was recorded.  With an answer,
  either every call of it that has no result is one whose approval is still asked for (the ledger decides
  about it when it is executed), or executing any of them would not be
  refused for an unknown outcome: the classification of a paused run and the check before an execution
  cannot disagree.\<close>

theorem replay_ready_sound:
  assumes "inspect_checkpoint events
      (Some (list_attempts (owner_scope (rn_owner_id state')) (rn_run_id state') d)) state = (Inr ck, state')"
    and "ck_eligible ck"
  shows "\<not> stopped_status (rn_status state')
    \<and> (\<forall>s \<in> set (rn_steps state'). as_type s \<noteq> Step_STOP \<and> as_type s \<noteq> Step_MEMORY_WRITE)
    \<and> (case rn_response state' of
         None \<Rightarrow> \<forall>s \<in> set (rn_steps state'). as_type s = Step_START
       | Some response \<Rightarrow> \<forall>c \<in> set (incomplete_calls state' response).
           if ck_name ck = ''approval_pending''
           then tc_id c \<in> set (map ar_tool_call_id (rn_pending_approval_requests state'))
           else \<not> outcome_unknown (check_ledger
             (list_attempts (owner_scope (rn_owner_id state')) (rn_run_id state') d)
             (latest_in_round state' (tc_id c) d) c))"
proof -
  let ?as = "list_attempts (owner_scope (rn_owner_id state')) (rn_run_id state') d"
  from inspect_eligible [OF assms] have "ck = classify_checkpoint state' (Some ?as)" .
  moreover from this assms(2) have eligible: "ck_eligible (classify_checkpoint state' (Some ?as))" by simp
  ultimately show ?thesis
    using replay_ready_known [OF _ _ refl refl, of state' d]
    by (auto simp: classify_checkpoint_def checkpoint_def Let_def split: if_splits option.splits)
qed

section \<open>Recovering the runs of processes that died\<close>

record agent_db =
  db_runs :: run_table
  db_traces :: trace_table
  db_ledger :: ledger

definition active_lease_expiry :: "int \<Rightarrow> agent_lease option \<Rightarrow> int option" where
  "active_lease_expiry now lease =
     (case lease of
        None \<Rightarrow> None
      | Some l \<Rightarrow> (case al_expires_at l of None \<Rightarrow> None | Some t \<Rightarrow> if t \<le> now then None else Some t))"

definition running_states :: "run_table \<Rightarrow> agent_run list" where
  "running_states d = query_states None None None (Some Run_RUNNING) None None d"

definition lease_of :: "string \<Rightarrow> run_table \<Rightarrow> agent_lease option" where
  "lease_of run_id d = (case get_execution_lease None run_id d of Inl _ \<Rightarrow> None | Inr l \<Rightarrow> l)"

definition latest_active_lease :: "int \<Rightarrow> run_table \<Rightarrow> int option" where
  "latest_active_lease now d =
     fold (\<lambda>state latest. case active_lease_expiry now (lease_of (rn_run_id state) d) of
             None \<Rightarrow> latest
           | Some t \<Rightarrow> (case latest of None \<Rightarrow> Some t | Some l \<Rightarrow> if t > l then Some t else latest))
       (running_states d) None"

definition paused_event :: "string \<Rightarrow> string \<Rightarrow> recovery_checkpoint \<Rightarrow> agent_event" where
  "paused_event reason source ck =
     (new_event Ev_RUN_PAUSED)\<lparr>te_summary := Some (''Agent run paused: '' @ reason),
       te_metadata := [(''reason'', PStr reason), (''source'', PStr source),
         (''checkpoint'', PStr (ck_name ck)), (''recovery_eligible'', PBool (ck_eligible ck))]\<rparr>"

definition paused_state ::
  "agent_pause_cause \<Rightarrow> recovery_checkpoint \<Rightarrow> agent_event \<Rightarrow> agent_run \<Rightarrow> agent_run" where
  "paused_state cause ck e state =
     state\<lparr>rn_applied_trace_sequence := te_sequence e, rn_status := Run_PAUSED, rn_stop_reason := None,
       rn_trace := rn_trace state @ [e],
       rn_pause := Some \<lparr>ap_cause = cause, ap_checkpoint = ck_name ck, ap_resumable = ck_eligible ck,
         ap_reason = None\<rparr>\<rparr>"

definition in_grace :: "int \<Rightarrow> int \<Rightarrow> agent_lease option \<Rightarrow> agent_run \<Rightarrow> bool" where
  "in_grace now grace lease state \<longleftrightarrow> lease = None
     \<and> (case ah_started_at (rn_history state) of None \<Rightarrow> False | Some t \<Rightarrow> now - t < grace)"

definition save_and_release :: "int \<Rightarrow> agent_lease option \<Rightarrow> agent_run \<Rightarrow> (error, run_table, unit) act" where
  "save_and_release now lease state =
     bind_a (save_state None None now state) (\<lambda>_.
       if lease \<noteq> None then clear_execution_lease None (rn_run_id state) else return_a ())"

text \<open>The run stopped between its last save and the last event: it is paused at its checkpoint.\<close>

definition pause_recovered ::
  "int \<Rightarrow> agent_lease option \<Rightarrow> recovery_checkpoint \<Rightarrow> agent_run \<Rightarrow> (error, agent_db, nat) act" where
  "pause_recovered now lease ck state db =
     (let cause = (if lease \<noteq> None then Pause_LEASE_EXPIRED else Pause_UNCLEAN_SHUTDOWN);
          e = paused_event (pause_source cause) ''startup_recovery'' ck;
          (n, traces) = append_event now (rn_run_id state) e (db_traces db)
      in case save_and_release now lease (paused_state cause ck (e\<lparr>te_sequence := Some n\<rparr>) state) (db_runs db) of
           (Inl e, d) \<Rightarrow> (Inl e, db\<lparr>db_traces := traces, db_runs := d\<rparr>)
         | (Inr _, d) \<Rightarrow> (Inr 1, db\<lparr>db_traces := traces, db_runs := d\<rparr>))"

definition recover_run :: "int \<Rightarrow> int \<Rightarrow> agent_run \<Rightarrow> (error, agent_db, nat) act" where
  "recover_run now grace state db =
     (let run_id = rn_run_id state; lease = lease_of run_id (db_runs db)
      in if active_lease_expiry now lease \<noteq> None \<or> in_grace now grace lease state then (Inr 0, db)
         else case mark_started_unknown None (list_attempts None run_id (db_ledger db)) (db_ledger db) of
           (Inl e, ledger) \<Rightarrow> (Inl e, db\<lparr>db_ledger := ledger\<rparr>)
         | (Inr attempts, ledger) \<Rightarrow>
             let db = db\<lparr>db_ledger := ledger\<rparr>
             in case inspect_checkpoint (Some (list_events run_id 0 None (db_traces db))) (Some attempts) state of
                  (Inl e, _) \<Rightarrow> (Inl e, db)
                | (Inr ck, state) \<Rightarrow>
                    if rn_status state \<noteq> Run_RUNNING
                    then case save_and_release now lease state (db_runs db) of
                           (Inl e, d) \<Rightarrow> (Inl e, db\<lparr>db_runs := d\<rparr>)
                         | (Inr _, d) \<Rightarrow> (Inr 1, db\<lparr>db_runs := d\<rparr>)
                    else pause_recovered now lease ck state db)"

fun recover_runs :: "int \<Rightarrow> int \<Rightarrow> agent_run list \<Rightarrow> (error, agent_db, nat) act" where
  "recover_runs now grace [] db = (Inr 0, db)"
| "recover_runs now grace (s # ss) db =
     bind_a (recover_run now grace s) (\<lambda>n.
     bind_a (recover_runs now grace ss) (\<lambda>m. return_a (n + m))) db"

text \<open>All of it is one immediate transaction: an exception rolls everything back.\<close>

definition recover_interrupted_runs :: "int \<Rightarrow> int \<Rightarrow> (error, agent_db, nat) act" where
  "recover_interrupted_runs now grace db =
     (case recover_runs now grace (running_states (db_runs db)) db of
        (Inl e, _) \<Rightarrow> (Inl e, db)
      | (Inr n, db') \<Rightarrow> (Inr n, db'))"

lemma event_restored_identity:
  "event_restored e s = Inr s' \<Longrightarrow> rn_run_id s' = rn_run_id s \<and> rn_owner_id s' = rn_owner_id s"
  by (auto simp: event_restored_def chat_restored_def tool_restored_def approval_restored_def
      stop_restored_def Let_def split: if_splits option.splits)

lemma restore_events_identity:
  "restore_events es A s = (r, s') \<Longrightarrow> rn_run_id s' = rn_run_id s \<and> rn_owner_id s' = rn_owner_id s"
proof (induction es A s rule: restore_events.induct)
  case (2 e es A s)
  have keep: "rn_run_id (at_sequence e x) = rn_run_id x" "rn_owner_id (at_sequence e x) = rn_owner_id x"
      "rn_run_id (traced e x) = rn_run_id x" "rn_owner_id (traced e x) = rn_owner_id x" for x
    by (simp_all add: at_sequence_def traced_def split: option.split)
  show ?case
  proof (cases "already_applied e A")
    case True
    with 2(1) [OF True] 2(3) show ?thesis by (simp add: keep)
  next
    case False
    show ?thesis
    proof (cases "event_restored e s")
      case (Inl err)
      with False 2(3) show ?thesis by simp
    next
      case (Inr x)
      with 2(2) [OF False Inr] 2(3) False event_restored_identity [OF Inr] show ?thesis by (simp add: keep)
    qed
  qed
qed simp

lemma inspect_identity:
  assumes "inspect_checkpoint events as s = (r, s')"
  shows "rn_run_id s' = rn_run_id s" "rn_owner_id s' = rn_owner_id s"
proof -
  obtain x s1 where restore: "restore_checkpoint (case events of None \<Rightarrow> rn_trace s | Some es \<Rightarrow> es) s = (x, s1)"
    by fastforce
  then have "rn_run_id s1 = rn_run_id s \<and> rn_owner_id s1 = rn_owner_id s"
    by (auto simp: restore_checkpoint_def with_totals_def split: sum.splits prod.splits
        dest: restore_events_identity)
  moreover have "s' = s1" using assms restore
    by (auto simp: inspect_checkpoint_def split: sum.splits if_splits)
  ultimately show "rn_run_id s' = rn_run_id s" "rn_owner_id s' = rn_owner_id s" by simp_all
qed

definition row_lease :: "run_row \<Rightarrow> agent_lease option" where
  "row_lease row = map_option (\<lambda>owner. \<lparr>al_owner = owner, al_expires_at = rr_expires_at row,
     al_heartbeat_at = rr_heartbeat_at row, al_generation = rr_generation row\<rparr>) (rr_lease_owner row)"

lemma lease_of_row: "dict_get d run_id = Some row \<Longrightarrow> lease_of run_id d = row_lease row"
  by (simp add: lease_of_def get_execution_lease_def row_of_def row_lease_def)

definition recovery_due :: "int \<Rightarrow> int \<Rightarrow> run_row \<Rightarrow> bool" where
  "recovery_due now grace row \<longleftrightarrow> rn_status (rr_state row) = Run_RUNNING
     \<and> active_lease_expiry now (row_lease row) = None
     \<and> \<not> in_grace now grace (row_lease row) (with_started_at row)"

definition recovered_row :: "run_row \<Rightarrow> run_row \<Rightarrow> bool" where
  "recovered_row row row' \<longleftrightarrow> rn_status (rr_state row') \<noteq> Run_RUNNING \<and> rr_lease_owner row' = None
     \<and> rn_run_id (rr_state row') = rn_run_id (rr_state row)
     \<and> rn_owner_id (rr_state row') = rn_owner_id (rr_state row)
     \<and> rr_generation row' = rr_generation row"

lemma with_started_at_sel [simp]:
  "rn_run_id (with_started_at row) = rn_run_id (rr_state row)"
  "rn_owner_id (with_started_at row) = rn_owner_id (rr_state row)"
  "rn_status (with_started_at row) = rn_status (rr_state row)"
  by (simp_all add: with_started_at_def Let_def)

lemma save_and_release_row:
  assumes "dict_get d (rn_run_id s) = Some row" "row_lease row = lease"
  shows "\<exists>row'. save_and_release now lease s d = (Inr (), dict_set (rn_run_id s) row' d)
     \<and> rr_state row' = s \<and> rr_lease_owner row' = None \<and> rr_generation row' = rr_generation row"
proof (cases "lease = None")
  case True
  with assms show ?thesis
    by (auto simp: save_and_release_def save_state_def require_run_scope_def bind_a_def return_a_def
        row_lease_def)
next
  case False
  have "dict_set k a (dict_set k b d) = dict_set k a d" for k and a b :: run_row
    by (simp add: dict_set_def AList.update_triv AList.update_last)
  with False assms show ?thesis
    by (auto simp: save_and_release_def save_state_def require_run_scope_def bind_a_def return_a_def
        clear_execution_lease_def row_of_def without_lease_def)
qed

lemma recover_run_cases:
  assumes row: "dict_get (db_runs db) (rn_run_id s) = Some row" and s: "s = with_started_at row"
    and "rn_status s = Run_RUNNING" and result: "recover_run now grace s db = (Inr n, db')"
  shows "if recovery_due now grace row
    then n = 1 \<and> (\<exists>row'. db_runs db' = dict_set (rn_run_id s) row' (db_runs db) \<and> recovered_row row row')
    else n = 0 \<and> db_runs db' = db_runs db"
proof (cases "recovery_due now grace row")
  case False
  have lease: "lease_of (rn_run_id s) (db_runs db) = row_lease row" by (rule lease_of_row [OF row])
  have skip: "active_lease_expiry now (row_lease row) \<noteq> None \<or> in_grace now grace (row_lease row) s"
    using False assms(2,3) by (auto simp: recovery_due_def)
  from result [unfolded recover_run_def Let_def lease if_P [OF skip]] False show ?thesis by simp
next
  case True
  let ?lease = "row_lease row"
  have lease: "lease_of (rn_run_id s) (db_runs db) = ?lease" by (rule lease_of_row [OF row])
  have due: "\<not> (active_lease_expiry now ?lease \<noteq> None \<or> in_grace now grace ?lease s)"
    using True s by (simp add: recovery_due_def)
  note body = result [unfolded recover_run_def Let_def lease if_not_P [OF due]]
  obtain x ledger where mark: "mark_started_unknown None (list_attempts None (rn_run_id s) (db_ledger db)) (db_ledger db)
      = (x, ledger)" by fastforce
  with body obtain attempts where x: "x = Inr attempts" by (cases x) auto
  obtain y s1 where inspect: "inspect_checkpoint (Some (list_events (rn_run_id s) 0 None (db_traces db)))
      (Some attempts) s = (y, s1)" by fastforce
  with body mark x obtain ck where y: "y = Inr ck" by (cases y) auto
  note id = inspect_identity [OF inspect]
  have row1: "dict_get (db_runs db) (rn_run_id s1) = Some row" using row id by simp
  show ?thesis
  proof (cases "rn_status s1 = Run_RUNNING")
    case False
    from save_and_release_row [OF row1 refl] obtain row' where
      "save_and_release now ?lease s1 (db_runs db) = (Inr (), dict_set (rn_run_id s1) row' (db_runs db))"
      "rr_state row' = s1" "rr_lease_owner row' = None" "rr_generation row' = rr_generation row" by blast
    with body mark x inspect y False id s True show ?thesis
      by (auto simp: recovered_row_def)
  next
    case running: True
    with body mark x inspect y
    have pause: "pause_recovered now ?lease ck s1 (db\<lparr>db_ledger := ledger\<rparr>) = (Inr n, db')" by simp
    obtain c e traces where pause: "(case save_and_release now ?lease (paused_state c ck e s1) (db_runs db) of
         (Inl err, d) \<Rightarrow> (Inl err, db\<lparr>db_ledger := ledger, db_traces := traces, db_runs := d\<rparr>)
       | (Inr _, d) \<Rightarrow> (Inr 1, db\<lparr>db_ledger := ledger, db_traces := traces, db_runs := d\<rparr>)) = (Inr n, db')"
      using pause by (simp add: pause_recovered_def Let_def split: prod.splits)
    define s2 where "s2 = paused_state c ck e s1"
    have s2: "rn_run_id s2 = rn_run_id s" "rn_owner_id s2 = rn_owner_id s" "rn_status s2 = Run_PAUSED"
      using id by (simp_all add: s2_def paused_state_def)
    have "dict_get (db_runs db) (rn_run_id s2) = Some row" using row s2 by simp
    from save_and_release_row [OF this refl] obtain row' where
      row': "save_and_release now ?lease s2 (db_runs db) = (Inr (), dict_set (rn_run_id s2) row' (db_runs db))"
        "rr_state row' = s2" "rr_lease_owner row' = None" "rr_generation row' = rr_generation row" by blast
    then have "n = 1" "db_runs db' = dict_set (rn_run_id s) row' (db_runs db)"
      using pause [folded s2_def] s2(1) by (simp_all split: prod.splits) auto
    moreover have "recovered_row row row'" using row' s2 s by (simp add: recovered_row_def)
    ultimately show ?thesis using True by auto
  qed
qed

lemma recover_runs_spec:
  assumes "recover_runs now grace ss db = (Inr n, db')" "distinct (map rn_run_id ss)"
    and "\<And>s. s \<in> set ss \<Longrightarrow> rn_status s = Run_RUNNING
      \<and> (\<exists>row. dict_get (db_runs db) (rn_run_id s) = Some row \<and> s = with_started_at row)"
  shows "(\<forall>run. run \<notin> rn_run_id ` set ss \<longrightarrow> dict_get (db_runs db') run = dict_get (db_runs db) run)
    \<and> (\<forall>s \<in> set ss. \<forall>row. dict_get (db_runs db) (rn_run_id s) = Some row \<longrightarrow>
         (if recovery_due now grace row
          then \<exists>row'. dict_get (db_runs db') (rn_run_id s) = Some row' \<and> recovered_row row row'
          else dict_get (db_runs db') (rn_run_id s) = Some row))
    \<and> n = length (filter (\<lambda>s. recovery_due now grace (the (dict_get (db_runs db) (rn_run_id s)))) ss)"
  using assms
proof (induction ss arbitrary: db n)
  case (Cons s ss)
  let ?id = "rn_run_id s"
  obtain row where row: "dict_get (db_runs db) ?id = Some row" "s = with_started_at row"
    and running: "rn_status s = Run_RUNNING" using Cons.prems(3) [of s] by auto
  from Cons.prems(1) obtain a db1 m where first: "recover_run now grace s db = (Inr a, db1)"
    and rest: "recover_runs now grace ss db1 = (Inr m, db')" and n: "n = a + m"
    by (auto simp: bind_a_eq_Inr return_a_def)
  note step = recover_run_cases [OF row running first]
  have other: "dict_get (db_runs db1) run = dict_get (db_runs db) run" if "run \<noteq> ?id" for run
    using step that by (auto split: if_splits)
  have distinct: "?id \<notin> rn_run_id ` set ss" "distinct (map rn_run_id ss)" using Cons.prems(2) by simp_all
  have same: "dict_get (db_runs db1) (rn_run_id t) = dict_get (db_runs db) (rn_run_id t)" if "t \<in> set ss" for t
    using that distinct(1) by (intro other) (metis imageI)
  have IH: "(\<forall>run. run \<notin> rn_run_id ` set ss \<longrightarrow> dict_get (db_runs db') run = dict_get (db_runs db1) run)
    \<and> (\<forall>s \<in> set ss. \<forall>row. dict_get (db_runs db1) (rn_run_id s) = Some row \<longrightarrow>
         (if recovery_due now grace row
          then \<exists>row'. dict_get (db_runs db') (rn_run_id s) = Some row' \<and> recovered_row row row'
          else dict_get (db_runs db') (rn_run_id s) = Some row))
    \<and> m = length (filter (\<lambda>s. recovery_due now grace (the (dict_get (db_runs db1) (rn_run_id s)))) ss)"
    by (rule Cons.IH [OF rest distinct(2)]) (use Cons.prems(3) same in auto)
  have count_eq: "filter (\<lambda>s. recovery_due now grace (the (dict_get (db_runs db1) (rn_run_id s)))) ss
      = filter (\<lambda>s. recovery_due now grace (the (dict_get (db_runs db) (rn_run_id s)))) ss"
    using same by (intro filter_cong) simp_all
  show ?case
  proof (intro conjI allI ballI impI)
    fix run assume "run \<notin> rn_run_id ` set (s # ss)"
    then show "dict_get (db_runs db') run = dict_get (db_runs db) run" using IH other by auto
  next
    fix t row' assume t: "t \<in> set (s # ss)" and row': "dict_get (db_runs db) (rn_run_id t) = Some row'"
    show "if recovery_due now grace row'
      then \<exists>r. dict_get (db_runs db') (rn_run_id t) = Some r \<and> recovered_row row' r
      else dict_get (db_runs db') (rn_run_id t) = Some row'"
    proof (cases "t \<in> set ss")
      case True
      with row' same have "dict_get (db_runs db1) (rn_run_id t) = Some row'" by simp
      with IH True show ?thesis by blast
    next
      case False
      with t have [simp]: "t = s" by simp
      from row row' have [simp]: "row' = row" by simp
      from IH distinct(1) have "dict_get (db_runs db') ?id = dict_get (db_runs db1) ?id" by blast
      with step row show ?thesis by (auto split: if_splits)
    qed
  next
    show "n = length (filter (\<lambda>s. recovery_due now grace (the (dict_get (db_runs db) (rn_run_id s)))) (s # ss))"
      using IH step row n count_eq by (simp split: if_splits)
  qed
qed (simp add: return_a_def)

definition keyed_runs :: "run_table \<Rightarrow> bool" where
  "keyed_runs d \<longleftrightarrow> dict_ok d \<and> (\<forall>k row. dict_get d k = Some row \<longrightarrow> rn_run_id (rr_state row) = k)"

lemma running_states_iff:
  assumes "keyed_runs d"
  shows "s \<in> set (running_states d) \<longleftrightarrow>
     (\<exists>row. dict_get d (rn_run_id s) = Some row \<and> s = with_started_at row \<and> rn_status (rr_state row) = Run_RUNNING)"
  using assms
  by (auto simp: running_states_def query_states_def Let_def dict_values_iff keyed_runs_def image_iff)

lemma running_states_distinct:
  assumes "keyed_runs d"
  shows "distinct (map rn_run_id (running_states d))"
proof -
  have "distinct (map (\<lambda>row. rn_run_id (rr_state row)) (dict_values d))"
  proof -
    have "map (\<lambda>row. rn_run_id (rr_state row)) (dict_values d) = dict_keys d"
      using assms by (auto simp: dict_values_def dict_keys_def keyed_runs_def simp flip: dict_items_iff)
    with assms show ?thesis by (simp add: keyed_runs_def dict_ok_def)
  qed
  then show ?thesis
    by (simp add: running_states_def query_states_def Let_def comp_def distinct_map_filter distinct_map
        inj_on_def)
qed

text \<open>C4: Recovery pauses or stops exactly the running runs whose process is gone: a run with a live
  lease, a run without a lease that is younger than the grace period and a run that is not running are
  left as they are; every other run is not running afterwards and holds no lease, still belongs to its
  owner, and the answer is the number of these runs.\<close>

theorem run_recovery_exact:
  assumes "keyed_runs (db_runs db)" and "recover_interrupted_runs now grace db = (Inr n, db')"
  shows "(case dict_get (db_runs db) run_id of
            None \<Rightarrow> dict_get (db_runs db') run_id = None
          | Some row \<Rightarrow>
              if recovery_due now grace row
              then \<exists>row'. dict_get (db_runs db') run_id = Some row' \<and> recovered_row row row'
              else dict_get (db_runs db') run_id = Some row)
     \<and> n = card {run. map_option (recovery_due now grace) (dict_get (db_runs db) run) = Some True}"
proof -
  let ?ss = "running_states (db_runs db)"
  note iff = running_states_iff [OF assms(1)]
  from assms(2) have run: "recover_runs now grace ?ss db = (Inr n, db')"
    by (auto simp: recover_interrupted_runs_def split: prod.splits sum.splits)
  have listed: "rn_status s = Run_RUNNING
      \<and> (\<exists>row. dict_get (db_runs db) (rn_run_id s) = Some row \<and> s = with_started_at row)"
    if "s \<in> set ?ss" for s using that by (auto simp: iff)
  note spec = recover_runs_spec [OF run running_states_distinct [OF assms(1)] listed]
  have running: "run_id \<in> rn_run_id ` set ?ss"
    if "dict_get (db_runs db) run_id = Some row" "rn_status (rr_state row) = Run_RUNNING" for row run_id
  proof -
    have "rn_run_id (rr_state row) = run_id" using that assms(1) by (simp add: keyed_runs_def)
    with that have "with_started_at row \<in> set ?ss" by (auto simp: iff)
    then have "rn_run_id (with_started_at row) \<in> rn_run_id ` set ?ss" by (rule imageI)
    with \<open>rn_run_id (rr_state row) = run_id\<close> show ?thesis by simp
  qed
  have rows: "case dict_get (db_runs db) run_id of
            None \<Rightarrow> dict_get (db_runs db') run_id = None
          | Some row \<Rightarrow>
              if recovery_due now grace row
              then \<exists>row'. dict_get (db_runs db') run_id = Some row' \<and> recovered_row row row'
              else dict_get (db_runs db') run_id = Some row"
  proof (cases "run_id \<in> rn_run_id ` set ?ss")
    case True
    then obtain s where s: "s \<in> set ?ss" "run_id = rn_run_id s" by blast
    with listed obtain row where "dict_get (db_runs db) run_id = Some row" by blast
    with spec s show ?thesis by auto
  next
    case False
    with spec have "dict_get (db_runs db') run_id = dict_get (db_runs db) run_id" by blast
    with False running show ?thesis by (auto simp: recovery_due_def split: option.split)
  qed
  have "{run. map_option (recovery_due now grace) (dict_get (db_runs db) run) = Some True}
      = rn_run_id ` set (filter (\<lambda>s. recovery_due now grace (the (dict_get (db_runs db) (rn_run_id s)))) ?ss)"
  proof (intro equalityI subsetI)
    fix run assume "run \<in> {run. map_option (recovery_due now grace) (dict_get (db_runs db) run) = Some True}"
    then obtain row where row: "dict_get (db_runs db) run = Some row" "recovery_due now grace row" by auto
    then obtain s where "s \<in> set ?ss" "run = rn_run_id s"
      using running [OF row(1)] by (auto simp: recovery_due_def)
    with row show "run \<in> rn_run_id ` set (filter (\<lambda>s. recovery_due now grace (the (dict_get (db_runs db) (rn_run_id s)))) ?ss)"
      by force
  next
    fix run assume "run \<in> rn_run_id ` set (filter (\<lambda>s. recovery_due now grace (the (dict_get (db_runs db) (rn_run_id s)))) ?ss)"
    with listed show "run \<in> {run. map_option (recovery_due now grace) (dict_get (db_runs db) run) = Some True}"
      by fastforce
  qed
  moreover have "card (rn_run_id ` set (filter P ?ss)) = length (filter P ?ss)" for P
    using distinct_card [of "map rn_run_id (filter P ?ss)"] running_states_distinct [OF assms(1)]
    by (simp add: distinct_map_filter)
  ultimately show ?thesis using rows spec by simp
qed

section \<open>Examples\<close>

definition sample_chat :: "nat \<Rightarrow> string \<Rightarrow> tool_call list \<Rightarrow> agent_event" where
  "sample_chat n i calls = (new_event Ev_CHAT_COMPLETED)\<lparr>te_sequence := Some n, te_event_id := Some i,
     te_response := Some \<lparr>rs_response_id = None, rs_model_id = ''m'',
       rs_message = (message 0 Role_ASSISTANT)\<lparr>c_tool_calls := Some calls\<rparr>, rs_finish_reason = None,
       rs_usage = None, rs_metadata = []\<rparr>\<rparr>"

definition sample_snapshot :: agent_run where
  "sample_snapshot = sample_run\<lparr>rn_applied_trace_sequence := Some 0\<rparr>"

definition sample_events :: "agent_event list" where
  "sample_events = [sample_chat 1 ''e1'' [ledger_call],
     (new_event Ev_TOOL_COMPLETED)\<lparr>te_sequence := Some 2, te_event_id := Some ''e2'',
       te_tool_call := Some ledger_call\<rparr>]"

lemma restore_compositional_witness:
  "restore_checkpoint sample_events (snd (restore_checkpoint [sample_chat 1 ''e1'' [ledger_call]] sample_snapshot))
     = restore_checkpoint sample_events sample_snapshot
   \<and> length (rn_steps (snd (restore_checkpoint sample_events sample_snapshot))) = 2"
proof
  have whole: "restore_checkpoint ([sample_chat 1 ''e1'' [ledger_call]] @ drop 1 sample_events) sample_snapshot
      = (Inr (), snd (restore_checkpoint sample_events sample_snapshot))"
    by code_simp
  have first: "restore_checkpoint [sample_chat 1 ''e1'' [ledger_call]] sample_snapshot
      = (Inr (), snd (restore_checkpoint [sample_chat 1 ''e1'' [ledger_call]] sample_snapshot))"
    by code_simp
  have listed: "listed_trace ([sample_chat 1 ''e1'' [ledger_call]] @ drop 1 sample_events)"
    by (simp add: listed_trace_def sample_events_def sample_chat_def new_event_def)
  have "rn_applied_trace_sequence sample_snapshot = Some 0" by (simp add: sample_snapshot_def)
  from restore_compositional [OF listed this first whole] whole
  show "restore_checkpoint sample_events (snd (restore_checkpoint [sample_chat 1 ''e1'' [ledger_call]] sample_snapshot))
     = restore_checkpoint sample_events sample_snapshot"
    by (simp add: sample_events_def)
  show "length (rn_steps (snd (restore_checkpoint sample_events sample_snapshot))) = 2" by code_simp
qed

definition sample_db :: agent_db where
  "sample_db = \<lparr>db_runs = [(''r'', new_row 0 sample_run)], db_traces = \<lparr>tt_rows = [], tt_next = 1\<rparr>,
     db_ledger = [(Attempt_Key ''r'' ''c'' 1, sample_started 1)]\<rparr>"

lemma run_recovery_exact_witness:
  "fst (recover_interrupted_runs 90 30 sample_db) = Inr 1
   \<and> 1 = card {run. map_option (recovery_due 90 30) (dict_get (db_runs sample_db) run) = Some True}"
proof
  show first: "fst (recover_interrupted_runs 90 30 sample_db) = Inr 1" by code_simp
  have "keyed_runs (db_runs sample_db)"
    by (simp add: sample_db_def keyed_runs_def dict_ok_Cons dict_get_Cons new_row_def sample_run_def new_run_def)
  from run_recovery_exact [OF this, of 90 30 1 "snd (recover_interrupted_runs 90 30 sample_db)" "''r''"] first
  show "1 = card {run. map_option (recovery_due 90 30) (dict_get (db_runs sample_db) run) = Some True}"
    by (metis prod.collapse)
qed

lemma replay_ready_sound_witness:
  "\<not> outcome_unknown (check_ledger (list_attempts None ''r'' []) (latest_in_round
      (snd (restore_checkpoint [sample_chat 1 ''e1'' [ledger_call]] sample_snapshot)) ''c'' []) ledger_call)"
proof -
  let ?s = "snd (restore_checkpoint [sample_chat 1 ''e1'' [ledger_call]] sample_snapshot)"
  have inspect: "inspect_checkpoint (Some [sample_chat 1 ''e1'' [ledger_call]])
      (Some (list_attempts (owner_scope (rn_owner_id ?s)) (rn_run_id ?s) [])) sample_snapshot
      = (Inr (checkpoint True ''tool_replay_ready'' None), ?s)"
    by code_simp
  have response: "rn_response ?s = Some \<lparr>rs_response_id = None, rs_model_id = ''m'',
       rs_message = (message 0 Role_ASSISTANT)\<lparr>c_tool_calls := Some [ledger_call]\<rparr>, rs_finish_reason = None,
       rs_usage = None, rs_metadata = []\<rparr>"
    by code_simp
  have ids: "rn_owner_id ?s = None" "rn_run_id ?s = ''r''" by code_simp+
  have call: "ledger_call \<in> set (incomplete_calls ?s \<lparr>rs_response_id = None, rs_model_id = ''m'',
       rs_message = (message 0 Role_ASSISTANT)\<lparr>c_tool_calls := Some [ledger_call]\<rparr>, rs_finish_reason = None,
       rs_usage = None, rs_metadata = []\<rparr>)"
    by code_simp
  have eligible: "ck_eligible (checkpoint True ''tool_replay_ready'' None)"
      "ck_name (checkpoint True ''tool_replay_ready'' None) \<noteq> ''approval_pending''"
    by (simp_all add: checkpoint_def)
  have id: "tc_id ledger_call = ''c''" by (simp add: ledger_call_def)
  have scope: "owner_scope None = None" by (simp add: owner_scope_def)
  note sound = replay_ready_sound [OF inspect eligible(1), THEN conjunct2, THEN conjunct2,
      unfolded response option.case, THEN bspec, OF call]
  show ?thesis using sound eligible(2) by (simp only: id scope ids if_False not_False_eq_True)
qed

end
