(* ===== verification/Json.thy ===== *)
theory Json
  imports Values
begin

text \<open>
  \<open>json.dumps\<close> on the values the program prints with it: objects, arrays, integers and strings, with the default
  separators.  Strings are UTF-8; \<open>ensure_ascii\<close> escapes the code points above 127.
\<close>

datatype json = JStr string | JInt int | JList "json list" | JObj "(string \<times> json) list"

definition hex_digit :: "nat \<Rightarrow> char" where
  "hex_digit n = (if n < 10 then char_of (48 + n) else char_of (87 + n))"

definition hex4 :: "nat \<Rightarrow> string" where
  "hex4 n = [hex_digit (n div 4096 mod 16), hex_digit (n div 256 mod 16), hex_digit (n div 16 mod 16),
     hex_digit (n mod 16)]"

definition backslash :: char where
  "backslash = char_of (92 :: nat)"

definition json_unicode :: "nat \<Rightarrow> string" where
  "json_unicode n =
     (if n < 65536 then backslash # CHR ''u'' # hex4 n
      else backslash # CHR ''u'' # hex4 (55296 + (n - 65536) div 1024)
           @ backslash # CHR ''u'' # hex4 (56320 + (n - 65536) mod 1024))"

text \<open>The escapes that both modes share; \<open>None\<close> for a character that stands for itself.\<close>

definition json_escape :: "nat \<Rightarrow> string option" where
  "json_escape n =
     (if n = 34 then Some [backslash, char_of (34 :: nat)]
      else if n = 92 then Some [backslash, backslash]
      else if n = 10 then Some [backslash, CHR ''n'']
      else if n = 13 then Some [backslash, CHR ''r'']
      else if n = 9 then Some [backslash, CHR ''t'']
      else if n = 8 then Some [backslash, CHR ''b'']
      else if n = 12 then Some [backslash, CHR ''f'']
      else if n < 32 then Some (json_unicode n)
      else None)"

text \<open>The code points of a well-formed UTF-8 string.\<close>

fun code_points :: "nat list \<Rightarrow> nat list" where
  "code_points [] = []"
| "code_points (a # bs) =
     (if a < 192 then a # code_points bs
      else if a < 224 then (case bs of b # bs' \<Rightarrow> ((a - 192) * 64 + (b - 128)) # code_points bs' | _ \<Rightarrow> [])
      else if a < 240 then (case bs of b # c # bs' \<Rightarrow>
             ((a - 224) * 4096 + (b - 128) * 64 + (c - 128)) # code_points bs' | _ \<Rightarrow> [])
      else (case bs of b # c # d # bs' \<Rightarrow>
             ((a - 240) * 262144 + (b - 128) * 4096 + (c - 128) * 64 + (d - 128)) # code_points bs' | _ \<Rightarrow> []))"

definition json_string :: "bool \<Rightarrow> string \<Rightarrow> string" where
  "json_string ensure_ascii s = char_of (34 :: nat)
     # (if ensure_ascii
        then concat (map (\<lambda>n. case json_escape n of Some e \<Rightarrow> e
               | None \<Rightarrow> if n < 127 then [char_of n] else json_unicode n) (code_points (map of_char s)))
        else concat (map (\<lambda>c. case json_escape (of_char c) of Some e \<Rightarrow> e | None \<Rightarrow> [c]) s))
     @ [char_of (34 :: nat)]"

fun json_dumps :: "bool \<Rightarrow> json \<Rightarrow> string" where
  "json_dumps a (JStr s) = json_string a s"
| "json_dumps a (JInt i) = int_str i"
| "json_dumps a (JList xs) = ''['' @ join '', '' (map (json_dumps a) xs) @ '']''"
| "json_dumps a (JObj kvs) =
     ''{'' @ join '', '' (map (\<lambda>(k, v). json_string a k @ '': '' @ json_dumps a v) kvs) @ ''}''"

end
