(* ===== verification/AgentLoop.thy ===== *)
theory AgentLoop
  imports AgentRecovery ContextStrategies Providers Json
begin

text \<open>
  The loop of an agent run (\<open>application/agent_execution.py\<close>): chat with the model, execute the tools it
  asks for, and chat again, until the model answers, the rounds are used up, a tool fails, or an approval
  is missing.

  The loop is an asynchronous generator over the mutable snapshot of the run.  Here it is an operation on
  the pair of the snapshot and the rest of the world.  \<open>av_emit\<close> is the consumer of the generator: it gets
  every event that is yielded and may write the snapshot, go on (\<open>Inr ()\<close>) or end the generator.  The
  collaborators (contexts, tools, skills, the provider, memories) are the fields of \<open>agent_env\<close>.
\<close>

section \<open>The collaborators\<close>

text \<open>
  How a step can end early: with an exception, by the cancellation of the task at an await (not an
  \<open>Exception\<close>), or because the consumer stopped, with or without an exception of its own.
\<close>

datatype signal = Raised error | Cancelled | Closed "error option"

type_synonym ('w, 'a) gen = "(signal, agent_run \<times> 'w, 'a) act"

record chat_args =
  ca_context_id :: string
  ca_model_id :: string
  ca_messages :: "content list"
  ca_memory_query :: "memory_query option"
  ca_skills :: "chat_skill list option"
  ca_tools :: "tool_definition list option"
  ca_metadata :: metadata
  ca_scope :: "principal_scope option"

record skill_version =
  sv_is_enabled :: bool
  sv_revision :: "string option"

datatype chat_stream_event_type =
    Chunk_RAW | Chunk_MESSAGE_START | Chunk_MESSAGE_DELTA | Chunk_MESSAGE_COMPLETED
  | Chunk_TOOL_CALL_START | Chunk_TOOL_CALL_DELTA | Chunk_TOOL_CALL_COMPLETED | Chunk_USAGE
  | Chunk_DONE | Chunk_ERROR

record chat_stream_event =
  ce_type :: chat_stream_event_type
  ce_response_id :: "string option"
  ce_model_id :: "string option"
  ce_role :: "message_role option"
  ce_content_part :: "content_part option"
  ce_message :: "content option"
  ce_text_delta :: "string option"
  ce_tool_call_id :: "string option"
  ce_tool_name :: "string option"
  ce_arguments_delta :: "string option"
  ce_tool_call :: "tool_call option"
  ce_finish_reason :: "string option"
  ce_usage :: "chat_usage option"
  ce_raw_event :: "string option"
  ce_raw_data :: "metadata option"
  ce_error_type :: "string option"
  ce_error_message :: "string option"
  ce_metadata :: metadata

record agent_result =
  ares_response :: chat_response
  ares_usage :: "chat_usage option"
  ares_stop_reason :: agent_stop_reason
  ares_tool_rounds_used :: "int option"
  ares_steps :: "agent_step list"
  ares_trace :: "agent_event list"
  ares_metadata :: metadata

record 'w agent_env =
  av_get_context :: "principal_scope option \<Rightarrow> string \<Rightarrow> (signal, 'w, chat_context) act"
  av_append :: "principal_scope option \<Rightarrow> string \<Rightarrow> content \<Rightarrow> (signal, 'w, chat_context) act"
  av_skill :: "string \<Rightarrow> 'w \<Rightarrow> error + skill_version"
  av_authorize :: "tool_call \<Rightarrow> 'w \<Rightarrow> error + tool_safety_decision"
  av_execute :: "agent_run \<Rightarrow> tool_call \<Rightarrow> (signal, 'w, tool_call_result) act"
  av_list_tools :: "principal_scope option \<Rightarrow> 'w \<Rightarrow> tool_definition list"
  av_has_tool :: "string \<Rightarrow> 'w \<Rightarrow> bool"
  av_compose :: "chat_args \<Rightarrow> (signal, 'w, chat_request) act"
  av_resolve_images :: "principal_scope option \<Rightarrow> chat_request \<Rightarrow> (signal, 'w, chat_request) act"
  av_chat :: "string \<Rightarrow> chat_request \<Rightarrow> (signal, 'w, chat_response) act"
  av_chat_stream :: "string \<Rightarrow> chat_request \<Rightarrow> (signal, 'w, chat_stream_event list \<times> signal option) act"
  av_create_memories :: "agent_request \<Rightarrow> agent_result \<Rightarrow> memory_item list"
  av_write_memory :: "principal_scope option \<Rightarrow> memory_item \<Rightarrow> (signal, 'w, memory_item \<times> string) act"
  av_dump_result :: "tool_call_result \<Rightarrow> error + string"
  av_elapsed :: "'w \<Rightarrow> rat"
  av_now :: "'w \<Rightarrow> int"
  av_uuid :: "'w \<Rightarrow> string \<times> 'w"
  av_ref :: "'w \<Rightarrow> nat \<times> 'w"
  av_emit :: "agent_event \<Rightarrow> ('w, unit) gen"

definition with_run :: "(agent_run \<Rightarrow> ('w, 'a) gen) \<Rightarrow> ('w, 'a) gen" where
  "with_run k s = k (fst s) s"

definition on_run :: "(agent_run \<Rightarrow> agent_run) \<Rightarrow> ('w, unit) gen" where
  "on_run f s = (Inr (), (f (fst s), snd s))"

definition in_world :: "(signal, 'w, 'a) act \<Rightarrow> ('w, 'a) gen" where
  "in_world m s = (case m (snd s) of (x, w) \<Rightarrow> (x, (fst s, w)))"

definition read_world :: "('w \<Rightarrow> 'a) \<Rightarrow> ('w, 'a) gen" where
  "read_world f s = (Inr (f (snd s)), s)"

definition fresh :: "('w \<Rightarrow> 'a \<times> 'w) \<Rightarrow> ('w, 'a) gen" where
  "fresh f s = (case f (snd s) of (x, w) \<Rightarrow> (Inr x, (fst s, w)))"

definition check_g :: "error + 'a \<Rightarrow> ('w, 'a) gen" where
  "check_g r = lift_a (map_sum Raised id r)"

section \<open>Events\<close>

definition event_tool_name :: "agent_event \<Rightarrow> string" where
  "event_tool_name e =
     (case te_approval_request e of
        Some r \<Rightarrow> ar_tool_name r
      | None \<Rightarrow>
          (case Option.bind (te_tool_call e) call_tool_name of
             Some name \<Rightarrow> name | None \<Rightarrow> ''unknown tool''))"

text \<open>The values that a summary shows are strings wherever the program makes such an event.\<close>

definition shown :: "metadata \<Rightarrow> string \<Rightarrow> string" where
  "shown m k = (case meta_get m k of PStr s \<Rightarrow> s | _ \<Rightarrow> ''None'')"

definition trace_summary :: "agent_event \<Rightarrow> string" where
  "trace_summary e =
     (case te_type e of
        Ev_RUN_STARTED \<Rightarrow> ''Agent run started''
      | Ev_CHAT_DELTA \<Rightarrow> ''Model response delta''
      | Ev_CHAT_COMPLETED \<Rightarrow> ''Model response received''
      | Ev_TOOL_APPROVAL_REQUESTED \<Rightarrow> ''Tool approval requested for '' @ event_tool_name e
      | Ev_TOOL_APPROVAL_DECIDED \<Rightarrow> ''Tool approval ''
          @ (case te_approval_decision e of Some d \<Rightarrow> approval_status_value (ad_status d) | None \<Rightarrow> ''unknown'')
          @ '' for '' @ event_tool_name e
      | Ev_TOOL_STARTED \<Rightarrow> ''Tool '' @ event_tool_name e @ '' started''
      | Ev_TOOL_COMPLETED \<Rightarrow> ''Tool '' @ event_tool_name e @ '' completed''
      | Ev_TOOL_FAILED \<Rightarrow> ''Tool '' @ event_tool_name e @ '' failed with ''
          @ (case te_error_type e of Some t \<Rightarrow> t | None \<Rightarrow> ''None'')
      | Ev_TOOL_EXECUTION_RESOLVED \<Rightarrow> ''Tool execution resolved: '' @ shown (te_metadata e) ''resolution''
      | Ev_MEMORY_WRITTEN \<Rightarrow> ''Memory '' @ shown (te_metadata e) ''memory_id'' @ '' written''
      | Ev_RUN_PAUSED \<Rightarrow> ''Agent run paused: '' @ shown (te_metadata e) ''reason''
      | Ev_RUN_STOPPED \<Rightarrow> ''Agent run stopped: '' @ shown (te_metadata e) ''reason'')"

definition tag_event :: "string \<Rightarrow> string option \<Rightarrow> agent_event \<Rightarrow> agent_event" where
  "tag_event run_id owner_id e =
     e\<lparr>te_trace_id := (if te_trace_id e = None then Some run_id else te_trace_id e),
       te_source := (if te_source e = None then Some ''agent'' else te_source e),
       te_subject := (if te_subject e = None
          then Some \<lparr>ts_kind = ''agent_run'', ts_subject_id = Some run_id, ts_owner_id = owner_id, ts_metadata = []\<rparr>
          else te_subject e)\<rparr>"

text \<open>The last step is linked to an event of its own type, except for chat steps.\<close>

definition link_last_step :: "agent_event \<Rightarrow> agent_run \<Rightarrow> agent_run" where
  "link_last_step e r =
     (if rn_steps r \<noteq> [] \<and> te_step_type e \<noteq> Some Step_CHAT \<and> te_step_type e = Some (as_type (last (rn_steps r)))
      then r\<lparr>rn_steps := butlast (rn_steps r) @ [(last (rn_steps r))\<lparr>as_trace_event_id := te_event_id e\<rparr>]\<rparr>
      else r)"

definition tool_event :: "agent_event_type \<Rightarrow> bool" where
  "tool_event ty \<longleftrightarrow> ty = Ev_TOOL_STARTED \<or> ty = Ev_TOOL_COMPLETED \<or> ty = Ev_TOOL_FAILED"

definition completed_event :: "int \<Rightarrow> agent_run \<Rightarrow> agent_event \<Rightarrow> agent_event" where
  "completed_event now r e =
     (let e = (if te_occurred_at e = None \<and> tool_event (te_type e) then e\<lparr>te_occurred_at := Some now\<rparr> else e);
          e = (if te_type e = Ev_CHAT_COMPLETED
               then e\<lparr>te_metadata := dict_set ''remaining_tool_rounds'' (PInt (rn_remaining_tool_rounds r))
                        (te_metadata e)\<rparr>
               else e)
      in if te_summary e = None then e\<lparr>te_summary := Some (trace_summary e)\<rparr> else e)"

definition add_trace :: "'w agent_env \<Rightarrow> agent_event \<Rightarrow> ('w, agent_event) gen" where
  "add_trace env e s =
     (let r = fst s; w = snd s; e = completed_event (av_now env w) r e;
          (i, w) = (case te_event_id e of Some i \<Rightarrow> (i, w) | None \<Rightarrow> av_uuid env w);
          e = e\<lparr>te_event_id := Some i\<rparr>;
          r = link_last_step e r;
          e = tag_event (rn_run_id r) (rn_owner_id r) e
      in (Inr e, (r\<lparr>rn_trace := rn_trace r @ [e]\<rparr>, w)))"

definition trace_and_emit :: "'w agent_env \<Rightarrow> agent_event \<Rightarrow> ('w, unit) gen" where
  "trace_and_emit env e = bind_a (add_trace env e) (av_emit env)"

fun emit_all :: "'w agent_env \<Rightarrow> agent_event list \<Rightarrow> ('w, unit) gen" where
  "emit_all env [] = return_a ()"
| "emit_all env (e # es) = bind_a (av_emit env e) (\<lambda>_. emit_all env es)"

section \<open>Skills\<close>

definition conflict_detail :: "string \<Rightarrow> string list \<Rightarrow> string" where
  "conflict_detail reason names =
     json_dumps True (JObj [(''reason'', JStr reason), (''skill_names'', JList (map JStr names))])"

definition check_skill :: "'w agent_env \<Rightarrow> (string, string option) dict \<Rightarrow> 'w \<Rightarrow> string \<Rightarrow> error + unit" where
  "check_skill env revisions w name =
     (case av_skill env name w of
        Inl e \<Rightarrow>
          if isinstance (error_class e) (Skill SkillNotFoundError)
          then Inl (Error (Skill SkillNotFoundError) (error_message e)
                  (Some (conflict_detail ''deleted'' [name])) (Some e))
          else Inl e
      | Inr v \<Rightarrow>
          if \<not> sv_is_enabled v
          then Inl (raised_detail (Skill SkillDisabledError) (''The skill '' @ name @ '' is disabled'')
                  (conflict_detail ''disabled'' [name]))
          else if Some (sv_revision v) \<noteq> dict_get revisions name
          then Inl (raised_detail (Skill SkillConflictError)
                  (''The skill '' @ name @ '' changed during the agent run; start a new run'')
                  (conflict_detail ''revision_changed'' [name]))
          else Inr ())"

fun check_skills :: "'w agent_env \<Rightarrow> (string, string option) dict \<Rightarrow> 'w \<Rightarrow> string list \<Rightarrow> error + unit" where
  "check_skills env revisions w [] = Inr ()"
| "check_skills env revisions w (n # ns) =
     bind_e (check_skill env revisions w n) (\<lambda>_. check_skills env revisions w ns)"

definition skill_names_of :: "agent_request \<Rightarrow> string list" where
  "skill_names_of request =
     (case ag_skills request of None \<Rightarrow> [] | Some ss \<Rightarrow> from_keys (map sk_skill_name ss))"

definition check_skill_revisions :: "'w agent_env \<Rightarrow> ('w, unit) gen" where
  "check_skill_revisions env s =
     (let names = skill_names_of (rn_request (fst s))
      in case rn_skill_revisions (fst s) of
           None \<Rightarrow>
             if names = [] then (Inr (), s)
             else (Inl (Raised (raised_detail (Skill SkillConflictError)
                     ''Agent skill versions are unavailable; start a new run''
                     (conflict_detail ''revision_unavailable'' names))), s)
         | Some revisions \<Rightarrow>
             if names = [] \<and> revisions = [] then (Inr (), s)
             else if set names \<noteq> set (dict_keys revisions)
             then (Inl (Raised (raised_detail (Skill SkillConflictError)
                     ''Agent skill versions are unavailable; start a new run''
                     (conflict_detail ''revision_unavailable'' names))), s)
             else (case check_skills env revisions (snd s) names of
                     Inl e \<Rightarrow> (Inl (Raised e), s) | Inr _ \<Rightarrow> (Inr (), s)))"

section \<open>Approvals\<close>

text \<open>\<open>approval.tool_round or 1\<close>.\<close>

definition approval_round :: "tool_approval_decision \<Rightarrow> nat" where
  "approval_round a = (case ad_tool_round a of None \<Rightarrow> 1 | Some n \<Rightarrow> if n = 0 then 1 else n)"

definition approvals_by_call_id ::
  "tool_approval_decision list \<Rightarrow> (string, tool_approval_decision) dict" where
  "approvals_by_call_id as = fold (\<lambda>a d. dict_set (ad_tool_call_id a) a d) as []"

definition round_approvals ::
  "tool_approval_decision list \<Rightarrow> nat \<Rightarrow> (string, tool_approval_decision) dict" where
  "round_approvals as tool_round = approvals_by_call_id (filter (\<lambda>a. approval_round a = tool_round) as)"

definition merge_approvals ::
  "tool_approval_decision list \<Rightarrow> tool_approval_decision list \<Rightarrow> nat \<Rightarrow> tool_approval_decision list" where
  "merge_approvals existing new tool_round =
     dict_values (fold (\<lambda>a d. dict_set (tool_round, ad_tool_call_id a) (a\<lparr>ad_tool_round := Some tool_round\<rparr>) d) new
       (fold (\<lambda>a d. dict_set (approval_round a, ad_tool_call_id a) a d) existing []))"

definition apply_approval :: "tool_call \<Rightarrow> tool_approval_decision option \<Rightarrow> tool_call" where
  "apply_approval call approval =
     call\<lparr>tc_approval := approval, tc_metadata := dict_pop ''approved'' (tc_metadata call)\<rparr>"

definition run_context :: "agent_request \<Rightarrow> agent_run \<Rightarrow> metadata" where
  "run_context request r =
     [(''working_directory'', of_str_opt (ag_working_directory request)),
      (''owner_id'', of_str_opt (rn_owner_id r)),
      (''session_id'', meta_get (ag_metadata request) ''session_id''), (''run_id'', PStr (rn_run_id r))]"

definition prepared_call ::
  "agent_request \<Rightarrow> agent_run \<Rightarrow> (string, tool_approval_decision) dict \<Rightarrow> tool_call \<Rightarrow> tool_call" where
  "prepared_call request r approvals raw =
     (let call = apply_approval raw (dict_get approvals (tc_id raw))
      in call\<lparr>tc_metadata := dict_merge (tc_metadata call) (run_context request r)\<rparr>)"

definition safety_decision :: "'w agent_env \<Rightarrow> tool_call \<Rightarrow> 'w \<Rightarrow> tool_safety_decision option" where
  "safety_decision env call w =
     (case call_tool_name call of
        None \<Rightarrow> None
      | Some _ \<Rightarrow>
          (case av_authorize env call w of
             Inr d \<Rightarrow> Some d
           | Inl e \<Rightarrow> Some \<lparr>sd_allowed = False,
               sd_reason = Some (''Tool safety policy failed: '' @ error_message e),
               sd_requires_approval = False, sd_approval_request = None,
               sd_metadata = [(''safety_policy_error'', PBool True),
                 (''error_type'', PStr (class_name (error_class e)))]\<rparr>))"

definition policy_rejection :: "tool_call \<Rightarrow> tool_safety_decision option \<Rightarrow> error option" where
  "policy_rejection call decision =
     (case (call_tool_name call, decision) of
        (Some name, Some d) \<Rightarrow>
          if sd_allowed d \<or> meta_flag (sd_metadata d) ''safety_policy_error'' then None
          else Some (tool_policy_rejection name d)
      | _ \<Rightarrow> None)"

definition should_pause :: "tool_call \<Rightarrow> tool_safety_decision option \<Rightarrow> bool" where
  "should_pause call decision =
     (case decision of
        None \<Rightarrow> False
      | Some d \<Rightarrow> sd_requires_approval d \<and> \<not> sd_allowed d \<and> sd_approval_request d \<noteq> None
          \<and> tc_approval call = None)"

definition approval_requested_event :: "tool_call \<Rightarrow> tool_safety_decision \<Rightarrow> agent_event" where
  "approval_requested_event call d =
     (new_event Ev_TOOL_APPROVAL_REQUESTED)\<lparr>te_tool_call := Some call,
       te_approval_request := sd_approval_request d,
       te_metadata := [(''allowed'', PBool (sd_allowed d)), (''requires_approval'', PBool (sd_requires_approval d)),
         (''reason'', of_str_opt (sd_reason d))]\<rparr>"

definition approval_decided_event ::
  "tool_call \<Rightarrow> tool_safety_decision \<Rightarrow> tool_approval_decision \<Rightarrow> agent_event" where
  "approval_decided_event call d a =
     (new_event Ev_TOOL_APPROVAL_DECIDED)\<lparr>te_tool_call := Some call,
       te_approval_request := sd_approval_request d, te_approval_decision := Some a,
       te_metadata := [(''allowed'', PBool (sd_allowed d))]\<rparr>"

fun add_traces :: "'w agent_env \<Rightarrow> agent_event list \<Rightarrow> ('w, agent_event list) gen" where
  "add_traces env [] = return_a []"
| "add_traces env (e # es) =
     bind_a (add_trace env e) (\<lambda>e'. bind_a (add_traces env es) (\<lambda>es'. return_a (e' # es')))"

definition trace_tool_approval ::
  "'w agent_env \<Rightarrow> tool_call \<Rightarrow> tool_safety_decision option \<Rightarrow> bool \<Rightarrow> ('w, agent_event list) gen" where
  "trace_tool_approval env call decision include_request =
     (case decision of
        None \<Rightarrow> return_a []
      | Some d \<Rightarrow>
          if sd_approval_request d = None \<and> \<not> sd_requires_approval d then return_a []
          else add_traces env ((if include_request then [approval_requested_event call d] else [])
                 @ (case tc_approval call of None \<Rightarrow> [] | Some a \<Rightarrow> [approval_decided_event call d a])))"

definition approval_pause_event :: "agent_request \<Rightarrow> tool_call \<Rightarrow> tool_safety_decision \<Rightarrow> int \<Rightarrow> agent_event" where
  "approval_pause_event request call d remaining =
     (new_event Ev_RUN_PAUSED)\<lparr>te_tool_call := Some call, te_approval_request := sd_approval_request d,
       te_metadata := [(''reason'', PStr ''tool_approval_required''),
         (''remaining_tool_rounds'', PInt remaining),
         (''tool_rounds_used'', PInt (int (ag_max_tool_rounds request) - remaining))]\<rparr>"

definition paused_for_approval ::
  "agent_request \<Rightarrow> tool_call list \<Rightarrow> tool_safety_decision \<Rightarrow> int \<Rightarrow> agent_run \<Rightarrow> agent_run" where
  "paused_for_approval request pending d remaining r =
     r\<lparr>rn_status := Run_PAUSED, rn_stop_reason := None, rn_remaining_tool_rounds := remaining,
       rn_tool_rounds_used := int (ag_max_tool_rounds request) - remaining, rn_pending_tool_calls := pending,
       rn_pending_approval_requests := (case sd_approval_request d of None \<Rightarrow> [] | Some a \<Rightarrow> [a])\<rparr>"

section \<open>Chatting\<close>

definition run_transcript :: "agent_run \<Rightarrow> content list" where
  "run_transcript r =
     ag_messages (rn_request r)
       @ List.map_filter as_message (filter (\<lambda>st. as_type st = Step_CHAT \<or> tool_step st) (rn_steps r))"

definition available_tools :: "'w agent_env \<Rightarrow> agent_request \<Rightarrow> 'w \<Rightarrow> tool_definition list option" where
  "available_tools env request w =
     (case ag_tools request of
        None \<Rightarrow> None
      | Some tools \<Rightarrow>
          let available = fold (\<lambda>t d. dict_set (td_name t) t d)
                (av_list_tools env (owner_scope (ag_owner_id request)) w) []
          in Some (map (\<lambda>t. case dict_get available (td_name t) of Some a \<Rightarrow> a | None \<Rightarrow> t)
               (filter (\<lambda>t. dict_has available (td_name t) \<or> \<not> av_has_tool env (td_name t) w) tools)))"

definition should_stream :: "metadata \<Rightarrow> bool" where
  "should_stream m \<longleftrightarrow> meta_get m ''stream'' = PBool True"

definition record_chat_response :: "chat_response \<Rightarrow> agent_run \<Rightarrow> agent_run" where
  "record_chat_response response r =
     (let steps = rn_steps r @ [(new_step Step_CHAT)\<lparr>as_trace_event_id := te_event_id (last (rn_trace r)),
                as_response := Some response, as_message := Some (rs_message response)\<rparr>];
          r = r\<lparr>rn_response := Some response, rn_steps := steps\<rparr>
      in r\<lparr>rn_usage := aggregate_run_usage r\<rparr>)"

text \<open>The event of a response is recorded in the snapshot before it is passed on.\<close>

definition complete_chat :: "'w agent_env \<Rightarrow> chat_response \<Rightarrow> ('w, chat_response) gen" where
  "complete_chat env response =
     bind_a (add_trace env ((new_event Ev_CHAT_COMPLETED)\<lparr>te_step_type := Some Step_CHAT,
               te_response := Some response, te_message := Some (rs_message response)\<rparr>)) (\<lambda>e.
     bind_a (on_run (record_chat_response response)) (\<lambda>_.
     bind_a (av_emit env e) (\<lambda>_. return_a response)))"

record stream_acc =
  sa_text :: "string list"
  sa_tool_calls :: "tool_call list"
  sa_response_id :: "string option"
  sa_model_id :: string
  sa_finish_reason :: "string option"
  sa_usage :: "chat_usage option"
  sa_completed :: bool
  sa_final_message :: "content option"

definition start_acc :: "string \<Rightarrow> stream_acc" where
  "start_acc model_id = \<lparr>sa_text = [], sa_tool_calls = [], sa_response_id = None, sa_model_id = model_id,
     sa_finish_reason = None, sa_usage = None, sa_completed = False, sa_final_message = None\<rparr>"

definition stream_text_delta :: "chat_stream_event \<Rightarrow> string option" where
  "stream_text_delta e =
     (if ce_type e \<noteq> Chunk_MESSAGE_DELTA then None
      else case ce_text_delta e of
             Some t \<Rightarrow> if t \<noteq> [] then Some t else Option.bind (ce_content_part e) cp_text
           | None \<Rightarrow> Option.bind (ce_content_part e) cp_text)"

definition final_chunk :: "chat_stream_event \<Rightarrow> bool" where
  "final_chunk e \<longleftrightarrow> ce_type e = Chunk_MESSAGE_COMPLETED \<or> ce_type e = Chunk_DONE"

definition stream_acc_step :: "chat_stream_event \<Rightarrow> stream_acc \<Rightarrow> stream_acc" where
  "stream_acc_step e a =
     a\<lparr>sa_completed := sa_completed a \<or> final_chunk e \<or> ce_finish_reason e \<noteq> None,
       sa_response_id := (if ce_response_id e \<noteq> None then ce_response_id e else sa_response_id a),
       sa_final_message := (if ce_message e \<noteq> None \<and> final_chunk e then ce_message e else sa_final_message a),
       sa_model_id := (case ce_model_id e of Some m \<Rightarrow> m | None \<Rightarrow> sa_model_id a),
       sa_finish_reason := (if ce_finish_reason e \<noteq> None then ce_finish_reason e else sa_finish_reason a),
       sa_usage := (case ce_usage e of Some u \<Rightarrow> Some (merge_chat_usage (sa_usage a) u) | None \<Rightarrow> sa_usage a),
       sa_text := (case stream_text_delta e of
          Some t \<Rightarrow> if t \<noteq> [] then sa_text a @ [t] else sa_text a | None \<Rightarrow> sa_text a),
       sa_tool_calls := (if ce_type e = Chunk_TOOL_CALL_COMPLETED
          then sa_tool_calls a @ (case ce_tool_call e of None \<Rightarrow> [] | Some c \<Rightarrow> [c]) else sa_tool_calls a)\<rparr>"

definition stream_error :: "chat_stream_event \<Rightarrow> error" where
  "stream_error e = Error (Provider ProviderResponseError)
     (case ce_error_message e of Some m \<Rightarrow> if m = [] then ''Provider chat stream failed'' else m
      | None \<Rightarrow> ''Provider chat stream failed'') (ce_error_type e) None"

fun stream_loop :: "'w agent_env \<Rightarrow> chat_stream_event list \<Rightarrow> stream_acc \<Rightarrow> ('w, stream_acc) gen" where
  "stream_loop env [] a = return_a a"
| "stream_loop env (e # es) a =
     (if ce_type e = Chunk_ERROR then raise_a (Raised (stream_error e))
      else bind_a (case stream_text_delta e of
               Some t \<Rightarrow> if t \<noteq> []
                 then trace_and_emit env ((new_event Ev_CHAT_DELTA)\<lparr>te_step_type := Some Step_CHAT,
                        te_text_delta := Some t\<rparr>)
                 else return_a ()
             | None \<Rightarrow> return_a ()) (\<lambda>_.
           stream_loop env es (stream_acc_step e a)))"

definition streamed_response :: "nat \<Rightarrow> stream_acc \<Rightarrow> chat_response" where
  "streamed_response ref a =
     \<lparr>rs_response_id = sa_response_id a, rs_model_id = sa_model_id a,
      rs_message = (case sa_final_message a of
         Some m \<Rightarrow> m
       | None \<Rightarrow> (message ref Role_ASSISTANT)
           \<lparr>c_content := (if concat (sa_text a) = [] then None else Some [text_part (concat (sa_text a))]),
            c_tool_calls := (if sa_tool_calls a = [] then None else Some (sa_tool_calls a))\<rparr>),
      rs_finish_reason = sa_finish_reason a, rs_usage = sa_usage a, rs_metadata = []\<rparr>"

definition stream_chat_events ::
  "'w agent_env \<Rightarrow> chat_stream_event list \<times> signal option \<Rightarrow> string \<Rightarrow> ('w, chat_response) gen" where
  "stream_chat_events env stream model_id =
     bind_a (stream_loop env (fst stream) (start_acc model_id)) (\<lambda>a.
       case snd stream of
         Some sig \<Rightarrow> raise_a sig
       | None \<Rightarrow>
           if \<not> sa_completed a
           then raise_a (Raised (raised (Provider ProviderResponseError)
                  ''Provider chat stream ended without completion''))
           else bind_a (fresh (av_ref env)) (\<lambda>ref. complete_chat env (streamed_response ref a)))"

definition chat_args_of ::
  "'w agent_env \<Rightarrow> agent_request \<Rightarrow> agent_run \<Rightarrow> content list \<Rightarrow> memory_query option \<Rightarrow> 'w \<Rightarrow> chat_args" where
  "chat_args_of env request r messages memory_query w =
     \<lparr>ca_context_id = ag_context_id request, ca_model_id = ag_model_id request, ca_messages = messages,
      ca_memory_query = memory_query, ca_skills = ag_skills request,
      ca_tools = available_tools env request w, ca_metadata = ag_metadata request,
      ca_scope = owner_scope (rn_owner_id r)\<rparr>"

definition chat_events ::
  "'w agent_env \<Rightarrow> agent_request \<Rightarrow> chat_args \<Rightarrow> ('w, chat_response) gen" where
  "chat_events env request args =
     bind_a (check_skill_revisions env) (\<lambda>_.
     bind_a (in_world (av_compose env args)) (\<lambda>rq.
     bind_a (check_skill_revisions env) (\<lambda>_.
     bind_a (in_world (av_resolve_images env (ca_scope args) rq)) (\<lambda>rq.
       if should_stream (ca_metadata args)
       then bind_a (in_world (av_chat_stream env (ag_provider_id request) rq)) (\<lambda>stream.
            stream_chat_events env stream (rq_model_id rq))
       else bind_a (in_world (av_chat env (ag_provider_id request) rq)) (complete_chat env)))))"

section \<open>Ending a run\<close>

fun commit_messages ::
  "'w agent_env \<Rightarrow> string \<Rightarrow> principal_scope option \<Rightarrow> content list \<Rightarrow> nat list \<Rightarrow> ('w, unit) gen" where
  "commit_messages env context_id scope [] indices = return_a ()"
| "commit_messages env context_id scope (m # ms) indices =
     bind_a (in_world (av_append env scope context_id m)) (\<lambda>ctx.
     let indices = indices @ [length (ctx_messages ctx) - 1]
     in bind_a (on_run (\<lambda>r. r\<lparr>rn_history := (rn_history r)\<lparr>ah_message_indices := Some indices\<rparr>\<rparr>)) (\<lambda>_.
        commit_messages env context_id scope ms indices))"

definition commit_run_transcript :: "'w agent_env \<Rightarrow> string \<Rightarrow> ('w, unit) gen" where
  "commit_run_transcript env context_id = with_run (\<lambda>r.
     commit_messages env context_id (owner_scope (rn_owner_id r)) (run_transcript r) [])"

definition has_tool_runtime :: "agent_run \<Rightarrow> bool" where
  "has_tool_runtime r \<longleftrightarrow> rn_pending_tool_calls r \<noteq> [] \<or> rn_pending_approval_requests r \<noteq> []
     \<or> rn_stop_reason r = Some Stop_TOOL_ROUNDS_EXHAUSTED \<or> (\<exists>st \<in> set (rn_steps r). tool_step st)"

definition state_to_result :: "agent_run \<Rightarrow> error + agent_result" where
  "state_to_result r =
     (if rn_status r = Run_PAUSED then Inl (run_error ''Agent run paused for tool approval'')
      else case rn_response r of
             None \<Rightarrow> Inl (run_error ''Agent run did not produce a response'')
           | Some response \<Rightarrow>
               (case rn_stop_reason r of
                  None \<Rightarrow> Inl (run_error ''Agent run did not stop'')
                | Some reason \<Rightarrow> Inr \<lparr>ares_response = response, ares_usage = aggregate_run_usage r,
                    ares_stop_reason = reason,
                    ares_tool_rounds_used = (if has_tool_runtime r then Some (rn_tool_rounds_used r) else None),
                    ares_steps = rn_steps r, ares_trace = rn_trace r,
                    ares_metadata = ag_metadata (rn_request r)\<rparr>))"

fun write_memories :: "'w agent_env \<Rightarrow> principal_scope option \<Rightarrow> memory_item list \<Rightarrow> ('w, unit) gen" where
  "write_memories env scope [] = return_a ()"
| "write_memories env scope (m # ms) =
     bind_a (in_world (av_write_memory env scope m)) (\<lambda>(written, operation).
     let meta = [(''memory_id'', PStr (mem_id written)), (''operation'', PStr operation)]
     in bind_a (on_run (\<lambda>r. r\<lparr>rn_steps := rn_steps r @ [(new_step Step_MEMORY_WRITE)\<lparr>as_metadata := meta\<rparr>]\<rparr>)) (\<lambda>_.
        bind_a (trace_and_emit env ((new_event Ev_MEMORY_WRITTEN)
                  \<lparr>te_step_type := Some Step_MEMORY_WRITE, te_metadata := meta\<rparr>)) (\<lambda>_.
        write_memories env scope ms)))"

definition write_memory_events :: "'w agent_env \<Rightarrow> agent_request \<Rightarrow> ('w, unit) gen" where
  "write_memory_events env request = with_run (\<lambda>r.
     bind_a (check_g (state_to_result r)) (\<lambda>result.
     write_memories env (owner_scope (ag_owner_id request)) (av_create_memories env request result)))"

definition run_stopped_event :: "agent_stop_reason \<Rightarrow> agent_event" where
  "run_stopped_event reason = (new_event Ev_RUN_STOPPED)\<lparr>te_step_type := Some Step_STOP,
     te_metadata := [(''reason'', PStr (stop_reason_value reason))]\<rparr>"

definition stopping :: "agent_request \<Rightarrow> int \<Rightarrow> agent_stop_reason \<Rightarrow> agent_run \<Rightarrow> agent_run" where
  "stopping request remaining reason r =
     r\<lparr>rn_stop_reason := Some reason,
       rn_tool_rounds_used := int (ag_max_tool_rounds request) - remaining,
       rn_steps := rn_steps r @ [(new_step Step_STOP)
         \<lparr>as_metadata := [(''reason'', PStr (stop_reason_value reason))]\<rparr>]\<rparr>"

text \<open>What both ends of the loop do: commit the transcript, write the memories, say why it stopped.\<close>

definition stop_run :: "'w agent_env \<Rightarrow> agent_request \<Rightarrow> int \<Rightarrow> agent_stop_reason \<Rightarrow> ('w, unit) gen" where
  "stop_run env request remaining reason =
     bind_a (on_run (stopping request remaining reason)) (\<lambda>_.
     bind_a (commit_run_transcript env (ag_context_id request)) (\<lambda>_.
     bind_a (write_memory_events env request) (\<lambda>_.
     bind_a (on_run (\<lambda>r. r\<lparr>rn_status := (if reason = Stop_FINISHED then Run_FINISHED else Run_FAILED)\<rparr>)) (\<lambda>_.
     trace_and_emit env (run_stopped_event reason)))))"

section \<open>Running the calls of a round\<close>

fun error_payload :: "nat \<Rightarrow> error \<Rightarrow> json" where
  "error_payload depth (Error c msg detail cause) =
     JObj ([(''error_type'', JStr (class_name c)), (''error_message'', JStr msg)]
       @ (case detail of Some d \<Rightarrow> if d \<noteq> [] then [(''error_detail'', JStr d)] else [] | None \<Rightarrow> [])
       @ (case cause of
            Some e \<Rightarrow> (case depth of 0 \<Rightarrow> [] | Suc n \<Rightarrow> [(''cause'', error_payload n e)])
          | None \<Rightarrow> []))"

definition tool_result_message :: "nat \<Rightarrow> tool_call_result \<Rightarrow> string \<Rightarrow> content" where
  "tool_result_message ref result text =
     (message ref Role_TOOL)\<lparr>c_tool_call_id := Some (tr_id result), c_content := Some [text_part text]\<rparr>"

definition tool_error_message :: "nat \<Rightarrow> tool_call \<Rightarrow> error \<Rightarrow> content" where
  "tool_error_message ref call e =
     (message ref Role_TOOL)\<lparr>c_tool_call_id := Some (tc_id call),
       c_content := Some [text_part (json_dumps False (error_payload 3 e))],
       c_metadata := [(''error'', PBool True), (''error_type'', PStr (class_name (error_class e)))]\<rparr>"

text \<open>
  The body of the \<open>try\<close> up to its first write: the policy's rejection, the execution, the message.  An
  exception of any of them is its result; a cancellation passes through.
\<close>

definition attempt_call ::
  "'w agent_env \<Rightarrow> tool_call \<Rightarrow> error option \<Rightarrow> ('w, error + tool_call_result \<times> string) gen" where
  "attempt_call env call rejection s =
     (case rejection of
        Some e \<Rightarrow> (Inr (Inl e), s)
      | None \<Rightarrow>
          (case av_execute env (fst s) call (snd s) of
             (Inl (Raised e), w) \<Rightarrow> (Inr (Inl e), (fst s, w))
           | (Inl sig, w) \<Rightarrow> (Inl sig, (fst s, w))
           | (Inr result, w) \<Rightarrow>
               (case av_dump_result env result of
                  Inl e \<Rightarrow> (Inr (Inl e), (fst s, w))
                | Inr text \<Rightarrow> (Inr (Inr (result, text)), (fst s, w)))))"

definition duration :: "rat \<Rightarrow> metadata" where
  "duration d = [(''duration_ms'', PFloat d)]"

definition tool_done :: "'w agent_env \<Rightarrow> tool_call \<Rightarrow> tool_call_result \<Rightarrow> string \<Rightarrow> ('w, unit) gen" where
  "tool_done env call result text =
     bind_a (read_world (av_elapsed env)) (\<lambda>ms.
     bind_a (fresh (av_ref env)) (\<lambda>ref.
     let m = tool_result_message ref result text
     in bind_a (on_run (\<lambda>r. r\<lparr>rn_steps := rn_steps r @ [(new_step Step_TOOL)\<lparr>as_message := Some m,
            as_tool_call := Some call, as_tool_result := Some result, as_metadata := duration ms\<rparr>]\<rparr>)) (\<lambda>_.
        trace_and_emit env ((new_event Ev_TOOL_COMPLETED)\<lparr>te_step_type := Some Step_TOOL,
            te_message := Some m, te_tool_call := Some call, te_tool_result := Some result,
            te_metadata := duration ms\<rparr>))))"

definition tool_failed :: "'w agent_env \<Rightarrow> tool_call \<Rightarrow> error \<Rightarrow> ('w, unit) gen" where
  "tool_failed env call e =
     bind_a (read_world (av_elapsed env)) (\<lambda>ms.
     bind_a (fresh (av_ref env)) (\<lambda>ref.
     let m = tool_error_message ref call e; name = class_name (error_class e)
     in bind_a (on_run (\<lambda>r. r\<lparr>rn_steps := rn_steps r @ [(new_step Step_TOOL_ERROR)\<lparr>as_message := Some m,
            as_tool_call := Some call, as_error_type := Some name, as_error_message := Some (error_message e),
            as_metadata := duration ms\<rparr>]\<rparr>)) (\<lambda>_.
        trace_and_emit env ((new_event Ev_TOOL_FAILED)\<lparr>te_step_type := Some Step_TOOL_ERROR,
            te_message := Some m, te_tool_call := Some call, te_error_type := Some name,
            te_error_message := Some (error_message e), te_metadata := duration ms\<rparr>))))"

text \<open>The answer is whether the round goes on.\<close>

definition execute_call ::
  "'w agent_env \<Rightarrow> agent_request \<Rightarrow> int \<Rightarrow> tool_call \<Rightarrow> tool_safety_decision option \<Rightarrow> ('w, bool) gen" where
  "execute_call env request remaining call decision =
     bind_a (if decision = None \<or> sd_allowed (the decision)
             then trace_and_emit env ((new_event Ev_TOOL_STARTED)
                    \<lparr>te_step_type := Some Step_TOOL, te_tool_call := Some call\<rparr>)
             else return_a ()) (\<lambda>_.
     bind_a (check_skill_revisions env) (\<lambda>_.
     bind_a (attempt_call env call (policy_rejection call decision)) (\<lambda>outcome.
       case outcome of
         Inr (result, text) \<Rightarrow> bind_a (tool_done env call result text) (\<lambda>_. return_a True)
       | Inl e \<Rightarrow>
           if isinstance (error_class e) (Agent AgentStateError) then raise_a (Raised e)
           else bind_a (tool_failed env call e) (\<lambda>_.
                if ag_recover_tool_errors request then return_a True
                else bind_a (stop_run env request remaining Stop_TOOL_ERROR) (\<lambda>_. return_a False)))))"

definition run_call ::
  "'w agent_env \<Rightarrow> agent_request \<Rightarrow> (string, tool_approval_decision) dict \<Rightarrow> string list \<Rightarrow> int
     \<Rightarrow> tool_call \<Rightarrow> tool_call list \<Rightarrow> ('w, bool) gen" where
  "run_call env request approvals already remaining raw rest =
     bind_a (check_skill_revisions env) (\<lambda>_.
     with_run (\<lambda>r. let call = prepared_call request r approvals raw in
     bind_a (read_world (safety_decision env call)) (\<lambda>decision.
     bind_a (trace_tool_approval env call decision (tc_id call \<notin> set already)) (\<lambda>events.
     bind_a (emit_all env events) (\<lambda>_.
       if ag_pause_on_approval request \<and> should_pause call decision
       then bind_a (on_run (paused_for_approval request (call # rest) (the decision) remaining)) (\<lambda>_.
            bind_a (trace_and_emit env (approval_pause_event request call (the decision) remaining)) (\<lambda>_.
            return_a False))
       else execute_call env request remaining call decision)))))"

fun run_calls ::
  "'w agent_env \<Rightarrow> agent_request \<Rightarrow> (string, tool_approval_decision) dict \<Rightarrow> string list \<Rightarrow> int
     \<Rightarrow> tool_call list \<Rightarrow> ('w, bool) gen" where
  "run_calls env request approvals already remaining [] = return_a True"
| "run_calls env request approvals already remaining (c # cs) =
     bind_a (run_call env request approvals already remaining c cs) (\<lambda>going.
       if going then run_calls env request approvals already remaining cs else return_a False)"

section \<open>The loop\<close>

definition next_chat :: "'w agent_env \<Rightarrow> agent_request \<Rightarrow> int \<Rightarrow> ('w, chat_response) gen" where
  "next_chat env request remaining =
     bind_a (on_run (\<lambda>r. r\<lparr>rn_remaining_tool_rounds := remaining\<rparr>)) (\<lambda>_.
     with_run (\<lambda>r. bind_a (read_world (chat_args_of env request r (run_transcript r) None)) (chat_events env request)))"

definition enter_loop :: "int \<Rightarrow> agent_run \<Rightarrow> agent_run" where
  "enter_loop remaining r = r\<lparr>rn_remaining_tool_rounds := remaining, rn_stop_reason := Some Stop_FINISHED\<rparr>"

definition finish_run :: "'w agent_env \<Rightarrow> agent_request \<Rightarrow> int \<Rightarrow> bool \<Rightarrow> ('w, unit) gen" where
  "finish_run env request remaining calls_left =
     bind_a (on_run (\<lambda>r. r\<lparr>rn_pending_tool_calls := [], rn_pending_approval_requests := []\<rparr>)) (\<lambda>_.
     stop_run env request remaining (if calls_left then Stop_TOOL_ROUNDS_EXHAUSTED else Stop_FINISHED))"

function tool_loop ::
  "'w agent_env \<Rightarrow> agent_request \<Rightarrow> chat_response \<Rightarrow> int \<Rightarrow> string list \<Rightarrow> tool_call list option
     \<Rightarrow> ('w, unit) gen" where
  "tool_loop env request response remaining already pending =
     (let calls = (case pending of Some cs \<Rightarrow> cs | None \<Rightarrow> calls_of (rs_message response))
      in bind_a (on_run (enter_loop remaining)) (\<lambda>_. with_run (\<lambda>r.
           if calls \<noteq> [] \<and> remaining > 0
           then bind_a (run_calls env request
                    (round_approvals (ag_tool_approvals request) (current_tool_round r)) already remaining calls)
                  (\<lambda>going. if going
                     then bind_a (next_chat env request (remaining - 1)) (\<lambda>response'.
                          tool_loop env request response' (remaining - 1) [] None)
                     else return_a ())
           else finish_run env request remaining (calls \<noteq> []))))"
  by pat_completeness auto
termination
  by (relation "measure (\<lambda>(_, _, _, remaining, _, _). nat remaining)") auto

declare tool_loop.simps [simp del]

section \<open>Starting and resuming a run\<close>

definition new_run_state :: "int \<Rightarrow> string \<Rightarrow> agent_request \<Rightarrow> agent_run" where
  "new_run_state now fresh_id request =
     (new_run (case metadata_run_id (ag_metadata request) of Some i \<Rightarrow> i | None \<Rightarrow> fresh_id) request)
       \<lparr>rn_owner_id := ag_owner_id request, rn_remaining_tool_rounds := int (ag_max_tool_rounds request),
        rn_applied_trace_sequence := Some 0,
        rn_history := \<lparr>ah_started_at = Some now, ah_message_offset = None, ah_message_indices = None,
          ah_generation = PNone\<rparr>, rn_metadata := ag_metadata request\<rparr>"

definition run_initial_chat :: "'w agent_env \<Rightarrow> agent_request \<Rightarrow> ('w, unit) gen" where
  "run_initial_chat env request =
     bind_a (with_run (\<lambda>r. bind_a (read_world (chat_args_of env request r (ag_messages request)
               (ag_memory_query request))) (chat_events env request))) (\<lambda>response.
     tool_loop env request response (int (ag_max_tool_rounds request)) [] None)"

fun skill_revisions_of ::
  "'w agent_env \<Rightarrow> string list \<Rightarrow> (string, string option) dict \<Rightarrow> 'w \<Rightarrow> error + (string, string option) dict" where
  "skill_revisions_of env [] d w = Inr d"
| "skill_revisions_of env (n # ns) d w =
     bind_e (av_skill env n w) (\<lambda>v. skill_revisions_of env ns (dict_set n (sv_revision v) d) w)"

definition start_metadata :: "agent_request \<Rightarrow> metadata" where
  "start_metadata request =
     [(''provider_id'', PStr (ag_provider_id request)), (''context_id'', PStr (ag_context_id request)),
      (''model_id'', PStr (ag_model_id request))]"

definition run_agent_events :: "'w agent_env \<Rightarrow> agent_request \<Rightarrow> ('w, unit) gen" where
  "run_agent_events env request =
     bind_a (in_world (av_get_context env (owner_scope (ag_owner_id request)) (ag_context_id request))) (\<lambda>ctx.
     bind_a (on_run (\<lambda>r. r\<lparr>rn_history := (rn_history r)\<lparr>ah_message_offset := Some (length (ctx_messages ctx)),
               ah_message_indices := Some [],
               ah_generation := meta_get (ctx_metadata ctx) ''chat_history_generation''\<rparr>\<rparr>)) (\<lambda>_.
     bind_a (read_world (skill_revisions_of env (map sk_skill_name (case ag_skills request of None \<Rightarrow> []
               | Some ss \<Rightarrow> ss)) [])) (\<lambda>revisions.
     bind_a (check_g revisions) (\<lambda>revisions.
     bind_a (on_run (\<lambda>r. r\<lparr>rn_skill_revisions := Some revisions,
               rn_steps := rn_steps r @ [(new_step Step_START)\<lparr>as_metadata := start_metadata request\<rparr>]\<rparr>)) (\<lambda>_.
     bind_a (trace_and_emit env ((new_event Ev_RUN_STARTED)\<lparr>te_step_type := Some Step_START,
               te_metadata := start_metadata request\<rparr>)) (\<lambda>_.
     run_initial_chat env request))))))"

text \<open>The calls whose approval was requested since the last response.\<close>

definition requested_approval_ids :: "agent_run \<Rightarrow> string list" where
  "requested_approval_ids r =
     map (\<lambda>e. tc_id (the (te_tool_call e)))
       (filter (\<lambda>e. te_type e = Ev_TOOL_APPROVAL_REQUESTED \<and> te_tool_call e \<noteq> None)
         (takeWhile (\<lambda>e. te_type e \<noteq> Ev_CHAT_COMPLETED) (rev (rn_trace r))))"

definition continue_after_completed_round :: "'w agent_env \<Rightarrow> agent_request \<Rightarrow> ('w, unit) gen" where
  "continue_after_completed_round env request = with_run (\<lambda>r.
     let remaining = max (rn_remaining_tool_rounds r - 1) 0
     in bind_a (next_chat env request remaining) (\<lambda>response.
        tool_loop env request response remaining [] None))"

definition resume_checkpoint_events :: "'w agent_env \<Rightarrow> ('w, unit) gen" where
  "resume_checkpoint_events env =
     bind_a (on_run (\<lambda>r. r\<lparr>rn_status := Run_RUNNING, rn_stop_reason := None, rn_pending_tool_calls := [],
               rn_pending_approval_requests := [], rn_pause := None, rn_pause_request := None\<rparr>)) (\<lambda>_.
     with_run (\<lambda>r. case rn_response r of
         None \<Rightarrow> run_initial_chat env (rn_request r)
       | Some response \<Rightarrow>
           let calls = calls_of (rs_message response);
               left = filter (\<lambda>c. tc_id c \<notin> set (completed_call_ids r)) calls
           in if left \<noteq> []
              then tool_loop env (rn_request r) response (rn_remaining_tool_rounds r)
                     (requested_approval_ids r) (Some left)
              else if calls \<noteq> [] then continue_after_completed_round env (rn_request r)
              else tool_loop env (rn_request r) response (rn_remaining_tool_rounds r) [] (Some [])))"

definition missing_approvals :: "string list \<Rightarrow> (string, tool_approval_decision) dict \<Rightarrow> string list" where
  "missing_approvals ids approvals = sort (remdups (filter (\<lambda>i. \<not> dict_has approvals i) ids))"

definition resume_agent_events :: "'w agent_env \<Rightarrow> tool_approval_decision list \<Rightarrow> ('w, unit) gen" where
  "resume_agent_events env approvals = with_run (\<lambda>r.
     if rn_status r \<noteq> Run_PAUSED then raise_a (Raised (run_error ''Agent run is not paused''))
     else if \<not> can_resume r
     then raise_a (Raised (run_error ''Agent run cannot resume safely; retry it instead''))
     else bind_a (check_skill_revisions env) (\<lambda>_.
          bind_a (on_run (\<lambda>r. r\<lparr>rn_usage := aggregate_run_usage r\<rparr>)) (\<lambda>_.
          if resume_mode r = Resume_CHECKPOINT
          then bind_a (on_run (\<lambda>r. r\<lparr>rn_request := (rn_request r)\<lparr>ag_tool_approvals :=
                  merge_approvals (ag_tool_approvals (rn_request r)) approvals (max (current_tool_round r) 1)\<rparr>\<rparr>)) (\<lambda>_.
               resume_checkpoint_events env)
          else case rn_response r of
             None \<Rightarrow> raise_a (Raised (run_error ''Agent run did not produce a response''))
           | Some response \<Rightarrow>
               if rn_pending_tool_calls r = []
               then raise_a (Raised (run_error ''Agent run has no pending tool calls''))
               else let ids = map ar_tool_call_id (rn_pending_approval_requests r);
                        tool_round = current_tool_round r;
                        merged = merge_approvals (ag_tool_approvals (rn_request r)) approvals tool_round;
                        missing = missing_approvals ids (round_approvals merged tool_round);
                        request = (rn_request r)\<lparr>ag_tool_approvals := merged, ag_pause_on_approval := True\<rparr>
                    in if missing \<noteq> []
                       then raise_a (Raised (run_error (''Missing approval for pending tool call: ''
                              @ join '', '' missing)))
                       else bind_a (on_run (\<lambda>r. r\<lparr>rn_request := request, rn_status := Run_RUNNING,
                              rn_stop_reason := Some Stop_FINISHED, rn_pending_tool_calls := [],
                              rn_pending_approval_requests := []\<rparr>)) (\<lambda>_.
                            tool_loop env request response (rn_remaining_tool_rounds r) ids
                              (Some (rn_pending_tool_calls r))))))"

end
