(* ===== verification/AgentLoopFacts.thy ===== *)
theory AgentLoopFacts
  imports AgentLoop
begin

text \<open>
  What holds of the loop of \<open>AgentLoop\<close>.  \<open>moves R m\<close> says that the operation \<open>m\<close> relates the snapshot
  before it to the snapshot after it by \<open>R\<close>, however it ends: at its end, at an exception, at a
  cancellation, or at any event at which the consumer stops it.
\<close>

section \<open>Relating the snapshots\<close>

definition moves :: "(agent_run \<Rightarrow> agent_run \<Rightarrow> bool) \<Rightarrow> ('w, 'a) gen \<Rightarrow> bool" where
  "moves R m \<longleftrightarrow> (\<forall>r w. R r (fst (snd (m (r, w)))))"

lemma movesI: "(\<And>r w. R r (fst (snd (m (r, w))))) \<Longrightarrow> moves R m"
  by (simp add: moves_def)

lemma movesD: "moves R m \<Longrightarrow> m (r, w) = (x, (r', w')) \<Longrightarrow> R r r'"
  unfolding moves_def by (metis fst_conv snd_conv)

lemma moves_if: "(c \<Longrightarrow> moves R m) \<Longrightarrow> (\<not> c \<Longrightarrow> moves R k) \<Longrightarrow> moves R (if c then m else k)"
  by simp

lemma moves_mono: "moves R m \<Longrightarrow> (\<And>r r'. R r r' \<Longrightarrow> S r r') \<Longrightarrow> moves S m"
  by (simp add: moves_def)

text \<open>
  A family of relations indexed by a number, for sequences: \<open>R 0\<close> is reflexive, and steps add up.
\<close>

locale counted =
  fixes R :: "nat \<Rightarrow> agent_run \<Rightarrow> agent_run \<Rightarrow> bool"
  assumes zero: "R 0 r r"
    and add: "R a r s \<Longrightarrow> R b s t \<Longrightarrow> R (a + b) r t"
    and weaken: "R a r s \<Longrightarrow> a \<le> b \<Longrightarrow> R b r s"
begin

lemma refl: "R n r r"
  by (rule weaken [OF zero]) simp

lemma moves_weaken: "moves (R a) m \<Longrightarrow> a \<le> b \<Longrightarrow> moves (R b) m"
  unfolding moves_def by (blast intro: weaken)

lemma moves_return: "moves (R n) (return_a x)"
  by (simp add: moves_def refl)

lemma moves_raise: "moves (R n) (raise_a x)"
  by (simp add: moves_def refl)

lemma moves_read: "moves (R n) (read_world f)"
  by (simp add: moves_def read_world_def refl)

lemma moves_check: "moves (R n) (check_g x)"
  by (simp add: moves_def check_g_def refl)

lemma moves_world: "moves (R n) (in_world m)"
  by (simp add: moves_def in_world_def refl split: prod.split)

lemma moves_fresh: "moves (R n) (fresh f)"
  by (simp add: moves_def fresh_def refl split: prod.split)

lemma moves_skills: "moves (R n) (check_skill_revisions env)"
  by (simp add: moves_def check_skill_revisions_def Let_def refl split: option.split sum.split)

lemma moves_attempt: "moves (R n) (attempt_call env call rejection)"
  by (simp add: moves_def attempt_call_def refl split: option.split sum.split prod.split signal.split)

lemma moves_on_run: "(\<And>r. R n r (f r)) \<Longrightarrow> moves (R n) (on_run f)"
  by (simp add: moves_def on_run_def)

lemma moves_with_run: "(\<And>r. moves (R n) (k r)) \<Longrightarrow> moves (R n) (with_run k)"
  by (simp add: moves_def with_run_def)

lemma moves_bind:
  assumes "moves (R a) m" "\<And>x. moves (R b) (k x)"
  shows "moves (R (a + b)) (bind_a m k)"
proof (rule movesI)
  fix r w
  obtain x r1 w1 where m: "m (r, w) = (x, (r1, w1))" by (cases "m (r, w)") auto
  note step = movesD [OF assms(1) m]
  show "R (a + b) r (fst (snd (bind_a m k (r, w))))"
  proof (cases x)
    case (Inl e)
    with m weaken [OF step, of "a + b"] show ?thesis by (simp add: bind_a_def)
  next
    case (Inr y)
    obtain z r2 w2 where k: "k y (r1, w1) = (z, (r2, w2))" by (cases "k y (r1, w1)") auto
    from m k Inr add [OF step movesD [OF assms(2) k]] show ?thesis by (simp add: bind_a_def)
  qed
qed

lemma moves_then: "moves (R 0) m \<Longrightarrow> (\<And>x. moves (R n) (k x)) \<Longrightarrow> moves (R n) (bind_a m k)"
  using moves_bind [of 0 m n k] by simp

end

text \<open>
  The interface of a consumer: it may number the events of the trace, append events of its own that end
  no chat and no tool call, and change the controls of the run, but not what the run did.
\<close>

datatype run_core = Chat_core "chat_response option" "content option"
  | Tool_core bool "content option" "tool_call option" "tool_call_result option" "string option" "string option"

definition step_core :: "agent_step \<Rightarrow> run_core option" where
  "step_core s =
     (if as_type s = Step_CHAT then Some (Chat_core (as_response s) (as_message s))
      else if tool_step s
      then Some (Tool_core (as_type s = Step_TOOL) (as_message s) (as_tool_call s) (as_tool_result s)
             (as_error_type s) (as_error_message s))
      else None)"

definition event_core :: "agent_event \<Rightarrow> run_core option" where
  "event_core e =
     (if te_type e = Ev_CHAT_COMPLETED
      then Some (Chat_core (te_response e)
             (case te_message e of None \<Rightarrow> map_option rs_message (te_response e) | m \<Rightarrow> m))
      else if te_type e = Ev_TOOL_COMPLETED \<or> te_type e = Ev_TOOL_FAILED
      then Some (Tool_core (te_type e = Ev_TOOL_COMPLETED) (te_message e) (te_tool_call e) (te_tool_result e)
             (te_error_type e) (te_error_message e))
      else None)"

text \<open>The events that a restoration accepts.\<close>

definition restorable :: "agent_event \<Rightarrow> bool" where
  "restorable e \<longleftrightarrow> (te_type e = Ev_CHAT_COMPLETED \<longrightarrow> te_response e \<noteq> None)
     \<and> (te_type e = Ev_TOOL_COMPLETED \<or> te_type e = Ev_TOOL_FAILED \<longrightarrow> te_tool_call e \<noteq> None)
     \<and> (te_type e = Ev_RUN_STOPPED \<longrightarrow>
          (\<exists>reason. meta_get (te_metadata e) ''reason'' = PStr reason
             \<and> (stop_reason_of reason \<noteq> None \<or> reason = ''failed'' \<or> reason = ''canceled'')))"

definition restorable_trace :: "agent_run \<Rightarrow> bool" where
  "restorable_trace r \<longleftrightarrow> (\<forall>e \<in> set (rn_trace r). restorable e)"

definition step_cores :: "agent_run \<Rightarrow> run_core list" where
  "step_cores r = List.map_filter step_core (rn_steps r)"

definition event_cores :: "agent_run \<Rightarrow> run_core list" where
  "event_cores r = List.map_filter event_core (rn_trace r)"

definition consumer_frame :: "agent_run \<Rightarrow> agent_run \<Rightarrow> bool" where
  "consumer_frame r r' \<longleftrightarrow> rn_steps r' = rn_steps r \<and> rn_response r' = rn_response r
     \<and> rn_request r' = rn_request r \<and> event_cores r' = event_cores r
     \<and> (restorable_trace r \<longrightarrow> restorable_trace r')"

locale agent_consumer =
  fixes env :: "'w agent_env"
  assumes frame: "moves consumer_frame (av_emit env e)"

section \<open>What a run did\<close>

definition is_chat :: "run_core \<Rightarrow> bool" where
  "is_chat c \<longleftrightarrow> (case c of Chat_core _ _ \<Rightarrow> True | Tool_core _ _ _ _ _ _ \<Rightarrow> False)"

definition last_response :: "run_core list \<Rightarrow> chat_response option \<Rightarrow> chat_response option" where
  "last_response = fold (\<lambda>c resp. case c of Chat_core x _ \<Rightarrow> x | Tool_core _ _ _ _ _ _ \<Rightarrow> resp)"

lemma last_response_simps [simp]:
  "last_response [] resp = resp" "last_response (d @ e) resp = last_response e (last_response d resp)"
  "last_response [Chat_core x m] resp = x" "last_response [Tool_core a1 a2 a3 a4 a5 a6] resp = resp"
  by (simp_all add: last_response_def)

text \<open>
  Between two snapshots the same chats and tool calls, at most \<open>n\<close> of them chats, were added to the steps
  and to the trace, and the response is the one of the last chat.
\<close>

definition progress :: "nat \<Rightarrow> agent_run \<Rightarrow> agent_run \<Rightarrow> bool" where
  "progress n r r' \<longleftrightarrow> (\<exists>d. step_cores r' = step_cores r @ d \<and> event_cores r' = event_cores r @ d
     \<and> length (filter is_chat d) \<le> n
     \<and> rn_response r' = last_response d (rn_response r)
     \<and> ag_messages (rn_request r') = ag_messages (rn_request r)
     \<and> (restorable_trace r \<longrightarrow> restorable_trace r'))"

lemma progressI:
  assumes "step_cores r' = step_cores r @ d" "event_cores r' = event_cores r @ d"
    "length (filter is_chat d) \<le> n"
    "rn_response r' = last_response d (rn_response r)"
    "ag_messages (rn_request r') = ag_messages (rn_request r)"
    "restorable_trace r \<Longrightarrow> restorable_trace r'"
  shows "progress n r r'"
  using assms unfolding progress_def by blast

interpretation pr: counted progress
proof
  show "progress 0 r r" for r by (rule progressI [where d = "[]"]) simp_all
next
  fix a b r s t assume "progress a r s" "progress b s t"
  then obtain d e where *: "step_cores s = step_cores r @ d" "event_cores s = event_cores r @ d"
      "length (filter is_chat d) \<le> a"
      "rn_response s = last_response d (rn_response r)"
      "ag_messages (rn_request s) = ag_messages (rn_request r)" "restorable_trace r \<longrightarrow> restorable_trace s"
      "step_cores t = step_cores s @ e" "event_cores t = event_cores s @ e"
      "length (filter is_chat e) \<le> b"
      "rn_response t = last_response e (rn_response s)"
      "ag_messages (rn_request t) = ag_messages (rn_request s)" "restorable_trace s \<longrightarrow> restorable_trace t"
    unfolding progress_def by blast
  show "progress (a + b) r t"
    by (rule progressI [where d = "d @ e"]) (use * in simp_all)
next
  fix a b r s assume "progress a r s" "(a :: nat) \<le> b"
  then show "progress b r s" unfolding progress_def by (blast intro: order.trans)
qed

lemma progress_frame: "consumer_frame r r' \<Longrightarrow> progress n r r'"
  by (rule progressI [where d = "[]"]) (simp_all add: consumer_frame_def step_cores_def)

text \<open>Changes of the controls and appended steps that are not chats or tool calls.\<close>

lemma map_filter_Nil [simp]: "List.map_filter f [] = []"
  by (simp add: List.map_filter_def)

lemma map_filter_append: "List.map_filter f (xs @ ys) = List.map_filter f xs @ List.map_filter f ys"
  by (simp add: List.map_filter_def)

lemma map_filter_single: "List.map_filter f [x] = (case f x of None \<Rightarrow> [] | Some y \<Rightarrow> [y])"
  by (simp add: List.map_filter_def split: option.split)

lemma step_core_link [simp]: "step_core (s\<lparr>as_trace_event_id := i\<rparr>) = step_core s"
  by (simp add: step_core_def tool_step_def)

lemma link_last_step_cores [simp]:
  "step_cores (link_last_step e r) = step_cores r" "event_cores (link_last_step e r) = event_cores r"
  "rn_trace (link_last_step e r) = rn_trace r" "rn_response (link_last_step e r) = rn_response r"
  "rn_request (link_last_step e r) = rn_request r"
proof -
  show "step_cores (link_last_step e r) = step_cores r"
  proof (cases "rn_steps r" rule: rev_cases)
    case (snoc xs x)
    then show ?thesis
      by (simp add: link_last_step_def step_cores_def map_filter_append map_filter_single)
  qed (simp add: link_last_step_def)
qed (simp_all add: link_last_step_def event_cores_def)

lemma event_core_updates [simp]:
  "event_core (e\<lparr>te_occurred_at := a\<rparr>) = event_core e" "event_core (e\<lparr>te_metadata := m\<rparr>) = event_core e"
  "event_core (e\<lparr>te_summary := t\<rparr>) = event_core e" "event_core (e\<lparr>te_event_id := i\<rparr>) = event_core e"
  "event_core (e\<lparr>te_trace_id := i\<rparr>) = event_core e" "event_core (e\<lparr>te_source := i\<rparr>) = event_core e"
  "event_core (e\<lparr>te_subject := u\<rparr>) = event_core e" "event_core (e\<lparr>te_sequence := q\<rparr>) = event_core e"
  by (simp_all add: event_core_def split: option.split)

lemma event_core_step_type [simp]: "event_core (e\<lparr>te_step_type := x\<rparr>) = event_core e"
  by (simp add: event_core_def split: option.split)

lemma restorable_updates [simp]:
  "restorable (e\<lparr>te_occurred_at := a\<rparr>) = restorable e" "restorable (e\<lparr>te_summary := t\<rparr>) = restorable e"
  "restorable (e\<lparr>te_event_id := i\<rparr>) = restorable e" "restorable (e\<lparr>te_trace_id := i\<rparr>) = restorable e"
  "restorable (e\<lparr>te_source := i\<rparr>) = restorable e" "restorable (e\<lparr>te_subject := u\<rparr>) = restorable e"
  "restorable (e\<lparr>te_sequence := q\<rparr>) = restorable e"
  by (simp_all add: restorable_def)

lemma restorable_completed [simp]: "restorable (completed_event now r e) = restorable e"
  by (simp add: completed_event_def Let_def restorable_def)

lemma restorable_tag [simp]: "restorable (tag_event run_id owner e) = restorable e"
  by (simp add: tag_event_def)

lemma restorable_other:
  "te_type e \<noteq> Ev_CHAT_COMPLETED \<Longrightarrow> te_type e \<noteq> Ev_TOOL_COMPLETED \<Longrightarrow> te_type e \<noteq> Ev_TOOL_FAILED \<Longrightarrow>
     te_type e \<noteq> Ev_RUN_STOPPED \<Longrightarrow> restorable e"
  by (simp add: restorable_def)

lemma event_core_new:
  "ty \<noteq> Ev_CHAT_COMPLETED \<Longrightarrow> ty \<noteq> Ev_TOOL_COMPLETED \<Longrightarrow> ty \<noteq> Ev_TOOL_FAILED \<Longrightarrow>
     event_core (new_event ty) = None"
  by (simp add: event_core_def new_event_def)

lemma event_core_completed [simp]: "event_core (completed_event now r e) = event_core e"
  by (simp add: completed_event_def Let_def)

lemma event_core_tag [simp]: "event_core (tag_event run_id owner e) = event_core e"
  by (simp add: tag_event_def)

lemma add_trace_cases:
  assumes "add_trace env e (r, w) = (x, (r', w'))"
  obtains e1 e2 where "x = Inr e2" "r' = (link_last_step e1 r)\<lparr>rn_trace := rn_trace r @ [e2]\<rparr>"
    "event_core e2 = event_core e" "restorable e2 = restorable e"
proof -
  let ?e = "completed_event (av_now env w) r e"
  obtain i w1 where i: "(case te_event_id ?e of Some i \<Rightarrow> (i, w) | None \<Rightarrow> av_uuid env w) = (i, w1)"
    by fastforce
  let ?e1 = "?e\<lparr>te_event_id := Some i\<rparr>"
  let ?r = "link_last_step ?e1 r"
  let ?e2 = "tag_event (rn_run_id ?r) (rn_owner_id ?r) ?e1"
  have "event_core ?e2 = event_core e" "restorable ?e2 = restorable e"
    by simp_all
  moreover from assms i have "x = Inr ?e2" "r' = ?r\<lparr>rn_trace := rn_trace r @ [?e2]\<rparr>"
    by (simp_all add: add_trace_def Let_def)
  ultimately show thesis by (intro that)
qed

lemma event_cores_snoc:
  "event_cores (r\<lparr>rn_trace := es @ [e]\<rparr>)
     = event_cores (r\<lparr>rn_trace := es\<rparr>) @ (case event_core e of None \<Rightarrow> [] | Some c \<Rightarrow> [c])"
  by (simp add: event_cores_def map_filter_append map_filter_single split: option.split)

lemma step_cores_snoc:
  "step_cores (r\<lparr>rn_steps := xs @ [s]\<rparr>)
     = step_cores (r\<lparr>rn_steps := xs\<rparr>) @ (case step_core s of None \<Rightarrow> [] | Some c \<Rightarrow> [c])"
  by (simp add: step_cores_def map_filter_append map_filter_single split: option.split)

lemma cores_frame [simp]:
  "step_cores (r\<lparr>rn_trace := es\<rparr>) = step_cores r" "event_cores (r\<lparr>rn_steps := ss\<rparr>) = event_cores r"
  by (simp_all add: step_cores_def event_cores_def)

lemma moves_neutral_trace:
  assumes "event_core e = None" "restorable e"
  shows "moves (progress n) (add_trace env e)"
proof (rule movesI)
  fix r w
  obtain x r' w' where m: "add_trace env e (r, w) = (x, (r', w'))" by (cases "add_trace env e (r, w)") auto
  then obtain e1 e2 where r': "r' = (link_last_step e1 r)\<lparr>rn_trace := rn_trace r @ [e2]\<rparr>"
      "event_core e2 = event_core e" "restorable e2 = restorable e" by (rule add_trace_cases)
  have "progress n r r'"
    by (rule progressI [where d = "[]"])
      (simp_all add: r' assms event_cores_def map_filter_append map_filter_single restorable_trace_def)
  with m show "progress n r (fst (snd (add_trace env e (r, w))))" by simp
qed

lemma moves_add_traces:
  "(\<And>e. e \<in> set es \<Longrightarrow> event_core e = None \<and> restorable e) \<Longrightarrow> moves (progress n) (add_traces env es)"
proof (induction es arbitrary: n)
  case (Cons e es)
  show ?case
    unfolding add_traces.simps
    by (intro pr.moves_then pr.moves_return moves_neutral_trace Cons.IH) (use Cons.prems in simp_all)
qed (simp add: pr.moves_return)

text \<open>An event whose effect was, or is about to be, recorded in a step.\<close>

lemma progress_recorded:
  assumes "step_cores r' = step_cores r @ [c]" "event_cores r' = event_cores r @ [c]"
    and "rn_response r' = last_response [c] (rn_response r)" "rn_request r' = rn_request r"
    and "is_chat c \<Longrightarrow> 1 \<le> n" "restorable_trace r \<Longrightarrow> restorable_trace r'"
  shows "progress n r r'"
  by (rule progressI [where d = "[c]"]) (use assms in auto)

lemma moves_recorded_step:
  assumes core: "step_core s = Some c" "event_core e = Some c" "\<not> is_chat c" "restorable e"
  shows "moves (progress n) (bind_a (on_run (\<lambda>r. r\<lparr>rn_steps := rn_steps r @ [s]\<rparr>)) (\<lambda>_. add_trace env e))"
proof (rule movesI)
  fix r :: agent_run and w
  let ?r = "r\<lparr>rn_steps := rn_steps r @ [s]\<rparr>"
  obtain x r' w' where m: "add_trace env e (?r, w) = (x, (r', w'))" by (cases "add_trace env e (?r, w)") auto
  then obtain e1 e2 where r': "r' = (link_last_step e1 ?r)\<lparr>rn_trace := rn_trace ?r @ [e2]\<rparr>"
      "event_core e2 = event_core e" "restorable e2 = restorable e" by (rule add_trace_cases)
  obtain a1 a2 a3 a4 a5 a6 where c: "c = Tool_core a1 a2 a3 a4 a5 a6"
    using core(3) by (cases c) (auto simp: is_chat_def)
  have "step_cores r' = step_cores r @ [c]" "event_cores r' = event_cores r @ [c]"
    using core(1,2) r'(2) by (simp_all add: r'(1) step_cores_def event_cores_def map_filter_append map_filter_single
        flip: step_cores_def) (simp_all add: step_cores_def map_filter_append map_filter_single)
  then have "progress n r r'"
    by (rule progress_recorded) (use core(3,4) r'(3) in \<open>simp_all add: r'(1) c restorable_trace_def\<close>)
  with m show "progress n r (fst (snd (bind_a (on_run (\<lambda>r. r\<lparr>rn_steps := rn_steps r @ [s]\<rparr>)) (\<lambda>_. add_trace env e) (r, w))))"
    by (simp add: bind_a_def on_run_def)
qed

context agent_consumer
begin

lemma moves_emit: "moves (progress n) (av_emit env e)"
  by (rule moves_mono [OF frame]) (rule progress_frame)

lemma moves_emit_all: "moves (progress n) (emit_all env es)"
proof (induction es)
  case (Cons e es)
  then show ?case unfolding emit_all.simps by (intro pr.moves_then moves_emit)
qed (simp only: emit_all.simps pr.moves_return)

lemma moves_trace_and_emit: "event_core e = None \<Longrightarrow> restorable e \<Longrightarrow> moves (progress n) (trace_and_emit env e)"
  unfolding trace_and_emit_def by (intro pr.moves_then moves_neutral_trace moves_emit)

lemma moves_recorded_emit:
  assumes "step_core s = Some c" "event_core e = Some c" "\<not> is_chat c" "restorable e"
  shows "moves (progress n) (bind_a (on_run (\<lambda>r. r\<lparr>rn_steps := rn_steps r @ [s]\<rparr>)) (\<lambda>_. trace_and_emit env e))"
proof -
  have "bind_a (on_run (\<lambda>r. r\<lparr>rn_steps := rn_steps r @ [s]\<rparr>)) (\<lambda>_. trace_and_emit env e)
      = bind_a (bind_a (on_run (\<lambda>r. r\<lparr>rn_steps := rn_steps r @ [s]\<rparr>)) (\<lambda>_. add_trace env e)) (av_emit env)"
    by (rule ext) (simp add: trace_and_emit_def bind_a_def on_run_def)
  then show ?thesis
    using pr.moves_then [OF moves_recorded_step [OF assms, of 0] moves_emit] by simp
qed

lemma moves_control:
  "(\<And>r. step_cores (f r) = step_cores r) \<Longrightarrow> (\<And>r. rn_trace (f r) = rn_trace r) \<Longrightarrow>
   (\<And>r. rn_response (f r) = rn_response r) \<Longrightarrow> (\<And>r. ag_messages (rn_request (f r)) = ag_messages (rn_request r)) \<Longrightarrow>
   moves (progress n) (on_run f)"
  by (rule pr.moves_on_run) (rule progressI [where d = "[]"], simp_all add: event_cores_def restorable_trace_def)

lemma moves_complete_chat: "moves (progress 1) (complete_chat env response)"
proof -
  let ?e = "(new_event Ev_CHAT_COMPLETED)\<lparr>te_step_type := Some Step_CHAT,
               te_response := Some response, te_message := Some (rs_message response)\<rparr>"
  let ?m = "bind_a (add_trace env ?e) (\<lambda>e. bind_a (on_run (record_chat_response response)) (\<lambda>_. return_a e))"
  have "moves (progress 1) ?m"
  proof (rule movesI)
    fix r :: agent_run and w
    obtain x r' w' where m: "add_trace env ?e (r, w) = (x, (r', w'))" by (cases "add_trace env ?e (r, w)") auto
    then obtain e1 e2 where r': "x = Inr e2" "r' = (link_last_step e1 r)\<lparr>rn_trace := rn_trace r @ [e2]\<rparr>"
        "event_core e2 = event_core ?e" "restorable e2 = restorable ?e" by (rule add_trace_cases)
    let ?c = "Chat_core (Some response) (Some (rs_message response))"
    let ?r = "record_chat_response response r'"
    have "event_core ?e = Some ?c" by (simp add: event_core_def new_event_def)
    with r'(3) have core: "event_core e2 = Some ?c" by simp
    have "step_cores ?r = step_cores r @ [?c]"
      by (simp add: record_chat_response_def Let_def step_cores_def map_filter_append map_filter_single
          step_core_def new_step_def) (simp add: r'(2) flip: step_cores_def)
    moreover have "event_cores ?r = event_cores r @ [?c]"
      using core by (simp add: record_chat_response_def Let_def event_cores_def r'(2) map_filter_append map_filter_single)
    moreover have "restorable ?e" by (simp add: restorable_def new_event_def)
    then have "restorable e2" by (simp only: r'(4))
    ultimately have "progress 1 r ?r"
      by (intro progress_recorded [where c = ?c])
        (simp_all add: record_chat_response_def Let_def r'(2) restorable_trace_def)
    with m r'(1) show "progress 1 r (fst (snd (?m (r, w))))"
      by (simp add: bind_a_def on_run_def)
  qed
  moreover have "complete_chat env response = bind_a ?m (\<lambda>e. bind_a (av_emit env e) (\<lambda>_. return_a response))"
    by (rule ext) (simp add: complete_chat_def bind_a_def on_run_def split: prod.split sum.split)
  ultimately show ?thesis
    using pr.moves_bind [of 1 ?m 0 "\<lambda>e. bind_a (av_emit env e) (\<lambda>_. return_a response)"]
    by (simp add: pr.moves_then [OF moves_emit pr.moves_return])
qed

lemma step_cores_append [simp]:
  "step_core st = None \<Longrightarrow> step_cores (r\<lparr>rn_steps := rn_steps r @ [st]\<rparr>) = step_cores r"
  by (simp add: step_cores_def map_filter_append map_filter_single)

lemma moves_stream_loop: "moves (progress n) (stream_loop env es a)"
proof (induction es arbitrary: a n)
  case (Cons e es)
  have neutral: "event_core ((new_event Ev_CHAT_DELTA)\<lparr>te_step_type := Some Step_CHAT, te_text_delta := Some t\<rparr>) = None"
    "restorable ((new_event Ev_CHAT_DELTA)\<lparr>te_step_type := Some Step_CHAT, te_text_delta := Some t\<rparr>)" for t
    by (simp_all add: event_core_def new_event_def restorable_def)
  show ?case
    by (simp only: stream_loop.simps)
      (auto intro!: pr.moves_raise pr.moves_then Cons.IH moves_trace_and_emit neutral pr.moves_return
        simp del: return_a_simp split: option.split)
qed (simp only: stream_loop.simps pr.moves_return)

lemma moves_chat_events: "moves (progress 1) (chat_events env request args)"
  unfolding chat_events_def stream_chat_events_def
  by (intro pr.moves_then pr.moves_skills pr.moves_world)
    (auto intro!: pr.moves_then pr.moves_world moves_complete_chat moves_stream_loop pr.moves_raise pr.moves_fresh
      simp del: return_a_simp raise_a_simp One_nat_def split: option.split)

lemma moves_next_chat: "moves (progress 1) (next_chat env request remaining)"
  unfolding next_chat_def
  by (intro pr.moves_then pr.moves_with_run pr.moves_read moves_control moves_chat_events) (simp_all add: step_cores_def)

lemma moves_commit: "moves (progress n) (commit_messages env context_id scope ms indices)"
proof (induction ms arbitrary: indices)
  case (Cons m ms)
  show ?case
    unfolding commit_messages.simps Let_def
    by (intro pr.moves_then pr.moves_world moves_control Cons.IH) (simp_all add: step_cores_def)
qed (simp only: commit_messages.simps pr.moves_return)

lemma moves_write_memories: "moves (progress n) (write_memories env scope ms)"
proof (induction ms)
  case (Cons m ms)
  have core: "step_core ((new_step Step_MEMORY_WRITE)\<lparr>as_metadata := x\<rparr>) = None"
    "event_core ((new_event Ev_MEMORY_WRITTEN)\<lparr>te_step_type := Some Step_MEMORY_WRITE, te_metadata := x\<rparr>) = None" for x
    by (simp_all add: step_core_def tool_step_def new_step_def event_core_new)
  show ?case
    unfolding write_memories.simps Let_def case_prod_beta
    by (intro pr.moves_then pr.moves_world moves_control moves_trace_and_emit Cons.IH)
      (simp_all add: core event_core_new, simp_all add: restorable_other new_event_def)
qed (simp only: write_memories.simps pr.moves_return)

lemma moves_stop_run: "moves (progress n) (stop_run env request remaining reason)"
proof -
  have "step_core ((new_step Step_STOP)\<lparr>as_metadata := x\<rparr>) = None" for x
    by (simp add: step_core_def tool_step_def new_step_def)
  then have stopping: "step_cores (stopping request remaining reason r) = step_cores r" for r
    by (simp add: stopping_def step_cores_def map_filter_append map_filter_single)
  have "stop_reason_of (stop_reason_value reason) = Some reason"
    by (cases reason) (simp_all add: stop_reason_of_def)
  then have core: "event_core (run_stopped_event reason) = None" "restorable (run_stopped_event reason)"
    by (simp_all add: run_stopped_event_def event_core_def new_event_def restorable_def meta_get_def dict_get_Cons)
  show ?thesis
    unfolding stop_run_def commit_run_transcript_def write_memory_events_def
    by (intro pr.moves_then moves_control pr.moves_with_run moves_commit pr.moves_check moves_write_memories
        moves_trace_and_emit core) (simp_all add: stopping, simp_all add: stopping_def step_cores_def)
qed

lemma moves_tool_done: "moves (progress n) (tool_done env call result text)"
  unfolding tool_done_def Let_def
  by (rule pr.moves_then [OF pr.moves_read], rule pr.moves_then [OF pr.moves_fresh], rule moves_recorded_emit)
    (simp_all add: step_core_def event_core_def new_step_def new_event_def tool_step_def is_chat_def restorable_def)+

lemma moves_tool_failed: "moves (progress n) (tool_failed env call e)"
  unfolding tool_failed_def Let_def
  by (rule pr.moves_then [OF pr.moves_read], rule pr.moves_then [OF pr.moves_fresh], rule moves_recorded_emit)
    (simp_all add: step_core_def event_core_def new_step_def new_event_def tool_step_def is_chat_def restorable_def)+

lemma moves_execute_call: "moves (progress n) (execute_call env request remaining call decision)"
proof -
  have core: "event_core ((new_event Ev_TOOL_STARTED)\<lparr>te_step_type := Some Step_TOOL, te_tool_call := Some call\<rparr>) = None"
    "restorable ((new_event Ev_TOOL_STARTED)\<lparr>te_step_type := Some Step_TOOL, te_tool_call := Some call\<rparr>)"
    by (simp_all add: event_core_def new_event_def restorable_def)
  show ?thesis
    unfolding execute_call_def
    by (intro pr.moves_then)
      (auto intro!: pr.moves_then pr.moves_skills pr.moves_attempt moves_tool_done moves_tool_failed
        moves_stop_run pr.moves_raise pr.moves_return moves_trace_and_emit core
        simp del: return_a_simp raise_a_simp split: sum.split)
qed

lemma moves_trace_approval: "moves (progress n) (trace_tool_approval env call decision b)"
proof (cases decision)
  case (Some d)
  have "event_core e = None \<and> restorable e" if "e \<in> set ((if b then [approval_requested_event call d] else [])
      @ (case tc_approval call of None \<Rightarrow> [] | Some a \<Rightarrow> [approval_decided_event call d a]))" for e
    using that by (auto simp: approval_requested_event_def approval_decided_event_def event_core_def new_event_def
        restorable_def split: if_splits option.splits)
  then show ?thesis
    unfolding trace_tool_approval_def Some option.case
    by (intro moves_if pr.moves_return moves_add_traces)
qed (simp add: trace_tool_approval_def pr.moves_return del: return_a_simp)

lemma moves_run_call: "moves (progress n) (run_call env request approvals already remaining raw rest)"
proof -
  have core: "event_core (approval_pause_event request call d remaining) = None"
    "restorable (approval_pause_event request call d remaining)" for call d
    by (simp_all add: approval_pause_event_def event_core_def new_event_def restorable_def)
  have pause: "moves (progress n) (on_run (paused_for_approval request pending d remaining))" for n pending d
    by (rule moves_control) (simp_all add: paused_for_approval_def step_cores_def)
  show ?thesis
    unfolding run_call_def Let_def
    by (intro pr.moves_then pr.moves_with_run pr.moves_skills pr.moves_read moves_trace_approval moves_emit_all)
      (auto intro!: pr.moves_then moves_execute_call moves_trace_and_emit core pause pr.moves_return
        simp del: return_a_simp)
qed

lemma moves_run_calls: "moves (progress n) (run_calls env request approvals already remaining cs)"
proof (induction cs)
  case (Cons c cs)
  then show ?case
    unfolding run_calls.simps
    by (intro pr.moves_then moves_run_call) (simp add: pr.moves_return del: return_a_simp)
qed (simp only: run_calls.simps pr.moves_return)

lemma moves_tool_loop: "moves (progress (nat remaining)) (tool_loop env request response remaining already pending)"
proof (induction "nat remaining" arbitrary: remaining response already pending)
  case 0
  have enter: "moves (progress m) (on_run (enter_loop remaining))" for m
    by (rule moves_control) (simp_all add: enter_loop_def step_cores_def)
  have finish: "moves (progress m) (finish_run env request remaining b)" for m b
    unfolding finish_run_def
    by (intro pr.moves_then moves_control moves_stop_run) (simp_all add: step_cores_def)
  from 0 have "\<not> remaining > 0" by simp
  then show ?case
    by (subst tool_loop.simps) (simp add: Let_def pr.moves_then pr.moves_with_run enter finish)
next
  case (Suc k)
  have enter: "moves (progress m) (on_run (enter_loop remaining))" for m
    by (rule moves_control) (simp_all add: enter_loop_def step_cores_def)
  have finish: "moves (progress m) (finish_run env request remaining b)" for m b
    unfolding finish_run_def
    by (intro pr.moves_then moves_control moves_stop_run) (simp_all add: step_cores_def)
  have k: "k = nat (remaining - 1)" using Suc.hyps(2) by simp
  have next_round: "moves (progress (nat remaining)) (bind_a (next_chat env request (remaining - 1)) (\<lambda>response'.
      tool_loop env request response' (remaining - 1) [] None))"
    using pr.moves_bind [OF moves_next_chat Suc.hyps(1) [OF k]] Suc.hyps(2) k by simp
  show ?case
    by (subst tool_loop.simps)
      (auto simp: Let_def simp del: return_a_simp
        intro!: pr.moves_then pr.moves_with_run enter finish moves_run_calls next_round pr.moves_return)
qed

lemma moves_run_initial_chat:
  "moves (progress (Suc (ag_max_tool_rounds request))) (run_initial_chat env request)"
proof -
  have "moves (progress 1) (with_run (\<lambda>r. bind_a (read_world (chat_args_of env request r (ag_messages request)
               (ag_memory_query request))) (chat_events env request)))"
    by (intro pr.moves_then pr.moves_with_run pr.moves_read moves_chat_events)
  moreover have "moves (progress (ag_max_tool_rounds request))
      (tool_loop env request response (int (ag_max_tool_rounds request)) [] None)" for response
    using moves_tool_loop [of "int (ag_max_tool_rounds request)"] by simp
  ultimately have "moves (progress (1 + ag_max_tool_rounds request)) (run_initial_chat env request)"
    unfolding run_initial_chat_def by (rule pr.moves_bind)
  then show ?thesis by simp
qed

lemma moves_run_agent_events:
  "moves (progress (Suc (ag_max_tool_rounds request))) (run_agent_events env request)"
proof -
  have start: "step_core ((new_step Step_START)\<lparr>as_metadata := m\<rparr>) = None" for m
    by (simp add: step_core_def tool_step_def new_step_def)
  have history: "moves (progress n) (on_run (\<lambda>r. r\<lparr>rn_history := f r\<rparr>))" for n f
    by (rule moves_control) (simp_all add: step_cores_def)
  have steps: "moves (progress n) (on_run (\<lambda>r. r\<lparr>rn_skill_revisions := x,
      rn_steps := rn_steps r @ [(new_step Step_START)\<lparr>as_metadata := m\<rparr>]\<rparr>))" for n x m
    by (rule moves_control) (simp_all add: step_cores_def map_filter_append map_filter_single start)
  have event: "event_core ((new_event Ev_RUN_STARTED)\<lparr>te_step_type := Some Step_START, te_metadata := m\<rparr>) = None"
    "restorable ((new_event Ev_RUN_STARTED)\<lparr>te_step_type := Some Step_START, te_metadata := m\<rparr>)" for m
    by (simp_all add: event_core_def new_event_def restorable_def)
  show ?thesis
    unfolding run_agent_events_def
    by (intro pr.moves_then pr.moves_world pr.moves_read pr.moves_check history steps moves_trace_and_emit
        event moves_run_initial_chat)
qed

end

section \<open>The properties\<close>

lemma current_tool_round_cores: "current_tool_round r = length (filter is_chat (step_cores r))"
proof -
  have "length (filter is_chat (List.map_filter step_core ss)) = length (filter (\<lambda>s. as_type s = Step_CHAT) ss)" for ss
    by (induction ss) (auto simp: step_core_def is_chat_def tool_step_def List.map_filter_simps split: option.split)
  then show ?thesis by (simp add: current_tool_round_def step_cores_def)
qed

text \<open>The same bound on the trace: a run asks the model at most once more than the number of tool rounds that the request allows,
  whatever the model, the tools and the consumer of the events do.\<close>

theorem recorded_rounds_bounded:
  assumes "\<And>e. moves consumer_frame (av_emit env e)"
    and "run_agent_events env request (new_run_state now fresh_id request, w) = (x, (r, w'))"
  shows "current_tool_round r \<le> ag_max_tool_rounds request + 1"
proof -
  have "agent_consumer env" by standard (rule assms(1))
  note live = agent_consumer.moves_run_agent_events [OF this]
  have "progress (Suc (ag_max_tool_rounds request)) (new_run_state now fresh_id request) r"
    by (rule movesD [OF live assms(2)])
  then obtain d where "step_cores r = step_cores (new_run_state now fresh_id request) @ d"
      "length (filter is_chat d) \<le> Suc (ag_max_tool_rounds request)"
    unfolding progress_def by blast
  moreover have "step_cores (new_run_state now fresh_id request) = []"
    by (simp add: step_cores_def new_run_state_def new_run_def)
  ultimately show ?thesis by (simp add: current_tool_round_cores)
qed

lemma event_restored_core:
  assumes "restorable e"
  shows "\<exists>s'. event_restored e s = Inr s'
     \<and> step_cores s' = step_cores s @ (case event_core e of None \<Rightarrow> [] | Some c \<Rightarrow> [c])
     \<and> rn_response s' = last_response (case event_core e of None \<Rightarrow> [] | Some c \<Rightarrow> [c]) (rn_response s)
     \<and> rn_request s' = rn_request s"
proof (cases "te_type e")
  case Ev_CHAT_COMPLETED
  with assms obtain response where response: "te_response e = Some response" by (auto simp: restorable_def)
  have "step_core ((new_step Step_CHAT)\<lparr>as_trace_event_id := te_event_id e, as_response := Some response,
      as_message := (case te_message e of None \<Rightarrow> Some (rs_message response) | m \<Rightarrow> m)\<rparr>) = event_core e"
    using Ev_CHAT_COMPLETED response
    by (simp add: step_core_def event_core_def new_step_def split: option.split)
  with Ev_CHAT_COMPLETED response show ?thesis
    by (simp add: event_restored_def chat_restored_def step_cores_def map_filter_append map_filter_single
        split: option.split) (auto simp: event_core_def)
next
  case Ev_RUN_STOPPED
  with assms show ?thesis
    by (auto simp: restorable_def event_restored_def stop_restored_def Let_def unhashable_def event_core_def
        step_cores_def map_filter_append map_filter_single step_core_def tool_step_def new_step_def
        split: option.split)
qed (use assms in \<open>auto simp: restorable_def event_restored_def event_core_def step_cores_def map_filter_append
    map_filter_single tool_restored_def approval_restored_def step_core_def tool_step_def new_step_def
    split: option.split\<close>)

lemma restored_cores:
  assumes "\<forall>e \<in> set es. restorable e" "distinct (event_ids es)" "set (event_ids es) \<inter> set A = {}"
  shows "\<exists>s'. restore_events es A s = (Inr (), s')
     \<and> step_cores s' = step_cores s @ List.map_filter event_core es
     \<and> rn_response s' = last_response (List.map_filter event_core es) (rn_response s)
     \<and> rn_request s' = rn_request s"
  using assms
proof (induction es arbitrary: A s)
  case (Cons e es)
  have fresh: "\<not> already_applied e A"
    using Cons.prems(3) by (auto simp: already_applied_def split: option.split)
  obtain s1 where s1: "event_restored e s = Inr s1"
      "step_cores s1 = step_cores s @ (case event_core e of None \<Rightarrow> [] | Some c \<Rightarrow> [c])"
      "rn_response s1 = last_response (case event_core e of None \<Rightarrow> [] | Some c \<Rightarrow> [c]) (rn_response s)"
      "rn_request s1 = rn_request s"
    using event_restored_core [of e s] Cons.prems(1) by auto
  let ?s2 = "traced e (at_sequence e s1)"
  have s2: "step_cores ?s2 = step_cores s1" "rn_response ?s2 = rn_response s1" "rn_request ?s2 = rn_request s1"
    by (simp_all add: step_cores_def traced_def at_sequence_def split: option.split)
  let ?A = "case te_event_id e of None \<Rightarrow> A | Some i \<Rightarrow> i # A"
  have "set (event_ids es) \<inter> set ?A = {}" using Cons.prems(2,3) by (auto split: option.splits)
  moreover have "distinct (event_ids es)" using Cons.prems(2) by (simp split: option.splits)
  ultimately obtain s3 where s3: "restore_events es ?A ?s2 = (Inr (), s3)"
      "step_cores s3 = step_cores ?s2 @ List.map_filter event_core es"
      "rn_response s3 = last_response (List.map_filter event_core es) (rn_response ?s2)"
      "rn_request s3 = rn_request ?s2"
    using Cons.IH [of ?A ?s2] Cons.prems(1) by auto
  have split_e: "List.map_filter event_core (e # es)
      = (case event_core e of None \<Rightarrow> [] | Some c \<Rightarrow> [c]) @ List.map_filter event_core es"
    by (simp add: List.map_filter_simps split: option.split)
  show ?case
    unfolding split_e by (rule exI [of _ s3]) (simp add: fresh s1 s2 s3)
qed simp

definition core_message :: "run_core \<Rightarrow> content option" where
  "core_message c = (case c of Chat_core _ m \<Rightarrow> m | Tool_core _ m _ _ _ _ \<Rightarrow> m)"

lemma run_transcript_cores:
  "run_transcript r = ag_messages (rn_request r) @ List.map_filter core_message (step_cores r)"
proof -
  have "List.map_filter as_message (filter (\<lambda>st. as_type st = Step_CHAT \<or> tool_step st) ss)
      = List.map_filter core_message (List.map_filter step_core ss)" for ss
    by (induction ss) (auto simp: step_core_def core_message_def List.map_filter_simps split: option.split)
  then show ?thesis by (simp add: run_transcript_def step_cores_def)
qed

text \<open>C3: A run that is interrupted anywhere, by an exception, a cancellation or the end of its consumer,
  can be rebuilt from its trace alone: the restoration of all its events on the snapshot the run started
  with succeeds, and it gives the transcript that the model would be sent next and the last response
  exactly as the live run had them.\<close>

theorem recovered_transcript_exact:
  assumes "\<And>e. moves consumer_frame (av_emit env e)"
    and "run_agent_events env request (r0, w) = (x, (r, w'))"
    and "r0 = new_run_state now fresh_id request" "distinct (event_ids (rn_trace r))"
  shows "\<exists>s. restore_events (rn_trace r) [] r0 = (Inr (), s)
     \<and> run_transcript s = run_transcript r \<and> rn_response s = rn_response r"
proof -
  have "agent_consumer env" by standard (rule assms(1))
  note live = agent_consumer.moves_run_agent_events [OF this]
  have start: "step_cores r0 = []" "event_cores r0 = []" "rn_response r0 = None" "restorable_trace r0"
    by (simp_all add: assms(3) new_run_state_def new_run_def step_cores_def event_cores_def restorable_trace_def)
  have "progress (Suc (ag_max_tool_rounds request)) r0 r"
    by (rule movesD [OF live assms(2)])
  then obtain d where d: "step_cores r = d" "event_cores r = d" "rn_response r = last_response d None"
      "ag_messages (rn_request r) = ag_messages (rn_request r0)" "restorable_trace r"
    using start unfolding progress_def by auto
  obtain s where s: "restore_events (rn_trace r) [] r0 = (Inr (), s)"
      "step_cores s = step_cores r0 @ event_cores r"
      "rn_response s = last_response (event_cores r) (rn_response r0)" "rn_request s = rn_request r0"
    using restored_cores [of "rn_trace r" "[]" r0] d(5) assms(4)
    by (auto simp: restorable_trace_def event_cores_def)
  show ?thesis
    by (rule exI [of _ s]) (simp add: s run_transcript_cores start d)
qed

section \<open>An environment to run the loop in\<close>

text \<open>The model asks for one tool call first and answers then; ids are counted.\<close>

definition loop_response :: "nat \<Rightarrow> tool_call list \<Rightarrow> chat_response" where
  "loop_response ref calls = \<lparr>rs_response_id = None, rs_model_id = ''m'',
     rs_message = (message ref Role_ASSISTANT)\<lparr>c_tool_calls := Some calls\<rparr>, rs_finish_reason = None,
     rs_usage = None, rs_metadata = []\<rparr>"

definition loop_env :: "nat agent_env" where
  "loop_env =
     \<lparr>av_get_context = \<lambda>scope i w. (Inr \<lparr>ctx_id = i, ctx_owner_id = None, ctx_revision = 0, ctx_messages = [],
        ctx_metadata = []\<rparr>, w),
      av_append = \<lambda>scope i m w. (Inr \<lparr>ctx_id = i, ctx_owner_id = None, ctx_revision = 0, ctx_messages = [m],
        ctx_metadata = []\<rparr>, w),
      av_skill = \<lambda>n w. Inr \<lparr>sv_is_enabled = True, sv_revision = None\<rparr>,
      av_authorize = \<lambda>c w. Inr \<lparr>sd_allowed = True, sd_reason = None, sd_requires_approval = False,
        sd_approval_request = None, sd_metadata = []\<rparr>,
      av_execute = \<lambda>r c w. (Inr \<lparr>tr_id = tc_id c, tr_result = [], tr_metadata = []\<rparr>, w),
      av_list_tools = \<lambda>scope w. [], av_has_tool = \<lambda>n w. True,
      av_compose = \<lambda>a w. (Inr \<lparr>rq_model_id = ca_model_id a, rq_messages = ca_messages a, rq_skills = None,
        rq_tools = ca_tools a, rq_prompt_cache = None, rq_metadata = ca_metadata a\<rparr>, w),
      av_resolve_images = \<lambda>scope rq w. (Inr rq, w),
      av_chat = \<lambda>p rq w. (Inr (loop_response w (if rq_messages rq = [] then [ledger_call] else [])), Suc w),
      av_chat_stream = \<lambda>p rq w. (Inr ([], None), w),
      av_create_memories = \<lambda>rq res. [], av_write_memory = \<lambda>scope m w. (Inr (m, ''create''), w),
      av_dump_result = \<lambda>r. Inr ''{}'', av_elapsed = \<lambda>w. 1, av_now = \<lambda>w. 0,
      av_uuid = \<lambda>w. (nat_str w, Suc w), av_ref = \<lambda>w. (w, Suc w),
      av_emit = \<lambda>e s. (Inr (), s)\<rparr>"

lemma loop_env_silent: "moves consumer_frame (av_emit loop_env e)"
  by (simp add: moves_def consumer_frame_def loop_env_def)

definition loop_request :: agent_request where
  "loop_request = new_request ''p'' ''x'' ''m''"

definition loop_end :: "(signal + unit) \<times> agent_run \<times> nat" where
  "loop_end = run_agent_events loop_env loop_request (new_run_state 0 ''r'' loop_request, 0)"

lemma loop_end_ids: "distinct (event_ids (rn_trace (fst (snd loop_end))))"
  by code_simp

lemma loop_end_split:
  "run_agent_events loop_env loop_request (new_run_state 0 ''r'' loop_request, 0)
     = (fst loop_end, (fst (snd loop_end), snd (snd loop_end)))"
  by (simp add: loop_end_def)

lemma recovered_transcript_exact_witness:
  "\<exists>s. restore_events (rn_trace (fst (snd loop_end))) [] (new_run_state 0 ''r'' loop_request) = (Inr (), s)
     \<and> run_transcript s = run_transcript (fst (snd loop_end))
     \<and> rn_response s = rn_response (fst (snd loop_end))"
  by (rule recovered_transcript_exact [OF loop_env_silent loop_end_split refl loop_end_ids])

end
