(* ===== verification/AgentRuns.thy ===== *)
theory AgentRuns
  imports AgentLoopFacts
begin

text \<open>
  The runs that are kept in the stores (\<open>application/agent_runs.py\<close>): the consumer of the agent loop that
  journals every event and saves the snapshot, the controls (pause, cancel, retry, operator resolution),
  the failures, and the executor that holds the lease while an operation runs
  (\<open>infra/adapters/agent/executor.py\<close>).

  The world is the database, the memory of the executor, the events handed to the client, and the rest,
  which the collaborators of the loop own.  Code between two awaits is one step; at an await or a
  \<open>yield\<close> other coroutines run, which the collaborators and \<open>rv_yield\<close> stand for: they may change the
  database as well.  The three registers are configured, as the runtime of the program does.
\<close>

section \<open>The world and the service\<close>

text \<open>\<open>xe_tasks\<close>: the runs that have a task, with whether it is done.\<close>

record run_executor =
  xe_id :: string
  xe_lease_ttl :: int
  xe_tasks :: "(string, bool) dict"
  xe_cancel_requested :: "string list"
  xe_lease_lost :: "string list"
  xe_closing :: bool

text \<open>The counter of active runs; \<open>close\<close> blocks new runs, waits for the counter and pauses the rest.\<close>

record run_lifecycle =
  lc_closing :: bool
  lc_active :: nat

record 'x run_world =
  rw_db :: agent_db
  rw_executor :: run_executor
  rw_lifecycle :: run_lifecycle
  rw_sent :: "agent_event list"
  rw_rest :: 'x

text \<open>
  \<open>rv_yield\<close> is what happens while the client has an event; its answer is whether the generator is
  resumed, and not closed or cancelled there.  \<open>rv_timed_out\<close> says whether the deadline of a cancelled
  operation is over.
\<close>

record 'x run_service =
  rv_env :: "'x run_world agent_env"
  rv_scope :: "principal_scope option"
  rv_held :: "held_lease option"
  rv_yield :: "agent_event \<Rightarrow> 'x run_world \<Rightarrow> bool \<times> 'x run_world"
  rv_timed_out :: "'x run_world \<Rightarrow> bool"

type_synonym ('x, 'a) run_act = "(error, agent_run \<times> 'x run_world, 'a) act"

definition now_of :: "'x run_service \<Rightarrow> 'x run_world \<Rightarrow> int" where
  "now_of sv w = av_now (rv_env sv) w"

definition set_runs :: "run_table \<Rightarrow> 'x run_world \<Rightarrow> 'x run_world" where
  "set_runs d w = w\<lparr>rw_db := (rw_db w)\<lparr>db_runs := d\<rparr>\<rparr>"

definition set_traces :: "trace_table \<Rightarrow> 'x run_world \<Rightarrow> 'x run_world" where
  "set_traces t w = w\<lparr>rw_db := (rw_db w)\<lparr>db_traces := t\<rparr>\<rparr>"

definition set_ledger :: "ledger \<Rightarrow> 'x run_world \<Rightarrow> 'x run_world" where
  "set_ledger d w = w\<lparr>rw_db := (rw_db w)\<lparr>db_ledger := d\<rparr>\<rparr>"

definition update_run :: "(agent_run \<Rightarrow> agent_run) \<Rightarrow> ('x, unit) run_act" where
  "update_run f s = (Inr (), (f (fst s), snd s))"

section \<open>Snapshots and the journal\<close>

definition save_run :: "'x run_service \<Rightarrow> ('x, unit) run_act" where
  "save_run sv s =
     (case save_state (rv_held sv) (rv_scope sv) (now_of sv (snd s)) (fst s) (db_runs (rw_db (snd s))) of
        (x, d) \<Rightarrow> (x, (fst s, set_runs d (snd s))))"

text \<open>\<open>_add_trace\<close>, which does not fail.\<close>

definition add_run_trace :: "'x run_service \<Rightarrow> agent_event \<Rightarrow> ('x, agent_event) run_act" where
  "add_run_trace sv e s = (case add_trace (rv_env sv) e s of (x, s') \<Rightarrow> (Inr (case x of Inr e' \<Rightarrow> e' | Inl _ \<Rightarrow> e), s'))"

text \<open>
  \<open>event.sequence = append_event(run_id, event)\<close>: the event is an object of the trace of the snapshot,
  the one with its id.
\<close>

definition numbered :: "agent_event \<Rightarrow> nat \<Rightarrow> agent_event \<Rightarrow> agent_event" where
  "numbered e n x = (if te_event_id x = te_event_id e then x\<lparr>te_sequence := Some n\<rparr> else x)"

definition journal :: "'x run_service \<Rightarrow> agent_event \<Rightarrow> ('x, agent_event) run_act" where
  "journal sv e s =
     (case append_event (now_of sv (snd s)) (rn_run_id (fst s)) e (db_traces (rw_db (snd s))) of
        (n, t) \<Rightarrow> (Inr (e\<lparr>te_sequence := Some n\<rparr>),
          ((fst s)\<lparr>rn_trace := map (numbered e n) (rn_trace (fst s)), rn_applied_trace_sequence := Some n\<rparr>,
           set_traces t (snd s))))"

definition trace_cursor :: "agent_run \<Rightarrow> nat" where
  "trace_cursor r =
     max (fold max (map (\<lambda>e. case te_sequence e of None \<Rightarrow> 0 | Some n \<Rightarrow> n) (rn_trace r)) 0)
       (case rn_applied_trace_sequence r of None \<Rightarrow> 0 | Some n \<Rightarrow> n)"

definition with_pending_text :: "trace_table \<Rightarrow> agent_run \<Rightarrow> agent_run" where
  "with_pending_text t r =
     (if rn_status r \<noteq> Run_RUNNING then r
      else r\<lparr>rn_trace := rn_trace r @ takeWhile (\<lambda>e. te_type e = Ev_CHAT_DELTA)
               (list_events (rn_run_id r) (trace_cursor r) None t)\<rparr>)"

definition load_run :: "principal_scope option \<Rightarrow> string \<Rightarrow> agent_db \<Rightarrow> error + agent_run" where
  "load_run scope run_id db = map_sum id (with_pending_text (db_traces db)) (get_state scope run_id (db_runs db))"

definition list_runs ::
  "string option \<Rightarrow> nat option \<Rightarrow> string option \<Rightarrow> agent_run_status option \<Rightarrow> string option
     \<Rightarrow> principal_scope option \<Rightarrow> agent_db \<Rightarrow> agent_run list" where
  "list_runs cursor limit owner_id status context_id scope db =
     map (with_pending_text (db_traces db)) (query_states cursor limit owner_id status context_id scope (db_runs db))"

definition list_trace ::
  "principal_scope option \<Rightarrow> string \<Rightarrow> nat \<Rightarrow> nat option \<Rightarrow> agent_db \<Rightarrow> error + agent_event list" where
  "list_trace scope run_id after_sequence limit db =
     bind_e (get_run_status scope run_id (db_runs db)) (\<lambda>_.
     Inr (list_events run_id after_sequence limit (db_traces db)))"

definition list_tool_executions ::
  "principal_scope option \<Rightarrow> string \<Rightarrow> agent_db \<Rightarrow> error + execution_attempt list" where
  "list_tool_executions scope run_id db =
     bind_e (load_run scope run_id db) (\<lambda>_. Inr (list_attempts scope run_id (db_ledger db)))"

section \<open>Pausing at a checkpoint\<close>

fun event_type_value :: "agent_event_type \<Rightarrow> string" where
  "event_type_value Ev_RUN_STARTED = ''run_started''"
| "event_type_value Ev_CHAT_DELTA = ''chat_delta''"
| "event_type_value Ev_CHAT_COMPLETED = ''chat_completed''"
| "event_type_value Ev_TOOL_APPROVAL_REQUESTED = ''tool_approval_requested''"
| "event_type_value Ev_TOOL_APPROVAL_DECIDED = ''tool_approval_decided''"
| "event_type_value Ev_TOOL_STARTED = ''tool_started''"
| "event_type_value Ev_TOOL_COMPLETED = ''tool_completed''"
| "event_type_value Ev_TOOL_FAILED = ''tool_failed''"
| "event_type_value Ev_TOOL_EXECUTION_RESOLVED = ''tool_execution_resolved''"
| "event_type_value Ev_MEMORY_WRITTEN = ''memory_written''"
| "event_type_value Ev_RUN_PAUSED = ''run_paused''"
| "event_type_value Ev_RUN_STOPPED = ''run_stopped''"

definition checkpoint_event :: "agent_event_type \<Rightarrow> bool" where
  "checkpoint_event ty \<longleftrightarrow> ty \<in> {Ev_RUN_STARTED, Ev_CHAT_COMPLETED, Ev_TOOL_APPROVAL_REQUESTED,
     Ev_TOOL_APPROVAL_DECIDED, Ev_TOOL_COMPLETED, Ev_TOOL_FAILED}"

definition manual_pause :: "string \<Rightarrow> string \<Rightarrow> agent_run \<Rightarrow> agent_run" where
  "manual_pause at_event why r =
     r\<lparr>rn_status := Run_PAUSED, rn_stop_reason := None, rn_pause_request := None,
       rn_pause := Some \<lparr>ap_cause = Pause_MANUAL, ap_checkpoint = at_event, ap_resumable = True,
         ap_reason = Some why\<rparr>\<rparr>"

definition manual_pause_event :: "string \<Rightarrow> string \<Rightarrow> agent_event" where
  "manual_pause_event at_event why =
     (new_event Ev_RUN_PAUSED)\<lparr>te_metadata := [(''reason'', PStr ''pause''), (''control_reason'', PStr why),
        (''checkpoint'', PStr at_event)]\<rparr>"

definition pause_if_requested :: "'x run_service \<Rightarrow> agent_event \<Rightarrow> ('x, agent_event option) run_act" where
  "pause_if_requested sv e s =
     (case get_state (rv_scope sv) (rn_run_id (fst s)) (db_runs (rw_db (snd s))) of
        Inl err \<Rightarrow> (Inl err, s)
      | Inr stored \<Rightarrow>
          (case rn_pause_request stored of
             None \<Rightarrow> (Inr None, s)
           | Some reason \<Rightarrow>
               if rn_status stored \<noteq> Run_RUNNING \<or> rn_status (fst s) \<noteq> Run_RUNNING then (Inr None, s)
               else if \<not> checkpoint_event (te_type e)
               then (Inr None, ((fst s)\<lparr>rn_pause_request := Some reason\<rparr>, snd s))
               else let at_event = event_type_value (te_type e);
                        why = (case reason of None \<Rightarrow> ''pause'' | Some t \<Rightarrow> t)
                    in bind_a (update_run (manual_pause at_event why)) (\<lambda>_.
                       bind_a (add_run_trace sv (manual_pause_event at_event why)) (\<lambda>p.
                       bind_a (journal sv p) (\<lambda>p.
                       bind_a (save_run sv) (\<lambda>_. return_a (Some p))))) s))"

section \<open>The consumer of the loop\<close>

text \<open>An exception in the body of the consumer ends the generator: it is no exception of the loop.\<close>

definition in_body :: "('x, 'a) run_act \<Rightarrow> ('x run_world, 'a) gen" where
  "in_body m s = (case m s of (Inl e, s') \<Rightarrow> (Inl (Closed (Some e)), s') | (Inr x, s') \<Rightarrow> (Inr x, s'))"

definition hand_on :: "'x run_service \<Rightarrow> agent_event \<Rightarrow> ('x run_world, unit) gen" where
  "hand_on sv e s =
     (case rv_yield sv e ((snd s)\<lparr>rw_sent := rw_sent (snd s) @ [e]\<rparr>) of
        (resumed, w) \<Rightarrow> (if resumed then Inr () else Inl Cancelled, (fst s, w)))"

definition stored_status :: "'x run_service \<Rightarrow> ('x, agent_run_status) run_act" where
  "stored_status sv s = (get_run_status (rv_scope sv) (rn_run_id (fst s)) (db_runs (rw_db (snd s))), s)"

definition stored_run :: "'x run_service \<Rightarrow> ('x, agent_run) run_act" where
  "stored_run sv s = (load_run (rv_scope sv) (rn_run_id (fst s)) (rw_db (snd s)), s)"

definition store_delta :: "'x run_service \<Rightarrow> agent_event \<Rightarrow> ('x run_world, unit) gen" where
  "store_delta sv e =
     bind_a (in_body (stored_status sv)) (\<lambda>status.
       if status = Run_CANCELED then raise_a (Closed None)
       else bind_a (in_body (journal sv e)) (hand_on sv))"

definition store_checkpoint :: "'x run_service \<Rightarrow> agent_event \<Rightarrow> ('x run_world, unit) gen" where
  "store_checkpoint sv e =
     bind_a (in_body (stored_run sv)) (\<lambda>stored.
       if rn_status stored = Run_CANCELED then raise_a (Closed None)
       else bind_a (in_body (journal sv e)) (\<lambda>e.
            bind_a (in_body (pause_if_requested sv e)) (\<lambda>before.
            bind_a (in_body (save_run sv)) (\<lambda>_.
            bind_a (hand_on sv e) (\<lambda>_.
            bind_a (case before of Some p \<Rightarrow> return_a (Some p) | None \<Rightarrow> in_body (pause_if_requested sv e)) (\<lambda>paused.
              case paused of
                None \<Rightarrow> return_a ()
              | Some p \<Rightarrow> bind_a (hand_on sv p) (\<lambda>_. raise_a (Closed None))))))))"

definition store_event :: "'x run_service \<Rightarrow> agent_event \<Rightarrow> ('x run_world, unit) gen" where
  "store_event sv e = (if te_type e = Ev_CHAT_DELTA then store_delta sv e else store_checkpoint sv e)"

section \<open>Failures\<close>

text \<open>An operation on a snapshot of its own, which \<open>get_state\<close> has read.\<close>

definition on_snapshot :: "agent_run \<Rightarrow> ('x, 'a) run_act \<Rightarrow> (error, 'x run_world, 'a) act" where
  "on_snapshot r m w = (case m (r, w) of (x, (_, w')) \<Rightarrow> (x, w'))"

definition with_loaded ::
  "'x run_service \<Rightarrow> string \<Rightarrow> (agent_run \<Rightarrow> (error, 'x run_world, 'a) act) \<Rightarrow> (error, 'x run_world, 'a) act" where
  "with_loaded sv run_id k w =
     (case load_run (rv_scope sv) run_id (rw_db w) of Inl e \<Rightarrow> (Inl e, w) | Inr r \<Rightarrow> k r w)"

definition failure_event :: "agent_failure \<Rightarrow> agent_event" where
  "failure_event f =
     (new_event Ev_RUN_STOPPED)\<lparr>te_error_type := Some (af_error_type f), te_error_message := Some (af_message f),
        te_payload := map_option (\<lambda>d. [(''error_detail'', PStr d)]) (af_detail f),
        te_metadata := [(''reason'', PStr ''failed'')]\<rparr>"

definition failed_run :: "agent_failure \<Rightarrow> agent_run \<Rightarrow> agent_run" where
  "failed_run f r =
     r\<lparr>rn_status := Run_FAILED, rn_stop_reason := None, rn_pending_tool_calls := [],
       rn_pending_approval_requests := [], rn_failure := Some f\<rparr>"

definition mark_failed :: "'x run_service \<Rightarrow> string \<Rightarrow> error \<Rightarrow> (error, 'x run_world, unit) act" where
  "mark_failed sv run_id err =
     with_loaded sv run_id (\<lambda>r.
       if rn_status r \<noteq> Run_RUNNING then return_a ()
       else on_snapshot r (let f = agent_run_failure err in
            bind_a (add_run_trace sv (failure_event f)) (\<lambda>e.
            bind_a (journal sv e) (\<lambda>_.
            bind_a (update_run (failed_run f)) (\<lambda>_. save_run sv)))))"

definition interrupted_event :: "agent_pause_cause \<Rightarrow> recovery_checkpoint \<Rightarrow> agent_event" where
  "interrupted_event cause ck =
     (new_event Ev_RUN_PAUSED)\<lparr>te_metadata := [(''reason'', PStr (pause_source cause)),
        (''interrupted'', PBool True), (''checkpoint'', PStr (ck_name ck)),
        (''recovery_eligible'', PBool (ck_eligible ck))]\<rparr>"

definition interrupted_run :: "agent_pause_cause \<Rightarrow> recovery_checkpoint \<Rightarrow> agent_run \<Rightarrow> agent_run" where
  "interrupted_run cause ck r =
     r\<lparr>rn_status := Run_PAUSED, rn_stop_reason := None,
       rn_pause := Some \<lparr>ap_cause = cause, ap_checkpoint = ck_name ck, ap_resumable = ck_eligible ck,
         ap_reason = None\<rparr>\<rparr>"

definition reconcile_executions ::
  "'x run_service \<Rightarrow> string \<Rightarrow> (error, 'x run_world, execution_attempt list) act" where
  "reconcile_executions sv run_id w =
     (let ledger = db_ledger (rw_db w)
      in case mark_started_unknown (rv_scope sv) (list_attempts (rv_scope sv) run_id ledger) ledger of
           (x, ledger') \<Rightarrow> (x, set_ledger ledger' w))"

definition inspect_run ::
  "'x run_service \<Rightarrow> execution_attempt list \<Rightarrow> ('x, recovery_checkpoint) run_act" where
  "inspect_run sv attempts s =
     (case inspect_checkpoint (Some (list_events (rn_run_id (fst s)) 0 None (db_traces (rw_db (snd s)))))
             (Some attempts) (fst s) of
        (x, r) \<Rightarrow> (x, (r, snd s)))"

definition mark_interrupted ::
  "'x run_service \<Rightarrow> string \<Rightarrow> agent_pause_cause \<Rightarrow> (error, 'x run_world, unit) act" where
  "mark_interrupted sv run_id cause =
     with_loaded sv run_id (\<lambda>r.
       if rn_status r \<noteq> Run_RUNNING then return_a ()
       else bind_a (reconcile_executions sv run_id) (\<lambda>attempts.
         on_snapshot r
           (bind_a (inspect_run sv attempts) (\<lambda>ck s.
              if rn_status (fst s) \<noteq> Run_RUNNING then save_run sv s
              else bind_a (add_run_trace sv (interrupted_event cause ck)) (\<lambda>e.
                   bind_a (journal sv e) (\<lambda>_.
                   bind_a (update_run (interrupted_run cause ck)) (\<lambda>_. save_run sv))) s))))"

definition record_failure :: "'x run_service \<Rightarrow> string \<Rightarrow> error \<Rightarrow> (error, 'x run_world, unit) act" where
  "record_failure sv run_id err =
     (if isinstance (error_class err) (Agent AgentRunTimeoutError)
      then mark_interrupted sv run_id Pause_TIMEOUT else mark_failed sv run_id err)"

section \<open>Running and storing\<close>

text \<open>The \<open>except\<close> clauses: the result is the exception that leaves them.\<close>

definition failed_stream :: "'x run_service \<Rightarrow> error \<Rightarrow> ('x, unit) run_act" where
  "failed_stream sv err =
     (if isinstance (error_class err) (Agent AgentRunCanceledError) then raise_a err
      else bind_a (stored_run sv) (\<lambda>stored.
           bind_a (if rn_status stored \<noteq> Run_CANCELED then save_run sv else return_a ()) (\<lambda>_.
           bind_a (\<lambda>s. case mark_failed sv (rn_run_id (fst s)) err (snd s) of (x, w) \<Rightarrow> (x, (fst s, w))) (\<lambda>_.
           raise_a err))))"

definition final_save :: "'x run_service \<Rightarrow> ('x, unit) run_act" where
  "final_save sv s =
     (case get_state (rv_scope sv) (rn_run_id (fst s)) (db_runs (rw_db (snd s))) of
        Inl e \<Rightarrow> (Inl e, s)
      | Inr stored \<Rightarrow>
          if rn_status stored = Run_CANCELED \<or> rn_status stored = Run_FAILED then (Inr (), s) else save_run sv s)"

definition stored_failure :: "'x run_service \<Rightarrow> signal + unit \<Rightarrow> ('x run_world, unit) gen" where
  "stored_failure sv x s =
     (case x of
        Inr _ \<Rightarrow> (Inr (), s)
      | Inl Cancelled \<Rightarrow> (Inl Cancelled, s)
      | Inl (Closed None) \<Rightarrow> (Inr (), s)
      | Inl (Closed (Some e)) \<Rightarrow> (case failed_stream sv e s of (y, s') \<Rightarrow> (map_sum Raised id y, s'))
      | Inl (Raised e) \<Rightarrow> (case failed_stream sv e s of (y, s') \<Rightarrow> (map_sum Raised id y, s')))"

definition stream_and_store ::
  "'x run_service \<Rightarrow> ('x run_world agent_env \<Rightarrow> ('x run_world, unit) gen) \<Rightarrow> ('x run_world, unit) gen" where
  "stream_and_store sv events s =
     (case events ((rv_env sv)\<lparr>av_emit := store_event sv\<rparr>) s of
        (x, s1) \<Rightarrow> (case stored_failure sv x s1 of
          (y, s2) \<Rightarrow> (case final_save sv s2 of
             (Inl e, s3) \<Rightarrow> (Inl (Raised e), s3)
           | (Inr _, s3) \<Rightarrow> (y, s3))))"

section \<open>The controls\<close>

definition checked :: "error + 'a \<Rightarrow> (error, 's, 'a) act" where
  "checked r = lift_a r"

text \<open>\<open>x or default\<close> for a string that may be missing.\<close>

definition string_or :: "string option \<Rightarrow> string \<Rightarrow> string" where
  "string_or x d = (case x of None \<Rightarrow> d | Some t \<Rightarrow> if t = [] then d else t)"

definition pause_run :: "'x run_service \<Rightarrow> string \<Rightarrow> string option \<Rightarrow> (error, 'x run_world, agent_run) act" where
  "pause_run sv run_id reason =
     with_loaded sv run_id (\<lambda>r.
       if rn_status r = Run_PAUSED then return_a r
       else if rn_status r \<noteq> Run_RUNNING then raise_a (run_error ''Agent run is not running'')
       else let r' = r\<lparr>rn_pause_request := Some (Some (string_or reason ''pause''))\<rparr>
            in on_snapshot r' (bind_a (save_run sv) (\<lambda>_. return_a r')))"

text \<open>\<open>executor.cancel\<close>: the task is cancelled at its next await.\<close>

definition executor_cancel :: "string \<Rightarrow> run_executor \<Rightarrow> bool \<times> run_executor" where
  "executor_cancel run_id x =
     (if dict_get (xe_tasks x) run_id = Some False
      then (True, x\<lparr>xe_cancel_requested := run_id # xe_cancel_requested x\<rparr>) else (False, x))"

definition cancel_event :: "string option \<Rightarrow> agent_event" where
  "cancel_event reason =
     (new_event Ev_RUN_STOPPED)\<lparr>te_metadata := (''reason'', PStr ''canceled'')
        # (case reason of None \<Rightarrow> [] | Some t \<Rightarrow> if t = [] then [] else [(''control_reason'', PStr t)])\<rparr>"

definition canceled_run :: "string option \<Rightarrow> agent_run \<Rightarrow> agent_run" where
  "canceled_run reason r =
     r\<lparr>rn_status := Run_CANCELED, rn_stop_reason := None, rn_pending_tool_calls := [],
       rn_pending_approval_requests := [], rn_pause := None,
       rn_cancel_reason := Some (string_or reason ''canceled'')\<rparr>"

definition snapshot_of :: "('x, agent_run) run_act" where
  "snapshot_of s = (Inr (fst s), s)"

definition cancel_run :: "'x run_service \<Rightarrow> string \<Rightarrow> string option \<Rightarrow> (error, 'x run_world, agent_run) act" where
  "cancel_run sv run_id reason =
     with_loaded sv run_id (\<lambda>r w.
       if rn_status r = Run_CANCELED then (Inr r, w)
       else if rn_status r = Run_FINISHED \<or> rn_status r = Run_FAILED
       then (Inl (run_error ''Agent run is already stopped''), w)
       else on_snapshot r
          (bind_a (add_run_trace sv (cancel_event reason)) (\<lambda>e.
           bind_a (update_run (canceled_run reason)) (\<lambda>_.
           bind_a (journal sv e) (\<lambda>_.
           bind_a (save_run sv) (\<lambda>_. snapshot_of)))))
          (w\<lparr>rw_executor := snd (executor_cancel run_id (rw_executor w))\<rparr>))"

section \<open>Retrying\<close>

definition unrecoverable_pause :: "agent_run \<Rightarrow> bool" where
  "unrecoverable_pause r \<longleftrightarrow> rn_status r = Run_PAUSED \<and> \<not> can_resume r"

definition can_retry :: "agent_run \<Rightarrow> bool" where
  "can_retry r \<longleftrightarrow> rn_status r = Run_CANCELED \<or> rn_status r = Run_FAILED \<or> unrecoverable_pause r"

text \<open>\<open>isinstance(previous_attempt, int)\<close> holds of booleans as well.\<close>

definition retry_attempt :: "pyval \<Rightarrow> int" where
  "retry_attempt previous =
     (case previous of PInt n \<Rightarrow> n + 1 | PBool b \<Rightarrow> (if b then 2 else 1) | _ \<Rightarrow> 1)"

definition retry_request :: "string \<Rightarrow> agent_run \<Rightarrow> agent_request" where
  "retry_request retry_id source =
     (let m = ag_metadata (rn_request source);
          attempt = retry_attempt (meta_get m ''retry_attempt'')
      in (rn_request source)\<lparr>ag_tool_approvals := [], ag_pause_on_approval := True,
           ag_metadata := dict_set ''retry_attempt'' (PInt attempt)
             (dict_set ''retry_of'' (PStr (rn_run_id source)) (dict_set ''run_id'' (PStr retry_id) m))\<rparr>)"

record retry_plan =
  pl_source :: agent_run
  pl_request :: agent_request
  pl_retried_run_id :: string
  pl_abandon :: bool

definition make_plan :: "'x run_service \<Rightarrow> string \<Rightarrow> string option \<Rightarrow> (error, 'x run_world, retry_plan) act" where
  "make_plan sv run_id retried_run_id =
     with_loaded sv run_id (\<lambda>source.
       if \<not> can_retry source
       then raise_a (run_error ''Only canceled, failed, or unrecoverable paused agent runs can be retried'')
       else (\<lambda>w. case (if string_or retried_run_id [] = [] then av_uuid (rv_env sv) w
                       else (string_or retried_run_id [], w)) of
         (retry_id, w) \<Rightarrow>
           let request = retry_request retry_id source
           in (case metadata_run_id (ag_metadata request) of
                 None \<Rightarrow> (Inl (run_error ''Retry request did not allocate a run id''), w)
               | Some i \<Rightarrow> (Inr \<lparr>pl_source = source, pl_request = request, pl_retried_run_id = i,
                     pl_abandon = unrecoverable_pause source\<rparr>, w))))"

definition abandoned_metadata :: "string \<times> nat \<Rightarrow> pyval" where
  "abandoned_metadata p = PDict [(''tool_call_id'', PStr (fst p)), (''attempt'', PInt (int (snd p)))]"

definition retry_resolution_event :: "string \<Rightarrow> (string \<times> nat) list \<Rightarrow> agent_event" where
  "retry_resolution_event retried_run_id abandoned =
     (new_event Ev_TOOL_EXECUTION_RESOLVED)\<lparr>te_metadata :=
        [(''resolution'', PStr (resolution_value Abandon_and_retry_run)),
         (''retried_run_id'', PStr retried_run_id),
         (''tool_executions'', PList (map abandoned_metadata abandoned))]\<rparr>"

definition abandon_pause :: "'x run_service \<Rightarrow> retry_plan \<Rightarrow> (error, 'x run_world, unit) act" where
  "abandon_pause sv plan w =
     (case abandon_attempts (rv_scope sv) (now_of sv w) (rn_run_id (pl_source plan)) (db_ledger (rw_db w)) of
        (Inl e, d) \<Rightarrow> (Inl e, set_ledger d w)
      | (Inr abandoned, d) \<Rightarrow>
          on_snapshot (pl_source plan)
            (bind_a (add_run_trace sv (retry_resolution_event (pl_retried_run_id plan) abandoned)) (\<lambda>e.
             bind_a (journal sv e) (\<lambda>_. save_run sv)))
            (set_ledger d w))"

text \<open>The plan of \<open>retry\<close> and \<open>retry_stream\<close>; the run of its request follows.\<close>

definition prepare_retry :: "'x run_service \<Rightarrow> string \<Rightarrow> string option \<Rightarrow> (error, 'x run_world, agent_request) act" where
  "prepare_retry sv run_id retried_run_id =
     bind_a (make_plan sv run_id retried_run_id) (\<lambda>plan.
     bind_a (if pl_abandon plan then abandon_pause sv plan else return_a ()) (\<lambda>_.
     return_a (pl_request plan)))"

section \<open>The operator's decision\<close>

definition resolution_event ::
  "execution_attempt \<Rightarrow> execution_resolution \<Rightarrow> string option \<Rightarrow> bool \<Rightarrow> agent_event" where
  "resolution_event a resolution reason eligible =
     (new_event Ev_TOOL_EXECUTION_RESOLVED)\<lparr>te_tool_call := Some (ea_tool_call a),
        te_tool_result := (if resolution = Confirm_completed then ea_result a else None),
        te_metadata := [(''resolution'', PStr (resolution_value resolution)),
          (''attempt'', PInt (int (ea_attempt a))), (''reason'', of_str_opt reason),
          (''recovery_eligible'', PBool eligible)]\<rparr>"

definition resolved_pause :: "bool \<Rightarrow> agent_run \<Rightarrow> agent_run" where
  "resolved_pause eligible r =
     r\<lparr>rn_pause := map_option (\<lambda>p. p\<lparr>ap_checkpoint := ''operator_resolution'', ap_resumable := eligible\<rparr>)
         (rn_pause r)\<rparr>"

definition resolve_tool_execution ::
  "'x run_service \<Rightarrow> string \<Rightarrow> string \<Rightarrow> nat \<Rightarrow> execution_resolution \<Rightarrow> metadata option \<Rightarrow> string option
     \<Rightarrow> (error, 'x run_world, agent_run) act" where
  "resolve_tool_execution sv run_id call_id attempt resolution result reason =
     with_loaded sv run_id (\<lambda>r w.
       case resolve_attempt (rv_scope sv) (now_of sv w) (rn_status r) (Attempt_Key run_id call_id attempt)
              resolution reason result (db_ledger (rw_db w)) of
         (Inl e, d) \<Rightarrow> (Inl e, set_ledger d w)
       | (Inr a, d) \<Rightarrow>
           let eligible = \<not> (\<exists>x \<in> set (dict_values (latest_attempts (list_attempts (rv_scope sv) run_id d))).
                 blocks_run x)
           in on_snapshot r
                (bind_a (update_run (resolved_pause eligible)) (\<lambda>_.
                 bind_a (add_run_trace sv (resolution_event a resolution reason eligible)) (\<lambda>e.
                 bind_a (journal sv e) (\<lambda>_.
                 bind_a (save_run sv) (\<lambda>_. snapshot_of)))))
                (set_ledger d w))"

section \<open>The executor\<close>

definition acquire_execution :: "string \<Rightarrow> int \<Rightarrow> (error, 'x run_world, nat) act" where
  "acquire_execution run_id now w =
     (if xe_closing (rw_executor w) then (Inl (run_error ''Agent run executor is closing''), w)
      else if dict_has (xe_tasks (rw_executor w)) run_id
      then (Inl (run_error (''The agent run '' @ run_id @ '' is already executing'')), w)
      else case acquire_lease None now run_id (xe_id (rw_executor w)) (xe_lease_ttl (rw_executor w))
                  (db_runs (rw_db w)) of
             (x, d) \<Rightarrow> (x, set_runs d w))"

definition start_task :: "string \<Rightarrow> 'x run_world \<Rightarrow> 'x run_world" where
  "start_task run_id w =
     w\<lparr>rw_executor := (rw_executor w)\<lparr>xe_tasks := dict_set run_id False (xe_tasks (rw_executor w))\<rparr>\<rparr>"

text \<open>One beat: a lease that is not renewed cancels the task.\<close>

definition beat :: "int \<Rightarrow> string \<Rightarrow> nat \<Rightarrow> 'x run_world \<Rightarrow> 'x run_world" where
  "beat now run_id generation w =
     (case heartbeat_lease None now run_id (xe_id (rw_executor w)) generation (xe_lease_ttl (rw_executor w))
             (db_runs (rw_db w)) of
        (renewed, d) \<Rightarrow>
          let w = set_runs d w
          in if renewed then w
             else w\<lparr>rw_executor := (rw_executor w)\<lparr>xe_lease_lost := run_id # xe_lease_lost (rw_executor w)\<rparr>\<rparr>)"

definition interruption_error :: "string \<Rightarrow> run_executor \<Rightarrow> error option" where
  "interruption_error run_id x =
     (if run_id \<in> set (xe_cancel_requested x)
      then Some (raised (Agent AgentRunCanceledError) (''The agent run '' @ run_id @ '' was canceled''))
      else if run_id \<in> set (xe_lease_lost x)
      then Some (raised (Agent AgentRunLeaseLostError) (''The agent run '' @ run_id @ '' lost its execution lease''))
      else None)"

text \<open>The exception of a failure handler is logged.\<close>

definition report_failure ::
  "(error \<Rightarrow> (error, 'x run_world, unit) act) \<Rightarrow> string \<Rightarrow> error \<Rightarrow> 'x run_world \<Rightarrow> 'x run_world" where
  "report_failure on_failure run_id err w =
     (if run_id \<in> set (xe_lease_lost (rw_executor w))
         \<or> isinstance (error_class err) (Agent AgentRunLeaseLostError) then w
      else snd (on_failure err w))"

definition timeout_error :: "string \<Rightarrow> string \<Rightarrow> error" where
  "timeout_error run_id seconds =
     raised (Agent AgentRunTimeoutError) (''The agent run '' @ run_id @ '' exceeded '' @ seconds @ '' seconds'')"

text \<open>
  \<open>_run_operation\<close>: \<open>asyncio.timeout\<close> turns the cancellation at the deadline into an exception; another
  cancellation is none and skips the failure handler.
\<close>

definition run_operation ::
  "'x run_service \<Rightarrow> string \<Rightarrow> string \<Rightarrow> ('x run_world \<Rightarrow> (signal + 'a) \<times> 'x run_world)
     \<Rightarrow> (error \<Rightarrow> (error, 'x run_world, unit) act) \<Rightarrow> 'x run_world \<Rightarrow> (signal + 'a) \<times> 'x run_world" where
  "run_operation sv run_id seconds operation on_failure w =
     (case operation w of
        (Inr x, w') \<Rightarrow> (Inr x, w')
      | (Inl (Raised e), w') \<Rightarrow> (Inl (Raised e), report_failure on_failure run_id e w')
      | (Inl sig, w') \<Rightarrow>
          if rv_timed_out sv w'
          then let e = timeout_error run_id seconds in (Inl (Raised e), report_failure on_failure run_id e w')
          else (Inl sig, w'))"

definition finish_execution :: "string \<Rightarrow> nat \<Rightarrow> 'x run_world \<Rightarrow> 'x run_world" where
  "finish_execution run_id generation w =
     (let x = rw_executor w;
          w = set_runs (release_lease None run_id (xe_id x) generation (db_runs (rw_db w))) w
      in w\<lparr>rw_executor := x\<lparr>xe_tasks := dict_pop run_id (xe_tasks x),
             xe_cancel_requested := filter (\<lambda>i. i \<noteq> run_id) (xe_cancel_requested x),
             xe_lease_lost := filter (\<lambda>i. i \<noteq> run_id) (xe_lease_lost x)\<rparr>\<rparr>)"

text \<open>The operation runs with the lease in its context, the awaiting caller without it.\<close>

definition execute_run ::
  "'x run_service \<Rightarrow> string \<Rightarrow> string
     \<Rightarrow> ('x run_service \<Rightarrow> 'x run_world \<Rightarrow> (signal + 'a) \<times> 'x run_world)
     \<Rightarrow> 'x run_world \<Rightarrow> (signal + 'a) \<times> 'x run_world" where
  "execute_run sv run_id seconds operation w =
     (case acquire_execution run_id (now_of sv w) w of
        (Inl e, w) \<Rightarrow> (Inl (Raised e), w)
      | (Inr generation, w) \<Rightarrow>
          let held = sv\<lparr>rv_held := Some \<lparr>hl_run_id = run_id, hl_owner = xe_id (rw_executor w),
                hl_generation = generation\<rparr>\<rparr>
          in (case run_operation held run_id seconds (operation held) (record_failure held run_id)
                    (start_task run_id w) of
                (x, w) \<Rightarrow>
                  let y = (case x of
                        Inl (Raised e) \<Rightarrow> Inl (Raised e)
                      | Inl sig \<Rightarrow> (case interruption_error run_id (rw_executor w) of
                            Some e \<Rightarrow> Inl (Raised e) | None \<Rightarrow> Inl sig)
                      | Inr v \<Rightarrow> Inr v)
                  in (y, finish_execution run_id generation w)))"

section \<open>Starting and resuming\<close>

definition enter_run :: "(error, run_lifecycle, unit) act" where
  "enter_run l =
     (if lc_closing l then (Inl (raised (Agent AgentShutdownError) ''Agent runs are shutting down''), l)
      else (Inr (), l\<lparr>lc_active := lc_active l + 1\<rparr>))"

text \<open>The counter does not fall below zero; the answer is whether the waiting \<open>close\<close> is notified.\<close>

definition exit_run :: "run_lifecycle \<Rightarrow> bool \<times> run_lifecycle" where
  "exit_run l = (lc_active l \<le> 1, l\<lparr>lc_active := lc_active l - 1\<rparr>)"

definition begin_close :: "run_lifecycle \<Rightarrow> run_lifecycle" where
  "begin_close l = l\<lparr>lc_closing := True\<rparr>"

definition run_and_store ::
  "('x run_world agent_env \<Rightarrow> ('x run_world, unit) gen) \<Rightarrow> agent_run \<Rightarrow> 'x run_service \<Rightarrow> 'x run_world
     \<Rightarrow> (signal + agent_run) \<times> 'x run_world" where
  "run_and_store events state sv w =
     (case enter_run (rw_lifecycle w) of
        (Inl e, _) \<Rightarrow> (Inl (Raised e), w)
      | (Inr _, l) \<Rightarrow>
          (case stream_and_store sv events (state, w\<lparr>rw_lifecycle := l\<rparr>) of
             (x, (_, w)) \<Rightarrow>
               let w = w\<lparr>rw_lifecycle := snd (exit_run (rw_lifecycle w))\<rparr>
               in (case x of
                     Inl sig \<Rightarrow> (Inl sig, w)
                   | Inr _ \<Rightarrow> (map_sum Raised id (load_run (rv_scope sv) (rn_run_id state) (rw_db w)), w))))"

definition stored_request :: "agent_request \<Rightarrow> agent_request" where
  "stored_request request = request\<lparr>ag_pause_on_approval := True\<rparr>"

definition prepare_run :: "'x run_service \<Rightarrow> agent_request \<Rightarrow> (error, 'x run_world, agent_run) act" where
  "prepare_run sv request w =
     (case (case metadata_run_id (ag_metadata request) of Some i \<Rightarrow> (i, w) | None \<Rightarrow> av_uuid (rv_env sv) w) of
        (run_id, w) \<Rightarrow>
          let state = new_run_state (now_of sv w) run_id (stored_request request)
          in (case create_state (rv_scope sv) (now_of sv w) state (db_runs (rw_db w)) of
                (x, d) \<Rightarrow> (map_sum id (\<lambda>_. state) x, set_runs d w)))"

text \<open>\<open>mark_retry\<close>: the messages from the retried one on are rejected in the context.\<close>

definition start_run ::
  "'x run_service \<Rightarrow> string \<Rightarrow> (agent_request \<Rightarrow> (signal, 'x run_world, unit) act) \<Rightarrow> agent_request
     \<Rightarrow> 'x run_world \<Rightarrow> (signal + agent_run) \<times> 'x run_world" where
  "start_run sv seconds mark_retry request =
     bind_a (lift_a (map_sum Raised id (require_request_scope request (rv_scope sv)))) (\<lambda>_.
     bind_a (av_get_context (rv_env sv) (rv_scope sv) (ag_context_id request)) (\<lambda>_.
     bind_a (mark_retry request) (\<lambda>_.
     bind_a (\<lambda>w. case prepare_run sv request w of (x, w) \<Rightarrow> (map_sum Raised id x, w)) (\<lambda>state.
     execute_run sv (rn_run_id state) seconds
       (run_and_store (\<lambda>env. run_agent_events env (stored_request request)) state)))))"

definition resume_run ::
  "'x run_service \<Rightarrow> string \<Rightarrow> string \<Rightarrow> tool_approval_decision list \<Rightarrow> 'x run_world
     \<Rightarrow> (signal + agent_run) \<times> 'x run_world" where
  "resume_run sv seconds run_id approvals w =
     (case load_run (rv_scope sv) run_id (rw_db w) of
        Inl e \<Rightarrow> (Inl (Raised e), w)
      | Inr state \<Rightarrow> execute_run sv run_id seconds
          (run_and_store (\<lambda>env. resume_agent_events env approvals) state) w)"

section \<open>Shutting down\<close>

definition pause_at_shutdown :: "int \<Rightarrow> agent_run \<Rightarrow> (error, agent_db, unit) act" where
  "pause_at_shutdown now state db =
     (let run_id = rn_run_id state
      in case mark_started_unknown None (list_attempts None run_id (db_ledger db)) (db_ledger db) of
           (Inl e, ledger) \<Rightarrow> (Inl e, db\<lparr>db_ledger := ledger\<rparr>)
         | (Inr attempts, ledger) \<Rightarrow>
             let db = db\<lparr>db_ledger := ledger\<rparr>
             in case inspect_checkpoint (Some (list_events run_id 0 None (db_traces db))) (Some attempts) state of
                  (Inl e, _) \<Rightarrow> (Inl e, db)
                | (Inr ck, state) \<Rightarrow>
                    if rn_status state \<noteq> Run_RUNNING
                    then case save_state None None now state (db_runs db) of (x, d) \<Rightarrow> (x, db\<lparr>db_runs := d\<rparr>)
                    else case append_event now (rn_run_id state) (paused_event ''shutdown'' ''shutdown'' ck)
                                (db_traces db) of
                      (n, traces) \<Rightarrow>
                        case save_state None None now (paused_state Pause_SHUTDOWN ck
                               ((paused_event ''shutdown'' ''shutdown'' ck)\<lparr>te_sequence := Some n\<rparr>) state) (db_runs db) of
                          (x, d) \<Rightarrow> (x, db\<lparr>db_traces := traces, db_runs := d\<rparr>))"

definition pause_running_states :: "int \<Rightarrow> (error, agent_db, unit) act" where
  "pause_running_states now db =
     for_each (pause_at_shutdown now) (filter (\<lambda>r. rn_status r = Run_RUNNING) (list_states None (db_runs db))) db"

end
