(* ===== verification/AgentGuards.thy ===== *)
theory AgentGuards
  imports AgentLoop
begin

text \<open>
  Properties of the world that a run of the agent loop preserves, however it ends.  \<open>guards Q refuse env\<close>
  says that every collaborator but the model preserves \<open>Q\<close>, where a tool needs to do so only for the calls
  that are not in \<open>refuse\<close>, and that the policy rejects the calls in \<open>refuse\<close> as long as \<open>Q\<close> holds.
  A second use of the same lemmas counts the requests to the model: what does not ask the model keeps every
  bound on their number.
\<close>

section \<open>Preserved properties\<close>

definition keeps :: "('s \<Rightarrow> bool) \<Rightarrow> ('e, 's, 'a) act \<Rightarrow> bool" where
  "keeps P m \<longleftrightarrow> (\<forall>s. P s \<longrightarrow> P (snd (m s)))"

definition world_keeps :: "('w \<Rightarrow> bool) \<Rightarrow> ('w \<Rightarrow> 'b \<times> 'w) \<Rightarrow> bool" where
  "world_keeps Q m \<longleftrightarrow> (\<forall>w. Q w \<longrightarrow> Q (snd (m w)))"

definition at_run :: "string \<Rightarrow> ('w \<Rightarrow> bool) \<Rightarrow> agent_run \<times> 'w \<Rightarrow> bool" where
  "at_run run Q s \<longleftrightarrow> rn_run_id (fst s) = run \<and> Q (snd s)"

definition guards :: "('w \<Rightarrow> bool) \<Rightarrow> (tool_call \<Rightarrow> bool) \<Rightarrow> 'w agent_env \<Rightarrow> bool" where
  "guards Q refuse env \<longleftrightarrow>
     (\<forall>scope i. world_keeps Q (av_get_context env scope i))
     \<and> (\<forall>scope i m. world_keeps Q (av_append env scope i m))
     \<and> (\<forall>r c. \<not> refuse c \<longrightarrow> world_keeps Q (av_execute env r c))
     \<and> (\<forall>a. world_keeps Q (av_compose env a))
     \<and> (\<forall>scope rq. world_keeps Q (av_resolve_images env scope rq))
     \<and> (\<forall>scope m. world_keeps Q (av_write_memory env scope m))
     \<and> world_keeps Q (av_uuid env) \<and> world_keeps Q (av_ref env)
     \<and> (\<forall>c w. refuse c \<longrightarrow> Q w \<longrightarrow> policy_rejection c (safety_decision env c w) \<noteq> None)"

text \<open>The model is asked without touching \<open>Q\<close>.\<close>

definition chats_keep :: "('w \<Rightarrow> bool) \<Rightarrow> 'w agent_env \<Rightarrow> bool" where
  "chats_keep Q env \<longleftrightarrow> (\<forall>p rq. world_keeps Q (av_chat env p rq)) \<and> (\<forall>p rq. world_keeps Q (av_chat_stream env p rq))"

lemma keepsD: "keeps P m \<Longrightarrow> P s \<Longrightarrow> m s = (x, s') \<Longrightarrow> P s'"
  unfolding keeps_def by (metis snd_conv)

lemma keeps_return: "keeps P (return_a x)"
  by (simp add: keeps_def)

lemma keeps_raise: "keeps P (raise_a x)"
  by (simp add: keeps_def)

lemma keeps_read: "keeps P (read_world f)"
  by (simp add: keeps_def read_world_def)

lemma keeps_check: "keeps P (check_g x)"
  by (simp add: keeps_def check_g_def)

lemma keeps_skills: "keeps P (check_skill_revisions env)"
  by (simp add: keeps_def check_skill_revisions_def Let_def split: option.split sum.split)

lemma keeps_if: "(c \<Longrightarrow> keeps P m) \<Longrightarrow> (\<not> c \<Longrightarrow> keeps P k) \<Longrightarrow> keeps P (if c then m else k)"
  by simp

lemma keeps_bind:
  assumes "keeps P m" "\<And>x. keeps P (k x)"
  shows "keeps P (bind_a m k)"
proof -
  have "P (snd (bind_a m k s))" if "P s" for s
  proof -
    obtain x s1 where m: "m s = (x, s1)" by (cases "m s") auto
    with assms(1) that have "P s1" by (rule keepsD)
    moreover have "P (snd (k y s1))" for y using assms(2) \<open>P s1\<close> unfolding keeps_def by blast
    ultimately show ?thesis using m by (cases x) (simp_all add: bind_a_def)
  qed
  then show ?thesis by (simp add: keeps_def)
qed

lemma keeps_with_run: "(\<And>r. keeps P (k r)) \<Longrightarrow> keeps P (with_run k)"
  unfolding keeps_def with_run_def by blast

lemma keeps_on_run: "(\<And>r. rn_run_id (f r) = rn_run_id r) \<Longrightarrow> keeps (at_run run Q) (on_run f)"
  by (simp add: keeps_def on_run_def at_run_def)

lemma keeps_in_world: "world_keeps Q m \<Longrightarrow> keeps (at_run run Q) (in_world m)"
  by (auto simp: keeps_def in_world_def at_run_def world_keeps_def split: prod.split)

lemma keeps_fresh: "world_keeps Q f \<Longrightarrow> keeps (at_run run Q) (fresh f)"
  by (auto simp: keeps_def fresh_def at_run_def world_keeps_def split: prod.split)

text \<open>A continuation sees what was read of a world in which \<open>Q\<close> holds.\<close>

lemma keeps_read_then:
  assumes "\<And>w. Q w \<Longrightarrow> keeps (at_run run Q) (k (f w))"
  shows "keeps (at_run run Q) (bind_a (read_world f) k)"
  using assms by (auto simp: keeps_def bind_a_def read_world_def at_run_def)

lemmas keeps_intros = keeps_return keeps_raise keeps_check keeps_skills keeps_if keeps_bind keeps_with_run
  keeps_on_run keeps_in_world keeps_fresh

section \<open>The loop\<close>

lemma link_last_step_run: "rn_run_id (link_last_step e r) = rn_run_id r"
  by (simp add: link_last_step_def)

lemma keeps_add_trace: "world_keeps Q (av_uuid env) \<Longrightarrow> keeps (at_run run Q) (add_trace env e)"
  by (auto simp: keeps_def add_trace_def at_run_def world_keeps_def Let_def link_last_step_run
      split: prod.split option.split)

lemma keeps_add_traces: "world_keeps Q (av_uuid env) \<Longrightarrow> keeps (at_run run Q) (add_traces env es)"
proof (induction es)
  case (Cons e es)
  show ?case unfolding add_traces.simps by (intro keeps_bind keeps_add_trace keeps_return Cons)
qed (simp only: add_traces.simps keeps_return)

lemma keeps_emit_all: "(\<And>e. keeps P (av_emit env e)) \<Longrightarrow> keeps P (emit_all env es)"
proof (induction es)
  case (Cons e es)
  show ?case unfolding emit_all.simps by (intro keeps_bind Cons)
qed (simp only: emit_all.simps keeps_return)

lemma keeps_attempt:
  assumes "\<And>r. rejection = None \<Longrightarrow> world_keeps Q (av_execute env r c)"
  shows "keeps (at_run run Q) (attempt_call env c rejection)"
proof (cases rejection)
  case None
  have "Q w'" if "Q w" "av_execute env r c w = (x, w')" for r w x w'
    using assms [OF None, of r] that unfolding world_keeps_def by (metis snd_conv)
  then show ?thesis
    by (auto simp: keeps_def attempt_call_def at_run_def None split: prod.split sum.split signal.split)
qed (simp add: keeps_def attempt_call_def)

text \<open>A run under a guard, with a consumer that keeps it.\<close>

definition guarded :: "string \<Rightarrow> ('w \<Rightarrow> bool) \<Rightarrow> (tool_call \<Rightarrow> bool) \<Rightarrow> 'w agent_env \<Rightarrow> bool" where
  "guarded run Q refuse env \<longleftrightarrow> guards Q refuse env \<and> (\<forall>e. keeps (at_run run Q) (av_emit env e))"

lemma guarded_simps:
  assumes "guarded run Q refuse env"
  shows "world_keeps Q (av_get_context env scope i)" "world_keeps Q (av_append env scope i m)"
    "\<not> refuse c \<Longrightarrow> world_keeps Q (av_execute env r c)" "world_keeps Q (av_compose env a)"
    "world_keeps Q (av_resolve_images env scope rq)" "world_keeps Q (av_write_memory env scope mem)"
    "world_keeps Q (av_uuid env)" "world_keeps Q (av_ref env)"
    "refuse c \<Longrightarrow> Q w \<Longrightarrow> policy_rejection c (safety_decision env c w) \<noteq> None"
    "keeps (at_run run Q) (av_emit env e)"
  using assms by (auto simp: guarded_def guards_def)

lemma keeps_trace_and_emit: "guarded run Q refuse env \<Longrightarrow> keeps (at_run run Q) (trace_and_emit env e)"
  unfolding trace_and_emit_def by (intro keeps_bind keeps_add_trace guarded_simps)

lemma keeps_complete_chat: "guarded run Q refuse env \<Longrightarrow> keeps (at_run run Q) (complete_chat env response)"
  unfolding complete_chat_def
  by (intro keeps_intros keeps_add_trace guarded_simps) (simp_all add: record_chat_response_def Let_def)

lemma keeps_stream_loop: "guarded run Q refuse env \<Longrightarrow> keeps (at_run run Q) (stream_loop env es a)"
proof (induction es arbitrary: a)
  case (Cons e es)
  then show ?case
    by (simp only: stream_loop.simps)
      (auto simp del: return_a_simp intro!: keeps_raise keeps_bind keeps_return keeps_trace_and_emit
        split: option.split)
qed (simp only: stream_loop.simps keeps_return)

lemma keeps_chat_events: "guarded run Q refuse env \<Longrightarrow> chats_keep Q env \<Longrightarrow> keeps (at_run run Q) (chat_events env request args)"
  unfolding chat_events_def stream_chat_events_def chats_keep_def
  by (auto simp del: return_a_simp raise_a_simp split: option.split
      intro!: keeps_bind keeps_skills keeps_in_world guarded_simps keeps_stream_loop keeps_complete_chat
        keeps_raise keeps_fresh)

lemma keeps_commit:
  "guarded run Q refuse env \<Longrightarrow> keeps (at_run run Q) (commit_messages env context_id scope ms indices)"
proof (induction ms arbitrary: indices)
  case (Cons m ms)
  then show ?case unfolding commit_messages.simps Let_def
    by (intro keeps_bind keeps_in_world guarded_simps keeps_on_run) simp_all
qed (simp only: commit_messages.simps keeps_return)

lemma keeps_write_memories: "guarded run Q refuse env \<Longrightarrow> keeps (at_run run Q) (write_memories env scope ms)"
proof (induction ms)
  case (Cons m ms)
  then show ?case unfolding write_memories.simps Let_def case_prod_beta
    by (intro keeps_bind keeps_in_world guarded_simps keeps_on_run keeps_trace_and_emit) simp_all
qed (simp only: write_memories.simps keeps_return)

lemma keeps_stop_run:
  "guarded run Q refuse env \<Longrightarrow> keeps (at_run run Q) (stop_run env request remaining reason)"
  unfolding stop_run_def commit_run_transcript_def write_memory_events_def
  by (intro keeps_bind keeps_on_run keeps_with_run keeps_check keeps_commit keeps_write_memories
      keeps_trace_and_emit) (simp_all add: stopping_def)

lemma keeps_execute_call:
  assumes "guarded run Q refuse env" "refuse call \<Longrightarrow> policy_rejection call decision \<noteq> None"
  shows "keeps (at_run run Q) (execute_call env request remaining call decision)"
proof -
  have attempt: "keeps (at_run run Q) (attempt_call env call (policy_rejection call decision))"
    using assms by (intro keeps_attempt guarded_simps) auto
  have complete: "keeps (at_run run Q) (tool_done env call result dump)" for result dump
    unfolding tool_done_def Let_def
    by (intro keeps_bind keeps_read keeps_fresh guarded_simps [OF assms(1)] keeps_on_run
        keeps_trace_and_emit [OF assms(1)]) simp
  have failed: "keeps (at_run run Q) (tool_failed env call e)" for e
    unfolding tool_failed_def Let_def
    by (intro keeps_bind keeps_read keeps_fresh guarded_simps [OF assms(1)] keeps_on_run
        keeps_trace_and_emit [OF assms(1)]) simp
  show ?thesis
    unfolding execute_call_def
    by (intro keeps_bind attempt keeps_skills keeps_if keeps_return keeps_trace_and_emit [OF assms(1)])
      (auto simp del: return_a_simp raise_a_simp split: sum.split
        intro!: keeps_bind keeps_return keeps_raise complete failed keeps_stop_run [OF assms(1)])
qed

lemma keeps_run_call:
  assumes "guarded run Q refuse env"
  shows "keeps (at_run run Q) (run_call env request approvals already remaining raw rest)"
proof -
  have approval: "keeps (at_run run Q) (trace_tool_approval env call decision b)" for call decision b
    unfolding trace_tool_approval_def
    by (auto simp del: return_a_simp add_traces.simps split: option.split
        intro!: keeps_return keeps_add_traces guarded_simps [OF assms])
  have emit: "keeps (at_run run Q) (emit_all env es)" for es
    by (intro keeps_emit_all guarded_simps [OF assms])
  have pause: "keeps (at_run run Q) (on_run (paused_for_approval request pending d remaining))" for pending d
    by (rule keeps_on_run) (simp add: paused_for_approval_def)
  show ?thesis
    unfolding run_call_def Let_def
    by (intro keeps_bind keeps_skills keeps_with_run keeps_read_then)
      (auto simp del: return_a_simp
        intro!: keeps_bind approval emit pause keeps_return keeps_trace_and_emit [OF assms]
          keeps_execute_call [OF assms] dest: guarded_simps(9) [OF assms])
qed

lemma keeps_run_calls:
  "guarded run Q refuse env \<Longrightarrow> keeps (at_run run Q) (run_calls env request approvals already remaining cs)"
proof (induction cs)
  case (Cons c cs)
  then show ?case unfolding run_calls.simps
    by (intro keeps_bind keeps_run_call keeps_if keeps_return)
qed (simp only: run_calls.simps keeps_return)

lemma keeps_next_chat:
  "guarded run Q refuse env \<Longrightarrow> chats_keep Q env \<Longrightarrow> keeps (at_run run Q) (next_chat env request remaining)"
  unfolding next_chat_def
  by (intro keeps_bind keeps_on_run keeps_with_run keeps_read keeps_chat_events) simp_all

lemma keeps_tool_loop:
  assumes "guarded run Q refuse env" "chats_keep Q env"
  shows "keeps (at_run run Q) (tool_loop env request response remaining already pending)"
proof (induction "nat remaining" arbitrary: remaining response already pending rule: less_induct)
  case less
  have enter: "keeps (at_run run Q) (on_run (enter_loop remaining))"
    by (rule keeps_on_run) (simp add: enter_loop_def)
  have finish: "keeps (at_run run Q) (finish_run env request remaining b)" for b
    unfolding finish_run_def by (intro keeps_bind keeps_on_run keeps_stop_run [OF assms(1)]) simp
  have next_round: "remaining > 0 \<Longrightarrow> keeps (at_run run Q) (tool_loop env request response' (remaining - 1) [] None)"
    for response' using less by simp
  show ?case
    by (subst tool_loop.simps)
      (auto simp: Let_def simp del: return_a_simp
        intro!: keeps_bind enter finish keeps_with_run keeps_run_calls [OF assms(1)] keeps_next_chat [OF assms]
          next_round keeps_return)
qed

lemma keeps_run_initial_chat:
  "guarded run Q refuse env \<Longrightarrow> chats_keep Q env \<Longrightarrow> keeps (at_run run Q) (run_initial_chat env request)"
  unfolding run_initial_chat_def
  by (intro keeps_bind keeps_with_run keeps_read keeps_chat_events keeps_tool_loop)

lemma keeps_run_agent_events:
  "guarded run Q refuse env \<Longrightarrow> chats_keep Q env \<Longrightarrow> keeps (at_run run Q) (run_agent_events env request)"
  unfolding run_agent_events_def
  by (intro keeps_bind keeps_in_world guarded_simps keeps_on_run keeps_read keeps_check keeps_trace_and_emit
      keeps_run_initial_chat) simp_all

lemma keeps_resume_checkpoint:
  "guarded run Q refuse env \<Longrightarrow> chats_keep Q env \<Longrightarrow> keeps (at_run run Q) (resume_checkpoint_events env)"
  unfolding resume_checkpoint_events_def continue_after_completed_round_def Let_def
  by (auto simp del: return_a_simp raise_a_simp split: option.split
      intro!: keeps_bind keeps_on_run keeps_with_run keeps_run_initial_chat keeps_tool_loop keeps_next_chat)

lemma keeps_resume_agent_events:
  "guarded run Q refuse env \<Longrightarrow> chats_keep Q env \<Longrightarrow> keeps (at_run run Q) (resume_agent_events env approvals)"
  unfolding resume_agent_events_def Let_def
  by (auto simp del: return_a_simp raise_a_simp split: option.split
      intro!: keeps_bind keeps_on_run keeps_with_run keeps_raise keeps_skills keeps_tool_loop keeps_resume_checkpoint)

section \<open>Requests to the model\<close>

text \<open>
  \<open>requests\<close> is a counter of the world that the two operations of the provider advance, and nothing else.
  \<open>asks n m\<close>: \<open>m\<close> asks the model \<open>n\<close> times at most, however it ends.
\<close>

definition counts_requests :: "('w \<Rightarrow> nat) \<Rightarrow> 'w agent_env \<Rightarrow> bool" where
  "counts_requests requests env \<longleftrightarrow>
     (\<forall>scope i w. requests (snd (av_get_context env scope i w)) = requests w)
     \<and> (\<forall>scope i m w. requests (snd (av_append env scope i m w)) = requests w)
     \<and> (\<forall>r c w. requests (snd (av_execute env r c w)) = requests w)
     \<and> (\<forall>a w. requests (snd (av_compose env a w)) = requests w)
     \<and> (\<forall>scope rq w. requests (snd (av_resolve_images env scope rq w)) = requests w)
     \<and> (\<forall>p rq w. requests (snd (av_chat env p rq w)) = requests w + 1)
     \<and> (\<forall>p rq w. requests (snd (av_chat_stream env p rq w)) = requests w + 1)
     \<and> (\<forall>scope m w. requests (snd (av_write_memory env scope m w)) = requests w)
     \<and> (\<forall>w. requests (snd (av_uuid env w)) = requests w) \<and> (\<forall>w. requests (snd (av_ref env w)) = requests w)
     \<and> (\<forall>e s. requests (snd (snd (av_emit env e s))) = requests (snd s)
          \<and> rn_run_id (fst (snd (av_emit env e s))) = rn_run_id (fst s))"

definition asks :: "('w \<Rightarrow> nat) \<Rightarrow> nat \<Rightarrow> ('w, 'a) gen \<Rightarrow> bool" where
  "asks requests n m \<longleftrightarrow> (\<forall>s. requests (snd (snd (m s))) \<le> requests (snd s) + n)"

lemma asks_mono: "asks requests n m \<Longrightarrow> n \<le> k \<Longrightarrow> asks requests k m"
  unfolding asks_def by (meson add_left_mono order_trans)

lemma asks_return: "asks requests n (return_a x)"
  by (simp add: asks_def)

lemma asks_with_run: "(\<And>r. asks requests n (k r)) \<Longrightarrow> asks requests n (with_run k)"
  unfolding asks_def with_run_def by blast

lemma asks_bind:
  assumes "asks requests n m" "\<And>x. asks requests k (f x)"
  shows "asks requests (n + k) (bind_a m f)"
proof -
  have "requests (snd (snd (bind_a m f s))) \<le> requests (snd s) + (n + k)" for s
  proof -
    obtain x s1 where m: "m s = (x, s1)" by (cases "m s") auto
    with assms(1) have now: "requests (snd s1) \<le> requests (snd s) + n" unfolding asks_def by (metis snd_conv)
    have later: "requests (snd (snd (f y s1))) \<le> requests (snd s1) + k" for y
      using assms(2) unfolding asks_def by blast
    show ?thesis
    proof (cases x)
      case (Inr y)
      with m now later [of y] show ?thesis by (simp add: bind_a_def)
    qed (use m now in \<open>simp add: bind_a_def\<close>)
  qed
  then show ?thesis unfolding asks_def by blast
qed

lemmas asks_then = asks_bind [where n = 0, simplified]

text \<open>What the guard lemmas cover asks nothing: it keeps every bound on the requests.\<close>

definition asked_at_most :: "('w \<Rightarrow> nat) \<Rightarrow> nat \<Rightarrow> 'w \<Rightarrow> bool" where
  "asked_at_most requests n w \<longleftrightarrow> requests w \<le> n"

lemma asks_silent:
  assumes "\<And>run n. keeps (at_run run (asked_at_most requests n)) m"
  shows "asks requests 0 m"
proof -
  have "at_run (rn_run_id (fst s)) (asked_at_most requests (requests (snd s))) (snd (m s))" for s
    using assms [of "rn_run_id (fst s)" "requests (snd s)"]
    unfolding keeps_def by (cases s) (simp add: at_run_def asked_at_most_def)
  then show ?thesis by (simp add: asks_def at_run_def asked_at_most_def)
qed

lemma asks_read: "asks requests n (read_world f)"
  by (simp add: asks_def read_world_def)

lemma counted_guarded:
  assumes "counts_requests requests env"
  shows "guarded run (asked_at_most requests n) (\<lambda>_. False) env"
  using assms
  by (simp add: counts_requests_def guarded_def guards_def world_keeps_def keeps_def at_run_def asked_at_most_def)

lemma asks_chat_events:
  assumes "counts_requests requests env"
  shows "asks requests 1 (chat_events env request args)"
proof -
  note quiet = counted_guarded [OF assms]
  have world: "asks requests 0 (in_world (av_compose env a))"
      "asks requests 0 (in_world (av_resolve_images env scope rq))" for a scope rq
    by (intro asks_silent keeps_in_world guarded_simps(4) [OF quiet] guarded_simps(5) [OF quiet])+
  have skills: "asks requests 0 (check_skill_revisions env)"
    by (intro asks_silent keeps_skills)
  have complete: "asks requests 0 (complete_chat env response)" for response
    by (rule asks_silent, rule keeps_complete_chat [OF quiet])
  have streamed: "asks requests 0 (stream_chat_events env stream model)" for stream model
    unfolding stream_chat_events_def
    by (rule asks_silent)
      (auto simp del: return_a_simp raise_a_simp split: option.split
        intro!: keeps_bind keeps_raise keeps_fresh guarded_simps [OF quiet] keeps_stream_loop [OF quiet]
          keeps_complete_chat [OF quiet])
  have chat: "asks requests 1 (in_world (av_chat env p rq))" "asks requests 1 (in_world (av_chat_stream env p rq))" for p rq
    using assms by (auto simp: asks_def in_world_def counts_requests_def split: prod.split)
      (metis order_refl snd_conv)+
  have both: "asks requests 1 (bind_a (in_world (av_chat env p rq)) (complete_chat env))"
      "asks requests 1 (bind_a (in_world (av_chat_stream env p rq)) (\<lambda>stream. stream_chat_events env stream model))"
    for p rq model
    using asks_bind [where n = 1 and k = 0, OF chat(1) complete]
      asks_bind [where n = 1 and k = 0, OF chat(2) streamed] by simp_all
  show ?thesis
    unfolding chat_events_def
    by (intro asks_then skills world)
      (simp only: both if_split simp_thms)
qed

lemma asks_next_chat:
  assumes "counts_requests requests env"
  shows "asks requests 1 (next_chat env request remaining)"
  unfolding next_chat_def
  by (intro asks_then asks_with_run asks_read asks_chat_events [OF assms] asks_silent keeps_on_run) simp

text \<open>The loop asks once a round.\<close>

lemma asks_tool_loop:
  assumes "counts_requests requests env"
  shows "asks requests (nat remaining) (tool_loop env request response remaining already pending)"
proof (induction "nat remaining" arbitrary: remaining response already pending rule: less_induct)
  case less
  note quiet = counted_guarded [OF assms]
  have enter: "asks requests 0 (on_run (enter_loop remaining))"
    by (intro asks_silent keeps_on_run) (simp add: enter_loop_def)
  have finish: "asks requests n (finish_run env request remaining b)" for b n
    unfolding finish_run_def
    by (rule asks_mono [OF asks_silent], intro keeps_bind keeps_on_run keeps_stop_run [OF quiet]) simp_all
  have calls: "asks requests 0 (run_calls env request approvals already remaining cs)" for approvals cs
    by (rule asks_silent, rule keeps_run_calls [OF quiet])
  have next_round: "asks requests (nat remaining) (bind_a (next_chat env request (remaining - 1)) (\<lambda>response'.
      tool_loop env request response' (remaining - 1) [] None))" if "remaining > 0"
  proof -
    have "asks requests (1 + nat (remaining - 1)) (bind_a (next_chat env request (remaining - 1)) (\<lambda>response'.
        tool_loop env request response' (remaining - 1) [] None))"
      by (intro asks_bind asks_next_chat [OF assms] less) (use that in simp)
    moreover have "1 + nat (remaining - 1) = nat remaining" using that by simp
    ultimately show ?thesis by (simp only:)
  qed
  have body: "asks requests (nat remaining) (bind_a (run_calls env request approvals already remaining cs)
      (\<lambda>going. if going then bind_a (next_chat env request (remaining - 1)) (\<lambda>response'.
         tool_loop env request response' (remaining - 1) [] None) else return_a ()))" if "remaining > 0" for approvals cs
    by (intro asks_then calls) (simp only: next_round [OF that] asks_return if_split simp_thms)
  show ?case
    by (subst tool_loop.simps, unfold Let_def, intro asks_then enter asks_with_run, split if_split, intro conjI impI)
      (rule body, simp, rule finish)
qed

lemma asks_run_initial_chat:
  assumes "counts_requests requests env"
  shows "asks requests (1 + ag_max_tool_rounds request) (run_initial_chat env request)"
proof -
  have "asks requests 1 (with_run (\<lambda>r. bind_a (read_world (chat_args_of env request r (ag_messages request)
               (ag_memory_query request))) (chat_events env request)))"
    by (intro asks_then asks_with_run asks_read asks_chat_events [OF assms])
  moreover have "asks requests (ag_max_tool_rounds request)
      (tool_loop env request response (int (ag_max_tool_rounds request)) [] None)" for response
    using asks_tool_loop [OF assms, of "int (ag_max_tool_rounds request)"] by simp
  ultimately show ?thesis unfolding run_initial_chat_def by (rule asks_bind)
qed

lemma asks_run_agent_events:
  assumes "counts_requests requests env"
  shows "asks requests (1 + ag_max_tool_rounds request) (run_agent_events env request)"
proof -
  note quiet = counted_guarded [OF assms]
  show ?thesis
    unfolding run_agent_events_def
    by (intro asks_then asks_read asks_run_initial_chat [OF assms] asks_silent keeps_in_world keeps_on_run
        keeps_check keeps_trace_and_emit [OF quiet] guarded_simps [OF quiet]) simp_all
qed

text \<open>A resumed run: the rounds it has left, or all of them when it was stopped before its first answer.\<close>

definition resume_bound :: "agent_run \<Rightarrow> nat" where
  "resume_bound r =
     (case rn_response r of
        None \<Rightarrow> 1 + ag_max_tool_rounds (rn_request r)
      | Some _ \<Rightarrow> max 1 (nat (rn_remaining_tool_rounds r)))"

lemma bind_on_run: "bind_a (on_run f) k (r, w) = k () (f r, w)"
  by (simp add: bind_a_def on_run_def)

lemma skills_asks:
  fixes requests :: "'w \<Rightarrow> nat"
  assumes "requests (snd (snd (k () (r, w)))) \<le> requests w + n"
  shows "requests (snd (snd (bind_a (check_skill_revisions env) k (r, w)))) \<le> requests w + n"
proof -
  have "requests w \<le> requests w + n" by simp
  with assms show ?thesis by (simp add: bind_a_def check_skill_revisions_def Let_def split: option.split sum.split)
qed

lemma loop_asks:
  assumes "counts_requests requests env" "rn_response r = Some response"
  shows "requests (snd (snd (tool_loop env request answer (rn_remaining_tool_rounds r) already pending (r', w))))
    \<le> requests w + resume_bound r"
proof -
  have "nat (rn_remaining_tool_rounds r) \<le> resume_bound r" using assms(2) by (simp add: resume_bound_def)
  from asks_mono [OF asks_tool_loop [OF assms(1)] this] show ?thesis unfolding asks_def by (metis snd_conv)
qed

lemma first_asks:
  assumes "counts_requests requests env" "rn_response r = None"
  shows "requests (snd (snd (run_initial_chat env (rn_request r) (r', w)))) \<le> requests w + resume_bound r"
  using asks_run_initial_chat [OF assms(1), of "rn_request r"] assms(2)
  unfolding asks_def by (simp add: resume_bound_def)

lemma continue_asks:
  assumes "counts_requests requests env" "rn_response r = Some response"
    "rn_remaining_tool_rounds r' = rn_remaining_tool_rounds r"
  shows "requests (snd (snd (continue_after_completed_round env request (r', w)))) \<le> requests w + resume_bound r"
proof -
  let ?n = "max (rn_remaining_tool_rounds r - 1) 0"
  have "asks requests (1 + nat ?n) (bind_a (next_chat env request ?n) (\<lambda>answer. tool_loop env request answer ?n [] None))"
    by (intro asks_bind asks_next_chat [OF assms(1)] asks_tool_loop [OF assms(1)])
  moreover have "1 + nat ?n = resume_bound r" using assms(2) by (auto simp: resume_bound_def max_def)
  ultimately show ?thesis
    unfolding asks_def continue_after_completed_round_def with_run_def Let_def fst_conv assms(3)
    by (metis snd_conv)
qed

lemma checkpoint_asks:
  assumes "counts_requests requests env"
  shows "requests (snd (snd (resume_checkpoint_events env (r, w)))) \<le> requests w + resume_bound r"
  unfolding resume_checkpoint_events_def bind_on_run with_run_def
  using loop_asks [OF assms, of r] first_asks [OF assms, of r] continue_asks [OF assms, of r]
  by (auto simp: Let_def split: option.split)

text \<open>C6: A run asks the model at most once more than the number of tool rounds that its request allows, and
  a resumed run at most as often as it has rounds left (once when it has none, and as often as a new run when
  it was stopped before the first answer).  The requests are counted where they reach the provider, answered
  or not, streamed or not, whatever the model, the tools and the consumer of the events do.\<close>

theorem run_rounds_bounded:
  assumes "counts_requests requests env"
  shows "requests (snd (snd (run_agent_events env request (r, w)))) \<le> requests w + (ag_max_tool_rounds request + 1)
    \<and> requests (snd (snd (resume_agent_events env approvals (r, w)))) \<le> requests w + resume_bound r"
proof (intro conjI)
  show "requests (snd (snd (run_agent_events env request (r, w)))) \<le> requests w + (ag_max_tool_rounds request + 1)"
    using asks_run_agent_events [OF assms, of request] unfolding asks_def by (metis add.commute snd_conv)
  have checkpoint: "requests (snd (snd (resume_checkpoint_events env (r', w)))) \<le> requests w + resume_bound r"
    if "resume_bound r' = resume_bound r" for r'
    using checkpoint_asks [OF assms, of r' w] unfolding that .
  show "requests (snd (snd (resume_agent_events env approvals (r, w)))) \<le> requests w + resume_bound r"
    unfolding resume_agent_events_def with_run_def Let_def
    by (auto intro!: skills_asks loop_asks [OF assms] checkpoint simp: bind_on_run raise_a_def split: option.split)
      (simp_all add: resume_bound_def)
qed

section \<open>Calls that the policy rejects\<close>

text \<open>\<open>handed\<close> is the list of the calls that were handed to the tools, a part of the world.\<close>

definition logs_calls :: "('w \<Rightarrow> tool_call list) \<Rightarrow> 'w agent_env \<Rightarrow> bool" where
  "logs_calls handed env \<longleftrightarrow>
     (\<forall>scope i w. handed (snd (av_get_context env scope i w)) = handed w)
     \<and> (\<forall>scope i m w. handed (snd (av_append env scope i m w)) = handed w)
     \<and> (\<forall>r c w. handed (snd (av_execute env r c w)) = handed w @ [c])
     \<and> (\<forall>a w. handed (snd (av_compose env a w)) = handed w)
     \<and> (\<forall>scope rq w. handed (snd (av_resolve_images env scope rq w)) = handed w)
     \<and> (\<forall>p rq w. handed (snd (av_chat env p rq w)) = handed w)
     \<and> (\<forall>p rq w. handed (snd (av_chat_stream env p rq w)) = handed w)
     \<and> (\<forall>scope m w. handed (snd (av_write_memory env scope m w)) = handed w)
     \<and> (\<forall>w. handed (snd (av_uuid env w)) = handed w) \<and> (\<forall>w. handed (snd (av_ref env w)) = handed w)
     \<and> (\<forall>e s. handed (snd (snd (av_emit env e s))) = handed (snd s)
          \<and> rn_run_id (fst (snd (av_emit env e s))) = rn_run_id (fst s))"

text \<open>C10: A call that the tool policy rejects never reaches the tools, neither in a new run nor in a resumed
  one: whatever the model asks for and whatever approvals come with the request, every call that a run
  hands to the tools is one that the policy did not reject.\<close>

theorem rejected_call_never_executed:
  assumes "logs_calls handed env"
    and "\<And>c w. refuse c \<Longrightarrow> policy_rejection c (safety_decision env c w) \<noteq> None"
    and "events = run_agent_events env request \<or> events = resume_agent_events env approvals"
    and "events (r, w) = (x, (r', w'))"
  shows "\<exists>calls. handed w' = handed w @ calls \<and> (\<forall>c \<in> set calls. \<not> refuse c)"
proof -
  define Q where "Q v \<longleftrightarrow> (\<exists>calls. handed v = handed w @ calls \<and> (\<forall>c \<in> set calls. \<not> refuse c))" for v
  have silent: "world_keeps Q m" if "\<And>v. handed (snd (m v)) = handed v" for m :: "'a \<Rightarrow> 'b \<times> 'a"
    using that by (simp add: world_keeps_def Q_def)
  have execute: "world_keeps Q (av_execute env r c)" if "\<not> refuse c" for r c
    unfolding world_keeps_def
  proof (intro allI impI)
    fix v assume "Q v"
    then obtain calls where "handed v = handed w @ calls" "\<forall>c \<in> set calls. \<not> refuse c" unfolding Q_def by blast
    with that assms(1) show "Q (snd (av_execute env r c v))"
      unfolding Q_def logs_calls_def by (intro exI [of _ "calls @ [c]"]) auto
  qed
  have emit: "keeps (at_run (rn_run_id r) Q) (av_emit env e)" for e
    using assms(1) by (auto simp: keeps_def at_run_def logs_calls_def Q_def)
  have "guards Q refuse env"
    using assms(1,2) execute unfolding guards_def logs_calls_def
    by (auto simp: world_keeps_def Q_def)
  then have "guarded (rn_run_id r) Q refuse env" using emit by (simp add: guarded_def)
  moreover have "chats_keep Q env"
    using assms(1) by (simp add: chats_keep_def logs_calls_def world_keeps_def Q_def)
  ultimately have "keeps (at_run (rn_run_id r) Q) events"
    using assms(3) by (auto intro: keeps_run_agent_events keeps_resume_agent_events)
  from keepsD [OF this _ assms(4)] have "Q w'" by (simp add: at_run_def Q_def)
  then show ?thesis by (simp add: Q_def)
qed

section \<open>A quiet environment\<close>

text \<open>Nothing happens in it; the model answers without a tool call.\<close>

definition quiet_response :: chat_response where
  "quiet_response = \<lparr>rs_response_id = None, rs_model_id = ''m'', rs_message = message 0 Role_ASSISTANT,
     rs_finish_reason = None, rs_usage = None, rs_metadata = []\<rparr>"

definition quiet_decision :: tool_safety_decision where
  "quiet_decision = \<lparr>sd_allowed = False, sd_reason = Some ''no'', sd_requires_approval = False,
     sd_approval_request = None, sd_metadata = []\<rparr>"

definition quiet_context :: chat_context where
  "quiet_context = \<lparr>ctx_id = ''x'', ctx_owner_id = None, ctx_revision = 0, ctx_messages = [], ctx_metadata = []\<rparr>"

definition quiet_env :: "'w agent_env" where
  "quiet_env =
     \<lparr>av_get_context = \<lambda>scope i w. (Inr quiet_context, w), av_append = \<lambda>scope i m w. (Inr quiet_context, w),
      av_skill = \<lambda>n w. Inr \<lparr>sv_is_enabled = True, sv_revision = None\<rparr>,
      av_authorize = \<lambda>c w. Inr quiet_decision,
      av_execute = \<lambda>r c w. (Inr \<lparr>tr_id = tc_id c, tr_result = [], tr_metadata = []\<rparr>, w),
      av_list_tools = \<lambda>scope w. [], av_has_tool = \<lambda>n w. True,
      av_compose = \<lambda>a w. (Inr \<lparr>rq_model_id = ca_model_id a, rq_messages = ca_messages a, rq_skills = None,
        rq_tools = ca_tools a, rq_prompt_cache = None, rq_metadata = ca_metadata a\<rparr>, w),
      av_resolve_images = \<lambda>scope rq w. (Inr rq, w), av_chat = \<lambda>p rq w. (Inr quiet_response, w),
      av_chat_stream = \<lambda>p rq w. (Inr ([], None), w), av_create_memories = \<lambda>rq res. [],
      av_write_memory = \<lambda>scope m w. (Inr (m, ''create''), w), av_dump_result = \<lambda>r. Inr ''{}'',
      av_elapsed = \<lambda>w. 1, av_now = \<lambda>w. 0, av_uuid = \<lambda>w. (''id'', w), av_ref = \<lambda>w. (0, w),
      av_emit = \<lambda>e s. (Inr (), s)\<rparr>"

text \<open>The model asks for a call that the policy rejects.\<close>

definition forbidden_call :: tool_call where
  "forbidden_call = \<lparr>tc_id = ''c'', tc_call = [(''name'', PStr ''rm'')], tc_approval = None, tc_metadata = []\<rparr>"

definition forbidden_env :: "tool_call list agent_env" where
  "forbidden_env = quiet_env\<lparr>av_execute := \<lambda>r c w. (Inr \<lparr>tr_id = tc_id c, tr_result = [], tr_metadata = []\<rparr>, w @ [c]),
     av_chat := \<lambda>p rq w. (Inr (quiet_response\<lparr>rs_message := (message 0 Role_ASSISTANT)
       \<lparr>c_tool_calls := Some [forbidden_call]\<rparr>\<rparr>), w)\<rparr>"

lemma forbidden_logs: "logs_calls (\<lambda>w. w) forbidden_env"
  by (simp add: logs_calls_def forbidden_env_def quiet_env_def)

lemma forbidden_rejected: "call_tool_name c \<noteq> None \<Longrightarrow> policy_rejection c (safety_decision forbidden_env c w) \<noteq> None"
  by (auto simp: policy_rejection_def safety_decision_def forbidden_env_def quiet_env_def quiet_decision_def
      meta_flag_def)

definition forbidden_end :: "(signal + unit) \<times> agent_run \<times> tool_call list" where
  "forbidden_end = run_agent_events forbidden_env (new_request ''p'' ''x'' ''m'')
     (new_run ''r'' (new_request ''p'' ''x'' ''m''), [])"

lemma rejected_call_never_executed_witness:
  "\<exists>calls. snd (snd forbidden_end) = [] @ calls \<and> list_all (\<lambda>c. \<not> call_tool_name c \<noteq> None) calls"
proof -
  have "run_agent_events forbidden_env (new_request ''p'' ''x'' ''m'')
      (new_run ''r'' (new_request ''p'' ''x'' ''m''), []) = (fst forbidden_end, (fst (snd forbidden_end), snd (snd forbidden_end)))"
    by (simp only: forbidden_end_def prod.collapse)
  from rejected_call_never_executed [OF forbidden_logs forbidden_rejected disjI1 [OF refl] this]
  show ?thesis unfolding list_all_iff .
qed

section \<open>A model that is counted\<close>

text \<open>The world counts the requests; the model asks for a tool call every time.\<close>

definition insisting_env :: "nat agent_env" where
  "insisting_env = quiet_env\<lparr>av_chat := \<lambda>p rq w. (Inr (quiet_response\<lparr>rs_message := (message 0 Role_ASSISTANT)
       \<lparr>c_tool_calls := Some [forbidden_call]\<rparr>\<rparr>), w + 1),
     av_chat_stream := \<lambda>p rq w. (Inr ([], None), w + 1)\<rparr>"

lemma insisting_counts: "counts_requests (\<lambda>w. w) insisting_env"
  by (simp add: counts_requests_def insisting_env_def quiet_env_def)

definition one_round :: agent_request where
  "one_round = (new_request ''p'' ''x'' ''m'')\<lparr>ag_max_tool_rounds := 1\<rparr>"

lemma run_rounds_bounded_witness:
  "snd (snd (run_agent_events insisting_env one_round (new_run ''r'' one_round, 0))) \<le> 0 + (1 + 1)
     \<and> snd (snd (resume_agent_events insisting_env [] ((new_run ''r'' one_round)\<lparr>rn_status := Run_PAUSED\<rparr>, 0))) \<le> 0 + (1 + 1)"
proof -
  have "ag_max_tool_rounds one_round = 1" "rn_response ((new_run ''r'' one_round)\<lparr>rn_status := Run_PAUSED\<rparr>) = None"
    "rn_request ((new_run ''r'' one_round)\<lparr>rn_status := Run_PAUSED\<rparr>) = one_round"
    by (simp_all add: one_round_def new_run_def)
  then show ?thesis
    using run_rounds_bounded [OF insisting_counts, of one_round "new_run ''r'' one_round" 0]
      run_rounds_bounded [OF insisting_counts, of one_round "(new_run ''r'' one_round)\<lparr>rn_status := Run_PAUSED\<rparr>" 0 "[]"]
    by (simp add: resume_bound_def)
qed

end
