(* ===== verification/AgentRunFacts.thy ===== *)
theory AgentRunFacts
  imports AgentRuns AgentGuards
begin

text \<open>
  What holds of the stored runs.  The consumer \<open>store_event\<close> is an \<open>agent_consumer\<close>, so what
  \<open>AgentLoopFacts\<close> shows of the loop holds of every stored run.  \<open>keeps P m\<close> says that the operation
  \<open>m\<close> preserves \<open>P\<close>, a property of the snapshot and the world.
\<close>

section \<open>The consumer changes nothing of what the run did\<close>

lemma event_core_numbered [simp]: "event_core (numbered e n x) = event_core x"
  by (simp add: numbered_def event_core_def split: option.split)

lemma restorable_numbered [simp]: "restorable (numbered e n x) = restorable x"
  by (simp add: numbered_def restorable_def)

lemma consumer_frame_refl [simp]: "consumer_frame r r"
  by (simp add: consumer_frame_def)

lemma consumer_frame_trans: "consumer_frame r s \<Longrightarrow> consumer_frame s t \<Longrightarrow> consumer_frame r t"
  by (simp add: consumer_frame_def)

interpretation frame: counted "\<lambda>_. consumer_frame"
  by unfold_locales (auto intro: consumer_frame_trans)

text \<open>The same for operations that fail with an exception.\<close>

definition frames :: "('x, 'a) run_act \<Rightarrow> bool" where
  "frames m \<longleftrightarrow> (\<forall>s. consumer_frame (fst s) (fst (snd (m s))))"

lemma frames_bind:
  assumes "frames m" "\<And>x. frames (k x)"
  shows "frames (bind_a m k)"
  unfolding frames_def
proof
  fix s
  obtain x s1 where m: "m s = (x, s1)" by (cases "m s") auto
  with assms(1) have first: "consumer_frame (fst s) (fst s1)" unfolding frames_def by (metis snd_conv)
  show "consumer_frame (fst s) (fst (snd (bind_a m k s)))"
  proof (cases x)
    case (Inl e)
    with m first show ?thesis by (simp add: bind_a_def)
  next
    case (Inr y)
    with m have "bind_a m k s = k y s1" by (simp add: bind_a_def)
    moreover have "consumer_frame (fst s1) (fst (snd (k y s1)))" using assms(2) unfolding frames_def by blast
    ultimately show ?thesis using consumer_frame_trans [OF first] by simp
  qed
qed

lemma frames_return: "frames (return_a x)"
  by (simp add: frames_def)

lemma frames_raise: "frames (raise_a x)"
  by (simp add: frames_def)

lemma frames_update: "(\<And>r. consumer_frame r (f r)) \<Longrightarrow> frames (update_run f)"
  by (simp add: frames_def update_run_def)

lemma frames_save: "frames (save_run sv)"
  by (simp add: frames_def save_run_def split: prod.split)

lemma frames_stored: "frames (stored_status sv)" "frames (stored_run sv)"
  by (simp_all add: frames_def stored_status_def stored_run_def)

lemma event_cores_numbered: "List.map_filter event_core (map (numbered e n) es) = List.map_filter event_core es"
  by (induction es) (simp_all add: List.map_filter_simps split: option.split)

lemma frames_journal: "frames (journal sv e)"
  by (auto simp: frames_def journal_def consumer_frame_def event_cores_def event_cores_numbered
      restorable_trace_def split: prod.split)

lemma manual_pause_frame: "consumer_frame r (manual_pause at_event why r)"
  by (simp add: consumer_frame_def manual_pause_def event_cores_def restorable_trace_def)

lemma frames_trace_pause: "frames (add_run_trace sv (manual_pause_event at_event why))"
proof -
  have link: "link_last_step e r = r" if "te_step_type e = None" for e r
    using that by (simp add: link_last_step_def)
  show ?thesis
    by (auto simp: frames_def add_run_trace_def add_trace_def completed_event_def link manual_pause_event_def
        new_event_def tag_event_def tool_event_def Let_def consumer_frame_def event_cores_def map_filter_append
        map_filter_single event_core_def restorable_trace_def restorable_def
        split: prod.split option.split)
qed

lemma frames_pause: "frames (pause_if_requested sv e)"
proof -
  have pause: "frames (bind_a (update_run (manual_pause at_event why)) (\<lambda>_.
       bind_a (add_run_trace sv (manual_pause_event at_event why)) (\<lambda>p.
       bind_a (journal sv p) (\<lambda>p. bind_a (save_run sv) (\<lambda>_. return_a (Some p))))))" for at_event why
    by (intro frames_bind frames_update manual_pause_frame frames_trace_pause frames_journal frames_save
        frames_return)
  have carry: "consumer_frame r (r\<lparr>rn_pause_request := x\<rparr>)" for r x
    by (simp add: consumer_frame_def event_cores_def restorable_trace_def)
  have "consumer_frame (fst s) (fst (snd (pause_if_requested sv e s)))" for s
  proof (cases "get_state (rv_scope sv) (rn_run_id (fst s)) (db_runs (rw_db (snd s)))")
    case (Inr stored)
    show ?thesis
    proof (cases "rn_pause_request stored")
      case (Some reason)
      with Inr pause [of "event_type_value (te_type e)"] carry show ?thesis
        by (simp only: pause_if_requested_def frames_def Let_def sum.case option.case fst_conv snd_conv
            consumer_frame_refl split: if_split) blast
    qed (simp add: pause_if_requested_def Inr)
  qed (simp add: pause_if_requested_def)
  then show ?thesis by (simp add: frames_def)
qed

lemma moves_in_body: "frames m \<Longrightarrow> moves consumer_frame (in_body m)"
  by (auto simp: moves_def frames_def in_body_def split: prod.split sum.split) (metis fst_conv snd_conv)+

lemma moves_hand_on: "moves consumer_frame (hand_on sv e)"
  by (simp add: moves_def hand_on_def split: prod.split)

lemma store_event_frame: "moves consumer_frame (store_event sv e)"
proof -
  have "moves consumer_frame (store_delta sv e)"
    unfolding store_delta_def
    by (auto simp del: return_a_simp raise_a_simp intro!: frame.moves_then moves_in_body frames_stored
        frames_journal moves_hand_on frame.moves_raise)
  moreover have "moves consumer_frame (store_checkpoint sv e)"
    unfolding store_checkpoint_def
    by (auto simp del: return_a_simp raise_a_simp split: option.split
        intro!: frame.moves_then moves_in_body frames_stored frames_journal frames_pause frames_save
          moves_hand_on frame.moves_raise frame.moves_return)
  ultimately show ?thesis by (simp add: store_event_def)
qed

interpretation stored: agent_consumer "(rv_env sv)\<lparr>av_emit := store_event sv\<rparr>" for sv :: "'x run_service"
  by unfold_locales (simp add: store_event_frame)

section \<open>A canceled run stays canceled\<close>

text \<open>
  \<open>told\<close> may be any property of the rest of the world that makes every collaborator sure that the run was
  canceled: what another coroutine that cancels the run while this one waits leaves behind.
\<close>

definition run_canceled :: "string \<Rightarrow> 'x run_world \<Rightarrow> bool" where
  "run_canceled run w \<longleftrightarrow>
     (case dict_get (db_runs (rw_db w)) run of None \<Rightarrow> False | Some row \<Rightarrow> rn_status (rr_state row) = Run_CANCELED)"

definition cancel_known :: "('x \<Rightarrow> bool) \<Rightarrow> string \<Rightarrow> 'x run_world \<Rightarrow> bool" where
  "cancel_known told run w \<longleftrightarrow> (told (rw_rest w) \<longrightarrow> run_canceled run w)"

text \<open>Ids and times are made without an await: they tell nothing.\<close>

definition calm_service :: "('x \<Rightarrow> bool) \<Rightarrow> string \<Rightarrow> 'x run_service \<Rightarrow> bool" where
  "calm_service told run sv \<longleftrightarrow> guards (cancel_known told run) (\<lambda>_. False) (rv_env sv)
     \<and> chats_keep (cancel_known told run) (rv_env sv)
     \<and> (\<forall>e. world_keeps (cancel_known told run) (rv_yield sv e))
     \<and> world_keeps (\<lambda>w. \<not> told (rw_rest w)) (av_uuid (rv_env sv))"

text \<open>A triple with an invariant: what holds after a result, and what holds after an exception.\<close>

definition triple :: "('s \<Rightarrow> bool) \<Rightarrow> ('s \<Rightarrow> bool) \<Rightarrow> ('e, 's, 'a) act \<Rightarrow> ('a \<Rightarrow> 's \<Rightarrow> bool) \<Rightarrow> bool" where
  "triple I A m B \<longleftrightarrow> (\<forall>s. A s \<longrightarrow> (case m s of (Inl _, s') \<Rightarrow> I s' | (Inr x, s') \<Rightarrow> B x s'))"

lemma tripleI: "(\<And>s x s'. A s \<Longrightarrow> m s = (x, s') \<Longrightarrow> (case x of Inl _ \<Rightarrow> I s' | Inr v \<Rightarrow> B v s')) \<Longrightarrow> triple I A m B"
  by (auto simp: triple_def split: prod.split sum.split)

lemma triple_bind:
  assumes "triple I A m B" "\<And>x. triple I (B x) (k x) C"
  shows "triple I A (bind_a m k) C"
proof (rule tripleI)
  fix s x s' assume A: "A s" and run: "bind_a m k s = (x, s')"
  obtain y s1 where m: "m s = (y, s1)" by (cases "m s") auto
  from assms(1) A m have "case y of Inl _ \<Rightarrow> I s1 | Inr v \<Rightarrow> B v s1"
    unfolding triple_def by (auto split: sum.splits)
  moreover have "case z of Inl _ \<Rightarrow> I s2 | Inr u \<Rightarrow> C u s2" if "B v s1" "k v s1 = (z, s2)" for v z s2
    using assms(2) [of v] that unfolding triple_def by (auto split: prod.splits)
  ultimately show "case x of Inl _ \<Rightarrow> I s' | Inr v \<Rightarrow> C v s'"
    using m run by (cases y) (auto simp: bind_a_def)
qed

lemma triple_weaken: "triple I A m B \<Longrightarrow> (\<And>s. A' s \<Longrightarrow> A s) \<Longrightarrow> (\<And>x s. B x s \<Longrightarrow> B' x s) \<Longrightarrow> triple I A' m B'"
  by (fastforce simp: triple_def split: prod.splits sum.splits)

lemma triple_return: "(\<And>s. A s \<Longrightarrow> B x s) \<Longrightarrow> triple I A (return_a x) B"
  by (simp add: triple_def)

lemma triple_raise: "(\<And>s. A s \<Longrightarrow> I s) \<Longrightarrow> triple I A (raise_a e) B"
  by (simp add: triple_def)

lemma triple_if: "(c \<Longrightarrow> triple I A m B) \<Longrightarrow> (\<not> c \<Longrightarrow> triple I A k B) \<Longrightarrow> triple I A (if c then m else k) B"
  by simp

lemma triple_in_body: "triple I A m B \<Longrightarrow> triple I A (in_body m) B"
  by (fastforce simp: triple_def in_body_def split: prod.splits sum.splits)

lemma triple_keeps_iff: "triple I I m (\<lambda>_. I) \<longleftrightarrow> keeps I m"
proof -
  have "(case m s of (Inl _, s') \<Rightarrow> I s' | (Inr _, s') \<Rightarrow> I s') = I (snd (m s))" for s
    by (simp add: case_prod_beta split: sum.split)
  then show ?thesis by (simp add: triple_def keeps_def)
qed

lemmas triple_keeps = triple_keeps_iff [THEN iffD1] and keeps_triple = triple_keeps_iff [THEN iffD2]

text \<open>\<open>known\<close> is the invariant, \<open>untold\<close> what holds as long as nobody knows of a cancellation.\<close>

abbreviation known :: "('x \<Rightarrow> bool) \<Rightarrow> string \<Rightarrow> agent_run \<times> 'x run_world \<Rightarrow> bool" where
  "known told run \<equiv> at_run run (cancel_known told run)"

definition untold :: "('x \<Rightarrow> bool) \<Rightarrow> string \<Rightarrow> agent_run \<times> 'x run_world \<Rightarrow> bool" where
  "untold told run s \<longleftrightarrow> rn_run_id (fst s) = run \<and> \<not> told (rw_rest (snd s))"

lemma untold_known: "untold told run s \<Longrightarrow> known told run s"
  by (simp add: untold_def at_run_def cancel_known_def)

lemma set_sel [simp]:
  "rw_rest (set_runs d w) = rw_rest w" "rw_rest (set_traces t w) = rw_rest w" "rw_rest (set_ledger l w) = rw_rest w"
  by (simp_all add: set_runs_def set_traces_def set_ledger_def)

lemma triple_update:
  "(\<And>r. rn_run_id (f r) = rn_run_id r) \<Longrightarrow> triple I (untold told run) (update_run f) (\<lambda>_. untold told run)"
  by (simp add: triple_def update_run_def untold_def)

lemma triple_save:
  assumes "\<And>s. untold told run s \<Longrightarrow> I s"
  shows "triple I (untold told run) (save_run sv) (\<lambda>_. untold told run)"
proof (rule tripleI)
  fix s x s' assume "untold told run s" "save_run sv s = (x, s')"
  then have "untold told run s'" by (auto simp: save_run_def untold_def split: prod.splits)
  with assms show "case x of Inl _ \<Rightarrow> I s' | Inr _ \<Rightarrow> untold told run s'" by (cases x) simp_all
qed

lemma triple_journal: "triple I (untold told run) (journal sv e) (\<lambda>_. untold told run)"
  by (auto simp: triple_def journal_def untold_def split: prod.splits)

lemma triple_trace:
  assumes "world_keeps (\<lambda>w. \<not> told (rw_rest w)) (av_uuid (rv_env sv))"
  shows "triple I (untold told run) (add_run_trace sv e) (\<lambda>_. untold told run)"
proof -
  have "\<not> told (rw_rest w')" if "\<not> told (rw_rest w)" "av_uuid (rv_env sv) w = (i, w')" for w i w'
    using assms that unfolding world_keeps_def by (metis snd_conv)
  then show ?thesis
    by (auto simp: triple_def add_run_trace_def add_trace_def untold_def Let_def link_last_step_run
        split: prod.splits option.splits)
qed

lemma row_of_canceled:
  "row_of scope run d = Some row \<Longrightarrow> run_canceled run w = (rn_status (rr_state row) = Run_CANCELED)"
  if "d = db_runs (rw_db w)"
  using that by (auto simp: run_canceled_def dest: row_of_Some)

lemma stored_untold:
  assumes "known told run s" "row_of scope run (db_runs (rw_db (snd s))) = Some row"
    "rn_status (rr_state row) \<noteq> Run_CANCELED"
  shows "untold told run s"
  using assms row_of_canceled [OF refl assms(2)] by (auto simp: at_run_def cancel_known_def untold_def)

lemma pending_text_status [simp]: "rn_status (with_pending_text t r) = rn_status r"
  by (simp add: with_pending_text_def)

lemma triple_stored_run:
  "triple (known told run) (known told run) (stored_run sv)
     (\<lambda>st s. if rn_status st = Run_CANCELED then known told run s else untold told run s)"
  by (auto simp: triple_def stored_run_def load_run_def get_state_def at_run_def
      split: option.splits intro: stored_untold [unfolded at_run_def])

lemma triple_stored_status:
  "triple (known told run) (known told run) (stored_status sv)
     (\<lambda>st s. if st = Run_CANCELED then known told run s else untold told run s)"
  by (auto simp: triple_def stored_status_def get_run_status_def at_run_def
      split: option.splits intro: stored_untold [unfolded at_run_def])

lemma triple_hand_on:
  assumes "calm_service told run sv"
  shows "triple (known told run) (known told run) (hand_on sv e) (\<lambda>_. known told run)"
proof (rule tripleI)
  fix s :: "agent_run \<times> 'a run_world" and x s'
  assume known: "known told run s" and run: "hand_on sv e s = (x, s')"
  let ?w = "(snd s)\<lparr>rw_sent := rw_sent (snd s) @ [e]\<rparr>"
  have "cancel_known told run ?w" using known by (simp add: at_run_def cancel_known_def run_canceled_def)
  with assms have "cancel_known told run (snd (rv_yield sv e ?w))"
    by (simp add: calm_service_def world_keeps_def)
  with known run show "case x of Inl _ \<Rightarrow> known told run s' | Inr _ \<Rightarrow> known told run s'"
    by (auto simp: hand_on_def at_run_def split: prod.splits sum.split)
qed

lemma triple_pause:
  assumes "calm_service told run sv"
  shows "triple (known told run) (known told run) (pause_if_requested sv e) (\<lambda>_. known told run)"
    "triple (known told run) (untold told run) (pause_if_requested sv e) (\<lambda>_. untold told run)"
proof -
  have id: "world_keeps (\<lambda>w. \<not> told (rw_rest w)) (av_uuid (rv_env sv))"
    using assms by (simp add: calm_service_def)
  let ?pause = "\<lambda>why. bind_a (update_run (manual_pause (event_type_value (te_type e)) why)) (\<lambda>_.
       bind_a (add_run_trace sv (manual_pause_event (event_type_value (te_type e)) why)) (\<lambda>p.
       bind_a (journal sv p) (\<lambda>p. bind_a (save_run sv) (\<lambda>_. return_a (Some p)))))"
  have pause: "triple (known told run) (untold told run) (?pause why) (\<lambda>_. untold told run)" for why
    by (rule triple_bind [OF triple_update], simp add: manual_pause_def)
      (rule triple_bind [OF triple_trace [OF id]] triple_bind [OF triple_journal]
         triple_bind [OF triple_save, OF untold_known] triple_return | assumption)+
  have step: "(case pause_if_requested sv e s of (Inl _, s') \<Rightarrow> known told run s' | (Inr _, s') \<Rightarrow> untold told run s')
      \<or> snd (pause_if_requested sv e s) = s" if "known told run s" for s
  proof (cases "get_state (rv_scope sv) (rn_run_id (fst s)) (db_runs (rw_db (snd s)))")
    case (Inr stored)
    have "rn_run_id (fst s) = run" using that by (simp add: at_run_def)
    with Inr obtain row where row: "row_of (rv_scope sv) run (db_runs (rw_db (snd s))) = Some row" "rr_state row = stored"
      by (auto simp: get_state_def split: option.splits)
    show ?thesis
    proof (cases "rn_pause_request stored = None \<or> rn_status stored \<noteq> Run_RUNNING \<or> rn_status (fst s) \<noteq> Run_RUNNING")
      case True
      with Inr show ?thesis by (auto simp: pause_if_requested_def split: option.split)
    next
      case False
      with row have untold: "untold told run s" by (intro stored_untold [OF that row(1)]) simp
      from False obtain reason where reason: "rn_pause_request stored = Some reason" by auto
      let ?why = "case reason of None \<Rightarrow> ''pause'' | Some t \<Rightarrow> t"
      have "case ?pause ?why s of (Inl _, s') \<Rightarrow> known told run s' | (Inr _, s') \<Rightarrow> untold told run s'"
        by (rule pause [of ?why, unfolded triple_def, rule_format, OF untold])
      with untold False Inr reason show ?thesis
        by (auto simp: pause_if_requested_def Let_def untold_def simp del: return_a_simp)
    qed
  qed (simp add: pause_if_requested_def)
  show "triple (known told run) (known told run) (pause_if_requested sv e) (\<lambda>_. known told run)"
  proof (rule tripleI)
    fix s x s' assume "known told run s" "pause_if_requested sv e s = (x, s')"
    with step [of s] show "case x of Inl _ \<Rightarrow> known told run s' | Inr _ \<Rightarrow> known told run s'"
      by (cases x) (auto intro: untold_known)
  qed
  show "triple (known told run) (untold told run) (pause_if_requested sv e) (\<lambda>_. untold told run)"
  proof (rule tripleI)
    fix s x s' assume "untold told run s" "pause_if_requested sv e s = (x, s')"
    with step [OF untold_known, of s] show "case x of Inl _ \<Rightarrow> known told run s' | Inr _ \<Rightarrow> untold told run s'"
      by (cases x) (auto intro: untold_known)
  qed
qed

lemma keeps_store_event:
  assumes "calm_service told run sv"
  shows "keeps (known told run) (store_event sv e)"
proof -
  have delta: "triple (known told run) (known told run) (store_delta sv e) (\<lambda>_. known told run)"
    unfolding store_delta_def
  proof (rule triple_bind [OF triple_in_body [OF triple_stored_status]], rule triple_if)
    fix st
    assume "st = Run_CANCELED"
    then show "triple (known told run)
        (\<lambda>s. if st = Run_CANCELED then known told run s else untold told run s) (raise_a (Closed None)) (\<lambda>_. known told run)"
      by (intro triple_raise) simp
  next
    fix st
    assume "st \<noteq> Run_CANCELED"
    then show "triple (known told run) (\<lambda>s. if st = Run_CANCELED then known told run s else untold told run s)
        (bind_a (in_body (journal sv e)) (hand_on sv)) (\<lambda>_. known told run)"
      using triple_bind [OF triple_in_body [OF triple_journal]
          triple_weaken [OF triple_hand_on [OF assms] untold_known]] by simp
  qed
  have rest: "triple (known told run) (untold told run)
      (bind_a (in_body (journal sv e)) (\<lambda>e. bind_a (in_body (pause_if_requested sv e)) (\<lambda>before.
            bind_a (in_body (save_run sv)) (\<lambda>_. bind_a (hand_on sv e) (\<lambda>_.
            bind_a (case before of Some p \<Rightarrow> return_a (Some p) | None \<Rightarrow> in_body (pause_if_requested sv e)) (\<lambda>paused.
              case paused of
                None \<Rightarrow> return_a ()
              | Some p \<Rightarrow> bind_a (hand_on sv p) (\<lambda>_. raise_a (Closed None)))))))) (\<lambda>_. known told run)"
  proof (intro triple_bind)
    show "triple (known told run) (untold told run) (in_body (journal sv e)) (\<lambda>_. untold told run)"
      by (rule triple_in_body [OF triple_journal])
    show "triple (known told run) (untold told run) (in_body (pause_if_requested sv x)) (\<lambda>_. untold told run)" for x
      by (rule triple_in_body [OF triple_pause(2) [OF assms]])
    show "triple (known told run) (untold told run) (in_body (save_run sv)) (\<lambda>_. untold told run)"
      by (rule triple_in_body [OF triple_save [OF untold_known]])
    show "triple (known told run) (untold told run) (hand_on sv x) (\<lambda>_. known told run)" for x
      by (rule triple_weaken [OF triple_hand_on [OF assms] untold_known])
    show "triple (known told run) (known told run)
        (case before of Some p \<Rightarrow> return_a (Some p) | None \<Rightarrow> in_body (pause_if_requested sv x))
        (\<lambda>_. known told run)" for before x
      by (cases before)
        (simp_all add: triple_in_body [OF triple_pause(1) [OF assms]] triple_return del: return_a_simp)
    show "triple (known told run) (known told run) (case paused of None \<Rightarrow> return_a ()
          | Some p \<Rightarrow> bind_a (hand_on sv p) (\<lambda>_. raise_a (Closed None))) (\<lambda>_. known told run)" for paused
      by (cases paused) (auto intro!: triple_return triple_bind [OF triple_hand_on [OF assms]] triple_raise
          simp del: return_a_simp raise_a_simp)
  qed
  have "triple (known told run) (known told run) (store_checkpoint sv e) (\<lambda>_. known told run)"
    unfolding store_checkpoint_def
  proof (rule triple_bind [OF triple_in_body [OF triple_stored_run]], rule triple_if)
    fix st :: agent_run
    assume "rn_status st = Run_CANCELED"
    then show "triple (known told run)
        (\<lambda>s. if rn_status st = Run_CANCELED then known told run s else untold told run s)
        (raise_a (Closed None)) (\<lambda>_. known told run)"
      by (intro triple_raise) simp
  next
    fix st :: agent_run
    assume "rn_status st \<noteq> Run_CANCELED"
    with rest show "triple (known told run)
        (\<lambda>s. if rn_status st = Run_CANCELED then known told run s else untold told run s)
        (bind_a (in_body (journal sv e)) (\<lambda>e. bind_a (in_body (pause_if_requested sv e)) (\<lambda>before.
            bind_a (in_body (save_run sv)) (\<lambda>_. bind_a (hand_on sv e) (\<lambda>_.
            bind_a (case before of Some p \<Rightarrow> return_a (Some p) | None \<Rightarrow> in_body (pause_if_requested sv e)) (\<lambda>paused.
              case paused of
                None \<Rightarrow> return_a ()
              | Some p \<Rightarrow> bind_a (hand_on sv p) (\<lambda>_. raise_a (Closed None)))))))) (\<lambda>_. known told run)"
      by simp
  qed
  with delta show ?thesis by (auto simp: store_event_def intro: triple_keeps)
qed

lemma keeps_mark_failed:
  assumes "calm_service told run sv" "cancel_known told run w" "mark_failed sv run err w = (x, w')"
  shows "cancel_known told run w'"
proof (cases "load_run (rv_scope sv) run (rw_db w)")
  case (Inl e)
  with assms show ?thesis by (simp add: mark_failed_def with_loaded_def)
next
  case (Inr r)
  show ?thesis
  proof (cases "rn_status r = Run_RUNNING")
    case True
    from Inr obtain row where row: "row_of (rv_scope sv) run (db_runs (rw_db w)) = Some row"
        "r = with_pending_text (db_traces (rw_db w)) (rr_state row)"
      by (auto simp: load_run_def get_state_def split: option.splits)
    from row(2) True have "rn_status (rr_state row) \<noteq> Run_CANCELED" by simp
    with row_of_canceled [OF refl row(1)] assms(2) have "untold told (rn_run_id r) (r, w)"
      by (simp add: untold_def cancel_known_def)
    moreover have id: "world_keeps (\<lambda>w. \<not> told (rw_rest w)) (av_uuid (rv_env sv))"
      using assms(1) by (simp add: calm_service_def)
    let ?f = "agent_run_failure err"
    let ?m = "bind_a (add_run_trace sv (failure_event ?f)) (\<lambda>e. bind_a (journal sv e) (\<lambda>_.
            bind_a (update_run (failed_run ?f)) (\<lambda>_. save_run sv)))"
    have "triple (untold told (rn_run_id r)) (untold told (rn_run_id r)) ?m (\<lambda>_. untold told (rn_run_id r))"
      by (rule triple_bind [OF triple_trace [OF id]] triple_bind [OF triple_journal]
          triple_bind [OF triple_update] triple_save | simp add: failed_run_def)+
    ultimately have "untold told (rn_run_id r) (snd (?m (r, w)))"
      unfolding triple_keeps_iff keeps_def by blast
    moreover from Inr True assms(3) have "w' = snd (snd (?m (r, w)))"
      by (simp add: mark_failed_def with_loaded_def on_snapshot_def Let_def split: prod.splits)
    ultimately show ?thesis by (simp add: untold_def cancel_known_def)
  next
    case False
    with Inr assms show ?thesis by (simp add: mark_failed_def with_loaded_def)
  qed
qed

lemma keeps_failed_stream:
  assumes "calm_service told run sv"
  shows "keeps (known told run) (failed_stream sv err)"
proof -
  have save: "triple (known told run)
      (\<lambda>s. if rn_status st = Run_CANCELED then known told run s else untold told run s)
      (if rn_status st \<noteq> Run_CANCELED then save_run sv else return_a ()) (\<lambda>_. known told run)" for st
    by (rule triple_if)
      (simp_all add: triple_weaken [OF triple_save [OF untold_known]] untold_known triple_return del: return_a_simp)
  have mark: "triple (known told run) (known told run)
      (\<lambda>s. case mark_failed sv (rn_run_id (fst s)) err (snd s) of (x, w) \<Rightarrow> (x, (fst s, w))) (\<lambda>_. known told run)"
  proof (rule tripleI)
    fix s :: "agent_run \<times> 'a run_world" and x s'
    assume known: "known told run s"
      and run: "(case mark_failed sv (rn_run_id (fst s)) err (snd s) of (x, w) \<Rightarrow> (x, (fst s, w))) = (x, s')"
    obtain y w' where mark: "mark_failed sv run err (snd s) = (y, w')" by (cases "mark_failed sv run err (snd s)") auto
    with known run keeps_mark_failed [OF assms _ mark] have "known told run s'" by (auto simp: at_run_def)
    then show "case x of Inl _ \<Rightarrow> known told run s' | Inr _ \<Rightarrow> known told run s'" by (cases x) simp_all
  qed
  have "triple (known told run) (known told run) (failed_stream sv err) (\<lambda>_. known told run)"
    unfolding failed_stream_def
    by (rule triple_if triple_raise triple_bind [OF triple_stored_run] triple_bind [OF save]
        triple_bind [OF mark] | assumption)+
  then show ?thesis by (rule triple_keeps)
qed

lemma keeps_final_save: "keeps (known told run) (final_save sv)"
  unfolding keeps_def
proof (intro allI impI)
  fix s :: "agent_run \<times> 'a run_world"
  assume known: "known told run s"
  show "known told run (snd (final_save sv s))"
  proof (cases "get_state (rv_scope sv) (rn_run_id (fst s)) (db_runs (rw_db (snd s)))")
    case (Inr stored)
    have "rn_run_id (fst s) = run" using known by (simp add: at_run_def)
    with Inr obtain row where row: "row_of (rv_scope sv) run (db_runs (rw_db (snd s))) = Some row" "rr_state row = stored"
      by (auto simp: get_state_def split: option.splits)
    show ?thesis
    proof (cases "rn_status stored = Run_CANCELED \<or> rn_status stored = Run_FAILED")
      case False
      with row have "untold told run s" by (intro stored_untold [OF known row(1)]) simp
      then have "untold told run (snd (save_run sv s))"
        using triple_save [of told run "untold told run" sv] unfolding triple_keeps_iff keeps_def by blast
      with Inr False show ?thesis by (simp add: final_save_def untold_known)
    qed (use known Inr in \<open>simp add: final_save_def\<close>)
  qed (use known in \<open>simp add: final_save_def\<close>)
qed

lemma keeps_stream_and_store:
  assumes "calm_service told run sv"
    and "keeps (known told run) (events ((rv_env sv)\<lparr>av_emit := store_event sv\<rparr>))"
  shows "keeps (known told run) (stream_and_store sv events)"
  unfolding keeps_def
proof (intro allI impI)
  fix s :: "agent_run \<times> 'a run_world"
  assume known: "known told run s"
  obtain x s1 where events: "events ((rv_env sv)\<lparr>av_emit := store_event sv\<rparr>) s = (x, s1)"
    by (cases "events ((rv_env sv)\<lparr>av_emit := store_event sv\<rparr>) s") auto
  then have "known told run s1" using assms(2) known unfolding keeps_def by (metis snd_conv)
  then have "known told run (snd (stored_failure sv x s1))"
    using keepsD [OF keeps_failed_stream [OF assms(1)]]
    by (auto simp: stored_failure_def split: sum.split signal.split option.split prod.split)
  then have "known told run (snd (final_save sv (snd (stored_failure sv x s1))))"
    using keeps_final_save [where told = told and run = run and sv = sv] unfolding keeps_def by blast
  moreover have "snd (stream_and_store sv events s) = snd (final_save sv (snd (stored_failure sv x s1)))"
    using events by (simp add: stream_and_store_def case_prod_beta split: sum.split)
  ultimately show "known told run (snd (stream_and_store sv events s))" by simp
qed

text \<open>C9: A cancellation is final.  However the run goes on, finishes, fails, is interrupted or is closed after
  another coroutine has marked it as canceled while it waited for the model, a tool or its client, neither
  the consumer nor the exception handlers write over the cancellation: whenever somebody knows of it, the
  stored run is canceled.\<close>

theorem canceled_run_stays_canceled:
  assumes "calm_service told (rn_run_id r) sv"
    and "events = (\<lambda>env. run_agent_events env request) \<or> events = (\<lambda>env. resume_agent_events env approvals)"
    and "cancel_known told (rn_run_id r) w"
    and "stream_and_store sv events (r, w) = (x, (r', w'))" "told (rw_rest w')"
  shows "run_canceled (rn_run_id r) w'"
proof -
  let ?run = "rn_run_id r"
  have "guarded ?run (cancel_known told ?run) (\<lambda>_. False) ((rv_env sv)\<lparr>av_emit := store_event sv\<rparr>)"
    using assms(1) keeps_store_event [OF assms(1)]
    by (simp add: guarded_def calm_service_def guards_def safety_decision_def)
  moreover have "chats_keep (cancel_known told ?run) ((rv_env sv)\<lparr>av_emit := store_event sv\<rparr>)"
    using assms(1) by (simp add: calm_service_def chats_keep_def)
  ultimately have "keeps (known told ?run) (events ((rv_env sv)\<lparr>av_emit := store_event sv\<rparr>))"
    using assms(2) by (auto intro: keeps_run_agent_events keeps_resume_agent_events)
  from keeps_stream_and_store [where events = events, OF assms(1) this] have "known told ?run (r', w')"
    by (rule keepsD [where s = "(r, w)"]) (simp_all add: at_run_def assms(3,4))
  with assms(5) show ?thesis by (simp add: at_run_def cancel_known_def)
qed

section \<open>An example: canceled while the context is loaded\<close>

definition demo_world :: "bool run_world" where
  "demo_world = \<lparr>rw_db = \<lparr>db_runs = [(''r'', new_row 0 (new_run ''r'' (new_request ''p'' ''x'' ''m'')))],
       db_traces = \<lparr>tt_rows = [], tt_next = 1\<rparr>, db_ledger = []\<rparr>,
     rw_executor = \<lparr>xe_id = ''w'', xe_lease_ttl = 30, xe_tasks = [], xe_cancel_requested = [],
       xe_lease_lost = [], xe_closing = False\<rparr>,
     rw_lifecycle = \<lparr>lc_closing = False, lc_active = 0\<rparr>, rw_sent = [], rw_rest = False\<rparr>"

text \<open>While the context is loaded, another coroutine cancels the run and the rest of the world is told.\<close>

definition cancel_meanwhile :: "bool run_world \<Rightarrow> bool run_world" where
  "cancel_meanwhile w =
     (set_runs (dict_set ''r'' (new_row 0 (canceled_run None (new_run ''r'' (new_request ''p'' ''x'' ''m''))))
        (db_runs (rw_db w))) w)\<lparr>rw_rest := True\<rparr>"

definition demo_service :: "bool run_service" where
  "demo_service = \<lparr>rv_env = quiet_env\<lparr>av_get_context := \<lambda>scope i w. (Inr quiet_context, cancel_meanwhile w)\<rparr>,
     rv_scope = None, rv_held = None, rv_yield = \<lambda>e w. (True, w), rv_timed_out = \<lambda>w. False\<rparr>"

lemma demo_calm: "calm_service (\<lambda>b. b) ''r'' demo_service"
proof -
  have "cancel_known (\<lambda>b. b) ''r'' (cancel_meanwhile w)" for w
    by (simp add: cancel_known_def cancel_meanwhile_def run_canceled_def set_runs_def new_row_def canceled_run_def)
  then show ?thesis
    by (simp add: calm_service_def guards_def chats_keep_def world_keeps_def demo_service_def quiet_env_def)
qed

definition demo_end :: "(signal + unit) \<times> agent_run \<times> bool run_world" where
  "demo_end = stream_and_store demo_service (\<lambda>env. run_agent_events env (new_request ''p'' ''x'' ''m''))
     (new_run ''r'' (new_request ''p'' ''x'' ''m''), demo_world)"

lemma demo_told: "rw_rest (snd (snd demo_end))"
  by code_simp

lemma canceled_run_stays_canceled_witness: "run_canceled ''r'' (snd (snd demo_end))"
proof -
  let ?r = "new_run ''r'' (new_request ''p'' ''x'' ''m'')"
  have r: "rn_run_id ?r = ''r''" by (simp add: new_run_def)
  have calm: "calm_service (\<lambda>b. b) (rn_run_id ?r) demo_service" by (simp only: r demo_calm)
  have run: "stream_and_store demo_service (\<lambda>env. run_agent_events env (new_request ''p'' ''x'' ''m''))
      (?r, demo_world) = (fst demo_end, (fst (snd demo_end), snd (snd demo_end)))"
    by (simp only: demo_end_def prod.collapse)
  have known: "cancel_known (\<lambda>b. b) (rn_run_id ?r) demo_world" by (simp add: cancel_known_def demo_world_def)
  show ?thesis
    using canceled_run_stays_canceled [OF calm disjI1 [OF refl] known run demo_told] by (simp only: r)
qed

end
