(* ===== verification/AgentControls.thy ===== *)
theory AgentControls
  imports AgentRunFacts
begin

text \<open>
  What the controls of a stored run promise: a requested pause takes effect at the next checkpoint, a
  cancellation is stored and traced, a retry carries no approval over, an approval counts for the round it
  was given in, and a shutdown leaves no run behind as running.
\<close>

section \<open>Saving succeeds\<close>

definition can_save :: "'x run_service \<Rightarrow> agent_run \<Rightarrow> run_table \<Rightarrow> bool" where
  "can_save sv r d \<longleftrightarrow> scope_permits (rv_scope sv) (rn_owner_id r)
     \<and> (case rv_held sv of None \<Rightarrow> True
        | Some l \<Rightarrow> hl_run_id l \<noteq> rn_run_id r
            \<or> (case dict_get d (rn_run_id r) of None \<Rightarrow> False
               | Some row \<Rightarrow> lease_held_by row (hl_owner l) (hl_generation l)))"

lemma can_save_cong:
  "rn_owner_id r' = rn_owner_id r \<Longrightarrow> rn_run_id r' = rn_run_id r \<Longrightarrow> can_save sv r' d = can_save sv r d"
  by (simp add: can_save_def split: option.split)

lemma save_run_ok:
  assumes "can_save sv r (db_runs (rw_db w))" "dict_get (db_runs (rw_db w)) (rn_run_id r) = Some row"
  shows "save_run sv (r, w) = (Inr (), (r, set_runs (dict_set (rn_run_id r) (row\<lparr>rr_state := r\<rparr>) (db_runs (rw_db w))) w))"
  using assms by (auto simp: save_run_def save_state_def require_run_scope_def can_save_def Let_def split: option.splits)

lemma can_save_saved:
  assumes "can_save sv r d" "dict_get d (rn_run_id r) = Some row"
  shows "can_save sv r (dict_set (rn_run_id r) (row\<lparr>rr_state := x\<rparr>) d)"
  using assms by (auto simp: can_save_def lease_held_by_def split: option.splits)

lemma dict_set_twice: "dict_set k b (dict_set k a d) = dict_set k b d"
  by (simp add: dict_set_def AList.update_triv AList.update_last)

section \<open>Pausing\<close>

definition paused_by_hand :: "string \<Rightarrow> agent_run \<Rightarrow> bool" where
  "paused_by_hand why r \<longleftrightarrow> rn_status r = Run_PAUSED \<and> can_resume r \<and> rn_pause_request r = None
     \<and> (\<exists>p. rn_pause r = Some p \<and> ap_cause p = Pause_MANUAL \<and> ap_reason p = Some why)"

definition quiet_clients :: "'x run_service \<Rightarrow> bool" where
  "quiet_clients sv \<longleftrightarrow> (\<forall>e w. rw_db (snd (rv_yield sv e w)) = rw_db w)
     \<and> (\<forall>w. rw_db (snd (av_uuid (rv_env sv) w)) = rw_db w)"

lemma completed_event_frame:
  "te_type (completed_event now r e) = te_type e" "te_step_type (completed_event now r e) = te_step_type e"
  by (simp_all add: completed_event_def Let_def)

lemma add_run_trace_result:
  assumes "quiet_clients sv" "te_step_type e = None" "add_run_trace sv e (r, w) = (x, (r', w'))"
  shows "\<exists>p. x = Inr p \<and> te_type p = te_type e \<and> rw_db w' = rw_db w \<and> r' = r\<lparr>rn_trace := rn_trace r @ [p]\<rparr>"
proof -
  let ?e = "completed_event (av_now (rv_env sv) w) r e"
  have link: "link_last_step y r = r" if "te_step_type y = None" for y using that by (simp add: link_last_step_def)
  have id: "rw_db v = rw_db w" if "av_uuid (rv_env sv) w = (i, v)" for i v
    using assms(1) that unfolding quiet_clients_def by (metis snd_conv)
  obtain i v where i: "(case te_event_id ?e of Some i \<Rightarrow> (i, w) | None \<Rightarrow> av_uuid (rv_env sv) w) = (i, v)"
    by fastforce
  then have "rw_db v = rw_db w" using id by (cases "te_event_id ?e") auto
  with assms(2,3) i show ?thesis
    by (auto simp: add_run_trace_def add_trace_def Let_def link completed_event_frame tag_event_def)
qed

lemma journal_result:
  "\<exists>n t. journal sv e (r, w) = (Inr (e\<lparr>te_sequence := Some n\<rparr>),
     (r\<lparr>rn_trace := map (numbered e n) (rn_trace r), rn_applied_trace_sequence := Some n\<rparr>, set_traces t w))"
  by (auto simp: journal_def split: prod.split)

lemma set_traces_runs [simp]: "db_runs (rw_db (set_traces t w)) = db_runs (rw_db w)"
  by (simp add: set_traces_def)

lemma set_runs_runs [simp]: "db_runs (rw_db (set_runs d w)) = d"
  by (simp add: set_runs_def)

lemma pause_if_requested_result:
  assumes "quiet_clients sv" "checkpoint_event (te_type e)" "rn_status r = Run_RUNNING"
    and stored: "get_state (rv_scope sv) (rn_run_id r) (db_runs (rw_db w)) = Inr st" "rn_status st = Run_RUNNING"
      "rn_pause_request st = Some reason"
    and save: "can_save sv r (db_runs (rw_db w))" "dict_get (db_runs (rw_db w)) (rn_run_id r) = Some row"
  shows "\<exists>p r' w'. pause_if_requested sv e (r, w) = (Inr (Some p), (r', w'))
     \<and> paused_by_hand (case reason of None \<Rightarrow> ''pause'' | Some t \<Rightarrow> t) r'
     \<and> rn_run_id r' = rn_run_id r \<and> rn_owner_id r' = rn_owner_id r
     \<and> db_runs (rw_db w') = dict_set (rn_run_id r) (row\<lparr>rr_state := r'\<rparr>) (db_runs (rw_db w))"
proof -
  let ?why = "case reason of None \<Rightarrow> ''pause'' | Some t \<Rightarrow> t"
  let ?at = "event_type_value (te_type e)"
  let ?r1 = "manual_pause ?at ?why r"
  obtain x r2 w2 where trace: "add_run_trace sv (manual_pause_event ?at ?why) (?r1, w) = (x, (r2, w2))"
    by (cases "add_run_trace sv (manual_pause_event ?at ?why) (?r1, w)") auto
  from add_run_trace_result [OF assms(1) _ trace] obtain p where p: "x = Inr p" "rw_db w2 = rw_db w"
      "r2 = ?r1\<lparr>rn_trace := rn_trace ?r1 @ [p]\<rparr>" by (auto simp: manual_pause_event_def new_event_def)
  obtain n t where journal: "journal sv p (r2, w2) = (Inr (p\<lparr>te_sequence := Some n\<rparr>),
      (r2\<lparr>rn_trace := map (numbered p n) (rn_trace r2), rn_applied_trace_sequence := Some n\<rparr>, set_traces t w2))"
    using journal_result [of sv p r2 w2] by blast
  define r3 where "r3 = r2\<lparr>rn_trace := map (numbered p n) (rn_trace r2), rn_applied_trace_sequence := Some n\<rparr>"
  let ?w3 = "set_traces t w2"
  have r3: "rn_run_id r3 = rn_run_id r" "rn_owner_id r3 = rn_owner_id r" "paused_by_hand ?why r3"
    using p(3) by (auto simp: r3_def manual_pause_def paused_by_hand_def can_resume_def)
  have "can_save sv r3 (db_runs (rw_db ?w3))" "dict_get (db_runs (rw_db ?w3)) (rn_run_id r3) = Some row"
    using save p(2) r3 can_save_cong [of r3 r sv "db_runs (rw_db w)"] by simp_all
  from save_run_ok [OF this] have saved: "save_run sv (r3, ?w3) = (Inr (), (r3, set_runs
      (dict_set (rn_run_id r) (row\<lparr>rr_state := r3\<rparr>) (db_runs (rw_db w))) ?w3))"
    using p(2) r3 by simp
  have "pause_if_requested sv e (r, w) = (Inr (Some (p\<lparr>te_sequence := Some n\<rparr>)), snd (save_run sv (r3, ?w3)))"
    using stored assms(2,3) trace p journal saved
    by (simp add: pause_if_requested_def Let_def bind_a_def update_run_def return_a_def r3_def)
  with saved r3 show ?thesis by auto
qed

lemma hand_on_result:
  assumes "quiet_clients sv" "hand_on sv e (r, w) = (x, (r', w'))"
  shows "(x = Inr () \<or> x = Inl Cancelled) \<and> r' = r \<and> rw_db w' = rw_db w"
proof -
  have "rw_db v' = rw_db v" if "rv_yield sv e v = (b, v')" for v b v'
    using assms(1) that unfolding quiet_clients_def by (metis snd_conv)
  from this [of "w\<lparr>rw_sent := rw_sent w @ [e]\<rparr>"] assms(2) show ?thesis
    by (auto simp: hand_on_def split: prod.splits if_splits)
qed

text \<open>C11: A requested pause takes effect at the next checkpoint.  When a run reaches a checkpoint event while
  its stored snapshot asks for a pause, the event is journaled, the run is stored as paused by the user,
  resumable, with the reason that was given and without the request, and the loop is stopped; no later
  write of this step undoes it.\<close>

theorem pause_request_honoured:
  assumes "quiet_clients sv" "checkpoint_event (te_type e)" "rn_status r = Run_RUNNING"
    and "load_run (rv_scope sv) (rn_run_id r) (rw_db w) = Inr st" "rn_status st = Run_RUNNING"
    and "rn_pause_request st = Some reason"
    and "can_save sv r (db_runs (rw_db w))" "store_event sv e (r, w) = (x, (r', w'))"
  shows "(x = Inl (Closed None) \<or> x = Inl Cancelled)
    \<and> (\<exists>row. dict_get (db_runs (rw_db w')) (rn_run_id r) = Some row \<and> rr_state row = r'
        \<and> paused_by_hand (case reason of None \<Rightarrow> ''pause'' | Some t \<Rightarrow> t) r')"
proof -
  let ?d = "db_runs (rw_db w)"
  obtain row where row: "row_of (rv_scope sv) (rn_run_id r) ?d = Some row"
      "st = with_pending_text (db_traces (rw_db w)) (rr_state row)"
    using assms(4) by (auto simp: load_run_def get_state_def split: option.splits)
  have stored: "get_state (rv_scope sv) (rn_run_id r) ?d = Inr (rr_state row)"
      "rn_status (rr_state row) = Run_RUNNING" "rn_pause_request (rr_state row) = Some reason"
    using row assms(5,6) by (simp_all add: get_state_def with_pending_text_def split: if_splits)
  note get = row_of_Some [OF row(1)]
  obtain n t where journal: "journal sv e (r, w) = (Inr (e\<lparr>te_sequence := Some n\<rparr>),
      (r\<lparr>rn_trace := map (numbered e n) (rn_trace r), rn_applied_trace_sequence := Some n\<rparr>, set_traces t w))"
    using journal_result [of sv e r w] by blast
  define r1 where "r1 = r\<lparr>rn_trace := map (numbered e n) (rn_trace r), rn_applied_trace_sequence := Some n\<rparr>"
  define w1 where "w1 = set_traces t w"
  define e1 where "e1 = e\<lparr>te_sequence := Some n\<rparr>"
  have same: "rn_run_id r1 = rn_run_id r" "rn_owner_id r1 = rn_owner_id r" "rn_status r1 = Run_RUNNING"
      "db_runs (rw_db w1) = ?d" "checkpoint_event (te_type e1)"
    using assms(2,3) by (simp_all add: r1_def w1_def e1_def)
  have "\<exists>p r2 w2. pause_if_requested sv e1 (r1, w1) = (Inr (Some p), (r2, w2))
     \<and> paused_by_hand (case reason of None \<Rightarrow> ''pause'' | Some t \<Rightarrow> t) r2
     \<and> rn_run_id r2 = rn_run_id r1 \<and> rn_owner_id r2 = rn_owner_id r1
     \<and> db_runs (rw_db w2) = dict_set (rn_run_id r1) (row\<lparr>rr_state := r2\<rparr>) (db_runs (rw_db w1))"
    by (rule pause_if_requested_result [OF assms(1) same(5,3) _ stored(2,3)])
      (use same stored(1) get assms(7) can_save_cong [of r1 r sv ?d] in simp_all)
  then obtain p r2 w2 where pause: "pause_if_requested sv e1 (r1, w1) = (Inr (Some p), (r2, w2))"
      "paused_by_hand (case reason of None \<Rightarrow> ''pause'' | Some t \<Rightarrow> t) r2"
      "rn_run_id r2 = rn_run_id r" "rn_owner_id r2 = rn_owner_id r"
      "db_runs (rw_db w2) = dict_set (rn_run_id r) (row\<lparr>rr_state := r2\<rparr>) ?d"
    using same by auto
  have "can_save sv r2 (db_runs (rw_db w2))"
    using can_save_saved [OF assms(7) get, of r2] can_save_cong [of r2 r sv "db_runs (rw_db w2)"] pause(3-5) by simp
  from save_run_ok [OF this] pause(3,5) have saved: "save_run sv (r2, w2)
      = (Inr (), (r2, set_runs (dict_set (rn_run_id r) (row\<lparr>rr_state := r2\<rparr>) ?d) w2))"
    by (simp add: dict_set_twice)
  let ?w2 = "set_runs (dict_set (rn_run_id r) (row\<lparr>rr_state := r2\<rparr>) ?d) w2"
  obtain y r3 w3 where first: "hand_on sv e1 (r2, ?w2) = (y, (r3, w3))"
    by (cases "hand_on sv e1 (r2, ?w2)") auto
  obtain z r4 w4 where second: "hand_on sv p (r3, w3) = (z, (r4, w4))"
    by (cases "hand_on sv p (r3, w3)") auto
  note a = hand_on_result [OF assms(1) first] and b = hand_on_result [OF assms(1) second]
  have "te_type e \<noteq> Ev_CHAT_DELTA" using assms(2) by (auto simp: checkpoint_event_def)
  moreover have "in_body (stored_run sv) (r, w) = (Inr st, (r, w))" "rn_status st \<noteq> Run_CANCELED"
    using assms(4,5) by (simp_all add: in_body_def stored_run_def)
  moreover have "in_body (journal sv e) (r, w) = (Inr e1, (r1, w1))"
      "in_body (pause_if_requested sv e1) (r1, w1) = (Inr (Some p), (r2, w2))"
      "in_body (save_run sv) (r2, w2) = (Inr (), (r2, ?w2))"
    using journal pause(1) saved by (simp_all add: in_body_def r1_def w1_def e1_def)
  ultimately have "store_event sv e (r, w) = (case y of Inl sig \<Rightarrow> (Inl sig, (r3, w3)) | Inr _ \<Rightarrow>
      (case z of Inl sig \<Rightarrow> (Inl sig, (r4, w4)) | Inr _ \<Rightarrow> (Inl (Closed None), (r4, w4))))"
    using first second by (simp add: store_event_def store_checkpoint_def bind_a_def return_a_def raise_a_def split: sum.split)
  with assms(8) a b pause(2) show ?thesis by (auto split: sum.splits)
qed

section \<open>Approvals of a round\<close>

lemma fold_set_get:
  "dict_get (fold (\<lambda>a. dict_set (f a) (g a)) as d) k =
     (case find (\<lambda>a. f a = k) (rev as) of Some a \<Rightarrow> Some (g a) | None \<Rightarrow> dict_get d k)"
  by (induction as arbitrary: d) (simp_all add: find_append split: option.split)

lemma fold_set_ok: "dict_ok d \<Longrightarrow> dict_ok (fold (\<lambda>a. dict_set (f a) (g a)) as d)"
  by (induction as arbitrary: d) simp_all

definition round_keyed :: "(nat \<times> string, tool_approval_decision) dict \<Rightarrow> bool" where
  "round_keyed d \<longleftrightarrow> dict_ok d \<and> (\<forall>k a. dict_get d k = Some a \<longrightarrow> k = (approval_round a, ad_tool_call_id a))"

lemma round_keyed_fold:
  assumes "round_keyed d" "\<And>a. f a = (approval_round (g a), ad_tool_call_id (g a))"
  shows "round_keyed (fold (\<lambda>a. dict_set (f a) (g a)) as d)"
  unfolding round_keyed_def
proof (intro conjI allI impI)
  show "dict_ok (fold (\<lambda>a. dict_set (f a) (g a)) as d)" using assms(1) by (simp add: round_keyed_def fold_set_ok)
  fix k a assume "dict_get (fold (\<lambda>a. dict_set (f a) (g a)) as d) k = Some a"
  then show "k = (approval_round a, ad_tool_call_id a)"
    using assms by (cases k) (auto simp: fold_set_get round_keyed_def find_Some_iff split: option.splits)
qed

lemma find_unique:
  assumes "\<And>a b. a \<in> set xs \<Longrightarrow> b \<in> set xs \<Longrightarrow> P a \<Longrightarrow> P b \<Longrightarrow> a = b" "a \<in> set xs" "P a"
  shows "find P xs = Some a"
proof (cases "find P xs")
  case (Some b)
  with assms show ?thesis by (metis find_Some_iff nth_mem)
qed (use assms in \<open>auto simp: find_None_iff\<close>)

lemma round_approvals_values:
  assumes "round_keyed d"
  shows "dict_get (round_approvals (dict_values d) m) i = dict_get d (m, i)"
proof -
  let ?xs = "filter (\<lambda>a. approval_round a = m) (dict_values d)"
  have member: "a \<in> set ?xs \<and> ad_tool_call_id a = i \<longleftrightarrow> dict_get d (m, i) = Some a" for a
    using assms by (auto simp: round_keyed_def dict_values_iff)
  have lookup: "dict_get (round_approvals (dict_values d) m) i = find (\<lambda>a. ad_tool_call_id a = i) (rev ?xs)"
    by (simp add: round_approvals_def approvals_by_call_id_def fold_set_get [where g = "\<lambda>a. a"] split: option.split)
  show ?thesis
  proof (cases "dict_get d (m, i)")
    case None
    with member lookup show ?thesis by (auto simp: find_None_iff)
  next
    case (Some a)
    have "find (\<lambda>a. ad_tool_call_id a = i) (rev ?xs) = Some a"
    proof (rule find_unique)
      show "a = b" if "a \<in> set (rev ?xs)" "b \<in> set (rev ?xs)" "ad_tool_call_id a = i" "ad_tool_call_id b = i" for a b
        using member [of a] member [of b] that by simp
    qed (use member [of a] Some in simp_all)
    with lookup Some show ?thesis by simp
  qed
qed

text \<open>An approval counts for exactly the round it was given in.  What is looked up in a round after new
  approvals for round \<open>n\<close> were merged is the last new approval of the call, if the round is \<open>n\<close>, and
  otherwise what it was before: an approval is never taken for a call of another round that has the same
  id, and merging loses no approval of the other rounds.\<close>

theorem approvals_count_for_their_round:
  assumes "0 < n"
  shows "dict_get (round_approvals (merge_approvals existing new n) m) i =
     (case (if m = n then find (\<lambda>a. ad_tool_call_id a = i) (rev new) else None) of
        Some a \<Rightarrow> Some (a\<lparr>ad_tool_round := Some n\<rparr>)
      | None \<Rightarrow> dict_get (round_approvals existing m) i)"
proof -
  let ?old = "fold (\<lambda>a. dict_set (approval_round a, ad_tool_call_id a) a) existing []"
  let ?g = "\<lambda>a. a\<lparr>ad_tool_round := Some n\<rparr>"
  let ?all = "fold (\<lambda>a. dict_set (n, ad_tool_call_id a) (?g a)) new ?old"
  have old: "round_keyed ?old"
    by (rule round_keyed_fold [where g = "\<lambda>a. a"]) (simp_all add: round_keyed_def)
  have "round_keyed ?all"
    by (rule round_keyed_fold [OF old]) (use assms in \<open>simp add: approval_round_def\<close>)
  from round_approvals_values [OF this] have new: "dict_get (round_approvals (merge_approvals existing new n) m) i
      = dict_get ?all (m, i)" by (simp add: merge_approvals_def)
  have "dict_get (round_approvals existing m) i = dict_get ?old (m, i)"
  proof -
    have eq: "find (\<lambda>a. ad_tool_call_id a = i) (filter (\<lambda>a. approval_round a = m) xs)
        = find (\<lambda>a. (approval_round a, ad_tool_call_id a) = (m, i)) xs" for xs
      by (induction xs) auto
    show ?thesis
      by (simp only: round_approvals_def approvals_by_call_id_def fold_set_get [where g = "\<lambda>a. a"] rev_filter eq)
        (simp split: option.split)
  qed
  moreover have "find (\<lambda>a. (n, ad_tool_call_id a) = (m, i)) xs
      = (if m = n then find (\<lambda>a. ad_tool_call_id a = i) xs else None)" for xs :: "tool_approval_decision list"
    by (induction xs) auto
  moreover have "dict_get ?all (m, i) = (case find (\<lambda>a. (n, ad_tool_call_id a) = (m, i)) (rev new) of
      Some a \<Rightarrow> Some (?g a) | None \<Rightarrow> dict_get ?old (m, i))" by (rule fold_set_get)
  ultimately show ?thesis by (simp only: new)
qed

section \<open>Retrying\<close>

lemma retry_request_sel:
  "ag_tool_approvals (retry_request i source) = []" "ag_pause_on_approval (retry_request i source)"
  "meta_get (ag_metadata (retry_request i source)) ''run_id'' = PStr i"
  "meta_get (ag_metadata (retry_request i source)) ''retry_of'' = PStr (rn_run_id source)"
  "(retry_request i source)\<lparr>ag_tool_approvals := a, ag_pause_on_approval := b, ag_metadata := m\<rparr>
     = (rn_request source)\<lparr>ag_tool_approvals := a, ag_pause_on_approval := b, ag_metadata := m\<rparr>"
  by (simp_all add: retry_request_def Let_def meta_get_set)

lemma make_plan_cases:
  assumes "make_plan sv run_id new_id w = (Inr plan, w')"
  obtains source i where "load_run (rv_scope sv) run_id (rw_db w) = Inr source" "can_retry source"
    "pl_source plan = source" "pl_request plan = retry_request i source" "pl_retried_run_id plan = i" "i \<noteq> []"
    "pl_abandon plan = unrecoverable_pause source" "new_id = None \<or> new_id = Some [] \<or> new_id = Some i"
proof -
  from assms obtain source where source: "load_run (rv_scope sv) run_id (rw_db w) = Inr source" "can_retry source"
    by (auto simp: make_plan_def with_loaded_def split: sum.splits if_splits)
  obtain i w1 where i: "(if string_or new_id [] = [] then av_uuid (rv_env sv) w else (string_or new_id [], w)) = (i, w1)"
    by (cases "if string_or new_id [] = [] then av_uuid (rv_env sv) w else (string_or new_id [], w)") auto
  have id: "metadata_run_id (ag_metadata (retry_request i source)) = (if i \<noteq> [] then Some i else None)"
    by (simp add: metadata_run_id_def retry_request_sel)
  from assms source i have plan: "i \<noteq> []" "plan = \<lparr>pl_source = source, pl_request = retry_request i source,
      pl_retried_run_id = i, pl_abandon = unrecoverable_pause source\<rparr>"
    by (auto simp: make_plan_def with_loaded_def Let_def id split: if_splits)
  have "new_id = None \<or> new_id = Some [] \<or> new_id = Some i"
    using i by (auto simp: string_or_def split: option.splits if_splits)
  with source plan show ?thesis by (intro that) simp_all
qed

text \<open>Only a canceled or failed run, or a paused one that cannot resume, is retried, as a new run that asks
  again for every approval.  The new request carries none of the approvals of the old one and pauses for
  approvals; it names its own run, under the id that was asked for, and the run it retries, and it is the
  old request in everything else.\<close>

theorem retry_carries_no_approval:
  assumes "prepare_retry sv run_id new_id w = (Inr request, w')"
  shows "\<exists>source i. load_run (rv_scope sv) run_id (rw_db w) = Inr source
     \<and> (rn_status source \<in> {Run_CANCELED, Run_FAILED} \<or> unrecoverable_pause source)
     \<and> ag_tool_approvals request = [] \<and> ag_pause_on_approval request
     \<and> metadata_run_id (ag_metadata request) = Some i \<and> (new_id = None \<or> new_id = Some [] \<or> new_id = Some i)
     \<and> meta_get (ag_metadata request) ''retry_of'' = PStr (rn_run_id source)
     \<and> request = (rn_request source)\<lparr>ag_tool_approvals := [], ag_pause_on_approval := True,
          ag_metadata := ag_metadata request\<rparr>"
proof -
  from assms obtain plan w1 where plan: "make_plan sv run_id new_id w = (Inr plan, w1)" "request = pl_request plan"
    by (auto simp: prepare_retry_def bind_a_eq_Inr return_a_def)
  from make_plan_cases [OF plan(1)] obtain source i where source:
    "load_run (rv_scope sv) run_id (rw_db w) = Inr source" "can_retry source" "pl_request plan = retry_request i source"
    "i \<noteq> []" "new_id = None \<or> new_id = Some [] \<or> new_id = Some i" by metis
  from source(3) plan(2) have request: "request = retry_request i source" by simp
  have "rn_status source \<in> {Run_CANCELED, Run_FAILED} \<or> unrecoverable_pause source"
    using source(2) by (auto simp: can_retry_def)
  moreover have "metadata_run_id (ag_metadata request) = Some i"
    using source(4) by (simp add: request metadata_run_id_def retry_request_sel)
  moreover have "request = (rn_request source)\<lparr>ag_tool_approvals := [], ag_pause_on_approval := True,
      ag_metadata := ag_metadata request\<rparr>"
    unfolding request by (simp add: retry_request_def Let_def)
  ultimately show ?thesis
    using source(1,5) by (intro exI [of _ source] exI [of _ i]) (auto simp: request retry_request_sel)
qed

section \<open>Shutting down\<close>

lemma pause_at_shutdown_cases:
  assumes "dict_get (db_runs db) (rn_run_id s) = Some row" "s = with_started_at row"
    and "pause_at_shutdown now s db = (Inr (), db')"
  shows "\<exists>s'. db_runs db' = dict_set (rn_run_id s) (row\<lparr>rr_state := s'\<rparr>) (db_runs db) \<and> rn_status s' \<noteq> Run_RUNNING
     \<and> rn_run_id s' = rn_run_id s"
proof -
  obtain x ledger where mark: "mark_started_unknown None (list_attempts None (rn_run_id s) (db_ledger db)) (db_ledger db)
      = (x, ledger)" by fastforce
  with assms(3) obtain attempts where x: "x = Inr attempts" by (cases x) (auto simp: pause_at_shutdown_def)
  obtain y s1 where inspect: "inspect_checkpoint (Some (list_events (rn_run_id s) 0 None (db_traces db)))
      (Some attempts) s = (y, s1)" by fastforce
  with assms(3) mark x obtain ck where y: "y = Inr ck" by (cases y) (auto simp: pause_at_shutdown_def Let_def)
  note id = inspect_identity [OF inspect]
  have save: "save_state None None now t (db_runs db) = (Inr (), dict_set (rn_run_id s) (row\<lparr>rr_state := t\<rparr>) (db_runs db))"
    if "rn_run_id t = rn_run_id s" for t
    using assms(1) that by (simp add: save_state_def require_run_scope_def)
  have paused: "rn_run_id (paused_state c ck e t) = rn_run_id t" "rn_status (paused_state c ck e t) = Run_PAUSED" for c e t
    by (simp_all add: paused_state_def)
  show ?thesis
  proof (cases "rn_status s1 = Run_RUNNING")
    case True
    with assms(3) mark x inspect y id show ?thesis
      by (auto simp: pause_at_shutdown_def Let_def save paused split: prod.splits)
  next
    case False
    with assms(3) mark x inspect y id show ?thesis
      by (auto simp: pause_at_shutdown_def Let_def save)
  qed
qed

lemma shutdown_spec:
  assumes "for_each (pause_at_shutdown now) ss db = (Inr (), db')" "distinct (map rn_run_id ss)"
    and "\<And>s. s \<in> set ss \<Longrightarrow> \<exists>row. dict_get (db_runs db) (rn_run_id s) = Some row \<and> s = with_started_at row"
  shows "(\<forall>run. run \<notin> rn_run_id ` set ss \<longrightarrow> dict_get (db_runs db') run = dict_get (db_runs db) run)
    \<and> (\<forall>run \<in> rn_run_id ` set ss. \<exists>row. dict_get (db_runs db') run = Some row \<and> rn_status (rr_state row) \<noteq> Run_RUNNING)"
  using assms
proof (induction ss arbitrary: db)
  case (Cons s ss)
  obtain row where row: "dict_get (db_runs db) (rn_run_id s) = Some row" "s = with_started_at row"
    using Cons.prems(3) [of s] by auto
  from Cons.prems(1) obtain db1 where first: "pause_at_shutdown now s db = (Inr (), db1)"
    and rest: "for_each (pause_at_shutdown now) ss db1 = (Inr (), db')" by (auto split: prod.splits sum.splits)
  from pause_at_shutdown_cases [OF row first] obtain s' where s':
    "db_runs db1 = dict_set (rn_run_id s) (row\<lparr>rr_state := s'\<rparr>) (db_runs db)" "rn_status s' \<noteq> Run_RUNNING" by blast
  have distinct: "rn_run_id s \<notin> rn_run_id ` set ss" "distinct (map rn_run_id ss)" using Cons.prems(2) by simp_all
  have "\<exists>row. dict_get (db_runs db1) (rn_run_id t) = Some row \<and> t = with_started_at row" if "t \<in> set ss" for t
  proof -
    from that distinct(1) have "rn_run_id t \<noteq> rn_run_id s" by (metis imageI)
    with Cons.prems(3) [of t] that s'(1) show ?thesis by simp
  qed
  from Cons.IH [OF rest distinct(2) this] s' distinct(1) show ?case by auto
qed simp

text \<open>C12: A shutdown leaves no run behind as running.  When it is done, every stored run that was running has
  another status, and the rows of all other runs are untouched.\<close>

theorem shutdown_leaves_nothing_running:
  assumes "keyed_runs (db_runs db)" "pause_running_states now db = (Inr (), db')"
  shows "(\<forall>run row. dict_get (db_runs db') run = Some row \<longrightarrow> rn_status (rr_state row) \<noteq> Run_RUNNING)
    \<and> (\<forall>run row. dict_get (db_runs db) run = Some row \<and> rn_status (rr_state row) \<noteq> Run_RUNNING
          \<longrightarrow> dict_get (db_runs db') run = Some row)"
proof -
  let ?ss = "running_states (db_runs db)"
  have "filter (\<lambda>r. rn_status r = Run_RUNNING) (list_states None (db_runs db)) = ?ss"
    by (simp add: list_states_def running_states_def query_states_def Let_def filter_map comp_def filter_sort)
  with assms(2) have run: "for_each (pause_at_shutdown now) ?ss db = (Inr (), db')"
    by (simp add: pause_running_states_def)
  note member = running_states_iff [OF assms(1)]
  have spec: "(\<forall>run. run \<notin> rn_run_id ` set ?ss \<longrightarrow> dict_get (db_runs db') run = dict_get (db_runs db) run)
    \<and> (\<forall>run \<in> rn_run_id ` set ?ss. \<exists>row. dict_get (db_runs db') run = Some row \<and> rn_status (rr_state row) \<noteq> Run_RUNNING)"
    by (rule shutdown_spec [OF run running_states_distinct [OF assms(1)]]) (use member in blast)
  have running: "run \<in> rn_run_id ` set ?ss \<longleftrightarrow>
      (\<exists>row. dict_get (db_runs db) run = Some row \<and> rn_status (rr_state row) = Run_RUNNING)" for run
  proof
    assume "run \<in> rn_run_id ` set ?ss"
    then show "\<exists>row. dict_get (db_runs db) run = Some row \<and> rn_status (rr_state row) = Run_RUNNING"
      using member by blast
  next
    assume "\<exists>row. dict_get (db_runs db) run = Some row \<and> rn_status (rr_state row) = Run_RUNNING"
    then obtain row where row: "dict_get (db_runs db) run = Some row" "rn_status (rr_state row) = Run_RUNNING" by blast
    with assms(1) have "rn_run_id (with_started_at row) = run" by (simp add: keyed_runs_def)
    with row member [of "with_started_at row"] show "run \<in> rn_run_id ` set ?ss" by (metis image_eqI)
  qed
  show ?thesis
  proof (intro conjI allI impI)
    fix run row assume "dict_get (db_runs db') run = Some row"
    with spec running [of run] show "rn_status (rr_state row) \<noteq> Run_RUNNING" by (cases "run \<in> rn_run_id ` set ?ss") auto
  next
    fix run row assume "dict_get (db_runs db) run = Some row \<and> rn_status (rr_state row) \<noteq> Run_RUNNING"
    with spec running [of run] show "dict_get (db_runs db') run = Some row" by auto
  qed
qed

section \<open>Canceling\<close>

text \<open>What canceling a run does depends on its status: a run that is already canceled is returned, one that
  has finished or failed is refused, both without any effect, and every other run is stored as canceled,
  with nothing pending and no pause, after the end of the run was journaled as its last event; the executor
  is told to cancel its task.\<close>

theorem cancel_outcome:
  assumes "quiet_clients sv" "load_run (rv_scope sv) run_id (rw_db w) = Inr r"
    and "rn_run_id r = run_id" "can_save sv r (db_runs (rw_db w))"
  shows "if rn_status r = Run_CANCELED then cancel_run sv run_id reason w = (Inr r, w)
    else if rn_status r = Run_FINISHED \<or> rn_status r = Run_FAILED
    then cancel_run sv run_id reason w = (Inl (run_error ''Agent run is already stopped''), w)
    else \<exists>r' w' row. cancel_run sv run_id reason w = (Inr r', w')
      \<and> dict_get (db_runs (rw_db w')) run_id = Some row \<and> rr_state row = r' \<and> rn_status r' = Run_CANCELED
      \<and> rn_pending_tool_calls r' = [] \<and> rn_pending_approval_requests r' = [] \<and> rn_pause r' = None
      \<and> (let last_row = last (tt_rows (db_traces (rw_db w'))) in tw_run_id last_row = run_id
          \<and> te_type (tw_event last_row) = Ev_RUN_STOPPED \<and> rn_applied_trace_sequence r' = Some (tw_sequence last_row))"
proof (cases "rn_status r \<in> {Run_CANCELED, Run_FINISHED, Run_FAILED}")
  case True
  with assms(2) show ?thesis by (auto simp: cancel_run_def with_loaded_def)
next
  case False
  let ?d = "db_runs (rw_db w)"
  let ?w = "w\<lparr>rw_executor := snd (executor_cancel run_id (rw_executor w))\<rparr>"
  obtain row where row: "dict_get ?d run_id = Some row"
    using assms(2) by (auto simp: load_run_def get_state_def split: option.splits dest: row_of_Some)
  obtain x r1 w1 where trace: "add_run_trace sv (cancel_event reason) (r, ?w) = (x, (r1, w1))"
    by (cases "add_run_trace sv (cancel_event reason) (r, ?w)") auto
  from add_run_trace_result [OF assms(1) _ trace] obtain p where p: "x = Inr p" "te_type p = Ev_RUN_STOPPED"
      "rw_db w1 = rw_db w" "r1 = r\<lparr>rn_trace := rn_trace r @ [p]\<rparr>"
    by (auto simp: cancel_event_def new_event_def)
  let ?r2 = "canceled_run reason r1"
  have id: "rn_run_id ?r2 = run_id" "rn_owner_id ?r2 = rn_owner_id r" "rn_run_id r = run_id"
    using p(4) assms(3) by (simp_all add: canceled_run_def)
  obtain n t where append: "append_event (now_of sv w1) run_id p (db_traces (rw_db w)) = (n, t)" by fastforce
  then have t: "last (tt_rows t) = \<lparr>tw_event_id = tt_next (db_traces (rw_db w)), tw_run_id = run_id, tw_sequence = n,
      tw_event = p\<lparr>te_sequence := Some n\<rparr>, tw_created_at = now_of sv w1\<rparr>"
    by (auto simp: append_event_def Let_def)
  define r3 where "r3 = ?r2\<lparr>rn_trace := map (numbered p n) (rn_trace ?r2), rn_applied_trace_sequence := Some n\<rparr>"
  have journal: "journal sv p (?r2, w1) = (Inr (p\<lparr>te_sequence := Some n\<rparr>), (r3, set_traces t w1))"
    using append id p(3) by (simp add: journal_def r3_def)
  have r3: "rn_run_id r3 = run_id" "rn_owner_id r3 = rn_owner_id r" "rn_status r3 = Run_CANCELED"
      "rn_pending_tool_calls r3 = []" "rn_pending_approval_requests r3 = []" "rn_pause r3 = None"
      "rn_applied_trace_sequence r3 = Some n"
    using id by (simp_all add: r3_def) (simp_all add: canceled_run_def)
  have "can_save sv r3 (db_runs (rw_db (set_traces t w1)))" "dict_get (db_runs (rw_db (set_traces t w1))) (rn_run_id r3) = Some row"
    using assms(4) p(3) r3 row id can_save_cong [of r3 r sv ?d] by simp_all
  from save_run_ok [OF this] have "cancel_run sv run_id reason w = (Inr r3, set_runs
      (dict_set run_id (row\<lparr>rr_state := r3\<rparr>) ?d) (set_traces t w1))"
    using False assms(2) trace p journal r3
    by (auto simp: cancel_run_def with_loaded_def on_snapshot_def bind_a_def update_run_def snapshot_of_def)
  moreover have "db_traces (rw_db (set_runs d (set_traces t w1))) = t" for d
    by (simp add: set_runs_def set_traces_def)
  ultimately show ?thesis using False t p(2) r3 by (auto simp: Let_def)
qed

section \<open>Examples\<close>

definition demo_run :: agent_run where
  "demo_run = new_run ''r'' (new_request ''p'' ''x'' ''m'')"

definition world_with :: "agent_run \<Rightarrow> bool run_world" where
  "world_with r = set_runs [(rn_run_id r, new_row 0 r)] demo_world"

lemma demo_quiet: "quiet_clients demo_service"
  by (simp add: quiet_clients_def demo_service_def quiet_env_def)

lemma demo_can_save: "can_save demo_service r d"
  by (simp add: can_save_def demo_service_def)

lemma world_with_runs [simp]: "db_runs (rw_db (world_with r)) = [(rn_run_id r, new_row 0 r)]"
  by (simp add: world_with_def)

lemma world_with_load:
  "rn_status r \<noteq> Run_RUNNING \<Longrightarrow> load_run (rv_scope demo_service) (rn_run_id r) (rw_db (world_with r)) = Inr r"
  by (simp add: load_run_def get_state_def row_of_def demo_service_def new_row_def with_pending_text_def
      dict_get_Cons)

lemma demo_run_load:
  "load_run (rv_scope demo_service) ''r'' (rw_db (world_with (demo_run\<lparr>rn_pause_request := q\<rparr>)))
     = Inr (demo_run\<lparr>rn_pause_request := q\<rparr>)"
  by (simp add: load_run_def get_state_def row_of_def demo_service_def new_row_def with_pending_text_def
      dict_get_Cons list_events_def world_with_def demo_world_def set_runs_def demo_run_def new_run_def take_opt_def)

definition paused_end :: "(signal + unit) \<times> agent_run \<times> bool run_world" where
  "paused_end = store_event demo_service (new_event Ev_TOOL_COMPLETED)
     (demo_run, world_with (demo_run\<lparr>rn_pause_request := Some (Some ''later'')\<rparr>))"

lemma pause_request_honoured_witness:
  "(fst paused_end = Inl (Closed None) \<or> fst paused_end = Inl Cancelled)
   \<and> (\<exists>row. dict_get (db_runs (rw_db (snd (snd paused_end)))) ''r'' = Some row \<and> rr_state row = fst (snd paused_end)
        \<and> paused_by_hand ''later'' (fst (snd paused_end)))"
proof -
  have r: "rn_run_id demo_run = ''r''" "rn_status demo_run = Run_RUNNING" by (simp_all add: demo_run_def new_run_def)
  have ev: "checkpoint_event (te_type (new_event Ev_TOOL_COMPLETED))" by (simp add: checkpoint_event_def new_event_def)
  have run: "store_event demo_service (new_event Ev_TOOL_COMPLETED)
      (demo_run, world_with (demo_run\<lparr>rn_pause_request := Some (Some ''later'')\<rparr>))
      = (fst paused_end, (fst (snd paused_end), snd (snd paused_end)))"
    by (simp only: paused_end_def prod.collapse)
  have load: "load_run (rv_scope demo_service) (rn_run_id demo_run)
      (rw_db (world_with (demo_run\<lparr>rn_pause_request := Some (Some ''later'')\<rparr>)))
      = Inr (demo_run\<lparr>rn_pause_request := Some (Some ''later'')\<rparr>)" using demo_run_load r by simp
  have st: "rn_status (demo_run\<lparr>rn_pause_request := Some (Some ''later'')\<rparr>) = Run_RUNNING"
      "rn_pause_request (demo_run\<lparr>rn_pause_request := Some (Some ''later'')\<rparr>) = Some (Some ''later'')"
    using r by simp_all
  show ?thesis
    using pause_request_honoured [OF demo_quiet ev r(2) load st demo_can_save run] by (simp add: r)
qed

definition given_approval :: tool_approval_decision where
  "given_approval = \<lparr>ad_approval_id = ''a'', ad_tool_call_id = ''c'', ad_status = Approval_APPROVED,
     ad_tool_round = None, ad_reason = None, ad_metadata = []\<rparr>"

lemma approvals_count_for_their_round_witness:
  "dict_get (round_approvals (merge_approvals [] [given_approval] 2) 2) ''c'' = Some (given_approval\<lparr>ad_tool_round := Some 2\<rparr>)
   \<and> dict_get (round_approvals (merge_approvals [] [given_approval] 2) 1) ''c'' = None"
  using approvals_count_for_their_round [of 2 "[]" "[given_approval]" 1 "''c''"]
    approvals_count_for_their_round [of 2 "[]" "[given_approval]" 2 "''c''"]
  by (simp add: round_approvals_def approvals_by_call_id_def given_approval_def)

definition failed_demo :: agent_run where
  "failed_demo = demo_run\<lparr>rn_status := Run_FAILED\<rparr>"

lemma failed_demo_load: "load_run (rv_scope demo_service) ''r'' (rw_db (world_with failed_demo)) = Inr failed_demo"
  using world_with_load [of failed_demo] by (simp add: failed_demo_def demo_run_def new_run_def)

lemma failed_demo_plan:
  "prepare_retry demo_service ''r'' (Some ''n'') (world_with failed_demo)
     = (Inr (retry_request ''n'' failed_demo), world_with failed_demo)"
proof -
  have status: "can_retry failed_demo" "\<not> unrecoverable_pause failed_demo"
    by (simp_all add: can_retry_def unrecoverable_pause_def failed_demo_def)
  have id: "metadata_run_id (ag_metadata (retry_request ''n'' failed_demo)) = Some ''n''"
    by (simp add: metadata_run_id_def retry_request_sel)
  show ?thesis
    by (simp add: prepare_retry_def make_plan_def with_loaded_def failed_demo_load status id bind_a_def return_a_def
        string_or_def Let_def)
qed

lemma retry_carries_no_approval_witness:
  "ag_tool_approvals (retry_request ''n'' failed_demo) = []
   \<and> metadata_run_id (ag_metadata (retry_request ''n'' failed_demo)) = Some ''n''"
  using retry_carries_no_approval [OF failed_demo_plan] by auto

lemma cancel_outcome_witness:
  "cancel_run demo_service ''r'' None (world_with failed_demo)
     = (Inl (run_error ''Agent run is already stopped''), world_with failed_demo)"
  using cancel_outcome [OF demo_quiet failed_demo_load _ demo_can_save, of None]
  by (simp add: failed_demo_def demo_run_def new_run_def)

definition shutdown_end :: "(error + unit) \<times> agent_db" where
  "shutdown_end = pause_running_states 5 (rw_db (world_with demo_run))"

lemma shutdown_ends: "fst shutdown_end = Inr ()"
  by code_simp

lemma shutdown_leaves_nothing_running_witness:
  "map_option (\<lambda>row. rn_status (rr_state row) = Run_RUNNING) (dict_get (db_runs (snd shutdown_end)) ''r'') \<noteq> Some True"
proof -
  have keyed: "keyed_runs (db_runs (rw_db (world_with demo_run)))"
    by (auto simp: keyed_runs_def dict_get_Cons new_row_def dict_ok_def dict_keys_def split: if_splits)
  have "pause_running_states 5 (rw_db (world_with demo_run)) = shutdown_end" by (simp only: shutdown_end_def)
  also have "shutdown_end = (Inr (), snd shutdown_end)" by (rule prod_eqI) (simp_all add: shutdown_ends)
  finally have run: "pause_running_states 5 (rw_db (world_with demo_run)) = (Inr (), snd shutdown_end)" .
  have stopped: "rn_status (rr_state row) \<noteq> Run_RUNNING"
    if "dict_get (db_runs (snd shutdown_end)) ''r'' = Some row" for row
    using shutdown_leaves_nothing_running [OF keyed run] that by blast
  show ?thesis by (cases "dict_get (db_runs (snd shutdown_end)) ''r''") (simp_all add: stopped)
qed

end
