(* ===== verification/Skills.thy ===== *)
theory Skills
  imports Content Json ScopedStore
begin

text \<open>
  Skills: prompts that are rendered from variables (\<open>core/schema/skill.py\<close>), their register and
  their manager with the templates that users create (\<open>core/domain/skill.py\<close>), the renderer of a
  template (\<open>infra/adapters/skill/template.py\<close>, with \<open>string.Template\<close> of the standard library), the
  store of templates (\<open>infra/adapters/skill/sqlite.py\<close>) and the built-in skill
  (\<open>infra/registrations/skill/echo.py\<close>).

  The jsonschema library is the parameter \<open>js\<close>: what class of validator a schema gets, and what the
  validation of variables against it finds.  \<open>dump\<close> is \<open>json.dumps\<close> of a value and \<open>strip\<close> the
  Unicode \<open>str.strip\<close>.
\<close>

section \<open>Schemas\<close>

datatype skill_capability =
    SCap_CHAT | SCap_TOOL_USE | SCap_MEMORY | SCap_CONTEXT | SCap_AGENT | SCap_STREAMING

fun skill_capability_value :: "skill_capability \<Rightarrow> string" where
  "skill_capability_value SCap_CHAT = ''chat''"
| "skill_capability_value SCap_TOOL_USE = ''tool_use''"
| "skill_capability_value SCap_MEMORY = ''memory''"
| "skill_capability_value SCap_CONTEXT = ''context''"
| "skill_capability_value SCap_AGENT = ''agent''"
| "skill_capability_value SCap_STREAMING = ''streaming''"

record skill_definition =
  skd_name :: string
  skd_description :: string
  skd_is_enabled :: bool
  skd_is_template :: bool
  skd_revision :: "string option"
  skd_input_schema :: "metadata option"
  skd_output_schema :: "metadata option"
  skd_capabilities :: "skill_capability list"
  skd_required_tools :: "string list"
  skd_metadata :: metadata

record skill_render_request =
  srr_render_id :: string
  srr_skill_name :: string
  srr_variables :: metadata
  srr_metadata :: metadata

record rendered_skill =
  rsk_render_id :: string
  rsk_skill_name :: string
  rsk_messages :: "content list"
  rsk_metadata :: metadata

record skill_template = skill_definition +
  skt_prompt :: string

text \<open>A field of an update is unset (\<open>None\<close>), or set to null or to a value.\<close>

record skill_template_update =
  stu_description :: "string option option"
  stu_prompt :: "string option option"
  stu_is_enabled :: "bool option option"
  stu_input_schema :: "metadata option option"
  stu_output_schema :: "metadata option option"
  stu_capabilities :: "skill_capability list option option"
  stu_required_tools :: "string list option option"
  stu_metadata :: "metadata option option"

definition validate_template_update :: "skill_template_update \<Rightarrow> error + skill_template_update" where
  "validate_template_update u =
     (let null = filter snd
            [(''description'', stu_description u = Some None), (''prompt'', stu_prompt u = Some None),
             (''is_enabled'', stu_is_enabled u = Some None),
             (''capabilities'', stu_capabilities u = Some None),
             (''required_tools'', stu_required_tools u = Some None),
             (''metadata'', stu_metadata u = Some None)]
      in case null of
           [] \<Rightarrow> Inr u
         | (name, _) # _ \<Rightarrow> Inl (raised (PyException ''ValueError'') (name @ '' cannot be null'')))"

section \<open>The register\<close>

text \<open>A renderer returns a rendered skill or some other object.\<close>

datatype render_output = Rendered rendered_skill | Other_object

type_synonym skill_renderer = "skill_render_request \<Rightarrow> error + render_output"

datatype schema_class = Unsupported_draft | Valid_schema | Invalid_schema error

record violation =
  vl_json_path :: string
  vl_validator :: string
  vl_path :: "json list"
  vl_schema_path :: "json list"

datatype validation = Conforms | Violates violation | Unresolvable error | Too_deep error

record json_schema =
  js_class :: "metadata \<Rightarrow> schema_class"
  js_validate :: "metadata \<Rightarrow> metadata \<Rightarrow> validation"

definition input_validator :: "json_schema \<Rightarrow> skill_definition \<Rightarrow> error + (metadata \<Rightarrow> validation) option" where
  "input_validator js skill =
     (case skd_input_schema skill of
        None \<Rightarrow> Inr None
      | Some schema \<Rightarrow>
          (case js_class js schema of
             Unsupported_draft \<Rightarrow> Inl (raised (Skill SkillConfigurationError)
               (''The skill '' @ skd_name skill @ '' input schema declares an unsupported JSON Schema draft''))
           | Invalid_schema e \<Rightarrow> Inl (Error (Skill SkillConfigurationError)
               (''The skill '' @ skd_name skill @ '' input schema is invalid'') None (Some e))
           | Valid_schema \<Rightarrow> Inr (Some (js_validate js schema))))"

record skill_registry =
  sr_skills :: "(string, skill_definition) dict"
  sr_renderers :: "(string, skill_renderer) dict"

definition skill_has :: "string \<Rightarrow> skill_registry \<Rightarrow> bool" where
  "skill_has name r \<longleftrightarrow> dict_has (sr_skills r) name \<and> dict_has (sr_renderers r) name"

definition skill_register ::
  "json_schema \<Rightarrow> skill_definition \<Rightarrow> skill_renderer \<Rightarrow> (error, skill_registry, unit) act" where
  "skill_register js skill renderer r =
     (case input_validator js skill of
        Inl e \<Rightarrow> (Inl e, r)
      | Inr _ \<Rightarrow> (Inr (), r\<lparr>sr_skills := dict_set (skd_name skill) skill (sr_skills r),
                            sr_renderers := dict_set (skd_name skill) renderer (sr_renderers r)\<rparr>))"

definition skill_unregister :: "string \<Rightarrow> (error, skill_registry, unit) act" where
  "skill_unregister name r =
     (if \<not> skill_has name r
      then (Inl (raised (Skill SkillNotFoundError) (''The skill '' @ name @ '' is not registered'')), r)
      else (Inr (), r\<lparr>sr_skills := dict_pop name (sr_skills r),
                      sr_renderers := dict_pop name (sr_renderers r)\<rparr>))"

definition skill_get :: "string \<Rightarrow> skill_registry \<Rightarrow> error + skill_definition" where
  "skill_get name r =
     (case (skill_has name r, dict_get (sr_skills r) name) of
        (True, Some s) \<Rightarrow> Inr s
      | _ \<Rightarrow> Inl (raised (Skill SkillNotFoundError) (''The skill '' @ name @ '' is not found'')))"

definition skill_get_renderer :: "string \<Rightarrow> skill_registry \<Rightarrow> error + skill_renderer" where
  "skill_get_renderer name r =
     (case (skill_has name r, dict_get (sr_renderers r) name) of
        (True, Some f) \<Rightarrow> Inr f
      | _ \<Rightarrow> Inl (raised (Skill SkillNotFoundError) (''The skill '' @ name @ '' is not registered'')))"

definition list_skills :: "skill_registry \<Rightarrow> skill_definition list" where
  "list_skills r = dict_values (sr_skills r)"

section \<open>The store of templates\<close>

text \<open>The table \<open>skill_templates\<close>, one payload for each name; \<open>list_configs\<close> orders by name.\<close>

type_synonym template_table = "(string, skill_template) dict"

definition template_save :: "skill_template \<Rightarrow> template_table \<Rightarrow> template_table" where
  "template_save config d = dict_set (skd_name config) config d"

definition list_configs :: "template_table \<Rightarrow> skill_template list" where
  "list_configs d = sort_key skd_name (dict_values d)"

definition template_delete :: "string \<Rightarrow> (error, template_table, unit) act" where
  "template_delete name d =
     (if dict_has d name then (Inr (), dict_pop name d)
      else (Inl (raised (Skill SkillNotFoundError) (''The skill template '' @ name @ '' is not found'')), d))"

section \<open>The manager\<close>

record skill_manager =
  sm_register :: skill_registry
  sm_store :: "template_table option"
  sm_templates :: "(string, skill_template) dict"

type_synonym template_factory = "skill_template \<Rightarrow> error + skill_renderer"

definition skill_supports :: "string \<Rightarrow> skill_capability \<Rightarrow> skill_manager \<Rightarrow> error + bool" where
  "skill_supports name capability m =
     bind_e (skill_get name (sm_register m))
       (\<lambda>skill. Inr (skd_is_enabled skill \<and> capability \<in> set (skd_capabilities skill)))"

definition build_template ::
  "json_schema \<Rightarrow> template_factory option \<Rightarrow> skill_template \<Rightarrow> error + skill_definition \<times> skill_renderer" where
  "build_template js factory config =
     (case factory of
        None \<Rightarrow> Inl (raised (Skill SkillConfigurationError) ''Skill template creation is not configured'')
      | Some new_renderer \<Rightarrow>
          let skill = (skill_definition.truncate config)\<lparr>skd_is_template := True\<rparr>
          in bind_e (input_validator js skill) (\<lambda>_.
             bind_e (new_renderer config) (\<lambda>renderer. Inr (skill, renderer))))"

definition save_template :: "skill_template \<Rightarrow> skill_manager \<Rightarrow> skill_manager" where
  "save_template config m = m\<lparr>sm_store := map_option (template_save config) (sm_store m)\<rparr>"

text \<open>The end that creation, update and restoration share: register the skill and note its template.\<close>

definition install_template ::
  "json_schema \<Rightarrow> string \<Rightarrow> skill_template \<Rightarrow> skill_definition \<Rightarrow> skill_renderer
     \<Rightarrow> (error, skill_manager, skill_definition) act" where
  "install_template js name config skill renderer m =
     (case skill_register js skill renderer (sm_register m) of
        (Inl e, r) \<Rightarrow> (Inl e, m\<lparr>sm_register := r\<rparr>)
      | (Inr _, r) \<Rightarrow> (Inr skill, m\<lparr>sm_register := r,
            sm_templates := dict_set name config (sm_templates m)\<rparr>))"

definition create_template ::
  "json_schema \<Rightarrow> template_factory option \<Rightarrow> string \<Rightarrow> skill_template
     \<Rightarrow> (error, skill_manager, skill_definition) act" where
  "create_template js factory uuid config m =
     (if skill_has (skd_name config) (sm_register m)
      then (Inl (raised (Skill SkillConflictError)
              (''The skill '' @ skd_name config @ '' already exists'')), m)
      else let config = config\<lparr>skd_is_template := True, skd_revision := Some uuid\<rparr>
           in case build_template js factory config of
                Inl e \<Rightarrow> (Inl e, m)
              | Inr (skill, renderer) \<Rightarrow>
                  install_template js (skd_name config) config skill renderer (save_template config m))"

definition get_template :: "string \<Rightarrow> skill_manager \<Rightarrow> error + skill_template" where
  "get_template name m =
     bind_e (skill_get name (sm_register m)) (\<lambda>_.
       case dict_get (sm_templates m) name of
         None \<Rightarrow> Inl (raised (Skill SkillConfigurationError) (''The skill '' @ name @ '' is read-only''))
       | Some config \<Rightarrow> Inr config)"

definition given_or :: "'v \<Rightarrow> 'v option option \<Rightarrow> 'v" where
  "given_or old v = (case v of Some (Some x) \<Rightarrow> x | _ \<Rightarrow> old)"

definition given_null :: "'v option \<Rightarrow> 'v option option \<Rightarrow> 'v option" where
  "given_null old v = (case v of None \<Rightarrow> old | Some x \<Rightarrow> x)"

definition updated_template :: "skill_template_update \<Rightarrow> skill_template \<Rightarrow> skill_template" where
  "updated_template u c = c\<lparr>
     skd_description := given_or (skd_description c) (stu_description u),
     skt_prompt := given_or (skt_prompt c) (stu_prompt u),
     skd_is_enabled := given_or (skd_is_enabled c) (stu_is_enabled u),
     skd_input_schema := given_null (skd_input_schema c) (stu_input_schema u),
     skd_output_schema := given_null (skd_output_schema c) (stu_output_schema u),
     skd_capabilities := given_or (skd_capabilities c) (stu_capabilities u),
     skd_required_tools := given_or (skd_required_tools c) (stu_required_tools u),
     skd_metadata := given_or (skd_metadata c) (stu_metadata u)\<rparr>"

definition update_template ::
  "json_schema \<Rightarrow> template_factory option \<Rightarrow> string \<Rightarrow> string \<Rightarrow> skill_template_update
     \<Rightarrow> (error, skill_manager, skill_definition) act" where
  "update_template js factory uuid name u m =
     (case get_template name m of
        Inl e \<Rightarrow> (Inl e, m)
      | Inr current \<Rightarrow>
          let config = updated_template u current;
              config = (if config \<noteq> current then config\<lparr>skd_revision := Some uuid\<rparr> else config)
          in case build_template js factory config of
               Inl e \<Rightarrow> (Inl e, m)
             | Inr (skill, renderer) \<Rightarrow>
                 install_template js name config skill renderer (save_template config m))"

definition delete_template :: "string \<Rightarrow> (error, skill_manager, unit) act" where
  "delete_template name m =
     (case get_template name m of
        Inl e \<Rightarrow> (Inl e, m)
      | Inr _ \<Rightarrow>
          (case (case sm_store m of
                   None \<Rightarrow> (Inr (), None)
                 | Some d \<Rightarrow> (case template_delete name d of (x, d) \<Rightarrow> (x, Some d))) of
             (Inl e, store) \<Rightarrow> (Inl e, m\<lparr>sm_store := store\<rparr>)
           | (Inr _, store) \<Rightarrow>
               (case skill_unregister name (sm_register m) of
                  (Inl e, r) \<Rightarrow> (Inl e, m\<lparr>sm_store := store, sm_register := r\<rparr>)
                | (Inr _, r) \<Rightarrow> (Inr (), m\<lparr>sm_store := store, sm_register := r,
                      sm_templates := dict_pop name (sm_templates m)\<rparr>))))"

text \<open>\<open>restore\<close>; \<open>uuid\<close> gives the revision of each template that was stored without one.\<close>

definition restore_one ::
  "json_schema \<Rightarrow> template_factory option \<Rightarrow> (string \<Rightarrow> string) \<Rightarrow> skill_template
     \<Rightarrow> (error, skill_manager, unit) act" where
  "restore_one js factory uuid config m =
     (if skill_has (skd_name config) (sm_register m) \<and> \<not> dict_has (sm_templates m) (skd_name config)
      then (Inl (raised (Skill SkillConflictError)
              (''The stored skill '' @ skd_name config @ '' conflicts with a registered skill'')), m)
      else let needs_revision = (skd_revision config = None);
               config = (if needs_revision then config\<lparr>skd_revision := Some (uuid (skd_name config))\<rparr> else config)
           in case build_template js factory config of
                Inl e \<Rightarrow> (Inl e, m)
              | Inr (skill, renderer) \<Rightarrow>
                  bind_a (install_template js (skd_name config) config skill renderer) (\<lambda>_. return_a ())
                    (if needs_revision then save_template config m else m))"

definition restore_templates ::
  "json_schema \<Rightarrow> template_factory option \<Rightarrow> (string \<Rightarrow> string) \<Rightarrow> (error, skill_manager, unit) act" where
  "restore_templates js factory uuid m =
     (case sm_store m of
        None \<Rightarrow> (Inr (), m)
      | Some d \<Rightarrow> for_each (restore_one js factory uuid) (list_configs d) m)"

section \<open>Rendering\<close>

definition violation_error :: "skill_definition \<Rightarrow> violation \<Rightarrow> error" where
  "violation_error skill v =
     raised_detail (Skill SkillInputError)
       (''The skill '' @ skd_name skill @ '' input at '' @ vl_json_path v @ '' violates '' @ vl_validator v)
       (json_dumps True (JObj [(''path'', JList (JStr ''variables'' # vl_path v)),
          (''schema_path'', JList (vl_schema_path v)), (''constraint'', JStr (vl_validator v))]))"

definition validate_input ::
  "json_schema \<Rightarrow> (string \<Rightarrow> string) \<Rightarrow> skill_render_request \<Rightarrow> skill_registry \<Rightarrow> error + unit" where
  "validate_input js strip request r =
     (if strip (srr_skill_name request) = []
      then Inl (raised (Skill SkillInputError) ''The skill render request must include a skill name'')
      else if strip (srr_render_id request) = []
      then Inl (raised (Skill SkillInputError) ''The skill render request must include a render ID'')
      else bind_e (skill_get (srr_skill_name request) r) (\<lambda>skill.
             if \<not> skd_is_enabled skill
             then Inl (raised (Skill SkillDisabledError) (''The skill '' @ skd_name skill @ '' is disabled''))
             else bind_e (input_validator js skill) (\<lambda>validator.
               case validator of
                 None \<Rightarrow> Inr ()
               | Some v \<Rightarrow>
                   (case v (srr_variables request) of
                      Conforms \<Rightarrow> Inr ()
                    | Violates x \<Rightarrow> Inl (violation_error skill x)
                    | Unresolvable e \<Rightarrow> Inl (Error (Skill SkillConfigurationError)
                        (''The skill '' @ skd_name skill @ '' input schema contains an unresolved reference'')
                        None (Some e))
                    | Too_deep e \<Rightarrow> Inl (Error (Skill SkillConfigurationError)
                        (''The skill '' @ skd_name skill @ '' input schema exceeds the supported validation depth'')
                        None (Some e))))))"

definition render_skill ::
  "json_schema \<Rightarrow> (string \<Rightarrow> string) \<Rightarrow> skill_render_request \<Rightarrow> skill_registry \<Rightarrow> error + rendered_skill" where
  "render_skill js strip request r =
     bind_e (validate_input js strip request r) (\<lambda>_.
     bind_e (skill_get (srr_skill_name request) r) (\<lambda>skill.
     bind_e (skill_get_renderer (skd_name skill) r) (\<lambda>renderer.
       case renderer request of
         Inl e \<Rightarrow>
           if isinstance (error_class e) (Skill SkillInputError) \<or> isinstance (error_class e) (Skill SkillRenderError)
           then Inl e
           else Inl (Error (Skill SkillRenderError) (''The skill '' @ skd_name skill @ '' render failed'')
                  None (Some e))
       | Inr Other_object \<Rightarrow> Inl (raised (Skill SkillRenderError)
             (''The skill '' @ skd_name skill @ '' renderer returned an invalid result''))
       | Inr (Rendered x) \<Rightarrow>
           if rsk_skill_name x \<noteq> srr_skill_name request \<or> rsk_render_id x \<noteq> srr_render_id request
           then Inl (raised (Skill SkillRenderError)
             (''The skill '' @ skd_name skill @ '' renderer returned a mismatched skill name or render ID''))
           else Inr x)))"

section \<open>Templates\<close>

text \<open>
  \<open>string.Template\<close> of the standard library: \<open>$$\<close> is a dollar sign, \<open>$name\<close> and \<open>${name}\<close> are
  placeholders with ASCII identifiers, any other dollar sign is invalid.
\<close>

datatype template_part = Literal char | Dollar | Placeholder string | Invalid

definition dollar :: char where
  "dollar = CHR ''$''"

definition ident_start :: "char \<Rightarrow> bool" where
  "ident_start c \<longleftrightarrow> (let n = of_char c :: nat in 65 \<le> n \<and> n \<le> 90 \<or> 97 \<le> n \<and> n \<le> 122 \<or> n = 95)"

definition ident_char :: "char \<Rightarrow> bool" where
  "ident_char c \<longleftrightarrow> ident_start c \<or> (let n = of_char c :: nat in 48 \<le> n \<and> n \<le> 57)"

definition scan_ident :: "string \<Rightarrow> (string \<times> string) option" where
  "scan_ident s =
     (case s of c # cs \<Rightarrow> if ident_start c then Some (c # takeWhile ident_char cs, dropWhile ident_char cs) else None
      | [] \<Rightarrow> None)"

text \<open>What follows a dollar sign: the part it forms, and the rest of the template.\<close>

definition scan_placeholder :: "string \<Rightarrow> template_part \<times> string" where
  "scan_placeholder s =
     (case s of
        [] \<Rightarrow> (Invalid, [])
      | c # cs \<Rightarrow>
          if c = dollar then (Dollar, cs)
          else case scan_ident s of
                 Some (name, rest) \<Rightarrow> (Placeholder name, rest)
               | None \<Rightarrow>
                   if c = CHR ''{''
                   then (case scan_ident cs of
                           Some (name, d # rest) \<Rightarrow> if d = CHR ''}'' then (Placeholder name, rest) else (Invalid, s)
                         | _ \<Rightarrow> (Invalid, s))
                   else (Invalid, s))"

lemma scan_ident_length: "scan_ident s = Some (name, rest) \<Longrightarrow> length rest < length s"
  by (auto simp: scan_ident_def less_Suc_eq_le length_dropWhile_le split: list.splits if_splits)

lemma scan_placeholder_length: "scan_placeholder s = (p, rest) \<Longrightarrow> length rest \<le> length s"
  by (fastforce simp: scan_placeholder_def split: list.splits if_splits option.splits
      dest!: scan_ident_length)

function template_parts :: "string \<Rightarrow> template_part list" where
  "template_parts [] = []"
| "template_parts (c # cs) =
     (if c = dollar
      then (let (p, rest) = scan_placeholder cs in p # template_parts rest)
      else Literal c # template_parts cs)"
  by pat_completeness auto
termination
  by (relation "measure length") (auto dest!: scan_placeholder_length [OF sym] simp: less_Suc_eq_le)

declare template_parts.simps [simp del]

definition template_valid :: "template_part list \<Rightarrow> bool" where
  "template_valid ps \<longleftrightarrow> list_all (\<lambda>p. p \<noteq> Invalid) ps"

fun placeholders :: "template_part list \<Rightarrow> string list" where
  "placeholders [] = []"
| "placeholders (Placeholder n # ps) = n # placeholders ps"
| "placeholders (_ # ps) = placeholders ps"

text \<open>\<open>get_identifiers\<close>: each name once, in the order of the first occurrence.\<close>

definition get_identifiers :: "template_part list \<Rightarrow> string list" where
  "get_identifiers ps = rev (remdups (rev (placeholders ps)))"

fun substitute :: "(string, string) dict \<Rightarrow> template_part list \<Rightarrow> error + string" where
  "substitute values [] = Inr []"
| "substitute values (Literal c # ps) = bind_e (substitute values ps) (\<lambda>s. Inr (c # s))"
| "substitute values (Dollar # ps) = bind_e (substitute values ps) (\<lambda>s. Inr (dollar # s))"
| "substitute values (Placeholder n # ps) =
     (case dict_get values n of
        None \<Rightarrow> Inl (raised (PyException ''KeyError'') n)
      | Some v \<Rightarrow> bind_e (substitute values ps) (\<lambda>s. Inr (v @ s)))"
| "substitute values (Invalid # ps) = Inl (raised (PyException ''ValueError'') ''Invalid placeholder in string'')"

definition system_text :: "nat \<Rightarrow> string \<Rightarrow> content" where
  "system_text ref text1 = (message ref Role_SYSTEM)\<lparr>c_content := Some
     [\<lparr>cp_type = Part_TEXT, cp_text = Some text1, cp_url = None, cp_data = None, cp_artifact_id = None,
       cp_mime_type = None, cp_detail = None, cp_metadata = []\<rparr>]\<rparr>"

definition value_text :: "(pyval \<Rightarrow> string) \<Rightarrow> pyval \<Rightarrow> string" where
  "value_text dump v = (case v of PStr s \<Rightarrow> s | _ \<Rightarrow> dump v)"

definition template_renderer :: "(pyval \<Rightarrow> string) \<Rightarrow> nat \<Rightarrow> string \<Rightarrow> skill_renderer" where
  "template_renderer dump ref prompt request =
     (let ps = template_parts prompt;
          missing = filter (\<lambda>n. \<not> dict_has (srr_variables request) n) (get_identifiers ps)
      in if missing \<noteq> []
         then Inl (raised_detail (Skill SkillInputError) ''Missing template variables''
                (json_dumps True (JObj [(''missing_fields'', JList (map JStr missing))])))
         else bind_e (substitute (map (\<lambda>(n, v). (n, value_text dump v)) (srr_variables request)) ps)
                (\<lambda>s. Inr (Rendered \<lparr>rsk_render_id = srr_render_id request,
                   rsk_skill_name = srr_skill_name request,
                   rsk_messages = [system_text ref s], rsk_metadata = []\<rparr>)))"

definition create_template_renderer :: "(pyval \<Rightarrow> string) \<Rightarrow> nat \<Rightarrow> template_factory" where
  "create_template_renderer dump ref config =
     (if \<not> template_valid (template_parts (skt_prompt config))
      then Inl (raised (Skill SkillConfigurationError)
             ''Invalid template placeholder; use $name or ${name}, and $$ for a literal dollar'')
      else Inr (template_renderer dump ref (skt_prompt config)))"

section \<open>The built-in skill\<close>

definition echo_definition :: skill_definition where
  "echo_definition =
     \<lparr>skd_name = ''echo'', skd_description = ''Render the skill variables into a system prompt.'',
      skd_is_enabled = True, skd_is_template = False, skd_revision = None,
      skd_input_schema = Some [(''type'', PStr ''object'')],
      skd_output_schema = Some [(''type'', PStr ''object''),
        (''properties'', PDict [(''messages'', PDict [(''type'', PStr ''array'')])]),
        (''required'', PList [PStr ''messages''])],
      skd_capabilities = [SCap_AGENT], skd_required_tools = [], skd_metadata = [(''builtin'', PBool True)]\<rparr>"

definition render_echo :: "(pyval \<Rightarrow> string) \<Rightarrow> nat \<Rightarrow> skill_renderer" where
  "render_echo dump ref request =
     Inr (Rendered \<lparr>rsk_render_id = srr_render_id request, rsk_skill_name = srr_skill_name request,
       rsk_messages = [system_text ref (''Echo skill variables: '' @ dump (PDict (srr_variables request)))],
       rsk_metadata = [(''builtin'', PStr ''echo'')]\<rparr>)"

definition register_echo_skill :: "json_schema \<Rightarrow> (pyval \<Rightarrow> string) \<Rightarrow> nat \<Rightarrow> (error, skill_registry, unit) act" where
  "register_echo_skill js dump ref = skill_register js echo_definition (render_echo dump ref)"

section \<open>Facts about templates\<close>

lemma scan_ident_not_dollar: "ident_start c \<Longrightarrow> c \<noteq> dollar"
  by (auto simp: ident_start_def dollar_def Let_def)

fun part_text :: "(string \<Rightarrow> string) \<Rightarrow> template_part \<Rightarrow> string" where
  "part_text v (Literal c) = [c]"
| "part_text v Dollar = [dollar]"
| "part_text v (Placeholder n) = v n"
| "part_text v Invalid = []"

lemma substitute_total:
  assumes "template_valid ps" and "\<forall>n \<in> set (placeholders ps). dict_get values n = Some (v n)"
  shows "substitute values ps = Inr (concat (map (part_text v) ps))"
  using assms by (induction ps rule: placeholders.induct) (auto simp: template_valid_def)

lemma set_get_identifiers [simp]: "set (get_identifiers ps) = set (placeholders ps)"
  by (simp add: get_identifiers_def)

lemma dict_get_map_snd:
  "dict_get (map (\<lambda>(n, v). (n, f v)) d) k = map_option f (dict_get d k)"
  by (induction d) (auto simp: dict_get_def)

lemma template_parts_escaped:
  "template_parts (concat (map (\<lambda>c. if c = dollar then [dollar, dollar] else [c]) s))
     = map (\<lambda>c. if c = dollar then Dollar else Literal c) s"
  by (induction s) (auto simp: template_parts.simps scan_placeholder_def)

section \<open>Facts about the manager\<close>

definition skill_of :: "skill_template \<Rightarrow> skill_definition" where
  "skill_of c = (skill_definition.truncate c)\<lparr>skd_is_template := True\<rparr>"

lemma build_template_ok:
  assumes "build_template js factory c = Inr (skill, renderer)"
  shows "skill = skill_of c" "input_validator js (skill_of c) = Inr v \<or> True"
    "\<exists>v. input_validator js (skill_of c) = Inr v" "\<exists>f. factory = Some f \<and> f c = Inr renderer"
    "skd_name skill = skd_name c"
  using assms
  by (auto simp: build_template_def skill_of_def Let_def bind_e_eq_Inr skill_definition.truncate_def
      split: option.splits)

text \<open>
  The skills that a server shows are the built-in ones of \<open>r0\<close> and those of the templates
  (\<open>catalogue\<close>), and the store holds exactly the templates (\<open>persisted\<close>).
\<close>

definition buildable :: "json_schema \<Rightarrow> template_factory option \<Rightarrow> skill_registry \<Rightarrow> skill_template \<Rightarrow> bool" where
  "buildable js factory r0 c \<longleftrightarrow> skd_revision c \<noteq> None \<and> \<not> dict_has (sr_skills r0) (skd_name c)
     \<and> (\<exists>f. build_template js factory c = Inr (skill_of c, f))"

definition template_function :: "template_factory option \<Rightarrow> skill_template \<Rightarrow> skill_renderer option" where
  "template_function factory c =
     (case factory of None \<Rightarrow> None | Some f \<Rightarrow> (case f c of Inl _ \<Rightarrow> None | Inr r \<Rightarrow> Some r))"

definition catalogue ::
  "json_schema \<Rightarrow> template_factory option \<Rightarrow> skill_registry \<Rightarrow> skill_manager \<Rightarrow> bool" where
  "catalogue js factory r0 m \<longleftrightarrow>
     dict_ok (sm_templates m)
     \<and> (\<forall>n. dict_has (sr_skills r0) n \<longleftrightarrow> dict_has (sr_renderers r0) n)
     \<and> (\<forall>n c. dict_get (sm_templates m) n = Some c \<longrightarrow> skd_name c = n \<and> buildable js factory r0 c)
     \<and> (\<forall>n. dict_get (sr_skills (sm_register m)) n =
             (case dict_get (sm_templates m) n of Some c \<Rightarrow> Some (skill_of c) | None \<Rightarrow> dict_get (sr_skills r0) n))
     \<and> (\<forall>n. dict_get (sr_renderers (sm_register m)) n =
             (case dict_get (sm_templates m) n of
                Some c \<Rightarrow> template_function factory c | None \<Rightarrow> dict_get (sr_renderers r0) n))"

definition persisted ::
  "json_schema \<Rightarrow> template_factory option \<Rightarrow> skill_registry \<Rightarrow> skill_manager \<Rightarrow> bool" where
  "persisted js factory r0 m \<longleftrightarrow> catalogue js factory r0 m
     \<and> (\<exists>d. sm_store m = Some d \<and> dict_ok d \<and> dict_get d = dict_get (sm_templates m))"

lemma build_template_function:
  assumes "build_template js factory c = Inr (skill, f)"
  shows "template_function factory c = Some f"
  using build_template_ok(4) [OF assms] by (auto simp: template_function_def)

lemma catalogue_has:
  assumes "catalogue js factory r0 m"
  shows "skill_has n (sm_register m) \<longleftrightarrow> dict_has (sm_templates m) n \<or> dict_has (sr_skills r0) n"
proof (cases "dict_get (sm_templates m) n")
  case None
  with assms show ?thesis by (simp add: catalogue_def skill_has_def) (simp add: dict_has_def)
next
  case (Some c)
  with assms have "buildable js factory r0 c" by (simp add: catalogue_def)
  then obtain f where "build_template js factory c = Inr (skill_of c, f)" by (auto simp: buildable_def)
  then have "template_function factory c = Some f" by (rule build_template_function)
  with Some assms show ?thesis by (simp add: catalogue_def skill_has_def dict_has_def)
qed

lemma install_catalogue:
  assumes "catalogue js factory r0 m" "buildable js factory r0 c"
    and "build_template js factory c = Inr (skill, f)"
  shows "\<exists>m'. install_template js (skd_name c) c skill f m = (Inr skill, m') \<and> catalogue js factory r0 m'
    \<and> sm_store m' = sm_store m \<and> dict_get (sm_templates m') = (dict_get (sm_templates m))(skd_name c \<mapsto> c)"
proof -
  note build = build_template_ok [OF assms(3)] build_template_function [OF assms(3)]
  then obtain v where "input_validator js skill = Inr v" by auto
  then have "install_template js (skd_name c) c skill f m = (Inr skill, m\<lparr>sm_register :=
      (sm_register m)\<lparr>sr_skills := dict_set (skd_name c) skill (sr_skills (sm_register m)),
        sr_renderers := dict_set (skd_name c) f (sr_renderers (sm_register m))\<rparr>,
      sm_templates := dict_set (skd_name c) c (sm_templates m)\<rparr>)"
    using build(5) by (simp add: install_template_def skill_register_def)
  moreover have "dict_get (dict_set (skd_name c) c (sm_templates m)) = (dict_get (sm_templates m))(skd_name c \<mapsto> c)"
    by (auto simp: fun_eq_iff)
  ultimately show ?thesis using assms(1,2) build(1,6) by (simp add: catalogue_def)
qed

lemma install_persisted:
  assumes "persisted js factory r0 m" "buildable js factory r0 c"
    and "build_template js factory c = Inr (skill, f)"
  shows "\<exists>m'. install_template js (skd_name c) c skill f (save_template c m) = (Inr skill, m')
    \<and> persisted js factory r0 m'"
proof -
  from assms(1) obtain d where d: "sm_store m = Some d" "dict_ok d" "dict_get d = dict_get (sm_templates m)"
    and cat: "catalogue js factory r0 m" by (auto simp: persisted_def)
  from cat have "catalogue js factory r0 (save_template c m)"
    by (simp add: catalogue_def save_template_def)
  from install_catalogue [OF this assms(2,3)] obtain m' where
    m': "install_template js (skd_name c) c skill f (save_template c m) = (Inr skill, m')"
      "catalogue js factory r0 m'" "sm_store m' = Some (template_save c d)"
      "dict_get (sm_templates m') = (dict_get (sm_templates m))(skd_name c \<mapsto> c)"
    using d(1) by (auto simp: save_template_def)
  moreover have "dict_get (template_save c d) = (dict_get d)(skd_name c \<mapsto> c)"
    by (auto simp: template_save_def fun_eq_iff)
  ultimately show ?thesis using d by (auto simp: persisted_def template_save_def)
qed

lemma create_persisted:
  assumes "persisted js factory r0 m" "create_template js factory uuid config m = (x, m')"
  shows "persisted js factory r0 m'"
proof (cases "skill_has (skd_name config) (sm_register m)")
  case False
  let ?c = "config\<lparr>skd_is_template := True, skd_revision := Some uuid\<rparr>"
  from False assms(1) have "\<not> dict_has (sr_skills r0) (skd_name ?c)"
    using catalogue_has [of js factory r0 m "skd_name config"] by (simp add: persisted_def)
  moreover have "persisted js factory r0 m'"
    if "build_template js factory ?c = Inr (skill, f)" "\<not> dict_has (sr_skills r0) (skd_name ?c)" for skill f
    using install_persisted [OF assms(1), of ?c skill f] that build_template_ok(1) [OF that(1)] assms(2) False
    by (auto simp: create_template_def buildable_def)
  ultimately show ?thesis
    using assms False by (cases "build_template js factory ?c") (auto simp: create_template_def)
qed (use assms in \<open>simp add: create_template_def\<close>)

lemma skill_get_iff:
  "skill_get n r = Inr s \<longleftrightarrow> skill_has n r \<and> dict_get (sr_skills r) n = Some s"
  by (auto simp: skill_get_def split: option.split bool.split)

lemma get_template_iff:
  assumes "catalogue js factory r0 m"
  shows "get_template n m = Inr c \<longleftrightarrow> dict_get (sm_templates m) n = Some c"
proof -
  have "dict_get (sm_templates m) n = Some c \<Longrightarrow> skill_has n (sm_register m)"
    using catalogue_has [OF assms, of n] by (simp add: dict_has_def)
  then show ?thesis
    by (auto simp: get_template_def bind_e_eq_Inr skill_get_iff skill_has_def dict_has_def split: option.splits)
qed

lemma updated_template_sel [simp]:
  "skd_name (updated_template u c) = skd_name c" "skd_revision (updated_template u c) = skd_revision c"
  by (simp_all add: updated_template_def)

lemma update_persisted:
  assumes "persisted js factory r0 m" "update_template js factory uuid n u m = (x, m')"
  shows "persisted js factory r0 m'"
proof (cases "get_template n m")
  case (Inr c)
  let ?u = "updated_template u c"
  let ?c = "if ?u \<noteq> c then ?u\<lparr>skd_revision := Some uuid\<rparr> else ?u"
  from assms(1) have cat: "catalogue js factory r0 m" by (simp add: persisted_def)
  with Inr have "dict_get (sm_templates m) n = Some c" by (simp add: get_template_iff)
  with cat have c: "skd_name c = n" "buildable js factory r0 c" by (simp_all add: catalogue_def)
  have name: "skd_name ?c = n" using c(1) by simp
  have "persisted js factory r0 m'"
    if b: "build_template js factory ?c = Inr (skill, f)" for skill f
  proof -
    from b have "build_template js factory ?c = Inr (skill_of ?c, f)" using build_template_ok(1) [OF b] by simp
    with c have "buildable js factory r0 ?c" by (auto simp: buildable_def)
    from install_persisted [OF assms(1) this b] obtain m1 where
      "install_template js n ?c skill f (save_template ?c m) = (Inr skill, m1)" "persisted js factory r0 m1"
      by (auto simp: name)
    with b Inr assms(2) show ?thesis by (simp add: update_template_def Let_def split: if_splits)
  qed
  with Inr assms show ?thesis
    by (cases "build_template js factory ?c") (auto simp: update_template_def Let_def)
qed (use assms in \<open>simp add: update_template_def\<close>)

lemma delete_persisted:
  assumes "persisted js factory r0 m" "delete_template n m = (x, m')"
  shows "persisted js factory r0 m'"
proof (cases "get_template n m")
  case (Inr c)
  from assms(1) obtain d where d: "sm_store m = Some d" "dict_ok d" "dict_get d = dict_get (sm_templates m)"
    and cat: "catalogue js factory r0 m" by (auto simp: persisted_def)
  from Inr cat have t: "dict_get (sm_templates m) n = Some c" by (simp add: get_template_iff)
  with cat have "buildable js factory r0 c" "skd_name c = n" by (auto simp: catalogue_def)
  then have "\<not> dict_has (sr_skills r0) n" "\<not> dict_has (sr_renderers r0) n"
    using cat by (auto simp: buildable_def catalogue_def)
  then have r0: "dict_get (sr_skills r0) n = None" "dict_get (sr_renderers r0) n = None"
    by (simp_all add: dict_has_def)
  have "skill_has n (sm_register m)" using t catalogue_has [OF cat] by (simp add: dict_has_def)
  then have "m' = m\<lparr>sm_store := Some (dict_pop n d),
      sm_register := (sm_register m)\<lparr>sr_skills := dict_pop n (sr_skills (sm_register m)),
        sr_renderers := dict_pop n (sr_renderers (sm_register m))\<rparr>,
      sm_templates := dict_pop n (sm_templates m)\<rparr>"
    using assms(2) Inr d t
    by (simp add: delete_template_def template_delete_def skill_unregister_def dict_has_def split: prod.splits)
  moreover have "dict_get (dict_pop n d) = dict_get (dict_pop n (sm_templates m))"
    using d(3) by (auto simp: fun_eq_iff)
  ultimately show ?thesis using cat d r0 by (simp add: persisted_def catalogue_def)
qed (use assms in \<open>simp add: delete_template_def\<close>)

text \<open>What a server does with its templates, from the start with an empty table.\<close>

inductive template_history ::
  "json_schema \<Rightarrow> template_factory option \<Rightarrow> skill_registry \<Rightarrow> skill_manager \<Rightarrow> bool"
  for js factory r0 where
  start: "template_history js factory r0 \<lparr>sm_register = r0, sm_store = Some [], sm_templates = []\<rparr>"
| create: "template_history js factory r0 m \<Longrightarrow> create_template js factory uuid config m = (x, m')
     \<Longrightarrow> template_history js factory r0 m'"
| update: "template_history js factory r0 m \<Longrightarrow> update_template js factory uuid n u m = (x', m')
     \<Longrightarrow> template_history js factory r0 m'"
| delete: "template_history js factory r0 m \<Longrightarrow> delete_template n m = (x'', m')
     \<Longrightarrow> template_history js factory r0 m'"

lemma history_persisted:
  assumes "template_history js factory r0 m" "\<forall>n. dict_has (sr_skills r0) n \<longleftrightarrow> dict_has (sr_renderers r0) n"
  shows "persisted js factory r0 m"
  using assms
  by (induction rule: template_history.induct)
    (auto simp: persisted_def [of _ _ _ "\<lparr>sm_register = _, sm_store = _, sm_templates = _\<rparr>"] catalogue_def
      intro: create_persisted update_persisted delete_persisted)

definition template_named :: "skill_template list \<Rightarrow> string \<Rightarrow> skill_template option" where
  "template_named cs n = map_of (map (\<lambda>c. (skd_name c, c)) cs) n"

lemma option_eqI: "(\<And>c. x = Some c \<longleftrightarrow> y = Some c) \<Longrightarrow> x = y"
  by (cases x; cases y) auto

lemma template_named_Cons:
  "template_named (c # cs) n = (if skd_name c = n then Some c else template_named cs n)"
  by (simp add: template_named_def)

lemma template_named_iff:
  assumes "distinct (map skd_name cs)"
  shows "template_named cs n = Some c \<longleftrightarrow> c \<in> set cs \<and> skd_name c = n"
  using assms by (induction cs) (auto simp: template_named_def rev_image_eqI)

lemma restore_loop:
  assumes "catalogue js factory r0 m" "\<forall>c \<in> set cs. buildable js factory r0 c"
    and "distinct (map skd_name cs)"
  shows "\<exists>m'. for_each (restore_one js factory uuid) cs m = (Inr (), m') \<and> catalogue js factory r0 m'
    \<and> sm_store m' = sm_store m
    \<and> (\<forall>n. dict_get (sm_templates m') n =
          (case template_named cs n of Some c \<Rightarrow> Some c | None \<Rightarrow> dict_get (sm_templates m) n))"
  using assms
proof (induction cs arbitrary: m)
  case (Cons c cs)
  then have c: "buildable js factory r0 c" by simp
  then obtain f where b: "build_template js factory c = Inr (skill_of c, f)" by (auto simp: buildable_def)
  from install_catalogue [OF Cons.prems(1) c b] obtain m1 where
    m1: "install_template js (skd_name c) c (skill_of c) f m = (Inr (skill_of c), m1)"
      "catalogue js factory r0 m1" "sm_store m1 = sm_store m"
      "dict_get (sm_templates m1) = (dict_get (sm_templates m))(skd_name c \<mapsto> c)" by blast
  have "\<not> (skill_has (skd_name c) (sm_register m) \<and> \<not> dict_has (sm_templates m) (skd_name c))"
    using c catalogue_has [OF Cons.prems(1), of "skd_name c"] by (auto simp: buildable_def)
  then have one: "restore_one js factory uuid c m = (Inr (), m1)"
    using c b m1(1) by (auto simp: restore_one_def buildable_def bind_a_def Let_def)
  from Cons.IH [OF m1(2)] Cons.prems obtain m' where
    m': "for_each (restore_one js factory uuid) cs m1 = (Inr (), m')" "catalogue js factory r0 m'"
      "sm_store m' = sm_store m1"
      "\<forall>n. dict_get (sm_templates m') n =
          (case template_named cs n of Some c \<Rightarrow> Some c | None \<Rightarrow> dict_get (sm_templates m1) n)"
    by auto
  have "template_named cs (skd_name c) = None"
    using Cons.prems(3) by (auto simp: template_named_def map_of_eq_None_iff)
  then have "\<forall>n. dict_get (sm_templates m') n =
      (case template_named (c # cs) n of Some c \<Rightarrow> Some c | None \<Rightarrow> dict_get (sm_templates m) n)"
    using m'(4) m1(4) by (auto simp: template_named_Cons split: option.split)
  moreover have "for_each (restore_one js factory uuid) (c # cs) m = (Inr (), m')"
    using one m'(1) by simp
  ultimately show ?case using m'(2,3) m1(3) by metis
qed (simp add: template_named_def)

lemma list_configs_named:
  assumes "dict_ok d" "\<forall>n c. dict_get d n = Some c \<longrightarrow> skd_name c = n"
  shows "template_named (list_configs d) n = dict_get d n" "distinct (map skd_name (list_configs d))"
    "c \<in> set (list_configs d) \<Longrightarrow> dict_get d (skd_name c) = Some c"
proof -
  have k: "keyed skd_name d" using assms by (simp add: keyed_def)
  then show dist: "distinct (map skd_name (list_configs d))"
    by (simp add: list_configs_def distinct_map_sort_key keyed_values_distinct)
  have "template_named (list_configs d) n = Some c \<longleftrightarrow> dict_get d n = Some c" for c
    unfolding template_named_iff [OF dist] using keyed_values_iff [OF k] assms(2)
    by (auto simp: list_configs_def)
  then show "template_named (list_configs d) n = dict_get d n" by (rule option_eqI)
  show "c \<in> set (list_configs d) \<Longrightarrow> dict_get d (skd_name c) = Some c"
    using keyed_values_iff [OF k] by (simp add: list_configs_def)
qed

section \<open>The properties of the component\<close>

text \<open>Restarting the server loses and changes no skill: after any sequence of creations, updates and
  deletions of templates, restoring from the table into a fresh register with the same built-in skills
  succeeds and gives the same templates, the same skills and the same renderers, and writes nothing.\<close>

theorem restart_restores_skills:
  assumes "template_history js factory r0 m" and "\<forall>n. dict_has (sr_skills r0) n \<longleftrightarrow> dict_has (sr_renderers r0) n"
  shows "\<exists>m'. restore_templates js factory uuid \<lparr>sm_register = r0, sm_store = sm_store m, sm_templates = []\<rparr>
       = (Inr (), m')
     \<and> sm_store m' = sm_store m
     \<and> dict_get (sm_templates m') = dict_get (sm_templates m)
     \<and> dict_get (sr_skills (sm_register m')) = dict_get (sr_skills (sm_register m))
     \<and> dict_get (sr_renderers (sm_register m')) = dict_get (sr_renderers (sm_register m))"
proof -
  from history_persisted [OF assms] obtain d where cat: "catalogue js factory r0 m"
    and d: "sm_store m = Some d" "dict_ok d" "dict_get d = dict_get (sm_templates m)"
    by (auto simp: persisted_def)
  from cat d(3) have keys: "\<forall>n c. dict_get d n = Some c \<longrightarrow> skd_name c = n \<and> buildable js factory r0 c"
    by (simp add: catalogue_def)
  then have keys': "\<forall>n c. dict_get d n = Some c \<longrightarrow> skd_name c = n" by blast
  let ?m0 = "\<lparr>sm_register = r0, sm_store = sm_store m, sm_templates = []\<rparr>"
  have "catalogue js factory r0 ?m0" using assms(2) by (simp add: catalogue_def)
  moreover have "\<forall>c \<in> set (list_configs d). buildable js factory r0 c"
    using list_configs_named(3) [OF d(2) keys'] keys by blast
  ultimately have "\<exists>m'. for_each (restore_one js factory uuid) (list_configs d) ?m0 = (Inr (), m')
    \<and> catalogue js factory r0 m' \<and> sm_store m' = sm_store ?m0
    \<and> (\<forall>n. dict_get (sm_templates m') n =
          (case template_named (list_configs d) n of Some c \<Rightarrow> Some c | None \<Rightarrow> dict_get (sm_templates ?m0) n))"
    by (rule restore_loop) (rule list_configs_named(2) [OF d(2) keys'])
  then obtain m' where
    m': "for_each (restore_one js factory uuid) (list_configs d) ?m0 = (Inr (), m')" "catalogue js factory r0 m'"
      "sm_store m' = sm_store m"
      "\<forall>n. dict_get (sm_templates m') n = (case template_named (list_configs d) n of Some c \<Rightarrow> Some c | None \<Rightarrow> None)"
    by (auto cong: option.case_cong)
  have same: "dict_get (sm_templates m') = dict_get (sm_templates m)"
    using m'(4) d(3) by (auto simp: fun_eq_iff list_configs_named(1) [OF d(2) keys'] split: option.split)
  moreover have "dict_get (sr_skills (sm_register m')) = dict_get (sr_skills (sm_register m))"
    "dict_get (sr_renderers (sm_register m')) = dict_get (sr_renderers (sm_register m))"
    using m'(2) cat same by (simp_all add: catalogue_def fun_eq_iff)
  ultimately show ?thesis using m'(1,3) d(1) by (auto simp: restore_templates_def)
qed

text \<open>A renderer that was accepted never fails on its text: it either names the missing variables, or
  answers one system message, which is the prompt with every placeholder replaced and every \<open>$$\<close> turned
  into a dollar sign.\<close>

theorem template_rendering_exact:
  assumes "create_template_renderer dump ref config = Inr renderer"
  shows "case filter (\<lambda>n. \<not> dict_has (srr_variables request) n) (get_identifiers (template_parts (skt_prompt config))) of
      [] \<Rightarrow> renderer request = Inr (Rendered \<lparr>rsk_render_id = srr_render_id request,
              rsk_skill_name = srr_skill_name request,
              rsk_messages = [system_text ref (concat (map (part_text (\<lambda>n.
                 value_text dump (meta_get (srr_variables request) n))) (template_parts (skt_prompt config))))],
              rsk_metadata = []\<rparr>)
    | _ \<Rightarrow> \<exists>e. renderer request = Inl e \<and> error_class e = Skill SkillInputError"
proof -
  let ?ps = "template_parts (skt_prompt config)"
  let ?missing = "filter (\<lambda>n. \<not> dict_has (srr_variables request) n) (get_identifiers ?ps)"
  from assms have r: "renderer = template_renderer dump ref (skt_prompt config)" and ok: "template_valid ?ps"
    by (auto simp: create_template_renderer_def split: if_splits)
  show ?thesis
  proof (cases "?missing = []")
    case True
    then have "\<forall>n \<in> set (placeholders ?ps). dict_has (srr_variables request) n"
      by (simp add: filter_empty_conv)
    then have "\<forall>n \<in> set (placeholders ?ps).
        dict_get (map (\<lambda>(n, v). (n, value_text dump v)) (srr_variables request)) n
          = Some (value_text dump (meta_get (srr_variables request) n))"
      by (auto simp: dict_has_def dict_get_map_snd meta_get_def)
    from substitute_total [OF ok this] True show ?thesis
      by (simp add: r template_renderer_def Let_def)
  next
    case False
    then show ?thesis
      by (auto simp: r template_renderer_def Let_def raised_detail_def split: list.split)
  qed
qed

text \<open>Escaping is undone by rendering: any text in which each dollar sign is doubled is accepted as a
  template, needs no variables and renders to the text itself.\<close>

theorem escaped_prompt_roundtrip:
  assumes "skt_prompt config = concat (map (\<lambda>c. if c = dollar then [dollar, dollar] else [c]) s)"
  shows "\<exists>f. create_template_renderer dump ref config = Inr f
    \<and> f request = Inr (Rendered \<lparr>rsk_render_id = srr_render_id request, rsk_skill_name = srr_skill_name request,
         rsk_messages = [system_text ref s], rsk_metadata = []\<rparr>)"
proof -
  let ?ps = "map (\<lambda>c. if c = dollar then Dollar else Literal c) s"
  have ps: "template_parts (skt_prompt config) = ?ps"
    using assms by (simp add: template_parts_escaped)
  have "template_valid ?ps" by (auto simp: template_valid_def list_all_iff)
  moreover have none: "placeholders ?ps = []" by (induction s) auto
  moreover have "concat (map (part_text v) ?ps) = s" for v by (induction s) auto
  ultimately show ?thesis
    using substitute_total [of ?ps]
    by (simp add: create_template_renderer_def template_renderer_def ps get_identifiers_def)
qed

definition sample_template :: "string \<Rightarrow> skill_template" where
  "sample_template prompt =
     \<lparr>skd_name = ''greet'', skd_description = ''d'', skd_is_enabled = True, skd_is_template = False,
      skd_revision = None, skd_input_schema = None, skd_output_schema = None, skd_capabilities = [SCap_CHAT],
      skd_required_tools = [], skd_metadata = [], skt_prompt = prompt\<rparr>"

definition any_schema :: json_schema where
  "any_schema = \<lparr>js_class = \<lambda>_. Valid_schema, js_validate = \<lambda>_ _. Conforms\<rparr>"

definition only_echo :: skill_registry where
  "only_echo = snd (register_echo_skill any_schema (\<lambda>_. ''v'') 0 \<lparr>sr_skills = [], sr_renderers = []\<rparr>)"

definition one_template :: skill_manager where
  "one_template = snd (create_template any_schema (Some (create_template_renderer (\<lambda>_. ''v'') 0)) ''r''
     (sample_template ''Hello $name'') \<lparr>sm_register = only_echo, sm_store = Some [], sm_templates = []\<rparr>)"

lemma only_echo_keys: "dict_has (sr_skills only_echo) n \<longleftrightarrow> dict_has (sr_renderers only_echo) n"
  by (simp add: only_echo_def register_echo_skill_def skill_register_def input_validator_def echo_definition_def
      any_schema_def)

theorem restart_restores_skills_witness:
  "\<exists>m'. restore_templates any_schema (Some (create_template_renderer (\<lambda>_. ''v'') 0)) (\<lambda>n. n)
     \<lparr>sm_register = only_echo, sm_store = sm_store one_template, sm_templates = []\<rparr> = (Inr (), m')
     \<and> dict_get (sm_templates m') = dict_get (sm_templates one_template)"
proof -
  have "template_history any_schema (Some (create_template_renderer (\<lambda>_. ''v'') 0)) only_echo one_template"
    unfolding one_template_def
    by (rule template_history.create [OF template_history.start]) (rule surjective_pairing)
  from restart_restores_skills [OF this] only_echo_keys show ?thesis by blast
qed

theorem template_rendering_exact_witness:
  "\<exists>f. create_template_renderer (\<lambda>_. ''v'') 0 (sample_template [dollar, CHR ''n'']) = Inr f
     \<and> f \<lparr>srr_render_id = ''r'', srr_skill_name = ''greet'', srr_variables = [(''n'', PStr ''Ann'')],
           srr_metadata = []\<rparr>
       = Inr (Rendered \<lparr>rsk_render_id = ''r'', rsk_skill_name = ''greet'',
           rsk_messages = [system_text 0 ''Ann''], rsk_metadata = []\<rparr>)"
proof -
  let ?f = "template_renderer (\<lambda>_. ''v'') 0 [dollar, CHR ''n'']"
  have parts: "template_parts [dollar, CHR ''n''] = [Placeholder ''n'']"
    by (simp add: template_parts.simps scan_placeholder_def scan_ident_def ident_start_def dollar_def)
  then have "create_template_renderer (\<lambda>_. ''v'') 0 (sample_template [dollar, CHR ''n'']) = Inr ?f"
    by (simp add: create_template_renderer_def sample_template_def template_valid_def)
  from this template_rendering_exact [OF this, of "\<lparr>srr_render_id = ''r'', srr_skill_name = ''greet'',
      srr_variables = [(''n'', PStr ''Ann'')], srr_metadata = []\<rparr>"] show ?thesis
    by (simp add: sample_template_def parts get_identifiers_def dict_has_def dict_get_Cons meta_get_def
        value_text_def)
qed

theorem escaped_prompt_roundtrip_witness:
  "\<exists>f. create_template_renderer (\<lambda>_. ''v'') 0 (sample_template [CHR ''5'', dollar, dollar]) = Inr f
     \<and> f \<lparr>srr_render_id = ''r'', srr_skill_name = ''greet'', srr_variables = [], srr_metadata = []\<rparr>
       = Inr (Rendered \<lparr>rsk_render_id = ''r'', rsk_skill_name = ''greet'',
           rsk_messages = [system_text 0 [CHR ''5'', dollar]], rsk_metadata = []\<rparr>)"
  using escaped_prompt_roundtrip [of "sample_template [CHR ''5'', dollar, dollar]" "[CHR ''5'', dollar]"
      "\<lambda>_. ''v''" 0 "\<lparr>srr_render_id = ''r'', srr_skill_name = ''greet'', srr_variables = [], srr_metadata = []\<rparr>"]
  by (simp add: sample_template_def dollar_def)

end
