(* ===== verification/Files.thy ===== *)
theory Files
  imports ScopedStore "HOL-Library.Word"
begin

text \<open>
  Files that users upload and tools show: the validation of bitmap images
  (\<open>core/domain/image_attachment.py\<close>) on bytes as 8 bit words, the two stores of file artifacts
  (\<open>core/domain/file.py\<close> in memory, \<open>infra/adapters/tool/file_artifacts.py\<close> in a table) and the use
  cases on them (\<open>application/file.py\<close>, \<open>create_image_artifact\<close>).

  A Python loop over an offset is a recursion on the offset, with the distance to the end as its measure.
  \<open>strip\<close> is the Unicode \<open>str.strip\<close>.
\<close>

unbundle bit_operations_syntax

section \<open>Bytes\<close>

type_synonym bytes = "8 word list"

definition of_ascii :: "string \<Rightarrow> bytes" where
  "of_ascii s = map (\<lambda>c. of_nat (of_char c)) s"

text \<open>\<open>data[a:a+n]\<close>, shorter at the end of the data, and \<open>data[i]\<close> as a number.\<close>

definition byte_slice :: "bytes \<Rightarrow> nat \<Rightarrow> nat \<Rightarrow> bytes" where
  "byte_slice data a n = take n (drop a data)"

definition byte_at :: "bytes \<Rightarrow> nat \<Rightarrow> nat" where
  "byte_at data i = unat (data ! i)"

definition from_big :: "bytes \<Rightarrow> nat" where
  "from_big bs = foldl (\<lambda>n b. 256 * n + unat b) 0 bs"

definition from_little :: "bytes \<Rightarrow> nat" where
  "from_little bs = foldr (\<lambda>b n. unat b + 256 * n) bs 0"

text \<open>\<open>zlib.crc32\<close>: the reflected polynomial \<open>0xEDB88320\<close>, all bits inverted before and after.\<close>

definition crc_bit :: "32 word \<Rightarrow> 32 word" where
  "crc_bit c = (if bit c 0 then drop_bit 1 c XOR 0xEDB88320 else drop_bit 1 c)"

definition crc_byte :: "32 word \<Rightarrow> 8 word \<Rightarrow> 32 word" where
  "crc_byte c b = (crc_bit ^^ 8) (c XOR ucast b)"

definition crc32 :: "bytes \<Rightarrow> 32 word" where
  "crc32 bs = NOT (foldl crc_byte (- 1) bs)"

section \<open>PNG\<close>

definition png_signature :: bytes where
  "png_signature = [0x89, 0x50, 0x4E, 0x47, 0x0D, 0x0A, 0x1A, 0x0A]"

function png_scan :: "bytes \<Rightarrow> nat \<Rightarrow> bool \<Rightarrow> bool \<Rightarrow> bool" where
  "png_scan data offset saw_header saw_data =
     (if \<not> offset + 12 \<le> length data then False
      else
        let len = from_big (byte_slice data offset 4);
            kind = byte_slice data (offset + 4) 4;
            end = offset + 12 + len
        in if end > length data then False
           else
             let payload = byte_slice data (offset + 8) len;
                 expected_crc = from_big (byte_slice data (offset + 8 + len) 4)
             in if unat (crc32 (kind @ payload)) \<noteq> expected_crc then False
                else if \<not> saw_header
                then kind = of_ascii ''IHDR'' \<and> len = 13
                     \<and> from_big (take 4 payload) \<noteq> 0 \<and> from_big (byte_slice payload 4 4) \<noteq> 0
                     \<and> png_scan data end True saw_data
                else if kind = of_ascii ''IDAT'' then png_scan data end saw_header True
                else if kind = of_ascii ''IEND'' then len = 0 \<and> saw_data \<and> end = length data
                else png_scan data end saw_header saw_data)"
  by pat_completeness auto
termination
  by (relation "measure (\<lambda>(data, offset, _). length data - offset)") auto

declare png_scan.simps [simp del]

definition valid_png :: "bytes \<Rightarrow> bool" where
  "valid_png data \<longleftrightarrow> take 8 data = png_signature \<and> png_scan data 8 False False"

section \<open>JPEG\<close>

text \<open>\<open>data.find(needle, start)\<close> for a needle of two bytes; \<open>None\<close> is the result \<open>-1\<close>.\<close>

definition find_pair :: "8 word \<Rightarrow> 8 word \<Rightarrow> bytes \<Rightarrow> nat \<Rightarrow> nat option" where
  "find_pair a b data start =
     (case filter (\<lambda>i. data ! i = a \<and> data ! (i + 1) = b) [start..<length data - 1] of
        [] \<Rightarrow> None | i # _ \<Rightarrow> Some i)"

definition frame_markers :: "nat list" where
  "frame_markers = [0xC0, 0xC1, 0xC2, 0xC3, 0xC5, 0xC6, 0xC7, 0xC9, 0xCA, 0xCB, 0xCD, 0xCE, 0xCF]"

definition after_fill :: "bytes \<Rightarrow> nat \<Rightarrow> nat" where
  "after_fill data offset = offset + length (takeWhile (\<lambda>b. b = 0xFF) (drop offset data))"

function jpeg_scan :: "bytes \<Rightarrow> nat \<Rightarrow> bool \<Rightarrow> bool \<Rightarrow> bool" where
  "jpeg_scan data offset saw_frame saw_scan =
     (if \<not> offset + 2 < length data then False
      else if byte_at data offset \<noteq> 0xFF then False
      else
        let position = after_fill data offset
        in if position \<ge> length data then False
           else
             let marker = byte_at data position; offset' = position + 1
             in if marker = 0xD9 then saw_frame \<and> saw_scan \<and> offset' = length data
                else if marker = 0xD8 \<or> marker = 0x01 \<or> (0xD0 \<le> marker \<and> marker \<le> 0xD7)
                then jpeg_scan data offset' saw_frame saw_scan
                else if offset' + 2 > length data then False
                else
                  let len = from_big (byte_slice data offset' 2)
                  in if len < 2 \<or> offset' + len > length data then False
                     else
                       let frame = (if marker \<in> set frame_markers then len \<ge> 8 else saw_frame)
                       in if marker = 0xDA
                          then frame \<and> find_pair 0xFF 0xD9 data (offset' + len) = Some (length data - 2)
                          else jpeg_scan data (offset' + len) frame saw_scan)"
  by pat_completeness auto
termination
  by (relation "measure (\<lambda>(data, offset, _). length data - offset)") (auto simp: after_fill_def)

declare jpeg_scan.simps [simp del]

definition valid_jpeg :: "bytes \<Rightarrow> bool" where
  "valid_jpeg data \<longleftrightarrow> length data \<ge> 12 \<and> take 2 data = [0xFF, 0xD8]
     \<and> drop (length data - 2) data = [0xFF, 0xD9] \<and> jpeg_scan data 2 False False"

section \<open>WebP\<close>

definition frame_chunk :: "bytes \<Rightarrow> nat \<Rightarrow> bytes \<Rightarrow> bool" where
  "frame_chunk kind sz payload \<longleftrightarrow>
     (kind = of_ascii ''VP8 '' \<and> sz \<ge> 10 \<and> byte_slice payload 3 3 = [0x9D, 0x01, 0x2A])
     \<or> (kind = of_ascii ''VP8L'' \<and> sz \<ge> 5 \<and> payload ! 0 = 0x2F)
     \<or> (kind = of_ascii ''ANMF'' \<and> sz \<ge> 24
        \<and> (let frame_kind = byte_slice payload 16 4; frame_size = from_little (byte_slice payload 20 4)
           in (frame_kind = of_ascii ''VP8 '' \<or> frame_kind = of_ascii ''VP8L'')
              \<and> 24 + frame_size + frame_size mod 2 \<le> sz))"

function webp_scan :: "bytes \<Rightarrow> nat \<Rightarrow> bool \<Rightarrow> bool" where
  "webp_scan data offset saw_image_chunk =
     (if \<not> offset + 8 \<le> length data then saw_image_chunk \<and> offset = length data
      else
        let kind = byte_slice data offset 4;
            sz = from_little (byte_slice data (offset + 4) 4);
            end = offset + 8 + sz + sz mod 2
        in if end > length data then False
           else webp_scan data end
                  (saw_image_chunk \<or> frame_chunk kind sz (byte_slice data (offset + 8) sz)))"
  by pat_completeness auto
termination
  by (relation "measure (\<lambda>(data, offset, _). length data - offset)") auto

declare webp_scan.simps [simp del]

definition valid_webp :: "bytes \<Rightarrow> bool" where
  "valid_webp data \<longleftrightarrow> length data \<ge> 20 \<and> take 4 data = of_ascii ''RIFF'' \<and> byte_slice data 8 4 = of_ascii ''WEBP''
     \<and> from_little (byte_slice data 4 4) = length data - 8 \<and> webp_scan data 12 False"

section \<open>Names and limits\<close>

text \<open>A text outside ASCII is written as its UTF-8 bytes.\<close>

definition utf8 :: "nat list \<Rightarrow> string" where
  "utf8 ns = map char_of ns"

definition MAX_UPLOAD_BYTES :: nat where
  "MAX_UPLOAD_BYTES = 20 * 1024 * 1024"

definition MAX_REQUEST_IMAGE_BYTES :: nat where
  "MAX_REQUEST_IMAGE_BYTES = 50 * 1024 * 1024"

definition MAX_REQUEST_IMAGES :: nat where
  "MAX_REQUEST_IMAGES = 10"

definition validation_error :: "string \<Rightarrow> error" where
  "validation_error msg = raised (Base ValidationError) msg"

definition bitmap_mime :: "bytes \<Rightarrow> error + string" where
  "bitmap_mime data =
     (if valid_png data then Inr ''image/png''
      else if valid_jpeg data then Inr ''image/jpeg''
      else if valid_webp data then Inr ''image/webp''
      else Inl (validation_error (utf8 [228, 187, 133, 230, 148, 175, 230, 140, 129, 230, 156, 137, 230, 149,
        136, 231, 154, 132] @ '' PNG'' @ utf8 [227, 128, 129] @ ''JPEG '' @ utf8 [230, 136, 150] @ '' WebP ''
        @ utf8 [229, 155, 190, 231, 137, 135])))"

text \<open>The characters of a UTF-8 string, each with its continuation bytes.\<close>

definition continuation :: "char \<Rightarrow> bool" where
  "continuation c \<longleftrightarrow> (let n = of_char c :: nat in 128 \<le> n \<and> n < 192)"

function utf8_chars :: "string \<Rightarrow> string list" where
  "utf8_chars [] = []"
| "utf8_chars (c # cs) = (c # takeWhile continuation cs) # utf8_chars (dropWhile continuation cs)"
  by pat_completeness auto
termination
  by (relation "measure length") (auto simp: less_Suc_eq_le length_dropWhile_le)

definition control_char :: "string \<Rightarrow> bool" where
  "control_char c \<longleftrightarrow>
     (case map of_char c :: nat list of
        [n] \<Rightarrow> n < 32 \<or> n = 127
      | [m, n] \<Rightarrow> m = 194 \<and> 128 \<le> n \<and> n < 160
      | _ \<Rightarrow> False)"

definition path_separator :: "char \<Rightarrow> bool" where
  "path_separator c \<longleftrightarrow> c = CHR ''/'' \<or> c = char_of (92 :: nat)"

text \<open>What follows the last \<open>/\<close>, after every backslash became one.\<close>

definition last_component :: "string \<Rightarrow> string" where
  "last_component s = rev (takeWhile (\<lambda>c. \<not> path_separator c) (rev s))"

definition strip_dots :: "string \<Rightarrow> string" where
  "strip_dots s = rev (dropWhile (\<lambda>c. c = CHR ''.'') (rev (dropWhile (\<lambda>c. c = CHR ''.'') s)))"

definition clean_image_filename :: "(string \<Rightarrow> string) \<Rightarrow> string \<Rightarrow> error + string" where
  "clean_image_filename strip filename =
     (let name = concat (filter (\<lambda>c. \<not> control_char c) (utf8_chars (last_component filename)));
          name = concat (take 200 (utf8_chars (strip_dots (strip name))))
      in if name = [] then Inl (validation_error (utf8 [229, 155, 190, 231, 137, 135, 230, 150, 135, 228, 187,
            182, 229, 144, 141, 230, 151, 160, 230, 149, 136]))
         else Inr name)"

section \<open>The stores of file artifacts\<close>

datatype preview_kind = Preview_IMAGE | Preview_HTML | Preview_NONE

record file_info =
  fi_artifact_id :: string
  fi_name :: string
  fi_title :: "string option"
  fi_mime_type :: string
  fi_size_bytes :: nat
  fi_preview_kind :: preview_kind
  fi_created_at :: int

record file_artifact = file_info +
  fa_owner_id :: "string option"

definition artifact_info :: "file_artifact \<Rightarrow> file_info" where
  "artifact_info a = file_info.truncate a"

definition MAX_FILE_ARTIFACT_BYTES :: nat where
  "MAX_FILE_ARTIFACT_BYTES = 20 * 1024 * 1024"

definition validate_file_content :: "file_artifact \<Rightarrow> bytes \<Rightarrow> error + unit" where
  "validate_file_content a data =
     (if length data \<noteq> fi_size_bytes a \<or> length data > MAX_FILE_ARTIFACT_BYTES
      then Inl (validation_error (utf8 [229, 177, 149, 231, 164, 186, 230, 150, 135, 228, 187, 182, 229, 164,
             167, 229, 176, 143, 230, 151, 160, 230, 149, 136, 239, 188, 140, 230, 156, 128, 229, 164, 154, 230,
             148, 175, 230, 140, 129] @ '' 20 MiB''))
      else Inr ())"

definition file_exists_error :: error where
  "file_exists_error = raised (Base ConflictError) (utf8 [229, 177, 149, 231, 164, 186, 230, 150, 135, 228, 187,
     182, 229, 183, 178, 229, 173, 152, 229, 156, 168])"

definition file_missing_error :: error where
  "file_missing_error = raised (Base NotFoundError) (utf8 [229, 177, 149, 231, 164, 186, 230, 150, 135, 228, 187,
     182, 228, 184, 141, 229, 173, 152, 229, 156, 168])"

type_synonym file_store = "(string, file_artifact \<times> bytes) dict"

definition file_save :: "file_artifact \<Rightarrow> bytes \<Rightarrow> (error, file_store, unit) act" where
  "file_save a data d =
     (case validate_file_content a data of
        Inl e \<Rightarrow> (Inl e, d)
      | Inr _ \<Rightarrow>
          if dict_has d (fi_artifact_id a) then (Inl file_exists_error, d)
          else (Inr (), dict_set (fi_artifact_id a) (a, data) d))"

definition file_entry :: "string \<Rightarrow> principal_scope option \<Rightarrow> file_store \<Rightarrow> error + file_artifact \<times> bytes" where
  "file_entry artifact_id scope d =
     (case dict_get d artifact_id of
        None \<Rightarrow> Inl file_missing_error
      | Some result \<Rightarrow>
          if scope \<noteq> None \<and> \<not> permits (the scope) (fa_owner_id (fst result)) then Inl file_missing_error
          else Inr result)"

definition file_get :: "string \<Rightarrow> principal_scope option \<Rightarrow> file_store \<Rightarrow> error + file_artifact" where
  "file_get artifact_id scope d = bind_e (file_entry artifact_id scope d) (\<lambda>r. Inr (fst r))"

definition file_read :: "string \<Rightarrow> principal_scope option \<Rightarrow> file_store \<Rightarrow> error + bytes" where
  "file_read artifact_id scope d = bind_e (file_entry artifact_id scope d) (\<lambda>r. Inr (snd r))"

text \<open>The table \<open>file_artifacts\<close>: the owner is a column of its own and also part of the payload.\<close>

text \<open>
  The payload column holds the JSON of the artifact.  Here it holds the artifact: \<open>model_dump_json\<close> and
  \<open>model_validate_json\<close> are taken as inverse to each other on artifacts, as Pydantic documents them for these types.
\<close>

record file_row =
  fw_artifact_id :: string
  fw_owner_id :: "string option"
  fw_payload :: file_artifact
  fw_content :: bytes

definition sql_file_save :: "file_artifact \<Rightarrow> bytes \<Rightarrow> (error, file_row list, unit) act" where
  "sql_file_save a data rows =
     (case validate_file_content a data of
        Inl e \<Rightarrow> (Inl e, rows)
      | Inr _ \<Rightarrow>
          if fi_artifact_id a \<in> fw_artifact_id ` set rows then (Inl file_exists_error, rows)
          else (Inr (), rows @ [\<lparr>fw_artifact_id = fi_artifact_id a, fw_owner_id = fa_owner_id a,
                  fw_payload = a, fw_content = data\<rparr>]))"

definition sql_file_entry :: "string \<Rightarrow> principal_scope option \<Rightarrow> file_row list \<Rightarrow> error + file_row" where
  "sql_file_entry artifact_id scope rows =
     (case filter (\<lambda>r. fw_artifact_id r = artifact_id
             \<and> (case scope of
                  Some s \<Rightarrow> scope_owner_id s = None \<or> fw_owner_id r = scope_owner_id s
                | None \<Rightarrow> True)) rows of
        [] \<Rightarrow> Inl file_missing_error
      | r # _ \<Rightarrow> Inr r)"

definition sql_file_get :: "string \<Rightarrow> principal_scope option \<Rightarrow> file_row list \<Rightarrow> error + file_artifact" where
  "sql_file_get artifact_id scope rows = bind_e (sql_file_entry artifact_id scope rows) (\<lambda>r. Inr (fw_payload r))"

definition sql_file_read :: "string \<Rightarrow> principal_scope option \<Rightarrow> file_row list \<Rightarrow> error + bytes" where
  "sql_file_read artifact_id scope rows = bind_e (sql_file_entry artifact_id scope rows) (\<lambda>r. Inr (fw_content r))"

section \<open>Use cases\<close>

definition create_image_artifact ::
  "(string \<Rightarrow> string) \<Rightarrow> string \<Rightarrow> int \<Rightarrow> string \<Rightarrow> bytes \<Rightarrow> principal_scope option
     \<Rightarrow> (error, file_store, file_info) act" where
  "create_image_artifact strip fresh_id now filename data scope d =
     (if data = [] \<or> length data > MAX_UPLOAD_BYTES
      then (Inl (validation_error (utf8 [229, 155, 190, 231, 137, 135, 229, 164, 167, 229, 176, 143, 229, 191,
              133, 233, 161, 187, 229, 164, 167, 228, 186, 142, 32, 48, 32, 228, 184, 148, 228, 184, 141, 232, 182,
              133, 232, 191, 135] @ '' 20 MiB'')), d)
      else case bind_e (bitmap_mime data) (\<lambda>mime_type. bind_e (clean_image_filename strip filename)
               (\<lambda>name. Inr (mime_type, name))) of
          Inl e \<Rightarrow> (Inl e, d)
        | Inr (mime_type, name) \<Rightarrow>
            let a = \<lparr>fi_artifact_id = fresh_id, fi_name = name, fi_title = None, fi_mime_type = mime_type,
                     fi_size_bytes = length data, fi_preview_kind = Preview_IMAGE, fi_created_at = now,
                     fa_owner_id = (case scope of None \<Rightarrow> None | Some s \<Rightarrow> scope_owner_id s)\<rparr>
            in bind_a (file_save a data) (\<lambda>_. return_a (artifact_info a)) d)"

definition upload_file ::
  "(string \<Rightarrow> string) \<Rightarrow> string \<Rightarrow> int \<Rightarrow> string \<Rightarrow> bytes \<Rightarrow> principal_scope option
     \<Rightarrow> (error, file_store, file_info) act" where
  "upload_file strip fresh_id now name data scope = create_image_artifact strip fresh_id now name data scope"

definition get_file :: "string \<Rightarrow> principal_scope option \<Rightarrow> file_store \<Rightarrow> error + file_info" where
  "get_file artifact_id scope d = bind_e (file_get artifact_id scope d) (\<lambda>a. Inr (artifact_info a))"

definition read_file :: "string \<Rightarrow> principal_scope option \<Rightarrow> file_store \<Rightarrow> error + file_info \<times> bytes" where
  "read_file artifact_id scope d =
     bind_e (get_file artifact_id scope d) (\<lambda>info.
     bind_e (file_read artifact_id scope d) (\<lambda>data. Inr (info, data)))"

end
