(* ===== verification/FileFacts.thy ===== *)
theory FileFacts
  imports Files
begin

text \<open>
  What the validation of images accepts: a PNG file is exactly a signature followed by well-formed chunks,
  from one header to one end mark, with nothing behind it.  The two stores of file artifacts
  behave alike, and an owner sees only files of its own.
\<close>

section \<open>Numbers in bytes\<close>

definition to_big4 :: "nat \<Rightarrow> bytes" where
  "to_big4 n = [of_nat (n div 16777216), of_nat (n div 65536), of_nat (n div 256), of_nat n]"

lemma length_to_big4 [simp]: "length (to_big4 n) = 4"
  by (simp add: to_big4_def)

lemma unat_of_nat8: "unat (of_nat n :: 8 word) = n mod 256"
  by (simp add: unat_of_nat)

lemma base256: "(n div 256 :: nat) * 256 + n mod 256 = n" "n div 65536 = n div 256 div 256"
  "n div 16777216 = n div 256 div 256 div 256"
  by (simp_all add: div_mult2_eq [symmetric])

lemma digit256: "y < 256 \<Longrightarrow> (256 * x + y) mod 256 = y" "y < 256 \<Longrightarrow> (256 * x + y) div 256 = x" for x y :: nat
  by simp_all

lemma from_to_big4:
  assumes "n < 4294967296"
  shows "from_big (to_big4 n) = n"
proof -
  have "n div 256 div 256 div 256 < 256" using assms by (simp add: div_mult2_eq [symmetric])
  then have "from_big (to_big4 n) = 256 * (256 * (256 * (n div 256 div 256 div 256) + n div 256 div 256 mod 256)
      + n div 256 mod 256) + n mod 256"
    by (simp add: from_big_def to_big4_def unat_of_nat8 base256(2,3))
  also have "\<dots> = n" by (simp add: mult.commute base256(1))
  finally show ?thesis .
qed

lemma unat_byte: "unat (b :: 8 word) < 256"
  using unsigned_less [of b] by simp

lemma to_from_big4:
  assumes "length bs = 4"
  shows "to_big4 (from_big bs) = bs" "from_big bs < 4294967296"
proof -
  from assms obtain a b c d where bs: "bs = [a, b, c, d]"
    by (auto simp: length_Suc_conv numeral_eq_Suc)
  note lt = unat_byte [of a] unat_byte [of b] unat_byte [of c] unat_byte [of d]
  define n where "n = from_big bs"
  define n3 where "n3 = 256 * unat a + unat b"
  define n2 where "n2 = 256 * n3 + unat c"
  have n: "n = 256 * n2 + unat d"
    by (simp add: n_def n2_def n3_def from_big_def bs)
  show "from_big bs < 4294967296" using lt n by (simp add: n_def n2_def n3_def)
  have div: "n div 256 = n2" "n2 div 256 = n3" "n3 div 256 = unat a"
    unfolding n n2_def n3_def by (rule digit256 lt)+
  have mod: "n mod 256 = unat d" "n2 mod 256 = unat c" "n3 mod 256 = unat b"
    unfolding n n2_def n3_def by (rule digit256 lt)+
  have "of_nat (unat a) = a" "of_nat n3 = b" "of_nat n2 = c" "of_nat n = d"
    using mod by (simp_all add: word_unat_eq_iff unat_of_nat8)
  then show "to_big4 (from_big bs) = bs"
    by (simp add: to_big4_def n_def [symmetric] base256(2,3) div) (simp add: bs)
qed

section \<open>The chunks of a PNG file\<close>

definition png_chunk :: "bytes \<Rightarrow> bytes \<Rightarrow> bytes" where
  "png_chunk kind payload =
     to_big4 (length payload) @ kind @ payload @ to_big4 (unat (crc32 (kind @ payload)))"

text \<open>What one round of the loop reads.\<close>

definition chunk_at :: "bytes \<Rightarrow> nat \<Rightarrow> bytes \<Rightarrow> bytes \<Rightarrow> bool" where
  "chunk_at data offset kind payload \<longleftrightarrow>
     (let len = from_big (byte_slice data offset 4)
      in offset + 12 + len \<le> length data \<and> kind = byte_slice data (offset + 4) 4
         \<and> payload = byte_slice data (offset + 8) len
         \<and> unat (crc32 (kind @ payload)) = from_big (byte_slice data (offset + 8 + len) 4))"

lemma length_slice: "a + n \<le> length data \<Longrightarrow> length (byte_slice data a n) = n"
  by (simp add: byte_slice_def)

lemma crc_bound: "unat (crc32 bs) < 4294967296"
  using unsigned_less [of "crc32 bs"] by simp

lemma drop_slice: "drop a data = byte_slice data a n @ drop (a + n) data"
  using append_take_drop_id [of n "drop a data"] by (simp add: byte_slice_def add.commute)

lemma chunk_at_iff:
  "chunk_at data offset kind payload \<longleftrightarrow>
     length kind = 4 \<and> length payload < 4294967296
     \<and> drop offset data = png_chunk kind payload @ drop (offset + 12 + length payload) data
     \<and> offset + 12 + length payload \<le> length data"
proof
  assume c: "chunk_at data offset kind payload"
  define len where "len = from_big (byte_slice data offset 4)"
  from c have fits: "offset + 12 + len \<le> length data" and k: "kind = byte_slice data (offset + 4) 4"
    and p: "payload = byte_slice data (offset + 8) len"
    and crc: "unat (crc32 (kind @ payload)) = from_big (byte_slice data (offset + 8 + len) 4)"
    unfolding chunk_at_def Let_def len_def by blast+
  have l4: "length (byte_slice data offset 4) = 4" "length (byte_slice data (offset + 8 + len) 4) = 4"
    using fits by (simp_all add: length_slice)
  have lp: "length payload = len" and lk: "length kind = 4" using fits by (simp_all add: p k length_slice)
  have "drop offset data = byte_slice data offset 4 @ byte_slice data (offset + 4) 4 @ byte_slice data (offset + 8) len
      @ byte_slice data (offset + 8 + len) 4 @ drop (offset + 12 + len) data"
    using drop_slice [of offset data 4] drop_slice [of "offset + 4" data 4] drop_slice [of "offset + 8" data len]
      drop_slice [of "offset + 8 + len" data 4]
    by (simp add: ac_simps)
  moreover have "byte_slice data offset 4 = to_big4 (length payload)"
    using to_from_big4(1) [OF l4(1)] lp by (simp add: len_def)
  moreover have "byte_slice data (offset + 8 + len) 4 = to_big4 (unat (crc32 (kind @ payload)))"
    using to_from_big4(1) [OF l4(2)] crc by simp
  ultimately have "drop offset data = png_chunk kind payload @ drop (offset + 12 + length payload) data"
    by (simp add: png_chunk_def k [symmetric] p [symmetric] lp)
  then show "length kind = 4 \<and> length payload < 4294967296
     \<and> drop offset data = png_chunk kind payload @ drop (offset + 12 + length payload) data
     \<and> offset + 12 + length payload \<le> length data"
    using lk lp fits to_from_big4(2) [OF l4(1)] by (simp add: len_def)
next
  assume a: "length kind = 4 \<and> length payload < 4294967296
     \<and> drop offset data = png_chunk kind payload @ drop (offset + 12 + length payload) data
     \<and> offset + 12 + length payload \<le> length data"
  have at: "byte_slice data (offset + i) n = take n (drop i (drop offset data))" for i n
    by (simp add: byte_slice_def add.commute)
  from a have "drop offset data = to_big4 (length payload) @ kind @ payload
      @ to_big4 (unat (crc32 (kind @ payload))) @ drop (offset + 12 + length payload) data"
    by (simp add: png_chunk_def)
  then have "byte_slice data offset 4 = to_big4 (length payload)" "byte_slice data (offset + 4) 4 = kind"
    "byte_slice data (offset + 8) (length payload) = payload"
    "byte_slice data (offset + 8 + length payload) 4 = to_big4 (unat (crc32 (kind @ payload)))"
    using a at [of 0 4] at [of 4 4] at [of 8 "length payload"] at [of "8 + length payload" 4]
    by (simp_all add: add.assoc)
  with a show "chunk_at data offset kind payload"
    by (simp add: chunk_at_def from_to_big4 crc_bound)
qed

lemma png_scan_step:
  "png_scan data offset h d \<longleftrightarrow>
     (\<exists>kind payload. chunk_at data offset kind payload
        \<and> (let end = offset + 12 + length payload in
           if \<not> h then kind = of_ascii ''IHDR'' \<and> length payload = 13
             \<and> from_big (take 4 payload) \<noteq> 0 \<and> from_big (byte_slice payload 4 4) \<noteq> 0
             \<and> png_scan data end True d
           else if kind = of_ascii ''IDAT'' then png_scan data end h True
           else if kind = of_ascii ''IEND'' then payload = [] \<and> d \<and> end = length data
           else png_scan data end h d))"
proof -
  let ?len = "from_big (byte_slice data offset 4)"
  have "length (byte_slice data (offset + 8) ?len) = ?len" if "offset + 12 + ?len \<le> length data"
    using that by (simp add: length_slice)
  then show ?thesis
    by (subst png_scan.simps) (auto simp: chunk_at_def Let_def)
qed

text \<open>The chunks behind the header: anything but an end mark, with image data before the end.\<close>

definition plain_chunks :: "(bytes \<times> bytes) list \<Rightarrow> bool" where
  "plain_chunks cs \<longleftrightarrow> list_all (\<lambda>(kind, payload). length kind = 4 \<and> kind \<noteq> of_ascii ''IEND''
     \<and> length payload < 4294967296) cs"

definition png_chunks :: "(bytes \<times> bytes) list \<Rightarrow> bytes" where
  "png_chunks cs = concat (map (\<lambda>(kind, payload). png_chunk kind payload) cs)"

lemma length_png_chunk: "length kind = 4 \<Longrightarrow> length (png_chunk kind payload) = 12 + length payload"
  by (simp add: png_chunk_def)

lemma iend_not_idat: "of_ascii ''IEND'' \<noteq> of_ascii ''IDAT''" "length (of_ascii ''IEND'') = 4"
  "length (of_ascii ''IDAT'') = 4" "length (of_ascii ''IHDR'') = 4"
  by (simp_all add: of_ascii_def of_char_def)

lemma chunk_atI:
  assumes "drop offset data = png_chunk kind payload @ tail" "length kind = 4" "length payload < 4294967296"
    and "offset \<le> length data"
  shows "chunk_at data offset kind payload" "drop (offset + 12 + length payload) data = tail"
    "offset + 12 + length payload \<le> length data"
proof -
  have "drop (offset + 12 + length payload) data = drop (12 + length payload) (drop offset data)"
    by (simp add: ac_simps)
  then show tail: "drop (offset + 12 + length payload) data = tail"
    using assms(1,2) by (simp add: length_png_chunk)
  have "length data - offset = 12 + length payload + length tail"
    using arg_cong [OF assms(1), of length] assms(2) by (simp add: length_png_chunk)
  with assms(4) show le: "offset + 12 + length payload \<le> length data" by simp
  show "chunk_at data offset kind payload"
    using assms tail le by (simp add: chunk_at_iff)
qed

lemma png_scan_accepts:
  assumes "drop offset data = png_chunks cs @ png_chunk (of_ascii ''IEND'') []" "plain_chunks cs"
    and "d \<or> (\<exists>payload. (of_ascii ''IDAT'', payload) \<in> set cs)" "offset \<le> length data"
  shows "png_scan data offset True d"
  using assms
proof (induction cs arbitrary: offset d)
  case Nil
  then have at: "drop offset data = png_chunk (of_ascii ''IEND'') [] @ []" by (simp add: png_chunks_def)
  note c = chunk_atI [OF at _ _ Nil.prems(4), simplified iend_not_idat list.size, simplified]
  from c(2,3) have "offset + 12 = length data" by simp
  with c(1) Nil.prems(3) show ?case
    by (subst png_scan_step) (intro exI [of _ "of_ascii ''IEND''"] exI [of _ "[]"], simp add: iend_not_idat Let_def)
next
  case (Cons c cs)
  obtain kind payload where kp: "c = (kind, payload)" by (cases c)
  from Cons.prems have at: "drop offset data = png_chunk kind payload @ (png_chunks cs @ png_chunk (of_ascii ''IEND'') [])"
    and k: "length kind = 4" "kind \<noteq> of_ascii ''IEND''" "length payload < 4294967296" and cs: "plain_chunks cs"
    by (simp_all add: png_chunks_def plain_chunks_def kp)
  note c = chunk_atI [OF at k(1,3) Cons.prems(4)]
  have "png_scan data (offset + 12 + length payload) True (d \<or> kind = of_ascii ''IDAT'')"
    using Cons.prems(3) by (intro Cons.IH c(2,3) cs) (auto simp: kp)
  with c(1) k show ?case
    by (subst png_scan_step) (intro exI [of _ kind] exI [of _ payload], auto simp: Let_def split: if_splits)
qed

lemma png_scan_only:
  assumes "png_scan data offset True d"
  shows "\<exists>cs. drop offset data = png_chunks cs @ png_chunk (of_ascii ''IEND'') [] \<and> plain_chunks cs
    \<and> (d \<or> (\<exists>payload. (of_ascii ''IDAT'', payload) \<in> set cs))"
  using assms
proof (induction "length data - offset" arbitrary: offset d rule: less_induct)
  case less
  from less.prems obtain kind payload where c: "chunk_at data offset kind payload"
    and go: "if kind = of_ascii ''IDAT'' then png_scan data (offset + 12 + length payload) True True
      else if kind = of_ascii ''IEND'' then payload = [] \<and> d \<and> offset + 12 + length payload = length data
      else png_scan data (offset + 12 + length payload) True d"
    by (subst (asm) png_scan_step) (auto simp: Let_def)
  from c have k: "length kind = 4" "length payload < 4294967296"
    and data: "drop offset data = png_chunk kind payload @ drop (offset + 12 + length payload) data"
    and fits: "offset + 12 + length payload \<le> length data"
    by (simp_all add: chunk_at_iff)
  show ?case
  proof (cases "kind = of_ascii ''IEND''")
    case True
    with go have "payload = []" "d" "length data \<le> offset + 12" by (auto simp: iend_not_idat)
    with True data show ?thesis
      by (intro exI [of _ "[]"]) (simp add: png_chunks_def plain_chunks_def iend_not_idat)
  next
    case False
    with go have "png_scan data (offset + 12 + length payload) True (d \<or> kind = of_ascii ''IDAT'')"
      by (auto split: if_splits)
    moreover from fits have "length data - (offset + 12 + length payload) < length data - offset" by simp
    ultimately obtain cs where cs: "drop (offset + 12 + length payload) data = png_chunks cs @ png_chunk (of_ascii ''IEND'') []"
      "plain_chunks cs" "d \<or> kind = of_ascii ''IDAT'' \<or> (\<exists>payload. (of_ascii ''IDAT'', payload) \<in> set cs)"
      using less.hyps by blast
    with data False k show ?thesis
      by (intro exI [of _ "(kind, payload) # cs"]) (auto simp: png_chunks_def plain_chunks_def)
  qed
qed

section \<open>The properties of images\<close>

text \<open>C39: The validation accepts exactly the well-formed PNG files: the signature, a header chunk with a width
  and a height that are not zero, other chunks with correct lengths and checksums among which there is image
  data, and the end mark as the last bytes of the file.\<close>

theorem png_accepted_exactly:
  "valid_png data \<longleftrightarrow>
     (\<exists>header cs. data = png_signature @ png_chunk (of_ascii ''IHDR'') header @ png_chunks cs
          @ png_chunk (of_ascii ''IEND'') []
        \<and> length header = 13 \<and> from_big (take 4 header) \<noteq> 0 \<and> from_big (byte_slice header 4 4) \<noteq> 0
        \<and> plain_chunks cs \<and> (\<exists>payload. (of_ascii ''IDAT'', payload) \<in> set cs))"
proof
  assume v: "valid_png data"
  then have sig: "take 8 data = png_signature" and scan: "png_scan data 8 False False"
    by (simp_all add: valid_png_def)
  from scan obtain header where c: "chunk_at data 8 (of_ascii ''IHDR'') header"
    and h: "length header = 13" "from_big (take 4 header) \<noteq> 0" "from_big (byte_slice header 4 4) \<noteq> 0"
    and rest: "png_scan data (8 + 12 + length header) True False"
    by (subst (asm) png_scan_step) (auto simp: Let_def)
  from c have d8: "drop 8 data = png_chunk (of_ascii ''IHDR'') header @ drop (8 + 12 + length header) data"
    unfolding chunk_at_iff by blast
  from png_scan_only [OF rest] obtain cs where
    cs: "drop (8 + 12 + length header) data = png_chunks cs @ png_chunk (of_ascii ''IEND'') []"
      "plain_chunks cs" "\<exists>payload. (of_ascii ''IDAT'', payload) \<in> set cs" by auto
  have "data = take 8 data @ drop 8 data" by simp
  then have "data = png_signature @ png_chunk (of_ascii ''IHDR'') header @ png_chunks cs
      @ png_chunk (of_ascii ''IEND'') []"
    by (simp only: sig d8 cs(1))
  with h cs(2,3) show "\<exists>header cs. data = png_signature @ png_chunk (of_ascii ''IHDR'') header @ png_chunks cs
          @ png_chunk (of_ascii ''IEND'') []
        \<and> length header = 13 \<and> from_big (take 4 header) \<noteq> 0 \<and> from_big (byte_slice header 4 4) \<noteq> 0
        \<and> plain_chunks cs \<and> (\<exists>payload. (of_ascii ''IDAT'', payload) \<in> set cs)"
    by blast
next
  assume "\<exists>header cs. data = png_signature @ png_chunk (of_ascii ''IHDR'') header @ png_chunks cs
          @ png_chunk (of_ascii ''IEND'') []
        \<and> length header = 13 \<and> from_big (take 4 header) \<noteq> 0 \<and> from_big (byte_slice header 4 4) \<noteq> 0
        \<and> plain_chunks cs \<and> (\<exists>payload. (of_ascii ''IDAT'', payload) \<in> set cs)"
  then obtain header cs where data: "data = png_signature @ png_chunk (of_ascii ''IHDR'') header @ png_chunks cs
          @ png_chunk (of_ascii ''IEND'') []"
    and h: "length header = 13" "from_big (take 4 header) \<noteq> 0" "from_big (byte_slice header 4 4) \<noteq> 0"
    and cs: "plain_chunks cs" "\<exists>payload. (of_ascii ''IDAT'', payload) \<in> set cs" by blast
  have l8: "length png_signature = 8" by (simp add: png_signature_def)
  have d8: "drop 8 data = png_chunk (of_ascii ''IHDR'') header @ png_chunks cs @ png_chunk (of_ascii ''IEND'') []"
    and "8 \<le> length data"
    using l8 by (simp_all add: data)
  note c = chunk_atI [OF d8 iend_not_idat(4) _ this(2)]
  from h(1) have "length header < 4294967296" by simp
  note c = c [OF this]
  have "png_scan data (8 + 12 + length header) True False"
    using png_scan_accepts [OF c(2) cs(1) _ c(3)] cs(2) by blast
  with c(1) h have "png_scan data 8 False False"
    by (subst png_scan_step) (intro exI [of _ "of_ascii ''IHDR''"] exI [of _ header], simp add: Let_def)
  then show "valid_png data" using l8 by (simp add: valid_png_def data)
qed

section \<open>The properties of the stores\<close>

text \<open>The rows of the table and the dictionary hold the same files.\<close>

definition same_files :: "file_row list \<Rightarrow> file_store \<Rightarrow> bool" where
  "same_files rows d \<longleftrightarrow> d = map (\<lambda>r. (fw_artifact_id r, (fw_payload r, fw_content r))) rows
     \<and> list_all (\<lambda>r. fw_owner_id r = fa_owner_id (fw_payload r)) rows \<and> distinct (map fw_artifact_id rows)"

lemma same_files_has: "same_files rows d \<Longrightarrow> dict_has d k \<longleftrightarrow> k \<in> fw_artifact_id ` set rows"
  by (auto simp: same_files_def dict_has_def dict_get_def map_of_eq_None_iff image_iff dest: map_of_SomeD)

lemma filter_distinct_key:
  "distinct (map key xs) \<Longrightarrow> filter (\<lambda>x. key x = k \<and> P x) xs
     = (case map_of (map (\<lambda>x. (key x, x)) xs) k of None \<Rightarrow> [] | Some x \<Rightarrow> if P x then [x] else [])"
proof (induction xs)
  case (Cons x xs)
  show ?case
  proof (cases "key x = k")
    case True
    with Cons.prems have "\<forall>y \<in> set xs. key y \<noteq> k" by (metis distinct.simps(2) list.simps(9) image_eqI set_map)
    then have "filter (\<lambda>x. key x = k \<and> P x) xs = []" by (auto simp: filter_empty_conv)
    with True show ?thesis by simp
  qed (use Cons in simp)
qed simp

lemma same_files_entry:
  assumes "same_files rows d"
  shows "file_entry k scope d = bind_e (sql_file_entry k scope rows) (\<lambda>r. Inr (fw_payload r, fw_content r))"
proof -
  from assms have d: "dict_get d k = map_option (\<lambda>r. (fw_payload r, fw_content r))
      (map_of (map (\<lambda>r. (fw_artifact_id r, r)) rows) k)"
    by (induction rows arbitrary: d) (auto simp: same_files_def dict_get_def)
  have owner: "map_of (map (\<lambda>r. (fw_artifact_id r, r)) rows) k = Some r \<Longrightarrow> fw_owner_id r = fa_owner_id (fw_payload r)" for r
    using assms by (drule_tac map_of_SomeD) (auto simp: same_files_def list_all_iff)
  from assms have "distinct (map fw_artifact_id rows)" by (simp add: same_files_def)
  note found = filter_distinct_key [OF this, of k] filter_distinct_key [OF this, of k "\<lambda>_. True", simplified]
  show ?thesis
  proof (cases "map_of (map (\<lambda>r. (fw_artifact_id r, r)) rows) k")
    case None
    then show ?thesis by (simp add: file_entry_def sql_file_entry_def d found)
  next
    case (Some r)
    with owner [OF this] show ?thesis
      by (cases scope) (simp_all add: file_entry_def sql_file_entry_def d found permits_def)
  qed
qed

text \<open>C40: The table of file artifacts refines the in-memory store: started with the same files, saving, reading
  and fetching a file answer the same on both and leave the same files, whatever the scope.\<close>

theorem file_table_refines_store:
  assumes "same_files rows d"
  shows "fst (sql_file_save a data rows) = fst (file_save a data d)
    \<and> same_files (snd (sql_file_save a data rows)) (snd (file_save a data d))
    \<and> sql_file_get k scope rows = file_get k scope d
    \<and> sql_file_read k scope rows = file_read k scope d"
proof (intro conjI)
  note has = same_files_has [OF assms, of "fi_artifact_id a"]
  show "fst (sql_file_save a data rows) = fst (file_save a data d)"
    using has by (simp add: sql_file_save_def file_save_def split: sum.split)
  show "same_files (snd (sql_file_save a data rows)) (snd (file_save a data d))"
    using assms has
    by (auto simp: sql_file_save_def file_save_def same_files_def dict_set_new split: sum.split)
  show "sql_file_get k scope rows = file_get k scope d"
    by (simp add: sql_file_get_def file_get_def same_files_entry [OF assms] bind_e_def split: sum.split)
  show "sql_file_read k scope rows = file_read k scope d"
    by (simp add: sql_file_read_def file_read_def same_files_entry [OF assms] bind_e_def split: sum.split)
qed

text \<open>An uploaded file is stored under the owner of the scope, with the type that its bytes show and within
  the limit, is read back unchanged by its owner, and by no principal of another owner.\<close>

theorem upload_roundtrip:
  assumes "upload_file strip fresh_id now name data scope d = (Inr info, d')"
  shows "read_file fresh_id scope d' = Inr (info, data) \<and> fi_artifact_id info = fresh_id
    \<and> bitmap_mime data = Inr (fi_mime_type info) \<and> fi_size_bytes info = length data
    \<and> data \<noteq> [] \<and> length data \<le> MAX_UPLOAD_BYTES
    \<and> (\<forall>other. scope_permits other (case scope of None \<Rightarrow> None | Some s \<Rightarrow> scope_owner_id s) = False
          \<longrightarrow> (\<exists>e. read_file fresh_id other d' = Inl e))"
proof -
  from assms obtain name' mime where
    mime: "bitmap_mime data = Inr mime" and size: "data \<noteq> []" "length data \<le> MAX_UPLOAD_BYTES"
    and info: "info = artifact_info \<lparr>fi_artifact_id = fresh_id, fi_name = name', fi_title = None,
        fi_mime_type = mime, fi_size_bytes = length data, fi_preview_kind = Preview_IMAGE, fi_created_at = now,
        fa_owner_id = (case scope of None \<Rightarrow> None | Some s \<Rightarrow> scope_owner_id s)\<rparr>"
    and d': "d' = dict_set fresh_id (\<lparr>fi_artifact_id = fresh_id, fi_name = name', fi_title = None,
        fi_mime_type = mime, fi_size_bytes = length data, fi_preview_kind = Preview_IMAGE, fi_created_at = now,
        fa_owner_id = (case scope of None \<Rightarrow> None | Some s \<Rightarrow> scope_owner_id s)\<rparr>, data) d"
    by (auto simp: upload_file_def create_image_artifact_def file_save_def bind_a_def bind_e_def Let_def
        split: if_splits sum.splits)
  have "read_file fresh_id scope d' = Inr (info, data)"
    by (auto simp: read_file_def get_file_def file_get_def file_read_def file_entry_def d' info permits_def
        split: option.splits)
  moreover have "\<exists>e. read_file fresh_id other d' = Inl e"
    if "scope_permits other (case scope of None \<Rightarrow> None | Some s \<Rightarrow> scope_owner_id s) = False" for other
    using that by (auto simp: read_file_def get_file_def file_get_def file_entry_def d' scope_permits_def
        split: option.splits)
  ultimately show ?thesis using mime size by (simp add: info artifact_info_def file_info.truncate_def)
qed

definition tiny_png :: bytes where
  "tiny_png = png_signature @ png_chunk (of_ascii ''IHDR'') [0, 0, 0, 1, 0, 0, 0, 1, 8, 0, 0, 0, 0]
     @ png_chunk (of_ascii ''IDAT'') [7] @ png_chunk (of_ascii ''IEND'') []"

lemma tiny_png_valid: "valid_png tiny_png"
  unfolding png_accepted_exactly
  by (intro exI [of _ "[0, 0, 0, 1, 0, 0, 0, 1, 8, 0, 0, 0, 0]"] exI [of _ "[(of_ascii ''IDAT'', [7])]"])
    (simp add: tiny_png_def png_chunks_def plain_chunks_def iend_not_idat iend_not_idat(1) [symmetric]
      from_big_def byte_slice_def)

theorem file_table_refines_store_witness:
  "sql_file_get ''f'' None [\<lparr>fw_artifact_id = ''f'', fw_owner_id = None,
      fw_payload = \<lparr>fi_artifact_id = ''f'', fi_name = ''n'', fi_title = None, fi_mime_type = ''image/png'',
        fi_size_bytes = 0, fi_preview_kind = Preview_IMAGE, fi_created_at = 0, fa_owner_id = None\<rparr>, fw_content = []\<rparr>]
    = Inr \<lparr>fi_artifact_id = ''f'', fi_name = ''n'', fi_title = None, fi_mime_type = ''image/png'',
        fi_size_bytes = 0, fi_preview_kind = Preview_IMAGE, fi_created_at = 0, fa_owner_id = None\<rparr>"
proof -
  let ?a = "\<lparr>fi_artifact_id = ''f'', fi_name = ''n'', fi_title = None, fi_mime_type = ''image/png'',
        fi_size_bytes = 0, fi_preview_kind = Preview_IMAGE, fi_created_at = 0, fa_owner_id = None\<rparr> :: file_artifact"
  let ?rows = "[\<lparr>fw_artifact_id = ''f'', fw_owner_id = None, fw_payload = ?a, fw_content = []\<rparr>]"
  have "same_files ?rows [(''f'', (?a, []))]" by (simp add: same_files_def)
  from file_table_refines_store [OF this, of ?a "[]" "''f''" None] show ?thesis
    by (simp add: file_get_def file_entry_def dict_get_Cons)
qed

theorem upload_roundtrip_witness:
  "\<exists>info d'. upload_file (\<lambda>s. s) ''f'' 0 ''a.png'' tiny_png (Some \<lparr>scope_owner_id = Some ''ann''\<rparr>) [] = (Inr info, d')
     \<and> read_file ''f'' (Some \<lparr>scope_owner_id = Some ''ann''\<rparr>) d' = Inr (info, tiny_png)"
proof -
  have "clean_image_filename (\<lambda>s. s) ''a.png'' = Inr ''a.png''" by code_simp
  moreover have "tiny_png \<noteq> []" "length tiny_png \<le> 20 * 1024 * 1024"
    by (simp_all add: tiny_png_def png_signature_def png_chunk_def of_ascii_def)
  ultimately obtain info d' where
    "upload_file (\<lambda>s. s) ''f'' 0 ''a.png'' tiny_png (Some \<lparr>scope_owner_id = Some ''ann''\<rparr>) [] = (Inr info, d')"
    using tiny_png_valid
    by (simp add: upload_file_def create_image_artifact_def bitmap_mime_def MAX_UPLOAD_BYTES_def file_save_def
        validate_file_content_def MAX_FILE_ARTIFACT_BYTES_def bind_a_def Let_def del: One_nat_def)
  with upload_roundtrip [OF this] show ?thesis by blast
qed

end
