(* ===== verification/ChatUseCases.thy ===== *)
theory ChatUseCases
  imports Skills Files Sessions AgentLoop
begin

text \<open>
  The use cases of conversations: the selection and the writing of memories (\<open>application/memory.py\<close>), the
  rendering of skills (\<open>application/skill_prompt.py\<close>), the resolution of image references
  (\<open>application/image_attachments.py\<close>), the composition of a request
  (\<open>application/chat_request.py\<close>), retries (\<open>application/retry.py\<close>), chats with and without a context
  (\<open>application/chat.py\<close>) and sessions (\<open>application/session.py\<close>).

  \<open>app_state\<close> holds the registers that the runtime shares.  A call of a provider is an operation on it:
  while it is awaited, other tasks may change every register.  The registers are called without an await
  that suspends, so the code between two provider calls is one step.
\<close>

section \<open>The runtime\<close>

record app_state =
  ap_contexts :: context_register
  ap_memories :: memory_register
  ap_sessions :: session_register
  ap_files :: file_store
  ap_skills :: skill_registry

record app_env =
  ae_unicode :: unicode
  ae_now :: int
  ae_schema :: json_schema
  ae_strategy :: compose
  ae_cache_mode :: prompt_cache_mode
  ae_cache_scope :: prompt_cache_scope
  ae_sha256 :: "string \<Rightarrow> string"
  ae_chat :: "string \<Rightarrow> chat_request \<Rightarrow> (error, app_state, chat_response) act"
  ae_chat_stream :: "string \<Rightarrow> chat_request \<Rightarrow> (error, app_state, chat_stream_event list \<times> error option) act"

definition with_contexts :: "(error, context_register, 'a) act \<Rightarrow> (error, app_state, 'a) act" where
  "with_contexts m s = (case m (ap_contexts s) of (x, d) \<Rightarrow> (x, s\<lparr>ap_contexts := d\<rparr>))"

definition with_memories :: "(error, memory_register, 'a) act \<Rightarrow> (error, app_state, 'a) act" where
  "with_memories m s = (case m (ap_memories s) of (x, d) \<Rightarrow> (x, s\<lparr>ap_memories := d\<rparr>))"

definition with_sessions :: "(error, session_register, 'a) act \<Rightarrow> (error, app_state, 'a) act" where
  "with_sessions m s = (case m (ap_sessions s) of (x, d) \<Rightarrow> (x, s\<lparr>ap_sessions := d\<rparr>))"

definition reading :: "(app_state \<Rightarrow> error + 'a) \<Rightarrow> (error, app_state, 'a) act" where
  "reading f s = (f s, s)"

section \<open>Memories of a request\<close>

definition compose_scoped_memory_query ::
  "string option \<Rightarrow> string option \<Rightarrow> string option \<Rightarrow> memory_query" where
  "compose_scoped_memory_query context_id session_id user_id =
     (let selector = (\<lambda>scope i. case i of
            Some t \<Rightarrow> if t = [] then [] else [\<lparr>ms_scope = scope, ms_scope_id = Some t\<rparr>]
          | None \<Rightarrow> [])
      in empty_query\<lparr>mq_scopes := selector MScope_CONTEXT context_id @ selector MScope_SESSION session_id
            @ selector MScope_USER user_id @ [\<lparr>ms_scope = MScope_GLOBAL, ms_scope_id = None\<rparr>],
          mq_deduplicate := True\<rparr>)"

definition metadata_text :: "metadata \<Rightarrow> string \<Rightarrow> string option" where
  "metadata_text m k = (case meta_get m k of PStr s \<Rightarrow> if s = [] then None else Some s | _ \<Rightarrow> None)"

definition scope_owner :: "principal_scope option \<Rightarrow> string option" where
  "scope_owner scope = (case scope of None \<Rightarrow> None | Some s \<Rightarrow> scope_owner_id s)"

definition select_memories_for_request ::
  "unicode \<Rightarrow> int \<Rightarrow> memory_query option \<Rightarrow> string option \<Rightarrow> metadata option \<Rightarrow> string option
     \<Rightarrow> principal_scope option \<Rightarrow> memory_register \<Rightarrow> memory_selection option" where
  "select_memories_for_request uc now explicit_query context_id meta owner_id scope d =
     (let query = (case explicit_query of
            Some q \<Rightarrow> q
          | None \<Rightarrow> compose_scoped_memory_query context_id
              (metadata_text (case meta of None \<Rightarrow> [] | Some m \<Rightarrow> m) ''session_id'')
              (case owner_id of Some t \<Rightarrow> if t = [] then scope_owner scope else Some t
               | None \<Rightarrow> scope_owner scope));
          selection = memory_select uc now (memory_list uc now None None None None scope d) (Some query)
      in if sel_memories selection = [] then None else Some selection)"

section \<open>Writing a memory\<close>

datatype memory_write_operation = Write_CREATE | Write_REPLACE | Write_MERGE

fun write_operation_value :: "memory_write_operation \<Rightarrow> string" where
  "write_operation_value Write_CREATE = ''create''"
| "write_operation_value Write_REPLACE = ''replace''"
| "write_operation_value Write_MERGE = ''merge''"

text \<open>Python's \<open>==\<close> on two metadata values: numbers and truth values are compared as numbers.\<close>

fun py_number :: "pyval \<Rightarrow> rat option" where
  "py_number (PBool b) = Some (if b then 1 else 0)"
| "py_number (PInt i) = Some (of_int i)"
| "py_number (PFloat r) = Some r"
| "py_number _ = None"

definition py_equal :: "pyval \<Rightarrow> pyval \<Rightarrow> bool" where
  "py_equal a b \<longleftrightarrow> (if py_number a \<noteq> None \<and> py_number b \<noteq> None then py_number a = py_number b else a = b)"

definition find_existing_memory ::
  "unicode \<Rightarrow> int \<Rightarrow> memory_item \<Rightarrow> principal_scope option \<Rightarrow> memory_register \<Rightarrow> memory_item option" where
  "find_existing_memory uc now candidate scope d =
     (case metadata_text (mem_metadata candidate) ''memory_key'' of
        None \<Rightarrow> None
      | Some key \<Rightarrow>
          let query = empty_query\<lparr>mq_scope := Some (mem_scope candidate), mq_scope_id := mem_scope_id candidate,
                mq_kinds := [mem_kind candidate], mq_include_disabled := True, mq_include_expired := True\<rparr>
          in case filter (\<lambda>m. mem_owner_id m = mem_owner_id candidate
                    \<and> meta_get (mem_metadata m) ''memory_key'' = PStr key)
                 (memory_list uc now None None None (Some query) scope d) of
               [] \<Rightarrow> None
             | m # _ \<Rightarrow> Some m)"

definition with_write_operation :: "memory_item \<Rightarrow> memory_write_operation \<Rightarrow> metadata" where
  "with_write_operation m operation =
     dict_set ''write_operation'' (PStr (write_operation_value operation)) (mem_metadata m)"

definition provenance_events :: "pyval \<Rightarrow> pyval list" where
  "provenance_events v =
     (case v of
        PDict d \<Rightarrow> (case meta_get d ''events'' of PList es \<Rightarrow> es | _ \<Rightarrow> [v])
      | _ \<Rightarrow> [])"

definition merge_provenance :: "pyval \<Rightarrow> pyval \<Rightarrow> pyval" where
  "merge_provenance existing candidate =
     PDict [(''events'', PList (provenance_events existing @ provenance_events candidate))]"

text \<open>\<open>_merged_tags\<close>: each tag once, in the order of its first occurrence.\<close>

fun merge_tags_from :: "string list \<Rightarrow> string list \<Rightarrow> string list" where
  "merge_tags_from seen [] = []"
| "merge_tags_from seen (t # ts) =
     (if t \<in> set seen then merge_tags_from seen ts else t # merge_tags_from (t # seen) ts)"

definition merged_tags :: "string list \<Rightarrow> string list \<Rightarrow> string list" where
  "merged_tags left right = merge_tags_from [] (left @ right)"

definition merge_memory :: "memory_item \<Rightarrow> memory_item \<Rightarrow> memory_write_operation \<Rightarrow> memory_item" where
  "merge_memory existing candidate operation =
     (let meta = dict_set ''previous_memory_id'' (PStr (mem_id existing)) (with_write_operation candidate operation);
          fingerprint = meta_get (mem_metadata existing) ''content_fingerprint'';
          meta = (case fingerprint of PStr _ \<Rightarrow> dict_set ''previous_content_fingerprint'' fingerprint meta | _ \<Rightarrow> meta);
          meta = dict_set ''provenance'' (merge_provenance (meta_get (mem_metadata existing) ''provenance'')
                   (meta_get (mem_metadata candidate) ''provenance'')) meta
      in if operation = Write_MERGE
         then existing\<lparr>mem_tags := merged_tags (mem_tags existing) (mem_tags candidate),
                mem_priority := max (mem_priority existing) (mem_priority candidate),
                mem_relevance := max (mem_relevance existing) (mem_relevance candidate),
                mem_confidence := max (mem_confidence existing) (mem_confidence candidate),
                mem_expires_at := (case mem_expires_at candidate of Some t \<Rightarrow> Some t | None \<Rightarrow> mem_expires_at existing),
                mem_metadata := dict_merge (mem_metadata existing) meta\<rparr>
         else candidate\<lparr>mem_id := mem_id existing, mem_metadata := dict_merge (mem_metadata existing) meta\<rparr>)"

definition write_memory_candidate ::
  "unicode \<Rightarrow> int \<Rightarrow> memory_item \<Rightarrow> principal_scope option
     \<Rightarrow> (error, memory_register, memory_item \<times> memory_write_operation) act" where
  "write_memory_candidate uc now m scope d =
     (case find_existing_memory uc now m scope d of
        None \<Rightarrow>
          bind_a (memory_create scope (m\<lparr>mem_metadata := with_write_operation m Write_CREATE\<rparr>))
            (\<lambda>created. return_a (created, Write_CREATE)) d
      | Some existing \<Rightarrow>
          let operation = (if py_equal (meta_get (mem_metadata existing) ''content_fingerprint'')
                                (meta_get (mem_metadata m) ''content_fingerprint'')
                           then Write_MERGE else Write_REPLACE)
          in bind_a (memory_replace now scope (merge_memory existing m operation))
               (\<lambda>written. return_a (written, operation)) d)"

section \<open>Skills of a request\<close>

definition skill_render_id :: "chat_skill \<Rightarrow> nat \<Rightarrow> string" where
  "skill_render_id s index =
     (case sk_render_id s of
        Some i \<Rightarrow> if i = [] then sk_skill_name s @ ''-'' @ nat_str index else i
      | None \<Rightarrow> sk_skill_name s @ ''-'' @ nat_str index)"

definition skill_request :: "chat_skill \<Rightarrow> nat \<Rightarrow> skill_render_request" where
  "skill_request s index =
     \<lparr>srr_render_id = skill_render_id s index, srr_skill_name = sk_skill_name s,
      srr_variables = sk_variables s, srr_metadata = sk_metadata s\<rparr>"

definition check_chat_skill ::
  "skill_registry \<Rightarrow> skill_capability \<Rightarrow> tool_definition list option \<Rightarrow> chat_skill \<Rightarrow> error + unit" where
  "check_chat_skill r capability tools s =
     bind_e (skill_get (sk_skill_name s) r) (\<lambda>skill.
       if \<not> skd_is_enabled skill
       then Inl (raised (Skill SkillDisabledError) (''The skill '' @ sk_skill_name s @ '' is disabled''))
       else let available = td_name ` set (case tools of None \<Rightarrow> [] | Some ts \<Rightarrow> ts);
                missing = filter (\<lambda>n. n \<notin> available) (skd_required_tools skill)
            in if missing \<noteq> []
               then Inl (raised (Skill SkillInputError)
                      (''The skill '' @ sk_skill_name s @ '' requires tools: '' @ join '', '' missing))
               else if \<not> (skd_is_enabled skill \<and> capability \<in> set (skd_capabilities skill))
               then Inl (raised (Skill SkillInputError)
                      (''The skill '' @ sk_skill_name s @ '' does not support '' @ skill_capability_value capability))
               else Inr ())"

fun render_chat_skills ::
  "app_env \<Rightarrow> skill_registry \<Rightarrow> skill_capability \<Rightarrow> tool_definition list option \<Rightarrow> nat \<Rightarrow> chat_skill list
     \<Rightarrow> error + rendered_skill list" where
  "render_chat_skills env r capability tools index [] = Inr []"
| "render_chat_skills env r capability tools index (s # ss) =
     bind_e (check_chat_skill r capability tools s) (\<lambda>_.
     bind_e (render_skill (ae_schema env) (uc_strip (ae_unicode env)) (skill_request s index) r) (\<lambda>x.
     bind_e (render_chat_skills env r capability tools (Suc index) ss) (\<lambda>xs. Inr (x # xs))))"

definition compose_skill_prompted_chat_request ::
  "app_env \<Rightarrow> skill_registry \<Rightarrow> chat_request \<Rightarrow> skill_capability \<Rightarrow> error + chat_request" where
  "compose_skill_prompted_chat_request env r request capability =
     (let skills = (case rq_skills request of None \<Rightarrow> [] | Some ss \<Rightarrow> ss)
      in bind_e (render_chat_skills env r capability (rq_tools request) 0 skills) (\<lambda>rendered.
           if rendered = [] then Inr request
           else Inr (request\<lparr>rq_messages := concat (map rsk_messages rendered) @ rq_messages request,
                  rq_skills := None,
                  rq_metadata := dict_set ''skill_render_ids'' (PList (map (PStr \<circ> rsk_render_id) rendered))
                    (dict_set ''skill_names'' (PList (map (PStr \<circ> sk_skill_name) skills)) (rq_metadata request))\<rparr>)))"

section \<open>Image references\<close>

definition base64_char :: "nat \<Rightarrow> char" where
  "base64_char n =
     (if n < 26 then char_of (65 + n) else if n < 52 then char_of (71 + n)
      else if n < 62 then char_of (n - 4) else if n = 62 then CHR ''+'' else CHR ''/'')"

fun base64_encode :: "bytes \<Rightarrow> string" where
  "base64_encode [] = []"
| "base64_encode [a] = (let n = unat a * 16 in [base64_char (n div 64), base64_char (n mod 64), CHR ''='', CHR ''=''])"
| "base64_encode [a, b] =
     (let n = (unat a * 256 + unat b) * 4
      in [base64_char (n div 4096), base64_char (n div 64 mod 64), base64_char (n mod 64), CHR ''=''])"
| "base64_encode (a # b # c # bs) =
     (let n = (unat a * 256 + unat b) * 256 + unat c
      in base64_char (n div 262144) # base64_char (n div 4096 mod 64) # base64_char (n div 64 mod 64)
         # base64_char (n mod 64) # base64_encode bs)"

definition chat_input_error :: "nat list \<Rightarrow> error" where
  "chat_input_error ns = raised (Chat ChatInputError) (utf8 ns)"

definition bad_size_error :: error where
  "bad_size_error = chat_input_error [229, 155, 190, 231, 137, 135, 233, 153, 132, 228, 187, 182, 229, 164, 167,
     229, 176, 143, 230, 151, 160, 230, 149, 136]"

definition no_access_message :: string where
  "no_access_message = utf8 [229, 155, 190, 231, 137, 135, 233, 153, 132, 228, 187, 182, 228, 184, 141, 229, 173,
     152, 229, 156, 168, 230, 136, 150, 230, 151, 160, 230, 157, 131, 232, 174, 191, 233, 151, 174]"

definition no_access :: "error + 'a \<Rightarrow> error + 'a" where
  "no_access r =
     (case r of
        Inr x \<Rightarrow> Inr x
      | Inl e \<Rightarrow> if isinstance (error_class e) (Base NotFoundError)
                  then Inl (Error (Chat ChatInputError) no_access_message None (Some e)) else Inl e)"

definition is_reference :: "content_part \<Rightarrow> bool" where
  "is_reference p \<longleftrightarrow> cp_type p = Part_IMAGE \<and> cp_artifact_id p \<noteq> None"

definition parts_of :: "content \<Rightarrow> content_part list" where
  "parts_of m = (case c_content m of None \<Rightarrow> [] | Some ps \<Rightarrow> ps)"

definition referenced_parts :: "chat_request \<Rightarrow> content_part list" where
  "referenced_parts request = filter is_reference (concat (map parts_of (rq_messages request)))"

text \<open>One round of the loop: the resolved part and the bytes so far.\<close>

definition resolve_part ::
  "file_store \<Rightarrow> principal_scope option \<Rightarrow> nat \<Rightarrow> content_part \<Rightarrow> error + content_part \<times> nat" where
  "resolve_part d scope total_bytes p =
     (let artifact_id = the (cp_artifact_id p)
      in bind_e (no_access (file_get artifact_id scope d)) (\<lambda>a.
           let total_bytes = total_bytes + fi_size_bytes a
           in if fi_preview_kind a \<noteq> Preview_IMAGE
                 \<or> fi_mime_type a \<notin> {''image/png'', ''image/jpeg'', ''image/webp''}
              then Inl (chat_input_error [229, 188, 149, 231, 148, 168, 231, 154, 132, 230, 150, 135, 228, 187, 182,
                228, 184, 141, 230, 152, 175, 229, 143, 151, 230, 148, 175, 230, 140, 129, 231, 154, 132, 229, 155,
                190, 231, 137, 135])
              else if fi_size_bytes a > MAX_UPLOAD_BYTES then Inl bad_size_error
              else if total_bytes > MAX_REQUEST_IMAGE_BYTES
              then Inl (chat_input_error [230, 175, 143, 228, 184, 170, 232, 175, 183, 230, 177, 130, 229, 188, 149,
                231, 148, 168, 229, 155, 190, 231, 137, 135, 230, 128, 187, 229, 164, 167, 229, 176, 143, 228, 184,
                141, 232, 131, 189, 232, 182, 133, 232, 191, 135, 32, 53, 48, 32, 77, 105, 66])
              else bind_e (no_access (file_read artifact_id scope d)) (\<lambda>data.
                if length data \<noteq> fi_size_bytes a then Inl bad_size_error
                else case bitmap_mime data of
                  Inl e \<Rightarrow> Inl (Error (Chat ChatInputError) (utf8 [229, 155, 190, 231, 137, 135, 233, 153, 132, 228,
                    187, 182, 230, 160, 188, 229, 188, 143, 230, 151, 160, 230, 149, 136]) None (Some e))
                | Inr detected \<Rightarrow>
                    if detected \<noteq> fi_mime_type a
                    then Inl (chat_input_error [229, 155, 190, 231, 137, 135, 233, 153, 132, 228, 187, 182, 230, 160,
                      188, 229, 188, 143, 228, 184, 142, 230, 150, 135, 228, 187, 182, 232, 174, 176, 229, 189, 149,
                      228, 184, 141, 229, 140, 185, 233, 133, 141])
                    else Inr (p\<lparr>cp_data := Some (''data:'' @ fi_mime_type a @ '';base64,'' @ base64_encode data),
                           cp_mime_type := Some (fi_mime_type a), cp_artifact_id := None\<rparr>, total_bytes))))"

fun resolve_parts ::
  "file_store \<Rightarrow> principal_scope option \<Rightarrow> nat \<Rightarrow> content_part list \<Rightarrow> error + content_part list \<times> nat" where
  "resolve_parts d scope total_bytes [] = Inr ([], total_bytes)"
| "resolve_parts d scope total_bytes (p # ps) =
     bind_e (if is_reference p then resolve_part d scope total_bytes p else Inr (p, total_bytes)) (\<lambda>(p', total_bytes).
     bind_e (resolve_parts d scope total_bytes ps) (\<lambda>(ps', total_bytes). Inr (p' # ps', total_bytes)))"

fun resolve_messages ::
  "file_store \<Rightarrow> principal_scope option \<Rightarrow> nat \<Rightarrow> content list \<Rightarrow> error + content list" where
  "resolve_messages d scope total_bytes [] = Inr []"
| "resolve_messages d scope total_bytes (m # ms) =
     bind_e (resolve_parts d scope total_bytes (parts_of m)) (\<lambda>(ps, total_bytes).
     bind_e (resolve_messages d scope total_bytes ms) (\<lambda>ms'.
       Inr (m\<lparr>c_content := map_option (\<lambda>_. ps) (c_content m)\<rparr> # ms')))"

definition resolve_image_references ::
  "file_store \<Rightarrow> principal_scope option \<Rightarrow> chat_request \<Rightarrow> error + chat_request" where
  "resolve_image_references d scope request =
     (if length (referenced_parts request) > MAX_REQUEST_IMAGES
      then Inl (chat_input_error [230, 175, 143, 228, 184, 170, 232, 175, 183, 230, 177, 130, 230, 156, 128, 229, 164,
        154, 229, 188, 149, 231, 148, 168, 32, 49, 48, 32, 229, 188, 160, 229, 155, 190, 231, 137, 135])
      else bind_e (resolve_messages d scope 0 (rq_messages request)) (\<lambda>ms. Inr (request\<lparr>rq_messages := ms\<rparr>)))"

section \<open>The composition of a request\<close>

definition identity_json :: "string option list \<Rightarrow> string" where
  "identity_json ids =
     ''['' @ join '','' (map (\<lambda>i. case i of None \<Rightarrow> ''null'' | Some s \<Rightarrow> json_string False s) ids) @ '']''"

fun cache_scope_value :: "prompt_cache_scope \<Rightarrow> string" where
  "cache_scope_value CacheScope_CONTEXT = ''context''"
| "cache_scope_value CacheScope_OWNER = ''owner''"
| "cache_scope_value CacheScope_GLOBAL = ''global''"

definition cache_identity ::
  "prompt_cache_scope \<Rightarrow> string option \<Rightarrow> string \<Rightarrow> prompt_cache_scope \<times> string option list" where
  "cache_identity scope owner_id context_id =
     (if scope = CacheScope_GLOBAL then (scope, [Some (cache_scope_value scope)])
      else if scope = CacheScope_OWNER \<and> owner_id \<noteq> None then (scope, [Some (cache_scope_value scope), owner_id])
      else (CacheScope_CONTEXT, [Some (cache_scope_value CacheScope_CONTEXT), owner_id, Some context_id]))"

definition compose_cache_policy ::
  "(string \<Rightarrow> string) \<Rightarrow> prompt_cache_mode \<Rightarrow> prompt_cache_scope \<Rightarrow> string option \<Rightarrow> string \<Rightarrow> prompt_cache_policy" where
  "compose_cache_policy sha256 mode scope owner_id context_id =
     (if mode = Cache_PROVIDER_DEFAULT then \<lparr>pc_mode = mode, pc_scope = scope, pc_scope_id = None\<rparr>
      else let (effective_scope, identity) = cache_identity scope owner_id context_id
           in \<lparr>pc_mode = mode, pc_scope = effective_scope, pc_scope_id = Some (sha256 (identity_json identity))\<rparr>)"

text \<open>The arguments of a composition: \<open>chat_args\<close> of the agent loop without the scope, tools and messages optional.\<close>

record compose_args =
  cm_context_id :: string
  cm_model_id :: string
  cm_messages :: "content list option"
  cm_memory_query :: "memory_query option"
  cm_skills :: "chat_skill list option"
  cm_tools :: "tool_definition list option"
  cm_metadata :: "metadata option"

definition compose_request ::
  "app_env \<Rightarrow> compose_args \<Rightarrow> skill_capability option \<Rightarrow> principal_scope option \<Rightarrow> app_state \<Rightarrow> error + chat_request" where
  "compose_request env a skill_capability scope s =
     bind_e (context_get scope (cm_context_id a) (ap_contexts s)) (\<lambda>c.
       let selection = select_memories_for_request (ae_unicode env) (ae_now env) (cm_memory_query a)
             (Some (ctx_id c)) (cm_metadata a) (ctx_owner_id c) scope (ap_memories s)
       in bind_e (ae_strategy env c (cm_model_id a) (cm_messages a) selection (cm_tools a) (cm_metadata a)) (\<lambda>request.
            let request = request\<lparr>rq_skills := cm_skills a,
                  rq_prompt_cache := Some (compose_cache_policy (ae_sha256 env) (ae_cache_mode env)
                    (ae_cache_scope env) (ctx_owner_id c) (ctx_id c))\<rparr>
            in case skill_capability of
                 None \<Rightarrow> Inr request
               | Some capability \<Rightarrow> compose_skill_prompted_chat_request env (ap_skills s) request capability))"

section \<open>Retries\<close>

definition ensure_retry_target :: "content \<Rightarrow> error + unit" where
  "ensure_retry_target m =
     (if c_role m \<noteq> Role_ASSISTANT
      then Inl (raised (Chat ChatInputError) ''Retry message index must point to an assistant message'')
      else if c_status m \<notin> {None, Some Status_ACTIVE}
      then Inl (raised (Chat ChatInputError) ''Retry message index must point to an active message'')
      else Inr ())"

definition mark_context_retry_messages :: "chat_context \<Rightarrow> nat \<Rightarrow> chat_context" where
  "mark_context_retry_messages c retry_from_index =
     c\<lparr>ctx_messages := take retry_from_index (ctx_messages c)
        @ map (\<lambda>m. m\<lparr>c_status := Some Status_REJECTED\<rparr>) (drop retry_from_index (ctx_messages c))\<rparr>"

definition mark_retry_messages ::
  "string \<Rightarrow> nat option \<Rightarrow> principal_scope option \<Rightarrow> (error, context_register, unit) act" where
  "mark_retry_messages context_id retry_from_message_index scope d =
     (case retry_from_message_index of
        None \<Rightarrow> (Inr (), d)
      | Some index \<Rightarrow>
          (case context_get scope context_id d of
             Inl e \<Rightarrow> (Inl e, d)
           | Inr c \<Rightarrow>
               if index \<ge> length (ctx_messages c)
               then (Inl (raised (Chat ChatInputError) ''Retry message index is out of range''), d)
               else case ensure_retry_target (ctx_messages c ! index) of
                      Inl e \<Rightarrow> (Inl e, d)
                    | Inr _ \<Rightarrow>
                        bind_a (context_replace scope (mark_context_retry_messages c index)) (\<lambda>_. return_a ()) d))"

section \<open>Chats\<close>

fun validate_skill_inputs :: "app_env \<Rightarrow> skill_registry \<Rightarrow> nat \<Rightarrow> chat_skill list \<Rightarrow> error + unit" where
  "validate_skill_inputs env r index [] = Inr ()"
| "validate_skill_inputs env r index (s # ss) =
     bind_e (validate_input (ae_schema env) (uc_strip (ae_unicode env)) (skill_request s index) r)
       (\<lambda>_. validate_skill_inputs env r (Suc index) ss)"

definition organize_chat_request ::
  "app_env \<Rightarrow> compose_args \<Rightarrow> principal_scope option \<Rightarrow> app_state \<Rightarrow> error + chat_request" where
  "organize_chat_request env a scope s =
     bind_e (compose_request env a None scope s) (\<lambda>request.
     bind_e (validate_skill_inputs env (ap_skills s) 0 (case rq_skills request of None \<Rightarrow> [] | Some ss \<Rightarrow> ss))
       (\<lambda>_. Inr request))"

definition prepare_chat ::
  "app_env \<Rightarrow> chat_request \<Rightarrow> principal_scope option \<Rightarrow> app_state \<Rightarrow> error + chat_request" where
  "prepare_chat env request scope s =
     bind_e (compose_skill_prompted_chat_request env (ap_skills s) request SCap_CHAT) (\<lambda>request.
       resolve_image_references (ap_files s) scope request)"

definition chat ::
  "app_env \<Rightarrow> string \<Rightarrow> chat_request \<Rightarrow> principal_scope option \<Rightarrow> (error, app_state, chat_response) act" where
  "chat env provider_id request scope =
     bind_a (reading (prepare_chat env request scope)) (ae_chat env provider_id)"

text \<open>\<open>for message in messages: await contexts.append(...)\<close>.\<close>

definition append_all :: "string \<Rightarrow> content list \<Rightarrow> principal_scope option \<Rightarrow> (error, context_register, unit) act" where
  "append_all context_id messages scope =
     for_each (\<lambda>m. bind_a (append_message scope context_id m None) (\<lambda>_. return_a ())) messages"

definition given_messages :: "compose_args \<Rightarrow> content list" where
  "given_messages a = (case cm_messages a of None \<Rightarrow> [] | Some ms \<Rightarrow> ms)"

definition chat_with_context ::
  "app_env \<Rightarrow> string \<Rightarrow> nat option \<Rightarrow> compose_args \<Rightarrow> principal_scope option
     \<Rightarrow> (error, app_state, chat_response) act" where
  "chat_with_context env provider_id retry_from_message_index a scope =
     bind_a (with_contexts (mark_retry_messages (cm_context_id a) retry_from_message_index scope)) (\<lambda>_.
     bind_a (reading (organize_chat_request env a scope)) (\<lambda>request.
     bind_a (chat env provider_id request scope) (\<lambda>response.
     bind_a (with_contexts (append_all (cm_context_id a) (given_messages a) scope)) (\<lambda>_.
     bind_a (with_contexts (append_all (cm_context_id a) [rs_message response] scope)) (\<lambda>_.
       return_a response)))))"

section \<open>Streams\<close>

definition chat_stream ::
  "app_env \<Rightarrow> string \<Rightarrow> chat_request \<Rightarrow> principal_scope option
     \<Rightarrow> (error, app_state, chat_stream_event list \<times> error option) act" where
  "chat_stream env provider_id request scope =
     bind_a (reading (prepare_chat env request scope)) (ae_chat_stream env provider_id)"

record stream_text =
  sx_deltas :: "string list"
  sx_tool_calls :: "tool_call list"

definition accumulate_event :: "chat_stream_event \<Rightarrow> stream_text \<Rightarrow> stream_text" where
  "accumulate_event e x =
     (let delta = (if ce_type e = Chunk_MESSAGE_DELTA
                   then (case ce_text_delta e of
                           Some t \<Rightarrow> Some t
                         | None \<Rightarrow> Option.bind (ce_content_part e) cp_text)
                   else None);
          x = (case delta of Some t \<Rightarrow> if t = [] then x else x\<lparr>sx_deltas := sx_deltas x @ [t]\<rparr> | None \<Rightarrow> x)
      in case ce_tool_call e of
           Some c \<Rightarrow> if ce_type e = Chunk_TOOL_CALL_COMPLETED then x\<lparr>sx_tool_calls := sx_tool_calls x @ [c]\<rparr> else x
         | None \<Rightarrow> x)"

definition assistant_message :: "nat \<Rightarrow> stream_text \<Rightarrow> content option" where
  "assistant_message ref x =
     (let text1 = concat (sx_deltas x)
      in if text1 = [] \<and> sx_tool_calls x = [] then None
         else Some ((message ref Role_ASSISTANT)
           \<lparr>c_content := (if text1 = [] then None else c_content (system_text ref text1)),
            c_tool_calls := (if sx_tool_calls x = [] then None else Some (sx_tool_calls x))\<rparr>))"

text \<open>
  A consumer reads some of the events and then stops, or the stream ends or fails; the \<open>finally\<close> block stores
  the messages in every case, and an error of it replaces the error of the stream.
\<close>

definition consume_stream ::
  "nat \<Rightarrow> string \<Rightarrow> content list \<Rightarrow> principal_scope option \<Rightarrow> chat_stream_event list \<Rightarrow> error option
     \<Rightarrow> (error, context_register, unit) act" where
  "consume_stream ref context_id messages scope consumed failure d =
     (case append_all context_id (messages @ (case assistant_message ref
               (fold accumulate_event consumed \<lparr>sx_deltas = [], sx_tool_calls = []\<rparr>) of
             None \<Rightarrow> [] | Some m \<Rightarrow> [m])) scope d of
        (Inl e, d) \<Rightarrow> (Inl e, d)
      | (Inr _, d) \<Rightarrow> (case failure of None \<Rightarrow> (Inr (), d) | Some e \<Rightarrow> (Inl e, d)))"

definition chat_stream_with_context ::
  "app_env \<Rightarrow> string \<Rightarrow> nat option \<Rightarrow> compose_args \<Rightarrow> principal_scope option
     \<Rightarrow> (error, app_state, chat_stream_event list \<times> error option) act" where
  "chat_stream_with_context env provider_id retry_from_message_index a scope =
     bind_a (with_contexts (mark_retry_messages (cm_context_id a) retry_from_message_index scope)) (\<lambda>_.
     bind_a (reading (organize_chat_request env a scope)) (\<lambda>request.
       chat_stream env provider_id request scope))"

section \<open>Sessions\<close>

record session_chat_request =
  scr_provider_id :: "string option"
  scr_model_id :: "string option"
  scr_messages :: "content list"
  scr_retry_from_message_index :: "nat option"
  scr_memory_query :: "memory_query option"
  scr_skills :: "chat_skill list option"
  scr_tools :: "tool_definition list option"
  scr_metadata :: metadata

record session_agent_run_request = session_chat_request +
  sar_working_directory :: "string option"
  sar_max_tool_rounds :: nat
  sar_recover_tool_errors :: bool
  sar_write_memory :: bool
  sar_tool_approvals :: "tool_approval_decision list"
  sar_pause_on_approval :: bool
  sar_timeout_seconds :: "rat option"

definition ensure_context :: "session \<Rightarrow> principal_scope option \<Rightarrow> (error, app_state, unit) act" where
  "ensure_context ses scope s =
     (if context_has scope (ses_context_id ses) (ap_contexts s) then (Inr (), s)
      else bind_a (with_contexts (context_create scope
             \<lparr>ctx_id = ses_context_id ses, ctx_owner_id = ses_owner_id ses, ctx_revision = 0, ctx_messages = [],
              ctx_metadata = [(''session_id'', PStr (ses_id ses))]\<rparr>)) (\<lambda>_. return_a ()) s)"

definition create_session :: "session \<Rightarrow> principal_scope option \<Rightarrow> (error, app_state, session) act" where
  "create_session ses scope =
     bind_a (ensure_context ses scope) (\<lambda>_. with_sessions (session_create scope ses))"

definition replace_session :: "int \<Rightarrow> session \<Rightarrow> principal_scope option \<Rightarrow> (error, app_state, session) act" where
  "replace_session now ses scope =
     bind_a (reading (\<lambda>s. session_get scope (ses_id ses) (ap_sessions s))) (\<lambda>_.
     bind_a (ensure_context ses scope) (\<lambda>_. with_sessions (session_replace now scope ses)))"

definition first_given :: "string \<Rightarrow> string option \<Rightarrow> string option \<Rightarrow> error + string" where
  "first_given what a b =
     (case a of
        Some (c # t) \<Rightarrow> Inr (c # t)
      | _ \<Rightarrow> (case b of
           Some (c # t) \<Rightarrow> Inr (c # t)
         | _ \<Rightarrow> Inl (raised (Sess SessionInputError) (''Session '' @ what @ '' is required''))))"

definition required_provider_id :: "session \<Rightarrow> 'a session_chat_request_scheme \<Rightarrow> error + string" where
  "required_provider_id ses r = first_given ''provider_id'' (scr_provider_id r) (ses_provider_id ses)"

definition required_model_id :: "session \<Rightarrow> 'a session_chat_request_scheme \<Rightarrow> error + string" where
  "required_model_id ses r = first_given ''model_id'' (scr_model_id r) (ses_model_id ses)"

definition session_metadata :: "session \<Rightarrow> metadata \<Rightarrow> metadata" where
  "session_metadata ses m = dict_set ''session_id'' (PStr (ses_id ses)) m"

definition chat_with_session ::
  "app_env \<Rightarrow> string \<Rightarrow> session_chat_request \<Rightarrow> principal_scope option
     \<Rightarrow> (error, app_state, session \<times> chat_response) act" where
  "chat_with_session env session_id r scope =
     bind_a (reading (\<lambda>s. session_get scope session_id (ap_sessions s))) (\<lambda>ses.
     bind_a (lift_a (required_provider_id ses r)) (\<lambda>provider_id.
     bind_a (lift_a (required_model_id ses r)) (\<lambda>model_id.
     bind_a (chat_with_context env provider_id (scr_retry_from_message_index r)
         \<lparr>cm_context_id = ses_context_id ses, cm_model_id = model_id, cm_messages = Some (scr_messages r),
          cm_memory_query = scr_memory_query r, cm_skills = scr_skills r, cm_tools = scr_tools r,
          cm_metadata = Some (session_metadata ses (scr_metadata r))\<rparr> scope)
       (\<lambda>response. return_a (ses, response)))))"

definition session_agent_request ::
  "session \<Rightarrow> string \<Rightarrow> string \<Rightarrow> session_agent_run_request \<Rightarrow> agent_request" where
  "session_agent_request ses provider_id model_id r =
     \<lparr>ag_provider_id = provider_id, ag_working_directory = sar_working_directory r, ag_owner_id = ses_owner_id ses,
      ag_context_id = ses_context_id ses, ag_model_id = model_id, ag_messages = scr_messages r,
      ag_retry_from_message_index = scr_retry_from_message_index r, ag_memory_query = scr_memory_query r,
      ag_skills = scr_skills r, ag_tools = scr_tools r, ag_max_tool_rounds = sar_max_tool_rounds r,
      ag_recover_tool_errors = sar_recover_tool_errors r, ag_write_memory = sar_write_memory r,
      ag_tool_approvals = sar_tool_approvals r, ag_pause_on_approval = sar_pause_on_approval r,
      ag_timeout_seconds = sar_timeout_seconds r, ag_metadata = session_metadata ses (scr_metadata r)\<rparr>"

definition start_agent_run_for_session ::
  "(agent_request \<Rightarrow> principal_scope option \<Rightarrow> (error, app_state, 'r) act) \<Rightarrow> string
     \<Rightarrow> session_agent_run_request \<Rightarrow> principal_scope option \<Rightarrow> (error, app_state, 'r) act" where
  "start_agent_run_for_session start session_id r scope =
     bind_a (reading (\<lambda>s. session_get scope session_id (ap_sessions s))) (\<lambda>ses.
     bind_a (lift_a (required_provider_id ses r)) (\<lambda>provider_id.
     bind_a (lift_a (required_model_id ses r)) (\<lambda>model_id.
       start (session_agent_request ses provider_id model_id r) scope)))"

end
