(* ===== verification/ConversationFacts.thy ===== *)
theory ConversationFacts
  imports ChatUseCases FileFacts
begin

text \<open>
  What holds of the use cases of conversations: memories are updated in place, a chat stores exactly what was
  said, image references are bounded and belong to the caller, skills are checked before they are rendered,
  and prompt cache identities separate the owners.
\<close>

section \<open>Memories\<close>

lemma select_all:
  assumes "\<not> mq_deduplicate q" "mq_limit q = None"
  shows "m \<in> set (sel_memories (memory_select uc now ms (Some q)))
    \<longleftrightarrow> m \<in> set ms \<and> filter_reasons uc now q m = []"
  using assms by (force simp: memory_select_def Let_def score_entry_def split_def)

definition same_slot :: "memory_item \<Rightarrow> string \<Rightarrow> memory_item \<Rightarrow> bool" where
  "same_slot candidate key m \<longleftrightarrow> mem_owner_id m = mem_owner_id candidate \<and> mem_scope m = mem_scope candidate
     \<and> (mem_scope_id candidate = None \<or> mem_scope_id m = mem_scope_id candidate)
     \<and> mem_kind m = mem_kind candidate \<and> meta_get (mem_metadata m) ''memory_key'' = PStr key"

text \<open>The search finds a memory of the slot that the caller may see, if there is one.\<close>

lemma find_existing:
  assumes "keyed mem_id d" "metadata_text (mem_metadata c) ''memory_key'' = Some key"
  shows "case find_existing_memory uc now c scope d of
      None \<Rightarrow> \<forall>m. dict_get d (mem_id m) = Some m \<and> scope_permits scope (mem_owner_id m) \<longrightarrow> \<not> same_slot c key m
    | Some m \<Rightarrow> dict_get d (mem_id m) = Some m \<and> scope_permits scope (mem_owner_id m) \<and> same_slot c key m"
proof -
  let ?q = "empty_query\<lparr>mq_scope := Some (mem_scope c), mq_scope_id := mem_scope_id c,
      mq_kinds := [mem_kind c], mq_include_disabled := True, mq_include_expired := True\<rparr>"
  let ?ms = "filter (\<lambda>m. mem_owner_id m = mem_owner_id c \<and> meta_get (mem_metadata m) ''memory_key'' = PStr key)
      (memory_list uc now None None None (Some ?q) scope d)"
  have f: "filter_reasons uc now ?q m = [] \<longleftrightarrow> mem_scope m = mem_scope c
      \<and> (mem_scope_id c = None \<or> mem_scope_id m = mem_scope_id c) \<and> mem_kind m = mem_kind c" for m
    by (auto simp: filter_reasons_def empty_query_def matches_scope_def)
  have in_list: "m \<in> set (memory_list uc now None None None (Some ?q) scope d) \<longleftrightarrow>
      dict_get d (mem_id m) = Some m \<and> scope_permits scope (mem_owner_id m) \<and> filter_reasons uc now ?q m = []" for m
    using keyed_values_iff [OF assms(1)]
    by (auto simp: memory_list_def after_cursor_def owner_filter_eq select_all empty_query_def)
  have slot: "m \<in> set ?ms \<longleftrightarrow> dict_get d (mem_id m) = Some m \<and> scope_permits scope (mem_owner_id m)
      \<and> same_slot c key m" for m
    unfolding set_filter mem_Collect_eq in_list f same_slot_def by blast
  have found: "find_existing_memory uc now c scope d = (case ?ms of [] \<Rightarrow> None | m # _ \<Rightarrow> Some m)"
    using assms(2) by (simp add: find_existing_memory_def Let_def)
  show ?thesis
  proof (cases ?ms)
    case Nil
    with slot show ?thesis by (simp add: found)
  next
    case (Cons m ms)
    with slot [of m] show ?thesis by (simp add: found)
  qed
qed

lemma metadata_text_Some: "metadata_text m k = Some s \<longleftrightarrow> meta_get m k = PStr s \<and> s \<noteq> []"
  by (auto simp: metadata_text_def split: pyval.splits)

lemma merge_memory_id [simp]: "mem_id (merge_memory e c op) = mem_id e"
  by (simp add: merge_memory_def Let_def)

lemma merge_memory_slot:
  assumes "same_slot c key e" "dict_ok (mem_metadata c)" "meta_get (mem_metadata c) ''memory_key'' = PStr key"
  shows "same_slot c key (merge_memory e c op)"
proof -
  let ?fields = "dict_set ''previous_memory_id'' (PStr (mem_id e)) (with_write_operation c op)"
  have key: "dict_get (mem_metadata c) ''memory_key'' = Some (PStr key)"
    using assms(3) by (simp add: meta_get_def split: option.splits)
  have merged: "dict_get (dict_merge (mem_metadata e) (dict_set ''provenance'' p m)) ''memory_key'' = Some (PStr key)"
    if "dict_ok m" "dict_get m ''memory_key'' = Some (PStr key)" for m p
    using that by (simp add: dict_get_merge)
  have "dict_ok ?fields" "dict_get ?fields ''memory_key'' = Some (PStr key)"
    using assms(2) key by (simp_all add: with_write_operation_def)
  moreover define M where "M = (case meta_get (mem_metadata e) ''content_fingerprint'' of
      PStr _ \<Rightarrow> dict_set ''previous_content_fingerprint'' (meta_get (mem_metadata e) ''content_fingerprint'') ?fields
    | _ \<Rightarrow> ?fields)"
  ultimately have "dict_ok M" "dict_get M ''memory_key'' = Some (PStr key)"
    by (auto split: pyval.splits)
  with merged have "meta_get (mem_metadata (merge_memory e c op)) ''memory_key'' = PStr key"
    by (simp add: merge_memory_def Let_def meta_get_def [of "dict_merge _ _"] flip: M_def)
  with assms(1) show ?thesis by (auto simp: same_slot_def merge_memory_def Let_def)
qed

text \<open>Writing a memory with a key updates the caller's memory of that slot in place, or creates one when
  there is none; it changes no other memory, and writing the same candidate again never creates another.\<close>

theorem memory_written_in_place:
  assumes "keyed mem_id d" and "dict_ok (mem_metadata m)" and "metadata_text (mem_metadata m) ''memory_key'' = Some key"
    and "write_memory_candidate uc now m scope d = (Inr (w, op), d')"
  shows "dict_get d' = (dict_get d)(mem_id w \<mapsto> w) \<and> same_slot m key w \<and> scope_permits scope (mem_owner_id w)
    \<and> (case find_existing_memory uc now m scope d of
         None \<Rightarrow> op = Write_CREATE \<and> mem_id w = mem_id m
       | Some e \<Rightarrow> op \<noteq> Write_CREATE \<and> mem_id w = mem_id e \<and> dict_get d (mem_id e) = Some e)
    \<and> find_existing_memory uc later m scope d' \<noteq> None"
proof -
  from assms(3) have key: "meta_get (mem_metadata m) ''memory_key'' = PStr key" by (simp add: metadata_text_Some)
  note found = find_existing [OF assms(1,3), where uc = uc and now = now and scope = scope]
  have written: "dict_get d' = (dict_get d)(mem_id w \<mapsto> w) \<and> keyed mem_id d' \<and> same_slot m key w
    \<and> scope_permits scope (mem_owner_id w)
    \<and> (case find_existing_memory uc now m scope d of
         None \<Rightarrow> op = Write_CREATE \<and> mem_id w = mem_id m
       | Some e \<Rightarrow> op \<noteq> Write_CREATE \<and> mem_id w = mem_id e \<and> dict_get d (mem_id e) = Some e)"
  proof (cases "find_existing_memory uc now m scope d")
    case None
    let ?m = "m\<lparr>mem_metadata := with_write_operation m Write_CREATE\<rparr>"
    from None assms(4) have c: "memory_create scope ?m d = (Inr w, d')" and op: "op = Write_CREATE"
      by (auto simp: write_memory_candidate_def bind_a_def split: prod.splits sum.splits)
    then have permits: "scope_permits scope (mem_owner_id ?m)"
      by (auto simp: memory_create_def memory_register_def require_memory_scope_def bind_a_def split: if_splits)
    from mem.register_get [OF assms(1) this] c have "w = ?m" "keyed mem_id d'" "dict_get d' = (dict_get d)(mem_id w \<mapsto> w)"
      by (auto simp: memory_create_def)
    with None op key permits show ?thesis by (simp add: same_slot_def with_write_operation_def)
  next
    case (Some e)
    with found have e: "dict_get d (mem_id e) = Some e" "same_slot m key e" by simp_all
    define u where "u = (merge_memory e m op)\<lparr>mem_updated_at := now\<rparr>"
    from Some assms(4) have r: "memory_replace now scope (merge_memory e m op) d = (Inr w, d')" and op: "op \<noteq> Write_CREATE"
      by (auto simp: write_memory_candidate_def bind_a_def Let_def split: prod.splits sum.splits if_splits)
    then have b: "bind_a (memory_register scope u) (\<lambda>_ d. (memory_get scope (mem_id u) d, d)) d = (Inr w, d')"
      by (simp add: memory_replace_def u_def split: if_splits)
    then have permits: "scope_permits scope (mem_owner_id u)"
      by (auto simp: memory_register_def require_memory_scope_def bind_a_def split: if_splits)
    from mem.register_get [OF assms(1) this] b have "w = u" "keyed mem_id d'" "dict_get d' = (dict_get d)(mem_id w \<mapsto> w)"
      by auto
    moreover have "same_slot m key u"
      using merge_memory_slot [OF e(2) assms(2) key, of op] by (simp add: u_def same_slot_def)
    ultimately show ?thesis using Some op e(1) permits by (simp add: u_def)
  qed
  then have "dict_get d' (mem_id w) = Some w" by simp
  with written find_existing [OF _ assms(3), of d', where uc = uc and now = later and scope = scope]
  have "find_existing_memory uc later m scope d' \<noteq> None" by (auto split: option.splits)
  with written show ?thesis by blast
qed

section \<open>Contexts and chats\<close>

lemma append_message_permitted:
  assumes "keyed ctx_id d" "dict_get d k = Some c" "scope_permits scope (ctx_owner_id c)"
  shows "append_message scope k m None d =
    (Inr (c\<lparr>ctx_messages := ctx_messages c @ [m], ctx_revision := ctx_revision c + 1\<rparr>),
     dict_set k (c\<lparr>ctx_messages := ctx_messages c @ [m], ctx_revision := ctx_revision c + 1\<rparr>) d)"
proof -
  from assms have "context_get scope k d = Inr c" by (simp add: context_get_iff)
  moreover from assms(1,2) have "ctx_id c = k" by (simp add: keyed_def)
  ultimately show ?thesis
    using assms(3)
    by (simp add: append_message_def context_register_def require_context_scope_def bind_a_def Let_def)
qed

lemma append_all_permitted:
  assumes "keyed ctx_id d" "dict_get d k = Some c" "scope_permits scope (ctx_owner_id c)"
  shows "\<exists>d'. append_all k ms scope d = (Inr (), d') \<and> keyed ctx_id d'
    \<and> dict_get d' = (dict_get d)(k \<mapsto> c\<lparr>ctx_messages := ctx_messages c @ ms,
          ctx_revision := ctx_revision c + length ms\<rparr>)"
  using assms
proof (induction ms arbitrary: d c)
  case Nil
  then show ?case by (auto simp: append_all_def fun_eq_iff)
next
  case (Cons m ms)
  let ?c = "c\<lparr>ctx_messages := ctx_messages c @ [m], ctx_revision := ctx_revision c + 1\<rparr>"
  from Cons.prems(1,2) have id: "ctx_id c = k" by (simp add: keyed_def)
  then have "keyed ctx_id (dict_set k ?c d)" using keyed_set [OF Cons.prems(1), of ?c] by simp
  note ih = Cons.IH [OF this, of ?c]
  have "dict_get (dict_set k ?c d) k = Some ?c" "scope_permits scope (ctx_owner_id ?c)"
    using Cons.prems(3) by simp_all
  from ih [OF this] obtain d' where
    "append_all k ms scope (dict_set k ?c d) = (Inr (), d')" "keyed ctx_id d'"
    "dict_get d' = (dict_get (dict_set k ?c d))(k \<mapsto> ?c\<lparr>ctx_messages := ctx_messages ?c @ ms,
          ctx_revision := ctx_revision ?c + length ms\<rparr>)" by blast
  moreover have "append_all k (m # ms) scope d = append_all k ms scope (dict_set k ?c d)"
    by (simp add: append_all_def bind_a_def append_message_permitted [OF Cons.prems])
  ultimately show ?case by (auto simp: fun_eq_iff)
qed

lemma with_contexts_eq:
  "with_contexts m s = (x, s') \<longleftrightarrow> (\<exists>d. m (ap_contexts s) = (x, d) \<and> s' = s\<lparr>ap_contexts := d\<rparr>)"
  by (auto simp: with_contexts_def split: prod.splits)

text \<open>What is known of a chat in a context before and after the call of the provider.\<close>

lemma chat_with_context_steps:
  assumes "chat_with_context env p idx a scope s = (Inr response, s')"
  obtains s1 request s2 where
    "mark_retry_messages (cm_context_id a) idx scope (ap_contexts s) = (Inr (), ap_contexts s1)"
    "s1 = s\<lparr>ap_contexts := ap_contexts s1\<rparr>"
    "bind_e (organize_chat_request env a scope s1) (\<lambda>r. prepare_chat env r scope s1) = Inr request"
    "ae_chat env p request s1 = (Inr response, s2)"
    "append_all (cm_context_id a) (given_messages a @ [rs_message response]) scope (ap_contexts s2)
       = (Inr (), ap_contexts s')"
    "s' = s2\<lparr>ap_contexts := ap_contexts s'\<rparr>"
proof -
  from assms obtain d1 r request s2 d3 d4 where
    retry: "mark_retry_messages (cm_context_id a) idx scope (ap_contexts s) = (Inr (), d1)"
    and organized: "organize_chat_request env a scope (s\<lparr>ap_contexts := d1\<rparr>) = Inr r"
    and prepared: "prepare_chat env r scope (s\<lparr>ap_contexts := d1\<rparr>) = Inr request"
    and called: "ae_chat env p request (s\<lparr>ap_contexts := d1\<rparr>) = (Inr response, s2)"
    and given: "append_all (cm_context_id a) (given_messages a) scope (ap_contexts s2) = (Inr (), d3)"
    and answer: "append_all (cm_context_id a) [rs_message response] scope d3 = (Inr (), d4)"
    and s': "s' = s2\<lparr>ap_contexts := d4\<rparr>"
    by (auto simp: chat_with_context_def chat_def bind_a_eq_Inr with_contexts_eq reading_def)
  have loop: "for_each f (xs @ ys) d = (case for_each f xs d of (Inl e, d) \<Rightarrow> (Inl e, d) | (Inr _, d) \<Rightarrow> for_each f ys d)"
    for f :: "content \<Rightarrow> (error, context_register, unit) act" and xs ys d
    by (induction xs arbitrary: d) (auto split: prod.split sum.split)
  from given answer have "append_all (cm_context_id a) (given_messages a @ [rs_message response]) scope (ap_contexts s2)
      = (Inr (), d4)"
    by (simp add: append_all_def loop)
  with retry organized prepared called s' show thesis
    by (intro that [of "s\<lparr>ap_contexts := d1\<rparr>" request s2]) simp_all
qed

text \<open>C37: A successful chat stores exactly what was said: the messages of the caller and then the answer are
  appended to the context as it is when the answer arrives, whatever other tasks did in the meantime, and
  no other context changes.\<close>

theorem chat_stores_what_was_said:
  assumes "chat_with_context env p idx a scope s = (Inr response, s')"
    and "mark_retry_messages (cm_context_id a) idx scope (ap_contexts s) = (Inr (), d1)"
    and "\<And>r s2. ae_chat env p r (s\<lparr>ap_contexts := d1\<rparr>) = (Inr response, s2) \<Longrightarrow> keyed ctx_id (ap_contexts s2)
      \<and> dict_get (ap_contexts s2) (cm_context_id a) = Some c \<and> scope_permits scope (ctx_owner_id c)
      \<and> (\<forall>k. k \<noteq> cm_context_id a \<longrightarrow> dict_get (ap_contexts s2) k = others k)"
  shows "dict_get (ap_contexts s') = others(cm_context_id a \<mapsto>
      c\<lparr>ctx_messages := ctx_messages c @ given_messages a @ [rs_message response],
        ctx_revision := ctx_revision c + length (given_messages a) + 1\<rparr>)"
  using assms(1)
proof (rule chat_with_context_steps)
  fix s1 request s2
  assume called: "ae_chat env p request s1 = (Inr response, s2)"
    and marked: "mark_retry_messages (cm_context_id a) idx scope (ap_contexts s) = (Inr (), ap_contexts s1)"
      "s1 = s\<lparr>ap_contexts := ap_contexts s1\<rparr>"
    and stored: "append_all (cm_context_id a) (given_messages a @ [rs_message response]) scope (ap_contexts s2)
       = (Inr (), ap_contexts s')"
  from marked assms(2) have "s1 = s\<lparr>ap_contexts := d1\<rparr>" by simp
  with called assms(3) have c: "keyed ctx_id (ap_contexts s2)"
    "dict_get (ap_contexts s2) (cm_context_id a) = Some c" "scope_permits scope (ctx_owner_id c)"
    and others: "\<And>k. k \<noteq> cm_context_id a \<Longrightarrow> dict_get (ap_contexts s2) k = others k" by blast+
  from append_all_permitted [OF c, of "given_messages a @ [rs_message response]"] stored others
  show ?thesis by (auto simp: fun_eq_iff)
qed

text \<open>A chat that fails stores no message; but the marks of a retry stay.\<close>

lemma failed_chat_keeps_marks:
  assumes "chat_with_context env p idx a scope s = (Inl e, s')"
    and "mark_retry_messages (cm_context_id a) idx scope (ap_contexts s) = (Inr (), d1)"
    and "bind_e (organize_chat_request env a scope (s\<lparr>ap_contexts := d1\<rparr>))
           (\<lambda>r. prepare_chat env r scope (s\<lparr>ap_contexts := d1\<rparr>)) = Inl e'"
  shows "s' = s\<lparr>ap_contexts := d1\<rparr>" "e = e'"
  using assms
  by (auto simp: chat_with_context_def chat_def bind_a_def with_contexts_def reading_def bind_e_def
      split: sum.splits)

section \<open>Sessions\<close>

text \<open>C36: Creating a session does not check that its context is free for the caller: naming the context of
  another owner replaces that context, with all its messages, by an empty one of the caller.\<close>

theorem session_seizes_context:
  assumes "keyed ctx_id (ap_contexts s)" and "keyed ses_id (ap_sessions s)"
    and "dict_get (ap_contexts s) (ses_context_id ses) = Some c" and "\<not> scope_permits scope (ctx_owner_id c)"
    and "scope_permits scope (ses_owner_id ses)"
  shows "\<exists>s'. create_session ses scope s = (Inr ses, s')
    \<and> dict_get (ap_contexts s') (ses_context_id ses) = Some \<lparr>ctx_id = ses_context_id ses,
        ctx_owner_id = ses_owner_id ses, ctx_revision = 0, ctx_messages = [],
        ctx_metadata = [(''session_id'', PStr (ses_id ses))]\<rparr>"
proof -
  let ?c = "\<lparr>ctx_id = ses_context_id ses, ctx_owner_id = ses_owner_id ses, ctx_revision = 0, ctx_messages = [],
        ctx_metadata = [(''session_id'', PStr (ses_id ses))]\<rparr>"
  have "\<not> context_has scope (ses_context_id ses) (ap_contexts s)"
    using assms(3,4) by (simp add: context_has_iff)
  moreover have "scope_permits scope (ctx_owner_id ?c)" using assms(5) by simp
  from ctx.register_get [OF assms(1) this] obtain d where
    d: "context_create scope ?c (ap_contexts s) = (Inr ?c, d)" "dict_get d = (dict_get (ap_contexts s))(ctx_id ?c \<mapsto> ?c)"
    unfolding context_create_def by blast
  moreover from ses.register_get [OF assms(2,5)] obtain d2 where
    "session_create scope ses (ap_sessions s) = (Inr ses, d2)"
    unfolding session_create_def by blast
  ultimately show ?thesis
    by (simp add: create_session_def ensure_context_def with_contexts_def with_sessions_def bind_a_def)
qed

section \<open>Image references\<close>

text \<open>A reference is resolved to the bytes of a file that the scope permits.\<close>

definition resolved_from :: "file_store \<Rightarrow> principal_scope option \<Rightarrow> content_part \<Rightarrow> content_part \<Rightarrow> bytes \<Rightarrow> bool" where
  "resolved_from d scope p p' data \<longleftrightarrow>
     (\<exists>a. file_entry (the (cp_artifact_id p)) scope d = Inr (a, data) \<and> bitmap_mime data = Inr (fi_mime_type a)
        \<and> p' = p\<lparr>cp_data := Some (''data:'' @ fi_mime_type a @ '';base64,'' @ base64_encode data),
             cp_mime_type := Some (fi_mime_type a), cp_artifact_id := None\<rparr>)"

definition part_sent :: "file_store \<Rightarrow> principal_scope option \<Rightarrow> content_part \<Rightarrow> content_part \<Rightarrow> bool" where
  "part_sent d scope p p' \<longleftrightarrow> (if is_reference p then \<exists>data. resolved_from d scope p p' data else p' = p)"

lemma no_access_Inr [simp]: "no_access r = Inr x \<longleftrightarrow> r = Inr x"
  by (auto simp: no_access_def split: sum.split)

lemma resolve_part_ok:
  assumes "resolve_part d scope n p = Inr (p', n')"
  shows "\<exists>data. resolved_from d scope p p' data \<and> n' = n + length data \<and> n' \<le> MAX_REQUEST_IMAGE_BYTES"
proof -
  from assms obtain a where "no_access (file_get (the (cp_artifact_id p)) scope d) = Inr a"
    unfolding resolve_part_def Let_def bind_e_eq_Inr by blast
  then have "file_get (the (cp_artifact_id p)) scope d = Inr a" by simp
  then obtain data where entry: "file_entry (the (cp_artifact_id p)) scope d = Inr (a, data)"
    by (auto simp: file_get_def bind_e_eq_Inr)
  then have "file_get (the (cp_artifact_id p)) scope d = Inr a" "file_read (the (cp_artifact_id p)) scope d = Inr data"
    by (simp_all add: file_get_def file_read_def)
  then have access: "no_access (file_get (the (cp_artifact_id p)) scope d) = Inr a"
    "no_access (file_read (the (cp_artifact_id p)) scope d) = Inr data" by simp_all
  have "n + fi_size_bytes a \<le> MAX_REQUEST_IMAGE_BYTES" "length data = fi_size_bytes a"
    "bitmap_mime data = Inr (fi_mime_type a)" "n' = n + fi_size_bytes a"
    "p' = p\<lparr>cp_data := Some (''data:'' @ fi_mime_type a @ '';base64,'' @ base64_encode data),
             cp_mime_type := Some (fi_mime_type a), cp_artifact_id := None\<rparr>"
    using assms unfolding resolve_part_def Let_def access bind_e_Inr
    by (simp_all split: if_splits sum.splits)
  with entry show ?thesis unfolding resolved_from_def by auto
qed

lemma resolve_parts_ok:
  assumes "resolve_parts d scope n ps = Inr (ps', n')"
  shows "length ps' = length ps \<and> (\<exists>bs :: bytes list. length bs = length (filter is_reference ps)
     \<and> n' = n + sum_list (map length bs) \<and> (n \<le> MAX_REQUEST_IMAGE_BYTES \<longrightarrow> n' \<le> MAX_REQUEST_IMAGE_BYTES))
     \<and> list_all2 (part_sent d scope) ps ps'"
  using assms
proof (induction ps arbitrary: n ps' n')
  case (Cons p ps)
  from Cons.prems obtain p1 n1 ps1 where
    one: "(if is_reference p then resolve_part d scope n p else Inr (p, n)) = Inr (p1, n1)"
    and rest: "resolve_parts d scope n1 ps = Inr (ps1, n')" and ps': "ps' = p1 # ps1"
    by (auto simp: bind_e_eq_Inr)
  note ih = Cons.IH [OF rest]
  then obtain bs :: "bytes list" where bs: "length bs = length (filter is_reference ps)" "n' = n1 + sum_list (map length bs)"
    "n1 \<le> MAX_REQUEST_IMAGE_BYTES \<longrightarrow> n' \<le> MAX_REQUEST_IMAGE_BYTES" by blast
  show ?case
  proof (cases "is_reference p")
    case True
    with one resolve_part_ok obtain data where
      "resolved_from d scope p p1 data" "n1 = n + length data" "n1 \<le> MAX_REQUEST_IMAGE_BYTES" by (metis (full_types))
    with True ih ps' bs show ?thesis by (auto simp: part_sent_def intro!: exI [of _ "data # bs"])
  next
    case False
    with one ih ps' show ?thesis by (auto simp: part_sent_def)
  qed
qed simp

lemma resolve_messages_ok:
  assumes "resolve_messages d scope n ms = Inr ms'" "n \<le> MAX_REQUEST_IMAGE_BYTES"
  shows "(\<exists>bs :: bytes list. length bs = length (filter is_reference (concat (map parts_of ms)))
       \<and> n + sum_list (map length bs) \<le> MAX_REQUEST_IMAGE_BYTES)
     \<and> list_all2 (part_sent d scope)
         (concat (map parts_of ms)) (concat (map parts_of ms'))"
  using assms
proof (induction ms arbitrary: n ms')
  case (Cons m ms)
  from Cons.prems(1) obtain ps n1 ms1 where
    one: "resolve_parts d scope n (parts_of m) = Inr (ps, n1)" and rest: "resolve_messages d scope n1 ms = Inr ms1"
    and ms': "ms' = m\<lparr>c_content := map_option (\<lambda>_. ps) (c_content m)\<rparr> # ms1"
    by (auto simp: bind_e_eq_Inr)
  note p = resolve_parts_ok [OF one]
  from p obtain bs :: "bytes list" where bs: "length bs = length (filter is_reference (parts_of m))"
    "n1 = n + sum_list (map length bs)" "n1 \<le> MAX_REQUEST_IMAGE_BYTES" using Cons.prems(2) by blast
  from Cons.IH [OF rest bs(3)] obtain bs' :: "bytes list" where bs': "length bs' = length (filter is_reference (concat (map parts_of ms)))"
    "n1 + sum_list (map length bs') \<le> MAX_REQUEST_IMAGE_BYTES"
    and l2: "list_all2 (part_sent d scope)
         (concat (map parts_of ms)) (concat (map parts_of ms1))" by blast
  have "parts_of (m\<lparr>c_content := map_option (\<lambda>_. ps) (c_content m)\<rparr>) = ps"
    using p by (cases "c_content m") (auto simp: parts_of_def)
  with p l2 ms' bs bs' show ?case
    by (auto intro!: list_all2_appendI exI [of _ "bs @ bs'"])
qed simp

text \<open>A request that is sent to a provider carries at most ten referenced images of at most 50 MiB together;
  each reference is replaced by the bytes of a file that the caller's scope permits and whose type was
  recognised, none is left, and every other part is unchanged.\<close>

theorem image_references_bounded:
  assumes "resolve_image_references d scope request = Inr request'"
  shows "(\<exists>bs :: bytes list. length bs = length (referenced_parts request) \<and> length bs \<le> MAX_REQUEST_IMAGES
        \<and> sum_list (map length bs) \<le> MAX_REQUEST_IMAGE_BYTES)
    \<and> list_all2 (part_sent d scope)
        (concat (map parts_of (rq_messages request))) (concat (map parts_of (rq_messages request')))
    \<and> referenced_parts request' = []"
proof -
  from assms have few: "length (referenced_parts request) \<le> MAX_REQUEST_IMAGES"
    and ok: "resolve_messages d scope 0 (rq_messages request) = Inr (rq_messages request')"
    by (auto simp: resolve_image_references_def bind_e_eq_Inr split: if_splits)
  from resolve_messages_ok [OF ok] few have l2: "list_all2 (part_sent d scope)
        (concat (map parts_of (rq_messages request))) (concat (map parts_of (rq_messages request')))"
    and bs: "\<exists>bs :: bytes list. length bs = length (referenced_parts request) \<and> length bs \<le> MAX_REQUEST_IMAGES
        \<and> sum_list (map length bs) \<le> MAX_REQUEST_IMAGE_BYTES"
    by (auto simp: referenced_parts_def)
  have "filter is_reference ps' = []"
    if "list_all2 (part_sent d scope) ps ps'" for ps ps'
    using that by (induction rule: list_all2_induct) (auto simp: part_sent_def resolved_from_def is_reference_def split: if_splits)
  with l2 bs show ?thesis by (simp add: referenced_parts_def)
qed

section \<open>Prompt cache identities\<close>

definition escaped :: "char \<Rightarrow> string" where
  "escaped c = (case json_escape (of_char c) of Some e \<Rightarrow> e | None \<Rightarrow> [c])"

lemma json_string_escaped: "json_string False s = char_of (34 :: nat) # concat (map escaped s) @ [char_of (34 :: nat)]"
  by (simp add: json_string_def escaped_def [abs_def])

lemma hex_digit_inj: "m < 16 \<Longrightarrow> n < 16 \<Longrightarrow> hex_digit m = hex_digit n \<longleftrightarrow> m = n"
  by (simp add: hex_digit_def char_of_eq_iff take_bit_eq_mod)

lemma hex4_inj: "m < 32 \<Longrightarrow> n < 32 \<Longrightarrow> hex4 m @ r = hex4 n @ r' \<Longrightarrow> m = n \<and> r = r'"
proof -
  assume "m < 32" "n < 32" "hex4 m @ r = hex4 n @ r'"
  then have "hex_digit (m div 16 mod 16) = hex_digit (n div 16 mod 16)" "hex_digit (m mod 16) = hex_digit (n mod 16)" "r = r'"
    by (simp_all add: hex4_def)
  then have d: "m div 16 mod 16 = n div 16 mod 16" "m mod 16 = n mod 16" "r = r'" by (simp_all add: hex_digit_inj)
  have "m div 16 < 16" "n div 16 < 16" using \<open>m < 32\<close> \<open>n < 32\<close> by simp_all
  with d(1) have "m div 16 = n div 16" by simp
  with d(2,3) show "m = n \<and> r = r'" by (metis div_mult_mod_eq)
qed

text \<open>The second character of an escape says which one it is.\<close>

definition plain_escape :: "char \<Rightarrow> nat" where
  "plain_escape x = (let k = of_char x :: nat in if k = 110 then 10 else if k = 114 then 13 else if k = 116 then 9
     else if k = 98 then 8 else if k = 102 then 12 else k)"

lemma plain_escape_eqs:
  "plain_escape (CHR ''n'') = 10" "plain_escape (CHR ''r'') = 13" "plain_escape (CHR ''t'') = 9"
  "plain_escape (CHR ''b'') = 8" "plain_escape (CHR ''f'') = 12" "plain_escape (char_of (34 :: nat)) = 34"
  "plain_escape backslash = 92" "char_of (34 :: nat) \<noteq> CHR ''u''" "backslash \<noteq> CHR ''u''"
  by (simp_all add: plain_escape_def backslash_def Let_def char_of_eq_iff take_bit_eq_mod)

lemma letters_not_u: "CHR ''n'' \<noteq> CHR ''u''" "CHR ''r'' \<noteq> CHR ''u''" "CHR ''t'' \<noteq> CHR ''u''" "CHR ''b'' \<noteq> CHR ''u''"
  "CHR ''f'' \<noteq> CHR ''u''"
  by simp_all

definition escape_of :: "nat \<Rightarrow> string \<Rightarrow> bool" where
  "escape_of n e \<longleftrightarrow> (\<exists>x t. e = backslash # x # t \<and>
     (if x = CHR ''u'' then n < 32 \<and> t = hex4 n else t = [] \<and> n = plain_escape x))"

lemma escape_ofI:
  "x \<noteq> CHR ''u'' \<Longrightarrow> plain_escape x = n \<Longrightarrow> escape_of n [backslash, x]"
  "n < 32 \<Longrightarrow> escape_of n (backslash # CHR ''u'' # hex4 n)"
  unfolding escape_of_def by fastforce+

lemma if_SomeE: "(if b then Some x else r) = Some e \<Longrightarrow> (b \<Longrightarrow> e = x \<Longrightarrow> P) \<Longrightarrow> (r = Some e \<Longrightarrow> P) \<Longrightarrow> P"
  by (cases b) simp_all

lemma json_unicode_small: "n < 32 \<Longrightarrow> json_unicode n = backslash # CHR ''u'' # hex4 n"
  by (simp add: json_unicode_def)

lemma escape_cases:
  assumes "json_escape n = Some e"
  shows "escape_of n e"
proof -
  note ok = escape_ofI plain_escape_eqs letters_not_u json_unicode_small not_False_eq_True
  show ?thesis
    using assms unfolding json_escape_def
    by (elim if_SomeE) (simp_all only: ok, blast)
qed

lemma escape_none: "json_escape n = None \<Longrightarrow> n \<noteq> 34 \<and> n \<noteq> 92"
  by (simp add: json_escape_def split: if_splits)

lemma escape_inj:
  assumes "json_escape m = Some e" "json_escape n = Some e'" "e @ r = e' @ r'"
  shows "m = n \<and> r = r'"
proof -
  from escape_cases [OF assms(1), unfolded escape_of_def] obtain x t where
    e: "e = backslash # x # t" "if x = CHR ''u'' then m < 32 \<and> t = hex4 m else t = [] \<and> m = plain_escape x" by blast
  from escape_cases [OF assms(2), unfolded escape_of_def] obtain x' t' where
    e': "e' = backslash # x' # t'" "if x' = CHR ''u'' then n < 32 \<and> t' = hex4 n else t' = [] \<and> n = plain_escape x'" by blast
  from assms(3) e(1) e'(1) have "x = x'" "t @ r = t' @ r'" by simp_all
  with e(2) e'(2) show ?thesis by (cases "x = CHR ''u''") (auto dest: hex4_inj)
qed

lemma escaped_inj:
  assumes "escaped c @ r = escaped d @ r'"
  shows "c = d \<and> r = r'"
proof -
  have start: "hd (escaped c) = backslash \<longleftrightarrow> json_escape (of_char c) \<noteq> None" for c
    using escape_cases [of "of_char c", unfolded escape_of_def] escape_none [of "of_char c"]
    by (auto simp: escaped_def backslash_def split: option.split)
  have "escaped c \<noteq> []" for c using escape_cases [of "of_char c", unfolded escape_of_def] by (auto simp: escaped_def split: option.split)
  then have "hd (escaped c @ r) = hd (escaped c)" for c r by simp
  with assms have "hd (escaped c) = hd (escaped d)" by metis
  with start have iff: "json_escape (of_char c) = None \<longleftrightarrow> json_escape (of_char d) = None" by metis
  show ?thesis
  proof (cases "json_escape (of_char c)")
    case None
    with iff assms show ?thesis by (simp add: escaped_def)
  next
    case (Some e)
    with iff obtain e' where e': "json_escape (of_char d) = Some e'" by auto
    have "of_char c = (of_char d :: nat) \<and> r = r'"
      using assms Some e' by (intro escape_inj [OF Some e']) (simp add: escaped_def)
    then show ?thesis by simp
  qed
qed

lemma escaped_no_quote: "escaped c @ r \<noteq> char_of (34 :: nat) # r'"
  using escape_cases [of "of_char c", unfolded escape_of_def] escape_none [of "of_char c"]
  by (auto simp: escaped_def backslash_def char_of_eq_iff split: option.split)

lemma json_string_inj:
  assumes "json_string False s @ r = json_string False t @ r'"
  shows "s = t \<and> r = r'"
proof -
  have "concat (map escaped s) @ char_of (34 :: nat) # r = concat (map escaped t) @ char_of (34 :: nat) # r' \<Longrightarrow> s = t \<and> r = r'"
  proof (induction s arbitrary: t)
    case Nil
    then show ?case
      by (cases t) (auto simp: escaped_no_quote [symmetric])
  next
    case (Cons c s)
    show ?case
    proof (cases t)
      case Nil
      with Cons.prems escaped_no_quote [of c] show ?thesis by simp
    next
      case t: (Cons d t1)
      with Cons.prems have "escaped c @ (concat (map escaped s) @ char_of (34 :: nat) # r)
          = escaped d @ (concat (map escaped t1) @ char_of (34 :: nat) # r')" by simp
      from escaped_inj [OF this] Cons.IH t show ?thesis by blast
    qed
  qed
  with assms show ?thesis by (simp add: json_string_escaped)
qed

definition item_json :: "string option \<Rightarrow> string" where
  "item_json i = (case i of None \<Rightarrow> ''null'' | Some s \<Rightarrow> json_string False s)"

lemma quote_not_letter: "CHR ''n'' \<noteq> char_of (34 :: nat)" "char_of (34 :: nat) \<noteq> CHR ''n''"
  by code_simp+

lemma item_json_inj: "item_json i @ r = item_json j @ r' \<Longrightarrow> i = j \<and> r = r'"
  by (cases i; cases j)
    (auto simp: item_json_def dest: json_string_inj, auto simp: json_string_escaped quote_not_letter)

fun items_json :: "string option list \<Rightarrow> string" where
  "items_json [] = '']''"
| "items_json (i # is) = '','' @ item_json i @ items_json is"

lemma items_json_inj: "items_json is = items_json js \<Longrightarrow> is = js"
proof (induction "is" arbitrary: js)
  case Nil
  then show ?case by (cases js) simp_all
next
  case (Cons i is1)
  then obtain j js1 where js: "js = j # js1" by (cases js) simp_all
  with Cons.prems have "item_json i @ items_json is1 = item_json j @ items_json js1" by simp
  from item_json_inj [OF this] Cons.IH js show ?case by blast
qed

lemma join_items: "join '','' (map item_json (i # is)) @ '']'' = item_json i @ items_json is"
proof (induction "is" arbitrary: i)
  case (Cons j js)
  have "join '','' (map item_json (i # j # js)) = item_json i @ '','' @ join '','' (map item_json (j # js))" by simp
  with Cons.IH [of j] show ?case by simp
qed simp

lemma identity_json_inj:
  assumes "identity_json (i # is) = identity_json (j # js)"
  shows "i # is = j # js"
proof -
  have "identity_json (i # is) = ''['' @ item_json i @ items_json is" for i "is"
    using join_items [of i "is"] by (simp add: identity_json_def item_json_def [abs_def])
  with assms have "item_json i @ items_json is = item_json j @ items_json js" by simp
  from item_json_inj [OF this] items_json_inj show ?thesis by blast
qed

text \<open>C38: Prompt caches are separated: two requests of one configuration get the same cache scope only if the scope is
  global or both contexts have the same owner, and with the scope of a context only for the same context.  The digest
  must not collide on the two identities.\<close>

theorem prompt_cache_isolated:
  assumes "ps_a = compose_cache_policy sha256 Cache_PREFER_EXPLICIT scope owner_a context_a"
    and "ps_b = compose_cache_policy sha256 Cache_PREFER_EXPLICIT scope owner_b context_b"
    and "\<And>x y. x \<in> identities \<Longrightarrow> y \<in> identities \<Longrightarrow> sha256 x = sha256 y \<Longrightarrow> x = y"
    and "{identity_json (snd (cache_identity scope owner_a context_a)), identity_json (snd (cache_identity scope owner_b context_b))}
       \<subseteq> identities"
    and "pc_scope_id ps_a = pc_scope_id ps_b"
  shows "scope = CacheScope_GLOBAL \<or> owner_a = owner_b
     \<and> (scope = CacheScope_OWNER \<and> owner_a \<noteq> None \<or> context_a = context_b)"
proof -
  let ?a = "snd (cache_identity scope owner_a context_a)" and ?b = "snd (cache_identity scope owner_b context_b)"
  from assms(1,2,5) have "sha256 (identity_json ?a) = sha256 (identity_json ?b)"
    by (simp add: compose_cache_policy_def split_def Let_def)
  with assms(3,4) have "identity_json ?a = identity_json ?b" by blast
  moreover have "?a \<noteq> []" "?b \<noteq> []" by (simp_all add: cache_identity_def)
  ultimately have "?a = ?b" by (metis identity_json_inj neq_Nil_conv)
  then show ?thesis by (auto simp: cache_identity_def split: if_splits)
qed

section \<open>Witnesses\<close>

lemma keyed_single: "keyed f [(f x, x)]"
  by (simp add: keyed_def dict_ok_def dict_keys_def dict_get_def)

definition demo_memory :: memory_item where
  "demo_memory = \<lparr>mem_id = ''m'', mem_owner_id = None, mem_content = ''likes tea'', mem_kind = Kind_FACT,
     mem_scope = MScope_GLOBAL, mem_scope_id = None, mem_tags = [], mem_priority = 0, mem_relevance = 1,
     mem_confidence = 1, mem_is_enabled = True, mem_expires_at = None, mem_created_at = 0, mem_updated_at = 0,
     mem_metadata = [(''memory_key'', PStr ''tea'')]\<rparr>"

theorem memory_written_in_place_witness:
  "\<exists>w d'. write_memory_candidate ascii_unicode 0 demo_memory None [] = (Inr (w, Write_CREATE), d') \<and> mem_id w = ''m''
     \<and> find_existing_memory ascii_unicode 9 demo_memory None d' \<noteq> None"
proof -
  let ?w = "demo_memory\<lparr>mem_metadata := [(''memory_key'', PStr ''tea''), (''write_operation'', PStr ''create'')]\<rparr>"
  have k: "keyed mem_id []" "dict_ok (mem_metadata demo_memory)"
    "metadata_text (mem_metadata demo_memory) ''memory_key'' = Some ''tea''"
    by (simp_all add: keyed_def demo_memory_def metadata_text_def meta_get_def dict_ok_def dict_keys_def dict_get_def)
  have none: "find_existing_memory ascii_unicode 0 demo_memory None [] = None"
    using find_existing [OF k(1,3), where uc = ascii_unicode and now = 0 and scope = None] by (auto split: option.splits)
  have "with_write_operation demo_memory Write_CREATE = mem_metadata ?w" by code_simp
  moreover have "memory_create None (demo_memory\<lparr>mem_metadata := mem_metadata ?w\<rparr>) [] = (Inr ?w, [(''m'', ?w)])"
    by code_simp
  ultimately have "write_memory_candidate ascii_unicode 0 demo_memory None [] = (Inr (?w, Write_CREATE), [(''m'', ?w)])"
    using none by (simp add: write_memory_candidate_def bind_a_def)
  with memory_written_in_place [OF k this, where later = 9] show ?thesis by (auto simp: demo_memory_def)
qed

definition demo_context :: chat_context where
  "demo_context = \<lparr>ctx_id = ''c'', ctx_owner_id = Some ''ann'', ctx_revision = 4, ctx_messages = [], ctx_metadata = []\<rparr>"

definition demo_runtime :: app_state where
  "demo_runtime = \<lparr>ap_contexts = [(''c'', demo_context)], ap_memories = [], ap_sessions = [], ap_files = [],
     ap_skills = \<lparr>sr_skills = [], sr_renderers = []\<rparr>\<rparr>"

definition demo_answer :: chat_response where
  "demo_answer = \<lparr>rs_response_id = None, rs_model_id = ''m'', rs_message = message 2 Role_ASSISTANT,
     rs_finish_reason = None, rs_usage = None, rs_metadata = []\<rparr>"

definition demo_env :: app_env where
  "demo_env = \<lparr>ae_unicode = ascii_unicode, ae_now = 0, ae_schema = \<lparr>js_class = \<lambda>_. Valid_schema, js_validate = \<lambda>_ _. Conforms\<rparr>,
     ae_strategy = \<lambda>c m ms _ ts _. Inr \<lparr>rq_model_id = m, rq_messages = ctx_messages c @ (case ms of None \<Rightarrow> [] | Some ms \<Rightarrow> ms),
       rq_skills = None, rq_tools = ts, rq_prompt_cache = None, rq_metadata = []\<rparr>,
     ae_cache_mode = Cache_PREFER_EXPLICIT, ae_cache_scope = CacheScope_OWNER, ae_sha256 = \<lambda>t. t,
     ae_chat = \<lambda>_ _. return_a demo_answer, ae_chat_stream = \<lambda>_ _. return_a ([], None)\<rparr>"

definition demo_args :: compose_args where
  "demo_args = \<lparr>cm_context_id = ''c'', cm_model_id = ''m'', cm_messages = Some [message 1 Role_USER], cm_memory_query = None,
     cm_skills = None, cm_tools = None, cm_metadata = None\<rparr>"

lemma demo_chat: "fst (chat_with_context demo_env ''p'' None demo_args None demo_runtime) = Inr demo_answer"
  by code_simp

lemma demo_keyed: "keyed ctx_id [(''c'', demo_context)]"
  using keyed_single [of ctx_id demo_context] by (simp add: demo_context_def)

theorem chat_stores_what_was_said_witness:
  "\<exists>s'. chat_with_context demo_env ''p'' None demo_args None demo_runtime = (Inr demo_answer, s')
     \<and> dict_get (ap_contexts s') = [''c'' \<mapsto> demo_context
         \<lparr>ctx_messages := [message 1 Role_USER, message 2 Role_ASSISTANT], ctx_revision := 6\<rparr>]"
proof -
  obtain s' where s': "chat_with_context demo_env ''p'' None demo_args None demo_runtime = (Inr demo_answer, s')"
    using demo_chat by (metis prod.collapse)
  have marked: "mark_retry_messages (cm_context_id demo_args) None None (ap_contexts demo_runtime)
      = (Inr (), [(''c'', demo_context)])"
    by (simp add: mark_retry_messages_def demo_runtime_def)
  have called: "ae_chat demo_env ''p'' r (demo_runtime\<lparr>ap_contexts := [(''c'', demo_context)]\<rparr>) = (Inr demo_answer, s2)
      \<Longrightarrow> keyed ctx_id (ap_contexts s2) \<and> dict_get (ap_contexts s2) (cm_context_id demo_args) = Some demo_context
        \<and> scope_permits None (ctx_owner_id demo_context)
        \<and> (\<forall>k. k \<noteq> cm_context_id demo_args \<longrightarrow> dict_get (ap_contexts s2) k = Map.empty k)" for r s2
    using demo_keyed by (auto simp: demo_env_def demo_args_def dict_get_def)
  from chat_stores_what_was_said [OF s' marked called] s' show ?thesis
    by (simp add: demo_args_def given_messages_def demo_context_def demo_answer_def)
qed

theorem session_seizes_context_witness:
  "\<exists>s'. create_session \<lparr>ses_id = ''s'', ses_owner_id = Some ''eve'', ses_title = None, ses_context_id = ''c'',
       ses_provider_id = None, ses_model_id = None, ses_status = Session_ACTIVE, ses_created_at = 0, ses_updated_at = 0,
       ses_metadata = []\<rparr> (Some \<lparr>scope_owner_id = Some ''eve''\<rparr>) demo_runtime = (Inr \<lparr>ses_id = ''s'', ses_owner_id = Some ''eve'', ses_title = None, ses_context_id = ''c'',
       ses_provider_id = None, ses_model_id = None, ses_status = Session_ACTIVE, ses_created_at = 0, ses_updated_at = 0,
       ses_metadata = []\<rparr>, s')
     \<and> map_option ctx_owner_id (dict_get (ap_contexts s') ''c'') = Some (Some ''eve'')"
  using demo_keyed session_seizes_context [of demo_runtime "\<lparr>ses_id = ''s'', ses_owner_id = Some ''eve'', ses_title = None,
      ses_context_id = ''c'', ses_provider_id = None, ses_model_id = None, ses_status = Session_ACTIVE,
      ses_created_at = 0, ses_updated_at = 0, ses_metadata = []\<rparr>" demo_context "Some \<lparr>scope_owner_id = Some ''eve''\<rparr>"]
  by (auto simp: demo_runtime_def demo_context_def [THEN arg_cong, of ctx_owner_id] keyed_def dict_ok_def dict_keys_def dict_get_def)

definition demo_file :: file_artifact where
  "demo_file = \<lparr>fi_artifact_id = ''f'', fi_name = ''a.png'', fi_title = None, fi_mime_type = ''image/png'',
     fi_size_bytes = length tiny_png, fi_preview_kind = Preview_IMAGE, fi_created_at = 0, fa_owner_id = Some ''ann''\<rparr>"

definition demo_reference :: chat_request where
  "demo_reference = \<lparr>rq_model_id = ''m'', rq_messages = [(message 1 Role_USER)\<lparr>c_content := Some
       [\<lparr>cp_type = Part_IMAGE, cp_text = None, cp_url = None, cp_data = None, cp_artifact_id = Some ''f'',
         cp_mime_type = None, cp_detail = None, cp_metadata = []\<rparr>]\<rparr>],
     rq_skills = None, rq_tools = None, rq_prompt_cache = None, rq_metadata = []\<rparr>"

theorem image_references_bounded_witness:
  "\<exists>r. resolve_image_references [(''f'', (demo_file, tiny_png))] (Some \<lparr>scope_owner_id = Some ''ann''\<rparr>) demo_reference = Inr r
     \<and> length (referenced_parts demo_reference) = 1 \<and> referenced_parts r = []"
proof -
  have len: "length tiny_png \<le> 100" by (simp add: tiny_png_def png_signature_def png_chunk_def of_ascii_def)
  have mime: "bitmap_mime tiny_png = Inr ''image/png''" using tiny_png_valid
    by (simp add: bitmap_mime_def tiny_png_def)
  have refs: "length (referenced_parts demo_reference) = 1"
    by (simp add: referenced_parts_def demo_reference_def parts_of_def is_reference_def)
  let ?d = "[(''f'', (demo_file, tiny_png))]" and ?scope = "Some \<lparr>scope_owner_id = Some ''ann''\<rparr>"
  let ?p = "\<lparr>cp_type = Part_IMAGE, cp_text = None, cp_url = None, cp_data = None, cp_artifact_id = Some ''f'',
         cp_mime_type = None, cp_detail = None, cp_metadata = []\<rparr>"
  have "file_entry ''f'' ?scope ?d = Inr (demo_file, tiny_png)"
    by (simp add: file_entry_def demo_file_def dict_get_Cons)
  then have "file_get ''f'' ?scope ?d = Inr demo_file" "file_read ''f'' ?scope ?d = Inr tiny_png"
    by (simp_all add: file_get_def file_read_def)
  then have access: "no_access (file_get ''f'' ?scope ?d) = Inr demo_file" "no_access (file_read ''f'' ?scope ?d) = Inr tiny_png"
    by simp_all
  have cp: "cp_artifact_id ?p = Some ''f''" by simp
  have "\<exists>q. resolve_part ?d ?scope 0 ?p = Inr q"
    using len mime unfolding resolve_part_def Let_def cp option.sel access bind_e_Inr
    by (simp add: demo_file_def MAX_UPLOAD_BYTES_def MAX_REQUEST_IMAGE_BYTES_def)
  then have "\<exists>r. resolve_image_references ?d ?scope demo_reference = Inr r"
    using refs by (auto simp: resolve_image_references_def MAX_REQUEST_IMAGES_def demo_reference_def parts_of_def
        is_reference_def)
  with refs show ?thesis using image_references_bounded by blast
qed

theorem prompt_cache_isolated_witness:
  "pc_scope_id (compose_cache_policy (\<lambda>t. t) Cache_PREFER_EXPLICIT CacheScope_OWNER (Some ''ann'') ''c'')
     \<noteq> pc_scope_id (compose_cache_policy (\<lambda>t. t) Cache_PREFER_EXPLICIT CacheScope_OWNER (Some ''bob'') ''c'')"
  using prompt_cache_isolated [where identities = UNIV, OF refl refl, of "\<lambda>t. t" CacheScope_OWNER "Some ''ann''" "''c''"
      "Some ''bob''" "''c''"]
  by auto

end
