(* ===== verification/DataAnalysis.thy ===== *)
theory DataAnalysis
  imports Values "HOL-Library.List_Lexorder" "HOL-Library.Char_ord"
begin

text \<open>
  Data analysis: the schemas (\<open>core/schema/data_analysis.py\<close>), the register of sources and the manager
  (\<open>core/domain/data_analysis.py\<close>), and the executor that turns a request into an SQL query
  (\<open>infra/adapters/data_analysis/sqlite.py\<close>).

  What SQLite answers to a query is a parameter; so are \<open>datetime.isoformat\<close> and \<open>str\<close> of a value.  Times are
  microseconds since the epoch.
\<close>

section \<open>Schemas\<close>

datatype data_field_type = Field_STRING | Field_INTEGER | Field_NUMBER | Field_BOOLEAN | Field_DATETIME | Field_JSON

datatype data_aggregation =
  Agg_COUNT | Agg_SUM | Agg_AVERAGE | Agg_MIN | Agg_MAX | Agg_DISTINCT_COUNT | Agg_RATE | Agg_CUSTOM

datatype data_filter_operator =
    Op_EQUALS | Op_NOT_EQUALS | Op_GREATER_THAN | Op_GREATER_THAN_OR_EQUALS | Op_LESS_THAN
  | Op_LESS_THAN_OR_EQUALS | Op_IN | Op_NOT_IN | Op_CONTAINS | Op_BETWEEN

datatype data_sort_direction = Sort_ASC | Sort_DESC

datatype data_insight_kind = Insight_SUMMARY | Insight_TREND | Insight_ANOMALY | Insight_COMPARISON | Insight_RECOMMENDATION

record data_field =
  dfd_field_id :: string
  dfd_name :: string
  dfd_field_type :: data_field_type
  dfd_description :: "string option"
  dfd_metadata :: metadata

record data_metric =
  dmt_metric_id :: string
  dmt_name :: string
  dmt_aggregation :: data_aggregation
  dmt_field_id :: "string option"
  dmt_description :: "string option"
  dmt_unit :: "string option"
  dmt_expression :: "string option"
  dmt_metadata :: metadata

record data_source =
  dso_source_id :: string
  dso_name :: string
  dso_description :: "string option"
  dso_fields :: "data_field list"
  dso_metrics :: "data_metric list"
  dso_metadata :: metadata

record data_time_range =
  dtr_start :: "int option"
  dtr_end :: "int option"
  dtr_field_id :: "string option"

record data_filter =
  dft_field_id :: string
  dft_operator :: data_filter_operator
  dft_value :: pyval

record data_sort =
  dsr_field_id :: string
  dsr_direction :: data_sort_direction

record statistics_request =
  sq_source_id :: string
  sq_metrics :: "string list"
  sq_dimensions :: "string list"
  sq_filters :: "data_filter list"
  sq_time_range :: "data_time_range option"
  sq_sorts :: "data_sort list"
  sq_limit :: "nat option"
  sq_metadata :: metadata

record statistics_row =
  sw_dimensions :: metadata
  sw_metrics :: metadata
  sw_metadata :: metadata

record statistics_result =
  st_source_id :: string
  st_rows :: "statistics_row list"
  st_metadata :: metadata

record analysis_request =
  aq_source_id :: string
  aq_question :: "string option"
  aq_statistics_request :: "statistics_request option"
  aq_metadata :: metadata

record data_insight =
  din_kind :: data_insight_kind
  din_title :: string
  din_summary :: string
  din_evidence :: "statistics_row list"
  din_metadata :: metadata

record analysis_result =
  an_source_id :: string
  an_statistics :: "statistics_result option"
  an_insights :: "data_insight list"
  an_narrative :: "string option"
  an_metadata :: metadata

section \<open>The register\<close>

text \<open>
  An executor or an analyzer runs on a state \<open>'s\<close> and returns a result or some other object.  The owner of an
  executor is the object it is a method of, if any; \<open>de_closable\<close> says whether that object has a \<open>close\<close>.
\<close>

datatype 'a produced = Produced 'a | Other_value

record 's data_executor =
  de_run :: "statistics_request \<Rightarrow> (error, 's, statistics_result produced) act"
  de_owner :: "nat option"
  de_closable :: bool

type_synonym 's data_analyzer = "analysis_request \<Rightarrow> (error, 's, analysis_result produced) act"

record 's data_register =
  dr_sources :: "(string, data_source) dict"
  dr_executors :: "(string, 's data_executor) dict"
  dr_analyzers :: "(string, 's data_analyzer) dict"

definition register_data_source ::
  "data_source \<Rightarrow> 's data_executor \<Rightarrow> 's data_analyzer option \<Rightarrow> 's data_register \<Rightarrow> 's data_register" where
  "register_data_source source x analyzer r =
     r\<lparr>dr_sources := dict_set (dso_source_id source) source (dr_sources r),
       dr_executors := dict_set (dso_source_id source) x (dr_executors r),
       dr_analyzers := (case analyzer of
           Some a \<Rightarrow> dict_set (dso_source_id source) a (dr_analyzers r)
         | None \<Rightarrow> dict_pop (dso_source_id source) (dr_analyzers r))\<rparr>"

definition data_has :: "string \<Rightarrow> 's data_register \<Rightarrow> bool" where
  "data_has source_id r \<longleftrightarrow> dict_has (dr_sources r) source_id \<and> dict_has (dr_executors r) source_id"

definition data_missing :: "string \<Rightarrow> string \<Rightarrow> error" where
  "data_missing source_id what =
     raised (Analysis DataAnalysisNotFoundError) (''The data source '' @ source_id @ '' is not '' @ what)"

definition data_unregister :: "string \<Rightarrow> (error, 's data_register, unit) act" where
  "data_unregister source_id r =
     (if \<not> data_has source_id r then (Inl (data_missing source_id ''registered''), r)
      else (Inr (), r\<lparr>dr_sources := dict_pop source_id (dr_sources r),
              dr_executors := dict_pop source_id (dr_executors r),
              dr_analyzers := dict_pop source_id (dr_analyzers r)\<rparr>))"

definition data_get :: "string \<Rightarrow> 's data_register \<Rightarrow> error + data_source" where
  "data_get source_id r =
     (case (data_has source_id r, dict_get (dr_sources r) source_id) of
        (True, Some s) \<Rightarrow> Inr s
      | _ \<Rightarrow> Inl (data_missing source_id ''found''))"

definition data_get_executor :: "string \<Rightarrow> 's data_register \<Rightarrow> error + 's data_executor" where
  "data_get_executor source_id r =
     (case (data_has source_id r, dict_get (dr_executors r) source_id) of
        (True, Some x) \<Rightarrow> Inr x
      | _ \<Rightarrow> Inl (data_missing source_id ''registered''))"

definition data_get_analyzer :: "string \<Rightarrow> 's data_register \<Rightarrow> error + 's data_analyzer option" where
  "data_get_analyzer source_id r =
     (if data_has source_id r then Inr (dict_get (dr_analyzers r) source_id)
      else Inl (data_missing source_id ''registered''))"

definition data_list_sources :: "'s data_register \<Rightarrow> data_source list" where
  "data_list_sources r = dict_values (dr_sources r)"

text \<open>The owners that \<open>close\<close> closes, in order: the set \<open>closed\<close> of the source is the list so far.\<close>

fun close_owners :: "nat list \<Rightarrow> 's data_executor list \<Rightarrow> nat list" where
  "close_owners shut [] = shut"
| "close_owners shut (x # xs) =
     (case de_owner x of
        None \<Rightarrow> close_owners shut xs
      | Some i \<Rightarrow>
          if i \<in> set shut then close_owners shut xs
          else if de_closable x then close_owners (shut @ [i]) xs
          else close_owners shut xs)"

definition data_close :: "'s data_register \<Rightarrow> nat list" where
  "data_close r = close_owners [] (dict_values (dr_executors r))"

section \<open>The manager\<close>

definition list_fields :: "string \<Rightarrow> 's data_register \<Rightarrow> error + data_field list" where
  "list_fields source_id r = bind_e (data_get source_id r) (\<lambda>s. Inr (dso_fields s))"

definition list_metrics :: "string \<Rightarrow> 's data_register \<Rightarrow> error + data_metric list" where
  "list_metrics source_id r = bind_e (data_get source_id r) (\<lambda>s. Inr (dso_metrics s))"

text \<open>\<open>sorted(set(xs) - known)\<close>, and the error when it is not empty.\<close>

definition unknown_names :: "string set \<Rightarrow> string list \<Rightarrow> string list" where
  "unknown_names known xs = sort (remdups (filter (\<lambda>x. x \<notin> known) xs))"

definition refuse_unknown :: "string \<Rightarrow> string list \<Rightarrow> error + unit" where
  "refuse_unknown what unknown =
     (if unknown \<noteq> []
      then Inl (raised_detail (Analysis DataAnalysisInputError)
             (''The data statistics request includes unknown '' @ what) (join '', '' unknown))
      else Inr ())"

definition field_ids :: "data_source \<Rightarrow> string set" where
  "field_ids source = dfd_field_id ` set (dso_fields source)"

definition metric_ids :: "data_source \<Rightarrow> string set" where
  "metric_ids source = dmt_metric_id ` set (dso_metrics source)"

definition check_time_range :: "string set \<Rightarrow> data_time_range option \<Rightarrow> error + unit" where
  "check_time_range known period =
     (case Option.bind period dtr_field_id of
        None \<Rightarrow> Inr ()
      | Some f \<Rightarrow>
          if f \<notin> known
          then Inl (raised_detail (Analysis DataAnalysisInputError)
                 ''The data statistics request includes an unknown time range field'' f)
          else Inr ())"

definition validate_statistics_request :: "statistics_request \<Rightarrow> 's data_register \<Rightarrow> error + data_source" where
  "validate_statistics_request q r =
     bind_e (data_get (sq_source_id q) r) (\<lambda>source.
     let known = field_ids source; metrics = metric_ids source
     in if sq_metrics q = []
        then Inl (raised (Analysis DataAnalysisInputError)
               ''The data statistics request must include at least one metric'')
        else
          bind_e (refuse_unknown ''metrics'' (unknown_names metrics (sq_metrics q))) (\<lambda>_.
          bind_e (refuse_unknown ''dimensions'' (unknown_names known (sq_dimensions q))) (\<lambda>_.
          bind_e (refuse_unknown ''filter fields'' (unknown_names known (map dft_field_id (sq_filters q)))) (\<lambda>_.
          bind_e (refuse_unknown ''sort fields'' (unknown_names (known \<union> metrics) (map dsr_field_id (sq_sorts q)))) (\<lambda>_.
          bind_e (check_time_range known (sq_time_range q)) (\<lambda>_. Inr source))))))"

definition validate_statistics_result ::
  "statistics_request \<Rightarrow> statistics_result produced \<Rightarrow> error + statistics_result" where
  "validate_statistics_result q result =
     (case result of
        Other_value \<Rightarrow> Inl (raised (Analysis DataAnalysisResultError)
          ''The data statistics result must be a DataStatisticsResult'')
      | Produced x \<Rightarrow>
          if st_source_id x \<noteq> sq_source_id q
          then Inl (raised (Analysis DataAnalysisResultError)
                 ''The data statistics result source must match the request source'')
          else Inr x)"

definition validate_analysis_result ::
  "analysis_request \<Rightarrow> analysis_result produced \<Rightarrow> error + analysis_result" where
  "validate_analysis_result q result =
     (case result of
        Other_value \<Rightarrow> Inl (raised (Analysis DataAnalysisResultError)
          ''The data analysis result must be a DataAnalysisResult'')
      | Produced x \<Rightarrow>
          if an_source_id x \<noteq> aq_source_id q
          then Inl (raised (Analysis DataAnalysisResultError)
                 ''The data analysis result source must match the request source'')
          else Inr x)"

text \<open>\<open>except\<close> of the classes \<open>passed\<close>: they go on, every other exception becomes an error of the source.\<close>

definition execution_error :: "data_analysis_error list \<Rightarrow> data_analysis_error \<Rightarrow> string \<Rightarrow> error \<Rightarrow> error" where
  "execution_error passed class message e =
     (if list_ex (\<lambda>c. isinstance (error_class e) (Analysis c)) passed then e
      else Error (Analysis class) message None (Some e))"

definition statistics :: "'s data_register \<Rightarrow> statistics_request \<Rightarrow> (error, 's, statistics_result) act" where
  "statistics r q =
     bind_a (lift_a (validate_statistics_request q r)) (\<lambda>source.
     bind_a (lift_a (data_get_executor (dso_source_id source) r)) (\<lambda>x s.
       case de_run x q s of
         (Inl e, s) \<Rightarrow> (Inl (execution_error [DataAnalysisInputError, DataStatisticsExecutionError]
             DataStatisticsExecutionError (''The data source '' @ dso_source_id source @ '' statistics failed'') e), s)
       | (Inr result, s) \<Rightarrow> (validate_statistics_result q result, s)))"

definition analyze_statistics ::
  "'s data_register \<Rightarrow> data_source \<Rightarrow> analysis_request \<Rightarrow> (error, 's, analysis_result) act" where
  "analyze_statistics r source q =
     (case aq_statistics_request q of
        None \<Rightarrow> raise_a (raised (Analysis DataAnalysisInputError)
          (''The data analysis request must include a statistics request ''
           @ ''when no analyzer is registered''))
      | Some sq \<Rightarrow> bind_a (statistics r sq) (\<lambda>x. return_a
          \<lparr>an_source_id = dso_source_id source, an_statistics = Some x, an_insights = [], an_narrative = None,
           an_metadata = [(''manager'', PStr ''DataAnalysisManager''), (''analyzer'', PNone)]\<rparr>))"

definition analyze :: "'s data_register \<Rightarrow> analysis_request \<Rightarrow> (error, 's, analysis_result) act" where
  "analyze r q =
     bind_a (lift_a (data_get (aq_source_id q) r)) (\<lambda>source.
     bind_a (lift_a (data_get_analyzer (dso_source_id source) r)) (\<lambda>analyzer.
       case analyzer of
         None \<Rightarrow> analyze_statistics r source q
       | Some run \<Rightarrow> (\<lambda>s. case run q s of
             (Inl e, s) \<Rightarrow> (Inl (execution_error [DataAnalysisExecutionError] DataAnalysisExecutionError
                 (''The data source '' @ dso_source_id source @ '' analysis failed'') e), s)
           | (Inr result, s) \<Rightarrow> (validate_analysis_result q result, s))))"

section \<open>The SQL query of a request\<close>

text \<open>\<open>re.compile("^[A-Za-z_][A-Za-z0-9_]*$").fullmatch\<close>; the names are ASCII or refused.\<close>

definition sql_letter :: "char \<Rightarrow> bool" where
  "sql_letter c \<longleftrightarrow> (let n = of_char c :: nat in 65 \<le> n \<and> n \<le> 90 \<or> 97 \<le> n \<and> n \<le> 122 \<or> n = 95)"

definition sql_name_char :: "char \<Rightarrow> bool" where
  "sql_name_char c \<longleftrightarrow> sql_letter c \<or> (let n = of_char c :: nat in 48 \<le> n \<and> n \<le> 57)"

definition sql_identifier :: "string \<Rightarrow> bool" where
  "sql_identifier s \<longleftrightarrow> (case s of [] \<Rightarrow> False | c # cs \<Rightarrow> sql_letter c \<and> list_all sql_name_char cs)"

definition quote_identifier :: "string \<Rightarrow> error + string" where
  "quote_identifier s =
     (if \<not> sql_identifier s
      then Inl (raised_detail (Analysis DataAnalysisInputError)
             (''SQLite data analysis identifiers must contain only letters, '' @ ''numbers, and underscores'') s)
      else Inr (CHR 0x22 # s @ [CHR 0x22]))"

definition metadata_name :: "pyval \<Rightarrow> string \<Rightarrow> string" where
  "metadata_name v fallback = (case v of PStr s \<Rightarrow> if s = [] then fallback else s | _ \<Rightarrow> fallback)"

definition sqlite_table_name :: "data_source \<Rightarrow> string" where
  "sqlite_table_name source =
     (let v = meta_get (dso_metadata source) ''sqlite_table''
      in metadata_name (if truthy v then v else meta_get (dso_metadata source) ''sqlite_view'') (dso_source_id source))"

definition sqlite_column_name :: "string \<Rightarrow> metadata \<Rightarrow> string" where
  "sqlite_column_name field_id m = metadata_name (meta_get m ''sqlite_column'') field_id"

record sqlite_executor =
  sx_source :: data_source
  sx_table_name :: string
  sx_field_columns :: "(string, string) dict"

definition new_sqlite_executor :: "data_source \<Rightarrow> string option \<Rightarrow> sqlite_executor" where
  "new_sqlite_executor source table_name =
     \<lparr>sx_source = source,
      sx_table_name = (case table_name of Some (c # t) \<Rightarrow> c # t | _ \<Rightarrow> sqlite_table_name source),
      sx_field_columns = fold (\<lambda>f. dict_set (dfd_field_id f) (sqlite_column_name (dfd_field_id f) (dfd_metadata f)))
        (dso_fields source) []\<rparr>"

definition field_column :: "sqlite_executor \<Rightarrow> string \<Rightarrow> error + string" where
  "field_column x f =
     (case dict_get (sx_field_columns x) f of
        None \<Rightarrow> Inl (raised (PyException ''KeyError'') f)
      | Some c \<Rightarrow> quote_identifier c)"

text \<open>\<open>next\<close> without a default in a coroutine: \<open>StopIteration\<close> becomes a \<open>RuntimeError\<close>.\<close>

fun find_metric :: "string \<Rightarrow> data_metric list \<Rightarrow> error + data_metric" where
  "find_metric i [] = Inl (raised (PyException ''RuntimeError'') ''coroutine raised StopIteration'')"
| "find_metric i (m # ms) = (if dmt_metric_id m = i then Inr m else find_metric i ms)"

definition aggregate_sql :: "data_metric \<Rightarrow> string option \<Rightarrow> error + string" where
  "aggregate_sql m column =
     (case (dmt_aggregation m, column) of
        (Agg_COUNT, Some f) \<Rightarrow> Inr (''COUNT('' @ f @ '')'')
      | (Agg_COUNT, None) \<Rightarrow> Inr ''COUNT(*)''
      | (_, None) \<Rightarrow> Inl (raised (Analysis DataAnalysisInputError)
          (''The metric '' @ dmt_metric_id m @ '' requires a field''))
      | (Agg_SUM, Some f) \<Rightarrow> Inr (''SUM('' @ f @ '')'')
      | (Agg_AVERAGE, Some f) \<Rightarrow> Inr (''AVG('' @ f @ '')'')
      | (Agg_MIN, Some f) \<Rightarrow> Inr (''MIN('' @ f @ '')'')
      | (Agg_MAX, Some f) \<Rightarrow> Inr (''MAX('' @ f @ '')'')
      | (Agg_DISTINCT_COUNT, Some f) \<Rightarrow> Inr (''COUNT(DISTINCT '' @ f @ '')'')
      | _ \<Rightarrow> Inl (raised (Analysis DataAnalysisInputError)
          (''The metric '' @ dmt_metric_id m @ '' aggregation is not supported by SQLite'')))"

definition metric_sql :: "sqlite_executor \<Rightarrow> string \<Rightarrow> error + string" where
  "metric_sql x metric_id =
     bind_e (find_metric metric_id (dso_metrics (sx_source x))) (\<lambda>m.
     bind_e (case dmt_field_id m of None \<Rightarrow> Inr None | Some f \<Rightarrow> bind_e (field_column x f) (\<lambda>c. Inr (Some c)))
       (aggregate_sql m))"

fun operator_value :: "data_filter_operator \<Rightarrow> string" where
  "operator_value Op_EQUALS = ''equals''"
| "operator_value Op_NOT_EQUALS = ''not_equals''"
| "operator_value Op_GREATER_THAN = ''greater_than''"
| "operator_value Op_GREATER_THAN_OR_EQUALS = ''greater_than_or_equals''"
| "operator_value Op_LESS_THAN = ''less_than''"
| "operator_value Op_LESS_THAN_OR_EQUALS = ''less_than_or_equals''"
| "operator_value Op_IN = ''in''"
| "operator_value Op_NOT_IN = ''not_in''"
| "operator_value Op_CONTAINS = ''contains''"
| "operator_value Op_BETWEEN = ''between''"

definition list_value :: "pyval \<Rightarrow> string \<Rightarrow> error + pyval list" where
  "list_value v operator =
     (case v of
        PList (x # xs) \<Rightarrow> Inr (x # xs)
      | _ \<Rightarrow> Inl (raised (Analysis DataAnalysisInputError)
          (''The '' @ operator @ '' filter requires a non-empty list'')))"

fun comparison :: "data_filter_operator \<Rightarrow> string option" where
  "comparison Op_EQUALS = Some ''=''"
| "comparison Op_NOT_EQUALS = Some ''!=''"
| "comparison Op_GREATER_THAN = Some ''>''"
| "comparison Op_GREATER_THAN_OR_EQUALS = Some ''>=''"
| "comparison Op_LESS_THAN = Some ''<''"
| "comparison Op_LESS_THAN_OR_EQUALS = Some ''<=''"
| "comparison _ = None"

text \<open>The condition of a filter and the parameters it adds; \<open>str_of\<close> is \<open>str\<close> of a value.\<close>

definition filter_sql ::
  "(pyval \<Rightarrow> string) \<Rightarrow> sqlite_executor \<Rightarrow> data_filter \<Rightarrow> error + string \<times> pyval list" where
  "filter_sql str_of x f =
     bind_e (field_column x (dft_field_id f)) (\<lambda>column.
       let operator = dft_operator f; v = dft_value f
       in case comparison operator of
            Some c \<Rightarrow> Inr (column @ '' '' @ c @ '' ?'', [v])
          | None \<Rightarrow>
              if operator = Op_CONTAINS then Inr (column @ '' LIKE ?'', [PStr (''%'' @ str_of v @ ''%'')])
              else if operator = Op_IN \<or> operator = Op_NOT_IN
              then bind_e (list_value v (operator_value operator)) (\<lambda>vs.
                Inr (column @ (if operator = Op_IN then '' IN ('' else '' NOT IN ('')
                  @ join '', '' (map (\<lambda>_. ''?'') vs) @ '')'', vs))
              else bind_e (list_value v (operator_value operator)) (\<lambda>vs.
                if length vs \<noteq> 2
                then Inl (raised (Analysis DataAnalysisInputError) ''The between filter requires two values'')
                else Inr (column @ '' BETWEEN ? AND ?'', vs)))"

text \<open>A loop that collects what each step returns, and stops at the first error.\<close>

fun collect :: "('a \<Rightarrow> error + 'b) \<Rightarrow> 'a list \<Rightarrow> error + 'b list" where
  "collect f [] = Inr []"
| "collect f (x # xs) = bind_e (f x) (\<lambda>y. bind_e (collect f xs) (\<lambda>ys. Inr (y # ys)))"

definition time_sql ::
  "(int \<Rightarrow> string) \<Rightarrow> sqlite_executor \<Rightarrow> data_time_range option \<Rightarrow> error + (string \<times> pyval list) list" where
  "time_sql isoformat x period =
     (case period of
        None \<Rightarrow> Inr []
      | Some t \<Rightarrow> (case dtr_field_id t of
          None \<Rightarrow> Inr []
        | Some f \<Rightarrow> bind_e (field_column x f) (\<lambda>column. Inr (
            (case dtr_start t of None \<Rightarrow> [] | Some i \<Rightarrow> [(column @ '' >= ?'', [PStr (isoformat i)])])
            @ (case dtr_end t of None \<Rightarrow> [] | Some i \<Rightarrow> [(column @ '' <= ?'', [PStr (isoformat i)])])))))"

definition dimension_sql :: "sqlite_executor \<Rightarrow> string \<Rightarrow> error + string \<times> string" where
  "dimension_sql x d =
     bind_e (field_column x d) (\<lambda>column. bind_e (quote_identifier d) (\<lambda>a. Inr (column @ '' AS '' @ a, column)))"

definition select_metric :: "sqlite_executor \<Rightarrow> string \<Rightarrow> error + string" where
  "select_metric x m = bind_e (metric_sql x m) (\<lambda>sql. bind_e (quote_identifier m) (\<lambda>a. Inr (sql @ '' AS '' @ a)))"

definition sort_sql :: "data_sort \<Rightarrow> error + string" where
  "sort_sql o1 =
     bind_e (quote_identifier (dsr_field_id o1)) (\<lambda>f.
       Inr (f @ (case dsr_direction o1 of Sort_ASC \<Rightarrow> '' ASC'' | Sort_DESC \<Rightarrow> '' DESC'')))"

definition query_text ::
  "string \<Rightarrow> (string \<times> string) list \<Rightarrow> string list \<Rightarrow> (string \<times> pyval list) list \<Rightarrow> string list \<Rightarrow> nat option \<Rightarrow> string" where
  "query_text tbl dims metrics wheres sorts limit = join '' ''
     ([''SELECT '' @ join '', '' (map fst dims @ metrics) @ '' FROM '' @ tbl]
      @ (if wheres \<noteq> [] then [''WHERE '' @ join '' AND '' (map fst wheres)] else [])
      @ (if dims \<noteq> [] then [''GROUP BY '' @ join '', '' (map snd dims)] else [])
      @ (if sorts \<noteq> [] then [''ORDER BY '' @ join '', '' sorts] else [])
      @ (if limit \<noteq> None then [''LIMIT ?''] else []))"

definition build_query ::
  "(pyval \<Rightarrow> string) \<Rightarrow> (int \<Rightarrow> string) \<Rightarrow> sqlite_executor \<Rightarrow> statistics_request
     \<Rightarrow> error + string \<times> pyval list" where
  "build_query str_of isoformat x q =
     bind_e (quote_identifier (sx_table_name x)) (\<lambda>tbl.
     bind_e (collect (dimension_sql x) (sq_dimensions q)) (\<lambda>dims.
     bind_e (collect (select_metric x) (sq_metrics q)) (\<lambda>metrics.
     bind_e (collect (filter_sql str_of x) (sq_filters q)) (\<lambda>filters.
     bind_e (time_sql isoformat x (sq_time_range q)) (\<lambda>times.
     bind_e (collect sort_sql (sq_sorts q)) (\<lambda>sorts.
       let wheres = filters @ times
       in Inr (query_text tbl dims metrics wheres sorts (sq_limit q),
            concat (map snd wheres) @ (case sq_limit q of None \<Rightarrow> [] | Some n \<Rightarrow> [PInt (int n)]))))))))"

text \<open>
  The executor: \<open>run_sql\<close> stands for the connection; it returns the rows, each by the name of its column, or an
  \<open>sqlite3.Error\<close> with its text.
\<close>

type_synonym 's sql_run = "string \<Rightarrow> pyval list \<Rightarrow> (error, 's, (string \<Rightarrow> pyval) list) act"

definition sqlite_statistics ::
  "(pyval \<Rightarrow> string) \<Rightarrow> (int \<Rightarrow> string) \<Rightarrow> 's sql_run \<Rightarrow> sqlite_executor \<Rightarrow> statistics_request
     \<Rightarrow> (error, 's, statistics_result produced) act" where
  "sqlite_statistics str_of isoformat run_sql x q =
     bind_a (lift_a (build_query str_of isoformat x q)) (\<lambda>(sql, params) s.
       case run_sql sql params s of
         (Inl e, s) \<Rightarrow> (Inl (Error (Analysis DataStatisticsExecutionError)
             (''The SQLite data source '' @ dso_source_id (sx_source x) @ '' statistics failed'')
             (Some (error_message e)) (Some e)), s)
       | (Inr rows, s) \<Rightarrow> (Inr (Produced \<lparr>st_source_id = sq_source_id q,
             st_rows = map (\<lambda>row. \<lparr>sw_dimensions = fold (\<lambda>d. dict_set d (row d)) (sq_dimensions q) [],
                 sw_metrics = fold (\<lambda>m. dict_set m (row m)) (sq_metrics q) [], sw_metadata = []\<rparr>) rows,
             st_metadata = [(''executor'', PStr ''SQLiteDataStatisticsExecutor''),
               (''table'', PStr (sx_table_name x))]\<rparr>), s))"

end
