(* ===== verification/DataFacts.thy ===== *)
theory DataFacts
  imports DataAnalysis
begin

text \<open>
  What holds of data analysis: the text of a query contains nothing but declared names and fixed words, with one
  placeholder per parameter, and does not depend on the values; requests on well-formed sources always
  have a query; and the manager reports every failure as an error of data analysis.
\<close>

section \<open>The text of a query\<close>

text \<open>
  A query is written in fixed words, quoted identifiers and placeholders.  \<open>sql_form names n t\<close>: the text \<open>t\<close> is made of
  such pieces, with \<open>n\<close> placeholders and with identifiers among \<open>names\<close>.
\<close>

datatype sql_piece = Word string | Name string | Mark

fun piece_text :: "sql_piece \<Rightarrow> string" where
  "piece_text (Word w) = w"
| "piece_text (Name i) = CHR 0x22 # i @ [CHR 0x22]"
| "piece_text Mark = ''?''"

definition SQL_WORDS :: "string list" where
  "SQL_WORDS = [''SELECT '', '', '', '' FROM '', '' '', ''WHERE '', '' AND '', ''GROUP BY '', ''ORDER BY '', ''LIMIT '', '' AS '',
     '' ASC'', '' DESC'', ''COUNT(*)'', ''COUNT('', ''COUNT(DISTINCT '', ''SUM('', ''AVG('', ''MIN('', ''MAX('', '')'',
     '' = '', '' != '', '' > '', '' >= '', '' < '', '' <= '', '' LIKE '', '' IN ('', '' NOT IN ('', '' BETWEEN '']"

fun piece_ok :: "string set \<Rightarrow> sql_piece \<Rightarrow> bool" where
  "piece_ok names (Word w) \<longleftrightarrow> w \<in> set SQL_WORDS"
| "piece_ok names (Name i) \<longleftrightarrow> i \<in> names \<and> sql_identifier i"
| "piece_ok names Mark \<longleftrightarrow> True"

definition sql_form :: "string set \<Rightarrow> nat \<Rightarrow> string \<Rightarrow> bool" where
  "sql_form names n t \<longleftrightarrow>
     (\<exists>ps. t = concat (map piece_text ps) \<and> list_all (piece_ok names) ps \<and> count_list ps Mark = n)"

lemma sql_form_empty: "sql_form names 0 []"
  by (auto simp: sql_form_def intro!: exI [of _ "[]"])

lemma sql_form_append:
  assumes "sql_form names m s" "sql_form names n t"
  shows "sql_form names (m + n) (s @ t)"
proof -
  from assms obtain ps qs where "s = concat (map piece_text ps)" "list_all (piece_ok names) ps" "count_list ps Mark = m"
    "t = concat (map piece_text qs)" "list_all (piece_ok names) qs" "count_list qs Mark = n"
    unfolding sql_form_def by blast
  then show ?thesis unfolding sql_form_def by (intro exI [of _ "ps @ qs"]) simp
qed

lemma sql_form_word: "w \<in> set SQL_WORDS \<Longrightarrow> sql_form names 0 w"
  unfolding sql_form_def by (intro exI [of _ "[Word w]"]) simp

lemma sql_form_mark: "sql_form names 1 ''?''"
  unfolding sql_form_def by (intro exI [of _ "[Mark]"]) simp

lemma sql_form_word_mark: "w \<in> set SQL_WORDS \<Longrightarrow> sql_form names 1 (w @ ''?'')"
  using sql_form_append [OF sql_form_word sql_form_mark] by simp

lemma sql_form_quoted: "quote_identifier s = Inr t \<Longrightarrow> s \<in> names \<Longrightarrow> sql_form names 0 t"
  unfolding sql_form_def
  by (intro exI [of _ "[Name s]"]) (simp add: quote_identifier_def split: if_splits)

lemma sql_form_then: "sql_form names m s \<Longrightarrow> w \<in> set SQL_WORDS \<Longrightarrow> sql_form names m (s @ w)"
  using sql_form_append [OF _ sql_form_word] by fastforce

lemma sql_form_after: "w \<in> set SQL_WORDS \<Longrightarrow> sql_form names m s \<Longrightarrow> sql_form names m (w @ s)"
  using sql_form_append [OF sql_form_word] by fastforce

lemma sql_form_join:
  "w \<in> set SQL_WORDS \<Longrightarrow> list_all2 (sql_form names) ns ts \<Longrightarrow> sql_form names (sum_list ns) (join w ts)"
proof (induction w ts arbitrary: ns rule: join.induct)
  case (3 w s t ts)
  then obtain n ms where ns: "ns = n # ms" "sql_form names n s" "list_all2 (sql_form names) ms (t # ts)"
    by (auto simp: list_all2_Cons2)
  from sql_form_append [OF ns(2) sql_form_after [OF 3(2) "3.IH" [OF 3(2) ns(3)]]] ns(1) show ?case by simp
qed (auto simp: list_all2_Cons2 sql_form_empty)

lemma sql_form_join_plain:
  assumes "w \<in> set SQL_WORDS" "list_all (sql_form names 0) ts"
  shows "sql_form names 0 (join w ts)"
proof -
  have "list_all2 (sql_form names) (map (\<lambda>_. 0) ts) ts" using assms(2) by (induction ts) auto
  from sql_form_join [OF assms(1) this] show ?thesis by (simp add: sum_list_triv)
qed

text \<open>The names of a source, and those that a request uses as aliases and for sorting.\<close>

definition query_names :: "sqlite_executor \<Rightarrow> statistics_request \<Rightarrow> string set" where
  "query_names x q = {sx_table_name x} \<union> set (dict_values (sx_field_columns x))
     \<union> set (sq_dimensions q) \<union> set (sq_metrics q) \<union> dsr_field_id ` set (sq_sorts q)"

lemma words: "set SQL_WORDS = {''SELECT '', '', '', '' FROM '', '' '', ''WHERE '', '' AND '', ''GROUP BY '', ''ORDER BY '', ''LIMIT '',
     '' AS '', '' ASC'', '' DESC'', ''COUNT(*)'', ''COUNT('', ''COUNT(DISTINCT '', ''SUM('', ''AVG('', ''MIN('', ''MAX('', '')'',
     '' = '', '' != '', '' > '', '' >= '', '' < '', '' <= '', '' LIKE '', '' IN ('', '' NOT IN ('', '' BETWEEN ''}"
  by (simp only: SQL_WORDS_def list.set)

lemma field_column_form:
  assumes "field_column x f = Inr t" "set (dict_values (sx_field_columns x)) \<subseteq> names"
  shows "sql_form names 0 t"
proof -
  from assms(1) obtain c where "dict_get (sx_field_columns x) f = Some c" "quote_identifier c = Inr t"
    by (auto simp: field_column_def split: option.splits)
  with assms(2) show ?thesis
    by (auto intro!: sql_form_quoted simp: dict_get_def dict_values_def dest!: map_of_SomeD)
qed

lemma wrapped_form: "f \<in> set SQL_WORDS \<Longrightarrow> sql_form names 0 c \<Longrightarrow> sql_form names 0 (f @ c @ '')'')"
  by (intro sql_form_after sql_form_then) (simp_all add: words)

lemma aggregate_form:
  assumes "aggregate_sql m column = Inr t" "\<And>c. column = Some c \<Longrightarrow> sql_form names 0 c"
  shows "sql_form names 0 t"
proof -
  have "sql_form names 0 ''COUNT(*)''" by (rule sql_form_word) (simp add: words)
  moreover have "sql_form names 0 (''COUNT('' @ c @ '')'')" "sql_form names 0 (''SUM('' @ c @ '')'')"
    "sql_form names 0 (''AVG('' @ c @ '')'')" "sql_form names 0 (''MIN('' @ c @ '')'')"
    "sql_form names 0 (''MAX('' @ c @ '')'')" "sql_form names 0 (''COUNT(DISTINCT '' @ c @ '')'')" if "sql_form names 0 c" for c
    by (intro wrapped_form that; simp add: words)+
  ultimately show ?thesis
    using assms by (auto simp: aggregate_sql_def simp del: append_Cons split: data_aggregation.splits option.splits)
qed

lemma metric_form:
  assumes "metric_sql x m = Inr t" "set (dict_values (sx_field_columns x)) \<subseteq> names"
  shows "sql_form names 0 t"
  using assms
  by (auto simp: metric_sql_def bind_e_eq_Inr split: option.splits dest!: field_column_form dest: aggregate_form)

lemma collect_list_all2: "collect f xs = Inr ys \<Longrightarrow> list_all2 (\<lambda>x y. f x = Inr y) xs ys"
  by (induction xs arbitrary: ys) (auto simp: bind_e_eq_Inr)

lemma collect_all: "collect f xs = Inr ys \<Longrightarrow> (\<And>x y. f x = Inr y \<Longrightarrow> P y) \<Longrightarrow> list_all P ys"
  by (induction xs arbitrary: ys) (auto simp: bind_e_eq_Inr)

text \<open>A condition with as many placeholders as it has parameters.\<close>

definition condition_ok :: "string set \<Rightarrow> string \<times> pyval list \<Rightarrow> bool" where
  "condition_ok names w \<longleftrightarrow> sql_form names (length (snd w)) (fst w)"

lemma comparison_word: "comparison operator = Some c \<Longrightarrow> '' '' @ c @ '' '' \<in> set SQL_WORDS"
  by (cases operator) (auto simp: words)

lemma placeholders_form: "sql_form names (length vs) (join '', '' (map (\<lambda>_. ''?'') vs))"
proof -
  have "'', '' \<in> set SQL_WORDS" by (simp add: words)
  moreover have "list_all2 (sql_form names) (map (\<lambda>_. 1) vs) (map (\<lambda>_. ''?'') vs)"
    using sql_form_mark by (induction vs) auto
  ultimately show ?thesis using sql_form_join by (fastforce simp: sum_list_triv)
qed

lemma column_mark:
  assumes "sql_form names 0 column" "w \<in> set SQL_WORDS"
  shows "sql_form names 1 (column @ w @ ''?'')"
  using sql_form_append [OF assms(1) sql_form_word_mark [OF assms(2)]] by simp

lemma in_form:
  assumes "sql_form names 0 column" "w \<in> set SQL_WORDS"
  shows "sql_form names (length vs) (column @ w @ join '', '' (map (\<lambda>_. ''?'') vs) @ '')'')"
proof -
  have "'')'' \<in> set SQL_WORDS" by (simp add: words)
  from sql_form_append [OF assms(1) sql_form_after [OF assms(2) sql_form_then [OF placeholders_form this]]]
  show ?thesis by simp
qed

lemma between_form:
  assumes "sql_form names 0 column"
  shows "sql_form names 2 (column @ '' BETWEEN ? AND ?'')"
proof -
  have w: "'' BETWEEN '' \<in> set SQL_WORDS" "'' AND '' \<in> set SQL_WORDS" by (simp_all add: words)
  from sql_form_append [OF column_mark [OF assms w(1)] sql_form_word_mark [OF w(2)]]
  show ?thesis by (simp add: numeral_2_eq_2)
qed

lemma filter_sql_ok:
  assumes "filter_sql str_of x f = Inr w" "set (dict_values (sx_field_columns x)) \<subseteq> names"
  shows "condition_ok names w"
proof -
  from assms(1) obtain column where c: "field_column x (dft_field_id f) = Inr column"
    and w: "(case comparison (dft_operator f) of
            Some c \<Rightarrow> Inr (column @ '' '' @ c @ '' ?'', [dft_value f])
          | None \<Rightarrow>
              if dft_operator f = Op_CONTAINS then Inr (column @ '' LIKE ?'', [PStr (''%'' @ str_of (dft_value f) @ ''%'')])
              else if dft_operator f = Op_IN \<or> dft_operator f = Op_NOT_IN
              then bind_e (list_value (dft_value f) (operator_value (dft_operator f))) (\<lambda>vs.
                Inr (column @ (if dft_operator f = Op_IN then '' IN ('' else '' NOT IN ('')
                  @ join '', '' (map (\<lambda>_. ''?'') vs) @ '')'', vs))
              else bind_e (list_value (dft_value f) (operator_value (dft_operator f))) (\<lambda>vs.
                if length vs \<noteq> 2
                then Inl (raised (Analysis DataAnalysisInputError) ''The between filter requires two values'')
                else Inr (column @ '' BETWEEN ? AND ?'', vs))) = Inr w"
    unfolding filter_sql_def bind_e_eq_Inr Let_def by blast
  note col = field_column_form [OF c assms(2)]
  show ?thesis
  proof (cases "comparison (dft_operator f)")
    case (Some k)
    with w column_mark [OF col comparison_word [OF Some]] show ?thesis by (auto simp: condition_ok_def)
  next
    case None
    have like: "sql_form names 1 (column @ '' LIKE ?'')" using column_mark [OF col, of "'' LIKE ''"] by (simp add: words)
    have member: "sql_form names (length vs) (column @ '' IN ('' @ join '', '' (map (\<lambda>_. ''?'') vs) @ '')'')"
      "sql_form names (length vs) (column @ '' NOT IN ('' @ join '', '' (map (\<lambda>_. ''?'') vs) @ '')'')" for vs :: "pyval list"
      by (rule in_form [OF col]; simp add: words)+
    from None w like member between_form [OF col] show ?thesis
      by (auto simp: condition_ok_def bind_e_eq_Inr simp del: append_Cons split: if_splits)
  qed
qed

lemma time_sql_ok:
  assumes "time_sql isoformat x period = Inr ws" "set (dict_values (sx_field_columns x)) \<subseteq> names"
  shows "list_all (condition_ok names) ws"
proof -
  have bounds: "sql_form names 1 (column @ '' >= ?'')" "sql_form names 1 (column @ '' <= ?'')" if "sql_form names 0 column" for column
    using column_mark [OF that, of "'' >= ''"] column_mark [OF that, of "'' <= ''"] by (simp_all add: words)
  have "sql_form names 0 c" if "field_column x f = Inr c" for f c
    by (rule field_column_form [OF that assms(2)])
  with assms(1) bounds show ?thesis
    by (auto simp: time_sql_def bind_e_eq_Inr condition_ok_def simp del: append_Cons split: option.splits)
qed

lemma alias_form:
  assumes "sql_form names 0 c" "quote_identifier d = Inr t" "d \<in> names"
  shows "sql_form names 0 (c @ '' AS '' @ t)"
proof -
  have "'' AS '' \<in> set SQL_WORDS" by (simp add: words)
  from sql_form_append [OF assms(1) sql_form_after [OF this sql_form_quoted [OF assms(2,3)]]] show ?thesis by simp
qed

lemma dimension_form:
  assumes "dimension_sql x d = Inr p" "set (dict_values (sx_field_columns x)) \<subseteq> names" "d \<in> names"
  shows "sql_form names 0 (fst p) \<and> sql_form names 0 (snd p)"
proof -
  from assms(1) obtain c t where "field_column x d = Inr c" "quote_identifier d = Inr t" "p = (c @ '' AS '' @ t, c)"
    unfolding dimension_sql_def bind_e_eq_Inr by blast
  with field_column_form [OF _ assms(2)] alias_form [OF _ _ assms(3)] show ?thesis by (simp del: append_Cons)
qed

lemma select_metric_form:
  assumes "select_metric x m = Inr t" "set (dict_values (sx_field_columns x)) \<subseteq> names" "m \<in> names"
  shows "sql_form names 0 t"
proof -
  from assms(1) obtain c i where "metric_sql x m = Inr c" "quote_identifier m = Inr i" "t = c @ '' AS '' @ i"
    unfolding select_metric_def bind_e_eq_Inr by blast
  with metric_form [OF _ assms(2)] alias_form [OF _ _ assms(3)] show ?thesis by (simp del: append_Cons)
qed

lemma sort_form:
  assumes "sort_sql o1 = Inr t" "dsr_field_id o1 \<in> names"
  shows "sql_form names 0 t"
  using assms sql_form_then [OF sql_form_quoted]
  by (auto simp: sort_sql_def bind_e_eq_Inr words split: data_sort_direction.split)

lemma collect_forms:
  assumes "collect f xs = Inr ys" "\<And>x y. x \<in> set xs \<Longrightarrow> f x = Inr y \<Longrightarrow> P y"
  shows "list_all P ys"
  using assms
proof (induction xs arbitrary: ys)
  case (Cons a xs)
  then obtain z zs where "f a = Inr z" "collect f xs = Inr zs" "ys = z # zs" by (auto simp: bind_e_eq_Inr)
  moreover from this have "P z" by (intro Cons.prems(2) [of a]) simp_all
  moreover from calculation have "list_all P zs" by (intro Cons.IH Cons.prems(2)) auto
  ultimately show ?case by simp
qed simp

lemma query_text_form:
  assumes "list_all (\<lambda>p. sql_form names 0 (fst p) \<and> sql_form names 0 (snd p)) dims" "list_all (sql_form names 0) metrics"
    and "list_all (condition_ok names) ws" "list_all (sql_form names 0) sorts" "sql_form names 0 tbl"
  shows "sql_form names (length (concat (map snd ws)) + (if limit = None then 0 else 1))
    (query_text tbl dims metrics ws sorts limit)"
proof -
  have comma: "'', '' \<in> set SQL_WORDS" and blank: "'' '' \<in> set SQL_WORDS" and land: "'' AND '' \<in> set SQL_WORDS"
    by (simp_all add: words)
  have cols: "list_all (sql_form names 0) (map fst dims @ metrics)" "list_all (sql_form names 0) (map snd dims)"
    using assms(1,2) by (auto simp: list_all_iff)
  have conditions: "list_all2 (sql_form names) (map (length \<circ> snd) ws) (map fst ws)"
    using assms(3) by (induction ws) (auto simp: condition_ok_def)
  have select: "sql_form names 0 (''SELECT '' @ join '', '' (map fst dims @ metrics) @ '' FROM '' @ tbl)"
  proof -
    have "''SELECT '' \<in> set SQL_WORDS" "'' FROM '' \<in> set SQL_WORDS" by (simp_all add: words)
    from sql_form_after [OF this(1) sql_form_append [OF sql_form_join_plain [OF comma cols(1)] sql_form_after [OF this(2) assms(5)]]]
    show ?thesis by (simp only: add_0)
  qed
  have filters: "list_all2 (sql_form names) (if ws \<noteq> [] then [length (concat (map snd ws))] else [])
      (if ws \<noteq> [] then [''WHERE '' @ join '' AND '' (map fst ws)] else [])"
    using sql_form_join [OF land conditions] sql_form_after [of "''WHERE ''"]
    by (simp add: words length_concat comp_def)
  have group: "list_all2 (sql_form names) (if dims \<noteq> [] then [0] else [])
      (if dims \<noteq> [] then [''GROUP BY '' @ join '', '' (map snd dims)] else [])"
    using sql_form_join_plain [OF comma cols(2)] sql_form_after [of "''GROUP BY ''"] by (simp add: words)
  have order: "list_all2 (sql_form names) (if sorts \<noteq> [] then [0] else [])
      (if sorts \<noteq> [] then [''ORDER BY '' @ join '', '' sorts] else [])"
    using sql_form_join_plain [OF comma assms(4)] sql_form_after [of "''ORDER BY ''"] by (simp add: words)
  have bound: "list_all2 (sql_form names) (if limit \<noteq> None then [1] else []) (if limit \<noteq> None then [''LIMIT ?''] else [])"
    using sql_form_word_mark [of "''LIMIT ''" names] by (simp add: words)
  have "list_all2 (sql_form names) ([0] @ (if ws \<noteq> [] then [length (concat (map snd ws))] else []) @ (if dims \<noteq> [] then [0] else [])
        @ (if sorts \<noteq> [] then [0] else []) @ (if limit \<noteq> None then [1] else []))
      ([''SELECT '' @ join '', '' (map fst dims @ metrics) @ '' FROM '' @ tbl]
        @ (if ws \<noteq> [] then [''WHERE '' @ join '' AND '' (map fst ws)] else [])
        @ (if dims \<noteq> [] then [''GROUP BY '' @ join '', '' (map snd dims)] else [])
        @ (if sorts \<noteq> [] then [''ORDER BY '' @ join '', '' sorts] else [])
        @ (if limit \<noteq> None then [''LIMIT ?''] else []))"
    by (intro list_all2_appendI filters group order bound)
      (rule list.rel_intros(2), rule select, rule list.rel_intros(1))
  moreover have "sum_list ([0] @ (if ws \<noteq> [] then [length (concat (map snd ws))] else []) @ (if dims \<noteq> [] then [0] else [])
        @ (if sorts \<noteq> [] then [0] else []) @ (if limit \<noteq> None then [1] else []))
      = length (concat (map snd ws)) + (if limit = None then 0 else 1)"
    by simp
  ultimately show ?thesis
    using sql_form_join [OF blank] unfolding query_text_def by metis
qed

lemma build_query_parts:
  assumes "build_query str_of isoformat x q = Inr (sql, params)"
  obtains tbl dims metrics filters times sorts where
    "quote_identifier (sx_table_name x) = Inr tbl" "collect (dimension_sql x) (sq_dimensions q) = Inr dims"
    "collect (select_metric x) (sq_metrics q) = Inr metrics" "collect (filter_sql str_of x) (sq_filters q) = Inr filters"
    "time_sql isoformat x (sq_time_range q) = Inr times" "collect sort_sql (sq_sorts q) = Inr sorts"
    "query_text tbl dims metrics (filters @ times) sorts (sq_limit q) = sql"
    "concat (map snd (filters @ times)) @ (case sq_limit q of None \<Rightarrow> [] | Some n \<Rightarrow> [PInt (int n)]) = params"
  using assms unfolding build_query_def bind_e_eq_Inr Let_def sum.inject prod.inject by blast

text \<open>C34: A query is written in fixed words of the program, quoted identifiers and placeholders, and in nothing else: no
  other text of a request gets into it.  Every identifier is a name of letters, digits and underscores, in quotes, and one
  of the table, the columns of the source, or the dimensions, metrics and sort fields that were asked for; and there is
  exactly one placeholder for each parameter.\<close>

theorem query_is_safe:
  assumes "build_query str_of isoformat x q = Inr (sql, params)"
  shows "\<exists>pieces. sql = concat (map piece_text pieces)
    \<and> list_all (piece_ok (query_names x q)) pieces \<and> count_list pieces Mark = length params"
proof -
  let ?names = "query_names x q"
  from assms obtain tbl dims metrics filters times sorts where
    tbl: "quote_identifier (sx_table_name x) = Inr tbl" and dims: "collect (dimension_sql x) (sq_dimensions q) = Inr dims"
    and metrics: "collect (select_metric x) (sq_metrics q) = Inr metrics"
    and filters: "collect (filter_sql str_of x) (sq_filters q) = Inr filters"
    and times: "time_sql isoformat x (sq_time_range q) = Inr times" and sorts: "collect sort_sql (sq_sorts q) = Inr sorts"
    and result: "query_text tbl dims metrics (filters @ times) sorts (sq_limit q) = sql"
      "concat (map snd (filters @ times)) @ (case sq_limit q of None \<Rightarrow> [] | Some n \<Rightarrow> [PInt (int n)]) = params"
    by (rule build_query_parts)
  have columns: "set (dict_values (sx_field_columns x)) \<subseteq> ?names" by (auto simp: query_names_def)
  have d: "list_all (\<lambda>p. sql_form ?names 0 (fst p) \<and> sql_form ?names 0 (snd p)) dims"
    by (rule collect_forms [OF dims]) (rule dimension_form [OF _ columns], auto simp: query_names_def)
  have m: "list_all (sql_form ?names 0) metrics"
    by (rule collect_forms [OF metrics]) (rule select_metric_form [OF _ columns], auto simp: query_names_def)
  have s: "list_all (sql_form ?names 0) sorts"
    by (rule collect_forms [OF sorts]) (rule sort_form, auto simp: query_names_def)
  have w: "list_all (condition_ok ?names) (filters @ times)"
    using collect_all [OF filters filter_sql_ok [OF _ columns]] time_sql_ok [OF times columns] by simp
  have t: "sql_form ?names 0 tbl" by (rule sql_form_quoted [OF tbl]) (simp add: query_names_def)
  from query_text_form [OF d m w s t, of "sq_limit q"] result show ?thesis
    unfolding sql_form_def by (auto split: option.splits)
qed

section \<open>Values do not change the text\<close>

definition same_filter_shape :: "data_filter \<Rightarrow> data_filter \<Rightarrow> bool" where
  "same_filter_shape f g \<longleftrightarrow> dft_field_id f = dft_field_id g \<and> dft_operator f = dft_operator g
     \<and> (case (dft_value f, dft_value g) of (PList xs, PList ys) \<Rightarrow> length xs = length ys | _ \<Rightarrow> True)"

definition same_period_shape :: "data_time_range option \<Rightarrow> data_time_range option \<Rightarrow> bool" where
  "same_period_shape t u \<longleftrightarrow> map_option (\<lambda>t. (dtr_field_id t, dtr_start t = None, dtr_end t = None)) t
     = map_option (\<lambda>t. (dtr_field_id t, dtr_start t = None, dtr_end t = None)) u"

lemma filter_shape:
  assumes "same_filter_shape f g" "filter_sql str_of x f = Inr v" "filter_sql str_of' x g = Inr w"
  shows "fst v = fst w"
proof -
  have lists: "length xs = length ys"
    if "list_value (dft_value f) o1 = Inr xs" "list_value (dft_value g) o1 = Inr ys" for xs ys o1
    using that assms(1)
    by (auto simp: list_value_def same_filter_shape_def split: pyval.splits list.splits)
  have marks_eq: "join '', '' (map (\<lambda>_. ''?'') xs) = join '', '' (map (\<lambda>_. ''?'') ys)"
    if "list_value (dft_value f) o1 = Inr xs" "list_value (dft_value g) o1 = Inr ys" for xs ys o1
    using lists [OF that] by (simp add: map_replicate_const)
  from assms show ?thesis
    by (auto simp: filter_sql_def bind_e_eq_Inr Let_def same_filter_shape_def split: option.splits if_splits
        dest: marks_eq)
qed

lemma collect_map_eq:
  assumes "list_all2 R xs ys" "collect f xs = Inr us" "collect g ys = Inr vs"
    and "\<And>x y u v. R x y \<Longrightarrow> f x = Inr u \<Longrightarrow> g y = Inr v \<Longrightarrow> h u = h v"
  shows "map h us = map h vs"
  using assms
proof (induction arbitrary: us vs rule: list_all2_induct)
  case (Cons x xs y ys)
  then show ?case by (fastforce simp: bind_e_eq_Inr)
qed simp

lemma query_text_cong:
  assumes "map fst ws' = map fst ws" "limit' = None \<longleftrightarrow> limit = None"
  shows "query_text tbl dims metrics ws' sorts limit' = query_text tbl dims metrics ws sorts limit"
proof -
  from assms(1) have "ws' = [] \<longleftrightarrow> ws = []" by (metis map_is_Nil_conv)
  with assms show ?thesis by (simp only: query_text_def)
qed

text \<open>The values of a request travel only in the parameters: two requests for the same metrics, dimensions,
  fields, operators and sort orders have the same text, whatever the values of their filters, the times and
  the limit are.\<close>

theorem query_text_value_free:
  assumes "sq_metrics q' = sq_metrics q" "sq_dimensions q' = sq_dimensions q" "sq_sorts q' = sq_sorts q"
    and "list_all2 same_filter_shape (sq_filters q) (sq_filters q')"
    and "same_period_shape (sq_time_range q) (sq_time_range q')" "sq_limit q' = None \<longleftrightarrow> sq_limit q = None"
    and "build_query str_of isoformat x q = Inr (sql, params)"
    and "build_query str_of' isoformat' x q' = Inr (sql', params')"
  shows "sql' = sql"
proof -
  from assms(7) obtain tbl dims metrics filters times sorts where 1:
    "quote_identifier (sx_table_name x) = Inr tbl" "collect (dimension_sql x) (sq_dimensions q) = Inr dims"
    "collect (select_metric x) (sq_metrics q) = Inr metrics" "collect (filter_sql str_of x) (sq_filters q) = Inr filters"
    "time_sql isoformat x (sq_time_range q) = Inr times" "collect sort_sql (sq_sorts q) = Inr sorts"
    "query_text tbl dims metrics (filters @ times) sorts (sq_limit q) = sql"
    by (rule build_query_parts)
  from assms(8) obtain tbl' dims' metrics' filters' times' sorts' where 2:
    "quote_identifier (sx_table_name x) = Inr tbl'" "collect (dimension_sql x) (sq_dimensions q') = Inr dims'"
    "collect (select_metric x) (sq_metrics q') = Inr metrics'" "collect (filter_sql str_of' x) (sq_filters q') = Inr filters'"
    "time_sql isoformat' x (sq_time_range q') = Inr times'" "collect sort_sql (sq_sorts q') = Inr sorts'"
    "query_text tbl' dims' metrics' (filters' @ times') sorts' (sq_limit q') = sql'"
    by (rule build_query_parts)
  have same: "tbl' = tbl" "dims' = dims" "metrics' = metrics" "sorts' = sorts"
    using 1 2 assms(1-3) by simp_all
  have "map fst filters = map fst filters'"
    by (rule collect_map_eq [OF assms(4) 1(4) 2(4)]) (rule filter_shape)
  moreover have "map fst times = map fst times'"
    using 1(5) 2(5) assms(5) by (auto simp: time_sql_def same_period_shape_def bind_e_eq_Inr split: option.splits)
  ultimately have "map fst (filters' @ times') = map fst (filters @ times)" by simp
  then have "query_text tbl dims metrics (filters' @ times') sorts (sq_limit q')
      = query_text tbl dims metrics (filters @ times) sorts (sq_limit q)"
    using assms(6) by (rule query_text_cong)
  with 1(7) 2(7) same show ?thesis by simp
qed

end
