(* ===== verification/DataSources.thy ===== *)
theory DataSources
  imports DataFacts
begin

text \<open>
  The built-in sources of data analysis (\<open>infra/registrations/data_analysis/runtime_sqlite.py\<close>): views of the
  runtime's own tables.  The lemmas show that every one of them is well-formed, so that each request that the
  manager accepts has a query, and the manager reports every failure as an error of data analysis.
\<close>

definition field_def :: "string \<Rightarrow> string \<Rightarrow> data_field_type \<Rightarrow> data_field" where
  "field_def field_id name field_type = \<lparr>dfd_field_id = field_id, dfd_name = name, dfd_field_type = field_type,
     dfd_description = None, dfd_metadata = []\<rparr>"

definition metric_def :: "string \<Rightarrow> string \<Rightarrow> data_aggregation \<Rightarrow> string option \<Rightarrow> data_metric" where
  "metric_def metric_id name aggregation field_id = \<lparr>dmt_metric_id = metric_id, dmt_name = name,
     dmt_aggregation = aggregation, dmt_field_id = field_id, dmt_description = None, dmt_unit = None,
     dmt_expression = None, dmt_metadata = []\<rparr>"

definition agent_runs_source :: data_source where
  "agent_runs_source =
     \<lparr>dso_source_id = ''agent_runs'', dso_name = ''Agent runs'',
      dso_description = Some ''Persisted agent run state snapshots.'',
      dso_fields = [
        field_def ''run_id'' ''Run ID'' Field_STRING, field_def ''provider_id'' ''Provider ID'' Field_STRING,
        field_def ''model_id'' ''Model ID'' Field_STRING, field_def ''context_id'' ''Context ID'' Field_STRING,
        field_def ''session_id'' ''Session ID'' Field_STRING, field_def ''status'' ''Run status'' Field_STRING,
        field_def ''stop_reason'' ''Stop reason'' Field_STRING,
        field_def ''tool_rounds_used'' ''Tool rounds used'' Field_INTEGER,
        field_def ''pending_approval_count'' ''Pending approval count'' Field_INTEGER,
        field_def ''max_tool_rounds'' ''Max tool rounds'' Field_INTEGER,
        field_def ''write_memory'' ''Write memory'' Field_BOOLEAN,
        field_def ''prompt_tokens'' ''Prompt tokens'' Field_INTEGER,
        field_def ''completion_tokens'' ''Completion tokens'' Field_INTEGER,
        field_def ''total_tokens'' ''Total tokens'' Field_INTEGER,
        field_def ''cached_prompt_tokens'' ''Cached prompt tokens'' Field_INTEGER,
        field_def ''cache_write_prompt_tokens'' ''Cache write prompt tokens'' Field_INTEGER,
        field_def ''cache_observed_prompt_tokens'' ''Cache-observed prompt tokens'' Field_INTEGER,
        field_def ''uncached_prompt_tokens'' ''Uncached prompt tokens'' Field_INTEGER,
        field_def ''is_successful'' ''Is successful'' Field_BOOLEAN,
        field_def ''is_failed'' ''Is failed'' Field_BOOLEAN, field_def ''is_paused'' ''Is paused'' Field_BOOLEAN,
        field_def ''created_at'' ''Created at'' Field_DATETIME,
        field_def ''updated_at'' ''Updated at'' Field_DATETIME,
        field_def ''created_day'' ''Created day'' Field_STRING,
        field_def ''updated_day'' ''Updated day'' Field_STRING],
      dso_metrics = [
        metric_def ''run_count'' ''Run count'' Agg_COUNT None,
        metric_def ''tool_rounds_total'' ''Tool rounds total'' Agg_SUM (Some ''tool_rounds_used''),
        metric_def ''average_tool_rounds'' ''Average tool rounds'' Agg_AVERAGE (Some ''tool_rounds_used''),
        metric_def ''successful_run_rate'' ''Successful run rate'' Agg_AVERAGE (Some ''is_successful''),
        metric_def ''failed_run_rate'' ''Failed run rate'' Agg_AVERAGE (Some ''is_failed''),
        metric_def ''paused_run_rate'' ''Paused run rate'' Agg_AVERAGE (Some ''is_paused''),
        metric_def ''pending_approvals_total'' ''Pending approvals total'' Agg_SUM (Some ''pending_approval_count''),
        metric_def ''distinct_session_count'' ''Distinct session count'' Agg_DISTINCT_COUNT (Some ''session_id''),
        metric_def ''prompt_tokens_total'' ''Prompt tokens total'' Agg_SUM (Some ''prompt_tokens''),
        metric_def ''completion_tokens_total'' ''Completion tokens total'' Agg_SUM (Some ''completion_tokens''),
        metric_def ''total_tokens_total'' ''Total tokens'' Agg_SUM (Some ''total_tokens''),
        metric_def ''cached_prompt_tokens_total'' ''Cached prompt tokens'' Agg_SUM (Some ''cached_prompt_tokens''),
        metric_def ''cache_write_prompt_tokens_total'' ''Cache write prompt tokens'' Agg_SUM (Some ''cache_write_prompt_tokens''),
        metric_def ''cache_observed_prompt_tokens_total'' ''Cache-observed prompt tokens'' Agg_SUM (Some ''cache_observed_prompt_tokens''),
        metric_def ''uncached_prompt_tokens_total'' ''Uncached prompt tokens'' Agg_SUM (Some ''uncached_prompt_tokens'')],
      dso_metadata = [(''sqlite_view'', PStr ''evernight_agent_runs'')]\<rparr>"

definition agent_trace_events_source :: data_source where
  "agent_trace_events_source =
     \<lparr>dso_source_id = ''agent_trace_events'', dso_name = ''Agent trace events'',
      dso_description = Some ''Persisted agent trace events joined to run metadata.'',
      dso_fields = [
        field_def ''event_id'' ''Event ID'' Field_INTEGER, field_def ''run_id'' ''Run ID'' Field_STRING,
        field_def ''event_type'' ''Event type'' Field_STRING, field_def ''step_type'' ''Step type'' Field_STRING,
        field_def ''tool_name'' ''Tool name'' Field_STRING,
        field_def ''approval_status'' ''Approval status'' Field_STRING,
        field_def ''error_type'' ''Error type'' Field_STRING, field_def ''memory_id'' ''Memory ID'' Field_STRING,
        field_def ''is_tool_call'' ''Is tool call'' Field_BOOLEAN,
        field_def ''is_tool_success'' ''Is tool success'' Field_BOOLEAN,
        field_def ''is_tool_failure'' ''Is tool failure'' Field_BOOLEAN,
        field_def ''is_tool_approval_required'' ''Is tool approval required'' Field_BOOLEAN,
        field_def ''is_memory_write'' ''Is memory write'' Field_BOOLEAN,
        field_def ''memory_write_session_id'' ''Memory write session ID'' Field_STRING,
        field_def ''provider_id'' ''Provider ID'' Field_STRING, field_def ''model_id'' ''Model ID'' Field_STRING,
        field_def ''context_id'' ''Context ID'' Field_STRING, field_def ''session_id'' ''Session ID'' Field_STRING,
        field_def ''created_at'' ''Created at'' Field_DATETIME, field_def ''event_day'' ''Event day'' Field_STRING],
      dso_metrics = [
        metric_def ''event_count'' ''Event count'' Agg_COUNT None,
        metric_def ''distinct_run_count'' ''Distinct run count'' Agg_DISTINCT_COUNT (Some ''run_id''),
        metric_def ''distinct_session_count'' ''Distinct session count'' Agg_DISTINCT_COUNT (Some ''session_id''),
        metric_def ''tool_call_count'' ''Tool call count'' Agg_SUM (Some ''is_tool_call''),
        metric_def ''tool_success_count'' ''Tool success count'' Agg_SUM (Some ''is_tool_success''),
        metric_def ''tool_failure_count'' ''Tool failure count'' Agg_SUM (Some ''is_tool_failure''),
        metric_def ''tool_approval_required_count'' ''Tool approval required count'' Agg_SUM (Some ''is_tool_approval_required''),
        metric_def ''memory_write_count'' ''Memory write count'' Agg_SUM (Some ''is_memory_write''),
        metric_def ''sessions_with_memory_write_count'' ''Sessions with memory write count'' Agg_DISTINCT_COUNT (Some ''memory_write_session_id'')],
      dso_metadata = [(''sqlite_view'', PStr ''evernight_agent_trace_events'')]\<rparr>"

definition sessions_source :: data_source where
  "sessions_source =
     \<lparr>dso_source_id = ''sessions'', dso_name = ''Sessions'',
      dso_description = Some ''Persisted conversation sessions.'',
      dso_fields = [
        field_def ''session_id'' ''Session ID'' Field_STRING, field_def ''title'' ''Title'' Field_STRING,
        field_def ''context_id'' ''Context ID'' Field_STRING,
        field_def ''provider_id'' ''Provider ID'' Field_STRING, field_def ''model_id'' ''Model ID'' Field_STRING,
        field_def ''status'' ''Status'' Field_STRING, field_def ''created_at'' ''Created at'' Field_DATETIME,
        field_def ''updated_at'' ''Updated at'' Field_DATETIME,
        field_def ''created_day'' ''Created day'' Field_STRING,
        field_def ''updated_day'' ''Updated day'' Field_STRING],
      dso_metrics = [
        metric_def ''session_count'' ''Session count'' Agg_COUNT None,
        metric_def ''distinct_provider_count'' ''Distinct provider count'' Agg_DISTINCT_COUNT (Some ''provider_id''),
        metric_def ''distinct_model_count'' ''Distinct model count'' Agg_DISTINCT_COUNT (Some ''model_id'')],
      dso_metadata = [(''sqlite_view'', PStr ''evernight_sessions'')]\<rparr>"

definition contexts_source :: data_source where
  "contexts_source =
     \<lparr>dso_source_id = ''contexts'', dso_name = ''Contexts'',
      dso_description = Some ''Persisted model-visible context windows.'',
      dso_fields = [
        field_def ''context_id'' ''Context ID'' Field_STRING,
        field_def ''message_count'' ''Message count'' Field_INTEGER],
      dso_metrics = [
        metric_def ''context_count'' ''Context count'' Agg_COUNT None,
        metric_def ''total_messages'' ''Total messages'' Agg_SUM (Some ''message_count''),
        metric_def ''average_message_count'' ''Average message count'' Agg_AVERAGE (Some ''message_count'')],
      dso_metadata = [(''sqlite_view'', PStr ''evernight_contexts'')]\<rparr>"

definition memories_source :: data_source where
  "memories_source =
     \<lparr>dso_source_id = ''memories'', dso_name = ''Memories'',
      dso_description = Some ''Persisted memories.'',
      dso_fields = [
        field_def ''memory_id'' ''Memory ID'' Field_STRING, field_def ''kind'' ''Kind'' Field_STRING,
        field_def ''scope'' ''Scope'' Field_STRING, field_def ''scope_id'' ''Scope ID'' Field_STRING,
        field_def ''priority'' ''Priority'' Field_INTEGER, field_def ''is_enabled'' ''Is enabled'' Field_BOOLEAN],
      dso_metrics = [
        metric_def ''memory_count'' ''Memory count'' Agg_COUNT None,
        metric_def ''average_priority'' ''Average priority'' Agg_AVERAGE (Some ''priority'')],
      dso_metadata = [(''sqlite_view'', PStr ''evernight_memories'')]\<rparr>"


definition sqlite_runtime_sources :: "bool \<Rightarrow> data_source list" where
  "sqlite_runtime_sources include_agent_sources =
     (if include_agent_sources then [agent_runs_source, agent_trace_events_source] else [])
     @ [sessions_source, contexts_source, memories_source]"

definition register_sqlite_data_source ::
  "(pyval \<Rightarrow> string) \<Rightarrow> (int \<Rightarrow> string) \<Rightarrow> 's sql_run \<Rightarrow> nat \<Rightarrow> data_source \<Rightarrow> string option \<Rightarrow> 's data_register
     \<Rightarrow> 's data_register" where
  "register_sqlite_data_source str_of isoformat run_sql owner source table_name r =
     register_data_source source
       \<lparr>de_run = sqlite_statistics str_of isoformat run_sql (new_sqlite_executor source table_name),
        de_owner = Some owner, de_closable = True\<rparr> None r"

fun register_runtime_sources ::
  "(pyval \<Rightarrow> string) \<Rightarrow> (int \<Rightarrow> string) \<Rightarrow> 's sql_run \<Rightarrow> nat \<Rightarrow> data_source list \<Rightarrow> 's data_register
     \<Rightarrow> 's data_register" where
  "register_runtime_sources str_of isoformat run_sql owner [] r = r"
| "register_runtime_sources str_of isoformat run_sql owner (source # sources) r =
     register_runtime_sources str_of isoformat run_sql (Suc owner) sources
       (register_sqlite_data_source str_of isoformat run_sql owner source None r)"

section \<open>Well-formed sources\<close>

definition aggregation_supported :: "data_metric \<Rightarrow> bool" where
  "aggregation_supported m \<longleftrightarrow> dmt_aggregation m = Agg_COUNT
     \<or> dmt_field_id m \<noteq> None \<and> dmt_aggregation m \<notin> {Agg_RATE, Agg_CUSTOM}"

definition well_formed_source :: "data_source \<Rightarrow> bool" where
  "well_formed_source s \<longleftrightarrow> sql_identifier (sqlite_table_name s)
     \<and> list_all (\<lambda>f. sql_identifier (dfd_field_id f) \<and> sql_identifier (sqlite_column_name (dfd_field_id f) (dfd_metadata f)))
         (dso_fields s)
     \<and> list_all (\<lambda>m. sql_identifier (dmt_metric_id m) \<and> aggregation_supported m
         \<and> (case dmt_field_id m of None \<Rightarrow> True | Some f \<Rightarrow> list_ex (\<lambda>d. dfd_field_id d = f) (dso_fields s)))
         (dso_metrics s)"

lemma sources_well_formed: "list_all well_formed_source (sqlite_runtime_sources b)"
proof -
  have "well_formed_source agent_runs_source" by code_simp
  moreover have "well_formed_source agent_trace_events_source" by code_simp
  moreover have "well_formed_source sessions_source" by code_simp
  moreover have "well_formed_source contexts_source" by code_simp
  moreover have "well_formed_source memories_source" by code_simp
  ultimately show ?thesis by (simp add: sqlite_runtime_sources_def)
qed

lemma fold_columns:
  "f \<in> dfd_field_id ` set fs \<or> dict_get d f \<noteq> None \<Longrightarrow>
     \<exists>c. dict_get (fold (\<lambda>f. dict_set (dfd_field_id f) (g f)) fs d) f = Some c \<and> (c \<in> g ` set fs \<or> dict_get d f = Some c)"
proof (induction fs arbitrary: d)
  case (Cons a fs)
  show ?case
  proof (cases "f \<in> dfd_field_id ` set fs \<or> dict_get (dict_set (dfd_field_id a) (g a) d) f \<noteq> None")
    case True
    from Cons.IH [OF True] show ?thesis by (auto split: if_splits)
  next
    case False
    with Cons.prems show ?thesis by (auto split: if_splits)
  qed
qed auto

lemma field_column_defined:
  assumes "well_formed_source s" "f \<in> field_ids s"
  shows "\<exists>t. field_column (new_sqlite_executor s None) f = Inr t"
proof -
  from fold_columns [of f "dso_fields s" "[]" "\<lambda>f. sqlite_column_name (dfd_field_id f) (dfd_metadata f)"] assms(2)
  obtain c where c: "dict_get (sx_field_columns (new_sqlite_executor s None)) f = Some c"
    "c \<in> (\<lambda>f. sqlite_column_name (dfd_field_id f) (dfd_metadata f)) ` set (dso_fields s)"
    by (auto simp: new_sqlite_executor_def field_ids_def)
  from c(2) assms(1) have "sql_identifier c" by (auto simp: well_formed_source_def list_all_iff)
  with c(1) show ?thesis by (simp add: field_column_def quote_identifier_def)
qed

lemma collect_defined: "(\<And>x. x \<in> set xs \<Longrightarrow> \<exists>y. f x = Inr y) \<Longrightarrow> \<exists>ys. collect f xs = Inr ys"
  by (induction xs) (force simp: bind_e_def)+

lemma find_metric_defined: "m \<in> dmt_metric_id ` set ms \<Longrightarrow> \<exists>x \<in> set ms. find_metric m ms = Inr x \<and> dmt_metric_id x = m"
  by (induction ms) auto

lemma identifier_of_name:
  assumes "well_formed_source s" "f \<in> field_ids s \<union> metric_ids s"
  shows "\<exists>t. quote_identifier f = Inr t"
  using assms by (auto simp: well_formed_source_def list_all_iff field_ids_def metric_ids_def quote_identifier_def)

lemma select_metric_defined:
  assumes "well_formed_source s" "m \<in> metric_ids s"
  shows "\<exists>t. select_metric (new_sqlite_executor s None) m = Inr t"
proof -
  from assms(2) find_metric_defined [of m "dso_metrics s"] obtain x where
    x: "x \<in> set (dso_metrics s)" "find_metric m (dso_metrics s) = Inr x" "dmt_metric_id x = m"
    by (auto simp: metric_ids_def)
  from assms(1) have "list_all (\<lambda>m. sql_identifier (dmt_metric_id m) \<and> aggregation_supported m
         \<and> (case dmt_field_id m of None \<Rightarrow> True | Some f \<Rightarrow> list_ex (\<lambda>d. dfd_field_id d = f) (dso_fields s)))
         (dso_metrics s)" by (simp add: well_formed_source_def)
  with x(1) have "aggregation_supported x \<and> (case dmt_field_id x of None \<Rightarrow> True | Some f \<Rightarrow> list_ex (\<lambda>d. dfd_field_id d = f) (dso_fields s))"
    by (simp only: list_all_iff)
  then have ok: "aggregation_supported x" "case dmt_field_id x of None \<Rightarrow> True | Some f \<Rightarrow> f \<in> field_ids s"
    by (auto simp: list_ex_iff field_ids_def split: option.splits)
  obtain c where c: "(case dmt_field_id x of None \<Rightarrow> Inr None
      | Some f \<Rightarrow> bind_e (field_column (new_sqlite_executor s None) f) (\<lambda>c. Inr (Some c))) = Inr c"
    "c = None \<longleftrightarrow> dmt_field_id x = None"
  proof (cases "dmt_field_id x")
    case None
    then show thesis by (intro that [of None]) simp_all
  next
    case (Some f)
    with ok(2) field_column_defined [OF assms(1), of f] obtain t where "field_column (new_sqlite_executor s None) f = Inr t" by auto
    with Some show thesis by (intro that [of "Some t"]) simp_all
  qed
  have "\<exists>t. aggregate_sql x c = Inr t"
    using ok(1) c(2) by (cases "dmt_aggregation x"; cases c) (simp_all add: aggregate_sql_def aggregation_supported_def)
  moreover from identifier_of_name [OF assms(1), of m] assms(2) obtain t where "quote_identifier m = Inr t" by blast
  moreover have "sx_source (new_sqlite_executor s None) = s" by (simp add: new_sqlite_executor_def)
  ultimately show ?thesis using x(2) c(1) by (auto simp only: select_metric_def metric_sql_def bind_e_Inr)
qed

text \<open>Which filters the executor accepts beyond the check of their field by the manager.\<close>

definition filter_value_ok :: "data_filter \<Rightarrow> bool" where
  "filter_value_ok f \<longleftrightarrow> (case dft_operator f of
      Op_IN \<Rightarrow> \<exists>v vs. dft_value f = PList (v # vs)
    | Op_NOT_IN \<Rightarrow> \<exists>v vs. dft_value f = PList (v # vs)
    | Op_BETWEEN \<Rightarrow> \<exists>v w. dft_value f = PList [v, w]
    | _ \<Rightarrow> True)"

lemma filter_sql_defined:
  assumes "well_formed_source s" "dft_field_id f \<in> field_ids s"
  shows "(\<exists>w. filter_sql str_of (new_sqlite_executor s None) f = Inr w) \<longleftrightarrow> filter_value_ok f"
proof -
  from field_column_defined [OF assms] obtain t where t: "field_column (new_sqlite_executor s None) (dft_field_id f) = Inr t" by blast
  have two: "length vs = 2 \<longleftrightarrow> (\<exists>v w. vs = [v, w])" for vs :: "pyval list"
    by (auto simp: length_Suc_conv numeral_2_eq_2)
  show ?thesis
    by (cases "dft_operator f"; cases "dft_value f")
      (auto simp: filter_sql_def t filter_value_ok_def list_value_def two split: list.split)
qed

lemma unknown_names_Nil: "unknown_names known xs = [] \<longleftrightarrow> set xs \<subseteq> known"
proof -
  have "set (unknown_names known xs) = set xs - known" by (auto simp: unknown_names_def)
  then show ?thesis by (metis Diff_eq_empty_iff set_empty)
qed

lemma validated_names:
  assumes "validate_statistics_request q r = Inr s"
  shows "data_get (sq_source_id q) r = Inr s" "sq_metrics q \<noteq> []" "set (sq_metrics q) \<subseteq> metric_ids s"
    "set (sq_dimensions q) \<subseteq> field_ids s" "dft_field_id ` set (sq_filters q) \<subseteq> field_ids s"
    "dsr_field_id ` set (sq_sorts q) \<subseteq> field_ids s \<union> metric_ids s"
    "\<And>t f. sq_time_range q = Some t \<Longrightarrow> dtr_field_id t = Some f \<Longrightarrow> f \<in> field_ids s"
  using assms
  by (auto simp: validate_statistics_request_def bind_e_eq_Inr Let_def refuse_unknown_def check_time_range_def
      unknown_names_Nil split: if_splits option.splits)

text \<open>Every request on a well-formed source that the manager accepts has a query, unless the value of a filter has
  the wrong form; and all built-in sources are well-formed.\<close>

theorem accepted_requests_have_queries:
  assumes "validate_statistics_request q r = Inr s" and "s \<in> set (sqlite_runtime_sources b)"
  shows "(\<exists>sql params. build_query str_of isoformat (new_sqlite_executor s None) q = Inr (sql, params))
    \<longleftrightarrow> list_all filter_value_ok (sq_filters q)"
proof -
  let ?x = "new_sqlite_executor s None"
  from assms(2) sources_well_formed have wf: "well_formed_source s" by (auto simp: list_all_iff)
  note names = validated_names [OF assms(1)]
  have "\<exists>t. quote_identifier (sx_table_name ?x) = Inr t"
    using wf by (simp add: new_sqlite_executor_def well_formed_source_def quote_identifier_def)
  moreover have "\<exists>ds. collect (dimension_sql ?x) (sq_dimensions q) = Inr ds"
  proof (rule collect_defined)
    fix d assume "d \<in> set (sq_dimensions q)"
    with names(4) have d: "d \<in> field_ids s" by blast
    from field_column_defined [OF wf d] identifier_of_name [OF wf, of d] d
    show "\<exists>y. dimension_sql ?x d = Inr y" by (auto simp: dimension_sql_def)
  qed
  moreover have "\<exists>ms. collect (select_metric ?x) (sq_metrics q) = Inr ms"
    using names(3) select_metric_defined [OF wf] by (intro collect_defined) blast
  moreover have "\<exists>ts. time_sql isoformat ?x (sq_time_range q) = Inr ts"
    using names(7) field_column_defined [OF wf] by (fastforce simp: time_sql_def split: option.splits)
  moreover have "\<exists>os. collect sort_sql (sq_sorts q) = Inr os"
  proof (rule collect_defined)
    fix o1 assume "o1 \<in> set (sq_sorts q)"
    with names(6) have "dsr_field_id o1 \<in> field_ids s \<union> metric_ids s" by blast
    from identifier_of_name [OF wf this] show "\<exists>y. sort_sql o1 = Inr y" by (auto simp: sort_sql_def)
  qed
  moreover have "(\<exists>fs. collect (filter_sql str_of ?x) (sq_filters q) = Inr fs) \<longleftrightarrow> list_all filter_value_ok (sq_filters q)"
  proof -
    have c: "(\<exists>ys. collect f xs = Inr ys) \<longleftrightarrow> (\<forall>x \<in> set xs. \<exists>y. f x = Inr y)"
      for f :: "data_filter \<Rightarrow> error + string \<times> pyval list" and xs
      by (induction xs) (auto simp: bind_e_eq_Inr)
    show ?thesis unfolding c list_all_iff
      by (rule ball_cong [OF refl], rule filter_sql_defined [OF wf]) (use names(5) in blast)
  qed
  ultimately show ?thesis by (auto simp: build_query_def bind_e_eq_Inr Let_def)
qed

section \<open>The manager\<close>

abbreviation analysis_failure :: "error \<Rightarrow> bool" where
  "analysis_failure e \<equiv> isinstance (error_class e) (Analysis DataAnalysisError)"

lemma analysis_failures:
  "isinstance c (Analysis e) \<Longrightarrow> isinstance c (Analysis DataAnalysisError)"
  by (cases e) (auto intro: isinstance_base)

lemma analysis_raised [simp]:
  "isinstance (Analysis e) (Analysis DataAnalysisError)" "analysis_failure (raised_detail (Analysis e) m d)"
  using analysis_failures [OF isinstance_refl] by (simp_all add: raised_detail_def)

lemma execution_error_failure [simp]: "analysis_failure (execution_error passed class m e)"
  by (auto simp: execution_error_def list_ex_iff intro: analysis_failures)

lemma data_get_failure: "data_get i r = Inl e \<Longrightarrow> analysis_failure e"
  by (auto simp: data_get_def data_missing_def split: bool.splits option.splits)

lemma data_get_executor_failure: "data_get_executor i r = Inl e \<Longrightarrow> analysis_failure e"
  by (auto simp: data_get_executor_def data_missing_def split: bool.splits option.splits)

lemma data_get_analyzer_failure: "data_get_analyzer i r = Inl e \<Longrightarrow> analysis_failure e"
  by (auto simp: data_get_analyzer_def data_missing_def split: if_splits)

lemma bind_e_Inl_cases: "bind_e r f = Inl e \<longleftrightarrow> r = Inl e \<or> (\<exists>x. r = Inr x \<and> f x = Inl e)"
  by (cases r) auto

lemma validate_failure: "validate_statistics_request q r = Inl e \<Longrightarrow> analysis_failure e"
  by (auto simp: validate_statistics_request_def bind_e_Inl_cases Let_def refuse_unknown_def check_time_range_def
      dest: data_get_failure split: if_splits option.splits)

lemma validate_statistics_result_cases:
  "validate_statistics_result q x = Inl e \<Longrightarrow> analysis_failure e"
  "validate_statistics_result q x = Inr y \<Longrightarrow> x = Produced y \<and> st_source_id y = sq_source_id q"
  by (auto simp: validate_statistics_result_def split: produced.splits if_splits)

lemma validate_analysis_result_cases:
  "validate_analysis_result q x = Inl e \<Longrightarrow> analysis_failure e"
  "validate_analysis_result q x = Inr y \<Longrightarrow> x = Produced y \<and> an_source_id y = aq_source_id q"
  by (auto simp: validate_analysis_result_def split: produced.splits if_splits)

text \<open>C35: Whatever an executor does, the manager answers with statistics of the requested source or raises an error of
  data analysis; and it runs the executor only for requests whose metrics, dimensions, filters and sort orders are
  all declared by the source.\<close>

theorem statistics_outcome:
  assumes "statistics r q s = (x, s')"
  shows "(case x of Inr result \<Rightarrow> st_source_id result = sq_source_id q | Inl e \<Rightarrow> analysis_failure e)
    \<and> (s' = s \<or> (\<exists>source. data_get (sq_source_id q) r = Inr source \<and> sq_metrics q \<noteq> []
         \<and> set (sq_metrics q) \<subseteq> metric_ids source \<and> set (sq_dimensions q) \<subseteq> field_ids source
         \<and> dft_field_id ` set (sq_filters q) \<subseteq> field_ids source
         \<and> dsr_field_id ` set (sq_sorts q) \<subseteq> field_ids source \<union> metric_ids source))"
proof (cases "validate_statistics_request q r")
  case (Inl e)
  with assms validate_failure [OF Inl] show ?thesis by (auto simp: statistics_def bind_a_def)
next
  case (Inr source)
  note names = validated_names [OF Inr]
  have "case x of Inr result \<Rightarrow> st_source_id result = sq_source_id q | Inl e \<Rightarrow> analysis_failure e"
  proof (cases "data_get_executor (dso_source_id source) r")
    case (Inl e)
    with assms Inr data_get_executor_failure [OF Inl] show ?thesis by (auto simp: statistics_def bind_a_def)
  next
    case run: (Inr run)
    obtain y s1 where y: "de_run run q s = (y, s1)" by (cases "de_run run q s")
    show ?thesis
    proof (cases y)
      case (Inl e)
      with assms Inr run y show ?thesis by (auto simp: statistics_def bind_a_def)
    next
      case result: (Inr result)
      with assms Inr run y have "x = validate_statistics_result q result" by (auto simp: statistics_def bind_a_def)
      with validate_statistics_result_cases [of q result] show ?thesis
        by (cases "validate_statistics_result q result") auto
    qed
  qed
  with names(1-6) show ?thesis by blast
qed

lemma statistics_outcome_source: "statistics r q s = (Inr st, s') \<Longrightarrow> st_source_id st = sq_source_id q"
  by (auto simp: statistics_def bind_a_def validate_statistics_result_def
      split: prod.splits sum.splits produced.splits if_splits)

text \<open>The check of the source of a result is not made for the statistics inside an analysis: without an analyzer
  the manager answers a question about one source with the statistics of whatever source the enclosed request
  names.\<close>

theorem analysis_mixes_sources:
  assumes "data_get (aq_source_id q) r = Inr source" and "dso_source_id source = aq_source_id q"
    and "data_get_analyzer (aq_source_id q) r = Inr None"
    and "aq_statistics_request q = Some sq" and "statistics r sq s = (Inr st, s')"
  shows "\<exists>result. analyze r q s = (Inr result, s') \<and> an_source_id result = aq_source_id q
    \<and> an_statistics result = Some st \<and> st_source_id st = sq_source_id sq"
  using assms statistics_outcome_source [OF assms(5)]
  by (simp add: analyze_def analyze_statistics_def bind_a_def)

section \<open>Witnesses\<close>

definition sessions_register :: "unit data_register" where
  "sessions_register =
     (let x = \<lparr>de_run = sqlite_statistics (\<lambda>_. ''?'') (\<lambda>_. ''2024'') (\<lambda>_ _. return_a [\<lambda>_. PInt 3])
                (new_sqlite_executor sessions_source None), de_owner = Some 0, de_closable = True\<rparr>
      in \<lparr>dr_sources = [(''sessions'', sessions_source), (''memories'', memories_source)],
          dr_executors = [(''sessions'', x), (''memories'', x)], dr_analyzers = []\<rparr>)"

definition count_sessions :: statistics_request where
  "count_sessions = \<lparr>sq_source_id = ''sessions'', sq_metrics = [''session_count''], sq_dimensions = [''status''],
     sq_filters = [\<lparr>dft_field_id = ''title'', dft_operator = Op_EQUALS, dft_value = PStr ''x; DROP TABLE sessions''\<rparr>],
     sq_time_range = None, sq_sorts = [], sq_limit = Some 5, sq_metadata = []\<rparr>"

definition count_text :: string where
  "count_text = ''SELECT '' @ [CHR 0x22] @ ''status'' @ [CHR 0x22] @ '' AS '' @ [CHR 0x22] @ ''status'' @ [CHR 0x22]
     @ '', COUNT(*) AS '' @ [CHR 0x22] @ ''session_count'' @ [CHR 0x22] @ '' FROM '' @ [CHR 0x22] @ ''evernight_sessions''
     @ [CHR 0x22] @ '' WHERE '' @ [CHR 0x22] @ ''title'' @ [CHR 0x22] @ '' = ? GROUP BY '' @ [CHR 0x22] @ ''status'' @ [CHR 0x22]
     @ '' LIMIT ?''"

lemma count_query:
  "build_query (\<lambda>_. ''?'') (\<lambda>_. ''2024'') (new_sqlite_executor sessions_source None) count_sessions
     = Inr (count_text, [PStr ''x; DROP TABLE sessions'', PInt 5])"
  by code_simp

theorem query_is_safe_witness:
  "\<exists>pieces. count_text = concat (map piece_text pieces) \<and> count_list pieces Mark = 2"
  using query_is_safe [OF count_query] by auto

theorem query_text_value_free_witness:
  "\<exists>params. build_query (\<lambda>_. ''?'') (\<lambda>_. ''2024'') (new_sqlite_executor sessions_source None) (count_sessions\<lparr>sq_limit := Some 9,
     sq_filters := [\<lparr>dft_field_id = ''title'', dft_operator = Op_EQUALS, dft_value = PInt 1\<rparr>]\<rparr>) = Inr (count_text, params)"
proof -
  let ?q = "count_sessions\<lparr>sq_limit := Some 9,
     sq_filters := [\<lparr>dft_field_id = ''title'', dft_operator = Op_EQUALS, dft_value = PInt 1\<rparr>]\<rparr>"
  have "isl (build_query (\<lambda>_. ''?'') (\<lambda>_. ''2024'') (new_sqlite_executor sessions_source None) ?q) = False" by code_simp
  then obtain sql params where
    "build_query (\<lambda>_. ''?'') (\<lambda>_. ''2024'') (new_sqlite_executor sessions_source None) ?q = Inr (sql, params)"
    by (metis isl_def surj_pair sum.exhaust)
  with query_text_value_free [OF _ _ _ _ _ _ count_query this] show ?thesis
    by (auto simp: count_sessions_def same_filter_shape_def same_period_shape_def)
qed

lemma sessions_register_get:
  "data_get ''sessions'' sessions_register = Inr sessions_source" "data_get ''memories'' sessions_register = Inr memories_source"
  "data_get_analyzer ''memories'' sessions_register = Inr None"
  by (simp_all add: data_get_def data_get_analyzer_def data_has_def dict_has_def sessions_register_def dict_get_Cons Let_def)

lemma count_validated: "validate_statistics_request count_sessions sessions_register = Inr sessions_source"
proof -
  have "set (sq_metrics count_sessions) \<subseteq> metric_ids sessions_source"
    "set (sq_dimensions count_sessions) \<subseteq> field_ids sessions_source"
    "set (map dft_field_id (sq_filters count_sessions)) \<subseteq> field_ids sessions_source"
    by (simp_all add: metric_ids_def field_ids_def count_sessions_def sessions_source_def metric_def_def field_def_def)
  then show ?thesis
    by (simp add: validate_statistics_request_def refuse_unknown_def check_time_range_def Let_def
        unknown_names_Nil count_sessions_def sessions_register_get)
qed

lemma count_statistics: "\<exists>st. statistics sessions_register count_sessions () = (Inr st, ())"
proof -
  have "dso_source_id sessions_source = ''sessions''" by (simp add: sessions_source_def)
  then have x: "data_get_executor (dso_source_id sessions_source) sessions_register
      = Inr \<lparr>de_run = sqlite_statistics (\<lambda>_. ''?'') (\<lambda>_. ''2024'') (\<lambda>_ _. return_a [\<lambda>_. PInt 3])
                (new_sqlite_executor sessions_source None), de_owner = Some 0, de_closable = True\<rparr>"
    by (simp add: data_get_executor_def data_has_def dict_has_def sessions_register_def dict_get_Cons Let_def)
  show ?thesis
    by (simp add: statistics_def bind_a_def count_validated x sqlite_statistics_def count_query validate_statistics_result_def)
qed

theorem accepted_requests_have_queries_witness:
  "\<exists>sql params. build_query (\<lambda>_. []) (\<lambda>_. []) (new_sqlite_executor sessions_source None) count_sessions = Inr (sql, params)"
proof -
  have "sessions_source \<in> set (sqlite_runtime_sources False)" by (simp add: sqlite_runtime_sources_def)
  moreover have "list_all filter_value_ok (sq_filters count_sessions)"
    by (simp add: count_sessions_def filter_value_ok_def)
  ultimately show ?thesis using accepted_requests_have_queries count_validated by blast
qed

theorem statistics_outcome_witness:
  "\<exists>result. statistics sessions_register count_sessions () = (Inr result, ()) \<and> st_source_id result = ''sessions''"
proof -
  obtain result where "statistics sessions_register count_sessions () = (Inr result, ())"
    using count_statistics by blast
  with statistics_outcome [OF this] show ?thesis by (simp add: count_sessions_def)
qed

theorem analysis_mixes_sources_witness:
  "\<exists>result st. analyze sessions_register \<lparr>aq_source_id = ''memories'', aq_question = None,
       aq_statistics_request = Some count_sessions, aq_metadata = []\<rparr> () = (Inr result, ())
     \<and> an_source_id result = ''memories'' \<and> an_statistics result = Some st \<and> st_source_id st = ''sessions''"
proof -
  let ?q = "\<lparr>aq_source_id = ''memories'', aq_question = None, aq_statistics_request = Some count_sessions, aq_metadata = []\<rparr>"
  obtain st where st: "statistics sessions_register count_sessions () = (Inr st, ())" using count_statistics by blast
  have "dso_source_id memories_source = aq_source_id ?q" by (simp add: memories_source_def)
  with analysis_mixes_sources [of ?q sessions_register memories_source count_sessions "()" st "()"] st
  show ?thesis by (auto simp: sessions_register_get count_sessions_def)
qed

end
