(* ===== verification/AuthorizedInterface.thy ===== *)
theory AuthorizedInterface
  imports ChatUseCases DataAnalysis ImageApplication AgentRecovery
begin

text \<open>
  The authorized interface (\<open>core/domain/authorized_interface.py\<close>, \<open>core/domain/interface.py\<close>): what a
  principal reaches of the program.  Each class of the source wraps an inner interface; here an interface is a
  service, a function from calls (one constructor per method) and the scope argument to operations, and
  each wrapper is a function from services to services with one equation per method.

  The scope that a caller passes is ignored by every wrapper.  The replies of all services have one type
  \<open>'r\<close>.
\<close>

section \<open>Permissions\<close>

type_synonym ('c, 's, 'r) service = "'c \<Rightarrow> principal_scope option \<Rightarrow> (error, 's, 'r) act"

record authorizer =
  az_policy :: "auth_request \<Rightarrow> auth_decision"
  az_dump :: "auth_decision \<Rightarrow> string"

definition require_permission ::
  "authorizer \<Rightarrow> principal \<Rightarrow> string \<Rightarrow> string \<Rightarrow> string option \<Rightarrow> error + unit" where
  "require_permission az p resource action resource_id =
     authorizer_require (az_dump az) (az_policy az)
       \<lparr>req_principal = p,
        req_permission = \<lparr>perm_action = action, perm_resource = resource, perm_scope = None, perm_metadata = []\<rparr>,
        req_resource_id = resource_id, req_metadata = []\<rparr>"

definition permitted ::
  "authorizer \<Rightarrow> principal \<Rightarrow> string \<Rightarrow> string \<Rightarrow> string option \<Rightarrow> (error, 's, 'r) act \<Rightarrow> (error, 's, 'r) act" where
  "permitted az p resource action resource_id m =
     bind_a (lift_a (require_permission az p resource action resource_id)) (\<lambda>_. m)"

definition own_scope :: "principal \<Rightarrow> principal_scope option" where
  "own_scope p = Some (for_principal p)"

text \<open>\<open>_call_with_optional_scope\<close>: whether the inner method accepts a scope is known of the interface.\<close>

definition call_with_optional_scope ::
  "bool \<Rightarrow> (principal_scope option \<Rightarrow> (error, 's, 'r) act) \<Rightarrow> principal_scope option \<Rightarrow> (error, 's, 'r) act" where
  "call_with_optional_scope accepts_scope operation scope = (if accepts_scope then operation scope else operation None)"

section \<open>Contexts, memories and chats\<close>

datatype context_call =
    Create_context chat_context
  | Get_context string
  | Append_context string content "nat option"
  | Replace_context chat_context
  | List_contexts "string option" "nat option" "string option"
  | Delete_context string

fun authorized_contexts ::
  "authorizer \<Rightarrow> principal \<Rightarrow> (context_call, 's, 'r) service \<Rightarrow> (context_call, 's, 'r) service" where
  "authorized_contexts az p inner (Create_context c) scope =
     permitted az p ''contexts'' ''create'' (Some (ctx_id c))
       (inner (Create_context (c\<lparr>ctx_owner_id := Some (principal_id p)\<rparr>)) (own_scope p))"
| "authorized_contexts az p inner (Get_context i) scope =
     permitted az p ''contexts'' ''get'' (Some i) (inner (Get_context i) (own_scope p))"
| "authorized_contexts az p inner (Append_context i m expected_revision) scope =
     permitted az p ''contexts'' ''append'' (Some i) (inner (Append_context i m expected_revision) (own_scope p))"
| "authorized_contexts az p inner (Replace_context c) scope =
     permitted az p ''contexts'' ''replace'' (Some (ctx_id c))
       (inner (Replace_context (c\<lparr>ctx_owner_id := Some (principal_id p)\<rparr>)) (own_scope p))"
| "authorized_contexts az p inner (List_contexts cursor limit owner_id) scope =
     permitted az p ''contexts'' ''list'' None (inner (List_contexts cursor limit owner_id) (own_scope p))"
| "authorized_contexts az p inner (Delete_context i) scope =
     permitted az p ''contexts'' ''delete'' (Some i) (inner (Delete_context i) (own_scope p))"

datatype memory_call =
    Create_memory memory_item
  | Get_memory string
  | Replace_memory memory_item
  | List_memories "string option" "nat option" "string option" "memory_query option"
  | Delete_memory string
  | Select_memories "memory_query option"

fun authorized_memories ::
  "authorizer \<Rightarrow> principal \<Rightarrow> (memory_call, 's, 'r) service \<Rightarrow> (memory_call, 's, 'r) service" where
  "authorized_memories az p inner (Create_memory m) scope =
     permitted az p ''memories'' ''create'' (Some (mem_id m))
       (inner (Create_memory (m\<lparr>mem_owner_id := Some (principal_id p)\<rparr>)) (own_scope p))"
| "authorized_memories az p inner (Get_memory i) scope =
     permitted az p ''memories'' ''get'' (Some i) (inner (Get_memory i) (own_scope p))"
| "authorized_memories az p inner (Replace_memory m) scope =
     permitted az p ''memories'' ''replace'' (Some (mem_id m))
       (inner (Replace_memory (m\<lparr>mem_owner_id := Some (principal_id p)\<rparr>)) (own_scope p))"
| "authorized_memories az p inner (List_memories cursor limit owner_id q) scope =
     permitted az p ''memories'' ''list'' None (inner (List_memories cursor limit owner_id q) (own_scope p))"
| "authorized_memories az p inner (Delete_memory i) scope =
     permitted az p ''memories'' ''delete'' (Some i) (inner (Delete_memory i) (own_scope p))"
| "authorized_memories az p inner (Select_memories q) scope =
     permitted az p ''memories'' ''select'' None (inner (Select_memories q) (own_scope p))"

datatype chat_call =
    Chat_once string chat_request
  | Organize_request compose_args
  | Chat_in_context string "nat option" compose_args
  | Stream_once string chat_request
  | Stream_in_context string "nat option" compose_args

fun authorized_chats ::
  "bool \<Rightarrow> authorizer \<Rightarrow> principal \<Rightarrow> (chat_call, 's, 'r) service \<Rightarrow> (chat_call, 's, 'r) service" where
  "authorized_chats acc az p inner (Chat_once provider_id request) scope =
     permitted az p ''chat'' ''create'' (Some provider_id)
       (call_with_optional_scope acc (inner (Chat_once provider_id request)) (own_scope p))"
| "authorized_chats acc az p inner (Organize_request a) scope =
     permitted az p ''contexts'' ''preview'' (Some (cm_context_id a)) (inner (Organize_request a) (own_scope p))"
| "authorized_chats acc az p inner (Chat_in_context provider_id idx a) scope =
     permitted az p ''chat'' ''create'' (Some (cm_context_id a)) (inner (Chat_in_context provider_id idx a) (own_scope p))"
| "authorized_chats acc az p inner (Stream_once provider_id request) scope =
     permitted az p ''chat'' ''stream'' (Some provider_id)
       (call_with_optional_scope acc (inner (Stream_once provider_id request)) (own_scope p))"
| "authorized_chats acc az p inner (Stream_in_context provider_id idx a) scope =
     permitted az p ''chat'' ''stream'' (Some (cm_context_id a)) (inner (Stream_in_context provider_id idx a) (own_scope p))"

section \<open>Images and providers\<close>

datatype image_call =
    Submit_task image_submission
  | Get_task string
  | Delete_task string
  | List_tasks int "string option" "string option"
  | Generate_images string image_request
  | Edit_images string image_request
  | List_records int "string option"
  | Get_record string
  | Delete_record string

fun authorized_images ::
  "authorizer \<Rightarrow> principal \<Rightarrow> (image_call, 's, 'r) service \<Rightarrow> (image_call, 's, 'r) service" where
  "authorized_images az p inner (Submit_task sub) scope =
     permitted az p ''images'' ''generate'' (Some (isb_provider_id sub))
       (case isb_session_id sub of
          None \<Rightarrow> inner (Submit_task sub) (own_scope p)
        | Some i \<Rightarrow> permitted az p ''sessions'' ''get'' (Some i) (inner (Submit_task sub) (own_scope p)))"
| "authorized_images az p inner (Get_task i) scope =
     permitted az p ''images'' ''get'' (Some i) (inner (Get_task i) (own_scope p))"
| "authorized_images az p inner (Delete_task i) scope =
     permitted az p ''images'' ''delete'' (Some i) (inner (Delete_task i) (own_scope p))"
| "authorized_images az p inner (List_tasks limit cursor session_id) scope =
     permitted az p ''images'' ''list'' None (inner (List_tasks limit cursor session_id) (own_scope p))"
| "authorized_images az p inner (Generate_images provider_id request) scope =
     permitted az p ''images'' ''generate'' (Some provider_id) (inner (Generate_images provider_id request) (own_scope p))"
| "authorized_images az p inner (Edit_images provider_id request) scope =
     permitted az p ''images'' ''generate'' (Some provider_id) (inner (Edit_images provider_id request) (own_scope p))"
| "authorized_images az p inner (List_records limit cursor) scope =
     permitted az p ''images'' ''list'' None (inner (List_records limit cursor) (own_scope p))"
| "authorized_images az p inner (Get_record i) scope =
     permitted az p ''images'' ''get'' (Some i) (inner (Get_record i) (own_scope p))"
| "authorized_images az p inner (Delete_record i) scope =
     permitted az p ''images'' ''delete'' (Some i) (inner (Delete_record i) (own_scope p))"

datatype provider_call =
    Create_provider provider_config
  | List_providers
  | Test_provider string string
  | Get_provider_config string
  | Update_provider string provider_config_update
  | List_provider_models string
  | Get_provider_model string string
  | Provider_supports string model_capability
  | Delete_provider string

text \<open>Providers belong to the program, not to a principal: no scope is passed on.\<close>

fun authorized_providers ::
  "authorizer \<Rightarrow> principal \<Rightarrow> (provider_call, 's, 'r) service \<Rightarrow> (provider_call, 's, 'r) service" where
  "authorized_providers az p inner (Create_provider config) scope =
     permitted az p ''providers'' ''create'' (Some (pcf_provider_id config)) (inner (Create_provider config) None)"
| "authorized_providers az p inner List_providers scope =
     permitted az p ''providers'' ''list'' None (inner List_providers None)"
| "authorized_providers az p inner (Test_provider i model_id) scope =
     permitted az p ''providers'' ''test'' (Some i) (inner (Test_provider i model_id) None)"
| "authorized_providers az p inner (Get_provider_config i) scope =
     permitted az p ''providers'' ''get_config'' (Some i) (inner (Get_provider_config i) None)"
| "authorized_providers az p inner (Update_provider i u) scope =
     permitted az p ''providers'' ''update'' (Some i) (inner (Update_provider i u) None)"
| "authorized_providers az p inner (List_provider_models i) scope =
     permitted az p ''providers'' ''list_models'' (Some i) (inner (List_provider_models i) None)"
| "authorized_providers az p inner (Get_provider_model i model_id) scope =
     permitted az p ''providers'' ''get_model'' (Some i) (inner (Get_provider_model i model_id) None)"
| "authorized_providers az p inner (Provider_supports i capability) scope =
     permitted az p ''providers'' ''supports'' (Some i) (inner (Provider_supports i capability) None)"
| "authorized_providers az p inner (Delete_provider i) scope =
     permitted az p ''providers'' ''delete'' (Some i) (inner (Delete_provider i) None)"

section \<open>Tools, files and data analysis\<close>

datatype tools_call = List_tools | List_tool_policies | Set_tool_policy string "tool_access_mode option"

fun authorized_tools ::
  "authorizer \<Rightarrow> principal \<Rightarrow> (tools_call, 's, 'r) service \<Rightarrow> (tools_call, 's, 'r) service" where
  "authorized_tools az p inner List_tools scope = permitted az p ''tools'' ''list'' None (inner List_tools (own_scope p))"
| "authorized_tools az p inner List_tool_policies scope =
     permitted az p ''tools'' ''list'' None (inner List_tool_policies (own_scope p))"
| "authorized_tools az p inner (Set_tool_policy name mode) scope =
     permitted az p ''tools'' ''configure'' (Some name) (inner (Set_tool_policy name mode) (own_scope p))"

datatype file_call = Upload_file string bytes | Get_file string | Read_file string

fun authorized_files ::
  "authorizer \<Rightarrow> principal \<Rightarrow> (file_call, 's, 'r) service \<Rightarrow> (file_call, 's, 'r) service" where
  "authorized_files az p inner (Upload_file name data) scope =
     permitted az p ''files'' ''create'' None (inner (Upload_file name data) (own_scope p))"
| "authorized_files az p inner (Get_file i) scope =
     permitted az p ''files'' ''get'' (Some i) (inner (Get_file i) (own_scope p))"
| "authorized_files az p inner (Read_file i) scope =
     permitted az p ''files'' ''read'' (Some i) (inner (Read_file i) (own_scope p))"

datatype data_call =
    List_sources
  | Get_source string
  | List_fields string
  | List_metrics string
  | Run_statistics statistics_request
  | Run_analysis analysis_request

fun authorized_data ::
  "authorizer \<Rightarrow> principal \<Rightarrow> (data_call, 's, 'r) service \<Rightarrow> (data_call, 's, 'r) service" where
  "authorized_data az p inner List_sources scope =
     permitted az p ''data-analysis'' ''list'' None (inner List_sources None)"
| "authorized_data az p inner (Get_source i) scope =
     permitted az p ''data-analysis'' ''get'' (Some i) (inner (Get_source i) None)"
| "authorized_data az p inner (List_fields i) scope =
     permitted az p ''data-analysis'' ''list_fields'' (Some i) (inner (List_fields i) None)"
| "authorized_data az p inner (List_metrics i) scope =
     permitted az p ''data-analysis'' ''list_metrics'' (Some i) (inner (List_metrics i) None)"
| "authorized_data az p inner (Run_statistics q) scope =
     permitted az p ''data-analysis'' ''statistics'' (Some (sq_source_id q)) (inner (Run_statistics q) None)"
| "authorized_data az p inner (Run_analysis q) scope =
     permitted az p ''data-analysis'' ''analyze'' (Some (aq_source_id q)) (inner (Run_analysis q) None)"

section \<open>Agents\<close>

datatype agent_call =
    Run_agent agent_request
  | Run_agent_until_pause agent_request
  | Resume_agent agent_run "tool_approval_decision list"
  | Resume_agent_until_pause agent_run "tool_approval_decision list"
  | Start_agent_run agent_request
  | Resume_agent_run string "tool_approval_decision list"
  | Run_agent_stream agent_request
  | Resume_agent_stream agent_run "tool_approval_decision list"
  | Run_in_context string compose_args nat

text \<open>Requests and snapshots go on as they are, without a scope and without the owner.\<close>

fun authorized_agent ::
  "authorizer \<Rightarrow> principal \<Rightarrow> (agent_call, 's, 'r) service \<Rightarrow> (agent_call, 's, 'r) service" where
  "authorized_agent az p inner (Run_agent request) scope =
     permitted az p ''agent'' ''run'' (Some (ag_context_id request)) (inner (Run_agent request) None)"
| "authorized_agent az p inner (Run_agent_until_pause request) scope =
     permitted az p ''agent'' ''run'' (Some (ag_context_id request)) (inner (Run_agent_until_pause request) None)"
| "authorized_agent az p inner (Resume_agent state approvals) scope =
     permitted az p ''agent'' ''resume'' (Some (rn_run_id state)) (inner (Resume_agent state approvals) None)"
| "authorized_agent az p inner (Resume_agent_until_pause state approvals) scope =
     permitted az p ''agent'' ''resume'' (Some (rn_run_id state)) (inner (Resume_agent_until_pause state approvals) None)"
| "authorized_agent az p inner (Start_agent_run request) scope =
     permitted az p ''agent-runs'' ''create'' (Some (ag_context_id request)) (inner (Start_agent_run request) None)"
| "authorized_agent az p inner (Resume_agent_run run_id approvals) scope =
     permitted az p ''agent-runs'' ''resume'' (Some run_id) (inner (Resume_agent_run run_id approvals) None)"
| "authorized_agent az p inner (Run_agent_stream request) scope =
     permitted az p ''agent'' ''stream'' (Some (ag_context_id request)) (inner (Run_agent_stream request) None)"
| "authorized_agent az p inner (Resume_agent_stream state approvals) scope =
     permitted az p ''agent'' ''resume_stream'' (Some (rn_run_id state)) (inner (Resume_agent_stream state approvals) None)"
| "authorized_agent az p inner (Run_in_context provider_id a max_tool_rounds) scope =
     permitted az p ''agent'' ''run'' (Some (cm_context_id a)) (inner (Run_in_context provider_id a max_tool_rounds) None)"

datatype agent_runs_call =
    Start_run agent_request
  | Resume_run string "tool_approval_decision list"
  | Pause_run string "string option"
  | Cancel_run string "string option"
  | Retry_run string "string option"
  | Retry_stream string "string option"
  | Start_stream agent_request
  | Resume_stream string "tool_approval_decision list"
  | Get_run string
  | List_runs "string option" "nat option" "string option" "agent_run_status option" "string option"
  | List_trace string int "nat option"
  | List_tool_executions string
  | Resolve_execution string string nat execution_resolution "metadata option" "string option"

fun authorized_agent_runs ::
  "authorizer \<Rightarrow> principal \<Rightarrow> (agent_runs_call, 's, 'r) service \<Rightarrow> (agent_runs_call, 's, 'r) service" where
  "authorized_agent_runs az p inner (Start_run request) scope =
     permitted az p ''agent-runs'' ''create'' (Some (ag_context_id request))
       (inner (Start_run (request\<lparr>ag_owner_id := Some (principal_id p)\<rparr>)) (own_scope p))"
| "authorized_agent_runs az p inner (Resume_run run_id approvals) scope =
     permitted az p ''agent-runs'' ''resume'' (Some run_id) (inner (Resume_run run_id approvals) (own_scope p))"
| "authorized_agent_runs az p inner (Pause_run run_id reason) scope =
     permitted az p ''agent-runs'' ''pause'' (Some run_id) (inner (Pause_run run_id reason) (own_scope p))"
| "authorized_agent_runs az p inner (Cancel_run run_id reason) scope =
     permitted az p ''agent-runs'' ''cancel'' (Some run_id) (inner (Cancel_run run_id reason) (own_scope p))"
| "authorized_agent_runs az p inner (Retry_run run_id retried_run_id) scope =
     permitted az p ''agent-runs'' ''retry'' (Some run_id) (inner (Retry_run run_id retried_run_id) (own_scope p))"
| "authorized_agent_runs az p inner (Retry_stream run_id retried_run_id) scope =
     permitted az p ''agent-runs'' ''retry'' (Some run_id) (inner (Retry_stream run_id retried_run_id) (own_scope p))"
| "authorized_agent_runs az p inner (Start_stream request) scope =
     permitted az p ''agent-runs'' ''stream'' (Some (ag_context_id request))
       (inner (Start_stream (request\<lparr>ag_owner_id := Some (principal_id p)\<rparr>)) (own_scope p))"
| "authorized_agent_runs az p inner (Resume_stream run_id approvals) scope =
     permitted az p ''agent-runs'' ''resume_stream'' (Some run_id) (inner (Resume_stream run_id approvals) (own_scope p))"
| "authorized_agent_runs az p inner (Get_run run_id) scope =
     permitted az p ''agent-runs'' ''get'' (Some run_id) (inner (Get_run run_id) (own_scope p))"
| "authorized_agent_runs az p inner (List_runs cursor limit owner_id status context_id) scope =
     permitted az p ''agent-runs'' ''list'' None (inner (List_runs cursor limit owner_id status context_id) (own_scope p))"
| "authorized_agent_runs az p inner (List_trace run_id after_sequence limit) scope =
     permitted az p ''agent-runs'' ''list_trace'' (Some run_id) (inner (List_trace run_id after_sequence limit) (own_scope p))"
| "authorized_agent_runs az p inner (List_tool_executions run_id) scope =
     permitted az p ''agent-runs'' ''list_tool_executions'' (Some run_id) (inner (List_tool_executions run_id) (own_scope p))"
| "authorized_agent_runs az p inner (Resolve_execution run_id call_id attempt resolution result reason) scope =
     permitted az p ''agent-runs'' ''resolve_tool_execution'' (Some run_id)
       (inner (Resolve_execution run_id call_id attempt resolution result reason) (own_scope p))"

section \<open>Skills and sessions\<close>

datatype skill_call =
    List_skills
  | Create_template skill_template
  | Get_template string
  | Update_template string skill_template_update
  | Delete_template string
  | Get_skill string
  | Skill_supports string skill_capability
  | Render_skill skill_render_request

fun authorized_skills ::
  "authorizer \<Rightarrow> principal \<Rightarrow> (skill_call, 's, 'r) service \<Rightarrow> (skill_call, 's, 'r) service" where
  "authorized_skills az p inner List_skills scope = permitted az p ''skills'' ''list'' None (inner List_skills None)"
| "authorized_skills az p inner (Create_template config) scope =
     permitted az p ''skills'' ''create'' (Some (skd_name config)) (inner (Create_template config) None)"
| "authorized_skills az p inner (Get_template name) scope =
     permitted az p ''skills'' ''get_template'' (Some name) (inner (Get_template name) None)"
| "authorized_skills az p inner (Update_template name u) scope =
     permitted az p ''skills'' ''update'' (Some name) (inner (Update_template name u) None)"
| "authorized_skills az p inner (Delete_template name) scope =
     permitted az p ''skills'' ''delete'' (Some name) (inner (Delete_template name) None)"
| "authorized_skills az p inner (Get_skill name) scope =
     permitted az p ''skills'' ''get'' (Some name) (inner (Get_skill name) None)"
| "authorized_skills az p inner (Skill_supports name capability) scope =
     permitted az p ''skills'' ''supports'' (Some name) (inner (Skill_supports name capability) None)"
| "authorized_skills az p inner (Render_skill request) scope =
     permitted az p ''skills'' ''render'' (Some (srr_skill_name request)) (inner (Render_skill request) None)"

datatype session_call =
    Create_session session
  | Get_session string
  | Replace_session session
  | Archive_session string
  | List_sessions session_filter
  | Delete_session string
  | Chat_in_session string session_chat_request
  | Start_run_in_session string session_agent_run_request

fun authorized_sessions ::
  "authorizer \<Rightarrow> principal \<Rightarrow> (session_call, 's, 'r) service \<Rightarrow> (session_call, 's, 'r) service" where
  "authorized_sessions az p inner (Create_session ses) scope =
     permitted az p ''sessions'' ''create'' (Some (ses_id ses))
       (inner (Create_session (ses\<lparr>ses_owner_id := Some (principal_id p)\<rparr>)) (own_scope p))"
| "authorized_sessions az p inner (Get_session i) scope =
     permitted az p ''sessions'' ''get'' (Some i) (inner (Get_session i) (own_scope p))"
| "authorized_sessions az p inner (Replace_session ses) scope =
     permitted az p ''sessions'' ''replace'' (Some (ses_id ses))
       (inner (Replace_session (ses\<lparr>ses_owner_id := Some (principal_id p)\<rparr>)) (own_scope p))"
| "authorized_sessions az p inner (Archive_session i) scope =
     permitted az p ''sessions'' ''archive'' (Some i) (inner (Archive_session i) (own_scope p))"
| "authorized_sessions az p inner (List_sessions f) scope =
     permitted az p ''sessions'' ''list'' None (inner (List_sessions f) (own_scope p))"
| "authorized_sessions az p inner (Delete_session i) scope =
     permitted az p ''sessions'' ''delete'' (Some i) (inner (Delete_session i) (own_scope p))"
| "authorized_sessions az p inner (Chat_in_session i request) scope =
     permitted az p ''sessions'' ''chat'' (Some i) (inner (Chat_in_session i request) (own_scope p))"
| "authorized_sessions az p inner (Start_run_in_session i request) scope =
     permitted az p ''sessions'' ''start_agent_run'' (Some i) (inner (Start_run_in_session i request) (own_scope p))"

section \<open>The whole interface\<close>

datatype interface_call =
    On_contexts context_call
  | On_memories memory_call
  | On_chats chat_call
  | On_images image_call
  | On_providers provider_call
  | On_tools tools_call
  | On_files file_call
  | On_data data_call
  | On_agent agent_call
  | On_agent_runs agent_runs_call
  | On_skills skill_call
  | On_sessions session_call

fun authorized_interface ::
  "bool \<Rightarrow> authorizer \<Rightarrow> principal \<Rightarrow> (interface_call, 's, 'r) service \<Rightarrow> (interface_call, 's, 'r) service" where
  "authorized_interface acc az p inner (On_contexts c) = authorized_contexts az p (inner \<circ> On_contexts) c"
| "authorized_interface acc az p inner (On_memories c) = authorized_memories az p (inner \<circ> On_memories) c"
| "authorized_interface acc az p inner (On_chats c) = authorized_chats acc az p (inner \<circ> On_chats) c"
| "authorized_interface acc az p inner (On_images c) = authorized_images az p (inner \<circ> On_images) c"
| "authorized_interface acc az p inner (On_providers c) = authorized_providers az p (inner \<circ> On_providers) c"
| "authorized_interface acc az p inner (On_tools c) = authorized_tools az p (inner \<circ> On_tools) c"
| "authorized_interface acc az p inner (On_files c) = authorized_files az p (inner \<circ> On_files) c"
| "authorized_interface acc az p inner (On_data c) = authorized_data az p (inner \<circ> On_data) c"
| "authorized_interface acc az p inner (On_agent c) = authorized_agent az p (inner \<circ> On_agent) c"
| "authorized_interface acc az p inner (On_agent_runs c) = authorized_agent_runs az p (inner \<circ> On_agent_runs) c"
| "authorized_interface acc az p inner (On_skills c) = authorized_skills az p (inner \<circ> On_skills) c"
| "authorized_interface acc az p inner (On_sessions c) = authorized_sessions az p (inner \<circ> On_sessions) c"

text \<open>
  \<open>EvernightInterface.close\<close>: the runs are closed first and the runtime in every case; an error of the runtime
  replaces the error of the runs.
\<close>

definition close_interface :: "(error, 's, unit) act \<Rightarrow> (error, 's, unit) act \<Rightarrow> (error, 's, unit) act" where
  "close_interface close_runs close_runtime s =
     (case close_runs s of
        (x, s) \<Rightarrow> (case close_runtime s of
            (Inl e, s) \<Rightarrow> (Inl e, s)
          | (Inr _, s) \<Rightarrow> (x, s)))"

end
