(* ===== verification/Applications.thy ===== *)
theory Applications
  imports AuthorizedInterface
begin

text \<open>
  The applications behind the interface (\<open>application/chat.py\<close>, \<open>application/session.py\<close>,
  \<open>application/file.py\<close>) as services on the shared state of the runtime, and the interface that the principal
  gets: the services of contexts, memories, chats, sessions and files behind the authorization.  The start of an agent
  run and the other groups of calls are parameters.
\<close>

datatype reply =
    Reply_context chat_context
  | Reply_contexts "chat_context list"
  | Reply_memory memory_item
  | Reply_memories "memory_item list"
  | Reply_selection memory_selection
  | Reply_request chat_request
  | Reply_response chat_response
  | Reply_stream "chat_stream_event list" "error option"
  | Reply_session session
  | Reply_sessions "session list"
  | Reply_session_chat session chat_response
  | Reply_run agent_run
  | Reply_file file_info
  | Reply_data file_info bytes
  | Reply_done

definition map_reply :: "('a \<Rightarrow> 'b) \<Rightarrow> (error, 's, 'a) act \<Rightarrow> (error, 's, 'b) act" where
  "map_reply f m = bind_a m (\<lambda>x. return_a (f x))"

fun context_service :: "(context_call, app_state, reply) service" where
  "context_service (Create_context c) scope = map_reply Reply_context (with_contexts (context_create scope c))"
| "context_service (Get_context i) scope =
     map_reply Reply_context (reading (\<lambda>s. context_get scope i (ap_contexts s)))"
| "context_service (Append_context i m expected_revision) scope =
     map_reply Reply_context (with_contexts (append_message scope i m expected_revision))"
| "context_service (Replace_context c) scope = map_reply Reply_context (with_contexts (context_replace scope c))"
| "context_service (List_contexts cursor limit owner_id) scope =
     map_reply Reply_contexts (reading (\<lambda>s. Inr (context_list cursor limit owner_id scope (ap_contexts s))))"
| "context_service (Delete_context i) scope =
     map_reply (\<lambda>_. Reply_done) (with_contexts (context_unregister scope i))"

fun memory_service :: "app_env \<Rightarrow> (memory_call, app_state, reply) service" where
  "memory_service env (Create_memory m) scope = map_reply Reply_memory (with_memories (memory_create scope m))"
| "memory_service env (Get_memory i) scope =
     map_reply Reply_memory (reading (\<lambda>s. memory_get scope i (ap_memories s)))"
| "memory_service env (Replace_memory m) scope =
     map_reply Reply_memory (with_memories (memory_replace (ae_now env) scope m))"
| "memory_service env (List_memories cursor limit owner_id q) scope =
     map_reply Reply_memories (reading (\<lambda>s. Inr (memory_list (ae_unicode env) (ae_now env) cursor limit owner_id q scope
       (ap_memories s))))"
| "memory_service env (Delete_memory i) scope =
     map_reply (\<lambda>_. Reply_done) (with_memories (memory_unregister scope i))"
| "memory_service env (Select_memories q) scope =
     map_reply Reply_selection (reading (\<lambda>s. Inr (memory_select (ae_unicode env) (ae_now env)
       (memory_list (ae_unicode env) (ae_now env) None None None None scope (ap_memories s)) q)))"

fun chat_service :: "app_env \<Rightarrow> (chat_call, app_state, reply) service" where
  "chat_service env (Chat_once provider_id request) scope = map_reply Reply_response (chat env provider_id request scope)"
| "chat_service env (Organize_request a) scope = map_reply Reply_request (reading (organize_chat_request env a scope))"
| "chat_service env (Chat_in_context provider_id idx a) scope =
     map_reply Reply_response (chat_with_context env provider_id idx a scope)"
| "chat_service env (Stream_once provider_id request) scope =
     map_reply (\<lambda>(es, e). Reply_stream es e) (chat_stream env provider_id request scope)"
| "chat_service env (Stream_in_context provider_id idx a) scope =
     map_reply (\<lambda>(es, e). Reply_stream es e) (chat_stream_with_context env provider_id idx a scope)"

fun session_service ::
  "app_env \<Rightarrow> (agent_request \<Rightarrow> principal_scope option \<Rightarrow> (error, app_state, agent_run) act)
     \<Rightarrow> (session_call, app_state, reply) service" where
  "session_service env start (Create_session ses) scope = map_reply Reply_session (create_session ses scope)"
| "session_service env start (Get_session i) scope =
     map_reply Reply_session (reading (\<lambda>s. session_get scope i (ap_sessions s)))"
| "session_service env start (Replace_session ses) scope =
     map_reply Reply_session (replace_session (ae_now env) ses scope)"
| "session_service env start (Archive_session i) scope =
     map_reply Reply_session (with_sessions (session_archive (ae_now env) scope i))"
| "session_service env start (List_sessions f) scope =
     map_reply Reply_sessions (reading (\<lambda>s. Inr (session_list f scope (ap_sessions s))))"
| "session_service env start (Delete_session i) scope =
     map_reply (\<lambda>_. Reply_done) (with_sessions (session_unregister scope i))"
| "session_service env start (Chat_in_session i r) scope =
     map_reply (\<lambda>(ses, x). Reply_session_chat ses x) (chat_with_session env i r scope)"
| "session_service env start (Start_run_in_session i r) scope =
     map_reply Reply_run (start_agent_run_for_session start i r scope)"

text \<open>\<open>fresh_id\<close> is the random identifier of the next artifact.\<close>

definition with_files :: "(error, file_store, 'a) act \<Rightarrow> (error, app_state, 'a) act" where
  "with_files m s = (case m (ap_files s) of (x, d) \<Rightarrow> (x, s\<lparr>ap_files := d\<rparr>))"

fun file_service :: "app_env \<Rightarrow> string \<Rightarrow> (file_call, app_state, reply) service" where
  "file_service env fresh_id (Upload_file name data) scope =
     map_reply Reply_file (with_files (upload_file (uc_strip (ae_unicode env)) fresh_id (ae_now env) name data scope))"
| "file_service env fresh_id (Get_file i) scope = map_reply Reply_file (reading (\<lambda>s. get_file i scope (ap_files s)))"
| "file_service env fresh_id (Read_file i) scope =
     map_reply (\<lambda>(info, data). Reply_data info data) (reading (\<lambda>s. read_file i scope (ap_files s)))"

text \<open>The interface without authorization; \<open>others\<close> serves the groups that are not on this state.\<close>

fun conversation_service ::
  "app_env \<Rightarrow> string \<Rightarrow> (agent_request \<Rightarrow> principal_scope option \<Rightarrow> (error, app_state, agent_run) act)
     \<Rightarrow> (interface_call, app_state, reply) service \<Rightarrow> (interface_call, app_state, reply) service" where
  "conversation_service env fresh_id start others (On_contexts c) scope = context_service c scope"
| "conversation_service env fresh_id start others (On_memories c) scope = memory_service env c scope"
| "conversation_service env fresh_id start others (On_chats c) scope = chat_service env c scope"
| "conversation_service env fresh_id start others (On_sessions c) scope = session_service env start c scope"
| "conversation_service env fresh_id start others (On_files c) scope = file_service env fresh_id c scope"
| "conversation_service env fresh_id start others c scope = others c scope"

end
