(* ===== verification/AuthorizedFacts.thy ===== *)
theory AuthorizedFacts
  imports AuthorizedInterface
begin

text \<open>
  The permission matrix of the authorized interface, as a specification: which permissions each call needs, on
  whose behalf it goes on and with which scope.  The theorem states that the wrappers implement exactly this.
\<close>

primrec requires_contexts :: "context_call \<Rightarrow> string list" where
  "requires_contexts (Create_context x0) = [''contexts:create'']"
| "requires_contexts (Get_context x0) = [''contexts:get'']"
| "requires_contexts (Append_context x0 x1 x2) = [''contexts:append'']"
| "requires_contexts (Replace_context x0) = [''contexts:replace'']"
| "requires_contexts (List_contexts x0 x1 x2) = [''contexts:list'']"
| "requires_contexts (Delete_context x0) = [''contexts:delete'']"

primrec requires_memories :: "memory_call \<Rightarrow> string list" where
  "requires_memories (Create_memory x0) = [''memories:create'']"
| "requires_memories (Get_memory x0) = [''memories:get'']"
| "requires_memories (Replace_memory x0) = [''memories:replace'']"
| "requires_memories (List_memories x0 x1 x2 x3) = [''memories:list'']"
| "requires_memories (Delete_memory x0) = [''memories:delete'']"
| "requires_memories (Select_memories x0) = [''memories:select'']"

primrec requires_chats :: "chat_call \<Rightarrow> string list" where
  "requires_chats (Chat_once x0 x1) = [''chat:create'']"
| "requires_chats (Organize_request x0) = [''contexts:preview'']"
| "requires_chats (Chat_in_context x0 x1 x2) = [''chat:create'']"
| "requires_chats (Stream_once x0 x1) = [''chat:stream'']"
| "requires_chats (Stream_in_context x0 x1 x2) = [''chat:stream'']"

primrec requires_images :: "image_call \<Rightarrow> string list" where
  "requires_images (Submit_task sub) = ''images:generate'' # (if isb_session_id sub = None then [] else [''sessions:get''])"
| "requires_images (Get_task x0) = [''images:get'']"
| "requires_images (Delete_task x0) = [''images:delete'']"
| "requires_images (List_tasks x0 x1 x2) = [''images:list'']"
| "requires_images (Generate_images x0 x1) = [''images:generate'']"
| "requires_images (Edit_images x0 x1) = [''images:generate'']"
| "requires_images (List_records x0 x1) = [''images:list'']"
| "requires_images (Get_record x0) = [''images:get'']"
| "requires_images (Delete_record x0) = [''images:delete'']"

primrec requires_providers :: "provider_call \<Rightarrow> string list" where
  "requires_providers (Create_provider x0) = [''providers:create'']"
| "requires_providers List_providers = [''providers:list'']"
| "requires_providers (Test_provider x0 x1) = [''providers:test'']"
| "requires_providers (Get_provider_config x0) = [''providers:get_config'']"
| "requires_providers (Update_provider x0 x1) = [''providers:update'']"
| "requires_providers (List_provider_models x0) = [''providers:list_models'']"
| "requires_providers (Get_provider_model x0 x1) = [''providers:get_model'']"
| "requires_providers (Provider_supports x0 x1) = [''providers:supports'']"
| "requires_providers (Delete_provider x0) = [''providers:delete'']"

primrec requires_tools :: "tools_call \<Rightarrow> string list" where
  "requires_tools List_tools = [''tools:list'']"
| "requires_tools List_tool_policies = [''tools:list'']"
| "requires_tools (Set_tool_policy x0 x1) = [''tools:configure'']"

primrec requires_files :: "file_call \<Rightarrow> string list" where
  "requires_files (Upload_file x0 x1) = [''files:create'']"
| "requires_files (Get_file x0) = [''files:get'']"
| "requires_files (Read_file x0) = [''files:read'']"

primrec requires_data :: "data_call \<Rightarrow> string list" where
  "requires_data List_sources = [''data-analysis:list'']"
| "requires_data (Get_source x0) = [''data-analysis:get'']"
| "requires_data (List_fields x0) = [''data-analysis:list_fields'']"
| "requires_data (List_metrics x0) = [''data-analysis:list_metrics'']"
| "requires_data (Run_statistics x0) = [''data-analysis:statistics'']"
| "requires_data (Run_analysis x0) = [''data-analysis:analyze'']"

primrec requires_agent :: "agent_call \<Rightarrow> string list" where
  "requires_agent (Run_agent x0) = [''agent:run'']"
| "requires_agent (Run_agent_until_pause x0) = [''agent:run'']"
| "requires_agent (Resume_agent x0 x1) = [''agent:resume'']"
| "requires_agent (Resume_agent_until_pause x0 x1) = [''agent:resume'']"
| "requires_agent (Start_agent_run x0) = [''agent-runs:create'']"
| "requires_agent (Resume_agent_run x0 x1) = [''agent-runs:resume'']"
| "requires_agent (Run_agent_stream x0) = [''agent:stream'']"
| "requires_agent (Resume_agent_stream x0 x1) = [''agent:resume_stream'']"
| "requires_agent (Run_in_context x0 x1 x2) = [''agent:run'']"

primrec requires_agent_runs :: "agent_runs_call \<Rightarrow> string list" where
  "requires_agent_runs (Start_run x0) = [''agent-runs:create'']"
| "requires_agent_runs (Resume_run x0 x1) = [''agent-runs:resume'']"
| "requires_agent_runs (Pause_run x0 x1) = [''agent-runs:pause'']"
| "requires_agent_runs (Cancel_run x0 x1) = [''agent-runs:cancel'']"
| "requires_agent_runs (Retry_run x0 x1) = [''agent-runs:retry'']"
| "requires_agent_runs (Retry_stream x0 x1) = [''agent-runs:retry'']"
| "requires_agent_runs (Start_stream x0) = [''agent-runs:stream'']"
| "requires_agent_runs (Resume_stream x0 x1) = [''agent-runs:resume_stream'']"
| "requires_agent_runs (Get_run x0) = [''agent-runs:get'']"
| "requires_agent_runs (List_runs x0 x1 x2 x3 x4) = [''agent-runs:list'']"
| "requires_agent_runs (List_trace x0 x1 x2) = [''agent-runs:list_trace'']"
| "requires_agent_runs (List_tool_executions x0) = [''agent-runs:list_tool_executions'']"
| "requires_agent_runs (Resolve_execution x0 x1 x2 x3 x4 x5) = [''agent-runs:resolve_tool_execution'']"

primrec requires_skills :: "skill_call \<Rightarrow> string list" where
  "requires_skills List_skills = [''skills:list'']"
| "requires_skills (Create_template x0) = [''skills:create'']"
| "requires_skills (Get_template x0) = [''skills:get_template'']"
| "requires_skills (Update_template x0 x1) = [''skills:update'']"
| "requires_skills (Delete_template x0) = [''skills:delete'']"
| "requires_skills (Get_skill x0) = [''skills:get'']"
| "requires_skills (Skill_supports x0 x1) = [''skills:supports'']"
| "requires_skills (Render_skill x0) = [''skills:render'']"

primrec requires_sessions :: "session_call \<Rightarrow> string list" where
  "requires_sessions (Create_session x0) = [''sessions:create'']"
| "requires_sessions (Get_session x0) = [''sessions:get'']"
| "requires_sessions (Replace_session x0) = [''sessions:replace'']"
| "requires_sessions (Archive_session x0) = [''sessions:archive'']"
| "requires_sessions (List_sessions x0) = [''sessions:list'']"
| "requires_sessions (Delete_session x0) = [''sessions:delete'']"
| "requires_sessions (Chat_in_session x0 x1) = [''sessions:chat'']"
| "requires_sessions (Start_run_in_session x0 x1) = [''sessions:start_agent_run'']"

fun requires :: "interface_call \<Rightarrow> string list" where
  "requires (On_contexts c) = requires_contexts c"
| "requires (On_memories c) = requires_memories c"
| "requires (On_chats c) = requires_chats c"
| "requires (On_images c) = requires_images c"
| "requires (On_providers c) = requires_providers c"
| "requires (On_tools c) = requires_tools c"
| "requires (On_files c) = requires_files c"
| "requires (On_data c) = requires_data c"
| "requires (On_agent c) = requires_agent c"
| "requires (On_agent_runs c) = requires_agent_runs c"
| "requires (On_skills c) = requires_skills c"
| "requires (On_sessions c) = requires_sessions c"

text \<open>The record that is handed on belongs to the principal, whatever owner the caller wrote into it.\<close>

fun own_context_call :: "principal \<Rightarrow> context_call \<Rightarrow> context_call" where
  "own_context_call p (Create_context c) = Create_context (c\<lparr>ctx_owner_id := Some (principal_id p)\<rparr>)"
| "own_context_call p (Replace_context c) = Replace_context (c\<lparr>ctx_owner_id := Some (principal_id p)\<rparr>)"
| "own_context_call p c = c"

fun own_memory_call :: "principal \<Rightarrow> memory_call \<Rightarrow> memory_call" where
  "own_memory_call p (Create_memory m) = Create_memory (m\<lparr>mem_owner_id := Some (principal_id p)\<rparr>)"
| "own_memory_call p (Replace_memory m) = Replace_memory (m\<lparr>mem_owner_id := Some (principal_id p)\<rparr>)"
| "own_memory_call p c = c"

fun own_session_call :: "principal \<Rightarrow> session_call \<Rightarrow> session_call" where
  "own_session_call p (Create_session s) = Create_session (s\<lparr>ses_owner_id := Some (principal_id p)\<rparr>)"
| "own_session_call p (Replace_session s) = Replace_session (s\<lparr>ses_owner_id := Some (principal_id p)\<rparr>)"
| "own_session_call p c = c"

fun own_agent_runs_call :: "principal \<Rightarrow> agent_runs_call \<Rightarrow> agent_runs_call" where
  "own_agent_runs_call p (Start_run r) = Start_run (r\<lparr>ag_owner_id := Some (principal_id p)\<rparr>)"
| "own_agent_runs_call p (Start_stream r) = Start_stream (r\<lparr>ag_owner_id := Some (principal_id p)\<rparr>)"
| "own_agent_runs_call p c = c"

fun as_owner :: "principal \<Rightarrow> interface_call \<Rightarrow> interface_call" where
  "as_owner p (On_contexts c) = On_contexts (own_context_call p c)"
| "as_owner p (On_memories c) = On_memories (own_memory_call p c)"
| "as_owner p (On_sessions c) = On_sessions (own_session_call p c)"
| "as_owner p (On_agent_runs c) = On_agent_runs (own_agent_runs_call p c)"
| "as_owner p c = c"

text \<open>Providers, skills, data analysis and the agent interface are called without a scope.\<close>

fun shared :: "interface_call \<Rightarrow> bool" where
  "shared (On_providers _) = True"
| "shared (On_data _) = True"
| "shared (On_agent _) = True"
| "shared (On_skills _) = True"
| "shared _ = False"

definition passed_scope :: "bool \<Rightarrow> principal \<Rightarrow> interface_call \<Rightarrow> principal_scope option" where
  "passed_scope acc p c =
     (if shared c \<or> \<not> acc \<and> (case c of On_chats (Chat_once _ _) \<Rightarrow> True | On_chats (Stream_once _ _) \<Rightarrow> True | _ \<Rightarrow> False)
      then None else own_scope p)"

definition granted :: "principal \<Rightarrow> string \<Rightarrow> bool" where
  "granted p k \<longleftrightarrow> ''*'' \<in> set (permissions p) \<or> k \<in> set (permissions p)"

definition allowed_or_denied :: "bool \<Rightarrow> (error, 's, 'r) act \<Rightarrow> (error, 's, 'r) act \<Rightarrow> 's \<Rightarrow> bool" where
  "allowed_or_denied ok m inner s \<longleftrightarrow>
     (if ok then m s = inner s else \<exists>e. m s = (Inl e, s) \<and> error_class e = Auth AuthPermissionDeniedError)"

lemma permitted_permission:
  assumes "az_policy az = permission_authorize"
  shows "allowed_or_denied (granted p (resource @ '':'' @ action) \<and> ok) (permitted az p resource action i m) inner s
    \<longleftrightarrow> (if granted p (resource @ '':'' @ action) then allowed_or_denied ok m inner s
       else True)"
  using assms
  by (auto simp: allowed_or_denied_def permitted_def bind_a_def require_permission_def authorizer_require_def
      permission_authorize_allowed granted_def permission_key_def Let_def raised_detail_def)

lemma permitted_one:
  assumes "az_policy az = permission_authorize" "key = resource @ '':'' @ action"
  shows "allowed_or_denied (granted p key) (permitted az p resource action i m) m s"
  using permitted_permission [OF assms(1), of p resource action True i m m s] assms(2)
  by (simp add: allowed_or_denied_def)

text \<open>C31: Under the permission policy, every call of the interface goes on exactly when the principal has all the
  permissions that the matrix requires; otherwise it is denied and changes nothing.  A call that goes on creates
  or replaces a context, a memory, a session or a stored run only in the name of the principal, whatever owner the
  caller wrote into it, and carries the scope of the principal in eight of the twelve interfaces.  The calls of
  the other four (the agent, the providers, the data sources and the skills) go on without
  scope and owner, as do the two plain chat calls where the inner interface takes no scope.\<close>

theorem authorized_exactly:
  assumes "az_policy az = permission_authorize"
  shows "if list_all (granted p) (requires call)
    then authorized_interface acc az p inner call scope s = inner (as_owner p call) (passed_scope acc p call) s
    else \<exists>e. authorized_interface acc az p inner call scope s = (Inl e, s)
           \<and> error_class e = Auth AuthPermissionDeniedError"
proof -
  note g = permitted_one [OF assms]
  have "allowed_or_denied (list_all (granted p) (requires call)) (authorized_interface acc az p inner call scope)
      (inner (as_owner p call) (passed_scope acc p call)) s"
  proof (cases call)
    case (On_contexts c)
    then show ?thesis by (cases c) (simp_all add: g passed_scope_def)
  next
    case (On_memories c)
    then show ?thesis by (cases c) (simp_all add: g passed_scope_def)
  next
    case (On_chats c)
    then show ?thesis by (cases c) (simp_all add: g passed_scope_def call_with_optional_scope_def)
  next
    case (On_images c)
    show ?thesis
    proof (cases "\<exists>sub i. c = Submit_task sub \<and> isb_session_id sub = Some i")
      case True
      then obtain sub i where c: "c = Submit_task sub" "isb_session_id sub = Some i" by blast
      with On_images show ?thesis
        by (simp add: passed_scope_def g [of "''sessions:get''" "''sessions''" "''get''"]
            permitted_permission [OF assms, of p "''images''" "''generate''" "granted p ''sessions:get''", simplified])
    next
      case False
      with On_images show ?thesis by (cases c) (auto simp: g passed_scope_def split: option.split)
    qed
  next
    case (On_providers c)
    then show ?thesis by (cases c) (simp_all add: g passed_scope_def)
  next
    case (On_tools c)
    then show ?thesis by (cases c) (simp_all add: g passed_scope_def)
  next
    case (On_files c)
    then show ?thesis by (cases c) (simp_all add: g passed_scope_def)
  next
    case (On_data c)
    then show ?thesis by (cases c) (simp_all add: g passed_scope_def)
  next
    case (On_agent c)
    then show ?thesis by (cases c) (simp_all add: g passed_scope_def)
  next
    case (On_agent_runs c)
    then show ?thesis by (cases c) (simp_all add: g passed_scope_def)
  next
    case (On_skills c)
    then show ?thesis by (cases c) (simp_all add: g passed_scope_def)
  next
    case (On_sessions c)
    then show ?thesis by (cases c) (simp_all add: g passed_scope_def)
  qed
  then show ?thesis by (simp add: allowed_or_denied_def)
qed

theorem authorized_exactly_witness:
  "authorized_interface True \<lparr>az_policy = permission_authorize, az_dump = \<lambda>_. []\<rparr>
       \<lparr>principal_id = ''ann'', principal_type = Principal_USER, roles = [], permissions = [''files:get''], principal_metadata = []\<rparr>
       (\<lambda>c scope. return_a scope) (On_files (Get_file ''f'')) None (0 :: nat)
     = (Inr (Some \<lparr>scope_owner_id = Some ''ann''\<rparr>), 0)"
  using authorized_exactly [of "\<lparr>az_policy = permission_authorize, az_dump = \<lambda>_. []\<rparr>"
      "\<lparr>principal_id = ''ann'', principal_type = Principal_USER, roles = [], permissions = [''files:get''], principal_metadata = []\<rparr>"
      "On_files (Get_file ''f'')" True "\<lambda>c scope. return_a scope" None "0 :: nat"]
  by (simp add: granted_def passed_scope_def own_scope_def for_principal_def)

end
