(* ===== verification/Tenants.thy ===== *)
theory Tenants
  imports Applications AuthorizedFacts
begin

text \<open>
  Separation of the owners, across the whole of the conversation services behind the authorized interface.  Each
  principal has a view of the state: the records it owns.  \<open>uniform\<close> says that an operation answers and acts the
  same on two states that look the same to an owner, \<open>keeps_view\<close> that it does not change what an owner sees; both
  are closed under the combinators that build the operations, so each use case needs one line.
\<close>

section \<open>Views of a dictionary of records\<close>

definition own_part :: "('r \<Rightarrow> string option) \<Rightarrow> string \<Rightarrow> (string, 'r) dict \<Rightarrow> string \<Rightarrow> 'r option" where
  "own_part owner o1 d k = (case dict_get d k of None \<Rightarrow> None | Some r \<Rightarrow> if owner r = Some o1 then Some r else None)"

lemma own_part_Some: "own_part owner o1 d k = Some r \<longleftrightarrow> dict_get d k = Some r \<and> owner r = Some o1"
  by (auto simp: own_part_def split: option.split)

lemma own_part_None: "own_part owner o1 d k = None \<longleftrightarrow> (\<forall>r. dict_get d k = Some r \<longrightarrow> owner r \<noteq> Some o1)"
  by (auto simp: own_part_def split: option.split)

lemma own_part_set [simp]:
  "own_part owner o1 (dict_set k r d) = (own_part owner o1 d)(k := (if owner r = Some o1 then Some r else None))"
  by (auto simp: own_part_def fun_eq_iff)

lemma own_part_pop [simp]: "own_part owner o1 (dict_pop k d) = (own_part owner o1 d)(k := None)"
  by (auto simp: own_part_def fun_eq_iff)

definition agree :: "('r \<Rightarrow> string) \<Rightarrow> ('r \<Rightarrow> string option) \<Rightarrow> string \<Rightarrow> (string, 'r) dict \<Rightarrow> (string, 'r) dict \<Rightarrow> bool" where
  "agree key owner o1 d e \<longleftrightarrow> keyed key d \<and> keyed key e \<and> own_part owner o1 d = own_part owner o1 e"

abbreviation own :: "string \<Rightarrow> principal_scope option" where
  "own o1 \<equiv> Some \<lparr>scope_owner_id = Some o1\<rparr>"

lemma agree_get: "agree key owner o1 d e \<Longrightarrow> dict_get d k = Some r \<and> owner r = Some o1 \<longleftrightarrow> dict_get e k = Some r \<and> owner r = Some o1"
  unfolding agree_def by (metis own_part_Some)

lemma agree_set: "agree key owner o1 d e \<Longrightarrow> k = key r \<Longrightarrow> agree key owner o1 (dict_set k r d) (dict_set k r e)"
  by (simp add: agree_def)

lemma agree_pop: "agree key owner o1 d e \<Longrightarrow> agree key owner o1 (dict_pop k d) (dict_pop k e)"
  by (simp add: agree_def)

text \<open>The sorted list of the own records is the same.\<close>

lemma agree_sorted:
  assumes "agree key owner o1 d e"
  shows "filter (\<lambda>r. owner r = Some o1) (sort_key key (dict_values d))
    = filter (\<lambda>r. owner r = Some o1) (sort_key key (dict_values e))"
proof -
  let ?f = "\<lambda>d. filter (\<lambda>r. owner r = Some o1) (sort_key key (dict_values d))"
  from assms have k: "keyed key d" "keyed key e" by (simp_all add: agree_def)
  have dist: "distinct (map key (?f d))" if "keyed key d" for d
    using keyed_values_distinct [OF that] by (simp add: distinct_map_filter distinct_map_sort_key)
  have sorted: "sorted (map key (?f d))" for d by (simp add: sorted_filter)
  have "r \<in> set (?f d) \<longleftrightarrow> r \<in> set (?f e)" for r
    using keyed_values_iff [OF k(1), of r] keyed_values_iff [OF k(2), of r] agree_get [OF assms, of "key r" r] by auto
  then have sets: "set (?f d) = set (?f e)" by blast
  have "inj_on key (set (?f d) \<union> set (?f e))"
    using dist [OF k(1)] sets by (simp add: distinct_map)
  from map_sorted_distinct_set_unique [OF this sorted dist [OF k(1)] sorted dist [OF k(2)] sets] show ?thesis .
qed

lemma agree_listing:
  assumes "agree key owner o1 d e"
  shows "owner_filter owner_id (own o1) owner (after_cursor cursor key (sort_key key (dict_values d)))
    = owner_filter owner_id (own o1) owner (after_cursor cursor key (sort_key key (dict_values e)))"
proof -
  have eq: "owner_filter owner_id (own o1) owner (after_cursor cursor key xs)
      = filter (\<lambda>r. (owner_id = None \<or> owner r = owner_id) \<and> (cursor = None \<or> the cursor < key r))
          (filter (\<lambda>r. owner r = Some o1) xs)" for xs
    by (simp add: owner_filter_eq after_cursor_filter conj_ac)
  show ?thesis unfolding eq agree_sorted [OF assms] ..
qed

section \<open>Operations that respect a view\<close>

definition uniform :: "('s \<Rightarrow> 's \<Rightarrow> bool) \<Rightarrow> (error, 's, 'a) act \<Rightarrow> bool" where
  "uniform R m \<longleftrightarrow> (\<forall>s t. R s t \<longrightarrow> fst (m s) = fst (m t) \<and> R (snd (m s)) (snd (m t)))"

lemma uniformI: "(\<And>s t. R s t \<Longrightarrow> fst (m s) = fst (m t) \<and> R (snd (m s)) (snd (m t))) \<Longrightarrow> uniform R m"
  by (simp add: uniform_def)

lemma uniformD: "uniform R m \<Longrightarrow> R s t \<Longrightarrow> fst (m s) = fst (m t) \<and> R (snd (m s)) (snd (m t))"
  by (simp add: uniform_def)

lemma uniform_return [intro!, simp]: "uniform R (return_a x)" "uniform R (raise_a e)" "uniform R (lift_a r)"
  by (simp_all add: uniform_def)

lemma uniform_bind [intro]:
  assumes "uniform R m" "\<And>x. uniform R (f x)"
  shows "uniform R (bind_a m f)"
proof (rule uniformI)
  fix s t assume "R s t"
  with assms(1) have m: "fst (m s) = fst (m t)" "R (snd (m s)) (snd (m t))" by (auto dest: uniformD)
  show "fst (bind_a m f s) = fst (bind_a m f t) \<and> R (snd (bind_a m f s)) (snd (bind_a m f t))"
  proof (cases "fst (m s)")
    case (Inl e)
    with m show ?thesis by (auto simp: bind_a_def split: prod.splits)
  next
    case (Inr x)
    with m uniformD [OF assms(2) m(2), of x] show ?thesis by (auto simp: bind_a_def split: prod.splits)
  qed
qed

lemma uniform_map_reply [intro]: "uniform R m \<Longrightarrow> uniform R (map_reply f m)"
  by (auto simp: map_reply_def)

lemma uniform_reading [intro]: "(\<And>s t. R s t \<Longrightarrow> f s = f t) \<Longrightarrow> uniform R (reading f)"
  by (auto simp: uniform_def reading_def)

lemma uniform_for_each: "(\<And>x. uniform R (f x)) \<Longrightarrow> uniform R (for_each f xs)"
proof (induction xs)
  case Nil
  show ?case by (simp add: uniform_def)
next
  case (Cons x xs)
  have "for_each f (x # xs) = bind_a (f x) (\<lambda>_. for_each f xs)"
    by (auto simp: bind_a_def fun_eq_iff split: prod.split sum.split)
  with Cons show ?case by (metis uniform_bind)
qed

section \<open>The registers\<close>

lemma uniform_context_register: "uniform (agree ctx_id ctx_owner_id o1) (context_register (own o1) c)"
  by (rule uniformI) (auto simp: context_register_def require_context_scope_def intro: agree_set)

lemma context_get_own: "context_get (own o1) k d = (case own_part ctx_owner_id o1 d k of Some r \<Rightarrow> Inr r
    | None \<Rightarrow> Inl (raised (Ctx ContextNotFoundError) (''The context '' @ k @ '' is not found'')))"
  by (simp add: context_get_def context_has_def own_part_def split: option.split)

lemma agree_context_get: "agree ctx_id ctx_owner_id o1 d e \<Longrightarrow> context_get (own o1) k d = context_get (own o1) k e"
  by (simp add: context_get_own agree_def)

lemma context_has_own: "context_has (own o1) k d \<longleftrightarrow> own_part ctx_owner_id o1 d k \<noteq> None"
  by (simp add: context_has_def own_part_def split: option.split)

lemma agree_context_has: "agree ctx_id ctx_owner_id o1 d e \<Longrightarrow> context_has (own o1) k d = context_has (own o1) k e"
  by (simp add: context_has_own agree_def)

lemma agree_context_list:
  "agree ctx_id ctx_owner_id o1 d e \<Longrightarrow> context_list cursor limit owner_id (own o1) d = context_list cursor limit owner_id (own o1) e"
  by (simp add: context_list_def agree_listing)

lemma uniform_context_read: "uniform (agree ctx_id ctx_owner_id o1) (\<lambda>d. (context_get (own o1) k d, d))"
  by (rule uniformI) (simp add: agree_context_get)

lemma uniform_context_create: "uniform (agree ctx_id ctx_owner_id o1) (context_create (own o1) c)"
  unfolding context_create_def by (intro uniform_bind uniform_context_register uniform_context_read)

lemma uniform_context_replace: "uniform (agree ctx_id ctx_owner_id o1) (context_replace (own o1) c)"
proof (rule uniformI)
  fix d e :: context_register assume "agree ctx_id ctx_owner_id o1 d e"
  from uniformD [OF uniform_context_create this, of c] agree_context_has [OF this, of "ctx_id c"] this
  show "fst (context_replace (own o1) c d) = fst (context_replace (own o1) c e)
      \<and> agree ctx_id ctx_owner_id o1 (snd (context_replace (own o1) c d)) (snd (context_replace (own o1) c e))"
    by (simp add: context_replace_def context_create_def)
qed

lemma uniform_context_unregister: "uniform (agree ctx_id ctx_owner_id o1) (context_unregister (own o1) k)"
  by (rule uniformI) (auto simp: context_unregister_def agree_context_has agree_pop)

lemma uniform_append_message: "uniform (agree ctx_id ctx_owner_id o1) (append_message (own o1) k m expected)"
proof (rule uniformI)
  fix d e :: context_register assume a: "agree ctx_id ctx_owner_id o1 d e"
  have "uniform (agree ctx_id ctx_owner_id o1) (bind_a (context_register (own o1) c) (\<lambda>_. return_a c))" for c
    by (intro uniform_bind uniform_context_register) simp
  from uniformD [OF this a] a
  show "fst (append_message (own o1) k m expected d) = fst (append_message (own o1) k m expected e)
      \<and> agree ctx_id ctx_owner_id o1 (snd (append_message (own o1) k m expected d)) (snd (append_message (own o1) k m expected e))"
    by (auto simp: append_message_def agree_context_get [OF a] Let_def split: sum.split)
qed

lemma uniform_mark_retry: "uniform (agree ctx_id ctx_owner_id o1) (mark_retry_messages k idx (own o1))"
proof (rule uniformI)
  fix d e :: context_register assume a: "agree ctx_id ctx_owner_id o1 d e"
  have "uniform (agree ctx_id ctx_owner_id o1) (bind_a (context_replace (own o1) c) (\<lambda>_. return_a ()))" for c
    by (intro uniform_bind uniform_context_replace) simp
  from uniformD [OF this a] a
  show "fst (mark_retry_messages k idx (own o1) d) = fst (mark_retry_messages k idx (own o1) e)
      \<and> agree ctx_id ctx_owner_id o1 (snd (mark_retry_messages k idx (own o1) d)) (snd (mark_retry_messages k idx (own o1) e))"
    by (auto simp: mark_retry_messages_def agree_context_get [OF a] split: option.split sum.split)
qed

lemma uniform_append_all: "uniform (agree ctx_id ctx_owner_id o1) (append_all k ms (own o1))"
  unfolding append_all_def by (intro uniform_for_each uniform_bind uniform_append_message) simp

lemma uniform_memory_register: "uniform (agree mem_id mem_owner_id o1) (memory_register (own o1) c)"
  by (rule uniformI) (auto simp: memory_register_def require_memory_scope_def intro: agree_set)

lemma memory_get_own: "memory_get (own o1) k d = (case own_part mem_owner_id o1 d k of Some r \<Rightarrow> Inr r
    | None \<Rightarrow> Inl (raised (Mem MemoryNotFoundError) (''The memory '' @ k @ '' is not found'')))"
  by (simp add: memory_get_def memory_has_def own_part_def split: option.split)

lemma agree_memory_get: "agree mem_id mem_owner_id o1 d e \<Longrightarrow> memory_get (own o1) k d = memory_get (own o1) k e"
  by (simp add: memory_get_own agree_def)

lemma memory_has_own: "memory_has (own o1) k d \<longleftrightarrow> own_part mem_owner_id o1 d k \<noteq> None"
  by (simp add: memory_has_def own_part_def split: option.split)

lemma agree_memory_has: "agree mem_id mem_owner_id o1 d e \<Longrightarrow> memory_has (own o1) k d = memory_has (own o1) k e"
  by (simp add: memory_has_own agree_def)

lemma agree_memory_list:
  "agree mem_id mem_owner_id o1 d e \<Longrightarrow>
     memory_list uc now cursor limit owner_id q (own o1) d = memory_list uc now cursor limit owner_id q (own o1) e"
  by (simp add: memory_list_def agree_listing)

lemma uniform_memory_create: "uniform (agree mem_id mem_owner_id o1) (memory_create (own o1) m)"
  unfolding memory_create_def
  by (intro uniform_bind uniform_memory_register) (auto intro!: uniformI simp: agree_memory_get)

lemma uniform_memory_replace: "uniform (agree mem_id mem_owner_id o1) (memory_replace now (own o1) m)"
proof (rule uniformI)
  fix d e :: memory_register assume a: "agree mem_id mem_owner_id o1 d e"
  have "uniform (agree mem_id mem_owner_id o1) (bind_a (memory_register (own o1) m') (\<lambda>_ d. (memory_get (own o1) k d, d)))" for m' k
    by (intro uniform_bind uniform_memory_register) (auto intro!: uniformI simp: agree_memory_get)
  from uniformD [OF this a] a
  show "fst (memory_replace now (own o1) m d) = fst (memory_replace now (own o1) m e)
      \<and> agree mem_id mem_owner_id o1 (snd (memory_replace now (own o1) m d)) (snd (memory_replace now (own o1) m e))"
    by (auto simp: memory_replace_def agree_memory_has)
qed

lemma uniform_memory_unregister: "uniform (agree mem_id mem_owner_id o1) (memory_unregister (own o1) k)"
  by (rule uniformI) (auto simp: memory_unregister_def agree_memory_has agree_pop)

lemma uniform_session_register: "uniform (agree ses_id ses_owner_id o1) (session_register (own o1) c)"
  by (rule uniformI) (auto simp: session_register_def require_session_scope_def intro: agree_set)

lemma session_get_own: "session_get (own o1) k d = (case own_part ses_owner_id o1 d k of Some r \<Rightarrow> Inr r
    | None \<Rightarrow> Inl (raised (Sess SessionNotFoundError) (''The session '' @ k @ '' is not found'')))"
  by (simp add: session_get_def session_has_def own_part_def split: option.split)

lemma agree_session_get: "agree ses_id ses_owner_id o1 d e \<Longrightarrow> session_get (own o1) k d = session_get (own o1) k e"
  by (simp add: session_get_own agree_def)

lemma session_has_own: "session_has (own o1) k d \<longleftrightarrow> own_part ses_owner_id o1 d k \<noteq> None"
  by (simp add: session_has_def own_part_def split: option.split)

lemma agree_session_has: "agree ses_id ses_owner_id o1 d e \<Longrightarrow> session_has (own o1) k d = session_has (own o1) k e"
  by (simp add: session_has_own agree_def)

lemma agree_session_list: "agree ses_id ses_owner_id o1 d e \<Longrightarrow> session_list f (own o1) d = session_list f (own o1) e"
  by (simp add: session_list_def agree_listing)

lemma uniform_session_create: "uniform (agree ses_id ses_owner_id o1) (session_create (own o1) m)"
  unfolding session_create_def
  by (intro uniform_bind uniform_session_register) (auto intro!: uniformI simp: agree_session_get)

lemma uniform_session_replace: "uniform (agree ses_id ses_owner_id o1) (session_replace now (own o1) m)"
proof (rule uniformI)
  fix d e :: session_register assume a: "agree ses_id ses_owner_id o1 d e"
  have "uniform (agree ses_id ses_owner_id o1) (bind_a (session_register (own o1) m') (\<lambda>_ d. (session_get (own o1) k d, d)))" for m' k
    by (intro uniform_bind uniform_session_register) (auto intro!: uniformI simp: agree_session_get)
  from uniformD [OF this a] a
  show "fst (session_replace now (own o1) m d) = fst (session_replace now (own o1) m e)
      \<and> agree ses_id ses_owner_id o1 (snd (session_replace now (own o1) m d)) (snd (session_replace now (own o1) m e))"
    by (auto simp: session_replace_def agree_session_has)
qed

lemma uniform_session_archive: "uniform (agree ses_id ses_owner_id o1) (session_archive now (own o1) k)"
proof (rule uniformI)
  fix d e :: session_register assume a: "agree ses_id ses_owner_id o1 d e"
  have "uniform (agree ses_id ses_owner_id o1) (bind_a (session_register (own o1) m') (\<lambda>_. return_a m'))" for m'
    by (intro uniform_bind uniform_session_register) simp
  from uniformD [OF this a] a
  show "fst (session_archive now (own o1) k d) = fst (session_archive now (own o1) k e)
      \<and> agree ses_id ses_owner_id o1 (snd (session_archive now (own o1) k d)) (snd (session_archive now (own o1) k e))"
    by (auto simp: session_archive_def agree_session_get [OF a] Let_def split: sum.split)
qed

lemma uniform_session_unregister: "uniform (agree ses_id ses_owner_id o1) (session_unregister (own o1) k)"
  by (rule uniformI) (auto simp: session_unregister_def agree_session_has agree_pop)

section \<open>Files\<close>

abbreviation files_agree :: "string \<Rightarrow> file_store \<Rightarrow> file_store \<Rightarrow> bool" where
  "files_agree \<equiv> agree (\<lambda>x. fi_artifact_id (fst x)) (\<lambda>x. fa_owner_id (fst x))"

lemma file_entry_own:
  "file_entry k (own o1) d = (case own_part (\<lambda>x. fa_owner_id (fst x)) o1 d k of Some r \<Rightarrow> Inr r | None \<Rightarrow> Inl file_missing_error)"
  by (auto simp: file_entry_def own_part_def split: option.split)

lemma agree_file_entry: "files_agree o1 d e \<Longrightarrow> file_entry k (own o1) d = file_entry k (own o1) e"
  by (simp add: file_entry_own agree_def)

lemma agree_file_get: "files_agree o1 d e \<Longrightarrow> file_get k (own o1) d = file_get k (own o1) e"
  by (simp add: file_get_def agree_file_entry)

lemma agree_file_read: "files_agree o1 d e \<Longrightarrow> file_read k (own o1) d = file_read k (own o1) e"
  by (simp add: file_read_def agree_file_entry)

lemma agree_resolve_parts:
  assumes "files_agree o1 d e"
  shows "resolve_parts d (own o1) n ps = resolve_parts e (own o1) n ps"
proof (induction ps arbitrary: n)
  case (Cons p ps)
  have "resolve_part d (own o1) n p = resolve_part e (own o1) n p" for n p
    unfolding resolve_part_def Let_def agree_file_get [OF assms] agree_file_read [OF assms] ..
  with Cons.IH show ?case by simp
qed simp

lemma agree_resolve:
  assumes "files_agree o1 d e"
  shows "resolve_image_references d (own o1) r = resolve_image_references e (own o1) r"
proof -
  have "resolve_messages d (own o1) n ms = resolve_messages e (own o1) n ms" for n ms
    by (induction ms arbitrary: n) (simp_all add: agree_resolve_parts [OF assms])
  then show ?thesis by (simp add: resolve_image_references_def)
qed

lemma agree_upload:
  assumes "files_agree o1 d e" "\<not> dict_has d fresh_id" "\<not> dict_has e fresh_id"
  shows "fst (upload_file strip fresh_id now name data (own o1) d) = fst (upload_file strip fresh_id now name data (own o1) e)
    \<and> files_agree o1 (snd (upload_file strip fresh_id now name data (own o1) d))
         (snd (upload_file strip fresh_id now name data (own o1) e))"
proof -
  have save: "fst (file_save a data d) = fst (file_save a data e) \<and> files_agree o1 (snd (file_save a data d)) (snd (file_save a data e))"
    if "fi_artifact_id a = fresh_id" for a data
    using that assms by (auto simp: file_save_def intro!: agree_set split: sum.split)
  have kept: "fst (bind_a (file_save a data) (\<lambda>_. return_a x) d) = fst (bind_a (file_save a data) (\<lambda>_. return_a x) e)
      \<and> files_agree o1 (snd (bind_a (file_save a data) (\<lambda>_. return_a x) d)) (snd (bind_a (file_save a data) (\<lambda>_. return_a x) e))"
    if "fi_artifact_id a = fresh_id" for a x
    using save [OF that, of data]
    by (cases "file_save a data d"; cases "file_save a data e") (auto simp: bind_a_def split: sum.split)
  show ?thesis
  proof (cases "data = [] \<or> length data > MAX_UPLOAD_BYTES")
    case True
    with assms(1) show ?thesis by (auto simp: upload_file_def create_image_artifact_def)
  next
    case False
    show ?thesis
    proof (cases "bind_e (bitmap_mime data) (\<lambda>mime_type. bind_e (clean_image_filename strip name) (\<lambda>name. Inr (mime_type, name)))")
      case (Inl x)
      with False assms(1) show ?thesis by (auto simp: upload_file_def create_image_artifact_def)
    next
      case (Inr y)
      with False show ?thesis
        by (cases y) (simp add: upload_file_def create_image_artifact_def Let_def kept del: bind_e_eq_Inr)
    qed
  qed
qed

section \<open>The state of the runtime\<close>

definition same_view :: "string \<Rightarrow> app_state \<Rightarrow> app_state \<Rightarrow> bool" where
  "same_view o1 s t \<longleftrightarrow> agree ctx_id ctx_owner_id o1 (ap_contexts s) (ap_contexts t)
     \<and> agree mem_id mem_owner_id o1 (ap_memories s) (ap_memories t)
     \<and> agree ses_id ses_owner_id o1 (ap_sessions s) (ap_sessions t)
     \<and> files_agree o1 (ap_files s) (ap_files t) \<and> ap_skills s = ap_skills t"

lemma uniform_with_contexts:
  assumes "uniform (agree ctx_id ctx_owner_id o1) m"
  shows "uniform (same_view o1) (with_contexts m)"
proof (rule uniformI)
  fix s t assume v: "same_view o1 s t"
  then have "agree ctx_id ctx_owner_id o1 (ap_contexts s) (ap_contexts t)" by (simp add: same_view_def)
  from uniformD [OF assms this] v
  show "fst (with_contexts m s) = fst (with_contexts m t) \<and> same_view o1 (snd (with_contexts m s)) (snd (with_contexts m t))"
    by (auto simp: with_contexts_def same_view_def split: prod.split)
qed

lemma uniform_with_memories:
  assumes "uniform (agree mem_id mem_owner_id o1) m"
  shows "uniform (same_view o1) (with_memories m)"
proof (rule uniformI)
  fix s t assume v: "same_view o1 s t"
  then have "agree mem_id mem_owner_id o1 (ap_memories s) (ap_memories t)" by (simp add: same_view_def)
  from uniformD [OF assms this] v
  show "fst (with_memories m s) = fst (with_memories m t) \<and> same_view o1 (snd (with_memories m s)) (snd (with_memories m t))"
    by (auto simp: with_memories_def same_view_def split: prod.split)
qed

lemma uniform_with_sessions:
  assumes "uniform (agree ses_id ses_owner_id o1) m"
  shows "uniform (same_view o1) (with_sessions m)"
proof (rule uniformI)
  fix s t assume v: "same_view o1 s t"
  then have "agree ses_id ses_owner_id o1 (ap_sessions s) (ap_sessions t)" by (simp add: same_view_def)
  from uniformD [OF assms this] v
  show "fst (with_sessions m s) = fst (with_sessions m t) \<and> same_view o1 (snd (with_sessions m s)) (snd (with_sessions m t))"
    by (auto simp: with_sessions_def same_view_def split: prod.split)
qed

lemmas uniform_registers =
  uniform_with_contexts [OF uniform_context_create] uniform_with_contexts [OF uniform_append_message]
  uniform_with_contexts [OF uniform_context_replace] uniform_with_contexts [OF uniform_context_unregister]
  uniform_with_contexts [OF uniform_mark_retry] uniform_with_contexts [OF uniform_append_all]
  uniform_with_memories [OF uniform_memory_create] uniform_with_memories [OF uniform_memory_replace]
  uniform_with_memories [OF uniform_memory_unregister]
  uniform_with_sessions [OF uniform_session_create] uniform_with_sessions [OF uniform_session_replace]
  uniform_with_sessions [OF uniform_session_archive] uniform_with_sessions [OF uniform_session_unregister]

lemma same_view_reads:
  assumes "same_view o1 s t"
  shows "context_get (own o1) k (ap_contexts s) = context_get (own o1) k (ap_contexts t)"
    "context_has (own o1) k (ap_contexts s) = context_has (own o1) k (ap_contexts t)"
    "context_list cursor limit owner_id (own o1) (ap_contexts s) = context_list cursor limit owner_id (own o1) (ap_contexts t)"
    "memory_get (own o1) k (ap_memories s) = memory_get (own o1) k (ap_memories t)"
    "memory_list uc now cursor limit owner_id q (own o1) (ap_memories s) = memory_list uc now cursor limit owner_id q (own o1) (ap_memories t)"
    "session_get (own o1) k (ap_sessions s) = session_get (own o1) k (ap_sessions t)"
    "session_list f (own o1) (ap_sessions s) = session_list f (own o1) (ap_sessions t)"
    "file_get k (own o1) (ap_files s) = file_get k (own o1) (ap_files t)"
    "file_read k (own o1) (ap_files s) = file_read k (own o1) (ap_files t)"
    "resolve_image_references (ap_files s) (own o1) r = resolve_image_references (ap_files t) (own o1) r"
    "ap_skills s = ap_skills t"
  using assms agree_context_get [of o1 "ap_contexts s" "ap_contexts t" k] agree_context_has [of o1 "ap_contexts s" "ap_contexts t" k]
    agree_context_list [of o1 "ap_contexts s" "ap_contexts t" cursor limit owner_id]
    agree_memory_get [of o1 "ap_memories s" "ap_memories t" k]
    agree_memory_list [of o1 "ap_memories s" "ap_memories t" uc now cursor limit owner_id q]
    agree_session_get [of o1 "ap_sessions s" "ap_sessions t" k] agree_session_list [of o1 "ap_sessions s" "ap_sessions t" f]
    agree_file_get [of o1 "ap_files s" "ap_files t" k] agree_file_read [of o1 "ap_files s" "ap_files t" k]
    agree_resolve [of o1 "ap_files s" "ap_files t" r]
  unfolding same_view_def by blast+

lemma same_view_compose: "same_view o1 s t \<Longrightarrow> compose_request env a capability (own o1) s = compose_request env a capability (own o1) t"
  unfolding compose_request_def select_memories_for_request_def by (simp only: same_view_reads [of o1 s t])

lemma same_view_organize: "same_view o1 s t \<Longrightarrow> organize_chat_request env a (own o1) s = organize_chat_request env a (own o1) t"
  unfolding organize_chat_request_def by (simp only: same_view_compose [of o1 s t] same_view_reads(11) [of o1 s t])

lemma same_view_prepare: "same_view o1 s t \<Longrightarrow> prepare_chat env r (own o1) s = prepare_chat env r (own o1) t"
  using ext [of "resolve_image_references (ap_files s) (own o1)" "resolve_image_references (ap_files t) (own o1)"]
    same_view_reads(10) [of o1 s t] same_view_reads(11) [of o1 s t] by (simp add: prepare_chat_def)

text \<open>The providers and the start of agent runs do not look at, or change, what others own either.\<close>

definition env_uniform ::
  "string \<Rightarrow> app_env \<Rightarrow> (agent_request \<Rightarrow> principal_scope option \<Rightarrow> (error, app_state, agent_run) act) \<Rightarrow> bool" where
  "env_uniform o1 env start \<longleftrightarrow> (\<forall>p r. uniform (same_view o1) (ae_chat env p r))
     \<and> (\<forall>p r. uniform (same_view o1) (ae_chat_stream env p r)) \<and> (\<forall>r. uniform (same_view o1) (start r (own o1)))"

lemma uniform_chat: "env_uniform o1 env start \<Longrightarrow> uniform (same_view o1) (chat env p r (own o1))"
  unfolding chat_def
  by (intro uniform_bind uniform_reading) (simp_all add: same_view_prepare env_uniform_def)

lemma uniform_chat_stream: "env_uniform o1 env start \<Longrightarrow> uniform (same_view o1) (chat_stream env p r (own o1))"
  unfolding chat_stream_def
  by (intro uniform_bind uniform_reading) (simp_all add: same_view_prepare env_uniform_def)

lemma uniform_chat_with_context:
  "env_uniform o1 env start \<Longrightarrow> uniform (same_view o1) (chat_with_context env p idx a (own o1))"
  unfolding chat_with_context_def
  by (intro uniform_bind uniform_reading uniform_registers uniform_chat uniform_return) (simp_all add: same_view_organize)

lemma uniform_chat_stream_with_context:
  "env_uniform o1 env start \<Longrightarrow> uniform (same_view o1) (chat_stream_with_context env p idx a (own o1))"
  unfolding chat_stream_with_context_def
  by (intro uniform_bind uniform_reading uniform_registers uniform_chat_stream) (simp_all add: same_view_organize)

lemma uniform_ensure_context: "uniform (same_view o1) (ensure_context ses (own o1))"
proof (rule uniformI)
  fix s t assume v: "same_view o1 s t"
  have "uniform (same_view o1) (bind_a (with_contexts (context_create (own o1) c)) (\<lambda>_. return_a ()))" for c
    by (intro uniform_bind uniform_registers uniform_return)
  from uniformD [OF this v] v
  show "fst (ensure_context ses (own o1) s) = fst (ensure_context ses (own o1) t)
      \<and> same_view o1 (snd (ensure_context ses (own o1) s)) (snd (ensure_context ses (own o1) t))"
    by (simp add: ensure_context_def same_view_reads(2) [OF v])
qed

lemma uniform_create_session: "uniform (same_view o1) (create_session ses (own o1))"
  unfolding create_session_def by (intro uniform_bind uniform_ensure_context uniform_registers)

lemma uniform_replace_session: "uniform (same_view o1) (replace_session now ses (own o1))"
  unfolding replace_session_def
  by (intro uniform_bind uniform_reading uniform_ensure_context uniform_registers) (rule same_view_reads)

lemma uniform_chat_with_session:
  "env_uniform o1 env start \<Longrightarrow> uniform (same_view o1) (chat_with_session env i r (own o1))"
  unfolding chat_with_session_def
  by (intro uniform_bind uniform_reading uniform_chat_with_context uniform_return) (simp_all add: same_view_reads)

lemma uniform_start_run:
  "env_uniform o1 env start \<Longrightarrow> uniform (same_view o1) (start_agent_run_for_session start i r (own o1))"
  unfolding start_agent_run_for_session_def
  by (intro uniform_bind uniform_reading uniform_return) (simp_all add: same_view_reads env_uniform_def)

section \<open>What a principal learns\<close>

text \<open>The calls on the five groups of conversation services.\<close>

primrec on_conversations :: "interface_call \<Rightarrow> bool" where
  "on_conversations (On_contexts c) = True"
| "on_conversations (On_memories c) = True"
| "on_conversations (On_chats c) = True"
| "on_conversations (On_images c) = False"
| "on_conversations (On_providers c) = False"
| "on_conversations (On_tools c) = False"
| "on_conversations (On_files c) = True"
| "on_conversations (On_data c) = False"
| "on_conversations (On_agent c) = False"
| "on_conversations (On_agent_runs c) = False"
| "on_conversations (On_skills c) = False"
| "on_conversations (On_sessions c) = True"

lemma own_scope_own: "own_scope p = own (principal_id p)"
  by (simp add: own_scope_def for_principal_def)

lemma uniform_permitted: "uniform R m \<Longrightarrow> uniform R (permitted az p resource action i m)"
  unfolding permitted_def by (intro uniform_bind uniform_return)

lemma uniform_context_service: "uniform (same_view o1) (context_service c (own o1))"
  by (cases c) (auto intro!: uniform_map_reply uniform_registers uniform_reading simp: same_view_reads [of o1])

lemma uniform_memory_service: "uniform (same_view o1) (memory_service env c (own o1))"
  by (cases c) (auto intro!: uniform_map_reply uniform_registers uniform_reading simp: same_view_reads [of o1])

lemma uniform_chat_service: "env_uniform o1 env start \<Longrightarrow> uniform (same_view o1) (chat_service env c (own o1))"
  by (cases c) (auto intro!: uniform_map_reply uniform_reading uniform_chat uniform_chat_with_context uniform_chat_stream
      uniform_chat_stream_with_context simp: same_view_organize [of o1])

lemma uniform_session_service: "env_uniform o1 env start \<Longrightarrow> uniform (same_view o1) (session_service env start c (own o1))"
  by (cases c) (auto intro!: uniform_map_reply uniform_reading uniform_registers uniform_create_session uniform_replace_session
      uniform_chat_with_session uniform_start_run simp: same_view_reads [of o1])

definition unused_id :: "string \<Rightarrow> app_state \<Rightarrow> bool" where
  "unused_id i s \<longleftrightarrow> \<not> dict_has (ap_files s) i"

lemma map_reply_outcome: "map_reply f m s = (case m s of (Inl e, s) \<Rightarrow> (Inl e, s) | (Inr x, s) \<Rightarrow> (Inr (f x), s))"
  by (auto simp: map_reply_def bind_a_def split: prod.split sum.split)

lemma uniform_file_service:
  assumes "same_view o1 s t" "unused_id fresh_id s" "unused_id fresh_id t"
  shows "fst (file_service env fresh_id c (own o1) s) = fst (file_service env fresh_id c (own o1) t)
    \<and> same_view o1 (snd (file_service env fresh_id c (own o1) s)) (snd (file_service env fresh_id c (own o1) t))"
proof (cases c)
  case (Upload_file name data)
  let ?m = "upload_file (uc_strip (ae_unicode env)) fresh_id (ae_now env) name data (own o1)"
  have a: "files_agree o1 (ap_files s) (ap_files t)" using assms(1) by (simp add: same_view_def)
  from agree_upload [OF a] assms have "fst (?m (ap_files s)) = fst (?m (ap_files t))"
      "files_agree o1 (snd (?m (ap_files s))) (snd (?m (ap_files t)))" by (simp_all add: unused_id_def)
  with Upload_file assms(1) show ?thesis
    by (auto simp: map_reply_outcome with_files_def same_view_def split: prod.split sum.split)
next
  case (Get_file i)
  with assms(1) show ?thesis
    by (auto simp: map_reply_outcome reading_def get_file_def same_view_reads [OF assms(1)] split: sum.split)
next
  case (Read_file i)
  with assms(1) show ?thesis
    by (auto simp: map_reply_outcome reading_def read_file_def get_file_def same_view_reads [OF assms(1)] split: sum.split)
qed

lemma uniform_authorized_contexts:
  "(\<And>c. uniform R (inner c (own_scope p))) \<Longrightarrow> uniform R (authorized_contexts az p inner c scope)"
  by (cases c) (simp_all add: uniform_permitted)

lemma uniform_authorized_memories:
  "(\<And>c. uniform R (inner c (own_scope p))) \<Longrightarrow> uniform R (authorized_memories az p inner c scope)"
  by (cases c) (simp_all add: uniform_permitted)

lemma uniform_authorized_chats:
  "(\<And>c. uniform R (inner c (own_scope p))) \<Longrightarrow> uniform R (authorized_chats True az p inner c scope)"
  by (cases c) (simp_all add: uniform_permitted call_with_optional_scope_def)

lemma uniform_authorized_sessions:
  "(\<And>c. uniform R (inner c (own_scope p))) \<Longrightarrow> uniform R (authorized_sessions az p inner c scope)"
  by (cases c) (simp_all add: uniform_permitted)

lemma permitted_outcome: "permitted az p resource action i m s = (case require_permission az p resource action i of
    Inl e \<Rightarrow> (Inl e, s) | Inr _ \<Rightarrow> m s)"
  by (auto simp: permitted_def bind_a_def lift_a_def split: sum.split)

text \<open>C32: What a principal is answered on the conversation services, and what it owns afterwards, depends on nothing
  that others own: on two states in which it owns the same records it gets the same reply, or the same error, and owns
  the same records again.\<close>

theorem tenants_learn_nothing:
  assumes "same_view (principal_id p) s t" "env_uniform (principal_id p) env start" "on_conversations call"
    and "unused_id fresh_id s" "unused_id fresh_id t"
  shows "fst (authorized_interface True az p (conversation_service env fresh_id start others) call scope s)
      = fst (authorized_interface True az p (conversation_service env fresh_id start others) call scope t)
    \<and> same_view (principal_id p)
        (snd (authorized_interface True az p (conversation_service env fresh_id start others) call scope s))
        (snd (authorized_interface True az p (conversation_service env fresh_id start others) call scope t))"
proof (cases call)
  case (On_contexts c)
  have "uniform (same_view (principal_id p)) (authorized_interface True az p (conversation_service env fresh_id start others) call scope)"
    unfolding On_contexts by (simp add: uniform_authorized_contexts own_scope_own uniform_context_service)
  from uniformD [OF this assms(1)] show ?thesis .
next
  case (On_memories c)
  have "uniform (same_view (principal_id p)) (authorized_interface True az p (conversation_service env fresh_id start others) call scope)"
    unfolding On_memories by (simp add: uniform_authorized_memories own_scope_own uniform_memory_service)
  from uniformD [OF this assms(1)] show ?thesis .
next
  case (On_chats c)
  have "uniform (same_view (principal_id p)) (authorized_interface True az p (conversation_service env fresh_id start others) call scope)"
    unfolding On_chats by (simp add: uniform_authorized_chats own_scope_own uniform_chat_service [OF assms(2)])
  from uniformD [OF this assms(1)] show ?thesis .
next
  case (On_sessions c)
  have "uniform (same_view (principal_id p)) (authorized_interface True az p (conversation_service env fresh_id start others) call scope)"
    unfolding On_sessions by (simp add: uniform_authorized_sessions own_scope_own uniform_session_service [OF assms(2)])
  from uniformD [OF this assms(1)] show ?thesis .
next
  case (On_files c)
  show ?thesis unfolding On_files
    using uniform_file_service [OF assms(1,4,5), of env] assms(1)
    by (cases c) (simp_all add: permitted_outcome own_scope_own del: file_service.simps split: sum.split)
qed (use assms(3) in simp_all)

end
