(* ===== verification/TenantWrites.thy ===== *)
theory TenantWrites
  imports Tenants ConversationFacts
begin

text \<open>
  The other half of the separation of the owners: a call on the conversation services leaves the records of all other
  owners as they are, unless it claims an identifier that another owner uses already (the registers are dictionaries
  on the bare identifier).
\<close>

section \<open>What a principal changes\<close>

text \<open>\<open>unseen R m\<close>: the operation leads from a well-formed state to one that looks the same.\<close>

definition keeps_at :: "('s \<Rightarrow> 's \<Rightarrow> bool) \<Rightarrow> (error, 's, 'a) act \<Rightarrow> 's \<Rightarrow> bool" where
  "keeps_at R m s \<longleftrightarrow> (R s s \<longrightarrow> R s (snd (m s)))"

definition unseen :: "('s \<Rightarrow> 's \<Rightarrow> bool) \<Rightarrow> (error, 's, 'a) act \<Rightarrow> bool" where
  "unseen R m \<longleftrightarrow> (\<forall>s. keeps_at R m s)"

definition view_relation :: "('s \<Rightarrow> 's \<Rightarrow> bool) \<Rightarrow> bool" where
  "view_relation R \<longleftrightarrow> (\<forall>s t. R s t \<longrightarrow> R t s) \<and> (\<forall>s t u. R s t \<longrightarrow> R t u \<longrightarrow> R s u)"

lemma view_relationD: "view_relation R \<Longrightarrow> R s t \<Longrightarrow> R t u \<Longrightarrow> R s u" "view_relation R \<Longrightarrow> R s t \<Longrightarrow> R t t"
  unfolding view_relation_def by metis+

lemma keeps_at_keeps: "unseen R m \<Longrightarrow> keeps_at R m s"
  by (simp add: unseen_def)

lemma keeps_at_unchanged [simp]: "snd (m s) = s \<Longrightarrow> keeps_at R m s"
  by (simp add: keeps_at_def)

lemma unseen_return [simp]: "unseen R (return_a x)" "unseen R (raise_a e)" "unseen R (lift_a r)" "unseen R' (reading f)"
  by (simp_all add: unseen_def keeps_at_def reading_def)

lemma keeps_at_bind:
  assumes "view_relation R" "keeps_at R m s" "\<And>x. fst (m s) = Inr x \<Longrightarrow> keeps_at R (f x) (snd (m s))"
  shows "keeps_at R (bind_a m f) s"
proof (unfold keeps_at_def, rule impI)
  assume "R s s"
  with assms(2) have m: "R s (snd (m s))" by (simp add: keeps_at_def)
  show "R s (snd (bind_a m f s))"
  proof (cases "fst (m s)")
    case (Inl e)
    with m show ?thesis by (auto simp: bind_a_def split: prod.splits)
  next
    case (Inr x)
    from assms(3) [OF this] view_relationD(2) [OF assms(1) m] have "R (snd (m s)) (snd (f x (snd (m s))))"
      by (simp add: keeps_at_def)
    with m Inr show ?thesis using view_relationD(1) [OF assms(1)] by (auto simp: bind_a_def split: prod.splits)
  qed
qed

lemma unseen_bind: "view_relation R \<Longrightarrow> unseen R m \<Longrightarrow> (\<And>x. unseen R (f x)) \<Longrightarrow> unseen R (bind_a m f)"
  by (simp add: unseen_def keeps_at_bind)

lemma keeps_for_each:
  assumes "view_relation R" "\<And>x. unseen R (f x)"
  shows "unseen R (for_each f xs)"
proof (induction xs)
  case Nil
  show ?case by (simp add: unseen_def)
next
  case (Cons x xs)
  have "for_each f (x # xs) = bind_a (f x) (\<lambda>_. for_each f xs)"
    by (auto simp: bind_a_def fun_eq_iff split: prod.split sum.split)
  with Cons show ?case using unseen_bind [OF assms(1,2)] by metis
qed

lemma agree_view: "view_relation (agree key owner o2)"
  by (auto simp: view_relation_def agree_def)

lemma same_view_view: "view_relation (same_view o2)"
  unfolding view_relation_def same_view_def agree_def by auto

section \<open>Registers under another owner\<close>

lemma own_foreign: "own_part owner o1 d k = Some r \<Longrightarrow> o1 \<noteq> o2 \<Longrightarrow> own_part owner o2 d k = None"
  by (auto simp: own_part_Some own_part_None)

lemma agree_foreign_set:
  "agree key owner o2 d d \<Longrightarrow> k = key r \<Longrightarrow> owner r \<noteq> Some o2 \<Longrightarrow> own_part owner o2 d k = None \<Longrightarrow>
     agree key owner o2 d (dict_set k r d)"
  by (auto simp: agree_def fun_eq_iff)

lemma agree_foreign_pop:
  "agree key owner o2 d d \<Longrightarrow> own_part owner o2 d k = None \<Longrightarrow> agree key owner o2 d (dict_pop k d)"
  by (auto simp: agree_def fun_eq_iff)

lemma keeps_context_register:
  "o1 \<noteq> o2 \<Longrightarrow> own_part ctx_owner_id o2 d (ctx_id c) = None \<Longrightarrow>
     keeps_at (agree ctx_id ctx_owner_id o2) (context_register (own o1) c) d"
  by (auto simp: keeps_at_def context_register_def require_context_scope_def intro!: agree_foreign_set)

lemma context_has_foreign: "context_has (own o1) k d \<Longrightarrow> o1 \<noteq> o2 \<Longrightarrow> own_part ctx_owner_id o2 d k = None"
  by (auto simp: context_has_own intro: own_foreign)

lemma context_get_foreign:
  assumes "context_get (own o1) k d = Inr c" "keyed ctx_id d" "o1 \<noteq> o2"
  shows "ctx_id c = k" "own_part ctx_owner_id o2 d k = None"
  using assms by (auto simp: context_get_own own_part_Some keyed_def intro: own_foreign split: option.splits)

lemma keeps_context_unregister: "o1 \<noteq> o2 \<Longrightarrow> unseen (agree ctx_id ctx_owner_id o2) (context_unregister (own o1) k)"
  by (auto simp: unseen_def keeps_at_def context_unregister_def intro!: agree_foreign_pop dest: context_has_foreign)

lemma keeps_memory_register:
  "o1 \<noteq> o2 \<Longrightarrow> own_part mem_owner_id o2 d (mem_id c) = None \<Longrightarrow>
     keeps_at (agree mem_id mem_owner_id o2) (memory_register (own o1) c) d"
  by (auto simp: keeps_at_def memory_register_def require_memory_scope_def intro!: agree_foreign_set)

lemma memory_has_foreign: "memory_has (own o1) k d \<Longrightarrow> o1 \<noteq> o2 \<Longrightarrow> own_part mem_owner_id o2 d k = None"
  by (auto simp: memory_has_own intro: own_foreign)

lemma memory_get_foreign:
  assumes "memory_get (own o1) k d = Inr c" "keyed mem_id d" "o1 \<noteq> o2"
  shows "mem_id c = k" "own_part mem_owner_id o2 d k = None"
  using assms by (auto simp: memory_get_own own_part_Some keyed_def intro: own_foreign split: option.splits)

lemma keeps_memory_unregister: "o1 \<noteq> o2 \<Longrightarrow> unseen (agree mem_id mem_owner_id o2) (memory_unregister (own o1) k)"
  by (auto simp: unseen_def keeps_at_def memory_unregister_def intro!: agree_foreign_pop dest: memory_has_foreign)

lemma keeps_session_register:
  "o1 \<noteq> o2 \<Longrightarrow> own_part ses_owner_id o2 d (ses_id c) = None \<Longrightarrow>
     keeps_at (agree ses_id ses_owner_id o2) (session_register (own o1) c) d"
  by (auto simp: keeps_at_def session_register_def require_session_scope_def intro!: agree_foreign_set)

lemma session_has_foreign: "session_has (own o1) k d \<Longrightarrow> o1 \<noteq> o2 \<Longrightarrow> own_part ses_owner_id o2 d k = None"
  by (auto simp: session_has_own intro: own_foreign)

lemma session_get_foreign:
  assumes "session_get (own o1) k d = Inr c" "keyed ses_id d" "o1 \<noteq> o2"
  shows "ses_id c = k" "own_part ses_owner_id o2 d k = None"
  using assms by (auto simp: session_get_own own_part_Some keyed_def intro: own_foreign split: option.splits)

lemma keeps_session_unregister: "o1 \<noteq> o2 \<Longrightarrow> unseen (agree ses_id ses_owner_id o2) (session_unregister (own o1) k)"
  by (auto simp: unseen_def keeps_at_def session_unregister_def intro!: agree_foreign_pop dest: session_has_foreign)

lemma keeps_context_create:
  "o1 \<noteq> o2 \<Longrightarrow> own_part ctx_owner_id o2 d (ctx_id c) = None \<Longrightarrow>
     keeps_at (agree ctx_id ctx_owner_id o2) (context_create (own o1) c) d"
  unfolding context_create_def by (intro keeps_at_bind agree_view keeps_context_register) auto

lemma keeps_context_replace: "o1 \<noteq> o2 \<Longrightarrow> unseen (agree ctx_id ctx_owner_id o2) (context_replace (own o1) c)"
  using keeps_context_create [of o1 o2 _ c] context_has_foreign [of o1 "ctx_id c" _ o2]
  by (auto simp: unseen_def keeps_at_def context_replace_def context_create_def)

lemma keeps_append_message:
  assumes "o1 \<noteq> o2"
  shows "unseen (agree ctx_id ctx_owner_id o2) (append_message (own o1) k m expected)"
proof (unfold unseen_def, rule allI)
  fix d :: context_register
  have "keeps_at (agree ctx_id ctx_owner_id o2) (bind_a (context_register (own o1) c) (\<lambda>_. return_a c)) d"
    if "own_part ctx_owner_id o2 d (ctx_id c) = None" for c
    using that assms by (intro keeps_at_bind agree_view keeps_context_register keeps_at_keeps) simp_all
  then show "keeps_at (agree ctx_id ctx_owner_id o2) (append_message (own o1) k m expected) d"
    using context_get_foreign [of o1 k d _ o2] assms
    by (auto simp: append_message_def Let_def keeps_at_def agree_def split: sum.split)
qed

lemma keeps_mark_retry:
  assumes "o1 \<noteq> o2"
  shows "unseen (agree ctx_id ctx_owner_id o2) (mark_retry_messages k idx (own o1))"
proof -
  have "unseen (agree ctx_id ctx_owner_id o2) (bind_a (context_replace (own o1) c) (\<lambda>_. return_a ()))" for c
    using assms by (intro unseen_bind agree_view keeps_context_replace) simp_all
  then show ?thesis
    by (auto simp: unseen_def keeps_at_def mark_retry_messages_def split: option.split sum.split)
qed

lemma keeps_append_all: "o1 \<noteq> o2 \<Longrightarrow> unseen (agree ctx_id ctx_owner_id o2) (append_all k ms (own o1))"
  unfolding append_all_def by (intro keeps_for_each unseen_bind agree_view keeps_append_message) simp_all

lemma keeps_memory_create:
  "o1 \<noteq> o2 \<Longrightarrow> own_part mem_owner_id o2 d (mem_id c) = None \<Longrightarrow>
     keeps_at (agree mem_id mem_owner_id o2) (memory_create (own o1) c) d"
  unfolding memory_create_def by (intro keeps_at_bind agree_view keeps_memory_register) auto

lemma keeps_memory_replace: "o1 \<noteq> o2 \<Longrightarrow> unseen (agree mem_id mem_owner_id o2) (memory_replace now (own o1) c)"
  using keeps_memory_create [of o1 o2 _ "c\<lparr>mem_updated_at := now\<rparr>"] memory_has_foreign [of o1 "mem_id c" _ o2]
  by (auto simp: unseen_def keeps_at_def memory_replace_def memory_create_def)

lemma keeps_session_create:
  "o1 \<noteq> o2 \<Longrightarrow> own_part ses_owner_id o2 d (ses_id c) = None \<Longrightarrow>
     keeps_at (agree ses_id ses_owner_id o2) (session_create (own o1) c) d"
  unfolding session_create_def by (intro keeps_at_bind agree_view keeps_session_register) auto

lemma keeps_session_replace: "o1 \<noteq> o2 \<Longrightarrow> unseen (agree ses_id ses_owner_id o2) (session_replace now (own o1) c)"
  using keeps_session_create [of o1 o2 _ "c\<lparr>ses_updated_at := now\<rparr>"] session_has_foreign [of o1 "ses_id c" _ o2]
  by (auto simp: unseen_def keeps_at_def session_replace_def session_create_def)

lemma keeps_session_archive:
  assumes "o1 \<noteq> o2"
  shows "unseen (agree ses_id ses_owner_id o2) (session_archive now (own o1) k)"
proof (unfold unseen_def, rule allI)
  fix d :: session_register
  have "keeps_at (agree ses_id ses_owner_id o2) (bind_a (session_register (own o1) c) (\<lambda>_. return_a c)) d"
    if "own_part ses_owner_id o2 d (ses_id c) = None" for c
    using that assms by (intro keeps_at_bind agree_view keeps_session_register keeps_at_keeps) simp_all
  then show "keeps_at (agree ses_id ses_owner_id o2) (session_archive now (own o1) k) d"
    using session_get_foreign [of o1 k d _ o2] assms
    by (auto simp: session_archive_def Let_def keeps_at_def agree_def split: sum.split)
qed

lemma keeps_file_save:
  "fa_owner_id a = Some o1 \<Longrightarrow> o1 \<noteq> o2 \<Longrightarrow> unseen (files_agree o2) (file_save a data)"
  by (auto simp: unseen_def keeps_at_def file_save_def dict_has_def own_part_None intro!: agree_foreign_set split: sum.split)

lemma keeps_upload:
  "o1 \<noteq> o2 \<Longrightarrow> unseen (files_agree o2) (upload_file strip fresh_id now name data (own o1))"
proof -
  assume ne: "o1 \<noteq> o2"
  have "unseen (files_agree o2) (bind_a (file_save a data) (\<lambda>_. return_a x))" if "fa_owner_id a = Some o1"
    for a and x :: file_info
    using keeps_file_save [OF that ne] by (intro unseen_bind agree_view) simp_all
  then show ?thesis
    by (auto simp: unseen_def keeps_at_def upload_file_def create_image_artifact_def Let_def split: sum.split prod.split)
qed

section \<open>The state of the runtime under another owner\<close>

lemma keeps_with_contexts:
  "keeps_at (agree ctx_id ctx_owner_id o2) m (ap_contexts s) \<Longrightarrow> keeps_at (same_view o2) (with_contexts m) s"
  by (auto simp: keeps_at_def with_contexts_def same_view_def split: prod.split)

lemma keeps_with_memories:
  "keeps_at (agree mem_id mem_owner_id o2) m (ap_memories s) \<Longrightarrow> keeps_at (same_view o2) (with_memories m) s"
  by (auto simp: keeps_at_def with_memories_def same_view_def split: prod.split)

lemma keeps_with_sessions:
  "keeps_at (agree ses_id ses_owner_id o2) m (ap_sessions s) \<Longrightarrow> keeps_at (same_view o2) (with_sessions m) s"
  by (auto simp: keeps_at_def with_sessions_def same_view_def split: prod.split)

lemma keeps_with_files:
  "keeps_at (files_agree o2) m (ap_files s) \<Longrightarrow> keeps_at (same_view o2) (with_files m) s"
  by (auto simp: keeps_at_def with_files_def same_view_def split: prod.split)

lemma keeps_lifted:
  "unseen (agree ctx_id ctx_owner_id o2) m1 \<Longrightarrow> unseen (same_view o2) (with_contexts m1)"
  "unseen (agree mem_id mem_owner_id o2) m2 \<Longrightarrow> unseen (same_view o2) (with_memories m2)"
  "unseen (agree ses_id ses_owner_id o2) m3 \<Longrightarrow> unseen (same_view o2) (with_sessions m3)"
  "unseen (files_agree o2) m4 \<Longrightarrow> unseen (same_view o2) (with_files m4)"
  by (simp_all add: unseen_def keeps_with_contexts keeps_with_memories keeps_with_sessions keeps_with_files)

lemma keeps_registers:
  assumes "o1 \<noteq> o2"
  shows "unseen (same_view o2) (with_contexts (append_message (own o1) k m expected))"
    "unseen (same_view o2) (with_contexts (context_replace (own o1) c))"
    "unseen (same_view o2) (with_contexts (context_unregister (own o1) k))"
    "unseen (same_view o2) (with_contexts (mark_retry_messages k idx (own o1)))"
    "unseen (same_view o2) (with_contexts (append_all k ms (own o1)))"
    "unseen (same_view o2) (with_memories (memory_replace now (own o1) i))"
    "unseen (same_view o2) (with_memories (memory_unregister (own o1) k))"
    "unseen (same_view o2) (with_sessions (session_replace now (own o1) ses))"
    "unseen (same_view o2) (with_sessions (session_archive now (own o1) k))"
    "unseen (same_view o2) (with_sessions (session_unregister (own o1) k))"
    "unseen (same_view o2) (with_files (upload_file strip fresh_id now name data (own o1)))"
  by (rule keeps_lifted, rule keeps_append_message keeps_context_replace keeps_context_unregister keeps_mark_retry
      keeps_append_all keeps_memory_replace keeps_memory_unregister keeps_session_replace keeps_session_archive
      keeps_session_unregister keeps_upload, rule assms)+

definition env_keeps ::
  "string \<Rightarrow> string \<Rightarrow> app_env \<Rightarrow> (agent_request \<Rightarrow> principal_scope option \<Rightarrow> (error, app_state, agent_run) act) \<Rightarrow> bool" where
  "env_keeps o1 o2 env start \<longleftrightarrow> (\<forall>p r. unseen (same_view o2) (ae_chat env p r))
     \<and> (\<forall>p r. unseen (same_view o2) (ae_chat_stream env p r)) \<and> (\<forall>r. unseen (same_view o2) (start r (own o1)))"

lemmas keeps_step = unseen_bind [OF same_view_view]

lemma keeps_chats:
  assumes "env_keeps o1 o2 env start" "o1 \<noteq> o2"
  shows "unseen (same_view o2) (chat env p r (own o1))"
    "unseen (same_view o2) (chat_stream env p r (own o1))"
    "unseen (same_view o2) (start_agent_run_for_session start i sr (own o1))"
  using assms
  by (auto simp: chat_def chat_stream_def start_agent_run_for_session_def env_keeps_def intro!: keeps_step)

lemma keeps_chat_with_context:
  assumes "env_keeps o1 o2 env start" "o1 \<noteq> o2"
  shows "unseen (same_view o2) (chat_with_context env p idx a (own o1))"
    "unseen (same_view o2) (chat_stream_with_context env p idx a (own o1))"
  unfolding chat_with_context_def chat_stream_with_context_def
  using assms by (intro keeps_step keeps_registers keeps_chats unseen_return | simp | assumption)+

lemma keeps_chat_with_session:
  assumes "env_keeps o1 o2 env start" "o1 \<noteq> o2"
  shows "unseen (same_view o2) (chat_with_session env i r (own o1))"
  unfolding chat_with_session_def
  using assms by (auto intro!: keeps_step keeps_chat_with_context)

lemma keeps_ensure_context:
  assumes "o1 \<noteq> o2" "own_part ctx_owner_id o2 (ap_contexts s) (ses_context_id ses) = None"
  shows "keeps_at (same_view o2) (ensure_context ses (own o1)) s"
proof -
  have "keeps_at (same_view o2) (bind_a (with_contexts (context_create (own o1) c)) (\<lambda>_. return_a ())) s"
    if "ctx_id c = ses_context_id ses" for c
    using that assms
    by (intro keeps_at_bind same_view_view keeps_with_contexts keeps_context_create keeps_at_keeps) simp_all
  then show ?thesis by (simp add: ensure_context_def keeps_at_def)
qed

lemma ensure_context_sessions: "ap_sessions (snd (ensure_context ses scope s)) = ap_sessions s"
  by (auto simp: ensure_context_def bind_a_def with_contexts_def split: prod.split sum.split)

lemma keeps_create_session:
  assumes "o1 \<noteq> o2" "own_part ctx_owner_id o2 (ap_contexts s) (ses_context_id ses) = None"
    "own_part ses_owner_id o2 (ap_sessions s) (ses_id ses) = None"
  shows "keeps_at (same_view o2) (create_session ses (own o1)) s"
  unfolding create_session_def using assms
  by (intro keeps_at_bind same_view_view keeps_ensure_context keeps_with_sessions keeps_session_create)
    (simp_all add: ensure_context_sessions)

lemma keeps_replace_session:
  assumes "o1 \<noteq> o2" "own_part ctx_owner_id o2 (ap_contexts s) (ses_context_id ses) = None"
  shows "keeps_at (same_view o2) (replace_session now ses (own o1)) s"
  unfolding replace_session_def
  using assms by (intro keeps_at_bind same_view_view keeps_ensure_context keeps_at_keeps [OF keeps_registers(8)])
    (simp_all add: reading_def)

section \<open>Calls\<close>

text \<open>Whether the identifiers that a call brings into use are free of another owner.\<close>

definition free_context :: "string \<Rightarrow> app_state \<Rightarrow> string \<Rightarrow> bool" where
  "free_context o2 s i \<longleftrightarrow> own_part ctx_owner_id o2 (ap_contexts s) i = None"

primrec free_context_call :: "string \<Rightarrow> app_state \<Rightarrow> context_call \<Rightarrow> bool" where
  "free_context_call o2 s (Create_context c) = free_context o2 s (ctx_id c)"
| "free_context_call o2 s (Get_context i) = True"
| "free_context_call o2 s (Append_context i m expected_revision) = True"
| "free_context_call o2 s (Replace_context c) = True"
| "free_context_call o2 s (List_contexts cursor limit owner_id) = True"
| "free_context_call o2 s (Delete_context i) = True"

primrec free_memory_call :: "string \<Rightarrow> app_state \<Rightarrow> memory_call \<Rightarrow> bool" where
  "free_memory_call o2 s (Create_memory m) = (own_part mem_owner_id o2 (ap_memories s) (mem_id m) = None)"
| "free_memory_call o2 s (Get_memory i) = True"
| "free_memory_call o2 s (Replace_memory m) = True"
| "free_memory_call o2 s (List_memories cursor limit owner_id q) = True"
| "free_memory_call o2 s (Delete_memory i) = True"
| "free_memory_call o2 s (Select_memories q) = True"

primrec free_session_call :: "string \<Rightarrow> app_state \<Rightarrow> session_call \<Rightarrow> bool" where
  "free_session_call o2 s (Create_session ses) = (free_context o2 s (ses_context_id ses)
     \<and> own_part ses_owner_id o2 (ap_sessions s) (ses_id ses) = None)"
| "free_session_call o2 s (Get_session i) = True"
| "free_session_call o2 s (Replace_session ses) = free_context o2 s (ses_context_id ses)"
| "free_session_call o2 s (Archive_session i) = True"
| "free_session_call o2 s (List_sessions f) = True"
| "free_session_call o2 s (Delete_session i) = True"
| "free_session_call o2 s (Chat_in_session i r) = True"
| "free_session_call o2 s (Start_run_in_session i r) = True"

primrec claims_nothing :: "string \<Rightarrow> app_state \<Rightarrow> interface_call \<Rightarrow> bool" where
  "claims_nothing o2 s (On_contexts c) = free_context_call o2 s c"
| "claims_nothing o2 s (On_memories c) = free_memory_call o2 s c"
| "claims_nothing o2 s (On_chats c) = True"
| "claims_nothing o2 s (On_images c) = True"
| "claims_nothing o2 s (On_providers c) = True"
| "claims_nothing o2 s (On_tools c) = True"
| "claims_nothing o2 s (On_files c) = True"
| "claims_nothing o2 s (On_data c) = True"
| "claims_nothing o2 s (On_agent c) = True"
| "claims_nothing o2 s (On_agent_runs c) = True"
| "claims_nothing o2 s (On_skills c) = True"
| "claims_nothing o2 s (On_sessions c) = free_session_call o2 s c"

lemma keeps_permitted: "keeps_at R m s \<Longrightarrow> keeps_at R (permitted az p resource action i m) s"
  by (simp add: keeps_at_def permitted_outcome split: sum.split)

lemma keeps_map_reply: "keeps_at R m s \<Longrightarrow> keeps_at R (map_reply f m) s"
  by (auto simp: keeps_at_def map_reply_outcome split: prod.split sum.split)

lemmas keeps_registers_at = keeps_registers [THEN keeps_at_keeps] keeps_append_message [THEN keeps_at_keeps]
  keeps_context_replace [THEN keeps_at_keeps] keeps_context_unregister [THEN keeps_at_keeps]
  keeps_memory_replace [THEN keeps_at_keeps] keeps_memory_unregister [THEN keeps_at_keeps]

lemma keeps_reading_at: "keeps_at R (reading f) s"
  by (simp add: reading_def)

lemma keeps_context_service:
  assumes "o1 \<noteq> o2" "free_context_call o2 s c"
  shows "keeps_at (same_view o2) (context_service c (own o1)) s"
  using assms
  by (cases c) (auto intro!: keeps_map_reply keeps_registers_at keeps_reading_at keeps_with_contexts keeps_context_create
      simp: free_context_def)

lemma keeps_memory_service:
  assumes "o1 \<noteq> o2" "free_memory_call o2 s c"
  shows "keeps_at (same_view o2) (memory_service env c (own o1)) s"
  using assms
  by (cases c) (auto intro!: keeps_map_reply keeps_registers_at keeps_reading_at keeps_with_memories keeps_memory_create)

lemma keeps_chat_service:
  assumes "env_keeps o1 o2 env start" "o1 \<noteq> o2"
  shows "keeps_at (same_view o2) (chat_service env c (own o1)) s"
  using keeps_chats [OF assms, THEN keeps_at_keeps] keeps_chat_with_context [OF assms, THEN keeps_at_keeps]
  by (cases c) (auto intro!: keeps_map_reply keeps_reading_at)

lemma keeps_session_service:
  assumes "env_keeps o1 o2 env start" "o1 \<noteq> o2" "free_session_call o2 s c"
  shows "keeps_at (same_view o2) (session_service env start c (own o1)) s"
  using assms keeps_chats [OF assms(1,2), THEN keeps_at_keeps] keeps_chat_with_session [OF assms(1,2), THEN keeps_at_keeps]
  by (cases c) (auto intro!: keeps_map_reply keeps_registers_at keeps_reading_at keeps_create_session keeps_replace_session
      simp: free_context_def)

lemma keeps_file_service:
  assumes "o1 \<noteq> o2"
  shows "keeps_at (same_view o2) (file_service env fresh_id c (own o1)) s"
  using assms by (cases c) (auto intro!: keeps_map_reply keeps_registers_at keeps_reading_at)

text \<open>C33: A call of a principal on the conversation services leaves every record of another owner as it is, whatever
  the call, and also when it fails, provided that the identifiers it brings into use (of a created context, memory or
  session, and of the context of a created or replaced session) are not in use by that owner.\<close>

theorem tenants_keep_their_records:
  assumes "principal_id p \<noteq> o2" "same_view o2 s s" "env_keeps (principal_id p) o2 env start" "on_conversations call"
    and "claims_nothing o2 s call"
  shows "same_view o2 s (snd (authorized_interface True az p (conversation_service env fresh_id start others) call scope s))"
proof -
  note to_own = own_scope_own keeps_permitted call_with_optional_scope_def
  have "keeps_at (same_view o2) (authorized_interface True az p (conversation_service env fresh_id start others) call scope) s"
  proof (cases call)
    case (On_contexts c)
    with assms(5) have "free_context_call o2 s c" by simp
    then show ?thesis unfolding On_contexts
      using assms(1) by (cases c) (simp_all add: to_own keeps_context_service del: context_service.simps)
  next
    case (On_memories c)
    with assms(5) have "free_memory_call o2 s c" by simp
    then show ?thesis unfolding On_memories
      using assms(1) by (cases c) (simp_all add: to_own keeps_memory_service del: memory_service.simps)
  next
    case (On_chats c)
    show ?thesis unfolding On_chats
      using assms(1) by (cases c) (simp_all add: to_own keeps_chat_service [OF assms(3)] del: chat_service.simps)
  next
    case (On_sessions c)
    with assms(5) have "free_session_call o2 s c" by simp
    then show ?thesis unfolding On_sessions
      using assms(1) by (cases c) (simp_all add: to_own keeps_session_service [OF assms(3)] del: session_service.simps)
  next
    case (On_files c)
    show ?thesis unfolding On_files
      using assms(1) by (cases c) (simp_all add: to_own keeps_file_service del: file_service.simps)
  qed (use assms(4) in simp_all)
  with assms(2) show ?thesis by (simp add: keeps_at_def)
qed

section \<open>An example\<close>

definition eve :: principal where
  "eve = \<lparr>principal_id = ''eve'', principal_type = Principal_USER, roles = [],
     permissions = [''contexts:get'', ''contexts:delete''], principal_metadata = []\<rparr>"

definition permission_authorizer :: authorizer where
  "permission_authorizer = \<lparr>az_policy = permission_authorize, az_dump = \<lambda>_. []\<rparr>"

definition nobodys_state :: app_state where
  "nobodys_state = \<lparr>ap_contexts = [], ap_memories = [], ap_sessions = [], ap_files = [], ap_skills = ap_skills demo_runtime\<rparr>"

definition no_start :: "agent_request \<Rightarrow> principal_scope option \<Rightarrow> (error, app_state, agent_run) act" where
  "no_start r scope = raise_a (validation_error ''no runs'')"

lemma demo_envs: "env_uniform o1 demo_env no_start" "env_keeps o1 o2 demo_env no_start"
  by (simp_all add: env_uniform_def env_keeps_def demo_env_def no_start_def)

lemma demo_views: "same_view ''eve'' demo_runtime nobodys_state" "same_view ''ann'' demo_runtime demo_runtime"
  using demo_keyed
  by (auto simp: same_view_def agree_def demo_runtime_def nobodys_state_def keyed_def dict_ok_def dict_keys_def own_part_def
      fun_eq_iff demo_context_def dict_get_def split: option.split)

text \<open>Eve cannot tell Ann's context from no context at all.\<close>

theorem tenants_learn_nothing_witness:
  "fst (authorized_interface True permission_authorizer eve (conversation_service demo_env ''f'' no_start (\<lambda>_ _. return_a Reply_done))
       (On_contexts (Get_context ''c'')) None demo_runtime)
   = fst (authorized_interface True permission_authorizer eve (conversation_service demo_env ''f'' no_start (\<lambda>_ _. return_a Reply_done))
       (On_contexts (Get_context ''c'')) None nobodys_state)"
proof -
  have p: "principal_id eve = ''eve''" by (simp add: eve_def)
  have "unused_id ''f'' demo_runtime" "unused_id ''f'' nobodys_state"
    by (simp_all add: unused_id_def demo_runtime_def nobodys_state_def dict_has_def dict_get_def)
  from tenants_learn_nothing [of eve, unfolded p, OF demo_views(1) demo_envs(1) _ this, of "On_contexts (Get_context ''c'')"]
  show ?thesis by simp
qed

text \<open>Eve may delete contexts, but not Ann's.\<close>

theorem tenants_keep_their_records_witness:
  "same_view ''ann'' demo_runtime (snd (authorized_interface True permission_authorizer eve
     (conversation_service demo_env ''f'' no_start (\<lambda>_ _. return_a Reply_done)) (On_contexts (Delete_context ''c'')) None demo_runtime))"
proof -
  have p: "principal_id eve = ''eve''" by (simp add: eve_def)
  from tenants_keep_their_records [of eve, unfolded p, OF _ demo_views(2) demo_envs(2), of "On_contexts (Delete_context ''c'')"]
  show ?thesis by simp
qed

end
