(* ===== verification/ShellText.thy ===== *)
theory ShellText
  imports Prelude Values
begin

text \<open>
  The text of shell scripts: quoted here-documents (\<open>infra/adapters/tool/shell_heredocs.py\<close>), the test whether a
  script is literal enough to inspect (\<open>shell_literals.py\<close>), and the tokens of \<open>shlex\<close> as \<open>shell_policy.py\<close> uses
  it.  A Python loop over an offset is a recursion on the offset.  A \<open>ValueError\<close>
  is its text.

  The classes of characters are those of ASCII: a byte above 127 has no case, is part of a word and is not white space.
\<close>

datatype shell_dialect = Dialect_POSIX | Dialect_CMD | Dialect_POWERSHELL

definition quote1 :: char where
  "quote1 = CHR 0x27"

definition quote2 :: char where
  "quote2 = CHR 0x22"

definition back_slash :: char where
  "back_slash = CHR 0x5C"

definition newline :: char where
  "newline = CHR 0x0A"

definition tab :: char where
  "tab = CHR 0x09"

definition is_blank :: "char \<Rightarrow> bool" where
  "is_blank c \<longleftrightarrow> c = CHR 0x20 \<or> c = tab"

definition is_space :: "char \<Rightarrow> bool" where
  "is_space c \<longleftrightarrow> (let n = of_char c :: nat in 9 \<le> n \<and> n \<le> 13 \<or> 28 \<le> n \<and> n \<le> 32)"

definition is_digit :: "char \<Rightarrow> bool" where
  "is_digit c \<longleftrightarrow> (let n = of_char c :: nat in 48 \<le> n \<and> n \<le> 57)"

definition is_word_char :: "char \<Rightarrow> bool" where
  "is_word_char c \<longleftrightarrow> (let n = of_char c :: nat in
     48 \<le> n \<and> n \<le> 57 \<or> 65 \<le> n \<and> n \<le> 90 \<or> n = 95 \<or> 97 \<le> n \<and> n \<le> 122 \<or> 128 \<le> n)"

definition char_lower :: "char \<Rightarrow> char" where
  "char_lower c = (let n = of_char c :: nat in if 65 \<le> n \<and> n \<le> 90 then char_of (n + 32) else c)"

definition lower :: "string \<Rightarrow> string" where
  "lower s = map char_lower s"

definition upper :: "string \<Rightarrow> string" where
  "upper s = map (\<lambda>c. let n = of_char c :: nat in if 97 \<le> n \<and> n \<le> 122 then char_of (n - 32) else c) s"

definition starts_with :: "string \<Rightarrow> string \<Rightarrow> bool" where
  "starts_with p s \<longleftrightarrow> take (length p) s = p"

definition ends_with :: "string \<Rightarrow> string \<Rightarrow> bool" where
  "ends_with p s \<longleftrightarrow> length p \<le> length s \<and> drop (length s - length p) s = p"

text \<open>\<open>s.split(c)\<close> for one character, and \<open>c.join(...)\<close>.\<close>

fun split_char :: "char \<Rightarrow> string \<Rightarrow> string list" where
  "split_char c [] = [[]]"
| "split_char c (x # s) =
     (if x = c then [] # split_char c s
      else case split_char c s of [] \<Rightarrow> [[x]] | t # ts \<Rightarrow> (x # t) # ts)"

definition lines_of :: "string \<Rightarrow> string list" where
  "lines_of s = split_char newline s"

definition unlines :: "string list \<Rightarrow> string" where
  "unlines ls = join [newline] ls"

text \<open>\<open>s.replace(old, new)\<close>, for an \<open>old\<close> that is not empty.\<close>

function replace_text :: "string \<Rightarrow> string \<Rightarrow> string \<Rightarrow> string" where
  "replace_text old new s =
     (if old = [] \<or> s = [] then s
      else if starts_with old s then new @ replace_text old new (drop (length old) s)
      else hd s # replace_text old new (tl s))"
  by pat_completeness auto
termination by (relation "measure (\<lambda>(old, new, s). length s)") auto

declare replace_text.simps [simp del]

section \<open>Quoted here-documents\<close>

definition word_break :: "char \<Rightarrow> bool" where
  "word_break c \<longleftrightarrow> c \<in> {CHR 0x20, tab, CHR '';'', CHR ''|'', CHR ''&'', CHR ''<'', CHR ''>'', CHR ''('', CHR '')''}"

function delimiter_rest :: "string \<Rightarrow> char \<Rightarrow> nat \<Rightarrow> string \<Rightarrow> string + string \<times> nat" where
  "delimiter_rest line q i v =
     (if i \<ge> length line then Inl ''Here-document delimiter quoting is incomplete''
      else if line ! i = q then
        (if i + 1 < length line \<and> \<not> word_break (line ! (i + 1))
         then Inl ''Here-document delimiters must be one quoted literal word''
         else Inr (v, i + 1))
      else if q = quote2 \<and> line ! i = back_slash \<and> i + 1 < length line
          \<and> line ! (i + 1) \<in> {quote2, back_slash, CHR ''$'', CHR 0x60}
        then delimiter_rest line q (i + 2) (v @ [line ! (i + 1)])
      else delimiter_rest line q (i + 1) (v @ [line ! i]))"
  by pat_completeness auto
termination by (relation "measure (\<lambda>(line, q, i, v). length line - i)") auto

declare delimiter_rest.simps [simp del]

definition delimiter :: "string \<Rightarrow> nat \<Rightarrow> string + string \<times> nat" where
  "delimiter line i =
     (if i \<ge> length line \<or> line ! i \<notin> {quote1, quote2}
      then Inl ''Here-document delimiters must be quoted to disable shell expansion''
      else delimiter_rest line (line ! i) (i + 1) [])"

function skip_blanks :: "string \<Rightarrow> nat \<Rightarrow> nat" where
  "skip_blanks line i = (if i < length line \<and> is_blank (line ! i) then skip_blanks line (i + 1) else i)"
  by pat_completeness auto
termination by (relation "measure (\<lambda>(line, i). length line - i)") auto

declare skip_blanks.simps [simp del]

fun fd_start :: "string \<Rightarrow> nat \<Rightarrow> nat" where
  "fd_start line 0 = 0"
| "fd_start line (Suc n) = (if is_digit (line ! n) then fd_start line n else Suc n)"

record header_span =
  hs_start :: nat
  hs_end :: nat
  hs_delimiter :: string
  hs_strip_tabs :: bool

record header_scan =
  hd_spans :: "header_span list"
  hd_quote :: "char option"
  hd_continued :: bool
  hd_compound :: bool

definition here_span :: "string \<Rightarrow> nat \<Rightarrow> string + header_span" where
  "here_span line start =
     (let i = start + 2; strip_tabs = (i < length line \<and> line ! i = CHR ''-'');
          i = skip_blanks line (if strip_tabs then i + 1 else i)
      in bind_e (delimiter line i) (\<lambda>(d, i).
           let fd = fd_start line start
           in Inr \<lparr>hs_start = (if fd = 0 \<or> is_blank (line ! (fd - 1)) then fd else start), hs_end = i,
                   hs_delimiter = d, hs_strip_tabs = strip_tabs\<rparr>))"

lemma if_elim: "(if b then x else y) = z \<Longrightarrow> (b \<Longrightarrow> x = z \<Longrightarrow> R) \<Longrightarrow> (\<not> b \<Longrightarrow> y = z \<Longrightarrow> R) \<Longrightarrow> R"
  by (cases b) simp_all

lemma delimiter_rest_end: "delimiter_rest line q i v = Inr (w, j) \<Longrightarrow> i < j"
proof (induction line q i v rule: delimiter_rest.induct)
  case (1 line q i v)
  from "1.prems" show ?case
    by (subst (asm) delimiter_rest.simps, elim if_elim) (use "1.IH" in \<open>fastforce split: if_splits\<close>)+
qed

lemma delimiter_end: "delimiter line i = Inr (w, j) \<Longrightarrow> i < j"
  by (auto simp: delimiter_def split: if_splits dest: delimiter_rest_end)

lemma skip_blanks_ge: "i \<le> skip_blanks line i"
proof (induction line i rule: skip_blanks.induct)
  case (1 line i)
  then show ?case by (subst skip_blanks.simps) auto
qed

lemma here_span_end: "here_span line i = Inr h \<Longrightarrow> i < hs_end h"
  using skip_blanks_ge [of "i + 2" line] skip_blanks_ge [of "i + 2 + 1" line]
  by (auto simp: here_span_def Let_def bind_e_eq_Inr dest!: delimiter_end split: if_splits)

text \<open>\<open>_headers\<close>; \<open>x\<close> has what was found so far.\<close>

function headers_from :: "string \<Rightarrow> nat \<Rightarrow> bool \<Rightarrow> header_scan \<Rightarrow> string + header_scan" where
  "headers_from line i word_start x =
     (if i \<ge> length line then Inr x
      else if hd_quote x = Some quote1
        then headers_from line (i + 1) word_start (if line ! i = quote1 then x\<lparr>hd_quote := None\<rparr> else x)
      else if line ! i = back_slash
        then headers_from line (i + 2) False (x\<lparr>hd_continued := (i + 1 = length line)\<rparr>)
      else if hd_quote x = Some quote2
        then headers_from line (i + 1) word_start (if line ! i = quote2 then x\<lparr>hd_quote := None\<rparr> else x)
      else if line ! i \<in> {quote1, quote2} then headers_from line (i + 1) False (x\<lparr>hd_quote := Some (line ! i)\<rparr>)
      else if line ! i = CHR ''#'' \<and> word_start then Inr x
      else
        let x = (if line ! i \<in> {CHR '';'', CHR ''|'', CHR ''('', CHR '')''}
                   \<or> line ! i = CHR ''&'' \<and> (i = 0 \<or> line ! (i - 1) \<notin> {CHR ''<'', CHR ''>''})
                 then x\<lparr>hd_compound := True\<rparr> else x)
        in if starts_with ''<<'' (drop i line)
           then if starts_with ''<<<'' (drop i line)
             then Inl ''Here-strings cannot be inspected; use a quoted here-document''
             else (case here_span line i of
                     Inl e \<Rightarrow> Inl e
                   | Inr h \<Rightarrow> headers_from line (hs_end h) False (x\<lparr>hd_spans := hd_spans x @ [h]\<rparr>))
           else headers_from line (i + 1) (word_break (line ! i)) x)"
  by pat_completeness auto
termination
  by (relation "measure (\<lambda>(line, i, w, x). length line - i)") (auto dest: here_span_end)

declare headers_from.simps [simp del]

definition headers :: "string \<Rightarrow> char option \<Rightarrow> string + header_scan" where
  "headers line q = headers_from line 0 True \<lparr>hd_spans = [], hd_quote = q, hd_continued = False, hd_compound = False\<rparr>"

record here_document =
  hd_header :: string
  hd_body :: string

record shell_script =
  ss_text :: string
  ss_documents :: "here_document list"

definition cut_span :: "header_span \<Rightarrow> string \<Rightarrow> string" where
  "cut_span h line = take (hs_start h) line @ '' '' @ drop (hs_end h) line"

text \<open>The body of one here-document: its lines, the number of lines that it takes, and the rest.\<close>

fun here_body :: "header_span \<Rightarrow> string list \<Rightarrow> nat \<Rightarrow> string list \<Rightarrow> string + string list \<times> nat \<times> string list" where
  "here_body h body n [] = Inl ''Here-document closing delimiter is missing''"
| "here_body h body n (l # ls) =
     (let content = (if hs_strip_tabs h then dropWhile (\<lambda>c. c = tab) l else l)
      in if content = hs_delimiter h then Inr (body, n + 1, ls) else here_body h (body @ [content]) (n + 1) ls)"

fun here_bodies :: "string \<Rightarrow> header_span list \<Rightarrow> string list \<Rightarrow> string + here_document list \<times> nat \<times> string list" where
  "here_bodies header [] ls = Inr ([], 0, ls)"
| "here_bodies header (h # hs) ls =
     bind_e (here_body h [] 0 ls) (\<lambda>(body, n, ls).
     bind_e (here_bodies header hs ls) (\<lambda>(docs, m, ls).
       Inr (\<lparr>hd_header = header, hd_body = unlines body\<rparr> # docs, n + m, ls)))"

lemma here_body_rest: "here_body h body n ls = Inr (b, m, r) \<Longrightarrow> length ls + n = length r + m \<and> length r < length ls"
  by (induction h body n ls rule: here_body.induct) (auto simp: Let_def split: if_splits)

lemma here_bodies_rest: "here_bodies header hs ls = Inr (docs, m, r) \<Longrightarrow> length ls = length r + m"
  by (induction header hs ls arbitrary: docs m r rule: here_bodies.induct)
    (fastforce simp: bind_e_eq_Inr dest: here_body_rest)+

function heredoc_lines :: "char option \<Rightarrow> string list \<Rightarrow> string + string list \<times> here_document list" where
  "heredoc_lines q [] = Inr ([], [])"
| "heredoc_lines q (line # ls) =
     (case headers line q of
        Inl e \<Rightarrow> Inl e
      | Inr x \<Rightarrow>
          if hd_spans x \<noteq> [] \<and> (hd_quote x \<noteq> None \<or> hd_continued x \<or> hd_compound x)
          then Inl ''Here-document headers must contain one complete foreground command''
          else let header = foldr cut_span (hd_spans x) line
               in case here_bodies header (hd_spans x) ls of
                    Inl e \<Rightarrow> Inl e
                  | Inr (docs, n, rest) \<Rightarrow>
                      (case heredoc_lines (hd_quote x) rest of
                         Inl e \<Rightarrow> Inl e
                       | Inr (out, others) \<Rightarrow> Inr (header # replicate n [] @ out, docs @ others)))"
  by pat_completeness auto
termination by (relation "measure (\<lambda>(q, ls). length ls)") (auto dest: here_bodies_rest)

declare heredoc_lines.simps(2) [simp del]

definition parse_quoted_heredocs :: "string \<Rightarrow> string + shell_script" where
  "parse_quoted_heredocs script =
     bind_e (heredoc_lines None (lines_of script)) (\<lambda>(out, docs).
       Inr \<lparr>ss_text = unlines out, ss_documents = docs\<rparr>)"

section \<open>Literal scripts\<close>

text \<open>
  The expressions that are searched: a variable of \<open>cmd\<close> (\<open>%[^%\s]+%|![^!\s]+!|%[0-9*]\<close>) and, at an offset, a brace
  expansion (\<open>\{[^{}\s]*(?:,|\.\.)[^{}\s]*\}\<close>).
\<close>

definition delimited_name :: "char \<Rightarrow> string \<Rightarrow> bool" where
  "delimited_name q s = (case s of
     [] \<Rightarrow> False
   | c # t \<Rightarrow> c = q \<and> (let name = takeWhile (\<lambda>c. c \<noteq> q \<and> \<not> is_space c) t
       in name \<noteq> [] \<and> take 1 (drop (length name) t) = [q]))"

definition cmd_variable_at :: "string \<Rightarrow> bool" where
  "cmd_variable_at s \<longleftrightarrow> delimited_name (CHR ''%'') s \<or> delimited_name (CHR ''!'') s
     \<or> (case s of c # d # t \<Rightarrow> c = CHR ''%'' \<and> (is_digit d \<or> d = CHR ''*'') | _ \<Rightarrow> False)"

fun search_at :: "(string \<Rightarrow> bool) \<Rightarrow> string \<Rightarrow> bool" where
  "search_at P [] = P []"
| "search_at P (c # s) = (P (c # s) \<or> search_at P s)"

fun has_range_or_comma :: "string \<Rightarrow> bool" where
  "has_range_or_comma (c # d # s) = (c = CHR '','' \<or> c = CHR ''.'' \<and> d = CHR ''.'' \<or> has_range_or_comma (d # s))"
| "has_range_or_comma [c] = (c = CHR '','')"
| "has_range_or_comma [] = False"

definition brace_expansion_at :: "string \<Rightarrow> bool" where
  "brace_expansion_at s = (case s of
     [] \<Rightarrow> False
   | c # t \<Rightarrow> c = CHR ''{'' \<and> (let inner = takeWhile (\<lambda>c. c \<notin> {CHR ''{'', CHR ''}''} \<and> \<not> is_space c) t
       in has_range_or_comma inner \<and> take 1 (drop (length inner) t) = [CHR ''}'']))"

definition hidden :: "string \<Rightarrow> bool \<Rightarrow> string" where
  "hidden what strict = what @ (if strict then '' is forbidden'' else '' requires approval'')"

definition escape_char :: "shell_dialect \<Rightarrow> char" where
  "escape_char d = (case d of Dialect_CMD \<Rightarrow> CHR ''^'' | Dialect_POWERSHELL \<Rightarrow> CHR 0x60 | Dialect_POSIX \<Rightarrow> back_slash)"

text \<open>\<open>script.find(newline, index)\<close>, or the end.\<close>

definition line_end :: "string \<Rightarrow> nat \<Rightarrow> nat" where
  "line_end s i = i + length (takeWhile (\<lambda>c. c \<noteq> newline) (drop i s))"

lemma comment_end: "i < length s \<Longrightarrow> s ! i = CHR ''#'' \<Longrightarrow> i < line_end s i"
  by (simp add: line_end_def Cons_nth_drop_Suc [symmetric] newline_def)

text \<open>The loop of \<open>literal_script_reason\<close>; what follows the character is \<open>None\<close> at the end of the script.\<close>

definition expansion_reason :: "shell_dialect \<Rightarrow> bool \<Rightarrow> bool \<Rightarrow> string \<Rightarrow> nat \<Rightarrow> string option" where
  "expansion_reason d strict word_start s i =
     (let c = s ! i; following = (if i + 1 < length s then Some (s ! (i + 1)) else None)
      in if c = CHR ''<'' \<and> following = Some (CHR ''<'')
         then Some (if strict then ''Here-documents and here-strings are forbidden; use literal paths''
                    else ''Here-strings and unquoted here-documents require approval'')
         else if c \<in> {CHR ''<'', CHR ''>''} \<and> following = Some (CHR ''('') then Some (hidden ''Process substitution'' strict)
         else if strict \<and> c \<in> {CHR ''*'', CHR ''?'', CHR ''[''}
         then Some ''Wildcard expansion is forbidden; quote or escape literal filename characters''
         else if strict \<and> d \<noteq> Dialect_CMD \<and> c = CHR ''~'' \<and> word_start
         then Some ''Home-directory expansion is forbidden; use a literal relative or absolute path''
         else if strict \<and> c = CHR ''{'' \<and> brace_expansion_at (drop i s)
         then Some ''Brace expansion is forbidden; use literal paths''
         else None)"

definition literal_word_break :: "char \<Rightarrow> bool" where
  "literal_word_break c \<longleftrightarrow> is_space c \<or> c \<in> {CHR '';'', CHR ''|'', CHR ''&'', CHR ''('', CHR '')'', CHR ''<'', CHR ''>'', CHR ''='', CHR '':''}"

definition substitution_reason :: "shell_dialect \<Rightarrow> bool \<Rightarrow> string \<Rightarrow> nat \<Rightarrow> string option" where
  "substitution_reason d strict s i =
     (if d \<noteq> Dialect_CMD \<and> s ! i = CHR ''$'' \<and> i + 1 < length s \<and> s ! (i + 1) = CHR ''(''
      then Some (hidden ''Command substitution'' strict)
      else if d \<noteq> Dialect_CMD \<and> s ! i = CHR ''$'' \<and> strict
      then Some ''Environment and shell variable expansion is forbidden; quote or escape literal $''
      else if d = Dialect_POSIX \<and> s ! i = CHR 0x60 then Some (hidden ''Command substitution'' strict)
      else None)"

function literal_scan :: "shell_dialect \<Rightarrow> bool \<Rightarrow> string \<Rightarrow> nat \<Rightarrow> char option \<Rightarrow> bool \<Rightarrow> string option" where
  "literal_scan d strict s i q word_start =
     (if i \<ge> length s then (if q \<noteq> None then Some (hidden ''Unterminated shell quoting'' strict) else None)
      else let c = s ! i in
      if q = Some quote1 then
        (if c = quote1 \<and> d = Dialect_POWERSHELL \<and> i + 1 < length s \<and> s ! (i + 1) = quote1
         then literal_scan d strict s (i + 2) q word_start
         else literal_scan d strict s (i + 1) (if c = quote1 then None else q) word_start)
      else if c = escape_char d \<and> (q = None \<or> d \<noteq> Dialect_CMD) then
        (if i + 1 \<ge> length s then Some (hidden ''Incomplete shell escaping'' strict)
         else if d = Dialect_POSIX \<and> q = Some quote2
             \<and> s ! (i + 1) \<notin> {CHR ''$'', CHR 0x60, quote2, back_slash, newline}
         then literal_scan d strict s (i + 1) q word_start
         else literal_scan d strict s (i + 2) q False)
      else if c = quote2 \<or> c = quote1 \<and> d \<noteq> Dialect_CMD
        then literal_scan d strict s (i + 1) (if q = None then Some c else if q = Some c then None else q) False
      else case substitution_reason d strict s i of
          Some r \<Rightarrow> Some r
        | None \<Rightarrow>
            if q = None then
              (case expansion_reason d strict word_start s i of
                 Some r \<Rightarrow> Some r
               | None \<Rightarrow>
                   if c = CHR ''#'' \<and> word_start \<and> d \<noteq> Dialect_CMD
                   then literal_scan d strict s (line_end s i) q word_start
                   else literal_scan d strict s (i + 1) q (literal_word_break c))
            else literal_scan d strict s (i + 1) q word_start)"
  by pat_completeness auto
termination
  by (relation "measure (\<lambda>(d, strict, s, i, q, w). length s - i)")
    (auto intro!: diff_less_mono2 comment_end)

declare literal_scan.simps [simp del]

definition literal_script_reason :: "string \<Rightarrow> shell_dialect \<Rightarrow> bool \<Rightarrow> string option" where
  "literal_script_reason script d strict =
     (let scan = (\<lambda>s. if strict \<and> d = Dialect_CMD \<and> search_at cmd_variable_at s
                      then Some ''Environment variable expansion is forbidden''
                      else literal_scan d strict s 0 None True)
      in if d = Dialect_POSIX
         then case parse_quoted_heredocs script of
             Inl e \<Rightarrow> Some e
           | Inr parsed \<Rightarrow>
               if strict \<and> ss_documents parsed \<noteq> []
               then Some ''Here-documents are forbidden for deletion commands; use literal paths''
               else scan (ss_text parsed)
         else scan script)"

end
