(* ===== verification/Paths.thy ===== *)
theory Paths
  imports ShellText
begin

text \<open>
  \<open>pathlib.PurePosixPath\<close>, as the adapters for files, shells and sandboxes use it.  A path is its anchor, the number of
  leading slashes (none, one or two), and its components; \<open>.\<close> and empty components vanish when a path is read, and
  \<open>..\<close> stays.
\<close>

type_synonym posix_path = "nat \<times> string list"

definition posix_path :: "string \<Rightarrow> posix_path" where
  "posix_path s =
     (let n = length (takeWhile (\<lambda>c. c = CHR ''/'') s)
      in (if n = 2 then 2 else min n 1, filter (\<lambda>p. p \<noteq> [] \<and> p \<noteq> ''.'') (split_char (CHR ''/'') s)))"

definition path_join :: "posix_path \<Rightarrow> posix_path \<Rightarrow> posix_path" where
  "path_join base p = (if fst p > 0 then p else (fst base, snd base @ snd p))"

text \<open>\<open>p.is_relative_to(dir)\<close>: \<open>p\<close> is \<open>dir\<close> or one of its parents is.\<close>

definition path_within :: "posix_path \<Rightarrow> posix_path \<Rightarrow> bool" where
  "path_within p dir \<longleftrightarrow> fst p = fst dir \<and> take (length (snd dir)) (snd p) = snd dir"

definition path_name :: "posix_path \<Rightarrow> string list" where
  "path_name p = (if snd p = [] then [] else [last (snd p)])"

definition path_parent :: "posix_path \<Rightarrow> posix_path" where
  "path_parent p = (fst p, butlast (snd p))"

text \<open>\<open>str(p)\<close>.\<close>

definition path_str :: "posix_path \<Rightarrow> string" where
  "path_str p =
     (if fst p = 0 \<and> snd p = [] then ''.'' else replicate (fst p) (CHR ''/'') @ join ''/'' (snd p))"

text \<open>\<open>[p, *p.parents]\<close>.\<close>

definition path_ancestors :: "posix_path \<Rightarrow> posix_path list" where
  "path_ancestors p = map (\<lambda>n. (fst p, take n (snd p))) (rev [0..<Suc (length (snd p))])"

definition paths_overlap :: "posix_path \<Rightarrow> posix_path \<Rightarrow> bool" where
  "paths_overlap p q \<longleftrightarrow> path_within p q \<or> path_within q p"

lemma path_within_refl [simp]: "path_within p p"
  by (simp add: path_within_def)

lemma path_within_trans: "path_within p q \<Longrightarrow> path_within q r \<Longrightarrow> path_within p r"
  by (auto simp: path_within_def) (metis min.absorb1 nat_le_linear take_all take_take)

lemma path_within_append [simp]: "path_within (n, xs @ ys) (n, xs)"
  by (simp add: path_within_def)

lemma path_within_iff: "path_within p dir \<longleftrightarrow> (\<exists>rest. p = (fst dir, snd dir @ rest))"
proof
  assume "path_within p dir"
  then have "p = (fst dir, snd dir @ drop (length (snd dir)) (snd p))"
    by (metis append_take_drop_id path_within_def prod.collapse)
  then show "\<exists>rest. p = (fst dir, snd dir @ rest)" ..
next
  assume "\<exists>rest. p = (fst dir, snd dir @ rest)"
  then show "path_within p dir"
    by (auto simp: path_within_def)
qed

lemma paths_overlap_sym: "paths_overlap p q = paths_overlap q p"
  by (auto simp: paths_overlap_def)

text \<open>What lies below a path that overlaps nothing overlaps nothing.\<close>

lemma paths_overlap_below: "path_within p dir \<Longrightarrow> paths_overlap p q \<Longrightarrow> paths_overlap dir q"
  by (cases p, cases dir, cases q) (auto simp: paths_overlap_def path_within_iff append_eq_append_conv2)

lemma in_path_ancestors: "d \<in> set (path_ancestors p) \<longleftrightarrow> path_within p d"
proof -
  have "path_within p d \<longleftrightarrow> (\<exists>n\<le>length (snd p). d = (fst p, take n (snd p)))"
  proof
    assume w: "path_within p d"
    have "take (min (length (snd d)) (length (snd p))) (snd p) = snd d" and "fst d = fst p"
      using w by (auto simp: path_within_def min_def split: if_splits)
    then show "\<exists>n\<le>length (snd p). d = (fst p, take n (snd p))"
      by (metis min.cobounded2 prod.collapse)
  qed (auto simp: path_within_def)
  then show ?thesis
    by (auto simp: path_ancestors_def less_Suc_eq_le simp del: upt_Suc)
qed

end
