(* ===== verification/ShellCommands.thy ===== *)
theory ShellCommands
  imports ShellText
begin

text \<open>
  How \<open>shell_policy.py\<close> reads commands without a syntax tree: the tokens of \<open>shlex\<close>, the commands of a script and
  the commands that they run in turn, the tests for deletion, and the reasons to refuse or to ask.  The recursion over
  nested scripts ends in Python with a \<open>RecursionError\<close>, which the callers catch; here \<open>limit\<close> is the number of
  nested inspections that the interpreter allows, and every theorem holds for any limit.
\<close>

datatype shell_failure = Value_error string | Recursion_limit

datatype shell_command = Script string | Argv "string list"

section \<open>Sets of names\<close>

definition READ_COMMANDS :: "string list" where
  "READ_COMMANDS = [''cd'', ''cat'', ''cut'', ''echo'', ''grep'', ''head'', ''ls'', ''pwd'', ''rg'', ''sort'', ''tail'',
     ''uniq'', ''wc'', ''whoami'', ''which'']"

definition DELETE_COMMANDS :: "string list" where
  "DELETE_COMMANDS = [''rm'', ''rmdir'', ''unlink'', ''shred'', ''del'', ''erase'', ''remove-item'', ''ri'']"

definition SCRIPT_COMMANDS :: "string list" where
  "SCRIPT_COMMANDS = [''bash'', ''sh'', ''dash'', ''zsh'', ''fish'', ''cmd'', ''powershell'', ''pwsh'', ''python'',
     ''python3'', ''node'', ''perl'', ''ruby'']"

definition WRITE_COMMANDS :: "string list" where
  "WRITE_COMMANDS = [''cp'', ''mv'', ''tee'', ''touch'', ''mkdir'', ''chmod'', ''chown'', ''truncate'', ''dd'', ''sed'',
     ''awk'', ''curl'', ''wget'', ''git'', ''npm'', ''pnpm'', ''pip'', ''pip3'', ''apt'', ''apt-get'', ''dnf'', ''yum'',
     ''systemctl'', ''kill'', ''pkill'']"

definition WRAPPERS :: "string list" where
  "WRAPPERS = [''sudo'', ''env'', ''command'', ''exec'', ''nohup'', ''nice'', ''xargs'']"

definition SHELL_COMMANDS :: "string list" where
  "SHELL_COMMANDS = [''bash'', ''sh'', ''dash'', ''zsh'', ''fish'', ''cmd'', ''powershell'', ''pwsh'']"

definition FIND_EXEC_ACTIONS :: "string list" where
  "FIND_EXEC_ACTIONS = [''-exec'', ''-execdir'', ''-ok'', ''-okdir'']"

definition SHELL_SCRIPT_FLAGS :: "string list" where
  "SHELL_SCRIPT_FLAGS = [''-c'', ''-lc'', ''-command'', ''/c'', ''--command'']"

section \<open>Names of executables\<close>

text \<open>\<open>PureWindowsPath(value).name\<close>: what follows the drive or the share, without empty and \<open>.\<close> components.\<close>

definition windows_seps :: "string \<Rightarrow> string" where
  "windows_seps s = map (\<lambda>c. if c = CHR ''/'' then back_slash else c) s"

definition find_from :: "char \<Rightarrow> nat \<Rightarrow> string \<Rightarrow> nat option" where
  "find_from c i s = (let n = length (takeWhile (\<lambda>x. x \<noteq> c) (drop i s)) in if i + n < length s then Some (i + n) else None)"

definition windows_relative :: "string \<Rightarrow> string" where
  "windows_relative p =
     (if starts_with [back_slash, back_slash] p then
        let start = (if upper (take 8 p) = [back_slash, back_slash, CHR ''?'', back_slash] @ ''UNC'' @ [back_slash] then 8 else 2)
        in case find_from back_slash start p of
            None \<Rightarrow> []
          | Some i \<Rightarrow> (case find_from back_slash (i + 1) p of None \<Rightarrow> [] | Some j \<Rightarrow> drop (j + 1) p)
      else if starts_with [back_slash] p then drop 1 p
      else if take 1 (drop 1 p) = '':'' then
        (if take 1 (drop 2 p) = [back_slash] then drop 3 p else drop 2 p)
      else p)"

definition windows_name :: "string \<Rightarrow> string" where
  "windows_name value =
     (let parts = filter (\<lambda>x. x \<noteq> [] \<and> x \<noteq> ''.'') (split_char back_slash (windows_relative (windows_seps value)))
      in if parts = [] then [] else last parts)"

definition remove_suffix :: "string \<Rightarrow> string \<Rightarrow> string" where
  "remove_suffix e s = (if e \<noteq> [] \<and> ends_with e s then take (length s - length e) s else s)"

definition executable_name :: "string \<Rightarrow> string" where
  "executable_name value = remove_suffix ''.exe'' (lower (windows_name value))"

section \<open>Tokens\<close>

text \<open>\<open>shlex.read_token\<close> in POSIX mode with \<open>whitespace_split\<close> and no comments, for a set of punctuation
  characters and of escape characters; the token so far, and whether it had quotes.\<close>

datatype lex_state = Lex_blank | Lex_word | Lex_punct | Lex_quote char | Lex_escape char "char option"

definition lex_space :: "char \<Rightarrow> bool" where
  "lex_space c \<longleftrightarrow> c \<in> {CHR 0x20, tab, CHR 0x0D, newline}"

definition lex_start :: "(char \<Rightarrow> bool) \<Rightarrow> (char \<Rightarrow> bool) \<Rightarrow> char \<Rightarrow> lex_state \<times> string" where
  "lex_start punct esc c =
     (if lex_space c then (Lex_blank, [])
      else if esc c then (Lex_escape c None, [])
      else if punct c then (Lex_punct, [c])
      else if c \<in> {quote1, quote2} then (Lex_quote c, [])
      else (Lex_word, [c]))"

definition emit :: "string \<Rightarrow> bool \<Rightarrow> string + string list \<Rightarrow> string + string list" where
  "emit token quoted rest = (if token \<noteq> [] \<or> quoted then map_sum id (Cons token) rest else rest)"

fun lex :: "(char \<Rightarrow> bool) \<Rightarrow> (char \<Rightarrow> bool) \<Rightarrow> lex_state \<Rightarrow> string \<Rightarrow> bool \<Rightarrow> string \<Rightarrow> string + string list" where
  "lex punct esc (Lex_quote k) token quoted [] = Inl ''No closing quotation''"
| "lex punct esc (Lex_escape e from) token quoted [] = Inl ''No escaped character''"
| "lex punct esc st token quoted [] = emit token quoted (Inr [])"
| "lex punct esc Lex_blank token quoted (c # cs) = (case lex_start punct esc c of (st, t) \<Rightarrow> lex punct esc st t False cs)"
| "lex punct esc (Lex_quote k) token quoted (c # cs) =
     (if c = k then lex punct esc Lex_word token True cs
      else if esc c \<and> k = quote2 then lex punct esc (Lex_escape c (Some k)) token True cs
      else lex punct esc (Lex_quote k) (token @ [c]) True cs)"
| "lex punct esc (Lex_escape e from) token quoted (c # cs) =
     (case from of
        None \<Rightarrow> lex punct esc Lex_word (token @ [c]) quoted cs
      | Some k \<Rightarrow> lex punct esc (Lex_quote k) (token @ (if c \<noteq> e \<and> c \<noteq> k then [e] else []) @ [c]) quoted cs)"
| "lex punct esc Lex_word token quoted (c # cs) =
     (if lex_space c then emit token quoted (lex punct esc Lex_blank [] False cs)
      else if c \<in> {quote1, quote2} then lex punct esc (Lex_quote c) token quoted cs
      else if esc c then lex punct esc (Lex_escape c None) token quoted cs
      else if punct c then emit token quoted (lex punct esc Lex_punct [c] False cs)
      else lex punct esc Lex_word (token @ [c]) quoted cs)"
| "lex punct esc Lex_punct token quoted (c # cs) =
     (if punct c then lex punct esc Lex_punct (token @ [c]) quoted cs
      else emit token quoted (case lex_start punct esc c of (st, t) \<Rightarrow> lex punct esc st t False cs))"

definition shlex_split :: "string \<Rightarrow> string + string list" where
  "shlex_split s = lex (\<lambda>_. False) (\<lambda>c. c = back_slash) Lex_blank [] False s"

definition rule_parts :: "string \<Rightarrow> shell_dialect \<Rightarrow> string + string list" where
  "rule_parts rule d = lex (\<lambda>_. False) (\<lambda>c. d = Dialect_POSIX \<and> c = back_slash) Lex_blank [] False rule"

definition OPERATORS :: string where
  "OPERATORS = '';|&<>()''"

text \<open>The place holder of an operator: a NUL and its index.\<close>

definition placeholder :: "nat \<Rightarrow> string" where
  "placeholder i = CHR 0x00 # nat_str i"

definition protect_char :: "char \<Rightarrow> string" where
  "protect_char c = (case filter (\<lambda>i. OPERATORS ! i = c) [0..<length OPERATORS] of i # _ \<Rightarrow> placeholder i | [] \<Rightarrow> [c])"

fun protect :: "char option \<Rightarrow> bool \<Rightarrow> string \<Rightarrow> string" where
  "protect q escaped [] = []"
| "protect q escaped (c # cs) =
     (if escaped then protect_char c @ protect q False cs
      else if c = back_slash \<and> q \<noteq> Some quote1 then c # protect q True cs
      else let q = (if c \<in> {quote1, quote2} \<and> (q = None \<or> q = Some c) then (if q \<noteq> None then None else Some c) else q)
           in (if q \<noteq> None then protect_char c else [c]) @ protect q False cs)"

definition restore_operators :: "string \<Rightarrow> string" where
  "restore_operators token = fold (\<lambda>i. replace_text (placeholder i) [OPERATORS ! i]) [0..<length OPERATORS] token"

definition shell_tokens :: "string \<Rightarrow> string + (string \<times> bool) list" where
  "shell_tokens script =
     bind_e (lex (\<lambda>c. c \<in> set OPERATORS) (\<lambda>c. c = back_slash) Lex_blank [] False (protect None False script)) (\<lambda>tokens.
       Inr (map (\<lambda>t. (restore_operators t, t \<noteq> [] \<and> list_all (\<lambda>c. c \<in> set OPERATORS) t)) tokens))"

section \<open>Commands of a script\<close>

fun join_continued :: "string \<Rightarrow> string" where
  "join_continued (a # b # c # s) =
     (if a = back_slash \<and> b = newline then join_continued (c # s)
      else if a = back_slash \<and> b = CHR 0x0D \<and> c = newline then join_continued s
      else a # join_continued (b # c # s))"
| "join_continued [a, b] = (if a = back_slash \<and> b = newline then [] else [a, b])"
| "join_continued s = s"

fun split_commands :: "bool \<Rightarrow> (string \<times> bool) list \<Rightarrow> string list \<Rightarrow> bool \<Rightarrow> string list list" where
  "split_commands ign [] current target = (if current = [] then [] else [current])"
| "split_commands ign ((token, operator) # ts) current target =
     (if target then split_commands ign ts current False
      else if operator \<and> ign \<and> token \<in> {''<'', ''>'', ''>>'', ''<&'', ''>&'', ''&>'', ''&>>''}
        then split_commands ign ts current True
      else if operator then (if current = [] then [] else [current]) @ split_commands ign ts [] False
      else split_commands ign ts (current @ [token]) False)"

definition shell_commands :: "bool \<Rightarrow> string \<Rightarrow> string + string list list" where
  "shell_commands ign script =
     bind_e (parse_quoted_heredocs script) (\<lambda>parsed.
     bind_e (shell_tokens (replace_text [newline] '' ; '' (join_continued (ss_text parsed)))) (\<lambda>tokens.
       Inr (split_commands ign tokens [] False)))"

fun find_action_end :: "string list \<Rightarrow> string list \<Rightarrow> (string list \<times> string list) option" where
  "find_action_end acc [] = None"
| "find_action_end acc (p # ps) =
     (if p = '';'' \<or> p = ''+'' \<and> acc \<noteq> [] \<and> last acc = ''{}'' then Some (acc, ps) else find_action_end (acc @ [p]) ps)"

lemma find_action_end_rest: "find_action_end acc ps = Some (a, r) \<Longrightarrow> length r < length ps"
  by (induction acc ps rule: find_action_end.induct) (auto split: if_splits)

function find_actions :: "string list \<Rightarrow> string list list option" where
  "find_actions [] = Some []"
| "find_actions (p # ps) =
     (if p \<notin> set FIND_EXEC_ACTIONS then find_actions ps
      else case find_action_end [] ps of
          None \<Rightarrow> None
        | Some (a, r) \<Rightarrow> if a = [] then None else map_option (Cons a) (find_actions r))"
  by pat_completeness auto
termination by (relation "measure length") (auto dest: find_action_end_rest)

definition find_execution_commands :: "string list \<Rightarrow> string list list option" where
  "find_execution_commands parts = find_actions (tl parts)"

text \<open>\<open>^[A-Za-z_][A-Za-z_0-9]*=\<close>\<close>

definition ascii_name_start :: "char \<Rightarrow> bool" where
  "ascii_name_start c \<longleftrightarrow> (let n = of_char c :: nat in 65 \<le> n \<and> n \<le> 90 \<or> n = 95 \<or> 97 \<le> n \<and> n \<le> 122)"

definition assignment_word :: "string \<Rightarrow> bool" where
  "assignment_word s = (case s of
     [] \<Rightarrow> False
   | c # t \<Rightarrow> ascii_name_start c \<and> take 1 (dropWhile (\<lambda>c. ascii_name_start c \<or> is_digit c) t) = ''='')"

definition valued_options :: "string \<Rightarrow> string list" where
  "valued_options wrapper =
     (if wrapper = ''sudo'' then [''-u'', ''--user'', ''-g'', ''--group'', ''-h'', ''--host'', ''-p'', ''--prompt'']
      else if wrapper = ''env'' then [''-u'', ''--unset'', ''-C'', ''--chdir'']
      else if wrapper = ''nice'' then [''-n'', ''--adjustment'']
      else [])"

fun skip_options :: "string list \<Rightarrow> string list \<Rightarrow> string list" where
  "skip_options valued (o1 # o2 # rest) =
     (if starts_with ''-'' o1 \<or> CHR ''='' \<in> set o1
      then if o1 \<in> set valued then skip_options valued rest else skip_options valued (o2 # rest)
      else o1 # o2 # rest)"
| "skip_options valued [o1] = (if starts_with ''-'' o1 \<or> CHR ''='' \<in> set o1 then [] else [o1])"
| "skip_options valued [] = []"

lemma skip_options_length: "length (skip_options valued ps) \<le> length ps"
  by (induction valued ps rule: skip_options.induct) auto

function unwrap_wrappers :: "string list \<Rightarrow> string list" where
  "unwrap_wrappers [] = []"
| "unwrap_wrappers (w # ps) =
     (if executable_name w \<notin> set WRAPPERS then w # ps
      else if executable_name w = ''command'' \<and> ps \<noteq> [] \<and> hd ps \<in> {''-v'', ''-V''} then []
      else unwrap_wrappers (skip_options (valued_options (executable_name w)) ps))"
  by pat_completeness auto
termination by (relation "measure length") (auto simp: less_Suc_eq_le skip_options_length)

definition unwrap_command :: "string list \<Rightarrow> string list" where
  "unwrap_command command = unwrap_wrappers (dropWhile assignment_word command)"

text \<open>The script after the first flag, where one follows.\<close>

fun flagged_script :: "string list \<Rightarrow> string option" where
  "flagged_script (p # q # ps) = (if lower p \<in> set SHELL_SCRIPT_FLAGS then Some q else flagged_script (q # ps))"
| "flagged_script _ = None"

fun collect_more ::
  "('c \<Rightarrow> 'e + 'a list) \<Rightarrow> 'c list \<Rightarrow> 'a list \<Rightarrow> 'e + 'a list" where
  "collect_more f [] result = Inr result"
| "collect_more f (c # cs) result = bind_e (f c) (\<lambda>r. collect_more f cs (result @ r))"

definition inspect_parts ::
  "(shell_command \<Rightarrow> shell_failure + string list list) \<Rightarrow> string list \<Rightarrow> string list list
     \<Rightarrow> shell_failure + string list list" where
  "inspect_parts inner parts result =
     (let result = (if parts = [] then result else result @ [parts]); w = unwrap_command parts
      in if w = [] then Inr result
      else let result = (if w \<in> set result then result else result @ [w]); name = executable_name (hd w)
      in bind_e (if name = ''find''
                 then collect_more inner (map Argv (case find_execution_commands w of None \<Rightarrow> [] | Some cs \<Rightarrow> cs)) result
                 else Inr result) (\<lambda>result.
         if name \<in> set SHELL_COMMANDS
         then collect_more inner (case flagged_script (tl w) of None \<Rightarrow> [] | Some s \<Rightarrow> [Script s]) result
         else Inr result))"

fun inspect_all ::
  "(shell_command \<Rightarrow> shell_failure + string list list) \<Rightarrow> string list list \<Rightarrow> string list list
     \<Rightarrow> shell_failure + string list list" where
  "inspect_all inner [] result = Inr result"
| "inspect_all inner (parts # cs) result = bind_e (inspect_parts inner parts result) (inspect_all inner cs)"

definition feeds_shell :: "string list \<Rightarrow> bool" where
  "feeds_shell parts \<longleftrightarrow> executable_name (hd parts) \<in> set SHELL_COMMANDS
     \<or> executable_name (hd parts) \<in> {''uv'', ''busybox''}
        \<and> list_ex (\<lambda>p. executable_name p \<in> set SHELL_COMMANDS) (tl parts)"

text \<open>\<open>_shell_heredoc_bodies\<close>: the bodies that a shell reads.\<close>

fun heredoc_bodies ::
  "(shell_command \<Rightarrow> shell_failure + string list list) \<Rightarrow> here_document list \<Rightarrow> shell_failure + string list" where
  "heredoc_bodies inner [] = Inr []"
| "heredoc_bodies inner (h # hs) =
     bind_e (inner (Script (hd_header h))) (\<lambda>commands.
     bind_e (heredoc_bodies inner hs) (\<lambda>bodies.
       Inr (if list_ex feeds_shell commands then hd_body h # bodies else bodies)))"

definition as_value_error :: "string + 'a \<Rightarrow> shell_failure + 'a" where
  "as_value_error r = (case r of Inl e \<Rightarrow> Inl (Value_error e) | Inr x \<Rightarrow> Inr x)"

text \<open>\<open>inspected_commands\<close> without the redirections, as all its callers ask for.\<close>

primrec inspected_commands :: "nat \<Rightarrow> shell_command \<Rightarrow> shell_failure + string list list" where
  "inspected_commands 0 command = Inl Recursion_limit"
| "inspected_commands (Suc limit) command =
     (case command of
        Argv parts \<Rightarrow> inspect_all (inspected_commands limit) [parts] []
      | Script s \<Rightarrow>
          bind_e (as_value_error (parse_quoted_heredocs s)) (\<lambda>parsed.
          bind_e (as_value_error (shell_commands True (ss_text parsed))) (\<lambda>commands.
          bind_e (inspect_all (inspected_commands limit) commands []) (\<lambda>result.
          bind_e (heredoc_bodies (inspected_commands limit) (ss_documents parsed)) (\<lambda>bodies.
            collect_more (inspected_commands limit) (map Script bodies) result)))))"

end
