(* ===== verification/ShellReasons.thy ===== *)
theory ShellReasons
  imports ShellCommands
begin

text \<open>
  The reasons of \<open>shell_policy.py\<close> to refuse a command or to ask for it that need no syntax tree: deletions that can
  be seen or that the text names, opaque commands, the literal paths that a deletion must have, and the policy for
  Windows.  The depth of nested scripts is bounded by 16; the functions recurse on what is left of it.
\<close>

section \<open>Scripts that are handed to shells\<close>

definition shell_dialect_of :: "string \<Rightarrow> shell_dialect" where
  "shell_dialect_of shell =
     (if shell = ''cmd'' then Dialect_CMD else if shell \<in> {''powershell'', ''pwsh''} then Dialect_POWERSHELL else Dialect_POSIX)"

fun scripts_after_shells :: "string list \<Rightarrow> (string \<times> shell_dialect) list" where
  "scripts_after_shells [] = []"
| "scripts_after_shells (p # ps) =
     (if executable_name p \<in> set SHELL_COMMANDS
      then (case flagged_script ps of None \<Rightarrow> [] | Some s \<Rightarrow> [(s, shell_dialect_of (executable_name p))])
      else []) @ scripts_after_shells ps"

definition may_hold_shell :: "string \<Rightarrow> bool" where
  "may_hold_shell name \<longleftrightarrow> name \<in> set SHELL_COMMANDS \<or> name \<in> set WRAPPERS \<or> name \<in> {''uv'', ''find'', ''busybox''}"

definition shell_scripts :: "string list \<Rightarrow> (string \<times> shell_dialect) list" where
  "shell_scripts parts = (if may_hold_shell (executable_name (hd parts)) then scripts_after_shells parts else [])"

section \<open>Deletion\<close>

definition is_deletion :: "string \<Rightarrow> bool" where
  "is_deletion part \<longleftrightarrow> executable_name part \<in> set DELETE_COMMANDS"

definition parts_delete :: "(shell_command \<Rightarrow> bool) \<Rightarrow> string list \<Rightarrow> bool" where
  "parts_delete inner parts =
     (let name = executable_name (hd parts)
      in if name \<in> set DELETE_COMMANDS then True
         else if name = ''command'' \<and> length parts > 1 \<and> parts ! 1 \<in> {''-v'', ''-V''} then False
         else if name \<in> {''uv'', ''busybox'', ''find'', ''xargs''}
             \<and> (''-delete'' \<in> set parts \<or> list_ex is_deletion (tl parts)) then True
         else list_ex (\<lambda>(s, d). inner (Script s)) (shell_scripts parts))"

primrec deletes_within :: "nat \<Rightarrow> nat \<Rightarrow> shell_command \<Rightarrow> bool" where
  "deletes_within limit 0 command = True"
| "deletes_within limit (Suc n) command =
     (case inspected_commands limit command of
        Inl e \<Rightarrow> True
      | Inr commands \<Rightarrow> list_ex (parts_delete (deletes_within limit n)) commands)"

definition contains_deletion :: "nat \<Rightarrow> shell_command \<Rightarrow> bool" where
  "contains_deletion limit command = deletes_within limit 17 command"

text \<open>
  \<open>mentions_command\<close>: the words of a rule in a row, in any case, between \<open>(?<![\w.-])\<close> and \<open>(?![\w-])\<close>.  The rest of
  the text after each way to match.
\<close>

definition literal_rest :: "string \<Rightarrow> string \<Rightarrow> string list" where
  "literal_rest p s = (if lower (take (length p) s) = lower p then [drop (length p) s] else [])"

fun space_rests :: "string \<Rightarrow> string list" where
  "space_rests [] = []"
| "space_rests (c # s) = (if is_space c then s # space_rests s else [])"

fun rule_rests :: "string list \<Rightarrow> string \<Rightarrow> string list" where
  "rule_rests [] s = [s]"
| "rule_rests [p] s = literal_rest p s"
| "rule_rests (p # q # ps) s = concat (map (rule_rests (q # ps)) (concat (map space_rests (literal_rest p s))))"

definition rule_at :: "string list \<Rightarrow> string \<Rightarrow> bool" where
  "rule_at rule s = list_ex (\<lambda>r. r = [] \<or> \<not> (is_word_char (hd r) \<or> hd r = CHR ''-'')) (rule_rests rule s)"

fun mentions_rule :: "string list \<Rightarrow> bool \<Rightarrow> string \<Rightarrow> bool" where
  "mentions_rule rule free [] = (free \<and> rule_at rule [])"
| "mentions_rule rule free (c # s) =
     (free \<and> rule_at rule (c # s) \<or> mentions_rule rule (\<not> (is_word_char c \<or> c = CHR ''.'' \<or> c = CHR ''-'')) s)"

definition command_text :: "shell_command \<Rightarrow> string" where
  "command_text command = (case command of Script s \<Rightarrow> s | Argv parts \<Rightarrow> join '' '' parts)"

definition mentions_command :: "shell_command \<Rightarrow> string list list \<Rightarrow> bool" where
  "mentions_command command rules = list_ex (\<lambda>rule. rule \<noteq> [] \<and> mentions_rule rule True (command_text command)) rules"

definition mentions_deletion :: "shell_command \<Rightarrow> bool" where
  "mentions_deletion command = mentions_command command (map (\<lambda>n. [n]) DELETE_COMMANDS @ [[''-delete'']])"

section \<open>Opaque commands\<close>

text \<open>The names that a variable makes up: \<open>$\<close>, or \<open>%[^%]+%|![^!]+!\<close> in \<open>cmd\<close>, unless it is an assignment
  \<open>^(?:\$(?:env:)?)?[A-Za-z_][A-Za-z_0-9]*=\<close>.\<close>

definition delimited_text :: "char \<Rightarrow> string \<Rightarrow> bool" where
  "delimited_text q s = (case s of
     [] \<Rightarrow> False
   | c # t \<Rightarrow> c = q \<and> (let name = takeWhile (\<lambda>c. c \<noteq> q) t in name \<noteq> [] \<and> length name < length t))"

definition variable_assignment :: "string \<Rightarrow> bool" where
  "variable_assignment s \<longleftrightarrow> assignment_word s
     \<or> starts_with ''$'' s \<and> assignment_word (drop 1 s)
     \<or> starts_with ''$env:'' s \<and> assignment_word (drop 5 s)"

definition dynamic_name :: "string \<Rightarrow> shell_dialect \<Rightarrow> bool" where
  "dynamic_name name d \<longleftrightarrow>
     (CHR ''$'' \<in> set name
      \<or> d = Dialect_CMD \<and> search_at (\<lambda>s. delimited_text (CHR ''%'') s \<or> delimited_text (CHR ''!'') s) name)
     \<and> \<not> variable_assignment name"

fun first_reason :: "('a \<Rightarrow> string option) \<Rightarrow> 'a list \<Rightarrow> string option" where
  "first_reason f [] = None"
| "first_reason f (x # xs) = (case f x of Some r \<Rightarrow> Some r | None \<Rightarrow> first_reason f xs)"

definition is_script :: "shell_command \<Rightarrow> bool" where
  "is_script command = (case command of Script s \<Rightarrow> True | Argv parts \<Rightarrow> False)"

definition script_bodies :: "nat \<Rightarrow> shell_command \<Rightarrow> shell_dialect \<Rightarrow> (string \<times> shell_dialect) list" where
  "script_bodies limit command d =
     (case command of
        Argv parts \<Rightarrow> []
      | Script s \<Rightarrow>
          if d \<noteq> Dialect_POSIX then []
          else case bind_e (as_value_error (parse_quoted_heredocs s)) (\<lambda>parsed.
                      heredoc_bodies (inspected_commands limit) (ss_documents parsed)) of
              Inl e \<Rightarrow> []
            | Inr bodies \<Rightarrow> map (\<lambda>b. (b, Dialect_POSIX)) bodies)"

primrec opaque_within :: "nat \<Rightarrow> nat \<Rightarrow> shell_dialect \<Rightarrow> shell_command \<Rightarrow> string option" where
  "opaque_within limit 0 d command = Some ''Nested shell commands exceed the inspection limit; approval is required''"
| "opaque_within limit (Suc n) d command =
     (case (case command of Script s \<Rightarrow> literal_script_reason s d False | Argv parts \<Rightarrow> None) of
        Some r \<Rightarrow> Some r
      | None \<Rightarrow>
          case inspected_commands limit command of
            Inl e \<Rightarrow> Some ''Shell syntax could not be inspected; approval is required''
          | Inr commands \<Rightarrow>
              if is_script command \<and> list_ex (\<lambda>parts. dynamic_name (hd parts) d) commands
              then Some ''Dynamic command names require approval''
              else first_reason (\<lambda>(s, d). opaque_within limit n d (Script s))
                     (concat (map shell_scripts commands) @ script_bodies limit command d))"

definition opaque_command_reason :: "nat \<Rightarrow> shell_command \<Rightarrow> shell_dialect \<Rightarrow> string option" where
  "opaque_command_reason limit command d = opaque_within limit 17 d command"

definition may_delete :: "nat \<Rightarrow> shell_command \<Rightarrow> shell_dialect \<Rightarrow> bool" where
  "may_delete limit command d =
     (case inspected_commands limit command of
        Inl e \<Rightarrow> mentions_deletion command
      | Inr commands \<Rightarrow> contains_deletion limit command
          \<or> opaque_command_reason limit command d \<noteq> None \<and> mentions_deletion command)"

section \<open>The paths of a deletion\<close>

definition deletion_targets :: "string list \<Rightarrow> string list" where
  "deletion_targets parts =
     (if ''--'' \<in> set parts then tl (dropWhile (\<lambda>p. p \<noteq> ''--'') parts)
      else filter (\<lambda>p. \<not> starts_with ''-'' p) (tl parts))"

definition has_wildcard :: "string \<Rightarrow> bool" where
  "has_wildcard part \<longleftrightarrow> CHR ''*'' \<in> set part \<or> CHR ''?'' \<in> set part"

text \<open>The reason of one command, without those of the scripts that it runs.\<close>

definition deletion_reason :: "nat \<Rightarrow> shell_dialect \<Rightarrow> bool \<Rightarrow> string list \<Rightarrow> string option" where
  "deletion_reason limit d script parts =
     (let name = executable_name (hd parts)
      in if script \<and> dynamic_name (hd parts) d
         then Some ''Command names must be literal so deletion operations can be inspected''
         else if name \<in> set WRAPPERS \<and> list_ex assignment_word (tl parts)
         then Some ''Environment variable assignments and overrides are forbidden''
         else if name \<in> {''find'', ''xargs''}
             \<and> (''-delete'' \<in> set parts \<or> list_ex is_deletion (tl parts)
                \<or> name = ''find'' \<and> list_ex (\<lambda>c. contains_deletion limit (Argv c))
                    (case find_execution_commands parts of None \<Rightarrow> [] | Some cs \<Rightarrow> cs))
         then Some ''Deletion requires explicit literal paths, not discovered or piped targets''
         else if name \<in> set DELETE_COMMANDS \<and> \<not> list_ex (\<lambda>t. t \<noteq> []) (deletion_targets parts)
         then Some ''Deletion requires an explicit relative or absolute path''
         else if name \<in> set DELETE_COMMANDS \<and> [] \<in> set (tl parts)
         then Some ''Deletion paths must not be empty''
         else if name \<in> {''env'', ''export'', ''set'', ''setenv'', ''unset''} \<or> assignment_word (hd parts)
         then Some ''Environment variable assignments and overrides are forbidden''
         else if d = Dialect_CMD \<and> name \<in> set DELETE_COMMANDS \<and> list_ex has_wildcard (tl parts)
         then Some ''Windows deletion requires literal paths; wildcard targets are forbidden''
         else if name \<in> {''remove-item'', ''ri''} \<and> list_ex has_wildcard (tl parts)
             \<and> ''-literalpath'' \<notin> set (map lower (tl parts))
         then Some ''PowerShell deletion of special filenames requires -LiteralPath''
         else None)"

primrec literal_within :: "nat \<Rightarrow> nat \<Rightarrow> shell_dialect \<Rightarrow> shell_command \<Rightarrow> string option" where
  "literal_within limit 0 d command = Some ''Nested shell commands exceed the inspection limit''"
| "literal_within limit (Suc n) d command =
     (if \<not> may_delete limit command d then None
      else case (case command of Script s \<Rightarrow> literal_script_reason s d True | Argv parts \<Rightarrow> None) of
          Some r \<Rightarrow> Some r
        | None \<Rightarrow>
            case inspected_commands limit command of
              Inl e \<Rightarrow> Some ''Shell syntax could not be inspected''
            | Inr commands \<Rightarrow> first_reason (\<lambda>parts.
                case deletion_reason limit d (is_script command) parts of
                  Some r \<Rightarrow> Some r
                | None \<Rightarrow> first_reason (\<lambda>(s, d). literal_within limit n d (Script s)) (shell_scripts parts)) commands)"

definition literal_command_reason :: "nat \<Rightarrow> shell_command \<Rightarrow> shell_dialect \<Rightarrow> string option" where
  "literal_command_reason limit command d = literal_within limit 17 d command"

section \<open>The policy without a syntax tree\<close>

definition exact_rule :: "shell_dialect \<Rightarrow> string \<Rightarrow> string list \<Rightarrow> bool" where
  "exact_rule d rule command = (case rule_parts rule d of Inl e \<Rightarrow> False | Inr ps \<Rightarrow> ps = command)"

definition FIND_WRITES :: "string list" where
  "FIND_WRITES = [''-delete'', ''-fprint'', ''-fprint0'', ''-fprintf'', ''-fls'', ''-ok'', ''-okdir'']"

text \<open>One command that is not a \<open>find\<close>; \<open>d\<close> is the dialect of the machine, which \<open>_exact_rule\<close> uses.\<close>

definition simple_reason :: "shell_dialect \<Rightarrow> string list \<Rightarrow> string list \<Rightarrow> string option" where
  "simple_reason d trusted parts =
     (let name = executable_name (hd parts)
      in if name \<in> set WRITE_COMMANDS then Some ''File changes, network access or system operations require approval''
         else if name \<in> set WRAPPERS \<or> name \<in> set SCRIPT_COMMANDS
         then (if length parts = 2 \<and> parts ! 1 \<in> {''--version'', ''-V''} then None
               else Some ''Interpreters and command wrappers require approval'')
         else if name \<in> set READ_COMMANDS \<and> hd parts = name
         then (if name = ''sort'' \<and> list_ex (\<lambda>p. starts_with ''--output'' p
                     \<or> starts_with ''-'' p \<and> \<not> starts_with ''--'' p \<and> CHR ''o'' \<in> set p) (tl parts)
               then Some ''Writing sorted output to a file requires approval''
               else if name = ''rg'' \<and> list_ex (\<lambda>p. starts_with ''--pre'' p \<or> starts_with ''--hostname-bin'' p) (tl parts)
               then Some ''External search preprocessors require approval''
               else None)
         else if hd parts \<in> set trusted
         then (if name = ''uv'' \<and> tl parts \<notin> {[''--version''], [''version'']}
               then Some ''Package management and program execution require approval'' else None)
         else if list_ex (\<lambda>rule. exact_rule d rule parts) trusted then None
         else Some ''Commands outside the trusted list require approval'')"

lemma first_reason_cong [fundef_cong]:
  "xs = ys \<Longrightarrow> (\<And>x. x \<in> set ys \<Longrightarrow> f x = g x) \<Longrightarrow> first_reason f xs = first_reason g ys"
  by (induction ys arbitrary: xs) (auto split: option.split)

lemma find_action_end_size: "find_action_end acc ps = Some (a, r) \<Longrightarrow> length a + length r < length acc + length ps"
  by (induction acc ps rule: find_action_end.induct) (fastforce split: if_splits)+

lemma find_actions_size: "find_actions ps = Some cs \<Longrightarrow> c \<in> set cs \<Longrightarrow> length c < length ps"
proof (induction ps arbitrary: cs rule: find_actions.induct)
  case (2 p ps)
  show ?case
  proof (cases "p \<in> set FIND_EXEC_ACTIONS")
    case False
    with 2 show ?thesis by fastforce
  next
    case True
    with "2.prems" obtain a r cs' where a: "find_action_end [] ps = Some (a, r)" "a \<noteq> []" "find_actions r = Some cs'"
        "cs = a # cs'"
      by (auto split: option.splits prod.splits if_splits)
    from find_action_end_size [OF a(1)] "2.IH"(2) [OF _ a(1) refl a(2,3)] True "2.prems"(2) a(4) show ?thesis by auto
  qed
qed simp

text \<open>
  \<open>_legacy_approval_reason\<close> as the policy calls it (not relaxed): first the commands of a script or an argument
  vector, where those that a \<open>find\<close> runs are in turn judged as argument vectors.
\<close>

function parts_reason :: "nat \<Rightarrow> shell_dialect \<Rightarrow> string list \<Rightarrow> string list \<Rightarrow> string option" where
  "parts_reason limit d trusted parts =
     (if parts = [] then None
      else if is_deletion (hd parts) then Some ''Deleting files requires approval''
      else if executable_name (hd parts) = ''find'' then
        (if list_ex (\<lambda>p. p \<in> set FIND_WRITES) (tl parts) then Some ''Writing or interactive find actions require approval''
         else case find_execution_commands parts of
             None \<Rightarrow> Some ''find execution actions could not be inspected; approval is required''
           | Some nested \<Rightarrow> first_reason (\<lambda>c. case opaque_command_reason limit (Argv c) d of
                 Some r \<Rightarrow> Some r
               | None \<Rightarrow> parts_reason limit d trusted c) nested)
      else simple_reason d trusted parts)"
  by pat_completeness auto
termination
  by (relation "measure (\<lambda>(limit, d, trusted, parts). length parts)")
    (auto simp: find_execution_commands_def dest!: find_actions_size)

declare parts_reason.simps [simp del]

definition approval_reason :: "nat \<Rightarrow> shell_dialect \<Rightarrow> string list \<Rightarrow> shell_command \<Rightarrow> string option" where
  "approval_reason limit d trusted command =
     (case opaque_command_reason limit command d of
        Some r \<Rightarrow> Some r
      | None \<Rightarrow>
        (case command of
           Argv parts \<Rightarrow> parts_reason limit d trusted parts
         | Script s \<Rightarrow>
             (case bind_e (parse_quoted_heredocs s) (\<lambda>parsed. shell_tokens (ss_text parsed)) of
                Inl e \<Rightarrow> Some ''Shell syntax could not be inspected; approval is required''
              | Inr tokens \<Rightarrow>
                  if (''&'', True) \<in> set tokens then Some ''Background commands require approval''
                  else if list_ex (\<lambda>c. c \<in> {CHR ''<'', CHR ''>'', newline}) s
                  then Some ''Shell redirection or multiline scripts require approval''
                  else case shell_commands False s of
                      Inl e \<Rightarrow> Some ''Shell syntax could not be inspected; approval is required''
                    | Inr commands \<Rightarrow> first_reason (parts_reason limit d trusted) commands)))"

end
