(* ===== verification/ShellSyntax.thy ===== *)
theory ShellSyntax
  imports ShellCommands
begin

text \<open>
  The syntax tree of \<open>infra/adapters/tool/shell_syntax.py\<close>: what \<open>visit\<close> makes of the tree that the Bash grammar of
  tree-sitter returns.  A node of tree-sitter has a type, its text, the field of its parent that it fills, whether it
  is named, and its children.  The parser is a parameter of the policy; the destination of a redirection is not empty.
\<close>

datatype ts_node = Ts_node (ts_type: string) (ts_text: string) (ts_field: "string option") (ts_named: bool)
  (ts_children: "ts_node list")

record shell_word =
  wd_literal :: "string option"
  wd_raw :: string
  wd_glob :: bool

datatype shell_tree = Syntax (sy_kind: string) (sy_operators: "string list") (sy_sources: "string list")
  (sy_body: "string option") (sy_children: "shell_tree list") (sy_argv: "shell_word list") (sy_assignments: "string list")
  (sy_redirects: "(string \<times> shell_word) list") (sy_stdin: bool) (sy_opaque: "string list")

definition is_command :: "shell_tree \<Rightarrow> bool" where
  "is_command t \<longleftrightarrow> sy_argv t \<noteq> [] \<or> sy_assignments t \<noteq> []"

fun commands_of :: "shell_tree \<Rightarrow> shell_tree list" where
  "commands_of (Syntax k ops src b cs argv asg rd i opq) =
     (if argv \<noteq> [] \<or> asg \<noteq> [] then [Syntax k ops src b cs argv asg rd i opq] else []) @ concat (map commands_of cs)"

fun bodies_of :: "shell_tree \<Rightarrow> string list" where
  "bodies_of (Syntax k ops src b cs argv asg rd i opq) =
     (case b of None \<Rightarrow> [] | Some t \<Rightarrow> [t]) @ concat (map bodies_of cs)"

definition shell_bodies :: "shell_tree \<Rightarrow> string list" where
  "shell_bodies t =
     (if list_ex (\<lambda>c. sy_stdin c \<and> sy_argv c \<noteq> [] \<and> wd_literal (hd (sy_argv c)) \<in> {Some ''sh'', Some ''bash'',
           Some ''dash'', Some ''zsh'', Some ''/bin/sh'', Some ''/bin/bash''}) (commands_of t)
      then bodies_of t else [])"

fun reasons_of :: "shell_tree \<Rightarrow> string list" where
  "reasons_of (Syntax k ops src b cs argv asg rd i opq) = opq @ concat (map reasons_of cs)"

section \<open>Words\<close>

fun descendants :: "ts_node \<Rightarrow> ts_node list" where
  "descendants (Ts_node t x f n cs) =
     Ts_node t x f n cs # concat (map descendants (filter (\<lambda>c. ts_named c \<and> ts_type c \<noteq> ''heredoc_body'') cs))"

fun has_pattern :: "char option \<Rightarrow> bool \<Rightarrow> string \<Rightarrow> bool" where
  "has_pattern q escaped [] = False"
| "has_pattern q escaped (c # s) =
     (if escaped then has_pattern q False s
      else if c = back_slash \<and> q \<noteq> Some quote1 then has_pattern q True s
      else if c \<in> {quote1, quote2}
        then has_pattern (if q = Some c then None else if q = None then Some c else q) False s
      else if q = None \<and> c \<in> set ''*?[]{}~'' then True
      else has_pattern q False s)"

definition KNOWN_PARTS :: "string list" where
  "KNOWN_PARTS = [''word'', ''string'', ''raw_string'', ''concatenation'', ''number'', ''simple_expansion'', ''expansion'',
     ''variable_name'', ''special_variable_name'', ''string_content'', ''variable_assignment'']"

definition DYNAMIC_PARTS :: "string list" where
  "DYNAMIC_PARTS = [''expansion'', ''simple_expansion'', ''command_substitution'', ''process_substitution'',
     ''arithmetic_expansion'', ''brace_expression'']"

definition is_dynamic :: "ts_node \<Rightarrow> bool" where
  "is_dynamic node \<longleftrightarrow> list_ex (\<lambda>n. ts_type n \<notin> set KNOWN_PARTS) (descendants node)
     \<or> list_ex (\<lambda>n. ts_type n \<in> set DYNAMIC_PARTS) (descendants node)"

definition word_of :: "ts_node \<Rightarrow> shell_word" where
  "word_of node =
     \<lparr>wd_literal = (case shlex_split (ts_text node) of Inr [v] \<Rightarrow> if is_dynamic node then None else Some v | _ \<Rightarrow> None),
      wd_raw = ts_text node, wd_glob = has_pattern None False (ts_text node)\<rparr>"

section \<open>The visit\<close>

definition field_child :: "string \<Rightarrow> ts_node \<Rightarrow> ts_node option" where
  "field_child name node = find (\<lambda>c. ts_field c = Some name) (ts_children node)"

definition assigned_name :: "ts_node \<Rightarrow> string list" where
  "assigned_name node = (case field_child ''name'' node of None \<Rightarrow> [] | Some key \<Rightarrow> [ts_text key])"

definition trim :: "string \<Rightarrow> string" where
  "trim s = rev (dropWhile is_space (rev (dropWhile is_space s)))"

text \<open>\<open>s.split(t, 1)[0]\<close>\<close>

fun before_text :: "string \<Rightarrow> string \<Rightarrow> string" where
  "before_text t [] = []"
| "before_text t (c # s) = (if starts_with t (c # s) then [] else c # before_text t s)"

record visit_parts =
  vp_children :: "shell_tree list"
  vp_stdin :: bool
  vp_sources :: "string list"
  vp_redirects :: "(string \<times> shell_word) list"
  vp_opaque :: "string list"

definition visit_file_redirect :: "ts_node \<Rightarrow> visit_parts \<Rightarrow> visit_parts" where
  "visit_file_redirect child p =
     (case field_child ''destination'' child of
        None \<Rightarrow> p\<lparr>vp_opaque := vp_opaque p @ [''Unsupported redirection'']\<rparr>
      | Some target \<Rightarrow>
          let operator = trim (before_text (ts_text target) (ts_text child))
          in if operator \<notin> {''<'', ''>'', ''>>'', ''1>'', ''1>>'', ''2>'', ''2>>''}
             then p\<lparr>vp_opaque := vp_opaque p @ [''Unsupported redirection'']\<rparr>
             else let p = p\<lparr>vp_redirects := vp_redirects p @ [(operator, word_of target)]\<rparr>
             in if operator = ''<'' then p\<lparr>vp_stdin := True, vp_sources := vp_sources p @ [''redirect'']\<rparr> else p)"

definition visit_heredoc :: "ts_node \<Rightarrow> visit_parts \<Rightarrow> visit_parts" where
  "visit_heredoc child p =
     (let named = filter ts_named (ts_children child);
          quoted = (case find (\<lambda>n. ts_type n = ''heredoc_start'') named of
              None \<Rightarrow> False
            | Some start \<Rightarrow> ts_text start \<noteq> [] \<and> hd (ts_text start) \<in> {quote1, quote2})
      in p\<lparr>vp_stdin := True, vp_sources := vp_sources p @ [''heredoc''],
           vp_opaque := vp_opaque p @ (if quoted then [] else [''Unquoted heredoc'']),
           vp_children := vp_children p @ (case find (\<lambda>n. ts_type n = ''heredoc_body'') named of
               None \<Rightarrow> []
             | Some body \<Rightarrow> [Syntax ''heredoc'' [] [] (Some (ts_text body)) [] [] [] [] False []])\<rparr>)"

definition visit_herestring :: "visit_parts \<Rightarrow> visit_parts" where
  "visit_herestring p = p\<lparr>vp_opaque := vp_opaque p @ [''Here-string''], vp_stdin := True\<rparr>"

text \<open>The commands below a node whose input is not the terminal.\<close>

fun mark_stdin :: "string list \<Rightarrow> shell_tree \<Rightarrow> shell_tree" where
  "mark_stdin more_sources (Syntax k ops src b cs argv asg rd i opq) =
     (if argv \<noteq> [] \<or> asg \<noteq> []
      then Syntax k ops (src @ more_sources) b (map (mark_stdin more_sources) cs) argv asg rd True opq
      else Syntax k ops src b (map (mark_stdin more_sources) cs) argv asg rd i opq)"

definition COMPOUND :: "string list" where
  "COMPOUND = [''program'', ''list'', ''subshell'', ''pipeline'', ''redirected_statement'']"

definition operators_of :: "ts_node list \<Rightarrow> string list" where
  "operators_of cs = filter (\<lambda>t. t \<in> {''&&'', ''||'', ''|'', ''|&'', '';'', ''&''}) (map ts_type cs)"

definition command_words :: "ts_node list \<Rightarrow> shell_word list" where
  "command_words named = concat (map (\<lambda>c.
     if ts_type c = ''command_name''
     then (case filter ts_named (ts_children c) of [] \<Rightarrow> [word_of c] | n # _ \<Rightarrow> [word_of n])
     else if ts_type c \<in> {''word'', ''string'', ''raw_string'', ''concatenation'', ''number'', ''simple_expansion'', ''expansion''}
     then [word_of c] else []) named)"

definition command_opaque :: "ts_node list \<Rightarrow> string list" where
  "command_opaque named = concat (map (\<lambda>c.
     if ts_type c \<in> {''variable_assignment'', ''command_name'', ''word'', ''string'', ''raw_string'', ''concatenation'',
          ''number'', ''simple_expansion'', ''expansion''}
     then [] else [''Unsupported command node: '' @ ts_type c]) named)"

definition assigned_names :: "ts_node list \<Rightarrow> string list" where
  "assigned_names named = concat (map (\<lambda>c. if ts_type c = ''variable_assignment'' then assigned_name c else []) named)"

definition first_field :: "string \<Rightarrow> string" where
  "first_field s = takeWhile (\<lambda>c. \<not> is_space c) (dropWhile is_space s)"

definition substitution_opaque :: "ts_node \<Rightarrow> string list" where
  "substitution_opaque node =
     (if list_ex (\<lambda>n. ts_type n \<in> {''command_substitution'', ''process_substitution'', ''arithmetic_expansion''}) (descendants node)
      then [''Substitution or arithmetic requires approval''] else [])"

function visit :: "ts_node \<Rightarrow> bool \<Rightarrow> shell_tree"
  and visit_children :: "bool \<Rightarrow> bool \<Rightarrow> ts_node list \<Rightarrow> visit_parts \<Rightarrow> visit_parts" where
  "visit (Ts_node t x f n cs) stdin =
     (let node = Ts_node t x f n cs; named = filter ts_named cs; ops = operators_of cs;
          sources = (if stdin then [''pipe''] else [])
      in if t \<in> set COMPOUND then
           let p = visit_children stdin (t = ''pipeline'') cs \<lparr>vp_children = [], vp_stdin = stdin, vp_sources = sources,
                     vp_redirects = [], vp_opaque = []\<rparr>
           in Syntax t ops (vp_sources p) None
                (if vp_stdin p then map (mark_stdin (vp_sources p)) (vp_children p) else vp_children p) [] []
                (vp_redirects p) (vp_stdin p)
                (vp_opaque p @ (if ''&'' \<in> set ops then [''Background shell syntax''] else []) @ substitution_opaque node)
         else if t = ''command'' then
           Syntax t ops sources None [] (command_words named) (assigned_names named) [] stdin
             (command_opaque named @ substitution_opaque node)
         else if t = ''variable_assignment'' then
           Syntax t ops sources None [] [] (assigned_name node) [] stdin
             ((if list_ex (\<lambda>d. ts_type d \<in> {''array'', ''subscript'', ''arithmetic_expansion''}) (descendants node)
               then [''Unsupported assignment syntax''] else []) @ substitution_opaque node)
         else if t \<in> {''declaration_command'', ''unset_command''} then
           Syntax t ops sources None [] (\<lparr>wd_literal = Some (first_field x), wd_raw = first_field x, wd_glob = False\<rparr>
               # map word_of named) (assigned_names named) [] stdin (substitution_opaque node)
         else if t = ''comment'' then Syntax t ops sources None [] [] [] [] stdin (substitution_opaque node)
         else Syntax t ops sources None (map (\<lambda>c. visit c stdin) named) [] [] [] stdin
                ((''Unsupported syntax: '' @ t) # substitution_opaque node))"
| "visit_children stdin piped [] p = p"
| "visit_children stdin piped (c # cs) p =
     (if \<not> ts_named c then visit_children stdin piped cs p
      else if ts_type c = ''file_redirect'' then visit_children (stdin \<or> piped) piped cs (visit_file_redirect c p)
      else if ts_type c = ''heredoc_redirect'' then visit_children (stdin \<or> piped) piped cs (visit_heredoc c p)
      else if ts_type c = ''herestring_redirect'' then visit_children (stdin \<or> piped) piped cs (visit_herestring p)
      else visit_children (stdin \<or> piped) piped cs (p\<lparr>vp_children := vp_children p @ [visit c stdin]\<rparr>))"
  by pat_completeness auto
termination
  by (relation "measure (case_sum (\<lambda>(n, _). size n) (\<lambda>(_, _, cs, _). size_list size cs))")
    (auto simp: less_Suc_eq_le intro: size_list_estimation' order_trans [OF size_list_estimation'])

fun ts_depth :: "ts_node \<Rightarrow> nat" where
  "ts_depth (Ts_node t x f n cs) = Suc (fold max (map ts_depth cs) 0)"

text \<open>\<open>parse_script\<close>: a tree deeper than \<open>tree_limit\<close> ends the recursion of the interpreter.\<close>

definition argument_vector :: "string list \<Rightarrow> shell_tree" where
  "argument_vector parts =
     Syntax ''command'' [] [] None [] (map (\<lambda>p. \<lparr>wd_literal = Some p, wd_raw = p, wd_glob = False\<rparr>) parts) [] [] False []"

definition add_opaque :: "string list \<Rightarrow> shell_tree \<Rightarrow> shell_tree" where
  "add_opaque more_opaque t = Syntax (sy_kind t) (sy_operators t) (sy_sources t) (sy_body t) (sy_children t) (sy_argv t)
     (sy_assignments t) (sy_redirects t) (sy_stdin t) (sy_opaque t @ more_opaque)"

definition parse_script :: "(string \<Rightarrow> ts_node \<times> bool) \<Rightarrow> nat \<Rightarrow> shell_command \<Rightarrow> shell_tree" where
  "parse_script parser tree_limit command =
     (case command of
        Argv parts \<Rightarrow> argument_vector parts
      | Script s \<Rightarrow> (case parser s of
          (tree, has_error) \<Rightarrow>
            if ts_depth tree > tree_limit
            then Syntax ''program'' [] [] None [] [] [] [] False [''Shell syntax exceeds the inspection limit'']
            else add_opaque (if has_error then [''Shell parse error''] else []) (visit tree False)))"

end
