(* ===== verification/ShellSpecs.thy ===== *)
theory ShellSpecs
  imports ShellText
begin

text \<open>The declared argument grammars of \<open>infra/adapters/tool/shell_specs.py\<close>.\<close>

datatype shell_effect =
    Effect_READ | Effect_WORKSPACE_WRITE | Effect_NETWORK | Effect_PROJECT_CODE | Effect_PUBLISH | Effect_DELETE
  | Effect_SYSTEM | Effect_UNKNOWN

fun effect_value :: "shell_effect \<Rightarrow> string" where
  "effect_value Effect_READ = ''READ''"
| "effect_value Effect_WORKSPACE_WRITE = ''WORKSPACE_WRITE''"
| "effect_value Effect_NETWORK = ''NETWORK''"
| "effect_value Effect_PROJECT_CODE = ''PROJECT_CODE''"
| "effect_value Effect_PUBLISH = ''PUBLISH''"
| "effect_value Effect_DELETE = ''DELETE''"
| "effect_value Effect_SYSTEM = ''SYSTEM''"
| "effect_value Effect_UNKNOWN = ''UNKNOWN''"

record command_spec =
  sp_flags :: "string list"
  sp_valued :: "string list"
  sp_max_args :: "nat option"
  sp_effect :: shell_effect
  sp_writes :: "int list"
  sp_stdin_is_code :: bool

definition spec :: "string list \<Rightarrow> string list \<Rightarrow> nat option \<Rightarrow> shell_effect
        \<Rightarrow> int list \<Rightarrow> command_spec" where
  "spec flags valued max_args effect writes =
     \<lparr>sp_flags = flags, sp_valued = valued, sp_max_args = max_args, sp_effect = effect, sp_writes = writes,
      sp_stdin_is_code = False\<rparr>"

definition SPECS :: "(string, command_spec) dict" where
  "SPECS =
    [(''pwd'', spec [''-L'', ''-P'']
       [] (Some 0) Effect_READ []),
     (''whoami'', spec [''--help'', ''--version'']
       [] (Some 0) Effect_READ []),
     (''true'', spec []
       [] (Some 0) Effect_READ []),
     (''false'', spec []
       [] (Some 0) Effect_READ []),
     (''cd'', spec [''-L'', ''-P'']
       [] (Some 1) Effect_READ []),
     (''echo'', spec [''-n'', ''-e'', ''-E'']
       [] None Effect_READ []),
     (''printf'', spec []
       [] None Effect_READ []),
     (''ls'', spec [''-a'', ''-A'', ''-l'', ''-h'', ''-d'', ''-R'', ''-r'', ''-t'', ''-S'', ''-1'', ''-F'', ''-p'',
        ''-i'', ''-s'', ''-n'', ''--all'', ''--almost-all'', ''--human-readable'', ''--directory'',
        ''--recursive'', ''--color'']
       [''--sort'', ''--time'', ''--color''] None Effect_READ []),
     (''cat'', spec [''-n'', ''-b'', ''-s'', ''-v'', ''-e'', ''-t'', ''-A'', ''-E'', ''-T'', ''--number'',
        ''--show-all'']
       [] None Effect_READ []),
     (''head'', spec [''-q'', ''-v'']
       [''-n'', ''-c'', ''--lines'', ''--bytes''] None Effect_READ []),
     (''tail'', spec [''-q'', ''-v'', ''-f'', ''-F'']
       [''-n'', ''-c'', ''--lines'', ''--bytes'', ''--pid''] None Effect_READ []),
     (''wc'', spec [''-c'', ''-m'', ''-l'', ''-w'', ''-L'', ''--bytes'', ''--chars'', ''--lines'', ''--words'',
        ''--max-line-length'']
       [] None Effect_READ []),
     (''cut'', spec [''-s'', ''--complement'', ''--only-delimited'']
       [''-b'', ''-c'', ''-f'', ''-d'', ''--bytes'', ''--characters'', ''--fields'', ''--delimiter'',
        ''--output-delimiter''] None Effect_READ []),
     (''grep'', spec [''-i'', ''-v'', ''-n'', ''-r'', ''-R'', ''-l'', ''-L'', ''-c'', ''-w'', ''-x'', ''-F'',
        ''-E'', ''-G'', ''-P'', ''-o'', ''-h'', ''-H'', ''-s'', ''-q'', ''-a'', ''-I'', ''--ignore-case'',
        ''--invert-match'', ''--line-number'', ''--files-with-matches'', ''--count'', ''--fixed-strings'']
       [''-e'', ''-f'', ''-m'', ''-A'', ''-B'', ''-C'', ''--regexp'', ''--file'', ''--max-count'', ''--include'',
        ''--exclude'', ''--exclude-dir''] None Effect_READ []),
     (''rg'', spec [''-i'', ''-n'', ''-l'', ''-L'', ''-c'', ''-w'', ''-x'', ''-F'', ''-o'', ''-v'', ''-s'', ''-S'',
        ''-a'', ''-u'', ''--files'', ''--hidden'', ''--no-ignore'', ''--count'', ''--fixed-strings'',
        ''--line-number'', ''--no-heading'', ''--heading'', ''--stats'']
       [''-e'', ''-f'', ''-g'', ''-t'', ''-T'', ''-m'', ''-A'', ''-B'', ''-C'', ''--glob'', ''--type'',
        ''--type-not'', ''--max-count'', ''--max-depth'', ''--encoding'', ''--color''] None Effect_READ []),
     (''sort'', spec [''-r'', ''-n'', ''-g'', ''-h'', ''-V'', ''-M'', ''-f'', ''-b'', ''-d'', ''-i'', ''-s'',
        ''-u'', ''-c'', ''-C'', ''-z'', ''--reverse'', ''--numeric-sort'', ''--unique'', ''--stable'', ''--check'']
       [''-k'', ''-t'', ''-S'', ''--key'', ''--field-separator'', ''--buffer-size''] None Effect_READ []),
     (''uniq'', spec [''-c'', ''-d'', ''-D'', ''-u'', ''-i'', ''-z'', ''--count'', ''--repeated'', ''--unique'']
       [''-f'', ''-s'', ''-w'', ''--skip-fields'', ''--skip-chars'', ''--check-chars''] (Some 2) Effect_READ [1]),
     (''which'', spec [''-a'']
       [] None Effect_READ []),
     (''touch'', spec [''-c'', ''-a'', ''-m'', ''--no-create'']
       [''-t'', ''-d'', ''-r'', ''--date'', ''--reference''] None Effect_WORKSPACE_WRITE [-2]),
     (''mkdir'', spec [''-p'', ''-v'', ''--parents'', ''--verbose'']
       [''-m'', ''--mode''] None Effect_WORKSPACE_WRITE [-2]),
     (''tee'', spec [''-a'', ''-i'', ''--append'', ''--ignore-interrupts'']
       [] None Effect_WORKSPACE_WRITE [-2]),
     (''cp'', spec [''-p'', ''-f'', ''-n'', ''-v'', ''--preserve'']
       [] None Effect_WORKSPACE_WRITE [-1]),
     (''mv'', spec [''-f'', ''-n'', ''-v'']
       [] None Effect_WORKSPACE_WRITE [-2]),
     (''git status'', spec [''--short'', ''--branch'', ''--porcelain'', ''-s'', ''-b'', ''--untracked-files'']
       [''--untracked-files''] (Some 0) Effect_PROJECT_CODE []),
     (''git diff'', spec [''--stat'', ''--name-only'', ''--name-status'', ''--cached'', ''--staged'',
        ''--no-ext-diff'', ''--no-textconv'']
       [] None Effect_PROJECT_CODE []),
     (''git log'', spec [''--oneline'', ''--stat'', ''--all'', ''--decorate'']
       [''-n'', ''--max-count''] None Effect_PROJECT_CODE []),
     (''git ls-files'', spec [''--cached'', ''--others'', ''--exclude-standard'', ''-z'']
       [] None Effect_READ []),
     (''git rev-parse'', spec [''--show-toplevel'', ''--is-inside-work-tree'', ''--show-prefix'', ''--verify'']
       [] None Effect_READ []),
     (''git fetch'', spec [''--all'', ''--prune'', ''--tags'']
       [] None Effect_NETWORK []),
     (''git push'', spec []
       [] None Effect_PUBLISH []),
     (''uv --version'', spec []
       [] (Some 0) Effect_READ []),
     (''uv version'', spec []
       [] (Some 0) Effect_READ []),
     (''uv sync'', spec [''--frozen'', ''--locked'', ''--no-dev'', ''--all-extras'']
       [] None Effect_PROJECT_CODE []),
     (''uv publish'', spec []
       [] None Effect_PUBLISH []),
     (''npm publish'', spec []
       [] None Effect_PUBLISH []),
     (''npm test'', spec []
       [] None Effect_PROJECT_CODE []),
     (''npm run'', spec []
       [] (Some 1) Effect_PROJECT_CODE []),
     (''pnpm run'', spec []
       [] (Some 1) Effect_PROJECT_CODE []),
     (''pytest'', spec [''-q'', ''-v'', ''-s'', ''-x'', ''--collect-only'', ''--disable-warnings'']
       [''-k'', ''-m'', ''--maxfail''] None Effect_PROJECT_CODE []),
     (''curl'', spec [''-I'', ''-s'', ''-S'', ''-L'', ''-f'', ''--head'', ''--silent'', ''--show-error'',
        ''--location'', ''--fail'']
       [''--max-time'', ''--connect-timeout''] None Effect_NETWORK [])]"

definition STDIN_CODE :: "string list" where
  "STDIN_CODE = [''sh'', ''bash'', ''dash'', ''zsh'', ''fish'', ''python'', ''python3'', ''node'', ''perl'', ''ruby'',
     ''xargs'', ''env'', ''uv'']"

definition SYSTEM_COMMANDS :: "string list" where
  "SYSTEM_COMMANDS = [''sudo'', ''su'', ''doas'', ''kill'', ''pkill'', ''killall'', ''systemctl'', ''service'', ''chmod'',
     ''chown'', ''chgrp'', ''apt'', ''apt-get'', ''dnf'', ''yum'', ''pacman'', ''mount'', ''umount'',
     ''reboot'', ''shutdown'']"

definition stdin_spec :: "string \<Rightarrow> command_spec option" where
  "stdin_spec name =
     (if name \<in> set STDIN_CODE
      then Some \<lparr>sp_flags = [], sp_valued = [], sp_max_args = None, sp_effect = Effect_UNKNOWN, sp_writes = [],
                sp_stdin_is_code = True\<rparr>
      else None)"

section \<open>Arguments\<close>

text \<open>Combined short options: whether the last letter takes the next argument, or \<open>None\<close> for an unknown letter.\<close>

fun short_options :: "command_spec \<Rightarrow> string \<Rightarrow> bool option" where
  "short_options sp [] = Some False"
| "short_options sp (letter # ls) =
     (if [CHR ''-'', letter] \<in> set (sp_valued sp) then Some (ls = [])
      else if [CHR ''-'', letter] \<notin> set (sp_flags sp) then None
      else short_options sp ls)"

text \<open>What an option needs: \<open>Some True\<close> when it takes the next argument, \<open>None\<close> when it is not declared.\<close>

definition option_takes :: "command_spec \<Rightarrow> string \<Rightarrow> bool option" where
  "option_takes sp arg =
     (let flag = takeWhile (\<lambda>c. c \<noteq> CHR ''='') arg; equals = (CHR ''='' \<in> set arg)
      in if flag \<in> set (sp_valued sp) then Some (\<not> equals)
         else if \<not> equals \<and> flag \<in> set (sp_flags sp) then Some False
         else if \<not> starts_with ''--'' arg then short_options sp (drop 1 arg)
         else None)"

fun positions_of :: "command_spec \<Rightarrow> bool \<Rightarrow> string list \<Rightarrow> string list option" where
  "positions_of sp options [] = Some []"
| "positions_of sp options (arg # args) =
     (if arg = ''--'' \<and> options then positions_of sp False args
      else if options \<and> starts_with ''-'' arg \<and> arg \<noteq> ''-'' then
        (case option_takes sp arg of
           None \<Rightarrow> None
         | Some False \<Rightarrow> positions_of sp options args
         | Some True \<Rightarrow> (case args of [] \<Rightarrow> None | v # rest \<Rightarrow> positions_of sp options rest))
      else map_option (Cons arg) (positions_of sp options args))"

definition arguments :: "command_spec \<Rightarrow> string list \<Rightarrow> string list option" where
  "arguments sp args =
     (case positions_of sp True args of
        None \<Rightarrow> None
      | Some ps \<Rightarrow>
          (case sp_max_args sp of Some m \<Rightarrow> if length ps > m then None else Some ps | None \<Rightarrow> Some ps))"

end
