(* ===== verification/ShellPolicy.thy ===== *)
theory ShellPolicy
  imports Paths ShellReasons ShellSyntax ShellSpecs
begin

text \<open>
  \<open>ShellCommandPolicy.evaluate\<close> of \<open>infra/adapters/tool/shell_policy.py\<close>: whether a command of the shell tool may run,
  needs an approval, or is refused.  The machine is a record of parameters: the parser, the resolution of paths, the
  look-up of programs, and the limits of the interpreter.

  The state that the nested functions of \<open>evaluate\<close> share is a record that is passed on.  A nested command is judged
  by the same function one level deeper; the levels end at 16.
\<close>

record shell_machine =
  sm_parser :: "string \<Rightarrow> ts_node \<times> bool"
  sm_tree_limit :: nat
  sm_limit :: nat
  sm_dialect :: shell_dialect
  sm_resolve :: "posix_path \<Rightarrow> posix_path"
  sm_is_dir :: "posix_path \<Rightarrow> bool"
  sm_is_file :: "posix_path \<Rightarrow> bool"
  sm_is_program :: "posix_path \<Rightarrow> bool"
  sm_which :: "string \<Rightarrow> string option"
  sm_search_path :: "string list"

datatype approval_level = Level_READ_ONLY | Level_WORKSPACE_WRITE | Level_TRUSTED_DEV

record shell_policy =
  pl_level :: approval_level
  pl_trusted :: "string list"
  pl_blocked :: "string list"
  pl_root :: posix_path
  pl_allowed_env_keys :: "string list option"

record shell_session_state =
  st_session_key :: string
  st_owner_id :: "string option"
  st_root :: string
  st_cwd :: string
  st_env :: "(string, string) dict"
  st_base_path :: "string list option"
  st_updated_at :: "int option"

datatype decision_kind = Shell_allow | Shell_ask | Shell_reject

record shell_decision =
  dc_kind :: decision_kind
  dc_reason :: "string option"
  dc_stdin_is_code :: bool
  dc_effects :: "shell_effect set"

definition decided :: "decision_kind \<Rightarrow> string \<Rightarrow> shell_decision" where
  "decided kind reason = \<lparr>dc_kind = kind, dc_reason = Some reason, dc_stdin_is_code = True, dc_effects = {}\<rparr>"

section \<open>Environment\<close>

definition dangerous_env_key :: "string \<Rightarrow> bool" where
  "dangerous_env_key k =
     (let key = upper k
      in key \<in> set [''PATH'', ''BASH_ENV'', ''ENV'', ''IFS'', ''NODE_OPTIONS'', ''CDPATH'', ''SHELLOPTS'', ''BASHOPTS'',
             ''GLOBIGNORE'', ''PROMPT_COMMAND'', ''PS4'', ''RUBYOPT'', ''PERL5OPT'', ''ZDOTDIR'', ''HOME'',
             ''XDG_CONFIG_HOME'', ''SHELL'', ''PAGER'', ''EDITOR'', ''VISUAL'', ''LESSOPEN'', ''LESSCLOSE'', ''PERL5LIB'',
             ''RUBYLIB'', ''BASH_LOADABLES_PATH'']
         \<or> list_ex (\<lambda>p. starts_with p key) [''LD_'', ''DYLD_'', ''PYTHON'', ''GIT_'', ''BASH_FUNC_'', ''NPM_CONFIG_'',
             ''CARGO_'', ''RUSTC_'']
         \<or> ends_with ''_CONFIG_PATH'' key)"

definition before_equals :: "string \<Rightarrow> string" where
  "before_equals s = takeWhile (\<lambda>c. c \<noteq> CHR ''='') s"

definition after_equals :: "string \<Rightarrow> string" where
  "after_equals s = drop 1 (dropWhile (\<lambda>c. c \<noteq> CHR ''='') s)"

text \<open>The keys in the arguments of \<open>env\<close>.\<close>

fun env_arguments :: "string list \<Rightarrow> string list" where
  "env_arguments [] = []"
| "env_arguments (p # ps) =
     (if assignment_word p then [before_equals p]
      else if starts_with ''--unset='' p then [after_equals p]
      else if p \<in> {''-u'', ''--unset''} \<and> ps \<noteq> [] then [hd ps] else []) @ env_arguments ps"

definition literal_or_raw :: "shell_word \<Rightarrow> string" where
  "literal_or_raw w = (case wd_literal w of Some (c # s) \<Rightarrow> c # s | _ \<Rightarrow> wd_raw w)"

definition changed_keys :: "shell_tree \<Rightarrow> string list" where
  "changed_keys t = concat (map (\<lambda>item.
     let parts = map literal_or_raw (sy_argv item)
     in sy_assignments item
        @ (if parts \<noteq> [] \<and> hd parts \<in> {''export'', ''set'', ''unset''}
           then map before_equals (filter (\<lambda>p. \<not> starts_with ''-'' p) (tl parts))
           else if parts \<noteq> [] \<and> hd parts = ''env'' then env_arguments (tl parts) else [])) (commands_of t))"

section \<open>Nested commands\<close>

definition UV_OPTIONS :: "string list" where
  "UV_OPTIONS = [''--active'', ''--no-sync'', ''--no-project'', ''--frozen'', ''--locked'', ''--'']"

definition nested_command :: "string list \<Rightarrow> shell_command option" where
  "nested_command parts =
     (if executable_name (hd parts) \<in> {''sh'', ''bash'', ''dash'', ''zsh''} \<and> length parts \<ge> 3
         \<and> parts ! 1 \<in> {''-c'', ''-lc''}
      then Some (Script (parts ! 2))
      else if hd parts \<in> {''env'', ''command'', ''exec'', ''nohup'', ''nice'', ''xargs''} then
        (let nested = unwrap_command parts in if nested \<noteq> parts \<and> nested \<noteq> [] then Some (Argv nested) else None)
      else if take 2 parts = [''uv'', ''run''] then
        (let nested = dropWhile (\<lambda>p. p \<in> set UV_OPTIONS) (drop 2 parts) in if nested \<noteq> [] then Some (Argv nested) else None)
      else None)"

definition tree_of :: "shell_machine \<Rightarrow> shell_command \<Rightarrow> shell_tree" where
  "tree_of M command = parse_script (sm_parser M) (sm_tree_limit M) command"

definition add_missing :: "'a list \<Rightarrow> 'a list \<Rightarrow> 'a list" where
  "add_missing extra result = fold (\<lambda>x xs. if x \<in> set xs then xs else xs @ [x]) extra result"

text \<open>\<open>commands\<close>: everything that a script may run, for the rules that forbid commands; \<open>n\<close> levels are left.\<close>

primrec commands_within :: "shell_machine \<Rightarrow> nat \<Rightarrow> shell_command \<Rightarrow> string list list" where
  "commands_within M 0 command = []"
| "commands_within M (Suc n) command =
     (let tree = tree_of M command;
          found = concat (map (\<lambda>b. commands_within M n (Script b)) (shell_bodies tree))
            @ concat (map (\<lambda>item.
                let parts = map (\<lambda>w. case wd_literal w of Some l \<Rightarrow> l | None \<Rightarrow> wd_raw w) (sy_argv item)
                in if parts = [] then []
                   else parts # (case nested_command parts of None \<Rightarrow> [] | Some c \<Rightarrow> commands_within M n c)) (commands_of tree))
      in case inspected_commands (sm_limit M) command of
          Inl e \<Rightarrow> found
        | Inr more_commands \<Rightarrow> add_missing more_commands found)"

definition names_blocked :: "string list list \<Rightarrow> string list list \<Rightarrow> bool" where
  "names_blocked rules commands \<longleftrightarrow>
     list_ex (\<lambda>parts. list_ex (\<lambda>rule. rule \<noteq> [] \<and> take (length rule) parts = rule) rules) commands"

section \<open>Programs\<close>

definition SHELL_BUILTINS :: "string list" where
  "SHELL_BUILTINS = [''cd'', ''echo'', ''printf'', ''pwd'', ''true'', ''false'', ''command'']"

definition path_entry :: "posix_path \<Rightarrow> string \<Rightarrow> posix_path" where
  "path_entry dir entry =
     (if starts_with ''/workspace/'' entry then path_join dir (posix_path (drop 11 entry)) else posix_path entry)"

definition base_executable ::
  "shell_machine \<Rightarrow> shell_policy \<Rightarrow> string \<Rightarrow> shell_session_state option \<Rightarrow> bool \<Rightarrow> posix_path \<Rightarrow> bool" where
  "base_executable M P name state shell cwd =
     (if CHR ''/'' \<in> set name \<or> back_slash \<in> set name then False
      else if shell \<and> name \<in> set SHELL_BUILTINS then True
      else if list_ex (\<lambda>d. sm_is_program M (path_join d (0, [''.venv'', ''bin'', name])))
          (takeWhile (\<lambda>d. path_within d (pl_root P)) (path_ancestors cwd)) then False
      else case sm_which M name of
          None \<Rightarrow> False
        | Some found \<Rightarrow>
            let p = posix_path found
            in if fst p = 0 \<or> path_within p (pl_root P) \<or> path_within (sm_resolve M p) (pl_root P) then False
               else case Option.bind state (\<lambda>s. dict_get (st_env s) ''PATH'') of
                   None \<Rightarrow> True
                 | Some path \<Rightarrow> \<not> list_ex (\<lambda>entry.
                     entry \<notin> set (case st_base_path (the state) of Some (b # bs) \<Rightarrow> b # bs | _ \<Rightarrow> sm_search_path M)
                     \<and> sm_is_file M (path_join (path_entry (pl_root P) entry) (0, [name])))
                     (split_char (CHR '':'') path))"

definition trusted_wildcard :: "shell_policy \<Rightarrow> string list \<Rightarrow> bool" where
  "trusted_wildcard P argv \<longleftrightarrow> list_ex (\<lambda>rule. ends_with '' *'' rule \<and>
     (case shlex_split (take (length rule - 2) rule) of Inl e \<Rightarrow> False | Inr ps \<Rightarrow> take (length ps) argv = ps))
     (pl_trusted P)"

section \<open>Effects\<close>

record inspection =
  in_effects :: "shell_effect set"
  in_rejections :: "shell_decision list"
  in_code :: bool
  in_cwd :: posix_path

definition add_effects :: "shell_effect set \<Rightarrow> inspection \<Rightarrow> inspection" where
  "add_effects es x = x\<lparr>in_effects := in_effects x \<union> es\<rparr>"

definition writes_inside :: "shell_machine \<Rightarrow> shell_policy \<Rightarrow> posix_path \<Rightarrow> posix_path \<Rightarrow> bool" where
  "writes_inside M P cwd p =
     (let p = (if fst p = 1 \<and> take 1 (snd p) = [''workspace''] then path_join (pl_root P) (0, drop 1 (snd p)) else p)
      in path_within (sm_resolve M (path_join cwd p)) (pl_root P))"

definition decision_effects :: "shell_decision \<Rightarrow> shell_effect set" where
  "decision_effects d =
     (if dc_effects d \<noteq> {} then dc_effects d else if dc_kind d \<noteq> Shell_allow then {Effect_UNKNOWN} else {Effect_READ})"

text \<open>\<open>child_effects\<close>, with the judge of nested commands; the effects and the state after it.\<close>

type_synonym judge = "posix_path \<Rightarrow> shell_command \<Rightarrow> shell_decision"

definition child_effects :: "judge \<Rightarrow> shell_command \<Rightarrow> inspection \<Rightarrow> shell_effect set \<times> inspection" where
  "child_effects judge nested x =
     (let d = judge (in_cwd x) nested
      in (decision_effects d, x\<lparr>in_code := (in_code x \<or> dc_stdin_is_code d),
            in_rejections := in_rejections x @ (if dc_kind d = Shell_reject then [d] else [])\<rparr>))"

definition add_child :: "judge \<Rightarrow> shell_command \<Rightarrow> inspection \<Rightarrow> inspection" where
  "add_child judge nested x = (case child_effects judge nested x of (es, x) \<Rightarrow> add_effects es x)"

definition FIND_VALUED :: "string list" where
  "FIND_VALUED = [''-name'', ''-iname'', ''-path'', ''-ipath'', ''-type'', ''-maxdepth'', ''-mindepth'']"

definition FIND_PLAIN :: "string list" where
  "FIND_PLAIN = [''-print'', ''-print0'', ''-empty'', ''-readable'', ''-writable'', ''-executable'', ''-o'', ''-a'', ''!'', ''('', '')'']"

text \<open>\<open>_find_effect\<close>: the effects so far; \<open>None\<close> for \<open>{UNKNOWN}\<close>.\<close>

function find_effects ::
  "judge \<Rightarrow> string list \<Rightarrow> shell_effect set \<Rightarrow> inspection \<Rightarrow> shell_effect set option \<times> inspection" where
  "find_effects judge [] es x = (Some es, x)"
| "find_effects judge (arg # args) es x =
     (if arg \<in> set FIND_VALUED then (if args = [] then (None, x) else find_effects judge (tl args) es x)
      else if arg \<in> set FIND_PLAIN then find_effects judge args es x
      else if arg \<in> {''-exec'', ''-execdir''} then
        (let body = takeWhile (\<lambda>p. p \<notin> {'';'', ''+''}) args
         in if body = [] \<or> length body = length args then (None, x)
            else case child_effects judge (Argv (map (\<lambda>p. if p = ''{}'' then ''./discovered-file'' else p) body)) x of
                (more_effects, x) \<Rightarrow> find_effects judge (drop (Suc (length body)) args) (es \<union> more_effects) x)
      else if starts_with ''-'' arg then (None, x)
      else find_effects judge args es x)"
  by pat_completeness auto
termination by (relation "measure (\<lambda>(judge, args, es, x). length args)") auto

definition add_find :: "judge \<Rightarrow> string list \<Rightarrow> inspection \<Rightarrow> inspection" where
  "add_find judge argv x =
     (case find_effects judge (tl argv) {Effect_READ} x of
        (None, x) \<Rightarrow> add_effects {Effect_UNKNOWN} x
      | (Some es, x) \<Rightarrow> add_effects es x)"

section \<open>The commands of the tree\<close>

definition reads_code :: "string list \<Rightarrow> bool" where
  "reads_code argv =
     (case stdin_spec (hd argv) of
        Some sp \<Rightarrow> sp_stdin_is_code sp
      | None \<Rightarrow>
          (case dict_get SPECS (join '' '' (take 2 argv)) of
             Some sp \<Rightarrow> sp_stdin_is_code sp
           | None \<Rightarrow>
               (case dict_get SPECS (hd argv) of
                  Some sp \<Rightarrow> sp_stdin_is_code sp
                | None \<Rightarrow> hd argv \<notin> {''find'', ''command''})))"

definition spec_key :: "string list \<Rightarrow> string" where
  "spec_key argv = (if dict_has SPECS (join '' '' (take 2 argv)) then join '' '' (take 2 argv) else hd argv)"

text \<open>\<open>-5\<close> of \<open>head\<close> and \<open>tail\<close> is \<open>-n 5\<close>.\<close>

definition count_arguments :: "string list \<Rightarrow> string list" where
  "count_arguments args = concat (map (\<lambda>a.
     if starts_with ''-'' a \<and> drop 1 a \<noteq> [] \<and> list_all is_digit (drop 1 a) then [''-n'', drop 1 a] else [a]) args)"

definition spec_arguments :: "string list \<Rightarrow> string list" where
  "spec_arguments argv =
     (let args = (if CHR '' '' \<in> set (spec_key argv) then drop 2 argv else drop 1 argv)
      in if hd argv \<in> {''head'', ''tail''} then count_arguments args else args)"

definition write_targets :: "shell_machine \<Rightarrow> posix_path \<Rightarrow> string \<Rightarrow> command_spec \<Rightarrow> string list \<Rightarrow> posix_path list" where
  "write_targets M cwd name sp ps =
     concat (map (\<lambda>i. if i = -2 then map posix_path ps
         else if - int (length ps) \<le> i \<and> i < int (length ps)
           then [posix_path (ps ! nat (if i < 0 then i + int (length ps) else i))] else []) (sp_writes sp))
     @ (if name \<in> {''cp'', ''mv''} \<and> length ps > 1 \<and> sm_is_dir M (path_join cwd (posix_path (last ps)))
        then map (\<lambda>source. path_join (path_join cwd (posix_path (last ps))) (0, path_name (posix_path source))) (butlast ps)
        else [])"

definition declared_effect :: "shell_machine \<Rightarrow> shell_policy \<Rightarrow> posix_path \<Rightarrow> string \<Rightarrow> command_spec \<Rightarrow> string list \<Rightarrow> shell_effect" where
  "declared_effect M P cwd name sp ps =
     (let targets = write_targets M cwd name sp ps
      in if targets = [] then sp_effect sp
         else if list_all (writes_inside M P cwd) targets then Effect_WORKSPACE_WRITE else Effect_UNKNOWN)"

definition add_declared ::
  "shell_machine \<Rightarrow> shell_policy \<Rightarrow> string \<Rightarrow> command_spec \<Rightarrow> string list \<Rightarrow> inspection \<Rightarrow> inspection" where
  "add_declared M P name sp ps x =
     (let cwd = in_cwd x; x = add_effects {declared_effect M P cwd name sp ps} x
      in if name = ''cd'' then
           (if length ps = 1 \<and> writes_inside M P cwd (posix_path (hd ps))
            then x\<lparr>in_cwd := sm_resolve M (path_join cwd (posix_path (hd ps)))\<rparr> else add_effects {Effect_UNKNOWN} x)
         else x)"

definition env_plain :: "string list \<Rightarrow> string list \<Rightarrow> bool" where
  "env_plain argv nested \<longleftrightarrow>
     list_all (\<lambda>a. CHR ''='' \<in> set a \<and> \<not> starts_with ''-'' a) (drop 1 (take (length argv - length nested) argv))"

definition no_wildcard_rule :: "string list \<Rightarrow> bool" where
  "no_wildcard_rule argv \<longleftrightarrow> hd argv \<in> set DELETE_COMMANDS \<or> hd argv \<in> set STDIN_CODE - {''uv''}
     \<or> hd argv \<in> {''sudo'', ''git'', ''npm'', ''pnpm''} \<or> hd argv = ''uv'' \<and> ''publish'' \<in> set argv"

text \<open>A command without a declared grammar, or whose arguments do not fit it.\<close>

definition add_undeclared ::
  "shell_policy \<Rightarrow> judge \<Rightarrow> string list \<Rightarrow> bool \<Rightarrow> inspection \<Rightarrow> inspection" where
  "add_undeclared P judge argv stdin x =
     (let name = hd argv; nested = nested_command argv
      in if length argv = 2 \<and> argv ! 1 \<in> {''--version'', ''-V''} \<and> name \<in> set STDIN_CODE
         then add_effects {Effect_READ} x
         else if name = ''uv'' \<and> take 1 (drop 1 argv) = [''run''] \<and> nested \<noteq> None
         then add_child judge (the nested) (add_effects {Effect_PROJECT_CODE} x)
         else if name \<in> {''python'', ''python3''} \<and> take 2 (drop 1 argv) = [''-m'', ''pytest'']
         then add_child judge (Argv (''pytest'' # drop 3 argv)) x
         else if name = ''env'' \<and> (case nested of Some (Argv n) \<Rightarrow> env_plain argv n | _ \<Rightarrow> False)
         then add_child judge (the nested) x
         else if name = ''sh'' \<and> length argv = 3 \<and> argv ! 1 = ''-c'' then add_child judge (Script (argv ! 2)) x
         else if name = ''find'' then
           (let x = add_find judge argv x in if stdin \<and> in_code x then add_effects {Effect_UNKNOWN} x else x)
         else if name = ''command'' \<and> length argv = 3 \<and> argv ! 1 \<in> {''-v'', ''-V''} then add_effects {Effect_READ} x
         else if trusted_wildcard P argv \<and> \<not> no_wildcard_rule argv then add_effects {Effect_READ} x
         else (case nested of
             None \<Rightarrow> add_effects {Effect_UNKNOWN} x
           | Some c \<Rightarrow> add_child judge c (add_effects {Effect_UNKNOWN} x)))"

definition add_literal ::
  "shell_machine \<Rightarrow> shell_policy \<Rightarrow> judge \<Rightarrow> shell_session_state option \<Rightarrow> bool \<Rightarrow> string list \<Rightarrow> bool
     \<Rightarrow> inspection \<Rightarrow> inspection" where
  "add_literal M P judge state script argv stdin x =
     (let name = hd argv; code = reads_code argv;
          x = x\<lparr>in_code := (in_code x \<or> code)\<rparr>;
          x = (if stdin \<and> code then add_effects {Effect_UNKNOWN} x else x);
          x = (if name \<in> set DELETE_COMMANDS then add_effects {Effect_DELETE} x
               else if name \<in> set SYSTEM_COMMANDS then add_effects {Effect_SYSTEM} x
               else if \<not> base_executable M P name state script (in_cwd x) then add_effects {Effect_UNKNOWN} x
               else case Option.bind (dict_get SPECS (spec_key argv))
                          (\<lambda>sp. map_option (Pair sp) (arguments sp (spec_arguments argv))) of
                   Some (sp, ps) \<Rightarrow> add_declared M P name sp ps x
                 | None \<Rightarrow> add_undeclared P judge argv stdin x)
      in case nested_command argv of
          Some c \<Rightarrow> if CHR ''/'' \<in> set name then add_child judge c x else x
        | None \<Rightarrow> x)"

definition add_words ::
  "shell_machine \<Rightarrow> shell_policy \<Rightarrow> judge \<Rightarrow> shell_session_state option \<Rightarrow> bool \<Rightarrow> shell_word list \<Rightarrow> bool
     \<Rightarrow> inspection \<Rightarrow> inspection" where
  "add_words M P judge state script ws stdin x =
     (if wd_literal (hd ws) = Some ''export'' \<and> list_all (\<lambda>w. assignment_word (wd_raw w)) (tl ws)
      then add_effects {Effect_READ} x
      else if wd_literal (hd ws) = Some ''echo'' \<and> script \<and> list_ex (\<lambda>w. wd_literal w = None) (tl ws)
      then add_effects {Effect_READ} x
      else if list_ex (\<lambda>w. wd_literal w = None) ws
          \<or> list_ex (\<lambda>w. wd_glob w \<and> \<not> (wd_literal (hd ws) = Some ''find'' \<and> wd_literal w = Some ''{}'')) ws
      then add_effects {Effect_UNKNOWN} x
      else add_literal M P judge state script (map (\<lambda>w. the (wd_literal w)) ws) stdin x)"

definition redirect_effect :: "shell_machine \<Rightarrow> shell_policy \<Rightarrow> posix_path \<Rightarrow> shell_word \<Rightarrow> shell_effect" where
  "redirect_effect M P cwd target =
     (case wd_literal target of
        Some t \<Rightarrow> if \<not> wd_glob target \<and> writes_inside M P cwd (posix_path t) then Effect_WORKSPACE_WRITE else Effect_UNKNOWN
      | None \<Rightarrow> Effect_UNKNOWN)"

definition add_redirects :: "shell_machine \<Rightarrow> shell_policy \<Rightarrow> (string \<times> shell_word) list \<Rightarrow> inspection \<Rightarrow> inspection" where
  "add_redirects M P redirects x =
     add_effects ((\<lambda>(operator, target). redirect_effect M P (in_cwd x) target)
       ` set (filter (\<lambda>(operator, target). operator \<noteq> ''<'') redirects)) x"

fun inspect_tree ::
  "shell_machine \<Rightarrow> shell_policy \<Rightarrow> judge \<Rightarrow> shell_session_state option \<Rightarrow> bool \<Rightarrow> shell_tree \<Rightarrow> inspection \<Rightarrow> inspection" where
  "inspect_tree M P judge state script (Syntax k ops src b cs argv asg rd i opq) x =
     (let cwd = in_cwd x;
          x = (if ''||'' \<in> set ops \<and> list_ex (\<lambda>c. sy_argv c \<noteq> [] \<and> wd_literal (hd (sy_argv c)) = Some ''cd'')
                    (commands_of (Syntax k ops src b cs argv asg rd i opq))
               then add_effects {Effect_UNKNOWN} x else x);
          x = add_redirects M P rd x;
          x = (if argv \<noteq> [] then add_words M P judge state script argv i x else x);
          x = fold (inspect_tree M P judge state script) cs x
      in if k \<in> {''subshell'', ''pipeline''} then x\<lparr>in_cwd := cwd\<rparr> else x)"

section \<open>Decisions\<close>

definition granted_effects :: "approval_level \<Rightarrow> shell_effect set" where
  "granted_effects level =
     (case level of
        Level_READ_ONLY \<Rightarrow> {Effect_READ}
      | Level_WORKSPACE_WRITE \<Rightarrow> {Effect_READ, Effect_WORKSPACE_WRITE}
      | Level_TRUSTED_DEV \<Rightarrow> {Effect_READ, Effect_WORKSPACE_WRITE, Effect_NETWORK, Effect_PROJECT_CODE})"

definition ALL_EFFECTS :: "shell_effect list" where
  "ALL_EFFECTS = [Effect_DELETE, Effect_NETWORK, Effect_PROJECT_CODE, Effect_PUBLISH, Effect_READ, Effect_SYSTEM,
     Effect_UNKNOWN, Effect_WORKSPACE_WRITE]"

definition decide_effects :: "approval_level \<Rightarrow> inspection \<Rightarrow> shell_decision" where
  "decide_effects level x =
     (case in_rejections x of
        d # ds \<Rightarrow> d
      | [] \<Rightarrow>
          let denied = filter (\<lambda>e. e \<in> in_effects x \<and> e \<notin> granted_effects level) ALL_EFFECTS
          in if denied \<noteq> []
             then \<lparr>dc_kind = Shell_ask,
                   dc_reason = Some (''Shell effects require approval: '' @ join '', '' (map effect_value denied)),
                   dc_stdin_is_code = in_code x, dc_effects = in_effects x\<rparr>
             else \<lparr>dc_kind = Shell_allow, dc_reason = None, dc_stdin_is_code = in_code x, dc_effects = in_effects x\<rparr>)"

text \<open>The first tests: deletion in a script that cannot be read, and the paths of a deletion.\<close>

definition deletion_text :: "shell_command \<Rightarrow> shell_command" where
  "deletion_text command =
     (case command of
        Script s \<Rightarrow> (case parse_quoted_heredocs s of Inl e \<Rightarrow> command | Inr parsed \<Rightarrow> Script (ss_text parsed))
      | Argv parts \<Rightarrow> command)"

definition early_rejection :: "shell_machine \<Rightarrow> shell_command \<Rightarrow> shell_decision option" where
  "early_rejection M command =
     (if reasons_of (tree_of M command) \<noteq> [] \<and> mentions_deletion (deletion_text command)
      then Some (decided Shell_reject ''Opaque deletion cannot guarantee explicit literal paths'')
      else map_option (decided Shell_reject) (literal_command_reason (sm_limit M) command Dialect_POSIX))"

definition keys_allowed :: "shell_policy \<Rightarrow> string list \<Rightarrow> bool" where
  "keys_allowed P ks \<longleftrightarrow> (case pl_allowed_env_keys P of None \<Rightarrow> True | Some allowed \<Rightarrow> set ks \<subseteq> set allowed)"

definition env_keys_rejected :: shell_decision where
  "env_keys_rejected = decided Shell_reject ''Environment keys are outside the configured allowed_env_keys''"

definition env_deletion_rejected :: shell_decision where
  "env_deletion_rejected = decided Shell_reject ''Environment variable overrides are forbidden for deletion commands''"

definition env_dangerous :: shell_decision where
  "env_dangerous = decided Shell_ask ''Environment changes command loading or interpretation; approval is required''"

text \<open>The tests of the rules and of the environment, before the effects.\<close>

definition rule_decision ::
  "shell_machine \<Rightarrow> shell_policy \<Rightarrow> string list list \<Rightarrow> nat \<Rightarrow> (string, string) dict \<Rightarrow> shell_session_state option
     \<Rightarrow> shell_command \<Rightarrow> shell_decision option" where
  "rule_decision M P rules n env state command =
     (let tree = tree_of M command; env_keys = dict_keys env;
          keys = env_keys @ changed_keys tree;
          kept = (case state of None \<Rightarrow> [] | Some s \<Rightarrow> dict_keys (st_env s))
      in if names_blocked rules (commands_within M n command)
            \<or> (reasons_of tree \<noteq> [] \<or> opaque_command_reason (sm_limit M) command Dialect_POSIX \<noteq> None)
              \<and> mentions_command command rules
         then Some (decided Shell_reject ''The command is blocked by a configured command rule'')
         else if \<not> keys_allowed P env_keys then Some env_keys_rejected
         else if env \<noteq> [] \<and> may_delete (sm_limit M) command Dialect_POSIX then Some env_deletion_rejected
         else if list_ex dangerous_env_key env_keys then Some env_dangerous
         else if \<not> keys_allowed P keys then Some env_keys_rejected
         else if may_delete (sm_limit M) command Dialect_POSIX \<and> (keys \<noteq> [] \<or> kept \<noteq> []) then Some env_deletion_rejected
         else if list_ex dangerous_env_key (keys @ kept) then Some env_dangerous
         else (case reasons_of tree of
             r # rs \<Rightarrow> Some (decided Shell_ask (r @ ''; approval is required''))
           | [] \<Rightarrow> None))"

definition inspect_command ::
  "shell_machine \<Rightarrow> shell_policy \<Rightarrow> judge \<Rightarrow> shell_session_state option \<Rightarrow> posix_path \<Rightarrow> shell_command \<Rightarrow> inspection" where
  "inspect_command M P judge state cwd command =
     (let tree = tree_of M command;
          x = inspect_tree M P judge state (is_script command) tree
                \<lparr>in_effects = {}, in_rejections = [], in_code = False, in_cwd = cwd\<rparr>
      in fold (\<lambda>b. add_child judge (Script b)) (shell_bodies tree) x)"

text \<open>\<open>evaluate\<close> at a depth that leaves \<open>n\<close> levels, with the rules of the policy read.\<close>

primrec evaluate_within ::
  "shell_machine \<Rightarrow> shell_policy \<Rightarrow> string list list \<Rightarrow> shell_session_state option \<Rightarrow> nat \<Rightarrow> (string, string) dict
     \<Rightarrow> posix_path \<Rightarrow> shell_command \<Rightarrow> shell_decision" where
  "evaluate_within M P rules state 0 env cwd command =
     decided Shell_ask ''Nested shell commands exceed the inspection limit''"
| "evaluate_within M P rules state (Suc n) env cwd command =
     (case early_rejection M command of
        Some d \<Rightarrow> d
      | None \<Rightarrow>
          (case rule_decision M P rules (Suc n) env state command of
             Some d \<Rightarrow> d
           | None \<Rightarrow> decide_effects (pl_level P)
               (inspect_command M P (evaluate_within M P rules state n []) state cwd command)))"

fun parse_rules :: "shell_dialect \<Rightarrow> string list \<Rightarrow> string + string list list" where
  "parse_rules d [] = Inr []"
| "parse_rules d (r # rs) = bind_e (rule_parts r d) (\<lambda>p. bind_e (parse_rules d rs) (\<lambda>ps. Inr (p # ps)))"

text \<open>The whole policy on a POSIX machine, where a rule that cannot be read is a \<open>ValueError\<close>.\<close>

definition evaluate_posix ::
  "shell_machine \<Rightarrow> shell_policy \<Rightarrow> (string, string) dict \<Rightarrow> shell_session_state option \<Rightarrow> posix_path \<Rightarrow> shell_command
     \<Rightarrow> shell_failure + shell_decision" where
  "evaluate_posix M P env state cwd command =
     (case early_rejection M command of
        Some d \<Rightarrow> Inr d
      | None \<Rightarrow> bind_e (as_value_error (parse_rules Dialect_POSIX (pl_blocked P))) (\<lambda>rules.
          Inr (evaluate_within M P rules state 17 env cwd command)))"

text \<open>The policy for the other dialects, without a tree.\<close>

definition evaluate_legacy ::
  "shell_machine \<Rightarrow> shell_policy \<Rightarrow> shell_dialect \<Rightarrow> (string, string) dict \<Rightarrow> shell_command \<Rightarrow> shell_failure + shell_decision" where
  "evaluate_legacy M P d env command =
     (case literal_command_reason (sm_limit M) command d of
        Some r \<Rightarrow> Inr (decided Shell_reject r)
      | None \<Rightarrow>
          bind_e (as_value_error (parse_rules d (pl_blocked P))) (\<lambda>rules.
          bind_e (inspected_commands (sm_limit M) command) (\<lambda>commands.
            Inr (if names_blocked rules commands
                    \<or> opaque_command_reason (sm_limit M) command d \<noteq> None \<and> mentions_command command rules
                 then decided Shell_reject ''The command is blocked by a configured command rule''
                 else if \<not> keys_allowed P (dict_keys env) then env_keys_rejected
                 else if env \<noteq> [] \<and> may_delete (sm_limit M) command d then env_deletion_rejected
                 else if list_ex dangerous_env_key (dict_keys env) then env_dangerous
                 else case approval_reason (sm_limit M) (sm_dialect M) (pl_trusted P) command of
                     Some r \<Rightarrow> decided Shell_ask r
                   | None \<Rightarrow> \<lparr>dc_kind = Shell_allow, dc_reason = None, dc_stdin_is_code = False, dc_effects = {}\<rparr>))))"

definition evaluate_command ::
  "shell_machine \<Rightarrow> shell_policy \<Rightarrow> (string, string) dict \<Rightarrow> shell_session_state option \<Rightarrow> posix_path \<Rightarrow> shell_command
     \<Rightarrow> shell_failure + shell_decision" where
  "evaluate_command M P env state cwd command =
     (if sm_dialect M = Dialect_POSIX then evaluate_posix M P env state cwd command
      else evaluate_legacy M P (sm_dialect M) env command)"

end
