(* ===== verification/ShellFacts.thy ===== *)
theory ShellFacts
  imports ShellPolicy
begin

text \<open>
  What the shell policy guarantees.  An inspection only collects: effects and rejections of a part stay in the whole
  (\<open>grows\<close>), so that an allowed command has no part that would have been refused.  The judge of nested commands is
  seen through \<open>child_effects\<close> only, which makes decisions of different levels comparable.
\<close>

section \<open>Inspections collect\<close>

definition below :: "inspection \<Rightarrow> inspection \<Rightarrow> bool" where
  "below x y \<longleftrightarrow> in_effects x \<subseteq> in_effects y \<and> set (in_rejections x) \<subseteq> set (in_rejections y)"

lemma below_refl [simp]: "below x x"
  by (simp add: below_def)

lemma below_trans [trans]: "below x y \<Longrightarrow> below y z \<Longrightarrow> below x z"
  by (auto simp: below_def)

lemma belowD: "below x y \<Longrightarrow> e \<in> in_effects x \<Longrightarrow> e \<in> in_effects y"
  "below x y \<Longrightarrow> d \<in> set (in_rejections x) \<Longrightarrow> d \<in> set (in_rejections y)"
  by (auto simp: below_def)

lemma below_add_effects [simp]: "below x (add_effects es x)"
  by (simp add: below_def add_effects_def)

lemma below_add_effects_trans: "below x y \<Longrightarrow> below x (add_effects es y)"
  by (rule below_trans [OF _ below_add_effects])

lemma below_updates [simp]: "below x (y\<lparr>in_cwd := c\<rparr>) = below x y" "below x (y\<lparr>in_code := b\<rparr>) = below x y"
  "below (x\<lparr>in_cwd := c\<rparr>) y = below x y" "below (x\<lparr>in_code := b\<rparr>) y = below x y"
  by (simp_all add: below_def)

lemma below_child: "child_effects judge c x = (es, y) \<Longrightarrow> below x y"
  by (auto simp: child_effects_def below_def Let_def)

lemma below_add_child: "below x (add_child judge c x)"
  by (auto simp: add_child_def split: prod.split intro: below_add_effects_trans below_child)

lemma below_find_effects: "find_effects judge args es x = (r, y) \<Longrightarrow> below x y"
proof (induction judge args es x rule: find_effects.induct)
  case (2 judge arg args es x)
  let ?body = "takeWhile (\<lambda>p. p \<notin> {'';'', ''+''}) args"
  let ?c = "Argv (map (\<lambda>p. if p = ''{}'' then ''./discovered-file'' else p) ?body)"
  consider "arg \<in> set FIND_VALUED" | "arg \<notin> set FIND_VALUED" "arg \<in> set FIND_PLAIN"
    | (exec) "arg \<notin> set FIND_VALUED" "arg \<notin> set FIND_PLAIN" "arg \<in> {''-exec'', ''-execdir''}"
    | "arg \<notin> set FIND_VALUED" "arg \<notin> set FIND_PLAIN" "arg \<notin> {''-exec'', ''-execdir''}" by blast
  then show ?case
  proof cases
    case exec
    show ?thesis
    proof (cases "?body = [] \<or> length ?body = length args")
      case True
      with exec "2.prems" show ?thesis by (simp add: Let_def)
    next
      case False
      obtain es' z where c: "child_effects judge ?c x = (es', z)" by (cases "child_effects judge ?c x")
      have "find_effects judge (drop (Suc (length ?body)) args) (es \<union> es') z = (r, y)"
        using "2.prems" exec False c unfolding find_effects.simps Let_def by (simp only: if_False if_True prod.case simp_thms)
      with "2.IH"(3) [OF exec refl False c [symmetric]] have "below z y" by blast
      with below_child [OF c] show ?thesis by (rule below_trans)
    qed
  qed (use "2.prems" "2.IH"(1,2,4) in \<open>auto split: if_splits\<close>)
qed simp

lemma below_add_find: "below x (add_find judge argv x)"
  by (auto simp: add_find_def split: prod.split option.split intro: below_add_effects_trans below_find_effects)

lemma below_add_declared: "below x (add_declared M P name sp ps x)"
  by (simp add: add_declared_def Let_def below_add_effects_trans)

lemma below_add_undeclared: "below x (add_undeclared P judge argv stdin x)"
  unfolding add_undeclared_def Let_def
  by (simp add: below_add_child below_add_find below_add_effects_trans below_trans [OF below_add_effects below_add_child]
      split: option.split)

lemma below_add_literal: "below x (add_literal M P judge state script argv stdin x)"
proof -
  let ?code = "reads_code argv" and ?name = "hd argv"
  define y where "y = (if stdin \<and> ?code then add_effects {Effect_UNKNOWN} (x\<lparr>in_code := (in_code x \<or> ?code)\<rparr>)
      else x\<lparr>in_code := (in_code x \<or> ?code)\<rparr>)"
  define z where "z = (if ?name \<in> set DELETE_COMMANDS then add_effects {Effect_DELETE} y
      else if ?name \<in> set SYSTEM_COMMANDS then add_effects {Effect_SYSTEM} y
      else if \<not> base_executable M P ?name state script (in_cwd y) then add_effects {Effect_UNKNOWN} y
      else case Option.bind (dict_get SPECS (spec_key argv)) (\<lambda>sp. map_option (Pair sp) (arguments sp (spec_arguments argv))) of
          Some (sp, ps) \<Rightarrow> add_declared M P ?name sp ps y
        | None \<Rightarrow> add_undeclared P judge argv stdin y)"
  have "below x y" by (simp add: y_def below_add_effects_trans)
  also have "below y z"
    by (simp add: z_def below_add_declared below_add_undeclared split: option.split prod.split)
  finally have "below x z" .
  then show ?thesis
    unfolding add_literal_def Let_def y_def [symmetric] z_def [symmetric]
    using below_trans [OF _ below_add_child] by (auto split: option.split)
qed

lemma below_add_words: "below x (add_words M P judge state script ws stdin x)"
  by (simp add: add_words_def below_add_literal)

lemma below_inspect_tree: "below x (inspect_tree M P judge state script t x)"
proof (induction t arbitrary: x)
  case (Syntax k ops src b cs argv asg rd i opq)
  have kids: "below y (fold (inspect_tree M P judge state script) ds y)" if "set ds \<subseteq> set cs" for ds y
    using that by (induction ds arbitrary: y) (use Syntax.IH below_trans in \<open>fastforce+\<close>)
  show ?case
    by (simp add: Let_def add_redirects_def below_trans [OF _ kids] below_add_effects_trans below_trans [OF _ below_add_words])
qed

lemma below_fold_children: "below x (fold (\<lambda>b. add_child judge (Script b)) bs x)"
  by (induction bs arbitrary: x) (auto intro: below_trans [OF below_add_child])

section \<open>What an allowed command consists of\<close>

text \<open>The commands and redirections that an inspection without \<open>UNKNOWN\<close>, \<open>DELETE\<close> and \<open>SYSTEM\<close> effects may have.\<close>

definition tame_words :: "bool \<Rightarrow> shell_word list \<Rightarrow> bool" where
  "tame_words script ws \<longleftrightarrow>
     wd_literal (hd ws) = Some ''export'' \<and> list_all (\<lambda>w. assignment_word (wd_raw w)) (tl ws)
     \<or> wd_literal (hd ws) = Some ''echo'' \<and> script
     \<or> list_all (\<lambda>w. wd_literal w \<noteq> None \<and> (wd_glob w \<longrightarrow> wd_literal (hd ws) = Some ''find'' \<and> wd_literal w = Some ''{}'')) ws
       \<and> the (wd_literal (hd ws)) \<notin> set DELETE_COMMANDS \<union> set SYSTEM_COMMANDS"

definition tame_redirect :: "string \<times> shell_word \<Rightarrow> bool" where
  "tame_redirect r \<longleftrightarrow> fst r = ''<'' \<or> wd_literal (snd r) \<noteq> None \<and> \<not> wd_glob (snd r)"

fun tame_tree :: "bool \<Rightarrow> shell_tree \<Rightarrow> bool" where
  "tame_tree script (Syntax k ops src b cs argv asg rd i opq) \<longleftrightarrow>
     (argv \<noteq> [] \<longrightarrow> tame_words script argv) \<and> list_all tame_redirect rd \<and> list_all (tame_tree script) cs"

definition harmful :: "shell_effect set" where
  "harmful = {Effect_UNKNOWN, Effect_DELETE, Effect_SYSTEM}"

lemma harmful_not_granted: "granted_effects level \<inter> harmful = {}"
  by (cases level) (simp_all add: granted_effects_def harmful_def)

lemma below_harmless: "below x y \<Longrightarrow> in_effects y \<inter> harmful = {} \<Longrightarrow> in_effects x \<inter> harmful = {}"
  by (auto simp: below_def)

lemma harmless_words:
  assumes "in_effects (add_words M P judge state script ws stdin x) \<inter> harmful = {}" "ws \<noteq> []"
  shows "tame_words script ws"
proof (rule ccontr)
  let ?open = "list_ex (\<lambda>w. wd_literal w = None) ws
        \<or> list_ex (\<lambda>w. wd_glob w \<and> \<not> (wd_literal (hd ws) = Some ''find'' \<and> wd_literal w = Some ''{}'')) ws"
  assume wild: "\<not> tame_words script ws"
  then have forms: "\<not> (wd_literal (hd ws) = Some ''export'' \<and> list_all (\<lambda>w. assignment_word (wd_raw w)) (tl ws))"
      "\<not> (wd_literal (hd ws) = Some ''echo'' \<and> script \<and> list_ex (\<lambda>w. wd_literal w = None) (tl ws))"
    by (auto simp: tame_words_def)
  from wild have named: "\<not> ?open \<Longrightarrow> the (wd_literal (hd ws)) \<in> set DELETE_COMMANDS \<union> set SYSTEM_COMMANDS"
    by (auto simp: tame_words_def list_all_iff list_ex_iff)
  show False
  proof (cases ?open)
    case True
    with forms have "add_words M P judge state script ws stdin x = add_effects {Effect_UNKNOWN} x"
      unfolding add_words_def by (simp only: if_True if_False)
    with assms(1) show False by (simp add: harmful_def add_effects_def)
  next
    case False
    let ?argv = "map (\<lambda>w. the (wd_literal w)) ws"
    have hd: "hd ?argv = the (wd_literal (hd ws))" using assms(2) by (simp add: hd_map)
    have words: "add_words M P judge state script ws stdin x = add_literal M P judge state script ?argv stdin x"
      using False forms unfolding add_words_def by (simp only: if_False)
    obtain e y where y: "e \<in> {Effect_DELETE, Effect_SYSTEM}" "below (add_effects {e} y)
        (add_literal M P judge state script ?argv stdin x)"
    proof (cases "the (wd_literal (hd ws)) \<in> set DELETE_COMMANDS")
      case True
      show ?thesis
        by (rule that [of Effect_DELETE "if stdin \<and> reads_code ?argv
              then add_effects {Effect_UNKNOWN} (x\<lparr>in_code := (in_code x \<or> reads_code ?argv)\<rparr>)
              else x\<lparr>in_code := (in_code x \<or> reads_code ?argv)\<rparr>"])
          (use True in \<open>auto simp: add_literal_def Let_def hd below_add_child split: option.split\<close>)
    next
      case no_delete: False
      show ?thesis
        by (rule that [of Effect_SYSTEM "if stdin \<and> reads_code ?argv
              then add_effects {Effect_UNKNOWN} (x\<lparr>in_code := (in_code x \<or> reads_code ?argv)\<rparr>)
              else x\<lparr>in_code := (in_code x \<or> reads_code ?argv)\<rparr>"])
          (use no_delete named [OF False] in \<open>auto simp: add_literal_def Let_def hd below_add_child split: option.split\<close>)
    qed
    then have "e \<in> in_effects (add_words M P judge state script ws stdin x)"
      unfolding words by (auto simp: add_effects_def dest: belowD(1))
    with assms(1) y(1) show False by (auto simp: harmful_def)
  qed
qed

lemma harmless_tree: "in_effects (inspect_tree M P judge state script t x) \<inter> harmful = {} \<Longrightarrow> tame_tree script t"
proof (induction t arbitrary: x)
  case (Syntax k ops src b cs argv asg rd i opq)
  obtain y where y: "in_effects (fold (inspect_tree M P judge state script) cs (if argv \<noteq> []
      then add_words M P judge state script argv i (add_redirects M P rd y) else add_redirects M P rd y)) \<inter> harmful = {}"
    using Syntax.prems by (auto simp: Let_def split: if_splits)
  define z where "z = (if argv \<noteq> [] then add_words M P judge state script argv i (add_redirects M P rd y) else add_redirects M P rd y)"
  have kids: "list_all (tame_tree script) ds \<and> in_effects u \<inter> harmful = {}"
    if "set ds \<subseteq> set cs" "in_effects (fold (inspect_tree M P judge state script) ds u) \<inter> harmful = {}" for ds u
    using that
  proof (induction ds arbitrary: u)
    case (Cons d ds)
    from Cons.IH [of "inspect_tree M P judge state script d u"] Cons.prems
    have ds: "list_all (tame_tree script) ds" "in_effects (inspect_tree M P judge state script d u) \<inter> harmful = {}" by simp_all
    from Syntax.IH [OF _ ds(2)] Cons.prems(1) below_harmless [OF below_inspect_tree ds(2)] ds(1) show ?case by simp
  qed simp
  from kids [OF order_refl] y have cs: "list_all (tame_tree script) cs" "in_effects z \<inter> harmful = {}"
    unfolding z_def by blast+
  then have words: "argv \<noteq> [] \<longrightarrow> tame_words script argv"
    using harmless_words [of M P judge state script argv i "add_redirects M P rd y"] by (auto simp: z_def)
  have "below (add_redirects M P rd y) z" by (simp add: z_def below_add_words)
  from below_harmless [OF this cs(2)] have none: "in_effects (add_redirects M P rd y) \<inter> harmful = {}" .
  have "redirect_effect M P (in_cwd y) (snd r) \<notin> harmful" if "r \<in> set rd" "fst r \<noteq> ''<''" for r
  proof -
    have "redirect_effect M P (in_cwd y) (snd r) \<in> in_effects (add_redirects M P rd y)"
    proof -
      have "in_effects (add_redirects M P rd y)
          = in_effects y \<union> (\<lambda>r. redirect_effect M P (in_cwd y) (snd r)) ` {r \<in> set rd. fst r \<noteq> ''<''}"
        by (simp add: add_redirects_def add_effects_def case_prod_unfold)
      with that show ?thesis by blast
    qed
    with none show ?thesis by blast
  qed
  then have "list_all tame_redirect rd"
    by (fastforce simp: list_all_iff tame_redirect_def redirect_effect_def harmful_def split: option.splits if_splits)
  with cs words show ?case by simp
qed

lemma tame_commands: "tame_tree script t \<Longrightarrow> c \<in> set (commands_of t) \<Longrightarrow> sy_argv c \<noteq> [] \<Longrightarrow> tame_words script (sy_argv c)"
  by (induction t) (auto simp: list_all_iff split: if_splits)

section \<open>Allowed commands\<close>

lemma denied_none: "filter (\<lambda>e. e \<in> es \<and> e \<notin> granted_effects level) ALL_EFFECTS = [] \<longleftrightarrow> es \<subseteq> granted_effects level"
proof -
  have "set ALL_EFFECTS = UNIV" by (auto simp: ALL_EFFECTS_def intro: shell_effect.exhaust)
  then show ?thesis by (auto simp: filter_empty_conv)
qed

lemma decide_allow:
  assumes "dc_kind (decide_effects level x) = Shell_allow"
    and "\<And>d. d \<in> set (in_rejections x) \<Longrightarrow> dc_kind d = Shell_reject"
  shows "in_rejections x = [] \<and> in_effects x \<subseteq> granted_effects level \<and> dc_effects (decide_effects level x) = in_effects x"
  using assms by (cases "in_rejections x") (auto simp: decide_effects_def Let_def denied_none split: if_splits)

definition rejections_only :: "inspection \<Rightarrow> bool" where
  "rejections_only x \<longleftrightarrow> (\<forall>d \<in> set (in_rejections x). dc_kind d = Shell_reject)"

lemma rejections_child: "rejections_only x \<Longrightarrow> child_effects judge c x = (es, y) \<Longrightarrow> rejections_only y"
  by (auto simp: rejections_only_def child_effects_def Let_def)

lemma rejections_updates [simp]: "rejections_only (add_effects es x) = rejections_only x"
  "rejections_only (x\<lparr>in_cwd := c\<rparr>) = rejections_only x" "rejections_only (x\<lparr>in_code := b\<rparr>) = rejections_only x"
  by (simp_all add: rejections_only_def add_effects_def)

lemma rejections_add_child: "rejections_only x \<Longrightarrow> rejections_only (add_child judge c x)"
  by (auto simp: add_child_def split: prod.split dest: rejections_child)

lemma rejections_find: "find_effects judge args es x = (r, y) \<Longrightarrow> rejections_only x \<Longrightarrow> rejections_only y"
proof (induction judge args es x rule: find_effects.induct)
  case (2 judge arg args es x)
  let ?body = "takeWhile (\<lambda>p. p \<notin> {'';'', ''+''}) args"
  let ?c = "Argv (map (\<lambda>p. if p = ''{}'' then ''./discovered-file'' else p) ?body)"
  consider "arg \<in> set FIND_VALUED" | "arg \<notin> set FIND_VALUED" "arg \<in> set FIND_PLAIN"
    | (exec) "arg \<notin> set FIND_VALUED" "arg \<notin> set FIND_PLAIN" "arg \<in> {''-exec'', ''-execdir''}"
    | "arg \<notin> set FIND_VALUED" "arg \<notin> set FIND_PLAIN" "arg \<notin> {''-exec'', ''-execdir''}" by blast
  then show ?case
  proof cases
    case exec
    show ?thesis
    proof (cases "?body = [] \<or> length ?body = length args")
      case True
      with exec "2.prems" show ?thesis by (simp add: Let_def)
    next
      case False
      obtain es' z where c: "child_effects judge ?c x = (es', z)" by (cases "child_effects judge ?c x")
      have "find_effects judge (drop (Suc (length ?body)) args) (es \<union> es') z = (r, y)"
        using "2.prems" exec False c unfolding find_effects.simps Let_def by (simp only: if_False if_True prod.case simp_thms)
      with "2.IH"(3) [OF exec refl False c [symmetric]] rejections_child [OF "2.prems"(2) c] show ?thesis by blast
    qed
  qed (use "2.prems" "2.IH"(1,2,4) in \<open>auto split: if_splits\<close>)
qed simp

lemma rejections_inspect:
  assumes "rejections_only x"
  shows "rejections_only (add_find judge argv x)" "rejections_only (add_declared M P name sp ps x)"
  using assms
  by (auto simp: add_find_def add_declared_def Let_def split: prod.split option.split dest: rejections_find)

lemma rejections_undeclared: "rejections_only x \<Longrightarrow> rejections_only (add_undeclared P judge argv stdin x)"
  unfolding add_undeclared_def Let_def by (simp add: rejections_add_child rejections_inspect split: option.split)

lemma rejections_literal: "rejections_only x \<Longrightarrow> rejections_only (add_literal M P judge state script argv stdin x)"
  unfolding add_literal_def Let_def
  by (simp add: rejections_add_child rejections_inspect rejections_undeclared split: option.split prod.split)

lemma rejections_tree: "rejections_only x \<Longrightarrow> rejections_only (inspect_tree M P judge state script t x)"
proof (induction t arbitrary: x)
  case (Syntax k ops src b cs argv asg rd i opq)
  have kids: "rejections_only (fold (inspect_tree M P judge state script) ds y)" if "set ds \<subseteq> set cs" "rejections_only y" for ds y
    using that by (induction ds arbitrary: y) (simp_all add: Syntax.IH)
  from Syntax.prems show ?case by (simp add: Let_def add_redirects_def kids add_words_def rejections_literal)
qed

lemma rejections_command: "rejections_only (inspect_command M P judge state cwd command)"
proof -
  have "rejections_only (fold (\<lambda>b. add_child judge (Script b)) bs x)" if "rejections_only x" for bs x
    using that by (induction bs arbitrary: x) (simp_all add: rejections_add_child)
  moreover have "rejections_only \<lparr>in_effects = {}, in_rejections = [], in_code = False, in_cwd = cwd\<rparr>"
    by (simp add: rejections_only_def)
  ultimately show ?thesis unfolding inspect_command_def Let_def by (simp add: rejections_tree)
qed

lemma inspect_command_below:
  "below (inspect_tree M P judge state (is_script command) (tree_of M command)
     \<lparr>in_effects = {}, in_rejections = [], in_code = False, in_cwd = cwd\<rparr>) (inspect_command M P judge state cwd command)"
  by (simp add: inspect_command_def Let_def below_fold_children)

lemma evaluate_allow:
  assumes "dc_kind (evaluate_within M P rules state n env cwd command) = Shell_allow"
  obtains m where "n = Suc m" "early_rejection M command = None" "rule_decision M P rules (Suc m) env state command = None"
    "in_rejections (inspect_command M P (evaluate_within M P rules state m []) state cwd command) = []"
    "in_effects (inspect_command M P (evaluate_within M P rules state m []) state cwd command) \<subseteq> granted_effects (pl_level P)"
    "dc_effects (evaluate_within M P rules state n env cwd command)
       = in_effects (inspect_command M P (evaluate_within M P rules state m []) state cwd command)"
proof (cases n)
  case 0
  with assms show ?thesis by (simp add: decided_def)
next
  case (Suc m)
  have early: "early_rejection M command = None"
    using assms Suc by (auto simp: early_rejection_def decided_def split: option.splits if_splits)
  have rule: "rule_decision M P rules (Suc m) env state command = None"
  proof (rule ccontr)
    assume "rule_decision M P rules (Suc m) env state command \<noteq> None"
    then obtain d where d: "rule_decision M P rules (Suc m) env state command = Some d" by blast
    then have "dc_kind d \<noteq> Shell_allow"
      by (auto simp: rule_decision_def Let_def decided_def env_keys_rejected_def env_deletion_rejected_def
          env_dangerous_def split: if_splits list.splits)
    with d assms Suc early show False by simp
  qed
  let ?x = "inspect_command M P (evaluate_within M P rules state m []) state cwd command"
  have eq: "evaluate_within M P rules state n env cwd command = decide_effects (pl_level P) ?x"
    using Suc early rule by simp
  from decide_allow [of "pl_level P" ?x] assms eq rejections_command [of M P "evaluate_within M P rules state m []" state cwd command]
  show ?thesis using that [OF Suc early rule] by (auto simp: rejections_only_def eq)
qed

text \<open>C20: A command that the policy allows without an approval has no syntax that hides what runs, names no deleting and no
  administrative program, uses only literal words (except in \<open>echo\<close> and the values of \<open>export\<close>) and literal targets of
  redirections, has effects of the approval level only, is not covered by a blocking rule, and leaves the
  dangerous variables alone.\<close>

theorem allowed_command_is_tame:
  assumes "dc_kind (evaluate_within M P rules state n env cwd command) = Shell_allow"
  shows "reasons_of (tree_of M command) = [] \<and> tame_tree (is_script command) (tree_of M command)
    \<and> dc_effects (evaluate_within M P rules state n env cwd command) \<subseteq> granted_effects (pl_level P)
    \<and> \<not> names_blocked rules (commands_within M n command)
    \<and> keys_allowed P (dict_keys env @ changed_keys (tree_of M command))
    \<and> \<not> list_ex dangerous_env_key (dict_keys env @ changed_keys (tree_of M command))"
proof -
  from evaluate_allow [OF assms] obtain m where m: "n = Suc m" "rule_decision M P rules (Suc m) env state command = None"
      "in_effects (inspect_command M P (evaluate_within M P rules state m []) state cwd command) \<subseteq> granted_effects (pl_level P)"
      "dc_effects (evaluate_within M P rules state n env cwd command)
         = in_effects (inspect_command M P (evaluate_within M P rules state m []) state cwd command)"
    by blast
  have "in_effects (inspect_command M P (evaluate_within M P rules state m []) state cwd command) \<inter> harmful = {}"
    using m(3) harmful_not_granted [of "pl_level P"] by blast
  from harmless_tree [OF below_harmless [OF inspect_command_below this]] m show ?thesis
    by (auto simp: rule_decision_def Let_def split: if_splits list.splits)
qed

text \<open>
  What a command runs, said without the policy: \<open>runs_in M n c ps\<close> holds when the command \<open>ps\<close> stands in \<open>c\<close>
  below \<open>n\<close> shells or wrappers.  A command of the parsed tree runs; so does one of the script that a shell is
  given with \<open>-c\<close> or in a here-document, one after a wrapper such as \<open>env\<close> or \<open>xargs\<close>, one behind
  \<open>uv run\<close>, and one that the scan of the raw text finds.
\<close>

definition NESTING_WRAPPERS :: "string list" where
  "NESTING_WRAPPERS = [''env'', ''command'', ''exec'', ''nohup'', ''nice'', ''xargs'']"

definition item_words :: "shell_tree \<Rightarrow> string list" where
  "item_words item = map (\<lambda>w. case wd_literal w of Some l \<Rightarrow> l | None \<Rightarrow> wd_raw w) (sy_argv item)"

definition command_of_tree :: "shell_machine \<Rightarrow> shell_command \<Rightarrow> string list \<Rightarrow> bool" where
  "command_of_tree M c ps \<longleftrightarrow> ps \<noteq> [] \<and> (\<exists>item \<in> set (commands_of (tree_of M c)). item_words item = ps)"

inductive runs_in :: "shell_machine \<Rightarrow> nat \<Rightarrow> shell_command \<Rightarrow> string list \<Rightarrow> bool" where
  runs_itself: "command_of_tree M c ps \<Longrightarrow> runs_in M 0 c ps"
| runs_scanned: "inspected_commands (sm_limit M) c = Inr found \<Longrightarrow> ps \<in> set found \<Longrightarrow> runs_in M 0 c ps"
| runs_script: "command_of_tree M c (shell # flag # script # operands) \<Longrightarrow>
    executable_name shell \<in> {''sh'', ''bash'', ''dash'', ''zsh''} \<Longrightarrow> flag \<in> {''-c'', ''-lc''} \<Longrightarrow>
    runs_in M n (Script script) ps \<Longrightarrow> runs_in M (Suc n) c ps"
| runs_document: "item \<in> set (commands_of (tree_of M c)) \<Longrightarrow> sy_stdin item \<Longrightarrow> sy_argv item \<noteq> [] \<Longrightarrow>
    wd_literal (hd (sy_argv item)) \<in> {Some ''sh'', Some ''bash'', Some ''dash'', Some ''zsh'',
      Some ''/bin/sh'', Some ''/bin/bash''} \<Longrightarrow>
    script \<in> set (bodies_of (tree_of M c)) \<Longrightarrow> runs_in M n (Script script) ps \<Longrightarrow> runs_in M (Suc n) c ps"
| runs_wrapped: "command_of_tree M c (wrapper # operands) \<Longrightarrow>
    wrapper \<in> set NESTING_WRAPPERS \<Longrightarrow> unwrap_command (wrapper # operands) = nested \<Longrightarrow>
    nested \<noteq> wrapper # operands \<Longrightarrow> nested \<noteq> [] \<Longrightarrow> runs_in M n (Argv nested) ps \<Longrightarrow> runs_in M (Suc n) c ps"
| runs_uv: "command_of_tree M c (''uv'' # ''run'' # options @ nested) \<Longrightarrow> set options \<subseteq> set UV_OPTIONS \<Longrightarrow>
    nested \<noteq> [] \<Longrightarrow> hd nested \<notin> set UV_OPTIONS \<Longrightarrow>
    runs_in M n (Argv nested) ps \<Longrightarrow> runs_in M (Suc n) c ps"

lemma collects_more: "set (add_missing extra result) = set extra \<union> set result"
  unfolding add_missing_def by (induction extra arbitrary: result) auto

lemma collects_scanned:
  "inspected_commands (sm_limit M) c = Inr found \<Longrightarrow> ps \<in> set found \<Longrightarrow> ps \<in> set (commands_within M (Suc n) c)"
  by (simp add: Let_def collects_more)

lemma collects_item:
  assumes "item \<in> set (commands_of (tree_of M c))" "item_words item = parts" "parts \<noteq> []"
    and "ps = parts \<or> (\<exists>d. nested_command parts = Some d \<and> ps \<in> set (commands_within M n d))"
  shows "ps \<in> set (commands_within M (Suc n) c)"
  using assms
  by (auto simp: Let_def collects_more item_words_def split: sum.split option.splits)

lemma collects_body:
  assumes "script \<in> set (shell_bodies (tree_of M c))" "ps \<in> set (commands_within M n (Script script))"
  shows "ps \<in> set (commands_within M (Suc n) c)"
  using assms by (auto simp: Let_def collects_more split: sum.split)

lemma nested_script:
  "executable_name shell \<in> {''sh'', ''bash'', ''dash'', ''zsh''} \<Longrightarrow> flag \<in> {''-c'', ''-lc''} \<Longrightarrow>
     nested_command (shell # flag # script # operands) = Some (Script script)"
  by (auto simp: nested_command_def)

lemma uv_nested:
  assumes "set options \<subseteq> set UV_OPTIONS" "nested \<noteq> []" "hd nested \<notin> set UV_OPTIONS"
  shows "dropWhile (\<lambda>p. p \<in> set UV_OPTIONS) (options @ nested) = nested"
  using assms by (cases nested) (auto simp: dropWhile_append)

lemma no_shells:
  "list_all (\<lambda>w. executable_name w \<notin> {''sh'', ''bash'', ''dash'', ''zsh''}) (''uv'' # NESTING_WRAPPERS)"
  by code_simp

lemma uv_no_wrapper: "''uv'' \<notin> {''env'', ''command'', ''exec'', ''nohup'', ''nice'', ''xargs''}"
  by simp

lemma nested_wrapped:
  assumes "wrapper \<in> set NESTING_WRAPPERS"
    and "unwrap_command (wrapper # operands) = nested" "nested \<noteq> wrapper # operands" "nested \<noteq> []"
  shows "nested_command (wrapper # operands) = Some (Argv nested)"
proof -
  have shell: "executable_name wrapper \<notin> {''sh'', ''bash'', ''dash'', ''zsh''}"
    using no_shells assms(1) unfolding list_all_iff list.set by blast
  have wrapper: "wrapper \<in> {''env'', ''command'', ''exec'', ''nohup'', ''nice'', ''xargs''}"
    using assms(1) unfolding NESTING_WRAPPERS_def by (simp only: list.set)
  from assms(2-4) show ?thesis
    by (simp only: nested_command_def list.sel shell wrapper if_True if_False simp_thms Let_def)
qed

lemma nested_uv:
  assumes "set options \<subseteq> set UV_OPTIONS" "nested \<noteq> []" "hd nested \<notin> set UV_OPTIONS"
  shows "nested_command (''uv'' # ''run'' # options @ nested) = Some (Argv nested)"
proof -
  have shell: "executable_name ''uv'' \<notin> {''sh'', ''bash'', ''dash'', ''zsh''}"
    using no_shells unfolding list_all_iff list.set by blast
  have two: "take 2 (''uv'' # ''run'' # options @ nested) = [''uv'', ''run'']"
    "drop 2 (''uv'' # ''run'' # options @ nested) = options @ nested" by simp_all
  show ?thesis
    by (simp only: nested_command_def list.sel shell uv_no_wrapper two if_True if_False simp_thms Let_def
        uv_nested [OF assms] assms(2))
qed

lemma collects_what_runs: "runs_in M n c ps \<Longrightarrow> n < m \<Longrightarrow> ps \<in> set (commands_within M m c)"
proof (induction arbitrary: m rule: runs_in.induct)
  case (runs_itself M c ps)
  then obtain k where "m = Suc k" by (cases m) auto
  with runs_itself.hyps show ?case by (auto simp only: command_of_tree_def intro: collects_item)
next
  case (runs_scanned M c found ps)
  then obtain k where "m = Suc k" by (cases m) auto
  with runs_scanned show ?case by (auto simp only: intro: collects_scanned)
next
  case (runs_script M c shell flag script operands n ps)
  then obtain k where k: "m = Suc k" "n < k" by (cases m) auto
  from nested_script [OF runs_script.hyps(2,3)] runs_script.IH [OF k(2)] runs_script.hyps(1) show ?case
    unfolding k(1) command_of_tree_def by (blast intro: collects_item)
next
  case (runs_document item M c script n ps)
  then obtain k where k: "m = Suc k" "n < k" by (cases m) auto
  have "script \<in> set (shell_bodies (tree_of M c))"
    using runs_document.hyps by (auto simp: shell_bodies_def list_ex_iff)
  from collects_body [OF this runs_document.IH [OF k(2)]] show ?case unfolding k(1) .
next
  case (runs_wrapped M c wrapper operands nested n ps)
  then obtain k where k: "m = Suc k" "n < k" by (cases m) auto
  note nested_wrapped [OF runs_wrapped.hyps(2-5)]
  with runs_wrapped.IH [OF k(2)] runs_wrapped.hyps(1) show ?case
    unfolding k(1) command_of_tree_def by (blast intro: collects_item)
next
  case (runs_uv M c options nested n ps)
  then obtain k where k: "m = Suc k" "n < k" by (cases m) auto
  note nested_uv [OF runs_uv.hyps(2-4)]
  with runs_uv.IH [OF k(2)] runs_uv.hyps(1) show ?case
    unfolding k(1) command_of_tree_def by (blast intro: collects_item)
qed

text \<open>C21: A blocking rule is absolute.  Whatever the level of approval, the environment, the session and the
  trusted commands: when a command that begins with the words of a rule runs in the given one, directly,
  in a nested script, in a here-document for a shell, or behind a wrapper, up to sixteen of them deep, then
  the policy refuses, and no approval can change that.\<close>

theorem blocked_command_is_refused:
  assumes "sm_dialect M = Dialect_POSIX" "parse_rules Dialect_POSIX (pl_blocked P) = Inr rules"
    and "runs_in M n command parts" "n \<le> 16" "rule \<in> set rules" "rule \<noteq> []" "take (length rule) parts = rule"
  shows "\<exists>d. evaluate_command M P env state cwd command = Inr d \<and> dc_kind d = Shell_reject"
proof -
  have "parts \<in> set (commands_within M 17 command)"
    using assms(4) by (intro collects_what_runs [OF assms(3)]) simp
  with assms(5-7) have blocked: "names_blocked rules (commands_within M 17 command)"
    by (auto simp: names_blocked_def list_ex_iff simp del: commands_within.simps)
  show ?thesis
  proof (cases "early_rejection M command")
    case (Some d)
    then have "dc_kind d = Shell_reject" by (auto simp: early_rejection_def decided_def split: if_splits)
    with Some assms(1) show ?thesis by (simp add: evaluate_command_def evaluate_posix_def)
  next
    case None
    have "evaluate_within M P rules state (Suc 16) env cwd command
        = decided Shell_reject ''The command is blocked by a configured command rule''"
      using None blocked by (simp only: evaluate_within.simps option.case rule_decision_def Let_def if_True simp_thms
          numeral_eq_Suc pred_numeral_simps BitM.simps)
    with None assms(1,2) show ?thesis
      by (simp add: evaluate_command_def evaluate_posix_def as_value_error_def decided_def)
  qed
qed

section \<open>Levels\<close>

text \<open>The judge of nested commands is seen through what \<open>child_effects\<close> takes from it.\<close>

definition judged :: "shell_decision \<Rightarrow> shell_effect set \<times> bool \<times> shell_decision list" where
  "judged d = (decision_effects d, dc_stdin_is_code d, if dc_kind d = Shell_reject then [d] else [])"

lemma child_effects_judged:
  "child_effects j c x = (case judged (j (in_cwd x) c) of (es, code, rejected) \<Rightarrow>
     (es, x\<lparr>in_code := (in_code x \<or> code), in_rejections := in_rejections x @ rejected\<rparr>))"
  by (simp add: child_effects_def judged_def Let_def)

definition same_judge :: "judge \<Rightarrow> judge \<Rightarrow> bool" where
  "same_judge j k \<longleftrightarrow> child_effects j = child_effects k"

lemma same_judgeI: "(\<And>cwd c. judged (j cwd c) = judged (k cwd c)) \<Longrightarrow> same_judge j k"
  by (simp add: same_judge_def fun_eq_iff child_effects_judged)

lemma same_add_child: "same_judge j k \<Longrightarrow> add_child j = add_child k"
  by (simp add: same_judge_def fun_eq_iff add_child_def)

lemma same_find_effects:
  assumes "same_judge j k"
  shows "find_effects j args es x = find_effects k args es x"
proof (induction args arbitrary: es x rule: length_induct)
  case (1 args)
  have c: "child_effects j = child_effects k" using assms by (simp add: same_judge_def)
  show ?case
    by (cases args) (auto simp: Let_def c "1.IH" split: prod.split)
qed

lemma same_undeclared: "same_judge j k \<Longrightarrow> add_undeclared P j = add_undeclared P k"
  by (simp only: fun_eq_iff add_undeclared_def add_find_def Let_def same_add_child [of j k] same_find_effects [of j k] simp_thms)

text \<open>The level does not enter before the decision.\<close>

lemma level_fields:
  "pl_root (P\<lparr>pl_level := l\<rparr>) = pl_root P" "pl_trusted (P\<lparr>pl_level := l\<rparr>) = pl_trusted P"
  "pl_allowed_env_keys (P\<lparr>pl_level := l\<rparr>) = pl_allowed_env_keys P"
  by simp_all

lemma level_paths:
  "writes_inside M (P\<lparr>pl_level := l\<rparr>) = writes_inside M P"
  "trusted_wildcard (P\<lparr>pl_level := l\<rparr>) = trusted_wildcard P"
  "keys_allowed (P\<lparr>pl_level := l\<rparr>) = keys_allowed P"
  by (simp_all only: fun_eq_iff writes_inside_def trusted_wildcard_def keys_allowed_def level_fields simp_thms)

lemma level_effects:
  "declared_effect M (P\<lparr>pl_level := l\<rparr>) = declared_effect M P"
  "redirect_effect M (P\<lparr>pl_level := l\<rparr>) = redirect_effect M P"
  by (simp_all only: fun_eq_iff declared_effect_def redirect_effect_def level_paths simp_thms)

lemma level_independent:
  "base_executable M (P\<lparr>pl_level := l\<rparr>) = base_executable M P"
  "add_declared M (P\<lparr>pl_level := l\<rparr>) = add_declared M P"
  "add_undeclared (P\<lparr>pl_level := l\<rparr>) = add_undeclared P"
  "add_redirects M (P\<lparr>pl_level := l\<rparr>) = add_redirects M P"
  "rule_decision M (P\<lparr>pl_level := l\<rparr>) = rule_decision M P"
  by (simp_all only: fun_eq_iff base_executable_def add_declared_def add_undeclared_def add_redirects_def
      rule_decision_def level_fields level_paths level_effects simp_thms)

lemma same_literal: "same_judge j k \<Longrightarrow> add_literal M (P\<lparr>pl_level := l\<rparr>) j = add_literal M P k"
  by (simp only: fun_eq_iff add_literal_def level_independent same_add_child [of j k] same_undeclared [of j k] simp_thms)

lemma same_tree:
  assumes "same_judge j k"
  shows "inspect_tree M (P\<lparr>pl_level := l\<rparr>) j state script t x = inspect_tree M P k state script t x"
proof (induction t arbitrary: x)
  case (Syntax kd ops src b cs argv asg rd i opq)
  have "fold (inspect_tree M (P\<lparr>pl_level := l\<rparr>) j state script) cs y = fold (inspect_tree M P k state script) cs y" for y
    by (rule fold_cong) (auto simp: Syntax.IH)
  then show ?case by (simp add: Let_def level_independent add_words_def same_literal [OF assms])
qed

lemma same_command:
  assumes "same_judge j k"
  shows "inspect_command M (P\<lparr>pl_level := l\<rparr>) j state cwd command = inspect_command M P k state cwd command"
proof -
  have "fold (\<lambda>b. add_child j (Script b)) bs x = fold (\<lambda>b. add_child k (Script b)) bs x" for bs x
    by (induction bs arbitrary: x) (simp_all add: same_add_child [OF assms])
  then show ?thesis by (simp add: inspect_command_def Let_def same_tree [OF assms])
qed

lemma judged_levels:
  "judged (evaluate_within M (P\<lparr>pl_level := l\<rparr>) rules state n env cwd command)
     = judged (evaluate_within M P rules state n env cwd command)"
proof (induction n arbitrary: env cwd command)
  case 0
  show ?case by simp
next
  case (Suc n)
  have "same_judge (evaluate_within M (P\<lparr>pl_level := l\<rparr>) rules state n []) (evaluate_within M P rules state n [])"
    by (rule same_judgeI) (rule Suc.IH)
  note cmd = same_command [OF this, where M = M and P = P and l = l and state = state and cwd = cwd and command = command]
  have decide: "judged (decide_effects l1 x) = judged (decide_effects l2 x)" if "rejections_only x" for l1 l2 x
    using that
    by (cases "in_rejections x")
      (auto simp: judged_def decide_effects_def decision_effects_def Let_def rejections_only_def filter_empty_conv)
  show ?case
    by (simp add: level_independent cmd split: option.split) (blast intro: decide rejections_command)
qed

text \<open>C22: A higher level of approval only allows more: a command that is allowed at a level is allowed, with the same
  effects, at every level that grants its effects, and a refusal does not depend on the level.\<close>

theorem approval_levels_monotone:
  assumes "granted_effects (pl_level P) \<subseteq> granted_effects l"
    and "dc_kind (evaluate_within M P rules state n env cwd command) = Shell_allow"
  shows "evaluate_within M (P\<lparr>pl_level := l\<rparr>) rules state n env cwd command
    = evaluate_within M P rules state n env cwd command"
proof -
  from evaluate_allow [OF assms(2)] obtain m where m: "n = Suc m" "early_rejection M command = None"
      "rule_decision M P rules (Suc m) env state command = None"
      "in_rejections (inspect_command M P (evaluate_within M P rules state m []) state cwd command) = []"
      "in_effects (inspect_command M P (evaluate_within M P rules state m []) state cwd command) \<subseteq> granted_effects (pl_level P)"
    by blast
  have "same_judge (evaluate_within M (P\<lparr>pl_level := l\<rparr>) rules state m []) (evaluate_within M P rules state m [])"
    by (rule same_judgeI) (rule judged_levels)
  note cmd = same_command [OF this, where M = M and P = P and l = l and state = state and cwd = cwd and command = command]
  from m(5) assms(1) have "in_effects (inspect_command M P (evaluate_within M P rules state m []) state cwd command)
      \<subseteq> granted_effects l" by blast
  with m show ?thesis
    by (simp add: level_independent cmd decide_effects_def Let_def denied_none)
qed

section \<open>An example\<close>

definition demo_machine :: shell_machine where
  "demo_machine = \<lparr>sm_parser = \<lambda>_. (Ts_node ''program'' [] None True [], True), sm_tree_limit = 100, sm_limit = 50,
     sm_dialect = Dialect_POSIX, sm_resolve = id, sm_is_dir = \<lambda>_. False, sm_is_file = \<lambda>_. False,
     sm_is_program = \<lambda>_. False, sm_which = \<lambda>n. Some (''/usr/bin/'' @ n), sm_search_path = [''/usr/bin'']\<rparr>"

definition demo_shell_policy :: shell_policy where
  "demo_shell_policy = \<lparr>pl_level = Level_READ_ONLY, pl_trusted = [], pl_blocked = [''git push''], pl_root = (1, [''work'']),
     pl_allowed_env_keys = None\<rparr>"

lemma argument_tree: "ps \<noteq> [] \<Longrightarrow> commands_of (tree_of M (Argv ps)) = [argument_vector ps]"
  "shell_bodies (tree_of M (Argv ps)) = []" "reasons_of (tree_of M (Argv ps)) = []"
  by (simp_all add: tree_of_def parse_script_def argument_vector_def shell_bodies_def)

lemma plain_commands:
  assumes "ps \<noteq> []" "nested_command ps = None" "inspected_commands (sm_limit M) (Argv ps) = Inr [ps]"
  shows "commands_within M (Suc n) (Argv ps) = [ps]"
  using assms by (simp add: argument_tree Let_def argument_vector_def add_missing_def comp_def)

lemma demo_parts:
  "nested_command [''true''] = None" "inspected_commands 50 (Argv [''true'']) = Inr [[''true'']]"
  "literal_command_reason 50 (Argv [''true'']) Dialect_POSIX = None" "may_delete 50 (Argv [''true'']) Dialect_POSIX = False"
  "spec_key [''true''] = ''true''" "reads_code [''true''] = False"
  "Option.bind (dict_get SPECS ''true'') (\<lambda>sp. map_option (Pair sp) (arguments sp (spec_arguments [''true''])))
     = Some (spec [] [] (Some 0) Effect_READ [], [])"
  "base_executable demo_machine demo_shell_policy ''true'' None False (1, [''work'']) = True"
  "''true'' \<notin> set DELETE_COMMANDS" "''true'' \<notin> set SYSTEM_COMMANDS"
  by code_simp+

lemma demo_machine_fields [simp]: "sm_limit demo_machine = 50" "pl_level demo_shell_policy = Level_READ_ONLY"
  "pl_allowed_env_keys demo_shell_policy = None"
  by (simp_all add: demo_machine_def demo_shell_policy_def)

lemma demo_commands: "commands_within demo_machine (Suc n) (Argv [''true'']) = [[''true'']]"
  by (rule plain_commands) (simp_all add: demo_parts del: inspected_commands.simps)

lemma demo_rule: "rule_decision demo_machine demo_shell_policy [] (Suc n) [] None (Argv [''true'']) = None"
  by (simp add: rule_decision_def Let_def demo_commands names_blocked_def mentions_command_def keys_allowed_def dict_keys_def
      argument_tree changed_keys_def argument_vector_def literal_or_raw_def demo_parts del: commands_within.simps)

lemma demo_true: "dc_kind (evaluate_within demo_machine demo_shell_policy [] None (Suc n) [] (1, [''work''])
    (Argv [''true''])) = Shell_allow"
proof -
  have early: "early_rejection demo_machine (Argv [''true'']) = None"
    by (simp add: early_rejection_def argument_tree demo_parts)
  have "inspect_command demo_machine demo_shell_policy judge None (1, [''work'']) (Argv [''true''])
      = \<lparr>in_effects = {Effect_READ}, in_rejections = [], in_code = False, in_cwd = (1, [''work''])\<rparr>" for judge
    by (simp add: inspect_command_def argument_tree Let_def del: One_nat_def)
      (simp add: tree_of_def parse_script_def argument_vector_def add_redirects_def add_words_def add_literal_def Let_def
        demo_parts is_script_def add_effects_def add_declared_def declared_effect_def write_targets_def spec_def del: One_nat_def)
  with early demo_rule [of n] show ?thesis
    by (simp add: decide_effects_def Let_def denied_none granted_effects_def)
qed

theorem allowed_command_is_tame_witness:
  "tame_tree False (tree_of demo_machine (Argv [''true'']))
   \<and> \<not> names_blocked [] (commands_within demo_machine 17 (Argv [''true'']))"
  using allowed_command_is_tame [OF demo_true [of 16]] by (simp add: is_script_def)

theorem blocked_command_is_refused_witness:
  "\<exists>d. evaluate_command demo_machine demo_shell_policy [] None (1, [''work''])
       (Argv [''nohup'', ''env'', ''A=1'', ''git'', ''push'', ''origin'']) = Inr d
     \<and> dc_kind d = Shell_reject"
proof (rule blocked_command_is_refused)
  show "sm_dialect demo_machine = Dialect_POSIX" by (simp add: demo_machine_def)
  show "parse_rules Dialect_POSIX (pl_blocked demo_shell_policy) = Inr [[''git'', ''push'']]" by code_simp
  have itself: "command_of_tree M (Argv ps) ps" if "ps \<noteq> []" for M ps
    using that by (simp add: command_of_tree_def argument_tree item_words_def argument_vector_def comp_def)
  have "unwrap_command [''nohup'', ''env'', ''A=1'', ''git'', ''push'', ''origin''] = [''git'', ''push'', ''origin'']"
    by code_simp
  moreover have "''nohup'' \<in> set NESTING_WRAPPERS" by (simp add: NESTING_WRAPPERS_def)
  ultimately show "runs_in demo_machine (Suc 0) (Argv [''nohup'', ''env'', ''A=1'', ''git'', ''push'', ''origin''])
      [''git'', ''push'', ''origin'']"
    by (intro runs_wrapped [OF itself _ _ _ _ runs_itself [OF itself]]) simp_all
  show "take (length [''git'', ''push'']) [''git'', ''push'', ''origin''] = [''git'', ''push'']" by simp
  show "[''git'', ''push''] \<in> set [[''git'', ''push'']]" by simp
qed simp_all

theorem approval_levels_monotone_witness:
  "evaluate_within demo_machine (demo_shell_policy\<lparr>pl_level := Level_TRUSTED_DEV\<rparr>) [] None (Suc 16) []
     (1, [''work'']) (Argv [''true''])
   = evaluate_within demo_machine demo_shell_policy [] None (Suc 16) [] (1, [''work'']) (Argv [''true''])"
  by (rule approval_levels_monotone [OF _ demo_true [of 16]]) (simp add: granted_effects_def demo_shell_policy_def)

end
