(* ===== verification/ShellTextFacts.thy ===== *)
theory ShellTextFacts
  imports ShellReasons
begin

text \<open>
  What holds of the reading of scripts: here-documents are taken out without moving a line, the lexer reads back
  what is quoted, and a deletion that is not refused names its paths.
\<close>

section \<open>Lines\<close>

lemma split_char_not_empty [simp]: "split_char c s \<noteq> []"
  by (induction s) (auto split: list.split)

lemma split_char_no_sep: "l \<in> set (split_char c s) \<Longrightarrow> c \<notin> set l"
  by (induction s arbitrary: l) (auto split: list.splits if_splits)

lemma split_char_single: "c \<notin> set s \<Longrightarrow> split_char c s = [s]"
  by (induction s) auto

lemma split_char_append: "c \<notin> set s \<Longrightarrow> split_char c (s @ c # t) = s # split_char c t"
  by (induction s) auto

lemma lines_of_unlines: "ls \<noteq> [] \<Longrightarrow> (\<And>l. l \<in> set ls \<Longrightarrow> newline \<notin> set l) \<Longrightarrow> lines_of (unlines ls) = ls"
proof (induction ls)
  case (Cons l ls)
  then show ?case
    by (cases ls) (auto simp: lines_of_def unlines_def split_char_single split_char_append)
qed simp

lemma cut_spans_no_newline: "newline \<notin> set l \<Longrightarrow> newline \<notin> set (foldr cut_span hs l)"
  by (induction hs) (auto simp: cut_span_def newline_def dest: in_set_takeD in_set_dropD)

lemma here_bodies_suffix: "here_body h b n ls = Inr (b', m, r) \<Longrightarrow> set r \<subseteq> set ls"
  by (induction h b n ls rule: here_body.induct) (fastforce simp: Let_def split: if_splits)+

lemma here_bodies_subset: "here_bodies header hs ls = Inr (docs, m, r) \<Longrightarrow> set r \<subseteq> set ls"
  by (induction header hs ls arbitrary: docs m r rule: here_bodies.induct)
    (fastforce simp: bind_e_eq_Inr dest: here_bodies_suffix)+

lemma heredoc_lines_shape:
  assumes "heredoc_lines q ls = Inr (out, docs)"
  shows "length out = length ls \<and> ((\<forall>l \<in> set ls. newline \<notin> set l) \<longrightarrow> (\<forall>l \<in> set out. newline \<notin> set l))"
  using assms
proof (induction q ls arbitrary: out docs rule: heredoc_lines.induct)
  case (2 q line ls)
  from "2.prems" obtain x ds n rest out' docs' where x: "headers line q = Inr x"
      "\<not> (hd_spans x \<noteq> [] \<and> (hd_quote x \<noteq> None \<or> hd_continued x \<or> hd_compound x))"
      "here_bodies (foldr cut_span (hd_spans x) line) (hd_spans x) ls = Inr (ds, n, rest)"
      "heredoc_lines (hd_quote x) rest = Inr (out', docs')"
      "out = foldr cut_span (hd_spans x) line # replicate n [] @ out'"
    by (simp add: heredoc_lines.simps(2) Let_def split: sum.splits if_splits prod.splits)
  from "2.IH" [OF x(1,2) refl x(3) refl refl x(4)] here_bodies_rest [OF x(3)] here_bodies_subset [OF x(3)] x(5)
  show ?case by (auto simp: cut_spans_no_newline)
qed simp

text \<open>Taking out the here-documents keeps every line in its place: the text that is inspected has exactly as many
  lines as the script.\<close>

theorem heredocs_keep_lines:
  assumes "parse_quoted_heredocs script = Inr parsed"
  shows "length (lines_of (ss_text parsed)) = length (lines_of script)"
proof -
  from assms obtain out docs where out: "heredoc_lines None (lines_of script) = Inr (out, docs)" "ss_text parsed = unlines out"
    by (auto simp: parse_quoted_heredocs_def bind_e_eq_Inr)
  have "\<forall>l \<in> set (lines_of script). newline \<notin> set l" by (auto simp: lines_of_def dest: split_char_no_sep)
  with heredoc_lines_shape [OF out(1)] have shape: "length out = length (lines_of script)" "\<forall>l \<in> set out. newline \<notin> set l"
    by auto
  then have "out \<noteq> []" by (auto simp: lines_of_def)
  with shape out(2) lines_of_unlines [of out] show ?thesis by simp
qed

section \<open>Tokens\<close>

definition single_quoted :: "string \<Rightarrow> string" where
  "single_quoted w = quote1 # w @ [quote1]"

lemma lex_quoted:
  "quote1 \<notin> set w \<Longrightarrow> lex punct esc (Lex_quote quote1) token quoted (w @ quote1 # rest) = lex punct esc Lex_word (token @ w) True rest"
  by (induction w arbitrary: token quoted) (auto simp: quote1_def quote2_def)

lemma lex_single_quoted:
  assumes "quote1 \<notin> set w" "\<not> esc quote1" "\<not> punct quote1"
  shows "lex punct esc Lex_blank [] False (single_quoted w @ rest) = lex punct esc Lex_word w True rest"
  using lex_quoted [OF assms(1), of punct esc "[]" False rest] assms(2,3)
  by (simp add: single_quoted_def lex_start_def lex_space_def quote1_def tab_def newline_def)

text \<open>The lexer reads back what is quoted: words in single quotes, with blanks between them, are the words.\<close>

theorem shlex_reads_quoted_words:
  assumes "\<And>w. w \<in> set ws \<Longrightarrow> quote1 \<notin> set w"
  shows "shlex_split (join '' '' (map single_quoted ws)) = Inr ws"
proof -
  have no: "\<not> quote1 = back_slash" by (simp add: quote1_def back_slash_def)
  have "lex (\<lambda>_. False) (\<lambda>c. c = back_slash) Lex_blank [] False (join '' '' (map single_quoted ws)) = Inr ws"
    using assms
  proof (induction ws)
    case (Cons w ws)
    then have w: "quote1 \<notin> set w" by simp
    note read = lex_single_quoted [OF w, of "\<lambda>c. c = back_slash" "\<lambda>_. False"]
    show ?case
    proof (cases ws)
      case Nil
      then show ?thesis using read [of "[]"] no by (simp add: emit_def)
    next
      case (Cons v vs)
      have "lex_space CHR 0x20" by (simp add: lex_space_def)
      then show ?thesis using read [of "CHR 0x20 # join '' '' (map single_quoted ws)"] no Cons Cons.IH Cons.prems
        by (simp add: emit_def)
    qed
  qed (simp add: emit_def)
  then show ?thesis by (simp add: shlex_split_def)
qed

section \<open>Deletion\<close>

lemma inspected_deletion:
  assumes "parts \<noteq> []" "is_deletion (hd parts)" "\<not> assignment_word (hd parts)"
  shows "inspected_commands (Suc l) (Argv parts) = Inr [parts]"
proof -
  have sets: "name \<in> set DELETE_COMMANDS \<Longrightarrow> name \<notin> set WRAPPERS \<and> name \<noteq> ''find'' \<and> name \<notin> set SHELL_COMMANDS" for name
    by (auto simp: DELETE_COMMANDS_def WRAPPERS_def SHELL_COMMANDS_def)
  obtain p ps where p: "parts = p # ps" using assms(1) by (cases parts) auto
  have name: "executable_name p \<in> set DELETE_COMMANDS" using assms(2) p by (simp add: is_deletion_def)
  have "unwrap_command parts = parts"
    using assms(3) p sets [OF name] by (simp add: unwrap_command_def)
  with p sets [OF name] show ?thesis by (simp add: inspect_parts_def Let_def)
qed

text \<open>A deletion that the policy does not refuse outright names at least one path, and no empty one.\<close>

theorem deletion_names_paths:
  assumes "literal_command_reason limit (Argv parts) d = None" "limit > 0"
    and "parts \<noteq> []" "is_deletion (hd parts)" "\<not> assignment_word (hd parts)"
  shows "list_ex (\<lambda>t. t \<noteq> []) (deletion_targets parts) \<and> [] \<notin> set (tl parts)"
proof -
  obtain l where l: "limit = Suc l" using assms(2) by (cases limit) auto
  note ins = inspected_deletion [OF assms(3,4,5), of l]
  have name: "executable_name (hd parts) \<in> set DELETE_COMMANDS" using assms(4) by (simp add: is_deletion_def)
  have "deletes_within limit (Suc n) (Argv parts)" for n
    using name by (simp add: l ins parts_delete_def del: inspected_commands.simps)
  from this [of 16] have "contains_deletion limit (Argv parts)" by (simp add: contains_deletion_def)
  then have may: "may_delete limit (Argv parts) d" by (simp add: may_delete_def l ins del: inspected_commands.simps)
  have "literal_within limit (Suc n) d (Argv parts) = None \<Longrightarrow> deletion_reason limit d False parts = None" for n
    using may by (auto simp: l ins is_script_def simp del: inspected_commands.simps split: option.splits)
  from this [of 16] assms(1) have "deletion_reason limit d False parts = None" by (simp add: literal_command_reason_def)
  with name show ?thesis by (simp add: deletion_reason_def Let_def split: if_splits)
qed

text \<open>Concrete scripts.\<close>

theorem heredocs_keep_lines_witness:
  "\<exists>parsed. parse_quoted_heredocs (unlines [''cat <<'' @ [quote1] @ ''E'' @ [quote1], ''hello'', ''E'', ''ls'']) = Inr parsed
     \<and> length (lines_of (ss_text parsed)) = 4"
proof -
  let ?s = "unlines [''cat <<'' @ [quote1] @ ''E'' @ [quote1], ''hello'', ''E'', ''ls'']"
  have "\<not> isl (parse_quoted_heredocs ?s)" by code_simp
  then obtain parsed where p: "parse_quoted_heredocs ?s = Inr parsed" by (cases "parse_quoted_heredocs ?s") auto
  have "length (lines_of ?s) = 4" by code_simp
  with heredocs_keep_lines [OF p] p show ?thesis by auto
qed

theorem shlex_reads_quoted_words_witness:
  "shlex_split (join '' '' (map single_quoted [''rm'', ''a b;c''])) = Inr [''rm'', ''a b;c'']"
  by (rule shlex_reads_quoted_words) (auto simp: quote1_def)

theorem deletion_names_paths_witness:
  "list_ex (\<lambda>t. t \<noteq> []) (deletion_targets [''rm'', ''-r'', ''build'']) \<and> [] \<notin> set (tl [''rm'', ''-r'', ''build''])"
proof (rule deletion_names_paths)
  show "literal_command_reason 5 (Argv [''rm'', ''-r'', ''build'']) Dialect_POSIX = None" by code_simp
  show "(5 :: nat) > 0" by simp
  show "is_deletion (hd [''rm'', ''-r'', ''build''])" by code_simp
  show "\<not> assignment_word (hd [''rm'', ''-r'', ''build''])" by code_simp
qed simp

end
