(* ===== verification/Sandbox.thy ===== *)
theory Sandbox
  imports Paths "HOL-Library.Sublist"
begin

text \<open>
  The sandbox for processes (\<open>core/schema/sandbox.py\<close>, \<open>core/domain/sandbox.py\<close>): what a request to execute
  asks for, the policy that decides on it, and the bounded record of what the process writes
  (\<open>infra/adapters/sandbox/output.py\<close>) with the side channel (\<open>process.py\<close>).

  The two streams of a process are read by two tasks, so their pieces arrive in any interleaving; a piece is what the
  incremental decoder returns for a chunk, and the decoder is an argument.  Texts are lists over any type of characters.
\<close>

section \<open>Requests\<close>

datatype sandbox_access = Access_READ_ONLY | Access_READ_WRITE

datatype network_mode = Network_DISABLED | Network_ALLOWLIST | Network_UNRESTRICTED

datatype output_stream = Stream_STDOUT | Stream_STDERR

record sandbox_mount =
  mt_host_path :: string
  mt_mount_path :: string
  mt_access :: sandbox_access
  mt_metadata :: metadata

record network_rule =
  nr_host :: string
  nr_port :: "int option"
  nr_metadata :: metadata

record resource_limits =
  rl_timeout_seconds :: rat
  rl_max_output_chars :: int
  rl_memory_bytes :: "int option"
  rl_max_processes :: "int option"
  rl_cpu_seconds :: "int option"
  rl_file_size_bytes :: "int option"
  rl_temporary_storage_bytes :: "int option"
  rl_metadata :: metadata

record sandbox_policy =
  xp_command_allowlist :: "string list"
  xp_filesystem_mounts :: "sandbox_mount list"
  xp_network_mode :: network_mode
  xp_network_allowlist :: "network_rule list"
  xp_allowed_env_keys :: "string list option"
  xp_resource_limits :: resource_limits
  xp_metadata :: metadata

record sandbox_command =
  xc_command :: "string list"
  xc_cwd :: "string option"
  xc_env :: "(string, string) dict"
  xc_stdin :: "string option"
  xc_timeout_seconds :: "rat option"
  xc_side_channel :: bool
  xc_metadata :: metadata

record sandbox_request =
  xr_request_id :: string
  xr_command :: sandbox_command
  xr_policy :: sandbox_policy
  xr_metadata :: metadata

record sandbox_decision =
  xd_allowed :: bool
  xd_reason :: "string option"
  xd_metadata :: metadata

definition SANDBOX_SIDE_CHANNEL_FD_ENV :: string where
  "SANDBOX_SIDE_CHANNEL_FD_ENV = ''EVERNIGHT_SIDE_CHANNEL_FD''"

definition SANDBOX_SIDE_CHANNEL_MAX_BYTES :: nat where
  "SANDBOX_SIDE_CHANNEL_MAX_BYTES = 1000000"

text \<open>The bounds that the fields of the schema declare.\<close>

definition limits_ok :: "resource_limits \<Rightarrow> bool" where
  "limits_ok l \<longleftrightarrow> 0 < rl_timeout_seconds l \<and> 0 < rl_max_output_chars l
     \<and> list_all (\<lambda>v. case v of None \<Rightarrow> True | Some n \<Rightarrow> 0 < n)
         [rl_memory_bytes l, rl_max_processes l, rl_cpu_seconds l, rl_file_size_bytes l, rl_temporary_storage_bytes l]"

definition sandbox_request_ok :: "sandbox_request \<Rightarrow> bool" where
  "sandbox_request_ok r \<longleftrightarrow> xc_command (xr_command r) \<noteq> [] \<and> limits_ok (xp_resource_limits (xr_policy r))"

section \<open>The basic policy\<close>

definition normalize_sandbox_path :: "string \<Rightarrow> posix_path" where
  "normalize_sandbox_path s = (let p = posix_path s in if fst p = 0 then path_join (1, []) p else p)"

definition is_allowed_cwd :: "string \<Rightarrow> string list \<Rightarrow> bool" where
  "is_allowed_cwd cwd mounts \<longleftrightarrow>
     mounts \<noteq> [] \<and> list_ex (\<lambda>m. path_within (normalize_sandbox_path cwd) (normalize_sandbox_path m)) mounts"

definition sandbox_refusal :: "string \<Rightarrow> sandbox_decision" where
  "sandbox_refusal r = \<lparr>xd_allowed = False, xd_reason = Some r, xd_metadata = []\<rparr>"

definition blocked_env_keys :: "string list \<Rightarrow> (string, string) dict \<Rightarrow> string list" where
  "blocked_env_keys allowed env = sort (filter (\<lambda>k. k \<notin> set allowed) (dict_keys env))"

definition basic_sandbox_authorize :: "sandbox_request \<Rightarrow> sandbox_decision" where
  "basic_sandbox_authorize r =
     (let command = xr_command r; policy = xr_policy r; executable = hd (xc_command command);
          blocked = (case xp_allowed_env_keys policy of None \<Rightarrow> [] | Some keys \<Rightarrow> blocked_env_keys keys (xc_env command))
      in if executable \<notin> set (xp_command_allowlist policy) then
           sandbox_refusal (''The command '' @ executable @ '' is not allowed'')
         else if (case xc_cwd command of None \<Rightarrow> False
                  | Some cwd \<Rightarrow> \<not> is_allowed_cwd cwd (map mt_mount_path (xp_filesystem_mounts policy))) then
           sandbox_refusal ''The working directory is outside the configured mounts''
         else if blocked \<noteq> [] then
           sandbox_refusal (''Blocked environment variables: '' @ join '', '' blocked)
         else if (case xc_timeout_seconds command of None \<Rightarrow> False
                  | Some t \<Rightarrow> rl_timeout_seconds (xp_resource_limits policy) < t) then
           sandbox_refusal ''The requested timeout exceeds the sandbox limit''
         else \<lparr>xd_allowed = True, xd_reason = None,
                xd_metadata = [(''policy'', PStr ''BasicSandboxPolicy''), (''executable'', PStr executable)]\<rparr>)"

text \<open>What a permission of the policy means.\<close>

lemma basic_sandbox_authorize_iff:
  "xd_allowed (basic_sandbox_authorize r) \<longleftrightarrow>
     hd (xc_command (xr_command r)) \<in> set (xp_command_allowlist (xr_policy r))
     \<and> (\<forall>cwd. xc_cwd (xr_command r) = Some cwd \<longrightarrow>
          (\<exists>m\<in>set (xp_filesystem_mounts (xr_policy r)).
             path_within (normalize_sandbox_path cwd) (normalize_sandbox_path (mt_mount_path m))))
     \<and> (\<forall>keys. xp_allowed_env_keys (xr_policy r) = Some keys \<longrightarrow>
          set (dict_keys (xc_env (xr_command r))) \<subseteq> set keys)
     \<and> (\<forall>t. xc_timeout_seconds (xr_command r) = Some t \<longrightarrow> t \<le> rl_timeout_seconds (xp_resource_limits (xr_policy r)))"
proof -
  have sort_Nil: "sort (xs :: string list) = [] \<longleftrightarrow> xs = []" for xs
    by (metis length_0_conv length_sort)
  have cwd: "is_allowed_cwd c (map mt_mount_path ms)
      \<longleftrightarrow> (\<exists>m\<in>set ms. path_within (normalize_sandbox_path c) (normalize_sandbox_path (mt_mount_path m)))" for c ms
    by (auto simp: is_allowed_cwd_def list_ex_iff)
  show ?thesis
    by (auto simp: basic_sandbox_authorize_def sandbox_refusal_def Let_def cwd blocked_env_keys_def sort_Nil
        filter_empty_conv not_less split: option.splits)
qed

section \<open>Bounded output\<close>

record 'c output_event =
  xe_stream :: output_stream
  xe_text :: "'c list"
  xe_truncated :: bool

record 'c bounded_output =
  bo_max_chars :: int
  bo_stdout :: "'c list"
  bo_stderr :: "'c list"
  bo_events :: "'c output_event list"
  bo_truncated :: bool
  bo_event_chars :: int

definition new_output :: "int \<Rightarrow> 'c bounded_output" where
  "new_output n = \<lparr>bo_max_chars = n, bo_stdout = [], bo_stderr = [], bo_events = [], bo_truncated = False, bo_event_chars = 0\<rparr>"

text \<open>\<open>xs[:n]\<close>; a negative number counts from the end.\<close>

definition py_take :: "int \<Rightarrow> 'c list \<Rightarrow> 'c list" where
  "py_take n xs = (if 0 \<le> n then take (nat n) xs else take (length xs - nat (- n)) xs)"

definition taken_text :: "output_stream \<Rightarrow> 'c bounded_output \<Rightarrow> 'c list" where
  "taken_text s out = (case s of Stream_STDOUT \<Rightarrow> bo_stdout out | Stream_STDERR \<Rightarrow> bo_stderr out)"

definition set_stream :: "output_stream \<Rightarrow> 'c list \<Rightarrow> 'c bounded_output \<Rightarrow> 'c bounded_output" where
  "set_stream s t out =
     (case s of Stream_STDOUT \<Rightarrow> out\<lparr>bo_stdout := t\<rparr> | Stream_STDERR \<Rightarrow> out\<lparr>bo_stderr := t\<rparr>)"

definition append_output :: "output_stream \<Rightarrow> 'c list \<Rightarrow> 'c bounded_output \<Rightarrow> 'c bounded_output" where
  "append_output s t out =
     (if t = [] then out
      else let current = taken_text s out; remaining = bo_max_chars out - int (length current);
               stored = set_stream s (current @ py_take remaining t) out;
               cut_off = remaining < int (length t);
               flagged = stored\<lparr>bo_truncated := bo_truncated out \<or> cut_off\<rparr>;
               event_remaining = bo_max_chars out - bo_event_chars out
           in if 0 < event_remaining then
                let visible = py_take event_remaining t
                in flagged\<lparr>bo_events := bo_events out @
                       [\<lparr>xe_stream = s, xe_text = visible, xe_truncated = cut_off \<or> event_remaining < int (length t)\<rparr>],
                     bo_event_chars := bo_event_chars out + int (length visible)\<rparr>
              else flagged)"

text \<open>\<open>collect\<close>: the pieces of one stream, decoded one after the other, and what the decoder still holds at the end.\<close>

fun decoded_pieces :: "('s \<Rightarrow> 'b \<Rightarrow> 'c list \<times> 's) \<Rightarrow> ('s \<Rightarrow> 'c list) \<Rightarrow> 's \<Rightarrow> 'b list \<Rightarrow> 'c list list" where
  "decoded_pieces decode final d [] = [final d]"
| "decoded_pieces decode final d (chunk # chunks) =
     (case decode d chunk of (t, d') \<Rightarrow> t # decoded_pieces decode final d' chunks)"

definition collect_pieces :: "(output_stream \<times> 'c list) list \<Rightarrow> 'c bounded_output \<Rightarrow> 'c bounded_output" where
  "collect_pieces ps out = fold (\<lambda>(s, t). append_output s t) ps out"

definition both_streams :: "'c list list \<Rightarrow> 'c list list \<Rightarrow> (output_stream \<times> 'c list) list set" where
  "both_streams outs errs = shuffles (map (Pair Stream_STDOUT) outs) (map (Pair Stream_STDERR) errs)"

section \<open>The side channel\<close>

record side_channel =
  ch_chunks :: "char list list"
  ch_size :: nat
  ch_overflow :: bool

definition new_side_channel :: side_channel where
  "new_side_channel = \<lparr>ch_chunks = [], ch_size = 0, ch_overflow = False\<rparr>"

definition side_chunk :: "char list \<Rightarrow> side_channel \<Rightarrow> side_channel" where
  "side_chunk chunk ch =
     (if ch_size ch + length chunk > SANDBOX_SIDE_CHANNEL_MAX_BYTES then ch\<lparr>ch_overflow := True\<rparr>
      else ch\<lparr>ch_chunks := ch_chunks ch @ [chunk], ch_size := ch_size ch + length chunk\<rparr>)"

text \<open>\<open>_collect\<close>: an empty chunk is the end of the stream.\<close>

definition side_collect :: "char list list \<Rightarrow> side_channel \<Rightarrow> side_channel" where
  "side_collect chunks ch = fold side_chunk (takeWhile (\<lambda>c. c \<noteq> []) chunks) ch"

definition side_result :: "(char list \<Rightarrow> string) \<Rightarrow> side_channel \<Rightarrow> string option" where
  "side_result decode ch = (if ch_overflow ch then None else Some (decode (concat (ch_chunks ch))))"

section \<open>Events of a running process\<close>

text \<open>
  \<open>SubprocessSandboxProcess\<close>: two pumps put the events of their streams into one queue, and \<open>None\<close> at their end.
  \<open>read\<close> takes events off; \<open>Inl\<close> is a reader that waits for the next one.
\<close>

fun process_read :: "nat \<Rightarrow> 'e option list \<Rightarrow> unit + 'e option \<times> nat \<times> 'e option list" where
  "process_read 0 queue = Inr (None, 0, queue)"
| "process_read (Suc n) [] = Inl ()"
| "process_read (Suc n) (Some e # queue) = Inr (Some e, Suc n, queue)"
| "process_read (Suc n) (None # queue) = process_read n queue"

fun pump_events :: "output_stream \<Rightarrow> 'c list list \<Rightarrow> 'c output_event option list" where
  "pump_events s [] = [None]"
| "pump_events s (t # ts) =
     (if t = [] then [] else [Some \<lparr>xe_stream = s, xe_text = t, xe_truncated = False\<rparr>]) @ pump_events s ts"

text \<open>Reading until the end.\<close>

fun read_all :: "nat \<Rightarrow> nat \<Rightarrow> 'e option list \<Rightarrow> 'e list option" where
  "read_all 0 n queue = None"
| "read_all (Suc fuel) n queue =
     (case process_read n queue of
        Inl _ \<Rightarrow> None
      | Inr (None, _, _) \<Rightarrow> Some []
      | Inr (Some e, n', queue') \<Rightarrow> map_option (Cons e) (read_all fuel n' queue'))"

end
