(* ===== verification/Bubblewrap.thy ===== *)
theory Bubblewrap
  imports Sandbox
begin

text \<open>
  What the sandbox of bubblewrap mounts (\<open>infra/adapters/sandbox/project_environment.py\<close> and
  \<open>bubblewrap_policy.py\<close>): the environment of a project, the checks on the mounts, the options that bind the
  runtimes read-only, the variables of the process, and the limits that are in force.

  The host is a record of parameters: its directory tree behind \<open>resolve\<close> and the tests of \<open>pathlib\<close>, the programs on
  its search path, and the directories of the interpreter that runs the server.
\<close>

record sandbox_host =
  ho_linux :: bool
  ho_cwd :: posix_path
  ho_resolve :: "posix_path \<Rightarrow> posix_path"
  ho_exists :: "posix_path \<Rightarrow> bool"
  ho_is_dir :: "posix_path \<Rightarrow> bool"
  ho_is_file :: "posix_path \<Rightarrow> bool"
  ho_readlink :: "posix_path \<Rightarrow> posix_path option"
  ho_file_size :: "posix_path \<Rightarrow> nat option"
  ho_read_text :: "posix_path \<Rightarrow> string option"
  ho_which :: "string \<Rightarrow> string option"
  ho_open_directory :: "string \<Rightarrow> string option"
  ho_descriptor :: "nat \<Rightarrow> nat"
  ho_environ :: "(string, string) dict"
  ho_home :: posix_path
  ho_prefix :: string
  ho_base_prefix :: string
  ho_executable :: string

definition config_error :: "string \<Rightarrow> error" where
  "config_error m = raised (Sandbox SandboxConfigurationError) m"

definition refuse_if :: "bool \<Rightarrow> string \<Rightarrow> error + unit" where
  "refuse_if b m = (if b then Inl (config_error m) else Inr ())"

text \<open>A loop of checks, and a loop that collects options; both end at the first error.\<close>

fun check_each :: "('a \<Rightarrow> error + unit) \<Rightarrow> 'a list \<Rightarrow> error + unit" where
  "check_each f [] = Inr ()"
| "check_each f (x # xs) = bind_e (f x) (\<lambda>_. check_each f xs)"

fun collect_each :: "('a \<Rightarrow> error + 'b list) \<Rightarrow> 'a list \<Rightarrow> error + 'b list" where
  "collect_each f [] = Inr []"
| "collect_each f (x # xs) = bind_e (f x) (\<lambda>ys. bind_e (collect_each f xs) (\<lambda>zs. Inr (ys @ zs)))"

text \<open>\<open>Path(x).absolute()\<close>, and \<open>os.path.abspath\<close> of an absolute path, which takes \<open>..\<close> out.\<close>

definition path_absolute :: "sandbox_host \<Rightarrow> posix_path \<Rightarrow> posix_path" where
  "path_absolute H p = path_join (ho_cwd H) p"

definition path_abspath :: "posix_path \<Rightarrow> posix_path" where
  "path_abspath p = (fst p, fold (\<lambda>c acc. if c = ''..'' then butlast acc else acc @ [c]) (snd p) [])"

section \<open>The environment of a project\<close>

definition default_python_runtime_roots :: "sandbox_host \<Rightarrow> posix_path list" where
  "default_python_runtime_roots H =
     (let base = ho_resolve H (posix_path (ho_base_prefix H));
          uv_root = path_join (ho_home H) (posix_path ''.local/share/uv/python'');
          uv_root' = (if path_name (path_parent base) = [''python''] \<and> path_name (path_parent (path_parent base)) = [''uv'']
                      then path_parent base else uv_root)
      in [base, ho_resolve H uv_root'])"

record project_environment =
  pe_root :: posix_path
  pe_cwd :: posix_path
  pe_virtualenv :: "posix_path option"
  pe_python_runtime :: "posix_path option"

text \<open>\<open>path.relative_to(root)\<close> raises a \<open>ValueError\<close> when the path is elsewhere.\<close>

definition sandbox_path :: "project_environment \<Rightarrow> posix_path \<Rightarrow> error + string" where
  "sandbox_path pe p =
     (if path_within p (pe_root pe)
      then Inr (path_str (path_join (posix_path ''/workspace'') (0, drop (length (snd (pe_root pe))) (snd p))))
      else Inl (raised (PyException ''ValueError'') (path_str p @ '' is not in the subpath of '' @ path_str (pe_root pe))))"

text \<open>The lines of \<open>pyvenv.cfg\<close>, their parts around the first equals sign, and the value of the key \<open>home\<close>.\<close>

definition line_break :: "char \<Rightarrow> bool" where
  "line_break c \<longleftrightarrow> (let n = of_char c :: nat in 10 \<le> n \<and> n \<le> 13 \<or> 28 \<le> n \<and> n \<le> 30)"

fun split_lines :: "string \<Rightarrow> string \<Rightarrow> string list" where
  "split_lines acc [] = (if acc = [] then [] else [rev acc])"
| "split_lines acc (c # s) =
     (if line_break c then rev acc # split_lines [] (if c = CHR 0x0D \<and> starts_with [newline] s then tl s else s)
      else split_lines (c # acc) s)"

definition strip_space :: "string \<Rightarrow> string" where
  "strip_space s = rev (dropWhile is_space (rev (dropWhile is_space s)))"

definition home_value :: "string \<Rightarrow> string option" where
  "home_value line =
     (if CHR ''='' \<in> set line \<and> strip_space (takeWhile (\<lambda>c. c \<noteq> CHR ''='') line) = ''home''
      then Some (strip_space (tl (dropWhile (\<lambda>c. c \<noteq> CHR ''='') line))) else None)"

definition configured_home :: "string \<Rightarrow> string option" where
  "configured_home s = (case List.map_filter home_value (split_lines [] s) of [] \<Rightarrow> None | h # _ \<Rightarrow> Some h)"

text \<open>The runtime of a virtual environment: the installation of its interpreter, or the one that \<open>home\<close> names.\<close>

definition virtualenv_runtime :: "sandbox_host \<Rightarrow> posix_path \<Rightarrow> posix_path \<Rightarrow> error + posix_path" where
  "virtualenv_runtime H config target =
     (case ho_file_size H config of
        None \<Rightarrow> Inl (config_error ''Could not read project pyvenv.cfg'')
      | Some n \<Rightarrow> if n > 65536 then Inl (config_error ''Project pyvenv.cfg is too large'')
          else (case ho_read_text H config of
              None \<Rightarrow> Inl (config_error ''Could not read project pyvenv.cfg'')
            | Some s \<Rightarrow> (case configured_home s of
                None \<Rightarrow> Inr (path_parent (path_parent target))
              | Some h \<Rightarrow> if fst (posix_path h) = 0 \<or> \<not> ho_is_dir H (posix_path h)
                  then Inl (config_error ''Project Python home must be an existing absolute directory'')
                  else Inr (path_parent (path_abspath (posix_path h))))))"

definition check_virtualenv ::
  "sandbox_host \<Rightarrow> posix_path \<Rightarrow> posix_path \<Rightarrow> posix_path \<Rightarrow> error + project_environment" where
  "check_virtualenv H project host_cwd candidate =
     (let virtualenv = ho_resolve H candidate;
          config = path_join virtualenv (posix_path ''pyvenv.cfg'');
          interpreter = path_join virtualenv (posix_path ''bin/python'');
          target = ho_resolve H interpreter
      in bind_e (refuse_if (\<not> path_within virtualenv project) ''Project .venv must stay inside the selected project'') (\<lambda>_.
         bind_e (refuse_if (\<not> ho_is_file H config) ''Project .venv is missing pyvenv.cfg'') (\<lambda>_.
         bind_e (refuse_if (\<not> path_within (ho_resolve H config) project)
                   ''Project pyvenv.cfg must stay inside the selected project'') (\<lambda>_.
         bind_e (refuse_if (\<not> ho_is_file H interpreter) ''Project .venv Python interpreter is missing'') (\<lambda>_.
         bind_e (refuse_if (path_name (path_parent target) \<noteq> [''bin''])
                   ''Project Python interpreter must belong to a Python installation'') (\<lambda>_.
         bind_e (virtualenv_runtime H config target) (\<lambda>runtime.
         bind_e (refuse_if (\<not> path_within target virtualenv \<and> \<not> path_within target (ho_resolve H runtime))
                   ''Project interpreter does not match pyvenv.cfg home'') (\<lambda>_.
         Inr \<lparr>pe_root = project, pe_cwd = host_cwd, pe_virtualenv = Some virtualenv, pe_python_runtime = Some runtime\<rparr>))))))))"

text \<open>The loop over the working directory and its parents, up to the root of the project.\<close>

fun find_virtualenv ::
  "sandbox_host \<Rightarrow> posix_path \<Rightarrow> posix_path \<Rightarrow> posix_path list \<Rightarrow> error + project_environment" where
  "find_virtualenv H project host_cwd [] =
     Inr \<lparr>pe_root = project, pe_cwd = host_cwd, pe_virtualenv = None, pe_python_runtime = None\<rparr>"
| "find_virtualenv H project host_cwd (directory # rest) =
     (if \<not> path_within directory project then
        Inr \<lparr>pe_root = project, pe_cwd = host_cwd, pe_virtualenv = None, pe_python_runtime = None\<rparr>
      else let candidate = path_join directory (posix_path ''.venv'')
      in if \<not> ho_exists H candidate \<and> ho_readlink H candidate = None then find_virtualenv H project host_cwd rest
         else check_virtualenv H project host_cwd candidate)"

definition resolve_project_environment ::
  "sandbox_host \<Rightarrow> posix_path \<Rightarrow> string option \<Rightarrow> error + project_environment" where
  "resolve_project_environment H project cwd =
     (let sandbox_cwd = posix_path (case cwd of None \<Rightarrow> ''/workspace'' | Some s \<Rightarrow> if s = [] then ''/workspace'' else s);
          workspace = posix_path ''/workspace'';
          host_cwd = ho_resolve H (path_join project (0, drop (length (snd workspace)) (snd sandbox_cwd)))
      in bind_e (refuse_if (\<not> path_within sandbox_cwd workspace) ''Working directory must stay inside /workspace'') (\<lambda>_.
         bind_e (refuse_if (\<not> path_within host_cwd project)
                   ''Working directory must stay inside the selected project'') (\<lambda>_.
         find_virtualenv H project host_cwd (path_ancestors host_cwd))))"

section \<open>The runtime policy\<close>

record runtime_policy =
  rp_network_mode :: network_mode
  rp_workspace_root :: "posix_path option"
  rp_protected_paths :: "posix_path list"
  rp_workspaces :: "(string \<Rightarrow> error + string) option"
  rp_limits :: "resource_limits option"
  rp_python_runtime_roots :: "posix_path list"
  rp_python_environment :: "posix_path option"
  rp_readonly_paths :: "posix_path list"
  rp_environment_paths :: "posix_path list"
  rp_uv_path :: "string option"
  rp_node_path :: "string option"

definition check_protected :: "sandbox_host \<Rightarrow> runtime_policy \<Rightarrow> posix_path \<Rightarrow> error + unit" where
  "check_protected H P p =
     refuse_if (list_ex (\<lambda>protected. path_within protected (ho_resolve H p) \<or> path_within (ho_resolve H p) protected)
         (rp_protected_paths P))
       ''Sandbox mounts must not expose protected service data''"

definition check_runtime_overlap :: "sandbox_host \<Rightarrow> runtime_policy \<Rightarrow> posix_path \<Rightarrow> error + unit" where
  "check_runtime_overlap H P p =
     refuse_if (case rp_workspace_root P of None \<Rightarrow> False
         | Some project \<Rightarrow> path_within (ho_resolve H p) project \<or> path_within project (ho_resolve H p))
       ''Read-only runtime mounts must stay outside workspace_root''"

text \<open>
  The links from the interpreter to its installation: the second parent of each target.  The loop of the code has no
  bound, so a chain that never ends is \<open>None\<close>.
\<close>

partial_function (option) link_roots :: "sandbox_host \<Rightarrow> posix_path \<Rightarrow> posix_path list option" where
  "link_roots H e =
     (case ho_readlink H e of
        None \<Rightarrow> Some []
      | Some t \<Rightarrow> (let e' = path_absolute H (path_join (path_parent e) t)
          in Option.bind (link_roots H e') (\<lambda>rest. Some (path_parent (path_parent e') # rest))))"

record policy_arguments =
  pa_workspace_root :: "string option"
  pa_network_mode :: network_mode
  pa_readonly_paths :: "string list"
  pa_python_runtime_roots :: "string list"
  pa_protected_paths :: "string list"
  pa_python_environment :: bool
  pa_uv :: bool
  pa_node :: bool
  pa_limits :: "resource_limits option"
  pa_workspaces :: "(string \<Rightarrow> error + string) option"

definition runtime_policy_of :: "sandbox_host \<Rightarrow> policy_arguments \<Rightarrow> posix_path list \<Rightarrow> runtime_policy" where
  "runtime_policy_of H A links =
     \<lparr>rp_network_mode = pa_network_mode A,
      rp_workspace_root = map_option (\<lambda>s. ho_resolve H (posix_path s)) (pa_workspace_root A),
      rp_protected_paths = map (\<lambda>s. ho_resolve H (posix_path s)) (pa_protected_paths A),
      rp_workspaces = pa_workspaces A,
      rp_limits = pa_limits A,
      rp_python_runtime_roots =
        map (\<lambda>s. path_absolute H (posix_path s)) (pa_python_runtime_roots A) @ default_python_runtime_roots H,
      rp_python_environment =
        (if pa_python_environment A then Some (path_absolute H (posix_path (ho_prefix H))) else None),
      rp_readonly_paths = map (\<lambda>s. ho_resolve H (posix_path s)) (pa_readonly_paths A),
      rp_environment_paths =
        (if pa_python_environment A
         then [path_absolute H (posix_path (ho_prefix H)), ho_resolve H (posix_path (ho_base_prefix H))] @ links else []),
      rp_uv_path = (if pa_uv A then ho_which H ''uv'' else None),
      rp_node_path = (if pa_node A then ho_which H ''node'' else None)\<rparr>"

definition policy_executables :: "runtime_policy \<Rightarrow> posix_path list" where
  "policy_executables P = map posix_path (List.map_filter id [rp_uv_path P, rp_node_path P])"

definition check_runtime_policy :: "sandbox_host \<Rightarrow> policy_arguments \<Rightarrow> runtime_policy \<Rightarrow> error + unit" where
  "check_runtime_policy H A P =
     bind_e (refuse_if (pa_uv A \<and> rp_uv_path P = None) ''uv was requested but is not installed'') (\<lambda>_.
     bind_e (refuse_if (pa_node A \<and> rp_node_path P = None) ''Node was requested but is not installed'') (\<lambda>_.
     bind_e (check_each (\<lambda>p.
         bind_e (refuse_if (\<not> ho_exists H p) (''Sandbox runtime path does not exist: '' @ path_str p)) (\<lambda>_.
         bind_e (check_protected H P p) (\<lambda>_. check_runtime_overlap H P p)))
       (rp_readonly_paths P @ rp_environment_paths P)) (\<lambda>_.
     bind_e (case rp_workspace_root P of None \<Rightarrow> Inr () | Some w \<Rightarrow> check_protected H P w) (\<lambda>_.
     check_each (\<lambda>p. bind_e (check_protected H P p) (\<lambda>_. check_runtime_overlap H P p)) (policy_executables P)))))"

definition make_runtime_policy :: "sandbox_host \<Rightarrow> policy_arguments \<Rightarrow> (error + runtime_policy) option" where
  "make_runtime_policy H A =
     (if pa_network_mode A = Network_ALLOWLIST
      then Some (Inl (config_error ''The bubblewrap sandbox does not support network allowlists''))
      else map_option (\<lambda>links. let P = runtime_policy_of H A links
             in bind_e (check_runtime_policy H A P) (\<lambda>_. Inr P))
        (if pa_python_environment A then link_roots H (path_absolute H (posix_path (ho_executable H))) else Some []))"

section \<open>Mounts of a request\<close>

text \<open>An added project: the errors of the directory that are a \<open>NotFoundError\<close> or a \<open>ValidationError\<close> are translated.\<close>

definition check_added_project :: "runtime_policy \<Rightarrow> posix_path \<Rightarrow> error + unit" where
  "check_added_project P host =
     (case rp_workspaces P of
        None \<Rightarrow> Inl (config_error ''Sandbox tool directories must stay inside workspace_root'')
      | Some resolve \<Rightarrow> (case resolve (path_str host) of
            Inr _ \<Rightarrow> Inr ()
          | Inl e \<Rightarrow>
              if isinstance (error_class e) (Base NotFoundError) \<or> isinstance (error_class e) (Base ValidationError)
              then Inl (config_error ''Sandbox directory must be an added project'') else Inl e))"

definition runtime_paths :: "sandbox_host \<Rightarrow> runtime_policy \<Rightarrow> posix_path list" where
  "runtime_paths H P =
     rp_readonly_paths P @ rp_environment_paths P @ rp_python_runtime_roots P @ map (ho_resolve H) (policy_executables P)"

definition validate_mount :: "sandbox_host \<Rightarrow> runtime_policy \<Rightarrow> sandbox_mount \<Rightarrow> error + unit" where
  "validate_mount H P m =
     (let host = ho_resolve H (posix_path (mt_host_path m))
      in bind_e (refuse_if (\<not> ho_is_dir H host) (''Sandbox workspace does not exist: '' @ path_str host)) (\<lambda>_.
         bind_e (case rp_workspace_root P of None \<Rightarrow> Inr ()
                 | Some w \<Rightarrow> if path_within host w then Inr () else check_added_project P host) (\<lambda>_.
         bind_e (check_protected H P host) (\<lambda>_.
         bind_e (refuse_if (list_ex (\<lambda>p. path_within host p \<or> path_within p host) (runtime_paths H P))
                   ''Workspace mounts must not overlap read-only runtime paths'') (\<lambda>_.
         refuse_if (mt_mount_path m \<noteq> ''/workspace'') ''Process tools must mount their directory at /workspace'')))))"

definition validate_mounts :: "sandbox_host \<Rightarrow> runtime_policy \<Rightarrow> sandbox_mount list \<Rightarrow> error + unit" where
  "validate_mounts H P ms =
     bind_e (check_each (validate_mount H P) ms) (\<lambda>_.
     refuse_if (length ms \<noteq> 1) ''Process tools require one explicit workspace mount'')"

text \<open>An installation of Python outside the project must lie in an approved directory, under each of its names.\<close>

definition check_python_runtime :: "sandbox_host \<Rightarrow> runtime_policy \<Rightarrow> posix_path \<Rightarrow> error + unit" where
  "check_python_runtime H P runtime =
     (let approved = posix_path ''/usr'' # rp_python_runtime_roots P @ rp_readonly_paths P
      in bind_e (check_protected H P runtime) (\<lambda>_.
         bind_e (refuse_if (\<not> list_ex (\<lambda>p. path_within (ho_resolve H runtime) (ho_resolve H p)) approved)
            ''Project Python installation is not approved; add its directory to runtime.sandbox.python_runtime_roots'') (\<lambda>_.
         bind_e (refuse_if (runtime \<noteq> ho_resolve H runtime \<and> \<not> list_ex (path_within runtime) approved)
            ''Project Python installation alias is outside approved runtime roots'') (\<lambda>_.
         check_runtime_overlap H P runtime))))"

definition policy_project_environment ::
  "sandbox_host \<Rightarrow> runtime_policy \<Rightarrow> sandbox_request \<Rightarrow> error + project_environment" where
  "policy_project_environment H P r =
     (let project = ho_resolve H (posix_path (mt_host_path (hd (xp_filesystem_mounts (xr_policy r)))))
      in bind_e (resolve_project_environment H project (xc_cwd (xr_command r))) (\<lambda>pe.
         case pe_python_runtime pe of
           None \<Rightarrow> Inr pe
         | Some runtime \<Rightarrow> if path_within (ho_resolve H runtime) project then Inr pe
             else bind_e (check_python_runtime H P runtime) (\<lambda>_. Inr pe)))"

section \<open>Options, variables and limits\<close>

text \<open>\<open>dict.fromkeys\<close>: each value once, where it comes first.\<close>

definition first_occurrences :: "'a list \<Rightarrow> 'a list" where
  "first_occurrences xs = rev (remdups (rev xs))"

definition ro_bind :: "string \<Rightarrow> string \<Rightarrow> string list" where
  "ro_bind source target = [''--ro-bind'', source, target]"

definition python_runtime_options :: "sandbox_host \<Rightarrow> runtime_policy \<Rightarrow> project_environment \<Rightarrow> error + string list" where
  "python_runtime_options H P pe =
     (case pe_python_runtime pe of
        None \<Rightarrow> Inr []
      | Some p \<Rightarrow> (let source = ho_resolve H p
          in if path_within source (pe_root pe) then Inr []
             else bind_e (check_protected H P p) (\<lambda>_.
               Inr (ro_bind (path_str source) (path_str source)
                 @ (if source \<noteq> p then ro_bind (path_str source) (path_str p) else [])))))"

definition executable_options :: "sandbox_host \<Rightarrow> runtime_policy \<Rightarrow> string \<times> string option \<Rightarrow> error + string list" where
  "executable_options H P = (\<lambda>(name, executable).
     case executable of
       None \<Rightarrow> Inr []
     | Some e \<Rightarrow>
         bind_e (check_protected H P (ho_resolve H (posix_path e))) (\<lambda>_.
         bind_e (check_runtime_overlap H P (posix_path e)) (\<lambda>_.
         Inr (ro_bind (path_str (ho_resolve H (posix_path e))) (''/opt/evernight/bin/'' @ name)))))"

definition runtime_mount_options :: "sandbox_host \<Rightarrow> runtime_policy \<Rightarrow> project_environment \<Rightarrow> error + string list" where
  "runtime_mount_options H P pe =
     (let paths = rp_readonly_paths P @ (if pe_virtualenv pe = None then rp_environment_paths P else [])
      in bind_e (collect_each (\<lambda>p.
           bind_e (check_protected H P p) (\<lambda>_.
           bind_e (check_runtime_overlap H P p) (\<lambda>_. Inr (ro_bind (path_str p) (path_str p)))))
         (first_occurrences paths)) (\<lambda>readonly.
         bind_e (python_runtime_options H P pe) (\<lambda>python.
         bind_e (collect_each (executable_options H P) [(''uv'', rp_uv_path P), (''node'', rp_node_path P)]) (\<lambda>programs.
         Inr (readonly @ python @ programs)))))"

definition system_search_path :: "string list" where
  "system_search_path = [''/opt/evernight/bin'', ''/usr/local/bin'', ''/usr/local/sbin'', ''/usr/bin'', ''/usr/sbin'',
     ''/bin'', ''/sbin'']"

definition base_environment :: "network_mode \<Rightarrow> (string, string) dict" where
  "base_environment mode =
     [(''HOME'', ''/tmp''), (''TMPDIR'', ''/tmp''), (''UV_CACHE_DIR'', ''/tmp/uv-cache''),
      (''UV_OFFLINE'', if mode = Network_DISABLED then ''1'' else ''0''), (''UV_PYTHON_DOWNLOADS'', ''never''),
      (''GIT_CONFIG_NOSYSTEM'', ''1''), (''GIT_CONFIG_GLOBAL'', ''/dev/null''), (''GIT_TERMINAL_PROMPT'', ''0''),
      (''GIT_OPTIONAL_LOCKS'', ''0'')]"

definition policy_environment ::
  "runtime_policy \<Rightarrow> project_environment \<Rightarrow> network_mode option \<Rightarrow> error + (string, string) dict" where
  "policy_environment P pe requested =
     (let mode = (case requested of None \<Rightarrow> rp_network_mode P | Some m \<Rightarrow> m)
      in bind_e (case pe_virtualenv pe of
             Some v \<Rightarrow> bind_e (sandbox_path pe v) (\<lambda>venv. Inr ([venv @ ''/bin''], [(''VIRTUAL_ENV'', venv)]))
           | None \<Rightarrow> Inr (case rp_python_environment P of
                 None \<Rightarrow> []
               | Some e \<Rightarrow> [path_str (path_join e (posix_path ''bin''))], []))
         (\<lambda>(python, venv).
           bind_e (sandbox_path pe (path_join (pe_cwd pe) (posix_path ''node_modules/.bin''))) (\<lambda>node_bin.
           let paths = python @ system_search_path; root_node_bin = ''/workspace/node_modules/.bin'';
               search = (if root_node_bin \<in> set (node_bin # paths) then node_bin # paths
                         else node_bin # root_node_bin # paths)
           in Inr (base_environment mode @ venv @ [(''PATH'', join '':'' search)]))))"

definition min_limit :: "'a::linorder option \<Rightarrow> 'a option \<Rightarrow> 'a option" where
  "min_limit bound v = (case bound of None \<Rightarrow> v | Some c \<Rightarrow> (case v of None \<Rightarrow> Some c | Some x \<Rightarrow> Some (min x c)))"

definition effective_limits :: "runtime_policy \<Rightarrow> resource_limits \<Rightarrow> resource_limits" where
  "effective_limits P requested =
     (case rp_limits P of
        None \<Rightarrow> requested
      | Some l \<Rightarrow>
          \<lparr>rl_timeout_seconds = min (rl_timeout_seconds requested) (rl_timeout_seconds l),
           rl_max_output_chars = min (rl_max_output_chars requested) (rl_max_output_chars l),
           rl_memory_bytes = min_limit (rl_memory_bytes l) (rl_memory_bytes requested),
           rl_max_processes = min_limit (rl_max_processes l) (rl_max_processes requested),
           rl_cpu_seconds = min_limit (rl_cpu_seconds l) (rl_cpu_seconds requested),
           rl_file_size_bytes = min_limit (rl_file_size_bytes l) (rl_file_size_bytes requested),
           rl_temporary_storage_bytes = min_limit (rl_temporary_storage_bytes l) (rl_temporary_storage_bytes requested),
           rl_metadata = []\<rparr>)"

definition resource_flags :: "resource_limits \<Rightarrow> (string \<times> int option) list" where
  "resource_flags l = [(''as'', rl_memory_bytes l), (''nproc'', rl_max_processes l), (''cpu'', rl_cpu_seconds l),
     (''fsize'', rl_file_size_bytes l)]"

definition resource_command :: "sandbox_host \<Rightarrow> string list \<Rightarrow> resource_limits \<Rightarrow> error + string list" where
  "resource_command H command l =
     (let flags = List.map_filter (\<lambda>(flag, v). map_option (Pair flag) v) (resource_flags l)
      in if flags = [] then Inr command
         else case ho_which H ''prlimit'' of
           None \<Rightarrow> Inl (config_error ''prlimit is required for sandbox resource limits'')
         | Some prlimit \<Rightarrow>
             Inr (prlimit # map (\<lambda>(flag, v). ''--'' @ flag @ ''='' @ int_str v @ '':'' @ int_str v) flags
               @ [''--''] @ command))"

end
