(* ===== verification/SandboxRuns.thy ===== *)
theory SandboxRuns
  imports Bubblewrap
begin

text \<open>
  The executors of sandboxed commands (\<open>infra/adapters/sandbox/bubblewrap.py\<close> and \<open>subprocess.py\<close>): how a request is
  narrowed and authorized, the command line of bubblewrap, and the outcome of a run.

  The descriptors that an execution opens are the state of \<open>open_mounts\<close>; they are numbered by the host in the order
  they are opened.  The operating system is behind a runner, which says how a started process ends.
\<close>

section \<open>Preparation\<close>

text \<open>
  Each mount is opened once; from then on the path behind the descriptor is meant, whatever happens to the path of the
  request.  A mount that keeps its path in the sandbox needs one descriptor, any other one two.
\<close>

definition open_descriptor :: "sandbox_host \<Rightarrow> nat list \<Rightarrow> nat list" where
  "open_descriptor H ds = ds @ [ho_descriptor H (length ds)]"

fun open_each_mount :: "sandbox_host \<Rightarrow> sandbox_mount list \<Rightarrow> (error, nat list, sandbox_mount list) act" where
  "open_each_mount H [] ds = (Inr [], ds)"
| "open_each_mount H (m # ms) ds =
     (case ho_open_directory H (mt_host_path m) of
        None \<Rightarrow> (Inl (config_error (''Sandbox workspace does not exist: ''
                  @ path_str (ho_resolve H (posix_path (mt_host_path m))))), ds)
      | Some host \<Rightarrow>
          let ds' = open_descriptor H ds;
              ds'' = (if host \<noteq> mt_mount_path m then open_descriptor H ds' else ds')
          in case open_each_mount H ms ds'' of
               (Inl e, ds3) \<Rightarrow> (Inl e, ds3)
             | (Inr opened, ds3) \<Rightarrow> (Inr (m\<lparr>mt_host_path := host\<rparr> # opened), ds3))"

definition open_mounts :: "sandbox_host \<Rightarrow> sandbox_mount list \<Rightarrow> (error, nat list, sandbox_mount list) act" where
  "open_mounts H ms ds =
     (if \<not> ho_linux H then (Inl (config_error ''The bubblewrap sandbox requires Linux''), ds) else open_each_mount H ms ds)"

definition effective_request ::
  "runtime_policy \<Rightarrow> sandbox_mount list \<Rightarrow> sandbox_request \<Rightarrow> sandbox_request" where
  "effective_request P mounts r =
     (let policy = (xr_policy r)\<lparr>xp_filesystem_mounts := mounts,
                       xp_resource_limits := effective_limits P (xp_resource_limits (xr_policy r))\<rparr>;
          policy' = (if rp_workspace_root P = None then policy else policy\<lparr>xp_network_mode := rp_network_mode P\<rparr>);
          bound = rl_timeout_seconds (xp_resource_limits policy');
          asked = (case xc_timeout_seconds (xr_command r) of None \<Rightarrow> bound | Some t \<Rightarrow> if t = 0 then bound else t)
      in r\<lparr>xr_policy := policy', xr_command := (xr_command r)\<lparr>xc_timeout_seconds := Some (min asked bound)\<rparr>\<rparr>)"

section \<open>The command line\<close>

definition tmpfs_options :: "string \<Rightarrow> sandbox_request \<Rightarrow> string list" where
  "tmpfs_options path r =
     (case rl_temporary_storage_bytes (xp_resource_limits (xr_policy r)) of
        None \<Rightarrow> [''--tmpfs'', path]
      | Some n \<Rightarrow> [''--size'', int_str n, ''--tmpfs'', path])"

definition isolation_options :: "sandbox_request \<Rightarrow> string list" where
  "isolation_options r =
     [''--die-with-parent'', ''--new-session'', ''--unshare-user'', ''--disable-userns'', ''--cap-drop'', ''ALL'',
      ''--unshare-pid'', ''--unshare-ipc'', ''--unshare-uts'', ''--hostname'', ''sandbox'', ''--clearenv'',
      ''--proc'', ''/proc'', ''--dev'', ''/dev''] @ tmpfs_options ''/dev/shm'' r
     @ [''--remount-ro'', ''/dev''] @ tmpfs_options ''/tmp'' r @ [''--dir'', ''/run'']"

definition network_options :: "network_mode \<Rightarrow> error + string list" where
  "network_options mode =
     (case mode of
        Network_DISABLED \<Rightarrow> Inr [''--unshare-net'']
      | Network_UNRESTRICTED \<Rightarrow> Inr []
      | Network_ALLOWLIST \<Rightarrow> Inl (config_error ''The bubblewrap sandbox does not support network allowlists''))"

definition SYSTEM_PATHS :: "string list" where
  "SYSTEM_PATHS = [''/usr'', ''/bin'', ''/lib'', ''/lib64'', ''/etc/ld.so.cache'', ''/etc/ld.so.conf'', ''/etc/alternatives'',
     ''/etc/fonts'']"

definition NETWORK_PATHS :: "string list" where
  "NETWORK_PATHS = [''/etc/resolv.conf'', ''/etc/hosts'', ''/etc/nsswitch.conf'', ''/etc/ssl/certs'', ''/etc/pki/tls/certs'',
     ''/etc/pki/ca-trust/extracted'']"

definition system_mount_options :: "sandbox_host \<Rightarrow> network_mode \<Rightarrow> string list" where
  "system_mount_options H mode =
     concat (map (\<lambda>p. ro_bind p p) (filter (\<lambda>p. ho_exists H (posix_path p)) SYSTEM_PATHS))
     @ (if mode = Network_UNRESTRICTED
        then concat (map (\<lambda>p. ro_bind (path_str (ho_resolve H (posix_path p))) p)
               (filter (\<lambda>p. ho_exists H (posix_path p)) NETWORK_PATHS))
        else [])"

text \<open>The descriptors are taken in the order in which \<open>open_mounts\<close> opened them.\<close>

definition bind_flag :: "sandbox_mount \<Rightarrow> string" where
  "bind_flag m = (if mt_access m = Access_READ_WRITE then ''--bind-fd'' else ''--ro-bind-fd'')"

fun filesystem_mount_options :: "sandbox_mount list \<Rightarrow> nat list \<Rightarrow> error + string list" where
  "filesystem_mount_options [] ds = Inr []"
| "filesystem_mount_options (m # ms) [] = Inl (raised (PyException ''StopIteration'') [])"
| "filesystem_mount_options (m # ms) (d # ds) =
     (if mt_host_path m = mt_mount_path m then
        bind_e (filesystem_mount_options ms ds) (\<lambda>rest. Inr ([bind_flag m, nat_str d, mt_mount_path m] @ rest))
      else case ds of
        [] \<Rightarrow> Inl (raised (PyException ''StopIteration'') [])
      | d' # ds' \<Rightarrow> bind_e (filesystem_mount_options ms ds') (\<lambda>rest.
          Inr ([bind_flag m, nat_str d, mt_mount_path m, bind_flag m, nat_str d', mt_host_path m] @ rest)))"

definition sandbox_env ::
  "runtime_policy \<Rightarrow> sandbox_request \<Rightarrow> project_environment \<Rightarrow> error + (string, string) dict" where
  "sandbox_env P r pe =
     bind_e (policy_environment P pe (Some (xp_network_mode (xr_policy r)))) (\<lambda>env.
       Inr (dict_merge env (xc_env (xr_command r))))"

definition env_options :: "(string, string) dict \<Rightarrow> string list" where
  "env_options env = concat (map (\<lambda>(k, v). [''--setenv'', k, v]) env)"

definition chdir_options :: "sandbox_request \<Rightarrow> string list" where
  "chdir_options r = (case xc_cwd (xr_command r) of None \<Rightarrow> [] | Some cwd \<Rightarrow> [''--chdir'', cwd])"

definition bubblewrap_command ::
  "sandbox_host \<Rightarrow> runtime_policy \<Rightarrow> string \<Rightarrow> sandbox_request \<Rightarrow> project_environment \<Rightarrow> nat list
     \<Rightarrow> (string, string) dict \<Rightarrow> error + string list" where
  "bubblewrap_command H P bwrap r pe ds extra =
     bind_e (network_options (xp_network_mode (xr_policy r))) (\<lambda>network.
     bind_e (runtime_mount_options H P pe) (\<lambda>runtimes.
     bind_e (filesystem_mount_options (xp_filesystem_mounts (xr_policy r)) ds) (\<lambda>mounts.
     bind_e (sandbox_env P r pe) (\<lambda>env.
     bind_e (resource_command H (xc_command (xr_command r)) (xp_resource_limits (xr_policy r))) (\<lambda>command.
     Inr (bwrap # isolation_options r @ network @ system_mount_options H (xp_network_mode (xr_policy r)) @ runtimes
       @ mounts @ env_options (dict_merge env extra) @ chdir_options r @ [''--''] @ command))))))"

text \<open>\<open>_prepare\<close>; the side channel is the number of its write end.\<close>

definition prepare_sandbox_run ::
  "sandbox_host \<Rightarrow> runtime_policy \<Rightarrow> (sandbox_request \<Rightarrow> sandbox_decision) \<Rightarrow> string \<Rightarrow> nat option \<Rightarrow> sandbox_request
     \<Rightarrow> (error, nat list, sandbox_request \<times> string list) act" where
  "prepare_sandbox_run H P authorize bwrap channel r =
     bind_a (open_mounts H (xp_filesystem_mounts (xr_policy r))) (\<lambda>mounts ds.
       (bind_e (validate_mounts H P mounts) (\<lambda>_.
          let r' = effective_request P mounts r; d = authorize r'
          in bind_e (if xd_allowed d then Inr ()
                     else Inl (Error (Sandbox SandboxPolicyError) ''The sandbox execution was rejected by policy'' (xd_reason d) None)) (\<lambda>_.
             bind_e (policy_project_environment H P r') (\<lambda>pe.
             bind_e (bubblewrap_command H P bwrap r' pe ds
                 (case channel of None \<Rightarrow> [] | Some fd \<Rightarrow> [(SANDBOX_SIDE_CHANNEL_FD_ENV, nat_str fd)])) (\<lambda>command.
             Inr (r', command))))), ds))"

section \<open>Runs\<close>

text \<open>
  How a process ends: an \<open>OSError\<close> (on its start, or later on its pipes), an exit with a code, or the end of its time; with the pieces of its
  output, in the order they arrived, and what its side channel took.  An end that is none of these (a cancellation)
  terminates the process and goes on.
\<close>

datatype 'c process_end =
    Os_error string
  | Exited int "(output_stream \<times> 'c list) list" side_channel
  | Timed_out "(output_stream \<times> 'c list) list"
  | Interrupted error

record 'c sandbox_result =
  xx_request_id :: string
  xx_command :: "string list"
  xx_returncode :: "int option"
  xx_stdout :: "'c list"
  xx_stderr :: "'c list"
  xx_events :: "'c output_event list"
  xx_timed_out :: bool
  xx_truncated :: bool
  xx_side_channel :: "string option"
  xx_metadata :: metadata

datatype 'c sandbox_run_error = Run_error error | Run_timeout string "'c sandbox_result"

definition result_of ::
  "metadata \<Rightarrow> sandbox_request \<Rightarrow> 'c bounded_output \<Rightarrow> int option \<Rightarrow> bool \<Rightarrow> string option \<Rightarrow> 'c sandbox_result" where
  "result_of meta r out code late side =
     \<lparr>xx_request_id = xr_request_id r, xx_command = xc_command (xr_command r), xx_returncode = code,
      xx_stdout = bo_stdout out, xx_stderr = bo_stderr out, xx_events = bo_events out, xx_timed_out = late,
      xx_truncated = bo_truncated out, xx_side_channel = side, xx_metadata = meta\<rparr>"

definition run_outcome ::
  "(char list \<Rightarrow> string) \<Rightarrow> metadata \<Rightarrow> bool \<Rightarrow> sandbox_request \<Rightarrow> 'c process_end \<Rightarrow> 'c sandbox_run_error + 'c sandbox_result" where
  "run_outcome decode meta with_channel r e =
     (let name = hd (xc_command (xr_command r)); empty = new_output (rl_max_output_chars (xp_resource_limits (xr_policy r)))
      in case e of
        Os_error cause \<Rightarrow> Inl (Run_error (Error (Sandbox SandboxExecutionError)
            (''The command '' @ name @ '' failed to start'') None (Some (raised (PyException ''OSError'') cause))))
      | Exited code ps ch \<Rightarrow> Inr (result_of meta r (collect_pieces ps empty) (Some code) False
            (if with_channel then side_result decode ch else None))
      | Timed_out ps \<Rightarrow> Inl (Run_timeout (''The command '' @ name @ '' timed out'')
            (result_of meta r (collect_pieces ps empty) None True None))
      | Interrupted x \<Rightarrow> Inl (Run_error x))"

text \<open>The limit of \<open>asyncio.wait_for\<close>.\<close>

definition run_timeout :: "sandbox_request \<Rightarrow> rat" where
  "run_timeout r =
     (let bound = rl_timeout_seconds (xp_resource_limits (xr_policy r))
      in case xc_timeout_seconds (xr_command r) of None \<Rightarrow> bound | Some t \<Rightarrow> if t = 0 then bound else t)"

text \<open>\<open>execute\<close> of the sandbox; the second component are the descriptors that the \<open>finally\<close> closes.\<close>

definition bubblewrap_execute ::
  "sandbox_host \<Rightarrow> runtime_policy \<Rightarrow> (sandbox_request \<Rightarrow> sandbox_decision) \<Rightarrow> string option \<Rightarrow> nat
     \<Rightarrow> (char list \<Rightarrow> string) \<Rightarrow> (string list \<Rightarrow> string option \<Rightarrow> rat \<Rightarrow> 'c process_end)
     \<Rightarrow> sandbox_request \<Rightarrow> ('c sandbox_run_error + 'c sandbox_result) \<times> nat list" where
  "bubblewrap_execute H P authorize bwrap channel_fd decode runner r =
     (case bwrap of
        None \<Rightarrow> (Inl (Run_error (config_error ''The bwrap executable is not available'')), [])
      | Some b \<Rightarrow>
          let with_channel = xc_side_channel (xr_command r)
          in case prepare_sandbox_run H P authorize b (if with_channel then Some channel_fd else None) r [] of
               (Inl e, ds) \<Rightarrow> (Inl (Run_error e), ds)
             | (Inr (r', command), ds) \<Rightarrow>
                 (run_outcome decode [(''sandbox_backend'', PStr ''bubblewrap'')] with_channel r'
                    (runner command (xc_stdin (xr_command r')) (run_timeout r')), ds))"

section \<open>Processes without isolation\<close>

fun find_mount :: "posix_path \<Rightarrow> sandbox_mount list \<Rightarrow> sandbox_mount option" where
  "find_mount p [] = None"
| "find_mount p (m # ms) =
     (if path_within p (normalize_sandbox_path (mt_mount_path m)) then Some m else find_mount p ms)"

definition resolve_cwd :: "sandbox_host \<Rightarrow> sandbox_request \<Rightarrow> error + posix_path option" where
  "resolve_cwd H r =
     (case xc_cwd (xr_command r) of
        None \<Rightarrow> Inr None
      | Some cwd \<Rightarrow>
          let p = normalize_sandbox_path cwd
          in case find_mount p (xp_filesystem_mounts (xr_policy r)) of
               None \<Rightarrow> Inl (raised_detail (Sandbox SandboxPolicyError) ''The sandbox path is outside the configured mounts'' cwd)
             | Some m \<Rightarrow> Inr (Some (ho_resolve H (path_join (posix_path (mt_host_path m))
                 (0, drop (length (snd (normalize_sandbox_path (mt_mount_path m)))) (snd p))))))"

definition resolve_env :: "sandbox_host \<Rightarrow> bool \<Rightarrow> sandbox_request \<Rightarrow> (string, string) dict" where
  "resolve_env H windows r =
     (let env = dict_merge (ho_environ H) (xc_env (xr_command r))
      in if windows \<and> \<not> dict_has env ''PYTHONIOENCODING'' then dict_set ''PYTHONIOENCODING'' ''utf-8'' env else env)"

definition subprocess_run ::
  "sandbox_host \<Rightarrow> bool \<Rightarrow> nat option \<Rightarrow> (char list \<Rightarrow> string)
     \<Rightarrow> (string list \<Rightarrow> posix_path option \<Rightarrow> (string, string) dict \<Rightarrow> string option \<Rightarrow> rat \<Rightarrow> 'c process_end)
     \<Rightarrow> sandbox_request \<Rightarrow> 'c sandbox_run_error + 'c sandbox_result" where
  "subprocess_run H windows channel decode runner r =
     (let env = resolve_env H windows r;
          env' = (case channel of None \<Rightarrow> env | Some fd \<Rightarrow> dict_set SANDBOX_SIDE_CHANNEL_FD_ENV (nat_str fd) env)
      in case resolve_cwd H r of
           Inl e \<Rightarrow> Inl (Run_error e)
         | Inr cwd \<Rightarrow> run_outcome decode [] (channel \<noteq> None) r
             (runner (xc_command (xr_command r)) cwd env' (xc_stdin (xr_command r)) (run_timeout r)))"

definition subprocess_authorize :: "(sandbox_request \<Rightarrow> sandbox_decision) \<Rightarrow> sandbox_request \<Rightarrow> error + unit" where
  "subprocess_authorize authorize r =
     (let d = authorize r
      in if xd_allowed d then Inr ()
         else Inl (Error (Sandbox SandboxPolicyError) ''The sandbox execution was rejected by policy'' (xd_reason d) None))"

definition subprocess_execute ::
  "sandbox_host \<Rightarrow> bool \<Rightarrow> (sandbox_request \<Rightarrow> sandbox_decision) \<Rightarrow> nat \<Rightarrow> (char list \<Rightarrow> string)
     \<Rightarrow> (string list \<Rightarrow> posix_path option \<Rightarrow> (string, string) dict \<Rightarrow> string option \<Rightarrow> rat \<Rightarrow> 'c process_end)
     \<Rightarrow> sandbox_request \<Rightarrow> 'c sandbox_run_error + 'c sandbox_result" where
  "subprocess_execute H windows authorize channel_fd decode runner r =
     (case subprocess_authorize authorize r of
        Inl e \<Rightarrow> Inl (Run_error e)
      | Inr _ \<Rightarrow> subprocess_run H windows (if xc_side_channel (xr_command r) \<and> \<not> windows then Some channel_fd else None)
          decode runner r)"

end
