(* ===== verification/SandboxFacts.thy ===== *)
theory SandboxFacts
  imports SandboxRuns
begin

text \<open>
  What the sandbox guarantees: its record of the output is exactly the allowed part of what the process wrote; limits only
  become tighter; every descriptor is used; and a prepared command keeps the protected data of the service and the
  workspace root out of what it mounts.
\<close>

section \<open>Output\<close>

definition stream_written :: "output_stream \<Rightarrow> (output_stream \<times> 'c list) list \<Rightarrow> 'c list" where
  "stream_written s ps = concat (map snd (filter (\<lambda>p. fst p = s) ps))"

lemma stream_written_simps [simp]:
  "stream_written s [] = []"
  "stream_written s (ps @ qs) = stream_written s ps @ stream_written s qs"
  "stream_written s [(s', t)] = (if s' = s then t else [])"
  by (auto simp: stream_written_def)

text \<open>The record after some pieces: prefixes of what was written, and whether something was cut.\<close>

definition output_follows :: "nat \<Rightarrow> (output_stream \<times> 'c list) list \<Rightarrow> 'c bounded_output \<Rightarrow> bool" where
  "output_follows n ps out \<longleftrightarrow>
     bo_max_chars out = int n
     \<and> (\<forall>s. taken_text s out = take n (stream_written s ps))
     \<and> (bo_truncated out \<longleftrightarrow> (\<exists>s. n < length (stream_written s ps)))
     \<and> concat (map xe_text (bo_events out)) = take n (concat (map snd ps))
     \<and> bo_event_chars out = int (min n (length (concat (map snd ps))))"

lemma stream_text_set [simp]: "taken_text s' (set_stream s t out) = (if s' = s then t else taken_text s' out)"
  by (cases s; cases s') (simp_all add: taken_text_def set_stream_def)

lemma stream_text_update [simp]:
  "taken_text s (out\<lparr>bo_events := e\<rparr>) = taken_text s out"
  "taken_text s (out\<lparr>bo_event_chars := c\<rparr>) = taken_text s out"
  "taken_text s (out\<lparr>bo_truncated := b\<rparr>) = taken_text s out"
  by (simp_all add: taken_text_def split: output_stream.split)

lemma set_stream_keeps [simp]:
  "bo_max_chars (set_stream s t out) = bo_max_chars out"
  "bo_events (set_stream s t out) = bo_events out"
  "bo_event_chars (set_stream s t out) = bo_event_chars out"
  by (simp_all add: set_stream_def split: output_stream.split)

lemma take_more: "take n (take n xs @ ys) = take n (xs @ ys)"
  by (simp add: min_def)

lemma take_within: "length (take n xs) \<le> n"
  by simp

lemma py_take_rest: "take n xs @ py_take (int n - int (length (take n xs))) ys = take n (xs @ ys)"
proof (cases "length xs \<le> n")
  case True
  then have "int n - int (length (take n xs)) = int (n - length xs)" by simp
  then show ?thesis by (simp add: py_take_def)
next
  case False
  then have "int n - int (length (take n xs)) = 0" by simp
  then show ?thesis using False by (simp add: py_take_def)
qed

lemma append_output_fields:
  assumes "t \<noteq> []"
  shows "bo_max_chars (append_output s t out) = bo_max_chars out"
    "taken_text s' (append_output s t out) = (if s' = s
       then taken_text s out @ py_take (bo_max_chars out - int (length (taken_text s out))) t else taken_text s' out)"
    "bo_truncated (append_output s t out) \<longleftrightarrow>
       bo_truncated out \<or> bo_max_chars out - int (length (taken_text s out)) < int (length t)"
    "concat (map xe_text (bo_events (append_output s t out))) = concat (map xe_text (bo_events out))
       @ (if 0 < bo_max_chars out - bo_event_chars out then py_take (bo_max_chars out - bo_event_chars out) t else [])"
    "bo_event_chars (append_output s t out) = bo_event_chars out
       + (if 0 < bo_max_chars out - bo_event_chars out
          then int (length (py_take (bo_max_chars out - bo_event_chars out) t)) else 0)"
  using assms by (simp_all add: append_output_def Let_def)

text \<open>How many of the next characters still fit.\<close>

lemma py_take_room:
  "(if 0 < int n - int (min n (length xs)) then py_take (int n - int (min n (length xs))) ys else []) = take (n - length xs) ys"
proof (cases "length xs < n")
  case True
  then have e: "int n - int (min n (length xs)) = int (n - length xs)" by simp
  have "nat (int n - int (length xs)) = n - length xs" by arith
  with True show ?thesis unfolding e by (simp add: py_take_def)
qed (simp add: min_def)

lemma append_output_follows:
  assumes f: "output_follows n ps out"
  shows "output_follows n (ps @ [(s, t)]) (append_output s t out)"
proof (cases "t = []")
  case True
  then show ?thesis
    using f by (simp add: append_output_def output_follows_def)
next
  case False
  let ?w = "stream_written s ps" and ?all = "concat (map snd ps)" and ?out = "append_output s t out"
  have m: "bo_max_chars out = int n" and st: "\<And>s. taken_text s out = take n (stream_written s ps)"
    and tr: "bo_truncated out \<longleftrightarrow> (\<exists>s. n < length (stream_written s ps))"
    and ev: "concat (map xe_text (bo_events out)) = take n ?all"
    and ec: "bo_event_chars out = int (min n (length ?all))"
    using f by (auto simp: output_follows_def)
  note fields = append_output_fields [OF False, where s = s and out = out, unfolded m st ec]
  have "bo_truncated ?out \<longleftrightarrow> bo_truncated out \<or> n < length (?w @ t)"
    unfolding fields(3) using False by (auto simp: min_def)
  moreover have "bo_truncated out \<or> n < length (?w @ t) \<longleftrightarrow> (\<exists>s'. n < length (stream_written s' (ps @ [(s, t)])))"
  proof
    assume "bo_truncated out \<or> n < length (?w @ t)"
    then obtain s' where "n < length (stream_written s' (ps @ [(s, t)]))"
      unfolding tr by (metis length_append stream_written_simps(2,3) trans_less_add1)
    then show "\<exists>s'. n < length (stream_written s' (ps @ [(s, t)]))" ..
  next
    assume "\<exists>s'. n < length (stream_written s' (ps @ [(s, t)]))"
    then obtain s' where "n < length (stream_written s' ps @ (if s = s' then t else []))" by auto
    then show "bo_truncated out \<or> n < length (?w @ t)"
      unfolding tr by (cases "s = s'") auto
  qed
  moreover have "taken_text s' ?out = take n (stream_written s' (ps @ [(s, t)]))" for s'
    unfolding fields(2) by (simp add: py_take_rest del: length_take)
  moreover have "concat (map xe_text (bo_events ?out)) = take n (concat (map snd (ps @ [(s, t)])))"
    unfolding fields(4) ev py_take_room by simp
  moreover have "bo_event_chars ?out = int (min n (length (concat (map snd (ps @ [(s, t)])))))"
  proof -
    have "(if 0 < int n - int (min n (length ?all)) then int (length (py_take (int n - int (min n (length ?all))) t)) else 0)
        = int (length (take (n - length ?all) t))"
      by (subst py_take_room [symmetric]) simp
    then show ?thesis
      unfolding fields(5) by (auto simp: min_def)
  qed
  ultimately show ?thesis
    unfolding output_follows_def fields(1) by blast
qed

lemma collect_follows: "output_follows n ps (collect_pieces ps (new_output (int n)))"
proof (induction ps rule: rev_induct)
  case Nil
  then show ?case
    by (simp add: output_follows_def collect_pieces_def new_output_def taken_text_def split: output_stream.split)
next
  case (snoc p ps)
  then show ?case
    by (cases p) (simp add: collect_pieces_def append_output_follows)
qed

lemma stream_written_both:
  assumes "ps \<in> both_streams outs errs"
  shows "stream_written Stream_STDOUT ps = concat outs" "stream_written Stream_STDERR ps = concat errs"
proof -
  have "filter (\<lambda>p. fst p = Stream_STDOUT) ps \<in>
      shuffles (filter (\<lambda>p. fst p = Stream_STDOUT) (map (Pair Stream_STDOUT) outs))
        (filter (\<lambda>p. fst p = Stream_STDOUT) (map (Pair Stream_STDERR) errs))"
    using assms unfolding both_streams_def by (metis filter_shuffles imageI)
  then show "stream_written Stream_STDOUT ps = concat outs"
    by (simp add: filter_map o_def stream_written_def)
  have "filter (\<lambda>p. fst p = Stream_STDERR) ps \<in>
      shuffles (filter (\<lambda>p. fst p = Stream_STDERR) (map (Pair Stream_STDOUT) outs))
        (filter (\<lambda>p. fst p = Stream_STDERR) (map (Pair Stream_STDERR) errs))"
    using assms unfolding both_streams_def by (metis filter_shuffles imageI)
  then show "stream_written Stream_STDERR ps = concat errs"
    by (simp add: filter_map o_def stream_written_def)
qed

text \<open>Whatever the interleaving of the two streams, the record of the output holds exactly the first characters of
  each stream up to the limit, its events hold the first characters of the interleaving up to the limit, and it is
  marked as truncated exactly when a stream was longer than the limit.\<close>

theorem output_record_exact:
  assumes "0 < n" and "ps \<in> both_streams outs errs"
  shows "let out = collect_pieces ps (new_output (int n)) in
     bo_stdout out = take n (concat outs) \<and> bo_stderr out = take n (concat errs)
     \<and> concat (map xe_text (bo_events out)) = take n (concat (map snd ps))
     \<and> (bo_truncated out \<longleftrightarrow> n < length (concat outs) \<or> n < length (concat errs))"
proof -
  have f: "output_follows n ps (collect_pieces ps (new_output (int n)))"
    by (rule collect_follows)
  have "taken_text Stream_STDOUT (collect_pieces ps (new_output (int n))) = take n (concat outs)"
    "taken_text Stream_STDERR (collect_pieces ps (new_output (int n))) = take n (concat errs)"
    using f stream_written_both [OF assms(2)] by (auto simp: output_follows_def)
  moreover have "(\<exists>s. n < length (stream_written s ps)) \<longleftrightarrow> n < length (concat outs) \<or> n < length (concat errs)"
    using stream_written_both [OF assms(2)] by (metis output_stream.exhaust)
  ultimately show ?thesis
    using f by (simp add: output_follows_def taken_text_def Let_def)
qed

theorem output_record_exact_witness:
  "let out = collect_pieces [(Stream_STDOUT, ''abc''), (Stream_STDERR, ''x''), (Stream_STDOUT, ''de'')] (new_output (int 4)) in
     bo_stdout out = ''abcd'' \<and> bo_stderr out = ''x'' \<and> concat (map xe_text (bo_events out)) = ''abcx'' \<and> bo_truncated out"
  using output_record_exact [of 4 "[(Stream_STDOUT, ''abc''), (Stream_STDERR, ''x''), (Stream_STDOUT, ''de'')]"
      "[''abc'', ''de'']" "[''x'']"]
  by (simp add: both_streams_def Let_def numeral_eq_Suc)

section \<open>The side channel\<close>

lemma side_collect_exact:
  "side_result decode (side_collect chunks new_side_channel) =
     (let bytes = concat (takeWhile (\<lambda>c. c \<noteq> []) chunks)
      in if SANDBOX_SIDE_CHANNEL_MAX_BYTES < length bytes then None else Some (decode bytes))"
proof -
  let ?M = SANDBOX_SIDE_CHANNEL_MAX_BYTES
  have inv: "ch_size (fold side_chunk cs new_side_channel) \<le> ?M
      \<and> (ch_overflow (fold side_chunk cs new_side_channel) \<longleftrightarrow> ?M < length (concat cs))
      \<and> (\<not> ch_overflow (fold side_chunk cs new_side_channel) \<longrightarrow>
           ch_chunks (fold side_chunk cs new_side_channel) = cs
           \<and> ch_size (fold side_chunk cs new_side_channel) = length (concat cs))
      \<and> ch_size (fold side_chunk cs new_side_channel) \<le> length (concat cs)" for cs
    by (induction cs rule: rev_induct) (auto simp: new_side_channel_def side_chunk_def)
  show ?thesis
    using inv [of "takeWhile (\<lambda>c. c \<noteq> []) chunks"] by (auto simp: side_result_def side_collect_def Let_def)
qed

section \<open>Reading a process\<close>

lemma read_all_to_the_end:
  "length (filter (\<lambda>x. x = None) queue) = n \<Longrightarrow> n = 0 \<longrightarrow> queue = [] \<Longrightarrow> queue \<noteq> [] \<longrightarrow> last queue = None
     \<Longrightarrow> length queue < fuel \<Longrightarrow> read_all fuel n queue = Some (List.map_filter (\<lambda>x. x) queue)"
proof (induction queue arbitrary: n fuel)
  case Nil
  then show ?case by (cases fuel) (auto simp: List.map_filter_simps)
next
  case (Cons x queue)
  obtain f where f: "fuel = Suc f" using Cons.prems by (cases fuel) auto
  obtain m where m: "n = Suc m" using Cons.prems by (cases n) auto
  show ?case
  proof (cases x)
    case None
    have "m = 0 \<longrightarrow> queue = []"
      using Cons.prems None m by (auto simp: filter_empty_conv split: if_splits) (metis last_in_set not_None_eq)
    then have "read_all fuel m queue = Some (List.map_filter (\<lambda>x. x) queue)"
      by (intro Cons.IH) (use Cons.prems None m in \<open>auto split: if_splits\<close>)
    then show ?thesis using None f m by (simp add: List.map_filter_simps)
  next
    case (Some e)
    then have "queue \<noteq> []" using Cons.prems m by auto
    then have "read_all f n queue = Some (List.map_filter (\<lambda>x. x) queue)"
      by (intro Cons.IH) (use Cons.prems Some m f in \<open>auto split: if_splits\<close>)
    then show ?thesis using Some f m by (simp add: List.map_filter_simps)
  qed
qed

text \<open>The reader gets every event of both pumps, in the order of the queue, and then the end.\<close>

lemma pump_ends: "pump_events s ts = xs \<Longrightarrow> xs \<noteq> [] \<and> last xs = None \<and> length (filter (\<lambda>x. x = None) xs) = 1"
  by (induction ts arbitrary: xs) (auto split: if_splits)

lemma last_shuffles:
  "zs \<in> shuffles xs ys \<Longrightarrow> zs \<noteq> [] \<Longrightarrow> xs \<noteq> [] \<and> last zs = last xs \<or> ys \<noteq> [] \<and> last zs = last ys"
proof (induction zs arbitrary: xs ys)
  case (Cons z zs)
  then consider xs' where "xs = z # xs'" "zs \<in> shuffles xs' ys" | ys' where "ys = z # ys'" "zs \<in> shuffles xs ys'"
    by (auto simp: Cons_in_shuffles_iff neq_Nil_conv)
  then show ?case
    using Cons.IH by cases (cases "zs = []"; fastforce)+
qed simp

lemma reader_gets_everything:
  assumes "queue \<in> shuffles (pump_events Stream_STDOUT outs) (pump_events Stream_STDERR errs)"
  shows "read_all (Suc (length queue)) 2 queue = Some (List.map_filter (\<lambda>x. x) queue)"
proof (rule read_all_to_the_end)
  let ?a = "pump_events Stream_STDOUT outs" and ?b = "pump_events Stream_STDERR errs"
  have "filter (\<lambda>x. x = None) queue \<in> shuffles (filter (\<lambda>x. x = None) ?a) (filter (\<lambda>x. x = None) ?b)"
    using assms by (metis filter_shuffles imageI)
  then show "length (filter (\<lambda>x. x = None) queue) = 2"
    using pump_ends [OF refl, of Stream_STDOUT outs] pump_ends [OF refl, of Stream_STDERR errs]
    by (auto dest: length_shuffles)
  have "last queue \<in> {last ?a, last ?b}" if "queue \<noteq> []"
    using assms that pump_ends [OF refl, of Stream_STDOUT outs] pump_ends [OF refl, of Stream_STDERR errs]
    by (metis insert_iff last_shuffles)
  then show "queue \<noteq> [] \<longrightarrow> last queue = None"
    using pump_ends [OF refl, of Stream_STDOUT outs] pump_ends [OF refl, of Stream_STDERR errs] by auto
qed simp_all


section \<open>Checks and limits\<close>

lemma refuse_if_Inr [simp]: "refuse_if b m = Inr u \<longleftrightarrow> \<not> b"
  by (simp add: refuse_if_def)

lemma check_each_Inr: "check_each f xs = Inr u \<longleftrightarrow> (\<forall>x\<in>set xs. f x = Inr ())"
  by (induction xs) (auto simp: bind_e_eq_Inr)

lemma collect_each_Inr:
  "collect_each f xs = Inr ys \<Longrightarrow> (\<And>x zs. x \<in> set xs \<Longrightarrow> f x = Inr zs \<Longrightarrow> \<exists>ts. zs = concat (map g ts) \<and> Q ts)
     \<Longrightarrow> (\<And>ts us. Q ts \<Longrightarrow> Q us \<Longrightarrow> Q (ts @ us)) \<Longrightarrow> Q []
     \<Longrightarrow> \<exists>ts. ys = concat (map g ts) \<and> Q ts"
proof (induction xs arbitrary: ys)
  case Nil
  then show ?case by (intro exI [of _ "[]"]) simp
next
  case (Cons x xs)
  from Cons.prems(1) obtain zs rest where z: "f x = Inr zs" and r: "collect_each f xs = Inr rest" and y: "ys = zs @ rest"
    by (auto simp: bind_e_eq_Inr)
  obtain ts where ts: "zs = concat (map g ts)" "Q ts" using Cons.prems(2) [of x zs] z by auto
  obtain us where us: "rest = concat (map g us)" "Q us"
    using Cons.IH [OF r] Cons.prems(2,3,4) by (metis list.set_intros(2))
  show ?case
    using ts us y Cons.prems(3) by (intro exI [of _ "ts @ us"]) simp
qed

lemma check_protected_Inr: "check_protected H P p = Inr u \<longleftrightarrow> (\<forall>q\<in>set (rp_protected_paths P). \<not> paths_overlap (ho_resolve H p) q)"
  by (auto simp: check_protected_def list_ex_iff paths_overlap_def)

lemma check_runtime_overlap_Inr:
  "check_runtime_overlap H P p = Inr u \<longleftrightarrow> (\<forall>w. rp_workspace_root P = Some w \<longrightarrow> \<not> paths_overlap (ho_resolve H p) w)"
  by (auto simp: check_runtime_overlap_def paths_overlap_def split: option.split)

lemmas sandbox_checks = check_each_Inr check_protected_Inr check_runtime_overlap_Inr bind_e_eq_Inr

text \<open>A limit that is in force is at most the one requested and at most the ceiling.\<close>

definition tighter :: "'a::linorder option \<Rightarrow> 'a option \<Rightarrow> bool" where
  "tighter a b \<longleftrightarrow> (\<forall>y. b = Some y \<longrightarrow> (\<exists>x. a = Some x \<and> x \<le> y))"

definition limits_tighter :: "resource_limits \<Rightarrow> resource_limits \<Rightarrow> bool" where
  "limits_tighter a b \<longleftrightarrow>
     rl_timeout_seconds a \<le> rl_timeout_seconds b \<and> rl_max_output_chars a \<le> rl_max_output_chars b
     \<and> tighter (rl_memory_bytes a) (rl_memory_bytes b) \<and> tighter (rl_max_processes a) (rl_max_processes b)
     \<and> tighter (rl_cpu_seconds a) (rl_cpu_seconds b) \<and> tighter (rl_file_size_bytes a) (rl_file_size_bytes b)
     \<and> tighter (rl_temporary_storage_bytes a) (rl_temporary_storage_bytes b)"

lemma tighter_refl [simp]: "tighter x x"
  by (simp add: tighter_def)

lemma tighter_min: "tighter (min_limit c v) v" "tighter (min_limit c v) c"
  by (cases c; cases v; simp add: tighter_def min_limit_def)+

lemma effective_limits_tighter:
  "limits_tighter (effective_limits P l) l"
  "rp_limits P = Some c \<Longrightarrow> limits_tighter (effective_limits P l) c"
  by (simp_all add: limits_tighter_def effective_limits_def tighter_min split: option.split)

section \<open>Descriptors\<close>

text \<open>What the mounts need is what was opened: the options take every descriptor, in order, and never run out.\<close>

lemma descriptors_suffice:
  "open_each_mount H ms ds = (Inr opened, ds') \<Longrightarrow>
     \<exists>new opts. ds' = ds @ new \<and> filesystem_mount_options opened new = Inr opts
       \<and> length new = (\<Sum>m\<leftarrow>opened. if mt_host_path m = mt_mount_path m then 1 else 2)"
proof (induction ms arbitrary: ds opened ds')
  case Nil
  then show ?case by simp
next
  case (Cons m ms)
  from Cons.prems obtain host rest where h: "ho_open_directory H (mt_host_path m) = Some host"
    and o: "opened = m\<lparr>mt_host_path := host\<rparr> # rest"
    and r: "open_each_mount H ms (if host \<noteq> mt_mount_path m then open_descriptor H (open_descriptor H ds)
                                  else open_descriptor H ds) = (Inr rest, ds')"
    by (auto simp: Let_def split: option.splits prod.splits sum.splits)
  from Cons.IH [OF r] obtain new opts where n: "filesystem_mount_options rest new = Inr opts"
      "length new = (\<Sum>m\<leftarrow>rest. if mt_host_path m = mt_mount_path m then 1 else 2)"
      "ds' = (if host \<noteq> mt_mount_path m then open_descriptor H (open_descriptor H ds) else open_descriptor H ds) @ new"
    by blast
  show ?case
    using n by (auto simp: o open_descriptor_def)
qed


section \<open>Confinement\<close>

text \<open>The one mount of a run: a directory in the workspace root or an added project, apart from everything that is protected.\<close>

definition mount_confined :: "sandbox_host \<Rightarrow> runtime_policy \<Rightarrow> sandbox_mount \<Rightarrow> bool" where
  "mount_confined H P m \<longleftrightarrow>
     (let host = ho_resolve H (posix_path (mt_host_path m))
      in mt_mount_path m = ''/workspace'' \<and> ho_is_dir H host
        \<and> (\<forall>q\<in>set (rp_protected_paths P). \<not> paths_overlap host q)
        \<and> (\<forall>q\<in>set (runtime_paths H P). \<not> paths_overlap host q)
        \<and> (\<forall>w. rp_workspace_root P = Some w \<longrightarrow> path_within host w
             \<or> (\<exists>f s. rp_workspaces P = Some f \<and> f (path_str host) = Inr s)))"

definition source_safe :: "sandbox_host \<Rightarrow> runtime_policy \<Rightarrow> posix_path \<Rightarrow> bool" where
  "source_safe H P s \<longleftrightarrow>
     (\<forall>q\<in>set (rp_protected_paths P). \<not> paths_overlap (ho_resolve H s) q)
     \<and> (\<forall>w. rp_workspace_root P = Some w \<longrightarrow> \<not> paths_overlap (ho_resolve H s) w)"

definition cwd_confined :: "sandbox_host \<Rightarrow> sandbox_mount \<Rightarrow> string option \<Rightarrow> bool" where
  "cwd_confined H m cwd \<longleftrightarrow>
     (let host = ho_resolve H (posix_path (mt_host_path m))
      in \<forall>s. cwd = Some s \<and> s \<noteq> [] \<longrightarrow> path_within (posix_path s) (posix_path ''/workspace'')
           \<and> path_within (ho_resolve H (path_join host (0, tl (snd (posix_path s))))) host)"

lemma check_added_project_Inr:
  "check_added_project P h = Inr u \<longleftrightarrow> (\<exists>f s. rp_workspaces P = Some f \<and> f (path_str h) = Inr s)"
  by (simp add: check_added_project_def split: option.split sum.split)

lemma validate_mount_confined:
  assumes "validate_mount H P m = Inr u" and idem: "\<And>p. ho_resolve H (ho_resolve H p) = ho_resolve H p"
  shows "mount_confined H P m"
  using assms(1) unfolding validate_mount_def mount_confined_def Let_def bind_e_eq_Inr check_protected_Inr refuse_if_Inr paths_overlap_def
    list_ex_iff
  by (cases "rp_workspace_root P") (simp_all add: idem check_added_project_Inr split: if_splits)

lemma validate_mounts_confined:
  assumes "validate_mounts H P ms = Inr u" and idem: "\<And>p. ho_resolve H (ho_resolve H p) = ho_resolve H p"
  shows "\<exists>m. ms = [m] \<and> mount_confined H P m"
proof -
  have "length ms = 1" and "\<forall>m\<in>set ms. validate_mount H P m = Inr ()"
    using assms(1) by (simp_all add: validate_mounts_def bind_e_eq_Inr check_each_Inr)
  then show ?thesis
    by (cases ms) (auto intro: validate_mount_confined [OF _ idem])
qed

lemma posix_workspace: "posix_path ''/workspace'' = (1, [''workspace''])"
  by (simp add: posix_path_def)

lemma find_virtualenv_root: "find_virtualenv H project cwd ds = Inr pe \<Longrightarrow> pe_root pe = project"
  by (induction ds) (auto simp: check_virtualenv_def Let_def bind_e_eq_Inr split: if_splits)

lemma policy_project_environment_Inr:
  assumes "policy_project_environment H P r = Inr pe" and "xp_filesystem_mounts (xr_policy r) = [m]"
  shows "pe_root pe = ho_resolve H (posix_path (mt_host_path m))" "cwd_confined H m (xc_cwd (xr_command r))"
    "pe_python_runtime pe = Some p \<Longrightarrow> \<not> path_within (ho_resolve H p) (pe_root pe) \<Longrightarrow> source_safe H P p"
proof -
  let ?host = "ho_resolve H (posix_path (mt_host_path m))"
  from assms have e: "resolve_project_environment H ?host (xc_cwd (xr_command r)) = Inr pe"
    and c: "\<And>p. pe_python_runtime pe = Some p \<Longrightarrow> \<not> path_within (ho_resolve H p) ?host \<Longrightarrow> check_python_runtime H P p = Inr ()"
    by (auto simp: policy_project_environment_def Let_def bind_e_eq_Inr split: option.splits if_splits)
  show r: "pe_root pe = ?host"
    using e by (auto simp: resolve_project_environment_def Let_def bind_e_eq_Inr dest: find_virtualenv_root)
  show "cwd_confined H m (xc_cwd (xr_command r))"
    using e by (auto simp: resolve_project_environment_def Let_def bind_e_eq_Inr cwd_confined_def posix_workspace drop_Suc)
  show "source_safe H P p" if "pe_python_runtime pe = Some p" "\<not> path_within (ho_resolve H p) (pe_root pe)"
    using c [of p] that r by (simp add: check_python_runtime_def Let_def sandbox_checks source_safe_def)
qed

lemma set_first_occurrences [simp]: "set (first_occurrences xs) = set xs"
  by (simp add: first_occurrences_def)

definition binds :: "(posix_path \<times> string) list \<Rightarrow> string list" where
  "binds bs = concat (map (\<lambda>(s, t). ro_bind (path_str s) t) bs)"

lemma binds_append [simp]: "binds (as @ bs) = binds as @ binds bs"
  by (simp add: binds_def)

text \<open>Everything that the runtimes bind is apart from the protected paths and from the workspace root.\<close>

lemma runtime_mounts_safe:
  assumes o: "runtime_mount_options H P pe = Inr opts"
    and idem: "\<And>p. ho_resolve H (ho_resolve H p) = ho_resolve H p"
    and python: "\<And>p. pe_python_runtime pe = Some p \<Longrightarrow> \<not> path_within (ho_resolve H p) (pe_root pe) \<Longrightarrow> source_safe H P p"
  shows "\<exists>bs. opts = binds bs \<and> (\<forall>(s, t)\<in>set bs. source_safe H P s)"
proof -
  let ?Q = "\<lambda>bs. \<forall>(s, t)\<in>set bs. source_safe H P s"
  let ?paths = "rp_readonly_paths P @ (if pe_virtualenv pe = None then rp_environment_paths P else [])"
  from o obtain a b c where
    a: "collect_each (\<lambda>p. bind_e (check_protected H P p) (\<lambda>_. bind_e (check_runtime_overlap H P p) (\<lambda>_.
          Inr (ro_bind (path_str p) (path_str p))))) (first_occurrences ?paths) = Inr a"
    and b: "python_runtime_options H P pe = Inr b"
    and c: "collect_each (executable_options H P) [(''uv'', rp_uv_path P), (''node'', rp_node_path P)] = Inr c"
    and opts: "opts = a @ b @ c"
    by (auto simp: runtime_mount_options_def Let_def bind_e_eq_Inr simp del: collect_each.simps)
  have "\<exists>ts. a = concat (map (\<lambda>(s, t). ro_bind (path_str s) t) ts) \<and> ?Q ts"
    by (rule collect_each_Inr [OF a]) (force simp: sandbox_checks source_safe_def intro!: exI [of _ "[(x, path_str x)]" for x])+
  moreover have "\<exists>ts. b = concat (map (\<lambda>(s, t). ro_bind (path_str s) t) ts) \<and> ?Q ts"
  proof (cases "\<exists>p. pe_python_runtime pe = Some p \<and> \<not> path_within (ho_resolve H p) (pe_root pe)")
    case True
    then obtain p where p: "pe_python_runtime pe = Some p" "\<not> path_within (ho_resolve H p) (pe_root pe)" by blast
    let ?s = "ho_resolve H p"
    let ?ts = "(?s, path_str ?s) # (if ?s \<noteq> p then [(?s, path_str p)] else [])"
    have "source_safe H P ?s"
      using python [OF p] by (simp add: source_safe_def idem)
    moreover have "b = concat (map (\<lambda>(s, t). ro_bind (path_str s) t) ?ts)"
      using b p by (auto simp: python_runtime_options_def Let_def bind_e_eq_Inr)
    ultimately show ?thesis by (intro exI [of _ ?ts]) auto
  next
    case False
    then have "b = []"
      using b by (auto simp: python_runtime_options_def Let_def split: option.splits if_splits)
    then show ?thesis by (intro exI [of _ "[]"]) simp
  qed
  moreover have "\<exists>ts. c = concat (map (\<lambda>(s, t). ro_bind (path_str s) t) ts) \<and> ?Q ts"
  proof (rule collect_each_Inr [OF c])
    fix x zs
    assume x: "executable_options H P x = Inr zs"
    show "\<exists>ts. zs = concat (map (\<lambda>(s, t). ro_bind (path_str s) t) ts) \<and> ?Q ts"
    proof (cases "snd x")
      case None
      then have "zs = []" using x by (auto simp: executable_options_def split: prod.splits)
      then show ?thesis by (intro exI [of _ "[]"]) simp
    next
      case (Some e)
      let ?ts = "[(ho_resolve H (posix_path e), ''/opt/evernight/bin/'' @ fst x)]"
      have "zs = concat (map (\<lambda>(s, t). ro_bind (path_str s) t) ?ts) \<and> ?Q ?ts"
        using x Some by (auto simp: executable_options_def sandbox_checks source_safe_def idem split: prod.splits)
      then show ?thesis ..
    qed
  qed auto
  ultimately obtain as bs cs where "opts = binds (as @ bs @ cs)" "?Q as" "?Q bs" "?Q cs"
    by (auto simp: opts binds_def)
  then show ?thesis
    by (intro exI [of _ "as @ bs @ cs"]) auto
qed


text \<open>C23: A command line that the sandbox prepares mounts one directory, at \<open>/workspace\<close>: a directory in the workspace root
  or an added project, apart from the protected data of the service and from the runtimes.  Everything else that is bound
  is read-only, and is a path of the system or apart from the protected data and from the workspace root.  The network mode in
  force is the configured one, whatever was asked for, where a workspace root is configured (and the requested one where
  none is), and the command line has \<open>--unshare-net\<close> exactly when that mode is to have no network.  The limits in force,
  under which the program is started, are within those requested and within the configured ceiling, and the time is within
  them.  The working directory stays in the project, and the policy allowed this very request.\<close>

theorem sandbox_confines_runs:
  assumes "prepare_sandbox_run H P authorize bwrap channel r [] = (Inr (r', command), ds)"
    and "\<And>p. ho_resolve H (ho_resolve H p) = ho_resolve H p"
  shows "\<exists>m bs mounts env program.
     xp_filesystem_mounts (xr_policy r') = [m] \<and> mount_confined H P m \<and> cwd_confined H m (xc_cwd (xr_command r'))
     \<and> command = bwrap # isolation_options r' @ (if xp_network_mode (xr_policy r') = Network_DISABLED then [''--unshare-net''] else [])
         @ system_mount_options H (xp_network_mode (xr_policy r')) @ binds bs @ mounts @ env_options env @ chdir_options r'
         @ [''--''] @ program
     \<and> (\<forall>(s, t)\<in>set bs. source_safe H P s)
     \<and> filesystem_mount_options [m] ds = Inr mounts \<and> resource_command H (xc_command (xr_command r)) (xp_resource_limits (xr_policy r')) = Inr program
     \<and> xp_network_mode (xr_policy r') =
          (if rp_workspace_root P = None then xp_network_mode (xr_policy r) else rp_network_mode P)
     \<and> limits_tighter (xp_resource_limits (xr_policy r')) (xp_resource_limits (xr_policy r))
     \<and> (\<forall>ceiling. rp_limits P = Some ceiling \<longrightarrow> limits_tighter (xp_resource_limits (xr_policy r')) ceiling)
     \<and> run_timeout r' \<le> rl_timeout_seconds (xp_resource_limits (xr_policy r'))
     \<and> xd_allowed (authorize r')"
proof -
  from assms(1) obtain ms pe where
    v: "validate_mounts H P ms = Inr ()" and r': "r' = effective_request P ms r"
    and d: "xd_allowed (authorize r')" and pe: "policy_project_environment H P r' = Inr pe"
    and c: "bubblewrap_command H P bwrap r' pe ds
        (case channel of None \<Rightarrow> [] | Some fd \<Rightarrow> [(SANDBOX_SIDE_CHANNEL_FD_ENV, nat_str fd)]) = Inr command"
    by (auto simp: prepare_sandbox_run_def bind_a_def Let_def bind_e_eq_Inr split: prod.splits sum.splits if_splits)
  obtain m where m: "ms = [m]" "mount_confined H P m"
    using validate_mounts_confined [OF v assms(2)] by blast
  have mounts: "xp_filesystem_mounts (xr_policy r') = [m]"
    by (simp add: r' effective_request_def Let_def m)
  note project = policy_project_environment_Inr [OF pe mounts]
  from c obtain network runtimes mo env program where
    n: "network_options (xp_network_mode (xr_policy r')) = Inr network"
    and rt: "runtime_mount_options H P pe = Inr runtimes"
    and mo: "filesystem_mount_options [m] ds = Inr mo"
    and pr: "resource_command H (xc_command (xr_command r')) (xp_resource_limits (xr_policy r')) = Inr program"
    and cmd: "command = bwrap # isolation_options r' @ network @ system_mount_options H (xp_network_mode (xr_policy r'))
        @ runtimes @ mo @ env_options env @ chdir_options r' @ [''--''] @ program"
    unfolding bubblewrap_command_def bind_e_eq_Inr mounts by auto
  obtain bs where bs: "runtimes = binds bs" "\<forall>(s, t)\<in>set bs. source_safe H P s"
    using runtime_mounts_safe [OF rt assms(2) project(3)] by blast
  have net: "network = (if xp_network_mode (xr_policy r') = Network_DISABLED then [''--unshare-net''] else [])"
    using n by (auto simp: network_options_def split: network_mode.splits)
  have eff: "xp_network_mode (xr_policy r') =
        (if rp_workspace_root P = None then xp_network_mode (xr_policy r) else rp_network_mode P)"
    "xp_resource_limits (xr_policy r') = effective_limits P (xp_resource_limits (xr_policy r))"
    "xc_command (xr_command r') = xc_command (xr_command r)"
    "run_timeout r' \<le> rl_timeout_seconds (xp_resource_limits (xr_policy r'))"
    by (auto simp: r' effective_request_def run_timeout_def Let_def split: option.split)
  show ?thesis
    using mounts m(2) project(2) cmd net bs mo pr eff d effective_limits_tighter
    by (intro exI [of _ m] exI [of _ bs] exI [of _ mo] exI [of _ env] exI [of _ program]) (simp add: eff(2,3))
qed

definition sample_host :: sandbox_host where
  "sample_host = \<lparr>ho_linux = True, ho_cwd = (1, []), ho_resolve = id, ho_exists = (\<lambda>_. False), ho_is_dir = (\<lambda>_. True),
     ho_is_file = (\<lambda>_. False), ho_readlink = (\<lambda>_. None), ho_file_size = (\<lambda>_. None), ho_read_text = (\<lambda>_. None),
     ho_which = (\<lambda>_. None), ho_open_directory = Some, ho_descriptor = (\<lambda>k. 10 + k), ho_environ = [],
     ho_home = (1, [''home'']), ho_prefix = ''/opt/py'', ho_base_prefix = ''/opt/py'', ho_executable = ''/opt/py/bin/python''\<rparr>"

definition sample_policy :: runtime_policy where
  "sample_policy = \<lparr>rp_network_mode = Network_DISABLED, rp_workspace_root = Some (1, [''srv'', ''work'']),
     rp_protected_paths = [(1, [''srv'', ''data''])], rp_workspaces = None, rp_limits = None,
     rp_python_runtime_roots = [(1, [''opt''])], rp_python_environment = None, rp_readonly_paths = [(1, [''opt'', ''x''])],
     rp_environment_paths = [], rp_uv_path = None, rp_node_path = None\<rparr>"

definition sample_limits :: resource_limits where
  "sample_limits = \<lparr>rl_timeout_seconds = 30, rl_max_output_chars = 12000, rl_memory_bytes = None, rl_max_processes = None,
     rl_cpu_seconds = None, rl_file_size_bytes = None, rl_temporary_storage_bytes = None, rl_metadata = []\<rparr>"

definition sandbox_sample :: sandbox_request where
  "sandbox_sample = \<lparr>xr_request_id = ''r'',
     xr_command = \<lparr>xc_command = [''ls''], xc_cwd = Some ''/workspace'', xc_env = [], xc_stdin = None,
       xc_timeout_seconds = Some 60, xc_side_channel = False, xc_metadata = []\<rparr>,
     xr_policy = \<lparr>xp_command_allowlist = [''ls''],
       xp_filesystem_mounts = [\<lparr>mt_host_path = ''/srv/work/p'', mt_mount_path = ''/workspace'', mt_access = Access_READ_WRITE,
         mt_metadata = []\<rparr>],
       xp_network_mode = Network_UNRESTRICTED, xp_network_allowlist = [], xp_allowed_env_keys = None,
       xp_resource_limits = sample_limits, xp_metadata = []\<rparr>, xr_metadata = []\<rparr>"

lemma sample_run:
  "case prepare_sandbox_run sample_host sample_policy basic_sandbox_authorize ''bwrap'' None sandbox_sample [] of
     (Inr _, _) \<Rightarrow> True | _ \<Rightarrow> False"
  by code_simp

theorem sandbox_confines_runs_witness:
  "case prepare_sandbox_run sample_host sample_policy basic_sandbox_authorize ''bwrap'' None sandbox_sample [] of
     (Inr (r', command), ds) \<Rightarrow>
       (\<exists>m. xp_filesystem_mounts (xr_policy r') = [m] \<and> mount_confined sample_host sample_policy m)
       \<and> ''--unshare-net'' \<in> set command
   | _ \<Rightarrow> False"
proof -
  obtain r' command ds where run: "prepare_sandbox_run sample_host sample_policy basic_sandbox_authorize ''bwrap'' None
      sandbox_sample [] = (Inr (r', command), ds)"
    using sample_run by (auto split: prod.splits sum.splits)
  have "rp_network_mode sample_policy = Network_DISABLED" "rp_workspace_root sample_policy \<noteq> None"
    by (simp_all add: sample_policy_def)
  then show ?thesis
    unfolding run using sandbox_confines_runs [OF run] by (auto simp: sample_host_def)
qed

text \<open>
  The basic policy compares the working directory with the mounts without taking \<open>..\<close> out, and the executor without
  isolation resolves it afterwards: a request can start in a directory outside every mount.
\<close>

definition dotted_host :: sandbox_host where
  "dotted_host = sample_host\<lparr>ho_resolve := path_abspath\<rparr>"

lemma dotted_cwd_escapes:
  "let r = sandbox_sample\<lparr>xr_command := (xr_command sandbox_sample)\<lparr>xc_cwd := Some ''/workspace/../..'', xc_timeout_seconds := None\<rparr>\<rparr>
   in xd_allowed (basic_sandbox_authorize r) \<and> resolve_cwd dotted_host r = Inr (Some (1, [''srv'']))"
  by code_simp

end
