(* ===== verification/ShellSessions.thy ===== *)
theory ShellSessions
  imports ShellPolicy Auth
begin

text \<open>
  The terminal state that shell commands share (\<open>infra/adapters/tool/shell_session.py\<close> and
  \<open>core/domain/shell.py\<close>): its store, what is taken from the record that a command leaves in the side channel, and the
  rules for variables and for \<open>PATH\<close>.

  A record is the text between NUL characters.  The deep copies of the store are values here.
\<close>

section \<open>Keys and the store\<close>

record shell_key =
  sk_owner_id :: "string option"
  sk_key :: string

definition session_key_of :: "metadata \<Rightarrow> shell_key option" where
  "session_key_of args =
     (case meta_get args ''_execution_context'' of
        PDict ctx \<Rightarrow>
          let owner = (case meta_get ctx ''owner_id'' of PStr s \<Rightarrow> if s = [] then None else Some s | _ \<Rightarrow> None);
              named = (\<lambda>field kind. case meta_get ctx field of
                  PStr s \<Rightarrow> if s = [] then None else Some \<lparr>sk_owner_id = owner, sk_key = kind @ '':'' @ s\<rparr>
                | _ \<Rightarrow> None)
          in (case named ''session_id'' ''session'' of Some k \<Rightarrow> Some k | None \<Rightarrow> named ''run_id'' ''run'')
      | _ \<Rightarrow> None)"

definition key_scope :: "shell_key \<Rightarrow> principal_scope option" where
  "key_scope k = (case sk_owner_id k of Some (c # s) \<Rightarrow> Some \<lparr>scope_owner_id = Some (c # s)\<rparr> | _ \<Rightarrow> None)"

definition store_owner :: "principal_scope option \<Rightarrow> string option" where
  "store_owner scope = (case scope of None \<Rightarrow> None | Some s \<Rightarrow> scope_owner_id s)"

type_synonym shell_store = "(string option \<times> string, shell_session_state) dict"

definition shell_store_get :: "shell_store \<Rightarrow> string \<Rightarrow> principal_scope option \<Rightarrow> shell_session_state option" where
  "shell_store_get d k scope = dict_get d (store_owner scope, k)"

definition shell_store_save :: "shell_session_state \<Rightarrow> principal_scope option \<Rightarrow> shell_store \<Rightarrow> shell_store" where
  "shell_store_save st scope d = dict_set (store_owner scope, st_session_key st) st d"

definition shell_store_delete :: "string \<Rightarrow> principal_scope option \<Rightarrow> shell_store \<Rightarrow> shell_store" where
  "shell_store_delete k scope d = dict_pop (store_owner scope, k) d"

section \<open>Variables\<close>

definition TRANSIENT_ENV :: "string list" where
  "TRANSIENT_ENV = [''PWD'', ''OLDPWD'', ''SHLVL'', ''_'', ''EVERNIGHT_SIDE_CHANNEL_FD'']"

definition DENIED_ENV :: "string list" where
  "DENIED_ENV = [''BASH_ENV'', ''BASHOPTS'', ''CDPATH'', ''ENV'', ''GLOBIGNORE'', ''IFS'', ''PROMPT_COMMAND'', ''PS4'', ''SHELLOPTS'']"

definition DENIED_ENV_PREFIXES :: "string list" where
  "DENIED_ENV_PREFIXES = [''LD_'', ''DYLD_'', ''BASH_FUNC_'']"

text \<open>The pattern of a name; \<open>$\<close> also matches before a newline at the end.\<close>

definition name_char :: "char \<Rightarrow> bool" where
  "name_char c \<longleftrightarrow> (let n = of_char c :: nat in 48 \<le> n \<and> n \<le> 57 \<or> 65 \<le> n \<and> n \<le> 90 \<or> n = 95 \<or> 97 \<le> n \<and> n \<le> 122)"

definition portable_name :: "string \<Rightarrow> bool" where
  "portable_name s \<longleftrightarrow>
     (let t = (if ends_with [newline] s then butlast s else s)
      in t \<noteq> [] \<and> list_all name_char t \<and> \<not> is_digit (hd t))"

definition env_rejection :: "string list option \<Rightarrow> string \<Rightarrow> string option" where
  "env_rejection allowed key =
     (if \<not> portable_name key then Some ''not a portable variable name''
      else if key \<in> set DENIED_ENV \<or> list_ex (\<lambda>p. starts_with p key) DENIED_ENV_PREFIXES
      then Some ''this variable changes how every later command runs''
      else if (case allowed of None \<Rightarrow> False | Some ks \<Rightarrow> key \<notin> set ks)
      then Some ''outside the configured allowed_env_keys''
      else None)"

section \<open>The tracker\<close>

definition new_shell_state :: "shell_key \<Rightarrow> posix_path \<Rightarrow> shell_session_state" where
  "new_shell_state k dir = \<lparr>st_session_key = sk_key k, st_owner_id = sk_owner_id k, st_root = path_str dir, st_cwd = ''.'',
     st_env = [], st_base_path = None, st_updated_at = None\<rparr>"

definition tracker_load :: "string list option \<Rightarrow> shell_store \<Rightarrow> shell_key \<Rightarrow> posix_path \<Rightarrow> shell_session_state" where
  "tracker_load allowed d k dir =
     (case shell_store_get d (sk_key k) (key_scope k) of
        None \<Rightarrow> new_shell_state k dir
      | Some st \<Rightarrow>
          if st_root st \<noteq> path_str dir then new_shell_state k dir
          else let st' = st\<lparr>st_env := filter (\<lambda>(name, _). env_rejection allowed name = None) (st_env st)\<rparr>
               in if dict_has (st_env st') ''PATH'' then st' else st'\<lparr>st_base_path := None\<rparr>)"

definition tracker_reset :: "shell_key \<Rightarrow> shell_store \<Rightarrow> shell_store" where
  "tracker_reset k d = shell_store_delete (sk_key k) (key_scope k) d"

definition tracker_save :: "int \<Rightarrow> shell_key \<Rightarrow> shell_session_state \<Rightarrow> shell_store \<Rightarrow> shell_store" where
  "tracker_save now k st d = shell_store_save (st\<lparr>st_updated_at := Some now\<rparr>) (key_scope k) d"

section \<open>The record of a command\<close>

definition SESSION_WRAPPER :: string where
  "SESSION_WRAPPER =
     (let q = [quote2]; b = [back_slash]; a = [quote1]; fd = q @ ''$__evn_fd'' @ q; dev = '' 2>/dev/null >'' @ q @ ''/dev/fd/$__evn_fd'' @ q
      in concat (map (\<lambda>l. l @ [newline])
       [''__evn_fd='' @ q @ ''${EVERNIGHT_SIDE_CHANNEL_FD:-}'' @ q,
        ''if [ -n '' @ fd @ '' ]; then'',
        ''  { printf '' @ a @ ''S'' @ b @ ''000'' @ a @ ''; env -0; }'' @ dev,
        ''  trap '' @ a @ ''__evn_rc=$?; { printf '' @ q @ ''E'' @ b @ ''000%s'' @ b @ ''000'' @ q @ '' '' @ q @ ''$(pwd -P)'' @ q @ ''; env -0; }''
          @ dev @ ''; exit '' @ q @ ''$__evn_rc'' @ q @ a @ '' EXIT'',
        ''fi'',
        ''__evn_script=$1'',
        ''shift'',
        ''eval '' @ q @ ''$__evn_script'' @ q]))"

definition wrap_script :: "string \<Rightarrow> string list" where
  "wrap_script script = [''/bin/sh'', ''-c'', SESSION_WRAPPER, ''evernight-shell'', script]"

definition nul :: char where
  "nul = CHR 0x00"

fun env_of :: "string list \<Rightarrow> (string, string) dict \<Rightarrow> (string, string) dict" where
  "env_of [] env = env"
| "env_of (r # rs) env =
     (let key = takeWhile (\<lambda>c. c \<noteq> CHR ''='') r
      in if CHR ''='' \<in> set r \<and> key \<noteq> [] then env_of rs (dict_set key (drop (Suc (length key)) r) env) else env_of rs env)"

definition parse_capture :: "string option \<Rightarrow> ((string, string) dict \<times> string \<times> (string, string) dict) option" where
  "parse_capture capture =
     (case capture of
        None \<Rightarrow> None
      | Some [] \<Rightarrow> None
      | Some text \<Rightarrow>
          let records = split_char nul text; i = length (takeWhile (\<lambda>r. r \<noteq> ''E'') records)
          in if hd records \<noteq> ''S'' \<or> ''E'' \<notin> set records \<or> length records \<le> i + 1 then None
             else Some (env_of (tl (take i records)) [], records ! (i + 1), env_of (drop (i + 2) records) []))"

text \<open>A path that the shell reports, in the sandbox or on the host, relative to the root of the project.\<close>

definition sandbox_relative :: "shell_machine \<Rightarrow> posix_path \<Rightarrow> string \<Rightarrow> string option" where
  "sandbox_relative M dir path =
     (let candidate = posix_path path; host = sm_resolve M candidate
      in if fst candidate = 0 then None
         else if path_within candidate (1, [''workspace'']) then
           let rest = tl (snd candidate) in if ''..'' \<in> set rest then None else Some (path_str (0, rest))
         else if path_within host dir then Some (path_str (0, drop (length (snd dir)) (snd host)))
         else None)"

section \<open>Taking over the state\<close>

definition path_entries :: "string \<Rightarrow> string list" where
  "path_entries = split_char (CHR '':'')"

definition apply_path ::
  "shell_machine \<Rightarrow> posix_path \<Rightarrow> (string, string) dict \<Rightarrow> string \<Rightarrow> shell_session_state \<Rightarrow> string option \<times> shell_session_state" where
  "apply_path M dir start v st =
     (let base = (case st_base_path st of
             Some b \<Rightarrow> b
           | None \<Rightarrow> path_entries (case dict_get start ''PATH'' of None \<Rightarrow> [] | Some p \<Rightarrow> p));
          added = filter (\<lambda>entry. entry \<noteq> [] \<and> entry \<notin> set base) (path_entries v)
      in if list_ex (\<lambda>entry. sandbox_relative M dir entry = None) added
         then (Some ''PATH may only add directories inside the project root'', st)
         else if added \<noteq> [] then (None, st\<lparr>st_env := dict_set ''PATH'' v (st_env st), st_base_path := Some base\<rparr>)
         else (None, st\<lparr>st_env := dict_pop ''PATH'' (st_env st), st_base_path := None\<rparr>))"

text \<open>One variable of the loop; the second component is the list of what was ignored.\<close>

definition apply_variable ::
  "shell_machine \<Rightarrow> string list option \<Rightarrow> posix_path \<Rightarrow> (string, string) dict \<Rightarrow> (string, string) dict \<Rightarrow> string
     \<Rightarrow> shell_session_state \<times> string list \<Rightarrow> shell_session_state \<times> string list" where
  "apply_variable M allowed dir start final key = (\<lambda>(st, ignored).
     if key \<in> set TRANSIENT_ENV \<or> dict_get start key = dict_get final key then (st, ignored)
     else case env_rejection allowed key of
         Some reason \<Rightarrow> (st, ignored @ [key @ '': '' @ reason])
       | None \<Rightarrow> (case dict_get final key of
             Some v \<Rightarrow>
               if key = ''PATH'' then (case apply_path M dir start v st of
                   (None, st') \<Rightarrow> (st', ignored)
                 | (Some reason, st') \<Rightarrow> (st', ignored @ [key @ '': '' @ reason]))
               else (st\<lparr>st_env := dict_set key v (st_env st)\<rparr>, ignored)
           | None \<Rightarrow>
               if dict_has (st_env st) key then
                 let st' = st\<lparr>st_env := dict_pop key (st_env st)\<rparr>
                 in (if key = ''PATH'' then st'\<lparr>st_base_path := None\<rparr> else st', ignored)
               else (st, ignored @ [key @ '': inherited variables cannot be unset''])))"

definition apply_capture ::
  "shell_machine \<Rightarrow> string list option \<Rightarrow> posix_path \<Rightarrow> shell_session_state \<Rightarrow> string option \<Rightarrow> shell_session_state \<times> string list" where
  "apply_capture M allowed dir st capture =
     (case parse_capture capture of
        None \<Rightarrow> (st, if capture = None then [] else [''The shell state record was incomplete''])
      | Some (start, cwd, final) \<Rightarrow>
          let placed = (case sandbox_relative M dir cwd of
                None \<Rightarrow> (st, [''cwd: the directory is outside the project root''])
              | Some rel \<Rightarrow> if sm_is_dir M (path_join dir (posix_path rel)) then (st\<lparr>st_cwd := rel\<rparr>, [])
                  else (st, [''cwd: the directory is outside the project root'']))
          in fold (apply_variable M allowed dir start final) (sort (remdups (dict_keys start @ dict_keys final))) placed)"

text \<open>Commands that the \<open>PATH\<close> of the session resolves to files of the project.\<close>

definition path_shadow_reason ::
  "shell_machine \<Rightarrow> shell_session_state \<Rightarrow> shell_command \<Rightarrow> posix_path \<Rightarrow> string option" where
  "path_shadow_reason M st command dir =
     (case (dict_get (st_env st) ''PATH'', st_base_path st) of
        (Some path, Some base) \<Rightarrow>
          let added = map (\<lambda>rel. path_join dir (posix_path rel))
                (List.map_filter (sandbox_relative M dir) (filter (\<lambda>e. e \<noteq> [] \<and> e \<notin> set base) (path_entries path)));
              shadowed = filter (\<lambda>parts. parts \<noteq> [] \<and> CHR ''/'' \<notin> set (hd parts) \<and> back_slash \<notin> set (hd parts)
                \<and> list_ex (\<lambda>d. sm_is_program M (path_join d (posix_path (hd parts)))) added) (commands_within M 17 command)
          in (case shadowed of [] \<Rightarrow> None
             | parts # _ \<Rightarrow> Some (executable_name (hd parts)
                 @ '' resolves through a PATH entry this shell session added; approval is required''))
      | _ \<Rightarrow> None)"

end
