(* ===== verification/WorkspaceDirs.thy ===== *)
theory WorkspaceDirs
  imports Paths Files
begin

text \<open>
  The project folders that tools may work in (\<open>infra/adapters/tool/workspace_directory.py\<close> and \<open>project_roots.py\<close>):
  which directory a path of a client means, and which it may mean.

  The host is a record of parameters: the resolution of paths, the directories and their entries, and the making of a
  directory, which returns the host after it.  The registered projects are the texts of their paths, in the set of the
  store or in its table.  Drives of Windows are not modelled.
\<close>

datatype mkdir_failure = Mkdir_exists | Mkdir_failed

datatype dir_host = Dir_host
  (dh_resolve: "posix_path \<Rightarrow> posix_path")
  (dh_is_dir: "posix_path \<Rightarrow> bool")
  (dh_expanduser: "posix_path \<Rightarrow> posix_path")
  (dh_entries: "posix_path \<Rightarrow> (string \<times> bool \<times> bool) list option")
  (dh_mkdir: "posix_path \<Rightarrow> mkdir_failure + dir_host")

record workspace_store =
  ws_root :: posix_path
  ws_browse_root :: "posix_path option"
  ws_protected :: "posix_path list"
  ws_projects :: "string list"

record workspace_entry =
  we_name :: string
  we_path :: string
  we_is_directory :: bool

record workspace_directory =
  wd_root :: string
  wd_path :: string
  wd_entries :: "workspace_entry list"
  wd_truncated :: bool
  wd_parent :: "string option"
  wd_requires_registration :: bool

record workspace_project =
  wp_name :: string
  wp_path :: string

definition new_workspace_store :: "dir_host \<Rightarrow> posix_path \<Rightarrow> string \<Rightarrow> string list \<Rightarrow> bool \<Rightarrow> workspace_store" where
  "new_workspace_store H home project protected browse =
     \<lparr>ws_root = dh_resolve H (posix_path project),
      ws_browse_root = (if browse then Some (dh_resolve H home) else None),
      ws_protected = map (\<lambda>p. dh_resolve H (posix_path p)) protected, ws_projects = []\<rparr>"

definition registered_paths :: "workspace_store \<Rightarrow> posix_path list" where
  "registered_paths S = map posix_path (ws_projects S)"

definition list_projects :: "workspace_store \<Rightarrow> workspace_project list" where
  "list_projects S =
     map (\<lambda>p. \<lparr>wp_name = (case path_name p of [] \<Rightarrow> path_str p | n # _ \<Rightarrow> n), wp_path = path_str p\<rparr>)
       (ws_root S # sort_key snd (filter (\<lambda>p. p \<noteq> ws_root S) (remdups (registered_paths S))))"

definition check_project :: "workspace_store \<Rightarrow> posix_path \<Rightarrow> error + unit" where
  "check_project S p =
     (if list_ex (\<lambda>q. path_within p q \<or> path_within q p) (ws_protected S)
      then Inl (validation_error (utf8 [230, 173, 164, 231, 155, 174, 229, 189, 149, 229, 140, 133, 229, 144, 171, 230, 156, 141, 229, 138, 161,
        230, 149, 176, 230, 141, 174, 230, 136, 150, 232, 191, 144, 232, 161, 140, 231, 142, 175, 229, 162, 131, 239,
        188, 140, 232, 175, 183, 233, 128, 137, 230, 139, 169, 231, 139, 172, 231, 171, 139, 231, 154, 132, 233, 161,
        185, 231, 155, 174, 230, 150, 135, 228, 187, 182, 229, 164, 185]))
      else Inr ())"

definition has_nul :: "string \<Rightarrow> bool" where
  "has_nul s \<longleftrightarrow> CHR 0x00 \<in> set s"

text \<open>\<open>max(candidates, key=...)\<close> of a list that is not empty: the first of the longest.\<close>

fun longest_path :: "posix_path \<Rightarrow> posix_path list \<Rightarrow> posix_path" where
  "longest_path best [] = best"
| "longest_path best (p # ps) = longest_path (if length (snd best) < length (snd p) then p else best) ps"

text \<open>The directory that a path means, and the root it belongs to.\<close>

definition find_directory :: "dir_host \<Rightarrow> workspace_store \<Rightarrow> string \<Rightarrow> bool \<Rightarrow> error + posix_path \<times> posix_path" where
  "find_directory H S path browsing =
     (if has_nul path then Inl (validation_error (utf8 [232, 175, 183, 232, 190, 147, 229, 133, 165, 230, 156, 137, 230, 149, 136, 231, 154, 132, 229, 183, 165,
        228, 189, 156, 231, 155, 174, 229, 189, 149]))
      else let raw = posix_path path
      in if ''..'' \<in> set (snd raw) then Inl (validation_error (utf8 [228, 184, 141, 232, 131, 189, 232, 174, 191, 233, 151, 174, 229, 183, 165, 228, 189, 156, 230, 160, 185,
        231, 155, 174, 229, 189, 149, 228, 185, 139, 229, 164, 150, 231, 154, 132, 232, 183, 175, 229, 190, 132]))
      else
        let (target, base) = (case (browsing, ws_browse_root S) of
              (True, Some b) \<Rightarrow>
                let target = (if raw = (0, []) then b else dh_resolve H (path_join (ws_root S) raw))
                in (target, if path_within target b then b else ws_root S)
            | _ \<Rightarrow> (dh_resolve H (path_join (ws_root S) raw), ws_root S));
            candidates = filter (\<lambda>c. path_within target c \<and> dh_resolve H c = c) (registered_paths S)
        in bind_e (if path_within target base then Inr base
                   else case candidates of
                       [] \<Rightarrow> Inl (validation_error (utf8 [232, 175, 183, 229, 133, 136, 230, 183, 187, 229, 138, 160, 230, 173, 164, 233, 161, 185, 231, 155, 174,
        230, 150, 135, 228, 187, 182, 229, 164, 185, 239, 188, 140, 229, 134, 141, 233, 128, 137, 230, 139, 169, 229,
        183, 165, 228, 189, 156, 231, 155, 174, 229, 189, 149]))
                     | c # cs \<Rightarrow> (let chosen = longest_path c cs in bind_e (check_project S chosen) (\<lambda>_. Inr chosen)))
             (\<lambda>found. if dh_is_dir H target then Inr (target, found)
                else Inl (raised (Base NotFoundError) (utf8 [229, 183, 165, 228, 189, 156, 230, 150, 135, 228, 187, 182, 229, 164, 185, 228, 184, 141, 229, 173, 152,
        229, 156, 168]))))"

definition workspace_resolve :: "dir_host \<Rightarrow> workspace_store \<Rightarrow> string \<Rightarrow> error + string" where
  "workspace_resolve H S path = bind_e (find_directory H S path False) (\<lambda>(target, _). Inr (path_str target))"

definition shown_path :: "workspace_store \<Rightarrow> posix_path \<Rightarrow> posix_path \<Rightarrow> string" where
  "shown_path S directory base =
     (if base = ws_root S \<and> ws_browse_root S = None
      then path_str (0, drop (length (snd (ws_root S))) (snd directory)) else path_str directory)"

text \<open>The entries of a directory: at most 500, links left out; then directories first, each kind by its name.\<close>

fun listed_entries :: "(string \<times> bool \<Rightarrow> 'e) \<Rightarrow> (string \<times> bool \<times> bool) list \<Rightarrow> 'e list \<Rightarrow> 'e list \<times> bool" where
  "listed_entries entry [] acc = (acc, False)"
| "listed_entries entry ((name, link, is_dir) # rest) acc =
     (if length acc \<ge> 500 then (acc, True)
      else if link then listed_entries entry rest acc
      else listed_entries entry rest (acc @ [entry (name, is_dir)]))"

definition folded_name :: "string \<Rightarrow> string" where
  "folded_name s = map char_lower s"

definition sorted_entries :: "workspace_entry list \<Rightarrow> workspace_entry list" where
  "sorted_entries es =
     sort_key (\<lambda>e. folded_name (we_name e)) (filter we_is_directory es)
     @ sort_key (\<lambda>e. folded_name (we_name e)) (filter (\<lambda>e. \<not> we_is_directory e) es)"

definition needs_registration :: "dir_host \<Rightarrow> workspace_store \<Rightarrow> posix_path \<Rightarrow> error + bool" where
  "needs_registration H S directory =
     (if ws_browse_root S = None then Inr False
      else case workspace_resolve H S (path_str directory) of
          Inr _ \<Rightarrow> Inr False
        | Inl e \<Rightarrow> if isinstance (error_class e) (Base ValidationError) then Inr True else Inl e)"

definition workspace_browse :: "dir_host \<Rightarrow> workspace_store \<Rightarrow> string \<Rightarrow> error + workspace_directory" where
  "workspace_browse H S path =
     bind_e (find_directory H S path True) (\<lambda>(directory, base).
     case dh_entries H directory of
       None \<Rightarrow> Inl (validation_error (utf8 [230, 151, 160, 230, 179, 149, 232, 175, 187, 229, 143, 150, 230, 173, 164, 229, 183, 165, 228, 189, 156,
        230, 150, 135, 228, 187, 182, 229, 164, 185]))
     | Some listing \<Rightarrow>
         let (entries, truncated) = listed_entries (\<lambda>(name, is_dir). \<lparr>we_name = name,
               we_path = shown_path S (path_join directory (0, [name])) base, we_is_directory = is_dir\<rparr>) listing []
         in bind_e (needs_registration H S directory) (\<lambda>requires.
            Inr \<lparr>wd_root = path_str base, wd_path = shown_path S directory base, wd_entries = sorted_entries entries,
                 wd_truncated = truncated,
                 wd_parent = (if directory \<noteq> base then Some (shown_path S (path_parent directory) base) else None),
                 wd_requires_registration = requires\<rparr>))"

definition add_project :: "dir_host \<Rightarrow> string \<Rightarrow> (error, workspace_store, workspace_directory) act" where
  "add_project H path S =
     (let expanded = dh_expanduser H (posix_path path); target = dh_resolve H expanded
      in if has_nul path then (Inl (validation_error (utf8 [232, 175, 183, 232, 190, 147, 229, 133, 165, 230, 156, 137, 230, 149, 136, 231, 154, 132, 233, 161, 185,
        231, 155, 174, 232, 183, 175, 229, 190, 132])), S)
         else if fst expanded = 0 then (Inl (validation_error (utf8 [232, 175, 183, 232, 190, 147, 229, 133, 165, 229, 144, 142, 231, 171, 175, 228, 184, 187, 230, 156, 186,
        228, 184, 138, 233, 161, 185, 231, 155, 174, 230, 150, 135, 228, 187, 182, 229, 164, 185, 231, 154, 132, 231,
        187, 157, 229, 175, 185, 232, 183, 175, 229, 190, 132])), S)
         else case check_project S target of
           Inl e \<Rightarrow> (Inl e, S)
         | Inr _ \<Rightarrow>
             if \<not> dh_is_dir H target then (Inl (raised (Base NotFoundError) (utf8 [233, 161, 185, 231, 155, 174, 230, 150, 135, 228, 187, 182, 229, 164, 185, 228, 184, 141, 229, 173, 152,
        229, 156, 168])), S)
             else let S' = S\<lparr>ws_projects := List.insert (path_str target) (ws_projects S)\<rparr>
                  in (workspace_browse H S' (path_str target), S'))"

definition create_folder :: "dir_host \<Rightarrow> workspace_store \<Rightarrow> string \<Rightarrow> string \<Rightarrow> (error + workspace_directory) \<times> dir_host" where
  "create_folder H S path name =
     (if list_all is_space name \<or> name \<in> {''.'', ''..''} \<or> CHR ''/'' \<in> set name \<or> back_slash \<in> set name \<or> has_nul name
      then (Inl (validation_error (utf8 [232, 175, 183, 232, 190, 147, 229, 133, 165, 230, 156, 137, 230, 149, 136, 231, 154, 132, 230, 150, 135,
        228, 187, 182, 229, 164, 185, 229, 144, 141, 231, 167, 176])), H)
      else case find_directory H S path True of
        Inl e \<Rightarrow> (Inl e, H)
      | Inr (directory, base) \<Rightarrow>
          let target = path_join directory (posix_path name)
          in if ws_browse_root S \<noteq> None \<and> list_ex (path_within (dh_resolve H target)) (ws_protected S)
             then (Inl (validation_error (utf8 [228, 184, 141, 232, 131, 189, 229, 156, 168, 230, 156, 141, 229, 138, 161, 230, 149, 176, 230, 141, 174,
        230, 136, 150, 232, 191, 144, 232, 161, 140, 231, 142, 175, 229, 162, 131, 228, 184, 173, 229, 136, 155, 229,
        187, 186, 229, 183, 165, 228, 189, 156, 230, 150, 135, 228, 187, 182, 229, 164, 185])), H)
             else case dh_mkdir H target of
               Inl Mkdir_exists \<Rightarrow> (Inl (raised (Base ConflictError) (utf8 [230, 173, 164, 229, 144, 141, 231, 167, 176, 229, 183, 178, 229, 173, 152, 229, 156, 168])), H)
             | Inl Mkdir_failed \<Rightarrow> (Inl (validation_error (utf8 [230, 151, 160, 230, 179, 149, 229, 136, 155, 229, 187, 186, 229, 183, 165, 228, 189, 156, 230, 150, 135,
        228, 187, 182, 229, 164, 185])), H)
             | Inr H' \<Rightarrow> (workspace_browse H' S (shown_path S target base), H'))"

section \<open>Roots of projects\<close>

record root_resolver =
  rr_default_root :: posix_path
  rr_workspaces :: "string \<Rightarrow> error + string"
  rr_project_roots :: "(string, posix_path) dict"

definition tool_input_error :: "string \<Rightarrow> error" where
  "tool_input_error m = raised (Tool ToolInputError) m"

definition project_directory :: "dir_host \<Rightarrow> string \<Rightarrow> string \<Rightarrow> error + posix_path" where
  "project_directory H project directory =
     (let p = posix_path directory
      in if fst p = 0 then Inl (raised (Tool ToolConfigurationError)
             (''The project directory for '' @ project @ '' must be absolute''))
         else if \<not> dh_is_dir H (dh_resolve H p) then Inl (raised (Tool ToolConfigurationError)
             (''The project directory for '' @ project @ '' does not exist''))
         else Inr (dh_resolve H p))"

fun project_roots :: "dir_host \<Rightarrow> (string \<times> string) list \<Rightarrow> error + (string, posix_path) dict" where
  "project_roots H [] = Inr []"
| "project_roots H ((project, directory) # rest) =
     bind_e (project_directory H project directory) (\<lambda>p. bind_e (project_roots H rest) (\<lambda>ps. Inr ((project, p) # ps)))"

text \<open>\<open>str(exc)\<close> of an error is its message.\<close>

definition resolve_root :: "root_resolver \<Rightarrow> pyval \<Rightarrow> bool \<Rightarrow> pyval \<Rightarrow> error + string option \<times> posix_path" where
  "resolve_root R project require_configured working_directory =
     (case working_directory of
        PNone \<Rightarrow> (case project of
            PNone \<Rightarrow> Inr (None, rr_default_root R)
          | PStr (c # s) \<Rightarrow> (case dict_get (rr_project_roots R) (c # s) of
                Some p \<Rightarrow> Inr (Some (c # s), p)
              | None \<Rightarrow> if require_configured
                  then Inl (tool_input_error (''The project '' @ (c # s) @ '' is not configured''))
                  else Inr (Some (c # s), rr_default_root R))
          | _ \<Rightarrow> Inl (tool_input_error ''The project name must be a non-empty string''))
      | PStr (c # s) \<Rightarrow>
          if project \<noteq> PNone then Inl (tool_input_error (utf8 [229, 183, 178, 233, 128, 137, 230, 139, 169, 229, 183, 165, 228, 189, 156, 230, 150, 135, 228, 187, 182,
        229, 164, 185, 239, 188, 140, 228, 184, 141, 232, 131, 189, 229, 144, 140, 230, 151, 182, 230, 140, 135, 229,
        174, 154, 229, 133, 182, 228, 187, 150, 233, 161, 185, 231, 155, 174]))
          else (case rr_workspaces R (c # s) of
              Inr p \<Rightarrow> Inr (None, posix_path p)
            | Inl e \<Rightarrow>
                if isinstance (error_class e) (Base NotFoundError) \<or> isinstance (error_class e) (Base ValidationError)
                then Inl (Error (Tool ToolInputError) (error_message e) None (Some e)) else Inl e)
      | _ \<Rightarrow> Inl (tool_input_error (utf8 [229, 183, 165, 228, 189, 156, 231, 155, 174, 229, 189, 149, 229, 191, 133, 233, 161, 187, 230, 152, 175,
        230, 156, 137, 230, 149, 136, 232, 183, 175, 229, 190, 132])))"

section \<open>What a working directory may be\<close>

lemma longest_path_mem: "longest_path c cs \<in> set (c # cs)"
proof (induction cs arbitrary: c)
  case (Cons p ps)
  then show ?case using Cons.IH [of c] Cons.IH [of p] by simp blast
qed simp

definition directory_allowed :: "dir_host \<Rightarrow> workspace_store \<Rightarrow> posix_path \<Rightarrow> bool" where
  "directory_allowed H S target \<longleftrightarrow>
     dh_is_dir H target
     \<and> (path_within target (ws_root S)
        \<or> (\<exists>c\<in>set (registered_paths S). path_within target c \<and> dh_resolve H c = c
             \<and> (\<forall>q\<in>set (ws_protected S). \<not> paths_overlap target q)))"

lemma check_project_Inr: "check_project S p = Inr u \<longleftrightarrow> (\<forall>q\<in>set (ws_protected S). \<not> paths_overlap p q)"
  by (auto simp: check_project_def list_ex_iff paths_overlap_def)

text \<open>A directory that a client selects as the place of work is one under the configured root, or under a folder that
  was added as a project, that is still what its path says, and that neither holds nor lies in protected data.\<close>

theorem working_directory_confined:
  assumes "workspace_resolve H S path = Inr s"
  shows "\<exists>target. s = path_str target \<and> directory_allowed H S target"
proof -
  from assms obtain target found where f: "find_directory H S path False = Inr (target, found)" and s: "s = path_str target"
    by (auto simp: workspace_resolve_def bind_e_eq_Inr)
  have dir: "dh_is_dir H target"
    using f by (auto simp: find_directory_def Let_def bind_e_eq_Inr split: if_splits)
  show ?thesis
  proof (cases "path_within target (ws_root S)")
    case True
    then show ?thesis using s dir by (intro exI [of _ target]) (simp add: directory_allowed_def)
  next
    case False
    then obtain c cs where c: "filter (\<lambda>c. path_within target c \<and> dh_resolve H c = c) (registered_paths S) = c # cs"
        "check_project S (longest_path c cs) = Inr ()"
      using f by (auto simp: find_directory_def Let_def bind_e_eq_Inr split: if_splits list.splits)
    let ?p = "longest_path c cs"
    have "?p \<in> set (registered_paths S)" "path_within target ?p" "dh_resolve H ?p = ?p"
      using longest_path_mem [of c cs] unfolding c(1) [symmetric] by auto
    moreover have "\<forall>q\<in>set (ws_protected S). \<not> paths_overlap target q"
      using c(2) calculation(2) by (metis check_project_Inr paths_overlap_below)
    ultimately show ?thesis using s dir by (intro exI [of _ target]) (auto simp: directory_allowed_def)
  qed
qed


definition plain_host :: dir_host where
  "plain_host = Dir_host id (\<lambda>_. True) id (\<lambda>_. Some []) (\<lambda>_. Inl Mkdir_failed)"

definition plain_store :: workspace_store where
  "plain_store = \<lparr>ws_root = (1, [''srv'', ''work'']), ws_browse_root = None, ws_protected = [(1, [''srv'', ''data''])],
     ws_projects = [''/home/u/p'']\<rparr>"

theorem working_directory_confined_witness:
  "\<exists>target. ''/home/u/p/src'' = path_str target \<and> directory_allowed plain_host plain_store target"
  by (rule working_directory_confined [of plain_host plain_store "''/home/u/p/src''"]) code_simp

end
