(* ===== verification/ShellTool.thy ===== *)
theory ShellTool
  imports ShellSessions WorkspaceDirs ToolRegistry SandboxRuns
begin

text \<open>
  The tool \<open>restricted_shell\<close> (\<open>infra/adapters/tool/restricted_shell.py\<close>): how it reads its arguments, decides with the
  policy before an approval, binds an approval to the terminal state it was asked for, and runs the command in the
  sandbox.

  The state of the tool is the store of sessions with the versions that were authorized.  JSON texts, the digest of a
  state, the sandbox and the clock are parameters; the key of a binding is the tuple that the code prints as JSON.
\<close>

record shell_tool =
  sh_machine :: shell_machine
  sh_roots :: root_resolver
  sh_level :: approval_level
  sh_allowed_commands :: "string list"
  sh_blocked_commands :: "string list"
  sh_timeout_seconds :: rat
  sh_max_output_chars :: int
  sh_allowed_env_keys :: "string list option"
  sh_tracks_sessions :: bool
  sh_windows :: bool
  sh_json_loads :: "string \<Rightarrow> pyval option"
  sh_digest :: "string \<times> (string, string) dict \<Rightarrow> string"

type_synonym binding_key = "string option \<times> string \<times> string \<times> shell_command"

record shell_tool_state =
  tt_sessions :: shell_store
  tt_authorized :: "(binding_key, string) dict"

section \<open>Arguments\<close>

definition SANDBOX_MOUNT_PATH :: string where
  "SANDBOX_MOUNT_PATH = ''/workspace''"

definition string_parts :: "pyval list \<Rightarrow> string list option" where
  "string_parts vs =
     (if list_all (\<lambda>v. case v of PStr s \<Rightarrow> s \<noteq> [] | _ \<Rightarrow> False) vs
      then Some (map (\<lambda>v. case v of PStr s \<Rightarrow> s | _ \<Rightarrow> []) vs) else None)"

definition parse_list_command :: "pyval list \<Rightarrow> error + shell_command" where
  "parse_list_command vs =
     (if vs = [] then Inl (tool_input_error ''The restricted shell command must be a non-empty list'')
      else case string_parts vs of
          None \<Rightarrow> Inl (tool_input_error ''The restricted shell command parts must be strings'')
        | Some parts \<Rightarrow> Inr (Argv parts))"

definition parse_script_command :: "string \<Rightarrow> error + shell_command" where
  "parse_script_command s =
     (if list_all is_space s \<or> nul \<in> set s
      then Inl (tool_input_error ''The shell script must be non-empty without NUL bytes'') else Inr (Script s))"

text \<open>A text that is a JSON array is taken as the array.\<close>

definition parse_command :: "shell_tool \<Rightarrow> metadata \<Rightarrow> error + shell_command" where
  "parse_command T args =
     (case meta_get args ''command'' of
        PStr s \<Rightarrow>
          if starts_with ''['' (dropWhile is_space s)
          then (case sh_json_loads T s of Some (PList vs) \<Rightarrow> parse_list_command vs | _ \<Rightarrow> parse_script_command s)
          else parse_script_command s
      | PList vs \<Rightarrow> parse_list_command vs
      | _ \<Rightarrow> Inl (tool_input_error ''The restricted shell command must be a non-empty list''))"

definition selected_root :: "shell_tool \<Rightarrow> metadata \<Rightarrow> error + posix_path" where
  "selected_root T args =
     bind_e (resolve_root (sh_roots T) PNone True (meta_get args ''_working_directory'')) (\<lambda>(_, p). Inr p)"

definition host_cwd :: "shell_tool \<Rightarrow> metadata \<Rightarrow> shell_session_state option \<Rightarrow> error + posix_path" where
  "host_cwd T args state =
     bind_e (selected_root T args) (\<lambda>project.
     let M = sh_machine T; place = (\<lambda>s. sm_resolve M (path_join project (posix_path s)))
     in case meta_get args ''cwd'' of
       PNone \<Rightarrow> (case state of
           None \<Rightarrow> Inr project
         | Some st \<Rightarrow> if st_cwd st = ''.'' then Inr project
             else let cwd = place (st_cwd st)
                  in Inr (if sm_is_dir M cwd \<and> path_within cwd project then cwd else project))
     | PStr (c # s) \<Rightarrow>
         let cwd = place (c # s)
         in if \<not> path_within cwd project
            then Inl (tool_input_error ''The working directory must stay inside the configured root'')
            else if \<not> sm_is_dir M cwd
            then Inl (tool_input_error (''The working directory '' @ concat (path_name cwd) @ '' does not exist''))
            else Inr cwd
     | _ \<Rightarrow> Inl (tool_input_error ''The working directory must be a non-empty string''))"

definition parse_cwd :: "shell_tool \<Rightarrow> metadata \<Rightarrow> shell_session_state option \<Rightarrow> error + string" where
  "parse_cwd T args state =
     bind_e (host_cwd T args state) (\<lambda>cwd.
     bind_e (selected_root T args) (\<lambda>project.
       let rest = drop (length (snd project)) (snd cwd)
       in Inr (if rest = [] then SANDBOX_MOUNT_PATH else SANDBOX_MOUNT_PATH @ ''/'' @ path_str (0, rest))))"

definition env_entry_ok :: "string \<times> pyval \<Rightarrow> bool" where
  "env_entry_ok = (\<lambda>(k, v). k \<noteq> [] \<and> CHR ''='' \<notin> set k \<and> nul \<notin> set k \<and> (case v of PStr s \<Rightarrow> nul \<notin> set s | _ \<Rightarrow> False))"

definition parse_shell_env :: "shell_tool \<Rightarrow> metadata \<Rightarrow> error + (string, string) dict" where
  "parse_shell_env T args =
     (case meta_get args ''env'' of
        PNone \<Rightarrow> Inr []
      | PDict d \<Rightarrow>
          if \<not> list_all env_entry_ok d then Inl (tool_input_error ''Environment keys and values must be valid strings'')
          else bind_e (if d = [] then Inr False else
                 bind_e (parse_command T args) (\<lambda>c. Inr (may_delete (sm_limit (sh_machine T)) c (sm_dialect (sh_machine T)))))
               (\<lambda>deletes.
               if deletes then Inl (tool_input_error ''Environment variable overrides are forbidden for deletion commands'')
               else if (case sh_allowed_env_keys T of None \<Rightarrow> False | Some ks \<Rightarrow> \<not> set (dict_keys d) \<subseteq> set ks)
               then Inl (tool_input_error ''Environment keys are outside the configured allowed_env_keys'')
               else Inr (map (\<lambda>(k, v). (k, case v of PStr s \<Rightarrow> s | _ \<Rightarrow> [])) d))
      | _ \<Rightarrow> Inl (tool_input_error ''The env value must be a dictionary''))"

definition parse_timeout :: "shell_tool \<Rightarrow> metadata \<Rightarrow> error + rat" where
  "parse_timeout T args =
     (let v = (case dict_get args ''timeout_seconds'' of None \<Rightarrow> PFloat (sh_timeout_seconds T) | Some v \<Rightarrow> v);
          n = (case v of PInt i \<Rightarrow> of_int i | PFloat r \<Rightarrow> r | PBool b \<Rightarrow> (if b then 1 else 0) | _ \<Rightarrow> 0)
      in if n \<le> 0 then Inl (tool_input_error ''The timeout_seconds value must be positive'') else Inr n)"

section \<open>Sessions and bindings\<close>

definition tool_session ::
  "shell_tool \<Rightarrow> shell_store \<Rightarrow> metadata \<Rightarrow> error + (shell_key \<times> shell_session_state) option" where
  "tool_session T d args =
     (case (if sh_tracks_sessions T then session_key_of args else None) of
        None \<Rightarrow> Inr None
      | Some k \<Rightarrow> bind_e (selected_root T args) (\<lambda>project.
          Inr (Some (k, if meta_get args ''reset_session'' = PBool True then new_shell_state k project
                        else tracker_load (sh_allowed_env_keys T) d k project))))"

definition binding_of :: "shell_tool \<Rightarrow> metadata \<Rightarrow> error + binding_key option" where
  "binding_of T args =
     (case (session_key_of args, meta_get args ''_execution_context'') of
        (Some k, PDict ctx) \<Rightarrow> (case meta_get ctx ''tool_call_id'' of
            PStr call \<Rightarrow> bind_e (parse_command T args) (\<lambda>c. Inr (Some (sk_owner_id k, sk_key k, call, c)))
          | _ \<Rightarrow> Inr None)
      | _ \<Rightarrow> Inr None)"

definition state_version :: "shell_tool \<Rightarrow> shell_session_state \<Rightarrow> string" where
  "state_version T st = sh_digest T (st_cwd st, st_env st)"

definition check_state_version ::
  "shell_tool \<Rightarrow> metadata \<Rightarrow> shell_session_state option \<Rightarrow> (error, shell_tool_state, unit) act" where
  "check_state_version T args state w =
     (case binding_of T args of
        Inl e \<Rightarrow> (Inl e, w)
      | Inr binding \<Rightarrow> (case (binding, state) of
            (Some b, Some st) \<Rightarrow>
              let w' = w\<lparr>tt_authorized := dict_pop b (tt_authorized w)\<rparr>
              in (case dict_get (tt_authorized w) b of
                    None \<Rightarrow> (Inr (), w')
                  | Some v \<Rightarrow> if v \<noteq> state_version T st
                      then (Inl (tool_input_error ''Shell session changed before execution; request approval again''), w')
                      else (Inr (), w'))
          | _ \<Rightarrow> (Inr (), w)))"

section \<open>The policy\<close>

definition shell_failure_error :: "shell_failure \<Rightarrow> error" where
  "shell_failure_error f =
     (case f of Value_error m \<Rightarrow> raised (PyException ''ValueError'') m | Recursion_limit \<Rightarrow> raised (PyException ''RecursionError'') [])"

definition tool_policy :: "shell_tool \<Rightarrow> posix_path \<Rightarrow> shell_policy" where
  "tool_policy T project = \<lparr>pl_level = sh_level T, pl_trusted = sh_allowed_commands T, pl_blocked = sh_blocked_commands T,
     pl_root = project, pl_allowed_env_keys = sh_allowed_env_keys T\<rparr>"

text \<open>\<open>self._policy(arguments, state).evaluate(command, self._parse_env(arguments), state)\<close>.\<close>

definition judge_command ::
  "shell_tool \<Rightarrow> metadata \<Rightarrow> shell_session_state option \<Rightarrow> shell_command \<Rightarrow> error + shell_decision" where
  "judge_command T args state command =
     bind_e (selected_root T args) (\<lambda>project.
     bind_e (host_cwd T args state) (\<lambda>cwd.
     bind_e (parse_shell_env T args) (\<lambda>env.
       case evaluate_command (sh_machine T) (tool_policy T project) env state cwd command of
         Inl f \<Rightarrow> Inl (shell_failure_error f)
       | Inr d \<Rightarrow> Inr d)))"

definition reject_command :: "shell_decision \<Rightarrow> error + unit" where
  "reject_command d =
     (if dc_kind d = Shell_reject
      then Inl (tool_input_error (case dc_reason d of Some (c # s) \<Rightarrow> c # s | _ \<Rightarrow> ''Shell command rejected'')) else Inr ())"

definition refused :: "string option \<Rightarrow> tool_safety_decision" where
  "refused reason = \<lparr>sd_allowed = False, sd_reason = reason, sd_requires_approval = False, sd_approval_request = None,
     sd_metadata = []\<rparr>"

definition input_error_reason :: "error + 'a \<Rightarrow> string option" where
  "input_error_reason r =
     (case r of Inl e \<Rightarrow> if isinstance (error_class e) (Tool ToolInputError) then Some (error_message e) else None | Inr _ \<Rightarrow> None)"

definition shell_session_metadata :: "posix_path \<Rightarrow> shell_session_state option \<Rightarrow> metadata" where
  "shell_session_metadata cwd state =
     (''working_directory'', PStr (path_str cwd))
     # (case state of None \<Rightarrow> []
        | Some st \<Rightarrow> [(''shell_session'', PDict [(''cwd'', PStr (st_cwd st)),
            (''env_keys'', PList (map PStr (sort (dict_keys (st_env st)))))])])"

definition decision_of :: "posix_path \<Rightarrow> shell_session_state option \<Rightarrow> shell_decision \<Rightarrow> tool_safety_decision option" where
  "decision_of cwd state d =
     (case dc_kind d of
        Shell_reject \<Rightarrow> Some (refused (dc_reason d))
      | Shell_allow \<Rightarrow> None
      | Shell_ask \<Rightarrow> (case dc_reason d of
            None \<Rightarrow> None
          | Some reason \<Rightarrow> Some \<lparr>sd_allowed = False, sd_reason = Some reason, sd_requires_approval = True,
              sd_approval_request = None, sd_metadata = shell_session_metadata cwd state\<rparr>))"

text \<open>
  \<open>authorize\<close>, the preflight of a call.  A version that was authorized for the same call earlier has to be the version
  of the state now.
\<close>

definition shell_authorize :: "shell_tool \<Rightarrow> metadata \<Rightarrow> (error, shell_tool_state, tool_safety_decision option) act" where
  "shell_authorize T args w =
     (case tool_session T (tt_sessions w) args of
        Inl e \<Rightarrow> (Inl e, w)
      | Inr session \<Rightarrow>
          let state = map_option snd session
          in case host_cwd T args state of
            Inl e \<Rightarrow> (case input_error_reason (host_cwd T args state) of
                Some m \<Rightarrow> (Inr (Some (refused (Some m))), w) | None \<Rightarrow> (Inl e, w))
          | Inr cwd \<Rightarrow> (case parse_command T args of
              Inl e \<Rightarrow> (Inl e, w)
            | Inr command \<Rightarrow> (case parse_shell_env T args of
                Inl e \<Rightarrow> (case input_error_reason (parse_shell_env T args) of
                    Some m \<Rightarrow> (Inr (Some (refused (Some m))), w) | None \<Rightarrow> (Inl e, w))
              | Inr env \<Rightarrow> (case binding_of T args of
                  Inl e \<Rightarrow> (Inl e, w)
                | Inr binding \<Rightarrow>
                    let version = (case (binding, state) of (Some b, Some st) \<Rightarrow> Some (b, state_version T st) | _ \<Rightarrow> None);
                        stale = (case version of None \<Rightarrow> False
                          | Some (b, v) \<Rightarrow> (case dict_get (tt_authorized w) b of None \<Rightarrow> False | Some v' \<Rightarrow> v' \<noteq> v));
                        w' = (case version of None \<Rightarrow> w | Some (b, v) \<Rightarrow> w\<lparr>tt_authorized := dict_set b v (tt_authorized w)\<rparr>)
                    in if stale then (Inr (Some (refused (Some ''Shell session changed; request approval with a new tool call''))), w)
                       else case judge_command T args state command of
                         Inl e \<Rightarrow> (Inl e, w')
                       | Inr d \<Rightarrow> (Inr (decision_of cwd state d), w')))))"


section \<open>Execution\<close>

definition process_command :: "shell_tool \<Rightarrow> shell_command \<Rightarrow> string list" where
  "process_command T command =
     (case command of
        Argv parts \<Rightarrow> parts
      | Script s \<Rightarrow> if sh_windows T then [''cmd.exe'', ''/d'', ''/v:off'', ''/s'', ''/c'', s] else [''/bin/sh'', ''-c'', s])"

definition shell_sandbox_policy :: "shell_tool \<Rightarrow> string \<Rightarrow> posix_path \<Rightarrow> rat \<Rightarrow> sandbox_policy" where
  "shell_sandbox_policy T executable project timeout =
     \<lparr>xp_command_allowlist = [executable],
      xp_filesystem_mounts = [\<lparr>mt_host_path = path_str project, mt_mount_path = SANDBOX_MOUNT_PATH,
          mt_access = Access_READ_WRITE, mt_metadata = []\<rparr>],
      xp_network_mode = Network_DISABLED, xp_network_allowlist = [],
      xp_allowed_env_keys = map_option sort (sh_allowed_env_keys T),
      xp_resource_limits = \<lparr>rl_timeout_seconds = timeout, rl_max_output_chars = sh_max_output_chars T, rl_memory_bytes = None,
          rl_max_processes = None, rl_cpu_seconds = None, rl_file_size_bytes = None, rl_temporary_storage_bytes = None,
          rl_metadata = []\<rparr>,
      xp_metadata = []\<rparr>"

definition shell_env :: "shell_session_state option \<Rightarrow> (string, string) dict \<Rightarrow> (string, string) dict" where
  "shell_env state env = dict_merge (case state of None \<Rightarrow> [] | Some st \<Rightarrow> st_env st) env"

definition shell_request ::
  "shell_tool \<Rightarrow> metadata \<Rightarrow> shell_session_state option \<Rightarrow> string \<Rightarrow> string list \<Rightarrow> posix_path \<Rightarrow> rat \<Rightarrow> bool
     \<Rightarrow> error + sandbox_request" where
  "shell_request T args state request_id command project timeout side =
     bind_e (parse_cwd T args state) (\<lambda>cwd.
     bind_e (parse_shell_env T args) (\<lambda>env.
       Inr \<lparr>xr_request_id = request_id,
            xr_command = \<lparr>xc_command = command, xc_cwd = Some cwd, xc_env = shell_env state env, xc_stdin = None,
              xc_timeout_seconds = Some timeout, xc_side_channel = side, xc_metadata = []\<rparr>,
            xr_policy = shell_sandbox_policy T (hd command) project timeout, xr_metadata = []\<rparr>))"

definition tracks_state :: "shell_tool \<Rightarrow> shell_session_state option \<Rightarrow> shell_command \<Rightarrow> bool" where
  "tracks_state T state command \<longleftrightarrow>
     state \<noteq> None \<and> (case command of Script _ \<Rightarrow> True | Argv _ \<Rightarrow> False) \<and> \<not> sh_windows T"

text \<open>What \<open>_run\<close> asks the sandbox for, after the checks.\<close>

definition run_request ::
  "shell_tool \<Rightarrow> metadata \<Rightarrow> shell_command \<Rightarrow> shell_session_state option \<Rightarrow> error + sandbox_request" where
  "run_request T args command state =
     bind_e (judge_command T args state command) (\<lambda>d.
     bind_e (reject_command d) (\<lambda>_.
     bind_e (selected_root T args) (\<lambda>project.
     bind_e (parse_timeout T args) (\<lambda>timeout.
       let tracked = tracks_state T state command;
           argv = (case command of Script s \<Rightarrow> if tracked then wrap_script s else process_command T command
                   | Argv _ \<Rightarrow> process_command T command)
       in shell_request T args state ''restricted_shell'' argv project timeout tracked))))"

definition stream_name :: "output_stream \<Rightarrow> string" where
  "stream_name s = (case s of Stream_STDOUT \<Rightarrow> ''stdout'' | Stream_STDERR \<Rightarrow> ''stderr'')"

definition run_output ::
  "shell_tool \<Rightarrow> shell_command \<Rightarrow> bool \<Rightarrow> posix_path \<Rightarrow> char sandbox_result \<Rightarrow> metadata option \<Rightarrow> metadata" where
  "run_output T command tracked cwd result session =
     [(''command'', PList (map PStr (if tracked then process_command T command else xx_command result))),
      (''shell_script'', (case command of Script s \<Rightarrow> PStr s | Argv _ \<Rightarrow> PNone)),
      (''cwd'', PStr (path_str cwd)),
      (''returncode'', (case xx_returncode result of None \<Rightarrow> PNone | Some n \<Rightarrow> PInt n)),
      (''stdout'', PStr (xx_stdout result)),
      (''stderr'', PStr (xx_stderr result)),
      (''events'', PList (map (\<lambda>e. PDict [(''stream'', PStr (stream_name (xe_stream e))), (''text'', PStr (xe_text e)),
          (''truncated'', PBool (xe_truncated e))]) (xx_events result))),
      (''truncated'', PBool (xx_truncated result))]
     @ (case session of None \<Rightarrow> [] | Some m \<Rightarrow> [(''session'', PDict m)])"

definition run_failure :: "char sandbox_run_error \<Rightarrow> error" where
  "run_failure e = (case e of Run_error x \<Rightarrow> x | Run_timeout m r \<Rightarrow>
     let parts = map (\<lambda>(name, text). name @ '' before timeout:'' @ [newline] @ text)
           (filter (\<lambda>(_, text). text \<noteq> []) [(''stdout'', xx_stdout r), (''stderr'', xx_stderr r)])
     in Error (Sandbox SandboxTimeoutError) m (if parts = [] then None else Some (unlines parts)) None)"

definition session_output :: "shell_session_state \<Rightarrow> string list \<Rightarrow> metadata" where
  "session_output st ignored = [(''cwd'', PStr (st_cwd st)), (''env_keys'', PList (map PStr (sort (dict_keys (st_env st))))),
     (''ignored'', PList (map PStr ignored))]"

text \<open>The sandbox is the function \<open>sandbox\<close>; the state of the session is saved before the output is put together.\<close>

definition run_command ::
  "shell_tool \<Rightarrow> int \<Rightarrow> (sandbox_request \<Rightarrow> char sandbox_run_error + char sandbox_result) \<Rightarrow> metadata \<Rightarrow> shell_command
     \<Rightarrow> (shell_key \<times> shell_session_state) option \<Rightarrow> (error, shell_tool_state, metadata) act" where
  "run_command T now sandbox args command session w =
     (let state = map_option snd session
      in case check_state_version T args state w of
        (Inl e, w1) \<Rightarrow> (Inl e, w1)
      | (Inr _, w1) \<Rightarrow> (case run_request T args command state of
          Inl e \<Rightarrow> (Inl e, w1)
        | Inr request \<Rightarrow> (case sandbox request of
            Inl e \<Rightarrow> (Inl (run_failure e), w1)
          | Inr result \<Rightarrow>
              let tracked = tracks_state T state command
              in case (session, selected_root T args) of
                (Some (k, st), Inr project) \<Rightarrow>
                  let (st', ignored) = (if tracked
                        then apply_capture (sh_machine T) (sh_allowed_env_keys T) project st (xx_side_channel result) else (st, []));
                      w2 = w1\<lparr>tt_sessions := tracker_save now k st' (tt_sessions w1)\<rparr>
                  in (bind_e (host_cwd T args (Some st')) (\<lambda>cwd.
                        Inr (run_output T command tracked cwd result (Some (session_output st' ignored)))), w2)
              | _ \<Rightarrow> (bind_e (host_cwd T args state) (\<lambda>cwd. Inr (run_output T command tracked cwd result None)), w1))))"

definition shell_execute ::
  "shell_tool \<Rightarrow> int \<Rightarrow> (sandbox_request \<Rightarrow> char sandbox_run_error + char sandbox_result) \<Rightarrow> metadata
     \<Rightarrow> (error, shell_tool_state, metadata) act" where
  "shell_execute T now sandbox args w =
     (case bind_e (parse_command T args) (\<lambda>command. bind_e (tool_session T (tt_sessions w) args) (\<lambda>session.
             bind_e (judge_command T args (map_option snd session) command) (\<lambda>d.
             bind_e (reject_command d) (\<lambda>_. Inr command)))) of
        Inl e \<Rightarrow> (Inl e, w)
      | Inr command \<Rightarrow> (case (if sh_tracks_sessions T then session_key_of args else None) of
            None \<Rightarrow> run_command T now sandbox args command None w
          | Some k \<Rightarrow>
              let w' = (if meta_get args ''reset_session'' = PBool True
                        then w\<lparr>tt_sessions := tracker_reset k (tt_sessions w)\<rparr> else w)
              in case selected_root T args of
                Inl e \<Rightarrow> (Inl e, w')
              | Inr project \<Rightarrow> run_command T now sandbox args command
                  (Some (k, tracker_load (sh_allowed_env_keys T) (tt_sessions w') k project)) w'))"

section \<open>Processes in the background\<close>

definition background_request ::
  "shell_tool \<Rightarrow> metadata \<Rightarrow> rat \<Rightarrow> (error, shell_tool_state, sandbox_request \<times> string) act" where
  "background_request T args lifetime w =
     (case bind_e (parse_command T args) (\<lambda>command. bind_e (tool_session T (tt_sessions w) args) (\<lambda>session.
             bind_e (judge_command T args (map_option snd session) command) (\<lambda>d.
             bind_e (reject_command d) (\<lambda>_. Inr (command, map_option snd session))))) of
        Inl e \<Rightarrow> (Inl e, w)
      | Inr (command, state) \<Rightarrow> (case check_state_version T args state w of
          (Inl e, w') \<Rightarrow> (Inl e, w')
        | (Inr _, w') \<Rightarrow>
            (bind_e (selected_root T args) (\<lambda>project.
             bind_e (shell_request T args state ''shell_process'' (process_command T command) project lifetime False) (\<lambda>r.
             bind_e (host_cwd T args state) (\<lambda>cwd.
               Inr (r, path_str (0, drop (length (snd project)) (snd cwd)))))), w')))"

definition accepts_unapproved_stdin :: "shell_tool \<Rightarrow> shell_store \<Rightarrow> metadata \<Rightarrow> error + bool" where
  "accepts_unapproved_stdin T d args =
     bind_e (parse_command T args) (\<lambda>command.
     bind_e (tool_session T d args) (\<lambda>session.
     bind_e (judge_command T args (map_option snd session) command) (\<lambda>decision.
       Inr (dc_kind decision = Shell_allow \<and> \<not> dc_stdin_is_code decision))))"

end
