(* ===== verification/ShellProcesses.thy ===== *)
theory ShellProcesses
  imports ShellTool
begin

text \<open>
  Long-running shell processes (\<open>infra/adapters/tool/shell_processes.py\<close>): the buffer of the recent output, whose offsets
  count everything that was ever written; the manager with its limits and its scopes; and the tools that start, read,
  write to, stop and list processes.

  The events of a process (a piece of output, its end) are operations on the manager's state.  A wait ends at some
  moment, and what follows it is the operation that is modelled.  The handle of a process is behind parameters: whether
  it can be spawned, and whether it takes input.
\<close>

section \<open>The buffer\<close>

record 'c output_buffer =
  ob_max_chars :: nat
  ob_events :: "(nat \<times> string \<times> 'c list) list"
  ob_end :: nat
  ob_size :: nat

definition new_buffer :: "nat \<Rightarrow> 'c output_buffer" where
  "new_buffer n = \<lparr>ob_max_chars = n, ob_events = [], ob_end = 0, ob_size = 0\<rparr>"

definition buffer_start :: "'c output_buffer \<Rightarrow> nat" where
  "buffer_start b = (case ob_events b of [] \<Rightarrow> ob_end b | e # _ \<Rightarrow> fst e)"

text \<open>The loop that drops whole events while there is more than one.\<close>

fun drop_events :: "nat \<Rightarrow> nat \<Rightarrow> (nat \<times> string \<times> 'c list) list \<Rightarrow> (nat \<times> string \<times> 'c list) list \<times> nat" where
  "drop_events n used (e # e' # es) =
     (if n < used then drop_events n (used - length (snd (snd e))) (e' # es) else (e # e' # es, used))"
| "drop_events n used es = (es, used)"

definition buffer_append :: "string \<Rightarrow> 'c list \<Rightarrow> 'c output_buffer \<Rightarrow> 'c output_buffer" where
  "buffer_append stream t b =
     (let (events, used) = drop_events (ob_max_chars b) (ob_size b + length t) (ob_events b @ [(ob_end b, stream, t)]);
          b' = b\<lparr>ob_events := events, ob_end := ob_end b + length t, ob_size := used\<rparr>
      in if ob_max_chars b < used then
           (case events of
              [] \<Rightarrow> b'
            | (offset, s, u) # es \<Rightarrow>
                let excess = used - ob_max_chars b
                in b'\<lparr>ob_events := (offset + excess, s, drop excess u) # es, ob_size := used - excess\<rparr>)
         else b')"

text \<open>The pieces from a position on, up to a number of characters, and the position after them.\<close>

fun read_events :: "nat \<Rightarrow> nat \<Rightarrow> (nat \<times> string \<times> 'c list) list \<Rightarrow> (string \<times> 'c list) list \<times> nat" where
  "read_events position remaining [] = ([], position)"
| "read_events position remaining ((offset, stream, t) # es) =
     (if offset + length t \<le> position \<or> remaining = 0 then read_events position remaining es
      else let visible = take remaining (drop (position - offset) t);
               (rest, final) = read_events (position + length visible) (remaining - length visible) es
           in ((stream, visible) # rest, final))"

definition buffer_read :: "nat \<Rightarrow> nat \<Rightarrow> 'c output_buffer \<Rightarrow> (string \<times> 'c list) list \<times> nat" where
  "buffer_read since n b = read_events (max since (buffer_start b)) n (ob_events b)"

section \<open>Processes\<close>

record process_scope =
  px_owner_id :: "string option"
  px_session :: "string option"

record managed_process =
  mp_process_id :: string
  mp_scope :: process_scope
  mp_command :: shell_command
  mp_cwd :: string
  mp_trusted_input :: bool
  mp_timed_out :: bool
  mp_output :: "char output_buffer"
  mp_started_at :: int
  mp_read_offset :: nat
  mp_returncode :: "int option"
  mp_finished_at :: "int option"
  mp_stopped :: bool

definition is_running :: "managed_process \<Rightarrow> bool" where
  "is_running p \<longleftrightarrow> mp_finished_at p = None"

record process_limits =
  pz_per_owner :: nat
  pz_processes :: nat
  pz_output_chars :: nat
  pz_lifetime_seconds :: rat
  pz_exited :: nat

record process_manager =
  pm_processes :: "(string, managed_process) dict"
  pm_closing :: bool

definition new_process_manager :: process_manager where
  "new_process_manager = \<lparr>pm_processes = [], pm_closing = False\<rparr>"

definition tool_state_error :: "string \<Rightarrow> error" where
  "tool_state_error m = raised (Tool ToolStateError) m"

definition running_processes :: "process_manager \<Rightarrow> managed_process list" where
  "running_processes m = filter is_running (dict_values (pm_processes m))"

definition forget_exited :: "nat \<Rightarrow> (string, managed_process) dict \<Rightarrow> (string, managed_process) dict" where
  "forget_exited n d =
     (let exited = filter (\<lambda>p. \<not> is_running p) (dict_values d)
      in fold (\<lambda>p. dict_pop (mp_process_id p)) (take (length exited - n) exited) d)"

definition may_start :: "process_limits \<Rightarrow> process_scope \<Rightarrow> process_manager \<Rightarrow> error + unit" where
  "may_start L scope m =
     (let running = running_processes m
      in if pm_closing m then Inl (tool_state_error ''Shell processes are shutting down'')
         else if pz_processes L \<le> length running
           \<or> pz_per_owner L \<le> length (filter (\<lambda>p. px_owner_id (mp_scope p) = px_owner_id scope) running)
         then Inl (tool_state_error ''Too many shell processes are running; stop one before starting another'')
         else Inr ())"

text \<open>
  \<open>_start\<close>, under the lock of the manager: \<open>spawn\<close> is the sandbox, \<open>fresh\<close> the new identifier.  The state is the shell
  tool's and the manager's.
\<close>

definition manager_start ::
  "process_limits \<Rightarrow> shell_tool \<Rightarrow> (sandbox_request \<Rightarrow> error + unit) \<Rightarrow> string \<Rightarrow> int \<Rightarrow> metadata \<Rightarrow> process_scope
     \<Rightarrow> (error, shell_tool_state \<times> process_manager, managed_process) act" where
  "manager_start L T spawn fresh now args scope = (\<lambda>(w, m).
     case may_start L scope m of
       Inl e \<Rightarrow> (Inl e, (w, m))
     | Inr _ \<Rightarrow> (case background_request T args (pz_lifetime_seconds L) w of
         (Inl e, w') \<Rightarrow> (Inl e, (w', m))
       | (Inr (request, cwd), w') \<Rightarrow>
           (case bind_e (parse_command T args) (\<lambda>command. bind_e (spawn request) (\<lambda>_.
                 bind_e (accepts_unapproved_stdin T (tt_sessions w') args) (\<lambda>trusted. Inr (command, trusted)))) of
              Inl e \<Rightarrow> (Inl e, (w', m))
            | Inr (command, trusted) \<Rightarrow>
                let p = \<lparr>mp_process_id = fresh, mp_scope = scope, mp_command = command, mp_cwd = cwd, mp_trusted_input = trusted,
                      mp_timed_out = False, mp_output = new_buffer (pz_output_chars L), mp_started_at = now, mp_read_offset = 0,
                      mp_returncode = None, mp_finished_at = None, mp_stopped = False\<rparr>
                in (Inr p, (w', m\<lparr>pm_processes := forget_exited (pz_exited L) (dict_set fresh p (pm_processes m))\<rparr>)))))"

text \<open>\<open>str(x)\<close> of an identifier that is not a text is behind \<open>show\<close>.\<close>

definition process_get :: "(pyval \<Rightarrow> string) \<Rightarrow> process_manager \<Rightarrow> pyval \<Rightarrow> process_scope \<Rightarrow> error + managed_process" where
  "process_get py_str m i scope =
     (let missing = Inl (tool_input_error (''The shell process '' @ py_str i
              @ '' is not found; processes do not survive a runtime restart''))
      in case i of
        PStr s \<Rightarrow> (case dict_get (pm_processes m) s of
            None \<Rightarrow> missing
          | Some p \<Rightarrow> if mp_scope p \<noteq> scope then missing else Inr p)
      | _ \<Rightarrow> missing)"

definition process_list :: "process_manager \<Rightarrow> process_scope \<Rightarrow> managed_process list" where
  "process_list m scope = filter (\<lambda>p. mp_scope p = scope) (dict_values (pm_processes m))"

definition update_process :: "managed_process \<Rightarrow> process_manager \<Rightarrow> process_manager" where
  "update_process p m = m\<lparr>pm_processes := dict_set (mp_process_id p) p (pm_processes m)\<rparr>"

definition process_summary :: "(int \<Rightarrow> string) \<Rightarrow> managed_process \<Rightarrow> metadata" where
  "process_summary isoformat p =
     [(''process_id'', PStr (mp_process_id p)),
      (''command'', (case mp_command p of Script s \<Rightarrow> PStr s | Argv parts \<Rightarrow> PList (map PStr parts))),
      (''cwd'', PStr (mp_cwd p)),
      (''status'', PStr (if is_running p then ''running'' else ''exited'')),
      (''returncode'', (case mp_returncode p of None \<Rightarrow> PNone | Some n \<Rightarrow> PInt n)),
      (''stopped'', PBool (mp_stopped p)),
      (''timed_out'', PBool (mp_timed_out p)),
      (''started_at'', PStr (isoformat (mp_started_at p))),
      (''finished_at'', (case mp_finished_at p of None \<Rightarrow> PNone | Some t \<Rightarrow> PStr (isoformat t)))]"

definition output_pieces :: "(string \<times> string) list \<Rightarrow> pyval" where
  "output_pieces ps = PList (map (\<lambda>(s, t). PDict [(''stream'', PStr s), (''text'', PStr t)]) ps)"

text \<open>\<open>read\<close>, after its wait.\<close>

definition process_read_output ::
  "(int \<Rightarrow> string) \<Rightarrow> nat option \<Rightarrow> nat \<Rightarrow> managed_process \<Rightarrow> metadata \<times> managed_process" where
  "process_read_output isoformat since n p =
     (let position = (case since of None \<Rightarrow> mp_read_offset p | Some s \<Rightarrow> s);
          (output, final) = buffer_read position n (mp_output p);
          p' = p\<lparr>mp_read_offset := max (mp_read_offset p) final\<rparr>
      in (process_summary isoformat p' @
            [(''output'', output_pieces output), (''next_offset'', PInt (int final)),
             (''output_dropped'', PBool (position < buffer_start (mp_output p))),
             (''more_output'', PBool (final < ob_end (mp_output p)))], p'))"

text \<open>\<open>takes\<close> says whether the pipe still takes the text and its end.\<close>

definition process_write :: "bool \<Rightarrow> managed_process \<Rightarrow> error + unit" where
  "process_write takes p =
     (if \<not> is_running p then Inl (tool_state_error (''The shell process '' @ mp_process_id p @ '' has exited''))
      else if \<not> takes then Inl (tool_state_error (''The shell process '' @ mp_process_id p @ '' no longer accepts input''))
      else Inr ())"

section \<open>Events of a process\<close>

datatype process_event =
    Wrote string output_stream string
  | Ended string "int option" bool int
  | Stop_requested string
  | Close_requested

text \<open>\<open>_pump\<close>, \<open>stop\<close> and \<open>close\<close>; an end comes with the exit code (none when the reading of the
  output failed), whether the time was over, and the clock.\<close>

definition process_step :: "process_event \<Rightarrow> process_manager \<Rightarrow> process_manager" where
  "process_step e m =
     (case e of
        Wrote i s t \<Rightarrow> (case dict_get (pm_processes m) i of
            None \<Rightarrow> m
          | Some p \<Rightarrow> if is_running p then update_process (p\<lparr>mp_output := buffer_append (stream_name s) t (mp_output p)\<rparr>) m else m)
      | Ended i code late now \<Rightarrow> (case dict_get (pm_processes m) i of
            None \<Rightarrow> m
          | Some p \<Rightarrow> if is_running p
              then update_process (p\<lparr>mp_returncode := code, mp_timed_out := late, mp_finished_at := Some now\<rparr>) m else m)
      | Stop_requested i \<Rightarrow> (case dict_get (pm_processes m) i of
            None \<Rightarrow> m
          | Some p \<Rightarrow> if is_running p then update_process (p\<lparr>mp_stopped := True\<rparr>) m else m)
      | Close_requested \<Rightarrow>
          m\<lparr>pm_closing := True, pm_processes := map (\<lambda>(i, p). (i, if is_running p then p\<lparr>mp_stopped := True\<rparr> else p)) (pm_processes m)\<rparr>)"

section \<open>The tools\<close>

definition process_scope_of :: "metadata \<Rightarrow> process_scope" where
  "process_scope_of args =
     (case session_key_of args of
        Some k \<Rightarrow> \<lparr>px_owner_id = sk_owner_id k, px_session = Some (sk_key k)\<rparr>
      | None \<Rightarrow>
          \<lparr>px_owner_id = (case meta_get args ''_execution_context'' of
              PDict ctx \<Rightarrow> (case meta_get ctx ''owner_id'' of PStr (c # s) \<Rightarrow> Some (c # s) | _ \<Rightarrow> None)
            | _ \<Rightarrow> None), px_session = None\<rparr>)"

definition MAX_WAIT_SECONDS :: rat where
  "MAX_WAIT_SECONDS = 30"

definition wait_seconds :: "metadata \<Rightarrow> rat \<Rightarrow> error + rat" where
  "wait_seconds args fallback =
     (let bad = Inl (tool_input_error ''The wait_seconds value must be a nonnegative number'')
      in case (case dict_get args ''wait_seconds'' of None \<Rightarrow> PFloat fallback | Some v \<Rightarrow> v) of
           PInt i \<Rightarrow> if i < 0 then bad else Inr (min (of_int i) MAX_WAIT_SECONDS)
         | PFloat r \<Rightarrow> if r < 0 then bad else Inr (min r MAX_WAIT_SECONDS)
         | _ \<Rightarrow> bad)"

definition authorize_start :: "shell_tool \<Rightarrow> metadata \<Rightarrow> (error, shell_tool_state, tool_safety_decision option) act" where
  "authorize_start T args w =
     (case wait_seconds args 1 of
        Inl e \<Rightarrow> (Inr (Some (refused (Some (error_message e)))), w)
      | Inr _ \<Rightarrow> shell_authorize T args w)"

definition authorize_write ::
  "(pyval \<Rightarrow> string) \<Rightarrow> (int \<Rightarrow> string) \<Rightarrow> process_manager \<Rightarrow> metadata \<Rightarrow> tool_safety_decision option" where
  "authorize_write py_str isoformat m args =
     (case process_get py_str m (meta_get args ''process_id'') (process_scope_of args) of
        Inl e \<Rightarrow> Some (refused (Some (error_message e)))
      | Inr p \<Rightarrow> if mp_trusted_input p then None
          else Some \<lparr>sd_allowed = False, sd_reason = Some ''Input to an interpreter or untrusted program requires approval'',
            sd_requires_approval = True, sd_approval_request = None,
            sd_metadata = [(''process'', PDict (process_summary isoformat p))]\<rparr>)"

definition authorize_known :: "(pyval \<Rightarrow> string) \<Rightarrow> process_manager \<Rightarrow> metadata \<Rightarrow> tool_safety_decision option" where
  "authorize_known py_str m args =
     (case process_get py_str m (meta_get args ''process_id'') (process_scope_of args) of
        Inl e \<Rightarrow> Some (refused (Some (error_message e))) | Inr _ \<Rightarrow> None)"

definition since_argument :: "metadata \<Rightarrow> error + nat option" where
  "since_argument args =
     (case meta_get args ''since'' of
        PNone \<Rightarrow> Inr None
      | PInt i \<Rightarrow> if i < 0 then Inl (tool_input_error ''The since value must be a nonnegative integer'') else Inr (Some (nat i))
      | _ \<Rightarrow> Inl (tool_input_error ''The since value must be a nonnegative integer''))"

definition max_chars_argument :: "nat \<Rightarrow> metadata \<Rightarrow> error + nat" where
  "max_chars_argument fallback args =
     (case dict_get args ''max_chars'' of
        None \<Rightarrow> if fallback < 1 then Inl (tool_input_error ''The max_chars value must be a positive integer'') else Inr fallback
      | Some (PInt i) \<Rightarrow> if i < 1 then Inl (tool_input_error ''The max_chars value must be a positive integer'') else Inr (nat i)
      | Some _ \<Rightarrow> Inl (tool_input_error ''The max_chars value must be a positive integer''))"

definition process_read_tool ::
  "process_limits \<Rightarrow> (pyval \<Rightarrow> string) \<Rightarrow> (int \<Rightarrow> string) \<Rightarrow> nat \<Rightarrow> metadata \<Rightarrow> (error, process_manager, metadata) act" where
  "process_read_tool L py_str isoformat fallback args m =
     (case bind_e (process_get py_str m (meta_get args ''process_id'') (process_scope_of args)) (\<lambda>p.
           bind_e (since_argument args) (\<lambda>since. bind_e (max_chars_argument fallback args) (\<lambda>n.
           bind_e (wait_seconds args 0) (\<lambda>_. Inr (p, since, n))))) of
        Inl e \<Rightarrow> (Inl e, m)
      | Inr (p, since, n) \<Rightarrow>
          let (output, p') = process_read_output isoformat since (min n (pz_output_chars L)) p in (Inr output, update_process p' m))"

definition process_write_tool ::
  "(pyval \<Rightarrow> string) \<Rightarrow> (int \<Rightarrow> string) \<Rightarrow> (string \<Rightarrow> bool \<Rightarrow> bool) \<Rightarrow> process_manager \<Rightarrow> metadata \<Rightarrow> error + metadata" where
  "process_write_tool py_str isoformat takes m args =
     bind_e (process_get py_str m (meta_get args ''process_id'') (process_scope_of args)) (\<lambda>p.
     bind_e (case dict_get args ''input'' of None \<Rightarrow> Inr []
             | Some (PStr s) \<Rightarrow> if nul \<in> set s then Inl (tool_input_error ''The input must be a string without NUL bytes'') else Inr s
             | Some _ \<Rightarrow> Inl (tool_input_error ''The input must be a string without NUL bytes'')) (\<lambda>s.
     bind_e (case dict_get args ''close_stdin'' of None \<Rightarrow> Inr False | Some (PBool b) \<Rightarrow> Inr b
             | Some _ \<Rightarrow> Inl (tool_input_error ''The close_stdin value must be a boolean'')) (\<lambda>close.
     bind_e (process_write (takes s close) p) (\<lambda>_. Inr (process_summary isoformat p)))))"

definition process_list_tool :: "(int \<Rightarrow> string) \<Rightarrow> process_manager \<Rightarrow> metadata \<Rightarrow> metadata" where
  "process_list_tool isoformat m args =
     [(''processes'', PList (map (\<lambda>p. PDict (process_summary isoformat p
         @ [(''unread_chars'', PInt (int (ob_end (mp_output p)) - int (mp_read_offset p)))]))
       (process_list m (process_scope_of args))))]"

text \<open>A start waits a moment for output; \<open>meanwhile\<close> are the events of that time.\<close>

definition process_start_tool ::
  "process_limits \<Rightarrow> shell_tool \<Rightarrow> (sandbox_request \<Rightarrow> error + unit) \<Rightarrow> string \<Rightarrow> int \<Rightarrow> (int \<Rightarrow> string) \<Rightarrow> nat \<Rightarrow> process_event list \<Rightarrow> metadata
     \<Rightarrow> (error, shell_tool_state \<times> process_manager, metadata) act" where
  "process_start_tool L T spawn fresh now isoformat chars meanwhile args s =
     (case wait_seconds args 1 of
        Inl e \<Rightarrow> (Inl e, s)
      | Inr _ \<Rightarrow> (case manager_start L T spawn fresh now args (process_scope_of args) s of
          (Inl e, s') \<Rightarrow> (Inl e, s')
        | (Inr p, (w, m)) \<Rightarrow>
            let m' = fold process_step meanwhile m
            in case dict_get (pm_processes m') (mp_process_id p) of
                 None \<Rightarrow> (Inr [], (w, m'))
               | Some p' \<Rightarrow> let (output, p'') = process_read_output isoformat (Some 0) chars p'
                   in (Inr output, (w, update_process p'' m'))))"

text \<open>A stop waits for the end of the process, which comes as the event \<open>ended\<close>.\<close>

definition process_stop_tool ::
  "(pyval \<Rightarrow> string) \<Rightarrow> (int \<Rightarrow> string) \<Rightarrow> process_event list \<Rightarrow> metadata \<Rightarrow> (error, process_manager, metadata) act" where
  "process_stop_tool py_str isoformat ending args m =
     (case process_get py_str m (meta_get args ''process_id'') (process_scope_of args) of
        Inl e \<Rightarrow> (Inl e, m)
      | Inr p \<Rightarrow>
          let m' = fold process_step (Stop_requested (mp_process_id p) # ending) m
          in case dict_get (pm_processes m') (mp_process_id p) of
               None \<Rightarrow> (Inr [], m')
             | Some p' \<Rightarrow> let (output, final) = buffer_read (mp_read_offset p') 0 (mp_output p')
                 in (Inr (process_summary isoformat p' @ [(''next_offset'', PInt (int final)), (''output'', output_pieces output)]), m'))"

end
