(* ===== verification/ProcessFacts.thy ===== *)
theory ProcessFacts
  imports ShellProcesses
begin

text \<open>
  What holds of background processes: the buffer answers with exactly what was written at the offsets it names, a caller
  sees and changes only processes of its own scope, and the limits on running processes hold in every reachable state.
\<close>

section \<open>The buffer\<close>

definition events_text :: "(nat \<times> string \<times> 'c list) list \<Rightarrow> 'c list" where
  "events_text es = concat (map (\<lambda>e. snd (snd e)) es)"

lemma events_text_simps [simp]:
  "events_text [] = []" "events_text (e # es) = snd (snd e) @ events_text es"
  "events_text (es @ fs) = events_text es @ events_text fs"
  by (simp_all add: events_text_def)

fun consecutive :: "nat \<Rightarrow> (nat \<times> string \<times> 'c list) list \<Rightarrow> bool" where
  "consecutive n [] = True"
| "consecutive n ((offset, stream, t) # es) = (offset = n \<and> consecutive (n + length t) es)"

lemma consecutive_snoc:
  "consecutive n (es @ [(m, s, t)]) \<longleftrightarrow> consecutive n es \<and> m = n + length (events_text es)"
  by (induction n es rule: consecutive.induct) auto

definition buffer_follows :: "nat \<Rightarrow> 'c list \<Rightarrow> 'c output_buffer \<Rightarrow> bool" where
  "buffer_follows n written b \<longleftrightarrow>
     ob_max_chars b = n \<and> ob_end b = length written \<and> ob_size b = length (events_text (ob_events b)) \<and> ob_size b \<le> n
     \<and> ob_size b \<le> length written \<and> events_text (ob_events b) = drop (length written - ob_size b) written
     \<and> consecutive (length written - ob_size b) (ob_events b) \<and> (length written \<le> n \<longrightarrow> ob_size b = length written)"

lemma drop_events_consecutive:
  assumes "drop_events n used es = (es', used')" and "consecutive k es" and "used = length (events_text es)"
  shows "\<exists>d. used' = length (events_text es') \<and> consecutive (k + d) es' \<and> events_text es' = drop d (events_text es)
    \<and> d + used' = used \<and> (used \<le> n \<longrightarrow> es' = es) \<and> (n < used' \<longrightarrow> length es' \<le> 1)"
  using assms
proof (induction n used es arbitrary: k rule: drop_events.induct)
  case (1 n used e e' es)
  obtain offset stream t where e: "e = (offset, stream, t)" by (cases e)
  show ?case
  proof (cases "n < used")
    case True
    then have r: "drop_events n (used - length t) (e' # es) = (es', used')"
      using "1.prems"(1) by (simp add: e)
    have c: "consecutive (k + length t) (e' # es)" using "1.prems"(2) by (simp add: e)
    have u: "used - length t = length (events_text (e' # es))" using "1.prems"(3) by (simp add: e)
    from "1.IH" [unfolded e snd_conv, OF True r c u] obtain d where
      d: "used' = length (events_text es')" "consecutive (k + length t + d) es'"
        "events_text es' = drop d (events_text (e' # es))" "d + used' = used - length t" "n < used' \<longrightarrow> length es' \<le> 1"
      by blast
    have "used = length t + length (events_text (e' # es))" using "1.prems"(3) by (simp add: e)
    then have "length t + d + used' = used" using d(4) by simp
    moreover have "events_text es' = drop (length t + d) (events_text (e # e' # es))"
      using d(3) by (simp add: e add.commute)
    ultimately show ?thesis
      using d(1,2,5) True by (intro exI [of _ "length t + d"]) (simp add: add.assoc)
  next
    case False
    then have "es' = e # e' # es" "used' = used" using "1.prems"(1) by simp_all
    then show ?thesis using "1.prems"(2,3) False by (intro exI [of _ 0]) simp
  qed
qed ((intro exI [of _ 0], auto)+)

lemma buffer_followsI:
  assumes "ob_max_chars b = n" "ob_end b = length w" "ob_size b = k" "ob_events b = es"
    and "k = length (events_text es)" "k \<le> n" "k \<le> length w" "events_text es = drop (length w - k) w"
    "consecutive (length w - k) es" "length w \<le> n \<longrightarrow> k = length w"
  shows "buffer_follows n w b"
  unfolding buffer_follows_def assms(1-4) using assms(5-10) by blast

lemma buffer_append_follows:
  assumes f: "buffer_follows n written b"
  shows "buffer_follows n (written @ t) (buffer_append stream t b)"
proof -
  let ?es = "ob_events b @ [(ob_end b, stream, t)]" and ?k = "length written - ob_size b"
  obtain es' used' where d: "drop_events n (ob_size b + length t) ?es = (es', used')" by (cases "drop_events n (ob_size b + length t) ?es")
  have m: "ob_max_chars b = n" and en: "ob_end b = length written" and si: "ob_size b = length (events_text (ob_events b))"
    and le: "ob_size b \<le> n" "ob_size b \<le> length written"
    and tx: "events_text (ob_events b) = drop ?k written" and co: "consecutive ?k (ob_events b)"
    and all: "length written \<le> n \<longrightarrow> ob_size b = length written"
    using f unfolding buffer_follows_def by blast+
  have chained: "consecutive ?k ?es" using co le by (simp add: consecutive_snoc en flip: si)
  have "ob_size b + length t = length (events_text ?es)" by (simp add: si)
  from drop_events_consecutive [OF d chained this] obtain x where
    x: "used' = length (events_text es')" "consecutive (?k + x) es'" "events_text es' = drop x (events_text ?es)"
      "x + used' = ob_size b + length t" "ob_size b + length t \<le> n \<longrightarrow> es' = ?es" "n < used' \<longrightarrow> length es' \<le> 1"
    by blast
  have whole: "events_text ?es = drop ?k (written @ t)" using tx by simp
  have start: "?k + x = length (written @ t) - used'" using x(4) le by simp
  have suffix: "events_text es' = drop (length (written @ t) - used') (written @ t)"
    unfolding x(3) whole drop_drop start [symmetric] by (simp add: add.commute)
  have used: "used' \<le> length (written @ t)" using x(4) le(2) by simp
  have chain: "consecutive (length (written @ t) - used') es'" using x(2) unfolding start .
  show ?thesis
  proof (cases "n < used'")
    case False
    have b': "buffer_append stream t b = b\<lparr>ob_events := es', ob_end := ob_end b + length t, ob_size := used'\<rparr>"
      using False by (simp add: buffer_append_def Let_def m d)
    have "length (written @ t) \<le> n \<longrightarrow> used' = length (written @ t)"
    proof
      assume le_n: "length (written @ t) \<le> n"
      then have "ob_size b = length written" using all by simp
      then show "used' = length (written @ t)"
        using x(1,5) le_n \<open>ob_size b + length t = length (events_text ?es)\<close> by simp
    qed
    then show ?thesis
      using False by (intro buffer_followsI [OF _ _ _ _ x(1) _ used suffix chain]) (simp_all add: b' m en)
  next
    case True
    then have "es' \<noteq> []" using x(1) by auto
    moreover have "length es' \<le> 1" using x(6) True by blast
    ultimately obtain offset s u where es': "es' = [(offset, s, u)]"
      by (cases es' rule: remdups_adj.cases) auto
    have b': "buffer_append stream t b = b\<lparr>ob_events := [(offset + (used' - n), s, drop (used' - n) u)],
        ob_end := ob_end b + length t, ob_size := n\<rparr>"
      using True by (simp add: buffer_append_def Let_def m d es')
    have u: "u = drop (length (written @ t) - used') (written @ t)" "length u = used'"
        "offset = length (written @ t) - used'"
      using suffix x(1) chain by (auto simp: es')
    have "drop (used' - n) u = drop (length (written @ t) - n) (written @ t)"
      using True used unfolding u(1) drop_drop by (intro arg_cong [where f = "\<lambda>i. drop i (written @ t)"]) arith
    moreover have "offset + (used' - n) = length (written @ t) - n"
      using True used u(3) by arith
    moreover have "\<not> length (written @ t) \<le> n" using True used by arith
    ultimately show ?thesis
      using True u(2) used
      by (intro buffer_followsI [where k = n and es = "[(length (written @ t) - n, s, drop (used' - n) u)]"])
        (simp_all add: b' m en)
  qed
qed

lemma buffer_follows_fold:
  "buffer_follows n (concat (map snd ps)) (fold (\<lambda>(s, t). buffer_append s t) ps (new_buffer n))"
proof (induction ps rule: rev_induct)
  case Nil
  then show ?case by (simp add: buffer_follows_def new_buffer_def)
next
  case (snoc p ps)
  then show ?case by (cases p) (simp add: buffer_append_follows)
qed

lemma read_events_exact:
  "consecutive k es \<Longrightarrow> k \<le> position \<Longrightarrow> read_events position n es = (out, final) \<Longrightarrow>
     concat (map snd out) = take n (drop (position - k) (events_text es)) \<and> final = position + length (concat (map snd out))"
proof (induction position n es arbitrary: k out final rule: read_events.induct)
  case (1 position n)
  then show ?case by simp
next
  case (2 position n offset stream t es)
  have o: "offset = k" and c: "consecutive (k + length t) es" using "2.prems"(1) by auto
  show ?case
  proof (cases "offset + length t \<le> position \<or> n = 0")
    case True
    then show ?thesis
    proof (cases "n = 0")
      case True
      have "read_events position 0 es = ([], position)" for es :: "(nat \<times> string \<times> 'a list) list"
        by (induction es) (auto split: prod.splits)
      then show ?thesis using "2.prems"(3) True by simp
    next
      case False
      then have r: "read_events position n es = (out, final)" and past: "k + length t \<le> position"
        using "2.prems"(3) True o by auto
      then show ?thesis using "2.IH"(1) [OF _ c past r] True by (simp add: o)
    qed
  next
    case False
    let ?visible = "take n (drop (position - offset) t)"
    obtain rest final' where r: "read_events (position + length ?visible) (n - length ?visible) es = (rest, final')"
      by (cases "read_events (position + length ?visible) (n - length ?visible) es")
    then have out: "out = (stream, ?visible) # rest" "final = final'"
      using "2.prems"(3) False by (auto simp: Let_def)
    show ?thesis
    proof (cases "n \<le> length (drop (position - offset) t)")
      case True
      then have "n - length ?visible = 0" by simp
      moreover have "read_events q 0 es = ([], q)" for q and es :: "(nat \<times> string \<times> 'a list) list"
        by (induction es) (auto split: prod.splits)
      ultimately have "rest = []" "final' = position + length ?visible" using r by auto
      then show ?thesis using True by (simp add: out o)
    next
      case False': False
      have vis: "?visible = drop (position - offset) t" using False' by simp
      have at: "position + length ?visible = k + length t" using False False' "2.prems"(2) by (simp add: vis o)
      have "concat (map snd rest) = take (n - length ?visible) (drop (position + length ?visible - (k + length t)) (events_text es))
          \<and> final' = position + length ?visible + length (concat (map snd rest))"
        by (rule "2.IH"(2) [OF _ refl c _ r]) (use False at in auto)
      then have r': "concat (map snd rest) = take (n - length ?visible) (events_text es)"
        "final' = position + length ?visible + length (concat (map snd rest))"
        by (simp_all only: at diff_self_eq_0 drop_0)
      have cat: "concat (map snd out) = ?visible @ concat (map snd rest)" by (simp add: out)
      have "position - k \<le> length t" using at by simp
      then have "take n (drop (position - k) (t @ events_text es)) = ?visible @ concat (map snd rest)"
        using False' unfolding r'(1) vis o by simp
      then show ?thesis
        unfolding cat out(2) r'(2) by (simp add: add.assoc)
    qed
  qed
qed

text \<open>C29: The output that a reader gets is exactly what the process wrote from the position it asks for, or from the oldest
  that is kept, up to the number of characters it asks for; the next offset continues it; and as long as not more was
  written than the buffer holds, nothing is lost.\<close>

theorem process_output_exact:
  assumes "b = fold (\<lambda>(s, t). buffer_append s t) ps (new_buffer n)" and "buffer_read since k b = (out, final)"
  shows "let written = concat (map snd ps); from = max since (buffer_start b)
     in concat (map snd out) = take k (drop from written) \<and> final = from + length (concat (map snd out))
       \<and> length written - buffer_start b \<le> n \<and> (length written \<le> n \<longrightarrow> buffer_start b = 0 \<or> written = [])"
proof -
  let ?w = "concat (map snd ps)"
  have f: "buffer_follows n ?w b" using buffer_follows_fold assms(1) by auto
  have start: "buffer_start b = length ?w - ob_size b"
  proof (cases "ob_events b")
    case Nil
    then show ?thesis using f by (simp add: buffer_follows_def buffer_start_def)
  next
    case (Cons e es)
    then show ?thesis using f by (cases e) (simp add: buffer_follows_def buffer_start_def)
  qed
  have c: "consecutive (buffer_start b) (ob_events b)" and t: "events_text (ob_events b) = drop (buffer_start b) ?w"
    using f unfolding start buffer_follows_def by blast+
  have "concat (map snd out) = take k (drop (max since (buffer_start b) - buffer_start b) (drop (buffer_start b) ?w))
      \<and> final = max since (buffer_start b) + length (concat (map snd out))"
    using read_events_exact [OF c _ assms(2) [unfolded buffer_read_def]] by (simp add: t)
  moreover have "length ?w - buffer_start b \<le> n" "length ?w \<le> n \<longrightarrow> buffer_start b = 0 \<or> ?w = []"
  proof -
    have s: "ob_size b \<le> n" "ob_size b \<le> length ?w" "length ?w \<le> n \<longrightarrow> ob_size b = length ?w"
      using f unfolding buffer_follows_def by blast+
    show "length ?w - buffer_start b \<le> n" unfolding start using s(1,2) by arith
    show "length ?w \<le> n \<longrightarrow> buffer_start b = 0 \<or> ?w = []" unfolding start using s(3) by arith
  qed
  moreover have "drop (max since (buffer_start b) - buffer_start b) (drop (buffer_start b) ?w) = drop (max since (buffer_start b)) ?w"
    by simp
  ultimately show ?thesis
    unfolding Let_def by simp
qed


theorem process_output_exact_witness:
  "let (out, final) = buffer_read 0 2 (fold (\<lambda>(s, t). buffer_append s t) [(''stdout'', ''abc''), (''stderr'', ''de'')] (new_buffer 4))
   in concat (map snd out) = ''de'' \<and> final = 5"
proof -
  let ?ps = "[(''stdout'', ''abc''), (''stderr'', ''de'')]"
  let ?b = "fold (\<lambda>(s, t). buffer_append s t) ?ps (new_buffer 4)"
  have "buffer_start ?b = 3" by code_simp
  then show ?thesis
    using process_output_exact [OF refl, where ps = ?ps and n = 4 and since = 0 and k = 2]
    by (cases "buffer_read 0 2 ?b") simp
qed

section \<open>Scopes\<close>

text \<open>The processes that a scope can see.\<close>

definition visible :: "process_scope \<Rightarrow> process_manager \<Rightarrow> (string, managed_process) dict" where
  "visible scope m = filter (\<lambda>(i, p). mp_scope p = scope) (pm_processes m)"

definition manager_keys_ok :: "process_manager \<Rightarrow> bool" where
  "manager_keys_ok m \<longleftrightarrow> dict_ok (pm_processes m) \<and> (\<forall>(i, p)\<in>set (pm_processes m). mp_process_id p = i)"

lemma visible_get:
  "manager_keys_ok m \<Longrightarrow> dict_get (visible scope m) i = (case dict_get (pm_processes m) i of None \<Rightarrow> None
     | Some p \<Rightarrow> if mp_scope p = scope then Some p else None)"
  by (simp add: visible_def manager_keys_ok_def dict_get_filter)

lemma process_get_visible:
  assumes "manager_keys_ok m"
  shows "process_get py_str m i scope = (case (case i of PStr s \<Rightarrow> dict_get (visible scope m) s | _ \<Rightarrow> None) of
       None \<Rightarrow> Inl (tool_input_error (''The shell process '' @ py_str i @ '' is not found; processes do not survive a runtime restart''))
     | Some p \<Rightarrow> Inr p)"
  by (cases i) (simp_all add: process_get_def visible_get [OF assms] split: option.split)

lemma process_list_visible: "process_list m scope = dict_values (visible scope m)"
proof -
  have "filter (\<lambda>p. mp_scope p = scope) (map snd d) = map snd (filter (\<lambda>(i, p). mp_scope p = scope) d)"
    for d :: "(string, managed_process) dict"
    by (induction d) auto
  then show ?thesis by (simp add: process_list_def visible_def dict_values_def)
qed

lemma process_get_id:
  assumes ok: "manager_keys_ok m" and g: "process_get py_str m i scope = Inr p"
  shows "dict_get (pm_processes m) (mp_process_id p) = Some p \<and> mp_scope p = scope"
proof (cases i)
  case (PStr s)
  then have "dict_get (pm_processes m) s = Some p" "mp_scope p = scope"
    using g by (auto simp: process_get_def Let_def split: option.splits if_splits)
  moreover have "mp_process_id p = s"
    using calculation(1) ok by (auto simp: manager_keys_ok_def dict_get_def dest: map_of_SomeD)
  ultimately show ?thesis by simp
qed (use g in \<open>simp_all add: process_get_def\<close>)

lemma filter_dict_set:
  "dict_get d k = Some q \<Longrightarrow> (P q \<longleftrightarrow> P p) \<Longrightarrow> filter (\<lambda>(i, p). P p) (dict_set k p d) =
     (if P p then dict_set k p (filter (\<lambda>(i, p). P p) d) else filter (\<lambda>(i, p). P p) d)"
  by (induction d) (auto simp: dict_set_def dict_get_def)

lemma filter_dict_set_other:
  "dict_get d k = Some q \<Longrightarrow> \<not> P q \<Longrightarrow> \<not> P p \<Longrightarrow> filter (\<lambda>(i, p). P p) (dict_set k p d) = filter (\<lambda>(i, p). P p) d"
  by (simp add: filter_dict_set)

lemma visible_update:
  assumes "dict_get (pm_processes m) (mp_process_id p) = Some q" and "mp_scope q = mp_scope p"
  shows "visible scope (update_process p m) =
     (if mp_scope p = scope then dict_set (mp_process_id p) p (visible scope m) else visible scope m)"
  using filter_dict_set [OF assms(1), of "\<lambda>p. mp_scope p = scope"] assms(2)
  by (simp add: visible_def update_process_def)

text \<open>C27: A caller of the process tools sees its own scope only: what it reads, lists and is allowed depends on the processes
  of its scope alone, and reading leaves what any other scope sees untouched.\<close>

theorem processes_are_private:
  assumes "manager_keys_ok m" and "manager_keys_ok m'" and "visible (process_scope_of args) m = visible (process_scope_of args) m'"
  shows "process_list_tool isoformat m args = process_list_tool isoformat m' args
    \<and> authorize_write py_str isoformat m args = authorize_write py_str isoformat m' args
    \<and> process_write_tool py_str isoformat takes m args = process_write_tool py_str isoformat takes m' args
    \<and> fst (process_read_tool L py_str isoformat n args m) = fst (process_read_tool L py_str isoformat n args m')
    \<and> (\<forall>scope. scope \<noteq> process_scope_of args \<longrightarrow>
         visible scope (snd (process_read_tool L py_str isoformat n args m)) = visible scope m)"
proof -
  let ?scope = "process_scope_of args"
  have get: "process_get py_str m i ?scope = process_get py_str m' i ?scope" for i
    unfolding process_get_visible [OF assms(1)] process_get_visible [OF assms(2)] assms(3) ..
  have "visible scope (snd (process_read_tool L py_str isoformat n args m)) = visible scope m" if "scope \<noteq> ?scope" for scope
  proof (cases "bind_e (process_get py_str m (meta_get args ''process_id'') ?scope) (\<lambda>p.
      bind_e (since_argument args) (\<lambda>since. bind_e (max_chars_argument n args) (\<lambda>n.
      bind_e (wait_seconds args 0) (\<lambda>_. Inr (p, since, n)))))")
    case (Inl e)
    then show ?thesis by (simp add: process_read_tool_def)
  next
    case (Inr r)
    obtain p since k where r: "r = (p, since, k)" by (cases r) auto
    then have p: "dict_get (pm_processes m) (mp_process_id p) = Some p" "mp_scope p = ?scope"
      using Inr process_get_id [OF assms(1)] by (auto simp: bind_e_eq_Inr)
    obtain shown p' where o: "process_read_output isoformat since (min k (pz_output_chars L)) p = (shown, p')"
      by (cases "process_read_output isoformat since (min k (pz_output_chars L)) p")
    then have "mp_process_id p' = mp_process_id p" "mp_scope p' = mp_scope p"
      by (auto simp: process_read_output_def Let_def split: prod.splits)
    then show ?thesis
      using Inr r o p that by (simp add: process_read_tool_def visible_update)
  qed
  moreover have "fst (process_read_tool L py_str isoformat n args m) = fst (process_read_tool L py_str isoformat n args m')"
    by (simp add: process_read_tool_def get Let_def split: sum.split prod.split)
  ultimately show ?thesis
    by (simp add: process_list_tool_def process_list_visible assms(3) authorize_write_def process_write_tool_def get)
qed


definition foreign_process :: managed_process where
  "foreign_process = \<lparr>mp_process_id = ''p1'', mp_scope = \<lparr>px_owner_id = Some ''alice'', px_session = None\<rparr>, mp_command = Script ''ls'',
     mp_cwd = ''.'', mp_trusted_input = True, mp_timed_out = False, mp_output = new_buffer 10, mp_started_at = 0, mp_read_offset = 0,
     mp_returncode = None, mp_finished_at = None, mp_stopped = False\<rparr>"

theorem processes_are_private_witness:
  "fst (process_read_tool \<lparr>pz_per_owner = 4, pz_processes = 16, pz_output_chars = 10, pz_lifetime_seconds = 1, pz_exited = 0\<rparr>
       (\<lambda>_. ''p1'') int_str 10 [(''process_id'', PStr ''p1'')] \<lparr>pm_processes = [(''p1'', foreign_process)], pm_closing = False\<rparr>)
   = fst (process_read_tool \<lparr>pz_per_owner = 4, pz_processes = 16, pz_output_chars = 10, pz_lifetime_seconds = 1, pz_exited = 0\<rparr>
       (\<lambda>_. ''p1'') int_str 10 [(''process_id'', PStr ''p1'')] new_process_manager)"
proof -
  have scope: "process_scope_of [(''process_id'', PStr ''p1'')] = \<lparr>px_owner_id = None, px_session = None\<rparr>"
    by code_simp
  show ?thesis
    using processes_are_private [of "\<lparr>pm_processes = [(''p1'', foreign_process)], pm_closing = False\<rparr>" new_process_manager
        "[(''process_id'', PStr ''p1'')]"]
    by (simp add: scope manager_keys_ok_def visible_def new_process_manager_def foreign_process_def dict_ok_def dict_keys_def)
qed

section \<open>Limits\<close>

definition count_where :: "('v \<Rightarrow> bool) \<Rightarrow> ('k, 'v) dict \<Rightarrow> nat" where
  "count_where P d = length (filter P (dict_values d))"

lemma count_set_new: "\<not> dict_has d k \<Longrightarrow> count_where P (dict_set k p d) = count_where P d + (if P p then 1 else 0)"
  by (simp add: dict_set_new count_where_def dict_values_def)

lemma count_set_same: "dict_get d k = Some q \<Longrightarrow> (P p \<longrightarrow> P q) \<Longrightarrow> count_where P (dict_set k p d) \<le> count_where P d"
  by (induction d) (auto simp: count_where_def dict_values_def dict_set_def dict_get_def)

lemma count_pop: "count_where P (dict_pop k d) \<le> count_where P d"
  by (induction d) (auto simp: count_where_def dict_values_def dict_pop_def)

lemma count_pops: "count_where P (fold (\<lambda>p. dict_pop (f p)) ps d) \<le> count_where P d"
proof (induction ps arbitrary: d)
  case (Cons p ps)
  have "count_where P (fold (\<lambda>p. dict_pop (f p)) ps (dict_pop (f p) d)) \<le> count_where P (dict_pop (f p) d)"
    by (rule Cons.IH)
  also have "\<dots> \<le> count_where P d" by (rule count_pop)
  finally show ?case by simp
qed simp

lemma count_forget: "count_where P (forget_exited n d) \<le> count_where P d"
  by (simp add: forget_exited_def Let_def count_pops)

definition limits_respected :: "process_limits \<Rightarrow> process_manager \<Rightarrow> bool" where
  "limits_respected L m \<longleftrightarrow>
     count_where is_running (pm_processes m) \<le> pz_processes L
     \<and> (\<forall>owner. count_where (\<lambda>p. is_running p \<and> px_owner_id (mp_scope p) = owner) (pm_processes m) \<le> pz_per_owner L)"

text \<open>The states that the manager can reach: it starts processes with new identifiers, takes in their events, and lets callers
  read.\<close>

inductive manager_reachable ::
  "process_limits \<Rightarrow> shell_tool \<Rightarrow> (sandbox_request \<Rightarrow> error + unit) \<Rightarrow> shell_tool_state \<Rightarrow> process_manager \<Rightarrow> bool"
  for L T spawn where
  initially: "manager_reachable L T spawn w new_process_manager"
| starting: "manager_reachable L T spawn w m \<Longrightarrow> \<not> dict_has (pm_processes m) fresh \<Longrightarrow>
     manager_start L T spawn fresh now args scope (w, m) = (r, (w', m')) \<Longrightarrow> manager_reachable L T spawn w' m'"
| event: "manager_reachable L T spawn w m \<Longrightarrow> manager_reachable L T spawn w (process_step e m)"
| reading: "manager_reachable L T spawn w m \<Longrightarrow>
     process_read_tool L py_str isoformat n args m = (r, m') \<Longrightarrow> manager_reachable L T spawn w m'"
| shell: "manager_reachable L T spawn w m \<Longrightarrow> manager_reachable L T spawn w' m"

lemma manager_keys_set:
  "manager_keys_ok m \<Longrightarrow> manager_keys_ok (m\<lparr>pm_processes := dict_set (mp_process_id p) p (pm_processes m)\<rparr>)"
proof -
  have "set (dict_set k p d) \<subseteq> insert (k, p) (set d)" for k :: string and d
    by (induction d) (auto simp: dict_set_def split: if_splits)
  then show "manager_keys_ok m \<Longrightarrow> ?thesis"
    by (fastforce simp: manager_keys_ok_def)
qed

lemma manager_keys_pops:
  "manager_keys_ok (m\<lparr>pm_processes := d\<rparr>) \<Longrightarrow> manager_keys_ok (m\<lparr>pm_processes := fold (\<lambda>p. dict_pop (mp_process_id p)) ps d\<rparr>)"
proof (induction ps arbitrary: d)
  case (Cons p ps)
  have "set (dict_pop k d) \<subseteq> set d" for k :: string
    by (auto simp: dict_pop_def AList.delete_eq)
  then have "manager_keys_ok (m\<lparr>pm_processes := dict_pop (mp_process_id p) d\<rparr>)"
    using Cons.prems by (fastforce simp: manager_keys_ok_def)
  then show ?case using Cons.IH by simp
qed simp

lemma manager_start_cases:
  assumes "manager_start L T spawn fresh now args scope (w, m) = (r, (w', m'))"
  shows "m' = m \<or> may_start L scope m = Inr ()
    \<and> (\<exists>p. m' = m\<lparr>pm_processes := forget_exited (pz_exited L) (dict_set fresh p (pm_processes m))\<rparr>
          \<and> mp_process_id p = fresh \<and> mp_scope p = scope)"
proof (cases "may_start L scope m")
  case (Inl e)
  then show ?thesis using assms by (simp add: manager_start_def)
next
  case (Inr u)
  obtain b w1 where b: "background_request T args (pz_lifetime_seconds L) w = (b, w1)"
    by (cases "background_request T args (pz_lifetime_seconds L) w")
  show ?thesis
  proof (cases b)
    case (Inl e)
    then show ?thesis using assms b Inr by (simp add: manager_start_def)
  next
    case started: (Inr rc)
    obtain request cwd where rc: "rc = (request, cwd)" by (cases rc)
    show ?thesis
    proof (cases "bind_e (parse_command T args) (\<lambda>command. bind_e (spawn request) (\<lambda>_.
          bind_e (accepts_unapproved_stdin T (tt_sessions w1) args) (\<lambda>trusted. Inr (command, trusted))))")
      case (Inl e)
      then show ?thesis using assms b Inr started rc by (simp add: manager_start_def)
    next
      case finished: (Inr ct)
      then show ?thesis
        using assms b Inr started rc by (cases ct) (auto simp: manager_start_def Let_def)
    qed
  qed
qed

lemma update_process_respects:
  assumes "limits_respected L m" "manager_keys_ok m" "dict_get (pm_processes m) (mp_process_id p) = Some q"
    "is_running p \<longrightarrow> is_running q" "mp_scope p = mp_scope q"
  shows "limits_respected L (update_process p m) \<and> manager_keys_ok (update_process p m)"
proof -
  have "count_where P (dict_set (mp_process_id p) p (pm_processes m)) \<le> count_where P (pm_processes m)" if "P p \<longrightarrow> P q" for P
    using count_set_same [OF assms(3) that] .
  note le = this
  have "count_where (\<lambda>p. is_running p \<and> px_owner_id (mp_scope p) = owner) (dict_set (mp_process_id p) p (pm_processes m))
      \<le> count_where (\<lambda>p. is_running p \<and> px_owner_id (mp_scope p) = owner) (pm_processes m)" for owner
    using assms(4,5) by (intro le) simp
  moreover have "count_where is_running (dict_set (mp_process_id p) p (pm_processes m)) \<le> count_where is_running (pm_processes m)"
    using assms(4) by (intro le)
  ultimately have "limits_respected L (update_process p m)"
    using assms(1) unfolding limits_respected_def update_process_def by (auto intro: order_trans)
  then show ?thesis
    using manager_keys_set [OF assms(2), of p] by (simp add: update_process_def)
qed

lemma process_step_respects:
  assumes l: "limits_respected L m" and k: "manager_keys_ok m"
  shows "limits_respected L (process_step e m) \<and> manager_keys_ok (process_step e m)"
proof -
  have id: "mp_process_id p = i" if "dict_get (pm_processes m) i = Some p" for i p
    using that k by (auto simp: manager_keys_ok_def dict_get_def dest: map_of_SomeD)
  have updated: "limits_respected L (update_process p' m) \<and> manager_keys_ok (update_process p' m)"
    if "dict_get (pm_processes m) i = Some p" "mp_process_id p' = mp_process_id p" "mp_scope p' = mp_scope p" "is_running p"
    for i p p'
    using update_process_respects [OF l k, of p' p] id [OF that(1)] that by simp
  show ?thesis
  proof (cases e)
    case Close_requested
    let ?mark = "\<lambda>p. if is_running p then p\<lparr>mp_stopped := True\<rparr> else p"
    have same: "is_running (?mark p) = is_running p" "mp_scope (?mark p) = mp_scope p" "mp_process_id (?mark p) = mp_process_id p" for p
      by (simp_all add: is_running_def)
    have "count_where P (map (\<lambda>(i, p). (i, ?mark p)) d) = count_where (\<lambda>p. P (?mark p)) d" for P and d :: "(string, managed_process) dict"
      by (induction d) (auto simp: count_where_def dict_values_def)
    moreover have "dict_ok (map (\<lambda>(i, p). (i, ?mark p)) d) = dict_ok d" for d :: "(string, managed_process) dict"
      by (simp add: dict_ok_def dict_keys_def case_prod_unfold o_def)
    ultimately show ?thesis
      using l k by (auto simp: Close_requested process_step_def limits_respected_def manager_keys_ok_def same)
  next
    case (Wrote i s t)
    then show ?thesis
      using l k updated [of i _ "p\<lparr>mp_output := buffer_append (stream_name s) t (mp_output p)\<rparr>" for p]
      by (cases "dict_get (pm_processes m) i") (simp_all add: process_step_def is_running_def)
  next
    case (Ended i code late now)
    then show ?thesis
      using l k updated [of i _ "p\<lparr>mp_returncode := code, mp_timed_out := late, mp_finished_at := Some now\<rparr>" for p]
      by (cases "dict_get (pm_processes m) i") (simp_all add: process_step_def is_running_def)
  next
    case (Stop_requested i)
    then show ?thesis
      using l k updated [of i _ "p\<lparr>mp_stopped := True\<rparr>" for p]
      by (cases "dict_get (pm_processes m) i") (simp_all add: process_step_def is_running_def)
  qed
qed

lemma manager_reachable_ok:
  "manager_reachable L T spawn w m \<Longrightarrow> limits_respected L m \<and> manager_keys_ok m"
proof (induction rule: manager_reachable.induct)
  case (initially w)
  then show ?case by (simp add: limits_respected_def manager_keys_ok_def new_process_manager_def count_where_def dict_values_def)
next
  case (starting w m fresh now args scope r w' m')
  show ?case
  proof (cases "m' = m")
    case True
    then show ?thesis using starting.IH by simp
  next
    case False
    then obtain p where may: "may_start L scope m = Inr ()" and p: "mp_process_id p = fresh" "mp_scope p = scope"
      and m': "m' = m\<lparr>pm_processes := forget_exited (pz_exited L) (dict_set fresh p (pm_processes m))\<rparr>"
      using manager_start_cases [OF starting.hyps(3)] by blast
    have le: "count_where P (pm_processes m') \<le> count_where P (pm_processes m) + (if P p then 1 else 0)" for P
      using count_forget [of P "pz_exited L" "dict_set fresh p (pm_processes m)"] count_set_new [OF starting.hyps(2), of P p]
      by (simp add: m')
    have room: "count_where is_running (pm_processes m) < pz_processes L"
      "count_where (\<lambda>p. is_running p \<and> px_owner_id (mp_scope p) = px_owner_id scope) (pm_processes m) < pz_per_owner L"
      using may by (auto simp: may_start_def running_processes_def count_where_def Let_def conj_commute split: if_splits)
    have "count_where (\<lambda>p. is_running p \<and> px_owner_id (mp_scope p) = owner) (pm_processes m') \<le> pz_per_owner L" for owner
    proof (cases "owner = px_owner_id scope")
      case True
      then show ?thesis using le [of "\<lambda>p. is_running p \<and> px_owner_id (mp_scope p) = owner"] room(2) by (auto split: if_splits)
    next
      case False
      then have "count_where (\<lambda>p. is_running p \<and> px_owner_id (mp_scope p) = owner) (pm_processes m')
          \<le> count_where (\<lambda>p. is_running p \<and> px_owner_id (mp_scope p) = owner) (pm_processes m)"
        using le [of "\<lambda>p. is_running p \<and> px_owner_id (mp_scope p) = owner"] p by simp
      also have "\<dots> \<le> pz_per_owner L" using starting.IH by (simp add: limits_respected_def)
      finally show ?thesis .
    qed
    moreover have "count_where is_running (pm_processes m') \<le> pz_processes L"
      using le [of is_running] room(1) by (auto split: if_splits)
    moreover have "manager_keys_ok m'"
      using manager_keys_pops [OF manager_keys_set [of m p]] starting.IH p by (simp add: m' forget_exited_def Let_def)
    ultimately show ?thesis by (simp add: limits_respected_def)
  qed
next
  case (event w m e)
  then show ?case using process_step_respects by blast
next
  case (reading w m py_str isoformat n args r m')
  show ?case
  proof (cases "m' = m")
    case True
    then show ?thesis using reading.IH by simp
  next
    case False
    then obtain p p' where g: "process_get py_str m (meta_get args ''process_id'') (process_scope_of args) = Inr p"
      and m': "m' = update_process p' m" "mp_process_id p' = mp_process_id p" "mp_scope p' = mp_scope p" "is_running p' = is_running p"
      using reading.hyps(2)
      by (auto simp: process_read_tool_def process_read_output_def Let_def bind_e_eq_Inr is_running_def split: sum.splits prod.splits)
    then show ?thesis
      using process_get_id [OF _ g] reading.IH update_process_respects [of L m p' p] by simp
  qed
next
  case (shell w m w')
  then show ?case by simp
qed

text \<open>C28: In every state that the manager of processes reaches, no more processes run than the limit allows, neither in all
  nor for any one owner, whatever starts, ends, stops and reads came before.\<close>

theorem process_limits_hold:
  assumes "manager_reachable L T spawn w m"
  shows "length (running_processes m) \<le> pz_processes L
    \<and> length (filter (\<lambda>p. px_owner_id (mp_scope p) = owner) (running_processes m)) \<le> pz_per_owner L"
  using manager_reachable_ok [OF assms]
  by (auto simp: limits_respected_def running_processes_def count_where_def conj_commute)

theorem process_limits_hold_witness:
  "length (running_processes (process_step Close_requested new_process_manager)) \<le> 16"
  using process_limits_hold [OF manager_reachable.event [OF manager_reachable.initially], where
      L = "\<lparr>pz_per_owner = 4, pz_processes = 16, pz_output_chars = 0, pz_lifetime_seconds = 1, pz_exited = 0\<rparr>"]
  by simp

end
