(* ===== verification/SessionFacts.thy ===== *)
theory SessionFacts
  imports ShellSessions
begin

text \<open>
  What a shell session can carry over: variables that the rules accept, search paths that stay in the project, a working
  directory below its root; and the format of the record, which is read back as it is written.
\<close>

section \<open>The invariant of a session\<close>

text \<open>A search path entry in the project: below \<open>/workspace\<close> without a step up, or on the host below its directory.\<close>

definition entry_in_project :: "shell_machine \<Rightarrow> posix_path \<Rightarrow> string \<Rightarrow> bool" where
  "entry_in_project M dir e \<longleftrightarrow> fst (posix_path e) \<noteq> 0
     \<and> ((\<exists>names. posix_path e = (1, ''workspace'' # names) \<and> ''..'' \<notin> set names)
        \<or> path_within (sm_resolve M (posix_path e)) dir)"

lemma sandbox_relative_in_project:
  "sandbox_relative M dir e = Some rel \<Longrightarrow> entry_in_project M dir e"
  by (cases "posix_path e"; cases "snd (posix_path e)")
    (auto simp: sandbox_relative_def entry_in_project_def Let_def path_within_def split: if_splits)

text \<open>A directory below the root of the project, reached without a step up.\<close>

definition directory_inside :: "string \<Rightarrow> bool" where
  "directory_inside s \<longleftrightarrow> fst (posix_path s) = 0 \<and> ''..'' \<notin> set (snd (posix_path s))"

lemma directory_here [simp]: "directory_inside ''.''"
  by (simp add: directory_inside_def posix_path_def)

definition path_confined :: "shell_machine \<Rightarrow> posix_path \<Rightarrow> shell_session_state \<Rightarrow> bool" where
  "path_confined M dir st \<longleftrightarrow>
     (\<forall>v. dict_get (st_env st) ''PATH'' = Some v \<longrightarrow>
        (\<exists>base. st_base_path st = Some base
           \<and> (\<forall>e\<in>set (path_entries v). e = [] \<or> e \<in> set base \<or> entry_in_project M dir e)))"

definition env_accepted :: "string list option \<Rightarrow> (string, string) dict \<Rightarrow> bool" where
  "env_accepted allowed env \<longleftrightarrow>
     (\<forall>k\<in>set (dict_keys env). env_rejection allowed k = None \<and> k \<notin> set TRANSIENT_ENV)"

definition session_ok :: "shell_machine \<Rightarrow> string list option \<Rightarrow> posix_path \<Rightarrow> shell_session_state \<Rightarrow> bool" where
  "session_ok M allowed dir st \<longleftrightarrow>
     dict_ok (st_env st) \<and> env_accepted allowed (st_env st) \<and> path_confined M dir st \<and> directory_inside (st_cwd st)"

lemma env_accepted_simps [simp]:
  "env_accepted allowed []"
  "env_accepted allowed (dict_set k v env) \<longleftrightarrow>
     env_rejection allowed k = None \<and> k \<notin> set TRANSIENT_ENV \<and> (\<forall>k'\<in>set (dict_keys env). k' = k \<or> env_rejection allowed k' = None \<and> k' \<notin> set TRANSIENT_ENV)"
  by (auto simp: env_accepted_def dict_keys_iff dict_keys_def [of "[]"])

lemma env_accepted_set:
  "env_accepted allowed env \<Longrightarrow> env_rejection allowed k = None \<Longrightarrow> k \<notin> set TRANSIENT_ENV
     \<Longrightarrow> env_accepted allowed (dict_set k v env)"
  by (auto simp: env_accepted_def dict_keys_iff)

lemma env_accepted_pop: "env_accepted allowed env \<Longrightarrow> env_accepted allowed (dict_pop k env)"
  by (simp add: env_accepted_def dict_keys_iff)

definition path_names :: "string list \<Rightarrow> bool" where
  "path_names cs \<longleftrightarrow> (\<forall>c\<in>set cs. c \<noteq> [] \<and> CHR ''/'' \<notin> set c)"

lemma path_names_drop [simp]: "path_names cs \<Longrightarrow> path_names (drop n cs)" "path_names cs \<Longrightarrow> path_names (tl cs)"
  by (auto simp: path_names_def dest: in_set_dropD list.set_sel(2) [rotated]) (cases cs; auto)+

lemma split_char_parts: "p \<in> set (split_char c s) \<Longrightarrow> c \<notin> set p"
  by (induction s arbitrary: p) (auto split: if_splits list.splits)

lemma posix_path_names [simp]: "path_names (snd (posix_path s))"
  by (auto simp: posix_path_def Let_def path_names_def dest: split_char_parts)

lemma split_char_join:
  "split_char c (join [c] ps) = (if ps = [] then [[]] else ps)" if "\<forall>p\<in>set ps. c \<notin> set p"
  using that
proof (induction ps)
  case (Cons p ps)
  have plain: "split_char c p = [p]" using Cons.prems by (induction p) auto
  have "split_char c (p @ c # s) = p # split_char c s" for s
    using Cons.prems by (induction p) auto
  with Cons plain show ?case by (cases ps) auto
qed simp

text \<open>The host resolves a path to one whose components are names, none of them a step up.\<close>

definition resolves_to_names :: "shell_machine \<Rightarrow> bool" where
  "resolves_to_names M \<longleftrightarrow> (\<forall>p. path_names (snd (sm_resolve M p)) \<and> ''..'' \<notin> set (snd (sm_resolve M p)))"

lemma printed_inside:
  assumes "path_names cs" "''..'' \<notin> set cs"
  shows "directory_inside (path_str (0, cs))"
proof (cases cs)
  case (Cons c ds)
  with assms(1) have c: "c \<noteq> []" "CHR ''/'' \<notin> set c" by (auto simp: path_names_def)
  then obtain x xs where x: "c = x # xs" "x \<noteq> CHR ''/''" by (cases c) auto
  have str: "path_str (0, cs) = join ''/'' cs" using Cons by (simp add: path_str_def)
  have head: "\<exists>ys. join ''/'' cs = x # ys" using Cons x by (cases ds) auto
  have "snd (posix_path (join ''/'' cs)) = filter (\<lambda>p. p \<noteq> [] \<and> p \<noteq> ''.'') cs"
    using split_char_join [of cs "CHR ''/''"] assms(1) Cons by (auto simp: posix_path_def Let_def path_names_def)
  moreover have "fst (posix_path (join ''/'' cs)) = 0"
    using head x(2) by (auto simp: posix_path_def Let_def)
  ultimately show ?thesis using assms(2) by (simp add: directory_inside_def str)
qed (simp add: path_str_def)

lemma sandbox_relative_inside:
  assumes "resolves_to_names M" and "sandbox_relative M dir s = Some rel"
  shows "directory_inside rel"
proof -
  have "path_names (snd (sm_resolve M (posix_path s)))" "''..'' \<notin> set (snd (sm_resolve M (posix_path s)))"
    using assms(1) unfolding resolves_to_names_def by blast+
  then show ?thesis
    using assms(2)
    by (auto simp: sandbox_relative_def Let_def intro!: printed_inside split: if_splits dest: in_set_dropD)
qed

lemma apply_path_ok:
  assumes "session_ok M allowed dir st" and "env_rejection allowed ''PATH'' = None"
  shows "session_ok M allowed dir (snd (apply_path M dir start v st))"
proof -
  have "''PATH'' \<notin> set TRANSIENT_ENV" by (simp add: TRANSIENT_ENV_def)
  with assms show ?thesis
    by (auto simp: apply_path_def Let_def session_ok_def path_confined_def list_ex_iff env_accepted_set env_accepted_pop
        intro: sandbox_relative_in_project simp del: env_accepted_simps)
qed

lemma apply_variable_ok:
  assumes "session_ok M allowed dir (fst p)"
  shows "session_ok M allowed dir (fst (apply_variable M allowed dir start final key p))"
proof -
  obtain st ignored where p: "p = (st, ignored)" by (cases p)
  have ok: "session_ok M allowed dir st" using assms p by simp
  show ?thesis
  proof (cases "key \<in> set TRANSIENT_ENV \<or> dict_get start key = dict_get final key \<or> env_rejection allowed key \<noteq> None")
    case True
    then show ?thesis using ok by (auto simp: p apply_variable_def)
  next
    case False
    then have key: "key \<notin> set TRANSIENT_ENV" "env_rejection allowed key = None" "dict_get start key \<noteq> dict_get final key"
      by auto
    show ?thesis
    proof (cases "dict_get final key")
      case None
      then show ?thesis
        using ok key by (auto simp: p apply_variable_def Let_def session_ok_def path_confined_def env_accepted_pop)
    next
      case (Some v)
      show ?thesis
      proof (cases "key = ''PATH''")
        case True
        then have "session_ok M allowed dir (snd (apply_path M dir start v st))"
          using apply_path_ok [OF ok] key by simp
        then show ?thesis
          using Some key True by (auto simp: p apply_variable_def split: prod.split option.split)
      next
        case False
        then show ?thesis
          using Some key ok
          by (auto simp: p apply_variable_def session_ok_def path_confined_def env_accepted_set simp del: env_accepted_simps)
      qed
    qed
  qed
qed

lemma apply_capture_ok:
  assumes "session_ok M allowed dir st" and "resolves_to_names M"
  shows "session_ok M allowed dir (fst (apply_capture M allowed dir st capture))"
proof (cases "parse_capture capture")
  case None
  then show ?thesis using assms(1) by (simp add: apply_capture_def)
next
  case (Some parsed)
  obtain start cwd final where parsed: "parsed = (start, cwd, final)" by (cases parsed) auto
  have fold_ok: "session_ok M allowed dir (fst (fold (apply_variable M allowed dir start final) keys p))"
    if "session_ok M allowed dir (fst p)" for keys p
    using that by (induction keys arbitrary: p) (simp_all add: apply_variable_ok)
  have "session_ok M allowed dir (st\<lparr>st_cwd := rel\<rparr>)" if "sandbox_relative M dir cwd = Some rel" for rel
    using assms(1) sandbox_relative_inside [OF assms(2) that] by (simp add: session_ok_def path_confined_def)
  then show ?thesis
    using assms(1) by (auto simp: apply_capture_def Some parsed Let_def intro!: fold_ok split: option.split)
qed

lemma tracker_load_ok:
  assumes "\<And>st. shell_store_get d (sk_key k) (key_scope k) = Some st \<Longrightarrow> st_root st = path_str dir \<Longrightarrow> session_ok M before dir st"
  shows "session_ok M allowed dir (tracker_load allowed d k dir)"
proof (cases "shell_store_get d (sk_key k) (key_scope k)")
  case None
  then show ?thesis
    by (simp add: tracker_load_def new_shell_state_def session_ok_def path_confined_def)
next
  case (Some st)
  show ?thesis
  proof (cases "st_root st = path_str dir")
    case False
    then show ?thesis
      by (simp add: Some tracker_load_def new_shell_state_def session_ok_def path_confined_def)
  next
    case True
    then have ok: "session_ok M before dir st" using assms Some by simp
    then have d: "dict_ok (st_env st)" by (simp add: session_ok_def)
    then show ?thesis
      using ok True
      by (auto simp: Some tracker_load_def Let_def session_ok_def path_confined_def env_accepted_def dict_ok_filter
          dict_get_filter dict_keys_iff dict_has_def split: option.splits if_splits)
  qed
qed

text \<open>Where the base of the search path comes from.\<close>

definition reported_base :: "string option \<Rightarrow> string list option" where
  "reported_base capture = map_option (\<lambda>(start, _, _). path_entries (case dict_get start ''PATH'' of None \<Rightarrow> [] | Some p \<Rightarrow> p))
     (parse_capture capture)"

definition base_known :: "string list option \<Rightarrow> string list option \<Rightarrow> shell_session_state \<Rightarrow> bool" where
  "base_known kept reported st \<longleftrightarrow> st_base_path st = None \<or> st_base_path st = kept \<or> st_base_path st = reported"

lemma apply_variable_base:
  assumes "base_known kept (Some (path_entries (case dict_get start ''PATH'' of None \<Rightarrow> [] | Some p \<Rightarrow> p))) (fst p)"
  shows "base_known kept (Some (path_entries (case dict_get start ''PATH'' of None \<Rightarrow> [] | Some p \<Rightarrow> p)))
    (fst (apply_variable M allowed dir start final key p))"
  using assms
  by (cases p) (auto simp: apply_variable_def apply_path_def base_known_def Let_def split: option.splits if_splits)

lemma apply_capture_base:
  "base_known (st_base_path st) (reported_base capture) (fst (apply_capture M allowed dir st capture))"
proof (cases "parse_capture capture")
  case None
  then show ?thesis by (simp add: apply_capture_def base_known_def)
next
  case (Some parsed)
  obtain start cwd final where parsed: "parsed = (start, cwd, final)" by (cases parsed) auto
  have "base_known b (reported_base capture) (fst (fold (apply_variable M allowed dir start final) keys p))"
    if "base_known b (reported_base capture) (fst p)" for keys p b
    using that
    by (induction keys arbitrary: p) (simp_all add: apply_variable_base reported_base_def Some parsed)
  then show ?thesis
    by (auto simp: apply_capture_def Some parsed Let_def base_known_def split: option.split)
qed

text \<open>C26: Whatever a command writes to the side channel and whatever was stored under earlier rules, the state that a later
  command starts from has only variables that the rules in force accept, and a working directory that is reached from the
  root of the project without a step up.  Every entry of its search path is one of the base path or a directory of the
  project, and the base path is the one that was kept or the one that the record reports for the start of the command
  (the record is believed there).\<close>

theorem session_state_confined:
  assumes "\<And>st. shell_store_get d (sk_key k) (key_scope k) = Some st \<Longrightarrow> st_root st = path_str dir
      \<Longrightarrow> session_ok M before dir st"
    and "resolves_to_names M"
  shows "session_ok M allowed dir (tracker_load allowed d k dir)
    \<and> session_ok M allowed dir (fst (apply_capture M allowed dir (tracker_load allowed d k dir) capture))
    \<and> base_known (st_base_path (tracker_load allowed d k dir)) (reported_base capture)
        (fst (apply_capture M allowed dir (tracker_load allowed d k dir) capture))"
  using tracker_load_ok [OF assms(1)] apply_capture_ok [OF tracker_load_ok [OF assms(1)] assms(2)]
    apply_capture_base by blast

section \<open>The format of the record\<close>

lemma split_terminated:
  "\<forall>r\<in>set rs. c \<notin> set r \<Longrightarrow> split_char c (concat (map (\<lambda>r. r @ [c]) rs)) = rs @ [[]]"
proof (induction rs)
  case (Cons r rs)
  have "split_char c (r @ c # s) = r # split_char c s" if "c \<notin> set r" for r s
    using that by (induction r) auto
  with Cons show ?case by simp
qed simp

definition env_record :: "string \<times> string \<Rightarrow> string" where
  "env_record = (\<lambda>(k, v). k @ ''='' @ v)"

text \<open>What the wrapper writes: the variables at the start, then the directory and the variables at the end.\<close>

definition session_record :: "(string, string) dict \<Rightarrow> string \<Rightarrow> (string, string) dict \<Rightarrow> string" where
  "session_record start cwd final =
     concat (map (\<lambda>r. r @ [nul]) (''S'' # map env_record start @ [''E'', cwd] @ map env_record final))"

definition env_writable :: "(string, string) dict \<Rightarrow> bool" where
  "env_writable env \<longleftrightarrow> dict_ok env \<and> (\<forall>(k, v)\<in>set env. k \<noteq> [] \<and> CHR ''='' \<notin> set k \<and> nul \<notin> set k \<and> nul \<notin> set v)"

lemma env_of_records:
  "\<forall>(k, v)\<in>set env. k \<noteq> [] \<and> CHR ''='' \<notin> set k \<Longrightarrow> env_of (map env_record env @ rs) e = env_of rs (dict_merge e env)"
proof (induction env arbitrary: e)
  case (Cons p env)
  obtain k v where p: "p = (k, v)" by (cases p)
  have "takeWhile (\<lambda>c. c \<noteq> CHR ''='') (k @ CHR ''='' # v) = k"
    using Cons.prems p by (subst takeWhile_append2) auto
  then show ?case
    using Cons p by (simp add: env_record_def dict_merge_Cons Let_def)
qed simp

lemma dict_merge_empty: "dict_ok env \<Longrightarrow> dict_merge [] env = env"
proof -
  have "dict_ok (d @ env) \<Longrightarrow> dict_merge d env = d @ env" for d
  proof (induction env arbitrary: d)
    case (Cons p env)
    obtain k v where p: "p = (k, v)" by (cases p)
    have "\<not> dict_has d k"
      using Cons.prems p by (auto simp: dict_ok_def dict_keys_def dict_has_def dict_get_def map_of_eq_None_iff)
    then show ?case
      using Cons p by (simp add: dict_merge_Cons dict_set_new)
  qed simp
  then show "dict_ok env \<Longrightarrow> dict_merge [] env = env" by simp
qed

text \<open>C30: The record of a command is read back as it was written: the variables before it, the directory it ended in and the
  variables after it.\<close>

theorem session_record_roundtrip:
  assumes "env_writable start" and "env_writable final" and "nul \<notin> set cwd"
  shows "parse_capture (Some (session_record start cwd final)) = Some (start, cwd, final)"
proof -
  let ?rs = "''S'' # map env_record start @ [''E'', cwd] @ map env_record final"
  have "\<forall>r\<in>set ?rs. nul \<notin> set r"
    using assms by (auto simp: env_writable_def env_record_def nul_def)
  then have split: "split_char nul (session_record start cwd final) = ?rs @ [[]]"
    unfolding session_record_def by (rule split_terminated)
  have "env_record kv \<noteq> ''E''" for kv
    by (cases kv; cases "fst kv") (auto simp: env_record_def)
  then have no_end: "r \<noteq> ''E''" if "r \<in> set (''S'' # map env_record start)" for r
    using that by force
  have before: "takeWhile (\<lambda>r. r \<noteq> ''E'') (?rs @ [[]]) = ''S'' # map env_record start"
  proof -
    have "\<forall>r\<in>set (map env_record start). r \<noteq> ''E''" using no_end by simp
    then have "takeWhile (\<lambda>r. r \<noteq> ''E'') (map env_record start @ rest) = map env_record start @ takeWhile (\<lambda>r. r \<noteq> ''E'') rest"
      for rest by (intro takeWhile_append2) blast
    then show ?thesis by simp
  qed
  have records: "env_of (map env_record start) [] = start" "env_of (map env_record final @ [[]]) [] = final"
    using env_of_records [of start "[]" "[]"] env_of_records [of final "[[]]" "[]"] assms
    by (auto simp: env_writable_def dict_merge_empty)
  have "session_record start cwd final \<noteq> []"
    by (simp add: session_record_def)
  then obtain c cs where rec: "session_record start cwd final = c # cs" by (cases "session_record start cwd final") auto
  show ?thesis
    unfolding rec parse_capture_def option.case list.case Let_def unfolding rec [symmetric] split before
    using records by (simp add: nth_append)
qed


theorem session_record_roundtrip_witness:
  "parse_capture (Some (session_record [(''PATH'', ''/bin'')] ''/workspace/a'' [(''PATH'', ''/bin''), (''X'', ''1=2'')]))
     = Some ([(''PATH'', ''/bin'')], ''/workspace/a'', [(''PATH'', ''/bin''), (''X'', ''1=2'')])"
  by (rule session_record_roundtrip) (simp_all add: env_writable_def dict_ok_def dict_keys_def nul_def)

definition session_machine :: shell_machine where
  "session_machine = \<lparr>sm_parser = (\<lambda>_. (undefined, False)), sm_tree_limit = 0, sm_limit = 0, sm_dialect = Dialect_POSIX,
     sm_resolve = (\<lambda>_. (1, [])), sm_is_dir = (\<lambda>_. True), sm_is_file = (\<lambda>_. False), sm_is_program = (\<lambda>_. False),
     sm_which = (\<lambda>_. None), sm_search_path = []\<rparr>"

theorem session_state_confined_witness:
  "session_ok session_machine None (1, [''p'']) (fst (apply_capture session_machine None (1, [''p''])
     (tracker_load None [] \<lparr>sk_owner_id = None, sk_key = ''k''\<rparr> (1, [''p'']))
     (Some (session_record [] ''/workspace/a'' [(''IFS'', ''x''), (''A'', ''1'')]))))"
  using session_state_confined [of "[]" "\<lparr>sk_owner_id = None, sk_key = ''k''\<rparr>" "(1, [''p''])" session_machine None None]
  by (simp add: shell_store_get_def resolves_to_names_def path_names_def session_machine_def)

text \<open>
  What the trust in the record allows: a command that writes a start record of its own gets a directory of the project into
  the base path, and \<open>path_shadow_reason\<close>, which asks only for added entries, does not see it.
\<close>

definition forged_state :: shell_session_state where
  "forged_state = fst (apply_capture session_machine None (1, [''p''])
     (new_shell_state \<lparr>sk_owner_id = None, sk_key = ''k''\<rparr> (1, [''p'']))
     (Some (session_record [(''PATH'', ''/workspace/evil:/bin'')] ''/workspace''
        [(''PATH'', ''/workspace/evil:/workspace/x:/bin'')])))"

lemma forged_base_accepted:
  "st_base_path forged_state = Some [''/workspace/evil'', ''/bin'']
   \<and> dict_get (st_env forged_state) ''PATH'' = Some ''/workspace/evil:/workspace/x:/bin''"
  by code_simp

end
