(* ===== verification/ShellToolFacts.thy ===== *)
theory ShellToolFacts
  imports ShellTool SessionFacts ShellFacts
begin

text \<open>
  What the shell tool guarantees: an approval counts only for the terminal state it was asked for, and what the tool asks
  of the sandbox is what the policy judged and what the policy of the sandbox accepts.
\<close>

section \<open>Approvals and the terminal state\<close>

text \<open>C25: An approval is for a terminal state: when the session changed between the question and the execution of the same
  call, the execution is refused, and nothing reaches the sandbox.\<close>

theorem stale_approval_refused:
  assumes "shell_authorize T args w = (Inr (Some d), w1)" and "sd_requires_approval d"
    and "tool_session T (tt_sessions w) args = Inr (Some (k, st))" and "binding_of T args = Inr (Some b)"
    and "dict_get (tt_authorized w2) b = dict_get (tt_authorized w1) b" and "state_version T st2 \<noteq> state_version T st"
  shows "fst (run_command T now sandbox args command (Some (k2, st2)) w2)
    = Inl (tool_input_error ''Shell session changed before execution; request approval again'')"
proof -
  have "dict_get (tt_authorized w1) b = Some (state_version T st)"
    using assms(1,2) unfolding shell_authorize_def assms(3,4)
    by (auto simp: Let_def refused_def assms(4) split: sum.splits option.splits if_splits)
  then have "dict_get (tt_authorized w2) b = Some (state_version T st)" using assms(5) by simp
  then show ?thesis
    using assms(6) by (simp add: run_command_def check_state_version_def assms(4) Let_def)
qed

section \<open>Requests to the sandbox\<close>

lemma split_char_nonempty [simp]: "split_char c s \<noteq> []"
  by (induction s) (auto split: list.splits)

lemma split_char_around: "split_char c (xs @ c # ys) = split_char c xs @ split_char c ys"
  by (induction xs) (auto split: list.splits)

lemma workspace_within:
  "path_within (normalize_sandbox_path (if rest = [] then SANDBOX_MOUNT_PATH else SANDBOX_MOUNT_PATH @ ''/'' @ path_str (0, rest)))
    (normalize_sandbox_path SANDBOX_MOUNT_PATH)"
proof -
  have "posix_path (''/workspace/'' @ s) = (1, ''workspace'' # filter (\<lambda>p. p \<noteq> [] \<and> p \<noteq> ''.'') (split_char (CHR ''/'') s))" for s
    using split_char_around [of "CHR ''/''" "''/workspace''" s] by (simp add: posix_path_def Let_def)
  then show ?thesis
    by (simp add: SANDBOX_MOUNT_PATH_def normalize_sandbox_path_def posix_path_def Let_def path_within_def)
qed

lemma env_accepted_keys: "env_accepted (Some ks) env \<Longrightarrow> set (dict_keys env) \<subseteq> set ks"
  by (auto simp: env_accepted_def env_rejection_def split: if_splits)

lemma parse_shell_env_keys:
  "parse_shell_env T args = Inr env \<Longrightarrow> sh_allowed_env_keys T = Some ks \<Longrightarrow> set (dict_keys env) \<subseteq> set ks"
  by (force simp: parse_shell_env_def bind_e_eq_Inr dict_keys_def split: pyval.splits if_splits)

lemma dict_has_merge: "dict_has (dict_merge a b) k \<longleftrightarrow> dict_has a k \<or> dict_has b k"
proof (induction b arbitrary: a)
  case (Cons p b)
  then show ?case by (cases p) (auto simp: dict_merge_Cons dict_has_def dict_get_Cons)
qed simp

lemma dict_keys_merge: "set (dict_keys (dict_merge a b)) = set (dict_keys a) \<union> set (dict_keys b)"
  by (auto simp: dict_keys_iff dict_has_merge)

text \<open>The command line that runs a command: itself, or a shell that is given the script, wrapped where the state is tracked.\<close>

definition runs_as :: "shell_tool \<Rightarrow> bool \<Rightarrow> shell_command \<Rightarrow> string list \<Rightarrow> bool" where
  "runs_as T side command argv \<longleftrightarrow>
     (case command of
        Argv parts \<Rightarrow> \<not> side \<and> argv = parts
      | Script s \<Rightarrow>
          if sh_windows T then \<not> side \<and> argv = [''cmd.exe'', ''/d'', ''/v:off'', ''/s'', ''/c'', s]
          else if side then argv = [''/bin/sh'', ''-c'', SESSION_WRAPPER, ''evernight-shell'', s]
          else argv = [''/bin/sh'', ''-c'', s])"

text \<open>
  What a request promises: the policy judged \<open>command\<close> with the variables, the session and the directory of the request
  and did not reject it; this command is what runs, in the directory of the sandbox that corresponds to the one judged;
  only its program is allowed, only the selected root is mounted, and there is no network.
\<close>

definition judged_request ::
  "shell_tool \<Rightarrow> metadata \<Rightarrow> shell_command \<Rightarrow> shell_session_state option \<Rightarrow> sandbox_request \<Rightarrow> bool" where
  "judged_request T args command state r \<longleftrightarrow>
     (\<exists>project rest env d.
        selected_root T args = Inr project \<and> parse_shell_env T args = Inr env
        \<and> host_cwd T args state = Inr (fst project, snd project @ rest)
        \<and> evaluate_command (sh_machine T) (tool_policy T project) env state (fst project, snd project @ rest) command = Inr d
        \<and> dc_kind d \<noteq> Shell_reject
        \<and> runs_as T (xc_side_channel (xr_command r)) command (xc_command (xr_command r))
        \<and> xc_cwd (xr_command r) = Some (join ''/'' (''/workspace'' # rest))
        \<and> xc_env (xr_command r) = shell_env state env
        \<and> xp_command_allowlist (xr_policy r) = [hd (xc_command (xr_command r))]
        \<and> map (\<lambda>m. (mt_host_path m, mt_mount_path m)) (xp_filesystem_mounts (xr_policy r)) = [(path_str project, ''/workspace'')]
        \<and> xp_network_mode (xr_policy r) = Network_DISABLED)"

lemma path_within_split:
  "path_within p dir \<Longrightarrow> p = (fst dir, snd dir @ drop (length (snd dir)) (snd p))"
  by (metis append_take_drop_id path_within_def prod.collapse)

lemma host_cwd_inside:
  assumes "host_cwd T args state = Inr cwd" "selected_root T args = Inr project"
  shows "path_within cwd project"
  using assms
  by (auto simp: host_cwd_def path_within_def Let_def split: pyval.splits list.splits option.splits if_splits)

lemma join_first: "join sep (a # ps) = (if ps = [] then a else a @ sep @ join sep ps)"
  by (cases ps) simp_all

text \<open>Judging and building one request, for commands that are waited for and for those in the background.\<close>

lemma built_request:
  assumes "judge_command T args state command = Inr d" "reject_command d = Inr ()"
    and "selected_root T args = Inr project" "runs_as T side command argv"
    and "shell_request T args state request_id argv project timeout side = Inr r"
    and "\<And>st ks. state = Some st \<Longrightarrow> sh_allowed_env_keys T = Some ks \<Longrightarrow> set (dict_keys (st_env st)) \<subseteq> set ks"
  shows "judged_request T args command state r" "xd_allowed (basic_sandbox_authorize r)"
proof -
  from assms(5) obtain cwd env where
    cwd: "parse_cwd T args state = Inr cwd" and env: "parse_shell_env T args = Inr env"
    and r: "r = \<lparr>xr_request_id = request_id,
            xr_command = \<lparr>xc_command = argv, xc_cwd = Some cwd, xc_env = shell_env state env, xc_stdin = None,
              xc_timeout_seconds = Some timeout, xc_side_channel = side, xc_metadata = []\<rparr>,
            xr_policy = shell_sandbox_policy T (hd argv) project timeout, xr_metadata = []\<rparr>"
    by (auto simp: shell_request_def bind_e_eq_Inr)
  obtain host where h: "host_cwd T args state = Inr host"
    "evaluate_command (sh_machine T) (tool_policy T project) env state host command = Inr d"
  proof (cases "host_cwd T args state")
    case (Inr host)
    then show ?thesis
      using that [of host] assms(1,3) env
      by (cases "evaluate_command (sh_machine T) (tool_policy T project) env state host command")
        (simp_all add: judge_command_def)
  qed (use assms(1,3) in \<open>simp add: judge_command_def\<close>)
  let ?rest = "drop (length (snd project)) (snd host)"
  have kind: "dc_kind d \<noteq> Shell_reject" using assms(2) by (auto simp: reject_command_def split: if_splits)
  have place: "cwd = (if ?rest = [] then SANDBOX_MOUNT_PATH else SANDBOX_MOUNT_PATH @ ''/'' @ path_str (0, ?rest))"
    using cwd assms(3) by (simp add: parse_cwd_def h Let_def del: drop_eq_Nil split: if_splits)
  have joined: "cwd = join ''/'' (''/workspace'' # ?rest)"
    by (simp add: place join_first path_str_def SANDBOX_MOUNT_PATH_def del: drop_eq_Nil)
  note split = path_within_split [OF host_cwd_inside [OF h(1) assms(3)]]
  show "judged_request T args command state r"
    unfolding judged_request_def
    using assms(3,4) env h split kind joined
    by (intro exI [of _ project] exI [of _ ?rest] exI [of _ env] exI [of _ d])
      (simp add: r shell_sandbox_policy_def SANDBOX_MOUNT_PATH_def)
  have inside: "path_within (normalize_sandbox_path cwd) (normalize_sandbox_path SANDBOX_MOUNT_PATH)"
    using workspace_within [of ?rest] place by (simp only:)
  have keys: "set (dict_keys (shell_env state env)) \<subseteq> set ks" if "sh_allowed_env_keys T = Some ks" for ks
    using parse_shell_env_keys [OF env that] assms(6) that
    by (auto simp: shell_env_def dict_keys_merge dict_keys_def [of "[]"] split: option.splits)
  show "xd_allowed (basic_sandbox_authorize r)"
    using inside keys by (auto simp: basic_sandbox_authorize_iff r shell_sandbox_policy_def)
qed

lemma tool_session_keys:
  assumes "tool_session T d args = Inr session" "map_option snd session = Some st" "sh_allowed_env_keys T = Some ks"
  shows "set (dict_keys (st_env st)) \<subseteq> set ks"
proof -
  have "k \<in> set ks" if "env_rejection (Some ks) k = None" for k
    using that by (auto simp: env_rejection_def split: if_splits)
  then show ?thesis
    using assms
    by (auto simp: tool_session_def tracker_load_def new_shell_state_def bind_e_eq_Inr Let_def dict_keys_def
        split: option.splits if_splits)
qed

text \<open>C24: Every request that the shell tool sends to the sandbox, for a command that it waits for or for a process in the
  background, is one that was judged: the very command that runs, with the variables, the session and the directory that it
  runs with, was given to the policy and not rejected; it runs below \<open>/workspace\<close>, where the selected root and nothing else
  is mounted, in the place that corresponds to the directory judged; only its own program is allowed; it has no network; and
  the policy of the sandbox allows the request.\<close>

theorem shell_requests_are_judged:
  assumes "run_request T args command state = Inr r
      \<and> (\<forall>st. state = Some st \<longrightarrow> env_accepted (sh_allowed_env_keys T) (st_env st))
    \<or> (\<exists>lifetime w cwd w' session. background_request T args lifetime w = (Inr (r, cwd), w')
         \<and> parse_command T args = Inr command \<and> tool_session T (tt_sessions w) args = Inr session
         \<and> map_option snd session = state)"
  shows "judged_request T args command state r \<and> xd_allowed (basic_sandbox_authorize r)"
  using assms
proof (elim disjE exE conjE)
  assume run: "run_request T args command state = Inr r"
    and accepted: "\<forall>st. state = Some st \<longrightarrow> env_accepted (sh_allowed_env_keys T) (st_env st)"
  let ?argv = "case command of Script s \<Rightarrow> if tracks_state T state command then wrap_script s else process_command T command
      | Argv _ \<Rightarrow> process_command T command"
  have argv: "runs_as T (tracks_state T state command) command ?argv"
    by (auto simp: runs_as_def tracks_state_def wrap_script_def process_command_def split: shell_command.split)
  have keys: "set (dict_keys (st_env st)) \<subseteq> set ks" if "state = Some st" "sh_allowed_env_keys T = Some ks" for st ks
    using accepted that env_accepted_keys [of ks "st_env st"] by simp
  from run obtain d project timeout where "judge_command T args state command = Inr d" "reject_command d = Inr ()"
    "selected_root T args = Inr project"
    "shell_request T args state ''restricted_shell'' ?argv project timeout (tracks_state T state command) = Inr r"
    by (auto simp: run_request_def bind_e_eq_Inr Let_def)
  from built_request [OF this(1-3) argv this(4) keys] show ?thesis by blast
next
  fix lifetime w cwd w' session
  assume background: "background_request T args lifetime w = (Inr (r, cwd), w')" "parse_command T args = Inr command"
    and session: "tool_session T (tt_sessions w) args = Inr session" "map_option snd session = state"
  have argv: "runs_as T False command (process_command T command)"
    by (auto simp: runs_as_def process_command_def split: shell_command.split)
  have keys: "set (dict_keys (st_env st)) \<subseteq> set ks" if "state = Some st" "sh_allowed_env_keys T = Some ks" for st ks
    using tool_session_keys [OF session(1)] session(2) that by simp
  from background session obtain d project where "judge_command T args state command = Inr d" "reject_command d = Inr ()"
    "selected_root T args = Inr project"
    "shell_request T args state ''shell_process'' (process_command T command) project lifetime False = Inr r"
    by (auto simp: background_request_def bind_e_eq_Inr split: prod.splits sum.splits)
  from built_request [OF this(1-3) argv this(4) keys] show ?thesis by blast
qed

section \<open>An example\<close>

definition demo_tool :: shell_tool where
  "demo_tool = \<lparr>sh_machine = demo_machine,
     sh_roots = \<lparr>rr_default_root = (1, [''work'']), rr_workspaces = (\<lambda>_. Inl (tool_input_error [])), rr_project_roots = []\<rparr>,
     sh_level = Level_READ_ONLY, sh_allowed_commands = [], sh_blocked_commands = [''git push''], sh_timeout_seconds = 10,
     sh_max_output_chars = 100, sh_allowed_env_keys = None, sh_tracks_sessions = True, sh_windows = False,
     sh_json_loads = (\<lambda>_. None), sh_digest = fst\<rparr>"

definition demo_arguments :: metadata where
  "demo_arguments = [(''command'', PList [PStr ''true'']), (''env'', PDict [(''PATH'', PStr ''/x'')]),
     (''_execution_context'', PDict [(''session_id'', PStr ''s''), (''tool_call_id'', PStr ''c'')])]"

definition demo_state :: shell_session_state where
  "demo_state = new_shell_state \<lparr>sk_owner_id = None, sk_key = ''session:s''\<rparr> (1, [''work''])"

lemma demo_tool_policy: "tool_policy demo_tool (1, [''work'']) = demo_shell_policy"
  by (simp add: tool_policy_def demo_tool_def demo_shell_policy_def)

lemma demo_parsed:
  "selected_root demo_tool demo_arguments = Inr (1, [''work''])"
  "host_cwd demo_tool demo_arguments (Some demo_state) = Inr (1, [''work''])"
  "parse_command demo_tool demo_arguments = Inr (Argv [''true''])"
  "parse_shell_env demo_tool demo_arguments = Inr [(''PATH'', ''/x'')]"
  "binding_of demo_tool demo_arguments = Inr (Some (None, ''session:s'', ''c'', Argv [''true'']))"
  "tool_session demo_tool [] demo_arguments = Inr (Some (\<lparr>sk_owner_id = None, sk_key = ''session:s''\<rparr>, demo_state))"
  "parse_rules Dialect_POSIX [''git push''] = Inr [[''git'', ''push'']]"
  "mentions_rule [''git'', ''push''] True (command_text (Argv [''true''])) = False"
  by code_simp+

lemma demo_asks:
  "evaluate_command demo_machine demo_shell_policy [(''PATH'', ''/x'')] (Some demo_state) (1, [''work'']) (Argv [''true''])
     = Inr env_dangerous"
proof -
  have early: "early_rejection demo_machine (Argv [''true'']) = None"
    by (simp add: early_rejection_def argument_tree demo_parts)
  have rule: "rule_decision demo_machine demo_shell_policy [[''git'', ''push'']] 17 [(''PATH'', ''/x'')] (Some demo_state) (Argv [''true''])
      = Some env_dangerous"
    using demo_commands [of 16]
    by (simp add: rule_decision_def Let_def names_blocked_def mentions_command_def keys_allowed_def dict_keys_def
        argument_tree demo_parts demo_parsed dangerous_env_key_def upper_def opaque_command_reason_def del: commands_within.simps)
  have "evaluate_within demo_machine demo_shell_policy [[''git'', ''push'']] (Some demo_state) (Suc 16) [(''PATH'', ''/x'')]
      (1, [''work'']) (Argv [''true'']) = env_dangerous"
    unfolding evaluate_within.simps early option.case using rule by simp
  then have "evaluate_within demo_machine demo_shell_policy [[''git'', ''push'']] (Some demo_state) 17 [(''PATH'', ''/x'')]
      (1, [''work'']) (Argv [''true'']) = env_dangerous"
    by simp
  moreover have "sm_dialect demo_machine = Dialect_POSIX" "pl_blocked demo_shell_policy = [''git push'']"
    by (simp_all add: demo_machine_def demo_shell_policy_def)
  ultimately show ?thesis
    by (simp add: evaluate_command_def evaluate_posix_def early demo_parsed as_value_error_def del: One_nat_def parse_rules.simps)
qed

lemma demo_judged:
  "judge_command demo_tool demo_arguments (Some demo_state) (Argv [''true'']) = Inr env_dangerous"
proof -
  have "sh_machine demo_tool = demo_machine" by (simp add: demo_tool_def)
  then show ?thesis
    by (simp add: judge_command_def demo_parsed demo_tool_policy demo_asks del: One_nat_def)
qed

theorem stale_approval_refused_witness:
  "fst (run_command demo_tool 0 (\<lambda>_. Inl (Run_error (tool_input_error []))) demo_arguments (Argv [''true''])
       (Some (\<lparr>sk_owner_id = None, sk_key = ''session:s''\<rparr>, demo_state\<lparr>st_cwd := ''a''\<rparr>))
       (snd (shell_authorize demo_tool demo_arguments \<lparr>tt_sessions = [], tt_authorized = []\<rparr>)))
    = Inl (tool_input_error ''Shell session changed before execution; request approval again'')"
proof -
  let ?w = "\<lparr>tt_sessions = [], tt_authorized = []\<rparr>"
  have "\<exists>d w1. shell_authorize demo_tool demo_arguments ?w = (Inr (Some d), w1) \<and> sd_requires_approval d"
    by (simp add: shell_authorize_def demo_parsed demo_judged decision_of_def env_dangerous_def decided_def Let_def)
  then obtain d w1 where a: "shell_authorize demo_tool demo_arguments ?w = (Inr (Some d), w1)" "sd_requires_approval d" by blast
  have v: "state_version demo_tool (demo_state\<lparr>st_cwd := ''a''\<rparr>) \<noteq> state_version demo_tool demo_state"
    by (simp add: state_version_def demo_tool_def demo_state_def new_shell_state_def)
  show ?thesis
    using stale_approval_refused [OF a, where k = "\<lparr>sk_owner_id = None, sk_key = ''session:s''\<rparr>", OF _ demo_parsed(5) refl v] a
    by (simp add: demo_parsed)
qed

theorem shell_requests_are_judged_witness:
  "\<exists>r. run_request demo_tool demo_arguments (Argv [''true'']) (Some demo_state) = Inr r
     \<and> judged_request demo_tool demo_arguments (Argv [''true'']) (Some demo_state) r \<and> xd_allowed (basic_sandbox_authorize r)"
proof -
  have "parse_cwd demo_tool demo_arguments (Some demo_state) = Inr ''/workspace''"
    "parse_timeout demo_tool demo_arguments = Inr 10"
    by code_simp+
  then have "\<exists>r. run_request demo_tool demo_arguments (Argv [''true'']) (Some demo_state) = Inr r"
    by (simp add: run_request_def demo_judged reject_command_def env_dangerous_def decided_def demo_parsed shell_request_def Let_def)
  then obtain r where r: "run_request demo_tool demo_arguments (Argv [''true'']) (Some demo_state) = Inr r" by blast
  have "env_accepted (sh_allowed_env_keys demo_tool) (st_env demo_state)"
    by (simp add: demo_state_def new_shell_state_def)
  then show ?thesis
    using shell_requests_are_judged [of demo_tool demo_arguments "Argv [''true'']" "Some demo_state" r] r by simp
qed

end
