(* ===== verification/Spec2Isabelle.thy ===== *)
theory Spec2Isabelle
  imports ToolManager Sessions ContextStrategies ProviderSlots ImageApplication AgentControls Skills FileFacts ConversationFacts DataSources TenantWrites ShellFacts ShellTextFacts SandboxFacts ProcessFacts ShellToolFacts
begin

text \<open>
  EvernightAI is a server for conversations with language models.  A principal (a user or a service) keeps
  contexts (message histories), memories and sessions; chats with the models of configured providers; lets an
  agent run several rounds of model calls and tool calls under a safety policy with approvals; and has images
  generated in the background.  This development is a shallow embedding of the program's core: its data
  as records and datatypes, its operations as executable functions, its errors as values.  Paths below
  are relative to \<open>src/src/EvernightAI\<close>.

  How the parts interact.  \<open>core/schema\<close> holds the data, \<open>core/domain\<close> the registers, managers and
  policies, \<open>application\<close> the use cases that compose them, \<open>infra/adapters\<close> the stores and the
  connections to the outside.  A request of a principal is authorized, runs under the scope of
  the principal, composes a chat request from the context, the memories and the strategies, calls a provider
  through its slot and executes the tools that the model asks for through the tool manager.  An agent run
  keeps a snapshot, a trace of events and a ledger of tool executions in three stores, so that it can be
  resumed after a crash.

  \<^bold>\<open>Conventions\<close> (\<open>Prelude\<close>, \<open>Errors\<close>, \<open>Values\<close>).  A dictionary is an association list in insertion order.  An operation
  that may raise is a function \<open>'s \<Rightarrow> (error + 'a) \<times> 's\<close>; the state is returned with the error too,
  because an exception does not undo the writes before it.  Strings are byte strings.  Times are integers in
  microseconds.  Concurrency is modelled by steps: the code between two awaits is one step, and what other
  tasks do meanwhile is a parameter or another step.  Whatever is not under \<open>src/\<close> or is input and
  output is a parameter: providers, executors of tools, the clock, fresh identifiers, JSON schema
  validation, the Unicode tables.

  \<^bold>\<open>Theories\<close>, in the order of their dependencies:

  \<^item> \<open>Errors\<close>: the exception classes of \<open>core/error\<close>, their hierarchy, and the HTTP status of each
    (\<open>interface/http/errors.py\<close>).  \<open>Values\<close>: the dynamically typed values of metadata and arguments.
    \<open>Json\<close>: what \<open>json.dumps\<close> prints of them.
  \<^item> \<open>Auth\<close>: principals, scopes, policies, \<open>Authorizer\<close> (\<open>core/schema/auth.py\<close>,
    \<open>core/domain/auth.py\<close>).
  \<^item> \<open>ToolRegistry\<close>, \<open>ToolManager\<close>: \<open>ToolRegister\<close>, the policy store, \<open>BasicToolSafetyPolicy\<close> and
    \<open>ToolManager\<close> (\<open>core/domain/tool.py\<close>, \<open>core/domain/tool_policy.py\<close>).  The lemmas show that the
    register stays consistent, that sources cannot take over each other's tools, and that no approval
    overrides a block, an owner's policy or a preflight policy.
  \<^item> \<open>ScopedStore\<close>: the interface that the stores of owned records share, as a locale; \<open>Contexts\<close>,
    \<open>Memory\<close> and \<open>Sessions\<close> interpret it on the registers of \<open>core/domain/context.py\<close>,
    \<open>memory.py\<close>, \<open>session.py\<close>.  \<open>Contexts\<close> also has the organizer that makes message
    lists which providers accept, \<open>Memory\<close> the selection of memories.
  \<^item> \<open>ContextStrategies\<close>: the composition of chat requests and the trimming to a number of messages or a
    token budget, with summaries; \<open>create_context_strategy\<close> of \<open>bootstrap/runtime.py\<close>.
  \<^item> \<open>Content\<close>, \<open>Providers\<close>, \<open>ProviderSlots\<close>: messages and requests; provider configurations, secrets,
    usage; and the life cycle of provider instances (\<open>core/domain/provider.py\<close>) as a transition
    system whose steps are the sections between two awaits.
  \<^item> \<open>ImageTasks\<close>, \<open>ImageApplication\<close>: the queue of image tasks with its workers, the image history, and the
    use cases of \<open>application/image.py\<close> and \<open>application/image_task.py\<close>.
  \<^item> \<open>AgentState\<close>, \<open>AgentStore\<close>, \<open>ToolLedger\<close>: snapshots of runs, the stores of \<open>infra/adapters/agent/sqlite.py\<close>
    with execution leases, and the ledger that decides whether a tool call may run again.
  \<^item> \<open>AgentRecovery\<close>: \<open>application/agent_recovery.py\<close>, restoring a snapshot from the trace.
  \<^item> \<open>AgentLoop\<close>, \<open>AgentLoopFacts\<close>, \<open>AgentGuards\<close>: \<open>application/agent_execution.py\<close>, the loop of a run
    as an operation that yields events to a consumer.  The facts relate the events with the snapshot (a
    calculus of relations, \<open>moves\<close>) and show what every run keeps of the outside world (\<open>keeps\<close>).
  \<^item> \<open>AgentRuns\<close>, \<open>AgentRunFacts\<close>, \<open>AgentControls\<close>: \<open>application/agent_runs.py\<close>, the executor and the
    life cycle; pause, cancellation, retry, operator resolution and shutdown.

  \<^item> \<open>Skills\<close>: the skill register, templates and their rendering (\<open>core/domain/skill.py\<close>,
    \<open>infra/adapters/skill\<close>).  \<open>Files\<close>, \<open>FileFacts\<close>: validation of PNG, JPEG and WebP data, file
    artifacts and their SQLite table, references to images in requests.
  \<^item> \<open>ChatUseCases\<close>, \<open>ConversationFacts\<close>: the use cases of chats, memories and sessions (\<open>application/chat.py\<close>,
    \<open>memory.py\<close>, \<open>session.py\<close> and their helpers) on the shared state of the runtime.
  \<^item> \<open>DataAnalysis\<close>, \<open>DataFacts\<close>, \<open>DataSources\<close>: statistics requests, their validation, the SQL query that is built
    for SQLite, and the built-in sources.  A grammar of safe text shows that no name or value of a request can change
    the shape of the query.
  \<^item> \<open>AuthorizedInterface\<close>, \<open>AuthorizedFacts\<close>: the interfaces behind the permissions
    (\<open>core/domain/authorized_interface.py\<close>) and the matrix of permissions, owners and scopes that they implement.
  \<^item> \<open>Applications\<close>, \<open>Tenants\<close>, \<open>TenantWrites\<close>: the applications as services behind that interface, and the
    separation of the owners: what a principal is answered does not depend on records of others
    (two states that look the same to it), and its calls leave records of others as they are.
  \<^item> \<open>ShellText\<close>, \<open>ShellCommands\<close>, \<open>ShellReasons\<close>, \<open>ShellSyntax\<close>, \<open>ShellSpecs\<close>, \<open>ShellPolicy\<close>: the shell policy
    (\<open>infra/adapters/tool/shell_policy.py\<close>, \<open>shell_syntax.py\<close>, \<open>shell_heredocs.py\<close>, \<open>shell_literals.py\<close>,
    \<open>shell_specs.py\<close>).  A script is cut into here-documents and commands, tokenized as \<open>shlex\<close> does, and read a second time
    from the syntax tree; the table of known commands gives the effect of each; \<open>evaluate_command\<close> allows, asks or
    rejects.  The tree that tree-sitter returns, the file system and the search path are fields of the record of the machine.
    \<open>ShellFacts\<close>, \<open>ShellTextFacts\<close>: inspections only collect reasons to ask, a command that is allowed has literal words and a
    known harmless effect, lines and quoted words are read as they stand.
  \<^item> \<open>Paths\<close>: the pure paths of \<open>pathlib\<close>.  \<open>Sandbox\<close>, \<open>Bubblewrap\<close>, \<open>SandboxRuns\<close>, \<open>SandboxFacts\<close>: \<open>core/domain/sandbox.py\<close> and
    \<open>infra/adapters/sandbox\<close>.  The host (resolution of links, kinds of files, the search path) is a record of
    functions, the runner that starts a process and yields the pieces of its output is a parameter.  The facts describe the
    prepared command line of bubblewrap: what is mounted and how, the network, the limits; and the bounded output.
  \<^item> \<open>ShellSessions\<close>, \<open>SessionFacts\<close>: the state of a terminal between two commands (\<open>infra/adapters/tool/shell_session.py\<close>,
    \<open>core/domain/shell.py\<close>), read from the side channel of a wrapped script.  \<open>WorkspaceDirs\<close>: registered project directories
    (\<open>workspace_directory.py\<close>, \<open>project_roots.py\<close>).  \<open>ShellTool\<close>, \<open>ShellToolFacts\<close>: \<open>restricted_shell.py\<close>, from the arguments of a call to
    the request for the sandbox; the facts tie the decision, the approval and the request together.  \<open>ShellProcesses\<close>,
    \<open>ProcessFacts\<close>: \<open>shell_processes.py\<close>, processes that outlive a call, as a transition system of starts, events, ends and reads.

  \<^bold>\<open>Bounds and fuel.\<close>  Recursions are structural or have a measure, with these exceptions.  The loop of a
  run recurses over the number of remaining tool rounds, the worker loops over the list of awaited results.
  The shell policy recurses into nested scripts to the depth that the code itself allows: depth 16 stops it, so 17 levels
  are enough for every script; the parameter \<open>limit\<close> of its inner reader is the recursion limit of the interpreter, and
  running out of it is the error that the code reports.  \<open>link_roots\<close> follows the links of the interpreter's executable
  and is a \<open>partial_function\<close>: \<open>None\<close> stands for a chain without end.

  \<^bold>\<open>Assumptions.\<close>  Classes of characters and case folding in shell scripts and file names are those of ASCII.
  Trusted wildcard rules of the shell policy are texts that \<open>shlex\<close> can split.  The separate theorems say what they
  need of the host: resolving a path twice is resolving it once (\<open>sandbox_confines_runs\<close>), and a resolved path consists of
  names (\<open>session_state_confined\<close>).

  \<^bold>\<open>Not modelled.\<close>  Parsing and rendering of HTTP requests, the command line, the formats of the model
  vendors, the evaluation of SQL and its connections, the start and termination of processes by the operating system, the
  descriptions and JSON schemas of the tools, the tools for files, git and the web, API keys, the drives of Windows,
  logging.  Validation that the pydantic library does from the declared types is expressed by the HOL types; declared
  validators of the program are definitions.
\<close>

end
